(* ===== verification/Agentum_Prelude.thy ===== *)
theory Agentum_Prelude
  imports Main "HOL-Library.Word" "HOL-Library.Char_ord" "HOL-Library.List_Lexorder"
    "HOL-Library.Product_Lexorder"
begin

text \<open>
  What the components share: Rust strings, JSON values, the decimal rendering of integers,
  and the contract of the enum/string conversions (\<open>as_str\<close> and \<open>from_str\<close>).

  A Rust \<open>str\<close> is modelled as the list of its UTF-8 bytes (\<open>string\<close>), so that
  \<open>length\<close> is \<open>str::len\<close>. The functions of the standard library that look at
  characters (\<open>trim\<close>, \<open>lines\<close>, \<open>chars().take(n)\<close>) are written on the bytes:
  white space is recognised by its UTF-8 encodings and a character starts at every byte
  that is not a continuation byte.
\<close>

section \<open>Collections of facts\<close>

named_theorems str_eval \<open>evaluation of the string functions on literals\<close>
named_theorems store_ops \<open>definitions of the store operations\<close>
named_theorems row_conv \<open>conversions between rows and values\<close>

section \<open>Strings\<close>

fun strip_prefix :: "string \<Rightarrow> string \<Rightarrow> string option" where
  "strip_prefix [] s = Some s"
| "strip_prefix (p # ps) [] = None"
| "strip_prefix (p # ps) (c # cs) = (if p = c then strip_prefix ps cs else None)"

definition starts_with :: "string \<Rightarrow> string \<Rightarrow> bool" where
  "starts_with p s = (case strip_prefix p s of None \<Rightarrow> False | Some _ \<Rightarrow> True)"

definition ends_with :: "string \<Rightarrow> string \<Rightarrow> bool" where
  "ends_with p s = starts_with (rev p) (rev s)"

text \<open>\<open>find_str needle hay\<close>: the byte offset of the first occurrence (\<open>str::find\<close>).\<close>

fun find_str :: "string \<Rightarrow> string \<Rightarrow> nat option" where
  "find_str needle [] = (if needle = [] then Some 0 else None)"
| "find_str needle (c # cs) =
     (if starts_with needle (c # cs) then Some 0 else map_option Suc (find_str needle cs))"

definition str_contains :: "string \<Rightarrow> string \<Rightarrow> bool" where
  "str_contains hay needle = (find_str needle hay \<noteq> None)"

text \<open>The UTF-8 encodings of the characters with the Unicode property White\_Space.\<close>

definition ws_encodings :: "string list" where
  "ws_encodings =
     [[CHR 0x20], [CHR 0x09], [CHR 0x0A], [CHR 0x0B], [CHR 0x0C], [CHR 0x0D],
      [CHR 0xC2, CHR 0x85], [CHR 0xC2, CHR 0xA0], [CHR 0xE1, CHR 0x9A, CHR 0x80],
      [CHR 0xE2, CHR 0x80, CHR 0x80], [CHR 0xE2, CHR 0x80, CHR 0x81],
      [CHR 0xE2, CHR 0x80, CHR 0x82], [CHR 0xE2, CHR 0x80, CHR 0x83],
      [CHR 0xE2, CHR 0x80, CHR 0x84], [CHR 0xE2, CHR 0x80, CHR 0x85],
      [CHR 0xE2, CHR 0x80, CHR 0x86], [CHR 0xE2, CHR 0x80, CHR 0x87],
      [CHR 0xE2, CHR 0x80, CHR 0x88], [CHR 0xE2, CHR 0x80, CHR 0x89],
      [CHR 0xE2, CHR 0x80, CHR 0x8A], [CHR 0xE2, CHR 0x80, CHR 0xA8],
      [CHR 0xE2, CHR 0x80, CHR 0xA9], [CHR 0xE2, CHR 0x80, CHR 0xAF],
      [CHR 0xE2, CHR 0x81, CHR 0x9F], [CHR 0xE3, CHR 0x80, CHR 0x80]]"

fun strip_one_of :: "string list \<Rightarrow> string \<Rightarrow> string option" where
  "strip_one_of [] s = None"
| "strip_one_of (w # ws) s =
     (case strip_prefix w s of Some r \<Rightarrow> Some r | None \<Rightarrow> strip_one_of ws s)"

function strip_all_of :: "string list \<Rightarrow> string \<Rightarrow> string" where
  "strip_all_of ws s =
     (case strip_one_of ws s of
        Some r \<Rightarrow> (if length r < length s then strip_all_of ws r else s)
      | None \<Rightarrow> s)"
  by pat_completeness auto
termination
  by (relation "measure (\<lambda>(ws, s). length s)") auto

declare strip_all_of.simps [simp del]

definition trim_start :: "string \<Rightarrow> string" where
  "trim_start s = strip_all_of ws_encodings s"

definition trim_end :: "string \<Rightarrow> string" where
  "trim_end s = rev (strip_all_of (map rev ws_encodings) (rev s))"

definition trim :: "string \<Rightarrow> string" where
  "trim s = trim_end (trim_start s)"

text \<open>\<open>split_whitespace\<close>: the words between runs of white space.\<close>

fun until_space :: "string \<Rightarrow> string" where
  "until_space [] = []"
| "until_space (c # cs) = (if strip_one_of ws_encodings (c # cs) \<noteq> None then [] else c # until_space cs)"

lemma length_until_space: "length (until_space s) \<le> length s"
  by (induction s) simp_all

lemma strip_all_of_shorter: "length (strip_all_of ws s) \<le> length s"
proof (induction ws s rule: strip_all_of.induct)
  case (1 ws s)
  then show ?case
    by (subst strip_all_of.simps) (fastforce split: option.split)
qed

function split_whitespace :: "string \<Rightarrow> string list" where
  "split_whitespace s =
     (let t = trim_start s; w = until_space t
      in if w = [] then [] else w # split_whitespace (drop (length w) t))"
  by pat_completeness auto
termination
proof (relation "measure length")
  fix s t w :: string
  assume "t = trim_start s" "w = until_space t" "w \<noteq> []"
  then have "length t \<le> length s" "0 < length w" "length w \<le> length t"
    using strip_all_of_shorter length_until_space by (simp_all add: trim_start_def)
  then show "(drop (length w) t, s) \<in> measure length" by (simp del: length_greater_0_conv)
qed simp

declare split_whitespace.simps [simp del]

definition is_ascii_digit :: "char \<Rightarrow> bool" where
  "is_ascii_digit c = (48 \<le> (of_char c :: nat) \<and> (of_char c :: nat) \<le> 57)"

definition is_ascii_upper :: "char \<Rightarrow> bool" where
  "is_ascii_upper c = (65 \<le> (of_char c :: nat) \<and> (of_char c :: nat) \<le> 90)"

definition is_ascii_lower :: "char \<Rightarrow> bool" where
  "is_ascii_lower c = (97 \<le> (of_char c :: nat) \<and> (of_char c :: nat) \<le> 122)"

definition is_ascii_alphanumeric :: "char \<Rightarrow> bool" where
  "is_ascii_alphanumeric c = (is_ascii_digit c \<or> is_ascii_upper c \<or> is_ascii_lower c)"

definition to_ascii_lowercase :: "string \<Rightarrow> string" where
  "to_ascii_lowercase s =
     map (\<lambda>c. if is_ascii_upper c then char_of ((of_char c :: nat) + 32) else c) s"

text \<open>\<open>str::split\<close> on a single byte, and \<open>str::lines\<close>.\<close>

fun split_on :: "char \<Rightarrow> string \<Rightarrow> string list" where
  "split_on d [] = [[]]"
| "split_on d (c # cs) =
     (if c = d then [] # split_on d cs
      else (case split_on d cs of [] \<Rightarrow> [[c]] | w # ws \<Rightarrow> (c # w) # ws))"

definition strip_cr :: "string \<Rightarrow> string" where
  "strip_cr l = (if l \<noteq> [] \<and> last l = CHR 0x0D then butlast l else l)"

definition str_lines :: "string \<Rightarrow> string list" where
  "str_lines s =
     (let ps = split_on (CHR 0x0A) s
      in map strip_cr (if last ps = [] then butlast ps else ps))"

text \<open>\<open>chars().take(n)\<close> on UTF-8 bytes: a continuation byte belongs to the character before it.\<close>

definition is_continuation :: "char \<Rightarrow> bool" where
  "is_continuation c = (128 \<le> (of_char c :: nat) \<and> (of_char c :: nat) < 192)"

fun take_chars :: "nat \<Rightarrow> string \<Rightarrow> string" where
  "take_chars n [] = []"
| "take_chars n (c # cs) =
     (if is_continuation c then c # take_chars n cs
      else (case n of 0 \<Rightarrow> [] | Suc m \<Rightarrow> c # take_chars m cs))"

text \<open>Decimal rendering of integers (\<open>Display\<close> for the integer types).\<close>

definition digit_char :: "nat \<Rightarrow> char" where
  "digit_char n = char_of (48 + n)"

fun string_of_nat :: "nat \<Rightarrow> string" where
  "string_of_nat n =
     (if n < 10 then [digit_char n] else string_of_nat (n div 10) @ [digit_char (n mod 10)])"

declare string_of_nat.simps [simp del]

definition string_of_int :: "int \<Rightarrow> string" where
  "string_of_int i = (if i < 0 then CHR ''-'' # string_of_nat (nat (- i)) else string_of_nat (nat i))"

definition digits_value :: "string \<Rightarrow> nat" where
  "digits_value s = foldl (\<lambda>acc c. 10 * acc + (of_char c - 48)) 0 s"

section \<open>JSON values\<close>

text \<open>
  The data model of JSON documents: what \<open>serde_json::Value\<close> holds. Objects keep their
  members in a list; \<open>jget\<close> reads the member of a name. The text parser and printer are not
  part of the program: they are parameters where the code calls them.
\<close>

datatype json =
    JNull
  | JBool bool
  | JInt int
  | JFloat string
  | JStr string
  | JArr "json list"
  | JObj "(string \<times> json) list"

fun jget :: "json \<Rightarrow> string \<Rightarrow> json option" where
  "jget (JObj kvs) k = map_of kvs k"
| "jget _ k = None"

fun as_str :: "json \<Rightarrow> string option" where
  "as_str (JStr s) = Some s"
| "as_str _ = None"

fun as_bool :: "json \<Rightarrow> bool option" where
  "as_bool (JBool b) = Some b"
| "as_bool _ = None"

fun as_array :: "json \<Rightarrow> json list option" where
  "as_array (JArr xs) = Some xs"
| "as_array _ = None"

fun as_i64 :: "json \<Rightarrow> int option" where
  "as_i64 (JInt n) = (if - (2 ^ 63) \<le> n \<and> n < 2 ^ 63 then Some n else None)"
| "as_i64 _ = None"

fun as_u64 :: "json \<Rightarrow> int option" where
  "as_u64 (JInt n) = (if 0 \<le> n \<and> n < 2 ^ 64 then Some n else None)"
| "as_u64 _ = None"

abbreviation jget_str :: "json \<Rightarrow> string \<Rightarrow> string option" where
  "jget_str j k \<equiv> Option.bind (jget j k) as_str"

definition jopt :: "('a \<Rightarrow> json) \<Rightarrow> 'a option \<Rightarrow> json" where
  "jopt f v = (case v of None \<Rightarrow> JNull | Some x \<Rightarrow> f x)"

section \<open>Results\<close>

text \<open>A fallible computation is a sum: \<open>Inl\<close> the error, \<open>Inr\<close> the value; \<open>and_then\<close> is the
  question mark of the source.\<close>

definition and_then :: "'e + 'a \<Rightarrow> ('a \<Rightarrow> 'e + 'b) \<Rightarrow> 'e + 'b" where
  "and_then m f = (case m of Inl e \<Rightarrow> Inl e | Inr x \<Rightarrow> f x)"

definition ok_or :: "'e \<Rightarrow> 'a option \<Rightarrow> 'e + 'a" where
  "ok_or e v = (case v of None \<Rightarrow> Inl e | Some x \<Rightarrow> Inr x)"

definition is_ok :: "'e + 'a \<Rightarrow> bool" where
  "is_ok r = (case r of Inl _ \<Rightarrow> False | Inr _ \<Rightarrow> True)"

text \<open>\<open>collect::<Result<Vec<_>>>\<close>: the first error wins.\<close>

fun collect_results :: "('e + 'a) list \<Rightarrow> 'e + 'a list" where
  "collect_results [] = Inr []"
| "collect_results (r # rs) =
     (case r of Inl e \<Rightarrow> Inl e
      | Inr x \<Rightarrow> (case collect_results rs of Inl e \<Rightarrow> Inl e | Inr xs \<Rightarrow> Inr (x # xs)))"

text \<open>\<open>Option::transpose\<close> of an optional fallible conversion.\<close>

definition transpose_opt :: "('e + 'a) option \<Rightarrow> 'e + 'a option" where
  "transpose_opt v = (case v of None \<Rightarrow> Inr None | Some r \<Rightarrow> (case r of Inl e \<Rightarrow> Inl e | Inr x \<Rightarrow> Inr (Some x)))"

section \<open>Enum and string: the contract of the conversions\<close>

text \<open>
  Every enum the database or the wire stores as text has a printer and a parser. What their
  clients rely on is that they are inverse to each other on the strings the printer produces.
\<close>

locale text_codec =
  fixes enc :: "'a \<Rightarrow> string"
    and dec :: "string \<Rightarrow> 'a option"
  assumes dec_enc: "dec (enc x) = Some x"
    and enc_dec: "dec s = Some x \<Longrightarrow> enc x = s"
begin

lemma enc_inject: "enc x = enc y \<longleftrightarrow> x = y"
  using dec_enc by (metis option.inject)

lemma dec_None_iff: "dec s = None \<longleftrightarrow> s \<notin> range enc"
  using dec_enc enc_dec by (metis not_Some_eq rangeE rangeI)

lemma dec_Some_iff: "dec s = Some x \<longleftrightarrow> s = enc x"
  using dec_enc enc_dec by metis

end

section \<open>Lemmas\<close>

subsection \<open>Results\<close>

lemma and_then_simps [simp]:
  "and_then (Inl e) f = Inl e"
  "and_then (Inr x) f = f x"
  by (simp_all add: and_then_def)

lemma and_then_eq_Inr: "and_then m f = Inr y \<longleftrightarrow> (\<exists>x. m = Inr x \<and> f x = Inr y)"
  by (cases m) auto

lemma ok_or_simps [simp]:
  "ok_or e None = Inl e"
  "ok_or e (Some x) = Inr x"
  by (simp_all add: ok_or_def)

lemma ok_or_eq_Inr [simp]: "ok_or e v = Inr x \<longleftrightarrow> v = Some x"
  by (cases v) auto

lemma is_ok_simps [simp]: "is_ok (Inl e) = False" "is_ok (Inr x) = True"
  by (simp_all add: is_ok_def)

lemma transpose_opt_simps [simp]:
  "transpose_opt None = Inr None"
  "transpose_opt (Some (Inl e)) = Inl e"
  "transpose_opt (Some (Inr x)) = Inr (Some x)"
  by (simp_all add: transpose_opt_def)

lemma collect_results_Inr: "collect_results rs = Inr xs \<longleftrightarrow> rs = map Inr xs"
proof (induction rs arbitrary: xs)
  case Nil
  then show ?case by auto
next
  case (Cons r rs)
  have map_Inr: "collect_results (map Inr ys) = Inr ys" for ys :: "'b list"
    by (induction ys) auto
  show ?case
    by (cases r; cases xs) (auto simp: Cons.IH map_Inr split: sum.splits)
qed

lemma collect_results_map_Inr [simp]: "collect_results (map (\<lambda>x. Inr (f x)) xs) = Inr (map f xs)"
  by (induction xs) auto

subsection \<open>Strings\<close>

lemma strip_prefix_Some: "strip_prefix p s = Some r \<longleftrightarrow> s = p @ r"
  by (induction p s rule: strip_prefix.induct) auto

lemma strip_prefix_append [simp]: "strip_prefix p (p @ s) = Some s"
  by (simp add: strip_prefix_Some)

lemma starts_with_iff: "starts_with p s \<longleftrightarrow> (\<exists>r. s = p @ r)"
  by (metis (full_types) case_optionE option.case(2) option.simps(4) starts_with_def strip_prefix_Some)

lemma find_str_Some: "find_str needle hay = Some i \<Longrightarrow> \<exists>a b. hay = a @ needle @ b \<and> length a = i"
proof (induction needle hay arbitrary: i rule: find_str.induct)
  case (1 needle)
  then show ?case by (auto split: if_splits)
next
  case (2 needle c cs)
  show ?case
  proof (cases "starts_with needle (c # cs)")
    case True
    with "2.prems" show ?thesis by (force simp: starts_with_iff)
  next
    case False
    with "2.prems" obtain j where j: "find_str needle cs = Some j" "i = Suc j" by auto
    with "2.IH" False obtain a b where "cs = a @ needle @ b" "length a = j" by blast
    then have "c # cs = (c # a) @ needle @ b \<and> length (c # a) = i" using j by simp
    then show ?thesis by blast
  qed
qed

lemma find_str_None: "find_str needle hay = None \<longleftrightarrow> (\<forall>a b. hay \<noteq> a @ needle @ b)"
proof (induction needle hay rule: find_str.induct)
  case (1 needle)
  then show ?case by auto
next
  case (2 needle c cs)
  show ?case
  proof (cases "starts_with needle (c # cs)")
    case True
    then show ?thesis by (metis append_Nil find_str.simps(2) option.simps(3) starts_with_iff)
  next
    case False
    then have "(\<forall>a b. c # cs \<noteq> a @ needle @ b) \<longleftrightarrow> (\<forall>a b. cs \<noteq> a @ needle @ b)"
      by (metis append_Cons append_Nil list.exhaust list.inject starts_with_iff)
    with False 2 show ?thesis by simp
  qed
qed

lemma str_contains_iff: "str_contains hay needle \<longleftrightarrow> (\<exists>a b. hay = a @ needle @ b)"
  by (simp add: str_contains_def find_str_None)

lemma of_char_digit: "n < 10 \<Longrightarrow> of_char (digit_char n) - 48 = n"
  by (simp add: digit_char_def)

lemma digits_value_snoc: "digits_value (s @ [c]) = 10 * digits_value s + (of_char c - 48)"
  by (simp add: digits_value_def)

lemma digits_value_string_of_nat [simp]: "digits_value (string_of_nat n) = n"
proof (induction n rule: string_of_nat.induct)
  case (1 n)
  show ?case
  proof (cases "n < 10")
    case True
    then show ?thesis
      by (simp add: string_of_nat.simps [of n] digits_value_def of_char_digit)
  next
    case False
    then have "digits_value (string_of_nat n) = 10 * (n div 10) + n mod 10"
      using "1.IH" by (simp add: string_of_nat.simps [of n] digits_value_snoc of_char_digit)
    then show ?thesis by simp
  qed
qed

lemma string_of_nat_inject [simp]: "string_of_nat m = string_of_nat n \<longleftrightarrow> m = n"
  by (metis digits_value_string_of_nat)

lemma string_of_nat_digits: "list_all is_ascii_digit (string_of_nat n)"
proof (induction n rule: string_of_nat.induct)
  case (1 n)
  have d: "m < 10 \<Longrightarrow> is_ascii_digit (digit_char m)" for m
    by (simp add: is_ascii_digit_def digit_char_def)
  show ?case
    by (cases "n < 10") (use 1 in \<open>simp_all add: string_of_nat.simps [of n] d\<close>)
qed

lemma string_of_nat_not_minus: "string_of_nat n \<noteq> CHR ''-'' # s"
  using string_of_nat_digits [of n] by (auto simp: is_ascii_digit_def)

lemma string_of_int_inject [simp]: "string_of_int i = string_of_int j \<longleftrightarrow> i = j"
  using string_of_nat_not_minus string_of_nat_not_minus [symmetric]
  by (auto simp: string_of_int_def)

lemma string_of_nat_nonempty [simp]: "string_of_nat n \<noteq> []"
  by (subst string_of_nat.simps) simp

subsection \<open>Lines\<close>

text \<open>Texts that end with a newline can be split into lines piece by piece.\<close>

definition terminated :: "string \<Rightarrow> bool" where
  "terminated s = (s = [] \<or> last s = CHR 0x0A)"

lemma terminated_snoc: "terminated s \<longleftrightarrow> s = [] \<or> (\<exists>x. s = x @ [CHR 0x0A])"
  by (metis append_butlast_last_id last_snoc terminated_def)

lemma terminated_append: "terminated a \<Longrightarrow> terminated b \<Longrightarrow> terminated (a @ b)"
  by (cases "b = []") (auto simp: terminated_def)

lemma split_on_nonempty [simp]: "split_on d s \<noteq> []"
  by (induction d s rule: split_on.induct) (auto split: list.splits)

lemma split_on_append: "split_on d (x @ d # y) = split_on d x @ split_on d y"
  by (induction x) (auto split: list.splits)

lemma str_lines_append:
  assumes "terminated a"
  shows "str_lines (a @ b) = str_lines a @ str_lines b"
proof (cases "a = []")
  case True
  then show ?thesis by (simp add: str_lines_def)
next
  case False
  with assms obtain x where a: "a = x @ [CHR 0x0A]" by (auto simp: terminated_snoc)
  have "split_on (CHR 0x0A) a = split_on (CHR 0x0A) x @ [[]]"
    using split_on_append [of "CHR 0x0A" x "[]"] a by simp
  moreover have "split_on (CHR 0x0A) (a @ b) = split_on (CHR 0x0A) x @ split_on (CHR 0x0A) b"
    using split_on_append [of "CHR 0x0A" x b] a by simp
  ultimately show ?thesis by (simp add: str_lines_def Let_def butlast_append)
qed

lemma split_on_absent: "d \<notin> set s \<Longrightarrow> split_on d s = [s]"
  by (induction s) auto

end
