(* ===== verification/Core_Types.thy ===== *)
theory Core_Types
  imports Agentum_Prelude
begin

text \<open>
  The domain types of \<open>crates/agentum-core/src/lib.rs\<close>: statuses and their text codecs,
  hosts, sessions, board items, links, the events of the broadcast bus and their projection
  to the watchdog feed, and the name validators.

  A \<open>Uuid\<close> is its canonical hyphenated lower-case text: the code compares, orders, prints and
  stores it, and the text form is order preserving. An \<open>OffsetDateTime\<close> is the number of
  nanoseconds since the Unix epoch. A constructor \<open>T::C\<close> of the source is \<open>T_C\<close>.
\<close>

type_synonym uuid = string
type_synonym time = int

section \<open>Errors and statuses\<close>

datatype core_error =
    InvalidStatus string
  | InvalidName string
  | ParseLinkKind string

datatype status = Status_Idle | Status_Running | Status_Stopped | Status_Crashed

fun Status_as_str :: "status \<Rightarrow> string" where
  "Status_as_str Status_Idle = ''idle''"
| "Status_as_str Status_Running = ''running''"
| "Status_as_str Status_Stopped = ''stopped''"
| "Status_as_str Status_Crashed = ''crashed''"

definition Status_from_str :: "string \<Rightarrow> core_error + status" where
  "Status_from_str s =
     (if s = ''idle'' then Inr Status_Idle
      else if s = ''running'' then Inr Status_Running
      else if s = ''stopped'' then Inr Status_Stopped
      else if s = ''crashed'' then Inr Status_Crashed
      else Inl (InvalidStatus s))"

datatype session_state =
  SessionState_Live | SessionState_Idle | SessionState_Compact | SessionState_Crash

fun SessionState_as_str :: "session_state \<Rightarrow> string" where
  "SessionState_as_str SessionState_Live = ''live''"
| "SessionState_as_str SessionState_Idle = ''idle''"
| "SessionState_as_str SessionState_Compact = ''compact''"
| "SessionState_as_str SessionState_Crash = ''crash''"

definition SessionState_from_str :: "string \<Rightarrow> core_error + session_state" where
  "SessionState_from_str s =
     (if s = ''live'' then Inr SessionState_Live
      else if s = ''idle'' then Inr SessionState_Idle
      else if s = ''compact'' then Inr SessionState_Compact
      else if s = ''crash'' then Inr SessionState_Crash
      else Inl (InvalidStatus s))"

datatype link_kind = LinkKind_ParentOf | LinkKind_Blocks

fun LinkKind_as_str :: "link_kind \<Rightarrow> string" where
  "LinkKind_as_str LinkKind_ParentOf = ''parent_of''"
| "LinkKind_as_str LinkKind_Blocks = ''blocks''"

definition LinkKind_from_str :: "string \<Rightarrow> core_error + link_kind" where
  "LinkKind_from_str s =
     (if s = ''parent_of'' then Inr LinkKind_ParentOf
      else if s = ''blocks'' then Inr LinkKind_Blocks
      else Inl (ParseLinkKind s))"

section \<open>Hosts\<close>

datatype ssh_auth = SshAuth_Agent | SshAuth_Key string | SshAuth_Password string

text \<open>\<open>HostKind_Ssh user hostname port auth\<close>.\<close>

datatype host_kind = HostKind_Local | HostKind_Ssh string string "16 word" ssh_auth

record host =
  h_id :: uuid
  h_name :: string
  h_kind :: host_kind
  h_created_at :: time
  h_updated_at :: time
  h_last_seen_at :: "time option"

record new_host =
  nh_name :: string
  nh_kind :: host_kind

definition REDACTED_SSH_PASSWORD :: string where
  "REDACTED_SSH_PASSWORD = ''__AGENTUM_REDACTED_SSH_PASSWORD__''"

definition default_ssh_port :: "16 word" where
  "default_ssh_port = 22"

definition LOCAL_HOST_ID :: uuid where
  "LOCAL_HOST_ID = ''00000000-0000-0000-0000-000000000000''"

section \<open>Sessions\<close>

text \<open>\<open>s_cost_usd\<close> holds the bits of the \<open>f64\<close>: the modelled code only copies it.\<close>

record session =
  s_id :: uuid
  s_name :: string
  s_workdir :: string
  s_tool :: string
  s_model :: "string option"
  s_flags :: "string list"
  s_status :: status
  s_tmux_target :: "string option"
  s_host_id :: "uuid option"
  s_host_label :: "string option"
  s_host_kind :: "string option"
  s_created_at :: time
  s_updated_at :: time
  s_last_activity_at :: "time option"
  s_tokens :: "int option"
  s_cost_usd :: "64 word option"
  s_ctx :: "32 word option"
  s_last_log :: "string option"
  s_uptime_seconds :: "int option"
  s_state :: "session_state option"
  s_pinned :: bool
  s_card_id :: "int option"
  s_worktree_path :: "string option"
  s_worktree_branch :: "string option"
  s_worktree_base_ref :: "string option"

definition effective_cwd :: "session \<Rightarrow> string" where
  "effective_cwd s = (case s_worktree_path s of Some p \<Rightarrow> p | None \<Rightarrow> s_workdir s)"

record new_session =
  ns_name :: string
  ns_workdir :: string
  ns_tool :: string
  ns_model :: "string option"
  ns_flags :: "string list"
  ns_card_id :: "int option"
  ns_worktree_path :: "string option"
  ns_worktree_branch :: "string option"
  ns_worktree_base_ref :: "string option"

definition EXTERNAL_TMUX_FLAG :: string where
  "EXTERNAL_TMUX_FLAG = ''--agentum-external-tmux''"

section \<open>Events and the watchdog feed\<close>

record event =
  ev_kind :: string
  ev_session_id :: "uuid option"
  ev_session_name :: "string option"
  ev_payload :: json
  ev_ts :: time

text \<open>\<open>now\<close> is the reading of the clock the constructor takes.\<close>

definition Event_new :: "time \<Rightarrow> string \<Rightarrow> event" where
  "Event_new now kind =
     \<lparr>ev_kind = kind, ev_session_id = None, ev_session_name = None, ev_payload = JObj [], ev_ts = now\<rparr>"

definition with_session :: "uuid \<Rightarrow> string \<Rightarrow> event \<Rightarrow> event" where
  "with_session i n e = e\<lparr>ev_session_id := Some i, ev_session_name := Some n\<rparr>"

definition with_payload :: "json \<Rightarrow> event \<Rightarrow> event" where
  "with_payload p e = e\<lparr>ev_payload := p\<rparr>"

datatype watchdog_kind = WatchdogKind_Ok | WatchdogKind_Warn | WatchdogKind_Compact | WatchdogKind_Crash

record watchdog_event =
  we_ts :: time
  we_kind :: watchdog_kind
  we_label :: string
  we_msg :: string
  we_ses :: "string option"

definition watchdog_kind_of :: "string \<Rightarrow> watchdog_kind option" where
  "watchdog_kind_of kind =
     (case strip_prefix ''watchdog.'' kind of
        Some rest \<Rightarrow>
          Some (if rest = ''compact'' then WatchdogKind_Compact
                else if rest = ''crash'' then WatchdogKind_Crash
                else if rest = ''warn'' then WatchdogKind_Warn
                else WatchdogKind_Ok)
      | None \<Rightarrow>
          if kind = ''session.crashed'' then Some WatchdogKind_Crash
          else if starts_with ''session.'' kind then Some WatchdogKind_Ok
          else None)"

text \<open>\<open>rsplit('.').next()\<close>: the part after the last dot.\<close>

definition after_last_dot :: "string \<Rightarrow> string" where
  "after_last_dot s = last (split_on (CHR ''.'') s)"

text \<open>The separator of the synthesised message: space, U+00B7, space.\<close>

definition middle_dot :: string where
  "middle_dot = [CHR 0x20, CHR 0xC2, CHR 0xB7, CHR 0x20]"

definition to_watchdog :: "event \<Rightarrow> watchdog_event option" where
  "to_watchdog e =
     (case watchdog_kind_of (ev_kind e) of
        None \<Rightarrow> None
      | Some kind \<Rightarrow>
          let label = (case jget_str (ev_payload e) ''label'' of
                Some l \<Rightarrow> l | None \<Rightarrow> after_last_dot (ev_kind e));
              msg = (case jget_str (ev_payload e) ''msg'' of
                Some m \<Rightarrow> m
              | None \<Rightarrow>
                  (case (ev_session_name e, ev_session_id e) of
                     (Some n, _) \<Rightarrow> n @ middle_dot @ ev_kind e
                   | (None, Some i) \<Rightarrow> i @ middle_dot @ ev_kind e
                   | (None, None) \<Rightarrow> ev_kind e))
          in Some \<lparr>we_ts = ev_ts e, we_kind = kind, we_label = label, we_msg = msg,
                   we_ses = ev_session_name e\<rparr>)"

section \<open>Board items\<close>

record board_item =
  bi_id :: int
  bi_key :: string
  bi_title :: string
  bi_body :: "string option"
  bi_status :: string
  bi_claimed_by :: "string option"
  bi_created_at :: time
  bi_updated_at :: time
  bi_lbl :: "string option"
  bi_tool :: "string option"
  bi_workdir :: "string option"
  bi_model :: "string option"
  bi_session_id :: "string option"
  bi_priority :: int
  bi_parent_goal_id :: "int option"

record new_board_item =
  nb_title :: string
  nb_body :: "string option"
  nb_status :: "string option"
  nb_lbl :: "string option"
  nb_tool :: "string option"
  nb_workdir :: "string option"
  nb_model :: "string option"
  nb_session_id :: "string option"
  nb_priority :: "int option"
  nb_parent_goal_id :: "int option"

text \<open>The double option of a patch: \<open>None\<close> field omitted, \<open>Some None\<close> explicit null.\<close>

record board_patch =
  bp_title :: "string option"
  bp_body :: "string option option"
  bp_status :: "string option"
  bp_lbl :: "string option option"
  bp_tool :: "string option option"
  bp_workdir :: "string option option"
  bp_model :: "string option option"
  bp_session_id :: "string option option"
  bp_priority :: "int option"
  bp_parent_goal_id :: "int option option"

definition BoardPatch_default :: board_patch where
  "BoardPatch_default =
     \<lparr>bp_title = None, bp_body = None, bp_status = None, bp_lbl = None, bp_tool = None,
      bp_workdir = None, bp_model = None, bp_session_id = None, bp_priority = None,
      bp_parent_goal_id = None\<rparr>"

text \<open>
  \<open>deserialize_optional_field\<close> under \<open>#[serde(default)]\<close>: \<open>field\<close> is the member of the
  request body, \<open>None\<close> when it is absent; \<open>de\<close> reads a non-null member.
\<close>

definition deserialize_optional_field :: "(json \<Rightarrow> 'e + 'a) \<Rightarrow> json option \<Rightarrow> 'e + 'a option option" where
  "deserialize_optional_field de field =
     (case field of
        None \<Rightarrow> Inr None
      | Some JNull \<Rightarrow> Inr (Some None)
      | Some v \<Rightarrow> and_then (de v) (\<lambda>x. Inr (Some (Some x))))"

record board_comment =
  bc_id :: int
  bc_board_id :: int
  bc_author :: string
  bc_body :: string
  bc_created_at :: time

record new_board_comment =
  nbc_author :: string
  nbc_body :: string

record reorder_entry =
  re_id :: int
  re_priority :: int

record board_link =
  bl_from_card_id :: int
  bl_to_card_id :: int
  bl_kind :: link_kind
  bl_created_at :: time

section \<open>Notes, channels, messages, users\<close>

record Note =
  n_id :: int
  n_title :: string
  n_body :: string
  n_tags :: "string list"
  n_created_at :: time
  n_updated_at :: time

record new_note =
  nn_title :: string
  nn_body :: string
  nn_tags :: "string list"

record note_patch =
  np_title :: "string option"
  np_body :: "string option"
  np_tags :: "string list option"

record channel =
  c_id :: int
  c_a_session :: uuid
  c_b_session :: uuid
  c_created_at :: time

record new_channel =
  nc_a_session :: uuid
  nc_b_session :: uuid

record message =
  m_id :: int
  m_channel_id :: int
  m_sender :: string
  m_body :: string
  m_ts :: time

record new_message =
  nm_sender :: string
  nm_body :: string

record user =
  u_id :: int
  u_username :: string
  u_created_at :: time

section \<open>Validators\<close>

definition name_char :: "char \<Rightarrow> bool" where
  "name_char c = (is_ascii_alphanumeric c \<or> c = CHR ''-'' \<or> c = CHR ''_'')"

definition validate_username :: "string \<Rightarrow> core_error + unit" where
  "validate_username name =
     (if name = [] \<or> 64 < length name then Inl (InvalidName name)
      else if \<not> list_all (\<lambda>c. is_ascii_alphanumeric c \<or> c = CHR ''-'' \<or> c = CHR ''_'' \<or> c = CHR ''.'') name
      then Inl (InvalidName name)
      else Inr ())"

definition validate_name :: "string \<Rightarrow> core_error + unit" where
  "validate_name name =
     (if name = [] \<or> 64 < length name then Inl (InvalidName name)
      else if \<not> list_all name_char name then Inl (InvalidName name)
      else Inr ())"

section \<open>Lemmas\<close>

definition from_ok :: "'e + 'a \<Rightarrow> 'a option" where
  "from_ok r = (case r of Inl _ \<Rightarrow> None | Inr x \<Rightarrow> Some x)"

lemma from_ok_simps [simp]: "from_ok (Inl e) = None" "from_ok (Inr x) = Some x"
  by (simp_all add: from_ok_def)

lemma from_ok_Some [simp]: "from_ok r = Some x \<longleftrightarrow> r = Inr x"
  by (cases r) auto

interpretation status_codec: text_codec Status_as_str "\<lambda>s. from_ok (Status_from_str s)"
proof unfold_locales
  fix x show "from_ok (Status_from_str (Status_as_str x)) = Some x"
    by (cases x) (simp_all add: Status_from_str_def)
next
  fix s x show "from_ok (Status_from_str s) = Some x \<Longrightarrow> Status_as_str x = s"
    by (auto simp: Status_from_str_def split: if_splits)
qed

interpretation session_state_codec: text_codec SessionState_as_str "\<lambda>s. from_ok (SessionState_from_str s)"
proof unfold_locales
  fix x show "from_ok (SessionState_from_str (SessionState_as_str x)) = Some x"
    by (cases x) (simp_all add: SessionState_from_str_def)
next
  fix s x show "from_ok (SessionState_from_str s) = Some x \<Longrightarrow> SessionState_as_str x = s"
    by (auto simp: SessionState_from_str_def split: if_splits)
qed

interpretation link_kind_codec: text_codec LinkKind_as_str "\<lambda>s. from_ok (LinkKind_from_str s)"
proof unfold_locales
  fix x show "from_ok (LinkKind_from_str (LinkKind_as_str x)) = Some x"
    by (cases x) (simp_all add: LinkKind_from_str_def)
next
  fix s x show "from_ok (LinkKind_from_str s) = Some x \<Longrightarrow> LinkKind_as_str x = s"
    by (auto simp: LinkKind_from_str_def split: if_splits)
qed

lemma Status_roundtrip [simp]: "Status_from_str (Status_as_str x) = Inr x"
  using status_codec.dec_enc [of x] by simp

lemma SessionState_roundtrip [simp]: "SessionState_from_str (SessionState_as_str x) = Inr x"
  using session_state_codec.dec_enc [of x] by simp

lemma LinkKind_roundtrip [simp]: "LinkKind_from_str (LinkKind_as_str x) = Inr x"
  using link_kind_codec.dec_enc [of x] by simp

lemmas Status_as_str_inject [simp] = status_codec.enc_inject
lemmas LinkKind_as_str_inject [simp] = link_kind_codec.enc_inject

lemma validate_name_ok:
  "validate_name name = Inr () \<longleftrightarrow> name \<noteq> [] \<and> length name \<le> 64 \<and> list_all name_char name"
  by (auto simp: validate_name_def)

lemma validate_name_cases:
  "validate_name name = Inr () \<or> validate_name name = Inl (InvalidName name)"
  by (auto simp: validate_name_def)

lemma Event_new_simps [simp]:
  "ev_kind (Event_new t k) = k" "ev_session_id (Event_new t k) = None"
  "ev_session_name (Event_new t k) = None" "ev_payload (Event_new t k) = JObj []"
  "ev_ts (Event_new t k) = t"
  by (simp_all add: Event_new_def)

lemma with_session_simps [simp]:
  "ev_kind (with_session i n e) = ev_kind e" "ev_session_id (with_session i n e) = Some i"
  "ev_session_name (with_session i n e) = Some n" "ev_payload (with_session i n e) = ev_payload e"
  by (simp_all add: with_session_def)

lemma with_payload_simps [simp]:
  "ev_kind (with_payload p e) = ev_kind e" "ev_session_id (with_payload p e) = ev_session_id e"
  "ev_session_name (with_payload p e) = ev_session_name e" "ev_payload (with_payload p e) = p"
  by (simp_all add: with_payload_def)

end
