(* ===== verification/Board_Schema.thy ===== *)
theory Board_Schema
  imports Core_Types
begin

text \<open>
  \<open>crates/agentum-core/src/board_schema.rs\<close>: the fields a card needs to enter a column, and
  the validator of a transition. The matrix of the three conventional columns is
  \<open>required_fields_for\<close>; a column override of the database replaces it (theory
  \<open>Board_Routes\<close>).
\<close>

datatype required_field =
    RequiredField_Title
  | RequiredField_Lbl
  | RequiredField_Workdir
  | RequiredField_Tool
  | RequiredField_ClaimedBy
  | RequiredField_SessionOrComment

fun as_missing_key :: "required_field \<Rightarrow> string" where
  "as_missing_key RequiredField_Title = ''title''"
| "as_missing_key RequiredField_Lbl = ''lbl''"
| "as_missing_key RequiredField_Workdir = ''workdir''"
| "as_missing_key RequiredField_Tool = ''tool''"
| "as_missing_key RequiredField_ClaimedBy = ''claimed_by''"
| "as_missing_key RequiredField_SessionOrComment = ''session_id_or_comment''"

definition from_missing_key :: "string \<Rightarrow> required_field option" where
  "from_missing_key s =
     (if s = ''title'' then Some RequiredField_Title
      else if s = ''lbl'' then Some RequiredField_Lbl
      else if s = ''workdir'' then Some RequiredField_Workdir
      else if s = ''tool'' then Some RequiredField_Tool
      else if s = ''claimed_by'' then Some RequiredField_ClaimedBy
      else if s = ''session_id_or_comment'' then Some RequiredField_SessionOrComment
      else None)"

record transition_ctx =
  tc_title :: "string option"
  tc_lbl :: "string option"
  tc_workdir :: "string option"
  tc_tool :: "string option"
  tc_claimed_by :: "string option"
  tc_session_id :: "string option"
  tc_has_comment :: bool

definition required_fields_for :: "string \<Rightarrow> required_field list" where
  "required_fields_for status =
     (if status = ''todo'' then [RequiredField_Title, RequiredField_Lbl]
      else if status = ''doing'' then
        [RequiredField_Title, RequiredField_Lbl, RequiredField_Workdir, RequiredField_Tool,
         RequiredField_ClaimedBy]
      else if status = ''done'' then
        [RequiredField_Title, RequiredField_Lbl, RequiredField_SessionOrComment]
      else [])"

definition is_set :: "string option \<Rightarrow> bool" where
  "is_set v = (case v of Some s \<Rightarrow> trim s \<noteq> [] | None \<Rightarrow> False)"

fun field_present :: "transition_ctx \<Rightarrow> required_field \<Rightarrow> bool" where
  "field_present ctx RequiredField_Title = is_set (tc_title ctx)"
| "field_present ctx RequiredField_Lbl = is_set (tc_lbl ctx)"
| "field_present ctx RequiredField_Workdir = is_set (tc_workdir ctx)"
| "field_present ctx RequiredField_Tool = is_set (tc_tool ctx)"
| "field_present ctx RequiredField_ClaimedBy = is_set (tc_claimed_by ctx)"
| "field_present ctx RequiredField_SessionOrComment =
     (is_set (tc_session_id ctx) \<or> tc_has_comment ctx)"

text \<open>The loop over the required slice: push the key of every absent field, left to right.\<close>

fun missing_loop :: "transition_ctx \<Rightarrow> required_field list \<Rightarrow> string list \<Rightarrow> string list" where
  "missing_loop ctx [] missing = missing"
| "missing_loop ctx (f # fs) missing =
     missing_loop ctx fs (if field_present ctx f then missing else missing @ [as_missing_key f])"

definition validate_against :: "required_field list \<Rightarrow> transition_ctx \<Rightarrow> string list + unit" where
  "validate_against required ctx =
     (if required = [] then Inr ()
      else let missing = missing_loop ctx required []
           in if missing = [] then Inr () else Inl missing)"

definition validate_transition :: "string \<Rightarrow> transition_ctx \<Rightarrow> string list + unit" where
  "validate_transition target_status ctx = validate_against (required_fields_for target_status) ctx"

section \<open>Lemmas\<close>

interpretation required_field_codec: text_codec as_missing_key from_missing_key
proof unfold_locales
  fix x show "from_missing_key (as_missing_key x) = Some x"
    by (cases x) (simp_all add: from_missing_key_def)
next
  fix s x show "from_missing_key s = Some x \<Longrightarrow> as_missing_key x = s"
    by (auto simp: from_missing_key_def split: if_splits)
qed

lemma missing_loop_eq:
  "missing_loop ctx fs missing =
     missing @ map as_missing_key (filter (\<lambda>f. \<not> field_present ctx f) fs)"
  by (induction fs arbitrary: missing) auto

lemma validate_against_eq:
  "validate_against required ctx =
     (let absent = filter (\<lambda>f. \<not> field_present ctx f) required
      in if absent = [] then Inr () else Inl (map as_missing_key absent))"
  by (auto simp: validate_against_def missing_loop_eq Let_def)

lemma validate_against_ok:
  "validate_against required ctx = Inr () \<longleftrightarrow> list_all (field_present ctx) required"
  by (auto simp: validate_against_eq Let_def filter_empty_conv list_all_iff)

lemma validate_against_error:
  "validate_against required ctx = Inl missing \<longleftrightarrow>
     missing \<noteq> [] \<and> missing = map as_missing_key (filter (\<lambda>f. \<not> field_present ctx f) required)"
  by (auto simp: validate_against_eq Let_def)

lemma field_present_mono:
  assumes "\<And>g. is_set (g ctx) \<Longrightarrow> g \<in> {tc_title, tc_lbl, tc_workdir, tc_tool, tc_claimed_by, tc_session_id} \<Longrightarrow> is_set (g ctx')"
    and "tc_has_comment ctx \<Longrightarrow> tc_has_comment ctx'"
    and "field_present ctx f"
  shows "field_present ctx' f"
  using assms by (cases f) auto

section \<open>Properties\<close>

text \<open>
  The gate reports exactly the absent fields: validation against any required slice passes
  if and only if every field of the slice is present, and otherwise the error is the list of the
  wire keys of the absent fields, in the order of the slice; parsing those keys back gives the
  absent fields.
\<close>

theorem validate_against_reports_absent_fields:
  "(case validate_against required ctx of
      Inr _ \<Rightarrow> list_all (field_present ctx) required
    | Inl missing \<Rightarrow> missing \<noteq> [] \<and>
        map from_missing_key missing = map Some (filter (\<lambda>f. \<not> field_present ctx f) required))"
  by (auto simp: validate_against_eq Let_def filter_empty_conv list_all_iff
        required_field_codec.dec_enc)

text \<open>
  The conventional columns form a ladder with one exception: a card that may enter
  \<open>doing\<close> may enter \<open>todo\<close>, and with a session or a comment it may enter \<open>done\<close>; a column
  outside the matrix admits every card.
\<close>

theorem column_matrix_ladder:
  "(validate_transition ''doing'' ctx = Inr () \<longrightarrow> validate_transition ''todo'' ctx = Inr ()) \<and>
   (validate_transition ''done'' ctx = Inr () \<longleftrightarrow>
      validate_transition ''todo'' ctx = Inr () \<and> (is_set (tc_session_id ctx) \<or> tc_has_comment ctx)) \<and>
   (status \<notin> {''todo'', ''doing'', ''done''} \<longrightarrow> validate_transition status ctx = Inr ())"
  by (auto simp: validate_transition_def validate_against_ok required_fields_for_def)

theorem column_matrix_ladder_witness:
  "validate_transition ''review''
     \<lparr>tc_title = None, tc_lbl = None, tc_workdir = None, tc_tool = None, tc_claimed_by = None,
      tc_session_id = None, tc_has_comment = False\<rparr> = Inr ()"
  using column_matrix_ladder [where status = "''review''" and
      ctx = "\<lparr>tc_title = None, tc_lbl = None, tc_workdir = None, tc_tool = None,
        tc_claimed_by = None, tc_session_id = None, tc_has_comment = False\<rparr>"]
  by simp

end
