(* ===== verification/Transcript.thy ===== *)
theory Transcript
  imports Core_Types
begin

text \<open>
  \<open>crates/agentum-core/src/transcript.rs\<close>: the plan, todo and background-task state of an
  agent, replayed from its JSONL transcript one line at a time. The JSON parser and the RFC 3339
  parser are parameters (\<open>pj\<close>, \<open>pt\<close>), as is the clock reading \<open>now\<close> that stands in for a
  missing timestamp. Paths are strings; the environment variable \<open>HOME\<close> is a parameter.
\<close>

section \<open>State\<close>

datatype todo_status = TodoStatus_Pending | TodoStatus_InProgress | TodoStatus_Completed

fun TodoStatus_as_str :: "todo_status \<Rightarrow> string" where
  "TodoStatus_as_str TodoStatus_Pending = ''pending''"
| "TodoStatus_as_str TodoStatus_InProgress = ''in_progress''"
| "TodoStatus_as_str TodoStatus_Completed = ''completed''"

record todo_item =
  td_content :: string
  td_active_form :: "string option"
  td_status :: todo_status
  td_description :: "string option"
  td_task_id :: "string option"
  td_create_tool_id :: "string option"

datatype task_status = TaskStatus_Running | TaskStatus_Completed | TaskStatus_Failed

fun TaskStatus_as_str :: "task_status \<Rightarrow> string" where
  "TaskStatus_as_str TaskStatus_Running = ''running''"
| "TaskStatus_as_str TaskStatus_Completed = ''completed''"
| "TaskStatus_as_str TaskStatus_Failed = ''failed''"

record task_record =
  tr_id :: string
  tr_description :: string
  tr_subagent_type :: "string option"
  tr_status :: task_status
  tr_started_at :: time
  tr_duration_ms :: "64 word option"

record agent_task_state =
  ats_plan :: "string option"
  ats_todos :: "todo_item list"
  ats_tasks :: "task_record list"

definition AgentTaskState_default :: agent_task_state where
  "AgentTaskState_default = \<lparr>ats_plan = None, ats_todos = [], ats_tasks = []\<rparr>"

definition ats_is_empty :: "agent_task_state \<Rightarrow> bool" where
  "ats_is_empty st = (ats_plan st = None \<and> ats_todos st = [] \<and> ats_tasks st = [])"

type_synonym pending = "string \<rightharpoonup> time"

section \<open>Paths\<close>

definition project_dir_for :: "string option \<Rightarrow> string \<Rightarrow> string option" where
  "project_dir_for home workdir =
     (case home of
        None \<Rightarrow> None
      | Some h \<Rightarrow>
          if starts_with ''/'' workdir
          then Some (h @ ''/.claude/projects/'' @
                     map (\<lambda>c. if c = CHR ''/'' then CHR ''-'' else c) workdir)
          else None)"

definition transcript_path_for :: "string option \<Rightarrow> string \<Rightarrow> uuid \<Rightarrow> string option" where
  "transcript_path_for home workdir session_id =
     map_option (\<lambda>d. d @ ''/'' @ session_id @ ''.jsonl'') (project_dir_for home workdir)"

section \<open>Parser\<close>

text \<open>\<open>iter_mut().find(p)\<close> followed by an update of the element found.\<close>

fun update_first :: "('a \<Rightarrow> bool) \<Rightarrow> ('a \<Rightarrow> 'a) \<Rightarrow> 'a list \<Rightarrow> 'a list" where
  "update_first p f [] = []"
| "update_first p f (x # xs) = (if p x then f x # xs else x # update_first p f xs)"

definition input_str :: "json option \<Rightarrow> string \<Rightarrow> string option" where
  "input_str input k = Option.bind input (\<lambda>i. jget_str i k)"

definition todo_status_of :: "string \<Rightarrow> todo_status" where
  "todo_status_of s =
     (if s = ''in_progress'' then TodoStatus_InProgress
      else if s = ''completed'' then TodoStatus_Completed
      else TodoStatus_Pending)"

definition extract_command_name :: "string \<Rightarrow> string option" where
  "extract_command_name text =
     (case find_str ''<command-name>'' text of
        None \<Rightarrow> None
      | Some i \<Rightarrow>
          let rest = drop (i + length ''<command-name>'') text
          in (case find_str ''</command-name>'' rest of
                None \<Rightarrow> None
              | Some end_rel \<Rightarrow> Some (take end_rel rest)))"

text \<open>\<open>trim_start_matches('/')\<close>\<close>

definition trim_start_slash :: "string \<Rightarrow> string" where
  "trim_start_slash s = dropWhile (\<lambda>c. c = CHR ''/'') s"

definition apply_text :: "agent_task_state \<times> pending \<Rightarrow> json \<Rightarrow> agent_task_state \<times> pending" where
  "apply_text sp block =
     (case jget_str block ''text'' of
        None \<Rightarrow> sp
      | Some text \<Rightarrow>
          if \<not> str_contains text ''<command-name>'' then sp
          else (case extract_command_name text of
                  None \<Rightarrow> sp
                | Some cmd \<Rightarrow>
                    let verb = to_ascii_lowercase (trim_start_slash (trim cmd))
                    in if verb = ''clear'' \<or> verb = ''compact''
                       then (AgentTaskState_default, Map.empty) else sp))"

definition tool_TaskCreate :: "agent_task_state \<Rightarrow> json \<Rightarrow> agent_task_state" where
  "tool_TaskCreate st block =
     (let input = jget block ''input''
      in case jget_str block ''id'' of
           None \<Rightarrow> st
         | Some tool_use_id \<Rightarrow>
             if list_ex (\<lambda>t. td_create_tool_id t = Some tool_use_id) (ats_todos st) then st
             else st\<lparr>ats_todos := ats_todos st @
               [\<lparr>td_content = (case input_str input ''subject'' of None \<Rightarrow> ''(task)'' | Some s \<Rightarrow> s),
                 td_active_form = input_str input ''activeForm'',
                 td_status = TodoStatus_Pending,
                 td_description = input_str input ''description'',
                 td_task_id = None,
                 td_create_tool_id = Some tool_use_id\<rparr>]\<rparr>)"

definition task_id_text :: "json \<Rightarrow> string option" where
  "task_id_text v =
     (case as_str v of
        Some s \<Rightarrow> Some s
      | None \<Rightarrow>
          (case as_i64 v of
             Some n \<Rightarrow> Some (string_of_int n)
           | None \<Rightarrow> map_option string_of_int (as_u64 v)))"

definition tool_TaskUpdate :: "agent_task_state \<Rightarrow> json \<Rightarrow> agent_task_state" where
  "tool_TaskUpdate st block =
     (let input = jget block ''input''
      in case Option.bind (Option.bind input (\<lambda>i. jget i ''taskId'')) task_id_text of
           None \<Rightarrow> st
         | Some task_id \<Rightarrow>
             let status_str = input_str input ''status''
             in if status_str = Some ''deleted''
                then st\<lparr>ats_todos := filter (\<lambda>t. td_task_id t \<noteq> Some task_id) (ats_todos st)\<rparr>
                else let new_subject = input_str input ''subject'';
                         new_active_form = input_str input ''activeForm'';
                         new_description = input_str input ''description''
                     in st\<lparr>ats_todos :=
                          update_first (\<lambda>t. td_task_id t = Some task_id)
                            (\<lambda>t. t\<lparr>td_status := (case status_str of Some s \<Rightarrow> todo_status_of s | None \<Rightarrow> td_status t),
                                   td_content := (case new_subject of Some s \<Rightarrow> s | None \<Rightarrow> td_content t),
                                   td_active_form := (if new_active_form \<noteq> None then new_active_form else td_active_form t),
                                   td_description := (if new_description \<noteq> None then new_description else td_description t)\<rparr>)
                            (ats_todos st)\<rparr>)"

definition todo_write_item :: "json \<Rightarrow> todo_item option" where
  "todo_write_item t =
     (case jget_str t ''content'' of
        None \<Rightarrow> None
      | Some content \<Rightarrow>
          (case jget_str t ''status'' of
             None \<Rightarrow> None
           | Some status_str \<Rightarrow>
               Some \<lparr>td_content = content, td_active_form = jget_str t ''activeForm'',
                     td_status = todo_status_of status_str, td_description = None,
                     td_task_id = None, td_create_tool_id = None\<rparr>))"

definition tool_TodoWrite :: "agent_task_state \<Rightarrow> json \<Rightarrow> agent_task_state" where
  "tool_TodoWrite st block =
     (case Option.bind (Option.bind (jget block ''input'') (\<lambda>i. jget i ''todos'')) as_array of
        None \<Rightarrow> st
      | Some todos \<Rightarrow> st\<lparr>ats_todos := List.map_filter todo_write_item todos\<rparr>)"

definition tool_ExitPlanMode :: "agent_task_state \<Rightarrow> json \<Rightarrow> agent_task_state" where
  "tool_ExitPlanMode st block =
     (case input_str (jget block ''input'') ''plan'' of
        Some plan \<Rightarrow> st\<lparr>ats_plan := Some plan\<rparr>
      | None \<Rightarrow> st)"

definition tool_Agent :: "agent_task_state \<times> pending \<Rightarrow> json \<Rightarrow> time \<Rightarrow> agent_task_state \<times> pending" where
  "tool_Agent sp block ts =
     (let st = fst sp; pending = snd sp; input = jget block ''input''
      in case jget_str block ''id'' of
           None \<Rightarrow> sp
         | Some i \<Rightarrow>
             if list_ex (\<lambda>t. tr_id t = i) (ats_tasks st) then sp
             else (st\<lparr>ats_tasks := ats_tasks st @
                     [\<lparr>tr_id = i,
                       tr_description = (case input_str input ''description'' of None \<Rightarrow> ''(task)'' | Some d \<Rightarrow> d),
                       tr_subagent_type = input_str input ''subagent_type'',
                       tr_status = TaskStatus_Running,
                       tr_started_at = ts,
                       tr_duration_ms = None\<rparr>]\<rparr>,
                   pending(i \<mapsto> ts)))"

definition apply_tool_use ::
    "agent_task_state \<times> pending \<Rightarrow> json \<Rightarrow> time \<Rightarrow> agent_task_state \<times> pending" where
  "apply_tool_use sp block ts =
     (let name = (case jget_str block ''name'' of None \<Rightarrow> '''' | Some n \<Rightarrow> n)
      in if name = ''TaskCreate'' then (tool_TaskCreate (fst sp) block, snd sp)
         else if name = ''TaskUpdate'' then (tool_TaskUpdate (fst sp) block, snd sp)
         else if name = ''TodoWrite'' then (tool_TodoWrite (fst sp) block, snd sp)
         else if name = ''ExitPlanMode'' then (tool_ExitPlanMode (fst sp) block, snd sp)
         else if name = ''Agent'' \<or> name = ''Task'' then tool_Agent sp block ts
         else sp)"

definition parse_task_create_id :: "string \<Rightarrow> string option" where
  "parse_task_create_id text =
     (case strip_prefix ''Task #'' text of
        None \<Rightarrow> None
      | Some rest \<Rightarrow>
          let digits = takeWhile is_ascii_digit rest
          in if digits = [] then None else Some digits)"

text \<open>\<open>whole_milliseconds().max(0) as u64\<close> of a difference in nanoseconds.\<close>

definition duration_ms :: "time \<Rightarrow> time \<Rightarrow> 64 word" where
  "duration_ms start ts = word_of_int (max 0 ((ts - start) div 1000000))"

definition bind_create :: "json \<Rightarrow> todo_item \<Rightarrow> todo_item" where
  "bind_create block t =
     (case Option.bind (jget_str block ''content'') parse_task_create_id of
        Some n \<Rightarrow> t\<lparr>td_task_id := Some n, td_create_tool_id := None\<rparr>
      | None \<Rightarrow> t\<lparr>td_create_tool_id := None\<rparr>)"

definition close_task :: "bool \<Rightarrow> time option \<Rightarrow> time \<Rightarrow> task_record \<Rightarrow> task_record" where
  "close_task is_error start ts r =
     r\<lparr>tr_status := (if is_error then TaskStatus_Failed else TaskStatus_Completed),
       tr_duration_ms := (case start of Some s \<Rightarrow> Some (duration_ms s ts) | None \<Rightarrow> tr_duration_ms r)\<rparr>"

definition apply_tool_result ::
    "agent_task_state \<times> pending \<Rightarrow> json \<Rightarrow> time \<Rightarrow> agent_task_state \<times> pending" where
  "apply_tool_result sp block ts =
     (let st = fst sp; pending = snd sp
      in case jget_str block ''tool_use_id'' of
           None \<Rightarrow> sp
         | Some i \<Rightarrow>
             if list_ex (\<lambda>t. td_create_tool_id t = Some i) (ats_todos st)
             then (st\<lparr>ats_todos := update_first (\<lambda>t. td_create_tool_id t = Some i) (bind_create block) (ats_todos st)\<rparr>,
                   pending)
             else
               let is_error = (case Option.bind (jget block ''is_error'') as_bool of None \<Rightarrow> False | Some b \<Rightarrow> b)
               in case find (\<lambda>t. tr_id t = i) (ats_tasks st) of
                    None \<Rightarrow> sp
                  | Some r \<Rightarrow>
                      if tr_status r = TaskStatus_Running
                      then (st\<lparr>ats_tasks := update_first (\<lambda>t. tr_id t = i) (close_task is_error (pending i) ts) (ats_tasks st)\<rparr>,
                            pending(i := None))
                      else sp)"

definition apply_block :: "time \<Rightarrow> agent_task_state \<times> pending \<Rightarrow> json \<Rightarrow> agent_task_state \<times> pending" where
  "apply_block ts sp block =
     (let kind = (case jget_str block ''type'' of None \<Rightarrow> '''' | Some k \<Rightarrow> k)
      in if kind = ''tool_use'' then apply_tool_use sp block ts
         else if kind = ''tool_result'' then apply_tool_result sp block ts
         else if kind = ''text'' then apply_text sp block
         else sp)"

definition apply_line ::
    "(string \<Rightarrow> json option) \<Rightarrow> (string \<Rightarrow> time option) \<Rightarrow> time \<Rightarrow>
     agent_task_state \<times> pending \<Rightarrow> string \<Rightarrow> agent_task_state \<times> pending" where
  "apply_line pj pt now sp line =
     (let trimmed = trim line
      in if trimmed = [] then sp
         else case pj trimmed of
                None \<Rightarrow> sp
              | Some v \<Rightarrow>
                  let timestamp = (case Option.bind (jget_str v ''timestamp'') pt of
                        Some t \<Rightarrow> t | None \<Rightarrow> now)
                  in case Option.bind (Option.bind (jget v ''message'') (\<lambda>m. jget m ''content'')) as_array of
                       None \<Rightarrow> sp
                     | Some content \<Rightarrow> foldl (apply_block timestamp) sp content)"

text \<open>\<open>content\<close> is the file's text, \<open>None\<close> when it cannot be read.\<close>

definition parse_file ::
    "(string \<Rightarrow> json option) \<Rightarrow> (string \<Rightarrow> time option) \<Rightarrow> time \<Rightarrow> string option \<Rightarrow> agent_task_state" where
  "parse_file pj pt now content =
     (case content of
        None \<Rightarrow> AgentTaskState_default
      | Some c \<Rightarrow> fst (foldl (apply_line pj pt now) (AgentTaskState_default, Map.empty) (str_lines c)))"

section \<open>Invariant of the replay\<close>

text \<open>
  A running task has no duration and its start is pending; a finished task has a duration and
  nothing pending. Task ids are distinct, nothing else is pending, and no two todos wait for the
  result of the same \<open>TaskCreate\<close>.
\<close>

definition task_ok :: "pending \<Rightarrow> task_record \<Rightarrow> bool" where
  "task_ok pending r =
     (if tr_status r = TaskStatus_Running
      then tr_duration_ms r = None \<and> pending (tr_id r) = Some (tr_started_at r)
      else tr_duration_ms r \<noteq> None \<and> pending (tr_id r) = None)"

definition transcript_inv :: "agent_task_state \<times> pending \<Rightarrow> bool" where
  "transcript_inv sp \<longleftrightarrow>
     distinct (map tr_id (ats_tasks (fst sp))) \<and>
     (\<forall>r \<in> set (ats_tasks (fst sp)). task_ok (snd sp) r) \<and>
     dom (snd sp) \<subseteq> tr_id ` set (ats_tasks (fst sp)) \<and>
     distinct (List.map_filter td_create_tool_id (ats_todos (fst sp)))"

named_theorems transcript_defs \<open>the operations of the replay\<close>

lemmas [transcript_defs] = tool_TaskCreate_def tool_TaskUpdate_def tool_TodoWrite_def
  tool_ExitPlanMode_def

subsection \<open>Updating the first match\<close>

lemma map_update_first:
  assumes "\<And>x. p x \<Longrightarrow> g (f x) = g x"
  shows "map g (update_first p f xs) = map g xs"
  using assms by (induction xs) auto

lemma update_first_distinct:
  assumes "distinct (map k xs)"
  shows "update_first (\<lambda>x. k x = i) f xs = map (\<lambda>x. if k x = i then f x else x) xs"
  using assms
proof (induction xs)
  case (Cons x xs)
  have "map (\<lambda>y. if k y = k x then f y else y) xs = xs"
    using Cons.prems by (intro map_idI) (metis distinct.simps(2) image_eqI list.set_map list.simps(9))
  with Cons show ?case by auto
qed simp

lemma set_map_filter_update_first:
  assumes "\<And>x. k (f x) = None \<or> k (f x) = k x"
  shows "set (List.map_filter k (update_first p f xs)) \<subseteq> set (List.map_filter k xs)"
proof (induction xs)
  case (Cons x xs)
  then show ?case using assms [of x]
    by (auto simp: List.map_filter_simps split: option.splits)
qed (simp add: List.map_filter_simps)

lemma distinct_map_filter_update_first:
  assumes f: "\<And>x. k (f x) = None \<or> k (f x) = k x"
    and "distinct (List.map_filter k xs)"
  shows "distinct (List.map_filter k (update_first p f xs))"
  using assms(2)
proof (induction xs)
  case (Cons x xs)
  then show ?case using f [of x] set_map_filter_update_first [of k f p xs, OF f]
    by (auto simp: List.map_filter_simps split: option.splits)
qed (simp add: List.map_filter_simps)

lemma map_filter_append:
  "List.map_filter k (xs @ ys) = List.map_filter k xs @ List.map_filter k ys"
  by (induction xs) (auto simp: List.map_filter_simps split: option.splits)

lemma set_map_filter_list_ex:
  "i \<in> set (List.map_filter k xs) \<longleftrightarrow> list_ex (\<lambda>x. k x = Some i) xs"
  by (induction xs) (auto simp: List.map_filter_simps split: option.splits)

lemma distinct_map_filter_filter:
  "distinct (List.map_filter k xs) \<Longrightarrow> distinct (List.map_filter k (filter q xs))"
proof (induction xs)
  case (Cons x xs)
  moreover have "set (List.map_filter k (filter q xs)) \<subseteq> set (List.map_filter k xs)"
    by (auto simp: set_map_filter_list_ex list_ex_iff)
  ultimately show ?case
    by (auto simp: List.map_filter_simps split: option.splits)
qed (simp add: List.map_filter_simps)

subsection \<open>Preservation\<close>

text \<open>The todo tools touch neither the tasks nor the pending starts.\<close>

lemma todo_tools_tasks [simp]:
  "ats_tasks (tool_TaskCreate st block) = ats_tasks st"
  "ats_tasks (tool_TaskUpdate st block) = ats_tasks st"
  "ats_tasks (tool_TodoWrite st block) = ats_tasks st"
  "ats_tasks (tool_ExitPlanMode st block) = ats_tasks st"
  by (auto simp: transcript_defs Let_def split: option.splits)

definition todos_inv :: "agent_task_state \<Rightarrow> bool" where
  "todos_inv st = distinct (List.map_filter td_create_tool_id (ats_todos st))"

lemma transcript_inv_todos:
  assumes "transcript_inv sp" and "ats_tasks st = ats_tasks (fst sp)" and "todos_inv st"
  shows "transcript_inv (st, snd sp)"
  using assms by (simp add: transcript_inv_def todos_inv_def)

lemma transcript_inv_todos_inv: "transcript_inv sp \<Longrightarrow> todos_inv (fst sp)"
  by (simp add: transcript_inv_def todos_inv_def)

lemma todos_inv_TaskCreate: "todos_inv st \<Longrightarrow> todos_inv (tool_TaskCreate st block)"
  by (auto simp: todos_inv_def tool_TaskCreate_def Let_def map_filter_append
        List.map_filter_simps set_map_filter_list_ex split: option.splits)

lemma todos_inv_TaskUpdate: "todos_inv st \<Longrightarrow> todos_inv (tool_TaskUpdate st block)"
  by (auto simp: todos_inv_def tool_TaskUpdate_def Let_def distinct_map_filter_filter
      intro!: distinct_map_filter_update_first split: option.splits)

lemma map_filter_todo_write:
  "List.map_filter td_create_tool_id (List.map_filter todo_write_item ts) = []"
  by (induction ts)
    (auto simp: List.map_filter_simps todo_write_item_def split: option.splits)

lemma todos_inv_TodoWrite: "todos_inv st \<Longrightarrow> todos_inv (tool_TodoWrite st block)"
  by (auto simp: todos_inv_def tool_TodoWrite_def map_filter_todo_write split: option.splits)

lemma todos_inv_ExitPlanMode: "todos_inv st \<Longrightarrow> todos_inv (tool_ExitPlanMode st block)"
  by (auto simp: todos_inv_def tool_ExitPlanMode_def split: option.splits)

lemma transcript_inv_Agent: "transcript_inv sp \<Longrightarrow> transcript_inv (tool_Agent sp block ts)"
  by (auto simp: transcript_inv_def tool_Agent_def Let_def task_ok_def list_ex_iff
      split: option.splits if_splits)

lemma transcript_inv_tool_use: "transcript_inv sp \<Longrightarrow> transcript_inv (apply_tool_use sp block ts)"
  unfolding apply_tool_use_def Let_def
  by (auto intro!: transcript_inv_todos transcript_inv_Agent dest: transcript_inv_todos_inv
      simp: todos_inv_TaskCreate todos_inv_TaskUpdate todos_inv_TodoWrite todos_inv_ExitPlanMode)

lemma transcript_inv_initial: "transcript_inv (AgentTaskState_default, Map.empty)"
  by (simp add: transcript_inv_def AgentTaskState_default_def List.map_filter_simps)

lemma transcript_inv_text: "transcript_inv sp \<Longrightarrow> transcript_inv (apply_text sp block)"
  by (auto simp: apply_text_def Let_def transcript_inv_initial split: option.splits)

text \<open>The tasks after a result that closes task \<open>i\<close>.\<close>

lemma transcript_inv_close:
  assumes inv: "transcript_inv (st, pending)"
    and r: "r \<in> set (ats_tasks st)" "tr_id r = i" "tr_status r = TaskStatus_Running"
  shows "transcript_inv
     (st\<lparr>ats_tasks := update_first (\<lambda>t. tr_id t = i) (close_task is_error (pending i) ts) (ats_tasks st)\<rparr>,
      pending(i := None))"
proof -
  let ?f = "\<lambda>t. if tr_id t = i then close_task is_error (pending i) ts t else t"
  from inv have d: "distinct (map tr_id (ats_tasks st))" by (simp add: transcript_inv_def)
  note upd = update_first_distinct [OF d, of i "close_task is_error (pending i) ts"]
  have id: "tr_id (?f t) = tr_id t" for t by (simp add: close_task_def)
  have p: "pending i \<noteq> None"
    using inv r by (auto simp: transcript_inv_def task_ok_def)
  have ids: "map tr_id (map ?f (ats_tasks st)) = map tr_id (ats_tasks st)"
    by (simp add: comp_def id)
  have ok: "task_ok (pending(i := None)) (?f t)" if "t \<in> set (ats_tasks st)" for t
    using inv that p by (auto simp: transcript_inv_def task_ok_def close_task_def)
  have im: "tr_id ` ?f ` set (ats_tasks st) = tr_id ` set (ats_tasks st)"
    by (metis ids list.set_map)
  have all_ok: "\<forall>x \<in> set (map ?f (ats_tasks st)). task_ok (pending(i := None)) x"
    using ok by (simp only: set_map ball_simps) blast
  have dom: "dom (pending(i := None)) \<subseteq> tr_id ` set (map ?f (ats_tasks st))"
    using inv im by (auto simp: transcript_inv_def simp del: image_Un if_image_distrib)
  show ?thesis
    unfolding transcript_inv_def upd
    using inv all_ok dom by (simp add: transcript_inv_def ids del: set_map map_map)
qed

lemma transcript_inv_tool_result:
  assumes "transcript_inv sp"
  shows "transcript_inv (apply_tool_result sp block ts)"
proof (cases sp)
  case (Pair st pending)
  have bind: "td_create_tool_id (bind_create block t) = None" for t
    by (simp add: bind_create_def split: option.splits)
  have todos: "transcript_inv (st\<lparr>ats_todos := update_first q (bind_create block) (ats_todos st)\<rparr>, pending)" for q
    using assms Pair
    by (auto simp: transcript_inv_def bind intro!: distinct_map_filter_update_first)
  show ?thesis
    using assms Pair todos
    by (auto simp: apply_tool_result_def Let_def find_Some_iff in_set_conv_nth
        intro!: transcript_inv_close split: option.splits)
qed

lemma transcript_inv_block: "transcript_inv sp \<Longrightarrow> transcript_inv (apply_block ts sp block)"
  by (simp add: apply_block_def Let_def transcript_inv_tool_use transcript_inv_tool_result
      transcript_inv_text)

lemma transcript_inv_blocks: "transcript_inv sp \<Longrightarrow> transcript_inv (foldl (apply_block ts) sp blocks)"
  by (induction blocks arbitrary: sp) (auto simp: transcript_inv_block)

lemma transcript_inv_line: "transcript_inv sp \<Longrightarrow> transcript_inv (apply_line pj pt now sp line)"
  by (auto simp: apply_line_def Let_def transcript_inv_blocks split: option.splits)

lemma transcript_inv_lines:
  "transcript_inv sp \<Longrightarrow> transcript_inv (foldl (apply_line pj pt now) sp lines)"
  by (induction lines arbitrary: sp) (auto simp: transcript_inv_line)

subsection \<open>Frame of the finished tasks\<close>

lemma tool_use_keeps_tasks:
  "r \<in> set (ats_tasks (fst sp)) \<Longrightarrow> r \<in> set (ats_tasks (fst (apply_tool_use sp block ts)))"
  by (auto simp: apply_tool_use_def tool_Agent_def Let_def split: option.splits)

lemma update_first_other:
  assumes "find p xs = Some y" and "x \<in> set xs" and "x \<noteq> y"
  shows "x \<in> set (update_first p f xs)"
  using assms by (induction xs) (auto split: if_splits)

lemma tool_result_keeps_finished:
  assumes "r \<in> set (ats_tasks (fst sp))" and "tr_status r \<noteq> TaskStatus_Running"
  shows "r \<in> set (ats_tasks (fst (apply_tool_result sp block ts)))"
  using assms update_first_other
  by (fastforce simp: apply_tool_result_def Let_def split: option.splits)

lemma text_keeps_or_resets:
  "apply_text sp block = sp \<or> apply_text sp block = (AgentTaskState_default, Map.empty)"
  by (auto simp: apply_text_def Let_def split: option.splits)

section \<open>Properties\<close>

text \<open>
  Replay is consistent whatever the transcript holds: after any lines, under any JSON and
  timestamp parser, task ids are distinct, a task is running exactly when it has no duration, its
  recorded start is then pending, and nothing else is pending.
\<close>

theorem transcript_replay_invariant:
  "transcript_inv (foldl (apply_line pj pt now) (AgentTaskState_default, Map.empty) lines)"
  by (rule transcript_inv_lines [OF transcript_inv_initial])

text \<open>
  A finished background task is final: one more block of the transcript leaves its record
  unchanged, unless the block is the text of a \<open>/clear\<close> or \<open>/compact\<close> command, which resets the
  whole state.
\<close>

theorem finished_task_is_final:
  assumes "r \<in> set (ats_tasks (fst sp))" and "tr_status r \<noteq> TaskStatus_Running"
  shows "r \<in> set (ats_tasks (fst (apply_block ts sp block))) \<or>
    (jget_str block ''type'' = Some ''text'' \<and>
     apply_block ts sp block = (AgentTaskState_default, Map.empty))"
proof -
  from text_keeps_or_resets [of sp block] show ?thesis
    using assms tool_use_keeps_tasks [OF assms(1)] tool_result_keeps_finished [OF assms]
    by (auto simp: apply_block_def Let_def split: option.splits)
qed

theorem finished_task_is_final_witness:
  "\<exists>r sp. ats_tasks (fst sp) = [r] \<and>
     ats_tasks (fst (apply_block 5 sp (JObj [(''type'', JStr ''tool_result''), (''tool_use_id'', JStr ''a'')]))) = [r]"
proof -
  let ?r = "\<lparr>tr_id = ''a'', tr_description = ''d'', tr_subagent_type = None,
    tr_status = TaskStatus_Completed, tr_started_at = 1, tr_duration_ms = Some 2\<rparr>"
  let ?sp = "(\<lparr>ats_plan = None, ats_todos = [], ats_tasks = [?r]\<rparr>, Map.empty)"
  let ?b = "JObj [(''type'', JStr ''tool_result''), (''tool_use_id'', JStr ''a'')]"
  have "?r \<in> set (ats_tasks (fst (apply_block 5 ?sp ?b)))"
    using finished_task_is_final [of ?r ?sp 5 ?b] by simp
  moreover have "length (ats_tasks (fst (apply_block 5 ?sp ?b))) = 1"
    by (simp add: apply_block_def apply_tool_result_def Let_def)
  ultimately have "ats_tasks (fst (apply_block 5 ?sp ?b)) = [?r]"
    by (cases "ats_tasks (fst (apply_block 5 ?sp ?b))") auto
  then show ?thesis by (intro exI [of _ ?r] exI [of _ ?sp]) simp
qed

definition task_create_block :: "string \<Rightarrow> string \<Rightarrow> json" where
  "task_create_block tool subject =
     JObj [(''type'', JStr ''tool_use''), (''name'', JStr ''TaskCreate''), (''id'', JStr tool),
           (''input'', JObj [(''subject'', JStr subject)])]"

definition task_created_block :: "string \<Rightarrow> nat \<Rightarrow> string \<Rightarrow> json" where
  "task_created_block tool n subject =
     JObj [(''type'', JStr ''tool_result''), (''tool_use_id'', JStr tool),
           (''content'', JStr (''Task #'' @ string_of_nat n @ '' created successfully: '' @ subject))]"

definition task_update_block :: "nat \<Rightarrow> string \<Rightarrow> json" where
  "task_update_block n status =
     JObj [(''type'', JStr ''tool_use''), (''name'', JStr ''TaskUpdate''),
           (''input'', JObj [(''taskId'', JInt (int n)), (''status'', JStr status)])]"

lemma takeWhile_digits: "takeWhile is_ascii_digit (string_of_nat n @ CHR '' '' # rest) = string_of_nat n"
  using string_of_nat_digits [of n]
  by (subst takeWhile_append2) (auto simp: list_all_iff is_ascii_digit_def)

lemma parse_created: "parse_task_create_id (''Task #'' @ string_of_nat n @ CHR '' '' # rest) = Some (string_of_nat n)"
  by (simp only: parse_task_create_id_def strip_prefix_append option.case Let_def takeWhile_digits) simp

lemma task_id_text_nat: "int n < 2 ^ 63 \<Longrightarrow> task_id_text (JInt (int n)) = Some (string_of_nat n)"
  by (simp add: task_id_text_def string_of_int_def)

lemma update_first_append_last:
  assumes "\<not> list_ex p xs" and "p y"
  shows "update_first p f (xs @ [y]) = xs @ [f y]"
  using assms by (induction xs) auto

lemma create_step:
  assumes "\<not> list_ex (\<lambda>t. td_create_tool_id t = Some tool) (ats_todos (fst sp))"
  shows "apply_block ts sp (task_create_block tool subject) =
    ((fst sp)\<lparr>ats_todos := ats_todos (fst sp) @
       [\<lparr>td_content = subject, td_active_form = None, td_status = TodoStatus_Pending,
         td_description = None, td_task_id = None, td_create_tool_id = Some tool\<rparr>]\<rparr>, snd sp)"
  using assms
  by (simp add: task_create_block_def apply_block_def apply_tool_use_def tool_TaskCreate_def
      input_str_def Let_def)

lemma created_step:
  assumes "\<not> list_ex (\<lambda>t. td_create_tool_id t = Some tool) todos"
    and "ats_todos (fst sp) = todos @ [y]" and "td_create_tool_id y = Some tool"
  shows "ats_todos (fst (apply_block ts sp (task_created_block tool n subject))) =
    todos @ [y\<lparr>td_task_id := Some (string_of_nat n), td_create_tool_id := None\<rparr>]"
proof -
  have b: "bind_create (task_created_block tool n subject) y =
      y\<lparr>td_task_id := Some (string_of_nat n), td_create_tool_id := None\<rparr>"
    using parse_created [of n "''created successfully: '' @ subject"]
    by (simp add: bind_create_def task_created_block_def)
  have k: "jget_str (task_created_block tool n subject) ''type'' = Some ''tool_result''"
    "jget_str (task_created_block tool n subject) ''tool_use_id'' = Some tool"
    by (simp_all add: task_created_block_def)
  show ?thesis
    using assms by (simp add: apply_block_def apply_tool_result_def k b update_first_append_last)
qed

lemma update_step:
  assumes "\<not> list_ex (\<lambda>t. td_task_id t = Some (string_of_nat n)) todos"
    and "ats_todos (fst sp) = todos @ [y]" and "td_task_id y = Some (string_of_nat n)"
    and "int n < 2 ^ 63" and "status \<noteq> ''deleted''"
  shows "ats_todos (fst (apply_block ts sp (task_update_block n status))) =
    todos @ [y\<lparr>td_status := todo_status_of status\<rparr>]"
  using assms
  by (simp add: task_update_block_def apply_block_def apply_tool_use_def tool_TaskUpdate_def
      input_str_def Let_def task_id_text_nat update_first_append_last)

text \<open>
  The life of a todo: a \<open>TaskCreate\<close> with a fresh tool id appends a pending todo, the result
  that names task \<open>N\<close> binds it to that id, and a later \<open>TaskUpdate\<close> for \<open>N\<close> sets exactly its status,
  when no other todo has this id; no other todo changes.
\<close>

theorem todo_lifecycle:
  assumes fresh: "\<not> list_ex (\<lambda>t. td_create_tool_id t = Some tool) (ats_todos (fst sp))"
    and unbound: "\<not> list_ex (\<lambda>t. td_task_id t = Some (string_of_nat n)) (ats_todos (fst sp))"
    and small: "int n < 2 ^ 63" and live: "status \<noteq> ''deleted''"
  shows "ats_todos (fst (foldl (apply_block ts) sp
      [task_create_block tool subject, task_created_block tool n subject, task_update_block n status])) =
    ats_todos (fst sp) @
      [\<lparr>td_content = subject, td_active_form = None, td_status = todo_status_of status,
        td_description = None, td_task_id = Some (string_of_nat n), td_create_tool_id = None\<rparr>]"
proof -
  let ?sp1 = "apply_block ts sp (task_create_block tool subject)"
  let ?sp2 = "apply_block ts ?sp1 (task_created_block tool n subject)"
  have 1: "ats_todos (fst ?sp1) = ats_todos (fst sp) @
      [\<lparr>td_content = subject, td_active_form = None, td_status = TodoStatus_Pending,
        td_description = None, td_task_id = None, td_create_tool_id = Some tool\<rparr>]"
    by (simp add: create_step [OF fresh])
  have 2: "ats_todos (fst ?sp2) = ats_todos (fst sp) @
      [\<lparr>td_content = subject, td_active_form = None, td_status = TodoStatus_Pending,
        td_description = None, td_task_id = Some (string_of_nat n), td_create_tool_id = None\<rparr>]"
    by (subst created_step [OF fresh 1]) simp_all
  show ?thesis
    by (simp, subst update_step [OF unbound 2 _ small live]) simp_all
qed

theorem todo_lifecycle_witness:
  "ats_todos (fst (foldl (apply_block 7) (AgentTaskState_default, Map.empty)
      [task_create_block ''toolu_1'' ''write tests'', task_created_block ''toolu_1'' 3 ''write tests'',
       task_update_block 3 ''in_progress''])) =
    [\<lparr>td_content = ''write tests'', td_active_form = None, td_status = TodoStatus_InProgress,
      td_description = None, td_task_id = Some (string_of_nat 3), td_create_tool_id = None\<rparr>]"
  using todo_lifecycle [where sp = "(AgentTaskState_default, Map.empty)" and tool = "''toolu_1''"
      and n = 3 and status = "''in_progress''" and subject = "''write tests''" and ts = 7]
  by (simp add: AgentTaskState_default_def todo_status_of_def)

text \<open>
  A \<open>TaskCreate\<close> that is replayed after its result was seen is recorded a second time: the
  duplicate test compares the tool id, which the result has cleared.
\<close>

lemma replayed_create_duplicates:
  "length (ats_todos (fst (foldl (apply_block ts) (AgentTaskState_default, Map.empty)
      [task_create_block ''t'' ''x'', task_created_block ''t'' 1 ''x'', task_create_block ''t'' ''x'']))) = 2"
proof -
  let ?sp0 = "(AgentTaskState_default, Map.empty) :: agent_task_state \<times> pending"
  let ?sp1 = "apply_block ts ?sp0 (task_create_block ''t'' ''x'')"
  let ?sp2 = "apply_block ts ?sp1 (task_created_block ''t'' 1 ''x'')"
  have 0: "\<not> list_ex (\<lambda>t. td_create_tool_id t = Some ''t'') (ats_todos (fst ?sp0))"
    by (simp add: AgentTaskState_default_def)
  have 1: "ats_todos (fst ?sp1) = [] @
      [\<lparr>td_content = ''x'', td_active_form = None, td_status = TodoStatus_Pending,
        td_description = None, td_task_id = None, td_create_tool_id = Some ''t''\<rparr>]"
    by (subst create_step [OF 0]) (simp add: AgentTaskState_default_def)
  have 2: "ats_todos (fst ?sp2) =
      [\<lparr>td_content = ''x'', td_active_form = None, td_status = TodoStatus_Pending,
        td_description = None, td_task_id = Some (string_of_nat 1), td_create_tool_id = None\<rparr>]"
    by (subst created_step [OF _ 1]) simp_all
  have 3: "\<not> list_ex (\<lambda>t. td_create_tool_id t = Some ''t'') (ats_todos (fst ?sp2))"
    unfolding 2 by simp
  have "ats_todos (fst (apply_block ts ?sp2 (task_create_block ''t'' ''x''))) =
      ats_todos (fst ?sp2) @
      [\<lparr>td_content = ''x'', td_active_form = None, td_status = TodoStatus_Pending,
        td_description = None, td_task_id = None, td_create_tool_id = Some ''t''\<rparr>]"
    by (simp only: create_step [OF 3] fst_conv) simp
  then show ?thesis by (simp only: foldl.simps 2) simp
qed

end
