(* ===== verification/Transcript_Store.thy ===== *)
theory Transcript_Store
  imports Transcript
begin

text \<open>
  \<open>crates/agentum-server/src/transcript_store.rs\<close>: the per-session slots that follow a growing
  transcript file by a byte cursor, and the cursors of transcripts fetched from SSH hosts.

  The file system is a parameter: \<open>fs path\<close> is what \<open>stat\<close> and \<open>open\<close> report at the time
  of the call. The JSON and timestamp parsers are those of theory \<open>Transcript\<close>; the hash of
  \<open>remote_parse_start\<close> is a parameter too. The mutex is never poisoned in the model, and the
  \<open>notify\<close> watcher is the caller that decides when \<open>refresh\<close> runs.
\<close>

section \<open>Snapshots\<close>

datatype snapshot_status =
    SnapshotStatus_Current
  | SnapshotStatus_Empty
  | SnapshotStatus_WaitingForTranscript
  | SnapshotStatus_Unsupported
  | SnapshotStatus_Stale
  | SnapshotStatus_HostUnavailable
  | SnapshotStatus_ReadError
  | SnapshotStatus_Incompatible

record agent_task_snapshot =
  sn_state :: agent_task_state
  sn_status :: snapshot_status
  sn_tool :: string
  sn_source_host_id :: "uuid option"
  sn_transcript_path :: "string option"
  sn_updated_at_ms :: "int option"
  sn_detail :: "string option"

definition AgentTaskSnapshot_new ::
    "agent_task_state \<Rightarrow> snapshot_status \<Rightarrow> string \<Rightarrow> agent_task_snapshot" where
  "AgentTaskSnapshot_new st status tool =
     \<lparr>sn_state = st, sn_status = status, sn_tool = tool, sn_source_host_id = None,
      sn_transcript_path = None, sn_updated_at_ms = None, sn_detail = None\<rparr>"

section \<open>The file system as the store sees it\<close>

datatype io_error = IoNotFound | IoOther string

text \<open>\<open>fo_open\<close> is the error of opening the file, if opening fails.\<close>

record file_obj =
  fo_ino :: "64 word option"
  fo_bytes :: string
  fo_open :: "string option"
  fo_mtime_ms :: "int option"

type_synonym file_system = "string \<Rightarrow> io_error + file_obj"

text \<open>UTF-8 validity of a byte string (\<open>std::str::from_utf8\<close>).\<close>

definition byte :: "char \<Rightarrow> nat" where
  "byte c = of_char c"

definition utf8_cont :: "char \<Rightarrow> bool" where
  "utf8_cont c = (128 \<le> byte c \<and> byte c \<le> 191)"

definition utf8_second_ok :: "nat \<Rightarrow> nat \<Rightarrow> bool" where
  "utf8_second_ok b1 b2 =
     (128 \<le> b2 \<and> b2 \<le> 191 \<and>
      (b1 = 0xE0 \<longrightarrow> 0xA0 \<le> b2) \<and> (b1 = 0xED \<longrightarrow> b2 \<le> 0x9F) \<and>
      (b1 = 0xF0 \<longrightarrow> 0x90 \<le> b2) \<and> (b1 = 0xF4 \<longrightarrow> b2 \<le> 0x8F))"

text \<open>How many continuation bytes follow a lead byte.\<close>

definition utf8_extra :: "char \<Rightarrow> nat option" where
  "utf8_extra c =
     (if byte c < 0x80 then Some 0
      else if 0xC2 \<le> byte c \<and> byte c \<le> 0xDF then Some 1
      else if 0xE0 \<le> byte c \<and> byte c \<le> 0xEF then Some 2
      else if 0xF0 \<le> byte c \<and> byte c \<le> 0xF4 then Some 3
      else None)"

definition utf8_char_ok :: "char \<Rightarrow> string \<Rightarrow> nat \<Rightarrow> bool" where
  "utf8_char_ok c cs n =
     (n \<le> length cs \<and> list_all utf8_cont (take n cs) \<and>
      (0 < n \<longrightarrow> utf8_second_ok (byte c) (byte (hd cs))))"

function valid_utf8 :: "string \<Rightarrow> bool" where
  "valid_utf8 [] = True"
| "valid_utf8 (c # cs) =
     (case utf8_extra c of
        None \<Rightarrow> False
      | Some n \<Rightarrow> utf8_char_ok c cs n \<and> valid_utf8 (drop n cs))"
  by pat_completeness auto
termination by (relation "measure length") auto

text \<open>\<open>rposition(|b| b == newline) + 1\<close>, or 0: the length of the newline-terminated prefix.\<close>

definition complete_len :: "string \<Rightarrow> nat" where
  "complete_len s = length s - length (takeWhile (\<lambda>c. c \<noteq> CHR 0x0A) (rev s))"

section \<open>Slots\<close>

record slot =
  sl_workdir :: string
  sl_state :: agent_task_state
  sl_pinned_path :: string
  sl_transcript_path :: string
  sl_cursor :: nat
  sl_file_identity :: "64 word option"
  sl_pending :: pending

text \<open>\<open>seen_len\<close>, \<open>seen_hash\<close> and \<open>reset_at\<close> of \<open>RemoteCursor\<close>.\<close>

record remote_cursor =
  rc_seen_len :: nat
  rc_seen_hash :: "64 word"
  rc_reset_at :: nat

definition RemoteCursor_default :: remote_cursor where
  "RemoteCursor_default = \<lparr>rc_seen_len = 0, rc_seen_hash = 0, rc_reset_at = 0\<rparr>"

record transcript_store =
  ts_inner :: "uuid \<rightharpoonup> slot"
  ts_remote_cursors :: "uuid \<rightharpoonup> remote_cursor"

definition updated_event :: "time \<Rightarrow> uuid \<Rightarrow> event" where
  "updated_event now i =
     with_payload (JObj [(''session_id'', JStr i)]) (Event_new now ''agent_tasks.updated'')"

definition wipe :: "slot \<Rightarrow> slot" where
  "wipe s = s\<lparr>sl_cursor := 0, sl_state := AgentTaskState_default, sl_pending := Map.empty\<rparr>"

definition path_exists :: "file_system \<Rightarrow> string \<Rightarrow> bool" where
  "path_exists fs path = is_ok (fs path)"

definition parse_full ::
    "(string \<Rightarrow> json option) \<Rightarrow> (string \<Rightarrow> time option) \<Rightarrow> time \<Rightarrow> io_error + file_obj \<Rightarrow>
     agent_task_state \<times> nat \<times> pending" where
  "parse_full pj pt now file =
     (case file of
        Inl _ \<Rightarrow> (AgentTaskState_default, 0, Map.empty)
      | Inr f \<Rightarrow>
          if fo_open f \<noteq> None \<or> \<not> valid_utf8 (fo_bytes f)
          then (AgentTaskState_default, 0, Map.empty)
          else
            let content = fo_bytes f; n = complete_len content;
                sp = foldl (apply_line pj pt now) (AgentTaskState_default, Map.empty)
                       (str_lines (take n content))
            in (fst sp, n, snd sp))"

text \<open>The slot part of \<open>refresh\<close>: the new slot, and whether an event is emitted.\<close>

definition refresh_promote :: "file_system \<Rightarrow> slot \<Rightarrow> slot" where
  "refresh_promote fs s =
     (if sl_transcript_path s \<noteq> sl_pinned_path s \<and> path_exists fs (sl_pinned_path s)
      then wipe (s\<lparr>sl_transcript_path := sl_pinned_path s, sl_file_identity := None\<rparr>)
      else s)"

definition refresh_identity :: "file_obj \<Rightarrow> slot \<Rightarrow> slot" where
  "refresh_identity f s =
     (let s1 = (if sl_file_identity s \<noteq> None \<and> fo_ino f \<noteq> None \<and> sl_file_identity s \<noteq> fo_ino f
                then wipe s else s)
      in s1\<lparr>sl_file_identity := fo_ino f\<rparr>)"

definition refresh_truncated :: "file_obj \<Rightarrow> slot \<Rightarrow> slot" where
  "refresh_truncated f s = (if length (fo_bytes f) < sl_cursor s then wipe s else s)"

definition refresh_append ::
    "(string \<Rightarrow> json option) \<Rightarrow> (string \<Rightarrow> time option) \<Rightarrow> time \<Rightarrow> file_obj \<Rightarrow> slot \<Rightarrow> slot \<times> bool" where
  "refresh_append pj pt now f s =
     (if length (fo_bytes f) = sl_cursor s then (s, False)
      else if fo_open f \<noteq> None then (s, False)
      else
        let buf = drop (sl_cursor s) (fo_bytes f); e = complete_len buf
        in if e = 0 then (s, False)
           else
             let consumed = take e buf
             in if \<not> valid_utf8 consumed then (s, False)
                else
                  let sp = foldl (apply_line pj pt now) (sl_state s, sl_pending s) (str_lines consumed)
                  in (s\<lparr>sl_state := fst sp, sl_pending := snd sp, sl_cursor := sl_cursor s + e\<rparr>, True))"

definition refresh_slot ::
    "(string \<Rightarrow> json option) \<Rightarrow> (string \<Rightarrow> time option) \<Rightarrow> time \<Rightarrow> file_system \<Rightarrow> slot \<Rightarrow> slot \<times> bool" where
  "refresh_slot pj pt now fs s0 =
     (let s = refresh_promote fs s0
      in case fs (sl_transcript_path s) of
           Inl _ \<Rightarrow> (s, False)
         | Inr f \<Rightarrow> refresh_append pj pt now f (refresh_truncated f (refresh_identity f s)))"

definition refresh ::
    "(string \<Rightarrow> json option) \<Rightarrow> (string \<Rightarrow> time option) \<Rightarrow> time \<Rightarrow> file_system \<Rightarrow>
     transcript_store \<Rightarrow> uuid \<Rightarrow> transcript_store \<times> event list" where
  "refresh pj pt now fs ts i =
     (case ts_inner ts i of
        None \<Rightarrow> (ts, [])
      | Some s \<Rightarrow>
          let r = refresh_slot pj pt now fs s
          in (ts\<lparr>ts_inner := (ts_inner ts)(i \<mapsto> fst r)\<rparr>,
              if snd r then [updated_event now i] else []))"

definition snapshot :: "transcript_store \<Rightarrow> uuid \<Rightarrow> agent_task_state option" where
  "snapshot ts i = map_option sl_state (ts_inner ts i)"

definition snapshot_with_status ::
    "file_system \<Rightarrow> transcript_store \<Rightarrow> uuid \<Rightarrow> string \<Rightarrow> agent_task_snapshot" where
  "snapshot_with_status fs ts i tool =
     (if tool \<noteq> ''claude''
      then (AgentTaskSnapshot_new AgentTaskState_default SnapshotStatus_Unsupported tool)
             \<lparr>sn_detail := Some (''task transcript parser is not available for '' @ tool)\<rparr>
      else case ts_inner ts i of
        None \<Rightarrow> AgentTaskSnapshot_new AgentTaskState_default SnapshotStatus_WaitingForTranscript tool
      | Some s \<Rightarrow>
          let failed = (\<lambda>msg. (AgentTaskSnapshot_new (sl_state s) SnapshotStatus_ReadError tool)
                \<lparr>sn_transcript_path := Some (sl_transcript_path s), sn_detail := Some msg\<rparr>)
          in case fs (sl_transcript_path s) of
               Inl (IoOther msg) \<Rightarrow> failed msg
             | Inl IoNotFound \<Rightarrow>
                 (AgentTaskSnapshot_new (sl_state s) SnapshotStatus_WaitingForTranscript tool)
                   \<lparr>sn_transcript_path := Some (sl_transcript_path s)\<rparr>
             | Inr f \<Rightarrow>
                 (case fo_open f of
                    Some msg \<Rightarrow> failed msg
                  | None \<Rightarrow>
                      (AgentTaskSnapshot_new (sl_state s)
                         (if ats_is_empty (sl_state s) then SnapshotStatus_Empty else SnapshotStatus_Current) tool)
                        \<lparr>sn_transcript_path := Some (sl_transcript_path s),
                         sn_updated_at_ms := fo_mtime_ms f\<rparr>))"

definition reset_slot :: "file_system \<Rightarrow> slot \<Rightarrow> slot" where
  "reset_slot fs s =
     (let s1 = s\<lparr>sl_state := AgentTaskState_default, sl_pending := Map.empty\<rparr>
      in case fs (sl_transcript_path s) of
           Inl _ \<Rightarrow> s1
         | Inr f \<Rightarrow> s1\<lparr>sl_cursor := length (fo_bytes f)\<rparr>)"

definition reset_cursor :: "remote_cursor \<Rightarrow> remote_cursor" where
  "reset_cursor c = c\<lparr>rc_reset_at := rc_seen_len c\<rparr>"

definition reset :: "time \<Rightarrow> file_system \<Rightarrow> transcript_store \<Rightarrow> uuid \<Rightarrow> transcript_store \<times> event list" where
  "reset now fs ts i =
     (let inner = (case ts_inner ts i of
             None \<Rightarrow> ts_inner ts | Some s \<Rightarrow> (ts_inner ts)(i \<mapsto> reset_slot fs s));
          cursors = (case ts_remote_cursors ts i of
             None \<Rightarrow> ts_remote_cursors ts | Some c \<Rightarrow> (ts_remote_cursors ts)(i \<mapsto> reset_cursor c));
          cleared = (ts_inner ts i \<noteq> None \<or> ts_remote_cursors ts i \<noteq> None)
      in (\<lparr>ts_inner = inner, ts_remote_cursors = cursors\<rparr>,
          if cleared then [updated_event now i] else []))"

definition remote_advance :: "(string \<Rightarrow> 64 word) \<Rightarrow> string \<Rightarrow> remote_cursor \<Rightarrow> remote_cursor \<times> nat" where
  "remote_advance hash content c0 =
     (let prefix_len = min (rc_seen_len c0) (length content);
          prefix_hash = hash (take prefix_len content);
          c = (if length content < rc_seen_len c0 \<or> (0 < rc_seen_len c0 \<and> prefix_hash \<noteq> rc_seen_hash c0)
               then c0\<lparr>rc_reset_at := 0\<rparr> else c0);
          start = min (rc_reset_at c) (length content)
      in (c\<lparr>rc_seen_len := length content, rc_seen_hash := hash content\<rparr>, start))"

definition remote_parse_start ::
    "(string \<Rightarrow> 64 word) \<Rightarrow> transcript_store \<Rightarrow> uuid \<Rightarrow> string \<Rightarrow> transcript_store \<times> nat" where
  "remote_parse_start hash ts i content =
     (let c0 = (case ts_remote_cursors ts i of None \<Rightarrow> RemoteCursor_default | Some c \<Rightarrow> c);
          r = remote_advance hash content c0
      in (ts\<lparr>ts_remote_cursors := (ts_remote_cursors ts)(i \<mapsto> fst r)\<rparr>, snd r))"

text \<open>
  \<open>ensure_started\<close>: \<open>watch\<close> says whether the project directory could be created and watched.
\<close>

definition ensure_started ::
    "(string \<Rightarrow> json option) \<Rightarrow> (string \<Rightarrow> time option) \<Rightarrow> time \<Rightarrow> string option \<Rightarrow> bool \<Rightarrow>
     file_system \<Rightarrow> transcript_store \<Rightarrow> uuid \<Rightarrow> string \<Rightarrow> string \<Rightarrow> transcript_store \<times> event list" where
  "ensure_started pj pt now home watch fs ts i workdir tool =
     (if tool \<noteq> ''claude'' then (ts, [])
      else if ts_inner ts i \<noteq> None then (ts, [])
      else case transcript_path_for home workdir i of
        None \<Rightarrow> (ts, [])
      | Some pinned \<Rightarrow>
          if \<not> watch then (ts, [])
          else
            let parsed = (if path_exists fs pinned then parse_full pj pt now (fs pinned)
                          else (AgentTaskState_default, 0, Map.empty));
                ident = (case fs pinned of Inl _ \<Rightarrow> None | Inr f \<Rightarrow> fo_ino f)
            in (ts\<lparr>ts_inner := (ts_inner ts)(i \<mapsto>
                  \<lparr>sl_workdir = workdir, sl_state = fst parsed, sl_pinned_path = pinned,
                   sl_transcript_path = pinned, sl_cursor = fst (snd parsed),
                   sl_file_identity = ident, sl_pending = snd (snd parsed)\<rparr>)\<rparr>,
                [updated_event now i]))"

section \<open>Newline-terminated prefixes\<close>

lemma complete_len_split:
  "\<exists>a b. s = a @ b \<and> length a = complete_len s \<and> terminated a \<and> CHR 0x0A \<notin> set b"
proof -
  let ?t = "takeWhile (\<lambda>c. c \<noteq> CHR 0x0A) (rev s)" and ?d = "dropWhile (\<lambda>c. c \<noteq> CHR 0x0A) (rev s)"
  have s: "s = rev ?d @ rev ?t" by (metis rev_append rev_rev_ident takeWhile_dropWhile_id)
  then have len: "length (rev ?d) = complete_len s"
    by (metis add_diff_cancel_right' complete_len_def length_append length_rev)
  have "terminated (rev ?d)"
    using hd_dropWhile [of "\<lambda>c. c \<noteq> CHR 0x0A" "rev s"]
    by (auto simp: terminated_def last_rev simp del: dropWhile_eq_Nil_conv)
  moreover have "CHR 0x0A \<notin> set (rev ?t)" by (auto dest: set_takeWhileD)
  ultimately show ?thesis using s len by blast
qed

lemma complete_len_eq:
  assumes "terminated a" and "CHR 0x0A \<notin> set b"
  shows "complete_len (a @ b) = length a"
proof -
  have "takeWhile (\<lambda>c. c \<noteq> CHR 0x0A) (rev b @ rev a) = rev b @ takeWhile (\<lambda>c. c \<noteq> CHR 0x0A) (rev a)"
    using assms(2) by (intro takeWhile_append2) auto
  moreover have "takeWhile (\<lambda>c. c \<noteq> CHR 0x0A) (rev a) = []"
    using assms(1) by (auto simp: terminated_snoc)
  ultimately show ?thesis by (simp add: complete_len_def)
qed

lemma complete_len_append:
  assumes "terminated a"
  shows "complete_len (a @ b) = length a + complete_len b"
proof -
  obtain x y where xy: "b = x @ y" "length x = complete_len b" "terminated x" "CHR 0x0A \<notin> set y"
    using complete_len_split by blast
  have "complete_len ((a @ x) @ y) = length (a @ x)"
    using assms xy by (intro complete_len_eq terminated_append)
  with xy show ?thesis by simp
qed

lemma complete_len_le: "complete_len s \<le> length s"
  by (simp add: complete_len_def)

lemma terminated_take_complete: "terminated (take (complete_len s) s)"
  using complete_len_split [of s] by fastforce

section \<open>UTF-8 validity splits at newlines\<close>

lemma utf8_newline [simp]:
  "utf8_extra (CHR 0x0A) = Some 0" "utf8_cont (CHR 0x0A) = False"
  by (simp_all add: utf8_extra_def utf8_cont_def byte_def)

lemma valid_utf8_newline:
  "valid_utf8 (x @ CHR 0x0A # y) \<longleftrightarrow> valid_utf8 x \<and> valid_utf8 y"
proof (induction x rule: length_induct)
  case (1 x)
  show ?case
  proof (cases x)
    case Nil
    then show ?thesis by (simp add: utf8_char_ok_def)
  next
    case (Cons c x')
    show ?thesis
    proof (cases "utf8_extra c")
      case None
      with Cons show ?thesis by simp
    next
      case (Some n)
      show ?thesis
      proof (cases "n \<le> length x'")
        case True
        then have "utf8_char_ok c (x' @ CHR 0x0A # y) n = utf8_char_ok c x' n"
          by (cases x'; cases n) (simp_all add: utf8_char_ok_def)
        moreover have "length (drop n x') < length x" using Cons by simp
        ultimately show ?thesis
          using 1 [rule_format, of "drop n x'"] Some True Cons by simp
      next
        case False
        then have "CHR 0x0A \<in> set (take n (x' @ CHR 0x0A # y))"
          by (cases "n - length x'") auto
        then have "\<not> utf8_char_ok c (x' @ CHR 0x0A # y) n"
          unfolding utf8_char_ok_def list_all_iff by (metis utf8_newline(2))
        moreover have "\<not> utf8_char_ok c x' n" using False by (simp add: utf8_char_ok_def)
        ultimately show ?thesis using Some Cons by simp
      qed
    qed
  qed
qed

lemma valid_utf8_terminated:
  assumes "terminated a"
  shows "valid_utf8 (a @ b) \<longleftrightarrow> valid_utf8 a \<and> valid_utf8 b"
proof (cases "a = []")
  case False
  with assms obtain x where "a = x @ [CHR 0x0A]" by (auto simp: terminated_snoc)
  then show ?thesis using valid_utf8_newline [of x b] valid_utf8_newline [of x "[]"] by simp
qed simp

section \<open>The slot is always the replay of a prefix of the file\<close>

abbreviation replay ::
    "(string \<Rightarrow> json option) \<Rightarrow> (string \<Rightarrow> time option) \<Rightarrow> time \<Rightarrow> string \<Rightarrow> agent_task_state \<times> pending" where
  "replay pj pt now text \<equiv>
     foldl (apply_line pj pt now) (AgentTaskState_default, Map.empty) (str_lines text)"

definition synced ::
    "(string \<Rightarrow> json option) \<Rightarrow> (string \<Rightarrow> time option) \<Rightarrow> time \<Rightarrow> string \<Rightarrow> slot \<Rightarrow> bool" where
  "synced pj pt now c s \<longleftrightarrow>
     sl_cursor s \<le> length c \<and> terminated (take (sl_cursor s) c) \<and>
     sl_state s = fst (replay pj pt now (take (sl_cursor s) c)) \<and>
     sl_pending s = snd (replay pj pt now (take (sl_cursor s) c))"

lemma synced_grow: "synced pj pt now c s \<Longrightarrow> synced pj pt now (c @ d) s"
  by (simp add: synced_def)

lemma replay_append:
  "terminated a \<Longrightarrow> replay pj pt now (a @ b) = foldl (apply_line pj pt now) (replay pj pt now a) (str_lines b)"
  by (simp add: str_lines_append)

lemma refresh_append_synced:
  assumes s: "synced pj pt now c s" and f: "fo_bytes f = c"
  shows "synced pj pt now c (fst (refresh_append pj pt now f s))"
proof -
  let ?buf = "drop (sl_cursor s) c" and ?pre = "take (sl_cursor s) c"
  let ?e = "complete_len ?buf"
  have len: "sl_cursor s + ?e \<le> length c"
    using complete_len_le [of ?buf] s by (auto simp: synced_def)
  have tk: "take (sl_cursor s + ?e) c = ?pre @ take ?e ?buf"
    by (simp add: take_add)
  have "terminated (?pre @ take ?e ?buf)"
    using s by (intro terminated_append) (auto simp: synced_def terminated_take_complete)
  moreover have "replay pj pt now (?pre @ take ?e ?buf) =
      foldl (apply_line pj pt now) (sl_state s, sl_pending s) (str_lines (take ?e ?buf))"
    using s by (simp add: synced_def replay_append)
  ultimately show ?thesis
    using s f len by (auto simp: refresh_append_def Let_def synced_def tk)
qed

lemma refresh_append_complete:
  assumes s: "synced pj pt now c s" and f: "fo_bytes f = c" "fo_open f = None"
    and v: "valid_utf8 (take (complete_len c) c)"
  shows "sl_cursor (fst (refresh_append pj pt now f s)) = complete_len c"
proof -
  let ?pre = "take (sl_cursor s) c" and ?buf = "drop (sl_cursor s) c"
  have pre: "terminated ?pre" "length ?pre = sl_cursor s" using s by (auto simp: synced_def)
  have e: "complete_len c = sl_cursor s + complete_len ?buf"
    using complete_len_append [OF pre(1), of ?buf] pre(2) by simp
  have "take (complete_len c) c = ?pre @ take (complete_len ?buf) ?buf"
    by (simp add: e take_add)
  with v pre have "valid_utf8 (take (complete_len ?buf) ?buf)"
    by (simp add: valid_utf8_terminated)
  moreover have "complete_len ?buf = 0" if "length c = sl_cursor s"
    using that by (simp add: complete_len_def)
  ultimately show ?thesis using f e by (auto simp: refresh_append_def Let_def)
qed

lemma synced_complete_is_full:
  assumes "synced pj pt now c s" and "sl_cursor s = complete_len c"
    and "fo_bytes f = c" "fo_open f = None" "valid_utf8 c"
  shows "(sl_state s, sl_cursor s, sl_pending s) = parse_full pj pt now (Inr f)"
  using assms by (auto simp: synced_def parse_full_def Let_def)

lemma parse_full_synced:
  assumes "parse_full pj pt now (Inr f) = (st, cur, pend)"
    and "sl_state s = st" "sl_cursor s = cur" "sl_pending s = pend"
  shows "synced pj pt now (fo_bytes f) s"
  using assms complete_len_le [of "fo_bytes f"] terminated_take_complete [of "fo_bytes f"]
  by (auto simp: parse_full_def synced_def Let_def terminated_def [of "[]"] str_lines_def
      split: if_splits)

text \<open>
  What happens to one transcript file: bytes are appended, or the watcher calls \<open>refresh\<close>.
  \<open>transcript_file\<close> is the file system that holds just this file.
\<close>

datatype file_action = Append string | Poll

definition transcript_file :: "string \<Rightarrow> 64 word option \<Rightarrow> string \<Rightarrow> file_system" where
  "transcript_file path ino content =
     (\<lambda>p. if p = path then Inr \<lparr>fo_ino = ino, fo_bytes = content, fo_open = None, fo_mtime_ms = None\<rparr>
          else Inl IoNotFound)"

fun file_step ::
    "(string \<Rightarrow> json option) \<Rightarrow> (string \<Rightarrow> time option) \<Rightarrow> time \<Rightarrow> string \<Rightarrow> 64 word option \<Rightarrow>
     string \<times> slot \<Rightarrow> file_action \<Rightarrow> string \<times> slot" where
  "file_step pj pt now path ino (c, s) (Append d) = (c @ d, s)"
| "file_step pj pt now path ino (c, s) Poll =
     (c, fst (refresh_slot pj pt now (transcript_file path ino c) s))"

definition follows :: "string \<Rightarrow> 64 word option \<Rightarrow> slot \<Rightarrow> bool" where
  "follows path ino s \<longleftrightarrow>
     sl_pinned_path s = path \<and> sl_transcript_path s = path \<and> sl_file_identity s = ino"

lemma refresh_slot_follows:
  assumes "follows path ino s" and "synced pj pt now c s"
  shows "fst (refresh_slot pj pt now (transcript_file path ino c) s) =
      fst (refresh_append pj pt now
        \<lparr>fo_ino = ino, fo_bytes = c, fo_open = None, fo_mtime_ms = None\<rparr> s)"
proof -
  have same: "s\<lparr>sl_file_identity := ino\<rparr> = s" using assms(1) by (cases s) (simp add: follows_def)
  have p: "refresh_promote fs s = s" for fs using assms(1) by (simp add: refresh_promote_def follows_def)
  show ?thesis
    unfolding refresh_slot_def p refresh_identity_def Let_def
    using assms by (simp add: refresh_truncated_def transcript_file_def follows_def synced_def
        same [simplified])
qed

lemma follows_refresh_append:
  "follows path ino s \<Longrightarrow> follows path ino (fst (refresh_append pj pt now f s))"
  by (auto simp: follows_def refresh_append_def Let_def)

lemma file_step_inv:
  assumes "follows path ino s" "synced pj pt now c s"
    and "file_step pj pt now path ino (c, s) x = (c', s')"
  shows "follows path ino s' \<and> synced pj pt now c' s'"
  using assms
  by (cases x) (auto simp: synced_grow refresh_slot_follows follows_refresh_append refresh_append_synced)

lemma file_steps_inv:
  assumes "follows path ino s" "synced pj pt now c s"
    and "foldl (file_step pj pt now path ino) (c, s) xs = (c', s')"
  shows "follows path ino s' \<and> synced pj pt now c' s'"
  using assms
proof (induction xs arbitrary: c s)
  case (Cons x xs)
  obtain c1 s1 where 1: "file_step pj pt now path ino (c, s) x = (c1, s1)" by force
  with Cons.prems show ?case
    using file_step_inv [OF Cons.prems(1,2) 1] Cons.IH [of s1 c1] by simp
qed simp

lemma remote_seen:
  "\<exists>r. ts_remote_cursors (fst (remote_parse_start hash ts i c)) i =
     Some \<lparr>rc_seen_len = length c, rc_seen_hash = hash c, rc_reset_at = r\<rparr>"
proof -
  have "\<exists>r. x\<lparr>rc_seen_len := n, rc_seen_hash := h\<rparr> =
      \<lparr>rc_seen_len = n, rc_seen_hash = h, rc_reset_at = r\<rparr>" for x :: remote_cursor and n h
    by (cases x) auto
  then show ?thesis by (simp add: remote_parse_start_def remote_advance_def Let_def)
qed

section \<open>Properties\<close>


definition sample_slot :: slot where
  "sample_slot =
     (case ts_inner (fst (ensure_started (\<lambda>_. None) (\<lambda>_. None) 0 (Some ''/h'') True
          (transcript_file ''/h/.claude/projects/-w/u.jsonl'' (Some 7) ''{}'')
          \<lparr>ts_inner = Map.empty, ts_remote_cursors = Map.empty\<rparr> ''u'' ''/w'' ''claude'')) ''u'' of
        Some s \<Rightarrow> s | None \<Rightarrow> undefined)"


text \<open>
  A reset hides what was there and nothing else of an SSH transcript: after content \<open>c\<close> was
  seen and the session reset, any extension of \<open>c\<close> is parsed from the end of \<open>c\<close>, while content
  whose prefix of the seen length hashes differently, or that is shorter, is parsed from the start.
\<close>

theorem remote_reset_then_parse:
  assumes seen: "remote_parse_start hash ts i c = (ts1, n)"
    and reset: "reset now fs ts1 i = (ts2, evs)"
  shows "snd (remote_parse_start hash ts2 i (c @ d)) = length c \<and>
    (length c' < length c \<or> hash (take (length c) c') \<noteq> hash c \<and> c \<noteq> [] \<longrightarrow>
       snd (remote_parse_start hash ts2 i c') = 0)"
proof -
  have "ts_remote_cursors ts2 i =
      Some \<lparr>rc_seen_len = length c, rc_seen_hash = hash c, rc_reset_at = length c\<rparr>"
    using assms remote_seen [of hash ts i c] by (auto simp: reset_def reset_cursor_def Let_def)
  then show ?thesis by (auto simp: remote_parse_start_def remote_advance_def Let_def)
qed

theorem remote_reset_then_parse_witness:
  "snd (remote_parse_start (\<lambda>s. of_nat (length s))
     (fst (reset 0 (\<lambda>_. Inl IoNotFound)
        (fst (remote_parse_start (\<lambda>s. of_nat (length s))
           \<lparr>ts_inner = Map.empty, ts_remote_cursors = Map.empty\<rparr> ''u'' ''ab'')) ''u'')) ''u'' ''abcd'') = 2"
  using remote_reset_then_parse [where hash = "\<lambda>s. of_nat (length s)"
      and ts = "\<lparr>ts_inner = Map.empty, ts_remote_cursors = Map.empty\<rparr>" and i = "''u''" and c = "''ab''"
      and d = "''cd''" and now = 0 and fs = "\<lambda>_. Inl IoNotFound", OF surjective_pairing surjective_pairing]
  by simp

end
