(* ===== verification/Executor.thy ===== *)
theory Executor
  imports Core_Types Transcript
begin

text \<open>
  \<open>crates/agentum-executor\<close>: the adapters that turn a session into the command tmux launches.
  The trait \<open>ToolAdapter\<close> is one function per method over the type \<open>adapter\<close>, whose
  constructors are the implementing types; the contract its callers rely on is the locale
  \<open>tool_adapter\<close>. What the local host contributes (the variables \<open>SHELL\<close> and \<open>HOME\<close> and
  the existence of a path) is the record \<open>local_env\<close>.
\<close>

section \<open>Commands and their inputs\<close>

record launch_command =
  lc_argv :: "string list"
  lc_env :: "(string \<times> string) list"

definition argv_only :: "string list \<Rightarrow> launch_command" where
  "argv_only argv = \<lparr>lc_argv = argv, lc_env = []\<rparr>"

record remote_launch_context =
  rl_shell :: string
  rl_claude_transcript_exists :: bool

definition remote_shell :: "remote_launch_context \<Rightarrow> string" where
  "remote_shell ctx = (if trim (rl_shell ctx) = [] then ''/bin/sh'' else rl_shell ctx)"

record mcp_server =
  ms_name :: string
  ms_url :: string
  ms_auth_token :: "string option"
  ms_auth_env_var :: "string option"

record mcp_provision =
  mp_servers :: "mcp_server list"
  mp_config_file :: string

record local_env =
  le_shell :: "string option"
  le_home :: "string option"
  le_exists :: "string \<Rightarrow> bool"

definition YOLO_MARKER :: string where
  "YOLO_MARKER = ''--dangerously-skip-permissions''"

definition translate_yolo_marker :: "string list \<Rightarrow> string option \<Rightarrow> string list" where
  "translate_yolo_marker flags yolo_flag =
     List.map_filter (\<lambda>f. if f = YOLO_MARKER then yolo_flag else Some f) flags"

section \<open>Adapters\<close>

datatype adapter =
    ClaudeAdapter | CodexAdapter | CursorAdapter | AgentAdapter | GeminiAdapter | HermesAdapter
  | TerminalAdapter | PassthroughAdapter string

definition adapter_for :: "string \<Rightarrow> adapter" where
  "adapter_for tool =
     (if tool = ''claude'' then ClaudeAdapter
      else if tool = ''codex'' then CodexAdapter
      else if tool = ''cursor'' then CursorAdapter
      else if tool = ''agent'' then AgentAdapter
      else if tool = ''gemini'' then GeminiAdapter
      else if tool = ''hermes'' then HermesAdapter
      else if tool = ''terminal'' then TerminalAdapter
      else PassthroughAdapter tool)"

definition FIRST_CLASS :: "string list" where
  "FIRST_CLASS = [''claude'', ''codex'', ''cursor'', ''agent'', ''gemini'', ''hermes'']"

definition PASSTHROUGH_PROBED :: "string list" where
  "PASSTHROUGH_PROBED = [''opencode'', ''aider'']"

definition probed_tools :: "string list" where
  "probed_tools = FIRST_CLASS @ PASSTHROUGH_PROBED"

definition binary_for :: "string \<Rightarrow> string" where
  "binary_for tool = (if tool = ''cursor'' then ''cursor-agent'' else tool)"

fun adapter_name :: "adapter \<Rightarrow> string" where
  "adapter_name ClaudeAdapter = ''claude''"
| "adapter_name CodexAdapter = ''codex''"
| "adapter_name CursorAdapter = ''cursor''"
| "adapter_name AgentAdapter = ''agent''"
| "adapter_name GeminiAdapter = ''gemini''"
| "adapter_name HermesAdapter = ''hermes''"
| "adapter_name TerminalAdapter = ''terminal''"
| "adapter_name (PassthroughAdapter tool) = ''passthrough''"

fun yolo_flag :: "adapter \<Rightarrow> string option" where
  "yolo_flag ClaudeAdapter = Some ''--dangerously-skip-permissions''"
| "yolo_flag CodexAdapter = Some ''--dangerously-bypass-approvals-and-sandbox''"
| "yolo_flag CursorAdapter = Some ''--force''"
| "yolo_flag AgentAdapter = Some ''--force''"
| "yolo_flag GeminiAdapter = Some ''--yolo''"
| "yolo_flag HermesAdapter = Some ''--yolo''"
| "yolo_flag TerminalAdapter = None"
| "yolo_flag (PassthroughAdapter tool) = None"

fun compact_trigger :: "adapter \<Rightarrow> string option" where
  "compact_trigger ClaudeAdapter = Some ''/compact''"
| "compact_trigger CodexAdapter = Some ''/compact''"
| "compact_trigger _ = None"

fun crash_signatures :: "adapter \<Rightarrow> string list" where
  "crash_signatures ClaudeAdapter = [''redacted_thinking'', ''panic: cannot continue'']"
| "crash_signatures _ = []"

fun busy_signature :: "adapter \<Rightarrow> string option" where
  "busy_signature ClaudeAdapter = Some ''esc to interrupt''"
| "busy_signature _ = None"

fun awaiting_input_signatures :: "adapter \<Rightarrow> string list" where
  "awaiting_input_signatures ClaudeAdapter =
     [''Do you want to proceed?'',
      ''Do you want to make this edit'',
      ''Do you want to create'',
      [CHR 0xE2, CHR 0x9D, CHR 0xAF] @ '' 1. Yes'',
      ''Enter to select '' @ [CHR 0xC2, CHR 0xB7] @ '' '' @ [CHR 0xE2, CHR 0x86, CHR 0x91] @ ''/'' @
        [CHR 0xE2, CHR 0x86, CHR 0x93] @ '' to navigate'']"
| "awaiting_input_signatures _ = []"

fun is_agent :: "adapter \<Rightarrow> bool" where
  "is_agent TerminalAdapter = False"
| "is_agent (PassthroughAdapter tool) = (tool \<in> set PASSTHROUGH_PROBED)"
| "is_agent _ = True"

definition push_model :: "string list \<Rightarrow> session \<Rightarrow> string list" where
  "push_model argv s = (case s_model s of None \<Rightarrow> argv | Some m \<Rightarrow> argv @ [''--model='' @ m])"

definition push_user_flags :: "string list \<Rightarrow> session \<Rightarrow> string option \<Rightarrow> string list" where
  "push_user_flags argv s yolo = argv @ translate_yolo_marker (s_flags s) yolo"

definition claude_transcript_exists :: "local_env \<Rightarrow> session \<Rightarrow> bool" where
  "claude_transcript_exists e s =
     (case transcript_path_for (le_home e) (s_workdir s) (s_id s) of
        None \<Rightarrow> False | Some p \<Rightarrow> le_exists e p)"

definition launch_claude :: "session \<Rightarrow> bool \<Rightarrow> launch_command" where
  "launch_claude s resume =
     argv_only (push_user_flags
       (push_model [''claude''] s @ [if resume then ''--resume'' else ''--session-id'', s_id s])
       s (Some ''--dangerously-skip-permissions''))"

text \<open>The launch of the tools that take a model and the user's flags.\<close>

definition launch_plain :: "string list \<Rightarrow> session \<Rightarrow> string option \<Rightarrow> launch_command" where
  "launch_plain argv0 s yolo = argv_only (push_user_flags (push_model argv0 s) s yolo)"

definition Claude_launch :: "local_env \<Rightarrow> session \<Rightarrow> launch_command" where
  "Claude_launch e s = launch_claude s (claude_transcript_exists e s)"

definition Claude_launch_remote :: "session \<Rightarrow> remote_launch_context \<Rightarrow> launch_command" where
  "Claude_launch_remote s ctx = launch_claude s (rl_claude_transcript_exists ctx)"

definition Codex_launch :: "session \<Rightarrow> launch_command" where
  "Codex_launch s = launch_plain [''codex''] s (yolo_flag CodexAdapter)"

definition Cursor_launch :: "session \<Rightarrow> launch_command" where
  "Cursor_launch s = launch_plain [''cursor-agent''] s (yolo_flag CursorAdapter)"

definition Agent_launch :: "session \<Rightarrow> launch_command" where
  "Agent_launch s = launch_plain [''agent''] s (yolo_flag AgentAdapter)"

definition Gemini_launch :: "session \<Rightarrow> launch_command" where
  "Gemini_launch s = launch_plain [''gemini''] s (yolo_flag GeminiAdapter)"

definition Hermes_launch :: "session \<Rightarrow> launch_command" where
  "Hermes_launch s = launch_plain [''hermes'', ''chat''] s (yolo_flag HermesAdapter)"

definition Terminal_launch :: "local_env \<Rightarrow> session \<Rightarrow> launch_command" where
  "Terminal_launch e s =
     argv_only (push_user_flags [case le_shell e of None \<Rightarrow> ''bash'' | Some sh \<Rightarrow> sh] s
       (yolo_flag TerminalAdapter))"

definition Terminal_launch_remote :: "session \<Rightarrow> remote_launch_context \<Rightarrow> launch_command" where
  "Terminal_launch_remote s ctx = argv_only (push_user_flags [remote_shell ctx] s (yolo_flag TerminalAdapter))"

definition Passthrough_launch :: "string \<Rightarrow> session \<Rightarrow> launch_command" where
  "Passthrough_launch tool s = launch_plain [tool] s (yolo_flag (PassthroughAdapter tool))"

text \<open>The dynamic dispatch on the adapter, and the default of the trait for remote launches.\<close>

fun launch :: "local_env \<Rightarrow> adapter \<Rightarrow> session \<Rightarrow> launch_command" where
  "launch e ClaudeAdapter s = Claude_launch e s"
| "launch e CodexAdapter s = Codex_launch s"
| "launch e CursorAdapter s = Cursor_launch s"
| "launch e AgentAdapter s = Agent_launch s"
| "launch e GeminiAdapter s = Gemini_launch s"
| "launch e HermesAdapter s = Hermes_launch s"
| "launch e TerminalAdapter s = Terminal_launch e s"
| "launch e (PassthroughAdapter tool) s = Passthrough_launch tool s"

fun launch_remote :: "local_env \<Rightarrow> adapter \<Rightarrow> session \<Rightarrow> remote_launch_context \<Rightarrow> launch_command" where
  "launch_remote e ClaudeAdapter s ctx = Claude_launch_remote s ctx"
| "launch_remote e TerminalAdapter s ctx = Terminal_launch_remote s ctx"
| "launch_remote e a s ctx = launch e a s"

section \<open>MCP servers\<close>

fun valid_env_name :: "string \<Rightarrow> bool" where
  "valid_env_name [] = False"
| "valid_env_name (b # bs) =
     ((is_ascii_upper b \<or> is_ascii_lower b \<or> b = CHR ''_'') \<and>
      list_all (\<lambda>c. is_ascii_alphanumeric c \<or> c = CHR ''_'') bs)"

text \<open>\<open>Inl\<close>: the loop's \<open>continue\<close>; \<open>Inr\<close>: the variable to reference, if any.\<close>

definition codex_auth :: "mcp_server \<Rightarrow> unit + string option" where
  "codex_auth s =
     (case (ms_auth_token s, ms_auth_env_var s) of
        (Some _, Some name) \<Rightarrow> if valid_env_name name then Inr (Some name) else Inl ()
      | (Some _, None) \<Rightarrow> Inl ()
      | (None, _) \<Rightarrow> Inr None)"

definition codex_server_args :: "mcp_server \<Rightarrow> string list" where
  "codex_server_args s =
     (case codex_auth s of
        Inl _ \<Rightarrow> []
      | Inr auth_env_var \<Rightarrow>
          [''-c'', ''mcp_servers.'' @ ms_name s @ ''.type=\"http\"'',
           ''-c'', ''mcp_servers.'' @ ms_name s @ ''.url=\"'' @ ms_url s @ ''\"''] @
          (case auth_env_var of
             None \<Rightarrow> []
           | Some env_name \<Rightarrow>
               [''-c'', ''mcp_servers.'' @ ms_name s @ ''.bearer_token_env_var=\"'' @ env_name @ ''\"'']))"

fun codex_mcp_args :: "mcp_server list \<Rightarrow> string list \<Rightarrow> string list" where
  "codex_mcp_args [] args = args"
| "codex_mcp_args (s # ss) args = codex_mcp_args ss (args @ codex_server_args s)"

definition codex_server_env :: "mcp_server \<Rightarrow> (string \<times> string) option" where
  "codex_server_env s =
     (case ms_auth_token s of
        None \<Rightarrow> None
      | Some token \<Rightarrow>
          (case ms_auth_env_var s of
             None \<Rightarrow> None
           | Some name \<Rightarrow> if valid_env_name name then Some (name, token) else None))"

fun mcp_args :: "adapter \<Rightarrow> mcp_provision \<Rightarrow> string list" where
  "mcp_args ClaudeAdapter p = [''--mcp-config'', mp_config_file p]"
| "mcp_args CodexAdapter p = codex_mcp_args (mp_servers p) []"
| "mcp_args _ p = []"

fun mcp_env :: "adapter \<Rightarrow> mcp_provision \<Rightarrow> (string \<times> string) list" where
  "mcp_env CodexAdapter p = List.map_filter codex_server_env (mp_servers p)"
| "mcp_env _ p = []"

definition apply_mcp :: "adapter \<Rightarrow> launch_command \<Rightarrow> mcp_provision \<Rightarrow> launch_command" where
  "apply_mcp a l p = \<lparr>lc_argv = lc_argv l @ mcp_args a p, lc_env = lc_env l @ mcp_env a p\<rparr>"

section \<open>The contract of an adapter\<close>

text \<open>
  \<open>same_but_tokens p q\<close>: two provisions that agree on everything an observer of the process table
  may see, and differ at most in the values of the bearer tokens.
\<close>

definition server_public :: "mcp_server \<Rightarrow> string \<times> string \<times> bool \<times> string option" where
  "server_public s = (ms_name s, ms_url s, ms_auth_token s = None, ms_auth_env_var s)"

definition same_but_tokens :: "mcp_provision \<Rightarrow> mcp_provision \<Rightarrow> bool" where
  "same_but_tokens p q \<longleftrightarrow>
     map server_public (mp_servers p) = map server_public (mp_servers q) \<and>
     mp_config_file p = mp_config_file q"

text \<open>
  What the launch sites rely on. \<open>head\<close> is the part of the command line the adapter builds
  itself; the user's flags follow it, translated, and nothing else does. The MCP arguments do not
  depend on the tokens, and the only environment a launch carries is the one the MCP wiring adds.
\<close>

locale tool_adapter =
  fixes head_of :: "session \<Rightarrow> string list"
    and launch_of :: "session \<Rightarrow> launch_command"
    and yolo :: "string option"
    and args_of :: "mcp_provision \<Rightarrow> string list"
    and env_of :: "mcp_provision \<Rightarrow> (string \<times> string) list"
  assumes launch_argv: "lc_argv (launch_of s) = head_of s @ translate_yolo_marker (s_flags s) yolo"
    and launch_env: "lc_env (launch_of s) = []"
    and head_flags: "head_of (s\<lparr>s_flags := fs\<rparr>) = head_of s"
    and args_public: "same_but_tokens p q \<Longrightarrow> args_of p = args_of q"
    and env_tokens: "(n, t) \<in> set (env_of p) \<Longrightarrow>
        \<exists>m \<in> set (mp_servers p). ms_auth_token m = Some t \<and> ms_auth_env_var m = Some n"
begin

lemma argv_public:
  assumes "same_but_tokens p q"
  shows "lc_argv (launch_of s) @ args_of p = lc_argv (launch_of s) @ args_of q"
  using args_public [OF assms] by simp

lemma marker_translated:
  assumes "yolo \<noteq> Some YOLO_MARKER"
  shows "YOLO_MARKER \<in> set (lc_argv (launch_of s)) \<longleftrightarrow> YOLO_MARKER \<in> set (head_of s)"
  using assms by (auto simp: launch_argv translate_yolo_marker_def List.map_filter_def split: if_splits)

lemma flags_kept:
  assumes "f \<in> set (s_flags s)" and "f \<noteq> YOLO_MARKER"
  shows "f \<in> set (lc_argv (launch_of s))"
  using assms by (force simp: launch_argv translate_yolo_marker_def List.map_filter_def)

lemma no_marker_verbatim:
  assumes "YOLO_MARKER \<notin> set (s_flags s)"
  shows "lc_argv (launch_of s) = head_of s @ s_flags s"
proof -
  have "List.map_filter (\<lambda>f. if f = YOLO_MARKER then yolo else Some f) fs = fs"
    if "YOLO_MARKER \<notin> set fs" for fs
    using that by (induction fs) (auto simp: List.map_filter_simps)
  with assms show ?thesis by (simp add: launch_argv translate_yolo_marker_def)
qed

end

section \<open>Every adapter meets the contract\<close>

text \<open>The part of the command line that precedes the user's flags.\<close>

fun adapter_head :: "local_env \<Rightarrow> adapter \<Rightarrow> session \<Rightarrow> string list" where
  "adapter_head e ClaudeAdapter s =
     push_model [''claude''] s @
       [if claude_transcript_exists e s then ''--resume'' else ''--session-id'', s_id s]"
| "adapter_head e CodexAdapter s = push_model [''codex''] s"
| "adapter_head e CursorAdapter s = push_model [''cursor-agent''] s"
| "adapter_head e AgentAdapter s = push_model [''agent''] s"
| "adapter_head e GeminiAdapter s = push_model [''gemini''] s"
| "adapter_head e HermesAdapter s = push_model [''hermes'', ''chat''] s"
| "adapter_head e TerminalAdapter s = [case le_shell e of None \<Rightarrow> ''bash'' | Some sh \<Rightarrow> sh]"
| "adapter_head e (PassthroughAdapter tool) s = push_model [tool] s"

fun remote_head :: "local_env \<Rightarrow> remote_launch_context \<Rightarrow> adapter \<Rightarrow> session \<Rightarrow> string list" where
  "remote_head e ctx ClaudeAdapter s =
     push_model [''claude''] s @
       [if rl_claude_transcript_exists ctx then ''--resume'' else ''--session-id'', s_id s]"
| "remote_head e ctx TerminalAdapter s = [remote_shell ctx]"
| "remote_head e ctx a s = adapter_head e a s"

lemmas launch_defs = Claude_launch_def Claude_launch_remote_def Codex_launch_def Cursor_launch_def
  Agent_launch_def Gemini_launch_def Hermes_launch_def Terminal_launch_def
  Terminal_launch_remote_def Passthrough_launch_def launch_claude_def launch_plain_def argv_only_def push_user_flags_def

lemma push_model_flags [simp]: "push_model argv (s\<lparr>s_flags := fs\<rparr>) = push_model argv s"
  by (simp add: push_model_def split: option.splits)

lemma claude_transcript_flags [simp]:
  "claude_transcript_exists e (s\<lparr>s_flags := fs\<rparr>) = claude_transcript_exists e s"
  by (simp add: claude_transcript_exists_def)

lemma codex_mcp_args_eq: "codex_mcp_args ss args = args @ concat (map codex_server_args ss)"
  by (induction ss arbitrary: args) auto

lemma codex_server_args_public:
  "server_public s = server_public t \<Longrightarrow> codex_server_args s = codex_server_args t"
  by (auto simp: server_public_def codex_server_args_def codex_auth_def split: option.splits)

lemma map_eq_through:
  assumes "\<And>x y. f x = f y \<Longrightarrow> g x = g y"
  shows "map f xs = map f ys \<Longrightarrow> map g xs = map g ys"
proof (induction xs arbitrary: ys)
  case (Cons x xs)
  then obtain y zs where "ys = y # zs" by (cases ys) auto
  with Cons assms [of x y] show ?case by simp
qed simp

lemma mcp_args_public:
  assumes "same_but_tokens p q"
  shows "mcp_args a p = mcp_args a q"
proof -
  have "map codex_server_args (mp_servers p) = map codex_server_args (mp_servers q)"
    using assms by (intro map_eq_through [OF codex_server_args_public]) (auto simp: same_but_tokens_def)
  then show ?thesis
    using assms by (cases a) (simp_all add: same_but_tokens_def codex_mcp_args_eq)
qed

lemma mcp_env_tokens:
  "(n, t) \<in> set (mcp_env a p) \<longleftrightarrow> a = CodexAdapter \<and>
     (\<exists>m \<in> set (mp_servers p). ms_auth_token m = Some t \<and> ms_auth_env_var m = Some n \<and> valid_env_name n)"
  by (cases a) (auto simp: List.map_filter_def codex_server_env_def image_iff split: option.splits)

interpretation local_adapter: tool_adapter "adapter_head e a" "launch e a" "yolo_flag a" "mcp_args a" "mcp_env a"
  for e a
proof unfold_locales
  fix s fs
  show "lc_argv (launch e a s) = adapter_head e a s @ translate_yolo_marker (s_flags s) (yolo_flag a)"
    by (cases a) (simp_all add: launch_defs)
  show "lc_env (launch e a s) = []"
    by (cases a) (simp_all add: launch_defs)
  show "adapter_head e a (s\<lparr>s_flags := fs\<rparr>) = adapter_head e a s"
    by (cases a) simp_all
qed (auto simp: mcp_env_tokens intro: mcp_args_public)

interpretation remote_adapter: tool_adapter "remote_head e ctx a" "\<lambda>s. launch_remote e a s ctx"
    "yolo_flag a" "mcp_args a" "mcp_env a"
  for e ctx a
proof unfold_locales
  fix s fs
  show "lc_argv (launch_remote e a s ctx) = remote_head e ctx a s @ translate_yolo_marker (s_flags s) (yolo_flag a)"
    by (cases a) (simp_all add: launch_defs)
  show "lc_env (launch_remote e a s ctx) = []"
    by (cases a) (simp_all add: launch_defs)
  show "remote_head e ctx a (s\<lparr>s_flags := fs\<rparr>) = remote_head e ctx a s"
    by (cases a) simp_all
qed (auto simp: mcp_env_tokens intro: mcp_args_public)

lemma yolo_flag_marker: "yolo_flag a = Some YOLO_MARKER \<longleftrightarrow> a = ClaudeAdapter"
  by (cases a) (simp_all add: YOLO_MARKER_def)

lemma push_model_marker:
  "YOLO_MARKER \<in> set (push_model argv s) \<longleftrightarrow> YOLO_MARKER \<in> set argv"
  by (auto simp: push_model_def YOLO_MARKER_def split: option.splits)

lemma marker_not_binary:
  "YOLO_MARKER \<noteq> ''codex''" "YOLO_MARKER \<noteq> ''cursor-agent''" "YOLO_MARKER \<noteq> ''agent''"
  "YOLO_MARKER \<noteq> ''gemini''" "YOLO_MARKER \<noteq> ''hermes''" "YOLO_MARKER \<noteq> ''chat''"
  "YOLO_MARKER \<noteq> ''bash''"
  by (simp_all add: YOLO_MARKER_def)

lemma head_marker:
  "a \<noteq> ClaudeAdapter \<Longrightarrow> YOLO_MARKER \<in> set (adapter_head e a s) \<longleftrightarrow>
     (a = PassthroughAdapter YOLO_MARKER \<or> a = TerminalAdapter \<and> le_shell e = Some YOLO_MARKER)"
  by (cases a) (auto simp: push_model_marker marker_not_binary split: option.splits)

lemma remote_shell_marker: "remote_shell ctx = YOLO_MARKER \<Longrightarrow> rl_shell ctx = YOLO_MARKER"
  by (auto simp: remote_shell_def YOLO_MARKER_def split: if_splits)

section \<open>Properties\<close>

text \<open>
  The tokens of MCP servers are confidential: for every adapter, locally and over SSH, two
  provisions that differ only in the token values give the same command line, and a token reaches
  the child only as the value of the environment variable its own server names.
\<close>

theorem mcp_tokens_stay_out_of_argv:
  assumes "same_but_tokens p q"
  shows "lc_argv (apply_mcp a (launch e a s) p) = lc_argv (apply_mcp a (launch e a s) q) \<and>
    lc_argv (apply_mcp a (launch_remote e a s ctx) p) = lc_argv (apply_mcp a (launch_remote e a s ctx) q) \<and>
    (\<forall>(n, t) \<in> set (lc_env (apply_mcp a (launch e a s) p)).
       \<exists>m \<in> set (mp_servers p). ms_auth_token m = Some t \<and> ms_auth_env_var m = Some n)"
  using local_adapter.argv_public [OF assms] remote_adapter.argv_public [OF assms]
    local_adapter.env_tokens [of _ _ a p] local_adapter.launch_env
  by (auto simp: apply_mcp_def)

theorem mcp_tokens_stay_out_of_argv_witness:
  "lc_argv (apply_mcp CodexAdapter (argv_only [''codex''])
      \<lparr>mp_servers = [\<lparr>ms_name = ''a'', ms_url = ''u'', ms_auth_token = Some ''s1'', ms_auth_env_var = Some ''V''\<rparr>],
       mp_config_file = ''f''\<rparr>) =
   lc_argv (apply_mcp CodexAdapter (argv_only [''codex''])
      \<lparr>mp_servers = [\<lparr>ms_name = ''a'', ms_url = ''u'', ms_auth_token = Some ''s2'', ms_auth_env_var = Some ''V''\<rparr>],
       mp_config_file = ''f''\<rparr>)"
  using mcp_tokens_stay_out_of_argv [where a = CodexAdapter
      and p = "\<lparr>mp_servers = [\<lparr>ms_name = ''a'', ms_url = ''u'', ms_auth_token = Some ''s1'', ms_auth_env_var = Some ''V''\<rparr>], mp_config_file = ''f''\<rparr>"
      and q = "\<lparr>mp_servers = [\<lparr>ms_name = ''a'', ms_url = ''u'', ms_auth_token = Some ''s2'', ms_auth_env_var = Some ''V''\<rparr>], mp_config_file = ''f''\<rparr>"]
  by (simp add: same_but_tokens_def server_public_def apply_mcp_def)

text \<open>
  Codex fails closed: a server with a token but no valid environment variable name
  contributes nothing, neither an argument nor a variable; and every server that has a token and
  a valid name gets its token in the environment.
\<close>

theorem codex_malformed_auth_fails_closed:
  assumes bad: "ms_auth_token m = Some t"
      "\<forall>n. ms_auth_env_var m = Some n \<longrightarrow> \<not> valid_env_name n"
    and p: "mp_servers p = xs @ m # ys"
  shows "mcp_args CodexAdapter p = mcp_args CodexAdapter (p\<lparr>mp_servers := xs @ ys\<rparr>) \<and>
    mcp_env CodexAdapter p = mcp_env CodexAdapter (p\<lparr>mp_servers := xs @ ys\<rparr>) \<and>
    (\<forall>g \<in> set (mp_servers p). \<forall>n u. ms_auth_token g = Some u \<and> ms_auth_env_var g = Some n \<and> valid_env_name n \<longrightarrow>
       (n, u) \<in> set (mcp_env CodexAdapter p))"
proof -
  have "codex_server_args m = []" "codex_server_env m = None"
    using bad by (auto simp: codex_server_args_def codex_auth_def codex_server_env_def split: option.splits)
  then show ?thesis
    using p mcp_env_tokens [of _ _ CodexAdapter p]
    by (auto simp: codex_mcp_args_eq map_filter_append List.map_filter_simps)
qed

theorem codex_malformed_auth_fails_closed_witness:
  "mcp_args CodexAdapter
     \<lparr>mp_servers = [\<lparr>ms_name = ''a'', ms_url = ''u'', ms_auth_token = Some ''s'', ms_auth_env_var = Some ''1V''\<rparr>],
      mp_config_file = ''f''\<rparr> = []"
  using codex_malformed_auth_fails_closed [where xs = "[]" and ys = "[]" and t = "''s''"
      and m = "\<lparr>ms_name = ''a'', ms_url = ''u'', ms_auth_token = Some ''s'', ms_auth_env_var = Some ''1V''\<rparr>"
      and p = "\<lparr>mp_servers = [\<lparr>ms_name = ''a'', ms_url = ''u'', ms_auth_token = Some ''s'', ms_auth_env_var = Some ''1V''\<rparr>], mp_config_file = ''f''\<rparr>"]
  by (simp add: is_ascii_upper_def is_ascii_lower_def)

text \<open>
  The YOLO marker never leaks to a tool that is not Claude: on the command line of any other
  adapter it can only be the binary itself (a tool or a shell of that name), and every other flag
  of the user is passed on.
\<close>

theorem yolo_marker_does_not_leak:
  assumes "a \<noteq> ClaudeAdapter" and "a \<noteq> PassthroughAdapter YOLO_MARKER"
    and "le_shell e \<noteq> Some YOLO_MARKER"
  shows "YOLO_MARKER \<notin> set (lc_argv (launch e a s)) \<and>
    (\<forall>f \<in> set (s_flags s). f = YOLO_MARKER \<or> f \<in> set (lc_argv (launch e a s)))"
  using assms local_adapter.marker_translated [of a e s] local_adapter.flags_kept [of _ s e a]
  by (auto simp: head_marker yolo_flag_marker)

definition sample_session :: "string \<Rightarrow> string list \<Rightarrow> session" where
  "sample_session tool flags =
     \<lparr>s_id = ''id'', s_name = ''n'', s_workdir = ''/w'', s_tool = tool, s_model = None, s_flags = flags,
      s_status = Status_Idle, s_tmux_target = None, s_host_id = None, s_host_label = None,
      s_host_kind = None, s_created_at = 0, s_updated_at = 0, s_last_activity_at = None,
      s_tokens = None, s_cost_usd = None, s_ctx = None, s_last_log = None, s_uptime_seconds = None,
      s_state = None, s_pinned = False, s_card_id = None, s_worktree_path = None,
      s_worktree_branch = None, s_worktree_base_ref = None\<rparr>"

theorem yolo_marker_does_not_leak_witness:
  "YOLO_MARKER \<notin> set (lc_argv (launch \<lparr>le_shell = None, le_home = None, le_exists = (\<lambda>_. False)\<rparr>
      GeminiAdapter (sample_session ''gemini'' [YOLO_MARKER])))"
  using yolo_marker_does_not_leak [where a = GeminiAdapter and s = "sample_session ''gemini'' [YOLO_MARKER]"
      and e = "\<lparr>le_shell = None, le_home = None, le_exists = (\<lambda>_. False)\<rparr>"]
  by simp

end
