(* ===== verification/Sql.thy ===== *)
theory Sql
  imports Agentum_Prelude "HOL-Library.Multiset"
begin

text \<open>
  The statements of SQLite the store uses, on tables that are lists of rows in \<open>rowid\<close> order:
  selection, conditional update and delete with their count of affected rows, the uniqueness
  constraints, and \<open>ORDER BY\<close> as a stable insertion sort. The second half is the contract of a
  keyed table, the locale \<open>keyed_table\<close>: a column of a table of the database whose values are
  unique, with what insertion, update and deletion do to lookups by that column.
\<close>

section \<open>Statements\<close>

definition sql_find :: "('r \<Rightarrow> bool) \<Rightarrow> 'r list \<Rightarrow> 'r option" where
  "sql_find p rows = find p rows"

definition sql_update :: "('r \<Rightarrow> bool) \<Rightarrow> ('r \<Rightarrow> 'r) \<Rightarrow> 'r list \<Rightarrow> 'r list" where
  "sql_update p f rows = map (\<lambda>r. if p r then f r else r) rows"

definition sql_delete :: "('r \<Rightarrow> bool) \<Rightarrow> 'r list \<Rightarrow> 'r list" where
  "sql_delete p rows = filter (\<lambda>r. \<not> p r) rows"

text \<open>\<open>rows_affected()\<close> of an update or delete, and \<open>SELECT COUNT\<close>.\<close>

definition sql_count :: "('r \<Rightarrow> bool) \<Rightarrow> 'r list \<Rightarrow> nat" where
  "sql_count p rows = length (filter p rows)"

text \<open>A unique index: two different rows never hold the same value.\<close>

definition unique_on :: "('r \<Rightarrow> 'k) \<Rightarrow> 'r list \<Rightarrow> bool" where
  "unique_on key rows = distinct (map key rows)"

fun insort_by :: "('r \<Rightarrow> 'r \<Rightarrow> bool) \<Rightarrow> 'r \<Rightarrow> 'r list \<Rightarrow> 'r list" where
  "insort_by le x [] = [x]"
| "insort_by le x (y # ys) = (if le x y then x # y # ys else y # insort_by le x ys)"

definition order_by :: "('r \<Rightarrow> 'r \<Rightarrow> bool) \<Rightarrow> 'r list \<Rightarrow> 'r list" where
  "order_by le rows = foldr (insort_by le) rows []"

text \<open>Sort terms: \<open>asc k\<close>, \<open>desc k\<close>, and a later term that decides ties.\<close>

definition asc :: "('r \<Rightarrow> 'k :: linorder) \<Rightarrow> 'r \<Rightarrow> 'r \<Rightarrow> bool" where
  "asc k x y = (k x \<le> k y)"

definition desc :: "('r \<Rightarrow> 'k :: linorder) \<Rightarrow> 'r \<Rightarrow> 'r \<Rightarrow> bool" where
  "desc k x y = (k y \<le> k x)"

definition then_by :: "('r \<Rightarrow> 'r \<Rightarrow> bool) \<Rightarrow> ('r \<Rightarrow> 'r \<Rightarrow> bool) \<Rightarrow> 'r \<Rightarrow> 'r \<Rightarrow> bool" where
  "then_by le1 le2 x y = (le1 x y \<and> (\<not> le1 y x \<or> le2 x y))"

section \<open>Lemmas\<close>

lemma sql_find_Some: "sql_find p rows = Some r \<Longrightarrow> r \<in> set rows \<and> p r"
  by (auto simp: sql_find_def find_Some_iff)

lemma sql_find_None: "sql_find p rows = None \<longleftrightarrow> (\<forall>r \<in> set rows. \<not> p r)"
  by (auto simp: sql_find_def find_None_iff)

lemma sql_count_0: "sql_count p rows = 0 \<longleftrightarrow> (\<forall>r \<in> set rows. \<not> p r)"
  by (auto simp: sql_count_def filter_empty_conv)

lemma sql_count_pos: "0 < sql_count p rows \<longleftrightarrow> (\<exists>r \<in> set rows. p r)"
  using sql_count_0 [of p rows] by auto

lemma set_sql_update: "set (sql_update p f rows) = (\<lambda>r. if p r then f r else r) ` set rows"
  by (simp add: sql_update_def)

lemma bex_sql_update:
  "(\<exists>x \<in> set (sql_update p f rows). Q x) \<longleftrightarrow>
     (\<exists>r \<in> set rows. p r \<and> Q (f r)) \<or> (\<exists>r \<in> set rows. \<not> p r \<and> Q r)"
  by (auto simp: set_sql_update)

lemma set_sql_delete: "set (sql_delete p rows) = {r \<in> set rows. \<not> p r}"
  by (auto simp: sql_delete_def)

lemma sql_update_none: "(\<And>r. r \<in> set rows \<Longrightarrow> \<not> p r) \<Longrightarrow> sql_update p f rows = rows"
  by (auto simp: sql_update_def intro: map_idI)

lemma map_sql_update:
  assumes "\<And>r. p r \<Longrightarrow> key (f r) = key r"
  shows "map key (sql_update p f rows) = map key rows"
  using assms by (simp add: sql_update_def)

lemma mset_insort_by: "mset (insort_by le x xs) = add_mset x (mset xs)"
  by (induction xs) auto

lemma mset_order_by [simp]: "mset (order_by le rows) = mset rows"
  unfolding order_by_def by (induction rows) (auto simp: mset_insort_by)

lemma set_order_by [simp]: "set (order_by le rows) = set rows"
  by (metis mset_order_by set_mset_mset)

lemma length_order_by [simp]: "length (order_by le rows) = length rows"
  by (metis mset_order_by size_mset)

lemma sorted_insort_by:
  assumes total: "\<And>x y. le x y \<or> le y x" and trans: "\<And>x y z. le x y \<Longrightarrow> le y z \<Longrightarrow> le x z"
    and "sorted_wrt le xs"
  shows "sorted_wrt le (insort_by le x xs)"
  using assms(3)
proof (induction xs)
  case (Cons y ys)
  have "set (insort_by le x ys) = insert x (set ys)"
    using arg_cong [OF mset_insort_by [of le x ys], of set_mset] by simp
  with Cons total [of x y] show ?case by (auto dest: trans)
qed simp

lemma sorted_order_by:
  assumes "\<And>x y. le x y \<or> le y x" and "\<And>x y z. le x y \<Longrightarrow> le y z \<Longrightarrow> le x z"
  shows "sorted_wrt le (order_by le rows)"
  unfolding order_by_def
  by (induction rows) (auto intro!: sorted_insort_by [OF assms])

lemma desc_order [intro]:
  "desc k x y \<or> desc k y x" "desc k x y \<Longrightarrow> desc k y z \<Longrightarrow> desc k x z"
  by (auto simp: desc_def)

lemma asc_order [intro]:
  "asc k x y \<or> asc k y x" "asc k x y \<Longrightarrow> asc k y z \<Longrightarrow> asc k x z"
  by (auto simp: asc_def)

lemma unique_on_find:
  assumes "unique_on key rows" and "r \<in> set rows" and "key r = k"
  shows "sql_find (\<lambda>r. key r = k) rows = Some r"
  using assms
proof (induction rows)
  case (Cons x xs)
  then show ?case by (auto simp: unique_on_def sql_find_def image_iff)
qed simp

lemma unique_on_same:
  "unique_on key rows \<Longrightarrow> r \<in> set rows \<Longrightarrow> q \<in> set rows \<Longrightarrow> key r = key q \<Longrightarrow> r = q"
  unfolding unique_on_def by (metis distinct_map inj_onD)

lemma unique_on_snoc:
  "unique_on key (rows @ [r]) \<longleftrightarrow> unique_on key rows \<and> (\<forall>q \<in> set rows. key q \<noteq> key r)"
  unfolding unique_on_def by (simp add: image_iff) (metis (full_types))

lemma unique_on_update:
  assumes "unique_on key rows" and "\<And>r. p r \<Longrightarrow> key (f r) = key r"
  shows "unique_on key (sql_update p f rows)"
  using assms by (simp add: unique_on_def map_sql_update)

lemma unique_on_delete: "unique_on key rows \<Longrightarrow> unique_on key (sql_delete p rows)"
  by (simp add: unique_on_def sql_delete_def distinct_map_filter)

lemma unique_on_count:
  assumes "unique_on key rows" and "\<And>r. p r \<Longrightarrow> key r = k"
  shows "sql_count p rows \<le> 1"
  using assms(1)
proof (induction rows)
  case (Cons x xs)
  then have "sql_count p xs \<le> 1" by (simp add: unique_on_def)
  moreover have "sql_count p xs = 0" if "p x"
    using Cons.prems assms(2) [OF that] assms(2) unfolding sql_count_0 unique_on_def
    by (metis distinct.simps(2) image_eqI list.set_map list.simps(9))
  ultimately show ?case by (auto simp: sql_count_def)
qed (simp add: sql_count_def)

lemma find_update_other:
  assumes "\<And>r. p r \<Longrightarrow> key (f r) = key r"
  shows "sql_find (\<lambda>r. key r = k) (sql_update p f rows) =
     map_option (\<lambda>r. if p r then f r else r) (sql_find (\<lambda>r. key r = k) rows)"
  using assms by (induction rows) (auto simp: sql_find_def sql_update_def)

lemma find_update_no_match:
  assumes "\<And>r. p r \<Longrightarrow> key (f r) = key r" "\<And>r. p r \<Longrightarrow> key r \<noteq> k"
  shows "sql_find (\<lambda>r. key r = k) (sql_update p f rows) = sql_find (\<lambda>r. key r = k) rows"
  using assms by (induction rows) (auto simp: sql_find_def sql_update_def)

lemma find_snoc:
  "sql_find p (rows @ [r]) = (case sql_find p rows of Some q \<Rightarrow> Some q | None \<Rightarrow> if p r then Some r else None)"
  by (induction rows) (auto simp: sql_find_def)

lemma find_delete:
  "sql_find q (sql_delete p rows) = sql_find (\<lambda>r. q r \<and> \<not> p r) rows"
  by (induction rows) (auto simp: sql_find_def sql_delete_def)

section \<open>Keyed tables\<close>

text \<open>
  A table of a database \<open>'d\<close> as the store uses it: \<open>rows\<close> reads it, \<open>put\<close> replaces it, \<open>key\<close> is a
  unique column. The laws say that \<open>put\<close> and \<open>rows\<close> fit together; the client's facts are what
  one statement does to a lookup by the key.
\<close>

locale keyed_table =
  fixes rows :: "'d \<Rightarrow> 'r list"
    and put :: "'r list \<Rightarrow> 'd \<Rightarrow> 'd"
    and key :: "'r \<Rightarrow> 'k"
  assumes rows_put: "rows (put rs d) = rs"
    and put_rows: "put (rows d) d = d"
    and put_put: "put rs (put rs' d) = put rs d"
begin

lemma unique_insert:
  assumes "unique_on key (rows d)" and "sql_find (\<lambda>q. key q = key r) (rows d) = None"
  shows "unique_on key (rows (put (rows d @ [r]) d))"
  using assms by (auto simp: rows_put unique_on_snoc sql_find_None)

lemma lookup_insert:
  assumes "sql_find (\<lambda>q. key q = key r) (rows d) = None"
  shows "sql_find (\<lambda>q. key q = k) (rows (put (rows d @ [r]) d)) =
    (if k = key r then Some r else sql_find (\<lambda>q. key q = k) (rows d))"
  using assms by (auto simp: rows_put find_snoc split: option.splits)

lemma unique_update:
  assumes "unique_on key (rows d)" and "\<And>r. p r \<Longrightarrow> key (f r) = key r"
  shows "unique_on key (rows (put (sql_update p f (rows d)) d))"
  using assms by (simp add: rows_put unique_on_update)

lemma lookup_update:
  assumes "\<And>r. p r \<Longrightarrow> key (f r) = key r"
  shows "sql_find (\<lambda>q. key q = k) (rows (put (sql_update p f (rows d)) d)) =
    map_option (\<lambda>r. if p r then f r else r) (sql_find (\<lambda>q. key q = k) (rows d))"
  using assms by (simp add: rows_put find_update_other)

lemma update_nothing:
  assumes "sql_count p (rows d) = 0"
  shows "put (sql_update p f (rows d)) d = d"
  using assms sql_update_none [of "rows d" p f] by (simp add: sql_count_0 put_rows)

lemma unique_delete:
  "unique_on key (rows d) \<Longrightarrow> unique_on key (rows (put (sql_delete p (rows d)) d))"
  by (simp add: rows_put unique_on_delete)

lemma lookup_delete_key:
  "sql_find (\<lambda>q. key q = k) (rows (put (sql_delete (\<lambda>q. key q = k) (rows d)) d)) = None"
  by (simp add: rows_put sql_find_None set_sql_delete)

end

end
