(* ===== verification/Store_Db.thy ===== *)
theory Store_Db
  imports Sql Core_Types Board_Schema
begin

text \<open>
  The database of \<open>crates/agentum-store\<close>: its rows as the migrations declare them (dates, ids and
  lists as text), the state \<open>db\<close> with one list of rows per table and the counters of the
  autoincrement columns, the conversions \<open>TryFrom\<close> from rows to values, and \<open>StoreError\<close>.

  The formatters and parsers of RFC 3339 dates, of JSON documents and of UUIDs are the record
  \<open>codec\<close>; \<open>codec_ok\<close> states what is documented of them: parsing what was printed gives the value
  back, the parser of UUIDs accepts the canonical text. Columns that no modelled operation
  reads or writes (the hook and provisioning columns of \<open>sessions\<close>, the tracker columns of
  \<open>board_items\<close>) are left out.
\<close>

section \<open>Errors\<close>

datatype sqlx_error = Sqlx_UniqueViolation | Sqlx_ForeignKeyViolation | Sqlx_RowNotFound

datatype store_error =
    StoreError_Sqlx sqlx_error
  | StoreError_Json
  | StoreError_TimeParse
  | StoreError_Uuid
  | StoreError_Core core_error
  | StoreError_NotFound string
  | StoreError_AlreadyExists string

section \<open>Rows\<close>

record host_row =
  hr_id :: string
  hr_name :: string
  hr_kind :: string
  hr_user :: "string option"
  hr_hostname :: "string option"
  hr_port :: "int option"
  hr_auth_kind :: "string option"
  hr_key_path :: "string option"
  hr_secret :: "string option"
  hr_created_at :: string
  hr_updated_at :: string
  hr_last_seen_at :: "string option"

record session_row =
  sr_id :: string
  sr_name :: string
  sr_workdir :: string
  sr_tool :: string
  sr_model :: "string option"
  sr_flags :: string
  sr_status :: string
  sr_tmux_target :: "string option"
  sr_host_id :: "string option"
  sr_created_at :: string
  sr_updated_at :: string
  sr_last_activity_at :: "string option"
  sr_tokens :: "int option"
  sr_cost_usd :: "64 word option"
  sr_ctx :: "int option"
  sr_last_log :: "string option"
  sr_uptime_seconds :: "int option"
  sr_state :: "string option"
  sr_pinned :: int
  sr_card_id :: "int option"
  sr_worktree_path :: "string option"
  sr_worktree_branch :: "string option"
  sr_worktree_base_ref :: "string option"

record event_row =
  er_id :: int
  er_session_id :: "string option"
  er_kind :: string
  er_payload :: string
  er_ts :: string

record board_item_row =
  br_id :: int
  br_key :: string
  br_title :: string
  br_body :: "string option"
  br_status :: string
  br_claimed_by :: "string option"
  br_created_at :: string
  br_updated_at :: string
  br_lbl :: "string option"
  br_tool :: "string option"
  br_workdir :: "string option"
  br_model :: "string option"
  br_session_id :: "string option"
  br_priority :: int
  br_parent_goal_id :: "int option"

record board_comment_row =
  bcr_id :: int
  bcr_board_id :: int
  bcr_author :: string
  bcr_body :: string
  bcr_created_at :: string

record board_link_row =
  blr_from :: int
  blr_to :: int
  blr_kind :: string
  blr_created_at :: string

record board_rule_row =
  brr_column_name :: string
  brr_required_fields :: string
  brr_updated_at :: string

record note_row =
  nr_id :: int
  nr_title :: string
  nr_body :: string
  nr_tags :: string
  nr_created_at :: string
  nr_updated_at :: string

record channel_row =
  cr_id :: int
  cr_a_session :: string
  cr_b_session :: string
  cr_created_at :: string

record message_row =
  mr_id :: int
  mr_channel_id :: int
  mr_sender :: string
  mr_body :: string
  mr_ts :: string

record user_row =
  ur_id :: int
  ur_username :: string
  ur_pw_hash :: string
  ur_created_at :: string

record auth_session_row =
  ar_token :: string
  ar_user_id :: int
  ar_created_at :: string
  ar_last_used_at :: "string option"
  ar_expires_at :: "string option"

record setting_row =
  st_key :: string
  st_value :: string
  st_updated_at :: string

record orch_message =
  om_id :: int
  om_thread_id :: string
  om_sender :: string
  om_recipient :: string
  om_subject :: string
  om_body :: string
  om_msg_type :: string
  om_priority :: string
  om_payload :: "string option"
  om_read :: int
  om_created_at :: string

record orch_task_row =
  ot_id :: int
  ot_spec :: string
  ot_status :: string
  ot_parent_id :: "int option"
  ot_result :: "string option"
  ot_created_at :: string

record orch_dispatch =
  od_id :: int
  od_task_id :: int
  od_assignee :: string
  od_status :: string
  od_attempts :: int
  od_created_at :: string

section \<open>The database\<close>

text \<open>The last id each autoincrement table has handed out: SQLite never reuses one.\<close>

record sequences =
  sq_events :: int
  sq_board_items :: int
  sq_board_comments :: int
  sq_notes :: int
  sq_channels :: int
  sq_messages :: int
  sq_users :: int
  sq_orch_messages :: int
  sq_orch_tasks :: int
  sq_orch_dispatches :: int

record db =
  db_hosts :: "host_row list"
  db_sessions :: "session_row list"
  db_events :: "event_row list"
  db_board_items :: "board_item_row list"
  db_board_comments :: "board_comment_row list"
  db_board_links :: "board_link_row list"
  db_board_rules :: "board_rule_row list"
  db_notes :: "note_row list"
  db_channels :: "channel_row list"
  db_messages :: "message_row list"
  db_users :: "user_row list"
  db_auth_sessions :: "auth_session_row list"
  db_settings :: "setting_row list"
  db_orch_messages :: "orch_message list"
  db_orch_tasks :: "orch_task_row list"
  db_orch_deps :: "(int \<times> int) list"
  db_orch_dispatches :: "orch_dispatch list"
  db_seq :: sequences

section \<open>Text codecs\<close>

record codec =
  cx_fmt_ts :: "time \<Rightarrow> string"
  cx_parse_ts :: "string \<Rightarrow> time option"
  cx_parse_uuid :: "string \<Rightarrow> uuid option"
  cx_print_strings :: "string list \<Rightarrow> string"
  cx_parse_strings :: "string \<Rightarrow> string list option"
  cx_print_json :: "json \<Rightarrow> string"
  cx_parse_json :: "string \<Rightarrow> json option"

text \<open>
  What the store relies on: dates (\<open>time\<close>'s RFC 3339 with nanoseconds) and lists of strings
  (\<open>serde_json\<close>) that were printed parse back, and every UUID the program holds is in the text form
  that \<open>Uuid::parse_str\<close> accepts.
\<close>

definition codec_ok :: "codec \<Rightarrow> bool" where
  "codec_ok cx \<longleftrightarrow>
     (\<forall>t. cx_parse_ts cx (cx_fmt_ts cx t) = Some t) \<and>
     (\<forall>ss. cx_parse_strings cx (cx_print_strings cx ss) = Some ss)"

definition canonical_uuid :: "codec \<Rightarrow> string \<Rightarrow> bool" where
  "canonical_uuid cx i = (cx_parse_uuid cx i = Some i)"

definition parse_ts :: "codec \<Rightarrow> string \<Rightarrow> store_error + time" where
  "parse_ts cx s = ok_or StoreError_TimeParse (cx_parse_ts cx s)"

definition parse_uuid :: "codec \<Rightarrow> string \<Rightarrow> store_error + uuid" where
  "parse_uuid cx s = ok_or StoreError_Uuid (cx_parse_uuid cx s)"

definition parse_strings :: "codec \<Rightarrow> string \<Rightarrow> store_error + string list" where
  "parse_strings cx s = ok_or StoreError_Json (cx_parse_strings cx s)"

text \<open>\<open>?\<close> on an error of agentum-core.\<close>

definition lift_core :: "core_error + 'a \<Rightarrow> store_error + 'a" where
  "lift_core r = (case r of Inl e \<Rightarrow> Inl (StoreError_Core e) | Inr x \<Rightarrow> Inr x)"

section \<open>Conversions from rows\<close>

record host_parts =
  hk_kind :: string
  hk_user :: "string option"
  hk_hostname :: "string option"
  hk_port :: "16 word option"
  hk_auth_kind :: "string option"
  hk_key_path :: "string option"
  hk_secret :: "string option"

fun host_kind_parts :: "host_kind \<Rightarrow> host_parts" where
  "host_kind_parts HostKind_Local =
     \<lparr>hk_kind = ''local'', hk_user = None, hk_hostname = None, hk_port = None, hk_auth_kind = None,
      hk_key_path = None, hk_secret = None\<rparr>"
| "host_kind_parts (HostKind_Ssh user hostname port auth) =
     (let base = \<lparr>hk_kind = ''ssh'', hk_user = Some user, hk_hostname = Some hostname,
            hk_port = Some port, hk_auth_kind = Some ''agent'', hk_key_path = None, hk_secret = None\<rparr>
      in case auth of
           SshAuth_Agent \<Rightarrow> base
         | SshAuth_Key path \<Rightarrow> base\<lparr>hk_auth_kind := Some ''key'', hk_key_path := Some path\<rparr>
         | SshAuth_Password password \<Rightarrow>
             base\<lparr>hk_auth_kind := Some ''password'', hk_secret := Some password\<rparr>)"

abbreviation unwrap_or_default :: "string option \<Rightarrow> string" where
  "unwrap_or_default v \<equiv> (case v of Some s \<Rightarrow> s | None \<Rightarrow> '''')"

definition host_row_kind :: "host_row \<Rightarrow> store_error + host_kind" where
  "host_row_kind r =
     (if hr_kind r = ''local'' then Inr HostKind_Local
      else if hr_kind r = ''ssh'' then
        Inr (HostKind_Ssh (unwrap_or_default (hr_user r)) (unwrap_or_default (hr_hostname r))
          (word_of_int (case hr_port r of Some p \<Rightarrow> p | None \<Rightarrow> 22))
          (if hr_auth_kind r = Some ''key'' then SshAuth_Key (unwrap_or_default (hr_key_path r))
           else if hr_auth_kind r = Some ''password'' then SshAuth_Password (unwrap_or_default (hr_secret r))
           else SshAuth_Agent))
      else Inl (StoreError_NotFound (''unknown host kind: '' @ hr_kind r)))"

definition Host_try_from :: "codec \<Rightarrow> host_row \<Rightarrow> store_error + host" where
  "Host_try_from cx r =
     and_then (host_row_kind r) (\<lambda>kind.
     and_then (parse_uuid cx (hr_id r)) (\<lambda>i.
     and_then (parse_ts cx (hr_created_at r)) (\<lambda>created.
     and_then (parse_ts cx (hr_updated_at r)) (\<lambda>updated.
     and_then (transpose_opt (map_option (parse_ts cx) (hr_last_seen_at r))) (\<lambda>seen.
       Inr \<lparr>h_id = i, h_name = hr_name r, h_kind = kind, h_created_at = created,
            h_updated_at = updated, h_last_seen_at = seen\<rparr>)))))"

text \<open>A session row with the columns of its host that the queries join.\<close>

type_synonym joined_session = "session_row \<times> string option \<times> string option"

definition Session_try_from :: "codec \<Rightarrow> joined_session \<Rightarrow> store_error + session" where
  "Session_try_from cx j =
     (let r = fst j
      in and_then (transpose_opt (map_option (\<lambda>s. lift_core (SessionState_from_str s)) (sr_state r))) (\<lambda>state.
         and_then (parse_uuid cx (sr_id r)) (\<lambda>i.
         and_then (parse_strings cx (sr_flags r)) (\<lambda>flags.
         and_then (lift_core (Status_from_str (sr_status r))) (\<lambda>status.
         and_then (transpose_opt (map_option (parse_uuid cx) (sr_host_id r))) (\<lambda>host_id.
         and_then (parse_ts cx (sr_created_at r)) (\<lambda>created.
         and_then (parse_ts cx (sr_updated_at r)) (\<lambda>updated.
         and_then (transpose_opt (map_option (parse_ts cx) (sr_last_activity_at r))) (\<lambda>last_activity.
           Inr \<lparr>s_id = i, s_name = sr_name r, s_workdir = sr_workdir r, s_tool = sr_tool r,
                s_model = sr_model r, s_flags = flags, s_status = status,
                s_tmux_target = sr_tmux_target r, s_host_id = host_id, s_host_label = fst (snd j),
                s_host_kind = snd (snd j), s_created_at = created, s_updated_at = updated,
                s_last_activity_at = last_activity, s_tokens = sr_tokens r, s_cost_usd = sr_cost_usd r,
                s_ctx = map_option word_of_int (sr_ctx r), s_last_log = sr_last_log r,
                s_uptime_seconds = sr_uptime_seconds r, s_state = state,
                s_pinned = (sr_pinned r \<noteq> 0), s_card_id = sr_card_id r,
                s_worktree_path = sr_worktree_path r, s_worktree_branch = sr_worktree_branch r,
                s_worktree_base_ref = sr_worktree_base_ref r\<rparr>)))))))))"

definition Note_try_from :: "codec \<Rightarrow> note_row \<Rightarrow> store_error + Note" where
  "Note_try_from cx r =
     and_then (parse_strings cx (nr_tags r)) (\<lambda>tags.
     and_then (parse_ts cx (nr_created_at r)) (\<lambda>created.
     and_then (parse_ts cx (nr_updated_at r)) (\<lambda>updated.
       Inr \<lparr>n_id = nr_id r, n_title = nr_title r, n_body = nr_body r, n_tags = tags,
            n_created_at = created, n_updated_at = updated\<rparr>)))"

definition Channel_try_from :: "codec \<Rightarrow> channel_row \<Rightarrow> store_error + channel" where
  "Channel_try_from cx r =
     and_then (parse_uuid cx (cr_a_session r)) (\<lambda>a.
     and_then (parse_uuid cx (cr_b_session r)) (\<lambda>b.
     and_then (parse_ts cx (cr_created_at r)) (\<lambda>created.
       Inr \<lparr>c_id = cr_id r, c_a_session = a, c_b_session = b, c_created_at = created\<rparr>)))"

definition Message_try_from :: "codec \<Rightarrow> message_row \<Rightarrow> store_error + message" where
  "Message_try_from cx r =
     and_then (parse_ts cx (mr_ts r)) (\<lambda>ts.
       Inr \<lparr>m_id = mr_id r, m_channel_id = mr_channel_id r, m_sender = mr_sender r,
            m_body = mr_body r, m_ts = ts\<rparr>)"

definition Event_try_from :: "codec \<Rightarrow> event_row \<Rightarrow> store_error + event" where
  "Event_try_from cx r =
     and_then (transpose_opt (map_option (parse_uuid cx) (er_session_id r))) (\<lambda>sid.
     and_then (parse_ts cx (er_ts r)) (\<lambda>ts.
       Inr \<lparr>ev_kind = er_kind r, ev_session_id = sid, ev_session_name = None,
            ev_payload = (case cx_parse_json cx (er_payload r) of Some j \<Rightarrow> j | None \<Rightarrow> JNull),
            ev_ts = ts\<rparr>))"

definition BoardItem_try_from :: "codec \<Rightarrow> board_item_row \<Rightarrow> store_error + board_item" where
  "BoardItem_try_from cx r =
     and_then (parse_ts cx (br_created_at r)) (\<lambda>created.
     and_then (parse_ts cx (br_updated_at r)) (\<lambda>updated.
       Inr \<lparr>bi_id = br_id r, bi_key = br_key r, bi_title = br_title r, bi_body = br_body r,
            bi_status = br_status r, bi_claimed_by = br_claimed_by r, bi_created_at = created,
            bi_updated_at = updated, bi_lbl = br_lbl r, bi_tool = br_tool r, bi_workdir = br_workdir r,
            bi_model = br_model r, bi_session_id = br_session_id r, bi_priority = br_priority r,
            bi_parent_goal_id = br_parent_goal_id r\<rparr>))"

definition BoardComment_try_from :: "codec \<Rightarrow> board_comment_row \<Rightarrow> store_error + board_comment" where
  "BoardComment_try_from cx r =
     and_then (parse_ts cx (bcr_created_at r)) (\<lambda>created.
       Inr \<lparr>bc_id = bcr_id r, bc_board_id = bcr_board_id r, bc_author = bcr_author r,
            bc_body = bcr_body r, bc_created_at = created\<rparr>)"

definition parse_rule_json :: "codec \<Rightarrow> string \<Rightarrow> store_error + required_field list" where
  "parse_rule_json cx json =
     and_then (parse_strings cx json) (\<lambda>raw. Inr (List.map_filter from_missing_key raw))"

section \<open>Lemmas\<close>

lemma parse_ts_fmt [simp]: "codec_ok cx \<Longrightarrow> parse_ts cx (cx_fmt_ts cx t) = Inr t"
  by (simp add: codec_ok_def parse_ts_def)

lemma parse_strings_print [simp]: "codec_ok cx \<Longrightarrow> parse_strings cx (cx_print_strings cx ss) = Inr ss"
  by (simp add: codec_ok_def parse_strings_def)

lemma parse_uuid_canonical [simp]: "canonical_uuid cx i \<Longrightarrow> parse_uuid cx i = Inr i"
  by (simp add: canonical_uuid_def parse_uuid_def)

lemma lift_core_simps [simp]:
  "lift_core (Inr x) = Inr x" "lift_core (Inl e) = Inl (StoreError_Core e)"
  by (simp_all add: lift_core_def)

lemma codec_ok_fmt_inject:
  assumes "codec_ok cx"
  shows "cx_fmt_ts cx a = cx_fmt_ts cx b \<longleftrightarrow> a = b"
  using assms unfolding codec_ok_def by (metis option.inject)

lemma parse_rule_json_print:
  "codec_ok cx \<Longrightarrow> parse_rule_json cx (cx_print_strings cx (map as_missing_key fs)) = Inr fs"
  by (simp add: parse_rule_json_def)
    (induction fs; simp add: List.map_filter_simps required_field_codec.dec_enc)

section \<open>The database the migrations create\<close>

definition initial_db :: db where
  "initial_db =
     \<lparr>db_hosts = [\<lparr>hr_id = LOCAL_HOST_ID, hr_name = ''local'', hr_kind = ''local'', hr_user = None,
        hr_hostname = None, hr_port = None, hr_auth_kind = None, hr_key_path = None,
        hr_secret = None, hr_created_at = ''1970-01-01T00:00:00Z'',
        hr_updated_at = ''1970-01-01T00:00:00Z'', hr_last_seen_at = None\<rparr>],
      db_sessions = [], db_events = [], db_board_items = [], db_board_comments = [],
      db_board_links = [], db_board_rules = [], db_notes = [], db_channels = [], db_messages = [],
      db_users = [], db_auth_sessions = [], db_settings = [], db_orch_messages = [],
      db_orch_tasks = [], db_orch_deps = [], db_orch_dispatches = [],
      db_seq = \<lparr>sq_events = 0, sq_board_items = 0, sq_board_comments = 0, sq_notes = 0,
        sq_channels = 0, sq_messages = 0, sq_users = 0, sq_orch_messages = 0, sq_orch_tasks = 0,
        sq_orch_dispatches = 0\<rparr>\<rparr>"

section \<open>A concrete codec\<close>

text \<open>
  An instance of the parameters that satisfies \<open>codec_ok\<close>: dates are signed decimals, a list of
  strings is written with \<open>c\<close> before every character and \<open>;\<close> after every string.
\<close>

definition sample_fmt_ts :: "time \<Rightarrow> string" where
  "sample_fmt_ts t = (if t < 0 then CHR ''-'' # string_of_nat (nat (- t)) else CHR ''+'' # string_of_nat (nat t))"

fun sample_parse_ts :: "string \<Rightarrow> time option" where
  "sample_parse_ts [] = None"
| "sample_parse_ts (c # ds) =
     (if c = CHR ''-'' then Some (- int (digits_value ds))
      else if c = CHR ''+'' then Some (int (digits_value ds)) else None)"

fun sample_print_strings :: "string list \<Rightarrow> string" where
  "sample_print_strings [] = []"
| "sample_print_strings ([] # ss) = CHR '';'' # sample_print_strings ss"
| "sample_print_strings ((c # cs) # ss) = CHR ''c'' # c # sample_print_strings (cs # ss)"

fun sample_parse_strings :: "string \<Rightarrow> string list option" where
  "sample_parse_strings [] = Some []"
| "sample_parse_strings [a] = (if a = CHR '';'' then Some [[]] else None)"
| "sample_parse_strings (a # c # rest) =
     (if a = CHR '';'' then map_option (\<lambda>ss. [] # ss) (sample_parse_strings (c # rest))
      else case sample_parse_strings rest of
             Some (s # ss) \<Rightarrow> Some ((c # s) # ss)
           | _ \<Rightarrow> None)"

definition sample_codec :: codec where
  "sample_codec =
     \<lparr>cx_fmt_ts = sample_fmt_ts, cx_parse_ts = sample_parse_ts, cx_parse_uuid = Some,
      cx_print_strings = sample_print_strings, cx_parse_strings = sample_parse_strings,
      cx_print_json = (\<lambda>_. ''''), cx_parse_json = (\<lambda>_. None)\<rparr>"

lemma sample_parse_semicolon:
  "sample_parse_strings (CHR '';'' # s) = map_option (\<lambda>ss. [] # ss) (sample_parse_strings s)"
  by (cases s) simp_all

lemma sample_strings_roundtrip: "sample_parse_strings (sample_print_strings ss) = Some ss"
  by (induction ss rule: sample_print_strings.induct) (simp_all add: sample_parse_semicolon)

lemma sample_codec_ok [simp]: "codec_ok sample_codec"
  by (auto simp: codec_ok_def sample_codec_def sample_fmt_ts_def sample_strings_roundtrip)

lemma sample_canonical [simp]: "canonical_uuid sample_codec i"
  by (simp add: canonical_uuid_def sample_codec_def)

end
