(* ===== verification/Store_Sessions.thy ===== *)
theory Store_Sessions
  imports Store_Db
begin

text \<open>
  \<open>crates/agentum-store/src/lib.rs\<close>, first part: settings, hosts and sessions. A read returns a
  result; an operation that writes returns the new database and its result. The readings of the
  clock (\<open>now\<close>) and the fresh UUIDs are arguments. A statement that violates a constraint leaves
  the database as it was.
\<close>

section \<open>Settings\<close>

definition setting_get :: "db \<Rightarrow> string \<Rightarrow> string option" where
  "setting_get d key = map_option st_value (sql_find (\<lambda>r. st_key r = key) (db_settings d))"

definition setting_set :: "codec \<Rightarrow> time \<Rightarrow> db \<Rightarrow> string \<Rightarrow> string \<Rightarrow> db" where
  "setting_set cx now d key value =
     (if sql_find (\<lambda>r. st_key r = key) (db_settings d) = None
      then d\<lparr>db_settings := db_settings d @
             [\<lparr>st_key = key, st_value = value, st_updated_at = cx_fmt_ts cx now\<rparr>]\<rparr>
      else d\<lparr>db_settings := sql_update (\<lambda>r. st_key r = key)
             (\<lambda>r. r\<lparr>st_value := value, st_updated_at := cx_fmt_ts cx now\<rparr>) (db_settings d)\<rparr>)"

definition setting_get_or_insert ::
    "codec \<Rightarrow> time \<Rightarrow> db \<Rightarrow> string \<Rightarrow> string \<Rightarrow> db \<times> (store_error + string \<times> bool)" where
  "setting_get_or_insert cx now d key candidate =
     (let inserted = (sql_find (\<lambda>r. st_key r = key) (db_settings d) = None);
          d1 = (if inserted
                then d\<lparr>db_settings := db_settings d @
                       [\<lparr>st_key = key, st_value = candidate, st_updated_at = cx_fmt_ts cx now\<rparr>]\<rparr>
                else d)
      in case setting_get d1 key of
           Some stored \<Rightarrow> (d1, Inr (stored, inserted))
         | None \<Rightarrow> (d, Inl (StoreError_Sqlx Sqlx_RowNotFound)))"

definition setting_get_bool :: "db \<Rightarrow> string \<Rightarrow> bool \<Rightarrow> bool" where
  "setting_get_bool d key dflt =
     (case setting_get d key of
        None \<Rightarrow> dflt
      | Some v \<Rightarrow> if v = ''1'' then True else if v = ''0'' then False else dflt)"

definition setting_set_bool :: "codec \<Rightarrow> time \<Rightarrow> db \<Rightarrow> string \<Rightarrow> bool \<Rightarrow> db" where
  "setting_set_bool cx now d key value = setting_set cx now d key (if value then ''1'' else ''0'')"

section \<open>Hosts\<close>

definition list_hosts :: "codec \<Rightarrow> db \<Rightarrow> store_error + host list" where
  "list_hosts cx d =
     collect_results (map (Host_try_from cx)
       (order_by (then_by (desc (\<lambda>r. hr_kind r = ''local'')) (asc hr_name)) (db_hosts d)))"

definition get_host :: "codec \<Rightarrow> db \<Rightarrow> uuid \<Rightarrow> store_error + host option" where
  "get_host cx d i =
     transpose_opt (map_option (Host_try_from cx) (sql_find (\<lambda>r. hr_id r = i) (db_hosts d)))"

definition host_row_of :: "codec \<Rightarrow> time \<Rightarrow> uuid \<Rightarrow> new_host \<Rightarrow> host_row" where
  "host_row_of cx now i new =
     (let parts = host_kind_parts (nh_kind new)
      in \<lparr>hr_id = i, hr_name = nh_name new, hr_kind = hk_kind parts, hr_user = hk_user parts,
          hr_hostname = hk_hostname parts, hr_port = map_option uint (hk_port parts),
          hr_auth_kind = hk_auth_kind parts, hr_key_path = hk_key_path parts,
          hr_secret = hk_secret parts, hr_created_at = cx_fmt_ts cx now,
          hr_updated_at = cx_fmt_ts cx now, hr_last_seen_at = None\<rparr>)"

definition create_host :: "codec \<Rightarrow> time \<Rightarrow> uuid \<Rightarrow> db \<Rightarrow> new_host \<Rightarrow> db \<times> (store_error + host)" where
  "create_host cx now i d new =
     (let rows = db_hosts d @ [host_row_of cx now i new]
      in if \<not> (unique_on hr_id rows \<and> unique_on hr_name rows)
         then (d, Inl (StoreError_AlreadyExists (nh_name new)))
         else (d\<lparr>db_hosts := rows\<rparr>,
               Inr \<lparr>h_id = i, h_name = nh_name new, h_kind = nh_kind new, h_created_at = now,
                    h_updated_at = now, h_last_seen_at = None\<rparr>))"

definition is_password_auth :: "host_kind \<Rightarrow> bool" where
  "is_password_auth k =
     (case k of HostKind_Ssh _ _ _ (SshAuth_Password _) \<Rightarrow> True | _ \<Rightarrow> False)"

definition host_update :: "codec \<Rightarrow> time \<Rightarrow> new_host \<Rightarrow> bool \<Rightarrow> host_row \<Rightarrow> host_row" where
  "host_update cx now new retain r =
     (let parts = host_kind_parts (nh_kind new)
      in r\<lparr>hr_name := nh_name new, hr_kind := hk_kind parts, hr_user := hk_user parts,
           hr_hostname := hk_hostname parts, hr_port := map_option uint (hk_port parts),
           hr_auth_kind := hk_auth_kind parts, hr_key_path := hk_key_path parts,
           hr_secret := (if retain then hr_secret r else hk_secret parts),
           hr_updated_at := cx_fmt_ts cx now\<rparr>)"

definition get_host_or_not_found :: "codec \<Rightarrow> db \<Rightarrow> uuid \<Rightarrow> store_error + host" where
  "get_host_or_not_found cx d i =
     and_then (get_host cx d i) (ok_or (StoreError_NotFound i))"

definition update_host_inner ::
    "codec \<Rightarrow> time \<Rightarrow> db \<Rightarrow> uuid \<Rightarrow> new_host \<Rightarrow> bool \<Rightarrow> db \<times> (store_error + host)" where
  "update_host_inner cx now d i new retain_password =
     (if i = LOCAL_HOST_ID then (d, Inl (StoreError_NotFound ''the local host is not editable''))
      else if retain_password \<and> \<not> is_password_auth (nh_kind new)
      then (d, Inl (StoreError_AlreadyExists ''password retention requires password authentication''))
      else
        let p = (\<lambda>r. hr_id r = i \<and> (\<not> retain_password \<or> hr_auth_kind r = Some ''password''));
            rows = sql_update p (host_update cx now new retain_password) (db_hosts d)
        in if \<not> unique_on hr_name rows then (d, Inl (StoreError_AlreadyExists (nh_name new)))
           else if sql_count p (db_hosts d) = 0
           then (d, if retain_password \<and> sql_find (\<lambda>r. hr_id r = i) (db_hosts d) \<noteq> None
                    then Inl (StoreError_AlreadyExists
                      ''host authentication changed while retaining its password; retry the edit'')
                    else Inl (StoreError_NotFound i))
           else let d1 = d\<lparr>db_hosts := rows\<rparr> in (d1, get_host_or_not_found cx d1 i))"

definition update_host :: "codec \<Rightarrow> time \<Rightarrow> db \<Rightarrow> uuid \<Rightarrow> new_host \<Rightarrow> db \<times> (store_error + host)" where
  "update_host cx now d i new = update_host_inner cx now d i new False"

definition update_host_retaining_password ::
    "codec \<Rightarrow> time \<Rightarrow> db \<Rightarrow> uuid \<Rightarrow> new_host \<Rightarrow> db \<times> (store_error + host)" where
  "update_host_retaining_password cx now d i new = update_host_inner cx now d i new True"

definition update_host_seen :: "codec \<Rightarrow> time \<Rightarrow> db \<Rightarrow> uuid \<Rightarrow> db" where
  "update_host_seen cx now d i =
     d\<lparr>db_hosts := sql_update (\<lambda>r. hr_id r = i)
        (\<lambda>r. r\<lparr>hr_last_seen_at := Some (cx_fmt_ts cx now)\<rparr>) (db_hosts d)\<rparr>"

definition delete_host :: "db \<Rightarrow> uuid \<Rightarrow> db \<times> (store_error + bool)" where
  "delete_host d i =
     (if i = LOCAL_HOST_ID then (d, Inr False)
      else
        let in_use = sql_count (\<lambda>s. sr_host_id s = Some i) (db_sessions d)
        in if 0 < in_use
           then (d, Inl (StoreError_AlreadyExists (''host has '' @ string_of_nat in_use @ '' session(s)'')))
           else (d\<lparr>db_hosts := sql_delete (\<lambda>r. hr_id r = i) (db_hosts d)\<rparr>,
                 Inr (0 < sql_count (\<lambda>r. hr_id r = i) (db_hosts d))))"

section \<open>Sessions\<close>

definition join_host :: "db \<Rightarrow> session_row \<Rightarrow> joined_session" where
  "join_host d r =
     (let h = Option.bind (sr_host_id r) (\<lambda>i. sql_find (\<lambda>h. hr_id h = i) (db_hosts d))
      in (r, map_option hr_name h, map_option hr_kind h))"

definition session_row_of ::
    "codec \<Rightarrow> time \<Rightarrow> uuid \<Rightarrow> status \<Rightarrow> string option \<Rightarrow> uuid option \<Rightarrow> new_session \<Rightarrow> session_row" where
  "session_row_of cx now i status target host_id new =
     \<lparr>sr_id = i, sr_name = ns_name new, sr_workdir = ns_workdir new, sr_tool = ns_tool new,
      sr_model = ns_model new, sr_flags = cx_print_strings cx (ns_flags new),
      sr_status = Status_as_str status, sr_tmux_target = target, sr_host_id = host_id,
      sr_created_at = cx_fmt_ts cx now, sr_updated_at = cx_fmt_ts cx now,
      sr_last_activity_at = None, sr_tokens = None, sr_cost_usd = None, sr_ctx = None,
      sr_last_log = None, sr_uptime_seconds = None, sr_state = None, sr_pinned = 0,
      sr_card_id = ns_card_id new, sr_worktree_path = ns_worktree_path new,
      sr_worktree_branch = ns_worktree_branch new, sr_worktree_base_ref = ns_worktree_base_ref new\<rparr>"

definition sessions_unique :: "session_row list \<Rightarrow> bool" where
  "sessions_unique rows = (unique_on sr_id rows \<and> unique_on sr_name rows)"

definition create_session_on_host ::
    "codec \<Rightarrow> time \<Rightarrow> uuid \<Rightarrow> db \<Rightarrow> new_session \<Rightarrow> uuid option \<Rightarrow> db \<times> (store_error + session)" where
  "create_session_on_host cx now i d new host_id =
     (case validate_name (ns_name new) of
        Inl e \<Rightarrow> (d, Inl (StoreError_Core e))
      | Inr _ \<Rightarrow>
          let h = (case host_id of None \<Rightarrow> LOCAL_HOST_ID | Some h \<Rightarrow> h);
              rows = db_sessions d @ [session_row_of cx now i Status_Idle None (Some h) new]
          in if \<not> sessions_unique rows then (d, Inl (StoreError_AlreadyExists (ns_name new)))
             else (d\<lparr>db_sessions := rows\<rparr>,
                   Inr \<lparr>s_id = i, s_name = ns_name new, s_workdir = ns_workdir new, s_tool = ns_tool new,
                        s_model = ns_model new, s_flags = ns_flags new, s_status = Status_Idle,
                        s_tmux_target = None, s_host_id = Some h, s_host_label = None,
                        s_host_kind = None, s_created_at = now, s_updated_at = now,
                        s_last_activity_at = None, s_tokens = None, s_cost_usd = None, s_ctx = None,
                        s_last_log = None, s_uptime_seconds = None, s_state = None, s_pinned = False,
                        s_card_id = ns_card_id new, s_worktree_path = ns_worktree_path new,
                        s_worktree_branch = ns_worktree_branch new,
                        s_worktree_base_ref = ns_worktree_base_ref new\<rparr>))"

definition create_session ::
    "codec \<Rightarrow> time \<Rightarrow> uuid \<Rightarrow> db \<Rightarrow> new_session \<Rightarrow> db \<times> (store_error + session)" where
  "create_session cx now i d new = create_session_on_host cx now i d new None"

text \<open>
  The loop that looks for a free name: \<open>rnd n\<close> is the simple form of the \<open>n\<close>-th fresh UUID. It may
  run forever, which is the value \<open>None\<close>.
\<close>

definition name_candidate :: "string \<Rightarrow> string \<Rightarrow> string" where
  "name_candidate prefix u = prefix @ ''-'' @ take 6 u"

partial_function (option) pick_name :: "(string \<Rightarrow> bool) \<Rightarrow> string \<Rightarrow> (nat \<Rightarrow> string) \<Rightarrow> nat \<Rightarrow> string option" where
  "pick_name taken prefix rnd n =
     (let candidate = name_candidate prefix (rnd n)
      in if taken candidate then pick_name taken prefix rnd (Suc n) else Some candidate)"

definition name_taken :: "db \<Rightarrow> string \<Rightarrow> bool" where
  "name_taken d name = (sql_find (\<lambda>r. sr_name r = name) (db_sessions d) \<noteq> None)"

definition external_name :: "db \<Rightarrow> (nat \<Rightarrow> string) \<Rightarrow> string \<Rightarrow> string option" where
  "external_name d rnd base =
     (if name_taken d base then pick_name (name_taken d) (take (min (length base) 56) base) rnd 0
      else Some base)"

definition external_bindings :: "db \<Rightarrow> uuid \<Rightarrow> string \<Rightarrow> session_row list" where
  "external_bindings d host_id target =
     order_by (then_by (asc sr_created_at) (asc sr_id))
       (filter (\<lambda>r. sr_host_id r = Some host_id \<and> sr_tmux_target r = Some target) (db_sessions d))"

definition add_external_flag :: "new_session \<Rightarrow> new_session" where
  "add_external_flag new =
     (if EXTERNAL_TMUX_FLAG \<in> set (ns_flags new) then new
      else new\<lparr>ns_flags := ns_flags new @ [EXTERNAL_TMUX_FLAG]\<rparr>)"

definition insert_external ::
    "codec \<Rightarrow> time \<Rightarrow> uuid \<Rightarrow> db \<Rightarrow> new_session \<Rightarrow> uuid \<Rightarrow> string \<Rightarrow> db \<times> (store_error + session \<times> bool)" where
  "insert_external cx now i d new host_id target =
     (let row = session_row_of cx now i Status_Stopped (Some target) (Some host_id) new;
          rows = db_sessions d @ [row]
      in if \<not> sessions_unique rows then (d, Inl (StoreError_Sqlx Sqlx_UniqueViolation))
         else
           let d1 = d\<lparr>db_sessions := rows\<rparr>
           in case Session_try_from cx (join_host d1 row) of
                Inl e \<Rightarrow> (d, Inl e)
              | Inr s \<Rightarrow> (d1, Inr (s, True)))"

text \<open>The outer \<open>option\<close> is \<open>None\<close> when the search for a free name does not end.\<close>

definition create_or_get_external_session ::
    "codec \<Rightarrow> time \<Rightarrow> uuid \<Rightarrow> (nat \<Rightarrow> string) \<Rightarrow> db \<Rightarrow> new_session \<Rightarrow> uuid \<Rightarrow> string \<Rightarrow>
     (db \<times> (store_error + session \<times> bool)) option" where
  "create_or_get_external_session cx now i rnd d new0 host_id target =
     (case validate_name (ns_name new0) of
        Inl e \<Rightarrow> Some (d, Inl (StoreError_Core e))
      | Inr _ \<Rightarrow>
          let new = add_external_flag new0
          in case external_bindings d host_id target of
               [] \<Rightarrow>
                 map_option (\<lambda>name. insert_external cx now i d (new\<lparr>ns_name := name\<rparr>) host_id target)
                   (external_name d rnd (ns_name new))
             | [row] \<Rightarrow>
                 Some (d, and_then (Session_try_from cx (join_host d row)) (\<lambda>s. Inr (s, False)))
             | _ \<Rightarrow>
                 Some (d, Inl (StoreError_AlreadyExists
                   (''tmux target `'' @ target @ ''` on host '' @ host_id @ '' has multiple session bindings''))))"

definition update_session :: "(session_row \<Rightarrow> bool) \<Rightarrow> (session_row \<Rightarrow> session_row) \<Rightarrow> db \<Rightarrow> db" where
  "update_session p f d = d\<lparr>db_sessions := sql_update p f (db_sessions d)\<rparr>"

definition clear_session_worktree :: "codec \<Rightarrow> time \<Rightarrow> db \<Rightarrow> uuid \<Rightarrow> db" where
  "clear_session_worktree cx now d i =
     update_session (\<lambda>r. sr_id r = i)
       (\<lambda>r. r\<lparr>sr_worktree_path := None, sr_worktree_branch := None, sr_worktree_base_ref := None,
              sr_updated_at := cx_fmt_ts cx now\<rparr>) d"

definition list_sessions :: "codec \<Rightarrow> db \<Rightarrow> status option \<Rightarrow> store_error + session list" where
  "list_sessions cx d status =
     (let rows = (case status of
            Some s \<Rightarrow> filter (\<lambda>r. sr_status r = Status_as_str s) (db_sessions d)
          | None \<Rightarrow> db_sessions d)
      in collect_results (map (\<lambda>r. Session_try_from cx (join_host d r))
           (order_by (then_by (desc sr_pinned) (desc sr_created_at)) rows)))"

definition get_session_where :: "codec \<Rightarrow> db \<Rightarrow> (session_row \<Rightarrow> bool) \<Rightarrow> store_error + session option" where
  "get_session_where cx d p =
     transpose_opt (map_option (\<lambda>r. Session_try_from cx (join_host d r)) (sql_find p (db_sessions d)))"

definition get_session_by_name :: "codec \<Rightarrow> db \<Rightarrow> string \<Rightarrow> store_error + session option" where
  "get_session_by_name cx d name = get_session_where cx d (\<lambda>r. sr_name r = name)"

definition get_session_by_id :: "codec \<Rightarrow> db \<Rightarrow> uuid \<Rightarrow> store_error + session option" where
  "get_session_by_id cx d i = get_session_where cx d (\<lambda>r. sr_id r = i)"

definition get_session_by_card_id :: "codec \<Rightarrow> db \<Rightarrow> int \<Rightarrow> store_error + session option" where
  "get_session_by_card_id cx d cid = get_session_where cx d (\<lambda>r. sr_card_id r = Some cid)"

text \<open>The tail the patch methods share: not found when no row changed, otherwise the new row.\<close>

definition patch_session ::
    "codec \<Rightarrow> (session_row \<Rightarrow> session_row) \<Rightarrow> db \<Rightarrow> uuid \<Rightarrow> db \<times> (store_error + session)" where
  "patch_session cx f d i =
     (let p = (\<lambda>r. sr_id r = i); d1 = update_session p f d
      in if \<not> sessions_unique (db_sessions d1) then (d, Inl (StoreError_Sqlx Sqlx_UniqueViolation))
         else if sql_count p (db_sessions d) = 0 then (d1, Inl (StoreError_NotFound i))
         else (d1, and_then (get_session_by_id cx d1 i) (ok_or (StoreError_NotFound i))))"

definition patch_session_pinned :: "codec \<Rightarrow> time \<Rightarrow> db \<Rightarrow> uuid \<Rightarrow> bool \<Rightarrow> db \<times> (store_error + session)" where
  "patch_session_pinned cx now d i pinned =
     patch_session cx (\<lambda>r. r\<lparr>sr_pinned := (if pinned then 1 else 0), sr_updated_at := cx_fmt_ts cx now\<rparr>) d i"

definition patch_session_name :: "codec \<Rightarrow> time \<Rightarrow> db \<Rightarrow> uuid \<Rightarrow> string \<Rightarrow> db \<times> (store_error + session)" where
  "patch_session_name cx now d i new_name =
     patch_session cx (\<lambda>r. r\<lparr>sr_name := new_name, sr_updated_at := cx_fmt_ts cx now\<rparr>) d i"

definition patch_session_tool :: "codec \<Rightarrow> time \<Rightarrow> db \<Rightarrow> uuid \<Rightarrow> string \<Rightarrow> db \<times> (store_error + session)" where
  "patch_session_tool cx now d i new_tool =
     patch_session cx (\<lambda>r. r\<lparr>sr_tool := new_tool, sr_updated_at := cx_fmt_ts cx now\<rparr>) d i"

definition patch_session_flags :: "codec \<Rightarrow> time \<Rightarrow> db \<Rightarrow> uuid \<Rightarrow> string list \<Rightarrow> db \<times> (store_error + session)" where
  "patch_session_flags cx now d i flags =
     patch_session cx (\<lambda>r. r\<lparr>sr_flags := cx_print_strings cx flags, sr_updated_at := cx_fmt_ts cx now\<rparr>) d i"

definition update_status :: "codec \<Rightarrow> time \<Rightarrow> db \<Rightarrow> uuid \<Rightarrow> status \<Rightarrow> db \<times> (store_error + unit)" where
  "update_status cx now d i status =
     (let p = (\<lambda>r. sr_id r = i)
      in (update_session p (\<lambda>r. r\<lparr>sr_status := Status_as_str status, sr_updated_at := cx_fmt_ts cx now\<rparr>) d,
          if sql_count p (db_sessions d) = 0 then Inl (StoreError_NotFound i) else Inr ()))"

definition update_status_and_target ::
    "codec \<Rightarrow> time \<Rightarrow> db \<Rightarrow> uuid \<Rightarrow> status \<Rightarrow> string option \<Rightarrow> db \<times> (store_error + unit)" where
  "update_status_and_target cx now d i status target =
     (let p = (\<lambda>r. sr_id r = i)
      in (update_session p (\<lambda>r. r\<lparr>sr_status := Status_as_str status, sr_tmux_target := target,
                                 sr_updated_at := cx_fmt_ts cx now\<rparr>) d,
          if sql_count p (db_sessions d) = 0 then Inl (StoreError_NotFound i) else Inr ()))"

definition cas_matches ::
    "codec \<Rightarrow> uuid \<Rightarrow> status \<Rightarrow> string option \<Rightarrow> time \<Rightarrow> session_row \<Rightarrow> bool" where
  "cas_matches cx i expected_status expected_target expected_updated_at r =
     (sr_id r = i \<and> sr_status r = Status_as_str expected_status \<and>
      sr_updated_at r = cx_fmt_ts cx expected_updated_at \<and>
      ((sr_tmux_target r = None \<and> expected_target = None) \<or>
       (expected_target \<noteq> None \<and> sr_tmux_target r = expected_target)))"

definition compare_and_set_status_and_target ::
    "codec \<Rightarrow> time \<Rightarrow> db \<Rightarrow> uuid \<Rightarrow> status \<Rightarrow> string option \<Rightarrow> time \<Rightarrow> status \<Rightarrow> string option \<Rightarrow>
     db \<times> bool" where
  "compare_and_set_status_and_target cx now d i expected_status expected_target expected_updated_at
       status target =
     (let p = cas_matches cx i expected_status expected_target expected_updated_at
      in (update_session p (\<lambda>r. r\<lparr>sr_status := Status_as_str status, sr_tmux_target := target,
                                 sr_updated_at := cx_fmt_ts cx now\<rparr>) d,
          sql_count p (db_sessions d) = 1))"

definition count_by_status :: "db \<Rightarrow> status \<Rightarrow> int" where
  "count_by_status d status = int (sql_count (\<lambda>r. sr_status r = Status_as_str status) (db_sessions d))"

text \<open>
  \<open>delete_session\<close> with what the foreign keys do: events keep their row and lose the session,
  channels of the session go, and with them their messages.
\<close>

definition delete_channels_where :: "(channel_row \<Rightarrow> bool) \<Rightarrow> db \<Rightarrow> db" where
  "delete_channels_where p d =
     (let gone = map cr_id (filter p (db_channels d))
      in d\<lparr>db_channels := sql_delete p (db_channels d),
           db_messages := sql_delete (\<lambda>m. mr_channel_id m \<in> set gone) (db_messages d)\<rparr>)"

definition delete_session :: "db \<Rightarrow> uuid \<Rightarrow> db \<times> (store_error + unit)" where
  "delete_session d i =
     (if sql_count (\<lambda>r. sr_id r = i) (db_sessions d) = 0 then (d, Inl (StoreError_NotFound i))
      else
        (delete_channels_where (\<lambda>c. cr_a_session c = i \<or> cr_b_session c = i)
           (d\<lparr>db_sessions := sql_delete (\<lambda>r. sr_id r = i) (db_sessions d),
              db_events := sql_update (\<lambda>e. er_session_id e = Some i) (\<lambda>e. e\<lparr>er_session_id := None\<rparr>)
                (db_events d)\<rparr>), Inr ()))"

section \<open>The tables are keyed\<close>

interpretation session_by_id: keyed_table db_sessions "\<lambda>rs d. d\<lparr>db_sessions := rs\<rparr>" sr_id
  by unfold_locales simp_all

interpretation session_by_name: keyed_table db_sessions "\<lambda>rs d. d\<lparr>db_sessions := rs\<rparr>" sr_name
  by unfold_locales simp_all

interpretation host_by_id: keyed_table db_hosts "\<lambda>rs d. d\<lparr>db_hosts := rs\<rparr>" hr_id
  by unfold_locales simp_all

interpretation host_by_name: keyed_table db_hosts "\<lambda>rs d. d\<lparr>db_hosts := rs\<rparr>" hr_name
  by unfold_locales simp_all

interpretation setting_by_key: keyed_table db_settings "\<lambda>rs d. d\<lparr>db_settings := rs\<rparr>" st_key
  by unfold_locales simp_all

section \<open>Rows that can be read back\<close>

definition session_row_ok :: "codec \<Rightarrow> session_row \<Rightarrow> bool" where
  "session_row_ok cx r \<longleftrightarrow>
     (case sr_state r of None \<Rightarrow> True | Some s \<Rightarrow> is_ok (SessionState_from_str s)) \<and>
     is_ok (parse_uuid cx (sr_id r)) \<and> is_ok (parse_strings cx (sr_flags r)) \<and>
     is_ok (Status_from_str (sr_status r)) \<and>
     (case sr_host_id r of None \<Rightarrow> True | Some h \<Rightarrow> is_ok (parse_uuid cx h)) \<and>
     is_ok (parse_ts cx (sr_created_at r)) \<and> is_ok (parse_ts cx (sr_updated_at r)) \<and>
     (case sr_last_activity_at r of None \<Rightarrow> True | Some t \<Rightarrow> is_ok (parse_ts cx t))"

lemma is_ok_and_then: "is_ok (and_then m f) \<longleftrightarrow> (\<exists>x. m = Inr x \<and> is_ok (f x))"
  by (cases m) auto

lemma is_ok_iff: "is_ok m \<longleftrightarrow> (\<exists>x. m = Inr x)"
  by (cases m) auto

lemma is_ok_transpose: "is_ok (transpose_opt v) \<longleftrightarrow> (case v of None \<Rightarrow> True | Some r \<Rightarrow> is_ok r)"
  by (auto simp: transpose_opt_def split: option.splits sum.splits)

lemma is_ok_lift_core [simp]: "is_ok (lift_core r) = is_ok r"
  by (cases r) auto

lemma Session_try_from_ok: "is_ok (Session_try_from cx (r, j)) \<longleftrightarrow> session_row_ok cx r"
proof -
  have "is_ok (and_then m (\<lambda>x. f x)) \<longleftrightarrow> is_ok m \<and> Q" if "\<And>x. is_ok (f x) \<longleftrightarrow> Q" for m :: "'x + 'y" and f :: "'y \<Rightarrow> 'x + 'z" and Q
    using that by (cases m) auto
  note step = this
  show ?thesis
    unfolding Session_try_from_def Let_def session_row_ok_def
    by (subst step, (subst step, (subst step, (subst step, (subst step, (subst step,
        (subst step, (subst step, simp, rule refl), rule refl), rule refl), rule refl), rule refl), rule refl), rule refl))
      (auto simp: is_ok_transpose split: option.splits)
qed

definition sessions_ok :: "codec \<Rightarrow> db \<Rightarrow> bool" where
  "sessions_ok cx d \<longleftrightarrow>
     sessions_unique (db_sessions d) \<and> (\<forall>r \<in> set (db_sessions d). session_row_ok cx r)"

text \<open>One write of the session part of the store.\<close>

inductive session_step :: "codec \<Rightarrow> db \<Rightarrow> db \<Rightarrow> bool" for cx where
  create: "canonical_uuid cx i \<Longrightarrow> (case h of None \<Rightarrow> True | Some u \<Rightarrow> canonical_uuid cx u) \<Longrightarrow>
     session_step cx d (fst (create_session_on_host cx now i d new h))"
| external: "canonical_uuid cx i \<Longrightarrow> canonical_uuid cx h \<Longrightarrow>
     create_or_get_external_session cx now i rnd d new h target = Some r \<Longrightarrow> session_step cx d (fst r)"
| clear_worktree: "session_step cx d (clear_session_worktree cx now d i)"
| pinned: "session_step cx d (fst (patch_session_pinned cx now d i b))"
| rename: "session_step cx d (fst (patch_session_name cx now d i name))"
| tool: "session_step cx d (fst (patch_session_tool cx now d i t))"
| flags: "session_step cx d (fst (patch_session_flags cx now d i fs))"
| status: "session_step cx d (fst (update_status cx now d i st))"
| status_target: "session_step cx d (fst (update_status_and_target cx now d i st target))"
| cas: "session_step cx d (fst (compare_and_set_status_and_target cx now d i st0 t0 u0 st target))"
| delete: "session_step cx d (fst (delete_session d i))"
| hosts: "db_sessions d' = db_sessions d \<Longrightarrow> session_step cx d d'"

inductive session_reach :: "codec \<Rightarrow> db \<Rightarrow> bool" for cx where
  start: "db_sessions d = [] \<Longrightarrow> session_reach cx d"
| step: "session_reach cx d \<Longrightarrow> session_step cx d d' \<Longrightarrow> session_reach cx d'"

subsection \<open>Preservation\<close>

lemma sessions_unique_update:
  assumes "sessions_unique rows" and "\<And>r. p r \<Longrightarrow> sr_id (f r) = sr_id r \<and> sr_name (f r) = sr_name r"
  shows "sessions_unique (sql_update p f rows)"
  using assms by (simp add: sessions_unique_def unique_on_update)

lemma sessions_ok_update:
  assumes "sessions_ok cx d" and "\<And>r. p r \<Longrightarrow> sr_id (f r) = sr_id r \<and> sr_name (f r) = sr_name r"
    and "\<And>r. session_row_ok cx r \<Longrightarrow> session_row_ok cx (f r)"
  shows "sessions_ok cx (update_session p f d)"
  using assms by (auto simp: sessions_ok_def update_session_def sessions_unique_update set_sql_update)

lemma sessions_ok_patch:
  assumes "sessions_ok cx d" and "\<And>r. session_row_ok cx r \<Longrightarrow> session_row_ok cx (f r)"
  shows "sessions_ok cx (fst (patch_session cx f d i))"
  using assms by (auto simp: patch_session_def Let_def sessions_ok_def update_session_def set_sql_update)

lemma session_row_of_ok:
  assumes "codec_ok cx" "canonical_uuid cx i" "case h of None \<Rightarrow> True | Some u \<Rightarrow> canonical_uuid cx u"
  shows "session_row_ok cx (session_row_of cx now i st target h new)"
  using assms by (auto simp: session_row_ok_def session_row_of_def split: option.splits)

lemma session_row_ok_touch:
  assumes "codec_ok cx" "session_row_ok cx r"
  shows "session_row_ok cx (r\<lparr>sr_updated_at := cx_fmt_ts cx now\<rparr>)"
    "session_row_ok cx (r\<lparr>sr_pinned := b, sr_updated_at := cx_fmt_ts cx now\<rparr>)"
    "session_row_ok cx (r\<lparr>sr_name := n, sr_updated_at := cx_fmt_ts cx now\<rparr>)"
    "session_row_ok cx (r\<lparr>sr_tool := n, sr_updated_at := cx_fmt_ts cx now\<rparr>)"
    "session_row_ok cx (r\<lparr>sr_flags := cx_print_strings cx fs, sr_updated_at := cx_fmt_ts cx now\<rparr>)"
    "session_row_ok cx (r\<lparr>sr_status := Status_as_str st, sr_updated_at := cx_fmt_ts cx now\<rparr>)"
    "session_row_ok cx (r\<lparr>sr_status := Status_as_str st, sr_tmux_target := t, sr_updated_at := cx_fmt_ts cx now\<rparr>)"
    "session_row_ok cx (r\<lparr>sr_worktree_path := None, sr_worktree_branch := None,
        sr_worktree_base_ref := None, sr_updated_at := cx_fmt_ts cx now\<rparr>)"
  using assms by (auto simp: session_row_ok_def)

lemma validate_name_cases_case:
  "(case validate_name n of Inl e \<Rightarrow> f e | Inr x \<Rightarrow> g x) =
     (if validate_name n = Inr () then g () else f (InvalidName n))"
  using validate_name_cases [of n] by auto

lemma sessions_ok_create:
  assumes "codec_ok cx" "sessions_ok cx d" "canonical_uuid cx i" "canonical_uuid cx LOCAL_HOST_ID"
    and "case h of None \<Rightarrow> True | Some u \<Rightarrow> canonical_uuid cx u"
  shows "sessions_ok cx (fst (create_session_on_host cx now i d new h))"
proof -
  let ?h = "case h of None \<Rightarrow> LOCAL_HOST_ID | Some u \<Rightarrow> u"
  have "session_row_ok cx (session_row_of cx now i Status_Idle None (Some ?h) new)"
    using assms by (intro session_row_of_ok) (auto split: option.splits)
  with assms(2) show ?thesis
    by (simp add: create_session_on_host_def validate_name_cases_case Let_def sessions_ok_def)
qed

lemma sessions_ok_insert_external:
  assumes "codec_ok cx" "sessions_ok cx d" "canonical_uuid cx i" "canonical_uuid cx h"
  shows "sessions_ok cx (fst (insert_external cx now i d new h target))"
proof -
  have "session_row_ok cx (session_row_of cx now i Status_Stopped (Some target) (Some h) new)"
    using assms by (intro session_row_of_ok) auto
  with assms(2) show ?thesis
    by (auto simp: insert_external_def Let_def sessions_ok_def split: sum.splits)
qed

lemma create_or_get_cases:
  assumes "create_or_get_external_session cx now i rnd d new h target = Some r"
  shows "fst r = d \<or> (\<exists>name. r = insert_external cx now i d (add_external_flag new\<lparr>ns_name := name\<rparr>) h target)"
  using assms
  by (auto simp: create_or_get_external_session_def Let_def split: sum.splits list.splits)

lemma sessions_ok_delete: "sessions_ok cx d \<Longrightarrow> sessions_ok cx (fst (delete_session d i))"
  by (auto simp: delete_session_def delete_channels_where_def Let_def sessions_ok_def
      sessions_unique_def unique_on_delete set_sql_delete)

lemma sessions_ok_cong: "sessions_ok cx d \<Longrightarrow> db_sessions d' = db_sessions d \<Longrightarrow> sessions_ok cx d'"
  by (simp add: sessions_ok_def)

lemma session_step_ok:
  assumes cx: "codec_ok cx" "canonical_uuid cx LOCAL_HOST_ID"
    and "session_step cx d d'" and "sessions_ok cx d"
  shows "sessions_ok cx d'"
  using assms(3,4)
proof cases
  case (external i h now rnd new target r)
  with assms show ?thesis
    using create_or_get_cases [OF external(4)] sessions_ok_insert_external [OF cx(1)] by auto
qed (use cx in \<open>auto simp: sessions_ok_create clear_session_worktree_def patch_session_pinned_def
    patch_session_name_def patch_session_tool_def patch_session_flags_def update_status_def
    update_status_and_target_def compare_and_set_status_and_target_def Let_def sessions_ok_delete
    session_row_ok_touch intro!: sessions_ok_update sessions_ok_patch intro: sessions_ok_cong\<close>)

lemma session_reach_ok:
  assumes "codec_ok cx" "canonical_uuid cx LOCAL_HOST_ID" and "session_reach cx d"
  shows "sessions_ok cx d"
  using assms(3)
proof induction
  case (start d)
  then show ?case by (simp add: sessions_ok_def sessions_unique_def unique_on_def)
next
  case (step d d')
  then show ?case using session_step_ok assms(1,2) by blast
qed

lemma list_sessions_ok:
  assumes "sessions_ok cx d"
  shows "is_ok (list_sessions cx d status)"
proof -
  have "collect_results rs \<noteq> Inl e" if "\<forall>r \<in> set rs. is_ok r" for rs :: "(store_error + session) list" and e
    using that by (induction rs arbitrary: e) (auto simp: is_ok_iff split: sum.splits)
  moreover have "is_ok (Session_try_from cx (join_host d r))" if "r \<in> set (db_sessions d)" for r
    using assms that unfolding join_host_def Let_def Session_try_from_ok by (simp add: sessions_ok_def)
  ultimately have "list_sessions cx d status \<noteq> Inl e" for e
    unfolding list_sessions_def Let_def by (auto split: option.splits)
  then show ?thesis by (cases "list_sessions cx d status") auto
qed

subsection \<open>Reading back what was written\<close>

lemma get_session_by_id_row:
  assumes "sessions_unique (db_sessions d)" and "r \<in> set (db_sessions d)"
  shows "get_session_by_id cx d (sr_id r) =
    and_then (Session_try_from cx (join_host d r)) (\<lambda>s. Inr (Some s))"
  using assms unique_on_find [of sr_id "db_sessions d" r]
  by (auto simp: get_session_by_id_def get_session_where_def sessions_unique_def transpose_opt_def
      split: sum.splits)

lemma Session_try_from_new:
  assumes "codec_ok cx" "canonical_uuid cx i" "canonical_uuid cx h"
  shows "Session_try_from cx (session_row_of cx now i st target (Some h) new, label, kind) =
    Inr \<lparr>s_id = i, s_name = ns_name new, s_workdir = ns_workdir new, s_tool = ns_tool new,
         s_model = ns_model new, s_flags = ns_flags new, s_status = st, s_tmux_target = target,
         s_host_id = Some h, s_host_label = label, s_host_kind = kind, s_created_at = now,
         s_updated_at = now, s_last_activity_at = None, s_tokens = None, s_cost_usd = None,
         s_ctx = None, s_last_log = None, s_uptime_seconds = None, s_state = None, s_pinned = False,
         s_card_id = ns_card_id new, s_worktree_path = ns_worktree_path new,
         s_worktree_branch = ns_worktree_branch new, s_worktree_base_ref = ns_worktree_base_ref new\<rparr>"
  using assms by (simp add: Session_try_from_def session_row_of_def)

lemma create_session_row:
  assumes "create_session_on_host cx now i d new h = (d', Inr s)"
  shows "d' = d\<lparr>db_sessions := db_sessions d @
      [session_row_of cx now i Status_Idle None (Some (case h of None \<Rightarrow> LOCAL_HOST_ID | Some u \<Rightarrow> u)) new]\<rparr>
    \<and> sessions_unique (db_sessions d') \<and> validate_name (ns_name new) = Inr ()"
  using assms
  by (auto simp: create_session_on_host_def validate_name_cases_case Let_def split: if_splits)

subsection \<open>The search for a free name ends\<close>

lemma pick_name_free:
  "\<not> taken (name_candidate prefix (rnd (n + k))) \<Longrightarrow>
     \<exists>m \<ge> n. pick_name taken prefix rnd n = Some (name_candidate prefix (rnd m)) \<and>
       \<not> taken (name_candidate prefix (rnd m))"
proof (induction k arbitrary: n)
  case 0
  then show ?case by (subst pick_name.simps) (auto simp: Let_def)
next
  case (Suc k)
  show ?case
  proof (cases "taken (name_candidate prefix (rnd n))")
    case True
    from Suc.IH [of "Suc n"] Suc.prems obtain m where "m \<ge> Suc n"
      "pick_name taken prefix rnd (Suc n) = Some (name_candidate prefix (rnd m))"
      "\<not> taken (name_candidate prefix (rnd m))" by auto
    with True show ?thesis by (subst pick_name.simps) (auto simp: Let_def intro!: exI [of _ m])
  next
    case False
    then show ?thesis by (subst pick_name.simps) (auto simp: Let_def)
  qed
qed

lemma name_taken_iff: "name_taken d name \<longleftrightarrow> name \<in> sr_name ` set (db_sessions d)"
  by (auto simp: name_taken_def sql_find_None image_iff)

text \<open>More different candidates than sessions leave one candidate free.\<close>

lemma free_candidate:
  assumes "inj_on (\<lambda>n. take 6 (rnd n)) {..length (db_sessions d)}"
  shows "\<exists>n \<le> length (db_sessions d). \<not> name_taken d (name_candidate prefix (rnd n))"
proof (rule ccontr)
  assume "\<not> ?thesis"
  then have "(\<lambda>n. name_candidate prefix (rnd n)) ` {..length (db_sessions d)} \<subseteq> sr_name ` set (db_sessions d)"
    by (auto simp: name_taken_iff)
  moreover have "inj_on (\<lambda>n. name_candidate prefix (rnd n)) {..length (db_sessions d)}"
    using assms by (auto simp: inj_on_def name_candidate_def)
  ultimately have "Suc (length (db_sessions d)) \<le> card (sr_name ` set (db_sessions d))"
    by (metis (no_types, lifting) card_atMost card_image card_mono finite_imageI finite_set)
  also have "\<dots> \<le> length (db_sessions d)"
    using card_image_le [of "set (db_sessions d)" sr_name] card_length [of "db_sessions d"] by simp
  finally show False by simp
qed

subsection \<open>Hosts\<close>

lemma host_row_kind_parts:
  assumes "hr_kind r = hk_kind (host_kind_parts k)" "hr_user r = hk_user (host_kind_parts k)"
    "hr_hostname r = hk_hostname (host_kind_parts k)"
    "hr_port r = map_option uint (hk_port (host_kind_parts k))"
    "hr_auth_kind r = hk_auth_kind (host_kind_parts k)"
    "hr_key_path r = hk_key_path (host_kind_parts k)" "hr_secret r = hk_secret (host_kind_parts k)"
  shows "host_row_kind r = Inr k"
  using assms
  by (cases k) (auto simp: host_row_kind_def Let_def split: ssh_auth.splits)

lemma Host_try_from_new:
  assumes "codec_ok cx" "canonical_uuid cx i"
  shows "Host_try_from cx (host_row_of cx now i new) =
    Inr \<lparr>h_id = i, h_name = nh_name new, h_kind = nh_kind new, h_created_at = now,
         h_updated_at = now, h_last_seen_at = None\<rparr>"
proof -
  have "host_row_kind (host_row_of cx now i new) = Inr (nh_kind new)"
    by (rule host_row_kind_parts) (simp_all add: host_row_of_def Let_def)
  then show ?thesis using assms by (simp add: Host_try_from_def) (simp add: host_row_of_def Let_def)
qed

lemma get_host_row:
  assumes "unique_on hr_id (db_hosts d)" and "r \<in> set (db_hosts d)" and "hr_id r = i"
  shows "get_host cx d i = and_then (Host_try_from cx r) (\<lambda>h. Inr (Some h))"
  using unique_on_find [OF assms]
  by (auto simp: get_host_def transpose_opt_def split: sum.splits)

section \<open>Properties\<close>


definition sample_new_session :: "string \<Rightarrow> new_session" where
  "sample_new_session name =
     \<lparr>ns_name = name, ns_workdir = ''/w'', ns_tool = ''claude'', ns_model = None, ns_flags = [],
      ns_card_id = None, ns_worktree_path = None, ns_worktree_branch = None, ns_worktree_base_ref = None\<rparr>"


text \<open>
  A session that was created is read back as it was returned, with the label and the kind of
  its host filled in.
\<close>

theorem created_session_reads_back:
  assumes "codec_ok cx" and "canonical_uuid cx i" and "canonical_uuid cx host"
    and "create_session_on_host cx now i d new (Some host) = (d', Inr s)"
  shows "\<exists>label kind. get_session_by_id cx d' i = Inr (Some (s\<lparr>s_host_label := label, s_host_kind := kind\<rparr>)) \<and>
    (label, kind) = snd (join_host d' (session_row_of cx now i Status_Idle None (Some host) new))"
proof -
  let ?r = "session_row_of cx now i Status_Idle None (Some host) new"
  note row = create_session_row [OF assms(4), simplified]
  have mem: "?r \<in> set (db_sessions d')" and u: "sessions_unique (db_sessions d')"
    and i: "sr_id ?r = i" using row by (auto simp: session_row_of_def)
  obtain label kind where j: "join_host d' ?r = (?r, label, kind)" by (simp add: join_host_def Let_def)
  have s: "s\<lparr>s_host_label := label, s_host_kind := kind\<rparr> =
      (case Session_try_from cx (?r, label, kind) of Inr x \<Rightarrow> x)"
    using assms(4) row unfolding Session_try_from_new [OF assms(1-3)]
    by (auto simp: create_session_on_host_def validate_name_cases_case Let_def split: if_splits)
  show ?thesis
    using get_session_by_id_row [OF u mem, of cx] i j s
    by (auto simp: Session_try_from_new [OF assms(1-3)])
qed

text \<open>
  Optimistic updates: the compare-and-set of two observers that took the same observation
  cannot both succeed. It succeeds exactly when the session still is what was observed, and a
  loser leaves the database untouched.
\<close>

theorem cas_has_one_winner:
  assumes cx: "codec_ok cx" and u: "sessions_unique (db_sessions d)"
    and later: "now \<noteq> seen"
    and first: "compare_and_set_status_and_target cx now d i st0 t0 seen st t = (d1, won)"
  shows "(won \<longleftrightarrow> (\<exists>r \<in> set (db_sessions d). sr_id r = i \<and> sr_status r = Status_as_str st0 \<and>
      sr_tmux_target r = t0 \<and> sr_updated_at r = cx_fmt_ts cx seen)) \<and>
    (won \<longrightarrow> compare_and_set_status_and_target cx now' d1 i st0 t0 seen st' t' = (d1, False)) \<and>
    (\<not> won \<longrightarrow> d1 = d)"
proof -
  let ?p = "cas_matches cx i st0 t0 seen"
  let ?f = "\<lambda>r. r\<lparr>sr_status := Status_as_str st, sr_tmux_target := t, sr_updated_at := cx_fmt_ts cx now\<rparr>"
  have d1: "d1 = update_session ?p ?f d" and won: "won \<longleftrightarrow> sql_count ?p (db_sessions d) = 1"
    using first by (auto simp: compare_and_set_status_and_target_def Let_def)
  have "sql_count ?p (db_sessions d) \<le> 1"
    using u unique_on_count [of sr_id "db_sessions d" ?p i] by (auto simp: sessions_unique_def cas_matches_def)
  then have iff: "won \<longleftrightarrow> (\<exists>r \<in> set (db_sessions d). ?p r)"
    unfolding won sql_count_pos [symmetric] by auto
  have "\<not> ?p (?f q)" for q
    using later codec_ok_fmt_inject [OF cx] by (auto simp: cas_matches_def)
  then have zero: "sql_count ?p (db_sessions d1) = 0"
    unfolding sql_count_0 d1 update_session_def by (auto simp: set_sql_update)
  have "update_session ?p g d1 = d1" for g
    using session_by_id.update_nothing [OF zero] by (simp add: update_session_def)
  moreover have "d1 = d" if "\<not> won"
    using iff that session_by_id.update_nothing [of ?p d ?f]
    by (auto simp: d1 update_session_def sql_count_0)
  ultimately show ?thesis
    using iff zero by (auto simp: compare_and_set_status_and_target_def Let_def cas_matches_def)
qed

section \<open>A sample database, and the remaining properties\<close>

definition sample_created :: "db \<times> (store_error + session)" where
  "sample_created =
     create_session_on_host sample_codec 5 ''u1'' initial_db (sample_new_session ''a'') (Some LOCAL_HOST_ID)"

lemma sample_name_ok: "validate_name ''a'' = Inr ()"
  by (simp add: validate_name_def name_char_def is_ascii_alphanumeric_def is_ascii_lower_def)

lemma sample_created_ok:
  "\<exists>s. sample_created = (fst sample_created, Inr s) \<and> s_name s = ''a'' \<and>
     db_sessions (fst sample_created) =
       [session_row_of sample_codec 5 ''u1'' Status_Idle None (Some LOCAL_HOST_ID) (sample_new_session ''a'')]"
  by (simp add: sample_created_def create_session_on_host_def sample_new_session_def sample_name_ok
      Let_def initial_db_def sessions_unique_def unique_on_def)

theorem created_session_reads_back_witness:
  "\<exists>s. get_session_by_id sample_codec (fst sample_created) ''u1'' = Inr (Some s) \<and> s_name s = ''a''"
proof -
  obtain s where "sample_created = (fst sample_created, Inr s)" "s_name s = ''a''"
    using sample_created_ok by blast
  then show ?thesis
    using created_session_reads_back [where cx = sample_codec and i = "''u1''" and host = LOCAL_HOST_ID
        and now = 5 and d = initial_db and new = "sample_new_session ''a''" and s = s]
    unfolding sample_created_def by fastforce
qed

theorem cas_has_one_winner_witness:
  "snd (compare_and_set_status_and_target sample_codec 9
     (fst (compare_and_set_status_and_target sample_codec 8 (fst sample_created)
        ''u1'' Status_Idle None 5 Status_Running (Some ''t'')))
     ''u1'' Status_Idle None 5 Status_Stopped None) = False"
proof -
  let ?r = "compare_and_set_status_and_target sample_codec 8 (fst sample_created)
        ''u1'' Status_Idle None 5 Status_Running (Some ''t'')"
  have u: "sessions_unique (db_sessions (fst sample_created))"
    using sample_created_ok by (auto simp: sessions_unique_def unique_on_def)
  show ?thesis
    using cas_has_one_winner [OF sample_codec_ok u, where now = 8 and seen = 5 and i = "''u1''"
        and ?st0.0 = Status_Idle and ?t0.0 = None and st = Status_Running and t = "Some ''t''"
        and won = "snd ?r" and ?d1.0 = "fst ?r" and now' = 9 and st' = Status_Stopped and t' = None]
      sample_created_ok
    by (auto simp: session_row_of_def sample_codec_def)
qed

lemma external_bindings_set:
  "set (external_bindings d h target) = {r \<in> set (db_sessions d). sr_host_id r = Some h \<and> sr_tmux_target r = Some target}"
  by (auto simp: external_bindings_def)

lemma external_bindings_single:
  assumes "external_bindings d h target = []" and "sr_host_id r = Some h" "sr_tmux_target r = Some target"
    and "db_sessions d' = db_sessions d @ [r]"
  shows "external_bindings d' h target = [r]"
proof -
  have "filter (\<lambda>r. sr_host_id r = Some h \<and> sr_tmux_target r = Some target) (db_sessions d) = []"
    using external_bindings_set [of d h target] assms(1) by (auto simp: filter_empty_conv)
  then show ?thesis using assms by (simp add: external_bindings_def order_by_def)
qed

lemma external_name_total:
  assumes "inj_on (\<lambda>n. take 6 (rnd n)) {..length (db_sessions d)}"
  obtains name where "external_name d rnd base = Some name" and "\<not> name_taken d name"
proof (cases "name_taken d base")
  case True
  let ?prefix = "take (min (length base) 56) base"
  obtain n where "\<not> name_taken d (name_candidate ?prefix (rnd n))"
    using free_candidate [OF assms] by blast
  then show ?thesis
    using True that pick_name_free [of "name_taken d" ?prefix rnd 0 n] by (auto simp: external_name_def)
next
  case False
  then show ?thesis using that by (simp add: external_name_def)
qed

lemma insert_external_fresh:
  assumes cx: "codec_ok cx" "canonical_uuid cx i" "canonical_uuid cx h"
    and "sessions_unique (db_sessions d)" and "\<forall>r \<in> set (db_sessions d). sr_id r \<noteq> i"
    and "\<not> name_taken d (ns_name new)"
  shows "\<exists>s. insert_external cx now i d new h target =
      (d\<lparr>db_sessions := db_sessions d @ [session_row_of cx now i Status_Stopped (Some target) (Some h) new]\<rparr>,
       Inr (s, True)) \<and> s_name s = ns_name new \<and>
      Session_try_from cx (join_host
        (d\<lparr>db_sessions := db_sessions d @ [session_row_of cx now i Status_Stopped (Some target) (Some h) new]\<rparr>)
        (session_row_of cx now i Status_Stopped (Some target) (Some h) new)) = Inr s"
proof -
  let ?r = "session_row_of cx now i Status_Stopped (Some target) (Some h) new"
  have "sessions_unique (db_sessions d @ [?r])"
    using assms by (auto simp: sessions_unique_def unique_on_snoc session_row_of_def name_taken_iff image_iff)
  then show ?thesis
    by (simp add: insert_external_def join_host_def Let_def Session_try_from_new [OF cx])
qed

text \<open>
  Attaching to an external tmux pane is total and idempotent: for a valid name and a pane that
  at most one session is bound to, the call returns as soon as the random suffixes take more values
  than there are sessions; a new session is bound to the pane under a name no other session has;
  and the same call afterwards returns that session and changes nothing.
\<close>

theorem external_attach_total_and_idempotent:
  assumes cx: "codec_ok cx" "canonical_uuid cx i" "canonical_uuid cx h"
    and u: "sessions_unique (db_sessions d)" and i: "\<forall>r \<in> set (db_sessions d). sr_id r \<noteq> i"
    and name: "validate_name (ns_name new) = Inr ()"
    and none: "\<forall>r \<in> set (db_sessions d). sr_host_id r = Some h \<longrightarrow> sr_tmux_target r \<noteq> Some target"
    and rnd: "inj_on (\<lambda>n. take 6 (rnd n)) {..length (db_sessions d)}"
  shows "\<exists>d' s. create_or_get_external_session cx now i rnd d new h target = Some (d', Inr (s, True)) \<and>
    s_name s \<notin> sr_name ` set (db_sessions d) \<and>
    create_or_get_external_session cx now' i' rnd' d' new h target = Some (d', Inr (s, False))"
proof -
  have "set (external_bindings d h target) = {}"
    unfolding external_bindings_set using none by auto
  then have empty: "external_bindings d h target = []" by simp
  obtain nm where nm: "external_name d rnd (ns_name new) = Some nm" "\<not> name_taken d nm"
    using external_name_total [OF rnd] .
  have same: "ns_name (add_external_flag new) = ns_name new" by (simp add: add_external_flag_def)
  let ?new = "add_external_flag new\<lparr>ns_name := nm\<rparr>"
  let ?row = "session_row_of cx now i Status_Stopped (Some target) (Some h) ?new"
  let ?d = "d\<lparr>db_sessions := db_sessions d @ [?row]\<rparr>"
  obtain s where s: "insert_external cx now i d ?new h target = (?d, Inr (s, True))" "s_name s = nm"
    "Session_try_from cx (join_host ?d ?row) = Inr s"
    using insert_external_fresh [OF cx u i, of ?new now target] nm by auto
  have "external_bindings ?d h target = [?row]"
    by (rule external_bindings_single [OF empty]) (simp_all add: session_row_of_def)
  then show ?thesis
    using name empty nm s same
    by (auto simp: create_or_get_external_session_def Let_def name_taken_iff intro!: exI [of _ ?d])
qed

theorem external_attach_total_and_idempotent_witness:
  "\<exists>d' s. create_or_get_external_session sample_codec 9 ''u2'' (\<lambda>n. [char_of (97 + n)])
     (fst sample_created) (sample_new_session ''a'') LOCAL_HOST_ID ''%1'' = Some (d', Inr (s, True)) \<and>
     s_name s \<noteq> ''a''"
proof -
  have "length (db_sessions (fst sample_created)) = 1" using sample_created_ok by auto
  then have inj: "inj_on (\<lambda>n. take 6 [char_of (97 + n) :: char]) {..length (db_sessions (fst sample_created))}"
    by (auto simp: inj_on_def le_Suc_eq)
  have row: "db_sessions (fst sample_created) =
      [session_row_of sample_codec 5 ''u1'' Status_Idle None (Some LOCAL_HOST_ID) (sample_new_session ''a'')]"
    using sample_created_ok by blast
  have new: "ns_name (sample_new_session ''a'') = ''a''" by (simp add: sample_new_session_def)
  have "\<exists>d' s. create_or_get_external_session sample_codec 9 ''u2'' (\<lambda>n. [char_of (97 + n)])
     (fst sample_created) (sample_new_session ''a'') LOCAL_HOST_ID ''%1'' = Some (d', Inr (s, True)) \<and>
     s_name s \<notin> sr_name ` set (db_sessions (fst sample_created))"
    using external_attach_total_and_idempotent [where cx = sample_codec and i = "''u2''" and h = LOCAL_HOST_ID
        and d = "fst sample_created" and new = "sample_new_session ''a''" and target = "''%1''"
        and rnd = "\<lambda>n. [char_of (97 + n)]" and now = 9, OF _ _ _ _ _ _ _ inj]
    by (fastforce simp: row session_row_of_def sessions_unique_def unique_on_def sample_name_ok new)
  then show ?thesis by (auto simp: row session_row_of_def new)
qed

text \<open>
  A host is read back as it was created: the connection data survives its split into columns,
  whatever the authentication, and the port keeps its 16 bits.
\<close>

theorem created_host_reads_back:
  assumes "codec_ok cx" and "canonical_uuid cx i" and "create_host cx now i d new = (d', Inr h)"
  shows "get_host cx d' i = Inr (Some h) \<and> h_kind h = nh_kind new"
proof -
  let ?r = "host_row_of cx now i new"
  have d': "db_hosts d' = db_hosts d @ [?r]" "unique_on hr_id (db_hosts d')"
    and h: "Host_try_from cx ?r = Inr h" "h_kind h = nh_kind new"
    using assms by (auto simp: create_host_def Let_def Host_try_from_new split: if_splits)
  have "hr_id ?r = i" by (simp add: host_row_of_def Let_def)
  then show ?thesis using get_host_row [of d' ?r i cx] d' h by simp
qed

definition sample_ssh :: "string \<Rightarrow> new_host" where
  "sample_ssh pw = \<lparr>nh_name = ''box'', nh_kind = HostKind_Ssh ''me'' ''box.lan'' 2222 (SshAuth_Password pw)\<rparr>"

definition sample_host_db :: db where
  "sample_host_db = fst (create_host sample_codec 1 ''h1'' initial_db (sample_ssh ''pw''))"

lemma sample_host_created:
  "create_host sample_codec 1 ''h1'' initial_db (sample_ssh ''pw'') =
     (sample_host_db, Inr \<lparr>h_id = ''h1'', h_name = ''box'', h_kind = nh_kind (sample_ssh ''pw''),
        h_created_at = 1, h_updated_at = 1, h_last_seen_at = None\<rparr>)"
  by (simp add: sample_host_db_def create_host_def initial_db_def unique_on_def host_row_of_def
      LOCAL_HOST_ID_def sample_ssh_def Let_def)

theorem created_host_reads_back_witness:
  "\<exists>h. get_host sample_codec sample_host_db ''h1'' = Inr (Some h) \<and>
     h_kind h = HostKind_Ssh ''me'' ''box.lan'' 2222 (SshAuth_Password ''pw'')"
  using created_host_reads_back [OF sample_codec_ok sample_canonical sample_host_created]
  by (simp add: sample_ssh_def)

text \<open>
  A redacted edit never overwrites a password: an update that retains the password keeps the
  secret of the row, its creation date and its last sighting, whatever password the request
  carries; if the row no longer uses a password, or the request does not, nothing changes and the
  caller gets an error.
\<close>

theorem redacted_edit_keeps_password:
  assumes u: "unique_on hr_id (db_hosts d)" and r: "r \<in> set (db_hosts d)" "hr_id r = i"
    and upd: "update_host_retaining_password cx now d i new = (d', res)"
  shows "(\<exists>r' \<in> set (db_hosts d'). hr_id r' = i \<and> hr_secret r' = hr_secret r \<and>
      hr_created_at r' = hr_created_at r \<and> hr_last_seen_at r' = hr_last_seen_at r) \<and>
    (hr_auth_kind r \<noteq> Some ''password'' \<or> \<not> is_password_auth (nh_kind new) \<longrightarrow>
      d' = d \<and> (\<exists>e. res = Inl e))"
proof -
  let ?p = "\<lambda>q. hr_id q = i \<and> hr_auth_kind q = Some ''password''"
  let ?f = "host_update cx now new True"
  have keep: "hr_id (?f q) = hr_id q" "hr_secret (?f q) = hr_secret q" "hr_created_at (?f q) = hr_created_at q"
      "hr_last_seen_at (?f q) = hr_last_seen_at q" for q
    by (simp_all add: host_update_def Let_def)
  have none: "sql_count ?p (db_hosts d) = 0" if "hr_auth_kind r \<noteq> Some ''password''"
    using that unique_on_same [OF u _ r(1)] r(2) by (auto simp: sql_count_0)
  have same: "d' = d \<and> (\<exists>e. res = Inl e)"
      if "hr_auth_kind r \<noteq> Some ''password'' \<or> \<not> is_password_auth (nh_kind new)"
    using upd none that by (auto simp: update_host_retaining_password_def update_host_inner_def Let_def split: if_splits)
  have "\<exists>r' \<in> set (db_hosts d'). hr_id r' = i \<and> hr_secret r' = hr_secret r \<and>
      hr_created_at r' = hr_created_at r \<and> hr_last_seen_at r' = hr_last_seen_at r"
    if "d' = d \<or> d' = d\<lparr>db_hosts := sql_update ?p ?f (db_hosts d)\<rparr>"
    using that
  proof
    assume "d' = d"
    with r show ?thesis by blast
  next
    assume d': "d' = d\<lparr>db_hosts := sql_update ?p ?f (db_hosts d)\<rparr>"
    have "(if ?p r then ?f r else r) \<in> set (db_hosts d')" using r(1) by (auto simp: d' set_sql_update)
    then show ?thesis using keep r(2) by (intro bexI [of _ "if ?p r then ?f r else r"]) simp_all
  qed
  moreover have "d' = d \<or> d' = d\<lparr>db_hosts := sql_update ?p ?f (db_hosts d)\<rparr>"
    using upd by (auto simp: update_host_retaining_password_def update_host_inner_def Let_def split: if_splits)
  ultimately show ?thesis using same by blast
qed

theorem redacted_edit_keeps_password_witness:
  "\<exists>r' \<in> set (db_hosts (fst (update_host_retaining_password sample_codec 7 sample_host_db ''h1''
     (sample_ssh REDACTED_SSH_PASSWORD)))). hr_id r' = ''h1'' \<and> hr_secret r' = Some ''pw''"
proof -
  let ?r = "host_row_of sample_codec 1 ''h1'' (sample_ssh ''pw'')"
  have rows: "db_hosts sample_host_db = db_hosts initial_db @ [?r]"
    by (simp add: sample_host_db_def create_host_def initial_db_def unique_on_def host_row_of_def
        LOCAL_HOST_ID_def sample_ssh_def Let_def)
  have "unique_on hr_id (db_hosts sample_host_db)"
    unfolding rows by (simp add: initial_db_def unique_on_def host_row_of_def LOCAL_HOST_ID_def Let_def)
  moreover have "?r \<in> set (db_hosts sample_host_db)" "hr_id ?r = ''h1''" "hr_secret ?r = Some ''pw''"
    unfolding rows by (simp_all add: host_row_of_def sample_ssh_def Let_def)
  ultimately show ?thesis
    using redacted_edit_keeps_password [OF _ _ _ surjective_pairing] by fastforce
qed

end
