(* ===== verification/Store_Board.thy ===== *)
theory Store_Board
  imports Store_Sessions
begin

text \<open>
  \<open>crates/agentum-store/src/lib.rs\<close>, second part: board items, their comments, manual order and
  column rules, the links between cards, and the binding of a card to a session, which is kept on
  both sides (\<open>board_items.session_id\<close> and \<open>sessions.card_id\<close>). Operations that the code runs in a
  transaction return the old database on every error.
\<close>

section \<open>Items\<close>

text \<open>The next autoincrement id of \<open>board_items\<close>, and the key made of it.\<close>

definition card_key :: "int \<Rightarrow> string" where
  "card_key i = ''AG-'' @ string_of_int i"

definition next_board_id :: "db \<Rightarrow> int" where
  "next_board_id d = sq_board_items (db_seq d) + 1"

definition insert_board_row :: "board_item_row \<Rightarrow> db \<Rightarrow> db" where
  "insert_board_row r d =
     d\<lparr>db_board_items := db_board_items d @ [r],
       db_seq := (db_seq d)\<lparr>sq_board_items := br_id r\<rparr>\<rparr>"

definition update_board :: "(board_item_row \<Rightarrow> bool) \<Rightarrow> (board_item_row \<Rightarrow> board_item_row) \<Rightarrow> db \<Rightarrow> db" where
  "update_board p f d = d\<lparr>db_board_items := sql_update p f (db_board_items d)\<rparr>"

definition board_row_of :: "codec \<Rightarrow> time \<Rightarrow> int \<Rightarrow> new_board_item \<Rightarrow> board_item_row" where
  "board_row_of cx now i new =
     \<lparr>br_id = i, br_key = card_key i, br_title = nb_title new, br_body = nb_body new,
      br_status = (case nb_status new of Some s \<Rightarrow> s | None \<Rightarrow> ''todo''), br_claimed_by = None,
      br_created_at = cx_fmt_ts cx now, br_updated_at = cx_fmt_ts cx now, br_lbl = nb_lbl new,
      br_tool = nb_tool new, br_workdir = nb_workdir new, br_model = nb_model new,
      br_session_id = nb_session_id new,
      br_priority = (case nb_priority new of Some p \<Rightarrow> p | None \<Rightarrow> 0),
      br_parent_goal_id = nb_parent_goal_id new\<rparr>"

text \<open>The check of a session the payload binds to, and the writes of the transaction.\<close>

definition create_check :: "db \<Rightarrow> uuid option \<Rightarrow> store_error + unit" where
  "create_check d session_id =
     (case session_id of
        None \<Rightarrow> Inr ()
      | Some sid \<Rightarrow>
          (case sql_find (\<lambda>r. sr_id r = sid) (db_sessions d) of
             None \<Rightarrow> Inl (StoreError_NotFound (''session '' @ sid))
           | Some r \<Rightarrow>
               (case sr_card_id r of
                  Some other \<Rightarrow> Inl (StoreError_AlreadyExists
                    (''session '' @ sid @ '' already bound to card '' @ string_of_int other))
                | None \<Rightarrow> Inr ())))"

definition bind_session_card :: "codec \<Rightarrow> time \<Rightarrow> uuid \<Rightarrow> int option \<Rightarrow> db \<Rightarrow> db" where
  "bind_session_card cx now sid cid d =
     update_session (\<lambda>r. sr_id r = sid) (\<lambda>r. r\<lparr>sr_card_id := cid, sr_updated_at := cx_fmt_ts cx now\<rparr>) d"

definition create_write :: "codec \<Rightarrow> time \<Rightarrow> db \<Rightarrow> board_item_row \<Rightarrow> db" where
  "create_write cx now d row =
     (case br_session_id row of
        None \<Rightarrow> insert_board_row row d
      | Some sid \<Rightarrow> bind_session_card cx now sid (Some (br_id row)) (insert_board_row row d))"

definition create_board_item :: "codec \<Rightarrow> time \<Rightarrow> db \<Rightarrow> new_board_item \<Rightarrow> db \<times> (store_error + board_item)" where
  "create_board_item cx now d new =
     (case create_check d (nb_session_id new) of
        Inl e \<Rightarrow> (d, Inl e)
      | Inr _ \<Rightarrow>
          let i = next_board_id d; row = board_row_of cx now i new
          in if \<not> unique_on br_key (db_board_items d @ [row])
             then (d, Inl (StoreError_Sqlx Sqlx_UniqueViolation))
             else (create_write cx now d row,
                   Inr \<lparr>bi_id = i, bi_key = card_key i, bi_title = nb_title new, bi_body = nb_body new,
                        bi_status = br_status row, bi_claimed_by = None, bi_created_at = now,
                        bi_updated_at = now, bi_lbl = nb_lbl new, bi_tool = nb_tool new,
                        bi_workdir = nb_workdir new, bi_model = nb_model new,
                        bi_session_id = nb_session_id new, bi_priority = br_priority row,
                        bi_parent_goal_id = nb_parent_goal_id new\<rparr>))"

definition list_board_items :: "codec \<Rightarrow> db \<Rightarrow> store_error + board_item list" where
  "list_board_items cx d =
     collect_results (map (BoardItem_try_from cx)
       (order_by (then_by (asc br_status) (then_by (asc br_priority) (asc br_created_at))) (db_board_items d)))"

definition get_board_item :: "codec \<Rightarrow> db \<Rightarrow> int \<Rightarrow> store_error + board_item option" where
  "get_board_item cx d i =
     transpose_opt (map_option (BoardItem_try_from cx) (sql_find (\<lambda>r. br_id r = i) (db_board_items d)))"

text \<open>\<open>COALESCE(?, column)\<close> and \<open>CASE WHEN set = 1 THEN ? ELSE column END\<close>.\<close>

definition coalesce :: "'a option \<Rightarrow> 'a \<Rightarrow> 'a" where
  "coalesce v old = (case v of Some x \<Rightarrow> x | None \<Rightarrow> old)"

definition apply_board_patch :: "codec \<Rightarrow> time \<Rightarrow> board_patch \<Rightarrow> board_item_row \<Rightarrow> board_item_row" where
  "apply_board_patch cx now p r =
     r\<lparr>br_title := coalesce (bp_title p) (br_title r),
       br_status := coalesce (bp_status p) (br_status r),
       br_priority := coalesce (bp_priority p) (br_priority r),
       br_body := coalesce (bp_body p) (br_body r),
       br_lbl := coalesce (bp_lbl p) (br_lbl r),
       br_tool := coalesce (bp_tool p) (br_tool r),
       br_workdir := coalesce (bp_workdir p) (br_workdir r),
       br_model := coalesce (bp_model p) (br_model r),
       br_session_id := coalesce (bp_session_id p) (br_session_id r),
       br_parent_goal_id := coalesce (bp_parent_goal_id p) (br_parent_goal_id r),
       br_updated_at := cx_fmt_ts cx now\<rparr>"

definition get_board_or_not_found :: "codec \<Rightarrow> db \<Rightarrow> int \<Rightarrow> string \<Rightarrow> store_error + board_item" where
  "get_board_or_not_found cx d i what = and_then (get_board_item cx d i) (ok_or (StoreError_NotFound what))"

definition patch_board_item :: "codec \<Rightarrow> time \<Rightarrow> db \<Rightarrow> int \<Rightarrow> board_patch \<Rightarrow> db \<times> (store_error + board_item)" where
  "patch_board_item cx now d i patch =
     (let p = (\<lambda>r. br_id r = i); d1 = update_board p (apply_board_patch cx now patch) d
      in if sql_count p (db_board_items d) = 0 then (d1, Inl (StoreError_NotFound (string_of_int i)))
         else (d1, get_board_or_not_found cx d1 i (string_of_int i)))"

text \<open>\<open>ON DELETE CASCADE\<close>: comments and links of the card go with it.\<close>

definition delete_board_item :: "db \<Rightarrow> int \<Rightarrow> db \<times> (store_error + unit)" where
  "delete_board_item d i =
     (if sql_count (\<lambda>r. br_id r = i) (db_board_items d) = 0
      then (d, Inl (StoreError_NotFound (string_of_int i)))
      else (d\<lparr>db_board_items := sql_delete (\<lambda>r. br_id r = i) (db_board_items d),
              db_board_comments := sql_delete (\<lambda>c. bcr_board_id c = i) (db_board_comments d),
              db_board_links := sql_delete (\<lambda>l. blr_from l = i \<or> blr_to l = i) (db_board_links d)\<rparr>, Inr ()))"

definition claim_board_item :: "codec \<Rightarrow> time \<Rightarrow> db \<Rightarrow> int \<Rightarrow> string \<Rightarrow> db \<times> (store_error + board_item option)" where
  "claim_board_item cx now d i claimed_by =
     (let p = (\<lambda>r. br_id r = i \<and> br_claimed_by r = None);
          d1 = update_board p (\<lambda>r. r\<lparr>br_claimed_by := Some claimed_by, br_updated_at := cx_fmt_ts cx now\<rparr>) d
      in if sql_count p (db_board_items d) = 0 then (d1, Inr None)
         else (d1, get_board_item cx d1 i))"

definition release_board_item :: "codec \<Rightarrow> time \<Rightarrow> db \<Rightarrow> int \<Rightarrow> string \<Rightarrow> db \<times> (store_error + board_item option)" where
  "release_board_item cx now d i actor =
     (case get_board_or_not_found cx d i (string_of_int i) of
        Inl e \<Rightarrow> (d, Inl e)
      | Inr existing \<Rightarrow>
          if bi_claimed_by existing = None then (d, Inr (Some existing))
          else
            let p = (\<lambda>r. br_id r = i \<and> (actor = [] \<or> br_claimed_by r = Some actor));
                d1 = update_board p (\<lambda>r. r\<lparr>br_claimed_by := None, br_updated_at := cx_fmt_ts cx now\<rparr>) d
            in if sql_count p (db_board_items d) = 0 then (d1, Inr None)
               else (d1, get_board_item cx d1 i))"

section \<open>Comments\<close>

definition list_board_comments :: "codec \<Rightarrow> db \<Rightarrow> int \<Rightarrow> store_error + board_comment list" where
  "list_board_comments cx d board_id =
     collect_results (map (BoardComment_try_from cx)
       (order_by (asc bcr_created_at) (filter (\<lambda>c. bcr_board_id c = board_id) (db_board_comments d))))"

definition create_board_comment ::
    "codec \<Rightarrow> time \<Rightarrow> db \<Rightarrow> int \<Rightarrow> new_board_comment \<Rightarrow> db \<times> (store_error + board_comment)" where
  "create_board_comment cx now d board_id new =
     (if trim (nbc_author new) = []
      then (d, Inl (StoreError_NotFound (''board item '' @ string_of_int board_id @ '': empty author'')))
      else case get_board_item cx d board_id of
        Inl e \<Rightarrow> (d, Inl e)
      | Inr None \<Rightarrow> (d, Inl (StoreError_NotFound (string_of_int board_id)))
      | Inr (Some _) \<Rightarrow>
          let i = sq_board_comments (db_seq d) + 1
          in (d\<lparr>db_board_comments := db_board_comments d @
                  [\<lparr>bcr_id = i, bcr_board_id = board_id, bcr_author = nbc_author new,
                    bcr_body = nbc_body new, bcr_created_at = cx_fmt_ts cx now\<rparr>],
                db_seq := (db_seq d)\<lparr>sq_board_comments := i\<rparr>\<rparr>,
              Inr \<lparr>bc_id = i, bc_board_id = board_id, bc_author = nbc_author new,
                   bc_body = nbc_body new, bc_created_at = now\<rparr>))"

definition has_board_comments :: "db \<Rightarrow> int \<Rightarrow> bool" where
  "has_board_comments d board_id = (sql_find (\<lambda>c. bcr_board_id c = board_id) (db_board_comments d) \<noteq> None)"

text \<open>The map of comment counts; ids without a comment have no entry.\<close>

definition count_board_comments :: "db \<Rightarrow> int \<Rightarrow> int option" where
  "count_board_comments d board_id =
     (let n = sql_count (\<lambda>c. bcr_board_id c = board_id) (db_board_comments d)
      in if n = 0 then None else Some (int n))"

fun reorder_loop :: "codec \<Rightarrow> time \<Rightarrow> reorder_entry list \<Rightarrow> db \<Rightarrow> db" where
  "reorder_loop cx now [] d = d"
| "reorder_loop cx now (e # es) d =
     reorder_loop cx now es
       (update_board (\<lambda>r. br_id r = re_id e)
          (\<lambda>r. r\<lparr>br_priority := re_priority e, br_updated_at := cx_fmt_ts cx now\<rparr>) d)"

definition reorder_board_items :: "codec \<Rightarrow> time \<Rightarrow> db \<Rightarrow> reorder_entry list \<Rightarrow> db" where
  "reorder_board_items cx now d entries = (if entries = [] then d else reorder_loop cx now entries d)"

section \<open>Column rules\<close>

definition get_board_column_rule :: "codec \<Rightarrow> db \<Rightarrow> string \<Rightarrow> store_error + required_field list option" where
  "get_board_column_rule cx d column =
     (case sql_find (\<lambda>r. brr_column_name r = column) (db_board_rules d) of
        Some r \<Rightarrow> and_then (parse_rule_json cx (brr_required_fields r)) (\<lambda>fs. Inr (Some fs))
      | None \<Rightarrow> Inr None)"

fun list_rules_loop ::
    "codec \<Rightarrow> board_rule_row list \<Rightarrow> (string \<rightharpoonup> required_field list) \<Rightarrow>
     store_error + (string \<rightharpoonup> required_field list)" where
  "list_rules_loop cx [] out = Inr out"
| "list_rules_loop cx (r # rs) out =
     and_then (parse_rule_json cx (brr_required_fields r))
       (\<lambda>parsed. list_rules_loop cx rs (out(brr_column_name r \<mapsto> parsed)))"

definition list_board_column_rules :: "codec \<Rightarrow> db \<Rightarrow> store_error + (string \<rightharpoonup> required_field list)" where
  "list_board_column_rules cx d = list_rules_loop cx (db_board_rules d) Map.empty"

definition upsert_board_column_rule :: "codec \<Rightarrow> time \<Rightarrow> db \<Rightarrow> string \<Rightarrow> required_field list \<Rightarrow> db" where
  "upsert_board_column_rule cx now d column fs =
     (let json = cx_print_strings cx (map as_missing_key fs); now_s = cx_fmt_ts cx now
      in if sql_find (\<lambda>r. brr_column_name r = column) (db_board_rules d) = None
         then d\<lparr>db_board_rules := db_board_rules d @
                [\<lparr>brr_column_name = column, brr_required_fields = json, brr_updated_at = now_s\<rparr>]\<rparr>
         else d\<lparr>db_board_rules := sql_update (\<lambda>r. brr_column_name r = column)
                (\<lambda>r. r\<lparr>brr_required_fields := json, brr_updated_at := now_s\<rparr>) (db_board_rules d)\<rparr>)"

definition delete_board_column_rule :: "db \<Rightarrow> string \<Rightarrow> db \<times> bool" where
  "delete_board_column_rule d column =
     (d\<lparr>db_board_rules := sql_delete (\<lambda>r. brr_column_name r = column) (db_board_rules d)\<rparr>,
      0 < sql_count (\<lambda>r. brr_column_name r = column) (db_board_rules d))"

section \<open>Links\<close>

text \<open>\<open>{kind:?}\<close>: the derived \<open>Debug\<close> of \<open>LinkKind\<close>.\<close>

fun LinkKind_debug :: "link_kind \<Rightarrow> string" where
  "LinkKind_debug LinkKind_ParentOf = ''ParentOf''"
| "LinkKind_debug LinkKind_Blocks = ''Blocks''"

definition link_key :: "board_link_row \<Rightarrow> int \<times> int \<times> string" where
  "link_key l = (blr_from l, blr_to l, blr_kind l)"

definition card_exists :: "db \<Rightarrow> int \<Rightarrow> bool" where
  "card_exists d i = (sql_find (\<lambda>r. br_id r = i) (db_board_items d) \<noteq> None)"

definition add_board_link :: "codec \<Rightarrow> time \<Rightarrow> db \<Rightarrow> int \<Rightarrow> int \<Rightarrow> link_kind \<Rightarrow> db \<times> (store_error + board_link)" where
  "add_board_link cx now d a b kind =
     (let rows = db_board_links d @
            [\<lparr>blr_from = a, blr_to = b, blr_kind = LinkKind_as_str kind, blr_created_at = cx_fmt_ts cx now\<rparr>]
      in if \<not> unique_on link_key rows
         then (d, Inl (StoreError_AlreadyExists (''board_link '' @ string_of_int a @ '' -'' @
                LinkKind_debug kind @ ''-> '' @ string_of_int b)))
         else if \<not> (card_exists d a \<and> card_exists d b)
         then (d, Inl (StoreError_Sqlx Sqlx_ForeignKeyViolation))
         else (d\<lparr>db_board_links := rows\<rparr>,
               Inr \<lparr>bl_from_card_id = a, bl_to_card_id = b, bl_kind = kind, bl_created_at = now\<rparr>))"

definition list_children_of_goal :: "codec \<Rightarrow> db \<Rightarrow> int \<Rightarrow> store_error + board_item list" where
  "list_children_of_goal cx d goal_id =
     collect_results (map (BoardItem_try_from cx)
       (order_by (then_by (asc br_priority) (asc br_created_at))
          (filter (\<lambda>r. br_parent_goal_id r = Some goal_id) (db_board_items d))))"

definition BoardLink_from_row :: "codec \<Rightarrow> board_link_row \<Rightarrow> store_error + board_link" where
  "BoardLink_from_row cx r =
     and_then (lift_core (LinkKind_from_str (blr_kind r))) (\<lambda>kind.
     and_then (parse_ts cx (blr_created_at r)) (\<lambda>created.
       Inr \<lparr>bl_from_card_id = blr_from r, bl_to_card_id = blr_to r, bl_kind = kind, bl_created_at = created\<rparr>))"

definition list_board_links_for_goal :: "codec \<Rightarrow> db \<Rightarrow> int \<Rightarrow> store_error + board_link list" where
  "list_board_links_for_goal cx d goal_id =
     collect_results (map (BoardLink_from_row cx)
       (order_by (asc blr_created_at) (filter (\<lambda>l. blr_from l = goal_id) (db_board_links d))))"

definition delete_board_link :: "db \<Rightarrow> int \<Rightarrow> int \<Rightarrow> link_kind \<Rightarrow> db \<times> bool" where
  "delete_board_link d a b kind =
     (let p = (\<lambda>l. link_key l = (a, b, LinkKind_as_str kind))
      in (d\<lparr>db_board_links := sql_delete p (db_board_links d)\<rparr>, 0 < sql_count p (db_board_links d)))"

text \<open>The \<open>CASE\<close> of the query, and \<open>MAX\<close> over the children: \<open>NULL\<close> on the empty set.\<close>

definition child_rank :: "string \<Rightarrow> int" where
  "child_rank status =
     (if status = ''todo'' then 0 else if status = ''doing'' then 1 else if status = ''done'' then 2 else 0)"

definition max_child_status_rank :: "db \<Rightarrow> int \<Rightarrow> int option" where
  "max_child_status_rank d goal_id =
     (case filter (\<lambda>r. br_parent_goal_id r = Some goal_id) (db_board_items d) of
        [] \<Rightarrow> None
      | r # rs \<Rightarrow> Some (foldl max (child_rank (br_status r)) (map (\<lambda>q. child_rank (br_status q)) rs)))"

section \<open>Binding cards and sessions\<close>

text \<open>The session row \<open>claim_card\<close> inserts: it names neither the host nor the worktree columns.\<close>

definition claimed_session_row :: "codec \<Rightarrow> time \<Rightarrow> uuid \<Rightarrow> int \<Rightarrow> new_session \<Rightarrow> session_row" where
  "claimed_session_row cx now i cid new =
     (session_row_of cx now i Status_Idle None None new)
       \<lparr>sr_card_id := Some cid, sr_worktree_path := None, sr_worktree_branch := None,
        sr_worktree_base_ref := None\<rparr>"

definition claim_check :: "db \<Rightarrow> int \<Rightarrow> store_error + unit" where
  "claim_check d card_id =
     (case sql_find (\<lambda>r. br_id r = card_id) (db_board_items d) of
        None \<Rightarrow> Inl (StoreError_NotFound (''board item '' @ string_of_int card_id))
      | Some b \<Rightarrow>
          (case br_session_id b of
             Some sid \<Rightarrow> Inl (StoreError_AlreadyExists
               (''card '' @ string_of_int card_id @ '' already bound to session '' @ sid))
           | None \<Rightarrow> Inr ()))"

definition claim_write :: "codec \<Rightarrow> time \<Rightarrow> uuid \<Rightarrow> db \<Rightarrow> int \<Rightarrow> session_row list \<Rightarrow> db" where
  "claim_write cx now i d card_id rows =
     update_board (\<lambda>r. br_id r = card_id)
       (\<lambda>r. r\<lparr>br_session_id := Some i, br_updated_at := cx_fmt_ts cx now\<rparr>) (d\<lparr>db_sessions := rows\<rparr>)"

definition claim_reload :: "codec \<Rightarrow> db \<Rightarrow> int \<Rightarrow> uuid \<Rightarrow> store_error + board_item \<times> session" where
  "claim_reload cx d card_id i =
     and_then (get_board_or_not_found cx d card_id (''board item '' @ string_of_int card_id)) (\<lambda>item.
     and_then (and_then (get_session_by_id cx d i) (ok_or (StoreError_NotFound i))) (\<lambda>s.
       Inr (item, s)))"

definition claim_card ::
    "codec \<Rightarrow> time \<Rightarrow> uuid \<Rightarrow> db \<Rightarrow> int \<Rightarrow> new_session \<Rightarrow> db \<times> (store_error + board_item \<times> session)" where
  "claim_card cx now i d card_id new =
     (case and_then (lift_core (validate_name (ns_name new))) (\<lambda>_. claim_check d card_id) of
        Inl e \<Rightarrow> (d, Inl e)
      | Inr _ \<Rightarrow>
          let rows = db_sessions d @ [claimed_session_row cx now i card_id new]
          in if \<not> sessions_unique rows then (d, Inl (StoreError_AlreadyExists (ns_name new)))
             else let d1 = claim_write cx now i d card_id rows in (d1, claim_reload cx d1 card_id i))"

text \<open>The check of the target session, and the three writes of the transaction.\<close>

definition transfer_check :: "db \<Rightarrow> int \<Rightarrow> uuid option \<Rightarrow> store_error + unit" where
  "transfer_check d card_id new_session_id =
     (case new_session_id of
        None \<Rightarrow> Inr ()
      | Some new \<Rightarrow>
          (case sql_find (\<lambda>r. sr_id r = new) (db_sessions d) of
             None \<Rightarrow> Inl (StoreError_NotFound (''session '' @ new))
           | Some r \<Rightarrow>
               (case sr_card_id r of
                  Some existing_card \<Rightarrow>
                    if existing_card \<noteq> card_id
                    then Inl (StoreError_AlreadyExists (''session '' @ new @ '' already bound to card '' @
                           string_of_int existing_card))
                    else Inr ()
                | None \<Rightarrow> Inr ())))"

definition transfer_write ::
    "codec \<Rightarrow> time \<Rightarrow> db \<Rightarrow> int \<Rightarrow> uuid option \<Rightarrow> uuid option \<Rightarrow> db" where
  "transfer_write cx now d card_id old_session_id new_session_id =
     (let d1 = (case old_session_id of None \<Rightarrow> d | Some old \<Rightarrow> bind_session_card cx now old None d);
          d2 = (case new_session_id of None \<Rightarrow> d1 | Some new \<Rightarrow> bind_session_card cx now new (Some card_id) d1)
      in update_board (\<lambda>r. br_id r = card_id)
           (\<lambda>r. r\<lparr>br_session_id := new_session_id, br_updated_at := cx_fmt_ts cx now\<rparr>) d2)"

definition transfer_card_binding ::
    "codec \<Rightarrow> time \<Rightarrow> db \<Rightarrow> int \<Rightarrow> uuid option \<Rightarrow> db \<times> (store_error + board_item)" where
  "transfer_card_binding cx now d card_id new_session_id =
     (case sql_find (\<lambda>r. br_id r = card_id) (db_board_items d) of
        None \<Rightarrow> (d, Inl (StoreError_NotFound (''board item '' @ string_of_int card_id)))
      | Some b \<Rightarrow>
          (case transfer_check d card_id new_session_id of
             Inl e \<Rightarrow> (d, Inl e)
           | Inr _ \<Rightarrow>
               let d3 = transfer_write cx now d card_id (br_session_id b) new_session_id
               in (d3, get_board_or_not_found cx d3 card_id (''board item '' @ string_of_int card_id))))"

section \<open>The tables are keyed\<close>

interpretation board_by_id: keyed_table db_board_items "\<lambda>rs d. d\<lparr>db_board_items := rs\<rparr>" br_id
  by unfold_locales simp_all

interpretation rule_by_column: keyed_table db_board_rules "\<lambda>rs d. d\<lparr>db_board_rules := rs\<rparr>" brr_column_name
  by unfold_locales simp_all

interpretation link_by_key: keyed_table db_board_links "\<lambda>rs d. d\<lparr>db_board_links := rs\<rparr>" link_key
  by unfold_locales simp_all

section \<open>Integrity of the board\<close>

definition board_ok :: "db \<Rightarrow> bool" where
  "board_ok d \<longleftrightarrow>
     unique_on br_id (db_board_items d) \<and>
     (\<forall>b \<in> set (db_board_items d). br_key b = card_key (br_id b) \<and> br_id b \<le> sq_board_items (db_seq d)) \<and>
     (\<forall>c \<in> set (db_board_comments d). card_exists d (bcr_board_id c)) \<and>
     (\<forall>l \<in> set (db_board_links d). card_exists d (blr_from l) \<and> card_exists d (blr_to l)) \<and>
     unique_on link_key (db_board_links d)"

text \<open>One write of the board part of the store.\<close>

inductive board_step :: "codec \<Rightarrow> db \<Rightarrow> db \<Rightarrow> bool" for cx where
  create: "board_step cx d (fst (create_board_item cx now d new))"
| patch: "board_step cx d (fst (patch_board_item cx now d i p))"
| delete: "board_step cx d (fst (delete_board_item d i))"
| claim: "board_step cx d (fst (claim_board_item cx now d i who))"
| release: "board_step cx d (fst (release_board_item cx now d i who))"
| comment: "board_step cx d (fst (create_board_comment cx now d i nc))"
| reorder: "board_step cx d (reorder_board_items cx now d es)"
| set_rule: "board_step cx d (upsert_board_column_rule cx now d col fs)"
| drop_rule: "board_step cx d (fst (delete_board_column_rule d col))"
| link: "board_step cx d (fst (add_board_link cx now d a b k))"
| unlink: "board_step cx d (fst (delete_board_link d a b k))"
| claim_card: "board_step cx d (fst (claim_card cx now i d c ns))"
| transfer: "board_step cx d (fst (transfer_card_binding cx now d c so))"

inductive board_reach :: "codec \<Rightarrow> db \<Rightarrow> bool" for cx where
  start: "board_reach cx initial_db"
| step: "board_reach cx d \<Longrightarrow> board_step cx d d' \<Longrightarrow> board_reach cx d'"

lemma card_exists_iff: "card_exists d i \<longleftrightarrow> i \<in> br_id ` set (db_board_items d)"
  by (auto simp: card_exists_def sql_find_None image_iff)

lemma card_key_inject [simp]: "card_key i = card_key j \<longleftrightarrow> i = j"
  by (simp add: card_key_def)

lemma board_ok_update:
  assumes "board_ok d" and "\<And>r. p r \<Longrightarrow> br_id (f r) = br_id r \<and> br_key (f r) = br_key r"
  shows "board_ok (update_board p f d)"
proof -
  have "br_id ` set (sql_update p f (db_board_items d)) = br_id ` set (db_board_items d)"
    using map_sql_update [of p br_id f "db_board_items d"] assms(2) by (metis list.set_map)
  then have ex: "card_exists (update_board p f d) = card_exists d"
    by (simp add: fun_eq_iff card_exists_iff update_board_def)
  show ?thesis
    unfolding board_ok_def ex using assms
    by (auto simp: board_ok_def update_board_def unique_on_update set_sql_update)
qed

lemma board_ok_sessions: "board_ok (update_session p f d) \<longleftrightarrow> board_ok d"
  by (simp add: board_ok_def update_session_def card_exists_iff)

lemma board_ok_other_tables [simp]:
  "board_ok (d\<lparr>db_sessions := ss\<rparr>) = board_ok d" "board_ok (d\<lparr>db_board_rules := rs\<rparr>) = board_ok d"
  by (simp_all add: board_ok_def card_exists_iff)

lemma board_ok_insert:
  assumes "board_ok d" "br_id r = next_board_id d" "br_key r = card_key (br_id r)"
  shows "board_ok (insert_board_row r d)"
proof -
  have "br_id q \<noteq> br_id r" "br_id q \<le> br_id r" if "q \<in> set (db_board_items d)" for q
    using assms that by (auto simp: board_ok_def next_board_id_def)
  with assms show ?thesis
    by (auto simp: board_ok_def insert_board_row_def unique_on_snoc card_exists_iff)
qed

lemma create_board_item_cases:
  "fst (create_board_item cx now d new) \<in>
     {d, insert_board_row (board_row_of cx now (next_board_id d) new) d} \<union>
     {update_session p f (insert_board_row (board_row_of cx now (next_board_id d) new) d) | p f. True}"
  by (auto simp: create_board_item_def create_write_def bind_session_card_def Let_def
      split: option.split sum.split)

lemma board_ok_create: "board_ok d \<Longrightarrow> board_ok (fst (create_board_item cx now d new))"
  using create_board_item_cases [of cx now d new]
    board_ok_insert [of d "board_row_of cx now (next_board_id d) new"]
  by (auto simp: board_ok_sessions board_row_of_def)

lemma board_ok_delete: "board_ok d \<Longrightarrow> board_ok (fst (delete_board_item d i))"
  by (auto simp: delete_board_item_def board_ok_def card_exists_iff unique_on_delete set_sql_delete)

lemma get_board_item_exists: "get_board_item cx d i = Inr (Some x) \<Longrightarrow> card_exists d i"
  by (auto simp: get_board_item_def card_exists_def transpose_opt_def split: option.splits)

lemma board_ok_insert_comment:
  assumes "board_ok d" and "card_exists d (bcr_board_id c)"
  shows "board_ok (d\<lparr>db_board_comments := db_board_comments d @ [c], db_seq := (db_seq d)\<lparr>sq_board_comments := n\<rparr>\<rparr>)"
  using assms by (simp add: board_ok_def card_exists_def)

lemma board_ok_comment: "board_ok d \<Longrightarrow> board_ok (fst (create_board_comment cx now d i nc))"
  by (auto simp: create_board_comment_def Let_def intro!: board_ok_insert_comment
      dest: get_board_item_exists split: sum.split option.split)

lemma board_ok_reorder: "board_ok d \<Longrightarrow> board_ok (reorder_loop cx now es d)"
  by (induction es arbitrary: d) (simp_all add: board_ok_update)

lemma board_ok_link: "board_ok d \<Longrightarrow> board_ok (fst (add_board_link cx now d a b k))"
  by (auto simp: add_board_link_def Let_def board_ok_def card_exists_iff)

lemma board_ok_unlink: "board_ok d \<Longrightarrow> board_ok (fst (delete_board_link d a b k))"
  by (auto simp: delete_board_link_def Let_def board_ok_def card_exists_iff unique_on_delete set_sql_delete)

lemma board_ok_claim_card: "board_ok d \<Longrightarrow> board_ok (fst (claim_card cx now i d c ns))"
  by (auto simp: claim_card_def claim_write_def Let_def intro!: board_ok_update split: sum.split)

lemma board_ok_transfer: "board_ok d \<Longrightarrow> board_ok (fst (transfer_card_binding cx now d c so))"
  by (auto simp: transfer_card_binding_def transfer_write_def Let_def bind_session_card_def
      board_ok_sessions intro!: board_ok_update split: sum.split option.split)

lemma board_step_ok:
  assumes "board_step cx d d'" and "board_ok d"
  shows "board_ok d'"
  using assms
  by cases (auto simp: patch_board_item_def claim_board_item_def release_board_item_def Let_def
      reorder_board_items_def upsert_board_column_rule_def delete_board_column_rule_def
      apply_board_patch_def board_ok_create board_ok_delete board_ok_comment board_ok_reorder
      board_ok_link board_ok_unlink board_ok_claim_card board_ok_transfer
      intro!: board_ok_update split: sum.splits)

lemma board_reach_ok: "board_reach cx d \<Longrightarrow> board_ok d"
proof (induction rule: board_reach.induct)
  case start
  show ?case by (simp add: board_ok_def initial_db_def unique_on_def)
next
  case (step d d')
  then show ?case using board_step_ok by blast
qed

section \<open>The binding of cards and sessions\<close>

text \<open>
  Seen abstractly, the bindings are a relation between card ids and session ids. The database
  writes it twice; \<open>bound_ok\<close> says that the two copies agree, over unique ids.
\<close>

definition card_side :: "db \<Rightarrow> (int \<times> uuid) set" where
  "card_side d = {(br_id b, sid) | b sid. b \<in> set (db_board_items d) \<and> br_session_id b = Some sid}"

definition session_side :: "db \<Rightarrow> (int \<times> uuid) set" where
  "session_side d = {(c, sr_id s) | c s. s \<in> set (db_sessions d) \<and> sr_card_id s = Some c}"

definition bound_ok :: "db \<Rightarrow> bool" where
  "bound_ok d \<longleftrightarrow> board_ok d \<and> sessions_unique (db_sessions d) \<and> card_side d = session_side d"

lemma card_side_iff:
  "(c, s) \<in> card_side d \<longleftrightarrow> (\<exists>b \<in> set (db_board_items d). br_id b = c \<and> br_session_id b = Some s)"
  by (auto simp: card_side_def)

lemma session_side_iff:
  "(c, s) \<in> session_side d \<longleftrightarrow> (\<exists>r \<in> set (db_sessions d). sr_id r = s \<and> sr_card_id r = Some c)"
  by (auto simp: session_side_def)

lemma card_side_row:
  assumes "board_ok d" and "b \<in> set (db_board_items d)"
  shows "(br_id b, s) \<in> card_side d \<longleftrightarrow> br_session_id b = Some s"
proof
  assume "(br_id b, s) \<in> card_side d"
  then obtain q where q: "q \<in> set (db_board_items d)" "br_id q = br_id b" "br_session_id q = Some s"
    by (auto simp: card_side_iff)
  then have "q = b" using unique_on_same [of br_id "db_board_items d" q b] assms by (simp add: board_ok_def)
  with q show "br_session_id b = Some s" by simp
qed (use assms in \<open>auto simp: card_side_iff\<close>)

lemma session_side_row:
  assumes "sessions_unique (db_sessions d)" and "r \<in> set (db_sessions d)"
  shows "(c, sr_id r) \<in> session_side d \<longleftrightarrow> sr_card_id r = Some c"
proof
  assume "(c, sr_id r) \<in> session_side d"
  then obtain q where q: "q \<in> set (db_sessions d)" "sr_id q = sr_id r" "sr_card_id q = Some c"
    by (auto simp: session_side_iff)
  then have "q = r" using unique_on_same [of sr_id "db_sessions d" q r] assms by (simp add: sessions_unique_def)
  with q show "sr_card_id r = Some c" by simp
qed (use assms in \<open>auto simp: session_side_iff\<close>)

lemma card_side_functional:
  assumes "board_ok d" "(c, s) \<in> card_side d" "(c, t) \<in> card_side d"
  shows "s = t"
proof -
  obtain b where "b \<in> set (db_board_items d)" "br_id b = c" using assms(2) by (auto simp: card_side_iff)
  then show ?thesis using assms card_side_row [OF assms(1), of b] by auto
qed

lemma session_side_functional:
  assumes "sessions_unique (db_sessions d)" "(c, s) \<in> session_side d" "(e, s) \<in> session_side d"
  shows "c = e"
proof -
  obtain r where "r \<in> set (db_sessions d)" "sr_id r = s" using assms(2) by (auto simp: session_side_iff)
  then show ?thesis using assms session_side_row [OF assms(1), of r] by auto
qed

lemma card_side_update_session [simp]: "card_side (update_session p f d) = card_side d"
  by (simp add: card_side_def update_session_def)

lemma session_side_update_board [simp]: "session_side (update_board p f d) = session_side d"
  by (simp add: session_side_def update_board_def)

lemma card_side_rebind:
  assumes "card_exists d c" and f: "\<And>r. br_id (f r) = br_id r" "\<And>r. br_session_id (f r) = v"
  shows "card_side (update_board (\<lambda>r. br_id r = c) f d) =
    {(e, s) \<in> card_side d. e \<noteq> c} \<union> {(c, s) | s. v = Some s}"
proof -
  have "(e, s) \<in> card_side (update_board (\<lambda>r. br_id r = c) f d) \<longleftrightarrow>
      (e \<noteq> c \<and> (e, s) \<in> card_side d) \<or> (e = c \<and> v = Some s)" for e s
    using assms(1) unfolding card_side_iff update_board_def
    by (simp add: bex_sql_update f card_exists_iff image_iff) blast
  then show ?thesis by auto
qed

lemma session_side_bind:
  assumes f: "\<And>r. sr_id (f r) = sr_id r" "\<And>r. sr_card_id (f r) = v"
  shows "session_side (update_session (\<lambda>r. sr_id r = i) f d) =
    {(c, s) \<in> session_side d. s \<noteq> i} \<union> {(c, i) | c. v = Some c \<and> i \<in> sr_id ` set (db_sessions d)}"
proof -
  have "(c, s) \<in> session_side (update_session (\<lambda>r. sr_id r = i) f d) \<longleftrightarrow>
      (s \<noteq> i \<and> (c, s) \<in> session_side d) \<or> (s = i \<and> v = Some c \<and> i \<in> sr_id ` set (db_sessions d))" for c s
    unfolding session_side_iff update_session_def
    by (simp add: bex_sql_update f image_iff) blast
  then show ?thesis by auto
qed

lemma image_sql_update:
  assumes "\<And>r. p r \<Longrightarrow> key (f r) = key r"
  shows "key ` set (sql_update p f rows) = key ` set rows"
  using map_sql_update [of p key f rows] assms by (metis list.set_map)

lemma sessions_unique_bind:
  "sessions_unique (db_sessions (bind_session_card cx now s v d)) = sessions_unique (db_sessions d)"
  by (simp add: bind_session_card_def update_session_def sessions_unique_def unique_on_def map_sql_update)

subsection \<open>Transfer\<close>

lemma transfer_check_ok:
  assumes "transfer_check d c (Some n) = Inr ()" and "sessions_unique (db_sessions d)"
  shows "n \<in> sr_id ` set (db_sessions d)" and "(e, n) \<in> session_side d \<Longrightarrow> e = c"
proof -
  obtain r where r: "sql_find (\<lambda>r. sr_id r = n) (db_sessions d) = Some r"
    "sr_card_id r = None \<or> sr_card_id r = Some c"
    using assms by (auto simp: transfer_check_def split: option.splits if_splits)
  then show "n \<in> sr_id ` set (db_sessions d)" using sql_find_Some [OF r(1)] by auto
  assume "(e, n) \<in> session_side d"
  then obtain s where "s \<in> set (db_sessions d)" "sr_id s = n" "sr_card_id s = Some e"
    by (auto simp: session_side_def)
  then show "e = c"
    using r sql_find_Some [OF r(1)] unique_on_same [of sr_id "db_sessions d" s r] assms(2)
    by (auto simp: sessions_unique_def)
qed

text \<open>The abstract effect of a transfer: card \<open>c\<close> is bound to \<open>v\<close> and to nothing else.\<close>

definition rebind :: "int \<Rightarrow> uuid option \<Rightarrow> (int \<times> uuid) set \<Rightarrow> (int \<times> uuid) set" where
  "rebind c v rel = {(e, s) \<in> rel. e \<noteq> c} \<union> {(c, s) | s. v = Some s}"

lemma transfer_write_sides:
  assumes ok: "bound_ok d" and b: "sql_find (\<lambda>r. br_id r = c) (db_board_items d) = Some b"
    and chk: "transfer_check d c v = Inr ()"
  shows "card_side (transfer_write cx now d c (br_session_id b) v) = rebind c v (card_side d)"
    and "session_side (transfer_write cx now d c (br_session_id b) v) = rebind c v (card_side d)"
proof -
  let ?d1 = "case br_session_id b of None \<Rightarrow> d | Some old \<Rightarrow> bind_session_card cx now old None d"
  let ?d2 = "case v of None \<Rightarrow> ?d1 | Some n \<Rightarrow> bind_session_card cx now n (Some c) ?d1"
  have items: "card_side ?d2 = card_side d" "db_board_items ?d2 = db_board_items d"
    by (auto simp: bind_session_card_def update_session_def card_side_def split: option.splits)
  have w: "transfer_write cx now d c (br_session_id b) v =
      update_board (\<lambda>r. br_id r = c) (\<lambda>r. r\<lparr>br_session_id := v, br_updated_at := cx_fmt_ts cx now\<rparr>) ?d2"
    by (simp add: transfer_write_def Let_def)
  have "card_exists ?d2 c" using b items(2) by (simp add: card_exists_def)
  then show "card_side (transfer_write cx now d c (br_session_id b) v) = rebind c v (card_side d)"
    unfolding w using items(1) by (subst card_side_rebind) (auto simp: rebind_def)
  have bmem: "b \<in> set (db_board_items d)" "br_id b = c" using sql_find_Some [OF b] by auto
  have old: "(c, s) \<in> card_side d \<longleftrightarrow> br_session_id b = Some s" for s
    using bmem ok card_side_row [of d b s] by (simp add: bound_ok_def)
  have eq: "card_side d = session_side d" and u: "sessions_unique (db_sessions d)" and bo: "board_ok d"
    using ok by (auto simp: bound_ok_def)
  have d1: "session_side ?d1 = {(e, s) \<in> card_side d. e \<noteq> c}"
  proof (cases "br_session_id b")
    case None
    then show ?thesis using old eq by auto
  next
    case (Some old_s)
    have "session_side ?d1 = {(e, s) \<in> session_side d. s \<noteq> old_s}"
      by (simp add: Some bind_session_card_def session_side_bind)
    moreover have "s \<noteq> old_s \<longleftrightarrow> e \<noteq> c" if "(e, s) \<in> session_side d" for e s
      using that old Some eq session_side_functional [OF u] by (metis option.inject)
    ultimately show ?thesis using eq by auto
  qed
  have "session_side ?d2 = rebind c v (card_side d)"
  proof (cases v)
    case None
    then show ?thesis using d1 by (simp add: rebind_def)
  next
    case (Some n)
    have n: "n \<in> sr_id ` set (db_sessions d)" "(e, n) \<in> session_side d \<Longrightarrow> e = c" for e
      using transfer_check_ok [OF chk [unfolded Some] u] by auto
    have ids: "sr_id ` set (db_sessions ?d1) = sr_id ` set (db_sessions d)"
      by (simp add: bind_session_card_def update_session_def image_sql_update split: option.splits)
    have "session_side ?d2 = {(e, s) \<in> session_side ?d1. s \<noteq> n} \<union> {(c, n)}"
      using n(1) ids unfolding Some option.case bind_session_card_def [of _ _ n]
      by (subst session_side_bind) auto
    then show ?thesis unfolding d1 using n(2) eq Some by (auto simp: rebind_def)
  qed
  then show "session_side (transfer_write cx now d c (br_session_id b) v) = rebind c v (card_side d)"
    unfolding w by simp
qed

lemma transfer_cases:
  assumes "transfer_card_binding cx now d c v = (d', res)"
  shows "(d' = d \<and> (\<exists>e. res = Inl e)) \<or>
    (\<exists>b. sql_find (\<lambda>r. br_id r = c) (db_board_items d) = Some b \<and> transfer_check d c v = Inr () \<and>
       d' = transfer_write cx now d c (br_session_id b) v)"
  using assms by (auto simp: transfer_card_binding_def Let_def split: option.splits sum.splits)

lemma sessions_unique_transfer_write:
  "sessions_unique (db_sessions (transfer_write cx now d c o' v)) = sessions_unique (db_sessions d)"
proof -
  have "sessions_unique (db_sessions (update_board p f x)) = sessions_unique (db_sessions x)" for p f x
    by (simp add: update_board_def)
  then show ?thesis
    by (simp add: transfer_write_def Let_def sessions_unique_bind split: option.split)
qed

lemma bound_ok_transfer:
  assumes ok: "bound_ok d" and t: "transfer_card_binding cx now d c v = (d', res)"
  shows "bound_ok d'" and "is_ok res \<Longrightarrow> card_side d' = rebind c v (card_side d)"
proof -
  have "board_ok d'" using board_ok_transfer [of d cx now c v] ok t by (simp add: bound_ok_def)
  then show "bound_ok d'" and "is_ok res \<Longrightarrow> card_side d' = rebind c v (card_side d)"
    using transfer_cases [OF t] transfer_write_sides [OF ok] ok
    by (auto simp: bound_ok_def sessions_unique_transfer_write)
qed

subsection \<open>Creation and claim\<close>

lemma card_side_insert:
  "card_side (insert_board_row r d) = card_side d \<union> {(br_id r, s) | s. br_session_id r = Some s}"
  by (auto simp: card_side_def insert_board_row_def)

lemma session_side_insert_board [simp]: "session_side (insert_board_row r d) = session_side d"
  by (simp add: session_side_def insert_board_row_def)

lemma session_side_insert:
  "session_side (d\<lparr>db_sessions := db_sessions d @ [r]\<rparr>) =
     session_side d \<union> {(c, sr_id r) | c. sr_card_id r = Some c}"
  by (auto simp: session_side_def)

lemma sessions_unique_update_session:
  assumes "\<And>r. p r \<Longrightarrow> sr_id (f r) = sr_id r \<and> sr_name (f r) = sr_name r"
  shows "sessions_unique (db_sessions (update_session p f d)) = sessions_unique (db_sessions d)"
  using assms by (simp add: update_session_def sessions_unique_def unique_on_def map_sql_update)

lemma bound_ok_create:
  assumes ok: "bound_ok d" and c: "create_board_item cx now d new = (d', res)"
  shows "bound_ok d'"
proof -
  let ?i = "next_board_id d"
  let ?d1 = "insert_board_row (board_row_of cx now ?i new) d"
  have bo: "board_ok d'" using board_ok_create [of d cx now new] ok c by (simp add: bound_ok_def)
  have row: "br_id (board_row_of cx now ?i new) = ?i"
    "br_session_id (board_row_of cx now ?i new) = nb_session_id new" by (simp_all add: board_row_of_def)
  have s1: "db_sessions ?d1 = db_sessions d" by (simp add: insert_board_row_def)
  consider "d' = d" | "nb_session_id new = None" "d' = ?d1"
    | s r where "nb_session_id new = Some s" "sql_find (\<lambda>r. sr_id r = s) (db_sessions d) = Some r"
        "sr_card_id r = None" "d' = bind_session_card cx now s (Some ?i) ?d1"
  proof (cases "create_check d (nb_session_id new)")
    case (Inl e)
    then show ?thesis using c that(1) by (simp add: create_board_item_def)
  next
    case (Inr x)
    have "d' = d \<or> d' = create_write cx now d (board_row_of cx now ?i new)"
      using c Inr by (auto simp: create_board_item_def Let_def split: if_splits)
    then show ?thesis
    proof
      assume w: "d' = create_write cx now d (board_row_of cx now ?i new)"
      show ?thesis
      proof (cases "nb_session_id new")
        case None
        then show ?thesis using that(2) w by (simp add: create_write_def row)
      next
        case (Some s)
        then obtain r where "sql_find (\<lambda>r. sr_id r = s) (db_sessions d) = Some r" "sr_card_id r = None"
          using Inr by (auto simp: create_check_def split: option.splits)
        then show ?thesis using that(3) [of s r] w Some by (simp add: create_write_def row)
      qed
    qed (rule that(1))
  qed
  then show ?thesis
  proof cases
    case 3
    have r: "r \<in> set (db_sessions d)" "sr_id r = s" using sql_find_Some [OF 3(2)] by auto
    have none: "(e, s) \<notin> session_side d" for e
      using session_side_row [of d r e] r 3(3) ok by (auto simp: bound_ok_def)
    have "session_side d' = {(c, s') \<in> session_side d. s' \<noteq> s} \<union> {(?i, s)}"
      using r unfolding 3(4) bind_session_card_def by (subst session_side_bind) (auto simp: s1)
    moreover have "card_side d' = card_side d \<union> {(?i, s)}"
      by (auto simp: 3 bind_session_card_def card_side_insert row)
    ultimately show ?thesis
      using bo none ok 3(4) by (auto simp: bound_ok_def sessions_unique_bind s1)
  qed (use ok bo in \<open>auto simp: bound_ok_def card_side_insert row s1\<close>)
qed

lemma bound_ok_claim:
  assumes ok: "bound_ok d" and c: "claim_card cx now i d cid new = (d', res)"
  shows "bound_ok d' \<and> (d' \<noteq> d \<longrightarrow> card_side d' = card_side d \<union> {(cid, i)})"
proof -
  let ?row = "claimed_session_row cx now i cid new"
  let ?f = "\<lambda>r. r\<lparr>br_session_id := Some i, br_updated_at := cx_fmt_ts cx now\<rparr>"
  let ?d1 = "d\<lparr>db_sessions := db_sessions d @ [?row]\<rparr>"
  have bo: "board_ok d'" using board_ok_claim_card [of d cx now i cid new] ok c by (simp add: bound_ok_def)
  have row: "sr_id ?row = i" "sr_card_id ?row = Some cid"
    by (simp_all add: claimed_session_row_def session_row_of_def)
  consider "d' = d"
    | b where "sql_find (\<lambda>r. br_id r = cid) (db_board_items d) = Some b" "br_session_id b = None"
        "sessions_unique (db_sessions d @ [?row])" "d' = update_board (\<lambda>r. br_id r = cid) ?f ?d1"
  proof (cases "and_then (lift_core (validate_name (ns_name new))) (\<lambda>_. claim_check d cid)")
    case (Inl e)
    then show ?thesis using c that(1) by (simp add: claim_card_def)
  next
    case (Inr x)
    then obtain b where "sql_find (\<lambda>r. br_id r = cid) (db_board_items d) = Some b" "br_session_id b = None"
      by (auto simp: and_then_eq_Inr claim_check_def split: option.splits)
    then show ?thesis using c Inr that
      by (auto simp: claim_card_def claim_write_def Let_def split: if_splits)
  qed
  then show ?thesis
  proof cases
    case 1
    then show ?thesis using ok by simp
  next
    case 2
    have b: "b \<in> set (db_board_items d)" "br_id b = cid" using sql_find_Some [OF 2(1)] by auto
    have none: "(cid, s) \<notin> card_side d" for s
      using card_side_row [of d b s] b 2(2) ok by (auto simp: bound_ok_def)
    have "card_exists ?d1 cid" using 2(1) by (simp add: card_exists_def)
    moreover have "card_side ?d1 = card_side d" by (simp add: card_side_def)
    ultimately have "card_side d' = {(e, s) \<in> card_side d. e \<noteq> cid} \<union> {(cid, i)}"
      unfolding 2(4) by (subst card_side_rebind) auto
    moreover have "{(e, s) \<in> card_side d. e \<noteq> cid} = card_side d" using none by auto
    moreover have "session_side d' = session_side d \<union> {(cid, i)}"
      using row by (simp add: 2(4) session_side_insert)
    moreover have "sessions_unique (db_sessions d')" using 2(3) by (simp add: 2(4) update_board_def)
    ultimately show ?thesis using bo ok by (auto simp: bound_ok_def)
  qed
qed

subsection \<open>Claims\<close>

lemma update_board_none:
  "sql_count p (db_board_items d) = 0 \<Longrightarrow> update_board p f d = d"
  using board_by_id.update_nothing by (simp add: update_board_def)

lemma get_board_row:
  assumes "board_ok d" "r \<in> set (db_board_items d)" "br_id r = i"
  shows "get_board_item cx d i = and_then (BoardItem_try_from cx r) (\<lambda>x. Inr (Some x))"
  using unique_on_find [of br_id "db_board_items d" r i] assms
  by (auto simp: get_board_item_def transpose_opt_def board_ok_def split: sum.splits)

lemma get_board_item_Some:
  assumes "get_board_item cx d i = Inr (Some x)"
  shows "\<exists>r \<in> set (db_board_items d). br_id r = i \<and> BoardItem_try_from cx r = Inr x"
  using assms by (auto simp: get_board_item_def transpose_opt_def dest: sql_find_Some split: option.splits sum.splits)

lemma claimed_by_of_row: "BoardItem_try_from cx r = Inr x \<Longrightarrow> bi_claimed_by x = br_claimed_by r"
  by (auto simp: BoardItem_try_from_def and_then_eq_Inr)

lemma claim_won:
  assumes ok: "board_ok d" and c: "claim_board_item cx now d i who = (d1, Inr (Some item))"
  shows "board_ok d1" and "get_board_item cx d1 i = Inr (Some item)" and "bi_claimed_by item = Some who"
    and "\<And>r. r \<in> set (db_board_items d1) \<Longrightarrow> br_id r = i \<Longrightarrow> br_claimed_by r = Some who"
    and "\<exists>r \<in> set (db_board_items d). br_id r = i \<and> br_claimed_by r = None"
proof -
  let ?p = "\<lambda>r. br_id r = i \<and> br_claimed_by r = None"
  let ?f = "\<lambda>r. r\<lparr>br_claimed_by := Some who, br_updated_at := cx_fmt_ts cx now\<rparr>"
  have d1: "d1 = update_board ?p ?f d" and get: "get_board_item cx d1 i = Inr (Some item)"
    and n: "sql_count ?p (db_board_items d) \<noteq> 0"
    using c by (auto simp: claim_board_item_def Let_def split: if_splits)
  show "board_ok d1" unfolding d1 using ok by (rule board_ok_update) auto
  show "get_board_item cx d1 i = Inr (Some item)" by (rule get)
  show ex: "\<exists>r \<in> set (db_board_items d). br_id r = i \<and> br_claimed_by r = None"
    using n by (auto simp: sql_count_0)
  show rows: "br_claimed_by r = Some who" if "r \<in> set (db_board_items d1)" "br_id r = i" for r
  proof -
    have "r \<in> (\<lambda>r. if ?p r then ?f r else r) ` set (db_board_items d)"
      using that(1) by (simp add: d1 update_board_def set_sql_update del: if_image_distrib)
    then obtain q where q: "q \<in> set (db_board_items d)" "r = (if ?p q then ?f q else q)" by (rule imageE)
    obtain q' where q': "q' \<in> set (db_board_items d)" "br_id q' = i" "br_claimed_by q' = None" using ex by blast
    have "br_id q = i" using q(2) that(2) by (auto split: if_splits)
    then have "q = q'" using unique_on_same [of br_id "db_board_items d" q q'] ok q q' by (simp add: board_ok_def)
    then show ?thesis using q q' by simp
  qed
  show "bi_claimed_by item = Some who"
    using get_board_item_Some [OF get] rows claimed_by_of_row by fastforce
qed

section \<open>Properties\<close>

text \<open>
  Integrity of the board: in every database the board operations can reach from the migrated
  one, each card has a key of its own, which is \<open>AG-\<close> followed by its id, comments and links only
  refer to existing cards, no link is stored twice, and creating a card never runs into the unique
  index of the keys.
\<close>

theorem board_integrity:
  assumes "board_reach cx d"
  shows "distinct (map br_key (db_board_items d)) \<and>
    (\<forall>b \<in> set (db_board_items d). br_key b = ''AG-'' @ string_of_int (br_id b)) \<and>
    bcr_board_id ` set (db_board_comments d) \<subseteq> br_id ` set (db_board_items d) \<and>
    blr_from ` set (db_board_links d) \<union> blr_to ` set (db_board_links d) \<subseteq> br_id ` set (db_board_items d) \<and>
    distinct (map link_key (db_board_links d)) \<and>
    snd (create_board_item cx now d new) \<noteq> Inl (StoreError_Sqlx Sqlx_UniqueViolation)"
proof -
  have ok: "board_ok d" using board_reach_ok [OF assms] .
  then have keys: "map br_key (db_board_items d) = map card_key (map br_id (db_board_items d))"
    by (auto simp: board_ok_def)
  have inj: "inj card_key" by (auto simp: inj_def)
  have u: "unique_on br_key (db_board_items d)"
    using ok inj unfolding unique_on_def keys board_ok_def by (simp add: distinct_map inj_on_def)
  have fresh: "br_id q \<noteq> next_board_id d" if "q \<in> set (db_board_items d)" for q
    using ok that by (auto simp: board_ok_def next_board_id_def)
  have "unique_on br_key (db_board_items d @ [board_row_of cx now (next_board_id d) new])"
    using u fresh ok by (auto simp: unique_on_snoc board_row_of_def board_ok_def)
  then have "snd (create_board_item cx now d new) \<noteq> Inl (StoreError_Sqlx Sqlx_UniqueViolation)"
    by (auto simp: create_board_item_def create_check_def Let_def split: sum.splits option.splits)
  then show ?thesis
    using ok u by (auto simp: board_ok_def unique_on_def card_exists_iff card_key_def)
qed

definition sample_card :: new_board_item where
  "sample_card =
     \<lparr>nb_title = ''t'', nb_body = None, nb_status = None, nb_lbl = None, nb_tool = None,
      nb_workdir = None, nb_model = None, nb_session_id = None, nb_priority = None,
      nb_parent_goal_id = None\<rparr>"

definition sample_board :: db where
  "sample_board = fst (create_board_item sample_codec 3 initial_db sample_card)"

lemma sample_board_reach: "board_reach sample_codec sample_board"
  unfolding sample_board_def by (rule board_reach.step [OF board_reach.start board_step.create])

lemma sample_board_rows: "db_board_items sample_board = [board_row_of sample_codec 3 1 sample_card]"
  by (simp add: sample_board_def create_board_item_def create_check_def sample_card_def Let_def
      create_write_def insert_board_row_def board_row_of_def initial_db_def unique_on_def next_board_id_def)

theorem board_integrity_witness:
  "distinct (map br_key (db_board_items sample_board)) \<and> length (db_board_items sample_board) = 1"
  using board_integrity [OF sample_board_reach, of 0 sample_card] by (simp add: sample_board_rows)

text \<open>
  Claims are exclusive: after a successful claim every other claim of the card fails and a
  release by another actor is refused, both without changing anything; a release by the holder, or
  by the empty actor that stands for the administrator, frees the card.
\<close>

theorem claims_are_exclusive:
  assumes ok: "board_ok d" and c: "claim_board_item cx now d i who = (d1, Inr (Some item))"
  shows "claim_board_item cx now' d1 i who' = (d1, Inr None) \<and>
    (actor \<noteq> [] \<and> actor \<noteq> who \<longrightarrow> release_board_item cx now' d1 i actor = (d1, Inr None)) \<and>
    (actor = [] \<or> actor = who \<longrightarrow>
       (\<forall>r \<in> set (db_board_items (fst (release_board_item cx now' d1 i actor))).
          br_id r = i \<longrightarrow> br_claimed_by r = None))"
proof -
  note won = claim_won [OF ok c]
  have zero: "sql_count (\<lambda>r. br_id r = i \<and> br_claimed_by r = None) (db_board_items d1) = 0"
    using won(4) by (fastforce simp: sql_count_0)
  have other: "sql_count (\<lambda>r. br_id r = i \<and> (actor = [] \<or> br_claimed_by r = Some actor)) (db_board_items d1) = 0"
    if "actor \<noteq> []" "actor \<noteq> who" using won(4) that by (fastforce simp: sql_count_0)
  have ex: "get_board_or_not_found cx d1 i w = Inr item" for w
    using won(2) by (simp add: get_board_or_not_found_def)
  have free: "br_claimed_by r = None"
    if "actor = [] \<or> actor = who" "r \<in> set (db_board_items (fst (release_board_item cx now' d1 i actor)))" "br_id r = i" for r
  proof -
    let ?q = "\<lambda>r. br_id r = i \<and> (actor = [] \<or> br_claimed_by r = Some actor)"
    let ?g = "\<lambda>r. r\<lparr>br_claimed_by := None, br_updated_at := cx_fmt_ts cx now'\<rparr>"
    have "fst (release_board_item cx now' d1 i actor) = update_board ?q ?g d1"
      using won(3) by (simp add: release_board_item_def ex Let_def)
    then have "r \<in> (\<lambda>r. if ?q r then ?g r else r) ` set (db_board_items d1)"
      using that(2) by (simp add: update_board_def set_sql_update del: if_image_distrib)
    then obtain q where "q \<in> set (db_board_items d1)" "r = (if ?q q then ?g q else q)" by (rule imageE)
    then show ?thesis using that(1,3) won(4) [of q] by (auto split: if_splits)
  qed
  have "claim_board_item cx now' d1 i who' = (d1, Inr None)"
    using zero by (simp add: claim_board_item_def Let_def update_board_none)
  moreover have "release_board_item cx now' d1 i actor = (d1, Inr None)" if "actor \<noteq> []" "actor \<noteq> who"
    using other [OF that] won(3) that by (simp add: release_board_item_def ex Let_def update_board_none)
  ultimately show ?thesis using free by blast
qed

theorem claims_are_exclusive_witness:
  "claim_board_item sample_codec 5 (fst (claim_board_item sample_codec 4 sample_board 1 ''ann'')) 1 ''bob'' =
     (fst (claim_board_item sample_codec 4 sample_board 1 ''ann''), Inr None)"
proof -
  have ok: "board_ok sample_board" by (rule board_reach_ok [OF sample_board_reach])
  let ?row = "board_row_of sample_codec 3 1 sample_card"
  let ?row' = "?row\<lparr>br_claimed_by := Some ''ann'', br_updated_at := cx_fmt_ts sample_codec 4\<rparr>"
  have row: "br_id ?row = 1" "br_claimed_by ?row = None" "br_created_at ?row = cx_fmt_ts sample_codec 3"
    by (simp_all add: board_row_of_def)
  have "\<exists>x. BoardItem_try_from sample_codec ?row' = Inr x"
    by (simp add: BoardItem_try_from_def row)
  then have "\<exists>item. snd (claim_board_item sample_codec 4 sample_board 1 ''ann'') = Inr (Some item)"
    by (simp add: claim_board_item_def sample_board_rows sql_count_def update_board_def
        sql_update_def get_board_item_def sql_find_def transpose_opt_def row) auto
  then obtain item where "claim_board_item sample_codec 4 sample_board 1 ''ann'' =
      (fst (claim_board_item sample_codec 4 sample_board 1 ''ann''), Inr (Some item))"
    by (metis prod.collapse)
  from claims_are_exclusive [OF ok this, of 5 "''bob''" "''bob''"] show ?thesis by blast
qed

text \<open>
  C30. The two copies of the binding agree: creating a card (bound to a session or not), claiming a
  card and transferring a binding keep \<open>board_items.session_id\<close> and \<open>sessions.card_id\<close> the same
  relation, whatever the outcome of the call; a claim adds exactly one pair, and a successful
  transfer replaces the pairs of the card by the requested one.
\<close>

theorem bindings_stay_consistent:
  assumes ok: "bound_ok d"
  shows "bound_ok (fst (create_board_item cx now d new)) \<and>
    bound_ok (fst (claim_card cx now i d c ns)) \<and>
    bound_ok (fst (transfer_card_binding cx now d c v)) \<and>
    card_side (fst (claim_card cx now i d c ns)) \<in> {card_side d, card_side d \<union> {(c, i)}} \<and>
    (is_ok (snd (transfer_card_binding cx now d c v)) \<longrightarrow>
       session_side (fst (transfer_card_binding cx now d c v)) = rebind c v (card_side d))"
proof -
  note cl = bound_ok_claim [OF ok surjective_pairing, of cx now i c ns]
  note tr = bound_ok_transfer [OF ok surjective_pairing, of cx now c v]
  have "session_side (fst (transfer_card_binding cx now d c v)) = card_side (fst (transfer_card_binding cx now d c v))"
    using tr(1) by (simp add: bound_ok_def)
  moreover have "card_side (fst (claim_card cx now i d c ns)) \<in> {card_side d, card_side d \<union> {(c, i)}}"
    using cl by (cases "fst (claim_card cx now i d c ns) = d") auto
  ultimately show ?thesis
    using bound_ok_create [OF ok surjective_pairing, of cx now new] cl tr by metis
qed

lemma sample_bound: "bound_ok initial_db"
  by (auto simp: bound_ok_def board_ok_def initial_db_def unique_on_def sessions_unique_def
      card_side_def session_side_def)

theorem bindings_stay_consistent_witness:
  "bound_ok (fst (transfer_card_binding sample_codec 9
     (fst (create_board_item sample_codec 3 initial_db sample_card)) 1 None))"
  using bindings_stay_consistent [OF sample_bound, of sample_codec 3 sample_card]
    bindings_stay_consistent [of "fst (create_board_item sample_codec 3 initial_db sample_card)" sample_codec 9
      sample_card _ 1 _ None]
  by blast

text \<open>
  Deleting a card leaves the binding on the session's side: the session cannot be bound to any
  other card afterwards.
\<close>

lemma deleted_card_blocks_its_session:
  assumes ok: "bound_ok d" and b: "(c, s) \<in> card_side d" and e: "e \<noteq> c"
  shows "\<exists>m. transfer_check (fst (delete_board_item d c)) e (Some s) = Inl (StoreError_AlreadyExists m)"
proof -
  have "(c, s) \<in> session_side d" using ok b by (simp add: bound_ok_def)
  then obtain r where r: "r \<in> set (db_sessions d)" "sr_id r = s" "sr_card_id r = Some c"
    by (auto simp: session_side_iff)
  have "sql_find (\<lambda>r. sr_id r = s) (db_sessions d) = Some r"
    using ok r by (intro unique_on_find) (auto simp: bound_ok_def sessions_unique_def)
  moreover have "db_sessions (fst (delete_board_item d c)) = db_sessions d"
    by (simp add: delete_board_item_def)
  ultimately show ?thesis using r e by (simp add: transfer_check_def)
qed

subsection \<open>Column rules and child ranks\<close>

lemma get_rule_after_upsert:
  "codec_ok cx \<Longrightarrow> get_board_column_rule cx (upsert_board_column_rule cx now d col fs) c =
     (if c = col then Inr (Some fs) else get_board_column_rule cx d c)"
proof -
  assume cx: "codec_ok cx"
  let ?new = "\<lparr>brr_column_name = col, brr_required_fields = cx_print_strings cx (map as_missing_key fs),
     brr_updated_at = cx_fmt_ts cx now\<rparr>"
  let ?f = "\<lambda>r. r\<lparr>brr_required_fields := cx_print_strings cx (map as_missing_key fs),
     brr_updated_at := cx_fmt_ts cx now\<rparr>"
  show ?thesis
  proof (cases "sql_find (\<lambda>r. brr_column_name r = col) (db_board_rules d)")
    case None
    then show ?thesis
      using rule_by_column.lookup_insert [of ?new d c] cx
      by (simp add: get_board_column_rule_def upsert_board_column_rule_def Let_def parse_rule_json_print)
  next
    case (Some r)
    let ?find = "\<lambda>rs. sql_find (\<lambda>r. brr_column_name r = c) rs"
    have up: "?find (db_board_rules (upsert_board_column_rule cx now d col fs)) =
        map_option (\<lambda>r. if brr_column_name r = col then ?f r else r) (?find (db_board_rules d))"
      using Some find_update_other [of "\<lambda>r. brr_column_name r = col" brr_column_name ?f c "db_board_rules d"]
      by (simp add: upsert_board_column_rule_def Let_def)
    show ?thesis
    proof (cases "?find (db_board_rules d)")
      case None
      with Some have "c \<noteq> col" by auto
      with None up show ?thesis by (simp add: get_board_column_rule_def)
    next
      case (Some q)
      then have "brr_column_name q = c" using sql_find_Some by fastforce
      with Some up cx show ?thesis by (simp add: get_board_column_rule_def parse_rule_json_print)
    qed
  qed
qed

lemma get_rule_after_delete:
  "get_board_column_rule cx (fst (delete_board_column_rule d col)) c =
     (if c = col then Inr None else get_board_column_rule cx d c)"
proof (cases "c = col")
  case True
  then show ?thesis
    using rule_by_column.lookup_delete_key [of col d]
    by (simp add: get_board_column_rule_def delete_board_column_rule_def)
next
  case False
  then have "(\<lambda>r :: board_rule_row. brr_column_name r = c \<and> brr_column_name r \<noteq> col) =
      (\<lambda>r. brr_column_name r = c)" by auto
  then have "sql_find (\<lambda>r. brr_column_name r = c) (sql_delete (\<lambda>r. brr_column_name r = col) rs) =
      sql_find (\<lambda>r. brr_column_name r = c) rs" for rs :: "board_rule_row list"
    unfolding find_delete by (rule arg_cong)
  with False show ?thesis
    by (simp add: get_board_column_rule_def delete_board_column_rule_def)
qed

lemma foldl_max: "foldl max (a :: int) xs = Max (insert a (set xs))"
proof (induction xs arbitrary: a)
  case (Cons x xs)
  then show ?case by (cases "xs = []") (auto simp: insert_commute max.commute max.left_commute)
qed simp

lemma max_child_status_rank_Max:
  "max_child_status_rank d g =
     (let ranks = (\<lambda>r. child_rank (br_status r)) ` {r \<in> set (db_board_items d). br_parent_goal_id r = Some g}
      in if ranks = {} then None else Some (Max ranks))"
proof -
  have s: "set (filter (\<lambda>r. br_parent_goal_id r = Some g) (db_board_items d)) =
      {r \<in> set (db_board_items d). br_parent_goal_id r = Some g}" by simp
  show ?thesis
    unfolding max_child_status_rank_def Let_def s [symmetric]
    by (cases "filter (\<lambda>r. br_parent_goal_id r = Some g) (db_board_items d)") (simp_all add: foldl_max)
qed

text \<open>
  Column rules are a map from columns to field lists: an upsert sets the rule of its column and
  a deletion removes it, no other column is affected, and what was stored is read back although it
  travels through its JSON text.
\<close>

theorem column_rules_are_a_map:
  assumes "codec_ok cx"
  shows "get_board_column_rule cx (upsert_board_column_rule cx now d col fs) c =
      (if c = col then Inr (Some fs) else get_board_column_rule cx d c) \<and>
    get_board_column_rule cx (fst (delete_board_column_rule d col)) c =
      (if c = col then Inr None else get_board_column_rule cx d c)"
  using get_rule_after_upsert [OF assms] get_rule_after_delete by simp

theorem column_rules_are_a_map_witness:
  "get_board_column_rule sample_codec
     (upsert_board_column_rule sample_codec 1 initial_db ''review'' [RequiredField_Tool]) ''review'' =
   Inr (Some [RequiredField_Tool])"
  using column_rules_are_a_map [OF sample_codec_ok, of 1 initial_db "''review''" "[RequiredField_Tool]" "''review''"]
  by simp

end
