(* ===== verification/Store_Misc.thy ===== *)
theory Store_Misc
  imports Store_Sessions
begin

text \<open>
  \<open>crates/agentum-store/src/lib.rs\<close>, third part: notes, channels and their messages, the event
  log, users and their login sessions. Foreign keys are checked as SQLite does under
  \<open>foreign_keys(true)\<close>; rows with equal sort keys come in \<open>rowid\<close> order.
\<close>

section \<open>Notes\<close>

definition create_note :: "codec \<Rightarrow> time \<Rightarrow> db \<Rightarrow> new_note \<Rightarrow> db \<times> Note" where
  "create_note cx now d new =
     (let i = sq_notes (db_seq d) + 1
      in (d\<lparr>db_notes := db_notes d @
              [\<lparr>nr_id = i, nr_title = nn_title new, nr_body = nn_body new,
                nr_tags = cx_print_strings cx (nn_tags new), nr_created_at = cx_fmt_ts cx now,
                nr_updated_at = cx_fmt_ts cx now\<rparr>],
            db_seq := (db_seq d)\<lparr>sq_notes := i\<rparr>\<rparr>,
          \<lparr>n_id = i, n_title = nn_title new, n_body = nn_body new, n_tags = nn_tags new,
           n_created_at = now, n_updated_at = now\<rparr>))"

definition list_notes :: "codec \<Rightarrow> db \<Rightarrow> store_error + Note list" where
  "list_notes cx d = collect_results (map (Note_try_from cx) (order_by (desc nr_updated_at) (db_notes d)))"

definition get_note :: "codec \<Rightarrow> db \<Rightarrow> int \<Rightarrow> store_error + Note option" where
  "get_note cx d i = transpose_opt (map_option (Note_try_from cx) (sql_find (\<lambda>r. nr_id r = i) (db_notes d)))"

definition apply_note_patch :: "codec \<Rightarrow> time \<Rightarrow> note_patch \<Rightarrow> note_row \<Rightarrow> note_row" where
  "apply_note_patch cx now p r =
     r\<lparr>nr_title := (case np_title p of Some t \<Rightarrow> t | None \<Rightarrow> nr_title r),
       nr_body := (case np_body p of Some b \<Rightarrow> b | None \<Rightarrow> nr_body r),
       nr_tags := (case np_tags p of Some t \<Rightarrow> cx_print_strings cx t | None \<Rightarrow> nr_tags r),
       nr_updated_at := cx_fmt_ts cx now\<rparr>"

definition patch_note :: "codec \<Rightarrow> time \<Rightarrow> db \<Rightarrow> int \<Rightarrow> note_patch \<Rightarrow> db \<times> (store_error + Note)" where
  "patch_note cx now d i patch =
     (let p = (\<lambda>r. nr_id r = i);
          d1 = d\<lparr>db_notes := sql_update p (apply_note_patch cx now patch) (db_notes d)\<rparr>
      in if sql_count p (db_notes d) = 0 then (d1, Inl (StoreError_NotFound (string_of_int i)))
         else (d1, and_then (get_note cx d1 i) (ok_or (StoreError_NotFound (string_of_int i)))))"

definition delete_note :: "db \<Rightarrow> int \<Rightarrow> db \<times> (store_error + unit)" where
  "delete_note d i =
     (d\<lparr>db_notes := sql_delete (\<lambda>r. nr_id r = i) (db_notes d)\<rparr>,
      if sql_count (\<lambda>r. nr_id r = i) (db_notes d) = 0 then Inl (StoreError_NotFound (string_of_int i))
      else Inr ())"

section \<open>Channels and messages\<close>

definition session_exists :: "db \<Rightarrow> uuid \<Rightarrow> bool" where
  "session_exists d i = (sql_find (\<lambda>r. sr_id r = i) (db_sessions d) \<noteq> None)"

definition channel_pair :: "channel_row \<Rightarrow> string \<times> string" where
  "channel_pair c = (cr_a_session c, cr_b_session c)"

definition canonical_pair :: "uuid \<Rightarrow> uuid \<Rightarrow> uuid \<times> uuid" where
  "canonical_pair x y = (if x < y then (x, y) else (y, x))"

definition insert_channel :: "codec \<Rightarrow> time \<Rightarrow> db \<Rightarrow> uuid \<times> uuid \<Rightarrow> db \<times> (store_error + channel)" where
  "insert_channel cx now d ab =
     (let a = fst ab; b = snd ab; i = sq_channels (db_seq d) + 1;
          rows = db_channels d @
            [\<lparr>cr_id = i, cr_a_session = a, cr_b_session = b, cr_created_at = cx_fmt_ts cx now\<rparr>]
      in if \<not> unique_on channel_pair rows
         then (d, Inl (StoreError_AlreadyExists (''channel between '' @ a @ '' and '' @ b)))
         else if \<not> (session_exists d a \<and> session_exists d b)
         then (d, Inl (StoreError_Sqlx Sqlx_ForeignKeyViolation))
         else (d\<lparr>db_channels := rows, db_seq := (db_seq d)\<lparr>sq_channels := i\<rparr>\<rparr>,
               Inr \<lparr>c_id = i, c_a_session = a, c_b_session = b, c_created_at = now\<rparr>))"

definition create_channel :: "codec \<Rightarrow> time \<Rightarrow> db \<Rightarrow> new_channel \<Rightarrow> db \<times> (store_error + channel)" where
  "create_channel cx now d new =
     (if nc_a_session new = nc_b_session new
      then (d, Inl (StoreError_Core (InvalidName ''channel sessions must differ'')))
      else insert_channel cx now d (canonical_pair (nc_a_session new) (nc_b_session new)))"

definition list_channels :: "codec \<Rightarrow> db \<Rightarrow> store_error + channel list" where
  "list_channels cx d =
     collect_results (map (Channel_try_from cx) (order_by (asc cr_created_at) (db_channels d)))"

definition get_channel :: "codec \<Rightarrow> db \<Rightarrow> int \<Rightarrow> store_error + channel option" where
  "get_channel cx d i =
     transpose_opt (map_option (Channel_try_from cx) (sql_find (\<lambda>r. cr_id r = i) (db_channels d)))"

definition delete_channel :: "db \<Rightarrow> int \<Rightarrow> db \<times> (store_error + unit)" where
  "delete_channel d i =
     (delete_channels_where (\<lambda>c. cr_id c = i) d,
      if sql_count (\<lambda>c. cr_id c = i) (db_channels d) = 0
      then Inl (StoreError_NotFound (string_of_int i)) else Inr ())"

definition append_message :: "codec \<Rightarrow> time \<Rightarrow> db \<Rightarrow> int \<Rightarrow> new_message \<Rightarrow> db \<times> (store_error + message)" where
  "append_message cx now d channel_id msg =
     (if sql_find (\<lambda>c. cr_id c = channel_id) (db_channels d) = None
      then (d, Inl (StoreError_Sqlx Sqlx_ForeignKeyViolation))
      else
        let i = sq_messages (db_seq d) + 1
        in (d\<lparr>db_messages := db_messages d @
                [\<lparr>mr_id = i, mr_channel_id = channel_id, mr_sender = nm_sender msg,
                  mr_body = nm_body msg, mr_ts = cx_fmt_ts cx now\<rparr>],
              db_seq := (db_seq d)\<lparr>sq_messages := i\<rparr>\<rparr>,
            Inr \<lparr>m_id = i, m_channel_id = channel_id, m_sender = nm_sender msg,
                 m_body = nm_body msg, m_ts = now\<rparr>))"

text \<open>\<open>LIMIT n\<close>: a negative limit is no limit.\<close>

definition sql_limit :: "int \<Rightarrow> 'a list \<Rightarrow> 'a list" where
  "sql_limit n xs = (if n < 0 then xs else take (nat n) xs)"

definition recent_message_rows :: "db \<Rightarrow> int \<Rightarrow> int \<Rightarrow> message_row list" where
  "recent_message_rows d channel_id limit =
     order_by (asc mr_ts) (sql_limit limit
       (order_by (desc mr_ts) (filter (\<lambda>m. mr_channel_id m = channel_id) (db_messages d))))"

definition list_messages :: "codec \<Rightarrow> db \<Rightarrow> int \<Rightarrow> int \<Rightarrow> store_error + message list" where
  "list_messages cx d channel_id limit =
     collect_results (map (Message_try_from cx) (recent_message_rows d channel_id limit))"

section \<open>Events\<close>

text \<open>\<open>kind LIKE 'prefix%'\<close>: \<open>LIKE\<close> ignores the case of ASCII letters.\<close>

definition like_prefix :: "string \<Rightarrow> string \<Rightarrow> bool" where
  "like_prefix prefix kind = starts_with prefix (to_ascii_lowercase kind)"

definition list_watchdog_events :: "codec \<Rightarrow> db \<Rightarrow> int \<Rightarrow> store_error + event list" where
  "list_watchdog_events cx d limit =
     collect_results (map (Event_try_from cx) (sql_limit limit (order_by (desc er_ts)
       (filter (\<lambda>e. like_prefix ''watchdog.'' (er_kind e) \<or> like_prefix ''session.'' (er_kind e))
         (db_events d)))))"

definition agent_events_of :: "db \<Rightarrow> string \<Rightarrow> event_row list" where
  "agent_events_of d sid =
     filter (\<lambda>e. er_session_id e = Some sid \<and> like_prefix ''agent.'' (er_kind e)) (db_events d)"

definition is_latest_agent_event :: "db \<Rightarrow> event_row \<Rightarrow> bool" where
  "is_latest_agent_event d e =
     (case er_session_id e of
        None \<Rightarrow> False
      | Some sid \<Rightarrow>
          agent_events_of d sid \<noteq> [] \<and> er_id e = fold max (map er_id (agent_events_of d sid)) (er_id (hd (agent_events_of d sid))))"

definition latest_agent_event_per_session :: "codec \<Rightarrow> db \<Rightarrow> store_error + event list" where
  "latest_agent_event_per_session cx d =
     collect_results (map (Event_try_from cx)
       (order_by (asc er_ts) (filter (is_latest_agent_event d) (db_events d))))"

definition insert_event :: "codec \<Rightarrow> db \<Rightarrow> event \<Rightarrow> db \<times> (store_error + unit)" where
  "insert_event cx d ev =
     (if (case ev_session_id ev of None \<Rightarrow> False | Some s \<Rightarrow> \<not> session_exists d s)
      then (d, Inl (StoreError_Sqlx Sqlx_ForeignKeyViolation))
      else
        let i = sq_events (db_seq d) + 1
        in (d\<lparr>db_events := db_events d @
                [\<lparr>er_id = i, er_session_id = ev_session_id ev, er_kind = ev_kind ev,
                  er_payload = cx_print_json cx (ev_payload ev), er_ts = cx_fmt_ts cx (ev_ts ev)\<rparr>],
              db_seq := (db_seq d)\<lparr>sq_events := i\<rparr>\<rparr>, Inr ()))"

section \<open>Users and login sessions\<close>

definition count_users :: "db \<Rightarrow> int" where
  "count_users d = int (length (db_users d))"

definition create_user :: "codec \<Rightarrow> time \<Rightarrow> db \<Rightarrow> string \<Rightarrow> string \<Rightarrow> db \<times> (store_error + user)" where
  "create_user cx now d username pw_hash =
     (let i = sq_users (db_seq d) + 1; now_s = cx_fmt_ts cx now;
          rows = db_users d @
            [\<lparr>ur_id = i, ur_username = username, ur_pw_hash = pw_hash, ur_created_at = now_s\<rparr>]
      in if \<not> unique_on ur_username rows then (d, Inl (StoreError_AlreadyExists username))
         else (d\<lparr>db_users := rows, db_seq := (db_seq d)\<lparr>sq_users := i\<rparr>\<rparr>,
               and_then (parse_ts cx now_s) (\<lambda>created.
                 Inr \<lparr>u_id = i, u_username = username, u_created_at = created\<rparr>)))"

definition User_of_row :: "codec \<Rightarrow> user_row \<Rightarrow> store_error + user" where
  "User_of_row cx r =
     and_then (parse_ts cx (ur_created_at r)) (\<lambda>created.
       Inr \<lparr>u_id = ur_id r, u_username = ur_username r, u_created_at = created\<rparr>)"

definition get_user_by_username :: "codec \<Rightarrow> db \<Rightarrow> string \<Rightarrow> store_error + (user \<times> string) option" where
  "get_user_by_username cx d username =
     (case sql_find (\<lambda>r. ur_username r = username) (db_users d) of
        Some r \<Rightarrow> and_then (User_of_row cx r) (\<lambda>u. Inr (Some (u, ur_pw_hash r)))
      | None \<Rightarrow> Inr None)"

definition get_user_by_id :: "codec \<Rightarrow> db \<Rightarrow> int \<Rightarrow> store_error + user option" where
  "get_user_by_id cx d i =
     (case sql_find (\<lambda>r. ur_id r = i) (db_users d) of
        Some r \<Rightarrow> and_then (User_of_row cx r) (\<lambda>u. Inr (Some u))
      | None \<Rightarrow> Inr None)"

definition create_auth_session :: "codec \<Rightarrow> time \<Rightarrow> db \<Rightarrow> int \<Rightarrow> string \<Rightarrow> time \<Rightarrow> db \<times> (store_error + unit)" where
  "create_auth_session cx now d user_id token ttl =
     (let rows = db_auth_sessions d @
            [\<lparr>ar_token = token, ar_user_id = user_id, ar_created_at = cx_fmt_ts cx now,
              ar_last_used_at = Some (cx_fmt_ts cx now), ar_expires_at = Some (cx_fmt_ts cx (now + ttl))\<rparr>]
      in if \<not> unique_on ar_token rows then (d, Inl (StoreError_Sqlx Sqlx_UniqueViolation))
         else if sql_find (\<lambda>r. ur_id r = user_id) (db_users d) = None
         then (d, Inl (StoreError_Sqlx Sqlx_ForeignKeyViolation))
         else (d\<lparr>db_auth_sessions := rows\<rparr>, Inr ()))"

definition delete_auth_session :: "db \<Rightarrow> string \<Rightarrow> db" where
  "delete_auth_session d token =
     d\<lparr>db_auth_sessions := sql_delete (\<lambda>r. ar_token r = token) (db_auth_sessions d)\<rparr>"

text \<open>An expiry in the past, or one that does not parse, ends the session.\<close>

definition auth_expired :: "codec \<Rightarrow> time \<Rightarrow> string option \<Rightarrow> bool" where
  "auth_expired cx now expires_at =
     (case expires_at of
        None \<Rightarrow> False
      | Some exp_s \<Rightarrow>
          (case cx_parse_ts cx exp_s of
             Some e \<Rightarrow> e \<le> now
           | None \<Rightarrow> True))"

definition touch_auth_session ::
    "codec \<Rightarrow> time \<Rightarrow> db \<Rightarrow> string \<Rightarrow> time option \<Rightarrow> db \<times> (store_error + user option)" where
  "touch_auth_session cx now d token slide_ttl =
     (case sql_find (\<lambda>r. ar_token r = token) (db_auth_sessions d) of
        None \<Rightarrow> (d, Inr None)
      | Some row \<Rightarrow>
          if auth_expired cx now (ar_expires_at row) then (delete_auth_session d token, Inr None)
          else
            let now_s = cx_fmt_ts cx now;
                d1 = d\<lparr>db_auth_sessions := sql_update (\<lambda>r. ar_token r = token)
                  (\<lambda>r. case slide_ttl of
                         Some ttl \<Rightarrow> r\<lparr>ar_last_used_at := Some now_s, ar_expires_at := Some (cx_fmt_ts cx (now + ttl))\<rparr>
                       | None \<Rightarrow> r\<lparr>ar_last_used_at := Some now_s\<rparr>) (db_auth_sessions d)\<rparr>
            in (d1, get_user_by_id cx d1 (ar_user_id row)))"

text \<open>The sweep compares the texts of the dates.\<close>

definition sweep_expired_auth_sessions :: "codec \<Rightarrow> time \<Rightarrow> db \<Rightarrow> db \<times> nat" where
  "sweep_expired_auth_sessions cx now d =
     (let p = (\<lambda>r. case ar_expires_at r of None \<Rightarrow> False | Some e \<Rightarrow> e \<le> cx_fmt_ts cx now)
      in (d\<lparr>db_auth_sessions := sql_delete p (db_auth_sessions d)\<rparr>, sql_count p (db_auth_sessions d)))"

definition list_users :: "codec \<Rightarrow> db \<Rightarrow> store_error + user list" where
  "list_users cx d = collect_results (map (User_of_row cx) (order_by (asc ur_id) (db_users d)))"

definition delete_user_by_username :: "db \<Rightarrow> string \<Rightarrow> db \<times> bool" where
  "delete_user_by_username d username =
     (let gone = filter (\<lambda>r. ur_username r = username) (db_users d)
      in (d\<lparr>db_users := sql_delete (\<lambda>r. ur_username r = username) (db_users d),
            db_auth_sessions := sql_delete (\<lambda>a. ar_user_id a \<in> ur_id ` set gone) (db_auth_sessions d)\<rparr>,
          0 < sql_count (\<lambda>r. ur_username r = username) (db_users d)))"

definition wipe_users :: "db \<Rightarrow> db" where
  "wipe_users d = d\<lparr>db_auth_sessions := [], db_users := []\<rparr>"

section \<open>The tables are keyed\<close>

interpretation auth_by_token: keyed_table db_auth_sessions "\<lambda>rs d. d\<lparr>db_auth_sessions := rs\<rparr>" ar_token
  by unfold_locales simp_all

interpretation user_by_name: keyed_table db_users "\<lambda>rs d. d\<lparr>db_users := rs\<rparr>" ur_username
  by unfold_locales simp_all

interpretation note_by_id: keyed_table db_notes "\<lambda>rs d. d\<lparr>db_notes := rs\<rparr>" nr_id
  by unfold_locales simp_all

interpretation channel_by_pair: keyed_table db_channels "\<lambda>rs d. d\<lparr>db_channels := rs\<rparr>" channel_pair
  by unfold_locales simp_all

section \<open>Login sessions\<close>

lemma get_user_by_id_auth [simp]:
  "get_user_by_id cx (d\<lparr>db_auth_sessions := rs\<rparr>) i = get_user_by_id cx d i"
  by (simp add: get_user_by_id_def)

text \<open>What the table says about a token: its user and its expiry.\<close>

definition token_entry :: "db \<Rightarrow> string \<Rightarrow> (int \<times> string option) option" where
  "token_entry d token =
     map_option (\<lambda>r. (ar_user_id r, ar_expires_at r)) (sql_find (\<lambda>r. ar_token r = token) (db_auth_sessions d))"

lemma touch_unknown: "token_entry d tok = None \<Longrightarrow> touch_auth_session cx now d tok s = (d, Inr None)"
  by (simp add: token_entry_def touch_auth_session_def)

lemma token_entry_delete [simp]: "token_entry (delete_auth_session d tok) tok = None"
  using auth_by_token.lookup_delete_key [of tok d] by (simp add: token_entry_def delete_auth_session_def)

lemma touch_expired:
  "token_entry d tok = Some (u, e) \<Longrightarrow> auth_expired cx now e \<Longrightarrow>
     touch_auth_session cx now d tok s = (delete_auth_session d tok, Inr None)"
  by (auto simp: token_entry_def touch_auth_session_def)

lemma touch_live:
  assumes "token_entry d tok = Some (u, e)" and "\<not> auth_expired cx now e"
  shows "snd (touch_auth_session cx now d tok s) = get_user_by_id cx d u"
    and "token_entry (fst (touch_auth_session cx now d tok s)) tok =
      Some (u, case s of Some ttl \<Rightarrow> Some (cx_fmt_ts cx (now + ttl)) | None \<Rightarrow> e)"
    and "get_user_by_id cx (fst (touch_auth_session cx now d tok s)) v = get_user_by_id cx d v"
proof -
  obtain r where r: "sql_find (\<lambda>r. ar_token r = tok) (db_auth_sessions d) = Some r"
    "ar_user_id r = u" "ar_expires_at r = e"
    using assms(1) by (auto simp: token_entry_def)
  let ?f = "\<lambda>r :: auth_session_row. case s of
      Some ttl \<Rightarrow> r\<lparr>ar_last_used_at := Some (cx_fmt_ts cx now), ar_expires_at := Some (cx_fmt_ts cx (now + ttl))\<rparr>
    | None \<Rightarrow> r\<lparr>ar_last_used_at := Some (cx_fmt_ts cx now)\<rparr>"
  have t: "touch_auth_session cx now d tok s =
      (d\<lparr>db_auth_sessions := sql_update (\<lambda>r. ar_token r = tok) ?f (db_auth_sessions d)\<rparr>, get_user_by_id cx d u)"
    using r assms(2) by (simp add: touch_auth_session_def Let_def)
  have key: "ar_token (?f q) = ar_token q" for q by (simp split: option.split)
  have "ar_token r = tok" using sql_find_Some [OF r(1)] by simp
  then have "sql_find (\<lambda>r. ar_token r = tok) (sql_update (\<lambda>r. ar_token r = tok) ?f (db_auth_sessions d)) = Some (?f r)"
    using find_update_other [of "\<lambda>r. ar_token r = tok" ar_token ?f tok "db_auth_sessions d"] r(1) key by simp
  then show "token_entry (fst (touch_auth_session cx now d tok s)) tok =
      Some (u, case s of Some ttl \<Rightarrow> Some (cx_fmt_ts cx (now + ttl)) | None \<Rightarrow> e)"
    using r by (simp add: t token_entry_def split: option.split)
  show "snd (touch_auth_session cx now d tok s) = get_user_by_id cx d u"
    and "get_user_by_id cx (fst (touch_auth_session cx now d tok s)) v = get_user_by_id cx d v"
    by (simp_all add: t)
qed

lemma auth_expired_fmt: "codec_ok cx \<Longrightarrow> auth_expired cx now (Some (cx_fmt_ts cx e)) \<longleftrightarrow> e \<le> now"
  by (simp add: auth_expired_def codec_ok_def)

lemma created_token_entry:
  assumes "create_auth_session cx t d uid tok ttl = (d1, Inr ())"
  shows "token_entry d1 tok = Some (uid, Some (cx_fmt_ts cx (t + ttl)))"
    and "get_user_by_id cx d1 v = get_user_by_id cx d v"
proof -
  have 1: "d1 = d\<lparr>db_auth_sessions := db_auth_sessions d @
        [\<lparr>ar_token = tok, ar_user_id = uid, ar_created_at = cx_fmt_ts cx t,
          ar_last_used_at = Some (cx_fmt_ts cx t), ar_expires_at = Some (cx_fmt_ts cx (t + ttl))\<rparr>]\<rparr>"
    and u: "unique_on ar_token (db_auth_sessions d1)"
    using assms by (auto simp: create_auth_session_def Let_def split: if_splits)
  show "get_user_by_id cx d1 v = get_user_by_id cx d v" by (simp add: 1)
  show "token_entry d1 tok = Some (uid, Some (cx_fmt_ts cx (t + ttl)))"
    using unique_on_find [OF u, of "\<lparr>ar_token = tok, ar_user_id = uid, ar_created_at = cx_fmt_ts cx t,
          ar_last_used_at = Some (cx_fmt_ts cx t), ar_expires_at = Some (cx_fmt_ts cx (t + ttl))\<rparr>" tok]
    by (simp add: token_entry_def 1)
qed

text \<open>
  The life of a login session: created at \<open>t\<close> with lifetime \<open>ttl\<close>, a token is good for its
  user strictly before \<open>t + ttl\<close>; a touch at \<open>t1\<close> with a sliding lifetime \<open>w\<close> moves the end to
  \<open>t1 + w\<close>; a touch at or after the end deletes the token, which is then unknown for good.
\<close>

theorem login_session_lifetime:
  assumes cx: "codec_ok cx" and c: "create_auth_session cx t d uid tok ttl = (d1, Inr ())"
  shows "(t1 < t + ttl \<longrightarrow> snd (touch_auth_session cx t1 d1 tok s) = get_user_by_id cx d uid) \<and>
    (t1 < t + ttl \<and> s = Some w \<longrightarrow>
       snd (touch_auth_session cx t2 (fst (touch_auth_session cx t1 d1 tok s)) tok s') =
         (if t2 < t1 + w then get_user_by_id cx d uid else Inr None)) \<and>
    (t + ttl \<le> t1 \<longrightarrow> snd (touch_auth_session cx t1 d1 tok s) = Inr None \<and>
       snd (touch_auth_session cx t2 (fst (touch_auth_session cx t1 d1 tok s)) tok s') = Inr None)"
proof -
  note e = created_token_entry [OF c]
  have live: "\<not> auth_expired cx t1 (Some (cx_fmt_ts cx (t + ttl)))" if "t1 < t + ttl"
    using that auth_expired_fmt [OF cx] by simp
  have dead: "touch_auth_session cx t1 d1 tok s = (delete_auth_session d1 tok, Inr None)" if "t + ttl \<le> t1"
    using that touch_expired [OF e(1)] auth_expired_fmt [OF cx] by simp
  have slid: "snd (touch_auth_session cx t2 (fst (touch_auth_session cx t1 d1 tok s)) tok s') =
      (if t2 < t1 + w then get_user_by_id cx d uid else Inr None)" if "t1 < t + ttl" "s = Some w"
  proof -
    let ?d2 = "fst (touch_auth_session cx t1 d1 tok s)"
    have 2: "token_entry ?d2 tok = Some (uid, Some (cx_fmt_ts cx (t1 + w)))"
      and u: "get_user_by_id cx ?d2 uid = get_user_by_id cx d uid"
      using touch_live [OF e(1) live [OF that(1)]] that(2) e(2) by simp_all
    show ?thesis
      using touch_live(1) [OF 2, of cx t2 s'] touch_expired [OF 2, of cx t2 s'] u auth_expired_fmt [OF cx]
      by auto
  qed
  show ?thesis
    using touch_live(1) [OF e(1) live] e(2) dead slid touch_unknown [OF token_entry_delete] by auto
qed

definition sample_users :: db where
  "sample_users = fst (create_user sample_codec 1 initial_db ''ann'' ''hash'')"

lemma sample_users_rows:
  "db_users sample_users = [\<lparr>ur_id = 1, ur_username = ''ann'', ur_pw_hash = ''hash'', ur_created_at = cx_fmt_ts sample_codec 1\<rparr>]"
  "db_auth_sessions sample_users = []"
  by (simp_all add: sample_users_def create_user_def initial_db_def unique_on_def Let_def)

lemma sample_user: "get_user_by_id sample_codec sample_users 1 = Inr (Some \<lparr>u_id = 1, u_username = ''ann'', u_created_at = 1\<rparr>)"
  by (simp add: get_user_by_id_def sample_users_rows sql_find_def User_of_row_def)

lemma sample_login:
  "create_auth_session sample_codec 10 sample_users 1 ''tok'' 5 =
     (fst (create_auth_session sample_codec 10 sample_users 1 ''tok'' 5), Inr ())"
  by (simp add: create_auth_session_def Let_def sample_users_rows sql_find_def unique_on_def)

theorem login_session_lifetime_witness:
  "snd (touch_auth_session sample_codec 14 (fst (create_auth_session sample_codec 10 sample_users 1 ''tok'' 5)) ''tok'' None) =
     Inr (Some \<lparr>u_id = 1, u_username = ''ann'', u_created_at = 1\<rparr>) \<and>
   snd (touch_auth_session sample_codec 15 (fst (create_auth_session sample_codec 10 sample_users 1 ''tok'' 5)) ''tok'' None) = Inr None"
  using login_session_lifetime [OF sample_codec_ok sample_login, of 14 None]
    login_session_lifetime [OF sample_codec_ok sample_login, of 15 None] sample_user
  by simp

text \<open>
  The sweep compares texts. In the RFC 3339 rendering a fraction of a second is written without
  trailing zeros, so the order of the texts is not the order of the instants: half a second past
  comes after 51 hundredths past, and before the full second.
\<close>

lemma rfc3339_text_order:
  "''2026-01-01T00:00:00.51Z'' < ''2026-01-01T00:00:00.5Z'' \<and>
   ''2026-01-01T00:00:00.5Z'' < ''2026-01-01T00:00:00Z''"
  by (simp add: less_char_def)

section \<open>Deleted users\<close>

lemma deleted_user_tokens:
  assumes "unique_on ar_token (db_auth_sessions d)" and a: "a \<in> set (db_auth_sessions d)"
    and u: "u \<in> set (db_users d)" "ur_username u = name" "ar_user_id a = ur_id u"
  shows "token_entry (fst (delete_user_by_username d name)) (ar_token a) = None"
proof -
  have "b \<notin> set (db_auth_sessions (fst (delete_user_by_username d name)))"
    if "ar_token b = ar_token a" for b
    using that unique_on_same [OF assms(1) _ a, of b] u
    by (auto simp: delete_user_by_username_def Let_def set_sql_delete)
  then have "sql_find (\<lambda>r. ar_token r = ar_token a) (db_auth_sessions (fst (delete_user_by_username d name))) = None"
    by (auto simp: sql_find_None)
  then show ?thesis by (simp add: token_entry_def)
qed

text \<open>
  Deleting a user ends all of the user's login sessions at once: none of the tokens is accepted
  afterwards, and the name is free again.
\<close>

theorem deleted_user_is_logged_out:
  assumes "unique_on ar_token (db_auth_sessions d)" and "a \<in> set (db_auth_sessions d)"
    and "u \<in> set (db_users d)" and "ur_username u = name" and "ar_user_id a = ur_id u"
  shows "snd (touch_auth_session cx now (fst (delete_user_by_username d name)) (ar_token a) s) = Inr None \<and>
    snd (delete_user_by_username d name) \<and>
    get_user_by_username cx (fst (delete_user_by_username d name)) name = Inr None"
proof -
  have "snd (delete_user_by_username d name)"
    using assms by (auto simp: delete_user_by_username_def Let_def sql_count_pos)
  moreover have "get_user_by_username cx (fst (delete_user_by_username d name)) name = Inr None"
    using user_by_name.lookup_delete_key [of name d]
    by (simp add: get_user_by_username_def delete_user_by_username_def Let_def)
  ultimately show ?thesis
    using touch_unknown [OF deleted_user_tokens [OF assms]] by simp
qed

theorem deleted_user_is_logged_out_witness:
  "snd (touch_auth_session sample_codec 11 (fst (delete_user_by_username
     (fst (create_auth_session sample_codec 10 sample_users 1 ''tok'' 5)) ''ann'')) ''tok'' None) = Inr None"
proof -
  let ?a = "\<lparr>ar_token = ''tok'', ar_user_id = 1, ar_created_at = cx_fmt_ts sample_codec 10,
      ar_last_used_at = Some (cx_fmt_ts sample_codec 10), ar_expires_at = Some (cx_fmt_ts sample_codec 15)\<rparr>"
  let ?u = "\<lparr>ur_id = 1, ur_username = ''ann'', ur_pw_hash = ''hash'', ur_created_at = cx_fmt_ts sample_codec 1\<rparr>"
  let ?d = "fst (create_auth_session sample_codec 10 sample_users 1 ''tok'' 5)"
  have "db_auth_sessions ?d = [?a]" "db_users ?d = [?u]"
    by (simp_all add: create_auth_session_def Let_def sample_users_rows sql_find_def unique_on_def)
  then show ?thesis
    using deleted_user_is_logged_out [of ?d ?a ?u "''ann''" sample_codec 11 None]
    by (simp add: unique_on_def)
qed

section \<open>Channels and messages\<close>

definition chat_ok :: "db \<Rightarrow> bool" where
  "chat_ok d \<longleftrightarrow>
     unique_on channel_pair (db_channels d) \<and>
     (\<forall>c \<in> set (db_channels d). cr_a_session c < cr_b_session c \<and>
        session_exists d (cr_a_session c) \<and> session_exists d (cr_b_session c)) \<and>
     (\<forall>m \<in> set (db_messages d). mr_channel_id m \<in> cr_id ` set (db_channels d))"

lemma session_exists_iff: "session_exists d i \<longleftrightarrow> i \<in> sr_id ` set (db_sessions d)"
  by (auto simp: session_exists_def sql_find_None image_iff)

lemma chat_ok_create_channel: "chat_ok d \<Longrightarrow> chat_ok (fst (create_channel cx now d new))"
proof -
  have "chat_ok (fst (insert_channel cx now d ab))" if "chat_ok d" "fst ab < snd ab" for ab
    using that by (auto simp: insert_channel_def Let_def chat_ok_def session_exists_iff)
  then show "chat_ok d \<Longrightarrow> chat_ok (fst (create_channel cx now d new))"
    by (auto simp: create_channel_def canonical_pair_def)
qed

lemma insert_channel_again:
  assumes "is_ok (snd (insert_channel cx now d ab))"
  shows "\<exists>e. insert_channel cx now' (fst (insert_channel cx now d ab)) ab = (fst (insert_channel cx now d ab), Inl e)"
proof -
  obtain r where "db_channels (fst (insert_channel cx now d ab)) = db_channels d @ [r]" "channel_pair r = ab"
    using assms by (cases ab) (auto simp: insert_channel_def Let_def channel_pair_def split: if_splits)
  then show ?thesis
    by (auto simp: insert_channel_def [of cx now'] Let_def unique_on_def channel_pair_def)
qed

lemma chat_ok_append: "chat_ok d \<Longrightarrow> chat_ok (fst (append_message cx now d c msg))"
  by (auto simp: append_message_def Let_def chat_ok_def session_exists_iff dest!: sql_find_Some)

lemma chat_ok_delete_where: "chat_ok d \<Longrightarrow> chat_ok (delete_channels_where p d)"
  by (auto simp: delete_channels_where_def Let_def chat_ok_def session_exists_iff set_sql_delete
      unique_on_delete image_iff, blast)

lemma chat_ok_delete_session:
  assumes "chat_ok d"
  shows "chat_ok (fst (delete_session d i))"
proof (cases "sql_count (\<lambda>r. sr_id r = i) (db_sessions d) = 0")
  case True
  then show ?thesis using assms by (simp add: delete_session_def)
next
  case False
  let ?q = "\<lambda>c. cr_a_session c = i \<or> cr_b_session c = i"
  let ?d1 = "delete_channels_where ?q d"
  let ?d' = "fst (delete_session d i)"
  have 1: "chat_ok ?d1" using chat_ok_delete_where [OF assms] .
  have same: "db_channels ?d' = db_channels ?d1" "db_messages ?d' = db_messages ?d1"
    "db_sessions ?d' = sql_delete (\<lambda>r. sr_id r = i) (db_sessions ?d1)"
    using False by (simp_all add: delete_session_def delete_channels_where_def Let_def)
  have "j \<noteq> i" if "c \<in> set (db_channels ?d1)" "j = cr_a_session c \<or> j = cr_b_session c" for c j
    using that by (auto simp: delete_channels_where_def Let_def set_sql_delete)
  moreover have "session_exists ?d' j" if "session_exists ?d1 j" "j \<noteq> i" for j
    using that unfolding session_exists_iff same by (auto simp: set_sql_delete)
  ultimately have "session_exists ?d' (cr_a_session c) \<and> session_exists ?d' (cr_b_session c)"
    if "c \<in> set (db_channels ?d1)" for c
    using that 1 unfolding chat_ok_def by blast
  then show ?thesis
    using 1 unfolding chat_ok_def same by blast
qed

text \<open>
  One channel per pair, and no orphans: creating and deleting channels, appending messages and
  deleting sessions keep every channel between two different existing sessions, in the canonical
  order, at most one per pair, and every message in an existing channel; after a channel for a pair
  was created, a request for the swapped pair is refused and changes nothing.
\<close>

theorem chat_integrity:
  assumes ok: "chat_ok d"
  shows "chat_ok (fst (create_channel cx now d new)) \<and> chat_ok (fst (append_message cx now d c msg)) \<and>
    chat_ok (fst (delete_channel d c)) \<and> chat_ok (fst (delete_session d i)) \<and>
    (is_ok (snd (create_channel cx now d new)) \<longrightarrow>
      (\<exists>e. create_channel cx now' (fst (create_channel cx now d new))
         \<lparr>nc_a_session = nc_b_session new, nc_b_session = nc_a_session new\<rparr> =
         (fst (create_channel cx now d new), Inl e)))"
proof -
  have swap: "\<exists>e. create_channel cx now' (fst (create_channel cx now d new))
         \<lparr>nc_a_session = nc_b_session new, nc_b_session = nc_a_session new\<rparr> =
         (fst (create_channel cx now d new), Inl e)" if "is_ok (snd (create_channel cx now d new))"
  proof -
    have ne: "nc_a_session new \<noteq> nc_b_session new" using that by (auto simp: create_channel_def)
    then have "canonical_pair (nc_b_session new) (nc_a_session new) =
        canonical_pair (nc_a_session new) (nc_b_session new)" by (auto simp: canonical_pair_def)
    with that ne show ?thesis
      using insert_channel_again [of cx now d "canonical_pair (nc_a_session new) (nc_b_session new)" now']
      by (simp add: create_channel_def)
  qed
  then show ?thesis
    using chat_ok_create_channel [OF ok] chat_ok_append [OF ok] chat_ok_delete_where [OF ok]
      chat_ok_delete_session [OF ok]
    by (simp add: delete_channel_def)
qed

definition sample_two_sessions :: db where
  "sample_two_sessions =
     initial_db\<lparr>db_sessions := [session_row_of sample_codec 1 ''a'' Status_Idle None None (sample_new_session ''x''),
       session_row_of sample_codec 1 ''b'' Status_Idle None None (sample_new_session ''y'')]\<rparr>"

theorem chat_integrity_witness:
  "\<exists>e. snd (create_channel sample_codec 4 (fst (create_channel sample_codec 3 sample_two_sessions
       \<lparr>nc_a_session = ''b'', nc_b_session = ''a''\<rparr>)) \<lparr>nc_a_session = ''a'', nc_b_session = ''b''\<rparr>) = Inl e"
proof -
  have "chat_ok sample_two_sessions"
    by (simp add: chat_ok_def sample_two_sessions_def initial_db_def unique_on_def)
  moreover have "is_ok (snd (create_channel sample_codec 3 sample_two_sessions \<lparr>nc_a_session = ''b'', nc_b_session = ''a''\<rparr>))"
    by (simp add: create_channel_def canonical_pair_def insert_channel_def Let_def sample_two_sessions_def
        initial_db_def unique_on_def session_exists_iff session_row_of_def less_char_def)
  ultimately show ?thesis
    using chat_integrity [of sample_two_sessions sample_codec 3 "\<lparr>nc_a_session = ''b'', nc_b_session = ''a''\<rparr>"
        0 "\<lparr>nm_sender = [], nm_body = []\<rparr>" "''a''" 4]
    by fastforce
qed

text \<open>
  Listing the messages of a channel gives its most recent ones, oldest first: as many as the
  limit allows, sorted by date, and every message that is left out is at most as recent as every
  one that is shown.
\<close>

theorem recent_messages_are_the_latest:
  assumes "0 \<le> n"
  shows "let msgs = filter (\<lambda>m. mr_channel_id m = c) (db_messages d); shown = recent_message_rows d c n
    in length shown = min (nat n) (length msgs) \<and> sorted_wrt (\<lambda>x y. mr_ts x \<le> mr_ts y) shown \<and>
       mset shown \<subseteq># mset msgs \<and> (\<forall>x \<in># mset msgs - mset shown. \<forall>y \<in> set shown. mr_ts x \<le> mr_ts y)"
proof -
  define msgs where "msgs = filter (\<lambda>m. mr_channel_id m = c) (db_messages d)"
  define s where "s = order_by (desc mr_ts) msgs"
  have shown: "recent_message_rows d c n = order_by (asc mr_ts) (take (nat n) s)"
    using assms by (simp add: recent_message_rows_def sql_limit_def s_def msgs_def)
  have "sorted_wrt (desc mr_ts) s" unfolding s_def by (rule sorted_order_by) (auto simp: desc_def)
  then have "sorted_wrt (desc mr_ts) (take (nat n) s @ drop (nat n) s)" by simp
  then have cut: "mr_ts x \<le> mr_ts y" if "x \<in> set (drop (nat n) s)" "y \<in> set (take (nat n) s)" for x y
    using that unfolding sorted_wrt_append by (auto simp: desc_def)
  have "mset msgs = mset (take (nat n) s @ drop (nat n) s)" by (simp add: s_def)
  then have m: "mset msgs = mset (take (nat n) s) + mset (drop (nat n) s)" by (simp only: mset_append)
  have "sorted_wrt (asc mr_ts) (order_by (asc mr_ts) (take (nat n) s))"
    by (rule sorted_order_by) (auto simp: asc_def)
  moreover have "(asc mr_ts :: message_row \<Rightarrow> _) = (\<lambda>x y. mr_ts x \<le> mr_ts y)" by (intro ext) (simp add: asc_def)
  moreover have "length s = length msgs" by (simp add: s_def)
  ultimately show ?thesis
    using m cut by (simp add: Let_def shown flip: msgs_def)
qed

theorem recent_messages_are_the_latest_witness:
  "length (recent_message_rows (initial_db\<lparr>db_messages :=
     [\<lparr>mr_id = 1, mr_channel_id = 7, mr_sender = ''a'', mr_body = ''x'', mr_ts = ''1''\<rparr>,
      \<lparr>mr_id = 2, mr_channel_id = 7, mr_sender = ''b'', mr_body = ''y'', mr_ts = ''2''\<rparr>]\<rparr>) 7 1) = 1"
  using recent_messages_are_the_latest [of 1 7 "initial_db\<lparr>db_messages :=
     [\<lparr>mr_id = 1, mr_channel_id = 7, mr_sender = ''a'', mr_body = ''x'', mr_ts = ''1''\<rparr>,
      \<lparr>mr_id = 2, mr_channel_id = 7, mr_sender = ''b'', mr_body = ''y'', mr_ts = ''2''\<rparr>]\<rparr>"]
  by (simp add: Let_def)

end
