(* ===== verification/Orch_Store.thy ===== *)
theory Orch_Store
  imports Store_Sessions
begin

text \<open>
  \<open>crates/agentum-store/src/orchestration.rs\<close>: the mail store between agents, the task graph with
  its resolver and the dispatches. The queries fill \<open>deps\<close> after the row was read, so a task is
  its row together with the list of its dependencies.
\<close>

record new_orch_message =
  nm_thread_id :: string
  nm_sender :: string
  nm_recipient :: string
  nm_subject :: string
  nm_body :: string
  nm_msg_type :: string
  nm_priority :: string
  nm_payload :: "string option"

record orch_task = orch_task_row +
  ot_deps :: "int list"

definition orch_task_of :: "orch_task_row \<Rightarrow> int list \<Rightarrow> orch_task" where
  "orch_task_of r deps =
     \<lparr>ot_id = ot_id r, ot_spec = ot_spec r, ot_status = ot_status r, ot_parent_id = ot_parent_id r,
      ot_result = ot_result r, ot_created_at = ot_created_at r, ot_deps = deps\<rparr>"

section \<open>Mail\<close>

definition orch_insert_message :: "codec \<Rightarrow> time \<Rightarrow> db \<Rightarrow> new_orch_message \<Rightarrow> db \<times> orch_message" where
  "orch_insert_message cx now d m =
     (let i = sq_orch_messages (db_seq d) + 1;
          row = \<lparr>om_id = i, om_thread_id = nm_thread_id m, om_sender = nm_sender m,
                 om_recipient = nm_recipient m, om_subject = nm_subject m, om_body = nm_body m,
                 om_msg_type = nm_msg_type m, om_priority = nm_priority m, om_payload = nm_payload m,
                 om_read = 0, om_created_at = cx_fmt_ts cx now\<rparr>
      in (d\<lparr>db_orch_messages := db_orch_messages d @ [row], db_seq := (db_seq d)\<lparr>sq_orch_messages := i\<rparr>\<rparr>,
          row))"

text \<open>A negative \<open>LIMIT\<close> means no limit.\<close>

definition orch_limit :: "int \<Rightarrow> 'a list \<Rightarrow> 'a list" where
  "orch_limit n xs = (if n < 0 then xs else take (nat n) xs)"

definition inbox_match :: "string \<Rightarrow> bool \<Rightarrow> string list \<Rightarrow> orch_message \<Rightarrow> bool" where
  "inbox_match recipient unread_only types m \<longleftrightarrow>
     om_recipient m = recipient \<and> (unread_only \<longrightarrow> om_read m = 0) \<and>
     (types \<noteq> [] \<longrightarrow> om_msg_type m \<in> set types)"

definition orch_inbox :: "db \<Rightarrow> string \<Rightarrow> bool \<Rightarrow> string list \<Rightarrow> int \<Rightarrow> orch_message list" where
  "orch_inbox d recipient unread_only types limit =
     orch_limit limit (order_by (then_by (desc om_created_at) (desc om_id))
       (filter (inbox_match recipient unread_only types) (db_orch_messages d)))"

definition orch_get_message :: "db \<Rightarrow> int \<Rightarrow> orch_message option" where
  "orch_get_message d i = sql_find (\<lambda>m. om_id m = i) (db_orch_messages d)"

primrec orch_mark_read :: "db \<Rightarrow> int list \<Rightarrow> db" where
  "orch_mark_read d [] = d"
| "orch_mark_read d (i # is) =
     orch_mark_read
       (d\<lparr>db_orch_messages := sql_update (\<lambda>m. om_id m = i) (\<lambda>m. m\<lparr>om_read := 1\<rparr>) (db_orch_messages d)\<rparr>) is"

section \<open>Tasks\<close>

definition dag_status :: "db \<Rightarrow> int \<Rightarrow> string option" where
  "dag_status d i = map_option ot_status (sql_find (\<lambda>t. ot_id t = i) (db_orch_tasks d))"

primrec orch_deps_all_completed :: "db \<Rightarrow> int list \<Rightarrow> bool" where
  "orch_deps_all_completed d [] = True"
| "orch_deps_all_completed d (dep # deps) =
     (if dag_status d dep \<noteq> Some ''completed'' then False else orch_deps_all_completed d deps)"

definition orch_task_deps :: "db \<Rightarrow> int \<Rightarrow> int list" where
  "orch_task_deps d task = order_by (asc (\<lambda>i. i)) (map snd (filter (\<lambda>e. fst e = task) (db_orch_deps d)))"

text \<open>\<open>INSERT OR IGNORE\<close> into the edge table, whose primary key is the pair.\<close>

primrec insert_deps :: "int \<Rightarrow> int list \<Rightarrow> (int \<times> int) list \<Rightarrow> (int \<times> int) list" where
  "insert_deps i [] es = es"
| "insert_deps i (dep # deps) es = insert_deps i deps (if (i, dep) \<in> set es then es else es @ [(i, dep)])"

definition orch_create_task ::
    "codec \<Rightarrow> time \<Rightarrow> db \<Rightarrow> string \<Rightarrow> int list \<Rightarrow> int option \<Rightarrow> db \<times> orch_task" where
  "orch_create_task cx now d spec deps parent_id =
     (let i = sq_orch_tasks (db_seq d) + 1;
          row = \<lparr>ot_id = i, ot_spec = spec,
                 ot_status = (if orch_deps_all_completed d deps then ''ready'' else ''pending''),
                 ot_parent_id = parent_id, ot_result = None, ot_created_at = cx_fmt_ts cx now\<rparr>
      in (d\<lparr>db_orch_tasks := db_orch_tasks d @ [row],
            db_orch_deps := insert_deps i deps (db_orch_deps d),
            db_seq := (db_seq d)\<lparr>sq_orch_tasks := i\<rparr>\<rparr>,
          orch_task_of row deps))"

definition orch_list_tasks :: "db \<Rightarrow> string option \<Rightarrow> bool \<Rightarrow> orch_task list" where
  "orch_list_tasks d status ready_only =
     (let wanted = (if ready_only then Some ''ready'' else status)
      in map (\<lambda>t. orch_task_of t (orch_task_deps d (ot_id t)))
           (order_by (desc ot_id)
             (case wanted of None \<Rightarrow> db_orch_tasks d
              | Some s \<Rightarrow> filter (\<lambda>t. ot_status t = s) (db_orch_tasks d))))"

definition orch_get_task :: "db \<Rightarrow> int \<Rightarrow> orch_task option" where
  "orch_get_task d i =
     map_option (\<lambda>t. orch_task_of t (orch_task_deps d (ot_id t)))
       (sql_find (\<lambda>t. ot_id t = i) (db_orch_tasks d))"

definition set_dag_status :: "db \<Rightarrow> int \<Rightarrow> string \<Rightarrow> db" where
  "set_dag_status d i s =
     d\<lparr>db_orch_tasks := sql_update (\<lambda>t. ot_id t = i) (\<lambda>t :: orch_task_row. t\<lparr>ot_status := s\<rparr>) (db_orch_tasks d)\<rparr>"

definition promote_one :: "db \<Rightarrow> int \<Rightarrow> db" where
  "promote_one d dep_task =
     (if dag_status d dep_task \<noteq> Some ''pending'' then d
      else if orch_deps_all_completed d (orch_task_deps d dep_task)
      then set_dag_status d dep_task ''ready'' else d)"

definition orch_promote_ready :: "db \<Rightarrow> int \<Rightarrow> db" where
  "orch_promote_ready d completed_id =
     foldl promote_one d (map fst (filter (\<lambda>e. snd e = completed_id) (db_orch_deps d)))"

definition orch_update_task :: "db \<Rightarrow> int \<Rightarrow> string \<Rightarrow> string option \<Rightarrow> db \<times> orch_task option" where
  "orch_update_task d i status result =
     (if sql_count (\<lambda>t. ot_id t = i) (db_orch_tasks d) = 0 then (d, None)
      else
        let d1 = d\<lparr>db_orch_tasks := sql_update (\<lambda>t. ot_id t = i)
              (\<lambda>t :: orch_task_row. t\<lparr>ot_status := status,
                 ot_result := (case result of Some r \<Rightarrow> Some r | None \<Rightarrow> ot_result t)\<rparr>) (db_orch_tasks d)\<rparr>;
            d2 = (if status = ''completed'' then orch_promote_ready d1 i else d1)
        in (d2, orch_get_task d2 i))"

section \<open>Dispatches\<close>

definition orch_create_dispatch :: "codec \<Rightarrow> time \<Rightarrow> db \<Rightarrow> int \<Rightarrow> string \<Rightarrow> db \<times> orch_dispatch" where
  "orch_create_dispatch cx now d task assignee =
     (let i = sq_orch_dispatches (db_seq d) + 1;
          row = \<lparr>od_id = i, od_task_id = task, od_assignee = assignee, od_status = ''dispatched'',
                 od_attempts = 1, od_created_at = cx_fmt_ts cx now\<rparr>;
          d1 = d\<lparr>db_orch_dispatches := db_orch_dispatches d @ [row],
                 db_seq := (db_seq d)\<lparr>sq_orch_dispatches := i\<rparr>\<rparr>
      in (set_dag_status d1 task ''dispatched'', row))"

definition orch_dispatches_for_task :: "db \<Rightarrow> int \<Rightarrow> orch_dispatch list" where
  "orch_dispatches_for_task d task =
     order_by (asc od_id) (filter (\<lambda>r. od_task_id r = task) (db_orch_dispatches d))"

section \<open>The resolver\<close>

text \<open>
  One call of the task operations. A task may depend on tasks that exist; a status set by a caller
  is any of the texts but \<open>pending\<close>, which only the creation of a task chooses.
\<close>

inductive orch_step :: "codec \<Rightarrow> db \<Rightarrow> db \<Rightarrow> bool" for cx d where
  create: "(\<And>j. j \<in> set deps \<Longrightarrow> dag_status d j \<noteq> None) \<Longrightarrow>
    orch_step cx d (fst (orch_create_task cx now d spec deps parent))"
| update: "status \<noteq> ''pending'' \<Longrightarrow> orch_step cx d (fst (orch_update_task d i status result))"
| dispatch: "orch_step cx d (fst (orch_create_dispatch cx now d task assignee))"

inductive_cases orch_stepE: "orch_step cx d d'"

inductive orch_reach :: "codec \<Rightarrow> db \<Rightarrow> bool" for cx where
  start: "db_orch_tasks d = [] \<Longrightarrow> db_orch_deps d = [] \<Longrightarrow> orch_reach cx d"
| step: "orch_reach cx d \<Longrightarrow> orch_step cx d d' \<Longrightarrow> orch_reach cx d'"

text \<open>
  The invariant of the task graph: ids were handed out by the counter, a task depends on older
  tasks that exist, and a pending task has a dependency that is not completed.
\<close>

definition tasks_ok :: "db \<Rightarrow> bool" where
  "tasks_ok d \<longleftrightarrow>
     (\<forall>t \<in> set (db_orch_tasks d). ot_id t \<le> sq_orch_tasks (db_seq d)) \<and>
     (\<forall>(k, j) \<in> set (db_orch_deps d). j < k \<and> dag_status d j \<noteq> None) \<and>
     (\<forall>k. dag_status d k = Some ''pending'' \<longrightarrow>
        (\<exists>j. (k, j) \<in> set (db_orch_deps d) \<and> dag_status d j \<noteq> Some ''completed''))"

lemma deps_all_completed_iff:
  "orch_deps_all_completed d deps \<longleftrightarrow> (\<forall>j \<in> set deps. dag_status d j = Some ''completed'')"
  by (induction deps) auto

lemma set_orch_task_deps: "set (orch_task_deps d k) = {j. (k, j) \<in> set (db_orch_deps d)}"
  by (force simp: orch_task_deps_def)

lemma set_insert_deps: "set (insert_deps i deps es) = set es \<union> Pair i ` set deps"
  by (induction deps arbitrary: es) auto

lemma dag_status_None: "dag_status d k = None \<longleftrightarrow> (\<forall>t \<in> set (db_orch_tasks d). ot_id t \<noteq> k)"
  by (simp add: dag_status_def sql_find_None)

lemma dag_status_update:
  assumes "\<And>t :: orch_task_row. ot_id (f t) = ot_id t" and "\<And>t. ot_status (f t) = s"
  shows "dag_status (d\<lparr>db_orch_tasks := sql_update (\<lambda>t. ot_id t = i) f (db_orch_tasks d)\<rparr>) k =
    (if k = i then map_option (\<lambda>_. s) (dag_status d i) else dag_status d k)"
proof -
  have "sql_find (\<lambda>t. ot_id t = k) (sql_update (\<lambda>t. ot_id t = i) f (db_orch_tasks d)) =
      map_option (\<lambda>t. if ot_id t = i then f t else t) (sql_find (\<lambda>t. ot_id t = k) (db_orch_tasks d))"
    using assms(1) by (intro find_update_other)
  note upd = this
  show ?thesis
  proof (cases "sql_find (\<lambda>t. ot_id t = k) (db_orch_tasks d)")
    case None
    with upd show ?thesis by (cases "k = i") (simp_all add: dag_status_def)
  next
    case (Some t)
    from sql_find_Some [OF this] have "ot_id t = k" by simp
    with upd Some assms(2) show ?thesis by (cases "k = i") (simp_all add: dag_status_def)
  qed
qed

lemma set_dag_status_facts [simp]:
  "dag_status (set_dag_status d i s) k =
     (if k = i then map_option (\<lambda>_. s) (dag_status d i) else dag_status d k)"
  "db_orch_deps (set_dag_status d i s) = db_orch_deps d"
  "db_seq (set_dag_status d i s) = db_seq d"
  "map ot_id (db_orch_tasks (set_dag_status d i s)) = map ot_id (db_orch_tasks d)"
  unfolding set_dag_status_def by (simp_all add: dag_status_update map_sql_update)

lemma foldl_promote_one:
  "db_orch_deps (foldl promote_one d ks) = db_orch_deps d \<and> db_seq (foldl promote_one d ks) = db_seq d \<and>
   map ot_id (db_orch_tasks (foldl promote_one d ks)) = map ot_id (db_orch_tasks d)"
proof (induction ks arbitrary: d)
  case (Cons k ks)
  show ?case using Cons.IH [of "promote_one d k"] by (simp add: promote_one_def)
qed simp

lemma orch_promote_ready_same [simp]:
  "db_orch_deps (orch_promote_ready d i) = db_orch_deps d"
  "db_seq (orch_promote_ready d i) = db_seq d"
  "map ot_id (db_orch_tasks (orch_promote_ready d i)) = map ot_id (db_orch_tasks d)"
  using foldl_promote_one [of d] by (simp_all add: orch_promote_ready_def)

lemma dag_status_promote:
  "dag_status (foldl promote_one d ks) k =
    (if k \<in> set ks \<and> dag_status d k = Some ''pending'' \<and>
        (\<forall>j. (k, j) \<in> set (db_orch_deps d) \<longrightarrow> dag_status d j = Some ''completed'')
     then Some ''ready'' else dag_status d k)"
proof (induction ks arbitrary: d)
  case (Cons x xs)
  have done_iff: "dag_status (promote_one d x) j = Some ''completed'' \<longleftrightarrow> dag_status d j = Some ''completed''" for j
    by (auto simp: promote_one_def)
  have deps: "db_orch_deps (promote_one d x) = db_orch_deps d" by (simp add: promote_one_def)
  define free where "free = (\<forall>j. (k, j) \<in> set (db_orch_deps d) \<longrightarrow> dag_status d j = Some ''completed'')"
  have one: "dag_status (promote_one d x) k =
     (if k = x \<and> dag_status d k = Some ''pending'' \<and> free then Some ''ready'' else dag_status d k)"
    by (auto simp: free_def promote_one_def deps_all_completed_iff set_orch_task_deps)
  show ?case
    unfolding foldl_Cons Cons.IH [of "promote_one d x"] done_iff deps one
    unfolding free_def [symmetric] by (cases free) auto
qed simp

lemma completed_status:
  assumes "dag_status d i \<noteq> None"
  shows "dag_status (fst (orch_update_task d i ''completed'' result)) k =
    (if k = i then Some ''completed''
     else if dag_status d k = Some ''pending'' \<and> (k, i) \<in> set (db_orch_deps d) \<and>
       (\<forall>j. (k, j) \<in> set (db_orch_deps d) \<longrightarrow> j = i \<or> dag_status d j = Some ''completed'')
     then Some ''ready'' else dag_status d k)"
proof -
  have "0 < sql_count (\<lambda>t. ot_id t = i) (db_orch_tasks d)"
    using assms by (auto simp: dag_status_None sql_count_pos)
  then have "fst (orch_update_task d i ''completed'' result) =
      orch_promote_ready (d\<lparr>db_orch_tasks := sql_update (\<lambda>t. ot_id t = i)
        (\<lambda>t. t\<lparr>ot_status := ''completed'',
           ot_result := (case result of Some r \<Rightarrow> Some r | None \<Rightarrow> ot_result t)\<rparr>) (db_orch_tasks d)\<rparr>) i"
    by (simp add: orch_update_task_def Let_def)
  moreover have "k \<in> set (map fst (filter (\<lambda>e. snd e = i) es)) \<longleftrightarrow> (k, i) \<in> set es" for es :: "(int \<times> int) list"
    by force
  ultimately show ?thesis
    using assms by (auto simp: orch_promote_ready_def dag_status_promote dag_status_update)
qed

text \<open>
  Completing a task unblocks exactly the tasks it should: the task itself becomes completed, a
  pending task that depends on it becomes ready if and only if everything it depends on is now
  completed, and no other task changes its status.
\<close>

theorem completion_promotes_exactly_the_unblocked:
  assumes "dag_status d i \<noteq> None"
  shows "dag_status (fst (orch_update_task d i ''completed'' result)) k =
    (if k = i then Some ''completed''
     else if dag_status d k = Some ''pending'' \<and> (k, i) \<in> set (db_orch_deps d) \<and>
       (\<forall>j. (k, j) \<in> set (db_orch_deps d) \<longrightarrow> j = i \<or> dag_status d j = Some ''completed'')
     then Some ''ready'' else dag_status d k)"
  using assms by (rule completed_status)

definition sample_task_db :: db where
  "sample_task_db =
     fst (orch_create_task sample_codec 2 (fst (orch_create_task sample_codec 1 initial_db ''a'' [] None)) ''b'' [1] None)"

lemma sample_task_db_facts:
  "db_orch_deps sample_task_db = [(2, 1)]"
  "dag_status sample_task_db 1 = Some ''ready''" "dag_status sample_task_db 2 = Some ''pending''"
  by (simp_all add: sample_task_db_def initial_db_def orch_create_task_def dag_status_def sql_find_def Let_def)

theorem completion_promotes_exactly_the_unblocked_witness:
  "dag_status (fst (orch_update_task sample_task_db 1 ''completed'' None)) 2 = Some ''ready''"
  using completion_promotes_exactly_the_unblocked [of sample_task_db 1 None 2]
  by (simp add: sample_task_db_facts)

subsection \<open>Reachable task graphs\<close>

lemma tasks_ok_ids: "tasks_ok d \<Longrightarrow> dag_status d k \<noteq> None \<Longrightarrow> k \<le> sq_orch_tasks (db_seq d)"
  by (auto simp: tasks_ok_def dag_status_None)

lemma tasks_ok_create:
  assumes ok: "tasks_ok d" and deps: "\<And>j. j \<in> set deps \<Longrightarrow> dag_status d j \<noteq> None"
  shows "tasks_ok (fst (orch_create_task cx now d spec deps parent))"
proof -
  define i where "i = sq_orch_tasks (db_seq d) + 1"
  define d' where "d' = fst (orch_create_task cx now d spec deps parent)"
  define st where "st = (if orch_deps_all_completed d deps then ''ready'' else ''pending'')"
  have fresh: "dag_status d i = None" using tasks_ok_ids [OF ok] by (fastforce simp: i_def)
  have status: "dag_status d' k = (if k = i then Some st else dag_status d k)" for k
    using fresh by (auto simp: d'_def orch_create_task_def Let_def dag_status_def find_snoc i_def st_def
        split: option.splits)
  have deps': "set (db_orch_deps d') = set (db_orch_deps d) \<union> Pair i ` set deps"
    by (simp add: d'_def orch_create_task_def Let_def set_insert_deps i_def)
  have ids: "\<forall>t \<in> set (db_orch_tasks d'). ot_id t \<le> sq_orch_tasks (db_seq d')"
    using ok by (auto simp: d'_def orch_create_task_def Let_def tasks_ok_def)
  have edges: "\<forall>(k, j) \<in> set (db_orch_deps d'). j < k \<and> dag_status d' j \<noteq> None"
    using ok deps tasks_ok_ids [OF ok deps] by (fastforce simp: deps' status tasks_ok_def i_def)
  have "\<exists>j. (k, j) \<in> set (db_orch_deps d') \<and> dag_status d' j \<noteq> Some ''completed''"
    if p: "dag_status d' k = Some ''pending''" for k
  proof (cases "k = i")
    case True
    then obtain j where "j \<in> set deps" "dag_status d j \<noteq> Some ''completed''"
      using p by (auto simp: status st_def deps_all_completed_iff split: if_splits)
    then show ?thesis using True deps [of j] fresh by (intro exI [of _ j]) (auto simp: deps' status)
  next
    case False
    then obtain j where j: "(k, j) \<in> set (db_orch_deps d)" "dag_status d j \<noteq> Some ''completed''"
      using ok p by (auto simp: status tasks_ok_def)
    have "j \<noteq> i" using ok j(1) fresh by (auto simp: tasks_ok_def)
    then show ?thesis using j by (intro exI [of _ j]) (simp add: deps' status)
  qed
  then show ?thesis unfolding d'_def [symmetric] using ids edges by (simp add: tasks_ok_def)
qed

text \<open>
  A change of statuses keeps the invariant if it completes nothing that another task still waits
  for, and makes nothing pending.
\<close>

lemma tasks_ok_change:
  assumes ok: "tasks_ok d" and "db_orch_deps d' = db_orch_deps d" and "sq_orch_tasks (db_seq d') = sq_orch_tasks (db_seq d)"
    and "map ot_id (db_orch_tasks d') = map ot_id (db_orch_tasks d)"
    and wait: "\<And>k. dag_status d' k = Some ''pending'' \<Longrightarrow>
      \<exists>j. (k, j) \<in> set (db_orch_deps d) \<and> dag_status d' j \<noteq> Some ''completed''"
  shows "tasks_ok d'"
proof -
  have ids: "ot_id ` set (db_orch_tasks d') = ot_id ` set (db_orch_tasks d)"
    using assms(4) by (metis list.set_map)
  have "dag_status d' j = None \<longleftrightarrow> dag_status d j = None" for j
    using arg_cong [OF ids, of "\<lambda>S. j \<in> S"] by (auto simp: dag_status_None image_iff)
  moreover have "\<forall>t \<in> set (db_orch_tasks d'). ot_id t \<le> sq_orch_tasks (db_seq d)"
  proof
    fix t assume "t \<in> set (db_orch_tasks d')"
    then have "ot_id t \<in> ot_id ` set (db_orch_tasks d)" unfolding ids [symmetric] by blast
    then show "ot_id t \<le> sq_orch_tasks (db_seq d)" using ok by (auto simp: tasks_ok_def)
  qed
  ultimately show ?thesis using ok wait assms(2,3) by (auto simp: tasks_ok_def)
qed

lemma tasks_ok_step:
  assumes ok: "tasks_ok d" and "orch_step cx d d'"
  shows "tasks_ok d'"
  using assms(2)
proof cases
  case (create deps now spec parent)
  with tasks_ok_create [OF ok] show ?thesis by blast
next
  case (dispatch now task assignee)
  have "dag_status d' k = (if k = task then map_option (\<lambda>_. ''dispatched'') (dag_status d task) else dag_status d k)" for k
    unfolding dispatch(1) by (simp add: orch_create_dispatch_def Let_def) (simp add: dag_status_def)
  note st = this
  have same: "db_orch_deps d' = db_orch_deps d" "sq_orch_tasks (db_seq d') = sq_orch_tasks (db_seq d)"
      "map ot_id (db_orch_tasks d') = map ot_id (db_orch_tasks d)"
    by (simp_all add: dispatch(1) orch_create_dispatch_def Let_def)
  have "\<exists>j. (k, j) \<in> set (db_orch_deps d) \<and> dag_status d' j \<noteq> Some ''completed''"
    if p: "dag_status d' k = Some ''pending''" for k
  proof -
    have "dag_status d k = Some ''pending''" using p by (auto simp: st split: if_splits)
    then obtain j where "(k, j) \<in> set (db_orch_deps d)" "dag_status d j \<noteq> Some ''completed''"
      using ok by (auto simp: tasks_ok_def)
    then show ?thesis by (intro exI [of _ j]) (auto simp: st)
  qed
  with same show ?thesis by (intro tasks_ok_change [OF ok])
next
  case (update status i result)
  let ?f = "\<lambda>t. t\<lparr>ot_status := status, ot_result := (case result of Some r \<Rightarrow> Some r | None \<Rightarrow> ot_result t)\<rparr>"
  let ?d1 = "d\<lparr>db_orch_tasks := sql_update (\<lambda>t. ot_id t = i) ?f (db_orch_tasks d)\<rparr>"
  show ?thesis
  proof (cases "dag_status d i = None")
    case True
    then have "sql_count (\<lambda>t. ot_id t = i) (db_orch_tasks d) = 0" by (auto simp: dag_status_None sql_count_0)
    with update ok show ?thesis by (simp add: orch_update_task_def)
  next
    case False
    then have d': "d' = (if status = ''completed'' then orch_promote_ready ?d1 i else ?d1)"
      using sql_count_pos [of "\<lambda>t. ot_id t = i" "db_orch_tasks d"]
      by (auto simp: update orch_update_task_def Let_def dag_status_None)
    have same: "db_orch_deps d' = db_orch_deps d" "db_seq d' = db_seq d"
        "map ot_id (db_orch_tasks d') = map ot_id (db_orch_tasks d)"
      by (cases "status = ''completed''"; simp add: d' map_sql_update)+
    have status: "dag_status ?d1 k = (if k = i then Some status else dag_status d k)" for k
      using False by (simp add: dag_status_update)
    have "\<exists>j. (k, j) \<in> set (db_orch_deps d) \<and> dag_status d' j \<noteq> Some ''completed''"
      if p: "dag_status d' k = Some ''pending''" for k
    proof (cases "status = ''completed''")
      case True
      have all: "dag_status d' k = (if k = i then Some ''completed''
        else if dag_status d k = Some ''pending'' \<and> (k, i) \<in> set (db_orch_deps d) \<and>
          (\<forall>j. (k, j) \<in> set (db_orch_deps d) \<longrightarrow> j = i \<or> dag_status d j = Some ''completed'')
        then Some ''ready'' else dag_status d k)" for k
        unfolding update(1) True by (rule completed_status [OF False])
      have old: "k \<noteq> i" "dag_status d k = Some ''pending''" using p by (auto simp: all split: if_splits)
      then obtain j where j: "(k, j) \<in> set (db_orch_deps d)" "dag_status d j \<noteq> Some ''completed''"
        using ok by (auto simp: tasks_ok_def)
      show ?thesis
      proof (cases "j = i")
        case False
        with j show ?thesis by (intro exI [of _ j]) (auto simp: all)
      next
        case True
        with p old j obtain j' where "(k, j') \<in> set (db_orch_deps d)" "j' \<noteq> i" "dag_status d j' \<noteq> Some ''completed''"
          by (auto simp: all split: if_splits)
        then show ?thesis by (intro exI [of _ j']) (auto simp: all)
      qed
    next
      case False
      then have st: "dag_status d' k = (if k = i then Some status else dag_status d k)" for k
        by (simp add: d' status)
      obtain j where "(k, j) \<in> set (db_orch_deps d)" "dag_status d j \<noteq> Some ''completed''"
        using p ok \<open>status \<noteq> ''pending''\<close> by (auto simp: st tasks_ok_def split: if_splits)
      with False show ?thesis by (intro exI [of _ j]) (simp add: st)
    qed
    with same show ?thesis by (intro tasks_ok_change [OF ok]) simp_all
  qed
qed

lemma orch_reach_ok: "orch_reach cx d \<Longrightarrow> tasks_ok d"
  by (induction rule: orch_reach.induct)
    (auto simp: tasks_ok_step, simp add: tasks_ok_def dag_status_def sql_find_def)



section \<open>Polling a mailbox\<close>

text \<open>
  Reading an inbox and marking what was read, \<open>k\<close> times: what the calls return, in order, and the
  database they leave.
\<close>

primrec poll :: "nat \<Rightarrow> string \<Rightarrow> int \<Rightarrow> db \<Rightarrow> orch_message list \<times> db" where
  "poll 0 to n d = ([], d)"
| "poll (Suc k) to n d =
     (let ms = orch_inbox d to True [] n; r = poll k to n (orch_mark_read d (map om_id ms))
      in (ms @ fst r, snd r))"

definition unread_mail :: "db \<Rightarrow> string \<Rightarrow> orch_message list" where
  "unread_mail d to = filter (\<lambda>m. om_recipient m = to \<and> om_read m = 0) (db_orch_messages d)"

lemma orch_mark_read_rows:
  "db_orch_messages (orch_mark_read d is) =
     map (\<lambda>m. if om_id m \<in> set is then m\<lparr>om_read := 1\<rparr> else m) (db_orch_messages d)"
proof (induction "is" arbitrary: d)
  case (Cons i "is")
  show ?case by (simp add: Cons.IH sql_update_def)
qed simp

lemma unread_mark_read: "unread_mail (orch_mark_read d is) to = filter (\<lambda>m. om_id m \<notin> set is) (unread_mail d to)"
proof -
  have "filter (\<lambda>m. om_recipient m = to \<and> om_read m = 0)
      (map (\<lambda>m. if om_id m \<in> set is then m\<lparr>om_read := 1\<rparr> else m) ms) =
    filter (\<lambda>m. om_id m \<notin> set is) (filter (\<lambda>m. om_recipient m = to \<and> om_read m = 0) ms)" for ms
    by (induction ms) auto
  then show ?thesis unfolding unread_mail_def orch_mark_read_rows .
qed

lemma unique_mark_read:
  assumes "unique_on om_id (db_orch_messages d)"
  shows "unique_on om_id (db_orch_messages (orch_mark_read d is))"
proof -
  have "map om_id (map (\<lambda>m. if om_id m \<in> set is then m\<lparr>om_read := 1\<rparr> else m) ms) = map om_id ms" for ms :: "orch_message list"
    by (induction ms) auto
  with assms show ?thesis by (simp only: unique_on_def orch_mark_read_rows)
qed

lemma filter_out_prefix:
  "distinct (map f (xs @ ys)) \<Longrightarrow> filter (\<lambda>m. f m \<notin> set (map f xs)) (xs @ ys) = ys"
  by (auto simp: filter_empty_conv intro!: filter_id_conv [THEN iffD2])

lemma inbox_is_unread:
  "1 \<le> n \<Longrightarrow> orch_inbox d to True [] n =
     take (nat n) (order_by (then_by (desc om_created_at) (desc om_id)) (unread_mail d to))"
proof -
  assume "1 \<le> n"
  moreover have "inbox_match to True [] = (\<lambda>m. om_recipient m = to \<and> om_read m = 0)"
    by (auto simp: fun_eq_iff inbox_match_def)
  ultimately show ?thesis by (simp add: orch_inbox_def orch_limit_def unread_mail_def)
qed

lemma one_poll:
  fixes d :: db and to :: string
  assumes u: "unique_on om_id (db_orch_messages d)" and n: "1 \<le> n"
  defines "ms \<equiv> orch_inbox d to True [] n"
  defines "d' \<equiv> orch_mark_read d (map om_id ms)"
  shows "mset ms + mset (unread_mail d' to) = mset (unread_mail d to)"
    and "length (unread_mail d' to) = length (unread_mail d to) - nat n"
    and "other \<noteq> to \<Longrightarrow> unread_mail d' other = unread_mail d other"
proof -
  define s where "s = order_by (then_by (desc om_created_at) (desc om_id)) (unread_mail d to)"
  have ms: "ms = take (nat n) s" using n by (simp add: ms_def inbox_is_unread s_def)
  have s: "mset s = mset (unread_mail d to)" by (simp add: s_def)
  have "distinct (map om_id (unread_mail d to))"
    using u by (simp add: unread_mail_def unique_on_def distinct_map_filter)
  then have "distinct (map om_id s)"
    using arg_cong [OF s, of "image_mset om_id"] by (metis mset_map mset_eq_imp_distinct_iff)
  then have rest: "filter (\<lambda>m. om_id m \<notin> set (map om_id ms)) s = drop (nat n) s"
    using filter_out_prefix [of om_id "take (nat n) s" "drop (nat n) s"] by (simp add: ms)
  have "mset (unread_mail d' to) = mset (filter (\<lambda>m. om_id m \<notin> set (map om_id ms)) s)"
    by (simp only: d'_def unread_mark_read mset_filter s)
  then have left: "mset (unread_mail d' to) = mset (drop (nat n) s)" by (simp only: rest)
  then show "mset ms + mset (unread_mail d' to) = mset (unread_mail d to)"
    by (metis ms s append_take_drop_id mset_append)
  show "length (unread_mail d' to) = length (unread_mail d to) - nat n"
    using arg_cong [OF left, of size] arg_cong [OF s, of size] by simp
  have mine: "om_recipient m = to \<and> m \<in> set (db_orch_messages d)" if "m \<in> set ms" for m
  proof -
    have "m \<in> set (unread_mail d to)"
      using that arg_cong [OF s, of set_mset] unfolding ms by (auto dest: in_set_takeD)
    then show ?thesis by (simp add: unread_mail_def)
  qed
  assume "other \<noteq> to"
  have "om_id m \<notin> set (map om_id ms)" if m: "m \<in> set (unread_mail d other)" for m
  proof
    assume "om_id m \<in> set (map om_id ms)"
    then obtain m' where m': "m' \<in> set ms" "om_id m = om_id m'" by auto
    have "m \<in> set (db_orch_messages d)" "om_recipient m = other" using m by (simp_all add: unread_mail_def)
    with unique_on_same [OF u _ _ m'(2)] mine [OF m'(1)] \<open>other \<noteq> to\<close> show False by auto
  qed
  then show "unread_mail d' other = unread_mail d other"
    by (simp add: d'_def unread_mark_read filter_id_conv)
qed

text \<open>
  Polling a mailbox delivers every message exactly once. Repeating the consuming check with any
  positive limit returns, after enough calls, each unread message of the recipient exactly once and
  leaves none; what others have not read yet stays unread.
\<close>

theorem polling_delivers_each_message_once:
  assumes "unique_on om_id (db_orch_messages d)" and "1 \<le> n" and "length (unread_mail d to) \<le> nat n * k"
  shows "mset (fst (poll k to n d)) = mset (unread_mail d to) \<and> unread_mail (snd (poll k to n d)) to = [] \<and>
    (other \<noteq> to \<longrightarrow> unread_mail (snd (poll k to n d)) other = unread_mail d other)"
  using assms(1,3)
proof (induction k arbitrary: d)
  case (Suc k)
  let ?d' = "orch_mark_read d (map om_id (orch_inbox d to True [] n))"
  have "length (unread_mail ?d' to) \<le> nat n * k"
    using Suc.prems(2) one_poll(2) [OF Suc.prems(1) assms(2)] by simp
  note rest = Suc.IH [OF unique_mark_read [OF Suc.prems(1)] this]
  show ?case
    using rest one_poll(1) [OF Suc.prems(1) assms(2), of to] one_poll(3) [OF Suc.prems(1) assms(2), of other to]
    by (simp add: Let_def)
qed simp

definition sample_mail :: "string \<Rightarrow> string \<Rightarrow> new_orch_message" where
  "sample_mail to subject =
     \<lparr>nm_thread_id = ''t'', nm_sender = ''c'', nm_recipient = to, nm_subject = subject, nm_body = '''',
      nm_msg_type = ''status'', nm_priority = ''normal'', nm_payload = None\<rparr>"

definition sample_mailbox :: db where
  "sample_mailbox =
     fst (orch_insert_message sample_codec 3
       (fst (orch_insert_message sample_codec 2
         (fst (orch_insert_message sample_codec 1 initial_db (sample_mail ''a'' ''x''))) (sample_mail ''b'' ''y'')))
       (sample_mail ''a'' ''z''))"

theorem polling_delivers_each_message_once_witness:
  "length (fst (poll 2 ''a'' 1 sample_mailbox)) = 2 \<and> length (unread_mail (snd (poll 2 ''a'' 1 sample_mailbox)) ''b'') = 1"
proof -
  have "unique_on om_id (db_orch_messages sample_mailbox)" "length (unread_mail sample_mailbox ''a'') = 2"
      "length (unread_mail sample_mailbox ''b'') = 1"
    by (simp_all add: sample_mailbox_def initial_db_def orch_insert_message_def unique_on_def unread_mail_def
        sample_mail_def Let_def)
  then show ?thesis
    using polling_delivers_each_message_once [of sample_mailbox 1 "''a''" 2 "''b''"]
    by simp (metis size_mset)
qed

end
