(* ===== verification/Server_Types.thy ===== *)
theory Server_Types
  imports Store_Db
begin

text \<open>
  \<open>crates/agentum-server/src/error.rs\<close>: the errors of the HTTP handlers, their translation from
  the errors of the store and the responses they become. What an internal error prints is the text
  of the component that failed; the model keeps the error itself.
\<close>

datatype internal_error = Internal_Store store_error | Internal_Text string

datatype api_error =
    ApiError_NotFound string
  | ApiError_Conflict string
  | ApiError_BadRequest string
  | ApiError_Unauthorized string
  | ApiError_Forbidden string
  | ApiError_TooManyRequests string
  | ApiError_BadGateway string
  | ApiError_Internal internal_error
  | ApiError_Custom nat json

fun core_error_text :: "core_error \<Rightarrow> string" where
  "core_error_text (InvalidStatus s) = ''invalid session status: '' @ s"
| "core_error_text (InvalidName s) = ''invalid session name: '' @ s"
| "core_error_text (ParseLinkKind s) = ''invalid link kind: '' @ s"

fun ApiError_from :: "store_error \<Rightarrow> api_error" where
  "ApiError_from (StoreError_NotFound m) = ApiError_NotFound m"
| "ApiError_from (StoreError_AlreadyExists m) = ApiError_Conflict m"
| "ApiError_from (StoreError_Core c) = ApiError_BadRequest (core_error_text c)"
| "ApiError_from other = ApiError_Internal (Internal_Store other)"

fun response_status :: "api_error \<Rightarrow> nat" where
  "response_status (ApiError_Custom status _) = status"
| "response_status (ApiError_NotFound _) = 404"
| "response_status (ApiError_Conflict _) = 409"
| "response_status (ApiError_BadRequest _) = 400"
| "response_status (ApiError_Unauthorized _) = 401"
| "response_status (ApiError_Forbidden _) = 403"
| "response_status (ApiError_TooManyRequests _) = 429"
| "response_status (ApiError_BadGateway _) = 502"
| "response_status (ApiError_Internal _) = 500"

text \<open>\<open>?\<close> on a result of the store.\<close>

definition lift_api :: "store_error + 'a \<Rightarrow> api_error + 'a" where
  "lift_api r = (case r of Inl e \<Rightarrow> Inl (ApiError_from e) | Inr x \<Rightarrow> Inr x)"

text \<open>A handler: the database it leaves, the events it sends on the bus, the response.\<close>

type_synonym 'a response = "db \<times> event list \<times> (api_error + 'a)"

definition respond_err :: "db \<Rightarrow> api_error \<Rightarrow> 'a response" where
  "respond_err d e = (d, [], Inl e)"

lemma lift_api_simps [simp]:
  "lift_api (Inr x) = Inr x" "lift_api (Inl e) = Inl (ApiError_from e)"
  by (simp_all add: lift_api_def)

lemma lift_api_Inr: "lift_api r = Inr x \<longleftrightarrow> r = Inr x"
  by (cases r) simp_all

lemma lift_api_Inl: "lift_api r = Inl e \<longleftrightarrow> (\<exists>e'. r = Inl e' \<and> e = ApiError_from e')"
  by (cases r) auto

end
