(* ===== verification/Orch_Routes.thy ===== *)
theory Orch_Routes
  imports Orch_Store Server_Types
begin

text \<open>
  \<open>crates/agentum-server/src/routes/orchestration.rs\<close>: the handlers of
  \<open>/api/orchestration\<close>. A target names one handle or a group of sessions; a group is resolved
  when the message is sent and becomes one stored message per recipient.
\<close>

section \<open>Settings\<close>

definition ORCHESTRATION_ENABLED_SETTING :: string where
  "ORCHESTRATION_ENABLED_SETTING = ''orchestration.enabled''"

definition get_settings :: "db \<Rightarrow> bool" where
  "get_settings d = setting_get_bool d ORCHESTRATION_ENABLED_SETTING False"

definition put_settings :: "codec \<Rightarrow> time \<Rightarrow> db \<Rightarrow> bool \<Rightarrow> db \<times> bool" where
  "put_settings cx now d enabled =
     (setting_set_bool cx now d ORCHESTRATION_ENABLED_SETTING enabled, enabled)"

section \<open>Recipients\<close>

record handle_info =
  hi_name :: string
  hi_tool :: string
  hi_status :: string
  hi_workdir :: string

definition pick :: "string \<Rightarrow> handle_info list \<Rightarrow> (handle_info \<Rightarrow> bool) \<Rightarrow> string list" where
  "pick sender sessions f = map hi_name (filter (\<lambda>s. hi_name s \<noteq> sender \<and> f s) sessions)"

definition group_tools :: "string list" where
  "group_tools = [''claude'', ''codex'', ''gemini'', ''opencode'', ''cursor'', ''hermes'', ''aider'']"

definition resolve_recipients :: "string \<Rightarrow> handle_info list \<Rightarrow> string \<Rightarrow> string list" where
  "resolve_recipients target sessions sender =
     (case strip_prefix ''@'' target of
        None \<Rightarrow> [target]
      | Some grp \<Rightarrow>
          if grp = ''all'' then pick sender sessions (\<lambda>_. True)
          else if grp = ''idle'' then pick sender sessions (\<lambda>s. hi_status s = ''idle'')
          else if grp \<in> set group_tools then pick sender sessions (\<lambda>s. hi_tool s = grp)
          else case strip_prefix ''worktree:'' grp of
                 Some wt \<Rightarrow> pick sender sessions (\<lambda>s. str_contains (hi_workdir s) wt)
               | None \<Rightarrow> [])"

definition handle_info_of :: "session \<Rightarrow> handle_info" where
  "handle_info_of s =
     \<lparr>hi_name = s_name s, hi_tool = s_tool s, hi_status = Status_as_str (s_status s),
      hi_workdir = s_workdir s\<rparr>"

definition handle_infos :: "codec \<Rightarrow> db \<Rightarrow> api_error + handle_info list" where
  "handle_infos cx d = and_then (lift_api (list_sessions cx d None)) (\<lambda>ss. Inr (map handle_info_of ss))"

section \<open>Messages\<close>

record send_req =
  rq_to :: string
  rq_subject :: string
  rq_from :: "string option"
  rq_body :: "string option"
  rq_msg_type :: "string option"
  rq_priority :: "string option"
  rq_thread_id :: "string option"
  rq_payload :: "json option"

abbreviation unwrap_or :: "'a \<Rightarrow> 'a option \<Rightarrow> 'a" where
  "unwrap_or dflt v \<equiv> (case v of Some x \<Rightarrow> x | None \<Rightarrow> dflt)"

definition message_for :: "codec \<Rightarrow> send_req \<Rightarrow> string \<Rightarrow> string \<Rightarrow> string \<Rightarrow> new_orch_message" where
  "message_for cx req sender thread_id recipient =
     \<lparr>nm_thread_id = thread_id, nm_sender = sender, nm_recipient = recipient,
      nm_subject = rq_subject req, nm_body = unwrap_or '''' (rq_body req),
      nm_msg_type = unwrap_or ''status'' (rq_msg_type req),
      nm_priority = unwrap_or ''normal'' (rq_priority req),
      nm_payload = map_option (cx_print_json cx) (rq_payload req)\<rparr>"

text \<open>The loop over the recipients; \<open>nows\<close> is the clock at each insert.\<close>

primrec deliver ::
    "codec \<Rightarrow> (nat \<Rightarrow> time) \<Rightarrow> db \<Rightarrow> (string \<Rightarrow> new_orch_message) \<Rightarrow> string list \<Rightarrow> orch_message list \<Rightarrow>
     db \<times> orch_message list" where
  "deliver cx nows d msg [] delivered = (d, delivered)"
| "deliver cx nows d msg (r # rs) delivered =
     (let res = orch_insert_message cx (nows (length delivered)) d (msg r)
      in deliver cx nows (fst res) msg rs (delivered @ [snd res]))"

text \<open>\<open>fresh\<close> is the UUID of a new thread.\<close>

definition send :: "codec \<Rightarrow> (nat \<Rightarrow> time) \<Rightarrow> string \<Rightarrow> db \<Rightarrow> send_req \<Rightarrow>
    db \<times> (api_error + string \<times> orch_message list)" where
  "send cx nows fresh d req =
     (let sender = unwrap_or ''unknown'' (rq_from req)
      in case handle_infos cx d of
           Inl e \<Rightarrow> (d, Inl e)
         | Inr infos \<Rightarrow>
             let recipients = resolve_recipients (rq_to req) infos sender
             in if recipients = []
                then (d, Inl (ApiError_BadRequest (''`'' @ rq_to req @ ''` resolved to no recipients'')))
                else
                  let thread_id = unwrap_or fresh (rq_thread_id req);
                      res = deliver cx nows d (message_for cx req sender thread_id) recipients []
                  in (fst res, Inr (thread_id, snd res)))"

record check_req =
  ck_recipient :: string
  ck_unread :: "bool option"
  ck_types :: "string list option"
  ck_mark_read :: "bool option"
  ck_limit :: "int option"

definition check :: "db \<Rightarrow> check_req \<Rightarrow> db \<times> orch_message list" where
  "check d req =
     (let msgs = orch_inbox d (ck_recipient req) (unwrap_or True (ck_unread req))
                   (unwrap_or [] (ck_types req)) (unwrap_or 50 (ck_limit req))
      in (if unwrap_or True (ck_mark_read req) \<and> msgs \<noteq> [] then orch_mark_read d (map om_id msgs) else d,
          msgs))"

definition inbox :: "db \<Rightarrow> string \<Rightarrow> bool option \<Rightarrow> int option \<Rightarrow> orch_message list" where
  "inbox d recipient unread limit =
     orch_inbox d recipient (unwrap_or False unread) [] (unwrap_or 50 limit)"

definition reply :: "codec \<Rightarrow> time \<Rightarrow> db \<Rightarrow> int \<Rightarrow> string \<Rightarrow> string option \<Rightarrow> db \<times> (api_error + orch_message)" where
  "reply cx now d i body from_opt =
     (case orch_get_message d i of
        None \<Rightarrow> (d, Inl (ApiError_NotFound (''message '' @ string_of_int i)))
      | Some orig \<Rightarrow>
          let res = orch_insert_message cx now d
                \<lparr>nm_thread_id = om_thread_id orig, nm_sender = unwrap_or (om_recipient orig) from_opt,
                 nm_recipient = om_sender orig, nm_subject = ''Re: '' @ om_subject orig, nm_body = body,
                 nm_msg_type = ''status'', nm_priority = ''normal'', nm_payload = None\<rparr>
          in (fst res, Inr (snd res)))"

section \<open>Tasks\<close>

definition create_task ::
    "codec \<Rightarrow> time \<Rightarrow> db \<Rightarrow> string \<Rightarrow> int list option \<Rightarrow> int option \<Rightarrow> db \<times> orch_task" where
  "create_task cx now d spec deps parent = orch_create_task cx now d spec (unwrap_or [] deps) parent"

definition list_tasks :: "db \<Rightarrow> string option \<Rightarrow> bool option \<Rightarrow> orch_task list" where
  "list_tasks d status ready = orch_list_tasks d status (unwrap_or False ready)"

definition update_task :: "codec \<Rightarrow> db \<Rightarrow> int \<Rightarrow> string \<Rightarrow> json option \<Rightarrow> db \<times> (api_error + orch_task)" where
  "update_task cx d i status result =
     (let res = orch_update_task d i status (map_option (cx_print_json cx) result)
      in (fst res, ok_or (ApiError_NotFound (''task '' @ string_of_int i)) (snd res)))"

definition dispatch :: "codec \<Rightarrow> time \<Rightarrow> db \<Rightarrow> int \<Rightarrow> string \<Rightarrow> string option \<Rightarrow>
    db \<times> (api_error + orch_dispatch \<times> orch_task option)" where
  "dispatch cx now d task target from_opt =
     (case handle_infos cx d of
        Inl e \<Rightarrow> (d, Inl e)
      | Inr infos \<Rightarrow>
          (case resolve_recipients target infos (unwrap_or ''coordinator'' from_opt) of
             [] \<Rightarrow> (d, Inl (ApiError_BadRequest (''`'' @ target @ ''` resolved to no handle'')))
           | assignee # _ \<Rightarrow>
               let res = orch_create_dispatch cx now d task assignee
               in (fst res, Inr (snd res, orch_get_task (fst res) task))))"

definition dispatch_show :: "db \<Rightarrow> int \<Rightarrow> orch_task option \<times> orch_dispatch list" where
  "dispatch_show d task = (orch_get_task d task, orch_dispatches_for_task d task)"

section \<open>Lemmas\<close>

definition mail_ok :: "db \<Rightarrow> bool" where
  "mail_ok d \<longleftrightarrow> unique_on om_id (db_orch_messages d) \<and>
     (\<forall>m \<in> set (db_orch_messages d). om_id m \<le> sq_orch_messages (db_seq d))"

lemma insert_message_facts:
  assumes "mail_ok d"
  shows "mail_ok (fst (orch_insert_message cx now d m))"
    and "db_orch_messages (fst (orch_insert_message cx now d m)) = db_orch_messages d @ [snd (orch_insert_message cx now d m)]"
  using assms by (fastforce simp: mail_ok_def orch_insert_message_def Let_def unique_on_snoc)+

lemma insert_message_row [simp]:
  "om_thread_id (snd (orch_insert_message cx now d m)) = nm_thread_id m"
  "om_sender (snd (orch_insert_message cx now d m)) = nm_sender m"
  "om_recipient (snd (orch_insert_message cx now d m)) = nm_recipient m"
  "om_subject (snd (orch_insert_message cx now d m)) = nm_subject m"
  "om_read (snd (orch_insert_message cx now d m)) = 0"
  by (simp_all add: orch_insert_message_def Let_def)

lemma deliver_facts:
  assumes "mail_ok d"
  shows "\<exists>ms. snd (deliver cx nows d msg rs acc) = acc @ ms \<and>
    db_orch_messages (fst (deliver cx nows d msg rs acc)) = db_orch_messages d @ ms \<and>
    mail_ok (fst (deliver cx nows d msg rs acc)) \<and>
    list_all2 (\<lambda>r m. om_thread_id m = nm_thread_id (msg r) \<and> om_sender m = nm_sender (msg r) \<and>
      om_recipient m = nm_recipient (msg r) \<and> om_subject m = nm_subject (msg r) \<and> om_read m = 0) rs ms"
  using assms
proof (induction rs arbitrary: d acc)
  case (Cons r rs)
  let ?res = "orch_insert_message cx (nows (length acc)) d (msg r)"
  from Cons.IH [OF insert_message_facts(1) [OF Cons.prems], of cx "nows (length acc)" "msg r" "acc @ [snd ?res]"]
  obtain ms where ms: "snd (deliver cx nows (fst ?res) msg rs (acc @ [snd ?res])) = (acc @ [snd ?res]) @ ms"
    "db_orch_messages (fst (deliver cx nows (fst ?res) msg rs (acc @ [snd ?res]))) = db_orch_messages (fst ?res) @ ms"
    "mail_ok (fst (deliver cx nows (fst ?res) msg rs (acc @ [snd ?res])))"
    "list_all2 (\<lambda>r m. om_thread_id m = nm_thread_id (msg r) \<and> om_sender m = nm_sender (msg r) \<and>
      om_recipient m = nm_recipient (msg r) \<and> om_subject m = nm_subject (msg r) \<and> om_read m = 0) rs ms"
    by blast
  then show ?case
    by (intro exI [of _ "snd ?res # ms"])
      (simp add: Let_def insert_message_facts(2) [OF Cons.prems])
qed simp

lemma Session_try_from_name: "Session_try_from cx (r, hl) = Inr s \<Longrightarrow> s_name s = sr_name r"
  by (auto simp: Session_try_from_def Let_def and_then_eq_Inr)

lemma list_sessions_names:
  assumes "list_sessions cx d None = Inr ss"
  shows "mset (map s_name ss) = mset (map sr_name (db_sessions d))"
proof -
  let ?rows = "order_by (then_by (desc sr_pinned) (desc sr_created_at)) (db_sessions d)"
  have eq: "map (\<lambda>r. Session_try_from cx (join_host d r)) ?rows = map Inr ss"
    using assms by (simp add: list_sessions_def collect_results_Inr)
  have name: "s_name s = sr_name r" if "Session_try_from cx (join_host d r) = Inr s" for r s
    using that Session_try_from_name by (auto simp: join_host_def Let_def)
  have "map s_name ss = map sr_name rows"
    if "map (\<lambda>r. Session_try_from cx (join_host d r)) rows = map Inr ss" for rows
    using that
  proof (induction rows arbitrary: ss)
    case (Cons r rows)
    then show ?case by (cases ss) (auto dest: name)
  qed simp
  from this [OF eq] have "map s_name ss = map sr_name ?rows" .
  then show ?thesis by (metis mset_map mset_order_by)
qed

lemma pick_facts:
  "sender \<notin> set (pick sender sessions f)" "set (pick sender sessions f) \<subseteq> hi_name ` set sessions"
  "distinct (map hi_name sessions) \<Longrightarrow> distinct (pick sender sessions f)"
  by (auto simp: pick_def distinct_map_filter)

lemma resolve_is_pick:
  assumes "starts_with ''@'' target"
  shows "\<exists>f. resolve_recipients target sessions sender = pick sender sessions f"
proof -
  have "[] = pick sender sessions (\<lambda>_. False)" by (simp add: pick_def)
  then show ?thesis
    using assms unfolding resolve_recipients_def starts_with_def by (auto split: option.splits)
qed

lemma resolve_group:
  assumes "starts_with ''@'' target"
  shows "sender \<notin> set (resolve_recipients target sessions sender)"
    and "set (resolve_recipients target sessions sender) \<subseteq> hi_name ` set sessions"
    and "distinct (map hi_name sessions) \<Longrightarrow> distinct (resolve_recipients target sessions sender)"
  using resolve_is_pick [OF assms, of sessions sender] pick_facts by metis+

lemma resolve_handle: "\<not> starts_with ''@'' target \<Longrightarrow> resolve_recipients target sessions sender = [target]"
  by (auto simp: resolve_recipients_def starts_with_def split: option.splits)

section \<open>Properties\<close>

text \<open>
  A send fans out to exactly its recipients. The messages it stores are appended with fresh ids,
  unread, one per resolved recipient, on one thread; a group resolves to sessions that exist, each
  once, and never to the sender; a plain handle gets its message whether or not a session has that
  name. A reply to any of them goes back to the sender on the same thread.
\<close>

theorem send_reaches_the_group:
  assumes ok: "mail_ok d" and sent: "send cx nows fresh d req = (d', Inr (thread, ms))"
    and sender: "sender = (case rq_from req of Some s \<Rightarrow> s | None \<Rightarrow> ''unknown'')"
  shows "db_orch_messages d' = db_orch_messages d @ ms \<and> mail_ok d' \<and> ms \<noteq> [] \<and>
    (\<forall>m \<in> set ms. om_thread_id m = thread \<and> om_sender m = sender \<and> om_subject m = rq_subject req \<and> om_read m = 0) \<and>
    (starts_with ''@'' (rq_to req) \<longrightarrow> sender \<notin> om_recipient ` set ms \<and>
       om_recipient ` set ms \<subseteq> sr_name ` set (db_sessions d) \<and>
       (distinct (map sr_name (db_sessions d)) \<longrightarrow> distinct (map om_recipient ms))) \<and>
    (\<not> starts_with ''@'' (rq_to req) \<longrightarrow> map om_recipient ms = [rq_to req]) \<and>
    (\<forall>m \<in> set ms. \<exists>r. snd (reply cx now d' (om_id m) body None) = Inr r \<and> om_recipient r = sender \<and>
       om_sender r = om_recipient m \<and> om_thread_id r = thread)"
proof -
  obtain infos where infos: "handle_infos cx d = Inr infos"
    using sent by (cases "handle_infos cx d") (auto simp: send_def Let_def)
  let ?rs = "resolve_recipients (rq_to req) infos sender"
  define msg where "msg = message_for cx req sender thread"
  have ne: "?rs \<noteq> []" and d': "deliver cx nows d msg ?rs [] = (d', ms)"
    using sent infos by (auto simp: send_def Let_def msg_def sender prod_eq_iff split: if_splits)
  from deliver_facts [OF ok, of cx nows msg ?rs "[]"] d'
  have ms: "db_orch_messages d' = db_orch_messages d @ ms" "mail_ok d'"
    and rel: "list_all2 (\<lambda>r m. om_thread_id m = nm_thread_id (msg r) \<and> om_sender m = nm_sender (msg r) \<and>
      om_recipient m = nm_recipient (msg r) \<and> om_subject m = nm_subject (msg r) \<and> om_read m = 0) ?rs ms"
    by auto
  have to: "map om_recipient ms = ?rs"
    using rel by (induction rule: list_all2_induct) (auto simp: msg_def message_for_def)
  have cols: "\<forall>m \<in> set ms. om_thread_id m = thread \<and> om_sender m = sender \<and> om_subject m = rq_subject req \<and> om_read m = 0"
    using rel by (induction rule: list_all2_induct) (auto simp: msg_def message_for_def)
  obtain ss where ss: "list_sessions cx d None = Inr ss" "infos = map handle_info_of ss"
    using infos by (auto simp: handle_infos_def and_then_eq_Inr lift_api_Inr)
  have hi: "map hi_name infos = map s_name ss" by (simp add: ss handle_info_of_def comp_def)
  have names: "hi_name ` set infos = sr_name ` set (db_sessions d)"
    using arg_cong [OF list_sessions_names [OF ss(1)], of set_mset] arg_cong [OF hi, of set] by simp
  have dist: "distinct (map hi_name infos) \<longleftrightarrow> distinct (map sr_name (db_sessions d))"
    unfolding hi using list_sessions_names [OF ss(1)] by (rule mset_eq_imp_distinct_iff)
  have group: "sender \<notin> om_recipient ` set ms \<and> om_recipient ` set ms \<subseteq> sr_name ` set (db_sessions d) \<and>
      (distinct (map sr_name (db_sessions d)) \<longrightarrow> distinct (map om_recipient ms))"
    if g: "starts_with ''@'' (rq_to req)"
  proof -
    note r = resolve_group [OF g, where sessions = infos and sender = sender, folded to, unfolded set_map]
    with names dist show ?thesis by blast
  qed
  have replied: "\<exists>r. snd (reply cx now d' (om_id m) body None) = Inr r \<and> om_recipient r = sender \<and>
       om_sender r = om_recipient m \<and> om_thread_id r = thread" if "m \<in> set ms" for m
  proof -
    have "orch_get_message d' (om_id m) = Some m"
      using ms that unfolding orch_get_message_def mail_ok_def by (intro unique_on_find) auto
    then show ?thesis using cols that by (simp add: reply_def Let_def)
  qed
  from to ne have "ms \<noteq> []" by auto
  with ms cols group replied to resolve_handle show ?thesis by (metis (no_types, lifting))
qed

definition sample_two_agents :: db where
  "sample_two_agents = fst (create_session_on_host sample_codec 6 ''u2''
     (fst (create_session_on_host sample_codec 5 ''u1'' initial_db (sample_new_session ''a'') None))
     (sample_new_session ''b'') None)"

definition sample_send :: send_req where
  "sample_send = \<lparr>rq_to = ''@all'', rq_subject = ''hi'', rq_from = Some ''a'', rq_body = None, rq_msg_type = None,
     rq_priority = None, rq_thread_id = None, rq_payload = None\<rparr>"

lemma sample_send_ok:
  "is_ok (snd (send sample_codec (\<lambda>_. 7) ''t1'' sample_two_agents sample_send))"
  by code_simp

theorem send_reaches_the_group_witness:
  "\<exists>d' thread ms. send sample_codec (\<lambda>_. 7) ''t1'' sample_two_agents sample_send = (d', Inr (thread, ms)) \<and>
     ms \<noteq> [] \<and> ''a'' \<notin> om_recipient ` set ms"
proof -
  obtain d' thread ms where s: "send sample_codec (\<lambda>_. 7) ''t1'' sample_two_agents sample_send = (d', Inr (thread, ms))"
    using sample_send_ok by (cases "send sample_codec (\<lambda>_. 7) ''t1'' sample_two_agents sample_send")
      (auto simp: is_ok_def split: sum.splits)
  have "db_orch_messages sample_two_agents = []" by code_simp
  then have "mail_ok sample_two_agents" by (simp add: mail_ok_def unique_on_def)
  from send_reaches_the_group [OF this s refl] s show ?thesis
    by (simp add: sample_send_def starts_with_def)
qed

end
