(* ===== verification/Rate_Limit.thy ===== *)
theory Rate_Limit
  imports Agentum_Prelude "HOL-Library.AList"
begin

text \<open>
  \<open>crates/agentum-server/src/ratelimit.rs\<close>: the sliding-window limiter of the login endpoints. An
  instant is its distance in nanoseconds from the start of the monotonic clock,
  \<open>duration_since\<close> and \<open>saturating_sub\<close> are subtraction on natural numbers. The map is an
  association list with one entry per key. \<open>None\<close> is the panic of \<open>expect\<close>.
\<close>

section \<open>The limiter\<close>

type_synonym instant = nat

datatype decision = Allowed | Denied nat

record 'k rate_limiter =
  rl_capacity :: nat
  rl_window :: nat
  rl_inner :: "('k \<times> instant list) list"

definition RateLimiter_new :: "nat \<Rightarrow> nat \<Rightarrow> 'k rate_limiter" where
  "RateLimiter_new capacity window = \<lparr>rl_capacity = capacity, rl_window = window, rl_inner = []\<rparr>"

text \<open>The cleanup of stale keys.\<close>

definition retain_fresh :: "nat \<Rightarrow> instant \<Rightarrow> ('k \<times> instant list) list \<Rightarrow> ('k \<times> instant list) list" where
  "retain_fresh window now m =
     (if 1024 < length m then filter (\<lambda>(_, q). q \<noteq> [] \<and> now - last q < window) m else m)"

definition entry_or_default :: "('k \<times> instant list) list \<Rightarrow> 'k \<Rightarrow> instant list" where
  "entry_or_default m key = (case map_of m key of Some q \<Rightarrow> q | None \<Rightarrow> [])"

text \<open>The loop that pops the front while it is out of the window.\<close>

fun pop_expired :: "nat \<Rightarrow> instant \<Rightarrow> instant list \<Rightarrow> instant list" where
  "pop_expired window now [] = []"
| "pop_expired window now (front # q) =
     (if window \<le> now - front then pop_expired window now q else front # q)"

definition check_limit :: "instant \<Rightarrow> 'k rate_limiter \<Rightarrow> 'k \<Rightarrow> 'k rate_limiter \<times> decision option" where
  "check_limit now rl key =
     (let m = retain_fresh (rl_window rl) now (rl_inner rl);
          q = pop_expired (rl_window rl) now (entry_or_default m key)
      in if rl_capacity rl \<le> length q
         then (rl\<lparr>rl_inner := AList.update key q m\<rparr>,
               case q of [] \<Rightarrow> None
               | oldest # _ \<Rightarrow> Some (Denied (rl_window rl - (now - oldest))))
         else (rl\<lparr>rl_inner := AList.update key (q @ [now]) m\<rparr>, Some Allowed))"

section \<open>Histories\<close>

text \<open>
  A run of the limiter over requests (instant and key), latest last, and what it answered.
\<close>

fun run_limiter :: "'k rate_limiter \<Rightarrow> (instant \<times> 'k) list \<Rightarrow> 'k rate_limiter \<times> (instant \<times> 'k \<times> decision option) list" where
  "run_limiter rl [] = (rl, [])"
| "run_limiter rl ((now, key) # reqs) =
     (let (rl1, dec) = check_limit now rl key; (rl2, out) = run_limiter rl1 reqs
      in (rl2, (now, key, dec) # out))"

text \<open>The instants at which a key was let through.\<close>

definition granted :: "(instant \<times> 'k \<times> decision option) list \<Rightarrow> 'k \<Rightarrow> instant list" where
  "granted h key = map fst (filter (\<lambda>(_, k, dec). k = key \<and> dec = Some Allowed) h)"

text \<open>Those of them still in the window.\<close>

definition in_window :: "nat \<Rightarrow> instant \<Rightarrow> instant list \<Rightarrow> instant list" where
  "in_window window now ts = filter (\<lambda>t. now - t < window) ts"

text \<open>
  The invariant: the queue of a key is what is left of its granted instants after some expired ones
  were dropped from the front; they are in order, none lies in the future.
\<close>

definition tracks :: "'k rate_limiter \<Rightarrow> instant \<Rightarrow> (instant \<times> 'k \<times> decision option) list \<Rightarrow> bool" where
  "tracks rl now h \<longleftrightarrow>
     (\<forall>key. sorted (granted h key) \<and> (\<forall>t \<in> set (granted h key). t \<le> now) \<and>
        (\<exists>gone. granted h key = gone @ entry_or_default (rl_inner rl) key \<and>
           (\<forall>t \<in> set gone. rl_window rl \<le> now - t)))"

lemma pop_expired_dropWhile: "pop_expired w now q = dropWhile (\<lambda>t. w \<le> now - t) q"
  by (induction q) auto

lemma in_window_sorted:
  "sorted ts \<Longrightarrow> in_window w now ts = dropWhile (\<lambda>t. w \<le> now - t) ts"
proof (induction ts)
  case (Cons t ts)
  then show ?case
  proof (cases "w \<le> now - t")
    case False
    with Cons.prems have "\<forall>x \<in> set ts. now - x < w" by fastforce
    with False show ?thesis by (simp add: in_window_def)
  qed (simp add: in_window_def)
qed (simp add: in_window_def)

lemma in_window_gone:
  assumes "\<forall>t \<in> set gone. w \<le> now - t" and "now \<le> now'"
  shows "in_window w now' (gone @ q) = in_window w now' q"
  using assms by (auto simp: in_window_def filter_empty_conv)

lemma entry_retain_fresh:
  assumes "distinct (map fst m)" and "sorted (entry_or_default m key)"
  shows "in_window w now (entry_or_default (retain_fresh w now m) key) = in_window w now (entry_or_default m key)
    \<and> (entry_or_default (retain_fresh w now m) key = entry_or_default m key \<or>
       entry_or_default (retain_fresh w now m) key = [] \<and> in_window w now (entry_or_default m key) = [])"
proof -
  let ?p = "\<lambda>(_ :: 'a, q). q \<noteq> [] \<and> now - last q < w"
  have find: "map_of (filter ?p m) key =
      (case map_of m key of Some q \<Rightarrow> if q \<noteq> [] \<and> now - last q < w then Some q else None | None \<Rightarrow> None)"
    using assms(1)
  proof (induction m)
    case (Cons e m)
    have "map_of (filter ?p m) key = None" if "key \<notin> fst ` set m"
      using that by (force simp: map_of_eq_None_iff)
    with Cons show ?case by (cases e) (auto split: option.splits simp: map_of_eq_None_iff)
  qed simp
  have "in_window w now q = []" if "map_of m key = Some q" "\<not> (q \<noteq> [] \<and> now - last q < w)" for q
  proof -
    have "sorted q" using assms(2) that by (simp add: entry_or_default_def)
    then have "\<forall>t \<in> set q. t \<le> last q" by (induction q) auto
    then show ?thesis using that(2) by (auto simp: in_window_def filter_empty_conv)
  qed
  then show ?thesis
    unfolding retain_fresh_def by (auto simp: entry_or_default_def find in_window_def split: option.splits)
qed

lemma entry_update [simp]:
  "entry_or_default (AList.update key q m) k = (if k = key then q else entry_or_default m k)"
  by (simp add: entry_or_default_def update_conv')

lemma distinct_retain: "distinct (map fst m) \<Longrightarrow> distinct (map fst (retain_fresh w now m))"
  by (simp add: retain_fresh_def distinct_map_filter)

lemma granted_snoc [simp]:
  "granted (h @ [(now, key, dec)]) k = granted h k @ (if k = key \<and> dec = Some Allowed then [now] else [])"
  by (simp add: granted_def)

text \<open>The answer to a request, from the instants of its key that are in the window.\<close>

definition window_answer :: "nat \<Rightarrow> nat \<Rightarrow> instant \<Rightarrow> instant list \<Rightarrow> decision option" where
  "window_answer capacity window now ts =
     (if length ts < capacity then Some Allowed
      else case ts of [] \<Rightarrow> None | oldest # _ \<Rightarrow> Some (Denied (window - (now - oldest))))"

lemma check_limit_step:
  assumes tr: "tracks rl before h" and dist: "distinct (map fst (rl_inner rl))" and le: "before \<le> now"
    and c: "check_limit now rl key = (rl', dec)"
  shows "tracks rl' now (h @ [(now, key, dec)])" and "distinct (map fst (rl_inner rl'))"
    and "rl_window rl' = rl_window rl" and "rl_capacity rl' = rl_capacity rl"
    and "dec = window_answer (rl_capacity rl) (rl_window rl) now (in_window (rl_window rl) now (granted h key))"
proof -
  let ?w = "rl_window rl" and ?m = "retain_fresh (rl_window rl) now (rl_inner rl)"
  define e where "e k = entry_or_default (rl_inner rl) k" for k
  define q where "q = pop_expired ?w now (entry_or_default ?m key)"
  obtain gone where gone: "\<And>k. granted h k = gone k @ e k" "\<And>k t. t \<in> set (gone k) \<Longrightarrow> ?w \<le> before - t"
    using tr unfolding tracks_def e_def by metis
  have gone': "?w \<le> now - t" if "t \<in> set (gone k)" for k t using gone(2) [OF that] le by simp
  have sorted: "sorted (granted h k)" "\<And>t. t \<in> set (granted h k) \<Longrightarrow> t \<le> before" for k
    using tr by (simp_all add: tracks_def)
  have sorted_e: "sorted (e k)" for k using sorted(1) [of k] by (simp add: gone(1) sorted_append)
  note keep = entry_retain_fresh [OF dist sorted_e [unfolded e_def], of ?w now, folded e_def]
  have sorted_m: "sorted (entry_or_default ?m k)" for k using keep [of k] sorted_e [of k] by auto
  have q: "q = in_window ?w now (granted h key)"
    using in_window_gone [of "gone key" ?w now now "e key"] gone' keep [of key]
    by (simp add: q_def pop_expired_dropWhile in_window_sorted [OF sorted_m, symmetric] gone(1))
  have others: "\<exists>g. granted h k = g @ entry_or_default ?m k \<and> (\<forall>t \<in> set g. ?w \<le> now - t)" for k
    using keep [of k]
  proof (elim conjE disjE)
    assume "entry_or_default ?m k = e k"
    then show ?thesis using gone(1) gone' by (intro exI [of _ "gone k"]) auto
  next
    assume "entry_or_default ?m k = []" "in_window ?w now (e k) = []"
    then show ?thesis
      using gone' [of _ k] by (intro exI [of _ "granted h k"]) (auto simp: gone(1) in_window_def filter_empty_conv not_less)
  qed
  have mine: "\<exists>g. granted h key = g @ q \<and> (\<forall>t \<in> set g. ?w \<le> now - t)"
    using takeWhile_dropWhile_id [of "\<lambda>t. ?w \<le> now - t" "granted h key"]
    by (intro exI [of _ "takeWhile (\<lambda>t. ?w \<le> now - t) (granted h key)"])
      (auto simp: q in_window_sorted [OF sorted(1)] dest: set_takeWhileD)
  have rl': "rl' = rl\<lparr>rl_inner := AList.update key (if length q < rl_capacity rl then q @ [now] else q) ?m\<rparr>"
    and dec: "dec = window_answer (rl_capacity rl) ?w now q"
    using c by (auto simp: check_limit_def Let_def window_answer_def q_def split: if_splits)
  show "rl_window rl' = rl_window rl" "rl_capacity rl' = rl_capacity rl" by (simp_all add: rl')
  show "distinct (map fst (rl_inner rl'))"
    by (simp add: rl' distinct_retain [OF dist] distinct_update)
  show "dec = window_answer (rl_capacity rl) ?w now (in_window ?w now (granted h key))"
    using dec q by simp
  have allowed: "dec = Some Allowed \<longleftrightarrow> length q < rl_capacity rl"
    by (auto simp: dec window_answer_def split: list.splits)
  show "tracks rl' now (h @ [(now, key, dec)])"
    unfolding tracks_def
  proof (intro allI conjI)
    fix k
    show "sorted (granted (h @ [(now, key, dec)]) k)"
      using sorted(1) [of k] sorted(2) [of _ k] le by (auto simp: sorted_append dest: order_trans)
    show "\<forall>t \<in> set (granted (h @ [(now, key, dec)]) k). t \<le> now"
      using sorted(2) [of _ k] le by (auto dest: order_trans)
    show "\<exists>g. granted (h @ [(now, key, dec)]) k = g @ entry_or_default (rl_inner rl') k \<and>
        (\<forall>t \<in> set g. rl_window rl' \<le> now - t)"
      using others [of k] mine allowed by (cases "k = key") (auto simp: rl')
  qed
qed

lemma run_limiter_append:
  "run_limiter rl (xs @ ys) =
     (let (rl1, out1) = run_limiter rl xs; (rl2, out2) = run_limiter rl1 ys in (rl2, out1 @ out2))"
  by (induction xs arbitrary: rl) (auto simp: Let_def split: prod.splits)

lemma in_window_shrinks:
  "before \<le> now \<Longrightarrow> length (in_window w now ts) \<le> length (in_window w before ts)"
  unfolding in_window_def by (induction ts) auto

lemma run_limiter_tracks:
  assumes "sorted (map fst reqs)" and "run_limiter (RateLimiter_new capacity window) reqs = (rl, h)"
  shows "tracks rl (last (0 # map fst reqs)) h \<and> distinct (map fst (rl_inner rl)) \<and>
    rl_window rl = window \<and> rl_capacity rl = capacity \<and> (\<forall>key. length (in_window window (last (0 # map fst reqs)) (granted h key)) \<le> capacity)"
  using assms
proof (induction reqs arbitrary: rl h rule: rev_induct)
  case Nil
  then show ?case
    by (auto simp: RateLimiter_new_def tracks_def granted_def entry_or_default_def in_window_def)
next
  case (snoc req reqs)
  obtain now key where req: "req = (now, key)" by (cases req)
  obtain rl0 h0 where run: "run_limiter (RateLimiter_new capacity window) reqs = (rl0, h0)" by fastforce
  obtain dec where dec: "check_limit now rl0 key = (rl, dec)" "h = h0 @ [(now, key, dec)]"
    using snoc.prems(2) by (auto simp: req run_limiter_append run Let_def split: prod.splits)
  let ?before = "last (0 # map fst reqs)"
  have le: "?before \<le> now" using snoc.prems(1) by (cases reqs rule: rev_cases) (auto simp: req sorted_append)
  have "sorted (map fst reqs)" using snoc.prems(1) by (simp add: sorted_append)
  note IH = snoc.IH [OF this run]
  note step = check_limit_step [OF _ _ le dec(1), of h0] 
  note fewer = in_window_shrinks [OF le, of window]
  have "length (in_window window now (granted h k)) \<le> capacity" for k
  proof -
    have old: "length (in_window window now (granted h0 k)) \<le> capacity"
      using IH fewer [of "granted h0 k"] le_trans by blast
    show ?thesis
    proof (cases "k = key \<and> dec = Some Allowed")
      case True
      then have "length (in_window window now (granted h0 k)) < capacity"
        using step(5) IH by (auto simp: window_answer_def split: if_splits list.splits)
      with True show ?thesis by (simp add: dec(2) in_window_def)
    next
      case False
      with old show ?thesis by (auto simp: dec(2))
    qed
  qed
  then show ?case using step IH by (simp add: req dec(2))
qed

section \<open>Properties\<close>

text \<open>
  The limiter is an exact sliding window. Whatever requests came before, and however many stale
  keys were cleaned up, a request is let through if and only if fewer than \<open>capacity\<close> requests of
  its key were let through in the last \<open>window\<close>; no key ever gets more than \<open>capacity\<close> in a window;
  a refused request is told how long to wait, the wait is positive, and after it the key is below
  its limit again. The limiter never panics when its capacity is positive.
\<close>

theorem limiter_is_a_sliding_window:
  fixes key :: 'k
  assumes cap: "1 \<le> capacity" and srt: "sorted (map fst reqs @ [now])"
    and run: "run_limiter (RateLimiter_new capacity window) reqs = (rl, h)"
  defines "recent \<equiv> in_window window now (granted h key)"
  shows "length recent \<le> capacity \<and>
    (snd (check_limit now rl key) = Some Allowed \<longleftrightarrow> length recent < capacity) \<and>
    (snd (check_limit now rl key) \<noteq> Some Allowed \<longrightarrow>
      (\<exists>wait. snd (check_limit now rl key) = Some (Denied wait) \<and> 0 < wait \<and> wait \<le> window \<and>
        length (in_window window (now + wait) (granted h key)) < capacity))"
proof -
  have srt': "sorted (map fst reqs)" and le: "last (0 # map fst reqs) \<le> now"
    using srt by (cases reqs rule: rev_cases; simp add: sorted_append)+
  note inv = run_limiter_tracks [OF srt' run]
  obtain rl' dec where c: "check_limit now rl key = (rl', dec)" by fastforce
  have dec: "dec = window_answer capacity window now recent"
    using check_limit_step(5) [OF _ _ le c] inv by (auto simp: recent_def)
  have le_cap: "length recent \<le> capacity"
    using in_window_shrinks [OF le, of window "granted h key"] inv unfolding recent_def by (meson le_trans)
  have past: "t \<le> now" if "t \<in> set (granted h key)" for t
    using inv that le unfolding tracks_def by fastforce
  have wait: "\<exists>wait. dec = Some (Denied wait) \<and> 0 < wait \<and> wait \<le> window \<and>
      length (in_window window (now + wait) (granted h key)) < capacity" if full: "\<not> length recent < capacity"
  proof -
    obtain t ts where r: "recent = t # ts" using full cap by (cases recent) auto
    then have t: "t \<in> set (granted h key)" "now - t < window"
      by (auto simp: recent_def in_window_def filter_eq_Cons_iff)
    define w where "w = window - (now - t)"
    have w: "now + w - t = window" using past [OF t(1)] t(2) by (simp add: w_def)
    have "in_window window (now + w) (granted h key) = in_window window (now + w) recent"
      unfolding recent_def in_window_def filter_filter by (rule filter_cong) auto
    also have "length \<dots> \<le> length ts" using w by (simp add: r in_window_def)
    finally have "length (in_window window (now + w) (granted h key)) < capacity"
      using le_cap r by simp
    then show ?thesis using dec full r t(2) by (intro exI [of _ w]) (simp add: window_answer_def w_def)
  qed
  have "dec = Some Allowed \<longleftrightarrow> length recent < capacity"
    using dec by (auto simp: window_answer_def split: list.splits)
  with le_cap wait c show ?thesis by auto
qed

theorem limiter_is_a_sliding_window_witness:
  "snd (check_limit 5 (fst (run_limiter (RateLimiter_new 2 10) [(1, ''ip''), (4, ''ip'')])) ''ip'') \<noteq> Some Allowed"
  using limiter_is_a_sliding_window [of 2 "[(1, ''ip''), (4, ''ip'')]" 5 10 _ _ "''ip''", OF _ _ surjective_pairing]
  by (simp add: RateLimiter_new_def check_limit_def retain_fresh_def entry_or_default_def granted_def in_window_def Let_def)

end
