(* ===== verification/Server_Auth.thy ===== *)
theory Server_Auth
  imports Store_Misc Server_Types Rate_Limit
begin

text \<open>
  Authentication of the daemon: the middleware of \<open>crates/agentum-server/src/auth.rs\<close> and the
  handlers of \<open>crates/agentum-server/src/routes/auth.rs\<close>. Argon2 hashing and verification, the
  random tokens and the Unicode lower case of \<open>str::to_lowercase\<close> are parameters; a header is given
  as \<open>to_str\<close> reads it, \<open>None\<close> when it is absent or not visible ASCII. Durations are nanoseconds.
\<close>

section \<open>The bearer token of a request\<close>

record http_request =
  rq_path :: string
  rq_authorization :: "string option"
  rq_query :: "string option"

definition nanos_per_sec :: nat where
  "nanos_per_sec = 1000000000"

definition SESSION_TTL :: time where
  "SESSION_TTL = 30 * 24 * 3600 * int nanos_per_sec"

definition is_public :: "string \<Rightarrow> bool" where
  "is_public path \<longleftrightarrow>
     path \<in> set [''/api/health'', ''/api/cert'', ''/api/cert/fingerprint'', ''/api/auth/status'',
       ''/api/auth/login'', ''/api/auth/register''] \<or>
     (starts_with ''/api/sessions/'' path \<and> ends_with ''/hook'' path)"

definition hex_val :: "char \<Rightarrow> nat option" where
  "hex_val c =
     (let b = of_char c :: nat
      in if 48 \<le> b \<and> b \<le> 57 then Some (b - 48)
         else if 97 \<le> b \<and> b \<le> 102 then Some (b - 97 + 10)
         else if 65 \<le> b \<and> b \<le> 70 then Some (b - 65 + 10)
         else None)"

text \<open>The loop over the bytes: an escape needs two more bytes after the percent sign.\<close>

fun urldecode_bytes :: "string \<Rightarrow> string" where
  "urldecode_bytes [] = []"
| "urldecode_bytes (b # bs) =
     (if b = CHR ''%'' then
        (case bs of
           hi # lo # rest \<Rightarrow>
             (case (hex_val hi, hex_val lo) of
                (Some h, Some l) \<Rightarrow> char_of (h * 16 + l) # urldecode_bytes rest
              | _ \<Rightarrow> b # urldecode_bytes bs)
         | _ \<Rightarrow> b # urldecode_bytes bs)
      else if b = CHR ''+'' then CHR '' '' # urldecode_bytes bs
      else b # urldecode_bytes bs)"

text \<open>
  \<open>String::from_utf8_lossy\<close>: \<open>utf8_tail\<close> gives, for a first byte, the bounds of the byte after it and
  how many continuation bytes follow that one; every maximal prefix of a sequence that breaks off
  is replaced by U+FFFD.
\<close>

definition utf8_tail :: "nat \<Rightarrow> (nat \<times> nat \<times> nat) option" where
  "utf8_tail b =
     (if 0xC2 \<le> b \<and> b \<le> 0xDF then Some (0x80, 0xBF, 0)
      else if b = 0xE0 then Some (0xA0, 0xBF, 1)
      else if b = 0xED then Some (0x80, 0x9F, 1)
      else if 0xE1 \<le> b \<and> b \<le> 0xEF then Some (0x80, 0xBF, 1)
      else if b = 0xF0 then Some (0x90, 0xBF, 2)
      else if 0xF1 \<le> b \<and> b \<le> 0xF3 then Some (0x80, 0xBF, 2)
      else if b = 0xF4 then Some (0x80, 0x8F, 2)
      else None)"

definition in_range :: "nat \<Rightarrow> nat \<Rightarrow> char \<Rightarrow> bool" where
  "in_range lo hi c = (lo \<le> (of_char c :: nat) \<and> (of_char c :: nat) \<le> hi)"

text \<open>How many bytes of the tail are there, and whether that is all of them.\<close>

definition utf8_span :: "nat \<times> nat \<times> nat \<Rightarrow> string \<Rightarrow> nat \<times> bool" where
  "utf8_span t bs =
     (case t of (lo, hi, n_more) \<Rightarrow>
        (case bs of
           [] \<Rightarrow> (0, False)
         | c # cs \<Rightarrow>
             if \<not> in_range lo hi c then (0, False)
             else let n = length (takeWhile is_continuation (take n_more cs)) in (1 + n, n = n_more)))"

definition REPLACEMENT_CHARACTER :: string where
  "REPLACEMENT_CHARACTER = [CHR 0xEF, CHR 0xBF, CHR 0xBD]"

function utf8_lossy :: "string \<Rightarrow> string" where
  "utf8_lossy [] = []"
| "utf8_lossy (b # bs) =
     (if (of_char b :: nat) < 0x80 then b # utf8_lossy bs
      else case utf8_tail (of_char b) of
             None \<Rightarrow> REPLACEMENT_CHARACTER @ utf8_lossy bs
           | Some t \<Rightarrow>
               let n = fst (utf8_span t bs)
               in (if snd (utf8_span t bs) then b # take n bs else REPLACEMENT_CHARACTER) @ utf8_lossy (drop n bs))"
  by pat_completeness auto
termination
  by (relation "measure length") auto

definition urldecode :: "string \<Rightarrow> string" where
  "urldecode s = utf8_lossy (urldecode_bytes s)"

fun split_once :: "char \<Rightarrow> string \<Rightarrow> (string \<times> string) option" where
  "split_once d [] = None"
| "split_once d (c # cs) =
     (if c = d then Some ([], cs) else map_option (\<lambda>(k, v). (c # k, v)) (split_once d cs))"

text \<open>The loop over the pairs of the query; the \<open>?\<close> leaves the function at a pair without \<open>=\<close>.\<close>

fun token_of_pairs :: "string list \<Rightarrow> string option" where
  "token_of_pairs [] = None"
| "token_of_pairs (pair # pairs) =
     (case split_once (CHR ''='') pair of
        None \<Rightarrow> None
      | Some (k, v) \<Rightarrow> if k = ''token'' then Some (urldecode v) else token_of_pairs pairs)"

definition bearer :: "string option \<Rightarrow> string option" where
  "bearer auth = map_option trim (Option.bind auth (strip_prefix ''Bearer ''))"

definition extract_token :: "http_request \<Rightarrow> string option" where
  "extract_token req =
     (case bearer (rq_authorization req) of
        Some t \<Rightarrow> Some t
      | None \<Rightarrow> Option.bind (rq_query req) (\<lambda>q. token_of_pairs (split_on (CHR ''&'') q)))"

section \<open>The middleware\<close>

datatype gate = Next | Unauthorized string

definition require_token :: "codec \<Rightarrow> time \<Rightarrow> bool \<Rightarrow> db \<Rightarrow> http_request \<Rightarrow> db \<times> gate" where
  "require_token cx now no_auth d req =
     (if no_auth then (d, Next)
      else if \<not> starts_with ''/api/'' (rq_path req) \<or> is_public (rq_path req) then (d, Next)
      else case extract_token req of
             None \<Rightarrow> (d, Unauthorized ''missing bearer token'')
           | Some token \<Rightarrow>
               let res = touch_auth_session cx now d token (Some SESSION_TTL)
               in (fst res,
                   case snd res of
                     Inr (Some _) \<Rightarrow> Next
                   | Inr None \<Rightarrow> Unauthorized ''invalid or expired bearer token''
                   | Inl _ \<Rightarrow> Unauthorized ''auth lookup failed''))"

section \<open>Handlers\<close>

text \<open>What the handlers share: the database and the limiter of the peers' addresses.\<close>

record auth_state =
  as_db :: db
  as_limiter :: "string rate_limiter"

definition AUTH_RATE_LIMIT_ATTEMPTS :: nat where
  "AUTH_RATE_LIMIT_ATTEMPTS = 8"

definition AUTH_RATE_LIMIT_WINDOW :: nat where
  "AUTH_RATE_LIMIT_WINDOW = 5 * 60 * nanos_per_sec"

record status_resp =
  sr_needs_setup :: bool
  sr_register_open :: bool
  sr_no_auth :: bool

definition auth_status :: "bool \<Rightarrow> db \<Rightarrow> status_resp" where
  "auth_status no_auth d =
     (if no_auth then \<lparr>sr_needs_setup = False, sr_register_open = False, sr_no_auth = True\<rparr>
      else \<lparr>sr_needs_setup = (count_users d = 0), sr_register_open = (count_users d = 0), sr_no_auth = False\<rparr>)"

record credentials =
  cd_username :: string
  cd_password :: string

definition MIN_PASSWORD_LEN :: nat where
  "MIN_PASSWORD_LEN = 8"

definition validate_password :: "string \<Rightarrow> api_error + unit" where
  "validate_password p =
     (if length p < MIN_PASSWORD_LEN
      then Inl (ApiError_BadRequest (''password must be at least '' @ string_of_nat MIN_PASSWORD_LEN @ '' characters''))
      else Inr ())"

text \<open>\<open>None\<close> is the panic of a limiter without capacity.\<close>

definition check_rate_limit :: "instant \<Rightarrow> auth_state \<Rightarrow> string \<Rightarrow> auth_state \<times> (api_error + unit) option" where
  "check_rate_limit at st ip =
     (let res = check_limit at (as_limiter st) ip
      in (st\<lparr>as_limiter := fst res\<rparr>,
          map_option
            (\<lambda>dec. case dec of
               Allowed \<Rightarrow> Inr ()
             | Denied retry_after \<Rightarrow> Inl (ApiError_TooManyRequests
                 (''too many auth attempts; retry in '' @
                  string_of_nat (max (retry_after div nanos_per_sec) 1) @ ''s'')))
            (snd res)))"

record auth_params =
  ap_lower :: "string \<Rightarrow> string"
  ap_hash :: "string \<Rightarrow> string + string"
  ap_verify :: "string \<Rightarrow> string \<Rightarrow> string + bool"

definition normalise :: "auth_params \<Rightarrow> credentials \<Rightarrow> string" where
  "normalise ap body = ap_lower ap (trim (cd_username body))"

text \<open>The end of both handlers: a new login session for the user.\<close>

definition open_session ::
    "codec \<Rightarrow> time \<Rightarrow> string \<Rightarrow> db \<Rightarrow> user \<Rightarrow> db \<times> (api_error + string \<times> string)" where
  "open_session cx now token d u =
     (let res = create_auth_session cx now d (u_id u) token SESSION_TTL
      in (fst res, and_then (lift_api (snd res)) (\<lambda>_. Inr (token, u_username u))))"

definition register_db :: "codec \<Rightarrow> auth_params \<Rightarrow> time \<Rightarrow> string \<Rightarrow> db \<Rightarrow> credentials \<Rightarrow>
    db \<times> (api_error + string \<times> string)" where
  "register_db cx ap now token d body =
     (if 0 < count_users d
      then (d, Inl (ApiError_Forbidden (''registration is closed '' @
             [CHR 0xE2, CHR 0x80, CHR 0x94] @ '' log in or run `agentum auth reset` on the host'')))
      else case validate_username (normalise ap body) of
        Inl e \<Rightarrow> (d, Inl (ApiError_BadRequest (''invalid username: '' @ core_error_text e)))
      | Inr _ \<Rightarrow>
        (case validate_password (cd_password body) of
           Inl e \<Rightarrow> (d, Inl e)
         | Inr _ \<Rightarrow>
           (case ap_hash ap (cd_password body) of
              Inl e \<Rightarrow> (d, Inl (ApiError_Internal (Internal_Text (''hash failed: '' @ e))))
            | Inr hash \<Rightarrow>
                let res = create_user cx now d (normalise ap body) hash
                in case lift_api (snd res) of
                     Inl e \<Rightarrow> (fst res, Inl e)
                   | Inr u \<Rightarrow> open_session cx now token (fst res) u)))"

definition login_db :: "codec \<Rightarrow> auth_params \<Rightarrow> time \<Rightarrow> string \<Rightarrow> db \<Rightarrow> credentials \<Rightarrow>
    db \<times> (api_error + string \<times> string)" where
  "login_db cx ap now token d body =
     (case lift_api (get_user_by_username cx d (normalise ap body)) of
        Inl e \<Rightarrow> (d, Inl e)
      | Inr None \<Rightarrow> (d, Inl (ApiError_Unauthorized ''invalid credentials''))
      | Inr (Some (u, stored_hash)) \<Rightarrow>
          (case ap_verify ap (cd_password body) stored_hash of
             Inl e \<Rightarrow> (d, Inl (ApiError_Internal (Internal_Text (''verify failed: '' @ e))))
           | Inr ok \<Rightarrow>
               if \<not> ok then (d, Inl (ApiError_Unauthorized ''invalid credentials''))
               else open_session cx now token d u))"

text \<open>A handler behind the limiter.\<close>

definition limited :: "instant \<Rightarrow> auth_state \<Rightarrow> string \<Rightarrow> (db \<Rightarrow> db \<times> (api_error + 'a)) \<Rightarrow>
    auth_state \<times> (api_error + 'a) option" where
  "limited at st ip handler =
     (let res = check_rate_limit at st ip
      in case snd res of
           None \<Rightarrow> (fst res, None)
         | Some (Inl e) \<Rightarrow> (fst res, Some (Inl e))
         | Some (Inr _) \<Rightarrow>
             (let out = handler (as_db st) in ((fst res)\<lparr>as_db := fst out\<rparr>, Some (snd out))))"

definition register :: "codec \<Rightarrow> auth_params \<Rightarrow> time \<Rightarrow> instant \<Rightarrow> string \<Rightarrow> auth_state \<Rightarrow> string \<Rightarrow> credentials \<Rightarrow>
    auth_state \<times> (api_error + string \<times> string) option" where
  "register cx ap now at token st ip body = limited at st ip (\<lambda>d. register_db cx ap now token d body)"

definition login :: "codec \<Rightarrow> auth_params \<Rightarrow> time \<Rightarrow> instant \<Rightarrow> string \<Rightarrow> auth_state \<Rightarrow> string \<Rightarrow> credentials \<Rightarrow>
    auth_state \<times> (api_error + string \<times> string) option" where
  "login cx ap now at token st ip body = limited at st ip (\<lambda>d. login_db cx ap now token d body)"

definition logout :: "db \<Rightarrow> http_request \<Rightarrow> db" where
  "logout d req =
     (case bearer (rq_authorization req) of Some tok \<Rightarrow> delete_auth_session d tok | None \<Rightarrow> d)"

definition me :: "codec \<Rightarrow> time \<Rightarrow> bool \<Rightarrow> db \<Rightarrow> http_request \<Rightarrow> db \<times> (api_error + string)" where
  "me cx now no_auth d req =
     (if no_auth then (d, Inr ''no-auth'')
      else case bearer (rq_authorization req) of
             None \<Rightarrow> (d, Inl (ApiError_Unauthorized ''missing token''))
           | Some tok \<Rightarrow>
               let res = touch_auth_session cx now d tok (Some SESSION_TTL)
               in (fst res,
                   and_then (lift_api (snd res)) (\<lambda>u.
                   and_then (ok_or (ApiError_Unauthorized ''invalid or expired token'') u) (\<lambda>user.
                     Inr (u_username user)))))"

section \<open>Tokens in headers and queries\<close>

text \<open>The alphabet of URL-safe base64, from which the tokens are made.\<close>

definition token_char :: "char \<Rightarrow> bool" where
  "token_char c = (is_ascii_alphanumeric c \<or> c = CHR ''-'' \<or> c = CHR ''_'')"

lemma token_char_range:
  assumes "token_char c"
  shows "33 \<le> (of_char c :: nat) \<and> (of_char c :: nat) < 128" "c \<noteq> CHR ''%''" "c \<noteq> CHR ''+''" "c \<noteq> CHR ''&''" "c \<noteq> CHR ''=''"
  using assms
  by (auto simp: token_char_def is_ascii_alphanumeric_def is_ascii_digit_def is_ascii_upper_def is_ascii_lower_def)

lemma strip_prefix_mismatch: "strip_prefix (a # p) s \<noteq> None \<Longrightarrow> \<exists>t. s = a # t"
  by (cases s) (auto split: if_splits)

lemma strip_one_of_None:
  assumes "\<forall>w \<in> set ws. w \<noteq> [] \<and> hd w \<noteq> c"
  shows "strip_one_of ws (c # s) = None"
  using assms
proof (induction ws)
  case (Cons w ws)
  obtain a p where w: "w = a # p" "a \<noteq> c" using Cons.prems by (cases w) auto
  then show ?case using Cons by simp
qed simp

lemma strip_all_of_id:
  assumes "\<forall>w \<in> set ws. w \<noteq> []" and "s \<noteq> [] \<longrightarrow> (\<forall>w \<in> set ws. hd w \<noteq> hd s)"
  shows "strip_all_of ws s = s"
proof (cases s)
  case Nil
  have "strip_one_of ws [] = None" using assms(1)
  proof (induction ws)
    case (Cons w ws)
    then show ?case by (cases w) auto
  qed simp
  then show ?thesis by (simp add: Nil strip_all_of.simps)
next
  case (Cons c t)
  then have "strip_one_of ws (c # t) = None" using assms by (intro strip_one_of_None) auto
  then show ?thesis by (simp add: Cons strip_all_of.simps)
qed

lemma strip_visible:
  assumes "\<forall>w \<in> set ws. w \<noteq> [] \<and> ((of_char (hd w) :: nat) < 33 \<or> 128 \<le> (of_char (hd w) :: nat))"
    and s: "list_all token_char s"
  shows "strip_all_of ws s = s"
proof (rule strip_all_of_id)
  show "\<forall>w \<in> set ws. w \<noteq> []" using assms(1) by blast
  show "s \<noteq> [] \<longrightarrow> (\<forall>w \<in> set ws. hd w \<noteq> hd s)"
  proof (intro impI ballI notI)
    fix w assume "s \<noteq> []" "w \<in> set ws" "hd w = hd s"
    moreover from this s have "token_char (hd w)" by (cases s) auto
    ultimately show False using assms(1) token_char_range(1) [of "hd w"] by fastforce
  qed
qed

lemma trim_token:
  assumes "list_all token_char s"
  shows "trim s = s"
proof -
  have "list_all token_char (rev s)" using assms by (simp add: list_all_iff)
  moreover have "\<forall>w \<in> set ws_encodings. w \<noteq> [] \<and> ((of_char (hd w) :: nat) < 33 \<or> 128 \<le> (of_char (hd w) :: nat))"
    "\<forall>w \<in> set (map rev ws_encodings). w \<noteq> [] \<and> ((of_char (hd w) :: nat) < 33 \<or> 128 \<le> (of_char (hd w) :: nat))"
    by (simp_all add: ws_encodings_def)
  ultimately show ?thesis
    unfolding trim_def trim_start_def trim_end_def using assms by (simp only: strip_visible rev_rev_ident)
qed

lemma urldecode_token: "list_all token_char s \<Longrightarrow> urldecode s = s"
proof -
  assume "list_all token_char s"
  then have "urldecode_bytes s = s \<and> utf8_lossy s = s"
  proof (induction s)
    case (Cons c s)
    then have "token_char c" "urldecode_bytes s = s" "utf8_lossy s = s" by simp_all
    then show ?case using token_char_range [of c] by simp
  qed simp
  then show ?thesis by (simp add: urldecode_def)
qed

text \<open>A request that carries the token in its header, or else in its query.\<close>

definition carries :: "http_request \<Rightarrow> string \<Rightarrow> bool" where
  "carries req tok \<longleftrightarrow>
     rq_authorization req = Some (''Bearer '' @ tok) \<or>
     rq_authorization req = None \<and> rq_query req = Some (''token='' @ tok)"

lemma extract_carried:
  assumes "list_all token_char tok" and "carries req tok"
  shows "extract_token req = Some tok"
proof -
  have "CHR ''&'' \<notin> set (''token='' @ tok)"
    using assms(1) token_char_range(4) by (auto simp: list_all_iff)
  then have "split_on (CHR ''&'') (''token='' @ tok) = [''token='' @ tok]" by (rule split_on_absent)
  moreover have "bearer (Some (''Bearer '' @ tok)) = Some tok"
    unfolding bearer_def by (simp only: Option.bind.simps strip_prefix_append option.map trim_token [OF assms(1)])
  moreover have "bearer None = None" by (simp add: bearer_def)
  ultimately show ?thesis
    using assms(2) urldecode_token [OF assms(1)] unfolding carries_def extract_token_def by auto
qed

section \<open>Properties\<close>

text \<open>
  C37. The API needs a live login. On a daemon that was not started with \<open>--no-auth\<close>, a request for a
  path under \<open>/api/\<close> outside the public list reaches its handler if and only if it presents a token
  whose login session exists, has not expired and belongs to a user; every refused request is a
  401, and a refusal changes the database at most by deleting the expired session it named.
\<close>

theorem api_needs_a_live_session:
  assumes path: "starts_with ''/api/'' (rq_path req)" "\<not> is_public (rq_path req)"
  shows "(snd (require_token cx now False d req) = Next \<longleftrightarrow>
      (\<exists>tok uid e u. extract_token req = Some tok \<and> token_entry d tok = Some (uid, e) \<and>
         \<not> auth_expired cx now e \<and> get_user_by_id cx d uid = Inr (Some u))) \<and>
    (snd (require_token cx now False d req) \<noteq> Next \<longrightarrow> (\<exists>msg. snd (require_token cx now False d req) = Unauthorized msg)) \<and>
    ((\<forall>tok. extract_token req = Some tok \<longrightarrow> token_entry d tok = None) \<longrightarrow> fst (require_token cx now False d req) = d)"
proof (cases "extract_token req")
  case None
  with path show ?thesis by (simp add: require_token_def)
next
  case (Some tok)
  have r: "require_token cx now False d req =
      (fst (touch_auth_session cx now d tok (Some SESSION_TTL)),
       case snd (touch_auth_session cx now d tok (Some SESSION_TTL)) of
         Inr (Some _) \<Rightarrow> Next
       | Inr None \<Rightarrow> Unauthorized ''invalid or expired bearer token''
       | Inl _ \<Rightarrow> Unauthorized ''auth lookup failed'')"
    using path Some by (simp add: require_token_def Let_def)
  show ?thesis
  proof (cases "token_entry d tok")
    case None
    then show ?thesis using Some touch_unknown [OF None, of cx now "Some SESSION_TTL"] by (simp add: r)
  next
    case entry: (Some ue)
    obtain uid e where ue: "ue = (uid, e)" by (cases ue)
    note e = entry [unfolded ue]
    show ?thesis
    proof (cases "auth_expired cx now e")
      case True
      then show ?thesis using Some e touch_expired [OF e True, of "Some SESSION_TTL"] by (simp add: r)
    next
      case False
      then show ?thesis using Some e touch_live(1) [OF e False, of "Some SESSION_TTL"]
        by (auto simp: r split: sum.splits option.splits)
    qed
  qed
qed

section \<open>Registration and login\<close>

lemma register_db_Inr:
  assumes "register_db cx ap now tok d body = (d1, Inr (tok', name))"
  obtains h u d0 where "count_users d = 0" "8 \<le> length (cd_password body)" "ap_hash ap (cd_password body) = Inr h"
    "create_user cx now d (normalise ap body) h = (d0, Inr u)"
    "create_auth_session cx now d0 (u_id u) tok SESSION_TTL = (d1, Inr ())" "tok' = tok" "name = u_username u"
proof -
  have c: "count_users d = 0" using assms by (auto simp: register_db_def count_users_def split: if_splits)
  then obtain v where v: "validate_username (normalise ap body) = Inr v"
    using assms by (cases "validate_username (normalise ap body)") (auto simp: register_db_def)
  then have p: "validate_password (cd_password body) = Inr ()"
    using assms c by (cases "validate_password (cd_password body)") (auto simp: register_db_def)
  obtain h where h: "ap_hash ap (cd_password body) = Inr h"
    using assms c v p by (cases "ap_hash ap (cd_password body)") (auto simp: register_db_def)
  obtain d0 r where r: "create_user cx now d (normalise ap body) h = (d0, r)" by fastforce
  obtain u where u: "r = Inr u"
    using assms c v p h r by (cases r) (auto simp: register_db_def Let_def)
  have "open_session cx now tok d0 u = (d1, Inr (tok', name))"
    using assms c v p h r u by (simp add: register_db_def Let_def)
  then have "create_auth_session cx now d0 (u_id u) tok SESSION_TTL = (d1, Inr ())" "tok' = tok" "name = u_username u"
    by (auto simp: open_session_def Let_def and_then_eq_Inr lift_api_Inr prod_eq_iff)
  moreover have "8 \<le> length (cd_password body)"
    using p by (auto simp: validate_password_def MIN_PASSWORD_LEN_def split: if_splits)
  ultimately show thesis using that c h r u by blast
qed

lemma created_user:
  assumes cx: "codec_ok cx" and c: "create_user cx now d name h = (d0, Inr u)" and "count_users d = 0"
  shows "u_username u = name" "count_users d0 = 1"
    "get_user_by_username cx d0 name = Inr (Some (u, h))"
    "\<And>n. n \<noteq> name \<Longrightarrow> get_user_by_username cx d0 n = Inr None"
    "get_user_by_id cx d0 (u_id u) = Inr (Some u)"
proof -
  have "db_users d = []" using assms(3) by (simp add: count_users_def)
  define i where "i = sq_users (db_seq d) + 1"
  with c cx \<open>db_users d = []\<close> have rows:
      "db_users d0 = [\<lparr>ur_id = i, ur_username = name, ur_pw_hash = h, ur_created_at = cx_fmt_ts cx now\<rparr>]"
    and u: "u = \<lparr>u_id = i, u_username = name, u_created_at = now\<rparr>"
    by (auto simp: create_user_def Let_def unique_on_def)
  show "u_username u = name" "count_users d0 = 1"
    "get_user_by_username cx d0 name = Inr (Some (u, h))"
    "\<And>n. n \<noteq> name \<Longrightarrow> get_user_by_username cx d0 n = Inr None"
    "get_user_by_id cx d0 (u_id u) = Inr (Some u)"
    using cx by (simp_all add: rows u count_users_def get_user_by_username_def get_user_by_id_def sql_find_def User_of_row_def)
qed

lemma auth_session_keeps_users:
  assumes "create_auth_session cx t d uid tok ttl = (d1, r)"
  shows "db_users d1 = db_users d" "db_auth_sessions d1 = db_auth_sessions d \<or>
    (\<exists>a. db_auth_sessions d1 = db_auth_sessions d @ [a] \<and> ar_token a = tok)"
  using assms by (auto simp: create_auth_session_def Let_def split: if_splits)

lemma users_by_name_cong: "db_users d1 = db_users d \<Longrightarrow> get_user_by_username cx d1 n = get_user_by_username cx d n"
  by (simp add: get_user_by_username_def)

lemma registered_token:
  assumes cx: "codec_ok cx" and r: "register_db cx ap now tok d body = (d1, Inr (tok', name))"
  shows "\<exists>u. token_entry d1 tok = Some (u_id u, Some (cx_fmt_ts cx (now + SESSION_TTL))) \<and>
    get_user_by_id cx d1 (u_id u) = Inr (Some u)"
proof -
  obtain h u d0 where "count_users d = 0" "create_user cx now d (normalise ap body) h = (d0, Inr u)"
    and s: "create_auth_session cx now d0 (u_id u) tok SESSION_TTL = (d1, Inr ())"
    using r by (rule register_db_Inr)
  with created_user(5) [OF cx] created_token_entry [OF s] show ?thesis by auto
qed

text \<open>A request under \<open>/api/\<close> with the token of a registration passes while the session lives.\<close>

lemma registered_token_passes:
  assumes cx: "codec_ok cx" and r: "register_db cx ap now tok d body = (d1, Inr (tok', name))"
    and tok: "list_all token_char tok" "carries req tok" and t: "t < now + SESSION_TTL"
  shows "snd (require_token cx t False d1 req) = Next"
proof -
  obtain u where u: "token_entry d1 tok = Some (u_id u, Some (cx_fmt_ts cx (now + SESSION_TTL)))"
    "get_user_by_id cx d1 (u_id u) = Inr (Some u)"
    using registered_token [OF cx r] by blast
  have "\<not> auth_expired cx t (Some (cx_fmt_ts cx (now + SESSION_TTL)))"
    using t auth_expired_fmt [OF cx] by simp
  with touch_live(1) [OF u(1) this, of "Some SESSION_TTL"] u(2) extract_carried [OF tok] show ?thesis
    by (simp add: require_token_def Let_def)
qed

definition sample_params :: auth_params where
  "sample_params = \<lparr>ap_lower = to_ascii_lowercase, ap_hash = (\<lambda>p. Inr (CHR ''h'' # p)),
     ap_verify = (\<lambda>p h. Inr (h = CHR ''h'' # p))\<rparr>"

definition sample_registered :: "db \<times> (api_error + string \<times> string)" where
  "sample_registered = register_db sample_codec sample_params 10 ''tok1'' initial_db
     \<lparr>cd_username = ''Ann '', cd_password = ''hunter22''\<rparr>"

definition sample_request :: http_request where
  "sample_request = \<lparr>rq_path = ''/api/board'', rq_authorization = None, rq_query = Some ''token=tok1''\<rparr>"

lemma sample_registered_ok: "snd sample_registered = Inr (''tok1'', ''ann'')"
proof -
  have n: "normalise sample_params \<lparr>cd_username = ''Ann '', cd_password = ''hunter22''\<rparr> = ''ann''"
    by code_simp
  have "validate_username ''ann'' = Inr ()" by code_simp
  with n show ?thesis
    by (simp add: sample_registered_def register_db_def count_users_def initial_db_def validate_password_def
        MIN_PASSWORD_LEN_def sample_params_def create_user_def open_session_def create_auth_session_def
        unique_on_def sql_find_def Let_def)
qed

theorem api_needs_a_live_session_witness:
  "snd (require_token sample_codec 11 False (fst sample_registered) sample_request) = Next \<and>
   snd (require_token sample_codec 11 False initial_db sample_request) \<noteq> Next"
proof -
  have p: "starts_with ''/api/'' (rq_path sample_request)" "\<not> is_public (rq_path sample_request)"
    by (code_simp, code_simp)
  have tok: "extract_token sample_request = Some ''tok1''" by code_simp
  have r: "register_db sample_codec sample_params 10 ''tok1'' initial_db
     \<lparr>cd_username = ''Ann '', cd_password = ''hunter22''\<rparr> = (fst sample_registered, Inr (''tok1'', ''ann''))"
    using sample_registered_ok unfolding sample_registered_def by (metis prod.collapse)
  obtain u where u: "token_entry (fst sample_registered) ''tok1'' = Some (u_id u, Some (cx_fmt_ts sample_codec (10 + SESSION_TTL)))"
      "get_user_by_id sample_codec (fst sample_registered) (u_id u) = Inr (Some u)"
    using registered_token [OF sample_codec_ok r] by blast
  have live: "\<not> auth_expired sample_codec 11 (Some (cx_fmt_ts sample_codec (10 + SESSION_TTL)))"
    using auth_expired_fmt [OF sample_codec_ok] by (simp add: SESSION_TTL_def nanos_per_sec_def)
  have none: "token_entry initial_db ''tok1'' = None"
    by (simp add: token_entry_def initial_db_def sql_find_def)
  have "snd (require_token sample_codec 11 False (fst sample_registered) sample_request) = Next"
    using api_needs_a_live_session [OF p, of sample_codec 11 "fst sample_registered"] tok u live by fast
  moreover have "snd (require_token sample_codec 11 False initial_db sample_request) \<noteq> Next"
    using api_needs_a_live_session [OF p, of sample_codec 11 initial_db] tok none by auto
  ultimately show ?thesis by blast
qed

text \<open>
  The first registration opens the door and closes it behind itself. It succeeds only on a
  database without users and with a password of eight bytes or more; its token passes the
  middleware, in the header or in the query, for thirty days; every later registration is refused
  and changes nothing; a login with the same name and password, however the name is written, gets
  a working session of its own, while a wrong password and an unknown name get the very same
  answer and change nothing.
\<close>

theorem first_registration_opens_the_door:
  assumes cx: "codec_ok cx" and r: "register_db cx ap now tok d body = (d1, Inr (tok', name))"
    and good: "\<And>h. ap_hash ap (cd_password body) = Inr h \<Longrightarrow> ap_verify ap (cd_password body) h = Inr True"
    and bad: "\<And>h p. ap_hash ap (cd_password body) = Inr h \<Longrightarrow> p \<noteq> cd_password body \<Longrightarrow> ap_verify ap p h = Inr False"
    and tok: "list_all token_char tok" "carries req tok"
    and tok2: "tok2 \<notin> insert tok (ar_token ` set (db_auth_sessions d))"
  shows "count_users d = 0 \<and> count_users d1 = 1 \<and> 8 \<le> length (cd_password body) \<and>
    (t < now + SESSION_TTL \<longrightarrow> snd (require_token cx t False d1 req) = Next) \<and>
    (\<exists>msg. register_db cx ap t tok2 d1 other = (d1, Inl (ApiError_Forbidden msg))) \<and>
    (if normalise ap other \<noteq> normalise ap body \<or> cd_password other \<noteq> cd_password body
     then login_db cx ap t tok2 d1 other = (d1, Inl (ApiError_Unauthorized ''invalid credentials''))
     else snd (login_db cx ap t tok2 d1 other) = Inr (tok2, name))"
proof -
  obtain h u d0 where c: "count_users d = 0" "8 \<le> length (cd_password body)" and h: "ap_hash ap (cd_password body) = Inr h"
    and u: "create_user cx now d (normalise ap body) h = (d0, Inr u)"
    and s: "create_auth_session cx now d0 (u_id u) tok SESSION_TTL = (d1, Inr ())" and name: "name = u_username u"
    using r by (rule register_db_Inr)
  note user = created_user [OF cx u c(1)] and keep = auth_session_keeps_users [OF s]
  have one: "count_users d1 = 1" using user(2) keep(1) by (simp add: count_users_def)
  have sessions: "db_auth_sessions d0 = db_auth_sessions d"
    using u by (auto simp: create_user_def Let_def split: if_splits)
  have uniq: "unique_on ar_token (db_auth_sessions d1)"
    using s by (auto simp: create_auth_session_def Let_def split: if_splits)
  have fresh: "\<forall>a \<in> set (db_auth_sessions d1). ar_token a \<noteq> tok2"
    using tok2 keep(2) sessions by auto
  have uid: "sql_find (\<lambda>q. ur_id q = u_id u) (db_users d1) \<noteq> None"
    using user(5) keep(1) by (auto simp: get_user_by_id_def split: option.splits)
  have session: "snd (open_session cx t tok2 d1 u) = Inr (tok2, name)"
    using uniq fresh uid by (simp add: open_session_def create_auth_session_def Let_def unique_on_snoc name)
  have known: "get_user_by_username cx d1 (normalise ap body) = Inr (Some (u, h))"
    and unknown: "n \<noteq> normalise ap body \<Longrightarrow> get_user_by_username cx d1 n = Inr None" for n
    using user(3,4) users_by_name_cong [OF keep(1)] by simp_all
  have "login_db cx ap t tok2 d1 other = (d1, Inl (ApiError_Unauthorized ''invalid credentials''))"
    if "normalise ap other \<noteq> normalise ap body"
    using unknown [OF that] by (simp add: login_db_def)
  moreover have "login_db cx ap t tok2 d1 other = (d1, Inl (ApiError_Unauthorized ''invalid credentials''))"
    if "normalise ap other = normalise ap body" "cd_password other \<noteq> cd_password body"
    using known bad [OF h that(2)] that(1) by (simp add: login_db_def)
  moreover have "snd (login_db cx ap t tok2 d1 other) = Inr (tok2, name)"
    if "normalise ap other = normalise ap body" "cd_password other = cd_password body"
    using known good [OF h] that session by (simp add: login_db_def)
  moreover have "\<exists>msg. register_db cx ap t tok2 d1 other = (d1, Inl (ApiError_Forbidden msg))"
    using one by (simp add: register_db_def)
  ultimately show ?thesis using c one registered_token_passes [OF cx r tok] by auto
qed

theorem first_registration_opens_the_door_witness:
  "snd (login_db sample_codec sample_params 12 ''tok2'' (fst sample_registered)
     \<lparr>cd_username = '' ANN'', cd_password = ''hunter22''\<rparr>) = Inr (''tok2'', ''ann'') \<and>
   snd (login_db sample_codec sample_params 12 ''tok2'' (fst sample_registered)
     \<lparr>cd_username = ''ann'', cd_password = ''guess''\<rparr>) = Inl (ApiError_Unauthorized ''invalid credentials'')"
proof -
  let ?body = "\<lparr>cd_username = ''Ann '', cd_password = ''hunter22''\<rparr>"
  have r: "register_db sample_codec sample_params 10 ''tok1'' initial_db ?body = (fst sample_registered, Inr (''tok1'', ''ann''))"
    using sample_registered_ok unfolding sample_registered_def by (metis prod.collapse)
  have tok: "list_all token_char ''tok1''" "carries sample_request ''tok1''" by (code_simp, code_simp)
  have names: "normalise sample_params \<lparr>cd_username = '' ANN'', cd_password = ''hunter22''\<rparr> = normalise sample_params ?body"
    "normalise sample_params \<lparr>cd_username = ''ann'', cd_password = ''guess''\<rparr> = normalise sample_params ?body"
    by (code_simp, code_simp)
  have fresh: "''tok2'' \<notin> insert ''tok1'' (ar_token ` set (db_auth_sessions initial_db))" by (simp add: initial_db_def)
  have laws: "\<And>h. ap_hash sample_params (cd_password ?body) = Inr h \<Longrightarrow> ap_verify sample_params (cd_password ?body) h = Inr True"
    "\<And>h p. ap_hash sample_params (cd_password ?body) = Inr h \<Longrightarrow> p \<noteq> cd_password ?body \<Longrightarrow> ap_verify sample_params p h = Inr False"
    by (auto simp: sample_params_def)
  note door = first_registration_opens_the_door [OF sample_codec_ok r laws tok fresh, of 12]
  show ?thesis
    using door [of "\<lparr>cd_username = '' ANN'', cd_password = ''hunter22''\<rparr>"]
      door [of "\<lparr>cd_username = ''ann'', cd_password = ''guess''\<rparr>"] names by simp
qed

end
