(* ===== verification/Effects.thy ===== *)
theory Effects
  imports Store_Misc Server_Types
begin

text \<open>
  The effects of the handlers that drive agents: the database, the event bus, the hook tokens, and
  the commands to tmux, SSH and the file system. A command of \<open>crates/agentum-server/src/host_runtime.rs\<close>
  and of the operating system is a value of \<open>host_cmd\<close> that is appended to a trace; what it answers
  is up to the environment, which may answer anything at any time (an oracle per type of answer,
  indexed by a counter). A theorem about a handler therefore holds whatever tmux and the network
  do. The second half are the rules with which facts about traces are proved along the code.
\<close>

section \<open>Commands and answers\<close>

datatype host_runtime_error =
    RemotePrerequisite string
  | OtherRuntimeError string

record launch_preflight =
  pf_home :: string
  pf_workdir :: string
  pf_executable :: string
  pf_shell :: string
  pf_fresh_path :: string
  pf_claude_transcript_exists :: bool

text \<open>What one sample of a pane reads (\<open>agentum_tmux::ssh::PaneSample\<close>).\<close>

record pane_sample =
  ps_pane :: string
  ps_viewport :: string
  ps_current_command :: string

text \<open>\<open>WorktreeStatus\<close> of \<open>git.rs\<close>.\<close>

record worktree_status =
  wt_staged :: nat
  wt_unstaged :: nat
  wt_untracked :: nat

definition is_clean :: "worktree_status \<Rightarrow> bool" where
  "is_clean s = (wt_staged s = 0 \<and> wt_unstaged s = 0 \<and> wt_untracked s = 0)"

datatype host_cmd =
    Cmd_HasSession host string
  | Cmd_Preflight host string string uuid
  | Cmd_ReverseTunnel host "16 word"
  | Cmd_NewSession host string string "string list" "(string \<times> string) list"
  | Cmd_LaunchRemote host string string "string list" "(string \<times> string) list" "string list" string
  | Cmd_PipePane host string string
  | Cmd_UnpipePane host string
  | Cmd_KillSession host string
  | Cmd_GracefulStop host string
  | Cmd_SendKeys host string string bool
  | Cmd_ReadFile host string
  | Cmd_WriteFile host string string
  | Cmd_TmuxIdentity host string
  | Cmd_SetOwnerIfAbsent host string uuid
  | Cmd_ShowGeneration host string
  | Cmd_SetGeneration host string string
  | Cmd_PrepareRuntimeDir host string
  | Cmd_RemoveRemoteConfig host uuid
  | Cmd_RemoveLocalConfig string
  | Cmd_WriteLocalConfig string string
  | Cmd_PathExists string
  | Cmd_IsDir string
  | Cmd_RecreateWorktree string string
  | Cmd_CreateWorktree string string "string option" "string option"
  | Cmd_WorktreeStatus string
  | Cmd_PruneWorktree string string "string option" bool
  | Cmd_CdpBrowser
  | Cmd_PlaywrightHeadless
  | Cmd_LocalKeys string string bool
  | Cmd_PlaywrightBound string
  | Cmd_SamplePane host string nat
  | Cmd_LocalGracefulStop string
  | Cmd_CaptureVisible host string

record environment =
  en_cx :: codec
  en_clock :: "nat \<Rightarrow> time"
  en_uuid :: "nat \<Rightarrow> uuid"
  en_unit :: "nat \<Rightarrow> host_cmd \<Rightarrow> host_runtime_error + unit"
  en_bool :: "nat \<Rightarrow> host_cmd \<Rightarrow> host_runtime_error + bool"
  en_text :: "nat \<Rightarrow> host_cmd \<Rightarrow> host_runtime_error + string"
  en_file :: "nat \<Rightarrow> host_cmd \<Rightarrow> host_runtime_error + string option"
  en_preflight :: "nat \<Rightarrow> host_cmd \<Rightarrow> host_runtime_error + launch_preflight"
  en_worktree :: "nat \<Rightarrow> host_cmd \<Rightarrow> host_runtime_error + string \<times> string \<times> string"
  en_counts :: "nat \<Rightarrow> host_cmd \<Rightarrow> host_runtime_error + worktree_status"
  en_port :: "nat \<Rightarrow> host_cmd \<Rightarrow> host_runtime_error + 16 word"
  en_sample :: "nat \<Rightarrow> host_cmd \<Rightarrow> host_runtime_error + pane_sample option"
  en_instant :: "nat \<Rightarrow> nat"

type_synonym trace = "(nat \<times> host_cmd) list"

record world =
  w_db :: db
  w_bus :: "event list"
  w_hook_tokens :: "uuid \<rightharpoonup> string"
  w_trace :: trace
  w_ticks :: nat

section \<open>Actions\<close>

type_synonym 'a act = "world \<Rightarrow> world \<times> (api_error + 'a)"

definition ret :: "'a \<Rightarrow> 'a act" where
  "ret x w = (w, Inr x)"

definition raise :: "api_error \<Rightarrow> 'a act" where
  "raise e w = (w, Inl e)"

definition bind_act :: "'a act \<Rightarrow> ('a \<Rightarrow> 'b act) \<Rightarrow> 'b act" where
  "bind_act m f w = (case m w of (w', Inl e) \<Rightarrow> (w', Inl e) | (w', Inr x) \<Rightarrow> f x w')"

definition then_act :: "'a act \<Rightarrow> 'b act \<Rightarrow> 'b act" where
  "then_act m n = bind_act m (\<lambda>_. n)"

text \<open>A result that is looked at instead of being propagated by \<open>?\<close>.\<close>

definition try_act :: "'a act \<Rightarrow> (api_error + 'a) act" where
  "try_act m w = (case m w of (w', r) \<Rightarrow> (w', Inr r))"

definition lift_result :: "api_error + 'a \<Rightarrow> 'a act" where
  "lift_result r w = (w, r)"

definition when_act :: "bool \<Rightarrow> unit act \<Rightarrow> unit act" where
  "when_act b m = (if b then m else ret ())"

text \<open>A command: it is logged, the environment answers.\<close>

definition command :: "(nat \<Rightarrow> host_cmd \<Rightarrow> host_runtime_error + 'a) \<Rightarrow> host_cmd \<Rightarrow> (host_runtime_error + 'a) act" where
  "command answer c w =
     (w\<lparr>w_trace := w_trace w @ [(w_ticks w, c)], w_ticks := Suc (w_ticks w)\<rparr>, Inr (answer (w_ticks w) c))"

fun error_text :: "host_runtime_error \<Rightarrow> string" where
  "error_text (RemotePrerequisite m) = m"
| "error_text (OtherRuntimeError m) = m"

text \<open>\<open>ApiError::from_host_runtime\<close>.\<close>

definition from_host_runtime :: "host \<Rightarrow> host_runtime_error \<Rightarrow> api_error" where
  "from_host_runtime h e =
     (case (h_kind h, e) of
        (HostKind_Ssh _ _ _ _, RemotePrerequisite m) \<Rightarrow> ApiError_BadRequest m
      | (HostKind_Ssh _ _ _ _, OtherRuntimeError m) \<Rightarrow> ApiError_BadGateway m
      | (HostKind_Local, RemotePrerequisite m) \<Rightarrow> ApiError_Internal (Internal_Text m)
      | (HostKind_Local, OtherRuntimeError m) \<Rightarrow> ApiError_Internal (Internal_Text m))"

definition host_command ::
    "(nat \<Rightarrow> host_cmd \<Rightarrow> host_runtime_error + 'a) \<Rightarrow> host \<Rightarrow> host_cmd \<Rightarrow> 'a act" where
  "host_command answer h c =
     bind_act (command answer c) (\<lambda>r.
       lift_result (case r of Inl e \<Rightarrow> Inl (from_host_runtime h e) | Inr x \<Rightarrow> Inr x))"

text \<open>A call of the store that reads, and one that writes at the time of the clock.\<close>

definition store_read :: "(db \<Rightarrow> store_error + 'a) \<Rightarrow> 'a act" where
  "store_read f w = (w, lift_api (f (w_db w)))"

definition store_write :: "environment \<Rightarrow> (time \<Rightarrow> uuid \<Rightarrow> db \<Rightarrow> db \<times> (store_error + 'a)) \<Rightarrow> 'a act" where
  "store_write en f w =
     (let t = w_ticks w; res = f (en_clock en t) (en_uuid en t) (w_db w)
      in (w\<lparr>w_db := fst res, w_ticks := Suc t\<rparr>, lift_api (snd res)))"

definition publish :: "environment \<Rightarrow> (time \<Rightarrow> event) \<Rightarrow> unit act" where
  "publish en ev w =
     (w\<lparr>w_bus := w_bus w @ [ev (en_clock en (w_ticks w))], w_ticks := Suc (w_ticks w)\<rparr>, Inr ())"

definition fresh_uuid :: "environment \<Rightarrow> uuid act" where
  "fresh_uuid en w = (w\<lparr>w_ticks := Suc (w_ticks w)\<rparr>, Inr (en_uuid en (w_ticks w)))"

definition set_hook_token :: "uuid \<Rightarrow> string option \<Rightarrow> unit act" where
  "set_hook_token i tok w = (w\<lparr>w_hook_tokens := (w_hook_tokens w)(i := tok)\<rparr>, Inr ())"

section \<open>Safety of the commands an action issues\<close>

text \<open>
  \<open>safe P A m R\<close>: started with a trace that satisfies \<open>P\<close>, the action \<open>m\<close> only appends commands that
  \<open>A\<close> allows after what was issued before, and a value it returns satisfies \<open>R\<close> with the trace then.
\<close>

type_synonym policy = "trace \<Rightarrow> nat \<times> host_cmd \<Rightarrow> bool"

inductive grows :: "policy \<Rightarrow> trace \<Rightarrow> trace \<Rightarrow> bool" for A where
  refl: "grows A tr tr"
| step: "grows A tr tr' \<Longrightarrow> A tr' c \<Longrightarrow> grows A tr (tr' @ [c])"

definition safe :: "(trace \<Rightarrow> bool) \<Rightarrow> policy \<Rightarrow> 'a act \<Rightarrow> ('a \<Rightarrow> trace \<Rightarrow> bool) \<Rightarrow> bool" where
  "safe P A m R \<longleftrightarrow> (\<forall>w. P (w_trace w) \<longrightarrow>
     grows A (w_trace w) (w_trace (fst (m w))) \<and>
     (\<forall>x. snd (m w) = Inr x \<longrightarrow> R x (w_trace (fst (m w)))))"

lemma grows_trans: "grows A a b \<Longrightarrow> grows A b c \<Longrightarrow> grows A a c"
  by (rotate_tac, induction rule: grows.induct) (auto intro: grows.step)

lemma grows_prefix: "grows A a b \<Longrightarrow> \<exists>new. b = a @ new"
  by (induction rule: grows.induct) auto

lemma safe_ret: "(\<And>tr. P tr \<Longrightarrow> R x tr) \<Longrightarrow> safe P A (ret x) R"
  by (simp add: safe_def ret_def grows.refl)

lemma safe_raise: "safe P A (raise e) R"
  by (simp add: safe_def raise_def grows.refl)

lemma safe_lift: "(\<And>x tr. r = Inr x \<Longrightarrow> P tr \<Longrightarrow> R x tr) \<Longrightarrow> safe P A (lift_result r) R"
  by (simp add: safe_def lift_result_def grows.refl)

lemma safe_bind:
  assumes "safe P A m R" and "\<And>x. safe (R x) A (f x) S"
  shows "safe P A (bind_act m f) S"
  unfolding safe_def
proof (intro allI impI)
  fix w :: world
  assume "P (w_trace w)"
  with assms(1) have m: "grows A (w_trace w) (w_trace (fst (m w)))"
    "\<And>x. snd (m w) = Inr x \<Longrightarrow> R x (w_trace (fst (m w)))"
    by (auto simp: safe_def)
  obtain w' r where r: "m w = (w', r)" by fastforce
  show "grows A (w_trace w) (w_trace (fst (bind_act m f w))) \<and>
    (\<forall>x. snd (bind_act m f w) = Inr x \<longrightarrow> S x (w_trace (fst (bind_act m f w))))"
  proof (cases r)
    case (Inl e)
    with r m(1) show ?thesis by (simp add: bind_act_def)
  next
    case (Inr x)
    then have "R x (w_trace w')" using r m(2) by simp
    then have "grows A (w_trace w') (w_trace (fst (f x w')))"
      "\<And>y. snd (f x w') = Inr y \<Longrightarrow> S y (w_trace (fst (f x w')))"
      using assms(2) by (auto simp: safe_def)
    then show ?thesis using r Inr m(1) by (auto simp: bind_act_def intro: grows_trans)
  qed
qed

lemma safe_then: "safe P A m (\<lambda>_. Q) \<Longrightarrow> safe Q A n R \<Longrightarrow> safe P A (then_act m n) R"
  unfolding then_act_def by (rule safe_bind)

lemma safe_weaken: "safe P A m R \<Longrightarrow> (\<And>tr. P' tr \<Longrightarrow> P tr) \<Longrightarrow> (\<And>x tr. R x tr \<Longrightarrow> R' x tr) \<Longrightarrow> safe P' A m R'"
  unfolding safe_def by blast

text \<open>A fact that later commands cannot undo.\<close>

definition stable :: "(trace \<Rightarrow> bool) \<Rightarrow> bool" where
  "stable P \<longleftrightarrow> (\<forall>tr new. P tr \<longrightarrow> P (tr @ new))"

lemma stable_grows: "stable P \<Longrightarrow> grows A tr tr' \<Longrightarrow> P tr \<Longrightarrow> P tr'"
  unfolding stable_def using grows_prefix by blast

lemma safe_frame: "safe P A m R \<Longrightarrow> stable P \<Longrightarrow> safe P A m (\<lambda>x tr. R x tr \<and> P tr)"
  unfolding safe_def using stable_grows by blast

lemma safe_try: "safe P A m R \<Longrightarrow> safe P A (try_act m) (\<lambda>r tr. \<forall>x. r = Inr x \<longrightarrow> R x tr)"
  by (fastforce simp: safe_def try_act_def split: prod.splits)

lemma safe_when: "(b \<Longrightarrow> safe P A m (\<lambda>_. Q)) \<Longrightarrow> (\<And>tr. \<not> b \<Longrightarrow> P tr \<Longrightarrow> Q tr) \<Longrightarrow> safe P A (when_act b m) (\<lambda>_. Q)"
  by (simp add: when_act_def safe_ret)

lemma safe_command:
  assumes "\<And>tr t. P tr \<Longrightarrow> A tr (t, c)"
  shows "safe P A (command answer c) (\<lambda>r tr. \<exists>t old. tr = old @ [(t, c)] \<and> P old \<and> r = answer t c)"
  using assms by (auto simp: safe_def command_def intro: grows.intros)

lemma safe_silent:
  assumes "\<And>w. w_trace (fst (m w)) = w_trace w"
  shows "safe P A m (\<lambda>_. P)"
  using assms by (simp add: safe_def grows.refl)

lemma safe_store_read: "safe P A (store_read f) (\<lambda>_. P)"
  by (rule safe_silent) (simp add: store_read_def)

lemma safe_store_write: "safe P A (store_write en f) (\<lambda>_. P)"
  by (rule safe_silent) (simp add: store_write_def Let_def)

lemma safe_publish: "safe P A (publish en ev) (\<lambda>_. P)"
  by (rule safe_silent) (simp add: publish_def)

lemma safe_fresh_uuid: "safe P A (fresh_uuid en) (\<lambda>_. P)"
  by (rule safe_silent) (simp add: fresh_uuid_def)

lemma safe_hook_token: "safe P A (set_hook_token i t) (\<lambda>_. P)"
  by (rule safe_silent) (simp add: set_hook_token_def)

section \<open>Actions that keep a fact\<close>

text \<open>
  \<open>keeps P A m\<close>: \<open>m\<close> issues only what \<open>A\<close> allows while \<open>P\<close> holds, and \<open>P\<close> still holds after it.
  The rules follow the structure of the code, so that a goal is split down to the commands.
\<close>

definition keeps :: "(trace \<Rightarrow> bool) \<Rightarrow> policy \<Rightarrow> 'a act \<Rightarrow> bool" where
  "keeps P A m \<longleftrightarrow> (\<forall>w. P (w_trace w) \<longrightarrow>
     grows A (w_trace w) (w_trace (fst (m w))) \<and> P (w_trace (fst (m w))))"

named_theorems keeps_rules

lemma keeps_safe: "keeps P A m \<Longrightarrow> safe P A m (\<lambda>_. P)"
  by (simp add: keeps_def safe_def)

lemma keeps_stable: "stable P \<Longrightarrow> safe P A m R \<Longrightarrow> keeps P A m"
  by (auto simp: keeps_def safe_def intro: stable_grows)

lemma keeps_silent:
  assumes "\<And>w. w_trace (fst (m w)) = w_trace w"
  shows "keeps P A m"
  using assms by (simp add: keeps_def grows.refl)

lemma keeps_leaves [keeps_rules]:
  "keeps P A (ret x)" "keeps P A (raise e)" "keeps P A (lift_result r)" "keeps P A (store_read f)"
  "keeps P A (store_write en g)" "keeps P A (publish en ev)" "keeps P A (fresh_uuid en)"
  "keeps P A (set_hook_token i t)"
  by (rule keeps_silent;
      simp add: ret_def raise_def lift_result_def store_read_def store_write_def publish_def
        fresh_uuid_def set_hook_token_def Let_def)+

lemma keeps_bind [keeps_rules]:
  assumes "keeps P A m" and "\<And>x. keeps P A (f x)"
  shows "keeps P A (bind_act m f)"
  unfolding keeps_def
proof (intro allI impI)
  fix w :: world
  assume P: "P (w_trace w)"
  obtain w' r where r: "m w = (w', r)" by fastforce
  with assms(1) P have m: "grows A (w_trace w) (w_trace w')" "P (w_trace w')"
    by (force simp: keeps_def)+
  show "grows A (w_trace w) (w_trace (fst (bind_act m f w))) \<and> P (w_trace (fst (bind_act m f w)))"
    using r m assms(2) by (cases r) (auto simp: bind_act_def keeps_def intro: grows_trans)
qed

lemma keeps_then [keeps_rules]: "keeps P A m \<Longrightarrow> keeps P A n \<Longrightarrow> keeps P A (then_act m n)"
  unfolding then_act_def by (rule keeps_bind)

lemma keeps_try [keeps_rules]: "keeps P A m \<Longrightarrow> keeps P A (try_act m)"
  by (auto simp: keeps_def try_act_def split: prod.splits)

lemma keeps_when [keeps_rules]: "(b \<Longrightarrow> keeps P A m) \<Longrightarrow> keeps P A (when_act b m)"
  by (simp add: when_act_def keeps_leaves)

lemma keeps_command:
  assumes "stable P" and "\<And>tr t. P tr \<Longrightarrow> A tr (t, c)"
  shows "keeps P A (command answer c)"
  by (rule keeps_stable [OF assms(1) safe_command]) (fact assms(2))

lemma keeps_host_command:
  "keeps P A (command answer c) \<Longrightarrow> keeps P A (host_command answer h c)"
  unfolding host_command_def by (intro keeps_rules)

lemma keeps_if [keeps_rules]: "(b \<Longrightarrow> keeps P A m) \<Longrightarrow> (\<not> b \<Longrightarrow> keeps P A n) \<Longrightarrow> keeps P A (if b then m else n)"
  by simp

lemma stable_True [simp]: "stable (\<lambda>_. True)"
  by (simp add: stable_def)

end
