(* ===== verification/Mcp_Provision.thy ===== *)
theory Mcp_Provision
  imports Executor "HOL-Library.AList"
begin

text \<open>
  \<open>crates/agentum-server/src/mcp_provision.rs\<close>: the session-scoped bearer tokens of the MCP
  endpoint, the project configuration files of the agents that load MCP servers from a file, and
  what is handed to an agent at its launch. HMAC-SHA256, URL-safe base64, the bytes and the parser
  of UUIDs and the JSON printer and parser are the record \<open>crypto\<close>; fresh UUIDs are arguments.
\<close>

section \<open>Session tokens\<close>

record crypto =
  cr_hmac :: "string \<Rightarrow> string \<Rightarrow> string"
  cr_b64_encode :: "string \<Rightarrow> string"
  cr_b64_decode :: "string \<Rightarrow> string option"
  cr_uuid_bytes :: "uuid \<Rightarrow> string"
  cr_parse_uuid :: "string \<Rightarrow> uuid option"
  cr_to_string_pretty :: "json \<Rightarrow> string"
  cr_from_str :: "string \<Rightarrow> json option"

text \<open>What is documented of base64: it decodes to what was encoded.\<close>

definition crypto_ok :: "crypto \<Rightarrow> bool" where
  "crypto_ok cr \<longleftrightarrow> (\<forall>b. cr_b64_decode cr (cr_b64_encode cr b) = Some b)"

definition uuid_simple :: "uuid \<Rightarrow> string" where
  "uuid_simple i = filter (\<lambda>c. c \<noteq> CHR ''-'') i"

definition proper_uuid :: "crypto \<Rightarrow> uuid \<Rightarrow> bool" where
  "proper_uuid cr i \<longleftrightarrow> cr_parse_uuid cr (uuid_simple i) = Some i \<and> CHR ''_'' \<notin> set (uuid_simple i)"

definition SESSION_MCP_TOKEN_PREFIX :: string where
  "SESSION_MCP_TOKEN_PREFIX = ''mcpv1''"

definition session_mac :: "crypto \<Rightarrow> string \<Rightarrow> uuid \<Rightarrow> string" where
  "session_mac cr master_token i =
     cr_hmac cr master_token (''agentum-mcp-session-v1'' @ [CHR 0x00] @ cr_uuid_bytes cr i)"

definition session_mcp_token :: "crypto \<Rightarrow> string \<Rightarrow> uuid \<Rightarrow> string" where
  "session_mcp_token cr master_token i =
     SESSION_MCP_TOKEN_PREFIX @ ''_'' @ uuid_simple i @ ''_'' @ cr_b64_encode cr (session_mac cr master_token i)"

text \<open>\<open>str::splitn\<close>: at most \<open>n\<close> pieces, the last one is the rest.\<close>

fun splitn :: "nat \<Rightarrow> char \<Rightarrow> string \<Rightarrow> string list" where
  "splitn 0 d s = []"
| "splitn (Suc 0) d s = [s]"
| "splitn (Suc (Suc n)) d s =
     (case dropWhile (\<lambda>c. c \<noteq> d) s of
        [] \<Rightarrow> [s]
      | _ # rest \<Rightarrow> takeWhile (\<lambda>c. c \<noteq> d) s # splitn (Suc n) d rest)"

definition verify_session_mcp_token :: "crypto \<Rightarrow> string \<Rightarrow> string \<Rightarrow> uuid option" where
  "verify_session_mcp_token cr master_token token =
     (case splitn 3 (CHR ''_'') token of
        [prefix, id_text, sig_text] \<Rightarrow>
          if prefix \<noteq> SESSION_MCP_TOKEN_PREFIX then None
          else Option.bind (cr_parse_uuid cr id_text) (\<lambda>i.
               Option.bind (cr_b64_decode cr sig_text) (\<lambda>signature.
                 if signature = session_mac cr master_token i then Some i else None))
      | _ \<Rightarrow> None)"

section \<open>Agents with a configuration file\<close>

datatype auth_env_syntax = AuthEnvSyntax_Cursor | AuthEnvSyntax_Gemini | AuthEnvSyntax_OpenCode

record agent_mcp_file =
  amf_rel_path :: string
  amf_servers_key :: string
  amf_url_field :: string
  amf_extra :: "(string \<times> string) list"
  amf_auth_env_syntax :: auth_env_syntax

definition MCP_ARG_TOOLS :: "string list" where
  "MCP_ARG_TOOLS = [''claude'', ''codex'']"

definition tool_supports_mcp :: "string \<Rightarrow> bool" where
  "tool_supports_mcp tool = (tool \<in> set MCP_ARG_TOOLS)"

definition auth_header_value :: "agent_mcp_file \<Rightarrow> string \<Rightarrow> string" where
  "auth_header_value f env_name =
     (case amf_auth_env_syntax f of
        AuthEnvSyntax_Cursor \<Rightarrow> ''${env:'' @ env_name @ ''}''
      | AuthEnvSyntax_Gemini \<Rightarrow> ''$'' @ env_name
      | AuthEnvSyntax_OpenCode \<Rightarrow> ''{env:'' @ env_name @ ''}'')"

definition agent_mcp_file_for :: "string \<Rightarrow> agent_mcp_file option" where
  "agent_mcp_file_for tool =
     (if tool = ''cursor'' \<or> tool = ''agent'' then
        Some \<lparr>amf_rel_path = ''.cursor/mcp.json'', amf_servers_key = ''mcpServers'', amf_url_field = ''url'',
              amf_extra = [], amf_auth_env_syntax = AuthEnvSyntax_Cursor\<rparr>
      else if tool = ''gemini'' then
        Some \<lparr>amf_rel_path = ''.gemini/settings.json'', amf_servers_key = ''mcpServers'',
              amf_url_field = ''httpUrl'', amf_extra = [], amf_auth_env_syntax = AuthEnvSyntax_Gemini\<rparr>
      else if tool = ''opencode'' then
        Some \<lparr>amf_rel_path = ''opencode.json'', amf_servers_key = ''mcp'', amf_url_field = ''url'',
              amf_extra = [(''type'', ''remote'')], amf_auth_env_syntax = AuthEnvSyntax_OpenCode\<rparr>
      else None)"

definition agent_entry :: "agent_mcp_file \<Rightarrow> mcp_server \<Rightarrow> string \<Rightarrow> json" where
  "agent_entry f server auth_env_name =
     (let e1 = foldl (\<lambda>e (k, v). AList.update k (JStr v) e) [] (amf_extra f);
          e2 = AList.update (amf_url_field f) (JStr (ms_url server)) e1;
          e3 = (if ms_auth_token server \<noteq> None
                then AList.update ''headers''
                       (JObj [(''Authorization'', JStr (auth_header_value f auth_env_name))]) e2
                else e2)
      in JObj e3)"

definition PROJECT_MCP_AUTH_ENV_PREFIX :: string where
  "PROJECT_MCP_AUTH_ENV_PREFIX = ''AGENTUM_MCP_AUTH_''"

definition CODEX_MCP_AUTH_ENV_PREFIX :: string where
  "CODEX_MCP_AUTH_ENV_PREFIX = ''AGENTUM_CODEX_MCP_AUTH_''"

definition to_ascii_uppercase :: "string \<Rightarrow> string" where
  "to_ascii_uppercase s =
     map (\<lambda>c. if is_ascii_lower c then char_of ((of_char c :: nat) - 32) else c) s"

text \<open>
  The loop that draws names until one does not occur in the existing file: \<open>rnd n\<close> is the \<open>n\<close>-th
  fresh UUID. It may run forever, which is the value \<open>None\<close>.
\<close>

partial_function (option) fresh_project_auth_env_name ::
    "string option \<Rightarrow> (nat \<Rightarrow> uuid) \<Rightarrow> nat \<Rightarrow> string option" where
  "fresh_project_auth_env_name existing rnd n =
     (let name = PROJECT_MCP_AUTH_ENV_PREFIX @ to_ascii_uppercase (uuid_simple (rnd n))
      in if (case existing of Some content \<Rightarrow> str_contains content name | None \<Rightarrow> False)
         then fresh_project_auth_env_name existing rnd (Suc n) else Some name)"

definition fresh_codex_auth_env_name :: "uuid \<Rightarrow> string" where
  "fresh_codex_auth_env_name u = CODEX_MCP_AUTH_ENV_PREFIX @ to_ascii_uppercase (uuid_simple u)"

text \<open>The errors are the contexts the messages begin with.\<close>

definition merge_agent_config ::
    "crypto \<Rightarrow> string option \<Rightarrow> agent_mcp_file \<Rightarrow> mcp_server \<Rightarrow> string \<Rightarrow> string + string" where
  "merge_agent_config cr existing f server auth_env_name =
     and_then (case existing of
         Some content \<Rightarrow> ok_or ''existing agent project config is not valid JSON'' (cr_from_str cr content)
       | None \<Rightarrow> Inr (JObj [])) (\<lambda>root.
     case root of
       JObj obj \<Rightarrow>
         (case (case map_of obj (amf_servers_key f) of Some v \<Rightarrow> v | None \<Rightarrow> JObj []) of
            JObj servers \<Rightarrow>
              Inr (cr_to_string_pretty cr (JObj (AList.update (amf_servers_key f)
                (JObj (AList.update ''agentum'' (agent_entry f server auth_env_name) servers)) obj)))
          | _ \<Rightarrow> Inl (''existing `'' @ amf_servers_key f @
                  ''` value is not a JSON object; refusing to replace it''))
     | _ \<Rightarrow> Inl ''existing agent project config root is not a JSON object'')"

text \<open>\<open>routes/sessions.rs\<close> checks what it reads back. Indexing a missing member gives null.\<close>

definition jindex :: "json \<Rightarrow> string \<Rightarrow> json" where
  "jindex j k = (case jget j k of Some v \<Rightarrow> v | None \<Rightarrow> JNull)"

definition agent_mcp_config_matches ::
    "crypto \<Rightarrow> string \<Rightarrow> agent_mcp_file \<Rightarrow> string \<Rightarrow> string \<Rightarrow> string \<Rightarrow> bool" where
  "agent_mcp_config_matches cr content f expected_url expected_auth_env forbidden_secret =
     (case cr_from_str cr content of
        None \<Rightarrow> False
      | Some root \<Rightarrow>
          let entry = jindex (jindex root (amf_servers_key f)) ''agentum''
          in as_str (jindex entry (amf_url_field f)) = Some expected_url \<and>
             as_str (jindex (jindex entry ''headers'') ''Authorization'') =
               Some (auth_header_value f expected_auth_env) \<and>
             list_all (\<lambda>(key, value). as_str (jindex entry key) = Some value) (amf_extra f) \<and>
             (forbidden_secret = [] \<or> \<not> str_contains content forbidden_secret))"

section \<open>Servers\<close>

definition agentum_server :: "crypto \<Rightarrow> string \<Rightarrow> uuid \<Rightarrow> uuid \<Rightarrow> string \<Rightarrow> mcp_server" where
  "agentum_server cr master_token fresh i agentum_mcp_url =
     \<lparr>ms_name = ''agentum'', ms_url = agentum_mcp_url,
      ms_auth_token = Some (session_mcp_token cr master_token i),
      ms_auth_env_var = Some (fresh_codex_auth_env_name fresh)\<rparr>"

definition server_config_entry :: "mcp_server \<Rightarrow> json" where
  "server_config_entry s =
     JObj ([(''type'', JStr ''http''), (''url'', JStr (ms_url s))] @
       (case ms_auth_token s of
          Some token \<Rightarrow> [(''headers'', JObj [(''Authorization'', JStr (''Bearer '' @ token))])]
        | None \<Rightarrow> []))"

definition config_json :: "crypto \<Rightarrow> mcp_server list \<Rightarrow> string" where
  "config_json cr servers =
     cr_to_string_pretty cr (JObj [(''mcpServers'',
       JObj (foldl (\<lambda>m s. AList.update (ms_name s) (server_config_entry s) m) [] servers))])"

datatype browser_mcp_engine = BrowserMcpEngine_PlaywrightBound | BrowserMcpEngine_PlaywrightHeadless

definition parse_engine :: "string option \<Rightarrow> browser_mcp_engine" where
  "parse_engine val =
     (if map_option (\<lambda>s. to_ascii_lowercase (trim s)) val = Some ''headless''
      then BrowserMcpEngine_PlaywrightHeadless else BrowserMcpEngine_PlaywrightBound)"

text \<open>\<open>trim_end_matches\<close> on one character, and the port of \<open>local_mcp_port\<close>.\<close>

definition trim_end_char :: "char \<Rightarrow> string \<Rightarrow> string" where
  "trim_end_char c s = rev (dropWhile (\<lambda>x. x = c) (rev s))"

definition parse_u16 :: "string \<Rightarrow> 16 word option" where
  "parse_u16 s =
     (let ds = (case s of [] \<Rightarrow> [] | c # cs \<Rightarrow> if c = CHR ''+'' then cs else s)
      in if ds \<noteq> [] \<and> list_all is_ascii_digit ds \<and> digits_value ds < 2 ^ 16
         then Some (of_nat (digits_value ds)) else None)"

definition local_mcp_port :: "string option \<Rightarrow> 16 word option" where
  "local_mcp_port mcp_base_url =
     Option.bind mcp_base_url (\<lambda>url. parse_u16 (last (split_on (CHR '':'') (trim_end_char (CHR ''/'') url))))"

section \<open>Properties\<close>

lemma splitn_step:
  "d \<notin> set a \<Longrightarrow> splitn (Suc (Suc n)) d (a @ d # rest) = a # splitn (Suc n) d rest"
  by (simp add: dropWhile_append takeWhile_append)

lemma verify_token:
  assumes "CHR ''_'' \<notin> set id_text"
  shows "verify_session_mcp_token cr m (SESSION_MCP_TOKEN_PREFIX @ ''_'' @ id_text @ ''_'' @ sig_text) =
    Option.bind (cr_parse_uuid cr id_text) (\<lambda>i. Option.bind (cr_b64_decode cr sig_text) (\<lambda>signature.
      if signature = session_mac cr m i then Some i else None))"
proof -
  have "splitn 3 (CHR ''_'') (SESSION_MCP_TOKEN_PREFIX @ CHR ''_'' # (id_text @ CHR ''_'' # sig_text)) =
      [SESSION_MCP_TOKEN_PREFIX, id_text, sig_text]"
    using assms splitn_step [of "CHR ''_''" SESSION_MCP_TOKEN_PREFIX 1 "id_text @ CHR ''_'' # sig_text"]
      splitn_step [of "CHR ''_''" id_text 0 sig_text]
    by (simp add: SESSION_MCP_TOKEN_PREFIX_def numeral_3_eq_3)
  then show ?thesis by (simp add: verify_session_mcp_token_def)
qed

text \<open>
  C36. The bearer token an agent gets is good for its own session and nothing else. The token made for
  a session verifies to that session; whatever text verifies under a master credential carries the
  MAC of the very session it names; so the token of one session is never accepted for another, and
  under another master only if that master yields the same MAC.
\<close>

theorem mcp_tokens_are_session_scoped:
  assumes cr: "crypto_ok cr" and i: "proper_uuid cr i"
  shows "verify_session_mcp_token cr m (session_mcp_token cr m i) = Some i \<and>
    (verify_session_mcp_token cr m' (session_mcp_token cr m i) = Some j \<longrightarrow>
       j = i \<and> session_mac cr m' i = session_mac cr m i) \<and>
    (verify_session_mcp_token cr m token = Some j \<longrightarrow>
       (\<exists>id_text sig_text. token = SESSION_MCP_TOKEN_PREFIX @ ''_'' @ id_text @ ''_'' @ sig_text \<and>
          cr_parse_uuid cr id_text = Some j \<and> cr_b64_decode cr sig_text = Some (session_mac cr m j)))"
proof -
  have own: "verify_session_mcp_token cr k (session_mcp_token cr m i) =
      (if session_mac cr m i = session_mac cr k i then Some i else None)" for k
    using cr i unfolding session_mcp_token_def crypto_ok_def proper_uuid_def
    using verify_token [of "uuid_simple i" cr k "cr_b64_encode cr (session_mac cr m i)"] by auto
  have "\<exists>id_text sig_text. token = SESSION_MCP_TOKEN_PREFIX @ ''_'' @ id_text @ ''_'' @ sig_text \<and>
      cr_parse_uuid cr id_text = Some j \<and> cr_b64_decode cr sig_text = Some (session_mac cr m j)"
    if v: "verify_session_mcp_token cr m token = Some j"
  proof -
    obtain p a b where s: "splitn 3 (CHR ''_'') token = [p, a, b]" "p = SESSION_MCP_TOKEN_PREFIX"
      "cr_parse_uuid cr a = Some j" "cr_b64_decode cr b = Some (session_mac cr m j)"
      using v by (auto simp: verify_session_mcp_token_def bind_eq_Some_conv split: list.splits if_splits)
    have cut: "s = takeWhile (\<lambda>c. c \<noteq> d) s @ d # rest" if "dropWhile (\<lambda>c. c \<noteq> d) s = x # rest" for s d x and rest :: string
      using that hd_dropWhile [of "\<lambda>c. c \<noteq> d" s] takeWhile_dropWhile_id [of "\<lambda>c. c \<noteq> d" s] by simp
    obtain x rest where 1: "dropWhile (\<lambda>c. c \<noteq> CHR ''_'') token = x # rest" "p = takeWhile (\<lambda>c. c \<noteq> CHR ''_'') token"
      "splitn (Suc (Suc 0)) (CHR ''_'') rest = [a, b]"
      using s(1) by (auto simp: numeral_3_eq_3 split: list.splits)
    obtain y rest' where 2: "dropWhile (\<lambda>c. c \<noteq> CHR ''_'') rest = y # rest'" "a = takeWhile (\<lambda>c. c \<noteq> CHR ''_'') rest" "b = rest'"
      using 1(3) by (auto split: list.splits)
    have "token = p @ ''_'' @ a @ ''_'' @ b"
      using cut [OF 1(1)] cut [OF 2(1)] 1(2) 2(2,3) by simp
    with s show ?thesis by blast
  qed
  with own show ?thesis by (auto split: if_splits)
qed

definition sample_crypto :: crypto where
  "sample_crypto =
     \<lparr>cr_hmac = (\<lambda>k msg. k @ msg), cr_b64_encode = (\<lambda>b. b), cr_b64_decode = Some,
      cr_uuid_bytes = (\<lambda>i. i), cr_parse_uuid = Some,
      cr_to_string_pretty = (\<lambda>j. []), cr_from_str = (\<lambda>s. None)\<rparr>"

theorem mcp_tokens_are_session_scoped_witness:
  "verify_session_mcp_token sample_crypto ''m'' (session_mcp_token sample_crypto ''m'' ''u1'') = Some ''u1'' \<and>
   verify_session_mcp_token sample_crypto ''k'' (session_mcp_token sample_crypto ''m'' ''u1'') \<noteq> Some ''u1''"
proof -
  have ok: "crypto_ok sample_crypto" "proper_uuid sample_crypto ''u1''"
    by (simp_all add: crypto_ok_def proper_uuid_def sample_crypto_def uuid_simple_def)
  have "session_mac sample_crypto ''k'' ''u1'' \<noteq> session_mac sample_crypto ''m'' ''u1''"
    by (simp add: session_mac_def sample_crypto_def)
  then show ?thesis
    using mcp_tokens_are_session_scoped [OF ok, of "''m''" "''k''" "''u1''"] by blast
qed

lemma jget_update: "jget (JObj (AList.update k v kvs)) k' = (if k' = k then Some v else jget (JObj kvs) k')"
  by (simp add: update_conv')

text \<open>The descriptors never use a field twice, so every field of the entry is read back.\<close>

lemma agent_entry_fields:
  assumes "agent_mcp_file_for tool = Some f" and "ms_auth_token server \<noteq> None"
  shows "jindex (agent_entry f server name) (amf_url_field f) = JStr (ms_url server)"
    and "jindex (jindex (agent_entry f server name) ''headers'') ''Authorization'' = JStr (auth_header_value f name)"
    and "list_all (\<lambda>(k, v). as_str (jindex (agent_entry f server name) k) = Some v) (amf_extra f)"
  using assms by (auto simp: agent_mcp_file_for_def agent_entry_def jindex_def Let_def split: if_splits)

text \<open>
  The project configuration written for an agent is the one the launch then checks. For every
  agent with a configuration file, merging Agentum's server either refuses, leaving the file to the
  user, or produces a document that passes the check for its endpoint and its credential reference,
  in which every other server and every other setting of the user is as it was.
\<close>

theorem project_config_roundtrip:
  assumes f: "agent_mcp_file_for tool = Some f" and tok: "ms_auth_token server \<noteq> None"
    and m: "merge_agent_config cr existing f server name = Inr text"
    and json: "\<And>j. cr_to_string_pretty cr j = text \<Longrightarrow> cr_from_str cr text = Some j"
    and secret: "\<not> str_contains text secret"
  shows "agent_mcp_config_matches cr text f (ms_url server) name secret \<and>
    (\<exists>obj root. (case existing of Some c \<Rightarrow> cr_from_str cr c = Some (JObj obj) | None \<Rightarrow> obj = []) \<and>
       cr_from_str cr text = Some root \<and>
       (\<forall>k. k \<noteq> amf_servers_key f \<longrightarrow> jget root k = jget (JObj obj) k) \<and>
       (\<forall>s. s \<noteq> ''agentum'' \<longrightarrow>
          jget (jindex root (amf_servers_key f)) s = jget (jindex (JObj obj) (amf_servers_key f)) s))"
proof -
  obtain root0 where r0: "(case existing of
         Some content \<Rightarrow> ok_or ''existing agent project config is not valid JSON'' (cr_from_str cr content)
       | None \<Rightarrow> Inr (JObj [])) = Inr root0"
    using m unfolding merge_agent_config_def and_then_eq_Inr by blast
  then obtain obj where obj: "root0 = JObj obj"
    using m by (cases root0) (simp_all add: merge_agent_config_def)
  obtain servers where s: "(case map_of obj (amf_servers_key f) of Some v \<Rightarrow> v | None \<Rightarrow> JObj []) = JObj servers"
    using m r0 obj by (simp add: merge_agent_config_def split: json.splits)
  let ?root = "JObj (AList.update (amf_servers_key f)
      (JObj (AList.update ''agentum'' (agent_entry f server name) servers)) obj)"
  have printed: "cr_to_string_pretty cr ?root = text"
    using m r0 obj s by (simp add: merge_agent_config_def)
  note parsed = json [OF printed]
  have entry: "jindex (jindex ?root (amf_servers_key f)) ''agentum'' = agent_entry f server name"
    by (simp only: jindex_def jget_update simp_thms if_True option.case)
  have "agent_mcp_config_matches cr text f (ms_url server) name secret"
    unfolding agent_mcp_config_matches_def parsed using agent_entry_fields [OF f tok, of name] secret
    by (simp add: entry Let_def)
  moreover have "case existing of Some c \<Rightarrow> cr_from_str cr c = Some (JObj obj) | None \<Rightarrow> obj = []"
    using r0 obj by (cases existing) simp_all
  moreover have "jget ?root k = jget (JObj obj) k" if "k \<noteq> amf_servers_key f" for k
    using that by (simp only: jget_update simp_thms if_False)
  moreover have "jget (jindex ?root (amf_servers_key f)) x = jget (jindex (JObj obj) (amf_servers_key f)) x"
    if "x \<noteq> ''agentum''" for x
  proof -
    have "jindex ?root (amf_servers_key f) = JObj (AList.update ''agentum'' (agent_entry f server name) servers)"
      by (simp only: jindex_def jget_update simp_thms if_True option.case)
    moreover have "jget (jindex (JObj obj) (amf_servers_key f)) x = jget (JObj servers) x"
      using s by (auto simp: jindex_def split: option.splits)
    ultimately show ?thesis using that by (simp only: jget_update simp_thms if_False)
  qed
  ultimately show ?thesis using parsed by blast
qed

definition sample_server :: mcp_server where
  "sample_server = \<lparr>ms_name = ''agentum'', ms_url = ''http://h/mcp'', ms_auth_token = Some ''tok'', ms_auth_env_var = None\<rparr>"

definition sample_doc :: json where
  "sample_doc = JObj [(''mcp'', JObj [(''agentum'', JObj [(''type'', JStr ''remote''), (''url'', JStr ''http://h/mcp''),
     (''headers'', JObj [(''Authorization'', JStr ''{env:E}'')])])])]"

definition sample_json_crypto :: crypto where
  "sample_json_crypto = sample_crypto\<lparr>cr_to_string_pretty := (\<lambda>j. if j = sample_doc then ''doc'' else ''other''),
     cr_from_str := (\<lambda>s. if s = ''doc'' then Some sample_doc else None)\<rparr>"

theorem project_config_roundtrip_witness:
  "\<exists>f. agent_mcp_file_for ''opencode'' = Some f \<and>
     agent_mcp_config_matches sample_json_crypto ''doc'' f ''http://h/mcp'' ''E'' ''tok''"
proof -
  obtain f where f: "agent_mcp_file_for ''opencode'' = Some f" by (simp add: agent_mcp_file_for_def)
  then have m: "merge_agent_config sample_json_crypto None f sample_server ''E'' = Inr ''doc''"
    by (auto simp: agent_mcp_file_for_def merge_agent_config_def agent_entry_def sample_json_crypto_def
        sample_crypto_def sample_server_def sample_doc_def auth_header_value_def Let_def)
  have json: "\<And>j. cr_to_string_pretty sample_json_crypto j = ''doc'' \<Longrightarrow> cr_from_str sample_json_crypto ''doc'' = Some j"
    by (simp add: sample_json_crypto_def split: if_splits)
  have "ms_auth_token sample_server \<noteq> None" "\<not> str_contains ''doc'' ''tok''" "ms_url sample_server = ''http://h/mcp''"
    by (simp add: sample_server_def, code_simp, simp add: sample_server_def)
  with project_config_roundtrip [OF f _ m json] f show ?thesis by auto
qed

end
