(* ===== verification/Session_Lifecycle.thy ===== *)
theory Session_Lifecycle
  imports Effects Mcp_Provision Store_Board
begin

text \<open>
  The life of a session in \<open>crates/agentum-server/src/routes/sessions.rs\<close>: creation, start, stop,
  kill, removal and input, and the ownership protocol that decides whether a tmux session on an SSH
  host may be touched. A handler holds the locks of its host and its session from its first read to
  its last write, so it is one action on the world. Commands to tmux, SSH, git and the file system
  are answered by the environment.
\<close>

section \<open>The state of the server the handlers read\<close>

record app_state =
  as_en :: environment
  as_crypto :: crypto
  as_local :: local_env
  as_sha256 :: "string \<Rightarrow> string"
  as_new_token :: "nat \<Rightarrow> string"
  as_mcp_token :: string
  as_mcp_base_url :: "string option"
  as_api_base_url :: "string option"
  as_playwright_enabled :: bool
  as_browser_engine :: "string option"
  as_state_dir :: "string + string"
  as_pane_log :: "uuid \<Rightarrow> string + string"

abbreviation as_cx :: "app_state \<Rightarrow> codec" where
  "as_cx st \<equiv> en_cx (as_en st)"

definition is_ssh :: "host \<Rightarrow> bool" where
  "is_ssh h = (case h_kind h of HostKind_Ssh _ _ _ _ \<Rightarrow> True | HostKind_Local \<Rightarrow> False)"

definition is_external :: "session \<Rightarrow> bool" where
  "is_external s = list_ex (\<lambda>f. f = EXTERNAL_TMUX_FLAG) (s_flags s)"

definition tool_consumes_agentum_mcp :: "string \<Rightarrow> bool" where
  "tool_consumes_agentum_mcp tool = (tool_supports_mcp tool \<or> agent_mcp_file_for tool \<noteq> None)"

definition managed_session_consumes_agentum_mcp :: "session \<Rightarrow> bool" where
  "managed_session_consumes_agentum_mcp s = (\<not> is_external s \<and> tool_consumes_agentum_mcp (s_tool s))"

definition target_for :: "string \<Rightarrow> string" where
  "target_for name = ''agentum-'' @ name"

definition managed_tmux_target :: "session \<Rightarrow> string" where
  "managed_tmux_target s = target_for (s_name s @ ''-'' @ uuid_simple (s_id s))"

definition tmux_target :: "session \<Rightarrow> string" where
  "tmux_target s = (case s_tmux_target s of Some t \<Rightarrow> t | None \<Rightarrow> managed_tmux_target s)"

definition start_target :: "session \<Rightarrow> api_error + string" where
  "start_target s =
     (case s_tmux_target s of
        Some t \<Rightarrow> Inr t
      | None \<Rightarrow>
          if is_external s then Inl (ApiError_BadRequest ''external session has lost its tmux target'')
          else Inr (managed_tmux_target s))"

section \<open>Paths\<close>

text \<open>
  \<open>Path::join\<close>, \<open>Path::parent\<close> and \<open>Path::file_name\<close> on a Unix host; \<open>rtrim_path\<close> drops what is
  no component at the end of a reversed path.
\<close>

definition path_join :: "string \<Rightarrow> string \<Rightarrow> string" where
  "path_join base p =
     (if starts_with ''/'' p then p
      else if base = [] \<or> ends_with ''/'' base then base @ p else base @ ''/'' @ p)"

fun rtrim_path :: "string \<Rightarrow> string" where
  "rtrim_path (c # r) =
     (if c = CHR ''/'' then (if r = [] then [c] else rtrim_path r)
      else if c = CHR ''.'' then (case r of
          d # r' \<Rightarrow> if d = CHR ''/'' then (if r' = [] then [d] else rtrim_path r') else c # r
        | [] \<Rightarrow> [c])
      else c # r)"
| "rtrim_path [] = []"

definition path_parent :: "string \<Rightarrow> string option" where
  "path_parent p =
     (let q = rtrim_path (rev p)
      in if q = [] \<or> q = ''/'' then None
         else Some (rev (rtrim_path (dropWhile (\<lambda>c. c \<noteq> CHR ''/'') q))))"

definition path_file_name :: "string \<Rightarrow> string option" where
  "path_file_name p =
     (let q = rtrim_path (rev p); n = rev (takeWhile (\<lambda>c. c \<noteq> CHR ''/'') q)
      in if q = [] \<or> q = ''/'' \<or> n = ''..'' \<or> n = ''.'' then None else Some n)"

definition expand_with_home :: "string \<Rightarrow> string option \<Rightarrow> api_error + string" where
  "expand_with_home raw home =
     (let t0 = trim raw;
          t = (if length t0 > 1 then trim_end_char (CHR ''/'') t0 else t0)
      in if t = [] then Inl (ApiError_BadRequest ''workdir is empty'')
         else if t = ''~'' \<or> starts_with ''~/'' t then
           (case home of
              None \<Rightarrow> Inl (ApiError_Internal (Internal_Text ''HOME not set''))
            | Some h \<Rightarrow> Inr (if t = ''~'' then h else path_join h (drop 2 t)))
         else Inr t)"

definition expand_workdir :: "app_state \<Rightarrow> string \<Rightarrow> api_error + string" where
  "expand_workdir st raw = expand_with_home raw (le_home (as_local st))"

text \<open>The repository of a missing worktree, when the layout is the desktop's; whether it is a
  directory is asked of the file system.\<close>

definition worktree_layout_repo :: "string \<Rightarrow> string option" where
  "worktree_layout_repo workdir =
     Option.bind (path_parent workdir) (\<lambda>worktrees_dir.
       if path_file_name worktrees_dir \<noteq> Some ''worktrees'' then None
       else Option.bind (path_parent worktrees_dir) (\<lambda>claude_dir.
         if path_file_name claude_dir \<noteq> Some ''.claude'' then None
         else path_parent claude_dir))"

definition answer_true :: "host_runtime_error + bool \<Rightarrow> bool" where
  "answer_true r = (r = Inr True)"

definition worktree_repo_for_missing :: "app_state \<Rightarrow> string \<Rightarrow> string option act" where
  "worktree_repo_for_missing st workdir =
     (case worktree_layout_repo workdir of
        None \<Rightarrow> ret None
      | Some repo \<Rightarrow>
          bind_act (command (en_bool (as_en st)) (Cmd_IsDir repo)) (\<lambda>r.
            ret (if answer_true r then Some repo else None)))"

definition path_exists :: "app_state \<Rightarrow> string \<Rightarrow> bool act" where
  "path_exists st p =
     bind_act (command (en_bool (as_en st)) (Cmd_PathExists p)) (\<lambda>r. ret (answer_true r))"

definition missing_workdir :: "string \<Rightarrow> api_error" where
  "missing_workdir p = ApiError_BadRequest (''workdir does not exist: '' @ p)"

text \<open>A local working directory that is missing is recreated when it is a worktree.\<close>

definition heal_local_workdir :: "app_state \<Rightarrow> string \<Rightarrow> unit act" where
  "heal_local_workdir st p =
     bind_act (path_exists st p) (\<lambda>there.
       if there then ret () else
       bind_act (worktree_repo_for_missing st p) (\<lambda>found.
         case found of
           None \<Rightarrow> raise (missing_workdir p)
         | Some repo \<Rightarrow>
             bind_act (command (en_unit (as_en st)) (Cmd_RecreateWorktree repo p)) (\<lambda>r.
               case r of
                 Inr _ \<Rightarrow> ret ()
               | Inl e \<Rightarrow> raise (ApiError_BadRequest
                   (''workdir does not exist and could not be recreated: '' @ p @
                    '' ('' @ error_text e @ '')'')))))"

section \<open>Loading\<close>

definition load_session :: "app_state \<Rightarrow> uuid \<Rightarrow> session act" where
  "load_session st i =
     bind_act (store_read (\<lambda>d. get_session_by_id (as_cx st) d i)) (\<lambda>found.
       case found of Some s \<Rightarrow> ret s | None \<Rightarrow> raise (ApiError_NotFound i))"

definition host_id_of :: "session \<Rightarrow> uuid" where
  "host_id_of s = (case s_host_id s of Some h \<Rightarrow> h | None \<Rightarrow> LOCAL_HOST_ID)"

definition load_host_for_session :: "app_state \<Rightarrow> session \<Rightarrow> host act" where
  "load_host_for_session st s =
     bind_act (store_read (\<lambda>d. get_host (as_cx st) d (host_id_of s))) (\<lambda>found.
       case found of
         Some h \<Rightarrow> ret h
       | None \<Rightarrow> raise (ApiError_BadRequest (''session host is missing: '' @ host_id_of s)))"

section \<open>Ownership of tmux sessions on SSH hosts\<close>

record remote_tmux_identity =
  rti_name :: string
  rti_id :: string
  rti_owner :: "uuid option"

definition unit_separator :: char where
  "unit_separator = CHR 0x1F"

text \<open>\<open>lines().rev().find_map(strip_prefix)\<close>.\<close>

definition last_marked_line :: "string \<Rightarrow> string \<Rightarrow> string option" where
  "last_marked_line marker output =
     (case List.map_filter (strip_prefix marker) (rev (str_lines output)) of
        [] \<Rightarrow> None | r # _ \<Rightarrow> Some r)"

definition valid_tmux_id :: "string \<Rightarrow> bool" where
  "valid_tmux_id s =
     (case strip_prefix ''$'' s of
        None \<Rightarrow> False | Some suffix \<Rightarrow> suffix \<noteq> [] \<and> list_all is_ascii_digit suffix)"

definition field :: "nat \<Rightarrow> string list \<Rightarrow> string" where
  "field n fs = (if n < length fs then trim (fs ! n) else [])"

definition parse_remote_tmux_identity_output ::
    "crypto \<Rightarrow> string \<Rightarrow> string \<Rightarrow> api_error + remote_tmux_identity" where
  "parse_remote_tmux_identity_output cr output selector =
     (case last_marked_line (''AGENTUM_TMUX_IDENTITY'' @ [unit_separator]) output of
        None \<Rightarrow> Inl (ApiError_BadGateway ''remote tmux identity probe returned an invalid response'')
      | Some record_line \<Rightarrow>
          let fs = split_on unit_separator record_line;
              resolved = field 0 fs; session_id = field 1 fs; marker = field 2 fs
          in if length fs > 3 then
               Inl (ApiError_BadGateway ''remote tmux identity probe returned an invalid field count'')
             else if resolved = [] \<or> \<not> valid_tmux_id session_id then
               Inl (ApiError_Conflict (''tmux selector `'' @ selector @
                 ''` does not resolve to a live session identity''))
             else if marker = [] then
               Inr \<lparr>rti_name = resolved, rti_id = session_id, rti_owner = None\<rparr>
             else
               (case cr_parse_uuid cr marker of
                  None \<Rightarrow> Inl (ApiError_Conflict (''tmux target `'' @ resolved @
                    ''` has an invalid Agentum ownership marker''))
                | Some owner \<Rightarrow>
                    Inr \<lparr>rti_name = resolved, rti_id = session_id, rti_owner = Some owner\<rparr>))"

text \<open>\<open>shlex::try_quote\<close> fails on a NUL byte and on nothing else.\<close>

definition quotable :: "string \<Rightarrow> bool" where
  "quotable s = (CHR 0x00 \<notin> set s)"

definition quoting :: "string \<Rightarrow> string \<Rightarrow> 'a act \<Rightarrow> 'a act" where
  "quoting s msg m = (if quotable s then m else raise (ApiError_BadRequest msg))"

definition target_not_quoted :: string where
  "target_not_quoted = ''tmux target could not be quoted''"

definition probe_tmux_identity :: "app_state \<Rightarrow> host \<Rightarrow> string \<Rightarrow> remote_tmux_identity act" where
  "probe_tmux_identity st h selector =
     quoting selector target_not_quoted
       (bind_act (host_command (en_text (as_en st)) h (Cmd_TmuxIdentity h selector)) (\<lambda>output.
          lift_result (parse_remote_tmux_identity_output (as_crypto st) output selector)))"

definition validate_exact_tmux_resolution :: "string \<Rightarrow> string \<Rightarrow> string + unit" where
  "validate_exact_tmux_resolution requested resolved =
     (if requested = resolved then Inr ()
      else Inl (''tmux target `'' @ requested @ ''` resolves by prefix to `'' @ resolved @
                ''`; refusing non-exact ownership''))"

definition conflict_on :: "string + 'a \<Rightarrow> 'a act" where
  "conflict_on r = lift_result (case r of Inl m \<Rightarrow> Inl (ApiError_Conflict m) | Inr x \<Rightarrow> Inr x)"

definition exact_remote_tmux_identity :: "app_state \<Rightarrow> host \<Rightarrow> string \<Rightarrow> remote_tmux_identity act" where
  "exact_remote_tmux_identity st h target =
     bind_act (probe_tmux_identity st h target) (\<lambda>idn.
       then_act (conflict_on (validate_exact_tmux_resolution target (rti_name idn))) (ret idn))"

definition mark_remote_tmux_owner_if_absent :: "app_state \<Rightarrow> host \<Rightarrow> string \<Rightarrow> uuid \<Rightarrow> unit act" where
  "mark_remote_tmux_owner_if_absent st h exact_selector i =
     quoting exact_selector target_not_quoted
       (host_command (en_unit (as_en st)) h (Cmd_SetOwnerIfAbsent h exact_selector i))"

definition owned_by_other :: "string \<Rightarrow> uuid \<Rightarrow> uuid \<Rightarrow> api_error" where
  "owned_by_other target owner i =
     ApiError_Conflict (''tmux target `'' @ target @ ''` belongs to Agentum session '' @ owner @
       '', not '' @ i)"

definition mark_remote_tmux_owner :: "app_state \<Rightarrow> host \<Rightarrow> string \<Rightarrow> string \<Rightarrow> uuid \<Rightarrow> unit act" where
  "mark_remote_tmux_owner st h expected_name exact_selector i =
     then_act (mark_remote_tmux_owner_if_absent st h exact_selector i)
       (bind_act (probe_tmux_identity st h exact_selector) (\<lambda>idn.
          if rti_name idn \<noteq> expected_name then
            raise (ApiError_Conflict (''tmux identity `'' @ exact_selector @ ''` changed from `'' @
              expected_name @ ''` to `'' @ rti_name idn @ ''`''))
          else case rti_owner idn of
              Some owner \<Rightarrow> if owner = i then ret () else raise (owned_by_other expected_name owner i)
            | None \<Rightarrow> raise (ApiError_Conflict (''tmux target `'' @ expected_name @
                ''` remained unmarked after ownership claim''))))"

definition validate_legacy_owner_migration_binding ::
    "uuid \<Rightarrow> bool \<Rightarrow> uuid option \<Rightarrow> string option \<Rightarrow> uuid \<Rightarrow> string \<Rightarrow> uuid list \<Rightarrow> string + unit" where
  "validate_legacy_owner_migration_binding i external persisted_host_id persisted_target live_host_id
       live_target exact_binding_ids =
     (if external then Inl ''external tmux sessions are user-owned''
      else if persisted_host_id \<noteq> Some live_host_id \<or> persisted_target \<noteq> Some live_target then
        Inl ''the live host/target is not the session's exact persisted binding''
      else if (case strip_prefix ''agentum-'' live_target of None \<Rightarrow> True | Some suffix \<Rightarrow> suffix = []) then
        Inl ''the target is not a historical `agentum-` managed target''
      else case exact_binding_ids of
          [only] \<Rightarrow>
            if only = i then Inr ()
            else Inl (''the sole persisted binding belongs to Agentum session '' @ only)
        | bindings \<Rightarrow>
            Inl (''found '' @ string_of_nat (length bindings) @
                 '' persisted session bindings for the host/target pair''))"

definition binding_ids :: "session list \<Rightarrow> uuid \<Rightarrow> string \<Rightarrow> uuid list" where
  "binding_ids ss host_id target =
     map s_id (filter (\<lambda>b. s_host_id b = Some host_id \<and> s_tmux_target b = Some target) ss)"

definition verify_migrated_owner ::
    "app_state \<Rightarrow> host \<Rightarrow> session \<Rightarrow> string \<Rightarrow> string \<Rightarrow> string act" where
  "verify_migrated_owner st h s target tmux_id =
     bind_act (probe_tmux_identity st h tmux_id) (\<lambda>verified.
       if rti_name verified \<noteq> target \<or> rti_id verified \<noteq> tmux_id then
         raise (ApiError_Conflict (''tmux identity `'' @ tmux_id @ ''` changed while migrating `'' @
           target @ ''`''))
       else case rti_owner verified of
           Some owner \<Rightarrow>
             if owner = s_id s then ret tmux_id else raise (owned_by_other target owner (s_id s))
         | None \<Rightarrow> raise (ApiError_Conflict (''tmux target `'' @ target @
             ''` remained unmarked after legacy ownership migration'')))"

definition migrate_owner :: "app_state \<Rightarrow> host \<Rightarrow> session \<Rightarrow> string \<Rightarrow> string \<Rightarrow> string act" where
  "migrate_owner st h s target tmux_id =
     bind_act (store_read (\<lambda>d. list_sessions (as_cx st) d None)) (\<lambda>ss.
       case validate_legacy_owner_migration_binding (s_id s) (is_external s) (s_host_id s)
              (s_tmux_target s) (h_id h) target (binding_ids ss (h_id h) target) of
         Inl reason \<Rightarrow>
           raise (ApiError_Conflict (''tmux target `'' @ target @ ''` has no Agentum ownership marker;'' @
             '' refusing legacy ownership migration: '' @ reason))
       | Inr _ \<Rightarrow>
           then_act (mark_remote_tmux_owner_if_absent st h tmux_id (s_id s))
             (verify_migrated_owner st h s target tmux_id))"

definition migrate_or_verify_remote_tmux_owner ::
    "app_state \<Rightarrow> host \<Rightarrow> session \<Rightarrow> string \<Rightarrow> string act" where
  "migrate_or_verify_remote_tmux_owner st h s target =
     bind_act (exact_remote_tmux_identity st h target) (\<lambda>idn.
       case rti_owner idn of
         Some owner \<Rightarrow>
           if owner \<noteq> s_id s then raise (owned_by_other target owner (s_id s)) else ret (rti_id idn)
       | None \<Rightarrow> migrate_owner st h s target (rti_id idn))"

definition guard_managed_ssh_tmux_io :: "app_state \<Rightarrow> host \<Rightarrow> session \<Rightarrow> string \<Rightarrow> string act" where
  "guard_managed_ssh_tmux_io st h s target =
     (if \<not> is_external s \<and> is_ssh h then migrate_or_verify_remote_tmux_owner st h s target
      else ret target)"

section \<open>Generations of the MCP credential\<close>

definition hex_digit :: "nat \<Rightarrow> char" where
  "hex_digit n = ''0123456789abcdef'' ! n"

definition hex_byte :: "char \<Rightarrow> string" where
  "hex_byte c = (let n = of_char c in [hex_digit (n div 16), hex_digit (n mod 16)])"

definition mcp_token_generation :: "app_state \<Rightarrow> string" where
  "mcp_token_generation st =
     concat (map hex_byte
       (take 12 (as_sha256 st (''session-scoped-mcp-v1'' @ [CHR 0x00] @ as_mcp_token st))))"

definition parse_generation :: "string \<Rightarrow> api_error + string option" where
  "parse_generation output =
     (case last_marked_line (''AGENTUM_MCP_GENERATION'' @ [CHR 0x09]) output of
        None \<Rightarrow> Inl (ApiError_BadGateway ''remote tmux MCP generation probe returned an invalid response'')
      | Some line \<Rightarrow> Inr (if trim line = [] then None else Some (trim line)))"

definition remote_tmux_mcp_generation :: "app_state \<Rightarrow> host \<Rightarrow> string \<Rightarrow> string option act" where
  "remote_tmux_mcp_generation st h target =
     quoting target target_not_quoted
       (bind_act (host_command (en_text (as_en st)) h (Cmd_ShowGeneration h target)) (\<lambda>output.
          lift_result (parse_generation output)))"

definition mark_remote_tmux_mcp_generation :: "app_state \<Rightarrow> host \<Rightarrow> string \<Rightarrow> string \<Rightarrow> unit act" where
  "mark_remote_tmux_mcp_generation st h target generation =
     quoting target target_not_quoted
       (quoting generation ''MCP generation could not be quoted''
          (host_command (en_unit (as_en st)) h (Cmd_SetGeneration h target generation)))"

section \<open>Claude's configuration with the credential\<close>

definition prepare_remote_runtime_dir :: "app_state \<Rightarrow> host \<Rightarrow> string \<Rightarrow> unit act" where
  "prepare_remote_runtime_dir st h home =
     (let dir = path_join home ''.agentum/runtime''
      in quoting dir ''remote runtime path could not be quoted''
           (host_command (en_unit (as_en st)) h (Cmd_PrepareRuntimeDir h dir)))"

definition remote_claude_mcp_config_path :: "string \<Rightarrow> uuid \<Rightarrow> string" where
  "remote_claude_mcp_config_path home i =
     path_join (path_join home ''.agentum/runtime'') (''mcp-'' @ i @ ''.json'')"

definition remove_remote_claude_mcp_config :: "app_state \<Rightarrow> host \<Rightarrow> uuid \<Rightarrow> unit act" where
  "remove_remote_claude_mcp_config st h i =
     (if \<not> is_ssh h then ret ()
      else host_command (en_unit (as_en st)) h (Cmd_RemoveRemoteConfig h i))"

definition combined_config_path_in :: "string \<Rightarrow> uuid \<Rightarrow> string" where
  "combined_config_path_in dir i = path_join dir (''mcp-'' @ i @ ''.json'')"

text \<open>\<open>mcp_provision.rs\<close>: the error is the text of the failure.\<close>

definition remove_combined_config :: "app_state \<Rightarrow> uuid \<Rightarrow> (string + unit) act" where
  "remove_combined_config st i =
     (case as_state_dir st of
        Inl e \<Rightarrow> ret (Inl e)
      | Inr dir \<Rightarrow>
          bind_act (command (en_unit (as_en st)) (Cmd_RemoveLocalConfig (combined_config_path_in dir i))) (\<lambda>r.
            ret (case r of Inl e \<Rightarrow> Inl (error_text e) | Inr _ \<Rightarrow> Inr ())))"

definition write_combined_config :: "app_state \<Rightarrow> uuid \<Rightarrow> mcp_server list \<Rightarrow> (string + string) act" where
  "write_combined_config st i servers =
     (case as_state_dir st of
        Inl e \<Rightarrow> ret (Inl e)
      | Inr dir \<Rightarrow>
          let path = combined_config_path_in dir i
          in bind_act (command (en_unit (as_en st))
                         (Cmd_WriteLocalConfig path (config_json (as_crypto st) servers))) (\<lambda>r.
               ret (case r of Inl e \<Rightarrow> Inl (error_text e) | Inr _ \<Rightarrow> Inr path)))"

definition remove_session_claude_mcp_config :: "app_state \<Rightarrow> host \<Rightarrow> uuid \<Rightarrow> unit act" where
  "remove_session_claude_mcp_config st h i =
     (case h_kind h of
        HostKind_Local \<Rightarrow>
          bind_act (remove_combined_config st i) (\<lambda>r.
            case r of
              Inl e \<Rightarrow> raise (ApiError_Internal (Internal_Text (''remove local Claude MCP config: '' @ e)))
            | Inr _ \<Rightarrow> ret ())
      | HostKind_Ssh _ _ _ _ \<Rightarrow> remove_remote_claude_mcp_config st h i)"

text \<open>What its callers do with a failure: they log it.\<close>

definition forget_claude_config :: "app_state \<Rightarrow> host \<Rightarrow> string \<Rightarrow> uuid \<Rightarrow> unit act" where
  "forget_claude_config st h tool i =
     when_act (tool = ''claude'') (then_act (try_act (remove_session_claude_mcp_config st h i)) (ret ()))"

section \<open>Provisioning an agent with MCP servers (\<open>mcp_provision.rs\<close>)\<close>

definition provision_browser_mcp :: "app_state \<Rightarrow> browser_mcp_engine \<Rightarrow> (host_runtime_error + string) act" where
  "provision_browser_mcp st engine =
     (case engine of
        BrowserMcpEngine_PlaywrightHeadless \<Rightarrow> command (en_text (as_en st)) Cmd_PlaywrightHeadless
      | BrowserMcpEngine_PlaywrightBound \<Rightarrow>
          bind_act (command (en_text (as_en st)) Cmd_CdpBrowser) (\<lambda>r.
            case r of
              Inr endpoint \<Rightarrow> command (en_text (as_en st)) (Cmd_PlaywrightBound endpoint)
            | Inl _ \<Rightarrow> command (en_text (as_en st)) Cmd_PlaywrightHeadless))"

definition browser_servers :: "app_state \<Rightarrow> mcp_server list act" where
  "browser_servers st =
     (if \<not> as_playwright_enabled st then ret [] else
      bind_act (provision_browser_mcp st (parse_engine (as_browser_engine st))) (\<lambda>r.
        ret (case r of
            Inr url \<Rightarrow> [\<lparr>ms_name = ''playwright'', ms_url = url, ms_auth_token = None, ms_auth_env_var = None\<rparr>]
          | Inl _ \<Rightarrow> [])))"

definition agentum_server_now :: "app_state \<Rightarrow> uuid \<Rightarrow> string \<Rightarrow> mcp_server act" where
  "agentum_server_now st i url =
     bind_act (fresh_uuid (as_en st)) (\<lambda>u. ret (agentum_server (as_crypto st) (as_mcp_token st) u i url))"

definition provision :: "app_state \<Rightarrow> uuid \<Rightarrow> string \<Rightarrow> string \<Rightarrow> mcp_provision option act" where
  "provision st i tool agentum_mcp_url =
     (if \<not> tool_supports_mcp tool then ret None else
      bind_act (agentum_server_now st i agentum_mcp_url) (\<lambda>own.
      bind_act (browser_servers st) (\<lambda>more.
        let servers = own # more
        in if tool = ''claude'' then
             bind_act (write_combined_config st i servers) (\<lambda>r.
               ret (case r of
                   Inr path \<Rightarrow> Some \<lparr>mp_servers = servers, mp_config_file = path\<rparr>
                 | Inl _ \<Rightarrow> None))
           else ret (Some \<lparr>mp_servers = servers, mp_config_file = []\<rparr>))))"

text \<open>
  The name of the variable is drawn until it is fresh; the draws read the environment's UUIDs from
  the current tick on. A loop that does not end is the error of this function.
\<close>

definition draw_auth_env_name :: "app_state \<Rightarrow> string option \<Rightarrow> (string + string) act" where
  "draw_auth_env_name st existing w =
     (w\<lparr>w_ticks := Suc (w_ticks w)\<rparr>,
      Inr (ok_or ''no fresh name'' (fresh_project_auth_env_name existing (en_uuid (as_en st)) (w_ticks w))))"

definition fail_with :: "string \<Rightarrow> (string + 'a) act" where
  "fail_with m = ret (Inl m)"

text \<open>An action that may fail with a text (\<open>anyhow\<close>), followed by one that may as well.\<close>

definition bind_text :: "(string + 'a) act \<Rightarrow> ('a \<Rightarrow> (string + 'b) act) \<Rightarrow> (string + 'b) act" where
  "bind_text m f = bind_act m (\<lambda>r. case r of Inl e \<Rightarrow> fail_with e | Inr x \<Rightarrow> f x)"

definition with_context :: "string \<Rightarrow> (host_runtime_error + 'a) act \<Rightarrow> (string + 'a) act" where
  "with_context msg m = bind_act m (\<lambda>r. ret (case r of Inl _ \<Rightarrow> Inl msg | Inr x \<Rightarrow> Inr x))"

definition project_config_path :: "string \<Rightarrow> agent_mcp_file \<Rightarrow> string" where
  "project_config_path workdir f = trim_end_char (CHR ''/'') workdir @ ''/'' @ amf_rel_path f"

definition write_agent_project_config ::
    "app_state \<Rightarrow> uuid \<Rightarrow> host \<Rightarrow> string \<Rightarrow> string \<Rightarrow> string \<Rightarrow> (string + (string \<times> string) option) act" where
  "write_agent_project_config st i h workdir tool agentum_mcp_url =
     (case agent_mcp_file_for tool of
        None \<Rightarrow> ret (Inr None)
      | Some f \<Rightarrow>
          let abs_path = project_config_path workdir f
          in bind_act (agentum_server_now st i agentum_mcp_url) (\<lambda>server.
             bind_text (with_context (''read existing '' @ tool @ '' MCP config '' @ abs_path)
               (command (en_file (as_en st)) (Cmd_ReadFile h abs_path))) (\<lambda>existing.
             bind_text (draw_auth_env_name st existing) (\<lambda>env_name.
             bind_text (ret (merge_agent_config (as_crypto st) existing f server env_name)) (\<lambda>merged.
             bind_text (with_context (''write '' @ tool @ '' MCP config '' @ abs_path)
               (command (en_unit (as_en st)) (Cmd_WriteFile h abs_path merged))) (\<lambda>_.
               ret (Inr (map_option (\<lambda>token. (env_name, ''Bearer '' @ token)) (ms_auth_token server)))))))))"

definition verify_remote_agent_mcp_config ::
    "app_state \<Rightarrow> host \<Rightarrow> string \<Rightarrow> string \<Rightarrow> string \<Rightarrow> string \<Rightarrow> string \<Rightarrow> unit act" where
  "verify_remote_agent_mcp_config st h workdir tool expected_url expected_auth_env forbidden_secret =
     (case agent_mcp_file_for tool of
        None \<Rightarrow> ret ()
      | Some f \<Rightarrow>
          let abs_path = project_config_path workdir f
          in bind_act (host_command (en_file (as_en st)) h (Cmd_ReadFile h abs_path)) (\<lambda>found.
               case found of
                 None \<Rightarrow> raise (ApiError_BadGateway (''remote '' @ tool @
                           '' MCP config was not created at '' @ abs_path))
               | Some content \<Rightarrow>
                   if agent_mcp_config_matches (as_crypto st) content f expected_url expected_auth_env
                        forbidden_secret
                   then ret ()
                   else raise (ApiError_BadGateway (''remote '' @ tool @ '' MCP config at '' @ abs_path @
                     '' does not contain the current Agentum endpoint and credential reference''))))"

definition required_remote_mcp_port :: "app_state \<Rightarrow> api_error + 16 word" where
  "required_remote_mcp_port st =
     ok_or (ApiError_BadGateway (''remote launch requires Agentum's dedicated MCP listener; restart '' @
              ''the Agentum TUI or desktop app''))
       (local_mcp_port (as_mcp_base_url st))"

section \<open>Launching an agent into a new pane\<close>

definition pane_env :: "string option \<Rightarrow> uuid \<Rightarrow> string \<Rightarrow> string \<Rightarrow> (string \<times> string) list" where
  "pane_env api_base i session_name hook_token =
     (let base = (case api_base of Some b \<Rightarrow> b | None \<Rightarrow> ''http://127.0.0.1:8822'')
      in [(''AGENTUM_API_URL'', base),
          (''AGENTUM_TERMINAL_HANDLE'', session_name),
          (''AGENTUM_HOOK_URL'', base @ ''/api/sessions/'' @ i @ ''/hook''),
          (''AGENTUM_HOOK_TOKEN'', hook_token)])"

definition push_env :: "(string \<times> string) list \<Rightarrow> launch_command \<Rightarrow> launch_command" where
  "push_env kvs l = l\<lparr>lc_env := lc_env l @ kvs\<rparr>"

definition push_argv :: "string list \<Rightarrow> launch_command \<Rightarrow> launch_command" where
  "push_argv args l = l\<lparr>lc_argv := lc_argv l @ args\<rparr>"

text \<open>The command of the adapter, on an SSH host with the program and the \<open>PATH\<close> the host reported.\<close>

definition resolved_launch :: "app_state \<Rightarrow> session \<Rightarrow> launch_preflight option \<Rightarrow> api_error + launch_command" where
  "resolved_launch st s remote_preflight =
     (let a = adapter_for (s_tool s)
      in case remote_preflight of
           None \<Rightarrow> Inr (launch (as_local st) a s)
         | Some pf \<Rightarrow>
             let l = launch_remote (as_local st) a s
                       \<lparr>rl_shell = pf_shell pf, rl_claude_transcript_exists = pf_claude_transcript_exists pf\<rparr>
             in case lc_argv l of
                  [] \<Rightarrow> Inl (ApiError_BadRequest (''tool adapter `'' @ s_tool s @
                          ''` produced an empty launch command''))
                | _ # args \<Rightarrow>
                    Inr \<lparr>lc_argv = pf_executable pf # args,
                         lc_env = filter (\<lambda>(key, _). key \<noteq> ''PATH'') (lc_env l) @
                                  [(''PATH'', pf_fresh_path pf)]\<rparr>)"

definition hook_settings :: json where
  "hook_settings =
     JObj [(''hooks'', JObj [(''PostToolUse'', JArr [JObj [
       (''matcher'', JStr ''*''),
       (''hooks'', JArr [JObj [
          (''type'', JStr ''command''),
          (''command'', JStr (''curl -s -X POST \"$AGENTUM_HOOK_URL\" '' @
             ''-H \"X-Agentum-Hook-Token: $AGENTUM_HOOK_TOKEN\" '' @
             ''-H \"Content-Type: application/json\" '' @
             ''-d '' @ [CHR 0x27] @ ''{\"kind\":\"tool_done\",\"payload\":{}}'' @ [CHR 0x27]))]])]])])]"

definition draw_token :: "app_state \<Rightarrow> string act" where
  "draw_token st w = (w\<lparr>w_ticks := Suc (w_ticks w)\<rparr>, Inr (as_new_token st (w_ticks w)))"

definition local_agentum_mcp_url :: "app_state \<Rightarrow> string" where
  "local_agentum_mcp_url st =
     (case as_mcp_base_url st of
        Some b \<Rightarrow> b
      | None \<Rightarrow> (case as_api_base_url st of Some b \<Rightarrow> b | None \<Rightarrow> ''http://127.0.0.1:8822'')) @ ''/mcp''"

definition wire_local :: "app_state \<Rightarrow> session \<Rightarrow> host \<Rightarrow> string \<Rightarrow> launch_command \<Rightarrow> launch_command act" where
  "wire_local st s h workdir l0 =
     bind_act (draw_token st) (\<lambda>hook_token.
     let l1 = push_env (pane_env (as_api_base_url st) (s_id s) (s_name s) hook_token) l0;
         l2 = (if s_tool s = ''claude''
               then push_argv [''--settings'', cx_print_json (as_cx st) hook_settings] l1 else l1);
         url = local_agentum_mcp_url st
     in then_act (set_hook_token (s_id s) (Some hook_token))
        (bind_act (provision st (s_id s) (s_tool s) url) (\<lambda>p.
         let l3 = (case p of Some p \<Rightarrow> apply_mcp (adapter_for (s_tool s)) l2 p | None \<Rightarrow> l2)
         in bind_act (write_agent_project_config st (s_id s) h workdir (s_tool s) url) (\<lambda>r.
              ret (case r of Inr (Some kv) \<Rightarrow> push_env [kv] l3 | _ \<Rightarrow> l3)))))"

definition remote_provision ::
    "app_state \<Rightarrow> session \<Rightarrow> host \<Rightarrow> launch_preflight \<Rightarrow> mcp_server list \<Rightarrow> mcp_provision act" where
  "remote_provision st s h pf servers =
     (if s_tool s = ''claude'' then
        let host_cfg = remote_claude_mcp_config_path (pf_home pf) (s_id s)
        in then_act (prepare_remote_runtime_dir st h (pf_home pf))
           (then_act (host_command (en_unit (as_en st)) h
                        (Cmd_WriteFile h host_cfg (config_json (as_crypto st) servers)))
             (ret \<lparr>mp_servers = servers, mp_config_file = host_cfg\<rparr>))
      else ret \<lparr>mp_servers = servers, mp_config_file = []\<rparr>)"

definition wire_remote ::
    "app_state \<Rightarrow> session \<Rightarrow> host \<Rightarrow> launch_preflight \<Rightarrow> string \<Rightarrow> string \<Rightarrow> launch_command \<Rightarrow> launch_command act" where
  "wire_remote st s h pf workdir session_mcp_secret l0 =
     bind_act (lift_result (required_remote_mcp_port st)) (\<lambda>mac_port.
     bind_act (host_command (en_port (as_en st)) h (Cmd_ReverseTunnel h mac_port)) (\<lambda>host_port.
     let l1 = push_env [(''AGENTUM_TERMINAL_HANDLE'', s_name s)] l0;
         url = ''http://127.0.0.1:'' @ string_of_nat (unat host_port) @ ''/mcp''
     in bind_act (agentum_server_now st (s_id s) url) (\<lambda>server.
        bind_act (remote_provision st s h pf [server]) (\<lambda>p.
        let l2 = apply_mcp (adapter_for (s_tool s)) l1 p
        in bind_act (write_agent_project_config st (s_id s) h workdir (s_tool s) url) (\<lambda>r.
           case r of
             Inl e \<Rightarrow> raise (ApiError_BadGateway (''could not provision remote '' @ s_tool s @
                        '' MCP project config: '' @ e))
           | Inr (Some (env_name, env_value)) \<Rightarrow>
               then_act (verify_remote_agent_mcp_config st h workdir (s_tool s) url env_name session_mcp_secret)
                 (ret (push_env [(env_name, env_value)] l2))
           | Inr None \<Rightarrow>
               if agent_mcp_file_for (s_tool s) \<noteq> None then
                 raise (ApiError_BadGateway (''remote '' @ s_tool s @
                   '' MCP project config did not produce a launch credential''))
               else ret l2)))))"

text \<open>The pane, with its log armed: what failed is a value, because the launch is rolled back.\<close>

definition launch_pane ::
    "app_state \<Rightarrow> host \<Rightarrow> string \<Rightarrow> string \<Rightarrow> launch_command \<Rightarrow> string list \<Rightarrow> string \<Rightarrow> (api_error + unit) act" where
  "launch_pane st h target workdir l secrets log =
     (case h_kind h of
        HostKind_Local \<Rightarrow>
          bind_act (command (en_unit (as_en st)) (Cmd_NewSession h target workdir (lc_argv l) (lc_env l))) (\<lambda>r.
            case r of
              Inl e \<Rightarrow> ret (Inl (from_host_runtime h e))
            | Inr _ \<Rightarrow>
                bind_act (command (en_unit (as_en st)) (Cmd_PipePane h target log)) (\<lambda>r'.
                  case r' of
                    Inl e \<Rightarrow>
                      then_act (command (en_unit (as_en st)) (Cmd_KillSession h target))
                        (ret (Inl (from_host_runtime h e)))
                  | Inr _ \<Rightarrow> ret (Inr ())))
      | HostKind_Ssh _ _ _ _ \<Rightarrow>
          try_act (host_command (en_unit (as_en st)) h
            (Cmd_LaunchRemote h target workdir (lc_argv l) (lc_env l) secrets log)))"

definition kill_quietly :: "app_state \<Rightarrow> host \<Rightarrow> string \<Rightarrow> unit act" where
  "kill_quietly st h target =
     then_act (command (en_unit (as_en st)) (Cmd_KillSession h target)) (ret ())"

text \<open>The durable marker of a new remote pane; the immutable identity is the first component.\<close>

definition commit_remote_owner ::
    "app_state \<Rightarrow> session \<Rightarrow> host \<Rightarrow> string \<Rightarrow> (string option \<times> (api_error + unit)) act" where
  "commit_remote_owner st s h target =
     bind_act (try_act (exact_remote_tmux_identity st h target)) (\<lambda>r.
       case r of
         Inl e \<Rightarrow> ret (None, Inl e)
       | Inr idn \<Rightarrow>
           bind_act (try_act (mark_remote_tmux_owner st h target (rti_id idn) (s_id s))) (\<lambda>m.
             case m of
               Inr _ \<Rightarrow> ret (Some (rti_id idn), Inr ())
             | Inl e \<Rightarrow>
                 then_act (kill_quietly st h (rti_id idn)) (ret (Some (rti_id idn), Inl e))))"

definition control_target_of :: "string option \<Rightarrow> string \<Rightarrow> string" where
  "control_target_of remote_control_target target =
     (case remote_control_target of Some t \<Rightarrow> t | None \<Rightarrow> target)"

definition commit_remote_generation ::
    "app_state \<Rightarrow> host \<Rightarrow> string \<Rightarrow> (api_error + unit) act" where
  "commit_remote_generation st h control_target =
     bind_act (try_act (mark_remote_tmux_mcp_generation st h control_target (mcp_token_generation st))) (\<lambda>m.
       case m of
         Inr _ \<Rightarrow> ret (Inr ())
       | Inl e \<Rightarrow> then_act (kill_quietly st h control_target) (ret (Inl e)))"

definition launch_and_mark ::
    "app_state \<Rightarrow> session \<Rightarrow> host \<Rightarrow> string \<Rightarrow> string \<Rightarrow> launch_command \<Rightarrow> string list \<Rightarrow> string \<Rightarrow>
     (string option \<times> (api_error + unit)) act" where
  "launch_and_mark st s h target workdir l secrets log =
     bind_act (launch_pane st h target workdir l secrets log) (\<lambda>r1.
       if \<not> is_ssh h \<or> \<not> is_ok r1 then ret (None, r1) else
       bind_act (commit_remote_owner st s h target) (\<lambda>(remote_control_target, r2).
         if \<not> is_ok r2 \<or> \<not> tool_consumes_agentum_mcp (s_tool s) then ret (remote_control_target, r2) else
         bind_act (commit_remote_generation st h (control_target_of remote_control_target target)) (\<lambda>r3.
           ret (remote_control_target, r3))))"

definition mark_running :: "app_state \<Rightarrow> uuid \<Rightarrow> string \<Rightarrow> unit act" where
  "mark_running st i target =
     store_write (as_en st) (\<lambda>now _ d. update_status_and_target (as_cx st) now d i Status_Running (Some target))"

text \<open>What happens to the pane once the launch has a result.\<close>

definition settle_launch ::
    "app_state \<Rightarrow> session \<Rightarrow> host \<Rightarrow> string \<Rightarrow> string option \<times> (api_error + unit) \<Rightarrow> unit act" where
  "settle_launch st s h target = (\<lambda>(remote_control_target, launch_result).
     (case launch_result of
        Inl e \<Rightarrow>
          then_act (forget_claude_config st h (s_tool s) (s_id s))
            (then_act (set_hook_token (s_id s) None) (raise e))
      | Inr _ \<Rightarrow>
          bind_act (try_act (mark_running st (s_id s) target)) (\<lambda>r.
            case r of
              Inr _ \<Rightarrow> ret ()
            | Inl e \<Rightarrow>
                then_act (kill_quietly st h (control_target_of remote_control_target target))
                  (then_act (forget_claude_config st h (s_tool s) (s_id s))
                    (then_act (set_hook_token (s_id s) None) (raise e))))))"

definition preflight_remote :: "app_state \<Rightarrow> host \<Rightarrow> string \<Rightarrow> string \<Rightarrow> uuid \<Rightarrow> launch_preflight act" where
  "preflight_remote st h workdir tool i =
     host_command (en_preflight (as_en st)) h (Cmd_Preflight h workdir tool i)"

definition maybe_preflight :: "app_state \<Rightarrow> session \<Rightarrow> host \<Rightarrow> string \<Rightarrow> launch_preflight option act" where
  "maybe_preflight st s h workdir =
     (if is_ssh h
      then bind_act (preflight_remote st h workdir (s_tool s) (s_id s)) (\<lambda>pf. ret (Some pf))
      else ret None)"

definition pane_log_for :: "app_state \<Rightarrow> uuid \<Rightarrow> string act" where
  "pane_log_for st i =
     lift_result (case as_pane_log st i of
        Inl e \<Rightarrow> Inl (ApiError_Internal (Internal_Text e)) | Inr p \<Rightarrow> Inr p)"

definition wire_agent ::
    "app_state \<Rightarrow> session \<Rightarrow> host \<Rightarrow> launch_preflight option \<Rightarrow> string \<Rightarrow> string \<Rightarrow> launch_command \<Rightarrow>
     launch_command act" where
  "wire_agent st s h pf workdir secret l =
     (case pf of
        None \<Rightarrow> wire_local st s h workdir l
      | Some pf \<Rightarrow>
          if tool_consumes_agentum_mcp (s_tool s) then wire_remote st s h pf workdir secret l else ret l)"

definition spawn_agent_into_pane_locked ::
    "app_state \<Rightarrow> session \<Rightarrow> host \<Rightarrow> string \<Rightarrow> string \<Rightarrow> unit act" where
  "spawn_agent_into_pane_locked st s h target workdir =
     bind_act (maybe_preflight st s h workdir) (\<lambda>pf.
     let resolved_workdir = (case pf of Some p \<Rightarrow> pf_workdir p | None \<Rightarrow> workdir);
         secret = session_mcp_token (as_crypto st) (as_mcp_token st) (s_id s)
     in bind_act (lift_result (resolved_launch st s pf)) (\<lambda>l.
        bind_act (pane_log_for st (s_id s)) (\<lambda>log.
        bind_act (wire_agent st s h pf resolved_workdir secret l) (\<lambda>l'.
        bind_act (launch_and_mark st s h target resolved_workdir l' [as_mcp_token st, secret] log)
          (settle_launch st s h target)))))"

section \<open>Start\<close>

text \<open>
  A live managed pane on an SSH host: it must be ours, and carry the credential of this server.
  The result is whether the pane is still there to reattach to, and its immutable identity.
\<close>

definition rearm_tunnel :: "app_state \<Rightarrow> host \<Rightarrow> unit act" where
  "rearm_tunnel st h =
     bind_act (lift_result (required_remote_mcp_port st)) (\<lambda>mac_port.
       then_act (host_command (en_port (as_en st)) h (Cmd_ReverseTunnel h mac_port)) (ret ()))"

definition reconcile_live_remote ::
    "app_state \<Rightarrow> uuid \<Rightarrow> session \<Rightarrow> host \<Rightarrow> string \<Rightarrow> (bool \<times> string option) act" where
  "reconcile_live_remote st i s h target =
     bind_act (migrate_or_verify_remote_tmux_owner st h s target) (\<lambda>exact_target.
       if \<not> tool_consumes_agentum_mcp (s_tool s) then ret (True, Some exact_target) else
       bind_act (remote_tmux_mcp_generation st h exact_target) (\<lambda>current.
         if current \<noteq> Some (mcp_token_generation st) then
           then_act (host_command (en_unit (as_en st)) h (Cmd_KillSession h exact_target))
             (then_act (store_write (as_en st) (\<lambda>now _ d.
                 update_status_and_target (as_cx st) now d i Status_Idle None))
               (ret (False, Some exact_target)))
         else then_act (rearm_tunnel st h) (ret (True, Some exact_target))))"

definition reattach ::
    "app_state \<Rightarrow> uuid \<Rightarrow> session \<Rightarrow> host \<Rightarrow> string \<Rightarrow> string option \<Rightarrow> (session \<times> bool) act" where
  "reattach st i s h target remote_control_target =
     bind_act (pane_log_for st (s_id s)) (\<lambda>log.
     then_act (host_command (en_unit (as_en st)) h
                 (Cmd_PipePane h (control_target_of remote_control_target target) log))
     (then_act (when_act (s_status s \<noteq> Status_Running \<or> s_tmux_target s \<noteq> Some target)
                  (mark_running st i target))
     (bind_act (load_session st i) (\<lambda>s'. ret (s', False)))))"

definition start_workdir :: "app_state \<Rightarrow> session \<Rightarrow> host \<Rightarrow> string act" where
  "start_workdir st s h =
     (case h_kind h of
        HostKind_Local \<Rightarrow>
          bind_act (lift_result (expand_workdir st (effective_cwd s))) (\<lambda>workdir.
            then_act (heal_local_workdir st workdir) (ret workdir))
      | HostKind_Ssh _ _ _ _ \<Rightarrow> ret (effective_cwd s))"

definition start_fresh :: "app_state \<Rightarrow> uuid \<Rightarrow> session \<Rightarrow> host \<Rightarrow> string \<Rightarrow> (session \<times> bool) act" where
  "start_fresh st i s h target =
     then_act (when_act (\<not> is_external s \<and> s_tool s = ''claude'')
                 (remove_session_claude_mcp_config st h i))
     (if is_external s then
        raise (ApiError_BadRequest ''the external tmux session no longer exists on its host'')
      else
        bind_act (start_workdir st s h) (\<lambda>workdir.
          then_act (spawn_agent_into_pane_locked st s h target workdir)
            (bind_act (load_session st i) (\<lambda>s'. ret (s', True)))))"

text \<open>The rest of an operation once its session is loaded is a definition of its own.\<close>

definition start_target_on ::
    "app_state \<Rightarrow> uuid \<Rightarrow> session \<Rightarrow> host \<Rightarrow> string \<Rightarrow> (session \<times> bool) act" where
  "start_target_on st i s h target =
     bind_act (host_command (en_bool (as_en st)) h (Cmd_HasSession h target)) (\<lambda>already0.
     bind_act (if already0 \<and> \<not> is_external s \<and> is_ssh h then reconcile_live_remote st i s h target
               else ret (already0, None)) (\<lambda>(already, remote_control_target).
       if already then reattach st i s h target remote_control_target
       else start_fresh st i s h target))"

definition start_on :: "app_state \<Rightarrow> uuid \<Rightarrow> session \<Rightarrow> host \<Rightarrow> (session \<times> bool) act" where
  "start_on st i s h = bind_act (lift_result (start_target s)) (start_target_on st i s h)"

definition start_loaded :: "app_state \<Rightarrow> uuid \<Rightarrow> session \<Rightarrow> (session \<times> bool) act" where
  "start_loaded st i s = bind_act (load_host_for_session st s) (start_on st i s)"

definition start_session_locked :: "app_state \<Rightarrow> uuid \<Rightarrow> (session \<times> bool) act" where
  "start_session_locked st i = bind_act (load_session st i) (start_loaded st i)"

definition resume_idle_session_by_id :: "app_state \<Rightarrow> uuid \<Rightarrow> (session \<times> bool) option act" where
  "resume_idle_session_by_id st i =
     bind_act (load_session st i) (\<lambda>s.
       if s_status s \<noteq> Status_Idle then ret None
       else bind_act (start_session_locked st i) (\<lambda>r. ret (Some r)))"

definition reprovision_running_remote_mcp_session_by_id ::
    "app_state \<Rightarrow> uuid \<Rightarrow> (session \<times> bool) option act" where
  "reprovision_running_remote_mcp_session_by_id st i =
     bind_act (load_session st i) (\<lambda>s.
       if s_status s \<noteq> Status_Running \<or> is_external s \<or> \<not> tool_consumes_agentum_mcp (s_tool s) then ret None
       else bind_act (load_host_for_session st s) (\<lambda>h.
         if \<not> is_ssh h then ret None
         else bind_act (start_session_locked st i) (\<lambda>r. ret (Some r))))"

section \<open>Stop, kill and removal\<close>

definition emit_stopped :: "app_state \<Rightarrow> session \<Rightarrow> string \<Rightarrow> unit act" where
  "emit_stopped st s reason w =
     (let now = en_clock (as_en st) (w_ticks w);
          ev = with_payload (JObj [(''reason'', JStr reason)])
                 (with_session (s_id s) (s_name s) (Event_new now ''session.stopped''))
      in (w\<lparr>w_db := fst (insert_event (as_cx st) (w_db w) ev), w_bus := w_bus w @ [ev],
            w_ticks := Suc (w_ticks w)\<rparr>, Inr ()))"

definition mark_stopped :: "app_state \<Rightarrow> uuid \<Rightarrow> string option \<Rightarrow> unit act" where
  "mark_stopped st i target =
     store_write (as_en st) (\<lambda>now _ d. update_status_and_target (as_cx st) now d i Status_Stopped target)"

text \<open>
  Stop and kill share their shape and differ in the command that ends a managed pane and in the
  reason they report.
\<close>

definition managed_remote :: "session \<Rightarrow> host \<Rightarrow> bool" where
  "managed_remote s h = (\<not> is_external s \<and> is_ssh h)"

definition owned_control_target ::
    "app_state \<Rightarrow> session \<Rightarrow> host \<Rightarrow> string \<Rightarrow> bool \<Rightarrow> string act" where
  "owned_control_target st s h target live =
     (if managed_remote s h \<and> live then migrate_or_verify_remote_tmux_owner st h s target else ret target)"

definition end_pane ::
    "(host \<Rightarrow> string \<Rightarrow> host_cmd) \<Rightarrow> app_state \<Rightarrow> uuid \<Rightarrow> session \<Rightarrow> host \<Rightarrow> string \<Rightarrow> bool \<Rightarrow> unit act" where
  "end_pane cmd st i s h control_target live =
     (if is_external s then
        then_act (command (en_unit (as_en st)) (Cmd_UnpipePane h (tmux_target s)))
          (mark_stopped st i (Some (tmux_target s)))
      else
        then_act (when_act live (host_command (en_unit (as_en st)) h (cmd h control_target)))
          (mark_stopped st i None))"

definition after_end :: "string \<Rightarrow> app_state \<Rightarrow> uuid \<Rightarrow> session \<Rightarrow> host \<Rightarrow> session act" where
  "after_end reason st i s h =
     then_act (forget_claude_config st h (s_tool s) i)
       (then_act (set_hook_token i None)
       (then_act (emit_stopped st s reason)
         (load_session st i)))"

definition end_on ::
    "(host \<Rightarrow> string \<Rightarrow> host_cmd) \<Rightarrow> string \<Rightarrow> app_state \<Rightarrow> uuid \<Rightarrow> session \<Rightarrow> host \<Rightarrow> session act" where
  "end_on cmd reason st i s h =
     bind_act (if managed_remote s h
               then host_command (en_bool (as_en st)) h (Cmd_HasSession h (tmux_target s)) else ret True) (\<lambda>live.
     bind_act (owned_control_target st s h (tmux_target s) live) (\<lambda>control_target.
       then_act (end_pane cmd st i s h control_target live) (after_end reason st i s h)))"

definition end_loaded ::
    "(host \<Rightarrow> string \<Rightarrow> host_cmd) \<Rightarrow> string \<Rightarrow> app_state \<Rightarrow> uuid \<Rightarrow> session \<Rightarrow> session act" where
  "end_loaded cmd reason st i s = bind_act (load_host_for_session st s) (end_on cmd reason st i s)"

definition end_session ::
    "(host \<Rightarrow> string \<Rightarrow> host_cmd) \<Rightarrow> string \<Rightarrow> app_state \<Rightarrow> uuid \<Rightarrow> session act" where
  "end_session cmd reason st i = bind_act (load_session st i) (end_loaded cmd reason st i)"

definition stop_session_locked :: "app_state \<Rightarrow> uuid \<Rightarrow> session act" where
  "stop_session_locked = end_session Cmd_GracefulStop ''stop''"

definition kill_session_locked :: "app_state \<Rightarrow> uuid \<Rightarrow> session act" where
  "kill_session_locked = end_session Cmd_KillSession ''kill''"

text \<open>May the pane be torn down, and under which name: the check of \<open>delete\<close>.\<close>

definition delete_permission ::
    "app_state \<Rightarrow> session \<Rightarrow> host \<Rightarrow> string \<Rightarrow> (bool \<times> string) act" where
  "delete_permission st s h target =
     (if \<not> managed_remote s h then ret (True, target) else
      bind_act (command (en_bool (as_en st)) (Cmd_HasSession h target)) (\<lambda>r.
        case r of
          Inr True \<Rightarrow>
            bind_act (migrate_or_verify_remote_tmux_owner st h s target) (\<lambda>control_target.
              ret (True, control_target))
        | _ \<Rightarrow> ret (False, target)))"

definition delete_teardown :: "app_state \<Rightarrow> uuid \<Rightarrow> session \<Rightarrow> host \<Rightarrow> unit act" where
  "delete_teardown st i s h =
     (let target = tmux_target s
      in bind_act (delete_permission st s h target) (\<lambda>(may_teardown, control_target).
           then_act (when_act may_teardown
             (if is_external s
              then then_act (command (en_unit (as_en st)) (Cmd_UnpipePane h target)) (ret ())
              else kill_quietly st h control_target))
           (forget_claude_config st h (s_tool s) i)))"

definition delete_loaded :: "app_state \<Rightarrow> uuid \<Rightarrow> bool \<Rightarrow> session \<Rightarrow> unit act" where
  "delete_loaded st i force s =
     (if s_status s = Status_Running \<and> \<not> force then
        raise (ApiError_BadRequest ''session is running; pass ?force=true to kill and remove'')
      else
        bind_act (try_act (load_host_for_session st s)) (\<lambda>r.
          then_act (case r of Inl _ \<Rightarrow> ret () | Inr h \<Rightarrow> delete_teardown st i s h)
            (store_write (as_en st) (\<lambda>_ _ d. delete_session d i))))"

definition delete_session_locked :: "app_state \<Rightarrow> uuid \<Rightarrow> bool \<Rightarrow> unit act" where
  "delete_session_locked st i force = bind_act (load_session st i) (delete_loaded st i force)"

section \<open>Creation\<close>

record worktree_spec =
  wsp_branch :: "string option"
  wsp_base_ref :: "string option"

definition load_host :: "app_state \<Rightarrow> uuid \<Rightarrow> host act" where
  "load_host st host_id =
     bind_act (store_read (\<lambda>d. get_host (as_cx st) d host_id)) (\<lambda>found.
       case found of Some h \<Rightarrow> ret h | None \<Rightarrow> raise (ApiError_BadRequest (''unknown host: '' @ host_id)))"

definition nil_uuid :: uuid where
  "nil_uuid = ''00000000-0000-0000-0000-000000000000''"

definition insert_session :: "app_state \<Rightarrow> new_session \<Rightarrow> uuid \<Rightarrow> session act" where
  "insert_session st new host_id =
     store_write (as_en st) (\<lambda>now i d. create_session_on_host (as_cx st) now i d new (Some host_id))"

definition remote_workdir :: "app_state \<Rightarrow> host \<Rightarrow> new_session \<Rightarrow> string act" where
  "remote_workdir st h new =
     bind_act (preflight_remote st h (trim (ns_workdir new)) (ns_tool new) nil_uuid) (\<lambda>pf.
       ret (pf_workdir pf))"

definition create_workdir :: "app_state \<Rightarrow> host \<Rightarrow> new_session \<Rightarrow> worktree_spec option \<Rightarrow> string act" where
  "create_workdir st h new worktree =
     (case h_kind h of
        HostKind_Local \<Rightarrow>
          bind_act (lift_result (expand_workdir st (ns_workdir new))) (\<lambda>workdir.
            then_act (heal_local_workdir st workdir) (ret workdir))
      | HostKind_Ssh _ _ _ _ \<Rightarrow>
          if worktree \<noteq> None then
            raise (ApiError_BadRequest ''worktree isolation is not available on SSH hosts yet'')
          else remote_workdir st h new)"

definition isolate :: "app_state \<Rightarrow> string \<Rightarrow> worktree_spec option \<Rightarrow> new_session \<Rightarrow> new_session act" where
  "isolate st workdir worktree new =
     (case worktree of
        None \<Rightarrow> ret new
      | Some spec \<Rightarrow>
          bind_act (command (en_worktree (as_en st))
              (Cmd_CreateWorktree workdir (ns_name new) (wsp_branch spec) (wsp_base_ref spec))) (\<lambda>r.
            case r of
              Inl e \<Rightarrow> raise (ApiError_BadRequest (''worktree: '' @ error_text e))
            | Inr (path, branch, base_ref) \<Rightarrow>
                ret (new\<lparr>ns_worktree_path := Some path, ns_worktree_branch := Some branch,
                         ns_worktree_base_ref := Some base_ref\<rparr>)))"

definition create_session_route ::
    "app_state \<Rightarrow> new_session \<Rightarrow> uuid option \<Rightarrow> worktree_spec option \<Rightarrow> session act" where
  "create_session_route st new host_id worktree =
     (let hid = (case host_id of Some h \<Rightarrow> h | None \<Rightarrow> LOCAL_HOST_ID)
      in bind_act (load_host st hid) (\<lambda>h.
         bind_act (create_workdir st h new worktree) (\<lambda>workdir.
         bind_act (isolate st workdir worktree (new\<lparr>ns_workdir := workdir\<rparr>)) (\<lambda>new'.
           insert_session st new' hid))))"

definition spawn_workdir :: "app_state \<Rightarrow> host \<Rightarrow> new_session \<Rightarrow> string act" where
  "spawn_workdir st h new =
     (case h_kind h of
        HostKind_Local \<Rightarrow>
          bind_act (lift_result (expand_workdir st (ns_workdir new))) (\<lambda>workdir.
          bind_act (path_exists st workdir) (\<lambda>there.
            if there then ret workdir else raise (missing_workdir workdir)))
      | HostKind_Ssh _ _ _ _ \<Rightarrow> remote_workdir st h new)"

definition create_and_spawn_session :: "app_state \<Rightarrow> new_session \<Rightarrow> uuid option \<Rightarrow> session act" where
  "create_and_spawn_session st new host_id =
     (let hid = (case host_id of Some h \<Rightarrow> h | None \<Rightarrow> LOCAL_HOST_ID)
      in bind_act (load_host st hid) (\<lambda>h.
         bind_act (spawn_workdir st h new) (\<lambda>workdir.
         bind_act (insert_session st (new\<lparr>ns_workdir := workdir\<rparr>) hid) (\<lambda>s.
           then_act (spawn_agent_into_pane_locked st s h (managed_tmux_target s) workdir)
             (load_session st (s_id s))))))"

definition claim_card_and_spawn_session ::
    "app_state \<Rightarrow> int \<Rightarrow> new_session \<Rightarrow> uuid option \<Rightarrow> session act" where
  "claim_card_and_spawn_session st card_id new host_id =
     (let hid = (case host_id of Some h \<Rightarrow> h | None \<Rightarrow> LOCAL_HOST_ID)
      in if hid \<noteq> LOCAL_HOST_ID then
           raise (ApiError_BadRequest ''board card sessions can only be claimed on the local host'')
         else
           bind_act (load_host st hid) (\<lambda>h.
           bind_act (lift_result (expand_workdir st (ns_workdir new))) (\<lambda>workdir.
           bind_act (path_exists st workdir) (\<lambda>there.
             if \<not> there then raise (missing_workdir workdir) else
             bind_act (store_write (as_en st) (\<lambda>now i d.
                 claim_card (as_cx st) now i d card_id (new\<lparr>ns_workdir := workdir\<rparr>))) (\<lambda>(_, s).
               then_act (spawn_agent_into_pane_locked st s h (managed_tmux_target s) workdir)
                 (load_session st (s_id s)))))))"

section \<open>Input, edits and hooks\<close>

definition send_live :: "app_state \<Rightarrow> session \<Rightarrow> host \<Rightarrow> string \<Rightarrow> string \<Rightarrow> bool \<Rightarrow> unit act" where
  "send_live st s h target payload append_enter =
     bind_act (host_command (en_bool (as_en st)) h (Cmd_HasSession h target)) (\<lambda>live.
       if \<not> live then raise (ApiError_BadRequest ''tmux session not active for this session'')
       else
         bind_act (guard_managed_ssh_tmux_io st h s target) (\<lambda>control_target.
           host_command (en_unit (as_en st)) h (Cmd_SendKeys h control_target payload append_enter)))"

definition send_on ::
    "app_state \<Rightarrow> string option \<Rightarrow> string option \<Rightarrow> bool \<Rightarrow> session \<Rightarrow> host \<Rightarrow> unit act" where
  "send_on st text_arg keys append_enter s h =
     (case s_tmux_target s of
        None \<Rightarrow> raise (ApiError_BadRequest ''session is not running'')
      | Some target \<Rightarrow>
          (case (case text_arg of Some t \<Rightarrow> Some t | None \<Rightarrow> keys) of
             None \<Rightarrow> raise (ApiError_BadRequest ''must provide `text` or `keys`'')
           | Some payload \<Rightarrow> send_live st s h target payload append_enter))"

definition send_loaded ::
    "app_state \<Rightarrow> string option \<Rightarrow> string option \<Rightarrow> bool \<Rightarrow> session \<Rightarrow> unit act" where
  "send_loaded st text_arg keys append_enter s =
     bind_act (load_host_for_session st s) (send_on st text_arg keys append_enter s)"

definition send_to_session ::
    "app_state \<Rightarrow> uuid \<Rightarrow> string option \<Rightarrow> string option \<Rightarrow> bool \<Rightarrow> unit act" where
  "send_to_session st i text_arg keys append_enter =
     bind_act (load_session st i) (send_loaded st text_arg keys append_enter)"

text \<open>One field of a \<open>PATCH\<close>: written and announced only when it changes.\<close>

definition announce :: "app_state \<Rightarrow> string \<Rightarrow> session \<Rightarrow> (event \<Rightarrow> event) \<Rightarrow> unit act" where
  "announce st kind s f =
     publish (as_en st) (\<lambda>now. f (with_session (s_id s) (s_name s) (Event_new now kind)))"

definition patch_name_part :: "app_state \<Rightarrow> uuid \<Rightarrow> string option \<Rightarrow> session \<Rightarrow> session act" where
  "patch_name_part st i raw current =
     (case raw of
        None \<Rightarrow> ret current
      | Some raw_name \<Rightarrow>
          let name = trim raw_name
          in if name = [] then raise (ApiError_BadRequest ''name cannot be empty'')
             else if length name > 64 then raise (ApiError_BadRequest ''name too long (max 64 chars)'')
             else if name = s_name current then ret current
             else
               bind_act (store_write (as_en st) (\<lambda>now _ d. patch_session_name (as_cx st) now d i name)) (\<lambda>u.
                 then_act (announce st ''session.renamed'' u (\<lambda>e. e)) (ret u)))"

definition patch_tool_part :: "app_state \<Rightarrow> uuid \<Rightarrow> string option \<Rightarrow> session \<Rightarrow> session act" where
  "patch_tool_part st i raw current =
     (case raw of
        None \<Rightarrow> ret current
      | Some raw_tool \<Rightarrow>
          let tool = trim raw_tool
          in if tool = [] then raise (ApiError_BadRequest ''tool cannot be empty'')
             else if tool = s_tool current then ret current
             else
               bind_act (store_write (as_en st) (\<lambda>now _ d. patch_session_tool (as_cx st) now d i tool)) (\<lambda>u.
                 then_act (announce st ''session.tool_changed'' u (with_payload (JObj [(''tool'', JStr (s_tool u))])))
                   (ret u)))"

definition patch_pinned_part :: "app_state \<Rightarrow> uuid \<Rightarrow> bool option \<Rightarrow> session \<Rightarrow> session act" where
  "patch_pinned_part st i pinned current =
     (case pinned of
        None \<Rightarrow> ret current
      | Some p \<Rightarrow>
          if s_pinned current = p then ret current
          else
            bind_act (store_write (as_en st) (\<lambda>now _ d. patch_session_pinned (as_cx st) now d i p)) (\<lambda>u.
              then_act (announce st ''session.pinned'' u (with_payload (JObj [(''pinned'', JBool (s_pinned u))])))
                (ret u)))"

record session_patch =
  sp_name :: "string option"
  sp_tool :: "string option"
  sp_flags :: "string list option"
  sp_model :: "string option option"
  sp_pinned :: "bool option"

definition patch_launch_part :: "app_state \<Rightarrow> uuid \<Rightarrow> session_patch \<Rightarrow> bool \<Rightarrow> session \<Rightarrow> session act" where
  "patch_launch_part st i b running current =
     (if sp_flags b = None \<and> sp_model b = None then ret current
      else if running then
        raise (ApiError_BadRequest ''cannot patch flags / model on a running session; stop it first'')
      else case sp_flags b of
          None \<Rightarrow> ret current
        | Some flags \<Rightarrow>
            store_write (as_en st) (\<lambda>now _ d. patch_session_flags (as_cx st) now d i flags))"

definition patch_session_route :: "app_state \<Rightarrow> uuid \<Rightarrow> session_patch \<Rightarrow> session act" where
  "patch_session_route st i b =
     bind_act (load_session st i) (\<lambda>s.
     bind_act (patch_name_part st i (sp_name b) s) (\<lambda>s1.
     bind_act (patch_tool_part st i (sp_tool b) s1) (\<lambda>s2.
     bind_act (patch_pinned_part st i (sp_pinned b) s2) (\<lambda>s3.
       patch_launch_part st i b (s_status s = Status_Running) s3))))"

definition dirty_message :: "worktree_status \<Rightarrow> string" where
  "dirty_message n =
     ''worktree has uncommitted changes (staged='' @ string_of_nat (wt_staged n) @ '', unstaged='' @
     string_of_nat (wt_unstaged n) @ '', untracked='' @ string_of_nat (wt_untracked n) @
     ''); pass force=true to discard''"

definition prune_preflight :: "app_state \<Rightarrow> string \<Rightarrow> bool \<Rightarrow> unit act" where
  "prune_preflight st path force =
     (if force then ret () else
      bind_act (command (en_counts (as_en st)) (Cmd_WorktreeStatus path)) (\<lambda>r.
        case r of
          Inr n \<Rightarrow> if is_clean n then ret () else raise (ApiError_BadRequest (dirty_message n))
        | Inl _ \<Rightarrow> ret ()))"

definition worktree_prune :: "app_state \<Rightarrow> uuid \<Rightarrow> bool \<Rightarrow> session act" where
  "worktree_prune st i force =
     bind_act (load_session st i) (\<lambda>s.
       case s_worktree_path s of
         None \<Rightarrow> raise (ApiError_BadRequest ''session has no worktree to prune'')
       | Some path \<Rightarrow>
           if s_status s = Status_Running then
             raise (ApiError_BadRequest ''stop the session before pruning its worktree'')
           else
             then_act (prune_preflight st path force)
             (bind_act (command (en_unit (as_en st))
                 (Cmd_PruneWorktree (s_workdir s) path (s_worktree_branch s) force)) (\<lambda>r.
               case r of
                 Inl e \<Rightarrow> raise (ApiError_Internal (Internal_Text (''git: '' @ error_text e)))
               | Inr _ \<Rightarrow>
                   then_act (store_write (as_en st) (\<lambda>now _ d. (clear_session_worktree (as_cx st) now d i, Inr ())))
                   (bind_act (load_session st i) (\<lambda>u.
                     then_act (announce st ''session.worktree.pruned'' u (with_payload (JObj [(''path'', JStr path)])))
                       (ret u))))))"

text \<open>The ephemeral token of the pane, not a bearer token, admits an agent's hook.\<close>

definition hook :: "app_state \<Rightarrow> uuid \<Rightarrow> string option \<Rightarrow> string \<Rightarrow> json \<Rightarrow> unit act" where
  "hook st i header kind payload =
     bind_act (load_session st i) (\<lambda>s w.
       if w_hook_tokens w i \<noteq> Some (case header of Some t \<Rightarrow> t | None \<Rightarrow> []) then
         raise (ApiError_Unauthorized ''invalid hook token'') w
       else
         announce st ''agent.hook'' s
           (with_payload (JObj [(''kind'', JStr kind), (''payload'', payload)])) w)"

text \<open>\<open>routes/mcp.rs\<close>: who may call the MCP endpoint.\<close>

definition mcp_authorized :: "app_state \<Rightarrow> db \<Rightarrow> string option \<Rightarrow> bool" where
  "mcp_authorized st d authorization =
     (case Option.bind (Option.bind authorization (strip_prefix ''Bearer '')) (\<lambda>t.
             verify_session_mcp_token (as_crypto st) (as_mcp_token st) (trim t)) of
        None \<Rightarrow> False
      | Some i \<Rightarrow>
          (case get_session_by_id (as_cx st) d i of
             Inr (Some s) \<Rightarrow> s_status s = Status_Idle \<or> s_status s = Status_Running
           | _ \<Rightarrow> False))"

definition clamp_lines :: "32 word option \<Rightarrow> nat" where
  "clamp_lines req = (let n = (case req of Some n \<Rightarrow> unat n | None \<Rightarrow> 20) in max 1 (min 200 n))"

text \<open>Control frames of the terminal stream.\<close>

definition parse_resize :: "app_state \<Rightarrow> string \<Rightarrow> (16 word \<times> 16 word) option" where
  "parse_resize st t =
     (let trimmed = trim t; cap = (\<lambda>n. of_int (min n 65535))
      in if \<not> starts_with ''{'' trimmed \<or> \<not> str_contains trimmed ''resize'' then None else
         Option.bind (cx_parse_json (as_cx st) trimmed) (\<lambda>v.
         Option.bind (jget v ''resize'') (\<lambda>resize.
         Option.bind (Option.bind (jget resize ''cols'') as_u64) (\<lambda>cols.
         Option.bind (Option.bind (jget resize ''rows'') as_u64) (\<lambda>rows. Some (cap cols, cap rows))))))"

definition parse_refresh :: "app_state \<Rightarrow> string \<Rightarrow> bool" where
  "parse_refresh st t =
     (let trimmed = trim t
      in if \<not> starts_with ''{'' trimmed \<or> \<not> str_contains trimmed ''refresh'' then False
         else case cx_parse_json (as_cx st) trimmed of
             None \<Rightarrow> False
           | Some v \<Rightarrow> Option.bind (jget v ''refresh'') as_bool = Some True)"

end
