(* ===== verification/Lifecycle_Safety.thy ===== *)
theory Lifecycle_Safety
  imports Session_Lifecycle
begin

text \<open>
  What the operations of \<open>Session_Lifecycle\<close> guarantee whatever tmux, SSH and the file system answer:
  which commands they issue against external and against remote sessions, and what is recorded and
  revoked when they return.
\<close>

section \<open>Operations on one session\<close>

datatype lifecycle_op =
    Op_Start
  | Op_Stop
  | Op_Kill
  | Op_Delete bool
  | Op_Send "string option" "string option" bool

definition discard :: "'a act \<Rightarrow> unit act" where
  "discard m = then_act m (ret ())"

fun run_loaded :: "app_state \<Rightarrow> uuid \<Rightarrow> lifecycle_op \<Rightarrow> session \<Rightarrow> unit act" where
  "run_loaded st i Op_Start s = discard (start_loaded st i s)"
| "run_loaded st i Op_Stop s = discard (end_loaded Cmd_GracefulStop ''stop'' st i s)"
| "run_loaded st i Op_Kill s = discard (end_loaded Cmd_KillSession ''kill'' st i s)"
| "run_loaded st i (Op_Delete force) s = delete_loaded st i force s"
| "run_loaded st i (Op_Send t k e) s = send_loaded st t k e s"

fun run_op :: "app_state \<Rightarrow> uuid \<Rightarrow> lifecycle_op \<Rightarrow> unit act" where
  "run_op st i Op_Start = discard (start_session_locked st i)"
| "run_op st i Op_Stop = discard (stop_session_locked st i)"
| "run_op st i Op_Kill = discard (kill_session_locked st i)"
| "run_op st i (Op_Delete force) = delete_session_locked st i force"
| "run_op st i (Op_Send t k e) = send_to_session st i t k e"

lemma load_session_found:
  "get_session_by_id (as_cx st) (w_db w) i = Inr (Some s) \<Longrightarrow> load_session st i w = (w, Inr s)"
  by (simp add: load_session_def bind_act_def store_read_def ret_def)

lemma bind_act_value: "m w = (w', Inr x) \<Longrightarrow> bind_act m f w = f x w'"
  by (simp add: bind_act_def)

lemma discard_bind: "discard (bind_act m f) = bind_act m (\<lambda>x. discard (f x))"
  by (rule ext) (simp add: discard_def then_act_def bind_act_def split: prod.splits sum.splits)

lemma run_op_loads:
  "run_op st i op = bind_act (load_session st i) (run_loaded st i op)"
  by (cases op) (simp_all add: start_session_locked_def stop_session_locked_def kill_session_locked_def
    end_session_def delete_session_locked_def send_to_session_def discard_bind fun_eq_iff bind_act_def
    split: prod.split sum.split)

lemma run_op_loaded:
  "get_session_by_id (as_cx st) (w_db w) i = Inr (Some s) \<Longrightarrow> run_op st i op w = run_loaded st i op s w"
  by (simp add: run_op_loads bind_act_value [OF load_session_found])

section \<open>External sessions\<close>

text \<open>Commands that end, replace, create or claim a tmux session.\<close>

fun disturbs :: "host_cmd \<Rightarrow> bool" where
  "disturbs (Cmd_NewSession _ _ _ _ _) = True"
| "disturbs (Cmd_LaunchRemote _ _ _ _ _ _ _) = True"
| "disturbs (Cmd_KillSession _ _) = True"
| "disturbs (Cmd_GracefulStop _ _) = True"
| "disturbs (Cmd_LocalGracefulStop _) = True"
| "disturbs (Cmd_SetOwnerIfAbsent _ _ _) = True"
| "disturbs (Cmd_SetGeneration _ _ _) = True"
| "disturbs _ = False"

abbreviation gently :: "'a act \<Rightarrow> bool" where
  "gently m \<equiv> keeps (\<lambda>_. True) (\<lambda>_ (_, c). \<not> disturbs c) m"

lemma gently_command: "\<not> disturbs c \<Longrightarrow> gently (command answer c)"
  by (rule keeps_command) simp_all

lemma gently_host_command: "\<not> disturbs c \<Longrightarrow> gently (host_command answer h c)"
  by (intro keeps_host_command gently_command)

lemma keeps_emit_stopped [keeps_rules]: "keeps P A (emit_stopped st s r)"
  by (rule keeps_silent) (simp add: emit_stopped_def Let_def)

lemma keeps_load_session [keeps_rules]: "keeps P A (load_session st i)"
  unfolding load_session_def by (intro keeps_rules) (simp split: option.split add: keeps_leaves)

lemma keeps_load_host [keeps_rules]: "keeps P A (load_host_for_session st s)"
  unfolding load_host_for_session_def by (intro keeps_rules) (simp split: option.split add: keeps_leaves)

lemma keeps_marks [keeps_rules]:
  "keeps P A (mark_running st i t)" "keeps P A (mark_stopped st i o')" "keeps P A (pane_log_for st i)"
  unfolding mark_running_def mark_stopped_def pane_log_for_def by (intro keeps_rules)+

lemma keeps_discard [keeps_rules]: "keeps P A m \<Longrightarrow> keeps P A (discard m)"
  unfolding discard_def by (intro keeps_rules)

lemma keeps_forget:
  assumes "\<And>t i. keeps P A (command (en_unit (as_en st)) (Cmd_RemoveLocalConfig t))"
    and "\<And>h i. keeps P A (command (en_unit (as_en st)) (Cmd_RemoveRemoteConfig h i))"
  shows "keeps P A (remove_session_claude_mcp_config st h i)" "keeps P A (forget_claude_config st h tool i)"
proof -
  show 1: "keeps P A (remove_session_claude_mcp_config st h i)"
    unfolding remove_session_claude_mcp_config_def remove_remote_claude_mcp_config_def
      remove_combined_config_def
    by (auto split: host_kind.split sum.split intro!: keeps_rules keeps_host_command assms)
  then show "keeps P A (forget_claude_config st h tool i)"
    unfolding forget_claude_config_def by (intro keeps_rules)
qed

lemmas gently_forget = keeps_forget [OF gently_command gently_command, simplified]

lemma external_start_gently:
  assumes "is_external s"
  shows "gently (start_loaded st i s)"
  using assms unfolding start_loaded_def start_on_def start_target_on_def reattach_def start_fresh_def
  by (intro keeps_rules gently_host_command)
    (auto simp: when_act_def split: prod.split intro!: keeps_rules gently_host_command)

lemma external_end_gently:
  assumes "is_external s"
  shows "gently (end_loaded cmd r st i s)"
  using assms unfolding end_loaded_def end_on_def end_pane_def after_end_def owned_control_target_def managed_remote_def
  by (simp, intro keeps_rules gently_host_command gently_command gently_forget) simp_all

lemma external_delete_gently:
  assumes "is_external s"
  shows "gently (delete_loaded st i force s)"
  using assms unfolding delete_loaded_def delete_teardown_def delete_permission_def managed_remote_def
  by (intro keeps_rules)
    (auto simp: Let_def split: sum.split prod.split
      intro!: keeps_rules gently_host_command gently_command gently_forget)

lemma external_send_gently:
  assumes "is_external s"
  shows "gently (send_loaded st t k e s)"
  using assms unfolding send_loaded_def send_on_def send_live_def guard_managed_ssh_tmux_io_def
  by (intro keeps_rules)
    (auto split: option.split intro!: keeps_rules gently_host_command)

text \<open>
  C1. A tmux session the user attached is the user's. Whatever is done to the record of an external
  session (start, stop, kill, removal with or without force, input), and whatever tmux, SSH and the
  file system answer, no command that ends, replaces, creates or claims a tmux session is issued.
\<close>

theorem external_sessions_are_never_destroyed:
  assumes "get_session_by_id (as_cx st) (w_db w) i = Inr (Some s)" and "is_external s"
  shows "\<exists>new. w_trace (fst (run_op st i op w)) = w_trace w @ new \<and> list_all (\<lambda>(_, c). \<not> disturbs c) new"
proof -
  have "gently (run_loaded st i op s)"
    using assms(2) by (cases op)
      (auto intro!: keeps_rules external_start_gently external_end_gently external_delete_gently
        external_send_gently)
  then have "grows (\<lambda>_ (_, c). \<not> disturbs c) (w_trace w) (w_trace (fst (run_op st i op w)))"
    by (simp add: run_op_loaded [OF assms(1)] keeps_def)
  then show ?thesis
  proof (induction rule: grows.induct)
    case (step tr tr' c)
    then obtain new where "tr' = tr @ new" "list_all (\<lambda>(_, c). \<not> disturbs c) new" by blast
    with step.hyps(2) show ?case by (intro exI [of _ "new @ [c]"]) simp
  qed simp
qed

section \<open>Managed sessions on SSH hosts\<close>

text \<open>
  \<open>probed st tr h target x Q\<close>: an identity probe on the host answered, before the end of the trace,
  that the tmux session with the immutable id \<open>x\<close> is named exactly \<open>target\<close>; \<open>Q\<close> holds of what had
  been issued until then and of the owner the probe reported.
\<close>

definition answered :: "app_state \<Rightarrow> host \<Rightarrow> nat \<Rightarrow> string \<Rightarrow> remote_tmux_identity \<Rightarrow> bool" where
  "answered st h t sel idn \<longleftrightarrow>
     (\<exists>output. en_text (as_en st) t (Cmd_TmuxIdentity h sel) = Inr output \<and>
        parse_remote_tmux_identity_output (as_crypto st) output sel = Inr idn)"

definition probed ::
    "app_state \<Rightarrow> host \<Rightarrow> string \<Rightarrow> string \<Rightarrow> (trace \<Rightarrow> uuid option \<Rightarrow> bool) \<Rightarrow> trace \<Rightarrow> bool" where
  "probed st h target x Q tr \<longleftrightarrow>
     (\<exists>pre t sel post idn. tr = pre @ (t, Cmd_TmuxIdentity h sel) # post \<and> answered st h t sel idn \<and>
        rti_name idn = target \<and> (rti_id idn = x \<or> sel = x \<and> valid_tmux_id x) \<and> Q pre (rti_owner idn))"

fun launches :: "host \<Rightarrow> string \<Rightarrow> host_cmd \<Rightarrow> bool" where
  "launches h target (Cmd_LaunchRemote h' target' _ _ _ _ _) = (h' = h \<and> target' = target)"
| "launches h target _ = False"

definition launched :: "host \<Rightarrow> string \<Rightarrow> trace \<Rightarrow> bool" where
  "launched h target tr = list_ex (\<lambda>(_, c). launches h target c) tr"

definition owned :: "app_state \<Rightarrow> session \<Rightarrow> host \<Rightarrow> string \<Rightarrow> string \<Rightarrow> trace \<Rightarrow> bool" where
  "owned st s h target x = probed st h target x (\<lambda>_ owner. owner = Some (s_id s))"

definition fresh_pane :: "app_state \<Rightarrow> host \<Rightarrow> string \<Rightarrow> string \<Rightarrow> trace \<Rightarrow> bool" where
  "fresh_pane st h target x = probed st h target x (\<lambda>pre _. launched h target pre)"

definition unclaimed :: "app_state \<Rightarrow> host \<Rightarrow> string \<Rightarrow> string \<Rightarrow> trace \<Rightarrow> bool" where
  "unclaimed st h target x = probed st h target x (\<lambda>_ owner. owner = None)"

text \<open>
  The ownership protocol, as a policy: a pane is controlled through an id that a probe showed to be
  ours, or to be the pane this very operation has just launched; it is claimed when a probe showed
  it unclaimed or just launched; a launch uses the session's own name.
\<close>

fun guarded :: "app_state \<Rightarrow> session \<Rightarrow> host \<Rightarrow> string \<Rightarrow> policy" where
  "guarded st s h target tr (_, Cmd_KillSession h' x) =
     (h' = h \<and> (owned st s h target x tr \<or> fresh_pane st h target x tr))"
| "guarded st s h target tr (_, Cmd_GracefulStop h' x) = (h' = h \<and> owned st s h target x tr)"
| "guarded st s h target tr (_, Cmd_SendKeys h' x _ _) = (h' = h \<and> owned st s h target x tr)"
| "guarded st s h target tr (_, Cmd_PipePane h' x _) = (h' = h \<and> owned st s h target x tr)"
| "guarded st s h target tr (_, Cmd_SetGeneration h' x _) = (h' = h \<and> owned st s h target x tr)"
| "guarded st s h target tr (_, Cmd_SetOwnerIfAbsent h' x i) =
     (h' = h \<and> i = s_id s \<and> (unclaimed st h target x tr \<or> fresh_pane st h target x tr))"
| "guarded st s h target tr (_, Cmd_LaunchRemote h' x _ _ _ _ _) = (h' = h \<and> x = target)"
| "guarded st s h target tr (_, Cmd_NewSession _ _ _ _ _) = False"
| "guarded st s h target tr (_, Cmd_UnpipePane _ _) = False"
| "guarded st s h target tr (_, _) = True"

fun unguarded :: "host_cmd \<Rightarrow> bool" where
  "unguarded (Cmd_KillSession _ _) = False"
| "unguarded (Cmd_GracefulStop _ _) = False"
| "unguarded (Cmd_SendKeys _ _ _ _) = False"
| "unguarded (Cmd_PipePane _ _ _) = False"
| "unguarded (Cmd_SetGeneration _ _ _) = False"
| "unguarded (Cmd_SetOwnerIfAbsent _ _ _) = False"
| "unguarded (Cmd_LaunchRemote _ _ _ _ _ _ _) = False"
| "unguarded (Cmd_NewSession _ _ _ _ _) = False"
| "unguarded (Cmd_UnpipePane _ _) = False"
| "unguarded _ = True"

lemma guarded_unguarded: "unguarded c \<Longrightarrow> guarded st s h target tr (t, c)"
  by (cases c) simp_all

lemma stable_probed: "stable (probed st h target x Q)"
  unfolding stable_def probed_def by (metis append.assoc append_Cons)

lemma stable_facts [simp]:
  "stable (owned st s h target x)" "stable (fresh_pane st h target x)" "stable (unclaimed st h target x)"
  "stable (launched h target)"
  by (simp_all add: owned_def fresh_pane_def unclaimed_def stable_probed) (auto simp: stable_def launched_def)

lemma stable_conj [intro]: "stable P \<Longrightarrow> stable Q \<Longrightarrow> stable (\<lambda>tr. P tr \<and> Q tr)"
  unfolding stable_def by blast

lemma keeps_unguarded:
  assumes "stable P" and "unguarded c"
  shows "keeps P (guarded st s h target) (command answer c)"
    and "keeps P (guarded st s h target) (host_command answer h' c)"
proof -
  show 1: "keeps P (guarded st s h target) (command answer c)"
    by (rule keeps_command) (use assms in \<open>simp_all add: guarded_unguarded\<close>)
  show "keeps P (guarded st s h target) (host_command answer h' c)"
    by (rule keeps_host_command [OF 1])
qed

lemma safe_host_command:
  assumes "safe P A (command answer c) (\<lambda>r tr. \<forall>x. r = Inr x \<longrightarrow> R x tr)"
  shows "safe P A (host_command answer h c) R"
  unfolding host_command_def
  by (rule safe_bind [OF assms]) (auto intro!: safe_lift split: sum.splits)

text \<open>A probe leaves its answer as evidence.\<close>

lemma safe_probe:
  "safe P (guarded st s h target) (probe_tmux_identity st h sel)
     (\<lambda>idn tr. \<exists>t old. tr = old @ [(t, Cmd_TmuxIdentity h sel)] \<and> P old \<and> answered st h t sel idn)"
  unfolding probe_tmux_identity_def quoting_def
proof (simp, intro conjI impI)
  show "safe P (guarded st s h target)
     (bind_act (host_command (en_text (as_en st)) h (Cmd_TmuxIdentity h sel)) (\<lambda>output.
        lift_result (parse_remote_tmux_identity_output (as_crypto st) output sel)))
     (\<lambda>idn tr. \<exists>t old. tr = old @ [(t, Cmd_TmuxIdentity h sel)] \<and> P old \<and> answered st h t sel idn)"
  proof (rule safe_bind)
    show "safe P (guarded st s h target) (host_command (en_text (as_en st)) h (Cmd_TmuxIdentity h sel))
      (\<lambda>out tr. \<exists>t old. tr = old @ [(t, Cmd_TmuxIdentity h sel)] \<and> P old \<and>
         en_text (as_en st) t (Cmd_TmuxIdentity h sel) = Inr out)"
      by (rule safe_host_command, rule safe_weaken [OF safe_command [where P = P]]) (auto simp: guarded_unguarded)
  qed (auto intro!: safe_lift simp: answered_def)
qed (rule safe_raise)

lemma parsed_id: "answered st h t sel idn \<Longrightarrow> valid_tmux_id (rti_id idn)"
  unfolding answered_def
  by (elim exE conjE) (auto simp: parse_remote_tmux_identity_output_def Let_def split: option.splits if_splits)

lemma probedI:
  "answered st h t sel idn \<Longrightarrow> rti_name idn = target \<Longrightarrow> rti_id idn = x \<or> sel = x \<and> valid_tmux_id x \<Longrightarrow>
   Q pre (rti_owner idn) \<Longrightarrow> probed st h target x Q (pre @ (t, Cmd_TmuxIdentity h sel) # post)"
  unfolding probed_def by blast

text \<open>The probe by name, with the check that the name was not resolved by prefix.\<close>

lemma safe_exact:
  assumes "stable P"
  shows "safe P (guarded st s h target) (exact_remote_tmux_identity st h target)
     (\<lambda>idn tr. P tr \<and> valid_tmux_id (rti_id idn) \<and>
        probed st h target (rti_id idn) (\<lambda>pre owner. P pre \<and> owner = rti_owner idn) tr)"
  unfolding exact_remote_tmux_identity_def
proof (rule safe_bind [OF safe_probe])
  fix idn
  show "safe (\<lambda>tr. \<exists>t old. tr = old @ [(t, Cmd_TmuxIdentity h target)] \<and> P old \<and> answered st h t target idn)
     (guarded st s h target)
     (then_act (conflict_on (validate_exact_tmux_resolution target (rti_name idn))) (ret idn))
     (\<lambda>idn tr. P tr \<and> valid_tmux_id (rti_id idn) \<and>
        probed st h target (rti_id idn) (\<lambda>pre owner. P pre \<and> owner = rti_owner idn) tr)"
  proof (cases "rti_name idn = target")
    case True
    have "P (old @ [c])" if "P old" for old c using assms that by (simp add: stable_def)
    then show ?thesis
      using True unfolding conflict_on_def validate_exact_tmux_resolution_def
      by (intro safe_then [OF keeps_safe [OF keeps_leaves(3)]] safe_ret)
        (auto simp: parsed_id intro!: probedI)
  next
    case False
    then show ?thesis
      unfolding conflict_on_def validate_exact_tmux_resolution_def then_act_def
      by (intro safe_bind [where R = "\<lambda>_ _. False"] safe_lift) (auto simp: safe_def)
  qed
qed

lemma probed_mono:
  "probed st h target x Q tr \<Longrightarrow> (\<And>pre owner. Q pre owner \<Longrightarrow> Q' pre owner) \<Longrightarrow> probed st h target x Q' tr"
  unfolding probed_def by blast

lemma safe_mark_if_absent:
  assumes "stable P" and "\<And>tr. P tr \<Longrightarrow> unclaimed st h target x tr \<or> fresh_pane st h target x tr"
  shows "safe P (guarded st s h target) (mark_remote_tmux_owner_if_absent st h x (s_id s)) (\<lambda>_. P)"
  unfolding mark_remote_tmux_owner_if_absent_def quoting_def
  using assms by (auto intro!: keeps_safe keeps_host_command keeps_command keeps_rules)

lemma safe_verify_migrated:
  assumes "stable P" and "valid_tmux_id x"
  shows "safe P (guarded st s h target) (verify_migrated_owner st h s target x)
     (\<lambda>y tr. y = x \<and> owned st s h target x tr)"
  unfolding verify_migrated_owner_def
proof (rule safe_bind [OF safe_probe])
  fix idn
  show "safe (\<lambda>tr. \<exists>t old. tr = old @ [(t, Cmd_TmuxIdentity h x)] \<and> P old \<and> answered st h t x idn)
     (guarded st s h target)
     (if rti_name idn \<noteq> target \<or> rti_id idn \<noteq> x then
         raise (ApiError_Conflict (''tmux identity `'' @ x @ ''` changed while migrating `'' @
           target @ ''`''))
       else case rti_owner idn of
           Some owner \<Rightarrow>
             if owner = s_id s then ret x else raise (owned_by_other target owner (s_id s))
         | None \<Rightarrow> raise (ApiError_Conflict (''tmux target `'' @ target @
             ''` remained unmarked after legacy ownership migration'')))
     (\<lambda>y tr. y = x \<and> owned st s h target x tr)"
    by (auto split: option.split intro!: safe_raise safe_ret probedI simp: owned_def)
qed

lemma safe_migrate:
  assumes P: "stable P"
  shows "safe P (guarded st s h target) (migrate_or_verify_remote_tmux_owner st h s target)
     (\<lambda>x tr. owned st s h target x tr \<and> P tr)"
  unfolding migrate_or_verify_remote_tmux_owner_def
proof (rule safe_frame [OF safe_bind [OF safe_exact [OF P]] P])
  fix idn
  let ?x = "rti_id idn"
  show "safe (\<lambda>tr. P tr \<and> valid_tmux_id ?x \<and> probed st h target ?x (\<lambda>pre owner. P pre \<and> owner = rti_owner idn) tr)
     (guarded st s h target)
     (case rti_owner idn of
         Some owner \<Rightarrow>
           if owner \<noteq> s_id s then raise (owned_by_other target owner (s_id s)) else ret ?x
       | None \<Rightarrow> migrate_owner st h s target ?x)
     (\<lambda>x. owned st s h target x)"
  proof (cases "rti_owner idn")
    case None
    show ?thesis
    proof (cases "valid_tmux_id ?x")
      case True
      have "safe (unclaimed st h target ?x) (guarded st s h target) (migrate_owner st h s target ?x)
          (\<lambda>y tr. y = ?x \<and> owned st s h target ?x tr)"
        unfolding migrate_owner_def
        by (rule safe_bind [OF safe_store_read])
          (auto split: sum.split intro!: safe_raise safe_then [OF safe_mark_if_absent safe_verify_migrated] True)
      then show ?thesis
        using None by (auto simp: unclaimed_def intro: probed_mono elim!: safe_weaken)
    qed (simp add: safe_def)
  next
    case (Some owner)
    then show ?thesis
      by (auto simp: owned_def intro!: safe_raise safe_ret elim: probed_mono)
  qed
qed

text \<open>Removing the credential and preparing a launch touch no pane.\<close>

lemma remote_forget:
  assumes "stable P"
  shows "keeps P (guarded st s h target) (remove_session_claude_mcp_config st h' i)"
    and "keeps P (guarded st s h target) (forget_claude_config st h' tool i)"
  using assms by (auto intro!: keeps_forget keeps_unguarded)

lemma remote_wiring:
  assumes "stable P"
  shows "keeps P (guarded st s h target) (wire_agent st s h' pf wd secret l)"
proof -
  note cmds = keeps_unguarded [OF assms]
  have 1: "keeps P (guarded st s h target) (agentum_server_now st i u)" for i u
    unfolding agentum_server_now_def by (intro keeps_rules)
  have 2: "keeps P (guarded st s h target) (write_agent_project_config st i h' wd t u)" for i t u
    unfolding write_agent_project_config_def bind_text_def with_context_def fail_with_def Let_def
    by (auto split: option.split sum.split intro!: keeps_rules 1 cmds keeps_silent [of "draw_auth_env_name _ _"]
      simp: draw_auth_env_name_def)
  have 3: "keeps P (guarded st s h target) (provision st i t u)" for i t u
    unfolding provision_def browser_servers_def provision_browser_mcp_def write_combined_config_def Let_def
    by (auto split: sum.split browser_mcp_engine.split intro!: keeps_rules 1 cmds)
  have 4: "keeps P (guarded st s h target) (verify_remote_agent_mcp_config st h' wd t u e f)" for t u e f
    unfolding verify_remote_agent_mcp_config_def Let_def
    by (auto split: option.split intro!: keeps_rules cmds)
  have 5: "keeps P (guarded st s h target) (remote_provision st s h' p ss)" for p ss
    unfolding remote_provision_def prepare_remote_runtime_dir_def quoting_def Let_def
    by (auto intro!: keeps_rules cmds)
  have 6: "keeps P (guarded st s h target) (wire_remote st s h' p wd secret l)" for p
    unfolding wire_remote_def Let_def
    by (intro keeps_rules cmds 1 5 2) (auto split: sum.split option.split intro!: keeps_rules 4)
  have 7: "keeps P (guarded st s h target) (wire_local st s h' wd l)"
    unfolding wire_local_def Let_def
    by (auto intro!: keeps_rules 2 3 keeps_silent [of "draw_token _"] simp: draw_token_def)
  show ?thesis
    unfolding wire_agent_def by (auto split: option.split intro!: keeps_rules 6 7)
qed

lemma stable_True': "stable (\<lambda>tr. True)"
  by simp

lemma safe_launch_remote:
  assumes "is_ssh h"
  shows "safe (\<lambda>_. True) (guarded st s h target) (launch_pane st h target wd l secrets log)
     (\<lambda>r tr. launched h target tr)"
proof -
  have "safe (\<lambda>_. True) (guarded st s h target)
      (bind_act (command (en_unit (as_en st)) (Cmd_LaunchRemote h target wd (lc_argv l) (lc_env l) secrets log))
         (\<lambda>r. ret (case r of Inl e \<Rightarrow> Inl (from_host_runtime h e) | Inr x \<Rightarrow> Inr x)))
      (\<lambda>r tr. launched h target tr)"
    by (rule safe_bind [OF safe_command]) (auto intro!: safe_ret simp: launched_def)
  moreover have "launch_pane st h target wd l secrets log =
      bind_act (command (en_unit (as_en st)) (Cmd_LaunchRemote h target wd (lc_argv l) (lc_env l) secrets log))
         (\<lambda>r. ret (case r of Inl e \<Rightarrow> Inl (from_host_runtime h e) | Inr x \<Rightarrow> Inr x))"
    using assms
    by (auto simp: launch_pane_def is_ssh_def fun_eq_iff host_command_def try_act_def bind_act_def
      lift_result_def ret_def command_def split: host_kind.splits)
  ultimately show ?thesis by simp
qed

lemma safe_kill_quietly:
  assumes "stable P" and "\<And>tr. P tr \<Longrightarrow> owned st s h target x tr \<or> fresh_pane st h target x tr"
  shows "keeps P (guarded st s h target) (kill_quietly st h x)"
  unfolding kill_quietly_def using assms by (auto intro!: keeps_rules keeps_command)

lemma safe_mark_owner:
  assumes "valid_tmux_id x"
  shows "safe (fresh_pane st h target x) (guarded st s h target)
     (mark_remote_tmux_owner st h target x (s_id s)) (\<lambda>_. owned st s h target x)"
  unfolding mark_remote_tmux_owner_def
proof (rule safe_then [OF safe_mark_if_absent safe_bind [OF safe_probe]])
  fix idn
  show "safe (\<lambda>tr. \<exists>t old. tr = old @ [(t, Cmd_TmuxIdentity h x)] \<and> fresh_pane st h target x old \<and> answered st h t x idn)
     (guarded st s h target)
     (if rti_name idn \<noteq> target then
            raise (ApiError_Conflict (''tmux identity `'' @ x @ ''` changed from `'' @
              target @ ''` to `'' @ rti_name idn @ ''`''))
          else case rti_owner idn of
              Some owner \<Rightarrow> if owner = s_id s then ret () else raise (owned_by_other target owner (s_id s))
            | None \<Rightarrow> raise (ApiError_Conflict (''tmux target `'' @ target @
                ''` remained unmarked after ownership claim'')))
     (\<lambda>_. owned st s h target x)"
    using assms by (auto split: option.split intro!: safe_raise safe_ret probedI simp: owned_def)
qed (simp_all add: safe_weaken)

lemma safe_commit_owner:
  "safe (launched h target) (guarded st s h target) (commit_remote_owner st s h target)
     (\<lambda>(rct, r) tr. is_ok r \<longrightarrow> (\<exists>x. rct = Some x \<and> owned st s h target x tr))"
  unfolding commit_remote_owner_def
proof (rule safe_bind [OF safe_try [OF safe_exact]])
  fix r :: "api_error + remote_tmux_identity"
  let ?P = "\<lambda>tr. \<forall>x. r = Inr x \<longrightarrow> launched h target tr \<and> valid_tmux_id (rti_id x) \<and>
     probed st h target (rti_id x) (\<lambda>pre owner. launched h target pre \<and> owner = rti_owner x) tr"
  show "safe ?P (guarded st s h target)
     (case r of
         Inl e \<Rightarrow> ret (None, Inl e)
       | Inr idn \<Rightarrow>
           bind_act (try_act (mark_remote_tmux_owner st h target (rti_id idn) (s_id s))) (\<lambda>m.
             case m of
               Inr _ \<Rightarrow> ret (Some (rti_id idn), Inr ())
             | Inl e \<Rightarrow>
                 then_act (kill_quietly st h (rti_id idn)) (ret (Some (rti_id idn), Inl e))))
     (\<lambda>(rct, r) tr. is_ok r \<longrightarrow> (\<exists>x. rct = Some x \<and> owned st s h target x tr))"
  proof (cases r)
    case (Inr idn)
    let ?x = "rti_id idn"
    show ?thesis
    proof (cases "valid_tmux_id ?x")
      case True
      have mark: "safe (fresh_pane st h target ?x) (guarded st s h target)
          (try_act (mark_remote_tmux_owner st h target ?x (s_id s)))
          (\<lambda>m tr. fresh_pane st h target ?x tr \<and> (\<forall>u. m = Inr u \<longrightarrow> owned st s h target ?x tr))"
        by (rule safe_weaken [OF safe_frame [OF safe_try [OF safe_mark_owner [OF True]] stable_facts(2)]]) auto
      have "safe (fresh_pane st h target ?x) (guarded st s h target)
          (bind_act (try_act (mark_remote_tmux_owner st h target ?x (s_id s))) (\<lambda>m.
             case m of
               Inr _ \<Rightarrow> ret (Some ?x, Inr ())
             | Inl e \<Rightarrow> then_act (kill_quietly st h ?x) (ret (Some ?x, Inl e))))
          (\<lambda>(rct, r) tr. is_ok r \<longrightarrow> (\<exists>x. rct = Some x \<and> owned st s h target x tr))"
        by (rule safe_bind [OF mark])
          (auto split: sum.split intro!: safe_ret safe_then [OF keeps_safe [OF safe_kill_quietly]] stable_conj)
      then show ?thesis
        using Inr by (auto simp: fresh_pane_def elim!: safe_weaken intro: probed_mono)
    qed (simp add: safe_def Inr)
  qed (auto intro: safe_ret)
qed simp

lemma safe_commit_generation:
  assumes "stable P" and "\<And>tr. P tr \<Longrightarrow> owned st s h target x tr"
  shows "safe P (guarded st s h target) (commit_remote_generation st h x) (\<lambda>_. P)"
  unfolding commit_remote_generation_def mark_remote_tmux_mcp_generation_def quoting_def
  by (intro keeps_safe keeps_rules)
    (auto split: sum.split intro!: keeps_rules keeps_host_command keeps_command safe_kill_quietly assms)

definition pane_held :: "app_state \<Rightarrow> session \<Rightarrow> host \<Rightarrow> string \<Rightarrow> string option \<times> (api_error + unit) \<Rightarrow> trace \<Rightarrow> bool" where
  "pane_held st s h target = (\<lambda>(rct, r) tr. is_ok r \<longrightarrow> (\<exists>x. rct = Some x \<and> owned st s h target x tr))"

lemma safe_launch_and_mark:
  assumes "is_ssh h"
  shows "safe (\<lambda>_. True) (guarded st s h target) (launch_and_mark st s h target wd l secrets log)
     (pane_held st s h target)"
  unfolding launch_and_mark_def
proof (rule safe_bind [OF safe_launch_remote [OF assms]])
  fix r1 :: "api_error + unit"
  have gen: "safe (owned st s h target x) (guarded st s h target)
      (bind_act (commit_remote_generation st h x) (\<lambda>r3. ret (Some x, r3))) (pane_held st s h target)" for x
    by (rule safe_bind [OF safe_commit_generation]) (auto intro!: safe_ret simp: pane_held_def)
  have step: "safe (pane_held st s h target q) (guarded st s h target)
      (case q of (rct, r2) \<Rightarrow>
        if \<not> is_ok r2 \<or> \<not> tool_consumes_agentum_mcp (s_tool s) then ret (rct, r2)
        else bind_act (commit_remote_generation st h (control_target_of rct target)) (\<lambda>r3. ret (rct, r3)))
      (pane_held st s h target)" for q
  proof (cases "is_ok (snd q) \<and> tool_consumes_agentum_mcp (s_tool s) \<and> fst q \<noteq> None")
    case True
    then obtain x r2 where q: "q = (Some x, r2)" by (cases q) auto
    show ?thesis using True gen [of x] unfolding q
      by (auto simp: pane_held_def control_target_of_def elim!: safe_weaken)
  next
    case False
    then show ?thesis by (auto simp: safe_def ret_def grows.refl pane_held_def split: prod.split)
  qed
  show "safe (launched h target) (guarded st s h target)
      (if \<not> is_ssh h \<or> \<not> is_ok r1 then ret (None, r1) else
       bind_act (commit_remote_owner st s h target) (\<lambda>(rct, r2).
         if \<not> is_ok r2 \<or> \<not> tool_consumes_agentum_mcp (s_tool s) then ret (rct, r2) else
         bind_act (commit_remote_generation st h (control_target_of rct target)) (\<lambda>r3. ret (rct, r3))))
      (pane_held st s h target)"
    using assms safe_bind [OF safe_commit_owner [folded pane_held_def] step]
    by (auto intro!: safe_ret simp: pane_held_def)
qed

lemma safe_settle:
  "safe (pane_held st s h target q) (guarded st s h target) (settle_launch st s h target q) (\<lambda>_ _. True)"
proof (cases q)
  case (Pair rct r)
  show ?thesis
  proof (cases "is_ok r")
    case False
    then obtain e where r: "r = Inl e" by (cases r) auto
    have "keeps (\<lambda>_. True) (guarded st s h target) (settle_launch st s h target (rct, Inl e))"
      unfolding settle_launch_def by (auto intro!: keeps_rules remote_forget)
    then show ?thesis unfolding Pair r by (auto dest: keeps_safe elim!: safe_weaken)
  next
    case True
    have "safe (owned st s h target x) (guarded st s h target) (settle_launch st s h target (Some x, r)) (\<lambda>_ _. True)" for x
    proof -
      have "keeps (owned st s h target x) (guarded st s h target) (settle_launch st s h target (Some x, r))"
        unfolding settle_launch_def using True
        by (auto simp: control_target_of_def split: sum.split
          intro!: keeps_rules remote_forget safe_kill_quietly)
      then show ?thesis by (auto dest: keeps_safe elim!: safe_weaken)
    qed
    then show ?thesis using True unfolding Pair by (auto simp: pane_held_def safe_def)
  qed
qed

lemma safe_spawn:
  assumes "is_ssh h"
  shows "safe (\<lambda>_. True) (guarded st s h target) (spawn_agent_into_pane_locked st s h target wd) (\<lambda>_ _. True)"
proof -
  note quiet = keeps_safe [OF keeps_leaves(3)] keeps_safe [OF keeps_marks(3)] keeps_safe [OF remote_wiring [OF stable_True]]
  have "keeps (\<lambda>_. True) (guarded st s h target) (maybe_preflight st s h wd)"
    unfolding maybe_preflight_def preflight_remote_def by (intro keeps_rules keeps_unguarded) simp_all
  from keeps_safe [OF this] show ?thesis
    unfolding spawn_agent_into_pane_locked_def Let_def
    by (rule safe_bind) (intro safe_bind [OF quiet(1)] safe_bind [OF quiet(2)] safe_bind [OF quiet(3)]
      safe_bind [OF safe_launch_and_mark [OF assms]] safe_settle)
qed

lemma safe_reconcile:
  "safe (\<lambda>_. True) (guarded st s h target) (reconcile_live_remote st i s h target)
     (\<lambda>(already, rct) tr. \<exists>x. rct = Some x \<and> owned st s h target x tr)"
  unfolding reconcile_live_remote_def
proof (rule safe_bind [OF safe_migrate [OF stable_True]])
  fix x
  let ?rest = "if \<not> tool_consumes_agentum_mcp (s_tool s) then ret (True, Some x) else
       bind_act (remote_tmux_mcp_generation st h x) (\<lambda>current.
         if current \<noteq> Some (mcp_token_generation st) then
           then_act (host_command (en_unit (as_en st)) h (Cmd_KillSession h x))
             (then_act (store_write (as_en st) (\<lambda>now _ d.
                 update_status_and_target (as_cx st) now d i Status_Idle None))
               (ret (False, Some x)))
         else then_act (rearm_tunnel st h) (ret (True, Some x)))"
  have k: "keeps (owned st s h target x) (guarded st s h target) (remote_tmux_mcp_generation st h x)"
    "keeps (owned st s h target x) (guarded st s h target) (host_command (en_unit (as_en st)) h (Cmd_KillSession h x))"
    "keeps (owned st s h target x) (guarded st s h target) (rearm_tunnel st h)"
    unfolding remote_tmux_mcp_generation_def quoting_def rearm_tunnel_def
    by (auto intro!: keeps_rules keeps_unguarded keeps_host_command keeps_command)
  show "safe (\<lambda>tr. owned st s h target x tr \<and> True) (guarded st s h target) ?rest
     (\<lambda>(already, rct) tr. \<exists>x. rct = Some x \<and> owned st s h target x tr)"
    by (auto intro!: safe_ret safe_bind [OF keeps_safe [OF k(1)]] safe_then [OF keeps_safe [OF k(2)]]
      safe_then [OF keeps_safe [OF k(3)]] safe_then [OF safe_store_write])
qed

lemma safe_reattach:
  "safe (owned st s h target x) (guarded st s h target) (reattach st i s h target (Some x)) (\<lambda>_ _. True)"
proof -
  have "keeps (owned st s h target x) (guarded st s h target) (reattach st i s h target (Some x))"
    unfolding reattach_def control_target_of_def
    by (auto intro!: keeps_rules keeps_host_command keeps_command)
  then show ?thesis by (auto dest: keeps_safe elim!: safe_weaken)
qed

lemma safe_start_fresh:
  assumes "managed_remote s h"
  shows "safe (\<lambda>_. True) (guarded st s h target) (start_fresh st i s h target) (\<lambda>_ _. True)"
proof -
  have wd: "keeps (\<lambda>_. True) (guarded st s h target) (start_workdir st s h)"
    using assms unfolding start_workdir_def managed_remote_def is_ssh_def
    by (auto split: host_kind.splits intro!: keeps_rules)
  have load: "keeps (\<lambda>_. True) (guarded st s h target) (bind_act (load_session st i) (\<lambda>s'. ret (s', True)))"
    by (intro keeps_rules)
  have clean: "keeps (\<lambda>_. True) (guarded st s h target)
      (when_act (\<not> is_external s \<and> s_tool s = ''claude'') (remove_session_claude_mcp_config st h i))"
    by (intro keeps_rules remote_forget) simp
  have "safe (\<lambda>_. True) (guarded st s h target)
      (bind_act (start_workdir st s h) (\<lambda>workdir.
         then_act (spawn_agent_into_pane_locked st s h target workdir)
           (bind_act (load_session st i) (\<lambda>s'. ret (s', True))))) (\<lambda>_ _. True)"
    using assms
    by (intro safe_bind [OF keeps_safe [OF wd]] safe_then [OF safe_spawn keeps_safe [OF load]])
      (simp add: managed_remote_def)
  then show ?thesis
    using assms safe_then [OF keeps_safe [OF clean]] by (simp add: start_fresh_def managed_remote_def)
qed

lemma safe_start_on:
  assumes "managed_remote s h"
  shows "safe (\<lambda>_. True) (guarded st s h (tmux_target s)) (start_on st i s h) (\<lambda>_ _. True)"
proof -
  have target: "start_target s = Inr (tmux_target s)"
    using assms by (simp add: start_target_def tmux_target_def managed_remote_def split: option.split)
  let ?t = "tmux_target s"
  have fresh: "safe (\<lambda>_. True) (guarded st s h ?t) (start_fresh st i s h ?t) (\<lambda>_ _. True)"
    by (rule safe_start_fresh [OF assms])
  have q: "safe (\<lambda>tr. \<exists>x. snd q = Some x \<and> owned st s h ?t x tr) (guarded st s h ?t)
      (case q of (already, rct) \<Rightarrow> if already then reattach st i s h ?t rct else start_fresh st i s h ?t)
      (\<lambda>_ _. True)" for q
  proof (cases "snd q")
    case None
    then show ?thesis by (simp add: safe_def)
  next
    case (Some x)
    then show ?thesis
      by (cases q) (auto intro: safe_weaken [OF safe_reattach] safe_weaken [OF fresh])
  qed
  have "safe (\<lambda>_. True) (guarded st s h ?t) (start_target_on st i s h ?t) (\<lambda>_ _. True)"
    unfolding start_target_on_def
  proof (rule safe_bind [OF keeps_safe [OF keeps_unguarded(2)]])
    fix already0
    show "safe (\<lambda>_. True) (guarded st s h ?t)
       (bind_act (if already0 \<and> \<not> is_external s \<and> is_ssh h then reconcile_live_remote st i s h ?t
               else ret (already0, None)) (\<lambda>(already, rct).
          if already then reattach st i s h ?t rct else start_fresh st i s h ?t)) (\<lambda>_ _. True)"
    proof (cases already0)
      case True
      then show ?thesis
        using assms safe_bind [OF safe_weaken [OF safe_reconcile] q] by (auto simp: managed_remote_def)
    next
      case False
      then show ?thesis
        by (auto simp: managed_remote_def intro!: safe_bind [OF safe_ret [where R = "\<lambda>q _. q = (False, None)"]]
          elim: safe_weaken [OF fresh]) (simp add: safe_def split: prod.split, use fresh in \<open>auto simp: safe_def\<close>)
    qed
  qed simp_all
  then show ?thesis
    unfolding start_on_def target by (auto simp: bind_act_def lift_result_def safe_def)
qed

lemma safe_owned_target:
  assumes "managed_remote s h"
  shows "safe (\<lambda>_. True) (guarded st s h t) (owned_control_target st s h t live)
     (\<lambda>x tr. live \<longrightarrow> owned st s h t x tr)"
  using assms safe_weaken [OF safe_migrate [OF stable_True]]
  by (auto simp: owned_control_target_def intro!: safe_ret)

lemma safe_end_on:
  assumes m: "managed_remote s h"
    and cmd: "\<And>x tr tick. owned st s h (tmux_target s) x tr \<Longrightarrow> guarded st s h (tmux_target s) tr (tick, cmd h x)"
  shows "safe (\<lambda>_. True) (guarded st s h (tmux_target s)) (end_on cmd r st i s h) (\<lambda>_ _. True)"
proof -
  let ?G = "guarded st s h (tmux_target s)"
  have live: "keeps (\<lambda>_. True) ?G (if managed_remote s h
       then host_command (en_bool (as_en st)) h (Cmd_HasSession h (tmux_target s)) else ret True)"
    by (intro keeps_rules keeps_unguarded) simp_all
  have after: "keeps (\<lambda>_. True) ?G (after_end r st i s h)"
    unfolding after_end_def by (intro keeps_rules remote_forget) simp
  have pane: "safe (\<lambda>tr. live \<longrightarrow> owned st s h (tmux_target s) x tr) ?G (end_pane cmd st i s h x live) (\<lambda>_ _. True)" for live x
  proof (cases live)
    case True
    have "keeps (owned st s h (tmux_target s) x) ?G (end_pane cmd st i s h x True)"
      using m cmd unfolding end_pane_def managed_remote_def
      by (auto intro!: keeps_rules keeps_host_command keeps_command)
    with True show ?thesis by (auto dest: keeps_safe elim!: safe_weaken)
  next
    case False
    have "keeps (\<lambda>_. True) ?G (end_pane cmd st i s h x False)"
      using m unfolding end_pane_def managed_remote_def by (auto intro!: keeps_rules simp: when_act_def)
    with False show ?thesis by (auto dest: keeps_safe)
  qed
  show ?thesis
    unfolding end_on_def
    by (intro safe_bind [OF keeps_safe [OF live]] safe_bind [OF safe_owned_target [OF m]]
      safe_then [OF pane keeps_safe [OF after]])
qed

lemma safe_delete_teardown:
  assumes m: "managed_remote s h"
  shows "safe (\<lambda>_. True) (guarded st s h (tmux_target s)) (delete_teardown st i s h) (\<lambda>_ _. True)"
proof -
  let ?t = "tmux_target s"
  let ?G = "guarded st s h ?t"
  have perm: "safe (\<lambda>_. True) ?G (delete_permission st s h ?t) (\<lambda>(may, x) tr. may \<longrightarrow> owned st s h ?t x tr)"
  proof -
    have "safe (\<lambda>_. True) ?G
        (bind_act (migrate_or_verify_remote_tmux_owner st h s ?t) (\<lambda>control_target. ret (True, control_target)))
        (\<lambda>(may, x) tr. may \<longrightarrow> owned st s h ?t x tr)"
      by (rule safe_bind [OF safe_migrate [OF stable_True]]) (auto intro: safe_ret)
    then show ?thesis
      using m unfolding delete_permission_def
      by (auto split: sum.split bool.split intro!: safe_ret safe_bind [OF keeps_safe [OF keeps_unguarded(1)]])
  qed
  have tear: "safe (\<lambda>tr. may \<longrightarrow> owned st s h ?t x tr) ?G
      (when_act may (if is_external s
          then then_act (command (en_unit (as_en st)) (Cmd_UnpipePane h ?t)) (ret ())
          else kill_quietly st h x)) (\<lambda>_ _. True)" for may x
  proof (cases may)
    case True
    have "keeps (owned st s h ?t x) ?G (kill_quietly st h x)" by (rule safe_kill_quietly) simp_all
    with True m show ?thesis
      by (auto simp: when_act_def managed_remote_def dest: keeps_safe elim!: safe_weaken)
  qed (simp add: when_act_def safe_ret)
  have "safe (\<lambda>tr. case q of (may, x) \<Rightarrow> may \<longrightarrow> owned st s h ?t x tr) ?G
      (case q of (may, x) \<Rightarrow>
        then_act (when_act may (if is_external s
            then then_act (command (en_unit (as_en st)) (Cmd_UnpipePane h ?t)) (ret ())
            else kill_quietly st h x))
          (forget_claude_config st h (s_tool s) i)) (\<lambda>_ _. True)" for q
  proof (cases q)
    case (Pair may x)
    show ?thesis
      unfolding Pair prod.case by (intro safe_then [OF tear keeps_safe [OF remote_forget(2)]] stable_True)
  qed
  with perm show ?thesis
    unfolding delete_teardown_def Let_def by (auto intro: safe_bind elim: safe_weaken)
qed

lemma safe_send_on:
  assumes m: "managed_remote s h"
  shows "safe (\<lambda>_. True) (guarded st s h (tmux_target s)) (send_on st a b e s h) (\<lambda>_ _. True)"
proof -
  have live: "safe (\<lambda>_. True) (guarded st s h t) (send_live st s h t payload e) (\<lambda>_ _. True)" for t payload
  proof -
    have send: "safe (\<lambda>tr. owned st s h t x tr \<and> True) (guarded st s h t)
        (host_command (en_unit (as_en st)) h (Cmd_SendKeys h x payload e)) (\<lambda>_ _. True)" for x
      using keeps_safe [OF keeps_host_command [OF keeps_command]]
      by (rule safe_weaken [where P = "owned st s h t x"]) simp_all
    have "safe (\<lambda>_. True) (guarded st s h t)
        (bind_act (guard_managed_ssh_tmux_io st h s t) (\<lambda>x.
           host_command (en_unit (as_en st)) h (Cmd_SendKeys h x payload e))) (\<lambda>_ _. True)"
      using m send unfolding guard_managed_ssh_tmux_io_def managed_remote_def
      by (simp, intro safe_bind [OF safe_migrate [OF stable_True]])
    then show ?thesis
      unfolding send_live_def
      by (auto intro!: safe_raise safe_bind [OF keeps_safe [OF keeps_unguarded(2)]])
  qed
  show ?thesis
    unfolding send_on_def tmux_target_def
    by (auto split: option.split intro!: safe_raise live)
qed

lemma safe_run_loaded:
  assumes m: "managed_remote s h" and h: "get_host (as_cx st) (w_db w) (host_id_of s) = Inr (Some h)"
  shows "grows (guarded st s h (tmux_target s)) (w_trace w) (w_trace (fst (run_loaded st i op s w)))"
proof -
  let ?G = "guarded st s h (tmux_target s)"
  have host: "load_host_for_session st s w = (w, Inr h)"
    using h by (simp add: load_host_for_session_def bind_act_def store_read_def ret_def)
  have bound: "bind_act (load_host_for_session st s) n w = n h w" for n :: "host \<Rightarrow> 'a act"
    by (simp add: bind_act_def host)
  have host': "try_act (load_host_for_session st s) w = (w, Inr (Inr h))" by (simp add: try_act_def host)
  have bound': "bind_act (try_act (load_host_for_session st s)) n w = n (Inr h) w" for n :: "api_error + host \<Rightarrow> 'a act"
    by (simp add: bind_act_def host')
  have on: "grows ?G (w_trace w) (w_trace (fst (n w)))"
    if "safe (\<lambda>_. True) ?G n (\<lambda>_ _. True)" for n :: "'a act"
    using that by (simp add: safe_def)
  have drop: "safe (\<lambda>_. True) ?G (discard n) (\<lambda>_ _. True)"
    if "safe (\<lambda>_. True) ?G n (\<lambda>_ _. True)" for n :: "'a act"
    unfolding discard_def by (rule safe_then [OF that]) (simp add: safe_ret)
  show ?thesis
  proof (cases op)
    case Op_Start
    then show ?thesis
      using on [OF drop [OF safe_start_on [OF m]]]
      by (simp add: start_loaded_def discard_bind bound)
  next
    case Op_Stop
    have "safe (\<lambda>_. True) ?G (end_on Cmd_GracefulStop ''stop'' st i s h) (\<lambda>_ _. True)"
      by (rule safe_end_on [OF m]) simp
    with Op_Stop show ?thesis
      using on [OF drop] by (simp add: end_loaded_def discard_bind bound)
  next
    case Op_Kill
    have "safe (\<lambda>_. True) ?G (end_on Cmd_KillSession ''kill'' st i s h) (\<lambda>_ _. True)"
      by (rule safe_end_on [OF m]) simp
    with Op_Kill show ?thesis
      using on [OF drop] by (simp add: end_loaded_def discard_bind bound)
  next
    case (Op_Delete force)
    have "safe (\<lambda>_. True) ?G (then_act (delete_teardown st i s h)
        (store_write (as_en st) (\<lambda>_ _ d. delete_session d i))) (\<lambda>_ _. True)"
      by (rule safe_then [OF safe_delete_teardown [OF m] safe_store_write])
    from on [OF this] Op_Delete show ?thesis
      by (simp add: delete_loaded_def bound' raise_def grows.refl)
  next
    case (Op_Send t k e)
    then show ?thesis
      using on [OF safe_send_on [OF m]] by (simp add: send_loaded_def bound)
  qed
qed

text \<open>
  C2. On an SSH host the server controls only panes that are its own. In every operation on a managed
  session of such a host, whatever the host answers, a pane is killed, stopped, typed into, piped or
  marked with a credential only through an immutable tmux id that a probe of this very operation
  showed to be named exactly as the session's target and to carry the session's ownership marker (or,
  to roll back, to be the pane the operation launched); a marker is set only on a pane that was shown
  unmarked or just launched, and no pane is launched under another name.
\<close>

theorem remote_panes_touched_only_when_owned:
  assumes "get_session_by_id (as_cx st) (w_db w) i = Inr (Some s)"
    and "get_host (as_cx st) (w_db w) (host_id_of s) = Inr (Some h)"
    and "managed_remote s h" and "w_trace w = []"
    and "w_trace (fst (run_op st i op w)) = pre @ (t, c) # post"
  shows "guarded st s h (tmux_target s) pre (t, c)"
proof -
  have "grows (guarded st s h (tmux_target s)) [] (w_trace (fst (run_op st i op w)))"
    using safe_run_loaded [OF assms(3,2), of i op] assms(4) by (simp add: run_op_loaded [OF assms(1)])
  then have "grows (guarded st s h (tmux_target s)) [] (pre @ (t, c) # post)" by (simp add: assms(5))
  moreover have "pre @ (t, c) # post = tr \<Longrightarrow> guarded st s h (tmux_target s) pre (t, c)"
    if "grows (guarded st s h (tmux_target s)) a tr" "a = []" for a tr pre post
    using that
  proof (induction arbitrary: pre post rule: grows.induct)
    case (step tr tr' c')
    then show ?case by (cases post rule: rev_cases) auto
  qed simp
  ultimately show ?thesis by blast
qed

end
