(* ===== verification/Lifecycle_State.thy ===== *)
theory Lifecycle_State
  imports Lifecycle_Safety
begin

text \<open>
  What the operations of \<open>Session_Lifecycle\<close> record and revoke: the status and target a session is left
  with, the tokens that stop working, and what a start that succeeded means.
\<close>

section \<open>Actions that leave the recorded state alone\<close>

definition recorded :: "world \<Rightarrow> db \<times> event list \<times> (uuid \<rightharpoonup> string)" where
  "recorded w = (w_db w, w_bus w, w_hook_tokens w)"

definition records_nothing :: "'a act \<Rightarrow> bool" where
  "records_nothing m \<longleftrightarrow> (\<forall>w. recorded (fst (m w)) = recorded w)"

named_theorems recorded_rules

lemma records_nothing_leaves [recorded_rules]:
  "records_nothing (ret x)" "records_nothing (raise e)" "records_nothing (lift_result r)"
  "records_nothing (store_read f)" "records_nothing (command answer c)" "records_nothing (fresh_uuid en)"
  by (simp_all add: records_nothing_def recorded_def ret_def raise_def lift_result_def store_read_def
    command_def fresh_uuid_def)

lemma records_nothing_bind [recorded_rules]:
  "records_nothing m \<Longrightarrow> (\<And>x. records_nothing (f x)) \<Longrightarrow> records_nothing (bind_act m f)"
  unfolding records_nothing_def
proof (intro allI)
  fix w
  assume m: "\<forall>w. recorded (fst (m w)) = recorded w" and f: "\<And>x. \<forall>w. recorded (fst (f x w)) = recorded w"
  obtain w' r where r: "m w = (w', r)" by fastforce
  with m have "recorded w' = recorded w" by (metis fst_conv)
  with r f show "recorded (fst (bind_act m f w)) = recorded w"
    by (cases r) (simp_all add: bind_act_def)
qed

lemma records_nothing_then [recorded_rules]:
  "records_nothing m \<Longrightarrow> records_nothing n \<Longrightarrow> records_nothing (then_act m n)"
  unfolding then_act_def by (rule records_nothing_bind)

lemma records_nothing_try [recorded_rules]: "records_nothing m \<Longrightarrow> records_nothing (try_act m)"
  by (simp add: records_nothing_def try_act_def split_beta)

lemma records_nothing_when [recorded_rules]: "records_nothing m \<Longrightarrow> records_nothing (when_act b m)"
  by (simp add: when_act_def records_nothing_leaves)

lemma records_nothing_host [recorded_rules]: "records_nothing (host_command answer h c)"
  unfolding host_command_def by (intro recorded_rules)

lemma records_nothing_if [recorded_rules]:
  "records_nothing m \<Longrightarrow> records_nothing n \<Longrightarrow> records_nothing (if b then m else n)"
  by simp

lemma recorded_fields:
  "records_nothing m \<Longrightarrow> m w = (w', r) \<Longrightarrow>
   w_db w' = w_db w \<and> w_hook_tokens w' = w_hook_tokens w \<and> w_bus w' = w_bus w"
  unfolding records_nothing_def recorded_def by (metis fst_conv prod.inject)

lemma records_nothing_load [recorded_rules]:
  "records_nothing (load_session st i)" "records_nothing (load_host_for_session st s)"
  unfolding load_session_def load_host_for_session_def
  by (auto split: option.split intro!: recorded_rules)

lemma records_nothing_forget [recorded_rules]:
  "records_nothing (remove_session_claude_mcp_config st h i)" "records_nothing (forget_claude_config st h tool i)"
proof -
  show 1: "records_nothing (remove_session_claude_mcp_config st h i)"
    unfolding remove_session_claude_mcp_config_def remove_remote_claude_mcp_config_def remove_combined_config_def
    by (auto split: host_kind.split sum.split intro!: recorded_rules)
  then show "records_nothing (forget_claude_config st h tool i)"
    unfolding forget_claude_config_def by (intro recorded_rules)
qed

lemma bind_act_Inr:
  "bind_act m f w = (w', Inr y) \<longleftrightarrow> (\<exists>w1 x. m w = (w1, Inr x) \<and> f x w1 = (w', Inr y))"
  by (auto simp: bind_act_def split: prod.splits sum.splits)

lemma then_act_Inr:
  "then_act m n w = (w', Inr y) \<longleftrightarrow> (\<exists>w1 x. m w = (w1, Inr x) \<and> n w1 = (w', Inr y))"
  by (simp add: then_act_def bind_act_Inr)

section \<open>Reading a session back after an update of its status\<close>

lemma load_session_Inr:
  "load_session st i w = (w', Inr s) \<longleftrightarrow> w' = w \<and> get_session_by_id (as_cx st) (w_db w) i = Inr (Some s)"
  by (auto simp: load_session_def bind_act_Inr store_read_def ret_def raise_def lift_api_Inr split: option.splits)

lemma get_session_Inr:
  "get_session_by_id cx d i = Inr (Some s) \<longleftrightarrow>
     (\<exists>r. sql_find (\<lambda>r. sr_id r = i) (db_sessions d) = Some r \<and> Session_try_from cx (join_host d r) = Inr s)"
  by (auto simp: get_session_by_id_def get_session_where_def transpose_opt_def split: option.splits sum.splits)

lemma Session_try_from_fields:
  assumes "Session_try_from cx j = Inr s"
  shows "lift_core (Status_from_str (sr_status (fst j))) = Inr (s_status s)"
    and "s_tmux_target s = sr_tmux_target (fst j)"
    and "parse_uuid cx (sr_id (fst j)) = Inr (s_id s)"
  using assms by (auto simp: Session_try_from_def Let_def and_then_eq_Inr)

lemma find_sql_update:
  assumes "\<And>r. key (f r) = key r"
  shows "sql_find (\<lambda>r. key r = k) (sql_update (\<lambda>r. key r = k) f rows) =
    map_option f (sql_find (\<lambda>r. key r = k) rows)"
  using assms by (induction rows) (auto simp: sql_find_def sql_update_def)

lemma status_target_read_back:
  assumes "db_sessions d' = db_sessions (fst (update_status_and_target cx now d i st target))"
    and "get_session_by_id cx d' i = Inr (Some s)"
  shows "s_status s = st \<and> s_tmux_target s = target"
proof -
  obtain r where r: "sql_find (\<lambda>r. sr_id r = i) (db_sessions d') = Some r"
    and s: "Session_try_from cx (join_host d' r) = Inr s"
    using assms(2) by (auto simp: get_session_Inr)
  from r assms(1) have "sr_status r = Status_as_str st" "sr_tmux_target r = target"
    by (auto simp: update_status_and_target_def update_session_def Let_def
      find_sql_update [where key = sr_id])
  moreover have "fst (join_host d' r) = r" by (simp add: join_host_def Let_def)
  ultimately show ?thesis
    using Session_try_from_fields(1,2) [OF s] by (simp add: lift_core_def)
qed

lemma mark_effect:
  assumes "store_write en (\<lambda>now _ d. update_status_and_target cx now d i st target) w = (w', Inr u)"
  shows "\<exists>now. w_db w' = fst (update_status_and_target cx now (w_db w) i st target)"
    and "w_hook_tokens w' = w_hook_tokens w" and "w_bus w' = w_bus w"
  using assms by (auto simp: store_write_def Let_def)

section \<open>Stop and kill\<close>

lemma emit_stopped_effect:
  assumes "emit_stopped st s reason w = (w', Inr u)"
  shows "db_sessions (w_db w') = db_sessions (w_db w)" "w_hook_tokens w' = w_hook_tokens w"
    and "\<exists>ev. w_bus w' = w_bus w @ [ev] \<and> ev_kind ev = ''session.stopped'' \<and> ev_session_id ev = Some (s_id s)"
  using assms
  by (auto simp: emit_stopped_def Let_def insert_event_def Event_new_def with_session_def with_payload_def)

lemma after_end_effect:
  assumes "after_end reason st i s h w = (w', Inr s')"
  shows "db_sessions (w_db w') = db_sessions (w_db w)" "w_hook_tokens w' i = None"
    and "get_session_by_id (as_cx st) (w_db w') i = Inr (Some s')"
    and "\<exists>ev. w_bus w' = w_bus w @ [ev] \<and> ev_kind ev = ''session.stopped'' \<and> ev_session_id ev = Some (s_id s)"
proof -
  obtain w1 w2 w3 u1 u2 u3 where
    1: "forget_claude_config st h (s_tool s) i w = (w1, Inr u1)" and
    2: "set_hook_token i None w1 = (w2, Inr u2)" and
    3: "emit_stopped st s reason w2 = (w3, Inr u3)" and
    4: "load_session st i w3 = (w', Inr s')"
    using assms by (auto simp: after_end_def then_act_Inr)
  note r1 = recorded_fields [OF records_nothing_forget(2) 1]
  have r2: "w_db w2 = w_db w1" "w_bus w2 = w_bus w1" "w_hook_tokens w2 i = None"
    using 2 by (auto simp: set_hook_token_def)
  from 4 have w': "w' = w3" by (simp add: load_session_Inr)
  show "db_sessions (w_db w') = db_sessions (w_db w)" "w_hook_tokens w' i = None"
    using emit_stopped_effect(1,2) [OF 3] r1 r2 w' by auto
  show "get_session_by_id (as_cx st) (w_db w') i = Inr (Some s')"
    using 4 by (simp add: load_session_Inr)
  show "\<exists>ev. w_bus w' = w_bus w @ [ev] \<and> ev_kind ev = ''session.stopped'' \<and> ev_session_id ev = Some (s_id s)"
    using emit_stopped_effect(3) [OF 3] r1 r2 w' by auto
qed

lemma end_pane_effect:
  assumes "end_pane cmd st i s h x live w = (w', Inr u)"
  shows "\<exists>now. db_sessions (w_db w') = db_sessions (fst (update_status_and_target (as_cx st) now (w_db w) i
      Status_Stopped (if is_external s then Some (tmux_target s) else None)))"
    and "w_bus w' = w_bus w"
proof -
  let ?t = "if is_external s then Some (tmux_target s) else None"
  obtain w1 where 1: "w_db w1 = w_db w" "w_bus w1 = w_bus w" and
    2: "mark_stopped st i ?t w1 = (w', Inr u)"
  proof (cases "is_external s")
    case True
    then obtain w1 u1 where "command (en_unit (as_en st)) (Cmd_UnpipePane h (tmux_target s)) w = (w1, Inr u1)"
      "mark_stopped st i ?t w1 = (w', Inr u)"
      using assms by (auto simp: end_pane_def then_act_Inr)
    then show thesis using that recorded_fields [OF records_nothing_leaves(5)] by blast
  next
    case False
    then obtain w1 u1 where "when_act live (host_command (en_unit (as_en st)) h (cmd h x)) w = (w1, Inr u1)"
      "mark_stopped st i ?t w1 = (w', Inr u)"
      using assms by (auto simp: end_pane_def then_act_Inr)
    then show thesis
      using that recorded_fields [OF records_nothing_when [OF records_nothing_host]] by blast
  qed
  from mark_effect [OF 2 [unfolded mark_stopped_def]] 1
  show "\<exists>now. db_sessions (w_db w') = db_sessions (fst (update_status_and_target (as_cx st) now (w_db w) i
      Status_Stopped ?t))" and "w_bus w' = w_bus w" by auto
qed

lemma records_nothing_owner [recorded_rules]: "records_nothing (owned_control_target st s h t live)"
  unfolding owned_control_target_def migrate_or_verify_remote_tmux_owner_def migrate_owner_def
    exact_remote_tmux_identity_def probe_tmux_identity_def mark_remote_tmux_owner_if_absent_def
    verify_migrated_owner_def quoting_def conflict_on_def
  by (auto split: option.split sum.split intro!: recorded_rules)

lemma end_session_effect:
  assumes "end_session cmd reason st i w = (w', Inr s')"
  obtains s where "get_session_by_id (as_cx st) (w_db w) i = Inr (Some s)"
    and "get_session_by_id (as_cx st) (w_db w') i = Inr (Some s')"
    and "s_status s' = Status_Stopped"
    and "s_tmux_target s' = (if is_external s then Some (tmux_target s) else None)"
    and "w_hook_tokens w' i = None"
    and "\<exists>ev. w_bus w' = w_bus w @ [ev] \<and> ev_kind ev = ''session.stopped'' \<and> ev_session_id ev = Some (s_id s)"
proof -
  obtain s where s: "get_session_by_id (as_cx st) (w_db w) i = Inr (Some s)"
    and "end_loaded cmd reason st i s w = (w', Inr s')"
    using assms by (auto simp: end_session_def bind_act_Inr load_session_Inr)
  then obtain wh h where 1: "load_host_for_session st s w = (wh, Inr h)" "end_on cmd reason st i s h wh = (w', Inr s')"
    by (auto simp: end_loaded_def bind_act_Inr)
  let ?live = "if managed_remote s h
               then host_command (en_bool (as_en st)) h (Cmd_HasSession h (tmux_target s)) else ret True"
  obtain wl live wo x wp u where
    2: "?live wh = (wl, Inr live)" "owned_control_target st s h (tmux_target s) live wl = (wo, Inr x)" and
    3: "end_pane cmd st i s h x live wo = (wp, Inr u)" and 4: "after_end reason st i s h wp = (w', Inr s')"
    using 1(2) unfolding end_on_def bind_act_Inr then_act_Inr by blast
  have live: "records_nothing ?live" by (intro recorded_rules)
  have wo: "w_db wo = w_db w" "w_bus wo = w_bus w"
    using recorded_fields [OF records_nothing_load(2) 1(1)] recorded_fields [OF live 2(1)]
      recorded_fields [OF records_nothing_owner 2(2)] by simp_all
  obtain now where "db_sessions (w_db w') = db_sessions (fst (update_status_and_target (as_cx st) now (w_db w) i
      Status_Stopped (if is_external s then Some (tmux_target s) else None)))"
    using end_pane_effect(1) [OF 3] after_end_effect(1) [OF 4] wo by auto
  from status_target_read_back [OF this after_end_effect(3) [OF 4]] s after_end_effect(2-4) [OF 4]
    end_pane_effect(2) [OF 3] wo that
  show thesis by auto
qed

text \<open>
  C33. A session that was stopped or killed is over. When stop or kill returns, the session is recorded
  as Stopped; a managed one has lost its target and an external one keeps it for reattachment; the
  hook token of its pane is gone, so every hook is refused; its bearer token opens the MCP endpoint
  no more; and the one event that was sent announces the stop.
\<close>

theorem stopped_sessions_are_revoked:
  assumes "stop_session_locked st i w = (w', Inr s') \<or> kill_session_locked st i w = (w', Inr s')"
  shows "s_status s' = Status_Stopped \<and> get_session_by_id (as_cx st) (w_db w') i = Inr (Some s') \<and>
    (\<exists>s. get_session_by_id (as_cx st) (w_db w) i = Inr (Some s) \<and>
       s_tmux_target s' = (if is_external s then Some (tmux_target s) else None)) \<and>
    snd (hook st i header kind payload w') = Inl (ApiError_Unauthorized ''invalid hook token'') \<and>
    (verify_session_mcp_token (as_crypto st) (as_mcp_token st) (trim token) = Some i \<longrightarrow>
       \<not> mcp_authorized st (w_db w') (Some (''Bearer '' @ token))) \<and>
    (\<exists>ev. w_bus w' = w_bus w @ [ev] \<and> ev_kind ev = ''session.stopped'')"
proof -
  obtain cmd reason where "end_session cmd reason st i w = (w', Inr s')"
    using assms unfolding stop_session_locked_def kill_session_locked_def by blast
  then obtain s where s: "get_session_by_id (as_cx st) (w_db w) i = Inr (Some s)"
    "get_session_by_id (as_cx st) (w_db w') i = Inr (Some s')" "s_status s' = Status_Stopped"
    "s_tmux_target s' = (if is_external s then Some (tmux_target s) else None)" "w_hook_tokens w' i = None"
    "\<exists>ev. w_bus w' = w_bus w @ [ev] \<and> ev_kind ev = ''session.stopped''"
    by (rule end_session_effect) blast
  have "load_session st i w' = (w', Inr s')" using s(2) by (simp add: load_session_Inr)
  then have "snd (hook st i header kind payload w') = Inl (ApiError_Unauthorized ''invalid hook token'')"
    using s(5) by (simp add: hook_def bind_act_def raise_def)
  with s show ?thesis by (auto simp: mcp_authorized_def)
qed

section \<open>Start\<close>

lemma settle_effect:
  assumes "settle_launch st s h target q w = (w', Inr u)"
  shows "\<exists>now d. w_db w' = fst (update_status_and_target (as_cx st) now d (s_id s) Status_Running (Some target))"
proof -
  obtain rct r where q: "q = (rct, r)" by (cases q)
  show ?thesis
  proof (cases r)
    case (Inl e)
    then show ?thesis using assms by (simp add: settle_launch_def q then_act_Inr raise_def)
  next
    case (Inr v)
    have m: "mark_running st (s_id s) target w = (w', Inr ())"
      using assms unfolding q Inr settle_launch_def
      by (auto simp: bind_act_Inr then_act_Inr try_act_def raise_def ret_def split: prod.splits sum.splits)
    show ?thesis using mark_effect(1) [OF m [unfolded mark_running_def]] by auto
  qed
qed

lemma loaded_id:
  assumes "get_session_by_id cx d i = Inr (Some s)" and "canonical_uuid cx i"
  shows "s_id s = i"
proof -
  obtain r where r: "sql_find (\<lambda>r. sr_id r = i) (db_sessions d) = Some r"
    and s: "Session_try_from cx (join_host d r) = Inr s"
    using assms(1) by (auto simp: get_session_Inr)
  have "sr_id r = i" using sql_find_Some [OF r] by simp
  moreover have "fst (join_host d r) = r" by (simp add: join_host_def Let_def)
  ultimately show ?thesis
    using Session_try_from_fields(3) [OF s] assms(2) by (simp add: parse_uuid_def canonical_uuid_def)
qed

lemma start_fresh_effect:
  assumes "start_fresh st i s h target w = (w', Inr (s', spawned))" and "s_id s = i"
  shows "s_status s' = Status_Running \<and> s_tmux_target s' = Some target \<and> spawned \<and> \<not> is_external s \<and>
    get_session_by_id (as_cx st) (w_db w') i = Inr (Some s')"
proof -
  have ext: "\<not> is_external s" using assms(1) by (auto simp: start_fresh_def then_act_Inr raise_def)
  then obtain w1 workdir w2 where
    spawn: "spawn_agent_into_pane_locked st s h target workdir w1 = (w2, Inr ())" and
    load: "load_session st i w2 = (w', Inr s')" and spawned: spawned
    using assms(1) by (auto simp: start_fresh_def then_act_Inr bind_act_Inr ret_def)
  obtain q w3 where "settle_launch st s h target q w3 = (w2, Inr ())"
    using spawn by (auto simp: spawn_agent_into_pane_locked_def bind_act_Inr Let_def)
  then obtain now d where
    d: "w_db w2 = fst (update_status_and_target (as_cx st) now d (s_id s) Status_Running (Some target))"
    using settle_effect by blast
  have "get_session_by_id (as_cx st) (w_db w2) i = Inr (Some s')" and "w' = w2"
    using load by (simp_all add: load_session_Inr)
  then show ?thesis
    using status_target_read_back [of "w_db w2" "as_cx st" now d i Status_Running "Some target" s'] d assms(2)
      spawned ext by simp
qed

lemma records_nothing_generation [recorded_rules]:
  "records_nothing (migrate_or_verify_remote_tmux_owner st h s t)"
  "records_nothing (remote_tmux_mcp_generation st h x)" "records_nothing (rearm_tunnel st h)"
  "records_nothing (pane_log_for st i)"
  unfolding migrate_or_verify_remote_tmux_owner_def migrate_owner_def exact_remote_tmux_identity_def
    probe_tmux_identity_def mark_remote_tmux_owner_if_absent_def verify_migrated_owner_def quoting_def
    conflict_on_def remote_tmux_mcp_generation_def rearm_tunnel_def pane_log_for_def
  by (auto split: option.split sum.split intro!: recorded_rules)

lemma reconcile_alive:
  assumes "reconcile_live_remote st i s h target w = (w', Inr (True, rct))"
  shows "w_db w' = w_db w"
proof -
  obtain w1 x where 1: "migrate_or_verify_remote_tmux_owner st h s target w = (w1, Inr x)" and
    2: "(if \<not> tool_consumes_agentum_mcp (s_tool s) then ret (True, Some x) else
       bind_act (remote_tmux_mcp_generation st h x) (\<lambda>current.
         if current \<noteq> Some (mcp_token_generation st) then
           then_act (host_command (en_unit (as_en st)) h (Cmd_KillSession h x))
             (then_act (store_write (as_en st) (\<lambda>now _ d.
                 update_status_and_target (as_cx st) now d i Status_Idle None))
               (ret (False, Some x)))
         else then_act (rearm_tunnel st h) (ret (True, Some x)))) w1 = (w', Inr (True, rct))"
    using assms unfolding reconcile_live_remote_def bind_act_Inr by blast
  have "w_db w1 = w_db w" using recorded_fields [OF records_nothing_generation(1) 1] by simp
  moreover have "w_db w' = w_db w1"
  proof (cases "tool_consumes_agentum_mcp (s_tool s)")
    case False
    with 2 show ?thesis by (simp add: ret_def)
  next
    case True
    then obtain w2 current w3 u where g: "remote_tmux_mcp_generation st h x w1 = (w2, Inr current)"
      and t: "rearm_tunnel st h w2 = (w3, Inr u)" "w' = w3"
      using 2 by (auto simp: bind_act_Inr then_act_Inr ret_def split: if_splits)
    show ?thesis
      using recorded_fields [OF records_nothing_generation(2) g] recorded_fields [OF records_nothing_generation(3) t(1)] t(2)
      by simp
  qed
  ultimately show ?thesis by simp
qed

lemma reattach_effect:
  assumes "reattach st i s h target rct w = (w', Inr (s', spawned))"
    and "get_session_by_id (as_cx st) (w_db w) i = Inr (Some s)"
  shows "s_status s' = Status_Running \<and> s_tmux_target s' = Some target \<and> \<not> spawned \<and>
    get_session_by_id (as_cx st) (w_db w') i = Inr (Some s')"
proof -
  obtain w1 log w2 u w3 u' where
    1: "pane_log_for st (s_id s) w = (w1, Inr log)" and
    2: "host_command (en_unit (as_en st)) h (Cmd_PipePane h (control_target_of rct target) log) w1 = (w2, Inr u)" and
    3: "when_act (s_status s \<noteq> Status_Running \<or> s_tmux_target s \<noteq> Some target) (mark_running st i target) w2 = (w3, Inr u')" and
    4: "load_session st i w3 = (w', Inr s')" and sp: "\<not> spawned"
    using assms(1) by (auto simp: reattach_def bind_act_Inr then_act_Inr ret_def)
  have w2: "w_db w2 = w_db w"
    using recorded_fields [OF records_nothing_generation(4) 1] recorded_fields [OF records_nothing_host 2] by simp
  have s': "get_session_by_id (as_cx st) (w_db w3) i = Inr (Some s')" "w' = w3"
    using 4 by (simp_all add: load_session_Inr)
  show ?thesis
  proof (cases "s_status s \<noteq> Status_Running \<or> s_tmux_target s \<noteq> Some target")
    case True
    with 3 have "mark_running st i target w2 = (w3, Inr u')" by (simp add: when_act_def)
    from mark_effect(1) [OF this [unfolded mark_running_def]] obtain now where
      "w_db w3 = fst (update_status_and_target (as_cx st) now (w_db w2) i Status_Running (Some target))"
      by blast
    with s' sp show ?thesis
      using status_target_read_back [of "w_db w3" "as_cx st" now "w_db w2" i Status_Running "Some target" s'] by simp
  next
    case False
    with 3 have "w3 = w2" by (simp add: when_act_def ret_def)
    with s' assms(2) w2 False sp show ?thesis by simp
  qed
qed

text \<open>
  C34. A start that succeeds leaves the session running where it said it would. Whatever happened on the
  way (reattachment to a live pane, a restart because the credential was stale, a fresh launch), the
  session that is returned is the recorded one, it is Running, its target is the one that was chosen
  before anything was issued, and an external session was only reattached to.
\<close>

theorem started_sessions_are_running:
  assumes "start_session_locked st i w = (w', Inr (s', spawned))" and "canonical_uuid (as_cx st) i"
  shows "s_status s' = Status_Running \<and> get_session_by_id (as_cx st) (w_db w') i = Inr (Some s') \<and>
    (\<exists>s target. get_session_by_id (as_cx st) (w_db w) i = Inr (Some s) \<and> start_target s = Inr target \<and>
       s_tmux_target s' = Some target \<and> (is_external s \<longrightarrow> \<not> spawned))"
proof -
  obtain s where s: "get_session_by_id (as_cx st) (w_db w) i = Inr (Some s)"
    and "start_loaded st i s w = (w', Inr (s', spawned))"
    using assms(1) by (auto simp: start_session_locked_def bind_act_Inr load_session_Inr)
  then obtain w1 h where 1: "load_host_for_session st s w = (w1, Inr h)"
    "start_on st i s h w1 = (w', Inr (s', spawned))"
    by (auto simp: start_loaded_def bind_act_Inr)
  then obtain target where t: "start_target s = Inr target"
    "start_target_on st i s h target w1 = (w', Inr (s', spawned))"
    by (auto simp: start_on_def bind_act_Inr lift_result_def)
  let ?rec = "\<lambda>already0. if already0 \<and> \<not> is_external s \<and> is_ssh h then reconcile_live_remote st i s h target
               else ret (already0, None)"
  obtain w2 already0 w3 already rct where
    2: "host_command (en_bool (as_en st)) h (Cmd_HasSession h target) w1 = (w2, Inr already0)" and
    3: "?rec already0 w2 = (w3, Inr (already, rct))" and
    4: "(if already then reattach st i s h target rct else start_fresh st i s h target) w3 = (w', Inr (s', spawned))"
    using t(2) by (auto simp: start_target_on_def bind_act_Inr split: prod.splits)
  have w2: "w_db w2 = w_db w"
    using recorded_fields [OF records_nothing_load(2) 1(1)] recorded_fields [OF records_nothing_host 2] by simp
  have id: "s_id s = i" by (rule loaded_id [OF s assms(2)])
  show ?thesis
  proof (cases already)
    case True
    have "w_db w3 = w_db w2"
      using 3 True reconcile_alive [of st i s h target w2 w3 rct] by (auto simp: ret_def split: if_splits)
    with s w2 have "get_session_by_id (as_cx st) (w_db w3) i = Inr (Some s)" by simp
    with reattach_effect [of st i s h target rct w3 w' s' spawned] 4 True s t(1) show ?thesis by auto
  next
    case False
    with start_fresh_effect [of st i s h target w3 w' s' spawned] 4 id s t(1) show ?thesis by auto
  qed
qed

section \<open>Sample runs\<close>

definition sample_identity :: string where
  "sample_identity = ''AGENTUM_TMUX_IDENTITY'' @ [CHR 0x1F] @ ''t'' @ [CHR 0x1F] @ ''$1'' @ [CHR 0x1F] @ ''u1''"

definition sample_app :: app_state where
  "sample_app =
     \<lparr>as_en = \<lparr>en_cx = sample_codec, en_clock = int, en_uuid = (\<lambda>_. ''u9''), en_unit = (\<lambda>_ _. Inr ()),
        en_bool = (\<lambda>_ _. Inr True), en_text = (\<lambda>_ _. Inr sample_identity), en_file = (\<lambda>_ _. Inr None),
        en_preflight = (\<lambda>_ _. Inl (OtherRuntimeError ''down'')),
        en_worktree = (\<lambda>_ _. Inl (OtherRuntimeError ''down'')),
        en_counts = (\<lambda>_ _. Inl (OtherRuntimeError ''down'')), en_port = (\<lambda>_ _. Inr 9),
        en_sample = (\<lambda>_ _. Inr None), en_instant = (\<lambda>t. t)\<rparr>,
      as_crypto = sample_crypto, as_local = \<lparr>le_shell = None, le_home = None, le_exists = (\<lambda>_. False)\<rparr>,
      as_sha256 = (\<lambda>s. s), as_new_token = (\<lambda>_. ''tok''), as_mcp_token = ''m'',
      as_mcp_base_url = None, as_api_base_url = None, as_playwright_enabled = False,
      as_browser_engine = None, as_state_dir = Inl ''none'', as_pane_log = (\<lambda>_. Inr ''log'')\<rparr>"

definition sample_terminal :: "string list \<Rightarrow> new_session" where
  "sample_terminal flags =
     \<lparr>ns_name = ''a'', ns_workdir = ''/w'', ns_tool = ''terminal'', ns_model = None, ns_flags = flags,
      ns_card_id = None, ns_worktree_path = None, ns_worktree_branch = None, ns_worktree_base_ref = None\<rparr>"

definition sample_world :: "string list \<Rightarrow> world" where
  "sample_world flags =
     \<lparr>w_db = sample_host_db\<lparr>db_sessions := [session_row_of sample_codec 5 ''u1'' Status_Idle (Some ''t'')
                (Some ''h1'') (sample_terminal flags)]\<rparr>,
      w_bus = [], w_hook_tokens = (\<lambda>_. None), w_trace = [], w_ticks = 0\<rparr>"

definition sample_host :: host where
  "sample_host = \<lparr>h_id = ''h1'', h_name = ''box'', h_kind = nh_kind (sample_ssh ''pw''),
     h_created_at = 1, h_updated_at = 1, h_last_seen_at = None\<rparr>"

lemma sample_get_host: "get_host sample_codec (w_db (sample_world flags)) ''h1'' = Inr (Some sample_host)"
proof -
  let ?r = "host_row_of sample_codec 1 ''h1'' (sample_ssh ''pw'')"
  have rows: "db_hosts sample_host_db = db_hosts initial_db @ [?r]"
    by (simp add: sample_host_db_def create_host_def initial_db_def unique_on_def host_row_of_def
        LOCAL_HOST_ID_def sample_ssh_def Let_def)
  have id: "hr_id ?r = ''h1''" by (simp add: host_row_of_def Let_def)
  have "unique_on hr_id (db_hosts sample_host_db)"
    unfolding rows by (simp add: initial_db_def unique_on_def host_row_of_def LOCAL_HOST_ID_def Let_def)
  moreover have "Host_try_from sample_codec ?r = Inr sample_host"
    using Host_try_from_new [of sample_codec "''h1''" 1 "sample_ssh ''pw''"] by (simp add: sample_host_def sample_ssh_def)
  moreover have "?r \<in> set (db_hosts sample_host_db)" unfolding rows by simp
  ultimately show ?thesis
    using get_host_row [of "w_db (sample_world flags)" ?r "''h1''" sample_codec] id
    by (simp add: sample_world_def)
qed

lemma sample_get_session:
  "\<exists>s. get_session_by_id sample_codec (w_db (sample_world flags)) ''u1'' = Inr (Some s) \<and>
     s_id s = ''u1'' \<and> s_flags s = flags \<and> s_tmux_target s = Some ''t'' \<and> s_host_id s = Some ''h1'' \<and>
     s_tool s = ''terminal'' \<and> s_status s = Status_Idle"
proof -
  let ?r = "session_row_of sample_codec 5 ''u1'' Status_Idle (Some ''t'') (Some ''h1'') (sample_terminal flags)"
  obtain l k where "join_host (w_db (sample_world flags)) ?r = (?r, l, k)" by (simp add: join_host_def Let_def)
  then show ?thesis
    by (simp add: get_session_Inr sample_world_def Session_try_from_new sql_find_def)
      (simp add: session_row_of_def sample_terminal_def)
qed

lemma sample_cx [simp]: "as_cx sample_app = sample_codec"
  by (simp add: sample_app_def)

lemma sample_probe:
  "parse_remote_tmux_identity_output (as_crypto sample_app) sample_identity sel =
     Inr \<lparr>rti_name = ''t'', rti_id = ''$1'', rti_owner = Some ''u1''\<rparr>"
proof -
  have "last_marked_line (''AGENTUM_TMUX_IDENTITY'' @ [unit_separator]) sample_identity =
      Some (''t'' @ [CHR 0x1F] @ ''$1'' @ [CHR 0x1F] @ ''u1'')" by code_simp
  moreover have "field 0 (split_on unit_separator (''t'' @ [CHR 0x1F] @ ''$1'' @ [CHR 0x1F] @ ''u1'')) = ''t''"
    "field 1 (split_on unit_separator (''t'' @ [CHR 0x1F] @ ''$1'' @ [CHR 0x1F] @ ''u1'')) = ''$1''"
    "field 2 (split_on unit_separator (''t'' @ [CHR 0x1F] @ ''$1'' @ [CHR 0x1F] @ ''u1'')) = ''u1''"
    "length (split_on unit_separator (''t'' @ [CHR 0x1F] @ ''$1'' @ [CHR 0x1F] @ ''u1'')) = 3"
    "valid_tmux_id ''$1''"
    by code_simp+
  ultimately show ?thesis
    by (simp add: parse_remote_tmux_identity_output_def Let_def sample_app_def sample_crypto_def)
qed

lemmas run_defs = end_session_def end_loaded_def end_on_def owned_control_target_def end_pane_def
  after_end_def migrate_or_verify_remote_tmux_owner_def exact_remote_tmux_identity_def
  probe_tmux_identity_def validate_exact_tmux_resolution_def conflict_on_def mark_stopped_def
  forget_claude_config_def quoting_def load_host_for_session_def host_id_of_def
  bind_act_def then_act_def when_act_def ret_def lift_result_def host_command_def command_def
  store_read_def set_hook_token_def emit_stopped_def

lemma sample_reload:
  assumes "db_sessions d = db_sessions (fst (update_status_and_target sample_codec now (w_db (sample_world flags)) ''u1'' st t))"
  shows "\<exists>s'. get_session_by_id sample_codec d ''u1'' = Inr (Some s')"
proof -
  let ?f = "\<lambda>r. r\<lparr>sr_status := Status_as_str st, sr_tmux_target := t, sr_updated_at := cx_fmt_ts sample_codec now\<rparr>"
  let ?r = "?f (session_row_of sample_codec 5 ''u1'' Status_Idle (Some ''t'') (Some ''h1'') (sample_terminal flags))"
  have rows: "db_sessions d = [?r]"
    by (simp add: assms update_status_and_target_def update_session_def sample_world_def sql_update_def
        session_row_of_def Let_def)
  have "is_ok (Session_try_from sample_codec (?r, j))" for j
    unfolding Session_try_from_ok
    by (simp add: session_row_ok_def session_row_of_def sample_codec_def sample_fmt_ts_def
        sample_strings_roundtrip parse_uuid_def parse_strings_def parse_ts_def del: Status_as_str.simps)
  then obtain s' where "Session_try_from sample_codec (join_host d ?r) = Inr s'"
    by (auto simp: join_host_def Let_def is_ok_iff)
  then show ?thesis
    by (simp add: get_session_Inr rows sql_find_def) (simp add: session_row_of_def)
qed

lemma sample_update:
  "\<exists>d1. update_status_and_target sample_codec now (w_db (sample_world flags)) ''u1'' st t = (d1, Inr ())"
  by (simp add: update_status_and_target_def Let_def sample_world_def sql_count_def session_row_of_def)

lemma sample_env:
  "en_bool (as_en sample_app) n c = Inr True" "en_text (as_en sample_app) n c = Inr sample_identity"
  "en_unit (as_en sample_app) n c = Inr ()" "en_clock (as_en sample_app) n = int n"
  "en_cx (as_en sample_app) = sample_codec" "as_pane_log sample_app i = Inr ''log''"
  by (simp_all add: sample_app_def)

text \<open>A kill of the sample session on its SSH host: probe, verify, then kill through the id.\<close>

lemma sample_kill:
  "w_trace (fst (run_op sample_app ''u1'' Op_Kill (sample_world []))) =
     [(0, Cmd_HasSession sample_host ''t''), (1, Cmd_TmuxIdentity sample_host ''t''),
      (2, Cmd_KillSession sample_host ''$1'')] \<and>
   (\<exists>s' w'. kill_session_locked sample_app ''u1'' (sample_world []) = (w', Inr s'))"
proof -
  obtain s where s: "get_session_by_id sample_codec (w_db (sample_world [])) ''u1'' = Inr (Some s)"
    "s_id s = ''u1''" "s_flags s = []" "s_tmux_target s = Some ''t''" "s_host_id s = Some ''h1''" "s_tool s = ''terminal''"
    using sample_get_session [of "[]"] by blast
  have m: "managed_remote s sample_host" "\<not> is_external s" "tmux_target s = ''t''"
    using s by (simp_all add: managed_remote_def is_external_def is_ssh_def sample_host_def sample_ssh_def tmux_target_def)
  have q: "quotable ''t''" by (simp add: quotable_def)
  have w: "w_trace (sample_world []) = []" "w_ticks (sample_world []) = 0" by (simp_all add: sample_world_def)
  define d1 where "d1 = fst (update_status_and_target sample_codec 3 (w_db (sample_world [])) ''u1'' Status_Stopped None)"
  have upd: "update_status_and_target sample_codec 3 (w_db (sample_world [])) ''u1'' Status_Stopped None = (d1, Inr ())"
    using sample_update [of 3 "[]" Status_Stopped None] by (auto simp: d1_def)
  have again: "\<exists>s'. get_session_by_id sample_codec (fst (insert_event sample_codec d1 ev)) ''u1'' = Inr (Some s')" for ev
    by (rule sample_reload [of _ 3 "[]" Status_Stopped None]) (simp add: insert_event_def Let_def d1_def)
  have load: "load_session sample_app ''u1'' (sample_world []) = (sample_world [], Inr s)"
    using s(1) by (simp add: load_session_Inr)
  have "\<exists>w' s'. kill_session_locked sample_app ''u1'' (sample_world []) = (w', Inr s') \<and>
      w_trace w' = [(0, Cmd_HasSession sample_host ''t''), (1, Cmd_TmuxIdentity sample_host ''t''),
      (2, Cmd_KillSession sample_host ''$1'')]"
    using s m q w upd
    by (simp add: kill_session_locked_def run_defs load sample_env sample_get_host sample_probe store_write_def Let_def)
      (simp add: load_session_Inr again numeral_2_eq_2)
  then obtain w' s' where k: "kill_session_locked sample_app ''u1'' (sample_world []) = (w', Inr s')"
    "w_trace w' = [(0, Cmd_HasSession sample_host ''t''), (1, Cmd_TmuxIdentity sample_host ''t''),
      (2, Cmd_KillSession sample_host ''$1'')]" by blast
  then show ?thesis by (auto simp: discard_def then_act_def bind_act_def ret_def)
qed

theorem remote_panes_touched_only_when_owned_witness:
  "\<exists>s. guarded sample_app s sample_host ''t''
     [(0, Cmd_HasSession sample_host ''t''), (1, Cmd_TmuxIdentity sample_host ''t'')]
     (2, Cmd_KillSession sample_host ''$1'')"
proof -
  obtain s where s: "get_session_by_id sample_codec (w_db (sample_world [])) ''u1'' = Inr (Some s)"
    "s_flags s = []" "s_tmux_target s = Some ''t''" "s_host_id s = Some ''h1''"
    using sample_get_session [of "[]"] by blast
  have "managed_remote s sample_host"
    using s by (simp add: managed_remote_def is_external_def is_ssh_def sample_host_def sample_ssh_def)
  moreover have "tmux_target s = ''t''" using s by (simp add: tmux_target_def)
  moreover have "w_trace (sample_world []) = []" by (simp add: sample_world_def)
  ultimately have "guarded sample_app s sample_host ''t''
     [(0, Cmd_HasSession sample_host ''t''), (1, Cmd_TmuxIdentity sample_host ''t'')]
     (2, Cmd_KillSession sample_host ''$1'')"
    using remote_panes_touched_only_when_owned [of sample_app "sample_world []" "''u1''" s sample_host Op_Kill
        "[(0, Cmd_HasSession sample_host ''t''), (1, Cmd_TmuxIdentity sample_host ''t'')]" 2
        "Cmd_KillSession sample_host ''$1''" "[]"] s sample_get_host [of "[]"] sample_kill
    by (simp add: host_id_of_def)
  then show ?thesis by blast
qed

theorem stopped_sessions_are_revoked_witness:
  "\<exists>s' w'. kill_session_locked sample_app ''u1'' (sample_world []) = (w', Inr s') \<and> s_status s' = Status_Stopped"
proof -
  obtain w' s' where k: "kill_session_locked sample_app ''u1'' (sample_world []) = (w', Inr s')"
    using sample_kill by blast
  then have "s_status s' = Status_Stopped"
    using stopped_sessions_are_revoked [of sample_app "''u1''" "sample_world []" w' s'] by blast
  with k show ?thesis by blast
qed

theorem external_sessions_are_never_destroyed_witness:
  "\<exists>new. w_trace (fst (run_op sample_app ''u1'' Op_Kill (sample_world [EXTERNAL_TMUX_FLAG]))) = new \<and>
     list_all (\<lambda>(_, c). \<not> disturbs c) new"
proof -
  obtain s where s: "get_session_by_id sample_codec (w_db (sample_world [EXTERNAL_TMUX_FLAG])) ''u1'' = Inr (Some s)"
    "s_flags s = [EXTERNAL_TMUX_FLAG]"
    using sample_get_session [of "[EXTERNAL_TMUX_FLAG]"] by blast
  have "w_trace (sample_world [EXTERNAL_TMUX_FLAG]) = []" by (simp add: sample_world_def)
  then show ?thesis
    using external_sessions_are_never_destroyed [of sample_app "sample_world [EXTERNAL_TMUX_FLAG]" "''u1''" s Op_Kill] s
    by (auto simp: is_external_def)
qed

text \<open>A start of the sample session finds its pane alive and reattaches to it.\<close>

lemma sample_start:
  "\<exists>s' w'. start_session_locked sample_app ''u1'' (sample_world []) = (w', Inr (s', False))"
proof -
  obtain s where s: "get_session_by_id sample_codec (w_db (sample_world [])) ''u1'' = Inr (Some s)"
    "s_id s = ''u1''" "s_flags s = []" "s_tmux_target s = Some ''t''" "s_host_id s = Some ''h1''"
    "s_tool s = ''terminal''" "s_status s = Status_Idle"
    using sample_get_session [of "[]"] by blast
  have m: "is_ssh sample_host" "\<not> is_external s" "start_target s = Inr ''t''"
    "\<not> tool_consumes_agentum_mcp ''terminal''"
    using s by (simp_all add: is_external_def is_ssh_def sample_host_def sample_ssh_def start_target_def
      tool_consumes_agentum_mcp_def tool_supports_mcp_def MCP_ARG_TOOLS_def agent_mcp_file_for_def)
  have q: "quotable ''t''" by (simp add: quotable_def)
  have w: "w_trace (sample_world []) = []" "w_ticks (sample_world []) = 0" by (simp_all add: sample_world_def)
  define d1 where "d1 = fst (update_status_and_target sample_codec 3 (w_db (sample_world [])) ''u1''
    Status_Running (Some ''t''))"
  have upd: "update_status_and_target sample_codec 3 (w_db (sample_world [])) ''u1'' Status_Running (Some ''t'') = (d1, Inr ())"
    using sample_update [of 3 "[]" Status_Running "Some ''t''"] by (auto simp: d1_def)
  have again: "\<exists>s'. get_session_by_id sample_codec d1 ''u1'' = Inr (Some s')"
    by (rule sample_reload [of _ 3 "[]" Status_Running "Some ''t''"]) (simp add: d1_def)
  have load: "load_session sample_app ''u1'' (sample_world []) = (sample_world [], Inr s)"
    using s(1) by (simp add: load_session_Inr)
  show ?thesis
    using s m q w upd again
    by (simp add: start_session_locked_def start_loaded_def start_on_def start_target_on_def
      reconcile_live_remote_def reattach_def pane_log_for_def mark_running_def control_target_of_def
      run_defs load sample_env sample_get_host sample_probe store_write_def Let_def)
      (auto simp: load_session_def store_read_def bind_act_def ret_def)
qed

theorem started_sessions_are_running_witness:
  "\<exists>s' w'. start_session_locked sample_app ''u1'' (sample_world []) = (w', Inr (s', False)) \<and>
     s_status s' = Status_Running"
proof -
  obtain w' s' where k: "start_session_locked sample_app ''u1'' (sample_world []) = (w', Inr (s', False))"
    using sample_start by blast
  then have "s_status s' = Status_Running"
    using started_sessions_are_running [of sample_app "''u1''" "sample_world []" w' s' False] by simp
  with k show ?thesis by blast
qed

end
