(* ===== verification/Board_Routes.thy ===== *)
theory Board_Routes
  imports Session_Lifecycle
begin

text \<open>
  The board API: \<open>crates/agentum-server/src/rules.rs\<close> and \<open>routes/board.rs\<close>, \<open>board_rules.rs\<close>,
  \<open>board_links.rs\<close>, \<open>board_goals.rs\<close>. A card enters a column through the transition gate; a patch
  may rebind its session and, when the card enters \<open>doing\<close> without one, starts an agent on it.
\<close>

section \<open>Column rules\<close>

definition DEFAULT_COLUMNS :: "string list" where
  "DEFAULT_COLUMNS = [''todo'', ''doing'', ''done'']"

definition resolve_required_fields :: "codec \<Rightarrow> db \<Rightarrow> string \<Rightarrow> store_error + required_field list" where
  "resolve_required_fields cx d status =
     and_then (get_board_column_rule cx d status) (\<lambda>r.
       Inr (case r of Some override \<Rightarrow> override | None \<Rightarrow> required_fields_for status))"

definition merged_rule_matrix :: "codec \<Rightarrow> db \<Rightarrow> store_error + (string \<rightharpoonup> required_field list)" where
  "merged_rule_matrix cx d =
     (let out = foldl (\<lambda>m col. m(col \<mapsto> required_fields_for col)) Map.empty DEFAULT_COLUMNS
      in and_then (list_board_column_rules cx d) (\<lambda>rules. Inr (out ++ rules)))"

section \<open>The board\<close>

record grouped_board =
  gb_columns :: "string \<rightharpoonup> board_item list"
  gb_column_order :: "string list"
  gb_comment_counts :: "int \<rightharpoonup> int"

definition push_item :: "(string \<rightharpoonup> board_item list) \<Rightarrow> board_item \<Rightarrow> (string \<rightharpoonup> board_item list)" where
  "push_item m it =
     m(bi_status it \<mapsto> (case m (bi_status it) of Some its \<Rightarrow> its | None \<Rightarrow> []) @ [it])"

text \<open>The keys of the \<open>BTreeMap\<close> in their order: the default columns and every status in use.\<close>

definition column_keys :: "board_item list \<Rightarrow> string list" where
  "column_keys items = sort (remdups (DEFAULT_COLUMNS @ map bi_status items))"

definition list_board :: "codec \<Rightarrow> db \<Rightarrow> api_error + grouped_board" where
  "list_board cx d =
     and_then (lift_api (list_board_items cx d)) (\<lambda>items.
       Inr \<lparr>gb_columns = foldl push_item (\<lambda>s. if s \<in> set DEFAULT_COLUMNS then Some [] else None) items,
            gb_column_order = DEFAULT_COLUMNS @ filter (\<lambda>k. k \<notin> set DEFAULT_COLUMNS) (column_keys items),
            gb_comment_counts = count_board_comments d\<rparr>)"

section \<open>The transition gate\<close>

definition send_event :: "app_state \<Rightarrow> string \<Rightarrow> json \<Rightarrow> unit act" where
  "send_event st kind payload = publish (as_en st) (\<lambda>now. with_payload payload (Event_new now kind))"

definition json_strings :: "string list \<Rightarrow> json" where
  "json_strings ss = JArr (map JStr ss)"

definition missing_error :: "string list \<Rightarrow> string \<Rightarrow> api_error" where
  "missing_error missing target_status =
     ApiError_Custom 400 (JObj [(''missing'', json_strings missing), (''status'', JStr target_status)])"

definition gate_ctx :: "db \<Rightarrow> int option \<Rightarrow> string \<Rightarrow> transition_ctx \<Rightarrow> transition_ctx" where
  "gate_ctx d i target_status ctx =
     (case i of
        Some real_id \<Rightarrow>
          if target_status = ''done'' then ctx\<lparr>tc_has_comment := has_board_comments d real_id\<rparr> else ctx
      | None \<Rightarrow> ctx)"

definition enforce_transition :: "app_state \<Rightarrow> int option \<Rightarrow> string \<Rightarrow> transition_ctx \<Rightarrow> unit act" where
  "enforce_transition st i target_status ctx =
     bind_act (store_read (\<lambda>d. resolve_required_fields (as_cx st) d target_status)) (\<lambda>required.
     bind_act (store_read (\<lambda>d. Inr (gate_ctx d i target_status ctx))) (\<lambda>ctx'.
       case validate_against required ctx' of
         Inr _ \<Rightarrow> ret ()
       | Inl missing \<Rightarrow>
           then_act (send_event st ''board.transition.rejected''
               (JObj [(''id'', jopt JInt i), (''target_status'', JStr target_status),
                      (''missing'', json_strings missing)]))
             (raise (missing_error missing target_status))))"

definition create_ctx :: "new_board_item \<Rightarrow> transition_ctx" where
  "create_ctx p =
     \<lparr>tc_title = Some (nb_title p), tc_lbl = nb_lbl p, tc_workdir = nb_workdir p, tc_tool = nb_tool p,
      tc_claimed_by = None, tc_session_id = nb_session_id p, tc_has_comment = False\<rparr>"

definition create_card :: "app_state \<Rightarrow> new_board_item \<Rightarrow> board_item act" where
  "create_card st payload =
     then_act (enforce_transition st None (case nb_status payload of Some s \<Rightarrow> s | None \<Rightarrow> ''todo'') (create_ctx payload))
     (bind_act (store_write (as_en st) (\<lambda>now _ d. create_board_item (as_cx st) now d payload)) (\<lambda>item.
       then_act (send_event st ''board.created''
           (JObj [(''id'', JInt (bi_id item)), (''key'', JStr (bi_key item)), (''title'', JStr (bi_title item)),
                  (''parent_goal_id'', jopt JInt (bi_parent_goal_id item))]))
         (ret item)))"

definition board_item_not_found :: "int \<Rightarrow> api_error" where
  "board_item_not_found i = ApiError_NotFound (''board item '' @ string_of_int i)"

definition load_card :: "app_state \<Rightarrow> int \<Rightarrow> board_item act" where
  "load_card st i =
     bind_act (store_read (\<lambda>d. get_board_item (as_cx st) d i)) (\<lambda>found.
       case found of Some item \<Rightarrow> ret item | None \<Rightarrow> raise (board_item_not_found i))"

section \<open>Starting an agent on a card (\<open>board_goals.rs\<close>)\<close>

definition build_card_prompt :: "board_item \<Rightarrow> string option" where
  "build_card_prompt item =
     (let title = trim (bi_title item); body = (case bi_body item of Some b \<Rightarrow> trim b | None \<Rightarrow> [])
      in if title = [] \<and> body = [] then None
         else if body = [] then Some (''Working on '' @ bi_key item @ '': '' @ title)
         else if title = [] then Some body
         else Some (''Working on '' @ bi_key item @ '': '' @ title @ [CHR 0x0A, CHR 0x0A] @ body))"

definition parent_field :: "app_state \<Rightarrow> board_item \<Rightarrow> (board_item \<Rightarrow> string option) \<Rightarrow> string option act" where
  "parent_field st item f =
     (case bi_parent_goal_id item of
        None \<Rightarrow> ret None
      | Some pg \<Rightarrow>
          bind_act (store_read (\<lambda>d. get_board_item (as_cx st) d pg)) (\<lambda>found. ret (Option.bind found f)))"

definition card_tool :: "app_state \<Rightarrow> board_item \<Rightarrow> string act" where
  "card_tool st item =
     (case bi_tool item of
        Some t \<Rightarrow> ret t
      | None \<Rightarrow>
          bind_act (parent_field st item bi_tool) (\<lambda>t.
            ret (case t of Some t \<Rightarrow> t | None \<Rightarrow> ''claude'')))"

definition card_workdir :: "app_state \<Rightarrow> board_item \<Rightarrow> string act" where
  "card_workdir st item =
     (case bi_workdir item of
        Some w \<Rightarrow> ret w
      | None \<Rightarrow>
          bind_act (parent_field st item bi_workdir) (\<lambda>w.
            case w of Some w \<Rightarrow> ret w | None \<Rightarrow> raise (missing_error [''workdir''] ''doing'')))"

definition card_session :: "board_item \<Rightarrow> string \<Rightarrow> string \<Rightarrow> new_session" where
  "card_session item tool workdir =
     \<lparr>ns_name = ''card-'' @ to_ascii_lowercase (bi_key item), ns_workdir = workdir, ns_tool = tool,
      ns_model = None, ns_flags = [YOLO_MARKER], ns_card_id = Some (bi_id item), ns_worktree_path = None,
      ns_worktree_branch = None, ns_worktree_base_ref = None\<rparr>"

text \<open>
  The second component is the task that is left running: the target and the prompt it types there
  after its delay.
\<close>

definition spawn_card_session :: "app_state \<Rightarrow> board_item \<Rightarrow> (uuid \<times> (string \<times> string) option) act" where
  "spawn_card_session st item =
     bind_act (card_tool st item) (\<lambda>tool.
     bind_act (card_workdir st item) (\<lambda>raw.
     bind_act (lift_result (expand_workdir st raw)) (\<lambda>wd.
     bind_act (path_exists st wd) (\<lambda>there.
       if \<not> there then raise (missing_workdir wd) else
       bind_act (claim_card_and_spawn_session st (bi_id item) (card_session item tool wd) None) (\<lambda>s.
         case s_tmux_target s of
           None \<Rightarrow> raise (ApiError_Internal (Internal_Text ''spawned item session has no tmux target''))
         | Some target \<Rightarrow>
             ret (s_id s, map_option (\<lambda>prompt. (target, prompt)) (build_card_prompt item)))))))"

section \<open>Patching a card\<close>

definition merged_ctx :: "board_item \<Rightarrow> board_patch \<Rightarrow> transition_ctx" where
  "merged_ctx current p =
     \<lparr>tc_title = Some (case bp_title p of Some t \<Rightarrow> t | None \<Rightarrow> bi_title current),
      tc_lbl = (case bp_lbl p of Some v \<Rightarrow> v | None \<Rightarrow> bi_lbl current),
      tc_workdir = (case bp_workdir p of Some v \<Rightarrow> v | None \<Rightarrow> bi_workdir current),
      tc_tool = (case bp_tool p of Some v \<Rightarrow> v | None \<Rightarrow> bi_tool current),
      tc_claimed_by = bi_claimed_by current,
      tc_session_id = (case bp_session_id p of Some v \<Rightarrow> v | None \<Rightarrow> bi_session_id current),
      tc_has_comment = False\<rparr>"

definition status_changing :: "board_item \<Rightarrow> board_patch \<Rightarrow> bool" where
  "status_changing current p = (case bp_status p of Some target \<Rightarrow> target \<noteq> bi_status current | None \<Rightarrow> False)"

definition patch_gate :: "app_state \<Rightarrow> int \<Rightarrow> board_item \<Rightarrow> board_patch \<Rightarrow> unit act" where
  "patch_gate st i current p =
     when_act (status_changing current p)
       (enforce_transition st (Some i) (case bp_status p of Some s \<Rightarrow> s | None \<Rightarrow> bi_status current)
          (merged_ctx current p))"

definition parse_session_id :: "app_state \<Rightarrow> string option \<Rightarrow> api_error + uuid option" where
  "parse_session_id st v =
     (case v of
        None \<Rightarrow> Inr None
      | Some s \<Rightarrow>
          (case cr_parse_uuid (as_crypto st) s of
             Some u \<Rightarrow> Inr (Some u)
           | None \<Rightarrow> Inl (ApiError_BadRequest ''invalid session_id uuid'')))"

text \<open>Rebinding: the binding is written by its own transaction and stripped from the patch.\<close>

definition patch_binding :: "app_state \<Rightarrow> int \<Rightarrow> board_patch \<Rightarrow> board_patch act" where
  "patch_binding st i p =
     (case bp_session_id p of
        None \<Rightarrow> ret p
      | Some v \<Rightarrow>
          bind_act (lift_result (parse_session_id st v)) (\<lambda>new_sid.
          bind_act (store_write (as_en st) (\<lambda>now _ d. transfer_card_binding (as_cx st) now d i new_sid)) (\<lambda>_.
            ret (p\<lparr>bp_session_id := None\<rparr>))))"

definition announce_updated :: "app_state \<Rightarrow> board_item \<Rightarrow> unit act" where
  "announce_updated st item =
     send_event st ''board.updated''
       (JObj [(''id'', JInt (bi_id item)), (''key'', JStr (bi_key item)), (''status'', JStr (bi_status item)),
              (''parent_goal_id'', jopt JInt (bi_parent_goal_id item)),
              (''session_id'', jopt JStr (bi_session_id item))])"

definition patch_rest :: "app_state \<Rightarrow> int \<Rightarrow> bool \<Rightarrow> board_patch \<Rightarrow> board_item act" where
  "patch_rest st i changing p =
     bind_act (patch_binding st i p) (\<lambda>p'.
     bind_act (store_write (as_en st) (\<lambda>now _ d. patch_board_item (as_cx st) now d i p')) (\<lambda>item.
       if changing \<and> bi_status item = ''doing'' \<and> bi_session_id item = None then
         bind_act (spawn_card_session st item) (\<lambda>_.
         bind_act (load_card st i) (\<lambda>refreshed.
           then_act (announce_updated st refreshed) (ret refreshed)))
       else then_act (announce_updated st item) (ret item)))"

definition patch_card :: "app_state \<Rightarrow> int \<Rightarrow> board_patch \<Rightarrow> board_item act" where
  "patch_card st i p =
     bind_act (load_card st i) (\<lambda>current.
       then_act (patch_gate st i current p) (patch_rest st i (status_changing current p) p))"

section \<open>The other card routes\<close>

definition delete_card :: "app_state \<Rightarrow> int \<Rightarrow> unit act" where
  "delete_card st i =
     bind_act (try_act (store_read (\<lambda>d. get_board_item (as_cx st) d i))) (\<lambda>r.
     let parent_goal_id = (case r of Inr (Some item) \<Rightarrow> bi_parent_goal_id item | _ \<Rightarrow> None)
     in then_act (store_write (as_en st) (\<lambda>_ _ d. delete_board_item d i))
          (send_event st ''board.deleted''
             (JObj [(''id'', JInt i), (''parent_goal_id'', jopt JInt parent_goal_id)])))"

definition claim_route :: "app_state \<Rightarrow> int \<Rightarrow> string \<Rightarrow> board_item act" where
  "claim_route st i claimed_by =
     (if trim claimed_by = [] then raise (ApiError_BadRequest ''claimed_by must be non-empty'') else
      bind_act (store_write (as_en st) (\<lambda>now _ d. claim_board_item (as_cx st) now d i (trim claimed_by))) (\<lambda>r.
        case r of
          Some item \<Rightarrow>
            then_act (send_event st ''board.claimed''
                (JObj [(''id'', JInt (bi_id item)), (''key'', JStr (bi_key item)),
                       (''claimed_by'', jopt JStr (bi_claimed_by item))]))
              (ret item)
        | None \<Rightarrow> raise (ApiError_Conflict (''board item '' @ string_of_int i @ '' is already claimed''))))"

definition release_route :: "app_state \<Rightarrow> int \<Rightarrow> string \<Rightarrow> board_item act" where
  "release_route st i claimed_by =
     bind_act (store_write (as_en st) (\<lambda>now _ d. release_board_item (as_cx st) now d i (trim claimed_by))) (\<lambda>r.
       case r of
         Some item \<Rightarrow>
           then_act (send_event st ''board.released''
               (JObj [(''id'', JInt (bi_id item)), (''key'', JStr (bi_key item))]))
             (ret item)
       | None \<Rightarrow> raise (ApiError_Conflict (''board item '' @ string_of_int i @
                   '' is held by a different actor'')))"

definition reorder_route :: "app_state \<Rightarrow> reorder_entry list \<Rightarrow> unit act" where
  "reorder_route st entries =
     (if entries = [] then raise (ApiError_BadRequest ''entries must be non-empty'') else
      then_act (store_write (as_en st) (\<lambda>now _ d. (reorder_board_items (as_cx st) now d entries, Inr ())))
        (send_event st ''board.reordered'' (JObj [(''ids'', JArr (map (\<lambda>e. JInt (re_id e)) entries))])))"

definition create_comment :: "app_state \<Rightarrow> int \<Rightarrow> new_board_comment \<Rightarrow> board_comment act" where
  "create_comment st i req =
     (if trim (nbc_author req) = [] then raise (ApiError_BadRequest ''author must be non-empty'')
      else if trim (nbc_body req) = [] then raise (ApiError_BadRequest ''body must be non-empty'')
      else
        bind_act (store_write (as_en st) (\<lambda>now _ d. create_board_comment (as_cx st) now d i req)) (\<lambda>c.
          then_act (send_event st ''board.commented''
              (JObj [(''board_id'', JInt (bc_board_id c)), (''comment_id'', JInt (bc_id c)),
                     (''author'', JStr (bc_author c))]))
            (ret c)))"

section \<open>Overrides of the column rules (\<open>board_rules.rs\<close>)\<close>

fun parse_fields :: "string list \<Rightarrow> required_field list \<Rightarrow> api_error + required_field list" where
  "parse_fields [] parsed = Inr parsed"
| "parse_fields (name # names) parsed =
     (case from_missing_key name of
        Some f \<Rightarrow> parse_fields names (parsed @ [f])
      | None \<Rightarrow> Inl (ApiError_BadRequest (''unknown field: '' @ name)))"

definition upsert_rule :: "app_state \<Rightarrow> string \<Rightarrow> string list \<Rightarrow> unit act" where
  "upsert_rule st column required_fields =
     bind_act (lift_result (parse_fields required_fields [])) (\<lambda>parsed.
     bind_act (store_read (\<lambda>d. get_board_column_rule (as_cx st) d column)) (\<lambda>existing.
       if existing = Some parsed then ret ()
       else
         then_act (store_write (as_en st) (\<lambda>now _ d.
             (upsert_board_column_rule (as_cx st) now d column parsed, Inr ())))
           (send_event st ''board.rules.updated''
              (JObj [(''column'', JStr column),
                     (''required_fields'', json_strings (map as_missing_key parsed))]))))"

definition delete_rule :: "app_state \<Rightarrow> string \<Rightarrow> unit act" where
  "delete_rule st column =
     bind_act (store_write (as_en st) (\<lambda>_ _ d.
         (fst (delete_board_column_rule d column), Inr (snd (delete_board_column_rule d column))))) (\<lambda>removed.
       if \<not> removed then raise (ApiError_NotFound (''board rule for '' @ column))
       else send_event st ''board.rules.deleted'' (JObj [(''column'', JStr column)]))"

section \<open>Links between cards (\<open>board_links.rs\<close>)\<close>

datatype create_link_body =
    CreateLinkBody_Direct int int string
  | CreateLinkBody_Symbolic int string string string

definition key_char :: "char \<Rightarrow> bool" where
  "key_char c = (is_ascii_alphanumeric c \<or> c = CHR ''_'' \<or> c = CHR ''-'')"

definition validate_symbolic_key :: "string \<Rightarrow> api_error + unit" where
  "validate_symbolic_key key =
     (if key = [] \<or> length key > 64 then Inl (ApiError_BadRequest (''invalid key length: '' @ key))
      else if \<not> list_all key_char key then
        Inl (ApiError_BadRequest (''invalid key (must match [a-zA-Z0-9_-]+): '' @ key))
      else Inr ())"

definition has_key :: "string \<Rightarrow> board_item \<Rightarrow> bool" where
  "has_key key c =
     (case bi_body c of
        None \<Rightarrow> False
      | Some body \<Rightarrow>
          (case str_lines body of [] \<Rightarrow> False | l # _ \<Rightarrow> trim l = ''key: '' @ key))"

definition resolve_key :: "board_item list \<Rightarrow> string \<Rightarrow> int option" where
  "resolve_key children key = map_option bi_id (find (has_key key) children)"

definition unknown_sibling :: "string \<Rightarrow> api_error" where
  "unknown_sibling key = ApiError_BadRequest (''unknown sibling key: '' @ key)"

definition link_ends :: "codec \<Rightarrow> db \<Rightarrow> create_link_body \<Rightarrow> api_error + int \<times> int \<times> string" where
  "link_ends cx d body =
     (case body of
        CreateLinkBody_Direct a b kind \<Rightarrow> Inr (a, b, kind)
      | CreateLinkBody_Symbolic goal from_key to_key kind \<Rightarrow>
          and_then (validate_symbolic_key from_key) (\<lambda>_.
          and_then (validate_symbolic_key to_key) (\<lambda>_.
          and_then (lift_api (list_children_of_goal cx d goal)) (\<lambda>children.
          and_then (ok_or (unknown_sibling from_key) (resolve_key children from_key)) (\<lambda>a.
          and_then (ok_or (unknown_sibling to_key) (resolve_key children to_key)) (\<lambda>b.
            Inr (a, b, kind)))))))"

definition link_json :: "int \<Rightarrow> int \<Rightarrow> link_kind \<Rightarrow> json" where
  "link_json a b kind =
     JObj [(''from'', JInt a), (''to'', JInt b), (''kind'', JStr (LinkKind_as_str kind))]"

definition parse_kind :: "string \<Rightarrow> string \<Rightarrow> api_error + link_kind" where
  "parse_kind msg s =
     (case LinkKind_from_str s of Inr k \<Rightarrow> Inr k | Inl _ \<Rightarrow> Inl (ApiError_BadRequest (msg @ s)))"

definition create_link :: "app_state \<Rightarrow> create_link_body \<Rightarrow> board_link act" where
  "create_link st body =
     bind_act (store_read (\<lambda>d. Inr d)) (\<lambda>d.
     bind_act (lift_result (link_ends (as_cx st) d body)) (\<lambda>(a, b, kind_str).
     bind_act (lift_result (parse_kind ''unknown link kind: '' kind_str)) (\<lambda>kind.
     bind_act (store_write (as_en st) (\<lambda>now _ d. add_board_link (as_cx st) now d a b kind)) (\<lambda>link.
       then_act (send_event st ''board.link.created'' (link_json a b kind)) (ret link)))))"

definition delete_link :: "app_state \<Rightarrow> int \<Rightarrow> int \<Rightarrow> string \<Rightarrow> unit act" where
  "delete_link st a b kind_str =
     bind_act (lift_result (parse_kind ''unknown kind: '' kind_str)) (\<lambda>kind.
     bind_act (store_write (as_en st) (\<lambda>_ _ d.
         (fst (delete_board_link d a b kind), Inr (snd (delete_board_link d a b kind))))) (\<lambda>removed.
       if removed then send_event st ''board.link.deleted'' (link_json a b kind)
       else raise (ApiError_NotFound (''board link '' @ string_of_int a @ '' -'' @ LinkKind_debug kind @
              ''-> '' @ string_of_int b))))"

section \<open>Goals (\<open>board_goals.rs\<close>)\<close>

record create_goal_body =
  cg_title :: string
  cg_body :: "string option"
  cg_workdir :: "string option"

record planner_config =
  pc_tool :: string
  pc_prompt :: string

definition goal_item :: "create_goal_body \<Rightarrow> new_board_item" where
  "goal_item b =
     \<lparr>nb_title = cg_title b, nb_body = cg_body b, nb_status = Some ''todo'', nb_lbl = Some ''goal'',
      nb_tool = None, nb_workdir = cg_workdir b, nb_model = None, nb_session_id = None, nb_priority = None,
      nb_parent_goal_id = None\<rparr>"

text \<open>\<open>str::replace\<close> of the marker \<open><AG-KEY>\<close>.\<close>

definition ag_key_marker :: string where
  "ag_key_marker = ''<AG-KEY>''"

function replace_ag_key :: "string \<Rightarrow> string \<Rightarrow> string" where
  "replace_ag_key key s =
     (case strip_prefix ag_key_marker s of
        Some rest \<Rightarrow> key @ replace_ag_key key rest
      | None \<Rightarrow> (case s of [] \<Rightarrow> [] | c # cs \<Rightarrow> c # replace_ag_key key cs))"
  by pat_completeness auto

termination
  by (relation "measure (\<lambda>(_, s). length s)") (auto simp: strip_prefix_Some ag_key_marker_def)

definition planner_session :: "board_item \<Rightarrow> planner_config \<Rightarrow> string \<Rightarrow> new_session" where
  "planner_session goal cfg workdir =
     \<lparr>ns_name = ''planner-'' @ to_ascii_lowercase (bi_key goal), ns_workdir = workdir, ns_tool = pc_tool cfg,
      ns_model = None, ns_flags = [], ns_card_id = Some (bi_id goal), ns_worktree_path = None,
      ns_worktree_branch = None, ns_worktree_base_ref = None\<rparr>"

definition spawn_planner_session :: "app_state \<Rightarrow> board_item \<Rightarrow> planner_config \<Rightarrow> string \<Rightarrow> uuid act" where
  "spawn_planner_session st goal cfg workdir =
     bind_act (create_and_spawn_session st (planner_session goal cfg workdir) None) (\<lambda>s.
       case s_tmux_target s of
         None \<Rightarrow> raise (ApiError_Internal (Internal_Text ''spawned planner session has no tmux target''))
       | Some target \<Rightarrow>
           then_act (command (en_unit (as_en st))
               (Cmd_LocalKeys target (replace_ag_key (bi_key goal) (pc_prompt cfg)) True))
           (then_act (send_event st ''goal.planner.spawned''
               (JObj [(''goal_id'', JInt (bi_id goal)), (''session_id'', JStr (s_id s)),
                      (''tool'', JStr (pc_tool cfg))]))
             (ret (s_id s))))"

text \<open>
  \<open>cfg\<close> is the planner configuration read from disk or its failure, \<open>cwd\<close> the daemon's directory;
  the text of an error in the event is \<open>describe\<close> of the error.
\<close>

definition create_goal ::
    "app_state \<Rightarrow> api_error + planner_config \<Rightarrow> string \<Rightarrow> (api_error \<Rightarrow> string) \<Rightarrow> create_goal_body \<Rightarrow>
     (board_item \<times> string) act" where
  "create_goal st cfg cwd describe b =
     then_act (enforce_transition st None ''todo'' (create_ctx (goal_item b)))
     (bind_act (store_write (as_en st) (\<lambda>now _ d. create_board_item (as_cx st) now d (goal_item b))) (\<lambda>goal.
     then_act (send_event st ''goal.created''
         (JObj [(''id'', JInt (bi_id goal)), (''key'', JStr (bi_key goal)), (''title'', JStr (bi_title goal))]))
     (bind_act (lift_result cfg) (\<lambda>cfg.
     bind_act (try_act (spawn_planner_session st goal cfg (case cg_workdir b of Some w \<Rightarrow> w | None \<Rightarrow> cwd))) (\<lambda>r.
       case r of
         Inr sid \<Rightarrow> ret (goal, sid)
       | Inl e \<Rightarrow>
           then_act (send_event st ''goal.planner.spawn_failed''
               (JObj [(''goal_id'', JInt (bi_id goal)), (''error'', JStr (describe e))]))
             (ret (goal, []))))))) "

end
