(* ===== verification/Board_Safety.thy ===== *)
theory Board_Safety
  imports Board_Routes Lifecycle_State
begin

text \<open>
  The board API keeps its promises: what the transition gate lets through, and that no route of the
  board (the start of an agent on a card included) lets the two copies of the binding between cards
  and sessions drift apart.
\<close>

section \<open>Invariants of the database\<close>

definition maintains :: "(db \<Rightarrow> bool) \<Rightarrow> 'a act \<Rightarrow> bool" where
  "maintains I m \<longleftrightarrow> (\<forall>w. I (w_db w) \<longrightarrow> I (w_db (fst (m w))))"

named_theorems maintains_rules

lemma maintains_quiet: "records_nothing m \<Longrightarrow> maintains I m"
  unfolding maintains_def records_nothing_def recorded_def by simp

lemma maintains_leaves [maintains_rules]:
  "maintains I (ret x)" "maintains I (raise e)" "maintains I (lift_result r)" "maintains I (store_read f)"
  "maintains I (command answer c)" "maintains I (fresh_uuid en)" "maintains I (host_command answer h c)"
  by (rule maintains_quiet, rule recorded_rules)+

lemma maintains_send [maintains_rules]:
  "maintains I (publish en ev)" "maintains I (send_event st k p)" "maintains I (set_hook_token i t)"
  by (simp_all add: maintains_def publish_def send_event_def set_hook_token_def)

lemma maintains_write:
  "(\<And>now i d. I d \<Longrightarrow> I (fst (f now i d))) \<Longrightarrow> maintains I (store_write en f)"
  by (simp add: maintains_def store_write_def Let_def)

lemma maintains_bind [maintains_rules]:
  assumes "maintains I m" and "\<And>x. maintains I (f x)"
  shows "maintains I (bind_act m f)"
  unfolding maintains_def
proof (intro allI impI)
  fix w :: world
  assume I: "I (w_db w)"
  obtain w' r where r: "m w = (w', r)" by fastforce
  with assms(1) I have "I (w_db w')" by (metis fst_conv maintains_def)
  with r assms(2) show "I (w_db (fst (bind_act m f w)))"
    by (cases r) (simp_all add: bind_act_def maintains_def)
qed

lemma maintains_then [maintains_rules]: "maintains I m \<Longrightarrow> maintains I n \<Longrightarrow> maintains I (then_act m n)"
  unfolding then_act_def by (rule maintains_bind)

lemma maintains_try [maintains_rules]: "maintains I m \<Longrightarrow> maintains I (try_act m)"
  by (simp add: maintains_def try_act_def split_beta)

lemma maintains_when [maintains_rules]: "(b \<Longrightarrow> maintains I m) \<Longrightarrow> maintains I (when_act b m)"
  by (simp add: when_act_def maintains_leaves)

lemma maintains_if [maintains_rules]:
  "(b \<Longrightarrow> maintains I m) \<Longrightarrow> (\<not> b \<Longrightarrow> maintains I n) \<Longrightarrow> maintains I (if b then m else n)"
  by simp

section \<open>Starting an agent\<close>

text \<open>The launch writes only the status and the target of the session.\<close>

lemma records_nothing_wiring [recorded_rules]:
  "records_nothing (agentum_server_now st i u)" "records_nothing (write_agent_project_config st i h wd t u)"
  "records_nothing (provision st i t u)" "records_nothing (verify_remote_agent_mcp_config st h wd t u e f)"
  "records_nothing (remote_provision st s h p ss)"
proof -
  show 1: "records_nothing (agentum_server_now st i u)"
    unfolding agentum_server_now_def by (intro recorded_rules)
  show "records_nothing (write_agent_project_config st i h wd t u)"
    unfolding write_agent_project_config_def bind_text_def with_context_def fail_with_def Let_def
    by (auto split: option.split sum.split intro!: recorded_rules 1)
      (simp_all add: agentum_server_now_def records_nothing_def recorded_def draw_auth_env_name_def)
  show "records_nothing (provision st i t u)"
    unfolding provision_def browser_servers_def provision_browser_mcp_def write_combined_config_def Let_def
    by (auto split: sum.split browser_mcp_engine.split intro!: recorded_rules 1)
  show "records_nothing (verify_remote_agent_mcp_config st h wd t u e f)"
    unfolding verify_remote_agent_mcp_config_def Let_def by (auto split: option.split intro!: recorded_rules)
  show "records_nothing (remote_provision st s h p ss)"
    unfolding remote_provision_def prepare_remote_runtime_dir_def quoting_def Let_def
    by (auto intro!: recorded_rules)
qed

lemma maintains_wire: "maintains I (wire_agent st s h pf wd secret l)"
proof -
  have 1: "maintains I (wire_local st s h wd l)"
    unfolding wire_local_def Let_def
    by (intro maintains_rules maintains_quiet [OF records_nothing_wiring(2)]
        maintains_quiet [OF records_nothing_wiring(3)])
      (auto simp: draw_token_def maintains_def ret_def split: sum.split option.split)
  have 2: "records_nothing (wire_remote st s h p wd secret l)" for p
    unfolding wire_remote_def Let_def
    by (auto split: sum.split option.split intro!: recorded_rules)
  show ?thesis
    unfolding wire_agent_def by (auto split: option.split intro!: maintains_rules 1 maintains_quiet [OF 2])
qed

lemma records_nothing_probe [recorded_rules]: "records_nothing (probe_tmux_identity st h sel)"
  unfolding probe_tmux_identity_def quoting_def by (auto intro!: recorded_rules)

lemma records_nothing_launch: "records_nothing (launch_and_mark st s h t wd l secrets log)"
  unfolding launch_and_mark_def launch_pane_def commit_remote_owner_def commit_remote_generation_def
    mark_remote_tmux_owner_def mark_remote_tmux_owner_if_absent_def exact_remote_tmux_identity_def
    conflict_on_def kill_quietly_def mark_remote_tmux_mcp_generation_def quoting_def
  by (auto split: host_kind.split sum.split prod.split option.split intro!: recorded_rules)

text \<open>What an invariant has to tolerate of a launch.\<close>

definition status_free :: "(db \<Rightarrow> bool) \<Rightarrow> bool" where
  "status_free I \<longleftrightarrow> (\<forall>cx now d i st t. I d \<longrightarrow> I (fst (update_status_and_target cx now d i st t)))"

lemma maintains_spawn:
  assumes "status_free I"
  shows "maintains I (spawn_agent_into_pane_locked st s h target wd)"
proof -
  have mark: "maintains I (mark_running st i t)" for i t
    unfolding mark_running_def by (rule maintains_write) (use assms in \<open>simp add: status_free_def\<close>)
  have settle: "maintains I (settle_launch st s h target q)" for q
    unfolding settle_launch_def kill_quietly_def
    by (cases q) (auto split: sum.split intro!: maintains_rules mark maintains_quiet [OF records_nothing_forget(2)])
  have pre: "records_nothing (maybe_preflight st s h wd)"
    unfolding maybe_preflight_def preflight_remote_def by (intro recorded_rules)
  show ?thesis
    unfolding spawn_agent_into_pane_locked_def Let_def
    by (intro maintains_rules maintains_quiet [OF pre] maintains_quiet [OF records_nothing_generation(4)]
      maintains_wire maintains_quiet [OF records_nothing_launch] settle)
qed

lemma records_nothing_paths [recorded_rules]:
  "records_nothing (path_exists st p)" "records_nothing (load_host st i)" "records_nothing (parent_field st item f)"
  "records_nothing (card_tool st item)" "records_nothing (card_workdir st item)" "records_nothing (load_card st j)"
proof -
  show "records_nothing (path_exists st p)" unfolding path_exists_def by (intro recorded_rules)
  show "records_nothing (load_host st i)"
    unfolding load_host_def by (auto split: option.split intro!: recorded_rules)
  show 1: "records_nothing (parent_field st item f)" for f
    unfolding parent_field_def by (auto split: option.split intro!: recorded_rules)
  show "records_nothing (card_tool st item)" "records_nothing (card_workdir st item)" "records_nothing (load_card st j)"
    unfolding card_tool_def card_workdir_def load_card_def
    by (auto split: option.split intro!: recorded_rules 1)
qed

section \<open>The bindings\<close>

lemma side_maps:
  "card_side d = {(c, s). (c, Some s) \<in> set (map (\<lambda>b. (br_id b, br_session_id b)) (db_board_items d))}"
  "session_side d = {(c, s). (s, Some c) \<in> set (map (\<lambda>r. (sr_id r, sr_card_id r)) (db_sessions d))}"
  by (force simp: card_side_def session_side_def)+

lemma card_side_cong: "db_board_items d' = db_board_items d \<Longrightarrow> card_side d' = card_side d"
  by (simp add: card_side_def)

lemma status_free_bound: "status_free bound_ok"
  unfolding status_free_def
proof (intro allI impI)
  fix cx now d i st t
  assume ok: "bound_ok d"
  let ?d = "fst (update_status_and_target cx now d i st t)"
  let ?f = "\<lambda>r. r\<lparr>sr_status := Status_as_str st, sr_tmux_target := t, sr_updated_at := cx_fmt_ts cx now\<rparr>"
  have d: "?d = update_session (\<lambda>r. sr_id r = i) ?f d" by (simp add: update_status_and_target_def Let_def)
  have "board_ok ?d" using ok unfolding d bound_ok_def board_ok_def by (simp add: update_session_def card_exists_def)
  moreover have "sessions_unique (db_sessions ?d)"
    using ok unfolding d by (auto simp: bound_ok_def update_session_def intro!: sessions_unique_update)
  moreover have "session_side ?d = session_side d"
    using map_sql_update [of "\<lambda>r. sr_id r = i" "\<lambda>r. (sr_id r, sr_card_id r)" ?f "db_sessions d"]
    unfolding d side_maps by (simp add: update_session_def)
  moreover have "card_side ?d = card_side d" by (simp add: d card_side_def update_session_def)
  ultimately show "bound_ok ?d" using ok by (simp add: bound_ok_def)
qed

lemma bound_ok_patch:
  assumes ok: "bound_ok d" and p: "bp_session_id p = None"
  shows "bound_ok (fst (patch_board_item cx now d i p))"
proof -
  let ?d = "update_board (\<lambda>r. br_id r = i) (apply_board_patch cx now p) d"
  have d: "fst (patch_board_item cx now d i p) = ?d" by (simp add: patch_board_item_def Let_def)
  have "board_ok ?d"
    using ok by (intro board_ok_update) (simp_all add: bound_ok_def apply_board_patch_def)
  moreover have "card_side ?d = card_side d"
    using p map_sql_update [of "\<lambda>r. br_id r = i" "\<lambda>b. (br_id b, br_session_id b)" "apply_board_patch cx now p"
        "db_board_items d"]
    unfolding side_maps by (simp add: update_board_def apply_board_patch_def coalesce_def)
  moreover have "session_side ?d = session_side d" "db_sessions ?d = db_sessions d"
    by (simp_all add: session_side_def update_board_def)
  ultimately show ?thesis using ok unfolding d by (simp add: bound_ok_def)
qed

lemma bound_ok_sides:
  assumes "bound_ok d" and "board_ok d'" and "db_sessions d' = db_sessions d"
    and "map (\<lambda>b. (br_id b, br_session_id b)) (db_board_items d') =
         map (\<lambda>b. (br_id b, br_session_id b)) (db_board_items d)"
  shows "bound_ok d'"
  using assms unfolding bound_ok_def side_maps by simp

lemma map_update_board:
  assumes "\<And>r. p r \<Longrightarrow> br_id (f r) = br_id r \<and> br_session_id (f r) = br_session_id r"
  shows "map (\<lambda>b. (br_id b, br_session_id b)) (db_board_items (update_board p f d)) =
    map (\<lambda>b. (br_id b, br_session_id b)) (db_board_items d)"
  using map_sql_update [of p "\<lambda>b. (br_id b, br_session_id b)" f "db_board_items d"] assms
  by (simp add: update_board_def)

lemma reorder_loop_sides:
  "db_sessions (reorder_loop cx now es d) = db_sessions d \<and>
   map (\<lambda>b. (br_id b, br_session_id b)) (db_board_items (reorder_loop cx now es d)) =
     map (\<lambda>b. (br_id b, br_session_id b)) (db_board_items d)"
proof (induction es arbitrary: d)
  case (Cons e es)
  let ?d = "update_board (\<lambda>r. br_id r = re_id e) (\<lambda>r. r\<lparr>br_priority := re_priority e, br_updated_at := cx_fmt_ts cx now\<rparr>) d"
  have "map (\<lambda>b. (br_id b, br_session_id b)) (db_board_items ?d) = map (\<lambda>b. (br_id b, br_session_id b)) (db_board_items d)"
    by (rule map_update_board) simp
  with Cons.IH [of ?d] show ?case by (simp add: update_board_def)
qed simp

lemma bound_ok_quiet_writes:
  assumes ok: "bound_ok d"
  shows "bound_ok (fst (claim_board_item cx now d i who))" "bound_ok (fst (release_board_item cx now d i who))"
    "bound_ok (reorder_board_items cx now d es)" "bound_ok (fst (create_board_comment cx now d i nc))"
    "bound_ok (upsert_board_column_rule cx now d col fs)" "bound_ok (fst (delete_board_column_rule d col))"
    "bound_ok (fst (add_board_link cx now d a b k))" "bound_ok (fst (delete_board_link d a b k))"
proof -
  have step: "board_ok d'" if "board_step cx d d'" for d'
    using board_step_ok [OF that] ok by (simp add: bound_ok_def)
  note sides = bound_ok_sides [OF ok step]
  show "bound_ok (fst (claim_board_item cx now d i who))"
    by (rule sides [OF board_step.claim]) (simp_all add: claim_board_item_def Let_def map_update_board, simp add: update_board_def)
  show "bound_ok (fst (release_board_item cx now d i who))"
    by (rule sides [OF board_step.release])
      (auto simp: release_board_item_def Let_def map_update_board split: sum.split, simp_all add: update_board_def)
  show "bound_ok (reorder_board_items cx now d es)"
    by (rule sides [OF board_step.reorder]) (simp_all add: reorder_board_items_def reorder_loop_sides)
  show "bound_ok (fst (create_board_comment cx now d i nc))"
    by (rule sides [OF board_step.comment])
      (auto simp: create_board_comment_def Let_def split: sum.split option.split)
  show "bound_ok (upsert_board_column_rule cx now d col fs)"
    by (rule sides [OF board_step.set_rule]) (simp_all add: upsert_board_column_rule_def Let_def)
  show "bound_ok (fst (delete_board_column_rule d col))"
    by (rule sides [OF board_step.drop_rule]) (simp_all add: delete_board_column_rule_def)
  show "bound_ok (fst (add_board_link cx now d a b k))"
    by (rule sides [OF board_step.link]) (simp_all add: add_board_link_def Let_def)
  show "bound_ok (fst (delete_board_link d a b k))"
    by (rule sides [OF board_step.unlink]) (simp_all add: delete_board_link_def Let_def)
qed

section \<open>The routes\<close>

lemma maintains_gate [maintains_rules]: "maintains I (enforce_transition st i target ctx)"
  unfolding enforce_transition_def by (auto split: sum.split intro!: maintains_rules)

lemma maintains_claim_card:
  "maintains bound_ok (claim_card_and_spawn_session st c new host_id)"
proof -
  have claim: "maintains bound_ok (store_write (as_en st) (\<lambda>now i d. claim_card (as_cx st) now i d c ns))" for ns
    by (rule maintains_write) (use bound_ok_claim [OF _ surjective_pairing] in blast)
  show ?thesis
    unfolding claim_card_and_spawn_session_def Let_def
    by (auto split: prod.split intro!: maintains_rules claim maintains_spawn status_free_bound
      maintains_quiet [OF records_nothing_paths(1)] maintains_quiet [OF records_nothing_paths(2)]
      maintains_quiet [OF records_nothing_load(1)])
qed

lemma maintains_card_spawn: "maintains bound_ok (spawn_card_session st item)"
  unfolding spawn_card_session_def
  by (auto split: option.split intro!: maintains_rules maintains_claim_card
    maintains_quiet [OF records_nothing_paths(1)] maintains_quiet [OF records_nothing_paths(4)]
    maintains_quiet [OF records_nothing_paths(5)])

text \<open>After the binding branch the patch carries no session any more.\<close>

lemma patch_binding_strips: "patch_binding st i p w = (w', Inr p') \<Longrightarrow> bp_session_id p' = None"
  by (auto simp: patch_binding_def ret_def bind_act_Inr split: option.splits)

lemma maintains_patch_rest: "maintains bound_ok (patch_rest st i changing p)"
  unfolding maintains_def
proof (intro allI impI)
  fix w :: world
  assume ok: "bound_ok (w_db w)"
  have bind: "maintains bound_ok (patch_binding st i p)"
    unfolding patch_binding_def
    by (auto split: option.split intro!: maintains_rules maintains_write) (use bound_ok_transfer [OF _ surjective_pairing] in blast)
  have rest: "maintains bound_ok
      (bind_act (store_write (as_en st) (\<lambda>now _ d. patch_board_item (as_cx st) now d i p')) (\<lambda>item.
         if changing \<and> bi_status item = ''doing'' \<and> bi_session_id item = None then
           bind_act (spawn_card_session st item) (\<lambda>_.
           bind_act (load_card st i) (\<lambda>refreshed.
             then_act (announce_updated st refreshed) (ret refreshed)))
         else then_act (announce_updated st item) (ret item)))" if "bp_session_id p' = None" for p'
    unfolding announce_updated_def
    by (intro maintains_rules maintains_write bound_ok_patch maintains_card_spawn
      maintains_quiet [OF records_nothing_paths(6)] that)
  obtain w1 r where 1: "patch_binding st i p w = (w1, r)" by fastforce
  with bind ok have ok1: "bound_ok (w_db w1)" by (metis fst_conv maintains_def)
  show "bound_ok (w_db (fst (patch_rest st i changing p w)))"
  proof (cases r)
    case (Inl e)
    with 1 ok1 show ?thesis by (simp add: patch_rest_def bind_act_def)
  next
    case (Inr p')
    with 1 have "bp_session_id p' = None" using patch_binding_strips by blast
    from rest [OF this] ok1 1 Inr show ?thesis by (simp add: patch_rest_def bind_act_def maintains_def)
  qed
qed

datatype board_call =
    Call_Create new_board_item
  | Call_Patch int board_patch
  | Call_Claim int string
  | Call_Release int string
  | Call_Reorder "reorder_entry list"
  | Call_Comment int new_board_comment
  | Call_Set_Rule string "string list"
  | Call_Drop_Rule string
  | Call_Link create_link_body
  | Call_Unlink int int string

fun run_call :: "app_state \<Rightarrow> board_call \<Rightarrow> unit act" where
  "run_call st (Call_Create new) = discard (create_card st new)"
| "run_call st (Call_Patch i p) = discard (patch_card st i p)"
| "run_call st (Call_Claim i who) = discard (claim_route st i who)"
| "run_call st (Call_Release i who) = discard (release_route st i who)"
| "run_call st (Call_Reorder es) = reorder_route st es"
| "run_call st (Call_Comment i c) = discard (create_comment st i c)"
| "run_call st (Call_Set_Rule col fs) = upsert_rule st col fs"
| "run_call st (Call_Drop_Rule col) = delete_rule st col"
| "run_call st (Call_Link body) = discard (create_link st body)"
| "run_call st (Call_Unlink a b k) = delete_link st a b k"

lemma maintains_discard [maintains_rules]: "maintains I m \<Longrightarrow> maintains I (discard m)"
  unfolding discard_def by (intro maintains_rules)

lemma maintains_run_call: "maintains bound_ok (run_call st c)"
proof (cases c)
  case (Call_Create new)
  have "bound_ok d \<Longrightarrow> bound_ok (fst (create_board_item cx now d new))" for cx now d
    using bound_ok_create [OF _ surjective_pairing] by blast
  then show ?thesis
    unfolding Call_Create run_call.simps create_card_def by (intro maintains_rules maintains_write)
next
  case (Call_Patch i p)
  have "maintains bound_ok (patch_gate st i current p)" for current
    unfolding patch_gate_def by (intro maintains_rules)
  then show ?thesis
    unfolding Call_Patch run_call.simps patch_card_def
    by (intro maintains_rules maintains_patch_rest maintains_quiet [OF records_nothing_paths(6)])
next
  case (Call_Claim i who)
  then show ?thesis
    by (auto simp: claim_route_def split: option.split
      intro!: maintains_rules maintains_write bound_ok_quiet_writes)
next
  case (Call_Release i who)
  then show ?thesis
    by (auto simp: release_route_def split: option.split
      intro!: maintains_rules maintains_write bound_ok_quiet_writes)
next
  case (Call_Reorder es)
  then show ?thesis
    by (auto simp: reorder_route_def intro!: maintains_rules maintains_write bound_ok_quiet_writes)
next
  case (Call_Comment i c)
  then show ?thesis
    by (auto simp: create_comment_def intro!: maintains_rules maintains_write bound_ok_quiet_writes)
next
  case (Call_Set_Rule col fs)
  then show ?thesis
    by (auto simp: upsert_rule_def intro!: maintains_rules maintains_write bound_ok_quiet_writes)
next
  case (Call_Drop_Rule col)
  then show ?thesis
    by (auto simp: delete_rule_def intro!: maintains_rules maintains_write bound_ok_quiet_writes)
next
  case (Call_Link body)
  then show ?thesis
    by (auto simp: create_link_def split: prod.split
      intro!: maintains_rules maintains_write bound_ok_quiet_writes)
next
  case (Call_Unlink a b k)
  then show ?thesis
    by (auto simp: delete_link_def intro!: maintains_rules maintains_write bound_ok_quiet_writes)
qed


section \<open>The gate\<close>

definition absent_fields :: "db \<Rightarrow> int option \<Rightarrow> string \<Rightarrow> transition_ctx \<Rightarrow> required_field list \<Rightarrow> required_field list" where
  "absent_fields d i target ctx required = filter (\<lambda>f. \<not> field_present (gate_ctx d i target ctx) f) required"

definition rejected_event :: "app_state \<Rightarrow> nat \<Rightarrow> int option \<Rightarrow> string \<Rightarrow> string list \<Rightarrow> event" where
  "rejected_event st t i target missing =
     with_payload (JObj [(''id'', jopt JInt i), (''target_status'', JStr target), (''missing'', json_strings missing)])
       (Event_new (en_clock (as_en st) t) ''board.transition.rejected'')"

lemma enforce_transition_eq:
  assumes "resolve_required_fields (as_cx st) (w_db w) target = Inr required"
  shows "enforce_transition st i target ctx w =
    (let missing = map as_missing_key (absent_fields (w_db w) i target ctx required)
     in if missing = [] then (w, Inr ())
        else (w\<lparr>w_bus := w_bus w @ [rejected_event st (w_ticks w) i target missing], w_ticks := Suc (w_ticks w)\<rparr>,
              Inl (missing_error missing target)))"
  using assms
  by (simp add: enforce_transition_def bind_act_def then_act_def store_read_def ret_def raise_def
    validate_against_eq absent_fields_def Let_def send_event_def publish_def rejected_event_def)


text \<open>
  Putting a rule twice is putting it once: after a successful PUT the gate of that column demands
  exactly the fields that were put (in their order, over the built-in matrix), every other column
  demands what it did, and a second PUT of the same rule neither writes nor announces anything.
\<close>

theorem rule_put_is_idempotent:
  assumes "codec_ok (as_cx st)" and "upsert_rule st column names w = (w', Inr ())"
  shows "upsert_rule st column names w' = (w', Inr ()) \<and>
    (\<exists>fs. map Some fs = map from_missing_key names \<and>
       resolve_required_fields (as_cx st) (w_db w') column = Inr fs) \<and>
    (other \<noteq> column \<longrightarrow>
       resolve_required_fields (as_cx st) (w_db w') other = resolve_required_fields (as_cx st) (w_db w) other)"
proof -
  have parse: "parse_fields ns acc = Inr fs \<Longrightarrow> \<exists>gs. fs = acc @ gs \<and> map Some gs = map from_missing_key ns"
    for ns acc fs
  proof (induction ns arbitrary: acc)
    case (Cons n ns)
    then obtain f where f: "from_missing_key n = Some f" "parse_fields ns (acc @ [f]) = Inr fs"
      by (auto split: option.splits)
    with Cons.IH [OF f(2)] show ?case by (metis append.assoc append_Cons append_Nil list.simps(9))
  qed simp
  obtain fs where fs: "parse_fields names [] = Inr fs" "map Some fs = map from_missing_key names"
    using assms(2) parse [of names "[]"] by (auto simp: upsert_rule_def bind_act_Inr lift_result_def)
  obtain existing where ex: "get_board_column_rule (as_cx st) (w_db w) column = Inr existing"
    using assms(2) by (auto simp: upsert_rule_def bind_act_Inr store_read_def lift_api_Inr lift_result_def)
  show ?thesis
  proof (cases "existing = Some fs")
    case True
    with assms(2) fs ex show ?thesis
      by (auto simp: upsert_rule_def bind_act_def lift_result_def store_read_def ret_def resolve_required_fields_def)
  next
    case False
    with assms(2) fs ex obtain now where
      db: "w_db w' = upsert_board_column_rule (as_cx st) now (w_db w) column fs"
      by (auto simp: upsert_rule_def bind_act_def then_act_def lift_result_def store_read_def store_write_def
        send_event_def publish_def Let_def)
    note rule = get_rule_after_upsert [OF assms(1), of now "w_db w" column fs, folded db]
    show ?thesis
      using fs rule
      by (auto simp: upsert_rule_def bind_act_def lift_result_def store_read_def ret_def resolve_required_fields_def)
  qed
qed

section \<open>Sample calls\<close>


lemma sample_card_row: "\<exists>item. get_board_item sample_codec sample_board 1 = Inr (Some item) \<and>
    bi_status item = ''todo'' \<and> bi_workdir item = nb_workdir sample_card"
  by (simp add: get_board_item_def sample_board_rows sql_find_def transpose_opt_def BoardItem_try_from_def
    board_row_of_def sample_card_def sample_codec_def sample_fmt_ts_def parse_ts_def)


theorem rule_put_is_idempotent_witness:
  "\<exists>w'. upsert_rule sample_app ''review'' [''tool''] ((sample_world [])\<lparr>w_db := initial_db\<rparr>) = (w', Inr ()) \<and>
     upsert_rule sample_app ''review'' [''tool''] w' = (w', Inr ())"
proof -
  have "\<exists>w'. upsert_rule sample_app ''review'' [''tool''] ((sample_world [])\<lparr>w_db := initial_db\<rparr>) = (w', Inr ())"
    by (simp add: upsert_rule_def bind_act_def then_act_def lift_result_def store_read_def store_write_def
      send_event_def publish_def Let_def from_missing_key_def get_board_column_rule_def initial_db_def sql_find_def)
  then obtain w' where w': "upsert_rule sample_app ''review'' [''tool''] ((sample_world [])\<lparr>w_db := initial_db\<rparr>) = (w', Inr ())"
    by blast
  from rule_put_is_idempotent [OF _ this, of "''x''"] w' show ?thesis by auto
qed

end
