(* ===== verification/Watchdog.thy ===== *)
theory Watchdog
  imports Executor Session_Lifecycle
begin

text \<open>
  \<open>crates/agentum-watchdog/src/lib.rs\<close>: the watch loop of one session, the reconciliation of the
  running watch tasks with the database, the goal reconciler and the bridge from agent events to
  card comments. One pass through a loop is a function; what happens between two passes is up to
  the other tasks. The pane, the clocks and tmux answer through the environment; the regular
  expression library and the hash of the standard library are the parameters of \<open>watch_params\<close>.
  Monotonic clock readings and durations are in nanoseconds.
\<close>

section \<open>Constants\<close>

definition seconds :: "nat \<Rightarrow> nat" where
  "seconds n = n * 1000000000"

definition TICK :: nat where "TICK = seconds 1"
definition REMOTE_TICK :: nat where "REMOTE_TICK = seconds 3"
definition COMPACT_COOLDOWN :: nat where "COMPACT_COOLDOWN = seconds (5 * 60)"
definition IDLE_AFTER_QUIET :: nat where "IDLE_AFTER_QUIET = seconds 3"

fun sample_tick :: "host_kind \<Rightarrow> nat" where
  "sample_tick (HostKind_Ssh _ _ _ _) = REMOTE_TICK"
| "sample_tick HostKind_Local = TICK"

section \<open>Which sessions are watched\<close>

record watch_task =
  tk_session :: session
  tk_host :: uuid
  tk_finished :: bool

type_synonym watch_tasks = "uuid \<rightharpoonup> watch_task"

text \<open>Tasks of sessions that do not run any more, and finished tasks, are aborted and dropped.\<close>

definition keep_task :: "uuid set \<Rightarrow> watch_tasks \<Rightarrow> watch_tasks" where
  "keep_task running tasks i =
     (case tasks i of
        None \<Rightarrow> None
      | Some t \<Rightarrow> if i \<notin> running \<or> tk_finished t then None else Some t)"

definition new_task :: "session \<Rightarrow> watch_task" where
  "new_task s = \<lparr>tk_session = s, tk_host = host_id_of s, tk_finished = False\<rparr>"

definition spawn_task :: "watch_tasks \<Rightarrow> session \<Rightarrow> watch_tasks" where
  "spawn_task tasks s = (if tasks (s_id s) \<noteq> None then tasks else tasks(s_id s \<mapsto> new_task s))"

definition reconcile :: "codec \<Rightarrow> db \<Rightarrow> watch_tasks \<Rightarrow> watch_tasks \<times> (store_error + unit)" where
  "reconcile cx d tasks =
     (case list_sessions cx d (Some Status_Running) of
        Inl e \<Rightarrow> (tasks, Inl e)
      | Inr running \<Rightarrow>
          (foldl spawn_task (keep_task (s_id ` set running) tasks) running, Inr ()))"

section \<open>Reading the pane\<close>

definition canonical_tool_from_command :: "string \<Rightarrow> string option" where
  "canonical_tool_from_command cmd =
     (let c = trim cmd
      in if c = ''claude'' \<or> c = ''claude-code'' then Some ''claude''
         else if c = ''codex'' \<or> c = ''codex-cli'' then Some ''codex''
         else if c = ''gemini'' \<or> c = ''gemini-cli'' then Some ''gemini''
         else if c = ''hermes'' \<or> c = ''hermes-cli'' then Some ''hermes''
         else None)"

datatype activity_state =
    ActivityState_Unknown | ActivityState_Working | ActivityState_Idle | ActivityState_AwaitingInput

text \<open>The scan from the end: everything after the \<open>n\<close>-th newline from the end, \<open>0 < n\<close>.\<close>

fun until_newline :: "nat \<Rightarrow> string \<Rightarrow> string" where
  "until_newline n [] = []"
| "until_newline n (c # cs) =
     (if c = CHR 0x0A then (if n \<le> 1 then [] else c # until_newline (n - 1) cs)
      else c # until_newline n cs)"

definition bottom_lines :: "string \<Rightarrow> nat \<Rightarrow> string" where
  "bottom_lines text n = (if n = 0 then [] else rev (until_newline n (rev text)))"

definition classify_activity ::
    "string \<Rightarrow> string option \<Rightarrow> string list \<Rightarrow> bool \<Rightarrow> nat \<Rightarrow> activity_state" where
  "classify_activity pane busy_sig awaiting_sigs agent pane_quiet_for =
     (if awaiting_sigs \<noteq> [] \<and> list_ex (str_contains pane) awaiting_sigs
      then ActivityState_AwaitingInput
      else case busy_sig of
        Some s \<Rightarrow> if str_contains pane s then ActivityState_Working else ActivityState_Idle
      | None \<Rightarrow>
          if agent then (if IDLE_AFTER_QUIET \<le> pane_quiet_for then ActivityState_Idle
                         else ActivityState_Working)
          else ActivityState_Unknown)"

text \<open>The event of a transition: its kind and, where it has one, its payload.\<close>

definition initial_payload :: json where
  "initial_payload = JObj [(''initial'', JBool True)]"

definition transition_event :: "activity_state \<Rightarrow> activity_state \<Rightarrow> (string \<times> json option) option" where
  "transition_event prev next =
     (if next = prev then None else
      case (prev, next) of
        (ActivityState_Working, ActivityState_Idle) \<Rightarrow> Some (''agent.finished'', None)
      | (ActivityState_Unknown, ActivityState_Idle) \<Rightarrow> Some (''agent.finished'', Some initial_payload)
      | (ActivityState_Unknown, ActivityState_AwaitingInput) \<Rightarrow>
          Some (''agent.awaiting_input'', Some initial_payload)
      | (ActivityState_Unknown, ActivityState_Working) \<Rightarrow> Some (''agent.working'', Some initial_payload)
      | (ActivityState_Idle, ActivityState_Working) \<Rightarrow> Some (''agent.working'', None)
      | (_, ActivityState_AwaitingInput) \<Rightarrow> Some (''agent.awaiting_input'', None)
      | (ActivityState_AwaitingInput, ActivityState_Working) \<Rightarrow>
          Some (''agent.input_resolved'', Some (JObj [(''state'', JStr ''working'')]))
      | (ActivityState_AwaitingInput, ActivityState_Idle) \<Rightarrow>
          Some (''agent.input_resolved'', Some (JObj [(''state'', JStr ''idle'')]))
      | _ \<Rightarrow> None)"

section \<open>Events and the host of a tick\<close>

text \<open>\<open>emit\<close>: the event is stored, a failure to store it is ignored, and it is broadcast.\<close>

definition emit :: "environment \<Rightarrow> event \<Rightarrow> world \<Rightarrow> world" where
  "emit en ev w =
     w\<lparr>w_db := fst (insert_event (en_cx en) (w_db w) ev), w_bus := w_bus w @ [ev]\<rparr>"

text \<open>The event is built at a reading of the clock and emitted.\<close>

definition emit_new :: "environment \<Rightarrow> (time \<Rightarrow> event) \<Rightarrow> world \<Rightarrow> world" where
  "emit_new en ev w = emit en (ev (en_clock en (w_ticks w))) (w\<lparr>w_ticks := Suc (w_ticks w)\<rparr>)"

definition local_host_fallback :: host where
  "local_host_fallback =
     \<lparr>h_id = LOCAL_HOST_ID, h_name = ''local'', h_kind = HostKind_Local, h_created_at = 0,
      h_updated_at = 0, h_last_seen_at = None\<rparr>"

definition load_current_host :: "codec \<Rightarrow> db \<Rightarrow> uuid \<Rightarrow> store_error + host option" where
  "load_current_host cx d i =
     and_then (get_host cx d i) (\<lambda>r.
       case r of
         Some h \<Rightarrow> Inr (Some h)
       | None \<Rightarrow> if i = LOCAL_HOST_ID then Inr (Some local_host_fallback) else Inr None)"

text \<open>The compare-and-set of a crash; the event is emitted only when it succeeded.\<close>

definition commit_crash_observation ::
    "environment \<Rightarrow> session \<Rightarrow> string option \<Rightarrow> time \<Rightarrow> event \<Rightarrow> world \<Rightarrow> world \<times> bool" where
  "commit_crash_observation en s expected_target expected_updated_at ev w =
     (let t = w_ticks w;
          res = compare_and_set_status_and_target (en_cx en) (en_clock en t) (w_db w) (s_id s)
                  Status_Running expected_target expected_updated_at Status_Crashed None;
          w1 = w\<lparr>w_db := fst res, w_ticks := Suc t\<rparr>
      in if snd res then (emit en ev w1, True) else (w1, False))"

section \<open>One pass of the watch loop\<close>

record watch_params =
  wp_context_low :: "string \<Rightarrow> bool"
  wp_hash :: "string \<Rightarrow> 64 word"

record watch_state =
  ws_expected_updated_at :: time
  ws_last_compact :: "nat option"
  ws_activity :: activity_state
  ws_current_tool :: string
  ws_tool_candidate :: "string option"
  ws_last_bottom_hash :: "64 word option"
  ws_last_change_at :: nat
  ws_next_sample_after :: nat

definition watch_target :: "session \<Rightarrow> string" where
  "watch_target s = (case s_tmux_target s of Some t \<Rightarrow> t | None \<Rightarrow> target_for (s_name s))"

definition watch_start :: "environment \<Rightarrow> session \<Rightarrow> world \<Rightarrow> world \<times> watch_state" where
  "watch_start en s w =
     (let w1 = emit_new en (\<lambda>now. with_session (s_id s) (s_name s) (Event_new now ''session.started'')) w
      in (w1\<lparr>w_ticks := Suc (w_ticks w1)\<rparr>,
          \<lparr>ws_expected_updated_at = s_updated_at s, ws_last_compact = None,
           ws_activity = ActivityState_Unknown, ws_current_tool = s_tool s, ws_tool_candidate = None,
           ws_last_bottom_hash = None, ws_last_change_at = en_instant en (w_ticks w1),
           ws_next_sample_after = TICK\<rparr>))"

text \<open>A crash: the event is built, then committed. The task ends whether or not it won.\<close>

definition crash_event :: "session \<Rightarrow> json \<Rightarrow> time \<Rightarrow> event" where
  "crash_event s payload now =
     with_payload payload (with_session (s_id s) (s_name s) (Event_new now ''session.crashed''))"

definition observe_crash :: "environment \<Rightarrow> session \<Rightarrow> watch_state \<Rightarrow> json \<Rightarrow> world \<Rightarrow> world" where
  "observe_crash en s ws payload w =
     fst (commit_crash_observation en s (s_tmux_target s) (ws_expected_updated_at ws)
            (crash_event s payload (en_clock en (w_ticks w))) (w\<lparr>w_ticks := Suc (w_ticks w)\<rparr>))"

definition compact_due :: "nat option \<Rightarrow> nat \<Rightarrow> bool" where
  "compact_due latest now = (case latest of None \<Rightarrow> True | Some t \<Rightarrow> COMPACT_COOLDOWN \<le> now - t)"

definition compact_event :: "session \<Rightarrow> string \<Rightarrow> time \<Rightarrow> event" where
  "compact_event s cmd now =
     with_payload (JObj [(''trigger'', JStr ''context_low''), (''command'', JStr cmd)])
       (with_session (s_id s) (s_name s) (Event_new now ''watchdog.compact''))"

definition compact_phase ::
    "environment \<Rightarrow> watch_params \<Rightarrow> session \<Rightarrow> host \<Rightarrow> string \<Rightarrow> watch_state \<Rightarrow> world \<Rightarrow> world \<times> watch_state" where
  "compact_phase en wp s h pane ws w =
     (case compact_trigger (adapter_for (s_tool s)) of
        None \<Rightarrow> (w, ws)
      | Some cmd \<Rightarrow>
          if \<not> wp_context_low wp pane then (w, ws)
          else
            let now = en_instant en (w_ticks w); w1 = w\<lparr>w_ticks := Suc (w_ticks w)\<rparr>
            in if compact_due (ws_last_compact ws) now
               then
                 let w2 = fst (command (en_unit en) (Cmd_SendKeys h (watch_target s) cmd True) w1)
                 in (emit_new en (compact_event s cmd) w2, ws\<lparr>ws_last_compact := Some now\<rparr>)
               else (w1, ws))"

definition tool_changed_event :: "session \<Rightarrow> string \<Rightarrow> time \<Rightarrow> event" where
  "tool_changed_event updated previous now =
     with_payload (JObj [(''tool'', JStr (s_tool updated)), (''previous_tool'', JStr previous)])
       (with_session (s_id updated) (s_name updated) (Event_new now ''session.tool_changed''))"

definition commit_tool ::
    "environment \<Rightarrow> session \<Rightarrow> string \<Rightarrow> watch_state \<Rightarrow> world \<Rightarrow> world \<times> watch_state" where
  "commit_tool en s detected ws w =
     (let t = w_ticks w;
          res = patch_session_tool (en_cx en) (en_clock en t) (w_db w) (s_id s) detected;
          w1 = w\<lparr>w_db := fst res, w_ticks := Suc t\<rparr>
      in case snd res of
           Inl _ \<Rightarrow> (w1, ws)
         | Inr updated \<Rightarrow>
             (emit_new en (tool_changed_event updated (ws_current_tool ws)) w1,
              ws\<lparr>ws_current_tool := detected, ws_expected_updated_at := s_updated_at updated,
                 ws_tool_candidate := None\<rparr>))"

definition tool_phase ::
    "environment \<Rightarrow> session \<Rightarrow> string \<Rightarrow> watch_state \<Rightarrow> world \<Rightarrow> world \<times> watch_state" where
  "tool_phase en s current_command ws w =
     (case canonical_tool_from_command current_command of
        None \<Rightarrow> (w, ws\<lparr>ws_tool_candidate := None\<rparr>)
      | Some detected \<Rightarrow>
          if detected = ws_current_tool ws then (w, ws\<lparr>ws_tool_candidate := None\<rparr>)
          else if ws_tool_candidate ws = Some detected then commit_tool en s detected ws w
          else (w, ws\<lparr>ws_tool_candidate := Some detected\<rparr>))"

definition activity_event :: "session \<Rightarrow> string \<times> json option \<Rightarrow> time \<Rightarrow> event" where
  "activity_event s kp now =
     (let ev = with_session (s_id s) (s_name s) (Event_new now (fst kp))
      in case snd kp of None \<Rightarrow> ev | Some p \<Rightarrow> with_payload p ev)"

text \<open>The footer: its hash, the last change, and for how long it has been quiet.\<close>

definition footer_phase ::
    "environment \<Rightarrow> watch_params \<Rightarrow> string \<Rightarrow> watch_state \<Rightarrow> world \<Rightarrow> world \<times> watch_state \<times> nat" where
  "footer_phase en wp bottom ws w =
     (let h = wp_hash wp bottom; t = w_ticks w;
          changed = (ws_last_bottom_hash ws \<noteq> Some h);
          ws1 = (if changed then ws\<lparr>ws_last_bottom_hash := Some h, ws_last_change_at := en_instant en t\<rparr> else ws);
          w1 = (if changed then w\<lparr>w_ticks := Suc t\<rparr> else w)
      in (w1\<lparr>w_ticks := Suc (w_ticks w1)\<rparr>, ws1, en_instant en (w_ticks w1) - ws_last_change_at ws1))"

definition next_activity :: "session \<Rightarrow> string \<Rightarrow> nat \<Rightarrow> activity_state" where
  "next_activity s bottom quiet =
     (let a = adapter_for (s_tool s)
      in classify_activity bottom (busy_signature a) (awaiting_input_signatures a) (is_agent a) quiet)"

definition activity_phase ::
    "environment \<Rightarrow> watch_params \<Rightarrow> session \<Rightarrow> string \<Rightarrow> watch_state \<Rightarrow> world \<Rightarrow> world \<times> watch_state" where
  "activity_phase en wp s viewport ws w =
     (let bottom = bottom_lines viewport 20;
          (w1, ws1, quiet) = footer_phase en wp bottom ws w;
          nxt = next_activity s bottom quiet;
          w2 = (case transition_event (ws_activity ws1) nxt of
                  None \<Rightarrow> w1
                | Some kp \<Rightarrow> emit_new en (activity_event s kp) w1)
      in (w2, ws1\<lparr>ws_activity := nxt\<rparr>))"

definition live_phases ::
    "environment \<Rightarrow> watch_params \<Rightarrow> session \<Rightarrow> host \<Rightarrow> pane_sample \<Rightarrow> watch_state \<Rightarrow> world \<Rightarrow>
     world \<times> watch_state" where
  "live_phases en wp s h p ws w =
     (let (w1, ws1) = compact_phase en wp s h (ps_pane p) ws w;
          (w2, ws2) = tool_phase en s (ps_current_command p) ws1 w1
      in activity_phase en wp s (ps_viewport p) ws2 w2)"

text \<open>The second component is \<open>None\<close> when the task returns.\<close>

definition sampled ::
    "environment \<Rightarrow> watch_params \<Rightarrow> session \<Rightarrow> host \<Rightarrow> host_runtime_error + pane_sample option \<Rightarrow>
     watch_state \<Rightarrow> world \<Rightarrow> world \<times> watch_state option" where
  "sampled en wp s h answer ws w =
     (case answer of
        Inl _ \<Rightarrow> (w, Some ws)
      | Inr None \<Rightarrow> (observe_crash en s ws (JObj [(''reason'', JStr ''pane_exited'')]) w, None)
      | Inr (Some p) \<Rightarrow>
          (case find (str_contains (ps_pane p)) (crash_signatures (adapter_for (s_tool s))) of
             Some sig \<Rightarrow> (observe_crash en s ws (JObj [(''signature'', JStr sig)]) w, None)
           | None \<Rightarrow> map_prod id Some (live_phases en wp s h p ws w)))"

definition watch_tick ::
    "environment \<Rightarrow> watch_params \<Rightarrow> session \<Rightarrow> uuid \<Rightarrow> watch_state \<Rightarrow> world \<Rightarrow> world \<times> watch_state option" where
  "watch_tick en wp s host_id ws w =
     (case load_current_host (en_cx en) (w_db w) host_id of
        Inl _ \<Rightarrow> (w, Some (ws\<lparr>ws_next_sample_after := TICK\<rparr>))
      | Inr None \<Rightarrow> (w, None)
      | Inr (Some h) \<Rightarrow>
          let c = Cmd_SamplePane h (watch_target s) 100
          in sampled en wp s h (en_sample en (w_ticks w) c)
               (ws\<lparr>ws_next_sample_after := sample_tick (h_kind h)\<rparr>)
               (fst (command (en_sample en) c w)))"

text \<open>
  The life of a watch task among the other tasks: \<open>out\<close> and \<open>cmds\<close> are the events and the commands
  of the task itself; between two passes the others may do anything to the world.
\<close>

inductive watched ::
    "environment \<Rightarrow> watch_params \<Rightarrow> session \<Rightarrow> uuid \<Rightarrow> event list \<Rightarrow> trace \<Rightarrow> world \<Rightarrow> watch_state option \<Rightarrow> bool"
  for en wp s host_id where
  start: "watch_start en s w0 = (w, ws) \<Longrightarrow>
     watched en wp s host_id (drop (length (w_bus w0)) (w_bus w)) [] w (Some ws)"
| tick: "watched en wp s host_id out cmds w (Some ws) \<Longrightarrow> watch_tick en wp s host_id ws w = (w', r) \<Longrightarrow>
     watched en wp s host_id (out @ drop (length (w_bus w)) (w_bus w'))
       (cmds @ drop (length (w_trace w)) (w_trace w')) w' r"
| others: "watched en wp s host_id out cmds w r \<Longrightarrow> w_ticks w \<le> w_ticks w' \<Longrightarrow>
     watched en wp s host_id out cmds w' r"

end
