(* ===== verification/Watchdog_Safety.thy ===== *)
theory Watchdog_Safety
  imports Watchdog Lifecycle_State
begin

text \<open>
  What the watch tasks guarantee: a crash is recorded and announced only for the generation that was
  observed, \<open>/compact\<close> is sent at most once per cooldown, the events of a task tell its clients the
  activity of the agent, and reconciling leaves exactly one live task per running session.
\<close>

section \<open>What the phases append and change\<close>

text \<open>\<open>adds w w' evs cmds\<close>: between \<open>w\<close> and \<open>w'\<close> exactly these events and commands were added.\<close>

definition adds :: "world \<Rightarrow> world \<Rightarrow> event list \<Rightarrow> trace \<Rightarrow> bool" where
  "adds w w' evs cmds \<longleftrightarrow> w_bus w' = w_bus w @ evs \<and> w_trace w' = w_trace w @ cmds"

definition status_rows :: "db \<Rightarrow> (uuid \<times> string \<times> string option) list" where
  "status_rows d = map (\<lambda>r. (sr_id r, sr_status r, sr_tmux_target r)) (db_sessions d)"

definition kinds :: "event list \<Rightarrow> string list" where
  "kinds evs = map ev_kind evs"

lemma adds_refl [simp]: "adds w w [] []"
  by (simp add: adds_def)

lemma adds_trans: "adds w w1 e1 c1 \<Longrightarrow> adds w1 w2 e2 c2 \<Longrightarrow> adds w w2 (e1 @ e2) (c1 @ c2)"
  by (simp add: adds_def)

lemma adds_drop: "adds w w' evs cmds \<Longrightarrow> drop (length (w_bus w)) (w_bus w') = evs \<and> drop (length (w_trace w)) (w_trace w') = cmds"
  by (simp add: adds_def)

lemma sessions_insert_event [simp]: "db_sessions (fst (insert_event cx d ev)) = db_sessions d"
  by (simp add: insert_event_def Let_def)

lemma emit_effect [simp]:
  "w_bus (emit en ev w) = w_bus w @ [ev]" "w_trace (emit en ev w) = w_trace w"
  "db_sessions (w_db (emit en ev w)) = db_sessions (w_db w)" "w_ticks (emit en ev w) = w_ticks w"
  by (simp_all add: emit_def)

lemma emit_new_effect [simp]:
  "w_bus (emit_new en ev w) = w_bus w @ [ev (en_clock en (w_ticks w))]"
  "w_trace (emit_new en ev w) = w_trace w"
  "db_sessions (w_db (emit_new en ev w)) = db_sessions (w_db w)"
  by (simp_all add: emit_new_def)

lemma event_kinds [simp]:
  "ev_kind (crash_event s p now) = ''session.crashed''"
  "ev_kind (compact_event s cmd now) = ''watchdog.compact''"
  "ev_kind (tool_changed_event s old now) = ''session.tool_changed''"
  "ev_kind (activity_event s kp now) = fst kp"
  by (simp_all add: crash_event_def compact_event_def tool_changed_event_def activity_event_def
      with_payload_def with_session_def Event_new_def Let_def split: option.splits)

lemma activity_event_payload: "ev_payload (activity_event s kp now) = (case snd kp of None \<Rightarrow> JObj [] | Some p \<Rightarrow> p)"
  by (simp add: activity_event_def with_payload_def with_session_def Event_new_def Let_def split: option.splits)

lemma compact_phase_effect:
  assumes "compact_phase en wp s h pane ws w = (w', ws')"
  shows "db_sessions (w_db w') = db_sessions (w_db w) \<and>
    ws' = ws\<lparr>ws_last_compact := ws_last_compact ws'\<rparr> \<and>
    (adds w w' [] [] \<and> ws_last_compact ws' = ws_last_compact ws \<or>
     (\<exists>now ev c. adds w w' [ev] [(Suc now, c)] \<and> ev_kind ev = ''watchdog.compact'' \<and>
        c = Cmd_SendKeys h (watch_target s) (the (compact_trigger (adapter_for (s_tool s)))) True \<and>
        compact_due (ws_last_compact ws) (en_instant en now) \<and>
        ws_last_compact ws' = Some (en_instant en now)))"
  using assms
  by (auto simp: compact_phase_def adds_def command_def Let_def split: option.splits if_splits)

lemma status_rows_update:
  assumes "\<And>r. p r \<Longrightarrow> sr_id (f r) = sr_id r \<and> sr_status (f r) = sr_status r \<and> sr_tmux_target (f r) = sr_tmux_target r"
  shows "status_rows (update_session p f d) = status_rows d"
  using assms by (auto simp: status_rows_def update_session_def sql_update_def)

lemma status_rows_patch_tool: "status_rows (fst (patch_session_tool cx now d i t)) = status_rows d"
  by (simp add: patch_session_tool_def patch_session_def Let_def status_rows_update)

lemma tool_phase_effect:
  assumes "tool_phase en s cmd ws w = (w', ws')"
  shows "status_rows (w_db w') = status_rows (w_db w) \<and> ws_last_compact ws' = ws_last_compact ws \<and>
    ws_activity ws' = ws_activity ws \<and>
    (adds w w' [] [] \<or> (\<exists>ev. adds w w' [ev] [] \<and> ev_kind ev = ''session.tool_changed''))"
  using assms status_rows_patch_tool
  by (auto simp: tool_phase_def commit_tool_def adds_def Let_def status_rows_def emit_new_def
      split: option.splits if_splits sum.splits)

lemma activity_phase_effect:
  assumes "activity_phase en wp s viewport ws w = (w', ws')"
  shows "db_sessions (w_db w') = db_sessions (w_db w) \<and> ws_last_compact ws' = ws_last_compact ws \<and>
    (\<exists>quiet. ws_activity ws' = next_activity s (bottom_lines viewport 20) quiet) \<and>
    (case transition_event (ws_activity ws) (ws_activity ws') of
       None \<Rightarrow> adds w w' [] []
     | Some kp \<Rightarrow> \<exists>now. adds w w' [activity_event s kp now] [])"
  using assms
  by (auto simp: activity_phase_def footer_phase_def adds_def Let_def split: option.splits if_splits)

text \<open>The kinds of event a transition can have.\<close>

lemma transition_kinds:
  "transition_event a b = Some kp \<Longrightarrow>
     fst kp \<in> {''agent.finished'', ''agent.awaiting_input'', ''agent.working'', ''agent.input_resolved''}"
  by (cases a; cases b) (auto simp: transition_event_def)

text \<open>One tick on a live pane: the events of the three phases in their order.\<close>

lemma live_phases_effect:
  assumes "live_phases en wp s h p ws w = (w', ws')"
  obtains evs1 evs2 cmds where
    "adds w w' (evs1 @ evs2) cmds"
    "set (kinds evs1) \<subseteq> {''watchdog.compact'', ''session.tool_changed''}"
    "case transition_event (ws_activity ws) (ws_activity ws') of
       None \<Rightarrow> evs2 = [] | Some kp \<Rightarrow> \<exists>now. evs2 = [activity_event s kp now]"
    "\<exists>quiet. ws_activity ws' = next_activity s (bottom_lines (ps_viewport p) 20) quiet"
    "status_rows (w_db w') = status_rows (w_db w)"
    "cmds = [] \<and> ws_last_compact ws' = ws_last_compact ws \<or>
     (\<exists>now c. cmds = [(Suc now, c)] \<and>
        c = Cmd_SendKeys h (watch_target s) (the (compact_trigger (adapter_for (s_tool s)))) True \<and>
        compact_due (ws_last_compact ws) (en_instant en now) \<and>
        ws_last_compact ws' = Some (en_instant en now))"
proof -
  obtain w1 ws1 w2 ws2 where
    1: "compact_phase en wp s h (ps_pane p) ws w = (w1, ws1)" and
    2: "tool_phase en s (ps_current_command p) ws1 w1 = (w2, ws2)" and
    3: "activity_phase en wp s (ps_viewport p) ws2 w2 = (w', ws')"
    using assms by (auto simp: live_phases_def split: prod.splits)
  note c = compact_phase_effect [OF 1] and t = tool_phase_effect [OF 2] and a = activity_phase_effect [OF 3]
  have act: "ws_activity ws2 = ws_activity ws"
    using c t by (metis watch_state.ext_inject watch_state.surjective watch_state.update_convs(2))
  have rows: "status_rows (w_db w') = status_rows (w_db w)"
    using c t a by (simp add: status_rows_def)
  obtain e1 cmds where e1: "adds w w1 e1 cmds" "set (kinds e1) \<subseteq> {''watchdog.compact''}"
    "cmds = [] \<and> ws_last_compact ws1 = ws_last_compact ws \<or>
     (\<exists>now c. cmds = [(Suc now, c)] \<and>
        c = Cmd_SendKeys h (watch_target s) (the (compact_trigger (adapter_for (s_tool s)))) True \<and>
        compact_due (ws_last_compact ws) (en_instant en now) \<and>
        ws_last_compact ws1 = Some (en_instant en now))"
  proof -
    from c consider "adds w w1 [] []" "ws_last_compact ws1 = ws_last_compact ws"
      | now ev c where "adds w w1 [ev] [(Suc now, c)]" "ev_kind ev = ''watchdog.compact''"
        "c = Cmd_SendKeys h (watch_target s) (the (compact_trigger (adapter_for (s_tool s)))) True"
        "compact_due (ws_last_compact ws) (en_instant en now)" "ws_last_compact ws1 = Some (en_instant en now)"
      by blast
    then show thesis
    proof cases
      case 1
      then show thesis using that [of "[]" "[]"] by (simp add: kinds_def)
    next
      case (2 now ev c)
      then show thesis using that [of "[ev]" "[(Suc now, c)]"] by (simp add: kinds_def)
    qed
  qed
  obtain e2 where e2: "adds w1 w2 e2 []" "set (kinds e2) \<subseteq> {''session.tool_changed''}"
  proof -
    from t consider "adds w1 w2 [] []" | ev where "adds w1 w2 [ev] []" "ev_kind ev = ''session.tool_changed''"
      by blast
    then show thesis
    proof cases
      case 1
      then show thesis using that [of "[]"] by (simp add: kinds_def)
    next
      case (2 ev)
      then show thesis using that [of "[ev]"] by (simp add: kinds_def)
    qed
  qed
  obtain e3 where e3: "adds w2 w' e3 []" "case transition_event (ws_activity ws) (ws_activity ws') of
       None \<Rightarrow> e3 = [] | Some kp \<Rightarrow> \<exists>now. e3 = [activity_event s kp now]"
  proof (cases "transition_event (ws_activity ws) (ws_activity ws')")
    case None
    with a act have "adds w2 w' [] []" by simp
    with None that [of "[]"] show thesis by simp
  next
    case (Some kp)
    with a act obtain now where "adds w2 w' [activity_event s kp now] []" by auto
    with Some that [of "[activity_event s kp now]"] show thesis by auto
  qed
  have "adds w w' ((e1 @ e2) @ e3) cmds"
    using adds_trans [OF adds_trans [OF e1(1) e2(1)] e3(1)] by simp
  moreover have "set (kinds (e1 @ e2)) \<subseteq> {''watchdog.compact'', ''session.tool_changed''}"
    using e1(2) e2(2) by (auto simp: kinds_def)
  moreover have "ws_last_compact ws' = ws_last_compact ws1" using t a by simp
  moreover have "\<exists>quiet. ws_activity ws' = next_activity s (bottom_lines (ps_viewport p) 20) quiet"
    using a by simp
  ultimately show thesis
    using that [of "e1 @ e2" e3 cmds] e3(2) e1(3) rows by simp
qed

section \<open>Crashes\<close>

lemma observe_crash_effect:
  fixes s :: session
  defines "p upd \<equiv> \<lambda>cx. cas_matches cx (s_id s) Status_Running (s_tmux_target s) upd"
  assumes "sessions_unique (db_sessions (w_db w))"
  shows "if \<exists>r \<in> set (db_sessions (w_db w)). p (ws_expected_updated_at ws) (en_cx en) r
    then (\<exists>ev. adds w (observe_crash en s ws payload w) [ev] [] \<and> ev_kind ev = ''session.crashed'') \<and>
      status_rows (w_db (observe_crash en s ws payload w)) =
        map (\<lambda>r. if sr_id r = s_id s then (sr_id r, ''crashed'', None) else (sr_id r, sr_status r, sr_tmux_target r))
          (db_sessions (w_db w))
    else adds w (observe_crash en s ws payload w) [] [] \<and>
      db_sessions (w_db (observe_crash en s ws payload w)) = db_sessions (w_db w)"
proof -
  let ?p = "p (ws_expected_updated_at ws) (en_cx en)"
  let ?rows = "db_sessions (w_db w)"
  have id: "?p r \<Longrightarrow> sr_id r = s_id s" for r
    by (simp add: p_def cas_matches_def)
  have le: "sql_count ?p ?rows \<le> 1"
    using assms(2) unique_on_count [of sr_id ?rows ?p "s_id s"] id by (auto simp: sessions_unique_def)
  show ?thesis
  proof (cases "\<exists>r \<in> set ?rows. ?p r")
    case True
    then have n: "sql_count ?p ?rows = 1"
      using le sql_count_pos [of ?p ?rows] by linarith
    from True obtain r where r: "r \<in> set ?rows" "?p r" by blast
    have same: "q \<in> set ?rows \<Longrightarrow> ?p q \<longleftrightarrow> sr_id q = s_id s" for q
      using unique_on_same [of sr_id ?rows q r] assms(2) r id by (auto simp: sessions_unique_def)
    have "status_rows (update_session ?p (\<lambda>r. r\<lparr>sr_status := ''crashed'', sr_tmux_target := None,
        sr_updated_at := u\<rparr>) (w_db w)) =
      map (\<lambda>r. if sr_id r = s_id s then (sr_id r, ''crashed'', None) else (sr_id r, sr_status r, sr_tmux_target r)) ?rows"
      for u
      using same by (auto simp: status_rows_def update_session_def sql_update_def)
    with True n show ?thesis
      by (auto simp: observe_crash_def commit_crash_observation_def compare_and_set_status_and_target_def
          Let_def p_def adds_def status_rows_def update_session_def)
  next
    case False
    then have n: "sql_count ?p ?rows = 0" by (simp add: sql_count_0)
    have "sql_update ?p f ?rows = ?rows" for f using False by (intro sql_update_none) blast
    with False n show ?thesis
      by (simp add: observe_crash_def commit_crash_observation_def compare_and_set_status_and_target_def
          Let_def p_def adds_def update_session_def)
  qed
qed

lemma command_effect [simp]:
  "fst (command answer c w) = w\<lparr>w_trace := w_trace w @ [(w_ticks w, c)], w_ticks := Suc (w_ticks w)\<rparr>"
  by (simp add: command_def)

text \<open>What a tick does: nothing, a crash observation, or the phases of a live pane.\<close>

lemma watch_tick_cases:
  assumes "watch_tick en wp s host_id ws w = (w', r)"
  obtains
    (quiet) cmds where "adds w w' [] cmds" "w_db w' = w_db w" "filter (\<lambda>(_, c). \<exists>h t k e. c = Cmd_SendKeys h t k e) cmds = []"
      "\<And>ws'. r = Some ws' \<Longrightarrow> ws_activity ws' = ws_activity ws \<and> ws_last_compact ws' = ws_last_compact ws"
  | (crash) payload w1 h ws1 where "w' = observe_crash en s ws1 payload w1" "adds w w1 [] [(w_ticks w, Cmd_SamplePane h (watch_target s) 100)]"
      "w_db w1 = w_db w" "ws_expected_updated_at ws1 = ws_expected_updated_at ws" "r = None"
  | (live) h p w1 ws1 ws' where "live_phases en wp s h p ws1 w1 = (w', ws')"
      "adds w w1 [] [(w_ticks w, Cmd_SamplePane h (watch_target s) 100)]" "w_db w1 = w_db w"
      "ws_activity ws1 = ws_activity ws" "ws_last_compact ws1 = ws_last_compact ws" "r = Some ws'"
proof (cases "load_current_host (en_cx en) (w_db w) host_id")
  case (Inl e)
  then show thesis using assms quiet [of "[]"] by (auto simp: watch_tick_def)
next
  case (Inr host)
  show thesis
  proof (cases host)
    case None
    then show thesis using assms Inr quiet [of "[]"] by (auto simp: watch_tick_def)
  next
    case (Some h)
    let ?c = "Cmd_SamplePane h (watch_target s) 100"
    define w1 where "w1 = fst (command (en_sample en) ?c w)"
    define ws1 where "ws1 = ws\<lparr>ws_next_sample_after := sample_tick (h_kind h)\<rparr>"
    have w1: "adds w w1 [] [(w_ticks w, ?c)]" "w_db w1 = w_db w"
      by (simp_all add: w1_def adds_def)
    have t: "sampled en wp s h (en_sample en (w_ticks w) ?c) ws1 w1 = (w', r)"
      using assms Inr Some by (simp add: watch_tick_def Let_def w1_def ws1_def)
    have ws1: "ws_activity ws1 = ws_activity ws" "ws_last_compact ws1 = ws_last_compact ws"
      "ws_expected_updated_at ws1 = ws_expected_updated_at ws"
      by (simp_all add: ws1_def)
    show thesis
    proof (cases "en_sample en (w_ticks w) ?c")
      case (Inl e)
      then have "w' = w1" "r = Some ws1" using t by (simp_all add: sampled_def)
      then show thesis using quiet [of "[(w_ticks w, ?c)]"] w1 ws1 by simp
    next
      case (Inr answer)
      show thesis
      proof (cases answer)
        case None
        then show thesis using crash [OF _ w1 ws1(3)] t Inr by (auto simp: sampled_def)
      next
        case (Some p)
        show thesis
        proof (cases "find (str_contains (ps_pane p)) (crash_signatures (adapter_for (s_tool s)))")
          case None
          then have "map_prod id Some (live_phases en wp s h p ws1 w1) = (w', r)"
            using t Inr Some by (simp add: sampled_def)
          then obtain ws' where "live_phases en wp s h p ws1 w1 = (w', ws')" "r = Some ws'"
            by (cases "live_phases en wp s h p ws1 w1") auto
          then show thesis using live w1 ws1(1,2) by blast
        next
          case (Some sig)
          then show thesis using crash [OF _ w1 ws1(3)] t Inr \<open>answer = Some p\<close> by (auto simp: sampled_def)
        qed
      qed
    qed
  qed
qed

text \<open>
  C3. A crash belongs to the generation that was observed. One pass of a watch task announces
  \<open>session.crashed\<close> only if its task ends, and only if the row is still running with the tmux target
  and the update time the task captured; then exactly this session becomes crashed without a target.
  In every other case no status and no target of any session changes, so a task that lost to a stop
  or a restart neither overwrites the new state nor reports a crash.
\<close>

theorem crash_needs_observed_generation:
  assumes "watch_tick en wp s host_id ws w = (w', r)" and "sessions_unique (db_sessions (w_db w))"
  defines "crashed \<equiv> \<exists>ev \<in> set (drop (length (w_bus w)) (w_bus w')). ev_kind ev = ''session.crashed''"
  shows "(crashed \<longrightarrow> r = None \<and>
      (\<exists>row \<in> set (db_sessions (w_db w)). sr_id row = s_id s \<and> sr_status row = ''running'' \<and>
         sr_tmux_target row = s_tmux_target s \<and>
         sr_updated_at row = cx_fmt_ts (en_cx en) (ws_expected_updated_at ws))) \<and>
    map (\<lambda>row. (sr_id row, sr_status row, sr_tmux_target row)) (db_sessions (w_db w')) =
      map (\<lambda>row. if crashed \<and> sr_id row = s_id s then (sr_id row, ''crashed'', None)
                 else (sr_id row, sr_status row, sr_tmux_target row)) (db_sessions (w_db w))"
  using assms(1)
proof (cases rule: watch_tick_cases)
  case (quiet cmds)
  then show ?thesis by (simp add: crashed_def adds_def)
next
  case (crash payload w1 h ws1)
  let ?P = "\<exists>row \<in> set (db_sessions (w_db w)).
    cas_matches (en_cx en) (s_id s) Status_Running (s_tmux_target s) (ws_expected_updated_at ws) row"
  have e: "if ?P then (\<exists>ev. adds w1 w' [ev] [] \<and> ev_kind ev = ''session.crashed'') \<and>
      status_rows (w_db w') =
        map (\<lambda>r. if sr_id r = s_id s then (sr_id r, ''crashed'', None) else (sr_id r, sr_status r, sr_tmux_target r))
          (db_sessions (w_db w))
    else adds w1 w' [] [] \<and> db_sessions (w_db w') = db_sessions (w_db w)"
    using observe_crash_effect [where w = w1 and s = s and en = en and ws = ws1 and payload = payload] crash assms(2)
    by simp
  show ?thesis
  proof (cases ?P)
    case True
    with e crash(2) have "crashed" by (auto simp: crashed_def adds_def)
    moreover have "\<exists>row \<in> set (db_sessions (w_db w)). sr_id row = s_id s \<and> sr_status row = ''running'' \<and>
         sr_tmux_target row = s_tmux_target s \<and>
         sr_updated_at row = cx_fmt_ts (en_cx en) (ws_expected_updated_at ws)"
      using True by (auto simp: cas_matches_def)
    ultimately show ?thesis using True e crash(5) by (simp add: status_rows_def)
  next
    case False
    with e crash(2) have "\<not> crashed" by (simp add: crashed_def adds_def)
    with False e show ?thesis by simp
  qed
next
  case (live h p w1 ws1 ws')
  from live(1) obtain evs1 evs2 cmds where l: "adds w1 w' (evs1 @ evs2) cmds"
    "set (kinds evs1) \<subseteq> {''watchdog.compact'', ''session.tool_changed''}"
    "case transition_event (ws_activity ws1) (ws_activity ws') of
       None \<Rightarrow> evs2 = [] | Some kp \<Rightarrow> \<exists>now. evs2 = [activity_event s kp now]"
    "status_rows (w_db w') = status_rows (w_db w1)"
    by (rule live_phases_effect)
  have "''session.crashed'' \<notin> set (kinds (evs1 @ evs2))"
    using l(2,3) transition_kinds [of "ws_activity ws1" "ws_activity ws'"]
    by (auto simp: kinds_def split: option.splits)
  then have "ev \<in> set (evs1 @ evs2) \<Longrightarrow> ev_kind ev \<noteq> ''session.crashed''" for ev
    by (force simp: kinds_def)
  moreover have "drop (length (w_bus w)) (w_bus w') = evs1 @ evs2"
    using l(1) live(2) by (simp add: adds_def)
  ultimately have "\<not> crashed" by (auto simp: crashed_def)
  then show ?thesis using l(4) live(3) by (simp add: status_rows_def)
qed

section \<open>The cooldown of compact\<close>

text \<open>The \<open>/compact\<close> commands of a run: the tick at which each was sent.\<close>

definition key_sends :: "trace \<Rightarrow> nat list" where
  "key_sends cmds = map fst (filter (\<lambda>(_, c). \<exists>h t k e. c = Cmd_SendKeys h t k e) cmds)"

lemma key_sends_append [simp]: "key_sends (a @ b) = key_sends a @ key_sends b"
  by (simp add: key_sends_def)

text \<open>The reading of the clock that allowed a send was taken one tick before it.\<close>

definition cooled :: "environment \<Rightarrow> nat \<Rightarrow> nat \<Rightarrow> bool" where
  "cooled en a b \<longleftrightarrow> en_instant en (a - 1) + COMPACT_COOLDOWN \<le> en_instant en (b - 1)"

lemma compact_due_after: "compact_due (Some t) now \<Longrightarrow> t + COMPACT_COOLDOWN \<le> now"
  by (auto simp: compact_due_def COMPACT_COOLDOWN_def seconds_def)

lemma cooled_trans: "cooled en a b \<Longrightarrow> cooled en b c \<Longrightarrow> cooled en a c"
  by (auto simp: cooled_def)

text \<open>The invariant of a run: the task remembers its last send.\<close>

definition sends_ok :: "environment \<Rightarrow> trace \<Rightarrow> watch_state option \<Rightarrow> bool" where
  "sends_ok en cmds r \<longleftrightarrow> sorted_wrt (cooled en) (key_sends cmds) \<and>
     (\<forall>ws. r = Some ws \<longrightarrow> ws_last_compact ws =
        (if key_sends cmds = [] then None else Some (en_instant en (last (key_sends cmds) - 1))))"

lemma sends_ok_snoc:
  assumes "sends_ok en cmds (Some ws)" and "compact_due (ws_last_compact ws) (en_instant en now)"
  shows "sorted_wrt (cooled en) (key_sends cmds @ [Suc now])"
proof -
  have "cooled en a (Suc now)" if "a \<in> set (key_sends cmds)" for a
  proof -
    let ?l = "last (key_sends cmds)"
    from that have ne: "key_sends cmds \<noteq> []" by auto
    with assms have "compact_due (Some (en_instant en (?l - 1))) (en_instant en now)"
      by (simp add: sends_ok_def)
    then have l: "cooled en ?l (Suc now)"
      using compact_due_after by (simp add: cooled_def)
    have "a = ?l \<or> cooled en a ?l"
    proof -
      have "key_sends cmds = butlast (key_sends cmds) @ [?l]" using ne by simp
      with assms(1) that show ?thesis
        by (metis (no_types, lifting) Un_iff list.set_intros(1) sends_ok_def set_ConsD set_append
            sorted_wrt_append empty_iff list.set(1))
    qed
    with l cooled_trans show ?thesis by blast
  qed
  with assms(1) show ?thesis by (simp add: sends_ok_def sorted_wrt_append)
qed

lemma key_sends_simps [simp]:
  "key_sends [] = []"
  "key_sends ((t, Cmd_SendKeys h x k e) # cmds) = t # key_sends cmds"
  "key_sends ((t, Cmd_SamplePane h x n) # cmds) = key_sends cmds"
  by (auto simp: key_sends_def)

lemma adds_observe_crash: "\<exists>evs. adds w (observe_crash en s ws payload w) evs []"
  by (auto simp: observe_crash_def commit_crash_observation_def Let_def adds_def)

lemma sends_ok_tick:
  assumes "sends_ok en cmds (Some ws)" and "watch_tick en wp s host_id ws w = (w', r)"
  shows "sends_ok en (cmds @ drop (length (w_trace w)) (w_trace w')) r"
  using assms(2)
proof (cases rule: watch_tick_cases)
  case (quiet new)
  then have "key_sends new = []" "drop (length (w_trace w)) (w_trace w') = new"
    by (auto simp: key_sends_def adds_def)
  with assms(1) quiet(4) show ?thesis by (simp add: sends_ok_def)
next
  case (crash payload w1 h ws1)
  obtain evs where "adds w1 w' evs []" using adds_observe_crash crash(1) by blast
  with crash(2) have "drop (length (w_trace w)) (w_trace w') = [(w_ticks w, Cmd_SamplePane h (watch_target s) 100)]"
    by (simp add: adds_def)
  with assms(1) crash(5) show ?thesis by (simp add: sends_ok_def)
next
  case (live h p w1 ws1 ws')
  from live(1) obtain evs1 evs2 new where l: "adds w1 w' (evs1 @ evs2) new"
    "new = [] \<and> ws_last_compact ws' = ws_last_compact ws1 \<or>
     (\<exists>now c. new = [(Suc now, c)] \<and>
        c = Cmd_SendKeys h (watch_target s) (the (compact_trigger (adapter_for (s_tool s)))) True \<and>
        compact_due (ws_last_compact ws1) (en_instant en now) \<and>
        ws_last_compact ws' = Some (en_instant en now))"
    by (rule live_phases_effect)
  then have d: "drop (length (w_trace w)) (w_trace w') = (w_ticks w, Cmd_SamplePane h (watch_target s) 100) # new"
    using live(2) by (simp add: adds_def)
  from l(2) show ?thesis
  proof
    assume "new = [] \<and> ws_last_compact ws' = ws_last_compact ws1"
    with d assms(1) live(5,6) show ?thesis by (simp add: sends_ok_def)
  next
    assume "\<exists>now c. new = [(Suc now, c)] \<and>
        c = Cmd_SendKeys h (watch_target s) (the (compact_trigger (adapter_for (s_tool s)))) True \<and>
        compact_due (ws_last_compact ws1) (en_instant en now) \<and>
        ws_last_compact ws' = Some (en_instant en now)"
    then obtain now where n: "key_sends new = [Suc now]" "compact_due (ws_last_compact ws) (en_instant en now)"
      "ws_last_compact ws' = Some (en_instant en now)" using live(5) by auto
    with d sends_ok_snoc [OF assms(1) n(2)] live(6) show ?thesis by (simp add: sends_ok_def)
  qed
qed

lemma watched_sends_ok:
  assumes "watched en wp s host_id out cmds w r"
  shows "sends_ok en cmds r"
  using assms
proof (induction rule: watched.induct)
  case (start w0 w ws)
  then show ?case by (auto simp: sends_ok_def watch_start_def Let_def)
next
  case (tick out cmds w ws w' r)
  then show ?case using sends_ok_tick by blast
next
  case (others out cmds w r w')
  then show ?case by blast
qed

text \<open>
  At most one \<open>/compact\<close> per cooldown. However many passes a watch task makes and whatever the
  other tasks do in between, any two \<open>/compact\<close> commands it sends are at least five minutes apart on
  the monotonic clock it reads.
\<close>

theorem compact_respects_the_cooldown:
  assumes "watched en wp s host_id out cmds w r" and "i < j" and "j < length (key_sends cmds)"
  shows "en_instant en (key_sends cmds ! i - 1) + 300 * 10 ^ 9 \<le> en_instant en (key_sends cmds ! j - 1)"
  using watched_sends_ok [OF assms(1)] assms(2,3)
  by (auto simp: sends_ok_def cooled_def COMPACT_COOLDOWN_def seconds_def sorted_wrt_iff_nth_less)

section \<open>The events tell the activity\<close>

text \<open>What a client that follows the events of a session knows of its agent.\<close>

definition view_event :: "activity_state \<Rightarrow> event \<Rightarrow> activity_state" where
  "view_event a ev =
     (if ev_kind ev = ''agent.finished'' then ActivityState_Idle
      else if ev_kind ev = ''agent.working'' then ActivityState_Working
      else if ev_kind ev = ''agent.awaiting_input'' then ActivityState_AwaitingInput
      else if ev_kind ev = ''agent.input_resolved''
      then (if jget_str (ev_payload ev) ''state'' = Some ''working'' then ActivityState_Working
            else if jget_str (ev_payload ev) ''state'' = Some ''idle'' then ActivityState_Idle else a)
      else a)"

definition activity_view :: "event list \<Rightarrow> activity_state" where
  "activity_view evs = foldl view_event ActivityState_Unknown evs"

lemma view_other:
  "set (kinds evs) \<subseteq> {''watchdog.compact'', ''session.tool_changed'', ''session.crashed'', ''session.started''} \<Longrightarrow>
     foldl view_event a evs = a"
  by (induction evs) (auto simp: view_event_def kinds_def)

lemma view_transition:
  assumes "case transition_event a b of None \<Rightarrow> evs = [] | Some kp \<Rightarrow> \<exists>now. evs = [activity_event s kp now]"
    and "b = ActivityState_Unknown \<longrightarrow> a = ActivityState_Unknown"
  shows "foldl view_event a evs = b"
  using assms
  by (cases a; cases b) (auto simp: transition_event_def view_event_def activity_event_payload)

text \<open>Whether a session is ever classified depends on its tool only.\<close>

definition classified :: "string \<Rightarrow> bool" where
  "classified tool \<longleftrightarrow> busy_signature (adapter_for tool) \<noteq> None \<or> is_agent (adapter_for tool)"

lemma awaiting_needs_busy: "busy_signature a = None \<Longrightarrow> awaiting_input_signatures a = []"
  by (cases a) simp_all

lemma next_activity_Unknown: "next_activity s bottom quiet = ActivityState_Unknown \<longleftrightarrow> \<not> classified (s_tool s)"
  using awaiting_needs_busy [of "adapter_for (s_tool s)"]
  by (auto simp: next_activity_def classify_activity_def classified_def Let_def split: option.splits)

lemma watched_view:
  assumes "watched en wp s host_id out cmds w r" and "r = Some ws"
  shows "activity_view out = ws_activity ws \<and>
    (\<not> classified (s_tool s) \<longrightarrow> ws_activity ws = ActivityState_Unknown)"
  using assms
proof (induction arbitrary: ws rule: watched.induct)
  case (start w0 w ws0)
  then have "drop (length (w_bus w0)) (w_bus w) =
      [with_session (s_id s) (s_name s) (Event_new (en_clock en (w_ticks w0)) ''session.started'')]"
    "ws_activity ws = ActivityState_Unknown"
    by (auto simp: watch_start_def Let_def)
  then show ?case
    by (simp add: activity_view_def view_event_def with_session_def Event_new_def)
next
  case (tick out cmds w ws0 w' r)
  let ?new = "drop (length (w_bus w)) (w_bus w')"
  have IH: "activity_view out = ws_activity ws0" "\<not> classified (s_tool s) \<longrightarrow> ws_activity ws0 = ActivityState_Unknown"
    using tick.IH by simp_all
  from tick.hyps(2) show ?case
  proof (cases rule: watch_tick_cases)
    case (quiet new)
    then show ?thesis using IH tick.prems by (simp add: adds_def)
  next
    case (crash payload w1 h ws1)
    then show ?thesis using tick.prems by simp
  next
    case (live h p w1 ws1 ws')
    from live(1) obtain evs1 evs2 new where l: "adds w1 w' (evs1 @ evs2) new"
      "set (kinds evs1) \<subseteq> {''watchdog.compact'', ''session.tool_changed''}"
      "case transition_event (ws_activity ws1) (ws_activity ws') of
         None \<Rightarrow> evs2 = [] | Some kp \<Rightarrow> \<exists>now. evs2 = [activity_event s kp now]"
      "\<exists>quiet. ws_activity ws' = next_activity s (bottom_lines (ps_viewport p) 20) quiet"
      by (rule live_phases_effect)
    have ws: "ws' = ws" using live(6) tick.prems by simp
    have new: "?new = evs1 @ evs2" using l(1) live(2) by (simp add: adds_def)
    have u: "ws_activity ws = ActivityState_Unknown \<longleftrightarrow> \<not> classified (s_tool s)"
      using l(4) ws next_activity_Unknown by metis
    have "foldl view_event (ws_activity ws0) (evs1 @ evs2) = ws_activity ws"
    proof -
      have "foldl view_event (ws_activity ws0) evs1 = ws_activity ws0"
        using l(2) by (intro view_other) auto
      then show ?thesis
        using view_transition [OF l(3)] live(4) u IH(2) ws by simp
    qed
    then show ?thesis using IH(1) new u by (simp add: activity_view_def)
  qed
next
  case (others out cmds w r w')
  then show ?case by blast
qed

text \<open>
  C35. The events of a watch task are enough to know its agent. At every point of a run a client that
  folds the events of the task, taking the state that \<open>agent.input_resolved\<close> carries, is at the
  activity the task has classified last; a session whose tool is neither an agent nor has a busy
  signature stays unknown and never reports an activity.
\<close>

theorem events_tell_the_activity:
  assumes "watched en wp s host_id out cmds w (Some ws)"
  shows "activity_view out = ws_activity ws \<and>
    (\<not> classified (s_tool s) \<longrightarrow> ws_activity ws = ActivityState_Unknown)"
  using watched_view [OF assms] by simp

section \<open>Reconciling\<close>

lemma foldl_spawn:
  "dom (foldl spawn_task tasks ss) = dom tasks \<union> s_id ` set ss \<and>
   (\<forall>i t. tasks i = Some t \<longrightarrow> foldl spawn_task tasks ss i = Some t) \<and>
   (\<forall>i t. tasks i = None \<longrightarrow> foldl spawn_task tasks ss i = Some t \<longrightarrow> (\<exists>s \<in> set ss. s_id s = i \<and> t = new_task s))"
proof (induction ss arbitrary: tasks)
  case (Cons s ss)
  have d: "dom (spawn_task tasks s) = insert (s_id s) (dom tasks)"
    by (auto simp: spawn_task_def)
  have k: "tasks i = Some t \<Longrightarrow> spawn_task tasks s i = Some t" for i t
    by (auto simp: spawn_task_def)
  have n: "tasks i = None \<Longrightarrow> spawn_task tasks s i = (if i = s_id s then Some (new_task s) else None)" for i
    by (auto simp: spawn_task_def)
  note IH = Cons.IH [of "spawn_task tasks s"]
  have "\<exists>q \<in> set (s # ss). s_id q = i \<and> t = new_task q"
    if "tasks i = None" "foldl spawn_task tasks (s # ss) i = Some t" for i t
  proof (cases "i = s_id s")
    case True
    with that n [OF that(1)] IH show ?thesis by (metis foldl_Cons list.set_intros(1) option.inject)
  next
    case False
    with that n [OF that(1)] IH show ?thesis by (metis foldl_Cons list.set_intros(2))
  qed
  moreover have "dom (foldl spawn_task tasks (s # ss)) = dom tasks \<union> s_id ` set (s # ss)"
    using IH d by simp
  moreover have "\<forall>i t. tasks i = Some t \<longrightarrow> foldl spawn_task tasks (s # ss) i = Some t"
    using IH k by simp
  ultimately show ?case by blast
qed simp

text \<open>
  Reconciling leaves exactly one live task per running session. When the running sessions can be
  listed, the ids that have a task afterwards are exactly theirs and no task is finished; a live task
  of a session that still runs is kept as it is, and every other task was started on the session as
  it is stored now. When they cannot be listed, nothing changes.
\<close>

theorem reconcile_tracks_running_sessions:
  "case list_sessions cx d (Some Status_Running) of
     Inl e \<Rightarrow> reconcile cx d tasks = (tasks, Inl e)
   | Inr running \<Rightarrow>
       snd (reconcile cx d tasks) = Inr () \<and>
       dom (fst (reconcile cx d tasks)) = s_id ` set running \<and>
       (\<forall>i t. fst (reconcile cx d tasks) i = Some t \<longrightarrow>
          (if (\<exists>old. tasks i = Some old \<and> \<not> tk_finished old) then tasks i = Some t
           else \<exists>s \<in> set running. s_id s = i \<and> t = new_task s) \<and> \<not> tk_finished t)"
proof (cases "list_sessions cx d (Some Status_Running)")
  case (Inl e)
  then show ?thesis by (simp add: reconcile_def)
next
  case (Inr running)
  let ?k = "keep_task (s_id ` set running) tasks"
  note f = foldl_spawn [of ?k running]
  have k: "?k i = (if i \<in> s_id ` set running \<and> (\<exists>old. tasks i = Some old \<and> \<not> tk_finished old) then tasks i else None)" for i
    by (auto simp: keep_task_def split: option.split)
  then have dk: "dom ?k \<subseteq> s_id ` set running" by (auto simp: dom_def split: if_splits)
  have dom: "dom (foldl spawn_task ?k running) = s_id ` set running" using f dk by blast
  have "(if (\<exists>old. tasks i = Some old \<and> \<not> tk_finished old) then tasks i = Some t
           else \<exists>s \<in> set running. s_id s = i \<and> t = new_task s) \<and> \<not> tk_finished t"
    if t: "foldl spawn_task ?k running i = Some t" for i t
  proof -
    have i: "i \<in> s_id ` set running" using t dom by blast
    show ?thesis
    proof (cases "\<exists>old. tasks i = Some old \<and> \<not> tk_finished old")
      case True
      then have "?k i = tasks i" using k i by simp
      with f t True show ?thesis by auto
    next
      case False
      then have "\<not> (i \<in> s_id ` set running \<and> (\<exists>old. tasks i = Some old \<and> \<not> tk_finished old))" by blast
      then have "?k i = None" unfolding k by (rule if_not_P)
      with f t obtain s where "s \<in> set running" "s_id s = i" "t = new_task s" by blast
      with False show ?thesis by (auto simp: new_task_def)
    qed
  qed
  with Inr dom show ?thesis by (simp add: reconcile_def)
qed

section \<open>A sample run\<close>

definition sample_watched :: session where
  "sample_watched = (sample_session ''claude'' [])\<lparr>s_id := ''u1'', s_tmux_target := Some ''t'', s_updated_at := 5\<rparr>"

definition sample_pane_en :: "pane_sample option \<Rightarrow> environment" where
  "sample_pane_en pane =
     (as_en sample_app)\<lparr>en_sample := (\<lambda>_ _. Inr pane), en_instant := (\<lambda>t. t * 10 ^ 12)\<rparr>"

definition sample_low_pane :: pane_sample where
  "sample_low_pane = \<lparr>ps_pane = ''x'', ps_viewport = [], ps_current_command = ''claude''\<rparr>"

definition sample_wp :: watch_params where
  "sample_wp = \<lparr>wp_context_low = (\<lambda>_. True), wp_hash = (\<lambda>_. 0)\<rparr>"

definition sample_running_world :: world where
  "sample_running_world =
     (sample_world [])\<lparr>w_db := (w_db (sample_world []))\<lparr>db_sessions :=
        [session_row_of sample_codec 5 ''u1'' Status_Running (Some ''t'') (Some ''h1'') (sample_terminal [])]\<rparr>\<rparr>"

abbreviation sample_hosts :: "world \<Rightarrow> bool" where
  "sample_hosts w \<equiv> db_hosts (w_db w) = db_hosts (w_db (sample_world []))"

lemma sample_load: "sample_hosts w \<Longrightarrow> load_current_host sample_codec (w_db w) ''h1'' = Inr (Some sample_host)"
  using sample_get_host [of "[]"] by (simp add: load_current_host_def get_host_def)

lemma sample_pane_en_cx [simp]: "en_cx (sample_pane_en pane) = sample_codec"
  by (simp add: sample_pane_en_def sample_app_def)

lemma sample_pane_answer [simp]:
  "en_sample (sample_pane_en pane) t c = Inr pane" "en_instant (sample_pane_en pane) t = t * 10 ^ 12"
  by (simp_all add: sample_pane_en_def)

lemma sample_running_hosts: "sample_hosts sample_running_world"
  by (simp add: sample_running_world_def)

lemma sample_crash_tick:
  "watch_tick (sample_pane_en None) sample_wp sample_watched ''h1'' ws sample_running_world =
     (observe_crash (sample_pane_en None) sample_watched (ws\<lparr>ws_next_sample_after := sample_tick (h_kind sample_host)\<rparr>)
        (JObj [(''reason'', JStr ''pane_exited'')])
        (fst (command (en_sample (sample_pane_en None)) (Cmd_SamplePane sample_host (watch_target sample_watched) 100)
           sample_running_world)), None)"
  using sample_load [of sample_running_world]
  by (simp add: sample_running_hosts watch_tick_def Let_def sampled_def)

theorem crash_needs_observed_generation_witness:
  "\<exists>ws. map (\<lambda>row. (sr_id row, sr_status row, sr_tmux_target row))
     (db_sessions (w_db (fst (watch_tick (sample_pane_en None) sample_wp sample_watched ''h1'' ws sample_running_world)))) =
   [(''u1'', ''crashed'', None)]"
proof -
  define ws where "ws = snd (watch_start (sample_pane_en None) sample_watched sample_running_world)"
  have upd: "ws_expected_updated_at ws = 5"
    by (simp add: ws_def watch_start_def Let_def sample_watched_def)
  obtain w' r where t: "watch_tick (sample_pane_en None) sample_wp sample_watched ''h1'' ws sample_running_world = (w', r)"
    by fastforce
  have rows: "db_sessions (w_db sample_running_world) =
      [session_row_of sample_codec 5 ''u1'' Status_Running (Some ''t'') (Some ''h1'') (sample_terminal [])]"
    by (simp add: sample_running_world_def)
  have u: "sessions_unique (db_sessions (w_db sample_running_world))"
    unfolding rows by (simp add: sessions_unique_def unique_on_def)
  have "\<exists>ev \<in> set (drop (length (w_bus sample_running_world)) (w_bus w')). ev_kind ev = ''session.crashed''"
  proof -
    have "w' = fst (watch_tick (sample_pane_en None) sample_wp sample_watched ''h1'' ws sample_running_world)"
      using t by simp
    then show ?thesis
      unfolding sample_crash_tick
      by (simp add: observe_crash_def commit_crash_observation_def
          compare_and_set_status_and_target_def rows Let_def sql_count_def cas_matches_def session_row_of_def
          upd sample_watched_def)
  qed
  then have "map (\<lambda>row. (sr_id row, sr_status row, sr_tmux_target row)) (db_sessions (w_db w')) =
      [(''u1'', ''crashed'', None)]"
    using crash_needs_observed_generation [OF t u] rows
    by (simp add: session_row_of_def sample_watched_def)
  with t show ?thesis by (intro exI [of _ ws]) simp
qed

lemma sample_low_tick:
  assumes "sample_hosts w" and "compact_due (ws_last_compact ws) (Suc (w_ticks w) * 10 ^ 12)"
  obtains w' ws' where
    "watch_tick (sample_pane_en (Some sample_low_pane)) sample_wp sample_watched ''h1'' ws w = (w', Some ws')"
    "key_sends (drop (length (w_trace w)) (w_trace w')) = [w_ticks w + 2]" "sample_hosts w'"
    "ws_last_compact ws' = Some (Suc (w_ticks w) * 10 ^ 12)" "w_ticks w + 2 \<le> w_ticks w'"
    "ws_activity ws' = ActivityState_Idle"
proof -
  let ?en = "sample_pane_en (Some sample_low_pane)"
  let ?c = "Cmd_SamplePane sample_host (watch_target sample_watched) 100"
  let ?w1 = "fst (command (en_sample ?en) ?c w)"
  let ?ws = "ws\<lparr>ws_next_sample_after := sample_tick (h_kind sample_host)\<rparr>"
  have tool: "s_tool sample_watched = ''claude''" by (simp add: sample_watched_def sample_session_def)
  have find: "\<not> str_contains ''x'' ''redacted_thinking''" "\<not> str_contains ''x'' ''panic: cannot continue''"
    by code_simp+
  have low: "ps_pane sample_low_pane = ''x''" by (simp add: sample_low_pane_def)
  have t: "watch_tick ?en sample_wp sample_watched ''h1'' ws w =
      map_prod id Some (live_phases ?en sample_wp sample_watched sample_host sample_low_pane ?ws ?w1)"
    using assms(1)
    by (simp add: watch_tick_def sample_load Let_def sampled_def tool adapter_for_def low find)
  obtain w1 ws1 where 1: "compact_phase ?en sample_wp sample_watched sample_host (ps_pane sample_low_pane) ?ws ?w1 = (w1, ws1)"
    by fastforce
  have c: "w_trace w1 = w_trace w @ [(w_ticks w, ?c), (w_ticks w + 2,
      Cmd_SendKeys sample_host (watch_target sample_watched) ''/compact'' True)]"
    "ws_last_compact ws1 = Some (Suc (w_ticks w) * 10 ^ 12)" "ws_current_tool ws1 = ws_current_tool ws"
    "db_hosts (w_db w1) = db_hosts (w_db w)" "w_ticks w1 = w_ticks w + 4"
    using 1 assms(2)
    by (auto simp: compact_phase_def tool adapter_for_def sample_wp_def Let_def sample_pane_en_def emit_new_def
        emit_def insert_event_def)
  obtain w2 ws2 where 2: "tool_phase ?en sample_watched (ps_current_command sample_low_pane) ws1 w1 = (w2, ws2)"
    by fastforce
  obtain w' ws' where 3: "activity_phase ?en sample_wp sample_watched (ps_viewport sample_low_pane) ws2 w2 = (w', ws')"
    by fastforce
  note e2 = tool_phase_effect [OF 2] and e3 = activity_phase_effect [OF 3]
  have h2: "db_hosts (w_db w2) = db_hosts (w_db w1)" "w_ticks w1 \<le> w_ticks w2"
    using 2 by (auto simp: tool_phase_def commit_tool_def Let_def emit_new_def emit_def insert_event_def
        patch_session_tool_def patch_session_def update_session_def split: option.splits if_splits sum.splits)
  have h3: "db_hosts (w_db w') = db_hosts (w_db w2)" "w_ticks w2 \<le> w_ticks w'"
    using 3 by (auto simp: activity_phase_def footer_phase_def Let_def emit_new_def emit_def insert_event_def
        split: option.splits if_splits)
  have "w_trace w' = w_trace w1"
    using e2 e3 by (auto simp: adds_def split: option.splits)
  then have "drop (length (w_trace w)) (w_trace w') = [(w_ticks w, ?c), (w_ticks w + 2,
      Cmd_SendKeys sample_host (watch_target sample_watched) ''/compact'' True)]"
    using c(1) by simp
  moreover have "bottom_lines [] 20 = []" by (simp add: bottom_lines_def)
  then have "ws_activity ws' = ActivityState_Idle"
    using e3 by (auto simp: sample_low_pane_def next_activity_def tool adapter_for_def classify_activity_def
        str_contains_def)
  moreover have "live_phases ?en sample_wp sample_watched sample_host sample_low_pane ?ws ?w1 = (w', ws')"
    using 1 2 3 by (simp add: live_phases_def)
  ultimately show thesis
    using that [of w' ws'] t c e2 e3 h2 h3 assms(1) by simp
qed

lemma sample_run:
  obtains w ws w1 ws1 w2 ws2 out1 out2 c1 c2 where
    "watched (sample_pane_en (Some sample_low_pane)) sample_wp sample_watched ''h1'' out1 c1 w1 (Some ws1)"
    "watched (sample_pane_en (Some sample_low_pane)) sample_wp sample_watched ''h1'' out2 c2 w2 (Some ws2)"
    "length (key_sends c2) = 2" "ws_activity ws1 = ActivityState_Idle"
proof -
  let ?en = "sample_pane_en (Some sample_low_pane)"
  obtain w ws where s: "watch_start ?en sample_watched sample_running_world = (w, ws)" by fastforce
  then have w: "sample_hosts w" "ws_last_compact ws = None"
    by (auto simp: watch_start_def Let_def emit_new_def emit_def insert_event_def sample_running_world_def)
  have 0: "watched ?en sample_wp sample_watched ''h1'' (drop (length (w_bus sample_running_world)) (w_bus w)) [] w (Some ws)"
    using s by (rule watched.start)
  obtain w1 ws1 where 1: "watch_tick ?en sample_wp sample_watched ''h1'' ws w = (w1, Some ws1)"
    "key_sends (drop (length (w_trace w)) (w_trace w1)) = [w_ticks w + 2]" "sample_hosts w1"
    "ws_last_compact ws1 = Some (Suc (w_ticks w) * 10 ^ 12)" "w_ticks w + 2 \<le> w_ticks w1"
    "ws_activity ws1 = ActivityState_Idle"
    using sample_low_tick [of w ws] w by (auto simp: compact_due_def)
  obtain w2 ws2 where 2: "watch_tick ?en sample_wp sample_watched ''h1'' ws1 w1 = (w2, Some ws2)"
    "key_sends (drop (length (w_trace w1)) (w_trace w2)) = [w_ticks w1 + 2]"
  proof -
    have "compact_due (ws_last_compact ws1) (Suc (w_ticks w1) * 10 ^ 12)"
      using 1(4,5) by (simp add: compact_due_def COMPACT_COOLDOWN_def seconds_def)
    then show thesis using sample_low_tick [OF 1(3)] that by metis
  qed
  note r1 = watched.tick [OF 0 1(1)]
  note r2 = watched.tick [OF r1 2(1)]
  show thesis using that [OF r1 r2] 1(2,6) 2(2) by simp
qed

theorem compact_respects_the_cooldown_witness:
  "\<exists>cmds. length (key_sends cmds) = 2 \<and>
     en_instant (sample_pane_en (Some sample_low_pane)) (key_sends cmds ! 0 - 1) + 300 * 10 ^ 9 \<le>
     en_instant (sample_pane_en (Some sample_low_pane)) (key_sends cmds ! 1 - 1)"
proof -
  obtain out2 c2 w2 ws2 where
    r: "watched (sample_pane_en (Some sample_low_pane)) sample_wp sample_watched ''h1'' out2 c2 w2 (Some ws2)"
    "length (key_sends c2) = 2" using sample_run by metis
  with compact_respects_the_cooldown [OF r(1), of 0 1] show ?thesis by (intro exI [of _ c2]) simp
qed

theorem events_tell_the_activity_witness:
  "\<exists>out. activity_view out = ActivityState_Idle"
proof -
  obtain out1 c1 w1 ws1 where
    r: "watched (sample_pane_en (Some sample_low_pane)) sample_wp sample_watched ''h1'' out1 c1 w1 (Some ws1)"
    "ws_activity ws1 = ActivityState_Idle" using sample_run by metis
  with events_tell_the_activity [OF r(1)] show ?thesis by auto
qed

theorem reconcile_tracks_running_sessions_witness:
  "dom (fst (reconcile sample_codec (w_db sample_running_world) (\<lambda>_. None))) = {''u1''}"
proof -
  let ?r = "session_row_of sample_codec 5 ''u1'' Status_Running (Some ''t'') (Some ''h1'') (sample_terminal [])"
  have rows: "db_sessions (w_db sample_running_world) = [?r]" by (simp add: sample_running_world_def)
  obtain l k where "join_host (w_db sample_running_world) ?r = (?r, l, k)" by (simp add: join_host_def Let_def)
  then obtain s where "Session_try_from sample_codec (join_host (w_db sample_running_world) ?r) = Inr s" "s_id s = ''u1''"
    by (simp add: Session_try_from_new)
  then have "list_sessions sample_codec (w_db sample_running_world) (Some Status_Running) = Inr [s]"
    by (simp add: list_sessions_def rows order_by_def session_row_of_def)
  with \<open>s_id s = ''u1''\<close> show ?thesis
    using reconcile_tracks_running_sessions [of sample_codec "w_db sample_running_world" "\<lambda>_. None"] by simp
qed

end
