(* ===== verification/Watchdog_Bridges.thy ===== *)
theory Watchdog_Bridges
  imports Watchdog Board_Safety
begin

text \<open>
  The two bus subscribers of \<open>crates/agentum-watchdog/src/lib.rs\<close>: the goal reconciler, which keeps
  the status of a goal at the maximum of its children, and the bridge that turns agent events into
  system comments on the card of the session. An event that the subscriber lost (\<open>Lagged\<close>) is an
  event that is not in its list.
\<close>

section \<open>The goal reconciler\<close>

definition status_rank :: "string \<Rightarrow> int" where
  "status_rank s =
     (if s = ''todo'' then 0 else if s = ''doing'' then 1 else if s = ''done'' then 2 else - 1)"

definition rank_to_status :: "int \<Rightarrow> string option" where
  "rank_to_status r =
     (if r = 0 then Some ''todo'' else if r = 1 then Some ''doing'' else if r = 2 then Some ''done''
      else None)"

definition extract_parent_goal_id :: "codec \<Rightarrow> db \<Rightarrow> event \<Rightarrow> store_error + int option" where
  "extract_parent_goal_id cx d ev =
     (case jget (ev_payload ev) ''parent_goal_id'' of
        Some v \<Rightarrow> Inr (as_i64 v)
      | None \<Rightarrow>
          if ev_kind ev = ''board.deleted'' then Inr None
          else case Option.bind (jget (ev_payload ev) ''id'') as_i64 of
            None \<Rightarrow> Inr None
          | Some i \<Rightarrow>
              and_then (get_board_item cx d i) (\<lambda>item. Inr (Option.bind item bi_parent_goal_id)))"

text \<open>The status a maximal rank stands for; \<open>None\<close> leaves the goal alone.\<close>

definition rank_target :: "int option \<Rightarrow> string option" where
  "rank_target rank =
     (case rank of
        None \<Rightarrow> Some ''todo''
      | Some r \<Rightarrow> if r = 0 then Some ''todo'' else if r = 1 then Some ''doing''
                  else if r = 2 then Some ''done'' else None)"

definition first_child_event :: "int \<Rightarrow> session \<Rightarrow> time \<Rightarrow> event" where
  "first_child_event goal_id s now =
     with_payload (JObj [(''goal_id'', JInt goal_id), (''planner_session_id'', JStr (s_id s))])
       (Event_new now ''goal.planner.first_child'')"

definition status_changed_event :: "int \<Rightarrow> string \<Rightarrow> string \<Rightarrow> time \<Rightarrow> event" where
  "status_changed_event goal_id old new now =
     with_payload (JObj [(''goal_id'', JInt goal_id), (''from'', JStr old), (''to'', JStr new)])
       (Event_new now ''goal.status.changed'')"

text \<open>\<open>bus.send\<close> alone: the event is broadcast and not stored.\<close>

definition send_new :: "environment \<Rightarrow> (time \<Rightarrow> event) \<Rightarrow> world \<Rightarrow> world" where
  "send_new en ev w =
     w\<lparr>w_bus := w_bus w @ [ev (en_clock en (w_ticks w))], w_ticks := Suc (w_ticks w)\<rparr>"

definition stop_planner ::
    "environment \<Rightarrow> int \<Rightarrow> world \<Rightarrow> world \<times> (store_error + unit)" where
  "stop_planner en goal_id w =
     (case get_session_by_card_id (en_cx en) (w_db w) goal_id of
        Inl e \<Rightarrow> (w, Inl e)
      | Inr None \<Rightarrow> (w, Inr ())
      | Inr (Some s) \<Rightarrow>
          if s_status s = Status_Running
          then (fst (command (en_unit en) (Cmd_LocalGracefulStop (target_for (s_name s)))
                      (send_new en (first_child_event goal_id s) w)), Inr ())
          else (w, Inr ()))"

text \<open>The planner is stopped at the first child of the goal this daemon sees.\<close>

definition first_child_phase ::
    "environment \<Rightarrow> event \<Rightarrow> int \<Rightarrow> int set \<Rightarrow> world \<Rightarrow> int set \<times> world \<times> (store_error + unit)" where
  "first_child_phase en ev goal_id stopped w =
     (if ev_kind ev \<noteq> ''board.created'' then (stopped, w, Inr ())
      else if goal_id \<in> stopped then (stopped, w, Inr ())
      else (insert goal_id stopped, stop_planner en goal_id w))"

definition recompute_goal :: "environment \<Rightarrow> board_item \<Rightarrow> world \<Rightarrow> world \<times> (store_error + unit)" where
  "recompute_goal en goal w =
     (case rank_target (max_child_status_rank (w_db w) (bi_id goal)) of
        None \<Rightarrow> (w, Inr ())
      | Some target \<Rightarrow>
          if status_rank (bi_status goal) = status_rank target then (w, Inr ())
          else
            let t = w_ticks w;
                res = patch_board_item (en_cx en) (en_clock en t) (w_db w) (bi_id goal)
                        (BoardPatch_default\<lparr>bp_status := Some target\<rparr>);
                w1 = w\<lparr>w_db := fst res, w_ticks := Suc t\<rparr>
            in case snd res of
                 Inl e \<Rightarrow> (w1, Inl e)
               | Inr _ \<Rightarrow> (send_new en (status_changed_event (bi_id goal) (bi_status goal) target) w1, Inr ()))"

definition handle_goal ::
    "environment \<Rightarrow> event \<Rightarrow> board_item \<Rightarrow> int set \<Rightarrow> world \<Rightarrow> int set \<times> world \<times> (store_error + unit)" where
  "handle_goal en ev goal stopped w =
     (if bi_parent_goal_id goal \<noteq> None then (stopped, w, Inr ())
      else case first_child_phase en ev (bi_id goal) stopped w of
        (stopped', w1, Inl e) \<Rightarrow> (stopped', w1, Inl e)
      | (stopped', w1, Inr _) \<Rightarrow> (stopped', recompute_goal en goal w1))"

definition handle_board_event ::
    "environment \<Rightarrow> event \<Rightarrow> int set \<Rightarrow> world \<Rightarrow> int set \<times> world \<times> (store_error + unit)" where
  "handle_board_event en ev stopped w =
     (case extract_parent_goal_id (en_cx en) (w_db w) ev of
        Inl e \<Rightarrow> (stopped, w, Inl e)
      | Inr None \<Rightarrow> (stopped, w, Inr ())
      | Inr (Some goal_id) \<Rightarrow>
          (case get_board_item (en_cx en) (w_db w) goal_id of
             Inl e \<Rightarrow> (stopped, w, Inl e)
           | Inr None \<Rightarrow> (stopped, w, Inr ())
           | Inr (Some goal) \<Rightarrow> handle_goal en ev goal stopped w))"

text \<open>One event received by the loop; an error is logged and the loop goes on.\<close>

definition goal_reconciler_step :: "environment \<Rightarrow> event \<Rightarrow> int set \<times> world \<Rightarrow> int set \<times> world" where
  "goal_reconciler_step en ev st =
     (if ev_kind ev \<notin> {''board.created'', ''board.updated'', ''board.deleted''} then st
      else let (stopped, w, _) = handle_board_event en ev (fst st) (snd st) in (stopped, w))"

section \<open>The comment bridge\<close>

definition bridge_kind :: "string \<Rightarrow> string option" where
  "bridge_kind kind =
     (if kind = ''agent.awaiting_input'' then Some ''awaiting_input''
      else if kind = ''agent.finished'' then Some ''finished''
      else if kind = ''session.crashed'' then Some ''crashed''
      else None)"

definition crash_signature_of :: "json \<Rightarrow> string" where
  "crash_signature_of payload =
     (case map_option trim (jget_str payload ''signature'') of
        None \<Rightarrow> ''unknown''
      | Some s \<Rightarrow> if s = [] then ''unknown'' else s)"

text \<open>The code calls this with the three kinds of \<open>bridge_kind\<close> only.\<close>

definition comment_body :: "string \<Rightarrow> json \<Rightarrow> string" where
  "comment_body kind payload =
     (if kind = ''awaiting_input'' then ''[system] agent awaiting input''
      else if kind = ''finished'' then ''[system] agent finished''
      else ''[system] session crashed: '' @ take_chars 80 (crash_signature_of payload))"

definition post_comment ::
    "environment \<Rightarrow> event \<Rightarrow> string \<Rightarrow> int \<Rightarrow> world \<Rightarrow> world \<times> (store_error + unit)" where
  "post_comment en ev kind card_id w =
     (let t = w_ticks w;
          res = create_board_comment (en_cx en) (en_clock en t) (w_db w) card_id
                  \<lparr>nbc_author = ''system'', nbc_body = comment_body kind (ev_payload ev)\<rparr>
      in (w\<lparr>w_db := fst res, w_ticks := Suc t\<rparr>, and_then (snd res) (\<lambda>_. Inr ())))"

text \<open>The card an event is about: of its session, and not a goal.\<close>

definition bridge_card :: "codec \<Rightarrow> db \<Rightarrow> uuid \<Rightarrow> store_error + int option" where
  "bridge_card cx d i =
     (case get_session_by_id cx d i of
        Inl e \<Rightarrow> Inl e
      | Inr None \<Rightarrow> Inr None
      | Inr (Some s) \<Rightarrow>
          (case s_card_id s of
             None \<Rightarrow> Inr None
           | Some c \<Rightarrow>
               (case get_board_item cx d c of
                  Inl e \<Rightarrow> Inl e
                | Inr None \<Rightarrow> Inr None
                | Inr (Some b) \<Rightarrow> Inr (if bi_lbl b = Some ''goal'' then None else Some c))))"

definition handle_session_event ::
    "environment \<Rightarrow> event \<Rightarrow> string \<Rightarrow> (uuid \<rightharpoonup> string) \<Rightarrow> world \<Rightarrow>
     (uuid \<rightharpoonup> string) \<times> world \<times> (store_error + unit)" where
  "handle_session_event en ev kind last_kind w =
     (case ev_session_id ev of
        None \<Rightarrow> (last_kind, w, Inr ())
      | Some i \<Rightarrow>
          (case bridge_card (en_cx en) (w_db w) i of
             Inl e \<Rightarrow> (last_kind, w, Inl e)
           | Inr None \<Rightarrow> (last_kind, w, Inr ())
           | Inr (Some c) \<Rightarrow>
               if last_kind i = Some kind then (last_kind, w, Inr ())
               else (last_kind(i \<mapsto> kind), post_comment en ev kind c w)))"

definition comment_bridge_step ::
    "environment \<Rightarrow> event \<Rightarrow> (uuid \<rightharpoonup> string) \<times> world \<Rightarrow> (uuid \<rightharpoonup> string) \<times> world" where
  "comment_bridge_step en ev st =
     (case bridge_kind (ev_kind ev) of
        None \<Rightarrow> st
      | Some kind \<Rightarrow>
          let (last_kind, w, _) = handle_session_event en ev kind (fst st) (snd st) in (last_kind, w))"

section \<open>The status of a goal\<close>

lemma rank_target_rank:
  "rank_target rank = Some t \<Longrightarrow> status_rank t = (case rank of None \<Rightarrow> 0 | Some r \<Rightarrow> r)"
  by (auto simp: rank_target_def status_rank_def split: option.splits if_splits)

lemma rank_target_known: "rank_target rank = None \<longleftrightarrow> (\<exists>r. rank = Some r \<and> r \<notin> {0, 1, 2})"
  by (auto simp: rank_target_def split: option.splits)

definition child_ranks :: "db \<Rightarrow> int \<Rightarrow> int set" where
  "child_ranks d g = (\<lambda>r. child_rank (br_status r)) ` {r \<in> set (db_board_items d). br_parent_goal_id r = Some g}"

lemma child_ranks_known: "finite (child_ranks d g)" "child_ranks d g \<subseteq> {0, 1, 2}"
  by (auto simp: child_ranks_def child_rank_def)

text \<open>The rank of the query is the maximum, so the status it stands for always exists.\<close>

lemma max_rank: "max_child_status_rank d g = (if child_ranks d g = {} then None else Some (Max (child_ranks d g)))"
  by (simp add: max_child_status_rank_Max child_ranks_def Let_def)

lemma goal_target:
  obtains t where "rank_target (max_child_status_rank d g) = Some t"
    "status_rank t = (if child_ranks d g = {} then 0 else Max (child_ranks d g))" "0 \<le> status_rank t"
proof -
  have m: "child_ranks d g \<noteq> {} \<Longrightarrow> Max (child_ranks d g) \<in> {0, 1, 2}"
    using child_ranks_known Max_in by (metis subsetD)
  have "rank_target (max_child_status_rank d g) \<noteq> None"
    unfolding rank_target_known max_rank using m by auto
  then obtain t where t: "rank_target (max_child_status_rank d g) = Some t" by blast
  from rank_target_rank [OF t] have "status_rank t = (if child_ranks d g = {} then 0 else Max (child_ranks d g))"
    by (simp add: max_rank)
  moreover from this m have "0 \<le> status_rank t" by (cases "child_ranks d g = {}") auto
  ultimately show thesis using that t by blast
qed

lemma patched_goal:
  assumes "codec_ok cx" and "get_board_item cx d g = Inr (Some goal)"
  obtains item where
    "snd (patch_board_item cx now d g (BoardPatch_default\<lparr>bp_status := Some t\<rparr>)) = Inr item"
    "get_board_item cx (fst (patch_board_item cx now d g (BoardPatch_default\<lparr>bp_status := Some t\<rparr>))) g = Inr (Some item)"
    "bi_status item = t"
proof -
  let ?p = "\<lambda>r. br_id r = g"
  let ?f = "apply_board_patch cx now (BoardPatch_default\<lparr>bp_status := Some t\<rparr>)"
  let ?d = "update_board ?p ?f d"
  obtain r where r: "sql_find ?p (db_board_items d) = Some r" "BoardItem_try_from cx r = Inr goal"
    using assms(2) by (auto simp: get_board_item_def transpose_opt_def split: option.splits sum.splits)
  then have g: "br_id r = g" and "0 < sql_count ?p (db_board_items d)"
    using sql_find_Some by (fastforce simp: sql_count_pos)+
  have "sql_find ?p (db_board_items ?d) = Some (?f r)"
    using find_update_other [of ?p br_id ?f g "db_board_items d"] r(1) g
    by (simp add: update_board_def apply_board_patch_def)
  moreover obtain item where "BoardItem_try_from cx (?f r) = Inr item" "bi_status item = t"
    using r(2) assms(1)
    by (auto simp: BoardItem_try_from_def apply_board_patch_def coalesce_def and_then_eq_Inr)
  ultimately have "get_board_item cx ?d g = Inr (Some item)" by (simp add: get_board_item_def)
  with \<open>bi_status item = t\<close> \<open>0 < _\<close> show thesis
    by (intro that [of item]) (simp_all add: patch_board_item_def Let_def get_board_or_not_found_def)
qed

lemma others_untouched:
  "filter (\<lambda>b. br_id b \<noteq> g) (db_board_items (fst (patch_board_item cx now d g p))) =
     filter (\<lambda>b. br_id b \<noteq> g) (db_board_items d)"
proof -
  have "filter (\<lambda>b. br_id b \<noteq> g) (sql_update (\<lambda>r. br_id r = g) f rows) = filter (\<lambda>b. br_id b \<noteq> g) rows"
    if "\<And>r. br_id (f r) = br_id r" for f and rows :: "board_item_row list"
    using that by (induction rows) (auto simp: sql_update_def)
  then show ?thesis
    by (simp add: patch_board_item_def Let_def update_board_def apply_board_patch_def)
qed

lemma recompute_goal_effect:
  assumes "codec_ok (en_cx en)" and "get_board_item (en_cx en) (w_db w) g = Inr (Some goal)" and "bi_id goal = g"
    and "recompute_goal en goal w = (w', r)"
  shows "r = Inr () \<and> (\<exists>goal'. get_board_item (en_cx en) (w_db w') g = Inr (Some goal') \<and>
      status_rank (bi_status goal') = (if child_ranks (w_db w) g = {} then 0 else Max (child_ranks (w_db w) g))) \<and>
    filter (\<lambda>b. br_id b \<noteq> g) (db_board_items (w_db w')) = filter (\<lambda>b. br_id b \<noteq> g) (db_board_items (w_db w))"
proof -
  obtain t where t: "rank_target (max_child_status_rank (w_db w) g) = Some t"
    "status_rank t = (if child_ranks (w_db w) g = {} then 0 else Max (child_ranks (w_db w) g))"
    by (rule goal_target)
  show ?thesis
  proof (cases "status_rank (bi_status goal) = status_rank t")
    case True
    then show ?thesis using assms t by (auto simp: recompute_goal_def)
  next
    case False
    obtain item where i:
      "snd (patch_board_item (en_cx en) (en_clock en (w_ticks w)) (w_db w) g (BoardPatch_default\<lparr>bp_status := Some t\<rparr>)) = Inr item"
      "get_board_item (en_cx en) (fst (patch_board_item (en_cx en) (en_clock en (w_ticks w)) (w_db w) g
         (BoardPatch_default\<lparr>bp_status := Some t\<rparr>))) g = Inr (Some item)"
      "bi_status item = t"
      by (rule patched_goal [OF assms(1,2)])
    note others_untouched [of g "en_cx en" "en_clock en (w_ticks w)" "w_db w"]
    then show ?thesis
      using assms(3,4) False t i by (auto simp: recompute_goal_def Let_def send_new_def)
  qed
qed

lemma first_child_phase_effect:
  assumes "sessions_ok (en_cx en) (w_db w)" and "first_child_phase en ev g stopped w = (stopped', w', r)"
  shows "r = Inr ()" and "w_db w' = w_db w"
proof -
  obtain so where "get_session_by_card_id (en_cx en) (w_db w) g = Inr so"
  proof -
    have "is_ok (get_session_by_card_id (en_cx en) (w_db w) g)"
      using assms(1) sql_find_Some Session_try_from_ok
      by (fastforce simp: get_session_by_card_id_def get_session_where_def is_ok_transpose sessions_ok_def
          join_host_def Let_def split: option.split)
    then show thesis using that by (auto simp: is_ok_iff)
  qed
  then show "r = Inr ()" "w_db w' = w_db w"
    using assms(2) by (auto simp: first_child_phase_def stop_planner_def send_new_def command_def
        split: if_splits option.splits)
qed

lemma get_board_item_id: "get_board_item cx d i = Inr (Some b) \<Longrightarrow> bi_id b = i"
  using get_board_item_Some by (fastforce simp: BoardItem_try_from_def and_then_eq_Inr)

text \<open>
  A goal has the status of its most advanced child. When an event names a goal that exists and
  has no parent, handling it succeeds and leaves the goal with the highest rank among its children,
  todo when it has none, whatever its status was before, and even when the planner session has to be
  stopped first; no other card changes.
\<close>

theorem goal_follows_its_children:
  assumes "codec_ok (en_cx en)" and "sessions_ok (en_cx en) (w_db w)"
    and "extract_parent_goal_id (en_cx en) (w_db w) ev = Inr (Some g)"
    and "get_board_item (en_cx en) (w_db w) g = Inr (Some goal)" and "bi_parent_goal_id goal = None"
    and "handle_board_event en ev stopped w = (stopped', w', r)"
  shows "r = Inr () \<and> (\<exists>goal'. get_board_item (en_cx en) (w_db w') g = Inr (Some goal') \<and>
      status_rank (bi_status goal') =
        (let ranks = (\<lambda>b. child_rank (br_status b)) ` {b \<in> set (db_board_items (w_db w)). br_parent_goal_id b = Some g}
         in if ranks = {} then 0 else Max ranks)) \<and>
    filter (\<lambda>b. br_id b \<noteq> g) (db_board_items (w_db w')) = filter (\<lambda>b. br_id b \<noteq> g) (db_board_items (w_db w))"
proof -
  have id: "bi_id goal = g" using get_board_item_id [OF assms(4)] .
  obtain st w1 r1 where f: "first_child_phase en ev g stopped w = (st, w1, r1)" by (metis prod_cases3)
  note e = first_child_phase_effect [OF assms(2) f]
  have h: "recompute_goal en goal w1 = (w', r)"
    using assms(3-6) id f e(1) by (simp add: handle_board_event_def handle_goal_def)
  have "get_board_item (en_cx en) (w_db w1) g = Inr (Some goal)" using assms(4) e(2) by simp
  from recompute_goal_effect [OF assms(1) this id h] show ?thesis
    by (simp only: e(2) child_ranks_def Let_def)
qed

text \<open>The sample goal is card 1, its only child is in progress.\<close>

definition sample_goal_world :: world where
  "sample_goal_world =
     (sample_world [])\<lparr>w_db := initial_db\<lparr>db_board_items :=
        [(board_row_of sample_codec 3 1 sample_card)\<lparr>br_lbl := Some ''goal''\<rparr>,
         (board_row_of sample_codec 3 2 sample_card)\<lparr>br_status := ''doing'', br_parent_goal_id := Some 1\<rparr>]\<rparr>\<rparr>"

definition sample_board_event :: event where
  "sample_board_event = with_payload (JObj [(''id'', JInt 2), (''parent_goal_id'', JInt 1)]) (Event_new 0 ''board.created'')"

lemma sample_goal:
  "\<exists>goal. get_board_item sample_codec (w_db sample_goal_world) 1 = Inr (Some goal) \<and> bi_parent_goal_id goal = None \<and>
     bi_lbl goal = Some ''goal''"
  by (simp add: get_board_item_def sample_goal_world_def sql_find_def BoardItem_try_from_def board_row_of_def
      sample_card_def)

theorem goal_follows_its_children_witness:
  "\<exists>goal'. get_board_item sample_codec (w_db (fst (snd (handle_board_event (as_en sample_app) sample_board_event {}
       sample_goal_world)))) 1 = Inr (Some goal') \<and> status_rank (bi_status goal') = 1"
proof -
  obtain goal where g: "get_board_item sample_codec (w_db sample_goal_world) 1 = Inr (Some goal)"
    "bi_parent_goal_id goal = None" using sample_goal by blast
  have cx: "en_cx (as_en sample_app) = sample_codec" by (simp add: sample_app_def)
  have x: "extract_parent_goal_id sample_codec (w_db sample_goal_world) sample_board_event = Inr (Some 1)"
    by (simp add: extract_parent_goal_id_def sample_board_event_def with_payload_def)
  have s: "sessions_ok sample_codec (w_db sample_goal_world)"
    by (simp add: sample_goal_world_def sessions_ok_def sessions_unique_def unique_on_def initial_db_def)
  obtain st w' r where h: "handle_board_event (as_en sample_app) sample_board_event {} sample_goal_world = (st, w', r)"
    by (metis prod_cases3)
  have "{b \<in> set (db_board_items (w_db sample_goal_world)). br_parent_goal_id b = Some 1} =
      {(board_row_of sample_codec 3 2 sample_card)\<lparr>br_status := ''doing'', br_parent_goal_id := Some 1\<rparr>}"
    by (auto simp: sample_goal_world_def board_row_of_def sample_card_def)
  then show ?thesis
    using goal_follows_its_children [of "as_en sample_app" sample_goal_world sample_board_event 1 goal "{}" st w' r]
      cx x s g h by (auto simp: child_rank_def Let_def)
qed

section \<open>Comments are not repeated\<close>

text \<open>
  A run of the bridge among the other tasks; \<open>posts\<close> are the comments it has written, as the session
  and the kind of the event.
\<close>

inductive bridged :: "environment \<Rightarrow> (uuid \<times> string) list \<Rightarrow> (uuid \<rightharpoonup> string) \<Rightarrow> world \<Rightarrow> bool" for en where
  start: "bridged en [] (\<lambda>_. None) w"
| event: "bridged en posts last_kind w \<Longrightarrow> comment_bridge_step en ev (last_kind, w) = (last_kind', w') \<Longrightarrow>
     bridged en
       (if db_board_comments (w_db w') = db_board_comments (w_db w) then posts
        else posts @ [(the (ev_session_id ev), the (bridge_kind (ev_kind ev)))]) last_kind' w'"
| others: "bridged en posts last_kind w \<Longrightarrow> bridged en posts last_kind w'"

definition posts_of :: "uuid \<Rightarrow> (uuid \<times> string) list \<Rightarrow> string list" where
  "posts_of i posts = map snd (filter (\<lambda>p. fst p = i) posts)"

lemma post_comment_posts:
  assumes "get_board_item (en_cx en) (w_db w) c = Inr (Some item)"
  shows "\<exists>n. db_board_comments (w_db (fst (post_comment en ev kind c w))) =
    db_board_comments (w_db w) @
      [\<lparr>bcr_id = n, bcr_board_id = c, bcr_author = ''system'', bcr_body = comment_body kind (ev_payload ev),
        bcr_created_at = cx_fmt_ts (en_cx en) (en_clock en (w_ticks w))\<rparr>]"
proof -
  have "trim ''system'' \<noteq> []" by code_simp
  then show ?thesis
    using assms by (auto simp: post_comment_def create_board_comment_def Let_def)
qed

lemma bridge_card_Some:
  assumes "bridge_card cx d i = Inr (Some c)"
  shows "\<exists>s item. get_session_by_id cx d i = Inr (Some s) \<and> s_card_id s = Some c \<and>
    get_board_item cx d c = Inr (Some item) \<and> bi_lbl item \<noteq> Some ''goal''"
  using assms by (auto simp: bridge_card_def split: sum.splits option.splits if_splits)

lemma bridge_step_cases:
  assumes "comment_bridge_step en ev (last_kind, w) = (last_kind', w')"
  obtains "last_kind' = last_kind" "w' = w"
  | i kind c s item row where "ev_session_id ev = Some i" "bridge_kind (ev_kind ev) = Some kind"
      "last_kind i \<noteq> Some kind" "last_kind' = last_kind(i \<mapsto> kind)"
      "get_session_by_id (en_cx en) (w_db w) i = Inr (Some s)" "s_card_id s = Some c"
      "get_board_item (en_cx en) (w_db w) c = Inr (Some item)" "bi_lbl item \<noteq> Some ''goal''"
      "db_board_comments (w_db w') = db_board_comments (w_db w) @ [row]"
      "bcr_board_id row = c" "bcr_author row = ''system''" "bcr_body row = comment_body kind (ev_payload ev)"
proof (cases "bridge_kind (ev_kind ev)")
  case None
  then show thesis using assms that(1) by (simp add: comment_bridge_step_def)
next
  case (Some kind)
  note k = this
  show thesis
  proof (cases "\<exists>i c. ev_session_id ev = Some i \<and> bridge_card (en_cx en) (w_db w) i = Inr (Some c) \<and>
      last_kind i \<noteq> Some kind")
    case False
    then have "last_kind' = last_kind \<and> w' = w"
      using assms k by (auto simp: comment_bridge_step_def handle_session_event_def
          split: option.splits sum.splits if_splits)
    then show thesis using that(1) by simp
  next
    case True
    then obtain i c where i: "ev_session_id ev = Some i" "bridge_card (en_cx en) (w_db w) i = Inr (Some c)"
      "last_kind i \<noteq> Some kind" by blast
    obtain s item where b: "get_session_by_id (en_cx en) (w_db w) i = Inr (Some s)" "s_card_id s = Some c"
      "get_board_item (en_cx en) (w_db w) c = Inr (Some item)" "bi_lbl item \<noteq> Some ''goal''"
      using bridge_card_Some [OF i(2)] by blast
    have e: "last_kind' = last_kind(i \<mapsto> kind)" "w' = fst (post_comment en ev kind c w)"
      using assms k i by (auto simp: comment_bridge_step_def handle_session_event_def split: prod.splits)
    obtain n where "db_board_comments (w_db w') = db_board_comments (w_db w) @
        [\<lparr>bcr_id = n, bcr_board_id = c, bcr_author = ''system'', bcr_body = comment_body kind (ev_payload ev),
          bcr_created_at = cx_fmt_ts (en_cx en) (en_clock en (w_ticks w))\<rparr>]"
      using post_comment_posts [OF b(3)] e(2) by blast
    then show thesis using that(2) [OF i(1) k i(3) e(1) b] by fastforce
  qed
qed

lemma bridged_posts:
  assumes "bridged en posts last_kind w"
  shows "distinct_adj (posts_of i posts) \<and>
    last_kind i = (if posts_of i posts = [] then None else Some (last (posts_of i posts)))"
  using assms
proof (induction arbitrary: i rule: bridged.induct)
  case (start w)
  then show ?case by (simp add: posts_of_def)
next
  case (event posts last_kind w ev last_kind' w')
  from event.hyps(2) show ?case
  proof (cases rule: bridge_step_cases)
    case 1
    then show ?thesis using event.IH by simp
  next
    case (2 j kind c s item row)
    let ?posts = "posts @ [(j, kind)]"
    have p: "(if db_board_comments (w_db w') = db_board_comments (w_db w) then posts
        else posts @ [(the (ev_session_id ev), the (bridge_kind (ev_kind ev)))]) = ?posts"
      using 2 by simp
    show ?thesis
    proof (cases "i = j")
      case True
      have "posts_of j ?posts = posts_of j posts @ [kind]" by (simp add: posts_of_def)
      moreover have "posts_of j posts \<noteq> [] \<Longrightarrow> last (posts_of j posts) \<noteq> kind"
        using event.IH [of j] 2(3) by auto
      ultimately show ?thesis
        unfolding p True using event.IH [of j] 2(4) by (auto simp: distinct_adj_append_iff)
    next
      case False
      then have "posts_of i ?posts = posts_of i posts" by (simp add: posts_of_def)
      then show ?thesis unfolding p using event.IH [of i] 2(4) False by simp
    qed
  qed
next
  case (others posts last_kind w w')
  then show ?case by blast
qed

text \<open>
  The comment bridge neither repeats itself nor writes on goals. Whatever the other tasks do, the
  comments it wrote for a session never have the same kind twice in a row; and an event either
  changes no comment or appends exactly one, by the system, with the body of its kind, on the card
  the session is bound to, which is not a goal, and whose session last got a comment of another kind.
\<close>

theorem bridge_never_repeats:
  assumes "bridged en posts last_kind w" and "comment_bridge_step en ev (last_kind, w) = (last_kind', w')"
  shows "distinct_adj (posts_of i posts) \<and>
    (db_board_comments (w_db w') = db_board_comments (w_db w) \<or>
     (\<exists>j kind s c item row. ev_session_id ev = Some j \<and> bridge_kind (ev_kind ev) = Some kind \<and>
        \<not> (posts_of j posts \<noteq> [] \<and> last (posts_of j posts) = kind) \<and>
        get_session_by_id (en_cx en) (w_db w) j = Inr (Some s) \<and> s_card_id s = Some c \<and>
        get_board_item (en_cx en) (w_db w) c = Inr (Some item) \<and> bi_lbl item \<noteq> Some ''goal'' \<and>
        db_board_comments (w_db w') = db_board_comments (w_db w) @ [row] \<and> bcr_board_id row = c \<and>
        bcr_author row = ''system'' \<and> bcr_body row = comment_body kind (ev_payload ev)))"
  using assms(2)
proof (cases rule: bridge_step_cases)
  case 1
  then show ?thesis using bridged_posts [OF assms(1)] by simp
next
  case (2 j kind c s item row)
  moreover have "\<not> (posts_of j posts \<noteq> [] \<and> last (posts_of j posts) = kind)"
    using bridged_posts [OF assms(1), of j] 2(3) by auto
  ultimately show ?thesis using bridged_posts [OF assms(1), of i] by blast
qed

definition sample_bridge_world :: world where
  "sample_bridge_world =
     sample_goal_world\<lparr>w_db := (w_db sample_goal_world)\<lparr>db_sessions :=
       [(session_row_of sample_codec 5 ''u1'' Status_Running (Some ''t'') None (sample_terminal []))
          \<lparr>sr_card_id := Some 2\<rparr>]\<rparr>\<rparr>"

lemma sample_bridge_card: "bridge_card sample_codec (w_db sample_bridge_world) ''u1'' = Inr (Some 2)"
proof -
  have "get_board_item sample_codec (w_db sample_bridge_world) 2 =
      and_then (BoardItem_try_from sample_codec
        ((board_row_of sample_codec 3 2 sample_card)\<lparr>br_status := ''doing'', br_parent_goal_id := Some 1\<rparr>)) (\<lambda>b. Inr (Some b))"
    by (simp add: sample_bridge_world_def sample_goal_world_def get_board_item_def sql_find_def board_row_of_def
        BoardItem_try_from_def)
  moreover have "\<exists>s. get_session_by_id sample_codec (w_db sample_bridge_world) ''u1'' = Inr (Some s) \<and> s_card_id s = Some 2"
    by (simp add: get_session_Inr sample_bridge_world_def sample_goal_world_def sql_find_def session_row_of_def
        Status_from_str_def lift_core_def join_host_def Let_def Session_try_from_def and_then_eq_Inr sample_terminal_def)
  ultimately show ?thesis
    by (auto simp: bridge_card_def BoardItem_try_from_def board_row_of_def sample_card_def)
qed

theorem bridge_never_repeats_witness:
  "\<exists>row. db_board_comments (w_db (snd (comment_bridge_step (as_en sample_app)
       (with_session ''u1'' ''a'' (Event_new 0 ''agent.finished'')) ((\<lambda>_. None), sample_bridge_world)))) = [row] \<and>
     bcr_author row = ''system''"
proof -
  let ?ev = "with_session ''u1'' ''a'' (Event_new 0 ''agent.finished'')"
  obtain l w' where s: "comment_bridge_step (as_en sample_app) ?ev ((\<lambda>_. None), sample_bridge_world) = (l, w')"
    by fastforce
  have cx: "en_cx (as_en sample_app) = sample_codec" by (simp add: sample_app_def)
  have none: "db_board_comments (w_db sample_bridge_world) = []"
    by (simp add: sample_bridge_world_def sample_goal_world_def initial_db_def)
  have "l ''u1'' = Some ''finished''"
    using s sample_bridge_card
    by (auto simp: comment_bridge_step_def bridge_kind_def handle_session_event_def with_session_def Event_new_def cx
        split: prod.splits)
  moreover have "db_board_comments (w_db w') \<noteq> []"
    using s by (rule bridge_step_cases) (use calculation none in auto)
  ultimately show ?thesis
    using bridge_never_repeats [OF bridged.start s] none s by auto
qed

end
