(* ===== verification/Harness_Core.thy ===== *)
theory Harness_Core
  imports Session_Lifecycle
begin

text \<open>
  \<open>crates/agentum-server/src/harness.rs\<close>, the pure part: features and run knobs, the phases of a
  spec-driven run and how they are recovered from the decision log, the decisions of the gates, the
  derivation of backlogs, the prompts, and the wait for an agent to settle as a function of what
  arrives on the bus. The JSON reader and printer of \<open>feature_list.json\<close> and of the verdict files and
  the role briefs (embedded Markdown) are parameters. Counters are 32-bit words, durations seconds.
\<close>

section \<open>Features and knobs\<close>

datatype feature_state =
    FeatureState_Pending | FeatureState_Coding | FeatureState_Verifying | FeatureState_ReadyToTest
  | FeatureState_AwaitingConfirm | FeatureState_Done | FeatureState_Blocked

record feature =
  ft_id :: string
  ft_name :: string
  ft_description :: string
  ft_state :: feature_state
  ft_attempts :: "32 word"
  ft_last_error :: "string option"
  ft_prompt :: "string option"
  ft_tracker_provider :: "string option"
  ft_tracker_url :: "string option"

datatype qa_mode = QaMode_Auto | QaMode_Script | QaMode_Agent

record feature_list =
  fl_features :: "feature list"
  fl_max_retries :: "32 word"
  fl_agent_tool :: string
  fl_agent_model :: "string option"
  fl_settle_grace_secs :: nat
  fl_settle_timeout_secs :: nat
  fl_agent_yolo :: bool
  fl_hitl_at_qa :: bool
  fl_qa_mode :: qa_mode
  fl_qa_agent_tool :: "string option"
  fl_spec_id :: "string option"
  fl_roles :: bool
  fl_hitl_on_block :: bool

definition FeatureList_default :: feature_list where
  "FeatureList_default =
     \<lparr>fl_features = [], fl_max_retries = 3, fl_agent_tool = ''claude'', fl_agent_model = None,
      fl_settle_grace_secs = 8, fl_settle_timeout_secs = 1800, fl_agent_yolo = True,
      fl_hitl_at_qa = False, fl_qa_mode = QaMode_Auto, fl_qa_agent_tool = None, fl_spec_id = None,
      fl_roles = False, fl_hitl_on_block = False\<rparr>"

definition copy_knobs_from :: "feature_list \<Rightarrow> feature_list \<Rightarrow> feature_list" where
  "copy_knobs_from self src =
     self\<lparr>fl_max_retries := fl_max_retries src, fl_agent_tool := fl_agent_tool src,
          fl_agent_model := fl_agent_model src, fl_settle_grace_secs := fl_settle_grace_secs src,
          fl_settle_timeout_secs := fl_settle_timeout_secs src, fl_agent_yolo := fl_agent_yolo src,
          fl_hitl_at_qa := fl_hitl_at_qa src, fl_qa_mode := fl_qa_mode src,
          fl_qa_agent_tool := fl_qa_agent_tool src, fl_spec_id := fl_spec_id src,
          fl_roles := fl_roles src, fl_hitl_on_block := fl_hitl_on_block src\<rparr>"

datatype harness_state =
    HarnessState_Idle | HarnessState_InitVerifying | HarnessState_Running | HarnessState_Verifying
  | HarnessState_AwaitingConfirmation | HarnessState_Blocked | HarnessState_Done | HarnessState_Failed

section \<open>Phases and roles\<close>

datatype spec_phase =
    SpecPhase_Authoring | SpecPhase_Architecture | SpecPhase_Decompose | SpecPhase_Executing
  | SpecPhase_Review | SpecPhase_Done | SpecPhase_Blocked | SpecPhase_AwaitingConfirm

datatype role_kind = RoleKind_Pm | RoleKind_Architect | RoleKind_Reviewer

fun phase_role :: "spec_phase \<Rightarrow> role_kind option" where
  "phase_role SpecPhase_Authoring = Some RoleKind_Pm"
| "phase_role SpecPhase_Architecture = Some RoleKind_Architect"
| "phase_role SpecPhase_Review = Some RoleKind_Reviewer"
| "phase_role _ = None"

fun phase_advance :: "spec_phase \<Rightarrow> spec_phase" where
  "phase_advance SpecPhase_Authoring = SpecPhase_Architecture"
| "phase_advance SpecPhase_Architecture = SpecPhase_Decompose"
| "phase_advance SpecPhase_Decompose = SpecPhase_Executing"
| "phase_advance SpecPhase_Executing = SpecPhase_Review"
| "phase_advance SpecPhase_Review = SpecPhase_Done"
| "phase_advance other = other"

fun phase_slug :: "spec_phase \<Rightarrow> string" where
  "phase_slug SpecPhase_Authoring = ''authoring''"
| "phase_slug SpecPhase_Architecture = ''architecture''"
| "phase_slug SpecPhase_Decompose = ''decompose''"
| "phase_slug SpecPhase_Executing = ''executing''"
| "phase_slug SpecPhase_Review = ''review''"
| "phase_slug SpecPhase_Done = ''done''"
| "phase_slug SpecPhase_Blocked = ''blocked''"
| "phase_slug SpecPhase_AwaitingConfirm = ''awaiting_confirm''"

definition phase_from_slug :: "string \<Rightarrow> spec_phase option" where
  "phase_from_slug slug =
     (if slug = ''authoring'' then Some SpecPhase_Authoring
      else if slug = ''architecture'' then Some SpecPhase_Architecture
      else if slug = ''decompose'' then Some SpecPhase_Decompose
      else if slug = ''executing'' then Some SpecPhase_Executing
      else if slug = ''review'' then Some SpecPhase_Review
      else if slug = ''done'' then Some SpecPhase_Done
      else if slug = ''blocked'' then Some SpecPhase_Blocked
      else if slug = ''awaiting_confirm'' then Some SpecPhase_AwaitingConfirm
      else None)"

text \<open>The first word of a text (\<open>split_whitespace().next()\<close>).\<close>

definition first_word :: "string \<Rightarrow> string option" where
  "first_word s = (case until_space (trim_start s) of [] \<Rightarrow> None | w \<Rightarrow> Some w)"

definition phase_marker :: string where
  "phase_marker = ''phase: entered ''"

definition phase_of_line :: "string \<Rightarrow> spec_phase option" where
  "phase_of_line line =
     Option.bind (find_str phase_marker line) (\<lambda>idx.
     Option.bind (first_word (drop (idx + length phase_marker) line)) phase_from_slug)"

fun find_map :: "('a \<Rightarrow> 'b option) \<Rightarrow> 'a list \<Rightarrow> 'b option" where
  "find_map f [] = None"
| "find_map f (x # xs) = (case f x of Some y \<Rightarrow> Some y | None \<Rightarrow> find_map f xs)"

definition rebuild_phase_from_decisions :: "string \<Rightarrow> spec_phase option" where
  "rebuild_phase_from_decisions decisions_md = find_map phase_of_line (rev (str_lines decisions_md))"

fun role_as_str :: "role_kind \<Rightarrow> string" where
  "role_as_str RoleKind_Pm = ''pm''"
| "role_as_str RoleKind_Architect = ''architect''"
| "role_as_str RoleKind_Reviewer = ''reviewer''"

datatype gate_decision =
    GateDecision_Advance | GateDecision_Retry | GateDecision_Block | GateDecision_AwaitConfirm

definition decide_gate :: "bool \<Rightarrow> 32 word \<Rightarrow> 32 word \<Rightarrow> bool \<Rightarrow> gate_decision" where
  "decide_gate passed attempt max_retries hitl_on_block =
     (if passed then GateDecision_Advance
      else if max_retries < attempt
      then (if hitl_on_block then GateDecision_AwaitConfirm else GateDecision_Block)
      else GateDecision_Retry)"

text \<open>The line \<open>append_decision\<close> adds to the log, and the entry of a change of phase.\<close>

definition decision_line :: "string \<Rightarrow> string" where
  "decision_line entry = ''- '' @ trim entry @ [CHR 0x0A]"

definition phase_entry :: "spec_phase \<Rightarrow> spec_phase \<Rightarrow> string" where
  "phase_entry dest source = ''phase: entered '' @ phase_slug dest @ '' (from '' @ phase_slug source @ '')''"

section \<open>Backlogs\<close>

definition new_feature :: "string \<Rightarrow> string \<Rightarrow> string \<Rightarrow> feature_state \<Rightarrow> feature" where
  "new_feature i name description st =
     \<lparr>ft_id = i, ft_name = name, ft_description = description, ft_state = st, ft_attempts = 0,
      ft_last_error = None, ft_prompt = None, ft_tracker_provider = None, ft_tracker_url = None\<rparr>"

text \<open>A checkbox line: whether it is checked, and its text.\<close>

definition checkbox :: "string \<Rightarrow> (bool \<times> string) option" where
  "checkbox line =
     (let t = trim_start line
      in case strip_prefix ''- [ ] '' t of
           Some r \<Rightarrow> Some (False, r)
         | None \<Rightarrow>
             (case (case strip_prefix ''- [x] '' t of Some r \<Rightarrow> Some r | None \<Rightarrow> strip_prefix ''- [X] '' t) of
                Some r \<Rightarrow> Some (True, r)
              | None \<Rightarrow> None))"

definition backlog_line :: "feature list \<Rightarrow> string \<Rightarrow> feature list" where
  "backlog_line features line =
     (case checkbox line of
        None \<Rightarrow> features
      | Some (checked, rest) \<Rightarrow>
          (let name = trim rest
           in if name = [] then features
              else features @
                [new_feature (''F'' @ string_of_nat (length features + 1)) name []
                   (if checked then FeatureState_Done else FeatureState_Pending)]))"

definition derive_backlog_from_spec :: "string \<Rightarrow> feature_list" where
  "derive_backlog_from_spec spec_md =
     FeatureList_default\<lparr>fl_features := foldl backlog_line [] (str_lines spec_md)\<rparr>"

record backlog_feature =
  bf_id :: string
  bf_name :: string
  bf_description :: string
  bf_provider :: "string option"
  bf_url :: "string option"

definition feature_of_backlog :: "backlog_feature \<Rightarrow> feature" where
  "feature_of_backlog bf =
     (new_feature (trim (bf_id bf)) (trim (bf_name bf)) (trim (bf_description bf)) FeatureState_Pending)
       \<lparr>ft_tracker_provider := bf_provider bf, ft_tracker_url := bf_url bf\<rparr>"

text \<open>The loop over the features, with the ids it has seen.\<close>

fun collect_backlog :: "string set \<Rightarrow> backlog_feature list \<Rightarrow> string + feature list" where
  "collect_backlog seen [] = Inr []"
| "collect_backlog seen (bf # bfs) =
     (let i = trim (bf_id bf)
      in if i = [] then Inl ''feature id must not be empty''
         else if i \<in> seen then Inl (''duplicate feature id: '' @ i)
         else and_then (collect_backlog (insert i seen) bfs) (\<lambda>fs. Inr (feature_of_backlog bf # fs)))"

definition backlog_from_features :: "backlog_feature list \<Rightarrow> string + feature_list" where
  "backlog_from_features bfs =
     (if bfs = [] then Inl ''no features to write to the harness backlog''
      else and_then (collect_backlog {} bfs) (\<lambda>fs. Inr (FeatureList_default\<lparr>fl_features := fs\<rparr>)))"

section \<open>Texts\<close>

definition ellipsis :: string where
  "ellipsis = [CHR 0xE2, CHR 0x80, CHR 0xA6]"

definition newline :: string where
  "newline = [CHR 0x0A]"

definition em_dash :: string where
  "em_dash = [CHR 0xE2, CHR 0x80, CHR 0x94]"

definition tail_text :: "string \<Rightarrow> nat \<Rightarrow> string" where
  "tail_text s limit =
     (if length s \<le> limit then s
      else ellipsis @ newline @ dropWhile is_continuation (drop (length s - limit) s))"

definition sanitize :: "string \<Rightarrow> string" where
  "sanitize s =
     map (\<lambda>c. if is_ascii_alphanumeric c then c else CHR ''-'') (filter (\<lambda>c. \<not> is_continuation c) s)"

definition nl2 :: string where
  "nl2 = newline @ newline"

definition build_feature_prompt :: "string \<Rightarrow> feature \<Rightarrow> string" where
  "build_feature_prompt instructions f =
     (case ft_prompt f of
        Some p \<Rightarrow> p
      | None \<Rightarrow>
          ''You are an agent running inside the Agentum Harness Engine.'' @ nl2 @
          ''=== HARNESS INSTRUCTIONS (AGENTS.md) ==='' @ newline @ trim instructions @ nl2 @
          ''=== YOUR CURRENT TASK '' @ em_dash @ '' EXACTLY ONE FEATURE ==='' @ newline @
          ''Feature: '' @ ft_name f @ newline @ ''ID: '' @ ft_id f @ newline @ ft_description f @ nl2 @
          ''Work ONLY on this feature. When you believe it is complete, stop and '' @
          ''wait. The harness will then run the verification gate (verify.sh). If '' @
          ''verification fails you will be given the error output and must fix it.'')"

definition build_role_prompt :: "(role_kind \<Rightarrow> string) \<Rightarrow> role_kind \<Rightarrow> string \<Rightarrow> string \<Rightarrow> string \<Rightarrow> string \<Rightarrow> string" where
  "build_role_prompt brief role instructions spec_id spec_md verdict =
     trim (brief role) @ nl2 @
     ''=== HARNESS INSTRUCTIONS (AGENTS.md) ==='' @ newline @ trim instructions @ nl2 @
     ''=== SPEC UNDER REVIEW: '' @ spec_id @ '' ==='' @ newline @ trim spec_md @ nl2 @
     ''=== HOW TO RECORD YOUR VERDICT ==='' @ newline @
     ''When finished, WRITE your verdict to `'' @ verdict @ ''` (relative to the project '' @
     ''root) as exactly this JSON:'' @ newline @
     ''{\"passed\": true|false, \"summary\": \"one line on what passed or the single most important gap\"}'' @ newline @
     ''Set passed=false if the gate does not pass. Do not stop until the file is '' @
     ''written. Do not ask the human anything.''"

definition build_qa_prompt :: "string \<Rightarrow> feature \<Rightarrow> string \<Rightarrow> string" where
  "build_qa_prompt instructions f verdict =
     ''You are the QA agent in the Agentum Harness Engine. The implementation of '' @
     ''ONE feature just passed its unit-test gate; your job is to verify it in a '' @
     ''REAL browser and record a verdict.'' @ nl2 @
     ''=== HARNESS INSTRUCTIONS (AGENTS.md) ==='' @ newline @ trim instructions @ nl2 @
     ''=== FEATURE UNDER TEST ==='' @ newline @
     ''Feature: '' @ ft_name f @ newline @ ''ID: '' @ ft_id f @ newline @ ft_description f @ nl2 @
     ''=== WHAT TO DO ==='' @ newline @
     ''1. Use the `browser-verification-loop` skill (Chrome/Playwright MCP) to QA '' @
     ''this feature against the running app. Capture a screenshot per check as evidence.'' @ newline @
     ''2. When finished, WRITE your verdict to `'' @ verdict @ ''` (relative to the project '' @
     ''root) as exactly this JSON:'' @ newline @
     ''{\"passed\": true|false, \"summary\": \"one line on what you verified or why it failed\"}'' @ newline @
     ''Set passed=false if ANY check fails or you cannot verify. Do not stop until '' @
     ''the file is written.''"

section \<open>Waiting for an agent\<close>

datatype bus_item = Bus_Event event | Bus_Lagged | Bus_Closed

text \<open>
  \<open>wait_for_settle\<close>: \<open>items\<close> are what the receiver gets, each with the time since the start at which it
  arrives; the result is the time since the start at which the wait returns. \<open>t\<close> is the time at the
  head of the loop, \<open>early\<close> says that the agent went idle inside the grace window.
\<close>

fun settle_loop :: "nat \<Rightarrow> nat \<Rightarrow> uuid \<Rightarrow> bool \<Rightarrow> nat \<Rightarrow> (nat \<times> bus_item) list \<Rightarrow> nat" where
  "settle_loop grace timeout i early t [] =
     (if early \<and> grace \<le> t then t
      else if timeout < t then t
      else if early then min grace timeout else timeout)"
| "settle_loop grace timeout i early t ((a, item) # items) =
     (if early \<and> grace \<le> t then t
      else if timeout < t then t
      else
        let deadline = (if early then min grace timeout else timeout)
        in if deadline < a then deadline
           else
             let t' = max t a
             in case item of
                  Bus_Lagged \<Rightarrow> settle_loop grace timeout i early t' items
                | Bus_Closed \<Rightarrow> t'
                | Bus_Event ev \<Rightarrow>
                    if ev_session_id ev \<noteq> Some i then settle_loop grace timeout i early t' items
                    else if ev_kind ev = ''agent.awaiting_input'' \<or> ev_kind ev = ''agent.finished''
                    then (if grace \<le> t' then t' else settle_loop grace timeout i True t' items)
                    else if ev_kind ev = ''session.crashed'' \<or> ev_kind ev = ''session.stopped'' then t'
                    else settle_loop grace timeout i early t' items)"

definition wait_for_settle :: "nat \<Rightarrow> nat \<Rightarrow> uuid \<Rightarrow> (nat \<times> bus_item) list \<Rightarrow> nat" where
  "wait_for_settle grace timeout i items = settle_loop grace timeout i False 0 items"

section \<open>Waiting is bounded\<close>

text \<open>What ends the wait at once: the session died, or the bus is closed.\<close>

definition ends_wait :: "uuid \<Rightarrow> bus_item \<Rightarrow> bool" where
  "ends_wait i item =
     (case item of
        Bus_Closed \<Rightarrow> True
      | Bus_Lagged \<Rightarrow> False
      | Bus_Event ev \<Rightarrow> ev_session_id ev = Some i \<and> ev_kind ev \<in> {''session.crashed'', ''session.stopped''})"

lemma settle_loop_le: "t \<le> timeout \<Longrightarrow> settle_loop grace timeout i early t items \<le> timeout"
  by (induction grace timeout i early t items rule: settle_loop.induct)
    (auto simp: Let_def split: bus_item.split)

lemma settle_loop_ge:
  assumes "\<And>a item. (a, item) \<in> set items \<Longrightarrow> \<not> ends_wait i item" and "t \<le> timeout"
  shows "min grace timeout \<le> settle_loop grace timeout i early t items"
  using assms
proof (induction items arbitrary: t early)
  case (Cons x items)
  obtain a item where x: "x = (a, item)" by fastforce
  have item: "\<not> ends_wait i item" using Cons.prems(1) x by auto
  have IH: "min grace timeout \<le> settle_loop grace timeout i e (max t a) items" if "a \<le> timeout" for e
    using Cons.IH [of "max t a" e] Cons.prems that by auto
  show ?case
  proof (cases "early \<and> grace \<le> t \<or> (if early then min grace timeout else timeout) < a")
    case True
    then show ?thesis using Cons.prems(2) by (auto simp: x Let_def)
  next
    case False
    then have "a \<le> timeout" by (auto split: if_splits)
    then show ?thesis
      using False IH [OF \<open>a \<le> timeout\<close>] item Cons.prems(2)
      by (cases item) (auto simp: x Let_def ends_wait_def)
  qed
qed auto

text \<open>An idle signal after the grace period ends the wait at its arrival.\<close>

definition settles :: "uuid \<Rightarrow> bus_item \<Rightarrow> bool" where
  "settles i item =
     (\<exists>ev. item = Bus_Event ev \<and> ev_session_id ev = Some i \<and>
        ev_kind ev \<in> {''agent.awaiting_input'', ''agent.finished''})"

lemma settle_early: "t \<le> grace \<Longrightarrow> settle_loop grace timeout i True t items \<le> grace"
proof (induction items arbitrary: t)
  case (Cons x items)
  obtain a item where x: "x = (a, item)" by fastforce
  have "settle_loop grace timeout i True (max t a) items \<le> grace" if "a \<le> grace"
    using Cons that by simp
  then show ?case
    using Cons.prems by (cases item) (auto simp: x Let_def)
qed auto

lemma settle_loop_le_signal:
  assumes "(a, item) \<in> set items" and "settles i item \<or> ends_wait i item" and "sorted (map fst items)" and "t \<le> a"
  shows "settle_loop grace timeout i early t items \<le> max grace a"
  using assms
proof (induction items arbitrary: t early)
  case (Cons x items)
  obtain b it where x: "x = (b, it)" by fastforce
  have b: "b \<le> a" using Cons.prems(1,3) x by force
  have sorted: "sorted (map fst items)" using Cons.prems(3) x by simp
  let ?t = "max t b"
  have t: "?t \<le> a" using b Cons.prems(4) by simp
  have tail: "settle_loop grace timeout i e ?t items \<le> max grace a" if "(a, item) \<in> set items" for e
    using Cons.IH [OF that assms(2) sorted t] .
  have early: "?t < grace \<Longrightarrow> settle_loop grace timeout i True ?t items \<le> max grace a"
    using settle_early [of ?t grace timeout i items] by (simp add: max_def)
  show ?case
  proof (cases "(a, item) \<in> set items")
    case True
    then show ?thesis
      using tail [OF True] early t Cons.prems(4) b by (cases it) (auto simp: x Let_def)
  next
    case False
    then have "b = a" "it = item" using Cons.prems(1) x by auto
    then show ?thesis
      using early t Cons.prems(2,4)
      by (cases item) (auto simp: x Let_def settles_def ends_wait_def)
  qed
qed simp

text \<open>
  Waiting for an agent is bounded and answers its signals. The wait ends by the timeout; unless
  the session dies or the bus closes it lasts for the grace period; and the first sign that the agent
  is idle, or that its session ended, ends it at once, or at the end of the grace period if it came
  before that.
\<close>

theorem settling_is_bounded:
  "wait_for_settle grace timeout i items \<le> timeout \<and>
   ((\<forall>(a, item) \<in> set items. \<not> ends_wait i item) \<longrightarrow> min grace timeout \<le> wait_for_settle grace timeout i items) \<and>
   (sorted (map fst items) \<longrightarrow> (\<forall>(a, item) \<in> set items. settles i item \<or> ends_wait i item \<longrightarrow>
      wait_for_settle grace timeout i items \<le> max grace a))"
proof -
  have "wait_for_settle grace timeout i items \<le> timeout"
    unfolding wait_for_settle_def by (rule settle_loop_le) simp
  moreover have "min grace timeout \<le> wait_for_settle grace timeout i items"
    if "\<forall>(a, item) \<in> set items. \<not> ends_wait i item"
    unfolding wait_for_settle_def using that by (intro settle_loop_ge) auto
  moreover have "wait_for_settle grace timeout i items \<le> max grace a"
    if "sorted (map fst items)" "(a, item) \<in> set items" "settles i item \<or> ends_wait i item" for a item
    unfolding wait_for_settle_def using that by (intro settle_loop_le_signal) auto
  ultimately show ?thesis by blast
qed

theorem settling_is_bounded_witness:
  "wait_for_settle 8 1800 ''u1'' [(2, Bus_Event (with_session ''u1'' ''a'' (Event_new 0 ''agent.finished'')))] = 8"
proof -
  let ?items = "[(2 :: nat, Bus_Event (with_session ''u1'' ''a'' (Event_new 0 ''agent.finished'')))]"
  have "\<not> ends_wait ''u1'' (snd (hd ?items))" "settles ''u1'' (snd (hd ?items))"
    by (simp_all add: ends_wait_def settles_def with_session_def Event_new_def)
  then show ?thesis
    using settling_is_bounded [of 8 1800 "''u1''" ?items] by simp
qed

section \<open>The decision log\<close>

lemma find_map_Some: "f x = Some y \<Longrightarrow> find_map f (x # xs) = Some y"
  by simp

interpretation phase_codec: text_codec phase_slug phase_from_slug
proof
  fix x show "phase_from_slug (phase_slug x) = Some x" by (cases x) (simp_all add: phase_from_slug_def)
next
  fix s x assume "phase_from_slug s = Some x"
  then show "phase_slug x = s" by (auto simp: phase_from_slug_def split: if_splits)
qed

lemma strip_none: "strip_one_of ws s = None \<Longrightarrow> strip_all_of ws s = s"
  by (subst strip_all_of.simps) simp

lemma trim_plain:
  assumes "strip_one_of ws_encodings s = None" and "strip_one_of (map rev ws_encodings) (rev s) = None"
  shows "trim s = s"
  using assms by (simp add: trim_def trim_start_def trim_end_def strip_none)

lemma trim_phase_entry: "trim (phase_entry a b) = phase_entry a b"
  by (rule trim_plain) (simp_all add: phase_entry_def ws_encodings_def)

lemma slug_first_word: "first_word (phase_slug a @ '' '' @ rest) = Some (phase_slug a)"
  by (cases a) (simp_all add: first_word_def trim_start_def strip_none ws_encodings_def)

lemma phase_of_entry: "phase_of_line (''- '' @ phase_entry a b) = Some a"
proof -
  have f: "find_str phase_marker (''- '' @ phase_entry a b) = Some 2"
    by (simp add: phase_entry_def phase_marker_def starts_with_def numeral_2_eq_2)
  have d: "drop (2 + length phase_marker) (''- '' @ phase_entry a b) = phase_slug a @ '' '' @ ''(from '' @ phase_slug b @ '')''"
    by (simp add: phase_entry_def phase_marker_def)
  show ?thesis
    unfolding phase_of_line_def f Option.bind.simps d slug_first_word by (simp add: phase_codec.dec_enc)
qed

lemma slug_plain: "CHR 0x0A \<notin> set (phase_slug a)" "CHR 0x0D \<notin> set (phase_slug a)"
  by (cases a; simp)+

lemma lines_of_entry: "str_lines (decision_line (phase_entry a b)) = [''- '' @ phase_entry a b]"
proof -
  have n: "CHR 0x0A \<notin> set (''- '' @ phase_entry a b)" using slug_plain by (simp add: phase_entry_def)
  have "split_on (CHR 0x0A) (decision_line (phase_entry a b)) = [''- '' @ phase_entry a b, []]"
    using split_on_append [of "CHR 0x0A" "''- '' @ phase_entry a b" "[]"] split_on_absent [OF n]
    by (simp add: decision_line_def trim_phase_entry)
  moreover have "strip_cr (''- '' @ phase_entry a b) = ''- '' @ phase_entry a b"
    by (simp add: strip_cr_def phase_entry_def)
  ultimately show ?thesis by (simp add: str_lines_def Let_def)
qed

text \<open>
  The phase of a run survives a restart. Whatever the decision log held, as long as its lines
  are complete, after the entry of a change of phase the log is read back as the phase entered.
\<close>

theorem phase_is_recovered_from_the_log:
  assumes "terminated log"
  shows "rebuild_phase_from_decisions (log @ decision_line (phase_entry dest source)) = Some dest"
  using phase_of_entry [of dest source]
  by (simp add: rebuild_phase_from_decisions_def str_lines_append [OF assms] lines_of_entry)

theorem phase_is_recovered_from_the_log_witness:
  "rebuild_phase_from_decisions (decision_line (phase_entry SpecPhase_Review SpecPhase_Executing)) =
     Some SpecPhase_Review"
  using phase_is_recovered_from_the_log [of "[]"] by (simp add: terminated_def)

section \<open>Backlogs have usable ids\<close>

text \<open>What \<open>HarnessConfig::load\<close> demands of a backlog.\<close>

definition usable_backlog :: "feature_list \<Rightarrow> bool" where
  "usable_backlog fl \<longleftrightarrow> fl_features fl \<noteq> [] \<and> distinct (map ft_id (fl_features fl))"

lemma backlog_lines_ids:
  "map ft_id (foldl backlog_line fs ls) = map ft_id fs @
     map (\<lambda>n. ''F'' @ string_of_nat n) [length fs + 1 ..< length (foldl backlog_line fs ls) + 1] \<and>
   length fs \<le> length (foldl backlog_line fs ls)"
proof (induction ls arbitrary: fs)
  case (Cons l ls)
  have s: "backlog_line fs l = fs \<or> (\<exists>f. backlog_line fs l = fs @ [f] \<and> ft_id f = ''F'' @ string_of_nat (length fs + 1))"
    by (auto simp: backlog_line_def new_feature_def Let_def split: option.split)
  then show ?case
  proof
    assume "backlog_line fs l = fs"
    then show ?thesis using Cons.IH [of fs] by simp
  next
    assume "\<exists>f. backlog_line fs l = fs @ [f] \<and> ft_id f = ''F'' @ string_of_nat (length fs + 1)"
    then obtain f where f: "backlog_line fs l = fs @ [f]" "ft_id f = ''F'' @ string_of_nat (length fs + 1)" by blast
    let ?n = "length (foldl backlog_line (fs @ [f]) ls)"
    have IH: "map ft_id (foldl backlog_line (fs @ [f]) ls) = map ft_id (fs @ [f]) @
        map (\<lambda>n. ''F'' @ string_of_nat n) [length (fs @ [f]) + 1 ..< ?n + 1] \<and> length (fs @ [f]) \<le> ?n"
      using Cons.IH [of "fs @ [f]"] by simp
    then have "length fs + 1 < ?n + 1" by simp
    then have "[length fs + 1 ..< ?n + 1] = (length fs + 1) # [length fs + 2 ..< ?n + 1]"
      by (subst upt_rec) simp
    then show ?thesis using IH f by simp
  qed
qed simp

lemma derived_ids_distinct: "distinct (map ft_id (fl_features (derive_backlog_from_spec md)))"
  using backlog_lines_ids [of "[]" "str_lines md"]
  by (simp add: derive_backlog_from_spec_def distinct_map inj_on_def)

lemma collect_backlog_ids:
  "collect_backlog seen bfs = Inr fs \<Longrightarrow>
     map ft_id fs = map (\<lambda>b. trim (bf_id b)) bfs \<and> distinct (map ft_id fs) \<and> set (map ft_id fs) \<inter> seen = {} \<and>
     (\<forall>f \<in> set fs. ft_id f \<noteq> [] \<and> ft_state f = FeatureState_Pending)"
proof (induction seen bfs arbitrary: fs rule: collect_backlog.induct)
  case (2 seen bf bfs)
  let ?i = "trim (bf_id bf)"
  from "2.prems" obtain fs' where f: "?i \<noteq> []" "?i \<notin> seen" "collect_backlog (insert ?i seen) bfs = Inr fs'"
    "fs = feature_of_backlog bf # fs'"
    by (auto simp: Let_def and_then_eq_Inr split: if_splits)
  have IH: "map ft_id fs' = map (\<lambda>b. trim (bf_id b)) bfs" "distinct (map ft_id fs')"
    "set (map ft_id fs') \<inter> insert ?i seen = {}" "\<forall>f \<in> set fs'. ft_id f \<noteq> [] \<and> ft_state f = FeatureState_Pending"
    using "2.IH" [OF HOL.refl f(1,2,3)] by blast+
  then show ?case using f by (auto simp: feature_of_backlog_def new_feature_def)
qed simp

lemma collect_backlog_fails:
  "collect_backlog seen bfs = Inl e \<Longrightarrow>
     (\<exists>b \<in> set bfs. trim (bf_id b) = []) \<or> (\<exists>b \<in> set bfs. trim (bf_id b) \<in> seen) \<or>
     \<not> distinct (map (\<lambda>b. trim (bf_id b)) bfs)"
proof (induction seen bfs arbitrary: e rule: collect_backlog.induct)
  case (2 seen bf bfs)
  let ?i = "trim (bf_id bf)"
  show ?case
  proof (cases "?i = [] \<or> ?i \<in> seen")
    case True
    then show ?thesis by auto
  next
    case False
    with "2.prems" have "\<exists>e. collect_backlog (insert ?i seen) bfs = Inl e"
      by (auto simp: Let_def and_then_def split: sum.splits)
    then obtain e' where "collect_backlog (insert ?i seen) bfs = Inl e'" by blast
    note IH = "2.IH" [OF HOL.refl _ _ this]
    have "(\<exists>b\<in>set bfs. trim (bf_id b) = []) \<or> (\<exists>b\<in>set bfs. trim (bf_id b) \<in> insert ?i seen) \<or>
        \<not> distinct (map (\<lambda>b. trim (bf_id b)) bfs)"
      by (rule IH) (use False in simp_all)
    moreover have "\<not> distinct (?i # map (\<lambda>b. trim (bf_id b)) bfs)" if "b \<in> set bfs" "trim (bf_id b) = ?i" for b
    proof -
      have "?i \<in> (\<lambda>b. trim (bf_id b)) ` set bfs" using that by (metis imageI)
      then show ?thesis by simp
    qed
    ultimately show ?thesis by auto
  qed
qed simp

text \<open>
  Backlogs that agentum writes can be driven. A backlog derived from a specification numbers its
  features \<open>F1\<close>, \<open>F2\<close> and so on without repeating an id; a backlog from tracker features is written
  exactly when there is a feature and the trimmed ids are present and distinct, and then every feature
  is pending under its own id, in the given order.
\<close>

theorem written_backlogs_are_usable:
  "map ft_id (fl_features (derive_backlog_from_spec md)) =
     map (\<lambda>n. ''F'' @ string_of_nat n) [1 ..< length (fl_features (derive_backlog_from_spec md)) + 1] \<and>
   distinct (map ft_id (fl_features (derive_backlog_from_spec md))) \<and>
   (is_ok (backlog_from_features bfs) \<longleftrightarrow> bfs \<noteq> [] \<and> (\<forall>b \<in> set bfs. trim (bf_id b) \<noteq> []) \<and>
      distinct (map (\<lambda>b. trim (bf_id b)) bfs)) \<and>
   (\<forall>fl. backlog_from_features bfs = Inr fl \<longrightarrow> usable_backlog fl \<and>
      map ft_id (fl_features fl) = map (\<lambda>b. trim (bf_id b)) bfs \<and>
      (\<forall>f \<in> set (fl_features fl). ft_state f = FeatureState_Pending))"
proof -
  have d: "map ft_id (fl_features (derive_backlog_from_spec md)) =
     map (\<lambda>n. ''F'' @ string_of_nat n) [1 ..< length (fl_features (derive_backlog_from_spec md)) + 1]"
    using backlog_lines_ids [of "[]" "str_lines md"] by (simp add: derive_backlog_from_spec_def)
  have ok: "usable_backlog fl \<and> map ft_id (fl_features fl) = map (\<lambda>b. trim (bf_id b)) bfs \<and>
      (\<forall>f \<in> set (fl_features fl). ft_state f = FeatureState_Pending \<and> ft_id f \<noteq> []) \<and> bfs \<noteq> []"
    if "backlog_from_features bfs = Inr fl" for fl
  proof -
    from that obtain fs where "bfs \<noteq> []" "collect_backlog {} bfs = Inr fs" "fl = FeatureList_default\<lparr>fl_features := fs\<rparr>"
      by (auto simp: backlog_from_features_def and_then_eq_Inr split: if_splits)
    with collect_backlog_ids [OF this(2)] show ?thesis by (auto simp: usable_backlog_def)
  qed
  have "is_ok (backlog_from_features bfs) \<longleftrightarrow> bfs \<noteq> [] \<and> (\<forall>b \<in> set bfs. trim (bf_id b) \<noteq> []) \<and>
      distinct (map (\<lambda>b. trim (bf_id b)) bfs)"
  proof (cases "backlog_from_features bfs")
    case (Inr fl)
    note o = ok [OF Inr]
    then have "distinct (map (\<lambda>b. trim (bf_id b)) bfs)" by (metis usable_backlog_def)
    moreover have "\<forall>b \<in> set bfs. trim (bf_id b) \<noteq> []"
    proof
      fix b assume "b \<in> set bfs"
      then have "trim (bf_id b) \<in> set (map ft_id (fl_features fl))" using o by simp
      then obtain f where "f \<in> set (fl_features fl)" "trim (bf_id b) = ft_id f" by auto
      then show "trim (bf_id b) \<noteq> []" using o by simp
    qed
    ultimately show ?thesis using o Inr by simp
  next
    case (Inl e)
    then have "bfs = [] \<or> (\<exists>e. collect_backlog {} bfs = Inl e)"
      by (auto simp: backlog_from_features_def and_then_def split: if_splits sum.splits)
    then show ?thesis using Inl collect_backlog_fails [of "{}" bfs] by auto
  qed
  with d ok derived_ids_distinct show ?thesis by blast
qed

theorem written_backlogs_are_usable_witness:
  "usable_backlog (FeatureList_default\<lparr>fl_features := [feature_of_backlog
     \<lparr>bf_id = ''AG-1'', bf_name = ''n'', bf_description = [], bf_provider = None, bf_url = None\<rparr>]\<rparr>)"
proof -
  let ?b = "\<lparr>bf_id = ''AG-1'', bf_name = ''n'', bf_description = [], bf_provider = None, bf_url = None\<rparr>"
  have "trim ''AG-1'' = ''AG-1''" by code_simp
  then have "backlog_from_features [?b] = Inr (FeatureList_default\<lparr>fl_features := [feature_of_backlog ?b]\<rparr>)"
    by (simp add: backlog_from_features_def)
  with written_backlogs_are_usable [of "[]" "[?b]"] show ?thesis by blast
qed

end
