(* ===== verification/Task_Sink.thy ===== *)
theory Task_Sink
  imports Store_Board
begin

text \<open>
  \<open>crates/agentum-server/src/task_sink.rs\<close>: where the features of a goal are created and how their
  tickets follow the harness. The internal board is the modelled store; what the \<open>gh\<close> process and the
  Linear client answer are arguments. \<open>dbg\<close> is the \<open>Debug\<close> rendering of a string.
\<close>

record sink_feature =
  sf_title :: string
  sf_body :: "string option"

record feature_ref =
  fr_provider :: string
  fr_id :: string
  fr_url :: "string option"

datatype task_sink = TaskSink_Board | TaskSink_Github | TaskSink_Linear

fun sink_provider :: "task_sink \<Rightarrow> string" where
  "sink_provider TaskSink_Board = ''board''"
| "sink_provider TaskSink_Github = ''github''"
| "sink_provider TaskSink_Linear = ''linear''"

definition pick_provider :: "bool \<Rightarrow> bool \<Rightarrow> task_sink" where
  "pick_provider github_available linear_available =
     (if github_available then TaskSink_Github
      else if linear_available then TaskSink_Linear else TaskSink_Board)"

text \<open>\<open>override\<close> is the variable \<open>AGENTUM_TASK_SINK\<close>.\<close>

definition select_sink :: "string option \<Rightarrow> bool \<Rightarrow> bool \<Rightarrow> task_sink" where
  "select_sink override github_ready linear_available =
     (if override = Some ''board'' then TaskSink_Board
      else if override = Some ''github'' then TaskSink_Github
      else if override = Some ''linear'' then TaskSink_Linear
      else pick_provider github_ready linear_available)"

definition feature_card :: "int option \<Rightarrow> sink_feature \<Rightarrow> new_board_item" where
  "feature_card parent_goal_id f =
     \<lparr>nb_title = sf_title f, nb_body = sf_body f, nb_status = Some ''todo'', nb_lbl = Some ''feat'',
      nb_tool = None, nb_workdir = None, nb_model = None, nb_session_id = None, nb_priority = None,
      nb_parent_goal_id = parent_goal_id\<rparr>"

definition gh_create_argv :: "string \<Rightarrow> string \<Rightarrow> string list" where
  "gh_create_argv title body = [''issue'', ''create'', ''--title'', title, ''--body'', body]"

definition parse_gh_issue_url :: "string \<Rightarrow> string + feature_ref" where
  "parse_gh_issue_url stdout =
     (case find (\<lambda>l. str_contains l ''/issues/'') (rev (map trim (str_lines stdout))) of
        None \<Rightarrow> Inl (''gh issue create produced no issue URL:'' @ [CHR 0x0A] @ stdout)
      | Some url \<Rightarrow>
          (case find (\<lambda>s. s \<noteq> []) (rev (split_on (CHR ''/'') url)) of
             None \<Rightarrow> Inl (''could not parse issue number from '' @ url)
           | Some number \<Rightarrow> Inr \<lparr>fr_provider = ''github'', fr_id = number, fr_url = Some url\<rparr>))"

text \<open>
  \<open>gh\<close> is the outcome of the process: it could not be run, it failed with a message, or its output.
\<close>

datatype gh_outcome = Gh_NotRun string | Gh_Failed string | Gh_Output string

definition github_result :: "gh_outcome \<Rightarrow> string + feature_ref" where
  "github_result gh =
     (case gh of
        Gh_NotRun e \<Rightarrow> Inl (''failed to run `gh`: '' @ e)
      | Gh_Failed stderr \<Rightarrow> Inl (''gh issue create failed: '' @ trim stderr)
      | Gh_Output stdout \<Rightarrow> parse_gh_issue_url stdout)"

definition create_feature ::
    "codec \<Rightarrow> time \<Rightarrow> (store_error \<Rightarrow> string) \<Rightarrow> (string list \<Rightarrow> gh_outcome) \<Rightarrow>
     (string \<Rightarrow> string \<Rightarrow> string + string \<times> string option) \<Rightarrow> task_sink \<Rightarrow> int option \<Rightarrow> sink_feature \<Rightarrow> db \<Rightarrow>
     db \<times> (string + feature_ref)" where
  "create_feature cx now show_error gh linear sink parent_goal_id f d =
     (case sink of
        TaskSink_Board \<Rightarrow>
          (case create_board_item cx now d (feature_card parent_goal_id f) of
             (d', Inl e) \<Rightarrow> (d', Inl (show_error e))
           | (d', Inr item) \<Rightarrow> (d', Inr \<lparr>fr_provider = sink_provider sink, fr_id = bi_key item, fr_url = None\<rparr>))
      | TaskSink_Github \<Rightarrow>
          (d, github_result (gh (gh_create_argv (sf_title f) (case sf_body f of Some b \<Rightarrow> b | None \<Rightarrow> []))))
      | TaskSink_Linear \<Rightarrow>
          (d, and_then (linear (sf_title f) (case sf_body f of Some b \<Rightarrow> b | None \<Rightarrow> []))
                (\<lambda>(i, url). Inr \<lparr>fr_provider = sink_provider sink, fr_id = i, fr_url = url\<rparr>)))"

section \<open>Tickets follow the harness\<close>

datatype tracker_phase =
    TrackerPhase_Todo | TrackerPhase_InProgress | TrackerPhase_ReadyToTest | TrackerPhase_Done

datatype transition_result = TransitionResult_Applied | TransitionResult_Skipped string

fun board_status_for :: "tracker_phase \<Rightarrow> string" where
  "board_status_for TrackerPhase_Todo = ''todo''"
| "board_status_for TrackerPhase_InProgress = ''doing''"
| "board_status_for TrackerPhase_ReadyToTest = ''review''"
| "board_status_for TrackerPhase_Done = ''done''"

definition board_transition ::
    "codec \<Rightarrow> time \<Rightarrow> (store_error \<Rightarrow> string) \<Rightarrow> string \<Rightarrow> tracker_phase \<Rightarrow> db \<Rightarrow> db \<times> (string + transition_result)" where
  "board_transition cx now show_error tracker_id phase d =
     (case list_board_items cx d of
        Inl e \<Rightarrow> (d, Inl (show_error e))
      | Inr items \<Rightarrow>
          (case find (\<lambda>i. bi_key i = tracker_id) items of
             None \<Rightarrow> (d, Inr (TransitionResult_Skipped (''no board card with key '' @ tracker_id)))
           | Some item \<Rightarrow>
               (case patch_board_item cx now d (bi_id item)
                       (BoardPatch_default\<lparr>bp_status := Some (board_status_for phase)\<rparr>) of
                  (d', Inl e) \<Rightarrow> (d', Inl (show_error e))
                | (d', Inr _) \<Rightarrow> (d', Inr TransitionResult_Applied))))"

definition apply_tracker_transition ::
    "codec \<Rightarrow> time \<Rightarrow> (store_error \<Rightarrow> string) \<Rightarrow> (string \<Rightarrow> string) \<Rightarrow>
     (string \<Rightarrow> tracker_phase \<Rightarrow> string + transition_result) \<Rightarrow> string \<Rightarrow> string \<Rightarrow> tracker_phase \<Rightarrow> db \<Rightarrow>
     db \<times> (string + transition_result)" where
  "apply_tracker_transition cx now show_error dbg linear provider tracker_id phase d =
     (if provider = ''linear'' then (d, linear tracker_id phase)
      else if provider = ''board'' then board_transition cx now show_error tracker_id phase d
      else if provider = ''github''
      then (d, Inr (TransitionResult_Skipped ''github issue state sync not implemented''))
      else (d, Inr (TransitionResult_Skipped (''unknown tracker provider '' @ dbg provider))))"

text \<open>A ticket in review ranks as todo in the query that computes the status of its goal.\<close>

lemma review_ranks_as_todo: "child_rank (board_status_for TrackerPhase_ReadyToTest) = child_rank ''todo''"
  by (simp add: child_rank_def)

end
