(* ===== verification/Harness_Engine.thy ===== *)
theory Harness_Engine
  imports Harness_Core Task_Sink
begin

text \<open>
  \<open>crates/agentum-server/src/harness.rs\<close>, the engine: its runs, its event bus and the files of a
  project, and the operations on them. Files are a map from paths to contents. Everything that runs
  outside the engine (a gate script, an agent at work) leaves other files, another world and fewer
  registered runs behind: what it leaves is an answer of the environment \<open>henv\<close>. A write can fail with
  the text the environment gives. An error is the text of the \<open>anyhow\<close> error.
\<close>

section \<open>State\<close>

datatype harness_event =
    HarnessEvent_StateChanged uuid harness_state
  | HarnessEvent_FeatureStateChanged uuid string feature_state
  | HarnessEvent_InitStarted uuid
  | HarnessEvent_InitCompleted uuid bool string
  | HarnessEvent_AgentSpawned uuid string uuid
  | HarnessEvent_Log uuid "string option" string
  | HarnessEvent_VerifyStarted uuid string
  | HarnessEvent_VerifyCompleted uuid string bool string
  | HarnessEvent_HandoffWritten uuid string
  | HarnessEvent_HarnessCompleted uuid bool
  | HarnessEvent_PhaseChanged uuid spec_phase spec_phase
  | HarnessEvent_GateResult uuid role_kind bool "32 word" string
  | HarnessEvent_Error uuid string

record harness_run =
  hr_workdir :: string
  hr_state :: harness_state
  hr_features :: feature_list
  hr_current_feature :: "string option"
  hr_current_session :: "uuid option"
  hr_agent_instructions :: string
  hr_driving :: bool
  hr_phase :: spec_phase
  hr_phase_attempts :: "32 word"

record hworld =
  hw_runs :: "uuid \<rightharpoonup> harness_run"
  hw_events :: "harness_event list"
  hw_files :: "string \<rightharpoonup> string"
  hw_dirs :: "string \<Rightarrow> bool"
  hw_world :: world
  hw_ticks :: nat

record henv =
  he_app :: app_state
  he_uuid :: "nat \<Rightarrow> uuid"
  he_script :: "nat \<Rightarrow> string list \<Rightarrow> string + bool \<times> string"
  he_write_error :: "nat \<Rightarrow> string \<Rightarrow> string option"
  he_files :: "nat \<Rightarrow> string \<rightharpoonup> string"
  he_dirs :: "nat \<Rightarrow> string \<Rightarrow> bool"
  he_world :: "nat \<Rightarrow> world"
  he_live :: "nat \<Rightarrow> uuid \<Rightarrow> bool"
  he_items :: "nat \<Rightarrow> (nat \<times> bus_item) list"
  he_linear :: "nat \<Rightarrow> string \<Rightarrow> tracker_phase \<Rightarrow> string + transition_result"
  he_print :: "feature_list \<Rightarrow> string"
  he_parse :: "string \<Rightarrow> string + feature_list"
  he_parse_verdict :: "string \<Rightarrow> string + bool \<times> string option"
  he_brief :: "role_kind \<Rightarrow> string"
  he_read_error :: "string \<Rightarrow> string"
  he_show_api :: "api_error \<Rightarrow> string"
  he_show_store :: "store_error \<Rightarrow> string"
  he_debug :: "string \<Rightarrow> string"
  he_show_state :: "feature_state \<Rightarrow> string"
  he_lowercase :: "string \<Rightarrow> string"
  he_browser_verify :: bool

type_synonym 'a hact = "hworld \<Rightarrow> hworld \<times> (string + 'a)"

definition hret :: "'a \<Rightarrow> 'a hact" where
  "hret x w = (w, Inr x)"

definition bail :: "string \<Rightarrow> 'a hact" where
  "bail e w = (w, Inl e)"

definition hbind :: "'a hact \<Rightarrow> ('a \<Rightarrow> 'b hact) \<Rightarrow> 'b hact" where
  "hbind m f w = (case m w of (w', Inl e) \<Rightarrow> (w', Inl e) | (w', Inr x) \<Rightarrow> f x w')"

definition hthen :: "'a hact \<Rightarrow> 'b hact \<Rightarrow> 'b hact" where
  "hthen m n = hbind m (\<lambda>_. n)"

text \<open>A result that is looked at, and one that is dropped.\<close>

definition htry :: "'a hact \<Rightarrow> (string + 'a) hact" where
  "htry m w = (case m w of (w', r) \<Rightarrow> (w', Inr r))"

definition hdrop :: "'a hact \<Rightarrow> unit hact" where
  "hdrop m = hbind (htry m) (\<lambda>_. hret ())"

definition hlift :: "string + 'a \<Rightarrow> 'a hact" where
  "hlift r w = (w, r)"

definition hwhen :: "bool \<Rightarrow> unit hact \<Rightarrow> unit hact" where
  "hwhen b m = (if b then m else hret ())"

definition hget :: "(hworld \<Rightarrow> 'a) \<Rightarrow> 'a hact" where
  "hget f w = (w, Inr (f w))"

definition tick :: "hworld \<Rightarrow> hworld" where
  "tick w = w\<lparr>hw_ticks := Suc (hw_ticks w)\<rparr>"

lemma htry_fst_snd: "htry m w = (fst (m w), Inr (snd (m w)))"
  by (simp add: htry_def split: prod.splits)

section \<open>Files\<close>

definition read_file :: "henv \<Rightarrow> string \<Rightarrow> string hact" where
  "read_file en p w =
     (w, case hw_files w p of Some c \<Rightarrow> Inr c | None \<Rightarrow> Inl (he_read_error en p))"

definition path_there :: "string \<Rightarrow> hworld \<Rightarrow> bool" where
  "path_there p w = (hw_files w p \<noteq> None \<or> hw_dirs w p)"

definition write_file :: "henv \<Rightarrow> string \<Rightarrow> string \<Rightarrow> unit hact" where
  "write_file en p c w =
     (case he_write_error en (hw_ticks w) p of
        Some e \<Rightarrow> (tick w, Inl e)
      | None \<Rightarrow> (tick (w\<lparr>hw_files := (hw_files w)(p \<mapsto> c)\<rparr>), Inr ()))"

definition create_dir_all :: "henv \<Rightarrow> string \<Rightarrow> unit hact" where
  "create_dir_all en p w =
     (case he_write_error en (hw_ticks w) p of
        Some e \<Rightarrow> (tick w, Inl e)
      | None \<Rightarrow> (tick (w\<lparr>hw_dirs := (hw_dirs w)(p := True)\<rparr>), Inr ()))"

definition append_file :: "henv \<Rightarrow> string \<Rightarrow> string \<Rightarrow> unit hact" where
  "append_file en p c w =
     write_file en p ((case hw_files w p of None \<Rightarrow> [] | Some old \<Rightarrow> old) @ c) w"

definition remove_file :: "string \<Rightarrow> unit hact" where
  "remove_file p w = (w\<lparr>hw_files := (hw_files w)(p := None)\<rparr>, Inr ())"

definition HARNESS_DIR :: string where "HARNESS_DIR = ''.agentum-harness''"
definition LEGACY_HARNESS_DIR :: string where "LEGACY_HARNESS_DIR = ''.harness''"

definition resolve_harness_dir :: "(string \<Rightarrow> bool) \<Rightarrow> string \<Rightarrow> string" where
  "resolve_harness_dir is_dir workdir =
     (if is_dir (path_join workdir HARNESS_DIR) then path_join workdir HARNESS_DIR
      else if is_dir (path_join workdir LEGACY_HARNESS_DIR) then path_join workdir LEGACY_HARNESS_DIR
      else path_join workdir HARNESS_DIR)"

section \<open>Configuration\<close>

record harness_config =
  hc_workdir :: string
  hc_dir :: string
  hc_agent_instructions :: string
  hc_features :: feature_list
  hc_init_script :: "string option"
  hc_verify_script :: "string option"
  hc_qa_script :: "string option"

text \<open>The checks on the loaded backlog: a feature, and no id twice.\<close>

fun first_duplicate :: "string set \<Rightarrow> feature list \<Rightarrow> string option" where
  "first_duplicate seen [] = None"
| "first_duplicate seen (f # fs) =
     (if ft_id f \<in> seen then Some (ft_id f) else first_duplicate (insert (ft_id f) seen) fs)"

definition check_backlog :: "feature_list \<Rightarrow> string + feature_list" where
  "check_backlog fl =
     (if fl_features fl = [] then Inl ''feature_list.json has no features''
      else case first_duplicate {} (fl_features fl) of
        Some i \<Rightarrow> Inl (''duplicate feature id in feature_list.json: '' @ i)
      | None \<Rightarrow> Inr fl)"

definition parse_backlog :: "henv \<Rightarrow> string \<Rightarrow> string + feature_list" where
  "parse_backlog en content =
     (case he_parse en content of
        Inl e \<Rightarrow> Inl (''feature_list.json is invalid: '' @ e)
      | Inr fl \<Rightarrow> check_backlog fl)"

definition script_at :: "hworld \<Rightarrow> string \<Rightarrow> string \<Rightarrow> string option" where
  "script_at w dir name = (let p = path_join dir name in if path_there p w then Some p else None)"

definition load_instructions :: "henv \<Rightarrow> string \<Rightarrow> string hact" where
  "load_instructions en dir w =
     (let p = path_join dir ''AGENTS.md'' in if path_there p w then read_file en p w else (w, Inr []))"

definition load_backlog :: "henv \<Rightarrow> string \<Rightarrow> feature_list hact" where
  "load_backlog en dir w =
     (let p = path_join dir ''feature_list.json''
      in if path_there p w then hbind (read_file en p) (\<lambda>c. hlift (parse_backlog en c)) w
         else (w, Inl (''no feature_list.json in '' @ dir)))"

definition load_config :: "henv \<Rightarrow> string \<Rightarrow> harness_config hact" where
  "load_config en workdir w =
     (let dir = resolve_harness_dir (hw_dirs w) workdir
      in if \<not> hw_dirs w dir
         then (w, Inl (''no '' @ HARNESS_DIR @ ''/ (or legacy '' @ LEGACY_HARNESS_DIR @
                       ''/) directory found in '' @ workdir))
         else hbind (load_instructions en dir) (\<lambda>instructions.
              hbind (load_backlog en dir) (\<lambda>fl.
              hget (\<lambda>w'. \<lparr>hc_workdir = workdir, hc_dir = dir, hc_agent_instructions = instructions,
                hc_features = fl, hc_init_script = script_at w' dir ''init.sh'',
                hc_verify_script = script_at w' dir ''verify.sh'',
                hc_qa_script = script_at w' dir ''qa.sh''\<rparr>))) w)"

definition save_features :: "henv \<Rightarrow> harness_config \<Rightarrow> feature_list \<Rightarrow> unit hact" where
  "save_features en cfg fl = write_file en (path_join (hc_dir cfg) ''feature_list.json'') (he_print en fl)"

definition handoff_text :: "henv \<Rightarrow> feature \<Rightarrow> string \<Rightarrow> string" where
  "handoff_text en f output =
     ''# Handoff '' @ em_dash @ '' '' @ ft_name f @ nl2 @
     ''- **Feature ID:** `'' @ ft_id f @ ''`'' @ newline @
     ''- **Status:** '' @ he_show_state en (ft_state f) @ newline @
     ''- **Attempts:** '' @ string_of_nat (unat (ft_attempts f)) @ nl2 @
     ''## What was verified'' @ nl2 @
     ''```'' @ newline @ trim output @ newline @ ''```'' @ nl2 @
     ''---'' @ newline @
     ''_Written by the Agentum Harness Engine after the verification gate passed._'' @ newline"

definition write_handoff :: "henv \<Rightarrow> harness_config \<Rightarrow> feature \<Rightarrow> string \<Rightarrow> unit hact" where
  "write_handoff en cfg f output = write_file en (path_join (hc_dir cfg) ''handoff.md'') (handoff_text en f output)"

definition append_decision :: "henv \<Rightarrow> string \<Rightarrow> string \<Rightarrow> unit hact" where
  "append_decision en workdir entry w =
     (let dir = resolve_harness_dir (hw_dirs w) workdir
      in hthen (create_dir_all en dir)
           (append_file en (path_join dir ''decisions.md'') (decision_line entry)) w)"

definition read_decisions :: "string \<Rightarrow> string hact" where
  "read_decisions workdir =
     hget (\<lambda>w. case hw_files w (path_join (resolve_harness_dir (hw_dirs w) workdir) ''decisions.md'') of
                 Some c \<Rightarrow> c | None \<Rightarrow> [])"

definition spec_path :: "string \<Rightarrow> string \<Rightarrow> string" where
  "spec_path dir spec_id = path_join (path_join (path_join dir ''specs'') spec_id) ''spec.md''"

definition write_backlog :: "henv \<Rightarrow> string \<Rightarrow> feature_list \<Rightarrow> feature_list hact" where
  "write_backlog en dir fl =
     hthen (create_dir_all en dir)
       (hthen (write_file en (path_join dir ''feature_list.json'') (he_print en fl)) (hret fl))"

definition plan_from_spec :: "henv \<Rightarrow> string \<Rightarrow> string \<Rightarrow> feature_list hact" where
  "plan_from_spec en workdir spec_id =
     (let dir = path_join workdir HARNESS_DIR; p = spec_path dir spec_id
      in hbind (hget (\<lambda>w. hw_files w p)) (\<lambda>content.
         case content of
           None \<Rightarrow> bail (''cannot read '' @ p @ '': '' @ he_read_error en p)
         | Some md \<Rightarrow>
             let fl = derive_backlog_from_spec md
             in if fl_features fl = []
                then bail (''no acceptance-criteria checkboxes (`- [ ]`) found in '' @ p)
                else write_backlog en dir fl))"

definition write_backlog_from_features :: "henv \<Rightarrow> string \<Rightarrow> backlog_feature list \<Rightarrow> feature_list hact" where
  "write_backlog_from_features en workdir bfs =
     hbind (hlift (backlog_from_features bfs)) (\<lambda>fl. write_backlog en (path_join workdir HARNESS_DIR) fl)"

record bootstrap_report =
  bs_harness_dir :: "string option"
  bs_agents_md :: bool
  bs_init_sh :: bool
  bs_verify_sh :: bool
  bs_backlog :: bool
  bs_ready :: bool

definition check_bootstrap :: "henv \<Rightarrow> string \<Rightarrow> hworld \<Rightarrow> bootstrap_report" where
  "check_bootstrap en workdir w =
     (let dir = resolve_harness_dir (hw_dirs w) workdir;
          is_file = (\<lambda>name. hw_files w (path_join dir name) \<noteq> None);
          backlog = (case hw_files w (path_join dir ''feature_list.json'') of
                       None \<Rightarrow> False
                     | Some c \<Rightarrow> (case he_parse en c of Inl _ \<Rightarrow> False | Inr fl \<Rightarrow> fl_features fl \<noteq> []))
      in if \<not> hw_dirs w dir
         then \<lparr>bs_harness_dir = None, bs_agents_md = False, bs_init_sh = False, bs_verify_sh = False,
               bs_backlog = False, bs_ready = False\<rparr>
         else \<lparr>bs_harness_dir = Some dir, bs_agents_md = is_file ''AGENTS.md'', bs_init_sh = is_file ''init.sh'',
               bs_verify_sh = is_file ''verify.sh'', bs_backlog = backlog,
               bs_ready = (is_file ''AGENTS.md'' \<and> is_file ''init.sh'' \<and> is_file ''verify.sh'' \<and> backlog)\<rparr>)"

section \<open>Runs\<close>

definition emit_h :: "harness_event \<Rightarrow> unit hact" where
  "emit_h ev w = (w\<lparr>hw_events := hw_events w @ [ev]\<rparr>, Inr ())"

definition log_h :: "uuid \<Rightarrow> string option \<Rightarrow> string \<Rightarrow> unit hact" where
  "log_h i fid message = emit_h (HarnessEvent_Log i fid message)"

definition not_found_text :: "uuid \<Rightarrow> string" where
  "not_found_text i = ''harness '' @ i @ '' not found''"

definition get_run :: "uuid \<Rightarrow> harness_run hact" where
  "get_run i w = (w, case hw_runs w i of Some r \<Rightarrow> Inr r | None \<Rightarrow> Inl (not_found_text i))"

definition modify_run :: "uuid \<Rightarrow> (harness_run \<Rightarrow> harness_run) \<Rightarrow> harness_run hact" where
  "modify_run i f w =
     (case hw_runs w i of
        None \<Rightarrow> (w, Inl (not_found_text i))
      | Some r \<Rightarrow> (w\<lparr>hw_runs := (hw_runs w)(i \<mapsto> f r)\<rparr>, Inr (f r)))"

text \<open>\<open>iter_mut().find\<close>: the first feature with the id.\<close>

fun update_feature :: "string \<Rightarrow> (feature \<Rightarrow> feature) \<Rightarrow> feature list \<Rightarrow> feature list" where
  "update_feature fid g [] = []"
| "update_feature fid g (f # fs) = (if ft_id f = fid then g f # fs else f # update_feature fid g fs)"

definition on_feature :: "string \<Rightarrow> (feature \<Rightarrow> feature) \<Rightarrow> harness_run \<Rightarrow> harness_run" where
  "on_feature fid g r =
     r\<lparr>hr_features := (hr_features r)\<lparr>fl_features := update_feature fid g (fl_features (hr_features r))\<rparr>\<rparr>"

definition find_feature :: "string \<Rightarrow> harness_run \<Rightarrow> feature option" where
  "find_feature fid r = find (\<lambda>f. ft_id f = fid) (fl_features (hr_features r))"

definition persist :: "henv \<Rightarrow> harness_run \<Rightarrow> unit hact" where
  "persist en r = hbind (load_config en (hr_workdir r)) (\<lambda>cfg. save_features en cfg (hr_features r))"

definition set_state :: "uuid \<Rightarrow> harness_state \<Rightarrow> unit hact" where
  "set_state i st = hthen (modify_run i (\<lambda>r. r\<lparr>hr_state := st\<rparr>)) (emit_h (HarnessEvent_StateChanged i st))"

definition set_feature_state :: "henv \<Rightarrow> uuid \<Rightarrow> string \<Rightarrow> feature_state \<Rightarrow> unit hact" where
  "set_feature_state en i fid st =
     hbind (modify_run i (on_feature fid (\<lambda>f. f\<lparr>ft_state := st\<rparr>))) (\<lambda>r.
     hthen (persist en r) (emit_h (HarnessEvent_FeatureStateChanged i fid st)))"

definition set_phase :: "henv \<Rightarrow> uuid \<Rightarrow> spec_phase \<Rightarrow> unit hact" where
  "set_phase en i dest =
     hbind (get_run i) (\<lambda>old.
     hthen (modify_run i (\<lambda>r. r\<lparr>hr_phase := dest, hr_phase_attempts := 0\<rparr>))
       (hthen (hwhen (hr_phase old \<noteq> dest) (hdrop (append_decision en (hr_workdir old) (phase_entry dest (hr_phase old)))))
          (emit_h (HarnessEvent_PhaseChanged i (hr_phase old) dest))))"

definition bump_phase_attempt :: "uuid \<Rightarrow> 32 word hact" where
  "bump_phase_attempt i =
     hbind (modify_run i (\<lambda>r. r\<lparr>hr_phase_attempts := hr_phase_attempts r + 1\<rparr>)) (\<lambda>r. hret (hr_phase_attempts r))"

definition reload_features :: "henv \<Rightarrow> uuid \<Rightarrow> unit hact" where
  "reload_features en i =
     hbind (get_run i) (\<lambda>r.
     hbind (load_config en (hr_workdir r)) (\<lambda>cfg.
     hthen (modify_run i (\<lambda>r. r\<lparr>hr_features := hc_features cfg\<rparr>)) (hret ())))"

text \<open>\<open>HarnessEngine::start\<close>.\<close>

definition start_run :: "henv \<Rightarrow> string \<Rightarrow> uuid hact" where
  "start_run en workdir =
     hbind (load_config en workdir) (\<lambda>cfg.
     hbind (hget (\<lambda>w. he_uuid en (hw_ticks w))) (\<lambda>i.
     hbind (read_decisions workdir) (\<lambda>log.
       let run = \<lparr>hr_workdir = workdir, hr_state = HarnessState_Idle, hr_features = hc_features cfg,
                  hr_current_feature = None, hr_current_session = None,
                  hr_agent_instructions = hc_agent_instructions cfg, hr_driving = False,
                  hr_phase = (case rebuild_phase_from_decisions log of Some p \<Rightarrow> p | None \<Rightarrow> SpecPhase_Executing),
                  hr_phase_attempts = 0\<rparr>
       in hthen (\<lambda>w. (tick (w\<lparr>hw_runs := (hw_runs w)(i \<mapsto> run)\<rparr>), Inr ()))
            (hthen (emit_h (HarnessEvent_StateChanged i HarnessState_Idle)) (hret i)))))"

definition claim_driver :: "uuid \<Rightarrow> bool hact" where
  "claim_driver i =
     hbind (get_run i) (\<lambda>r.
       if hr_driving r then hret False
       else hthen (modify_run i (\<lambda>r. r\<lparr>hr_driving := True\<rparr>)) (hret True))"

definition release_driver :: "uuid \<Rightarrow> unit hact" where
  "release_driver i = hdrop (modify_run i (\<lambda>r. r\<lparr>hr_driving := False\<rparr>))"

definition clear_current :: "uuid \<Rightarrow> unit hact" where
  "clear_current i = hdrop (modify_run i (\<lambda>r. r\<lparr>hr_current_feature := None, hr_current_session := None\<rparr>))"

definition stop_run :: "uuid \<Rightarrow> unit hact" where
  "stop_run i =
     hthen (\<lambda>w. (w\<lparr>hw_runs := (hw_runs w)(i := None)\<rparr>, Inr ())) (emit_h (HarnessEvent_HarnessCompleted i False))"

definition set_session :: "henv \<Rightarrow> uuid \<Rightarrow> uuid \<Rightarrow> string \<Rightarrow> unit hact" where
  "set_session en i sid fid =
     hthen (modify_run i (\<lambda>r. r\<lparr>hr_current_session := Some sid, hr_current_feature := Some fid\<rparr>))
       (hthen (set_feature_state en i fid FeatureState_Coding)
          (emit_h (HarnessEvent_AgentSpawned i fid sid)))"

definition next_pending_feature :: "uuid \<Rightarrow> feature option hact" where
  "next_pending_feature i =
     hbind (get_run i) (\<lambda>r. hret (find (\<lambda>f. ft_state f = FeatureState_Pending) (fl_features (hr_features r))))"

definition unblock :: "feature \<Rightarrow> feature" where
  "unblock f =
     (if ft_state f = FeatureState_Blocked
      then f\<lparr>ft_state := FeatureState_Pending, ft_attempts := 0, ft_last_error := None\<rparr> else f)"

fun emit_all :: "harness_event list \<Rightarrow> unit hact" where
  "emit_all [] = hret ()"
| "emit_all (e # es) = hthen (emit_h e) (emit_all es)"

definition reset_blocked_features :: "henv \<Rightarrow> uuid \<Rightarrow> nat hact" where
  "reset_blocked_features en i =
     hbind (get_run i) (\<lambda>old.
     hbind (modify_run i (\<lambda>r. r\<lparr>hr_features := (hr_features r)\<lparr>fl_features := map unblock (fl_features (hr_features r))\<rparr>\<rparr>)) (\<lambda>r.
       let ids = map ft_id (filter (\<lambda>f. ft_state f = FeatureState_Blocked) (fl_features (hr_features old)))
       in if ids = [] then hret 0
          else hthen (persist en r)
            (hthen (emit_all (map (\<lambda>fid. HarnessEvent_FeatureStateChanged i fid FeatureState_Pending) ids))
               (hret (length ids)))))"

section \<open>The gates of a feature\<close>

text \<open>What another process leaves behind; runs can only disappear.\<close>

definition outside :: "henv \<Rightarrow> hworld \<Rightarrow> hworld" where
  "outside en w =
     (let t = hw_ticks w
      in w\<lparr>hw_files := he_files en t, hw_dirs := he_dirs en t, hw_world := he_world en t,
           hw_runs := (\<lambda>i. if he_live en t i then hw_runs w i else None), hw_ticks := Suc t\<rparr>)"

definition run_script :: "henv \<Rightarrow> string list \<Rightarrow> (bool \<times> string) hact" where
  "run_script en argv w = (outside en w, he_script en (hw_ticks w) argv)"

definition run_init :: "henv \<Rightarrow> uuid \<Rightarrow> bool hact" where
  "run_init en i =
     hbind (get_run i) (\<lambda>r.
     hthen (set_state i HarnessState_InitVerifying)
     (hthen (emit_h (HarnessEvent_InitStarted i))
     (hbind (load_config en (hr_workdir r)) (\<lambda>cfg.
      hbind (case hc_init_script cfg of
               Some script \<Rightarrow> run_script en [''bash'', script]
             | None \<Rightarrow> hret (True, ''no init.sh '' @ em_dash @ '' skipping environment check'')) (\<lambda>(success, output).
      hthen (emit_h (HarnessEvent_InitCompleted i success output))
        (hthen (set_state i (if success then HarnessState_Idle else HarnessState_Failed)) (hret success)))))))"

definition verify_fallback :: "henv \<Rightarrow> (bool \<times> string) hact" where
  "verify_fallback en =
     hbind (htry (run_script en [''npm'', ''run'', ''verify''])) (\<lambda>r.
       hret (case r of
               Inr out \<Rightarrow> out
             | Inl _ \<Rightarrow> (True, ''no verify.sh and no `npm run verify` '' @ em_dash @ '' gate skipped'')))"

definition run_verify_once :: "henv \<Rightarrow> uuid \<Rightarrow> string \<Rightarrow> (bool \<times> string) hact" where
  "run_verify_once en i fid =
     hbind (get_run i) (\<lambda>r.
     hthen (set_feature_state en i fid FeatureState_Verifying)
     (hthen (set_state i HarnessState_Verifying)
     (hthen (emit_h (HarnessEvent_VerifyStarted i fid))
     (hbind (load_config en (hr_workdir r)) (\<lambda>cfg.
      hbind (case hc_verify_script cfg of
               Some script \<Rightarrow> run_script en [''bash'', script, ''HARNESS_FEATURE_ID='' @ fid]
             | None \<Rightarrow> verify_fallback en) (\<lambda>(success, output).
      hthen (emit_h (HarnessEvent_VerifyCompleted i fid success output)) (hret (success, output))))))))"

definition run_qa_once :: "henv \<Rightarrow> uuid \<Rightarrow> string \<Rightarrow> (bool \<times> string) hact" where
  "run_qa_once en i fid =
     hbind (get_run i) (\<lambda>r.
     hthen (set_feature_state en i fid FeatureState_ReadyToTest)
     (hthen (log_h i (Some fid) (''unit gate green '' @ em_dash @ '' running browser QA gate (qa.sh)''))
     (hbind (load_config en (hr_workdir r)) (\<lambda>cfg.
      case hc_qa_script cfg of
        Some script \<Rightarrow> run_script en [''bash'', script, ''HARNESS_FEATURE_ID='' @ fid]
      | None \<Rightarrow> hret (True, ''no qa.sh '' @ em_dash @ '' browser QA gate skipped (no web surface to verify)'')))))"

definition mark_feature_done :: "henv \<Rightarrow> uuid \<Rightarrow> string \<Rightarrow> string \<Rightarrow> unit hact" where
  "mark_feature_done en i fid output =
     hthen (set_feature_state en i fid FeatureState_Done)
       (hbind (get_run i) (\<lambda>r.
          case find_feature fid r of
            None \<Rightarrow> hret ()
          | Some f \<Rightarrow>
              hbind (load_config en (hr_workdir r)) (\<lambda>cfg.
              hthen (write_handoff en cfg f output) (emit_h (HarnessEvent_HandoffWritten i fid)))))"

definition hitl_at_qa :: "uuid \<Rightarrow> bool hact" where
  "hitl_at_qa i = hbind (get_run i) (\<lambda>r. hret (fl_hitl_at_qa (hr_features r)))"

definition await_confirm :: "henv \<Rightarrow> uuid \<Rightarrow> string \<Rightarrow> unit hact" where
  "await_confirm en i fid =
     hthen (set_feature_state en i fid FeatureState_AwaitingConfirm) (set_state i HarnessState_AwaitingConfirmation)"

definition confirm_feature :: "henv \<Rightarrow> uuid \<Rightarrow> string \<Rightarrow> unit hact" where
  "confirm_feature en i fid =
     hbind (get_run i) (\<lambda>r.
       case find_feature fid r of
         None \<Rightarrow> bail (''no such feature: '' @ fid)
       | Some f \<Rightarrow>
           if ft_state f = FeatureState_AwaitingConfirm
           then mark_feature_done en i fid ''Human-confirmed at the QA gate (HITL-at-QA).''
           else bail (''feature '' @ fid @ '' is '' @ he_show_state en (ft_state f) @ '', not awaiting confirmation''))"

text \<open>One failure: the attempt is counted, the error kept, the state follows from the budget.\<close>

definition fail_feature :: "32 word \<Rightarrow> string \<Rightarrow> feature \<Rightarrow> feature" where
  "fail_feature max_retries output f =
     (let n = ft_attempts f + 1
      in f\<lparr>ft_attempts := n, ft_last_error := Some (tail_text output 4000),
           ft_state := (if max_retries \<le> n then FeatureState_Blocked else FeatureState_Coding)\<rparr>)"

definition record_feature_failure :: "henv \<Rightarrow> uuid \<Rightarrow> string \<Rightarrow> string \<Rightarrow> bool hact" where
  "record_feature_failure en i fid output =
     hbind (get_run i) (\<lambda>old.
     hbind (modify_run i (on_feature fid (fail_feature (fl_max_retries (hr_features old)) output))) (\<lambda>r.
       let blocked = (case find_feature fid r of None \<Rightarrow> False | Some f \<Rightarrow> ft_state f = FeatureState_Blocked)
       in hthen (persist en r)
            (hthen (emit_h (HarnessEvent_FeatureStateChanged i fid
                (if blocked then FeatureState_Blocked else FeatureState_Coding)))
               (hret blocked))))"

text \<open>The manual endpoint: one verification, finalized.\<close>

definition run_verify :: "henv \<Rightarrow> uuid \<Rightarrow> string \<Rightarrow> bool hact" where
  "run_verify en i fid =
     hbind (run_verify_once en i fid) (\<lambda>(success, output).
       hthen
         (if success then
            hbind (hitl_at_qa i) (\<lambda>hitl.
              if hitl then await_confirm en i fid else mark_feature_done en i fid output)
          else hthen (record_feature_failure en i fid output) (hret ()))
         (hret success))"

end
