(* ===== verification/Harness_Driver.thy ===== *)
theory Harness_Driver
  imports Harness_Engine
begin

text \<open>
  \<open>crates/agentum-server/src/harness.rs\<close>, the driver: the agents of a run, the unit and QA gates with
  their retries, the role gates around the feature loop, and \<open>drive\<close>. The loops take fuel and return
  \<open>None\<close> when it does not suffice; \<open>Harness_Safety\<close> shows how much is enough. While the driver sleeps
  or waits, the outside runs.
\<close>

section \<open>Agents\<close>

definition on_sessions :: "henv \<Rightarrow> (api_error \<Rightarrow> string) \<Rightarrow> 'a act \<Rightarrow> 'a hact" where
  "on_sessions en show_error m w =
     (case m (hw_world w) of
        (w', Inl e) \<Rightarrow> (w\<lparr>hw_world := w'\<rparr>, Inl (show_error e))
      | (w', Inr x) \<Rightarrow> (w\<lparr>hw_world := w'\<rparr>, Inr x))"

definition sleep :: "henv \<Rightarrow> unit hact" where
  "sleep en w = (outside en w, Inr ())"

definition tmux_command :: "henv \<Rightarrow> (environment \<Rightarrow> nat \<Rightarrow> host_cmd \<Rightarrow> host_runtime_error + 'a) \<Rightarrow> host_cmd \<Rightarrow>
    (host_runtime_error + 'a) hact" where
  "tmux_command en answer c = on_sessions en (he_show_api en) (command (answer (as_en (he_app en))) c)"

definition pane_target :: "session \<Rightarrow> string" where
  "pane_target s = (case s_tmux_target s of Some t \<Rightarrow> t | None \<Rightarrow> target_for (s_name s))"

definition shows_trust_dialog :: "string \<Rightarrow> bool" where
  "shows_trust_dialog pane = (str_contains pane ''trust this folder'' \<or> str_contains pane ''do you trust'')"

definition shows_repl :: "string \<Rightarrow> bool" where
  "shows_repl pane =
     (str_contains pane ''bypass permissions on'' \<or> str_contains pane ''shift+tab to cycle'' \<or>
      str_contains pane ''? for shortcuts'')"

fun repl_loop :: "henv \<Rightarrow> host \<Rightarrow> string \<Rightarrow> nat \<Rightarrow> bool \<Rightarrow> unit hact" where
  "repl_loop en h target 0 trusted = hret ()"
| "repl_loop en h target (Suc n) trusted =
     hthen (sleep en) (hbind (tmux_command en en_text (Cmd_CaptureVisible h target)) (\<lambda>r.
       case r of
         Inl _ \<Rightarrow> repl_loop en h target n trusted
       | Inr raw \<Rightarrow>
           let pane = he_lowercase en raw
           in if \<not> trusted \<and> shows_trust_dialog pane
              then hthen (hdrop (tmux_command en en_unit (Cmd_SendKeys h target [] True)))
                     (hthen (sleep en) (repl_loop en h target n True))
              else if shows_repl pane then sleep en
              else repl_loop en h target n trusted))"

definition await_repl_ready :: "henv \<Rightarrow> session \<Rightarrow> unit hact" where
  "await_repl_ready en s =
     hbind (hget (\<lambda>w. get_host (as_cx (he_app en)) (w_db (hw_world w)) (host_id_of s))) (\<lambda>r.
       case r of
         Inr (Some h) \<Rightarrow>
           if h_kind h \<noteq> HostKind_Local then sleep en
           else repl_loop en h (pane_target s) 80 False
       | _ \<Rightarrow> hret ())"

definition send_prompt_keys :: "henv \<Rightarrow> string \<Rightarrow> host \<Rightarrow> string \<Rightarrow> string \<Rightarrow> bool \<Rightarrow> unit hact" where
  "send_prompt_keys en what h target text enter =
     hbind (tmux_command en en_unit (Cmd_SendKeys h target text enter)) (\<lambda>r.
       hlift (case r of Inl e \<Rightarrow> Inl (what @ '': '' @ error_text e) | Inr _ \<Rightarrow> Inr ()))"

definition inject_prompt :: "henv \<Rightarrow> session \<Rightarrow> string \<Rightarrow> unit hact" where
  "inject_prompt en s prompt =
     hthen (await_repl_ready en s)
     (hbind (hget (\<lambda>w. get_host (as_cx (he_app en)) (w_db (hw_world w)) (host_id_of s))) (\<lambda>r.
        case r of
          Inl e \<Rightarrow> bail (he_show_store en e)
        | Inr None \<Rightarrow> bail ''session host missing''
        | Inr (Some h) \<Rightarrow>
            hthen (send_prompt_keys en ''send_keys failed'' h (pane_target s) prompt False)
              (hthen (sleep en) (send_prompt_keys en ''submit Enter failed'' h (pane_target s) [] True))))"

text \<open>The wait: the outside runs, the items on the bus decide when it ends, not what follows.\<close>

definition settle :: "henv \<Rightarrow> nat \<Rightarrow> nat \<Rightarrow> session \<Rightarrow> nat hact" where
  "settle en grace timeout s w =
     (outside en w, Inr (wait_for_settle grace timeout (s_id s) (he_items en (hw_ticks w))))"

definition teardown_session :: "henv \<Rightarrow> session \<Rightarrow> unit hact" where
  "teardown_session en s = hdrop (on_sessions en (he_show_api en) (kill_session_locked (he_app en) (s_id s)))"

definition agent_flags :: "feature_list \<Rightarrow> string list" where
  "agent_flags fl = (if fl_agent_yolo fl then [YOLO_MARKER] else [])"

definition agent_session :: "string \<Rightarrow> string \<Rightarrow> string \<Rightarrow> feature_list \<Rightarrow> new_session" where
  "agent_session name workdir tool fl =
     \<lparr>ns_name = name, ns_workdir = workdir, ns_tool = tool, ns_model = fl_agent_model fl,
      ns_flags = agent_flags fl, ns_card_id = None, ns_worktree_path = None, ns_worktree_branch = None,
      ns_worktree_base_ref = None\<rparr>"

definition short_id :: "uuid \<Rightarrow> string" where
  "short_id i = take 8 (uuid_simple i)"

definition spawn_agent :: "henv \<Rightarrow> string \<Rightarrow> new_session \<Rightarrow> session hact" where
  "spawn_agent en what new =
     on_sessions en (\<lambda>e. what @ he_show_api en e)
       (create_and_spawn_session (he_app en) new (Some LOCAL_HOST_ID))"

definition spawn_feature_agent :: "henv \<Rightarrow> uuid \<Rightarrow> string \<Rightarrow> harness_config \<Rightarrow> feature \<Rightarrow> session hact" where
  "spawn_feature_agent en i workdir cfg f =
     hbind (spawn_agent en ''failed to spawn agent: ''
       (agent_session (''harness-'' @ sanitize (ft_id f) @ ''-'' @ short_id i) workdir
          (fl_agent_tool (hc_features cfg)) (hc_features cfg))) (\<lambda>s.
     hbind (htry (set_session en i (s_id s) (ft_id f))) (\<lambda>r.
       case r of
         Inr _ \<Rightarrow> hret s
       | Inl e \<Rightarrow>
           hthen (hdrop (on_sessions en (he_show_api en) (delete_session_locked (he_app en) (s_id s) True)))
             (bail e)))"

definition spawn_qa_agent :: "henv \<Rightarrow> uuid \<Rightarrow> string \<Rightarrow> harness_config \<Rightarrow> feature \<Rightarrow> session hact" where
  "spawn_qa_agent en i workdir cfg f =
     spawn_agent en ''failed to spawn QA agent: ''
       (agent_session (''harness-qa-'' @ sanitize (ft_id f) @ ''-'' @ short_id i) workdir
          (case fl_qa_agent_tool (hc_features cfg) of Some t \<Rightarrow> t | None \<Rightarrow> fl_agent_tool (hc_features cfg))
          (hc_features cfg))"

definition spawn_role_agent :: "henv \<Rightarrow> uuid \<Rightarrow> string \<Rightarrow> harness_config \<Rightarrow> role_kind \<Rightarrow> session hact" where
  "spawn_role_agent en i workdir cfg role =
     spawn_agent en ''failed to spawn role agent: ''
       (agent_session (''harness-'' @ role_as_str role @ ''-'' @ short_id i) workdir
          (fl_agent_tool (hc_features cfg)) (hc_features cfg))"

section \<open>Tickets\<close>

fun show_tracker_phase :: "tracker_phase \<Rightarrow> string" where
  "show_tracker_phase TrackerPhase_Todo = ''Todo''"
| "show_tracker_phase TrackerPhase_InProgress = ''InProgress''"
| "show_tracker_phase TrackerPhase_ReadyToTest = ''ReadyToTest''"
| "show_tracker_phase TrackerPhase_Done = ''Done''"

definition tracker_call :: "henv \<Rightarrow> string \<Rightarrow> string \<Rightarrow> tracker_phase \<Rightarrow> (string + transition_result) hact" where
  "tracker_call en provider fid phase w =
     (let t = hw_ticks w;
          res = apply_tracker_transition (as_cx (he_app en)) (en_clock (as_en (he_app en)) t) (he_show_store en)
                  (he_debug en) (he_linear en t) provider fid phase (w_db (hw_world w))
      in (tick (w\<lparr>hw_world := (hw_world w)\<lparr>w_db := fst res\<rparr>\<rparr>), Inr (snd res)))"

definition transition_text :: "tracker_phase \<Rightarrow> string + transition_result \<Rightarrow> string" where
  "transition_text phase r =
     (case r of
        Inr TransitionResult_Applied \<Rightarrow>
          ''ticket '' @ [CHR 0xE2, CHR 0x86, CHR 0x92] @ '' '' @ show_tracker_phase phase
      | Inr (TransitionResult_Skipped why) \<Rightarrow>
          ''ticket transition to '' @ show_tracker_phase phase @ '' skipped: '' @ why
      | Inl e \<Rightarrow> ''ticket transition to '' @ show_tracker_phase phase @ '' failed (non-fatal): '' @ e)"

definition transition_tracker :: "henv \<Rightarrow> uuid \<Rightarrow> feature \<Rightarrow> tracker_phase \<Rightarrow> unit hact" where
  "transition_tracker en i f phase =
     (case ft_tracker_provider f of
        None \<Rightarrow> hret ()
      | Some provider \<Rightarrow>
          hbind (tracker_call en provider (ft_id f) phase) (\<lambda>r.
            log_h i (Some (ft_id f)) (transition_text phase r)))"

section \<open>The gates of a feature\<close>

definition resolve_qa_mode :: "henv \<Rightarrow> harness_config \<Rightarrow> qa_mode" where
  "resolve_qa_mode en cfg =
     (case fl_qa_mode (hc_features cfg) of
        QaMode_Script \<Rightarrow> QaMode_Script
      | QaMode_Agent \<Rightarrow> QaMode_Agent
      | QaMode_Auto \<Rightarrow>
          if hc_qa_script cfg \<noteq> None then QaMode_Script
          else if he_browser_verify en then QaMode_Agent else QaMode_Script)"

definition relative_to :: "string \<Rightarrow> string \<Rightarrow> string" where
  "relative_to workdir p =
     (case strip_prefix (path_join workdir []) p of Some r \<Rightarrow> r | None \<Rightarrow> p)"

definition qa_verdict_path :: "string \<Rightarrow> string \<Rightarrow> string" where
  "qa_verdict_path dir fid = path_join (path_join dir ''qa'') (sanitize fid @ ''.json'')"

definition role_verdict_path :: "string \<Rightarrow> spec_phase \<Rightarrow> string" where
  "role_verdict_path dir phase = path_join (path_join dir ''roles'') (phase_slug phase @ ''.json'')"

text \<open>The verdict of an agent: unreadable and missing verdicts fail the gate.\<close>

definition parse_verdict :: "henv \<Rightarrow> string \<Rightarrow> string \<Rightarrow> string + bool \<times> string" where
  "parse_verdict en what json =
     (case he_parse_verdict en (trim json) of
        Inl e \<Rightarrow> Inl (what @ '' verdict is not valid JSON ('' @ e @ ''): '' @ json)
      | Inr (passed, summary) \<Rightarrow> Inr (passed, case summary of None \<Rightarrow> [] | Some s \<Rightarrow> s))"

definition qa_verdict :: "henv \<Rightarrow> string \<Rightarrow> string option \<Rightarrow> bool \<times> string" where
  "qa_verdict en rel content =
     (case content of
        None \<Rightarrow> (False, ''QA agent wrote no verdict at '' @ rel @ '' '' @ em_dash @
                   '' treating QA as failed (inconclusive).'')
      | Some raw \<Rightarrow>
          (case parse_verdict en ''QA'' raw of
             Inr v \<Rightarrow> v
           | Inl e \<Rightarrow> (False, ''QA verdict unreadable '' @ em_dash @ '' failing the gate: '' @ e)))"

definition role_verdict :: "henv \<Rightarrow> role_kind \<Rightarrow> string \<Rightarrow> string option \<Rightarrow> bool \<times> string" where
  "role_verdict en role rel content =
     (case content of
        None \<Rightarrow> (False, role_as_str role @ '' agent wrote no verdict at '' @ rel @ '' '' @ em_dash @
                   '' gate failed (inconclusive)'')
      | Some raw \<Rightarrow>
          (case parse_verdict en ''role'' raw of
             Inr v \<Rightarrow> v
           | Inl e \<Rightarrow> (False, ''role verdict unreadable '' @ em_dash @ '' failing the gate: '' @ e)))"

text \<open>A stale verdict is removed before the agent starts.\<close>

definition prepare_verdict :: "henv \<Rightarrow> string \<Rightarrow> string \<Rightarrow> unit hact" where
  "prepare_verdict en dir p = hthen (hdrop (create_dir_all en dir)) (remove_file p)"

definition run_qa_agent_gate ::
    "henv \<Rightarrow> uuid \<Rightarrow> string \<Rightarrow> harness_config \<Rightarrow> feature \<Rightarrow> nat \<Rightarrow> nat \<Rightarrow> (bool \<times> string) hact" where
  "run_qa_agent_gate en i workdir cfg f grace timeout =
     (let p = qa_verdict_path (hc_dir cfg) (ft_id f); rel = relative_to workdir p
      in hthen (set_feature_state en i (ft_id f) FeatureState_ReadyToTest)
         (hthen (prepare_verdict en (path_join (hc_dir cfg) ''qa'') p)
         (hthen (hwhen (\<not> he_browser_verify en) (log_h i (Some (ft_id f))
             (''QA agent: AGENTUM_BROWSER_VERIFY is not set, so no Playwright MCP is wired '' @ em_dash @
              '' the agent may be unable to drive a browser.'')))
         (hthen (log_h i (Some (ft_id f))
             (''unit gate green '' @ em_dash @ '' spawning browser QA agent (browser-verification-loop)''))
         (hbind (spawn_qa_agent en i workdir cfg f) (\<lambda>s.
          hthen (inject_prompt en s (build_qa_prompt (hc_agent_instructions cfg) f rel))
         (hthen (log_h i (Some (ft_id f)) (''QA agent verifying in browser'' @ ellipsis))
         (hbind (settle en grace timeout s) (\<lambda>_.
          hthen (teardown_session en s)
            (hget (\<lambda>w. qa_verdict en rel (hw_files w p)))))))))))) "

definition handle_gate_failure ::
    "henv \<Rightarrow> uuid \<Rightarrow> feature \<Rightarrow> session \<Rightarrow> string \<Rightarrow> string \<Rightarrow> nat \<Rightarrow> nat \<Rightarrow> bool hact" where
  "handle_gate_failure en i f s gate_label output grace timeout =
     hbind (record_feature_failure en i (ft_id f) output) (\<lambda>blocked.
       if blocked then
         hthen (set_state i HarnessState_Blocked)
           (hthen (log_h i (Some (ft_id f)) ([CHR 0xE2, CHR 0x9C, CHR 0x97] @ '' '' @ gate_label @ '' FAILED '' @ em_dash @
               '' retries exhausted, feature BLOCKED. Run halted.'')) (hret True))
       else
         hthen (log_h i (Some (ft_id f)) ([CHR 0xE2, CHR 0x9C, CHR 0x97] @ '' '' @ gate_label @ '' FAILED '' @ em_dash @
             '' handing the error back to the agent for a retry''))
         (hthen (set_state i HarnessState_Running)
         (hthen (inject_prompt en s (''The '' @ gate_label @ '' FAILED with this output:'' @ nl2 @ tail_text output 2000 @ nl2 @
             ''Fix the problem for feature '' @ [CHR 39] @ ft_name f @ [CHR 39] @ '' and stop when done '' @ em_dash @
             '' the gate will run again.''))
         (hbind (settle en grace timeout s) (\<lambda>_. hret False)))))"

datatype gate_round = GateRound_Retry | GateRound_Halt | GateRound_Done

definition failed_round ::
    "henv \<Rightarrow> uuid \<Rightarrow> feature \<Rightarrow> session \<Rightarrow> string \<Rightarrow> string \<Rightarrow> nat \<Rightarrow> nat \<Rightarrow> gate_round hact" where
  "failed_round en i f s gate_label output grace timeout =
     hbind (handle_gate_failure en i f s gate_label output grace timeout) (\<lambda>halted.
       hret (if halted then GateRound_Halt else GateRound_Retry))"

definition qa_gate ::
    "henv \<Rightarrow> uuid \<Rightarrow> string \<Rightarrow> harness_config \<Rightarrow> feature \<Rightarrow> nat \<Rightarrow> nat \<Rightarrow> (bool \<times> string) hact" where
  "qa_gate en i workdir cfg f grace timeout =
     (if resolve_qa_mode en cfg = QaMode_Agent
      then run_qa_agent_gate en i workdir cfg f grace timeout
      else run_qa_once en i (ft_id f))"

definition qa_label :: "henv \<Rightarrow> harness_config \<Rightarrow> string" where
  "qa_label en cfg =
     (if resolve_qa_mode en cfg = QaMode_Agent then ''browser QA gate (agent)'' else ''browser QA gate (qa.sh)'')"

definition both_green :: "henv \<Rightarrow> uuid \<Rightarrow> feature \<Rightarrow> string \<Rightarrow> string \<Rightarrow> gate_round hact" where
  "both_green en i f unit_out qa_out =
     hbind (hitl_at_qa i) (\<lambda>hitl.
       if hitl then
         hthen (await_confirm en i (ft_id f))
           (hthen (log_h i (Some (ft_id f)) ([CHR 0xE2, CHR 0x9C, CHR 0x93] @ '' unit + QA gates PASSED '' @ em_dash @
               '' awaiting human confirmation (HITL-at-QA). Run paused; POST /{id}/confirm to finalize and resume.''))
              (hret GateRound_Halt))
       else
         hthen (mark_feature_done en i (ft_id f)
             (''unit gate:'' @ newline @ tail_text unit_out 1000 @ nl2 @ ''QA gate:'' @ newline @ tail_text qa_out 1000))
         (hthen (transition_tracker en i f TrackerPhase_Done)
         (hthen (log_h i (Some (ft_id f)) ([CHR 0xE2, CHR 0x9C, CHR 0x93] @ '' unit + QA gates PASSED '' @ em_dash @
             '' feature done'')) (hret GateRound_Done))))"

definition after_unit ::
    "henv \<Rightarrow> uuid \<Rightarrow> string \<Rightarrow> harness_config \<Rightarrow> feature \<Rightarrow> session \<Rightarrow> nat \<Rightarrow> nat \<Rightarrow> string \<Rightarrow> gate_round hact" where
  "after_unit en i workdir cfg f s grace timeout unit_out =
     hthen (transition_tracker en i f TrackerPhase_ReadyToTest)
     (hbind (qa_gate en i workdir cfg f grace timeout) (\<lambda>(qa_ok, qa_out).
        if qa_ok then both_green en i f unit_out qa_out
        else failed_round en i f s (qa_label en cfg) qa_out grace timeout))"

definition gate_iteration ::
    "henv \<Rightarrow> uuid \<Rightarrow> string \<Rightarrow> harness_config \<Rightarrow> feature \<Rightarrow> session \<Rightarrow> nat \<Rightarrow> nat \<Rightarrow> gate_round hact" where
  "gate_iteration en i workdir cfg f s grace timeout =
     hthen (log_h i (Some (ft_id f)) ''running unit-test gate (verify.sh)'')
     (hbind (run_verify_once en i (ft_id f)) (\<lambda>(unit_ok, unit_out).
        if unit_ok then after_unit en i workdir cfg f s grace timeout unit_out
        else failed_round en i f s ''unit-test gate (verify.sh)'' unit_out grace timeout))"

text \<open>The result is whether the feature got done; otherwise the run halted.\<close>

fun gate_loop ::
    "nat \<Rightarrow> henv \<Rightarrow> uuid \<Rightarrow> string \<Rightarrow> harness_config \<Rightarrow> feature \<Rightarrow> session \<Rightarrow> nat \<Rightarrow> nat \<Rightarrow> bool option hact" where
  "gate_loop 0 en i workdir cfg f s grace timeout = hret None"
| "gate_loop (Suc n) en i workdir cfg f s grace timeout =
     hbind (gate_iteration en i workdir cfg f s grace timeout) (\<lambda>round.
       case round of
         GateRound_Retry \<Rightarrow> gate_loop n en i workdir cfg f s grace timeout
       | GateRound_Halt \<Rightarrow> hret (Some False)
       | GateRound_Done \<Rightarrow> hret (Some True))"

definition drive_feature :: "nat \<Rightarrow> henv \<Rightarrow> uuid \<Rightarrow> string \<Rightarrow> feature \<Rightarrow> bool option hact" where
  "drive_feature fuel en i workdir f =
     hthen (log_h i (Some (ft_id f)) (''starting feature: '' @ ft_name f))
     (hthen (set_state i HarnessState_Running)
     (hbind (load_config en workdir) (\<lambda>cfg.
      hbind (spawn_feature_agent en i workdir cfg f) (\<lambda>s.
      hthen (transition_tracker en i f TrackerPhase_InProgress)
     (hthen (inject_prompt en s (build_feature_prompt (hc_agent_instructions cfg) f))
     (hthen (log_h i (Some (ft_id f)) (''agent working'' @ ellipsis))
     (hbind (settle en (fl_settle_grace_secs (hc_features cfg)) (fl_settle_timeout_secs (hc_features cfg)) s) (\<lambda>_.
      hbind (gate_loop fuel en i workdir cfg f s (fl_settle_grace_secs (hc_features cfg))
               (fl_settle_timeout_secs (hc_features cfg))) (\<lambda>r.
      hthen (hwhen (r = Some True) (teardown_session en s)) (hret r)))))))))) "

section \<open>Role gates\<close>

definition role_verdict_of ::
    "henv \<Rightarrow> uuid \<Rightarrow> string \<Rightarrow> harness_config \<Rightarrow> spec_phase \<Rightarrow> role_kind \<Rightarrow> string \<Rightarrow> (bool \<times> string) hact" where
  "role_verdict_of en i workdir cfg phase role spec_id =
     (let p = role_verdict_path (hc_dir cfg) phase; rel = relative_to workdir p
      in hbind (hget (\<lambda>w. case hw_files w (spec_path (hc_dir cfg) spec_id) of Some md \<Rightarrow> md | None \<Rightarrow> [])) (\<lambda>spec_md.
         hthen (prepare_verdict en (path_join (hc_dir cfg) ''roles'') p)
         (hthen (log_h i None (phase_slug phase @ '' gate: spawning '' @ role_as_str role @ '' agent''))
         (hbind (spawn_role_agent en i workdir cfg role) (\<lambda>s.
          hthen (inject_prompt en s (build_role_prompt (he_brief en) role (hc_agent_instructions cfg) spec_id spec_md rel))
         (hthen (log_h i None (role_as_str role @ '' agent working'' @ ellipsis))
         (hbind (settle en (fl_settle_grace_secs (hc_features cfg)) (fl_settle_timeout_secs (hc_features cfg)) s) (\<lambda>_.
          hthen (teardown_session en s)
            (hget (\<lambda>w. role_verdict en role rel (hw_files w p)))))))))))"

definition attempt_text :: "32 word \<Rightarrow> string" where
  "attempt_text n = string_of_nat (unat n)"

text \<open>The run stops at a gate: for good, or until a human decides.\<close>

definition halt_at_gate ::
    "henv \<Rightarrow> uuid \<Rightarrow> string \<Rightarrow> string \<Rightarrow> spec_phase \<Rightarrow> harness_state \<Rightarrow> string \<Rightarrow> unit hact" where
  "halt_at_gate en i workdir decision phase st message =
     hthen (hdrop (append_decision en workdir decision))
       (hthen (set_phase en i phase) (hthen (set_state i st) (log_h i None message)))"

text \<open>One round of a gate: \<open>None\<close> asks for another round, otherwise whether the gate passed.\<close>

definition role_decision ::
    "henv \<Rightarrow> uuid \<Rightarrow> string \<Rightarrow> feature_list \<Rightarrow> spec_phase \<Rightarrow> role_kind \<Rightarrow> 32 word \<Rightarrow> bool \<Rightarrow> string \<Rightarrow> bool option hact" where
  "role_decision en i workdir fl phase role attempt passed summary =
     (case decide_gate passed attempt (fl_max_retries fl) (fl_hitl_on_block fl) of
        GateDecision_Advance \<Rightarrow>
          hthen (hdrop (append_decision en workdir
              (phase_slug phase @ '' gate PASS (attempt '' @ attempt_text attempt @ ''): '' @ summary)))
            (hthen (log_h i None (role_as_str role @ '' gate PASS: '' @ summary)) (hret (Some True)))
      | GateDecision_Retry \<Rightarrow>
          hthen (log_h i None (role_as_str role @ '' gate CONCERNS (attempt '' @ attempt_text attempt @ ''/'' @
              attempt_text (fl_max_retries fl) @ '') '' @ em_dash @ '' retrying: '' @ summary)) (hret None)
      | GateDecision_Block \<Rightarrow>
          hthen (halt_at_gate en i workdir
              (phase_slug phase @ '' gate BLOCKED after '' @ attempt_text attempt @ '' attempts: '' @ summary)
              SpecPhase_Blocked HarnessState_Blocked
              (role_as_str role @ '' gate blocked after '' @ attempt_text attempt @ '' attempts: '' @ summary))
            (hret (Some False))
      | GateDecision_AwaitConfirm \<Rightarrow>
          hthen (halt_at_gate en i workdir
              (phase_slug phase @ '' gate AWAITING HUMAN after '' @ attempt_text attempt @ '' attempts: '' @ summary)
              SpecPhase_AwaitingConfirm HarnessState_AwaitingConfirmation
              (role_as_str role @ '' gate awaiting human confirmation: '' @ summary))
            (hret (Some False)))"

definition role_round :: "henv \<Rightarrow> uuid \<Rightarrow> string \<Rightarrow> spec_phase \<Rightarrow> role_kind \<Rightarrow> bool option hact" where
  "role_round en i workdir phase role =
     hbind (load_config en workdir) (\<lambda>cfg.
       case fl_spec_id (hc_features cfg) of
         None \<Rightarrow> bail ''role gate requires features.spec_id''
       | Some spec_id \<Rightarrow>
           hbind (role_verdict_of en i workdir cfg phase role spec_id) (\<lambda>(passed, summary).
           hbind (bump_phase_attempt i) (\<lambda>attempt.
           hthen (emit_h (HarnessEvent_GateResult i role passed attempt summary))
             (role_decision en i workdir (hc_features cfg) phase role attempt passed summary))))"

fun role_gate_loop :: "nat \<Rightarrow> henv \<Rightarrow> uuid \<Rightarrow> string \<Rightarrow> spec_phase \<Rightarrow> role_kind \<Rightarrow> bool option hact" where
  "role_gate_loop 0 en i workdir phase role = hret None"
| "role_gate_loop (Suc n) en i workdir phase role =
     hbind (role_round en i workdir phase role) (\<lambda>r.
       case r of None \<Rightarrow> role_gate_loop n en i workdir phase role | Some passed \<Rightarrow> hret (Some passed))"

definition run_role_gate :: "nat \<Rightarrow> henv \<Rightarrow> uuid \<Rightarrow> string \<Rightarrow> spec_phase \<Rightarrow> bool option hact" where
  "run_role_gate fuel en i workdir phase =
     (case phase_role phase of
        None \<Rightarrow> hret (Some True)
      | Some role \<Rightarrow> role_gate_loop fuel en i workdir phase role)"

text \<open>Goes on only behind a gate that passed; \<open>None\<close> is missing fuel.\<close>

definition behind_gate :: "bool option hact \<Rightarrow> unit option hact \<Rightarrow> unit option hact" where
  "behind_gate gate m =
     hbind gate (\<lambda>r. case r of None \<Rightarrow> hret None | Some passed \<Rightarrow> if passed then m else hret (Some ()))"

definition decompose :: "henv \<Rightarrow> uuid \<Rightarrow> string \<Rightarrow> unit hact" where
  "decompose en i workdir =
     hthen (set_phase en i SpecPhase_Decompose)
     (hbind (load_config en workdir) (\<lambda>cfg.
        case fl_spec_id (hc_features cfg) of
          None \<Rightarrow> bail ''decompose requires features.spec_id''
        | Some spec_id \<Rightarrow>
            hthen (log_h i None (''decompose: deriving backlog from spec '' @ spec_id))
            (hbind (plan_from_spec en workdir spec_id) (\<lambda>derived.
             hthen (save_features en cfg (copy_knobs_from derived (hc_features cfg)))
               (hthen (reload_features en i) (set_phase en i SpecPhase_Executing))))))"

definition run_pre_feature_phases :: "nat \<Rightarrow> henv \<Rightarrow> uuid \<Rightarrow> string \<Rightarrow> unit option hact" where
  "run_pre_feature_phases fuel en i workdir =
     hthen (set_phase en i SpecPhase_Authoring)
       (behind_gate (run_role_gate fuel en i workdir SpecPhase_Authoring)
          (hthen (set_phase en i SpecPhase_Architecture)
             (behind_gate (run_role_gate fuel en i workdir SpecPhase_Architecture)
                (hthen (decompose en i workdir) (hret (Some ()))))))"

definition run_review_phase :: "nat \<Rightarrow> henv \<Rightarrow> uuid \<Rightarrow> string \<Rightarrow> unit option hact" where
  "run_review_phase fuel en i workdir =
     hthen (set_phase en i SpecPhase_Review)
       (behind_gate (run_role_gate fuel en i workdir SpecPhase_Review)
          (hthen (set_phase en i SpecPhase_Done) (hret (Some ()))))"

section \<open>The drive\<close>

definition current_phase :: "uuid \<Rightarrow> spec_phase hact" where
  "current_phase i = hbind (get_run i) (\<lambda>r. hret (hr_phase r))"

definition complete_run :: "uuid \<Rightarrow> unit option hact" where
  "complete_run i =
     hthen (clear_current i)
       (hthen (set_state i HarnessState_Done)
       (hthen (emit_h (HarnessEvent_HarnessCompleted i True))
       (hthen (log_h i None (''all features verified '' @ em_dash @ '' harness done'')) (hret (Some ())))))"

definition finish_run :: "nat \<Rightarrow> henv \<Rightarrow> uuid \<Rightarrow> string \<Rightarrow> bool \<Rightarrow> unit option hact" where
  "finish_run fuel en i workdir phases_on =
     (if phases_on then
        hbind (run_review_phase fuel en i workdir) (\<lambda>r.
          case r of
            None \<Rightarrow> hret None
          | Some _ \<Rightarrow> hbind (current_phase i) (\<lambda>p.
              if p = SpecPhase_Done then complete_run i else hret (Some ())))
      else complete_run i)"

fun feature_loop :: "nat \<Rightarrow> nat \<Rightarrow> henv \<Rightarrow> uuid \<Rightarrow> string \<Rightarrow> bool \<Rightarrow> unit option hact" where
  "feature_loop 0 fuel en i workdir phases_on = hret None"
| "feature_loop (Suc n) fuel en i workdir phases_on =
     hbind (next_pending_feature i) (\<lambda>found.
       case found of
         None \<Rightarrow> finish_run fuel en i workdir phases_on
       | Some f \<Rightarrow>
           hbind (drive_feature fuel en i workdir f) (\<lambda>r.
             case r of
               None \<Rightarrow> hret None
             | Some passed \<Rightarrow> if passed then feature_loop n fuel en i workdir phases_on else hret (Some ())))"

definition drive_phases :: "nat \<Rightarrow> nat \<Rightarrow> henv \<Rightarrow> uuid \<Rightarrow> string \<Rightarrow> bool \<Rightarrow> unit option hact" where
  "drive_phases n fuel en i workdir phases_on =
     (if phases_on then
        hbind (run_pre_feature_phases fuel en i workdir) (\<lambda>r.
          case r of
            None \<Rightarrow> hret None
          | Some _ \<Rightarrow> hbind (current_phase i) (\<lambda>p.
              if p \<noteq> SpecPhase_Executing then hret (Some ()) else feature_loop n fuel en i workdir True))
      else feature_loop n fuel en i workdir False)"

definition roles_on :: "harness_config \<Rightarrow> bool" where
  "roles_on cfg = (fl_roles (hc_features cfg) \<and> fl_spec_id (hc_features cfg) \<noteq> None)"

definition drive_inner :: "nat \<Rightarrow> nat \<Rightarrow> henv \<Rightarrow> uuid \<Rightarrow> unit option hact" where
  "drive_inner n fuel en i =
     hthen (log_h i None ''running init.sh'')
     (hbind (run_init en i) (\<lambda>ok.
        if \<not> ok then bail (''init.sh failed '' @ em_dash @ '' environment not ready'') else
        hthen (set_state i HarnessState_Running)
        (hbind (reset_blocked_features en i) (\<lambda>reset.
         hthen (hwhen (0 < reset) (log_h i None (''reset '' @ string_of_nat reset @ '' blocked feature(s) for retry'')))
        (hbind (get_run i) (\<lambda>r.
         hbind (load_config en (hr_workdir r)) (\<lambda>cfg.
           drive_phases n fuel en i (hr_workdir r) (roles_on cfg))))))))"

text \<open>\<open>drive\<close>: the slot is freed in any case; an error is reported if the run still exists.\<close>

definition report_failure :: "uuid \<Rightarrow> string \<Rightarrow> unit hact" where
  "report_failure i e =
     hbind (htry (get_run i)) (\<lambda>r.
       case r of
         Inl _ \<Rightarrow> hret ()
       | Inr _ \<Rightarrow> hthen (emit_h (HarnessEvent_Error i e)) (hdrop (set_state i HarnessState_Failed)))"

definition drive :: "nat \<Rightarrow> nat \<Rightarrow> henv \<Rightarrow> uuid \<Rightarrow> unit option hact" where
  "drive n fuel en i =
     hbind (htry (drive_inner n fuel en i)) (\<lambda>r.
       case r of
         Inr None \<Rightarrow> hret None
       | Inr (Some _) \<Rightarrow> hthen (release_driver i) (hret (Some ()))
       | Inl e \<Rightarrow> hthen (release_driver i) (hthen (report_failure i e) (hret (Some ()))))"

end
