(* ===== verification/Harness_Safety.thy ===== *)
theory Harness_Safety
  imports Harness_Driver
begin

text \<open>
  What the driver of \<open>crates/agentum-server/src/harness.rs\<close> promises. Its events follow a protocol: one
  feature at a time, done only behind a green unit gate and a QA gate, role gates only between features.
  The protocol is a monitor that reads the events; \<open>phased\<close> is the rule by which it is composed along
  the code.
\<close>

section \<open>The protocol of a drive\<close>

datatype drive_stage =
    Stage_Idle
  | Stage_Coding string
  | Stage_UnitGreen string
  | Stage_QaReached string
  | Stage_Halted

fun busy_with :: "string \<Rightarrow> drive_stage \<Rightarrow> bool" where
  "busy_with g (Stage_Coding f) = (f = g)"
| "busy_with g (Stage_UnitGreen f) = (f = g)"
| "busy_with g (Stage_QaReached f) = (f = g)"
| "busy_with g _ = False"

definition guarded_step :: "bool \<Rightarrow> drive_stage \<Rightarrow> drive_stage option" where
  "guarded_step b st = (if b then Some st else None)"

fun feature_step :: "drive_stage \<Rightarrow> string \<Rightarrow> feature_state \<Rightarrow> drive_stage option" where
  "feature_step st g FeatureState_Pending = guarded_step (st = Stage_Idle) Stage_Idle"
| "feature_step st g FeatureState_Coding =
     (if st = Stage_Idle then Some Stage_Idle else guarded_step (busy_with g st) (Stage_Coding g))"
| "feature_step st g FeatureState_Verifying = guarded_step (busy_with g st) (Stage_Coding g)"
| "feature_step st g FeatureState_ReadyToTest = guarded_step (st = Stage_UnitGreen g) (Stage_QaReached g)"
| "feature_step st g FeatureState_AwaitingConfirm = guarded_step (st = Stage_QaReached g) Stage_Halted"
| "feature_step st g FeatureState_Done = guarded_step (st = Stage_QaReached g) Stage_Idle"
| "feature_step st g FeatureState_Blocked = guarded_step (busy_with g st) Stage_Halted"

fun protocol_step :: "uuid \<Rightarrow> drive_stage \<Rightarrow> harness_event \<Rightarrow> drive_stage option" where
  "protocol_step i st (HarnessEvent_FeatureStateChanged j g fs) = (if j = i then feature_step st g fs else Some st)"
| "protocol_step i st (HarnessEvent_AgentSpawned j g s) =
     (if j = i then guarded_step (st = Stage_Idle) (Stage_Coding g) else Some st)"
| "protocol_step i st (HarnessEvent_VerifyStarted j g) =
     (if j = i then guarded_step (st = Stage_Coding g) st else Some st)"
| "protocol_step i st (HarnessEvent_VerifyCompleted j g ok out) =
     (if j = i then guarded_step (st = Stage_Coding g) (if ok then Stage_UnitGreen g else st) else Some st)"
| "protocol_step i st (HarnessEvent_PhaseChanged j p q) =
     (if j = i then guarded_step (st = Stage_Idle) st else Some st)"
| "protocol_step i st (HarnessEvent_GateResult j role passed n summary) =
     (if j = i then guarded_step (st = Stage_Idle) st else Some st)"
| "protocol_step i st (HarnessEvent_HarnessCompleted j success) =
     (if j = i \<and> success then guarded_step (st = Stage_Idle) Stage_Halted else Some st)"
| "protocol_step i st ev = Some st"

fun follow :: "uuid \<Rightarrow> drive_stage \<Rightarrow> harness_event list \<Rightarrow> drive_stage option" where
  "follow i st [] = Some st"
| "follow i st (e # es) = (case protocol_step i st e of None \<Rightarrow> None | Some st' \<Rightarrow> follow i st' es)"

lemma guarded_step_Some: "guarded_step b st = Some st' \<longleftrightarrow> b \<and> st' = st"
  by (auto simp: guarded_step_def)

lemma follow_append:
  "follow i st (xs @ ys) = (case follow i st xs of None \<Rightarrow> None | Some st' \<Rightarrow> follow i st' ys)"
  by (induction xs arbitrary: st) (auto split: option.splits)

section \<open>Composition\<close>

text \<open>From a stage in \<open>P\<close> the events of \<open>m\<close> follow the protocol, and if \<open>m\<close> returns \<open>x\<close> the stage is in \<open>Q x\<close>.\<close>

definition phased :: "uuid \<Rightarrow> (drive_stage \<Rightarrow> bool) \<Rightarrow> 'a hact \<Rightarrow> ('a \<Rightarrow> drive_stage \<Rightarrow> bool) \<Rightarrow> bool" where
  "phased i P m Q \<longleftrightarrow> (\<forall>w st. P st \<longrightarrow> (\<exists>new st'. hw_events (fst (m w)) = hw_events w @ new \<and>
     follow i st new = Some st' \<and> (\<forall>x. snd (m w) = Inr x \<longrightarrow> Q x st')))"

lemma phasedI:
  assumes "\<And>w st. P st \<Longrightarrow> \<exists>new st'. hw_events (fst (m w)) = hw_events w @ new \<and>
     follow i st new = Some st' \<and> (\<forall>x. snd (m w) = Inr x \<longrightarrow> Q x st')"
  shows "phased i P m Q"
  using assms by (simp add: phased_def)

lemma phasedE:
  assumes "phased i P m Q" and "P st"
  obtains new st' where "hw_events (fst (m w)) = hw_events w @ new" "follow i st new = Some st'"
    "\<forall>x. snd (m w) = Inr x \<longrightarrow> Q x st'"
  using assms unfolding phased_def by meson

lemma phased_ret: "(\<And>st. P st \<Longrightarrow> Q x st) \<Longrightarrow> phased i P (hret x) Q"
  by (auto simp: phased_def hret_def)

lemma phased_bail: "phased i P (bail e) Q"
  by (auto simp: phased_def bail_def)

lemma phased_bind:
  assumes m: "phased i P m Q" and f: "\<And>x. phased i (Q x) (f x) R"
  shows "phased i P (hbind m f) R"
proof (rule phasedI)
  fix w :: hworld and st
  assume "P st"
  with m obtain new st' where new: "hw_events (fst (m w)) = hw_events w @ new" "follow i st new = Some st'"
    "\<forall>x. snd (m w) = Inr x \<longrightarrow> Q x st'" by (rule phasedE)
  obtain w' r where r: "m w = (w', r)" by fastforce
  show "\<exists>new st'. hw_events (fst (hbind m f w)) = hw_events w @ new \<and> follow i st new = Some st' \<and>
      (\<forall>x. snd (hbind m f w) = Inr x \<longrightarrow> R x st')"
  proof (cases r)
    case (Inl e)
    with r new show ?thesis by (auto simp: hbind_def)
  next
    case (Inr x)
    with r new have "Q x st'" by simp
    with f [of x] obtain new2 st2 where "hw_events (fst (f x w')) = hw_events w' @ new2"
      "follow i st' new2 = Some st2" "\<forall>y. snd (f x w') = Inr y \<longrightarrow> R y st2"
      by (rule phasedE)
    with r new Inr show ?thesis
      by (intro exI [of _ "new @ new2"] exI [of _ st2]) (simp add: hbind_def follow_append)
  qed
qed

lemma phased_then: "phased i P m (\<lambda>_. Q) \<Longrightarrow> phased i Q n R \<Longrightarrow> phased i P (hthen m n) R"
  unfolding hthen_def by (rule phased_bind)

lemma phased_weaken:
  "phased i P m Q \<Longrightarrow> (\<And>st. P' st \<Longrightarrow> P st) \<Longrightarrow> (\<And>x st. Q x st \<Longrightarrow> Q' x st) \<Longrightarrow> phased i P' m Q'"
  unfolding phased_def by metis

lemma phased_try: "phased i P m Q \<Longrightarrow> phased i P (htry m) (\<lambda>r st. \<forall>x. r = Inr x \<longrightarrow> Q x st)"
  by (simp add: phased_def htry_fst_snd)

lemma phased_emit:
  assumes "\<And>st. P st \<Longrightarrow> \<exists>st'. protocol_step i st ev = Some st' \<and> Q st'"
  shows "phased i P (emit_h ev) (\<lambda>_. Q)"
proof (rule phasedI)
  fix w :: hworld and st
  assume "P st"
  with assms obtain st' where "protocol_step i st ev = Some st'" "Q st'" by blast
  then show "\<exists>new st'. hw_events (fst (emit_h ev w)) = hw_events w @ new \<and> follow i st new = Some st' \<and>
      (\<forall>x. snd (emit_h ev w) = Inr x \<longrightarrow> Q st')"
    by (intro exI [of _ "[ev]"] exI [of _ st']) (simp add: emit_h_def)
qed

text \<open>Actions whose events do not matter to the protocol, whatever they return.\<close>

definition neutral :: "uuid \<Rightarrow> 'a hact \<Rightarrow> bool" where
  "neutral i m \<longleftrightarrow> (\<forall>w. \<exists>new. hw_events (fst (m w)) = hw_events w @ new \<and>
     (\<forall>e\<in>set new. \<forall>st. protocol_step i st e = Some st))"

named_theorems neutral_rules

lemma neutralE:
  assumes "neutral i m"
  obtains new where "hw_events (fst (m w)) = hw_events w @ new" "\<forall>e\<in>set new. \<forall>st. protocol_step i st e = Some st"
  using assms unfolding neutral_def by meson

lemma follow_neutral: "\<forall>e\<in>set new. \<forall>st. protocol_step i st e = Some st \<Longrightarrow> follow i st new = Some st"
  by (induction new) auto

lemma phased_neutral: "neutral i m \<Longrightarrow> phased i P m (\<lambda>_. P)"
  unfolding neutral_def phased_def using follow_neutral by metis

lemma neutral_quiet: "(\<And>w. hw_events (fst (m w)) = hw_events w) \<Longrightarrow> neutral i m"
  by (auto simp: neutral_def)

lemma neutral_bind [neutral_rules]:
  assumes "neutral i m" and "\<And>x. neutral i (f x)"
  shows "neutral i (hbind m f)"
  unfolding neutral_def
proof
  fix w :: hworld
  obtain w' r where r: "m w = (w', r)" by fastforce
  from assms(1) obtain new where new: "hw_events (fst (m w)) = hw_events w @ new"
    "\<forall>e\<in>set new. \<forall>st. protocol_step i st e = Some st" by (rule neutralE)
  show "\<exists>new. hw_events (fst (hbind m f w)) = hw_events w @ new \<and>
      (\<forall>e\<in>set new. \<forall>st. protocol_step i st e = Some st)"
  proof (cases r)
    case (Inl e)
    with r new show ?thesis by (auto simp: hbind_def)
  next
    case (Inr x)
    from assms(2) [of x] obtain new2 where "hw_events (fst (f x w')) = hw_events w' @ new2"
      "\<forall>e\<in>set new2. \<forall>st. protocol_step i st e = Some st" by (rule neutralE)
    with r new Inr show ?thesis
      by (intro exI [of _ "new @ new2"]) (auto simp: hbind_def)
  qed
qed

lemma neutral_then [neutral_rules]: "neutral i m \<Longrightarrow> neutral i n \<Longrightarrow> neutral i (hthen m n)"
  unfolding hthen_def by (rule neutral_bind)

lemma neutral_try [neutral_rules]: "neutral i m \<Longrightarrow> neutral i (htry m)"
  by (simp add: neutral_def htry_fst_snd)

lemma neutral_leaves [neutral_rules]:
  "neutral i (hret x)" "neutral i (bail e)" "neutral i (hlift r)" "neutral i (hget g)" "neutral i (read_file en p)"
  "neutral i (write_file en p c)" "neutral i (create_dir_all en p)" "neutral i (append_file en p c)"
  "neutral i (remove_file p)" "neutral i (get_run j)" "neutral i (modify_run j f)" "neutral i (run_script en argv)"
  "neutral i (sleep en)" "neutral i (settle en grace timeout s)" "neutral i (tracker_call en provider fid phase)"
  "neutral i (on_sessions en show_error act)"
  by (rule neutral_quiet;
      simp add: hret_def bail_def hlift_def hget_def read_file_def write_file_def create_dir_all_def append_file_def
        remove_file_def get_run_def modify_run_def run_script_def outside_def sleep_def settle_def tracker_call_def
        on_sessions_def tick_def Let_def split: option.split prod.split sum.split)+

lemma neutral_drop [neutral_rules]: "neutral i m \<Longrightarrow> neutral i (hdrop m)"
  unfolding hdrop_def by (intro neutral_rules)

lemma neutral_when [neutral_rules]: "(b \<Longrightarrow> neutral i m) \<Longrightarrow> neutral i (hwhen b m)"
  by (simp add: hwhen_def neutral_leaves)

lemma neutral_if [neutral_rules]: "(b \<Longrightarrow> neutral i m) \<Longrightarrow> (\<not> b \<Longrightarrow> neutral i n) \<Longrightarrow> neutral i (if b then m else n)"
  by simp

lemma neutral_emit: "(\<And>st. protocol_step i st ev = Some st) \<Longrightarrow> neutral i (emit_h ev)"
  by (simp add: neutral_def emit_h_def)

section \<open>The engine follows the protocol\<close>

lemma load_config_world [simp]: "fst (load_config en workdir w) = w"
  by (simp add: load_config_def load_instructions_def load_backlog_def hbind_def hget_def hlift_def read_file_def
      Let_def split: option.split sum.split)

lemma neutral_load_config [neutral_rules]: "neutral i (load_config en workdir)"
  by (rule neutral_quiet) simp

lemma neutral_fields [neutral_rules]:
  "neutral i (log_h j fid text)" "neutral i (set_state j st)" "neutral i (save_features en cfg fl)"
  "neutral i (write_handoff en cfg f out)" "neutral i (persist en r)" "neutral i (clear_current j)"
  "neutral i (release_driver j)" "neutral i (bump_phase_attempt j)" "neutral i (hitl_at_qa j)"
  "neutral i (next_pending_feature j)" "neutral i (current_phase j)" "neutral i (write_backlog en dir fl)"
  unfolding log_h_def set_state_def save_features_def write_handoff_def persist_def clear_current_def
    release_driver_def bump_phase_attempt_def hitl_at_qa_def next_pending_feature_def current_phase_def
    write_backlog_def
  by (intro neutral_rules neutral_emit; simp)+

lemma neutral_append_decision [neutral_rules]: "neutral i (append_decision en workdir entry)"
proof -
  have "neutral i (hthen (create_dir_all en d) (append_file en p c))" for d p c
    by (intro neutral_rules)
  then show ?thesis
    unfolding neutral_def append_decision_def Let_def by blast
qed

lemma neutral_reload [neutral_rules]: "neutral i (reload_features en j)"
  unfolding reload_features_def by (intro neutral_rules)

lemma neutral_plan [neutral_rules]: "neutral i (plan_from_spec en workdir spec_id)"
  unfolding plan_from_spec_def Let_def by (intro neutral_rules; auto intro!: neutral_rules split: option.split)

lemma neutral_run_init [neutral_rules]: "neutral i (run_init en j)"
  unfolding run_init_def
  by (intro neutral_rules neutral_emit; auto intro!: neutral_rules neutral_emit split: option.split)

lemma phased_set_feature_state:
  assumes "\<And>st. P st \<Longrightarrow> \<exists>st'. feature_step st g fs = Some st' \<and> Q st'"
  shows "phased i P (set_feature_state en i g fs) (\<lambda>_. Q)"
  unfolding set_feature_state_def
  by (intro phased_bind [OF phased_neutral] phased_then [OF phased_neutral] phased_emit neutral_rules)
    (use assms in auto)

lemma phased_set_phase: "phased i ((=) Stage_Idle) (set_phase en i dest) (\<lambda>_. (=) Stage_Idle)"
  unfolding set_phase_def
  by (intro phased_bind [OF phased_neutral] phased_then [OF phased_neutral] phased_emit neutral_rules)
    (auto simp: guarded_step_Some)

lemma phased_set_session: "phased i ((=) Stage_Idle) (set_session en i sid g) (\<lambda>_. (=) (Stage_Coding g))"
  unfolding set_session_def
  by (intro phased_then [OF phased_neutral] phased_then [OF phased_set_feature_state [where Q = "(=) Stage_Idle"]]
      phased_emit neutral_rules)
    (auto simp: guarded_step_Some)

lemma phased_emit_pending:
  "phased i ((=) Stage_Idle) (emit_all (map (\<lambda>g. HarnessEvent_FeatureStateChanged i g FeatureState_Pending) gs))
     (\<lambda>_. (=) Stage_Idle)"
proof (induction gs)
  case Nil
  show ?case by (simp add: phased_ret)
next
  case (Cons g gs)
  have "phased i ((=) Stage_Idle) (emit_h (HarnessEvent_FeatureStateChanged i g FeatureState_Pending)) (\<lambda>_. (=) Stage_Idle)"
    by (rule phased_emit) (simp add: guarded_step_Some)
  from phased_then [OF this Cons.IH] show ?case by simp
qed

lemma phased_reset: "phased i ((=) Stage_Idle) (reset_blocked_features en i) (\<lambda>_. (=) Stage_Idle)"
proof -
  have "phased i ((=) Stage_Idle)
      (if gs = [] then hret 0
       else hthen (persist en r)
         (hthen (emit_all (map (\<lambda>g. HarnessEvent_FeatureStateChanged i g FeatureState_Pending) gs)) (hret (length gs))))
      (\<lambda>_. (=) Stage_Idle)" for gs r
    by (auto intro!: phased_ret phased_then [OF phased_neutral] phased_then [OF phased_emit_pending] neutral_rules)
  then show ?thesis
    unfolding reset_blocked_features_def Let_def
    by (intro phased_bind [OF phased_neutral] neutral_rules)
qed

lemma phased_verify_once:
  "phased i (busy_with g) (run_verify_once en i g)
     (\<lambda>(ok, out) st. st = (if ok then Stage_UnitGreen g else Stage_Coding g))"
proof -
  have coding: "phased i (busy_with g) (set_feature_state en i g FeatureState_Verifying) (\<lambda>_. (=) (Stage_Coding g))"
    by (rule phased_set_feature_state) (auto simp: guarded_step_Some)
  have started: "phased i ((=) (Stage_Coding g)) (emit_h (HarnessEvent_VerifyStarted i g)) (\<lambda>_. (=) (Stage_Coding g))"
    by (rule phased_emit) (simp add: guarded_step_Some)
  have completed: "phased i ((=) (Stage_Coding g)) (emit_h (HarnessEvent_VerifyCompleted i g ok out))
      (\<lambda>_. (=) (if ok then Stage_UnitGreen g else Stage_Coding g))" for ok out
    by (rule phased_emit) (simp add: guarded_step_Some)
  have script: "neutral i (case s of Some script \<Rightarrow> run_script en (a script) | None \<Rightarrow> verify_fallback en)" for s a
    unfolding verify_fallback_def by (cases s) (simp_all add: neutral_rules)
  have finish: "phased i ((=) (Stage_Coding g))
      (case r of (ok, out) \<Rightarrow> hthen (emit_h (HarnessEvent_VerifyCompleted i g ok out)) (hret (ok, out)))
      (\<lambda>(ok, out) st. st = (if ok then Stage_UnitGreen g else Stage_Coding g))" for r
    by (cases r) (auto intro!: phased_then [OF completed] phased_ret)
  show ?thesis
    unfolding run_verify_once_def
    by (rule phased_bind [OF phased_neutral], rule neutral_leaves, rule phased_then [OF coding],
        rule phased_then [OF phased_neutral], rule neutral_fields, rule phased_then [OF started],
        rule phased_bind [OF phased_neutral], rule neutral_load_config,
        rule phased_bind [OF phased_neutral], rule script, rule finish)
qed

section \<open>The driver follows the protocol\<close>

lemma neutral_await_repl [neutral_rules]: "neutral i (await_repl_ready en s)"
proof -
  have loop: "neutral i (repl_loop en h target n trusted)" for h target n trusted
  proof (induction n arbitrary: trusted)
    case 0
    show ?case by (simp add: neutral_rules)
  next
    case (Suc n)
    have "neutral i (case r of Inl _ \<Rightarrow> repl_loop en h target n trusted
        | Inr raw \<Rightarrow> let pane = he_lowercase en raw
           in if \<not> trusted \<and> shows_trust_dialog pane
              then hthen (hdrop (tmux_command en en_unit (Cmd_SendKeys h target [] True)))
                     (hthen (sleep en) (repl_loop en h target n True))
              else if shows_repl pane then sleep en else repl_loop en h target n trusted)" for r
      using Suc.IH unfolding tmux_command_def Let_def by (cases r) (auto intro!: neutral_rules)
    then show ?case unfolding repl_loop.simps tmux_command_def by (intro neutral_rules)
  qed
  have "neutral i (case r of Inr (Some h) \<Rightarrow>
      if h_kind h \<noteq> HostKind_Local then sleep en else repl_loop en h (pane_target s) 80 False | _ \<Rightarrow> hret ())" for r
    by (auto intro!: neutral_rules loop split: sum.split option.split)
  then show ?thesis unfolding await_repl_ready_def by (intro neutral_rules)
qed

lemma neutral_inject [neutral_rules]: "neutral i (inject_prompt en s prompt)"
proof -
  have keys: "neutral i (send_prompt_keys en what h target body enter)" for what h target body enter
    unfolding send_prompt_keys_def tmux_command_def by (intro neutral_rules)
  have "neutral i (case r of Inl e \<Rightarrow> bail (he_show_store en e) | Inr None \<Rightarrow> bail ''session host missing''
      | Inr (Some h) \<Rightarrow> hthen (send_prompt_keys en ''send_keys failed'' h (pane_target s) prompt False)
              (hthen (sleep en) (send_prompt_keys en ''submit Enter failed'' h (pane_target s) [] True)))" for r
    by (auto intro!: neutral_rules keys split: sum.split option.split)
  then show ?thesis unfolding inject_prompt_def by (intro neutral_rules)
qed

lemma neutral_agents [neutral_rules]:
  "neutral i (teardown_session en s)" "neutral i (spawn_agent en what new)" "neutral i (spawn_qa_agent en j wd cfg f)"
  "neutral i (spawn_role_agent en j wd cfg role)" "neutral i (prepare_verdict en dir p)"
  unfolding teardown_session_def spawn_agent_def spawn_qa_agent_def spawn_role_agent_def prepare_verdict_def
  by (intro neutral_rules)+

lemma neutral_tracker [neutral_rules]: "neutral i (transition_tracker en j f phase)"
  unfolding transition_tracker_def by (auto intro!: neutral_rules split: option.split)

lemma phased_spawn_feature:
  "phased i ((=) Stage_Idle) (spawn_feature_agent en i wd cfg f) (\<lambda>_. (=) (Stage_Coding (ft_id f)))"
proof -
  have "phased i (\<lambda>st. \<forall>x. r = Inr x \<longrightarrow> Stage_Coding (ft_id f) = st)
      (case r of Inr _ \<Rightarrow> hret s | Inl e \<Rightarrow> hthen (hdrop (on_sessions en sh (delete_session_locked app sid True))) (bail e))
      (\<lambda>_. (=) (Stage_Coding (ft_id f)))" for r :: "string + unit" and s e sh app sid
    by (cases r) (auto intro!: phased_ret phased_then [OF phased_neutral] phased_bail neutral_rules)
  then show ?thesis
    unfolding spawn_feature_agent_def
    by (intro phased_bind [OF phased_neutral] phased_bind [OF phased_try [OF phased_set_session]] neutral_rules)
qed

lemma phased_ready: "phased i ((=) (Stage_UnitGreen g)) (set_feature_state en i g FeatureState_ReadyToTest)
    (\<lambda>_. (=) (Stage_QaReached g))"
  by (rule phased_set_feature_state) (simp add: guarded_step_Some)

lemma phased_qa_gate:
  "phased i ((=) (Stage_UnitGreen (ft_id f))) (qa_gate en i wd cfg f grace timeout) (\<lambda>_. (=) (Stage_QaReached (ft_id f)))"
proof -
  have "neutral i (case hc_qa_script c of Some script \<Rightarrow> run_script en (a script) | None \<Rightarrow> hret x)" for c a x
    by (auto intro!: neutral_rules split: option.split)
  then have once: "phased i ((=) (Stage_UnitGreen (ft_id f))) (run_qa_once en i (ft_id f)) (\<lambda>_. (=) (Stage_QaReached (ft_id f)))"
    unfolding run_qa_once_def
    by (intro phased_bind [OF phased_neutral [OF neutral_leaves(10)]] phased_then [OF phased_ready]
        phased_neutral neutral_rules)
  have agent: "phased i ((=) (Stage_UnitGreen (ft_id f))) (run_qa_agent_gate en i wd cfg f grace timeout)
      (\<lambda>_. (=) (Stage_QaReached (ft_id f)))"
    unfolding run_qa_agent_gate_def Let_def
    by (intro phased_then [OF phased_ready] phased_neutral neutral_rules)
  show ?thesis using once agent by (simp add: qa_gate_def)
qed

lemma phased_record_failure:
  "phased i (busy_with g) (record_feature_failure en i g out)
     (\<lambda>blocked. (=) (if blocked then Stage_Halted else Stage_Coding g))"
proof -
  have "phased i (busy_with g) (emit_h (HarnessEvent_FeatureStateChanged i g
      (if blocked then FeatureState_Blocked else FeatureState_Coding)))
      (\<lambda>_. (=) (if blocked then Stage_Halted else Stage_Coding g))" for blocked
    by (rule phased_emit) (auto simp: guarded_step_Some)
  then have "phased i (busy_with g)
      (hthen (persist en r) (hthen (emit_h (HarnessEvent_FeatureStateChanged i g
          (if blocked then FeatureState_Blocked else FeatureState_Coding))) (hret blocked)))
      (\<lambda>b. (=) (if b then Stage_Halted else Stage_Coding g))" for r blocked
    by (intro phased_then [OF phased_neutral] phased_then [where Q = "(=) (if blocked then Stage_Halted else Stage_Coding g)"]
        phased_ret neutral_rules) auto
  then show ?thesis
    unfolding record_feature_failure_def Let_def
    by (intro phased_bind [OF phased_neutral] neutral_rules)
qed

definition round_stage :: "string \<Rightarrow> gate_round \<Rightarrow> drive_stage" where
  "round_stage g r =
     (case r of GateRound_Retry \<Rightarrow> Stage_Coding g | GateRound_Halt \<Rightarrow> Stage_Halted | GateRound_Done \<Rightarrow> Stage_Idle)"

lemma phased_gate_failure:
  "phased i (busy_with (ft_id f)) (handle_gate_failure en i f s label out grace timeout)
     (\<lambda>halted. (=) (if halted then Stage_Halted else Stage_Coding (ft_id f)))"
proof -
  have "phased i ((=) (if blocked then Stage_Halted else Stage_Coding (ft_id f)))
      (if blocked then hthen (set_state i st1) (hthen (log_h i g t1) (hret True))
       else hthen (log_h i g t2) (hthen (set_state i st2) (hthen (inject_prompt en s p)
         (hbind (settle en grace timeout s) (\<lambda>_. hret False)))))
      (\<lambda>halted. (=) (if halted then Stage_Halted else Stage_Coding (ft_id f)))" for blocked st1 st2 g t1 t2 p
    by (auto intro!: phased_ret phased_then [OF phased_neutral] phased_bind [OF phased_neutral] neutral_rules)
  then show ?thesis
    unfolding handle_gate_failure_def by (intro phased_bind [OF phased_record_failure])
qed

lemma phased_failed_round:
  "phased i (busy_with (ft_id f)) (failed_round en i f s label out grace timeout) (\<lambda>r. (=) (round_stage (ft_id f) r))"
  unfolding failed_round_def
  by (rule phased_bind [OF phased_gate_failure], rule phased_ret) (auto simp: round_stage_def)

lemma phased_both_green:
  "phased i ((=) (Stage_QaReached (ft_id f))) (both_green en i f unit_out qa_out) (\<lambda>r. (=) (round_stage (ft_id f) r))"
proof -
  have await: "phased i ((=) (Stage_QaReached (ft_id f))) (await_confirm en i (ft_id f)) (\<lambda>_. (=) Stage_Halted)"
    unfolding await_confirm_def
    by (intro phased_then [OF phased_set_feature_state [where Q = "(=) Stage_Halted"]] phased_neutral neutral_rules)
      (simp add: guarded_step_Some)
  have finished: "phased i ((=) (Stage_QaReached (ft_id f))) (set_feature_state en i (ft_id f) FeatureState_Done) (\<lambda>_. (=) Stage_Idle)"
    by (rule phased_set_feature_state) (simp add: guarded_step_Some)
  have "neutral i (case x of None \<Rightarrow> hret () | Some f \<Rightarrow> hbind (load_config en wd) (\<lambda>cfg.
      hthen (write_handoff en cfg f out) (emit_h (HarnessEvent_HandoffWritten i g))))" for x wd out g
    by (cases x) (auto intro!: neutral_rules neutral_emit)
  then have marked: "phased i ((=) (Stage_QaReached (ft_id f))) (mark_feature_done en i (ft_id f) out) (\<lambda>_. (=) Stage_Idle)" for out
    unfolding mark_feature_done_def
    by (intro phased_then [OF finished] phased_neutral neutral_rules)
  have "phased i ((=) (Stage_QaReached (ft_id f)))
     (if hitl then hthen (await_confirm en i (ft_id f)) (hthen (log_h i g t1) (hret GateRound_Halt))
      else hthen (mark_feature_done en i (ft_id f) out)
        (hthen (transition_tracker en i f ph) (hthen (log_h i g t2) (hret GateRound_Done))))
     (\<lambda>r. (=) (round_stage (ft_id f) r))" for hitl g t1 t2 out ph
    by (auto intro!: phased_then [OF await] phased_then [OF marked] phased_then [OF phased_neutral] phased_ret
        neutral_rules simp: round_stage_def)
  then show ?thesis
    unfolding both_green_def by (intro phased_bind [OF phased_neutral] neutral_rules)
qed

lemma phased_gate_iteration:
  "phased i (busy_with (ft_id f)) (gate_iteration en i wd cfg f s grace timeout) (\<lambda>r. (=) (round_stage (ft_id f) r))"
proof -
  have failed: "P st \<Longrightarrow> busy_with (ft_id f) st" if "P = (=) (Stage_QaReached (ft_id f)) \<or> P = (=) (Stage_Coding (ft_id f))" for P st
    using that by auto
  have red: "phased i P (failed_round en i f s label out grace timeout) (\<lambda>r. (=) (round_stage (ft_id f) r))"
    if "P = (=) (Stage_QaReached (ft_id f)) \<or> P = (=) (Stage_Coding (ft_id f))" for P label out
    by (rule phased_weaken [OF phased_failed_round failed [OF that]])
  have after: "phased i ((=) (Stage_UnitGreen (ft_id f))) (after_unit en i wd cfg f s grace timeout out)
      (\<lambda>r. (=) (round_stage (ft_id f) r))" for out
    unfolding after_unit_def
    by (intro phased_then [OF phased_neutral] phased_bind [OF phased_qa_gate] neutral_rules)
      (auto intro!: phased_both_green red split: prod.split)
  have branch: "phased i (case r of (ok, out) \<Rightarrow> \<lambda>st. st = (if ok then Stage_UnitGreen (ft_id f) else Stage_Coding (ft_id f)))
      (case r of (ok, out) \<Rightarrow> if ok then after_unit en i wd cfg f s grace timeout out
        else failed_round en i f s label out grace timeout)
      (\<lambda>r. (=) (round_stage (ft_id f) r))" for r label
    using after red by (cases r) (auto simp: eq_commute [of _ "Stage_UnitGreen _"] eq_commute [of _ "Stage_Coding _"])
  show ?thesis
    unfolding gate_iteration_def
    by (intro phased_then [OF phased_neutral] phased_bind [OF phased_verify_once] branch neutral_rules)
qed

lemma phased_gate_loop:
  "phased i (busy_with (ft_id f)) (gate_loop n en i wd cfg f s grace timeout) (\<lambda>r st. r = Some True \<longrightarrow> st = Stage_Idle)"
proof (induction n)
  case 0
  show ?case by (simp add: phased_ret)
next
  case (Suc n)
  have "phased i ((=) (round_stage (ft_id f) r))
      (case r of GateRound_Retry \<Rightarrow> gate_loop n en i wd cfg f s grace timeout
        | GateRound_Halt \<Rightarrow> hret (Some False) | GateRound_Done \<Rightarrow> hret (Some True))
      (\<lambda>r st. r = Some True \<longrightarrow> st = Stage_Idle)" for r
    by (cases r) (auto simp: round_stage_def intro!: phased_ret phased_weaken [OF Suc.IH])
  then show ?case
    unfolding gate_loop.simps by (rule phased_bind [OF phased_gate_iteration])
qed

lemma phased_drive_feature:
  "phased i ((=) Stage_Idle) (drive_feature fuel en i wd f) (\<lambda>r st. r = Some True \<longrightarrow> st = Stage_Idle)"
proof -
  have loop: "phased i ((=) (Stage_Coding (ft_id f))) (gate_loop fuel en i wd cfg f s grace timeout)
      (\<lambda>r st. r = Some True \<longrightarrow> st = Stage_Idle)" for cfg s grace timeout
    by (rule phased_weaken [OF phased_gate_loop]) auto
  have stop: "neutral i (hthen (hwhen b (teardown_session en s)) (hret r))" for b s and r :: "bool option"
    by (intro neutral_rules)
  have rest: "phased i (\<lambda>st. r = Some True \<longrightarrow> st = Stage_Idle)
      (hthen (hwhen (r = Some True) (teardown_session en s)) (hret r)) (\<lambda>r st. r = Some True \<longrightarrow> st = Stage_Idle)" for r s
    by (intro phased_then [OF phased_neutral] phased_ret neutral_rules)
  show ?thesis
    unfolding drive_feature_def
    by (rule phased_then [OF phased_neutral], rule neutral_fields, rule phased_then [OF phased_neutral], rule neutral_fields,
        rule phased_bind [OF phased_neutral], rule neutral_load_config, rule phased_bind [OF phased_spawn_feature],
        rule phased_then [OF phased_neutral], rule neutral_tracker, rule phased_then [OF phased_neutral], rule neutral_inject,
        rule phased_then [OF phased_neutral], rule neutral_fields, rule phased_bind [OF phased_neutral],
        rule neutral_leaves, rule phased_bind [OF loop], rule rest)
qed

lemma phased_halt_at_gate:
  "phased i ((=) Stage_Idle) (halt_at_gate en i wd decision phase st message) (\<lambda>_. (=) Stage_Idle)"
  unfolding halt_at_gate_def
  by (intro phased_then [OF phased_neutral] phased_then [OF phased_set_phase] phased_neutral neutral_rules)

lemma neutral_role_verdict [neutral_rules]: "neutral i (role_verdict_of en j wd cfg phase role spec_id)"
  unfolding role_verdict_of_def Let_def by (intro neutral_rules)

lemma phased_role_round: "phased i ((=) Stage_Idle) (role_round en i wd phase role) (\<lambda>_. (=) Stage_Idle)"
proof -
  have decision: "phased i ((=) Stage_Idle) (role_decision en i wd fl phase role attempt passed summary) (\<lambda>_. (=) Stage_Idle)"
    for fl attempt passed summary
    unfolding role_decision_def
    by (cases "decide_gate passed attempt (fl_max_retries fl) (fl_hitl_on_block fl)")
      (auto intro!: phased_then [OF phased_neutral] phased_then [OF phased_halt_at_gate] phased_ret neutral_rules)
  have result: "phased i ((=) Stage_Idle) (emit_h (HarnessEvent_GateResult i role passed attempt summary)) (\<lambda>_. (=) Stage_Idle)"
    for passed attempt summary
    by (rule phased_emit) (simp add: guarded_step_Some)
  have "phased i ((=) Stage_Idle)
      (case x of None \<Rightarrow> bail e | Some spec_id \<Rightarrow> hbind (role_verdict_of en i wd cfg phase role spec_id) (\<lambda>(passed, summary).
           hbind (bump_phase_attempt i) (\<lambda>attempt.
           hthen (emit_h (HarnessEvent_GateResult i role passed attempt summary))
             (role_decision en i wd fl phase role attempt passed summary)))) (\<lambda>_. (=) Stage_Idle)" for x e cfg fl
    by (cases x)
      (auto intro!: phased_bail phased_bind [OF phased_neutral] phased_then [OF result] decision neutral_rules split: prod.split)
  then show ?thesis
    unfolding role_round_def by (rule phased_bind [OF phased_neutral [OF neutral_load_config]])
qed

lemma phased_role_gate: "phased i ((=) Stage_Idle) (run_role_gate fuel en i wd phase) (\<lambda>_. (=) Stage_Idle)"
proof -
  have "phased i ((=) Stage_Idle) (role_gate_loop fuel en i wd phase role) (\<lambda>_. (=) Stage_Idle)" for role
  proof (induction fuel)
    case (Suc n)
    have "phased i ((=) Stage_Idle) (case r of None \<Rightarrow> role_gate_loop n en i wd phase role | Some passed \<Rightarrow> hret (Some passed))
        (\<lambda>_. (=) Stage_Idle)" for r
      using Suc.IH by (cases r) (auto intro!: phased_ret)
    then show ?case
      unfolding role_gate_loop.simps by (rule phased_bind [OF phased_role_round])
  qed (simp add: phased_ret)
  then show ?thesis
    unfolding run_role_gate_def by (auto intro!: phased_ret split: option.split)
qed

lemma phased_behind_gate:
  assumes "phased i ((=) Stage_Idle) gate (\<lambda>_. (=) Stage_Idle)" and "phased i ((=) Stage_Idle) m (\<lambda>_. (=) Stage_Idle)"
  shows "phased i ((=) Stage_Idle) (behind_gate gate m) (\<lambda>_. (=) Stage_Idle)"
  unfolding behind_gate_def
  by (rule phased_bind [OF assms(1)]) (auto intro!: phased_ret assms(2) split: option.split)

lemma phased_pre_phases: "phased i ((=) Stage_Idle) (run_pre_feature_phases fuel en i wd) (\<lambda>_. (=) Stage_Idle)"
proof -
  have "phased i ((=) Stage_Idle)
      (case x of None \<Rightarrow> bail e | Some spec_id \<Rightarrow> hthen (log_h i None (t spec_id))
            (hbind (plan_from_spec en wd spec_id) (\<lambda>derived.
             hthen (save_features en cfg (copy_knobs_from derived fl))
               (hthen (reload_features en i) (set_phase en i SpecPhase_Executing))))) (\<lambda>_. (=) Stage_Idle)" for x e cfg fl t
    by (cases x)
      (auto intro!: phased_bail phased_bind [OF phased_neutral] phased_then [OF phased_neutral] phased_set_phase neutral_rules)
  then have "phased i ((=) Stage_Idle) (decompose en i wd) (\<lambda>_. (=) Stage_Idle)"
    unfolding decompose_def
    by (intro phased_then [OF phased_set_phase] phased_bind [OF phased_neutral] neutral_rules)
  then have "phased i ((=) Stage_Idle) (hthen (decompose en i wd) (hret (Some ()))) (\<lambda>_. (=) Stage_Idle)"
    by (rule phased_then) (rule phased_ret)
  then show ?thesis
    unfolding run_pre_feature_phases_def
    by (intro phased_then [OF phased_set_phase] phased_behind_gate phased_role_gate)
qed

lemma phased_complete: "phased i ((=) Stage_Idle) (complete_run i) (\<lambda>_ _. True)"
  unfolding complete_run_def
  by (intro phased_then [OF phased_neutral] phased_then [OF phased_emit [where Q = "(=) Stage_Halted"]] phased_ret neutral_rules)
    (auto simp: guarded_step_Some)

lemma phased_finish: "phased i ((=) Stage_Idle) (finish_run fuel en i wd phases_on) (\<lambda>_ _. True)"
proof -
  have "phased i ((=) Stage_Idle) (hthen (set_phase en i SpecPhase_Done) (hret (Some ()))) (\<lambda>_. (=) Stage_Idle)"
    by (rule phased_then [OF phased_set_phase]) (rule phased_ret)
  then have review: "phased i ((=) Stage_Idle) (run_review_phase fuel en i wd) (\<lambda>_. (=) Stage_Idle)"
    unfolding run_review_phase_def
    by (rule phased_then [OF phased_set_phase phased_behind_gate [OF phased_role_gate]])
  have "phased i ((=) Stage_Idle) (if p = SpecPhase_Done then complete_run i else hret (Some ())) (\<lambda>_ _. True)" for p
    using phased_complete by (simp add: phased_ret)
  then have "phased i ((=) Stage_Idle) (hbind (current_phase i) (\<lambda>p.
      if p = SpecPhase_Done then complete_run i else hret (Some ()))) (\<lambda>_ _. True)"
    by (intro phased_bind [OF phased_neutral] neutral_rules)
  then have "phased i ((=) Stage_Idle) (case r of None \<Rightarrow> hret None | Some _ \<Rightarrow> hbind (current_phase i) (\<lambda>p.
      if p = SpecPhase_Done then complete_run i else hret (Some ()))) (\<lambda>_ _. True)" for r :: "unit option"
    by (cases r) (simp_all add: phased_ret)
  then show ?thesis
    unfolding finish_run_def using phased_complete by (auto intro!: phased_bind [OF review])
qed

lemma phased_feature_loop: "phased i ((=) Stage_Idle) (feature_loop n fuel en i wd phases_on) (\<lambda>_ _. True)"
proof (induction n)
  case 0
  show ?case by (simp add: phased_ret)
next
  case (Suc n)
  have "phased i (\<lambda>st. r = Some True \<longrightarrow> st = Stage_Idle)
      (case r of None \<Rightarrow> hret None | Some passed \<Rightarrow>
         if passed then feature_loop n fuel en i wd phases_on else hret (Some ())) (\<lambda>_ _. True)" for r
    by (cases r) (auto intro!: phased_ret phased_weaken [OF Suc.IH])
  then have "phased i ((=) Stage_Idle)
      (case found of None \<Rightarrow> finish_run fuel en i wd phases_on | Some f \<Rightarrow>
        hbind (drive_feature fuel en i wd f) (\<lambda>r. case r of None \<Rightarrow> hret None | Some passed \<Rightarrow>
          if passed then feature_loop n fuel en i wd phases_on else hret (Some ()))) (\<lambda>_ _. True)" for found
    by (cases found) (auto intro!: phased_finish phased_bind [OF phased_drive_feature])
  then show ?case
    unfolding feature_loop.simps by (intro phased_bind [OF phased_neutral] neutral_rules)
qed

lemma phased_drive: "phased i ((=) Stage_Idle) (drive n fuel en i) (\<lambda>_ _. True)"
proof -
  have "phased i ((=) Stage_Idle) (if p \<noteq> SpecPhase_Executing then hret (Some ()) else feature_loop n fuel en i wd True)
      (\<lambda>_ _. True)" for p wd
    using phased_feature_loop by (simp add: phased_ret)
  then have "phased i ((=) Stage_Idle) (case r of None \<Rightarrow> hret None | Some _ \<Rightarrow> hbind (current_phase i) (\<lambda>p.
      if p \<noteq> SpecPhase_Executing then hret (Some ()) else feature_loop n fuel en i wd True)) (\<lambda>_ _. True)" for r :: "unit option" and wd
    by (cases r) (auto intro!: phased_ret phased_bind [OF phased_neutral] neutral_rules)
  then have phases: "phased i ((=) Stage_Idle) (drive_phases n fuel en i wd on) (\<lambda>_ _. True)" for wd on
    unfolding drive_phases_def using phased_feature_loop by (auto intro!: phased_bind [OF phased_pre_phases])
  have "phased i ((=) Stage_Idle) (if b then bail e else
        hthen (set_state i HarnessState_Running)
        (hbind (reset_blocked_features en i) (\<lambda>reset.
         hthen (hwhen (0 < reset) (log_h i None (t reset)))
        (hbind (get_run i) (\<lambda>r.
         hbind (load_config en (hr_workdir r)) (\<lambda>cfg.
           drive_phases n fuel en i (hr_workdir r) (roles_on cfg))))))) (\<lambda>_ _. True)" for b e t
    by (auto intro!: phased_bail phased_then [OF phased_neutral] phased_bind [OF phased_reset] phased_bind [OF phased_neutral]
        phases neutral_rules)
  then have inner: "phased i ((=) Stage_Idle) (drive_inner n fuel en i) (\<lambda>_ _. True)"
    unfolding drive_inner_def by (intro phased_then [OF phased_neutral] phased_bind [OF phased_neutral] neutral_rules)
  have report: "neutral i (report_failure i e)" for e
    unfolding report_failure_def
    by (intro neutral_rules) (auto intro!: neutral_rules neutral_emit split: sum.split)
  have "neutral i (case r of Inr None \<Rightarrow> hret None | Inr (Some _) \<Rightarrow> hthen (release_driver i) (hret (Some ()))
       | Inl e \<Rightarrow> hthen (release_driver i) (hthen (report_failure i e) (hret (Some ()))))" for r :: "string + unit option"
    by (auto intro!: neutral_rules report split: sum.split option.split)
  then have any_stage: "phased i P (case r of Inr None \<Rightarrow> hret None | Inr (Some _) \<Rightarrow> hthen (release_driver i) (hret (Some ()))
       | Inl e \<Rightarrow> hthen (release_driver i) (hthen (report_failure i e) (hret (Some ())))) (\<lambda>_ _. True)"
    for P and r :: "string + unit option"
    by (rule phased_weaken [OF phased_neutral]) simp_all
  show ?thesis
    unfolding drive_def
    by (intro phased_bind [OF phased_try [OF inner]] any_stage)
qed

section \<open>What the protocol means\<close>

text \<open>
  A feature gets done only after a green unit gate and, after that, a QA gate, with no red unit gate in
  between; an agent is spawned for a feature only once every feature with an agent before it is done.
\<close>

definition done_behind_gates :: "uuid \<Rightarrow> harness_event list \<Rightarrow> bool" where
  "done_behind_gates i evs \<longleftrightarrow>
     (\<forall>before g after. evs = before @ HarnessEvent_FeatureStateChanged i g FeatureState_Done # after \<longrightarrow>
        (\<exists>a out b c. before = a @ HarnessEvent_VerifyCompleted i g True out # b @
             HarnessEvent_FeatureStateChanged i g FeatureState_ReadyToTest # c \<and>
           (\<forall>o'. HarnessEvent_VerifyCompleted i g False o' \<notin> set (b @ c))))"

definition one_agent_at_a_time :: "uuid \<Rightarrow> harness_event list \<Rightarrow> bool" where
  "one_agent_at_a_time i evs \<longleftrightarrow>
     (\<forall>a g s m h t b. evs = a @ HarnessEvent_AgentSpawned i g s # m @ HarnessEvent_AgentSpawned i h t # b \<longrightarrow>
        HarnessEvent_FeatureStateChanged i g FeatureState_Done \<in> set m)"

text \<open>How a stage is entered.\<close>

lemma follow_snoc:
  "follow i st (m @ [e]) = Some st' \<longleftrightarrow> (\<exists>st1. follow i st m = Some st1 \<and> protocol_step i st1 e = Some st')"
  by (auto simp: follow_append split: option.splits)

lemma step_into_green:
  "protocol_step i st e = Some (Stage_UnitGreen g) \<Longrightarrow>
     st = Stage_UnitGreen g \<and> (\<forall>o'. e \<noteq> HarnessEvent_VerifyCompleted i g False o') \<or>
     (\<exists>out. e = HarnessEvent_VerifyCompleted i g True out)"
proof (cases e)
  case (HarnessEvent_FeatureStateChanged j h fs)
  then show "protocol_step i st e = Some (Stage_UnitGreen g) \<Longrightarrow> ?thesis"
    by (cases fs) (auto split: if_splits simp: guarded_step_def)
qed (auto split: if_splits simp: guarded_step_def)

lemma step_into_qa:
  "protocol_step i st e = Some (Stage_QaReached g) \<Longrightarrow>
     st = Stage_QaReached g \<and> (\<forall>o'. e \<noteq> HarnessEvent_VerifyCompleted i g False o') \<or>
     st = Stage_UnitGreen g \<and> e = HarnessEvent_FeatureStateChanged i g FeatureState_ReadyToTest"
proof (cases e)
  case (HarnessEvent_FeatureStateChanged j h fs)
  then show "protocol_step i st e = Some (Stage_QaReached g) \<Longrightarrow> ?thesis"
    by (cases fs) (auto split: if_splits simp: guarded_step_def)
qed (auto split: if_splits simp: guarded_step_def)

lemma busy_with_unique: "busy_with g st \<Longrightarrow> busy_with h st \<Longrightarrow> h = g"
  by (cases st) auto

lemma step_from_busy:
  "protocol_step i st e = Some st' \<Longrightarrow> busy_with g st \<Longrightarrow>
     busy_with g st' \<or> st' = Stage_Halted \<or>
     st' = Stage_Idle \<and> e = HarnessEvent_FeatureStateChanged i g FeatureState_Done"
proof (cases e)
  case (HarnessEvent_FeatureStateChanged j h fs)
  then show "protocol_step i st e = Some st' \<Longrightarrow> busy_with g st \<Longrightarrow> ?thesis"
    by (cases fs) (auto split: if_splits simp: guarded_step_def dest: busy_with_unique)
qed (auto split: if_splits simp: guarded_step_def)

lemma step_from_halted: "protocol_step i Stage_Halted e = Some st' \<Longrightarrow> st' = Stage_Halted"
proof (cases e)
  case (HarnessEvent_FeatureStateChanged j h fs)
  then show "protocol_step i Stage_Halted e = Some st' \<Longrightarrow> ?thesis"
    by (cases fs) (auto split: if_splits simp: guarded_step_def)
qed (auto split: if_splits simp: guarded_step_def)

lemma green_needs_verify:
  "follow i Stage_Idle m = Some (Stage_UnitGreen g) \<Longrightarrow>
     \<exists>a out b. m = a @ HarnessEvent_VerifyCompleted i g True out # b \<and>
       (\<forall>o'. HarnessEvent_VerifyCompleted i g False o' \<notin> set b)"
proof (induction m rule: rev_induct)
  case (snoc e m)
  then obtain st1 where st1: "follow i Stage_Idle m = Some st1" "protocol_step i st1 e = Some (Stage_UnitGreen g)"
    by (auto simp: follow_snoc)
  from step_into_green [OF st1(2)] show ?case
  proof
    assume stays: "st1 = Stage_UnitGreen g \<and> (\<forall>o'. e \<noteq> HarnessEvent_VerifyCompleted i g False o')"
    with snoc.IH st1(1) obtain a out b where "m = a @ HarnessEvent_VerifyCompleted i g True out # b"
      "\<forall>o'. HarnessEvent_VerifyCompleted i g False o' \<notin> set b" by auto
    with stays show ?thesis
      by (intro exI [of _ a] exI [of _ out] exI [of _ "b @ [e]"]) auto
  next
    assume "\<exists>out. e = HarnessEvent_VerifyCompleted i g True out"
    then obtain out where "e = HarnessEvent_VerifyCompleted i g True out" by blast
    then show ?thesis by (intro exI [of _ m] exI [of _ out] exI [of _ "[]"]) simp
  qed
qed simp

lemma qa_needs_green:
  "follow i Stage_Idle m = Some (Stage_QaReached g) \<Longrightarrow>
     \<exists>a out b c. m = a @ HarnessEvent_VerifyCompleted i g True out # b @
         HarnessEvent_FeatureStateChanged i g FeatureState_ReadyToTest # c \<and>
       (\<forall>o'. HarnessEvent_VerifyCompleted i g False o' \<notin> set (b @ c))"
proof (induction m rule: rev_induct)
  case (snoc e m)
  then obtain st1 where st1: "follow i Stage_Idle m = Some st1" "protocol_step i st1 e = Some (Stage_QaReached g)"
    by (auto simp: follow_snoc)
  from step_into_qa [OF st1(2)] show ?case
  proof
    assume stays: "st1 = Stage_QaReached g \<and> (\<forall>o'. e \<noteq> HarnessEvent_VerifyCompleted i g False o')"
    with snoc.IH st1(1) obtain a out b c where "m = a @ HarnessEvent_VerifyCompleted i g True out # b @
         HarnessEvent_FeatureStateChanged i g FeatureState_ReadyToTest # c"
      "\<forall>o'. HarnessEvent_VerifyCompleted i g False o' \<notin> set (b @ c)" by auto
    with stays show ?thesis
      by (intro exI [of _ a] exI [of _ out] exI [of _ b] exI [of _ "c @ [e]"]) auto
  next
    assume ready: "st1 = Stage_UnitGreen g \<and> e = HarnessEvent_FeatureStateChanged i g FeatureState_ReadyToTest"
    with green_needs_verify st1(1) obtain a out b where "m = a @ HarnessEvent_VerifyCompleted i g True out # b"
      "\<forall>o'. HarnessEvent_VerifyCompleted i g False o' \<notin> set b" by blast
    with ready show ?thesis
      by (intro exI [of _ a] exI [of _ out] exI [of _ b] exI [of _ "[]"]) auto
  qed
qed simp

lemma idle_after_busy:
  "follow i st m = Some Stage_Idle \<Longrightarrow> busy_with g st \<Longrightarrow>
     HarnessEvent_FeatureStateChanged i g FeatureState_Done \<in> set m"
proof (induction m arbitrary: st)
  case (Cons e m)
  have halted: "follow i Stage_Halted m = Some st' \<Longrightarrow> st' = Stage_Halted" for st' and m
    by (induction m) (auto split: option.splits dest: step_from_halted)
  from Cons.prems(1) obtain st1 where st1: "protocol_step i st e = Some st1" "follow i st1 m = Some Stage_Idle"
    by (auto split: option.splits)
  from step_from_busy [OF st1(1) Cons.prems(2)] halted st1(2) Cons.IH [OF st1(2)] show ?case by auto
qed auto

lemma followed_means:
  assumes "follow i Stage_Idle evs = Some st"
  shows "done_behind_gates i evs" "one_agent_at_a_time i evs"
proof -
  show "done_behind_gates i evs"
    unfolding done_behind_gates_def
  proof (intro allI impI)
    fix before g after
    assume "evs = before @ HarnessEvent_FeatureStateChanged i g FeatureState_Done # after"
    with assms have "follow i Stage_Idle before = Some (Stage_QaReached g)"
      by (auto simp: follow_append guarded_step_def split: option.splits if_splits)
    from qa_needs_green [OF this] show "\<exists>a out b c. before = a @ HarnessEvent_VerifyCompleted i g True out # b @
             HarnessEvent_FeatureStateChanged i g FeatureState_ReadyToTest # c \<and>
           (\<forall>o'. HarnessEvent_VerifyCompleted i g False o' \<notin> set (b @ c))" .
  qed
  show "one_agent_at_a_time i evs"
    unfolding one_agent_at_a_time_def
  proof (intro allI impI)
    fix a g s m h t b
    assume "evs = a @ HarnessEvent_AgentSpawned i g s # m @ HarnessEvent_AgentSpawned i h t # b"
    with assms have "follow i (Stage_Coding g) m = Some Stage_Idle"
      by (auto simp: follow_append guarded_step_def split: option.splits if_splits)
    then show "HarnessEvent_FeatureStateChanged i g FeatureState_Done \<in> set m"
      by (rule idle_after_busy) simp
  qed
qed


end
