(* ===== verification/Harness_Termination.thy ===== *)
theory Harness_Termination
  imports Harness_Driver Lifecycle_State
begin

text \<open>
  The driver of \<open>crates/agentum-server/src/harness.rs\<close> returns. The argument is about what a run keeps in
  memory: every red gate uses up an attempt of the feature, every finished feature leaves the pending
  ones, every round of a role gate counts an attempt of the phase. Another process may remove the run at
  any time; the next look at it then ends the drive.
\<close>

section \<open>Facts about the run in memory\<close>

type_synonym run_fact = "harness_run option \<Rightarrow> bool"

text \<open>\<open>mem i P m Q\<close>: from a run in \<open>P\<close>, if \<open>m\<close> returns \<open>x\<close>, the run is in \<open>Q x\<close>; \<open>frame\<close>: also after an error.\<close>

definition mem :: "uuid \<Rightarrow> run_fact \<Rightarrow> 'a hact \<Rightarrow> ('a \<Rightarrow> run_fact) \<Rightarrow> bool" where
  "mem i P m Q \<longleftrightarrow> (\<forall>w x w'. P (hw_runs w i) \<longrightarrow> m w = (w', Inr x) \<longrightarrow> Q x (hw_runs w' i))"

definition frame :: "uuid \<Rightarrow> run_fact \<Rightarrow> 'a hact \<Rightarrow> bool" where
  "frame i P m \<longleftrightarrow> (\<forall>w. P (hw_runs w i) \<longrightarrow> P (hw_runs (fst (m w)) i))"

named_theorems frame_rules

lemma mem_ret: "(\<And>o'. P o' \<Longrightarrow> Q x o') \<Longrightarrow> mem i P (hret x) Q"
  by (simp add: mem_def hret_def)

lemma mem_bail: "mem i P (bail e) Q"
  by (simp add: mem_def bail_def)

lemma mem_bind:
  assumes m: "mem i P m Q" and f: "\<And>x. mem i (Q x) (f x) R"
  shows "mem i P (hbind m f) R"
  unfolding mem_def
proof (intro allI impI)
  fix w :: hworld and y w2
  assume P: "P (hw_runs w i)" and run: "hbind m f w = (w2, Inr y)"
  from run obtain w1 x where x: "m w = (w1, Inr x)" "f x w1 = (w2, Inr y)"
    by (auto simp: hbind_def split: prod.splits sum.splits)
  from m P x(1) have "Q x (hw_runs w1 i)" by (simp add: mem_def)
  with f [of x] x(2) show "R y (hw_runs w2 i)" by (simp add: mem_def)
qed

lemma mem_then: "mem i P m (\<lambda>_. Q) \<Longrightarrow> mem i Q n R \<Longrightarrow> mem i P (hthen m n) R"
  unfolding hthen_def by (rule mem_bind)

lemma mem_weaken:
  "mem i P m Q \<Longrightarrow> (\<And>o'. P' o' \<Longrightarrow> P o') \<Longrightarrow> (\<And>x o'. Q x o' \<Longrightarrow> Q' x o') \<Longrightarrow> mem i P' m Q'"
  unfolding mem_def by blast

lemma mem_frame: "frame i P m \<Longrightarrow> mem i P m (\<lambda>_. P)"
  by (fastforce simp: mem_def frame_def)

lemma mem_modify: "(\<And>r. P (Some r) \<Longrightarrow> Q (f r) (Some (f r))) \<Longrightarrow> mem i P (modify_run i f) Q"
  by (auto simp: mem_def modify_run_def split: option.splits)

lemma mem_get: "(\<And>r. P (Some r) \<Longrightarrow> Q r (Some r)) \<Longrightarrow> mem i P (get_run i) Q"
  by (auto simp: mem_def get_run_def split: option.splits)

lemma frame_quiet: "(\<And>w. hw_runs (fst (m w)) = hw_runs w) \<Longrightarrow> frame i P m"
  by (simp add: frame_def)

lemma frame_bind [frame_rules]:
  assumes m: "frame i P m" and f: "\<And>x. frame i P (f x)"
  shows "frame i P (hbind m f)"
  unfolding frame_def
proof (intro allI impI)
  fix w :: hworld
  assume P: "P (hw_runs w i)"
  obtain w1 r where r: "m w = (w1, r)" by fastforce
  from m have "P (hw_runs (fst (m w)) i)" using P by (simp add: frame_def)
  with r f show "P (hw_runs (fst (hbind m f w)) i)"
    by (cases r) (simp_all add: hbind_def frame_def)
qed

lemma frame_then [frame_rules]: "frame i P m \<Longrightarrow> frame i P n \<Longrightarrow> frame i P (hthen m n)"
  unfolding hthen_def by (rule frame_bind)

lemma frame_try [frame_rules]: "frame i P m \<Longrightarrow> frame i P (htry m)"
  by (simp add: frame_def htry_fst_snd)

lemma frame_leaves [frame_rules]:
  "frame i P (hret x)" "frame i P (bail e)" "frame i P (hlift r)" "frame i P (hget g)" "frame i P (read_file en p)"
  "frame i P (write_file en p c)" "frame i P (create_dir_all en p)" "frame i P (append_file en p c)"
  "frame i P (remove_file p)" "frame i P (get_run j)" "frame i P (tracker_call en provider fid phase)"
  "frame i P (on_sessions en show_error act)" "frame i P (emit_h ev)" "frame i P (load_config en workdir)"
  by (rule frame_quiet;
      simp add: hret_def bail_def hlift_def hget_def read_file_def write_file_def create_dir_all_def append_file_def
        remove_file_def get_run_def tracker_call_def on_sessions_def tick_def emit_h_def
        load_config_def load_instructions_def load_backlog_def hbind_def Let_def split: option.split prod.split sum.split)+

lemma frame_outside [frame_rules]:
  assumes "P None"
  shows "frame i P (run_script en argv)" "frame i P (sleep en)" "frame i P (settle en grace timeout s)"
  using assms by (auto simp: frame_def run_script_def sleep_def settle_def outside_def Let_def)

lemma frame_drop [frame_rules]: "frame i P m \<Longrightarrow> frame i P (hdrop m)"
  unfolding hdrop_def by (intro frame_rules)

lemma frame_when [frame_rules]: "(b \<Longrightarrow> frame i P m) \<Longrightarrow> frame i P (hwhen b m)"
  by (simp add: hwhen_def frame_leaves)

lemma frame_if [frame_rules]: "(b \<Longrightarrow> frame i P m) \<Longrightarrow> (\<not> b \<Longrightarrow> frame i P n) \<Longrightarrow> frame i P (if b then m else n)"
  by simp

lemma frame_modify: "(\<And>r. P (Some r) \<Longrightarrow> P (Some (f r))) \<Longrightarrow> frame i P (modify_run i f)"
  by (simp add: frame_def modify_run_def split: option.split)

text \<open>Operations that do not write the features or the attempts of a run.\<close>

lemma frame_fields [frame_rules]:
  "frame i P (log_h j fid message)" "frame i P (save_features en cfg fl)" "frame i P (write_handoff en cfg f out)"
  "frame i P (persist en r)" "frame i P (hitl_at_qa j)" "frame i P (next_pending_feature j)" "frame i P (current_phase j)"
  "frame i P (write_backlog en dir fl)" "frame i P (teardown_session en s)" "frame i P (spawn_agent en what new)"
  "frame i P (spawn_qa_agent en j wd cfg f)" "frame i P (spawn_role_agent en j wd cfg role)"
  "frame i P (prepare_verdict en dir p)"
  unfolding log_h_def save_features_def write_handoff_def persist_def hitl_at_qa_def next_pending_feature_def
    current_phase_def write_backlog_def teardown_session_def spawn_agent_def spawn_qa_agent_def spawn_role_agent_def
    prepare_verdict_def
  by (intro frame_rules)+

lemma frame_append_decision [frame_rules]: "frame i P (append_decision en workdir entry)"
proof -
  have "frame i P (hthen (create_dir_all en d) (append_file en p c))" for d p c
    by (intro frame_rules)
  then show ?thesis unfolding frame_def append_decision_def Let_def by blast
qed

lemma frame_tracker [frame_rules]: "frame i P (transition_tracker en j f phase)"
  unfolding transition_tracker_def by (auto intro!: frame_rules split: option.split)

lemma frame_plan [frame_rules]: "frame i P (plan_from_spec en workdir spec_id)"
  unfolding plan_from_spec_def Let_def by (intro frame_rules; auto intro!: frame_rules split: option.split)

lemma frame_repl_loop: "P None \<Longrightarrow> frame i P (repl_loop en h target n trusted)"
proof (induction n arbitrary: trusted)
  case 0
  show ?case by (simp add: frame_rules)
next
  case (Suc n)
  have "frame i P (case r of Inl _ \<Rightarrow> repl_loop en h target n trusted
        | Inr raw \<Rightarrow> let pane = he_lowercase en raw
           in if \<not> trusted \<and> shows_trust_dialog pane
              then hthen (hdrop (tmux_command en en_unit (Cmd_SendKeys h target [] True)))
                     (hthen (sleep en) (repl_loop en h target n True))
              else if shows_repl pane then sleep en else repl_loop en h target n trusted)" for r
    using Suc unfolding tmux_command_def Let_def by (cases r) (auto intro!: frame_rules)
  then show ?case
    unfolding repl_loop.simps tmux_command_def by (intro frame_rules Suc.prems)
qed

lemma frame_inject [frame_rules]:
  assumes "P None"
  shows "frame i P (inject_prompt en s prompt)"
proof -
  have "frame i P (case r of Inr (Some h) \<Rightarrow>
      if h_kind h \<noteq> HostKind_Local then sleep en else repl_loop en h (pane_target s) 80 False | _ \<Rightarrow> hret ())" for r
    using assms by (auto intro!: frame_rules frame_repl_loop split: sum.split option.split)
  then have ready: "frame i P (await_repl_ready en s)"
    unfolding await_repl_ready_def by (intro frame_rules)
  have keys: "frame i P (send_prompt_keys en what h target body enter)" for what h target body enter
    unfolding send_prompt_keys_def tmux_command_def by (intro frame_rules)
  have "frame i P (case r of Inl e \<Rightarrow> bail (he_show_store en e) | Inr None \<Rightarrow> bail ''session host missing''
      | Inr (Some h) \<Rightarrow> hthen (send_prompt_keys en ''send_keys failed'' h (pane_target s) prompt False)
              (hthen (sleep en) (send_prompt_keys en ''submit Enter failed'' h (pane_target s) [] True)))" for r
    using assms by (auto intro!: frame_rules keys split: sum.split option.split)
  then show ?thesis unfolding inject_prompt_def by (intro frame_rules ready)
qed

section \<open>Features and attempts\<close>

definition feature_ids :: "harness_run \<Rightarrow> string list" where
  "feature_ids r = map ft_id (fl_features (hr_features r))"

definition pending_ids :: "harness_run \<Rightarrow> string set" where
  "pending_ids r = ft_id ` {f \<in> set (fl_features (hr_features r)). ft_state f = FeatureState_Pending}"

text \<open>\<open>ready S\<close>: the pending features are among \<open>S\<close>; \<open>driven g S\<close>: \<open>g\<close> is being driven, the others are among \<open>S\<close>.\<close>

definition ready :: "string set \<Rightarrow> run_fact" where
  "ready S o' = (case o' of None \<Rightarrow> True | Some r \<Rightarrow> distinct (feature_ids r) \<and> pending_ids r \<subseteq> S)"

definition driven :: "string \<Rightarrow> string set \<Rightarrow> run_fact" where
  "driven g S o' = (case o' of None \<Rightarrow> True | Some r \<Rightarrow>
     distinct (feature_ids r) \<and> g \<in> set (feature_ids r) \<and> pending_ids r \<subseteq> insert g S)"

text \<open>The retries a feature has left.\<close>

definition retries :: "harness_run \<Rightarrow> feature \<Rightarrow> nat" where
  "retries r f =
     (let m = fl_max_retries (hr_features r); n = ft_attempts f + 1
      in if m \<le> n then 0 else unat m - unat n)"

definition budget :: "string \<Rightarrow> nat \<Rightarrow> run_fact" where
  "budget g k o' = (case o' of None \<Rightarrow> True | Some r \<Rightarrow> (\<exists>f. find_feature g r = Some f \<and> retries r f < k))"

definition trying :: "string \<Rightarrow> string set \<Rightarrow> nat \<Rightarrow> run_fact" where
  "trying g S k o' \<longleftrightarrow> driven g S o' \<and> budget g k o'"

lemma facts_None [simp]: "ready S None" "driven g S None" "budget g k None" "trying g S k None"
  by (simp_all add: ready_def driven_def budget_def trying_def)

lemma update_feature_ids:
  "(\<And>f. ft_id (h f) = ft_id f) \<Longrightarrow> map ft_id (update_feature g h fs) = map ft_id fs"
  by (induction fs) auto

lemma update_feature_find:
  "(\<And>f. ft_id (h f) = ft_id f) \<Longrightarrow>
     find (\<lambda>f. ft_id f = g) (update_feature g h fs) = map_option h (find (\<lambda>f. ft_id f = g) fs)"
  by (induction fs) auto

lemma update_feature_others:
  "f \<in> set (update_feature g h fs) \<Longrightarrow> f \<in> set fs \<or> (\<exists>f'\<in>set fs. ft_id f' = g \<and> f = h f')"
  by (induction fs) (auto split: if_splits)

lemma update_feature_only:
  assumes "\<And>f. ft_id (h f) = ft_id f" and "distinct (map ft_id fs)"
    and "f \<in> set (update_feature g h fs)" and "ft_id f = g"
  shows "\<exists>f'\<in>set fs. f = h f'"
  using assms(2,3,4) by (induction fs) (auto split: if_splits simp: image_iff)

lemma on_feature_facts:
  assumes "\<And>f. ft_id (h f) = ft_id f"
  shows "feature_ids (on_feature g h r) = feature_ids r"
    "find_feature g (on_feature g h r) = map_option h (find_feature g r)"
    "pending_ids (on_feature g h r) \<subseteq> insert g (pending_ids r)"
    "fl_max_retries (hr_features (on_feature g h r)) = fl_max_retries (hr_features r)"
  using update_feature_ids [of h g, OF assms] update_feature_find [of h g, OF assms]
  by (auto simp: feature_ids_def on_feature_def find_feature_def pending_ids_def assms dest: update_feature_others)

lemma on_feature_leaves_pending:
  assumes "\<And>f. ft_id (h f) = ft_id f" and "\<And>f. ft_state (h f) \<noteq> FeatureState_Pending"
    and "distinct (feature_ids r)" and "pending_ids r \<subseteq> insert g S"
  shows "pending_ids (on_feature g h r) \<subseteq> S"
proof
  fix j
  assume "j \<in> pending_ids (on_feature g h r)"
  then obtain f where f: "f \<in> set (update_feature g h (fl_features (hr_features r)))"
    "ft_state f = FeatureState_Pending" "j = ft_id f" by (auto simp: pending_ids_def on_feature_def)
  have "ft_id f \<noteq> g"
    using update_feature_only [OF assms(1) assms(3) [unfolded feature_ids_def] f(1)] assms(2) f(2) by metis
  moreover from update_feature_others [OF f(1)] have "f \<in> set (fl_features (hr_features r))"
    using assms(1) calculation by auto
  ultimately show "j \<in> S" using f assms(4) by (auto simp: pending_ids_def)
qed

lemma found_id: "find_feature g r \<noteq> None \<longleftrightarrow> g \<in> set (feature_ids r)"
  by (auto simp: find_feature_def feature_ids_def find_None_iff)

lemma unat_less_max: "unat (n :: 32 word) < 2 ^ 32"
proof -
  have "unat n < 2 ^ LENGTH(32)" by (rule unsigned_less)
  then show ?thesis by simp
qed

lemma unat_next: "unat (n :: 32 word) < unat (m :: 32 word) \<Longrightarrow> unat (n + 1) = Suc (unat n)"
  using unat_less_max [of m] by (simp add: unat_word_ariths)

lemma retries_bound: "retries r f < 2 ^ 32"
proof -
  have "unat (fl_max_retries (hr_features r)) < 2 ^ 32"
    using unat_less_max [of "fl_max_retries (hr_features r)"] by simp
  then show ?thesis by (auto simp: retries_def Let_def intro: le_less_trans [OF diff_le_self])
qed

lemma driven_trying: "driven g S o' \<Longrightarrow> 2 ^ 32 \<le> k \<Longrightarrow> trying g S k o'"
  using less_le_trans [OF retries_bound] by (auto simp: trying_def driven_def budget_def simp flip: found_id split: option.split)

text \<open>A red gate that does not block the feature uses up a retry.\<close>

lemma retries_fail:
  assumes "\<not> fl_max_retries (hr_features r) \<le> ft_attempts f + 1"
    and "fl_max_retries (hr_features r') = fl_max_retries (hr_features r)"
  shows "retries r' (fail_feature m out f) < retries r f"
proof -
  let ?m = "fl_max_retries (hr_features r)" and ?n = "ft_attempts f + 1"
  from assms(1) have less: "unat ?n < unat ?m" by (simp add: word_less_nat_alt word_le_nat_alt)
  have "unat (?n + 1) = Suc (unat ?n)"
    using less by (rule unat_next)
  with less assms show ?thesis by (auto simp: retries_def fail_feature_def Let_def word_le_nat_alt)
qed

section \<open>One round of the gates\<close>

lemma on_feature_driven:
  assumes "driven g S (Some r)" and "\<And>f. ft_id (h f) = ft_id f"
  shows "driven g S (Some (on_feature g h r))"
  using assms(1) on_feature_facts [of h g r, OF assms(2)] by (auto simp: driven_def)

lemma on_feature_trying:
  assumes "trying g S k (Some r)" and "\<And>f. ft_id (h f) = ft_id f" and "\<And>f. ft_attempts (h f) = ft_attempts f"
  shows "trying g S k (Some (on_feature g h r))"
proof -
  from assms(1) obtain f where "find_feature g r = Some f" "retries r f < k" by (auto simp: trying_def budget_def)
  with on_feature_facts [of h g r, OF assms(2)] have "budget g k (Some (on_feature g h r))"
    by (simp add: budget_def retries_def assms(3))
  with assms(1,2) show ?thesis by (simp add: trying_def on_feature_driven)
qed

lemma frame_set_feature_state [frame_rules]:
  "frame i (driven g S) (set_feature_state en i g fs)" "frame i (trying g S k) (set_feature_state en i g fs)"
  unfolding set_feature_state_def
  by (intro frame_rules frame_modify on_feature_driven on_feature_trying; simp)+

lemma frame_set_state [frame_rules]:
  "frame i (driven g S) (set_state i st)" "frame i (trying g S k) (set_state i st)" "frame i (ready S) (set_state i st)"
  unfolding set_state_def
  by (intro frame_rules frame_modify;
      simp add: driven_def trying_def ready_def budget_def feature_ids_def pending_ids_def find_feature_def retries_def)+

lemma frame_set_session [frame_rules]: "frame i (driven g S) (set_session en i sid g)"
  unfolding set_session_def
  by (intro frame_rules frame_modify) (simp add: driven_def feature_ids_def pending_ids_def)

lemma frame_verify_once [frame_rules]: "frame i (trying g S k) (run_verify_once en i g)"
proof -
  have "frame i (trying g S k) (case s of Some script \<Rightarrow> run_script en (a script) | None \<Rightarrow> verify_fallback en)" for s a
    unfolding verify_fallback_def by (cases s) (simp_all add: frame_rules)
  moreover have "frame i (trying g S k)
      (case r of (success, output) \<Rightarrow> hthen (emit_h (e success output)) (hret (success, output)))" for r e
    by (cases r) (simp add: frame_rules)
  ultimately show ?thesis unfolding run_verify_once_def by (intro frame_rules)
qed

lemma frame_qa_gate [frame_rules]: "frame i (trying (ft_id f) S k) (qa_gate en i wd cfg f grace timeout)"
proof -
  have "frame i (trying (ft_id f) S k) (case s of Some script \<Rightarrow> run_script en (a script) | None \<Rightarrow> hret x)" for s a x
    by (cases s) (simp_all add: frame_rules)
  then have "frame i (trying (ft_id f) S k) (run_qa_once en i (ft_id f))"
    unfolding run_qa_once_def by (intro frame_rules)
  moreover have "frame i (trying (ft_id f) S k) (run_qa_agent_gate en i wd cfg f grace timeout)"
    unfolding run_qa_agent_gate_def Let_def by (intro frame_rules facts_None)
  ultimately show ?thesis by (simp add: qa_gate_def)
qed

lemma mem_record_failure:
  "mem i (trying g S (Suc k)) (record_feature_failure en i g out) (\<lambda>blocked o'. \<not> blocked \<longrightarrow> trying g S k o')"
proof -
  let ?fail = "\<lambda>r :: harness_run. fail_feature (fl_max_retries (hr_features r)) out"
  let ?blocked = "\<lambda>r. case find_feature g r of None \<Rightarrow> False | Some f \<Rightarrow> ft_state f = FeatureState_Blocked"
  have ids: "ft_id (fail_feature m out f) = ft_id f" for m f by (simp add: fail_feature_def Let_def)
  have "trying g S k (Some (on_feature g (fail_feature m out) r))"
    if r: "trying g S (Suc k) (Some r)" and m: "m = fl_max_retries (hr_features r)"
      and not_blocked: "\<not> ?blocked (on_feature g (fail_feature m out) r)" for m r
  proof -
    from r obtain f where f: "find_feature g r = Some f" "retries r f < Suc k" by (auto simp: trying_def budget_def)
    let ?r' = "on_feature g (fail_feature m out) r"
    note facts = on_feature_facts [of "fail_feature m out" g r, OF ids]
    from not_blocked facts(2) f(1) have "\<not> m \<le> ft_attempts f + 1" by (auto simp: fail_feature_def Let_def)
    with m facts(4) have "retries ?r' (fail_feature m out f) < retries r f" by (intro retries_fail) simp_all
    with facts(2) f have "budget g k (Some ?r')" by (simp add: budget_def)
    with r ids show ?thesis by (simp add: trying_def on_feature_driven)
  qed
  then have update: "mem i (\<lambda>o'. trying g S (Suc k) o' \<and> (\<forall>r. o' = Some r \<longrightarrow> m = fl_max_retries (hr_features r)))
      (modify_run i (on_feature g (fail_feature m out))) (\<lambda>r o'. \<not> ?blocked r \<longrightarrow> trying g S k o')" for m
    by (intro mem_modify) blast
  have "mem i (\<lambda>o'. \<not> b \<longrightarrow> trying g S k o') (hthen (persist en r) (hthen (emit_h e) (hret b)))
      (\<lambda>b o'. \<not> b \<longrightarrow> trying g S k o')" for b r e
    by (intro mem_then [OF mem_frame] mem_ret frame_rules) simp
  then have "mem i (\<lambda>o'. trying g S (Suc k) o' \<and> (\<forall>r. o' = Some r \<longrightarrow> m = fl_max_retries (hr_features r)))
      (hbind (modify_run i (on_feature g (fail_feature m out))) (\<lambda>r.
        hthen (persist en r) (hthen (emit_h (e (?blocked r))) (hret (?blocked r)))))
      (\<lambda>b o'. \<not> b \<longrightarrow> trying g S k o')" for m e
    by (intro mem_bind [OF update])
  then show ?thesis
    unfolding record_feature_failure_def Let_def
    by (intro mem_bind [OF mem_get [where Q = "\<lambda>old o'. trying g S (Suc k) o' \<and>
          (\<forall>r. o' = Some r \<longrightarrow> fl_max_retries (hr_features old) = fl_max_retries (hr_features r))"]]) auto
qed

lemma mem_failed_round:
  "mem i (trying (ft_id f) S (Suc k)) (failed_round en i f s label out grace timeout)
     (\<lambda>r o'. r \<noteq> GateRound_Done \<and> (r = GateRound_Retry \<longrightarrow> trying (ft_id f) S k o'))"
proof -
  let ?Q = "\<lambda>b o'. \<not> b \<longrightarrow> trying (ft_id f) S k o'"
  have "mem i (?Q b)
      (if b then hthen (set_state i st1) (hthen (log_h i g t1) (hret True))
       else hthen (log_h i g t2) (hthen (set_state i st2) (hthen (inject_prompt en s p)
         (hbind (settle en grace timeout s) (\<lambda>_. hret False))))) ?Q" for b st1 st2 g t1 t2 p
  proof (cases b)
    case True
    have "frame i (\<lambda>_. True) m" for m :: "bool hact" by (simp add: frame_def)
    then have "mem i (\<lambda>_. True) (hthen (set_state i st1) (hthen (log_h i g t1) (hret True))) ?Q"
      by (simp add: mem_def hthen_def hbind_def hret_def split: prod.split sum.split)
    with True show ?thesis by simp
  next
    case False
    then show ?thesis
      by (auto intro!: mem_then [OF mem_frame] mem_bind [OF mem_frame] mem_ret frame_rules)
  qed
  then have "mem i (trying (ft_id f) S (Suc k)) (handle_gate_failure en i f s label out grace timeout) ?Q"
    unfolding handle_gate_failure_def by (intro mem_bind [OF mem_record_failure])
  then show ?thesis
    unfolding failed_round_def by (rule mem_bind) (auto intro!: mem_ret)
qed

lemma mem_mark_done: "mem i (trying g S k) (mark_feature_done en i g out) (\<lambda>_. ready S)"
proof -
  have "ready S (Some (on_feature g (\<lambda>f. f\<lparr>ft_state := FeatureState_Done\<rparr>) r))" if "trying g S k (Some r)" for r
    using that on_feature_leaves_pending [of "\<lambda>f. f\<lparr>ft_state := FeatureState_Done\<rparr>" r g S]
      on_feature_facts(1) [of "\<lambda>f. f\<lparr>ft_state := FeatureState_Done\<rparr>" g r]
    by (simp add: trying_def driven_def ready_def)
  then have set: "mem i (trying g S k) (set_feature_state en i g FeatureState_Done) (\<lambda>_. ready S)"
    unfolding set_feature_state_def
    by (intro mem_bind [OF mem_modify [where Q = "\<lambda>_. ready S"]] mem_frame frame_rules) simp_all
  have "frame i (ready S) (case x of None \<Rightarrow> hret () | Some f \<Rightarrow> hbind (load_config en wd) (\<lambda>cfg.
      hthen (write_handoff en cfg f out) (emit_h e)))" for x wd e
    by (cases x) (auto intro!: frame_rules)
  then show ?thesis
    unfolding mark_feature_done_def by (intro mem_then [OF set] mem_frame frame_rules)
qed

definition after_round :: "string \<Rightarrow> string set \<Rightarrow> nat \<Rightarrow> gate_round \<Rightarrow> run_fact" where
  "after_round g S k r o' \<longleftrightarrow> (r = GateRound_Retry \<longrightarrow> trying g S k o') \<and> (r = GateRound_Done \<longrightarrow> ready S o')"

lemma mem_both_green:
  "mem i (trying (ft_id f) S k) (both_green en i f unit_out qa_out) (after_round (ft_id f) S k')"
proof -
  have await: "frame i (trying (ft_id f) S k) (await_confirm en i (ft_id f))"
    unfolding await_confirm_def by (intro frame_rules)
  have "mem i (trying (ft_id f) S k)
     (if hitl then hthen (await_confirm en i (ft_id f)) (hthen (log_h i g t1) (hret GateRound_Halt))
      else hthen (mark_feature_done en i (ft_id f) out)
        (hthen (transition_tracker en i f ph) (hthen (log_h i g t2) (hret GateRound_Done))))
     (after_round (ft_id f) S k')" for hitl g t1 t2 out ph
    by (auto intro!: mem_then [OF mem_frame] mem_then [OF mem_mark_done] mem_ret await frame_rules
        simp: after_round_def)
  then show ?thesis
    unfolding both_green_def by (intro mem_bind [OF mem_frame] frame_rules)
qed

lemma mem_gate_iteration:
  "mem i (trying (ft_id f) S (Suc k)) (gate_iteration en i wd cfg f s grace timeout) (after_round (ft_id f) S k)"
proof -
  have failed: "mem i (trying (ft_id f) S (Suc k)) (failed_round en i f s label out grace timeout) (after_round (ft_id f) S k)"
    for label out
    by (rule mem_weaken [OF mem_failed_round]) (auto simp: after_round_def)
  have "mem i (trying (ft_id f) S (Suc k)) (case r of (qa_ok, qa_out) \<Rightarrow>
      if qa_ok then both_green en i f out qa_out else failed_round en i f s label qa_out grace timeout)
      (after_round (ft_id f) S k)" for r out label
    by (cases r) (simp add: failed mem_both_green)
  then have after: "mem i (trying (ft_id f) S (Suc k)) (after_unit en i wd cfg f s grace timeout out) (after_round (ft_id f) S k)"
    for out
    unfolding after_unit_def by (intro mem_then [OF mem_frame] mem_bind [OF mem_frame] frame_rules)
  have "mem i (trying (ft_id f) S (Suc k)) (case r of (unit_ok, unit_out) \<Rightarrow>
      if unit_ok then after_unit en i wd cfg f s grace timeout unit_out
      else failed_round en i f s label unit_out grace timeout) (after_round (ft_id f) S k)" for r label
    by (cases r) (simp add: failed after)
  then show ?thesis
    unfolding gate_iteration_def by (intro mem_then [OF mem_frame] mem_bind [OF mem_frame] frame_rules)
qed

lemma mem_impossible: "mem i (\<lambda>_. False) m Q"
  by (simp add: mem_def)

text \<open>Once the run is gone, the next gate ends the drive with an error.\<close>

lemma gate_without_run: "mem i (\<lambda>o'. o' = None) (gate_iteration en i wd cfg f s grace timeout) (\<lambda>_ _. False)"
proof -
  have "mem i (\<lambda>o'. o' = None) (run_verify_once en i (ft_id f)) (\<lambda>_ _. False)"
    unfolding run_verify_once_def
    by (rule mem_bind [OF mem_get [where Q = "\<lambda>_ _. False"]]) (simp_all add: mem_impossible)
  then show ?thesis
    unfolding gate_iteration_def
    by (intro mem_then [OF mem_frame] frame_rules mem_bind [OF _ mem_impossible])
qed

definition loop_result :: "string set \<Rightarrow> bool option \<Rightarrow> run_fact" where
  "loop_result S r o' \<longleftrightarrow> r \<noteq> None \<and> (r = Some True \<longrightarrow> ready S o')"

lemma mem_gate_loop:
  "mem i (trying (ft_id f) S k) (gate_loop (Suc k) en i wd cfg f s grace timeout) (loop_result S)"
proof (induction k)
  case 0
  have "trying (ft_id f) S 0 o' \<Longrightarrow> o' = None" for o'
    by (auto simp: trying_def budget_def split: option.splits)
  then have "mem i (trying (ft_id f) S 0) (gate_iteration en i wd cfg f s grace timeout) (\<lambda>_ _. False)"
    by (rule mem_weaken [OF gate_without_run])
  then show ?case
    unfolding gate_loop.simps by (rule mem_bind [OF _ mem_impossible])
next
  case (Suc k)
  have "mem i (after_round (ft_id f) S k r)
      (case r of GateRound_Retry \<Rightarrow> gate_loop (Suc k) en i wd cfg f s grace timeout
        | GateRound_Halt \<Rightarrow> hret (Some False) | GateRound_Done \<Rightarrow> hret (Some True)) (loop_result S)" for r
  proof (cases r)
    case GateRound_Retry
    then show ?thesis
      using mem_weaken [OF Suc.IH, of "after_round (ft_id f) S k r" "loop_result S"] by (simp add: after_round_def)
  qed (auto intro!: mem_ret simp: after_round_def loop_result_def)
  then show ?case
    unfolding gate_loop.simps(2) [of "Suc k"] by (rule mem_bind [OF mem_gate_iteration])
qed

lemma mem_drive_feature:
  assumes "2 ^ 32 < fuel"
  shows "mem i (driven (ft_id f) S) (drive_feature fuel en i wd f) (loop_result S)"
proof -
  from assms obtain k where k: "fuel = Suc k" "2 ^ 32 \<le> k" by (cases fuel) simp_all
  have loop: "mem i (driven (ft_id f) S) (gate_loop fuel en i wd cfg f s grace timeout) (loop_result S)" for cfg s grace timeout
    unfolding k(1) by (rule mem_weaken [OF mem_gate_loop driven_trying [OF _ k(2)]])
  have spawn: "frame i (driven (ft_id f) S) (spawn_feature_agent en i wd cfg f)" for cfg
    unfolding spawn_feature_agent_def
    by (intro frame_rules) (auto intro!: frame_rules split: sum.split)
  have rest: "mem i (loop_result S r) (hthen (hwhen (r = Some True) (teardown_session en s)) (hret r)) (loop_result S)" for r s
    by (intro mem_then [OF mem_frame] mem_ret frame_rules)
  show ?thesis
    unfolding drive_feature_def
    by (intro mem_then [OF mem_frame] mem_bind [OF mem_frame] mem_bind [OF loop] rest spawn frame_rules facts_None)
qed

section \<open>Role gates\<close>

abbreviation U32_MAX :: "32 word" where
  "U32_MAX \<equiv> - 1"

text \<open>\<open>counted m\<close>: the phase has counted \<open>m\<close> attempts and no feature id occurs twice.\<close>

definition distinct_run :: run_fact where
  "distinct_run o' = (case o' of None \<Rightarrow> True | Some r \<Rightarrow> distinct (feature_ids r))"

definition counted :: "nat \<Rightarrow> run_fact" where
  "counted m o' = (case o' of None \<Rightarrow> True | Some r \<Rightarrow> distinct (feature_ids r) \<and> unat (hr_phase_attempts r) = m)"

lemma counted_None [simp]: "distinct_run None" "counted m None"
  by (simp_all add: distinct_run_def counted_def)

lemma loaded_backlog:
  assumes "load_config en workdir w = (w', Inr cfg)"
  shows "\<exists>c. he_parse en c = Inr (hc_features cfg)" "distinct (map ft_id (fl_features (hc_features cfg)))"
proof -
  have seen: "first_duplicate S fs = None \<Longrightarrow> distinct (map ft_id fs) \<and> set (map ft_id fs) \<inter> S = {}" for S fs
    by (induction fs arbitrary: S) (auto split: if_splits)
  have checked: "check_backlog fl = Inr fl' \<Longrightarrow> fl' = fl \<and> distinct (map ft_id (fl_features fl))" for fl fl'
    using seen [of "{}"] by (auto simp: check_backlog_def split: if_splits option.splits)
  from assms show "\<exists>c. he_parse en c = Inr (hc_features cfg)"
    "distinct (map ft_id (fl_features (hc_features cfg)))"
    by (auto simp: load_config_def load_backlog_def hbind_def hget_def hlift_def parse_backlog_def Let_def
        split: if_splits prod.splits sum.splits dest!: checked)
qed

lemma mem_load_config:
  assumes "\<And>c fl. he_parse en c = Inr fl \<Longrightarrow> fl_max_retries fl < U32_MAX"
  shows "mem i P (load_config en workdir) (\<lambda>cfg o'. P o' \<and> fl_max_retries (hc_features cfg) < U32_MAX \<and>
     distinct (map ft_id (fl_features (hc_features cfg))))"
  using mem_frame [OF frame_leaves(14), of i P en workdir] assms loaded_backlog
  unfolding mem_def by blast

lemma mem_pure: "(\<And>o'. P o' \<Longrightarrow> B) \<Longrightarrow> (B \<Longrightarrow> mem i P m Q) \<Longrightarrow> mem i P m Q"
  unfolding mem_def by blast

lemma mem_set_phase:
  assumes "P None" and "\<And>r. P (Some r) \<Longrightarrow> Q (Some (r\<lparr>hr_phase := dest, hr_phase_attempts := 0\<rparr>))" and "Q None"
  shows "mem i P (set_phase en i dest) (\<lambda>_. Q)"
proof -
  have "mem i P (modify_run i (\<lambda>r. r\<lparr>hr_phase := dest, hr_phase_attempts := 0\<rparr>)) (\<lambda>_. Q)"
    by (rule mem_modify) (fact assms(2))
  then show ?thesis
    unfolding set_phase_def
    by (auto intro!: mem_bind [OF mem_frame] mem_then [OF _ mem_then [OF mem_frame mem_frame]] frame_rules)
qed

lemma mem_enter_phase: "mem i distinct_run (set_phase en i dest) (\<lambda>_. counted 0)"
  by (rule mem_set_phase) (simp_all add: distinct_run_def counted_def feature_ids_def)

lemma frame_role_verdict: "P None \<Longrightarrow> frame i P (role_verdict_of en i wd cfg phase role spec_id)"
  unfolding role_verdict_of_def Let_def by (intro frame_rules)

text \<open>A round that asks for another one has counted one more attempt, still within the bound.\<close>

lemma mem_role_round:
  assumes "\<And>c fl. he_parse en c = Inr fl \<Longrightarrow> fl_max_retries fl < U32_MAX"
    and "Suc m \<le> unat U32_MAX"
  shows "mem i (counted m) (role_round en i wd phase role)
     (\<lambda>r o'. if r = None then Suc m < unat U32_MAX \<and> counted (Suc m) o' else distinct_run o')"
proof -
  let ?Q = "\<lambda>r o'. if r = None then Suc m < unat U32_MAX \<and> counted (Suc m) o' else distinct_run o'"
  have bump: "mem i (counted m) (bump_phase_attempt i) (\<lambda>attempt o'. unat attempt = Suc m \<and> counted (Suc m) o')"
  proof -
    have "unat (n + 1) = Suc m" if "unat n = m" for n :: "32 word"
      using assms(2) that unat_next [of n U32_MAX] by simp
    then have "mem i (counted m) (modify_run i (\<lambda>r. r\<lparr>hr_phase_attempts := hr_phase_attempts r + 1\<rparr>))
        (\<lambda>r o'. unat (hr_phase_attempts r) = Suc m \<and> counted (Suc m) o')"
      by (intro mem_modify) (simp add: counted_def feature_ids_def)
    then show ?thesis
      unfolding bump_phase_attempt_def by (rule mem_bind) (simp add: mem_ret)
  qed
  have halt: "mem i (counted (Suc m)) (halt_at_gate en i wd d ph st t) (\<lambda>_. distinct_run)" for d ph st t
  proof -
    have "frame i distinct_run (set_state i st)"
      unfolding set_state_def by (intro frame_rules frame_modify) (simp add: distinct_run_def feature_ids_def)
    moreover have "mem i (counted (Suc m)) (set_phase en i ph) (\<lambda>_. distinct_run)"
      by (rule mem_set_phase) (simp_all add: distinct_run_def counted_def feature_ids_def)
    ultimately show ?thesis
      unfolding halt_at_gate_def
      by (auto intro!: mem_then [OF mem_frame, where m = "hdrop m" for m] mem_then [OF _ mem_then [OF mem_frame mem_frame]]
          frame_rules)
  qed
  have decision: "mem i (counted (Suc m)) (role_decision en i wd fl phase role attempt passed summary) ?Q"
    if "fl_max_retries fl < U32_MAX" "unat attempt = Suc m" for fl attempt passed summary
  proof (cases "decide_gate passed attempt (fl_max_retries fl) (fl_hitl_on_block fl)")
    case GateDecision_Retry
    then have "\<not> fl_max_retries fl < attempt" by (simp add: decide_gate_def split: if_splits)
    with that have "Suc m < unat U32_MAX"
      by (metis not_less order_le_less_trans word_less_nat_alt)
    with GateDecision_Retry show ?thesis
      unfolding role_decision_def by (simp add: mem_then [OF mem_frame] mem_ret frame_rules)
  qed (auto simp: role_decision_def counted_def distinct_run_def intro!: mem_then [OF mem_frame] mem_then [OF halt] mem_ret frame_rules split: option.splits)
  show ?thesis
    unfolding role_round_def
  proof (rule mem_bind [OF mem_load_config [OF assms(1)]])
    fix cfg :: harness_config
    let ?fl = "hc_features cfg"
    show "mem i (\<lambda>o'. counted m o' \<and> fl_max_retries ?fl < U32_MAX \<and> distinct (map ft_id (fl_features ?fl)))
       (case fl_spec_id ?fl of None \<Rightarrow> bail ''role gate requires features.spec_id''
        | Some spec_id \<Rightarrow> hbind (role_verdict_of en i wd cfg phase role spec_id) (\<lambda>(passed, summary).
            hbind (bump_phase_attempt i) (\<lambda>attempt.
            hthen (emit_h (HarnessEvent_GateResult i role passed attempt summary))
              (role_decision en i wd ?fl phase role attempt passed summary)))) ?Q"
    proof (rule mem_pure [where B = "fl_max_retries ?fl < U32_MAX"])
      assume bound: "fl_max_retries ?fl < U32_MAX"
      have "mem i (counted m) (case r of (passed, summary) \<Rightarrow> hbind (bump_phase_attempt i) (\<lambda>attempt.
            hthen (emit_h (HarnessEvent_GateResult i role passed attempt summary))
              (role_decision en i wd ?fl phase role attempt passed summary))) ?Q" for r
      proof (cases r)
        case (Pair passed summary)
        have "mem i (\<lambda>o'. unat attempt = Suc m \<and> counted (Suc m) o')
           (hthen (emit_h (HarnessEvent_GateResult i role passed attempt summary))
              (role_decision en i wd ?fl phase role attempt passed summary)) ?Q" for attempt
          by (rule mem_pure [where B = "unat attempt = Suc m"])
            (auto intro!: mem_then [OF mem_frame] mem_weaken [OF decision [OF bound]] frame_rules)
        then show ?thesis
          unfolding Pair prod.case by (rule mem_bind [OF bump])
      qed
      then have "mem i (counted m) (hbind (role_verdict_of en i wd cfg phase role spec_id) (\<lambda>(passed, summary).
            hbind (bump_phase_attempt i) (\<lambda>attempt.
            hthen (emit_h (HarnessEvent_GateResult i role passed attempt summary))
              (role_decision en i wd ?fl phase role attempt passed summary)))) ?Q" for spec_id
        by (intro mem_bind [OF mem_frame [OF frame_role_verdict]]) simp_all
      then have "mem i (counted m) (case fl_spec_id ?fl of None \<Rightarrow> bail ''role gate requires features.spec_id''
        | Some spec_id \<Rightarrow> hbind (role_verdict_of en i wd cfg phase role spec_id) (\<lambda>(passed, summary).
            hbind (bump_phase_attempt i) (\<lambda>attempt.
            hthen (emit_h (HarnessEvent_GateResult i role passed attempt summary))
              (role_decision en i wd ?fl phase role attempt passed summary)))) ?Q"
        by (cases "fl_spec_id ?fl") (simp_all add: mem_bail)
      then show ?thesis by (rule mem_weaken) auto
    qed blast
  qed
qed

text \<open>The gates and the phases around the feature loop return; \<open>returned\<close> is a result that does not miss fuel.\<close>

definition returned :: "run_fact \<Rightarrow> 'a option \<Rightarrow> run_fact" where
  "returned P r o' \<longleftrightarrow> r \<noteq> None \<and> P o'"

lemma mem_role_gate:
  assumes "\<And>c fl. he_parse en c = Inr fl \<Longrightarrow> fl_max_retries fl < U32_MAX" and "2 ^ 32 < fuel"
  shows "mem i (counted 0) (run_role_gate fuel en i wd phase) (returned distinct_run)"
proof -
  have loop: "Suc m \<le> unat U32_MAX \<Longrightarrow> unat U32_MAX < m + n \<Longrightarrow>
      mem i (counted m) (role_gate_loop n en i wd phase role) (returned distinct_run)" for m n role
  proof (induction n arbitrary: m)
    case (Suc n)
    have next_round: "mem i (\<lambda>o'. if r = None then Suc m < unat U32_MAX \<and> counted (Suc m) o' else distinct_run o')
        (case r of None \<Rightarrow> role_gate_loop n en i wd phase role | Some passed \<Rightarrow> hret (Some passed))
        (returned distinct_run)" for r
    proof (cases r)
      case None
      have "mem i (\<lambda>o'. Suc m < unat U32_MAX \<and> counted (Suc m) o') (role_gate_loop n en i wd phase role)
          (returned distinct_run)"
      proof (rule mem_pure [where B = "Suc m < unat U32_MAX"])
        assume less: "Suc m < unat U32_MAX"
        show "mem i (\<lambda>o'. Suc m < unat U32_MAX \<and> counted (Suc m) o') (role_gate_loop n en i wd phase role)
            (returned distinct_run)"
          by (rule mem_weaken [OF Suc.IH [of "Suc m"]]) (use less Suc.prems(2) in simp_all)
      qed simp
      with None show ?thesis by simp
    next
      case (Some passed)
      then show ?thesis by (auto intro!: mem_ret simp: returned_def)
    qed
    show ?case
      unfolding role_gate_loop.simps by (rule mem_bind [OF mem_role_round [OF assms(1) Suc.prems(1)] next_round])
  qed simp
  have "unat U32_MAX = 2 ^ 32 - 1" by (transfer, simp add: mask_eq_exp_minus_1)
  with loop [of 0 fuel] assms(2) show ?thesis
    by (auto simp: run_role_gate_def counted_def distinct_run_def returned_def intro!: mem_ret split: option.splits)
qed

lemma mem_behind_gate:
  assumes "mem i P gate (returned Q)" and "mem i Q m (returned R)" and "\<And>o'. Q o' \<Longrightarrow> R o'"
  shows "mem i P (behind_gate gate m) (returned R)"
proof -
  have "mem i (returned Q r) (case r of None \<Rightarrow> hret None | Some passed \<Rightarrow> if passed then m else hret (Some ())) (returned R)" for r
    using assms(2,3) by (cases r) (auto intro!: mem_ret intro: mem_weaken simp: returned_def)
  with assms(1) show ?thesis
    unfolding behind_gate_def by (rule mem_bind)
qed

lemma mem_decompose:
  assumes "\<And>c fl. he_parse en c = Inr fl \<Longrightarrow> fl_max_retries fl < U32_MAX"
  shows "mem i distinct_run (decompose en i wd) (\<lambda>_. distinct_run)"
proof -
  have phase: "mem i distinct_run (set_phase en i dest) (\<lambda>_. distinct_run)" for dest
    by (rule mem_set_phase) (simp_all add: distinct_run_def feature_ids_def)
  have "mem i (\<lambda>o'. distinct_run o' \<and> fl_max_retries (hc_features cfg) < U32_MAX \<and>
        distinct (map ft_id (fl_features (hc_features cfg))))
      (hthen (modify_run i (\<lambda>r. r\<lparr>hr_features := hc_features cfg\<rparr>)) (hret ())) (\<lambda>_. distinct_run)" for cfg
    by (intro mem_then [OF mem_modify [where Q = "\<lambda>_. distinct_run"]] mem_ret)
      (simp_all add: distinct_run_def feature_ids_def)
  then have reload: "mem i distinct_run (reload_features en i) (\<lambda>_. distinct_run)"
    unfolding reload_features_def
    by (intro mem_bind [OF mem_frame] mem_bind [OF mem_load_config [OF assms]] frame_rules)
  have "mem i distinct_run
      (case x of None \<Rightarrow> bail e | Some spec_id \<Rightarrow> hthen (log_h i None (t spec_id))
            (hbind (plan_from_spec en wd spec_id) (\<lambda>derived.
             hthen (save_features en cfg (copy_knobs_from derived fl))
               (hthen (reload_features en i) (set_phase en i SpecPhase_Executing))))) (\<lambda>_. distinct_run)" for x e cfg fl t
    by (cases x)
      (auto intro!: mem_bail mem_bind [OF mem_frame] mem_then [OF mem_frame, where m = "log_h i None u" for u]
        mem_then [OF mem_frame, where m = "save_features en cfg u" for u] mem_then [OF reload] phase frame_rules)
  then show ?thesis
    unfolding decompose_def by (intro mem_then [OF phase] mem_bind [OF mem_frame] frame_rules)
qed

lemma mem_pre_phases:
  assumes "\<And>c fl. he_parse en c = Inr fl \<Longrightarrow> fl_max_retries fl < U32_MAX" and "2 ^ 32 < fuel"
  shows "mem i distinct_run (run_pre_feature_phases fuel en i wd) (returned distinct_run)"
proof -
  note gate = mem_role_gate [OF assms]
  have backlog: "mem i distinct_run (hthen (decompose en i wd) (hret (Some ()))) (returned distinct_run)"
    by (rule mem_then [OF mem_decompose [OF assms(1)]]) (simp_all add: mem_ret returned_def)
  have architecture: "mem i distinct_run (hthen (set_phase en i SpecPhase_Architecture)
      (behind_gate (run_role_gate fuel en i wd SpecPhase_Architecture) (hthen (decompose en i wd) (hret (Some ())))))
      (returned distinct_run)"
    by (rule mem_then [OF mem_enter_phase mem_behind_gate [OF gate backlog]])
  show ?thesis
    unfolding run_pre_feature_phases_def by (rule mem_then [OF mem_enter_phase mem_behind_gate [OF gate architecture]])
qed

lemma mem_finish:
  assumes "\<And>c fl. he_parse en c = Inr fl \<Longrightarrow> fl_max_retries fl < U32_MAX" and "2 ^ 32 < fuel"
  shows "mem i distinct_run (finish_run fuel en i wd phases_on) (returned (\<lambda>_. True))"
proof -
  have complete: "mem i P (complete_run i) (returned (\<lambda>_. True))" for P
    by (auto simp: mem_def complete_run_def hthen_def hbind_def hret_def returned_def split: prod.splits sum.splits)
  have passed: "mem i distinct_run (hthen (set_phase en i SpecPhase_Done) (hret (Some ()))) (returned (\<lambda>_. True))"
    by (auto simp: mem_def hthen_def hbind_def hret_def returned_def split: prod.splits sum.splits)
  have review: "mem i distinct_run (run_review_phase fuel en i wd) (returned (\<lambda>_. True))"
    unfolding run_review_phase_def
    by (rule mem_then [OF mem_enter_phase mem_behind_gate [OF mem_role_gate [OF assms] passed]]) simp_all
  have "mem i (\<lambda>_. True) (hbind (current_phase i) (\<lambda>p. if p = SpecPhase_Done then complete_run i else hret (Some ())))
      (returned (\<lambda>_. True))"
    by (intro mem_bind [OF mem_frame] frame_rules) (auto intro!: complete mem_ret simp: returned_def)
  then have "mem i (returned (\<lambda>_. True) r) (case r of None \<Rightarrow> hret None | Some _ \<Rightarrow> hbind (current_phase i) (\<lambda>p.
      if p = SpecPhase_Done then complete_run i else hret (Some ()))) (returned (\<lambda>_. True))" for r :: "unit option"
    by (cases r) (auto intro!: mem_ret intro: mem_weaken simp: returned_def)
  then show ?thesis
    unfolding finish_run_def using complete by (auto intro!: mem_bind [OF review])
qed

section \<open>The feature loop and the drive\<close>

lemma mem_feature_loop:
  assumes "\<And>c fl. he_parse en c = Inr fl \<Longrightarrow> fl_max_retries fl < U32_MAX" and "2 ^ 32 < fuel"
  shows "finite S \<Longrightarrow> card S < n \<Longrightarrow> mem i (ready S) (feature_loop n fuel en i wd phases_on) (returned (\<lambda>_. True))"
proof (induction n arbitrary: S)
  case (Suc n)
  let ?found = "\<lambda>found o'. ready S o' \<and> (\<forall>f. found = Some f \<longrightarrow> ft_id f \<in> S \<and> driven (ft_id f) (S - {ft_id f}) o')"
  have "mem i (ready S) (next_pending_feature i) ?found"
    unfolding next_pending_feature_def
  proof (rule mem_bind [OF mem_get [where Q = "\<lambda>r o'. ready S o' \<and> o' = Some r"] mem_ret])
    fix r o'
    assume "ready S o' \<and> o' = Some r"
    moreover have "ft_id f \<in> pending_ids r" "ft_id f \<in> set (feature_ids r)"
      if "find (\<lambda>f. ft_state f = FeatureState_Pending) (fl_features (hr_features r)) = Some f" for f
      using that by (auto simp: pending_ids_def feature_ids_def find_Some_iff)
    ultimately show "?found (find (\<lambda>f. ft_state f = FeatureState_Pending) (fl_features (hr_features r))) o'"
      by (auto simp: ready_def driven_def)
  qed simp
  moreover have "mem i (?found found)
      (case found of None \<Rightarrow> finish_run fuel en i wd phases_on | Some f \<Rightarrow>
        hbind (drive_feature fuel en i wd f) (\<lambda>r. case r of None \<Rightarrow> hret None | Some passed \<Rightarrow>
          if passed then feature_loop n fuel en i wd phases_on else hret (Some ()))) (returned (\<lambda>_. True))" for found
  proof (cases found)
    case None
    then show ?thesis
      by (auto simp: ready_def distinct_run_def intro!: mem_weaken [OF mem_finish [OF assms]] split: option.splits)
  next
    case (Some f)
    let ?S = "S - {ft_id f}"
    show ?thesis
    proof (rule mem_pure [where B = "ft_id f \<in> S"])
      assume "ft_id f \<in> S"
      with Suc.prems card_Diff1_less [of S "ft_id f"] have "card ?S < n" "finite ?S" by simp_all
      note rest = Suc.IH [OF this(2,1)]
      have "mem i (loop_result ?S r) (case r of None \<Rightarrow> hret None | Some passed \<Rightarrow>
          if passed then feature_loop n fuel en i wd phases_on else hret (Some ())) (returned (\<lambda>_. True))" for r
      proof (cases "r = Some True")
        case True
        have "mem i (loop_result ?S r) (feature_loop n fuel en i wd phases_on) (returned (\<lambda>_. True))"
          by (rule mem_weaken [OF rest]) (simp_all add: True loop_result_def)
        with True show ?thesis by simp
      next
        case False
        then show ?thesis
          by (cases r) (auto intro!: mem_ret simp: loop_result_def returned_def)
      qed
      then have "mem i (driven (ft_id f) ?S) (hbind (drive_feature fuel en i wd f) (\<lambda>r. case r of None \<Rightarrow> hret None
          | Some passed \<Rightarrow> if passed then feature_loop n fuel en i wd phases_on else hret (Some ()))) (returned (\<lambda>_. True))"
        by (intro mem_bind [OF mem_drive_feature [OF assms(2)]])
      then show "mem i (?found found)
        (case found of None \<Rightarrow> finish_run fuel en i wd phases_on | Some f \<Rightarrow>
          hbind (drive_feature fuel en i wd f) (\<lambda>r. case r of None \<Rightarrow> hret None | Some passed \<Rightarrow>
            if passed then feature_loop n fuel en i wd phases_on else hret (Some ()))) (returned (\<lambda>_. True))"
        unfolding Some option.case by (rule mem_weaken) simp_all
    qed (simp add: Some)
  qed
  ultimately show ?case
    unfolding feature_loop.simps by (rule mem_bind)
qed simp

text \<open>With enough rounds of the feature loop, whatever the backlog is.\<close>

definition eventually_returns :: "uuid \<Rightarrow> run_fact \<Rightarrow> (nat \<Rightarrow> 'a option hact) \<Rightarrow> bool" where
  "eventually_returns i P m \<longleftrightarrow>
     (\<forall>w. P (hw_runs w i) \<longrightarrow> (\<exists>n0. \<forall>n\<ge>n0. \<forall>w'. m n w \<noteq> (w', Inr None)))"

lemma eventually_mem:
  assumes "\<And>n. mem i P (m n) (returned Q)"
  shows "eventually_returns i P m"
  unfolding eventually_returns_def
  by (intro allI impI exI [of _ 0] notI) (use assms in \<open>auto simp: mem_def returned_def\<close>)

lemma eventually_bind:
  assumes "mem i P m Q" and "\<And>x. eventually_returns i (Q x) (\<lambda>n. f n x)"
  shows "eventually_returns i P (\<lambda>n. hbind m (f n))"
  unfolding eventually_returns_def
proof (intro allI impI)
  fix w :: hworld
  assume P: "P (hw_runs w i)"
  obtain w1 r where r: "m w = (w1, r)" by fastforce
  show "\<exists>n0. \<forall>n\<ge>n0. \<forall>w'. hbind m (f n) w \<noteq> (w', Inr None)"
  proof (cases r)
    case (Inl e)
    with r show ?thesis by (simp add: hbind_def)
  next
    case (Inr x)
    with assms(1) P r have "Q x (hw_runs w1 i)" by (simp add: mem_def)
    with assms(2) [of x] obtain n0 where "\<forall>n\<ge>n0. \<forall>w'. f n x w1 \<noteq> (w', Inr None)"
      unfolding eventually_returns_def by blast
    with r Inr show ?thesis by (auto simp: hbind_def)
  qed
qed

lemma eventually_feature_loop:
  assumes "\<And>c fl. he_parse en c = Inr fl \<Longrightarrow> fl_max_retries fl < U32_MAX" and "2 ^ 32 < fuel"
  shows "eventually_returns i distinct_run (\<lambda>n. feature_loop n fuel en i wd phases_on)"
  unfolding eventually_returns_def
proof (intro allI impI)
  fix w :: hworld
  assume distinct: "distinct_run (hw_runs w i)"
  define S where "S = (case hw_runs w i of None \<Rightarrow> {} | Some r \<Rightarrow> pending_ids r)"
  have "ready S (hw_runs w i)" "finite S"
    using distinct by (auto simp: S_def ready_def distinct_run_def pending_ids_def split: option.splits)
  with mem_feature_loop [OF assms, where S = S] have "\<forall>n\<ge>Suc (card S). \<forall>w'. feature_loop n fuel en i wd phases_on w \<noteq> (w', Inr None)"
    by (fastforce simp: mem_def returned_def Suc_le_eq)
  then show "\<exists>n0. \<forall>n\<ge>n0. \<forall>w'. feature_loop n fuel en i wd phases_on w \<noteq> (w', Inr None)" by blast
qed

lemma eventually_same: "(\<And>w w'. m w \<noteq> (w', Inr None)) \<Longrightarrow> eventually_returns i P (\<lambda>_. m)"
  by (simp add: eventually_returns_def)

lemma eventually_drive_phases:
  assumes "\<And>c fl. he_parse en c = Inr fl \<Longrightarrow> fl_max_retries fl < U32_MAX" and "2 ^ 32 < fuel"
  shows "eventually_returns i distinct_run (\<lambda>n. drive_phases n fuel en i wd phases_on)"
proof (cases phases_on)
  case True
  note loop = eventually_feature_loop [OF assms]
  have "eventually_returns i distinct_run (\<lambda>n. if p \<noteq> SpecPhase_Executing then hret (Some ())
      else feature_loop n fuel en i wd True)" for p
    using loop by (cases "p \<noteq> SpecPhase_Executing") (simp_all add: eventually_same hret_def)
  then have executing: "eventually_returns i distinct_run (\<lambda>n. hbind (current_phase i) (\<lambda>p.
      if p \<noteq> SpecPhase_Executing then hret (Some ()) else feature_loop n fuel en i wd True))"
    by (rule eventually_bind [OF mem_frame [OF frame_fields(7)]])
  have "eventually_returns i (returned distinct_run r) (\<lambda>n. case r of None \<Rightarrow> hret None | Some _ \<Rightarrow> hbind (current_phase i) (\<lambda>p.
      if p \<noteq> SpecPhase_Executing then hret (Some ()) else feature_loop n fuel en i wd True))" for r :: "unit option"
    using executing by (cases r) (simp_all add: eventually_returns_def returned_def)
  from eventually_bind [OF mem_pre_phases [OF assms] this] True show ?thesis
    by (simp add: drive_phases_def)
next
  case False
  then show ?thesis using eventually_feature_loop [OF assms] by (simp add: drive_phases_def)
qed

lemma eventually_weaken: "eventually_returns i P m \<Longrightarrow> (\<And>o'. P' o' \<Longrightarrow> P o') \<Longrightarrow> eventually_returns i P' m"
  unfolding eventually_returns_def by blast

lemma frame_distinct [frame_rules]:
  "frame i distinct_run (set_state i st)" "frame i distinct_run (run_init en i)" "frame i distinct_run (reset_blocked_features en i)"
proof -
  show state: "frame i distinct_run (set_state i st)" for st
    unfolding set_state_def by (intro frame_rules frame_modify) (simp add: distinct_run_def feature_ids_def)
  have "frame i distinct_run (case s of Some script \<Rightarrow> run_script en (a script) | None \<Rightarrow> hret x)" for s a x
    by (cases s) (simp_all add: frame_rules)
  moreover have "frame i distinct_run (case r of (success, output) \<Rightarrow>
      hthen (emit_h (e success output)) (hthen (set_state i (st success)) (hret success)))" for r e st
    by (cases r) (simp add: frame_rules state)
  ultimately show "frame i distinct_run (run_init en i)"
    unfolding run_init_def by (intro frame_rules state)
  have ids: "ft_id (unblock f) = ft_id f" for f
    by (simp add: unblock_def)
  have emits: "frame i distinct_run (emit_all evs)" for evs
    by (induction evs) (simp_all add: frame_rules)
  show "frame i distinct_run (reset_blocked_features en i)"
    unfolding reset_blocked_features_def Let_def
    by (intro frame_rules frame_modify emits)
      (simp add: distinct_run_def feature_ids_def ids o_def)
qed


section \<open>A project with two features\<close>

definition sample_features :: feature_list where
  "sample_features = FeatureList_default\<lparr>fl_features :=
     [new_feature ''F1'' ''one'' [] FeatureState_Pending, new_feature ''F2'' ''two'' [] FeatureState_Pending]\<rparr>"

definition sample_files :: "string \<rightharpoonup> string" where
  "sample_files = [''/w/.agentum-harness/feature_list.json'' \<mapsto> ''backlog'', ''/w/.agentum-harness/verify.sh'' \<mapsto> ''make'']"

definition sample_local_world :: world where
  "sample_local_world = (sample_world [])\<lparr>w_db := (w_db (sample_world []))\<lparr>
     db_hosts := [host_row_of sample_codec 1 LOCAL_HOST_ID \<lparr>nh_name = ''local'', nh_kind = HostKind_Local\<rparr>],
     db_sessions := []\<rparr>\<rparr>"

definition sample_henv :: henv where
  "sample_henv =
     \<lparr>he_app = sample_app, he_uuid = (\<lambda>_. ''run1''), he_script = (\<lambda>t _. Inr (True, ''ok'')),
      he_write_error = (\<lambda>_ _. None), he_files = (\<lambda>_. sample_files), he_dirs = (\<lambda>_ p. p = ''/w/.agentum-harness''),
      he_world = (\<lambda>_. sample_local_world), he_live = (\<lambda>_ _. True), he_items = (\<lambda>_. []),
      he_linear = (\<lambda>_ _ _. Inl ''off''), he_print = (\<lambda>_. ''backlog''), he_parse = (\<lambda>_. Inr sample_features),
      he_parse_verdict = Inl, he_brief = (\<lambda>_. []), he_read_error = (\<lambda>p. p), he_show_api = (\<lambda>_. ''api error''),
      he_show_store = (\<lambda>_. ''store error''), he_debug = (\<lambda>s. s), he_show_state = (\<lambda>_. ''state''),
      he_lowercase = (\<lambda>s. s), he_browser_verify = False\<rparr>"

definition sample_run :: harness_run where
  "sample_run = \<lparr>hr_workdir = ''/w'', hr_state = HarnessState_Idle, hr_features = sample_features,
     hr_current_feature = None, hr_current_session = None, hr_agent_instructions = [], hr_driving = True,
     hr_phase = SpecPhase_Executing, hr_phase_attempts = 0\<rparr>"

definition sample_hworld :: hworld where
  "sample_hworld = \<lparr>hw_runs = [''run1'' \<mapsto> sample_run], hw_events = [], hw_files = sample_files,
     hw_dirs = (\<lambda>p. p = ''/w/.agentum-harness''), hw_world = sample_local_world, hw_ticks = 0\<rparr>"


end
