(* ===== verification/Tmux_Local.thy ===== *)
theory Tmux_Local
  imports Session_Lifecycle Server_Auth Transcript_Store
begin

text \<open>
  \<open>crates/agentum-tmux/src/lib.rs\<close>: tmux as a subprocess. A \<open>machine\<close> answers every process that is
  started, however it likes and depending on everything started before; the state of an operation is
  the list of the processes started so far. \<open>shlex\<close> is a parameter, and so is what the file system
  does with a private pane log.
\<close>

section \<open>Processes\<close>

datatype tmux_error =
    TmuxError_NonZero int string
  | TmuxError_NotUtf8
  | TmuxError_Parse string
  | TmuxError_Io io_error
  | TmuxError_Quote
  | TmuxError_InvalidEnvironmentName

record proc_output =
  po_status :: "int option"
  po_stdout :: string
  po_stderr :: string

type_synonym argv = "string list"

record machine =
  m_run :: "argv list \<Rightarrow> argv \<Rightarrow> io_error + proc_output"
  m_quote :: "string \<Rightarrow> string option"
  m_join :: "string list \<Rightarrow> string option"

type_synonym 'a proc = "argv list \<Rightarrow> argv list \<times> (tmux_error + 'a)"

definition pret :: "'a \<Rightarrow> 'a proc" where
  "pret x tr = (tr, Inr x)"

definition pfail :: "tmux_error \<Rightarrow> 'a proc" where
  "pfail e tr = (tr, Inl e)"

definition plift :: "tmux_error + 'a \<Rightarrow> 'a proc" where
  "plift r tr = (tr, r)"

definition pbind :: "'a proc \<Rightarrow> ('a \<Rightarrow> 'b proc) \<Rightarrow> 'b proc" where
  "pbind m f tr = (case m tr of (tr', Inl e) \<Rightarrow> (tr', Inl e) | (tr', Inr x) \<Rightarrow> f x tr')"

definition pthen :: "'a proc \<Rightarrow> 'b proc \<Rightarrow> 'b proc" where
  "pthen m n = pbind m (\<lambda>_. n)"

definition ptry :: "'a proc \<Rightarrow> (tmux_error + 'a) proc" where
  "ptry m tr = (case m tr of (tr', r) \<Rightarrow> (tr', Inr r))"

definition exec :: "machine \<Rightarrow> argv \<Rightarrow> (io_error + proc_output) proc" where
  "exec m c tr = (tr @ [c], Inr (m_run m tr c))"

definition po_success :: "proc_output \<Rightarrow> bool" where
  "po_success out \<longleftrightarrow> po_status out = Some 0"

definition check_output :: "proc_output \<Rightarrow> tmux_error + unit" where
  "check_output out =
     (if po_success out then Inr ()
      else Inl (TmuxError_NonZero (case po_status out of Some n \<Rightarrow> n | None \<Rightarrow> -1) (utf8_lossy (po_stderr out))))"

definition run_output :: "machine \<Rightarrow> argv \<Rightarrow> proc_output proc" where
  "run_output m c = pbind (exec m c) (\<lambda>r. plift (case r of Inl e \<Rightarrow> Inl (TmuxError_Io e) | Inr out \<Rightarrow> Inr out))"

definition checked_output :: "machine \<Rightarrow> argv \<Rightarrow> string proc" where
  "checked_output m c =
     pbind (run_output m c) (\<lambda>out. pthen (plift (check_output out)) (pret (po_stdout out)))"

definition run_checked :: "machine \<Rightarrow> argv \<Rightarrow> unit proc" where
  "run_checked m c = pbind (run_output m c) (\<lambda>out. plift (check_output out))"

definition from_utf8 :: "string \<Rightarrow> tmux_error + string" where
  "from_utf8 s = (if valid_utf8 s then Inr s else Inl TmuxError_NotUtf8)"

section \<open>Exact sessions\<close>

definition SESSION_LIST_FORMAT :: string where
  "SESSION_LIST_FORMAT = ''#{session_id}_#{session_name}''"

definition numbered :: "string \<Rightarrow> bool" where
  "numbered s =
     (case strip_prefix ''$'' s of None \<Rightarrow> False | Some number \<Rightarrow> number \<noteq> [] \<and> list_all is_ascii_digit number)"

definition session_target_is_id :: "string \<Rightarrow> tmux_error + bool" where
  "session_target_is_id target =
     (if \<not> starts_with ''$'' target then Inr False
      else if numbered target then Inr True
      else Inl (TmuxError_Parse ''invalid tmux session id (expected $ followed by decimal digits)''))"

text \<open>\<open>ssh::is_tmux_session_missing_error\<close>.\<close>

definition canonical_missing :: "string \<Rightarrow> bool" where
  "canonical_missing line \<longleftrightarrow>
     (case strip_prefix ''can't find session: '' line of Some t \<Rightarrow> trim t \<noteq> [] | None \<Rightarrow> False) \<or>
     (case strip_prefix ''no server running on '' line of Some t \<Rightarrow> trim t \<noteq> [] | None \<Rightarrow> False) \<or>
     starts_with ''error connecting to '' line \<and>
       (ends_with ''(No such file or directory)'' line \<or> ends_with ''(Connection refused)'' line) \<or>
     line = ''failed to connect to server: No such file or directory'' \<or>
     line = ''failed to connect to server: Connection refused''"

definition diagnostic_lines :: "string \<Rightarrow> string list" where
  "diagnostic_lines stderr = filter (\<lambda>l. l \<noteq> []) (map trim (str_lines stderr))"

definition is_tmux_session_missing_error :: "string \<Rightarrow> bool" where
  "is_tmux_session_missing_error stderr \<longleftrightarrow>
     diagnostic_lines stderr \<noteq> [] \<and> list_all canonical_missing (diagnostic_lines stderr)"

fun find_session :: "bool \<Rightarrow> string \<Rightarrow> string list \<Rightarrow> tmux_error + string option" where
  "find_session target_is_id target [] = Inr None"
| "find_session target_is_id target (row # rows) =
     (case split_once (CHR ''_'') row of
        None \<Rightarrow> find_session target_is_id target rows
      | Some (session_id, session_name) \<Rightarrow>
          if (if target_is_id then session_id else session_name) \<noteq> target
          then find_session target_is_id target rows
          else if numbered session_id then Inr (Some session_id)
          else Inl (TmuxError_Parse (''tmux returned an invalid session id for '' @ target)))"

definition list_sessions_argv :: argv where
  "list_sessions_argv = [''tmux'', ''list-sessions'', ''-F'', SESSION_LIST_FORMAT]"

definition listed_session :: "bool \<Rightarrow> string \<Rightarrow> proc_output \<Rightarrow> tmux_error + string option" where
  "listed_session target_is_id target out =
     (if \<not> po_success out then
        if po_status out = Some 1 \<and> is_tmux_session_missing_error (utf8_lossy (po_stderr out)) then Inr None
        else and_then (check_output out) (\<lambda>_. Inr None)
      else and_then (from_utf8 (po_stdout out)) (\<lambda>s. find_session target_is_id target (str_lines s)))"

definition resolve_session_id :: "machine \<Rightarrow> string \<Rightarrow> string option proc" where
  "resolve_session_id m target =
     pbind (plift (session_target_is_id target)) (\<lambda>target_is_id.
     pbind (run_output m list_sessions_argv) (\<lambda>out. plift (listed_session target_is_id target out)))"

definition require_session_id :: "machine \<Rightarrow> string \<Rightarrow> string proc" where
  "require_session_id m target =
     pbind (resolve_session_id m target) (\<lambda>r.
       case r of Some i \<Rightarrow> pret i | None \<Rightarrow> pfail (TmuxError_NonZero 1 (''can't find session: '' @ target)))"

definition has_session :: "machine \<Rightarrow> string \<Rightarrow> bool proc" where
  "has_session m target = pbind (resolve_session_id m target) (\<lambda>r. pret (r \<noteq> None))"

section \<open>Launches\<close>

definition DEFAULT_PANE_COLS :: nat where "DEFAULT_PANE_COLS = 132"
definition DEFAULT_PANE_ROWS :: nat where "DEFAULT_PANE_ROWS = 40"

definition environment_letter :: "char \<Rightarrow> bool" where
  "environment_letter c = (is_ascii_upper c \<or> is_ascii_lower c \<or> c = CHR ''_'')"

definition valid_environment_name :: "string \<Rightarrow> bool" where
  "valid_environment_name name =
     (case name of [] \<Rightarrow> False
      | c # cs \<Rightarrow> environment_letter c \<and> list_all (\<lambda>b. environment_letter b \<or> is_ascii_digit b) cs)"

definition nl :: string where "nl = [CHR 0x0A]"

text \<open>The launcher removes itself and its directory before it exports anything.\<close>

definition staged_header :: string where
  "staged_header =
     ''#!/bin/sh'' @ nl @ ''stage=$0'' @ nl @ ''stage_dir=${stage%/*}'' @ nl @
     ''if ! rm -f \"$stage\"; then'' @ nl @
     [CHR 0x09] @ ''printf '' @ [CHR 39] @ ''%s'' @ [CHR 92] @ ''n'' @ [CHR 39] @ '' '' @ [CHR 39] @
     ''agentum: could not remove private launch environment'' @ [CHR 39] @ '' >&2'' @ nl @
     [CHR 0x09] @ ''exit 70'' @ nl @ ''fi'' @ nl @
     ''rmdir \"$stage_dir\" 2>/dev/null || :'' @ nl"

definition export_line :: "string \<Rightarrow> string \<Rightarrow> string" where
  "export_line name quoted = name @ ''='' @ quoted @ nl @ ''export '' @ name @ nl"

fun export_lines :: "machine \<Rightarrow> (string \<times> string) list \<Rightarrow> tmux_error + string" where
  "export_lines m [] = Inr []"
| "export_lines m ((name, v) # env) =
     (case m_quote m v of
        None \<Rightarrow> Inl TmuxError_Quote
      | Some quoted \<Rightarrow> and_then (export_lines m env) (\<lambda>rest. Inr (export_line name quoted @ rest)))"

definition join_command :: "machine \<Rightarrow> string list \<Rightarrow> tmux_error + string" where
  "join_command m cmd = (case m_join m cmd of None \<Rightarrow> Inl TmuxError_Quote | Some s \<Rightarrow> Inr s)"

definition render_staged_launch :: "machine \<Rightarrow> string list \<Rightarrow> (string \<times> string) list \<Rightarrow> tmux_error + string" where
  "render_staged_launch m cmd env =
     (if cmd = [] then Inl (TmuxError_Parse ''launch command was empty'')
      else if \<exists>(name, v) \<in> set env. \<not> valid_environment_name name then Inl TmuxError_InvalidEnvironmentName
      else and_then (export_lines m env) (\<lambda>exports.
           and_then (join_command m cmd) (\<lambda>command.
             Inr (staged_header @ exports @ ''exec '' @ command @ nl))))"

definition tmux_new_session_command :: "string \<Rightarrow> string \<Rightarrow> string \<Rightarrow> argv" where
  "tmux_new_session_command target workdir shell_command =
     [''tmux'', ''new-session'', ''-d'', ''-s'', target, ''-x'', string_of_nat DEFAULT_PANE_COLS,
      ''-y'', string_of_nat DEFAULT_PANE_ROWS, ''-c'', workdir, shell_command]"

text \<open>
  \<open>new_session_with_tmux\<close>: \<open>stage\<close> is what writing the rendered launcher into a private directory gives,
  the path of the script or an error. Without environment nothing is staged. The result also says
  whether a staged launcher is handed to the delayed clean-up or removed at once.
\<close>

definition staged_command :: "machine \<Rightarrow> (string \<Rightarrow> tmux_error + string) \<Rightarrow> string list \<Rightarrow> (string \<times> string) list \<Rightarrow>
    tmux_error + string" where
  "staged_command m stage cmd env =
     (if env = [] then join_command m cmd
      else and_then (render_staged_launch m cmd env) (\<lambda>script.
           and_then (stage script) (\<lambda>path. join_command m [''/bin/sh'', path])))"

definition tmux_new_session :: "machine \<Rightarrow> (string \<Rightarrow> tmux_error + string) \<Rightarrow> string \<Rightarrow> string \<Rightarrow> string list \<Rightarrow>
    (string \<times> string) list \<Rightarrow> unit proc" where
  "tmux_new_session m stage target workdir cmd env =
     pbind (plift (staged_command m stage cmd env)) (\<lambda>shell_command.
       run_checked m (tmux_new_session_command target workdir shell_command))"

text \<open>\<open>private_launch_base_dir\<close>; the last argument is the temporary directory with the process id.\<close>

definition private_launch_base_dir :: "string option \<Rightarrow> string option \<Rightarrow> string \<Rightarrow> string" where
  "private_launch_base_dir xdg home temp =
     (case xdg of
        Some runtime \<Rightarrow>
          if starts_with ''/'' runtime then path_join (path_join runtime ''agentum-tmux'') ''launches''
          else (case home of
                  Some h \<Rightarrow> if starts_with ''/'' h
                    then path_join (path_join (path_join h ''.agentum'') ''runtime'') ''tmux-launches'' else temp
                | None \<Rightarrow> temp)
      | None \<Rightarrow> (case home of
                  Some h \<Rightarrow> if starts_with ''/'' h
                    then path_join (path_join (path_join h ''.agentum'') ''runtime'') ''tmux-launches'' else temp
                | None \<Rightarrow> temp))"

section \<open>Operations on a session\<close>

definition kill_session_id :: "machine \<Rightarrow> string \<Rightarrow> unit proc" where
  "kill_session_id m i = run_checked m [''tmux'', ''kill-session'', ''-t'', i]"

text \<open>An operation on the session that is resolved first; a missing one is an error, or nothing to do.\<close>

definition on_session :: "machine \<Rightarrow> string \<Rightarrow> (string \<Rightarrow> 'a proc) \<Rightarrow> 'a proc" where
  "on_session m target body = pbind (require_session_id m target) body"

definition on_session_if_any :: "machine \<Rightarrow> string \<Rightarrow> (string \<Rightarrow> unit proc) \<Rightarrow> unit proc" where
  "on_session_if_any m target body =
     pbind (resolve_session_id m target) (\<lambda>r. case r of None \<Rightarrow> pret () | Some i \<Rightarrow> body i)"

definition kill_session :: "machine \<Rightarrow> string \<Rightarrow> unit proc" where
  "kill_session m target = on_session_if_any m target (kill_session_id m)"

definition capture_by_id :: "machine \<Rightarrow> string \<Rightarrow> string \<Rightarrow> string proc" where
  "capture_by_id m start i =
     pbind (checked_output m [''tmux'', ''capture-pane'', ''-p'', ''-S'', start, ''-t'', i]) (\<lambda>s. plift (from_utf8 s))"

definition capture_pane :: "machine \<Rightarrow> string \<Rightarrow> nat \<Rightarrow> string proc" where
  "capture_pane m target lines = on_session m target (capture_by_id m (CHR ''-'' # string_of_nat lines))"

definition capture_pane_visible :: "machine \<Rightarrow> string \<Rightarrow> string proc" where
  "capture_pane_visible m target = on_session m target (capture_by_id m ''0'')"

record cursor_sample =
  cs_x :: "32 word"
  cs_y :: "32 word"
  cs_visible :: bool

definition CURSOR_SAMPLE_FORMAT :: string where
  "CURSOR_SAMPLE_FORMAT = ''#{cursor_x} #{cursor_y} #{cursor_flag}''"

text \<open>\<open>u32::from_str\<close>, with the text of its error.\<close>

fun parse_digits_u32 :: "nat \<Rightarrow> string \<Rightarrow> string + 32 word" where
  "parse_digits_u32 acc [] = Inr (of_nat acc)"
| "parse_digits_u32 acc (c # cs) =
     (if \<not> is_ascii_digit c then Inl ''invalid digit found in string''
      else let acc' = acc * 10 + (of_char c - 48)
           in if 2 ^ 32 \<le> acc' then Inl ''number too large to fit in target type''
              else parse_digits_u32 acc' cs)"

definition parse_u32_result :: "string \<Rightarrow> string + 32 word" where
  "parse_u32_result s =
     (if s = [] then Inl ''cannot parse integer from empty string''
      else parse_digits_u32 0 (if hd s = CHR ''+'' \<and> tl s \<noteq> [] then tl s else s))"

definition parse_u32 :: "string \<Rightarrow> 32 word option" where
  "parse_u32 s = (case parse_u32_result s of Inr n \<Rightarrow> Some n | Inl _ \<Rightarrow> None)"

definition parse_cursor_sample :: "string \<Rightarrow> cursor_sample option" where
  "parse_cursor_sample line =
     (case split_whitespace line of
        a # b # rest \<Rightarrow>
          Option.bind (parse_u32 a) (\<lambda>x. Option.bind (parse_u32 b) (\<lambda>y.
            Some \<lparr>cs_x = x, cs_y = y, cs_visible = (case rest of [] \<Rightarrow> True | f # _ \<Rightarrow> f \<noteq> ''0'')\<rparr>))
      | _ \<Rightarrow> None)"

definition crlf :: string where "crlf = [CHR 0x0D, CHR 0x0A]"
definition esc :: string where "esc = [CHR 0x1B, CHR ''['']"

fun join_with :: "string \<Rightarrow> string list \<Rightarrow> string" where
  "join_with sep [] = []"
| "join_with sep [r] = r"
| "join_with sep (r # s # rs) = r @ sep @ join_with sep (s # rs)"

definition drop_last_newline :: "string \<Rightarrow> string" where
  "drop_last_newline grid = (if grid \<noteq> [] \<and> last grid = CHR 0x0A then butlast grid else grid)"

text \<open>The cursor is 0-based in tmux and 1-based on the terminal; \<open>+\<close> wraps at 32 bits.\<close>

definition cursor_codes :: "cursor_sample option \<Rightarrow> string" where
  "cursor_codes cursor =
     (case cursor of
        None \<Rightarrow> []
      | Some c \<Rightarrow>
          esc @ string_of_nat (unat (cs_y c + 1)) @ '';'' @ string_of_nat (unat (cs_x c + 1)) @ ''H'' @
          (if cs_visible c then [] else esc @ ''?25l''))"

definition assemble_anchored_snapshot :: "string \<Rightarrow> cursor_sample option \<Rightarrow> string" where
  "assemble_anchored_snapshot grid cursor =
     (let g = drop_last_newline grid
      in if g = [] then [] else join_with crlf (split_on (CHR 0x0A) g) @ cursor_codes cursor)"

definition split_first_line :: "string \<Rightarrow> string \<times> string" where
  "split_first_line s = (case split_once (CHR 0x0A) s of Some p \<Rightarrow> p | None \<Rightarrow> (s, []))"

definition capture_ansi_by_id :: "machine \<Rightarrow> string \<Rightarrow> string proc" where
  "capture_ansi_by_id m i =
     pbind (checked_output m ([''tmux'', ''display-message'', ''-p'', ''-t'', i, CURSOR_SAMPLE_FORMAT, '';''] @
         [''capture-pane'', ''-p'', ''-e'', ''-t'', i])) (\<lambda>s.
       case split_first_line s of (first, rest) \<Rightarrow>
         pret (assemble_anchored_snapshot rest (parse_cursor_sample (utf8_lossy first))))"

definition capture_pane_ansi :: "machine \<Rightarrow> string \<Rightarrow> string proc" where
  "capture_pane_ansi m target = on_session m target (capture_ansi_by_id m)"

definition message_by_id :: "machine \<Rightarrow> string \<Rightarrow> string \<Rightarrow> string proc" where
  "message_by_id m format i = checked_output m [''tmux'', ''display-message'', ''-p'', ''-t'', i, format]"

definition is_line_end :: "char \<Rightarrow> bool" where
  "is_line_end c = (c = CHR 0x0A \<or> c = CHR 0x0D)"

definition trim_line_ends :: "string \<Rightarrow> string" where
  "trim_line_ends s = rev (dropWhile is_line_end (rev (dropWhile is_line_end s)))"

definition title_by_id :: "machine \<Rightarrow> string \<Rightarrow> string proc" where
  "title_by_id m i = pbind (message_by_id m ''#{pane_title}'' i) (\<lambda>s. pret (trim_line_ends (utf8_lossy s)))"

definition pane_title :: "machine \<Rightarrow> string \<Rightarrow> string proc" where
  "pane_title m target = on_session m target (title_by_id m)"

definition keys_by_id :: "machine \<Rightarrow> string \<Rightarrow> bool \<Rightarrow> string \<Rightarrow> unit proc" where
  "keys_by_id m keys append_enter i =
     run_checked m ([''tmux'', ''send-keys'', ''-t'', i, keys] @ (if append_enter then [''Enter''] else []))"

definition send_keys :: "machine \<Rightarrow> string \<Rightarrow> string \<Rightarrow> bool \<Rightarrow> unit proc" where
  "send_keys m target keys append_enter = on_session m target (keys_by_id m keys append_enter)"

definition SEND_KEYS_HEX_CHUNK_BYTES :: nat where "SEND_KEYS_HEX_CHUNK_BYTES = 512"

function chunks :: "nat \<Rightarrow> 'a list \<Rightarrow> 'a list list" where
  "chunks n xs = (if xs = [] \<or> n = 0 then [] else take n xs # chunks n (drop n xs))"
  by pat_completeness auto
termination
  by (relation "measure (\<lambda>(n, xs). length xs)") auto

declare chunks.simps [simp del]

definition send_chunk_argv :: "string \<Rightarrow> string \<Rightarrow> argv" where
  "send_chunk_argv i chunk = [''tmux'', ''send-keys'', ''-H'', ''-t'', i] @ map hex_byte chunk"

fun send_chunks :: "machine \<Rightarrow> string \<Rightarrow> string list \<Rightarrow> unit proc" where
  "send_chunks m i [] = pret ()"
| "send_chunks m i (c # cs) = pthen (run_checked m (send_chunk_argv i c)) (send_chunks m i cs)"

definition bytes_by_id :: "machine \<Rightarrow> string \<Rightarrow> string \<Rightarrow> unit proc" where
  "bytes_by_id m bytes i = send_chunks m i (chunks SEND_KEYS_HEX_CHUNK_BYTES bytes)"

definition send_bytes :: "machine \<Rightarrow> string \<Rightarrow> string \<Rightarrow> unit proc" where
  "send_bytes m target bytes =
     (if bytes = [] then pret () else on_session m target (bytes_by_id m bytes))"

definition manual_size :: "machine \<Rightarrow> string \<Rightarrow> unit proc" where
  "manual_size m i =
     pthen (exec m [''tmux'', ''set-option'', ''-q'', ''-t'', i, ''window-size'', ''manual'']) (pret ())"

definition resize_by_id :: "machine \<Rightarrow> 16 word \<Rightarrow> 16 word \<Rightarrow> string \<Rightarrow> unit proc" where
  "resize_by_id m cols rows i =
     pthen (manual_size m i)
       (run_checked m [''tmux'', ''resize-window'', ''-t'', i, ''-x'', string_of_nat (unat (max cols 20)),
          ''-y'', string_of_nat (unat (max rows 5))])"

definition resize_window :: "machine \<Rightarrow> string \<Rightarrow> 16 word \<Rightarrow> 16 word \<Rightarrow> unit proc" where
  "resize_window m target cols rows = on_session m target (resize_by_id m cols rows)"

text \<open>The number of rows is \<open>rows_delta\<close> without its sign; \<open>unsigned_abs\<close> has no overflow.\<close>

definition relative_by_id :: "machine \<Rightarrow> 16 word \<Rightarrow> string \<Rightarrow> unit proc" where
  "relative_by_id m rows_delta i =
     pthen (manual_size m i)
       (run_checked m [''tmux'', ''resize-window'', ''-t'', i,
          if 0 < sint rows_delta then ''-U'' else ''-D'', string_of_nat (nat \<bar>sint rows_delta\<bar>)])"

definition resize_window_relative :: "machine \<Rightarrow> string \<Rightarrow> 16 word \<Rightarrow> unit proc" where
  "resize_window_relative m target rows_delta =
     (if rows_delta = 0 then pret () else on_session m target (relative_by_id m rows_delta))"

section \<open>Pane logs\<close>

record pane_log_identity =
  pl_dev :: "64 word"
  pl_ino :: "64 word"
  pl_uid :: "32 word"

definition file_identity :: "pane_log_identity \<Rightarrow> string" where
  "file_identity p = join_with '':'' [string_of_nat (unat (pl_dev p)), string_of_nat (unat (pl_ino p)),
     string_of_nat (unat (pl_uid p)), ''600'', ''1'']"

definition fd_identity :: "pane_log_identity \<Rightarrow> string" where
  "fd_identity p = join_with '':'' [string_of_nat (unat (pl_ino p)), string_of_nat (unat (pl_uid p)), ''1'']"

definition squoted :: "string \<Rightarrow> string" where
  "squoted s = [CHR 39] @ s @ [CHR 39]"

definition pane_log_sink_command :: "machine \<Rightarrow> string \<Rightarrow> pane_log_identity \<Rightarrow> tmux_error + string" where
  "pane_log_sink_command m out_path p =
     (case m_quote m out_path of
        None \<Rightarrow> Inl TmuxError_Quote
      | Some quoted_path \<Rightarrow> Inr (
          ''umask 077; p='' @ quoted_path @ ''; [ ! -L \"$p\" ] && [ -f \"$p\" ] || exit 73; '' @
          ''exec 3>>\"$p\" || exit 73; '' @
          ''if fd_actual=$(/usr/bin/stat -f '' @ squoted ''%i:%u:%l'' @ '' /dev/fd/3 2>/dev/null); then '' @
          ''path_actual=$(/usr/bin/stat -f '' @ squoted ''%d:%i:%u:%Lp:%l'' @ '' \"$p\" 2>/dev/null) || exit 73; '' @
          ''[ \"$fd_actual\" = '' @ squoted (fd_identity p) @ '' ] && [ \"$path_actual\" = '' @
          squoted (file_identity p) @ '' ] || exit 73; '' @
          ''else fd_actual=$(/usr/bin/stat -Lc '' @ squoted ''%d:%i:%u:%a:%h'' @ '' /dev/fd/3 2>/dev/null) || exit 73; '' @
          ''path_actual=$(/usr/bin/stat -Lc '' @ squoted ''%d:%i:%u:%a:%h'' @ '' \"$p\" 2>/dev/null) || exit 73; '' @
          ''[ \"$fd_actual\" = '' @ squoted (file_identity p) @ '' ] && [ \"$path_actual\" = '' @
          squoted (file_identity p) @ '' ] || exit 73; '' @
          ''fi; exec /bin/cat >&3''))"

definition escape_percent :: "string \<Rightarrow> string" where
  "escape_percent s = concat (map (\<lambda>c. if c = CHR ''%'' then ''%%'' else [c]) s)"

definition pipe_command :: "machine \<Rightarrow> string \<Rightarrow> pane_log_identity \<Rightarrow> tmux_error + string" where
  "pipe_command m out_path p =
     and_then (pane_log_sink_command m out_path p) (\<lambda>sink.
       case m_quote m (escape_percent sink) of
         None \<Rightarrow> Inl TmuxError_Quote
       | Some quoted \<Rightarrow> Inr (''exec sh -c '' @ quoted))"

definition pipe_by_id :: "machine \<Rightarrow> string \<Rightarrow> string \<Rightarrow> unit proc" where
  "pipe_by_id m sink_command i =
     pbind (message_by_id m ''#{pane_pipe}'' i) (\<lambda>probe.
       if trim (utf8_lossy probe) = ''1'' then pret ()
       else run_checked m [''tmux'', ''pipe-pane'', ''-t'', i, sink_command])"

text \<open>\<open>prepared\<close> is what \<open>prepare_private_pane_log\<close> gives for the path.\<close>

definition log_by_id :: "machine \<Rightarrow> tmux_error + pane_log_identity \<Rightarrow> string \<Rightarrow> string \<Rightarrow> unit proc" where
  "log_by_id m prepared out_path i =
     pbind (plift prepared) (\<lambda>p.
     pbind (plift (pipe_command m out_path p)) (\<lambda>cmd. pipe_by_id m cmd i))"

definition pipe_pane :: "machine \<Rightarrow> tmux_error + pane_log_identity \<Rightarrow> string \<Rightarrow> string \<Rightarrow> unit proc" where
  "pipe_pane m prepared target out_path = on_session m target (log_by_id m prepared out_path)"

definition unpipe_by_id :: "machine \<Rightarrow> string \<Rightarrow> unit proc" where
  "unpipe_by_id m i = run_checked m [''tmux'', ''pipe-pane'', ''-t'', i]"

definition unpipe_pane :: "machine \<Rightarrow> string \<Rightarrow> unit proc" where
  "unpipe_pane m target = on_session m target (unpipe_by_id m)"

definition list_panes_all :: "machine \<Rightarrow> string \<Rightarrow> string proc" where
  "list_panes_all m format =
     pbind (exec m [''tmux'', ''list-panes'', ''-a'', ''-F'', format]) (\<lambda>r.
       plift (case r of
                Inl IoNotFound \<Rightarrow> Inr []
              | Inl e \<Rightarrow> Inl (TmuxError_Io e)
              | Inr out \<Rightarrow> if po_success out then from_utf8 (po_stdout out) else Inr []))"

definition current_command_by_id :: "machine \<Rightarrow> string \<Rightarrow> string proc" where
  "current_command_by_id m i =
     pbind (message_by_id m ''#{pane_current_command}'' i) (\<lambda>s.
     pbind (plift (from_utf8 s)) (\<lambda>t. pret (trim t)))"

definition pane_current_command :: "machine \<Rightarrow> string \<Rightarrow> string proc" where
  "pane_current_command m target = on_session m target (current_command_by_id m)"

definition pane_pid_by_id :: "machine \<Rightarrow> string \<Rightarrow> 32 word proc" where
  "pane_pid_by_id m i =
     pbind (message_by_id m ''#{pane_pid}'' i) (\<lambda>s.
     pbind (plift (from_utf8 s)) (\<lambda>t.
       case parse_u32_result (trim t) of Inr n \<Rightarrow> pret n | Inl e \<Rightarrow> pfail (TmuxError_Parse e)))"

definition pane_pid :: "machine \<Rightarrow> string \<Rightarrow> 32 word proc" where
  "pane_pid m target = on_session m target (pane_pid_by_id m)"

section \<open>Stopping\<close>

definition signal :: "machine \<Rightarrow> 32 word \<Rightarrow> string \<Rightarrow> unit proc" where
  "signal m pid sig = run_checked m [''kill'', CHR ''-'' # sig, string_of_nat (unat pid)]"

definition is_alive :: "machine \<Rightarrow> 32 word \<Rightarrow> bool proc" where
  "is_alive m pid =
     pbind (exec m [''kill'', ''-0'', string_of_nat (unat pid)]) (\<lambda>r.
       pret (case r of Inl _ \<Rightarrow> False | Inr out \<Rightarrow> po_success out))"

text \<open>
  The wait after SIGTERM: \<open>elapsed\<close> milliseconds have passed. A round takes the 200 ms it sleeps and,
  for the processes it starts, some time more: \<open>late k\<close> in the k-th round.
\<close>

function wait_exit :: "machine \<Rightarrow> 32 word \<Rightarrow> (nat \<Rightarrow> nat) \<Rightarrow> nat \<Rightarrow> nat \<Rightarrow> nat \<Rightarrow> unit proc" where
  "wait_exit m pid late timeout k elapsed =
     (if timeout \<le> elapsed then pret ()
      else pbind (is_alive m pid) (\<lambda>alive.
        if alive then wait_exit m pid late timeout (Suc k) (elapsed + 200 + late k) else pret ()))"
  by pat_completeness auto
termination
  by (relation "measure (\<lambda>(m, pid, late, timeout, k, elapsed). timeout - elapsed)") auto

declare wait_exit.simps [simp del]

definition end_process :: "machine \<Rightarrow> (nat \<Rightarrow> nat) \<Rightarrow> nat \<Rightarrow> tmux_error + 32 word \<Rightarrow> unit proc" where
  "end_process m late timeout r =
     (case r of
        Inl _ \<Rightarrow> pret ()
      | Inr pid \<Rightarrow>
          pthen (ptry (signal m pid ''TERM''))
          (pthen (wait_exit m pid late timeout 0 0)
          (pbind (is_alive m pid) (\<lambda>alive.
             if alive then pthen (ptry (signal m pid ''KILL'')) (pret ()) else pret ()))))"

definition stop_by_id :: "machine \<Rightarrow> (nat \<Rightarrow> nat) \<Rightarrow> nat \<Rightarrow> string \<Rightarrow> unit proc" where
  "stop_by_id m late timeout i =
     pbind (ptry (pane_pid_by_id m i)) (\<lambda>r. pthen (end_process m late timeout r) (kill_session_id m i))"

definition graceful_stop :: "machine \<Rightarrow> (nat \<Rightarrow> nat) \<Rightarrow> string \<Rightarrow> nat \<Rightarrow> unit proc" where
  "graceful_stop m late target timeout = on_session_if_any m target (stop_by_id m late timeout)"

section \<open>What an operation starts\<close>

text \<open>\<open>emits P p\<close>: run from any trace, \<open>p\<close> only appends processes, and each of them satisfies \<open>P\<close>.\<close>

definition emits :: "(argv \<Rightarrow> bool) \<Rightarrow> 'a proc \<Rightarrow> bool" where
  "emits P p \<longleftrightarrow> (\<forall>tr. \<exists>news. fst (p tr) = tr @ news \<and> list_all P news)"

lemma emitsE:
  assumes "emits P p"
  obtains news where "fst (p tr) = tr @ news" "list_all P news"
  using assms unfolding emits_def by blast

lemma emits_weaken: "emits P p \<Longrightarrow> (\<And>c. P c \<Longrightarrow> Q c) \<Longrightarrow> emits Q p"
  unfolding emits_def by (metis list.pred_mono_strong)

lemma emits_pure [simp, intro]: "emits P (pret x)" "emits P (pfail e)" "emits P (plift r)"
  by (simp_all add: emits_def pret_def pfail_def plift_def)

lemma emits_exec [intro]: "P c \<Longrightarrow> emits P (exec m c)"
  by (simp add: emits_def exec_def)

lemma emits_pbind [intro]:
  assumes "emits P p" "\<And>x. emits P (f x)"
  shows "emits P (pbind p f)"
  unfolding emits_def
proof
  fix tr
  obtain news where news: "fst (p tr) = tr @ news" "list_all P news"
    using emitsE [OF assms(1)] by blast
  show "\<exists>news. fst (pbind p f tr) = tr @ news \<and> list_all P news"
  proof (cases "snd (p tr)")
    case (Inl e)
    then have "fst (pbind p f tr) = fst (p tr)" by (cases "p tr") (simp add: pbind_def)
    then show ?thesis using news by auto
  next
    case (Inr x)
    then have "fst (pbind p f tr) = fst (f x (tr @ news))" using news by (cases "p tr") (simp add: pbind_def)
    moreover obtain more where "fst (f x (tr @ news)) = (tr @ news) @ more" "list_all P more"
      using emitsE [OF assms(2)] by blast
    ultimately show ?thesis using news by (intro exI [of _ "news @ more"]) simp
  qed
qed

lemma emits_pthen [intro]: "emits P p \<Longrightarrow> emits P q \<Longrightarrow> emits P (pthen p q)"
  by (auto simp: pthen_def)

lemma emits_ptry [intro]: "emits P p \<Longrightarrow> emits P (ptry p)"
  unfolding emits_def ptry_def by (simp add: case_prod_beta)

lemma emits_run [intro]:
  assumes "P c"
  shows "emits P (run_output m c)" "emits P (checked_output m c)" "emits P (run_checked m c)"
  using assms unfolding run_output_def checked_output_def run_checked_def by (blast)+

text \<open>
  The options of a tmux command, as tmux reads them: up to the first argument that is not an option,
  clusters of letters included. \<open>addressed\<close> collects what follows \<open>-t\<close>; an argument that ends in an
  unescaped \<open>;\<close> ends a command.
\<close>

definition takes_value :: "char \<Rightarrow> bool" where
  "takes_value f = (f \<in> set ''txySFsc'')"

lemma lengths_drop: "sum_list (map length (drop n xs)) \<le> sum_list (map length xs)"
  by (induction xs arbitrary: n) (auto simp: drop_Cons trans_le_add2 split: nat.split)

lemma drop_one_shorter:
  "length args - Suc 0 + sum_list (map length (drop (Suc 0) args))
     < Suc (Suc (Suc (length args + (k + sum_list (map length args)))))"
  "length args - Suc 0 + sum_list (map length (drop (Suc 0) args))
     < Suc (Suc (Suc (length args + sum_list (map length args))))"
  using lengths_drop [of "Suc 0" args] by linarith+

function option_targets :: "string list \<Rightarrow> string list" where
  "option_targets [] = []"
| "option_targets ([] # args) = []"
| "option_targets ((d # fs) # args) =
     (if d \<noteq> CHR ''-'' \<or> fs = [] then []
      else case fs of f # rest \<Rightarrow>
        if takes_value f then
          (if rest \<noteq> [] then (if f = CHR ''t'' then [rest] else []) @ option_targets args
           else (if f = CHR ''t'' then take 1 args else []) @ option_targets (drop 1 args))
        else if rest \<noteq> [] then option_targets ((d # rest) # args) else option_targets args)"
  by pat_completeness auto
termination
  by (relation "measure (\<lambda>args. length args + sum_list (map length args))")
    (auto simp: drop_one_shorter split: list.splits)

fun ends_command :: "string \<Rightarrow> bool" where
  "ends_command [] = False"
| "ends_command [a] = (a = CHR '';'')"
| "ends_command [a, b] = (a \<noteq> CHR 92 \<and> b = CHR '';'')"
| "ends_command (a # b # c # s) = ends_command (b # c # s)"

lemma ends_command_last: "ends_command s \<Longrightarrow> last s = CHR '';''"
  by (induction s rule: ends_command.induct) simp_all

fun separated :: "argv \<Rightarrow> argv list" where
  "separated [] = [[]]"
| "separated (a # args) =
     (case separated args of
        [] \<Rightarrow> [[a]]
      | c # cs \<Rightarrow>
          if ends_command a then (if butlast a = [] then [] else [butlast a]) # c # cs else (a # c) # cs)"

definition addressed :: "argv \<Rightarrow> string list" where
  "addressed c = concat (map (\<lambda>cmd. option_targets (drop 1 cmd)) (separated (drop 1 c)))"

section \<open>The session a command acts on\<close>

text \<open>\<open>named_by m tr target i\<close>: the listing taken at \<open>tr\<close> has a row of the id \<open>i\<close> for exactly this target.\<close>

definition named_by :: "machine \<Rightarrow> argv list \<Rightarrow> string \<Rightarrow> string \<Rightarrow> bool" where
  "named_by m tr target i \<longleftrightarrow>
     numbered i \<and>
     (\<exists>out name. m_run m tr list_sessions_argv = Inr out \<and> po_success out \<and>
        (\<exists>row \<in> set (str_lines (po_stdout out)). split_once (CHR ''_'') row = Some (i, name)) \<and>
        (if starts_with ''$'' target then i = target else name = target))"

definition acts_on :: "string \<Rightarrow> argv \<Rightarrow> bool" where
  "acts_on i c \<longleftrightarrow> hd c = ''kill'' \<or> (addressed c \<noteq> [] \<and> list_all (\<lambda>t. t = i) (addressed c))"

definition confined :: "machine \<Rightarrow> string \<Rightarrow> 'a proc \<Rightarrow> bool" where
  "confined m target p \<longleftrightarrow>
     (\<forall>tr. \<exists>news. fst (p tr) = tr @ news \<and>
        (news = [] \<or> news = [list_sessions_argv] \<or>
         (\<exists>i rest. news = list_sessions_argv # rest \<and> named_by m tr target i \<and> list_all (acts_on i) rest)))"

lemma find_session_exact:
  assumes "find_session b target rows = Inr (Some i)"
  shows "numbered i \<and> (\<exists>row \<in> set rows. \<exists>name. split_once (CHR ''_'') row = Some (i, name) \<and>
           (if b then i = target else name = target))"
  using assms by (induction rows) (fastforce split: option.splits prod.splits if_splits)+

lemma listed_session_exact:
  assumes "listed_session b target out = Inr (Some i)"
  shows "po_success out \<and> find_session b target (str_lines (po_stdout out)) = Inr (Some i)"
  using assms
  by (auto simp: listed_session_def from_utf8_def and_then_def check_output_def split: if_splits sum.splits)

lemma resolve_session_id_outcome:
  "fst (resolve_session_id m target tr) = tr \<and> (\<exists>e. snd (resolve_session_id m target tr) = Inl e) \<or>
   fst (resolve_session_id m target tr) = tr @ [list_sessions_argv] \<and>
     (\<forall>i. snd (resolve_session_id m target tr) = Inr (Some i) \<longrightarrow> named_by m tr target i)"
proof (cases "session_target_is_id target")
  case (Inl e)
  then show ?thesis by (simp add: resolve_session_id_def pbind_def plift_def)
next
  case (Inr b)
  then have b: "b = starts_with ''$'' target" by (auto simp: session_target_is_id_def split: if_splits)
  have fst: "fst (resolve_session_id m target tr) = tr @ [list_sessions_argv]"
    using Inr by (simp add: resolve_session_id_def pbind_def plift_def run_output_def exec_def split: sum.split)
  have "named_by m tr target i" if "snd (resolve_session_id m target tr) = Inr (Some i)" for i
  proof -
    from that Inr obtain out where out: "m_run m tr list_sessions_argv = Inr out"
      "listed_session b target out = Inr (Some i)"
      by (auto simp: resolve_session_id_def pbind_def plift_def run_output_def exec_def split: sum.splits)
    then have "numbered i \<and> (\<exists>row \<in> set (str_lines (po_stdout out)). \<exists>name.
        split_once (CHR ''_'') row = Some (i, name) \<and> (if b then i = target else name = target))"
      using listed_session_exact find_session_exact by blast
    then show ?thesis using out listed_session_exact [OF out(2)] b unfolding named_by_def by (simp (no_asm_simp)) metis
  qed
  then show ?thesis using fst by blast
qed

lemma resolve_cases:
  obtains (refused) e where "resolve_session_id m target tr = (tr, Inl e)"
  | (failed) e where "resolve_session_id m target tr = (tr @ [list_sessions_argv], Inl e)"
  | (absent) "resolve_session_id m target tr = (tr @ [list_sessions_argv], Inr None)"
  | (found) i where "resolve_session_id m target tr = (tr @ [list_sessions_argv], Inr (Some i))"
      "named_by m tr target i"
proof (cases "resolve_session_id m target tr")
  case (Pair tr' r)
  note outcome = resolve_session_id_outcome [of m target tr, unfolded Pair, simplified]
  show ?thesis
  proof (cases r)
    case (Inl e)
    then show ?thesis using outcome Pair refused failed by auto
  next
    case (Inr q)
    then show ?thesis using outcome Pair absent found by (cases q) auto
  qed
qed

lemma confinedI:
  assumes "fst (p tr) = tr @ news"
    "news = [] \<or> news = [list_sessions_argv] \<or>
     (\<exists>i rest. news = list_sessions_argv # rest \<and> named_by m tr target i \<and> list_all (acts_on i) rest)"
  shows "\<exists>news. fst (p tr) = tr @ news \<and> (news = [] \<or> news = [list_sessions_argv] \<or>
     (\<exists>i rest. news = list_sessions_argv # rest \<and> named_by m tr target i \<and> list_all (acts_on i) rest))"
  using assms by blast

lemma confined_pure [simp]: "confined m target (pret x)"
  by (simp add: confined_def pret_def)

locale session_command =
  fixes body :: "string \<Rightarrow> 'a proc"
  assumes stays: "numbered i \<Longrightarrow> emits (acts_on i) (body i)"
begin

lemma body_extends:
  assumes "named_by m tr target i"
  obtains rest where "fst (body i tr') = tr' @ rest" "list_all (acts_on i) rest"
  using emitsE [OF stays] assms unfolding named_by_def by blast

lemma confined_on_session: "confined m target (on_session m target body)"
  unfolding confined_def
proof
  fix tr
  note [simp] = on_session_def require_session_id_def pbind_def pret_def pfail_def
  show "\<exists>news. fst (on_session m target body tr) = tr @ news \<and> (news = [] \<or> news = [list_sessions_argv] \<or>
     (\<exists>i rest. news = list_sessions_argv # rest \<and> named_by m tr target i \<and> list_all (acts_on i) rest))"
  proof (cases rule: resolve_cases [of m target tr])
    case (found i)
    obtain rest where "fst (body i (tr @ [list_sessions_argv])) = (tr @ [list_sessions_argv]) @ rest"
      "list_all (acts_on i) rest"
      by (rule body_extends [OF found(2)])
    then show ?thesis using found by (intro confinedI [where news = "list_sessions_argv # rest"]) auto
  qed auto
qed

end

locale session_action = session_command body for body :: "string \<Rightarrow> unit proc"
begin

lemma confined_if_any: "confined m target (on_session_if_any m target body)"
  unfolding confined_def
proof
  fix tr
  note [simp] = on_session_if_any_def pbind_def pret_def
  show "\<exists>news. fst (on_session_if_any m target body tr) = tr @ news \<and> (news = [] \<or> news = [list_sessions_argv] \<or>
     (\<exists>i rest. news = list_sessions_argv # rest \<and> named_by m tr target i \<and> list_all (acts_on i) rest))"
  proof (cases rule: resolve_cases [of m target tr])
    case (found i)
    obtain rest where "fst (body i (tr @ [list_sessions_argv])) = (tr @ [list_sessions_argv]) @ rest"
      "list_all (acts_on i) rest"
      by (rule body_extends [OF found(2)])
    then show ?thesis using found by (intro confinedI [where news = "list_sessions_argv # rest"]) auto
  qed auto
qed

end

section \<open>Every operation stays on the session its target names\<close>

lemma digits_not_ends: "list_all is_ascii_digit ds \<Longrightarrow> \<not> ends_command ds"
proof
  assume "list_all is_ascii_digit ds" "ends_command ds"
  then have "ds \<noteq> []" "last ds = CHR '';''" "\<forall>d \<in> set ds. is_ascii_digit d"
    using ends_command_last by (auto simp: list_all_iff)
  then have "is_ascii_digit CHR '';''" by (metis last_in_set)
  then show False by (simp add: is_ascii_digit_def)
qed

lemma string_of_nat_not_ends: "\<not> ends_command (string_of_nat n)"
  by (rule digits_not_ends [OF string_of_nat_digits])

lemma numbered_not_ends:
  assumes "numbered i"
  shows "\<not> ends_command i"
proof -
  obtain ds where ds: "i = CHR ''$'' # ds" "ds \<noteq> []" "list_all is_ascii_digit ds"
    using assms by (cases i) (auto simp: numbered_def split: option.splits if_splits)
  then have "is_ascii_digit (last i)" by (simp add: list_all_iff)
  then show ?thesis using ends_command_last [of i] by (auto simp: is_ascii_digit_def)
qed

lemma separated_single:
  "list_all (\<lambda>a. \<not> ends_command a) args \<Longrightarrow> separated args = [args]"
  by (induction args) simp_all

lemma separated_nonempty: "separated args \<noteq> []"
  by (cases args) (auto split: list.splits)

lemma acts_onI:
  assumes "list_all (\<lambda>a. \<not> ends_command a) (sub # args)" "option_targets args = [i]"
  shows "acts_on i (''tmux'' # sub # args)"
  using assms by (simp add: acts_on_def addressed_def separated_single)

lemma takes_value_simps [simp]:
  "takes_value CHR ''t''" "takes_value CHR ''x''" "takes_value CHR ''y''" "takes_value CHR ''S''"
  "\<not> takes_value CHR ''p''" "\<not> takes_value CHR ''e''" "\<not> takes_value CHR ''q''" "\<not> takes_value CHR ''H''"
  "\<not> takes_value CHR ''U''" "\<not> takes_value CHR ''D''"
  by (simp_all add: takes_value_def)

lemma option_targets_stop: "\<not> starts_with ''-'' a \<Longrightarrow> option_targets (a # args) = []"
  by (cases a) (auto simp: starts_with_def)

lemma number_stops: "option_targets (string_of_nat n # args) = []"
  by (rule option_targets_stop) (cases "string_of_nat n"; use string_of_nat_not_minus in \<open>auto simp: starts_with_def\<close>)

lemma kill_acts_on: "numbered i \<Longrightarrow> emits (acts_on i) (kill_session_id m i)"
  unfolding kill_session_id_def
  by (intro emits_run acts_onI) (simp_all add: numbered_not_ends)

lemma capture_acts_on:
  "numbered i \<Longrightarrow> \<not> ends_command start \<Longrightarrow> emits (acts_on i) (capture_by_id m start i)"
  unfolding capture_by_id_def
  by (intro emits_pbind emits_pure emits_run acts_onI) (simp_all add: numbered_not_ends)

lemma minus_number_not_ends: "\<not> ends_command (CHR ''-'' # string_of_nat n)"
proof
  assume "ends_command (CHR ''-'' # string_of_nat n)"
  then have "last (string_of_nat n) = CHR '';''" using ends_command_last by fastforce
  moreover have "is_ascii_digit (last (string_of_nat n))"
    using string_of_nat_digits [of n] last_in_set [OF string_of_nat_nonempty] by (simp add: list_all_iff)
  ultimately show False by (simp add: is_ascii_digit_def)
qed

lemma capture_ansi_acts_on: "numbered i \<Longrightarrow> emits (acts_on i) (capture_ansi_by_id m i)"
  unfolding capture_ansi_by_id_def
  by (intro emits_pbind emits_run)
    (auto simp: acts_on_def addressed_def CURSOR_SAMPLE_FORMAT_def numbered_not_ends option_targets_stop
       starts_with_def split: prod.split)

lemma message_acts_on:
  "numbered i \<Longrightarrow> hd format = CHR ''#'' \<Longrightarrow> \<not> ends_command format \<Longrightarrow> emits (acts_on i) (message_by_id m format i)"
  unfolding message_by_id_def
  by (intro emits_run acts_onI; cases format) (simp_all add: numbered_not_ends)

lemma keys_acts_on:
  assumes "numbered i" "\<not> starts_with ''-'' keys" "\<not> ends_command keys"
  shows "emits (acts_on i) (keys_by_id m keys e i)"
  using assms unfolding keys_by_id_def
  by (intro emits_run) (simp add: acts_onI numbered_not_ends option_targets_stop)

lemma hex_val_hex_digit: "n < 16 \<Longrightarrow> hex_val (hex_digit n) = Some n"
proof -
  have "\<forall>n \<in> set [0..<16]. hex_val (hex_digit n) = Some n" by code_simp
  then show "n < 16 \<Longrightarrow> hex_val (hex_digit n) = Some n" by simp
qed

lemma hex_byte_digits:
  obtains a b where "hex_byte c = [a, b]" "hex_val a = Some (of_char c div 16)" "hex_val b = Some (of_char c mod 16)"
proof -
  have "(of_char c :: nat) div 16 < 16" using nat_of_char_less_256 [of c] by linarith
  then show ?thesis using that by (simp add: hex_byte_def Let_def hex_val_hex_digit)
qed

lemma hex_byte_plain: "\<not> ends_command (hex_byte c)" "\<not> starts_with ''-'' (hex_byte c)"
  by (rule hex_byte_digits [of c]; auto simp: starts_with_def hex_val_def)+

lemma send_chunk_acts_on: "numbered i \<Longrightarrow> acts_on i (send_chunk_argv i c)"
  unfolding send_chunk_argv_def
  by (cases c)
    (auto intro!: acts_onI simp: numbered_not_ends hex_byte_plain option_targets_stop list_all_iff)

lemma send_chunks_acts_on: "numbered i \<Longrightarrow> emits (acts_on i) (send_chunks m i cs)"
  by (induction cs) (auto intro!: emits_pthen emits_run send_chunk_acts_on)

lemma manual_size_acts_on: "numbered i \<Longrightarrow> emits (acts_on i) (manual_size m i)"
  unfolding manual_size_def
  by (intro emits_pthen emits_exec emits_pure acts_onI)
    (simp_all add: numbered_not_ends option_targets_stop starts_with_def)

lemma resize_acts_on: "numbered i \<Longrightarrow> emits (acts_on i) (resize_by_id m cols rows i)"
  unfolding resize_by_id_def
  by (intro emits_pthen emits_run manual_size_acts_on acts_onI)
    (simp_all add: numbered_not_ends string_of_nat_not_ends)

lemma relative_acts_on: "numbered i \<Longrightarrow> emits (acts_on i) (relative_by_id m d i)"
  unfolding relative_by_id_def
  by (intro emits_pthen emits_run manual_size_acts_on acts_onI)
    (simp_all add: numbered_not_ends string_of_nat_not_ends number_stops)

lemma pipe_acts_on:
  "numbered i \<Longrightarrow> \<not> starts_with ''-'' cmd \<Longrightarrow> \<not> ends_command cmd \<Longrightarrow> emits (acts_on i) (pipe_by_id m cmd i)"
  unfolding pipe_by_id_def
  by (intro emits_pbind message_acts_on)
    (auto simp: starts_with_def numbered_not_ends option_targets_stop intro!: acts_onI)

lemma kill_process_acts_on: "emits (acts_on i) (signal m pid sig)" "emits (acts_on i) (is_alive m pid)"
  unfolding signal_def is_alive_def
  by (intro emits_pbind emits_run emits_exec emits_pure; simp add: acts_on_def)+

lemma wait_exit_acts_on: "emits (acts_on i) (wait_exit m pid late timeout k elapsed)"
proof (induction m pid late timeout k elapsed rule: wait_exit.induct)
  case (1 m pid late timeout k elapsed)
  then show ?case
    by (subst wait_exit.simps) (simp add: emits_pbind kill_process_acts_on)
qed

lemma pane_pid_acts_on: "numbered i \<Longrightarrow> emits (acts_on i) (pane_pid_by_id m i)"
  unfolding pane_pid_by_id_def
  by (intro emits_pbind message_acts_on) (simp_all split: sum.split)

lemma stop_acts_on: "numbered i \<Longrightarrow> emits (acts_on i) (stop_by_id m late timeout i)"
  unfolding stop_by_id_def end_process_def
  by (intro emits_pbind emits_pthen emits_ptry pane_pid_acts_on kill_acts_on)
    (simp_all add: emits_pbind emits_pthen emits_ptry kill_process_acts_on wait_exit_acts_on split: sum.split)

text \<open>
  The bodies of the operations as \<open>session_command\<close>s. What is typed is only free text when tmux does not
  read it as an option or as the end of a command.
\<close>

definition plain_text :: "string \<Rightarrow> bool" where
  "plain_text keys \<longleftrightarrow> \<not> starts_with ''-'' keys \<and> \<not> ends_command keys"

definition quotes_plainly :: "machine \<Rightarrow> bool" where
  "quotes_plainly m \<longleftrightarrow> (\<forall>s q. m_quote m s = Some q \<longrightarrow> \<not> ends_command (''exec sh -c '' @ q))"

interpretation kill: session_action "kill_session_id m" for m
  by unfold_locales (rule kill_acts_on)

interpretation stop: session_action "stop_by_id m late timeout" for m late timeout
  by unfold_locales (rule stop_acts_on)

interpretation history: session_command "capture_by_id m (CHR ''-'' # string_of_nat lines)" for m lines
  by unfold_locales (rule capture_acts_on [OF _ minus_number_not_ends])

interpretation visible: session_command "capture_by_id m ''0''" for m
  by unfold_locales (simp add: capture_acts_on)

interpretation ansi: session_command "capture_ansi_by_id m" for m
  by unfold_locales (rule capture_ansi_acts_on)

interpretation title: session_command "title_by_id m" for m
  by unfold_locales (auto simp: title_by_id_def intro!: emits_pbind message_acts_on)

interpretation foreground: session_command "current_command_by_id m" for m
  by unfold_locales (auto simp: current_command_by_id_def intro!: emits_pbind message_acts_on)

interpretation pid: session_command "pane_pid_by_id m" for m
  by unfold_locales (rule pane_pid_acts_on)

interpretation bytes: session_command "bytes_by_id m b" for m b
  by unfold_locales (simp add: bytes_by_id_def send_chunks_acts_on)

interpretation resize: session_command "resize_by_id m cols rows" for m cols rows
  by unfold_locales (rule resize_acts_on)

interpretation relative: session_command "relative_by_id m d" for m d
  by unfold_locales (rule relative_acts_on)

interpretation unpipe: session_command "unpipe_by_id m" for m
  by unfold_locales (auto simp: unpipe_by_id_def numbered_not_ends intro!: emits_run acts_onI)

lemma pipe_command_quoted:
  "pipe_command m out p = Inr cmd \<Longrightarrow> \<exists>s q. m_quote m s = Some q \<and> cmd = ''exec sh -c '' @ q"
  unfolding pipe_command_def and_then_def by (auto split: sum.splits option.splits)

lemma log_session_command: "quotes_plainly m \<Longrightarrow> session_command (log_by_id m prepared out)"
proof
  fix i
  assume m: "quotes_plainly m" and i: "numbered i"
  have "emits (acts_on i) (pbind (plift (pipe_command m out p)) (\<lambda>cmd. pipe_by_id m cmd i))" for p
  proof (cases "pipe_command m out p")
    case (Inl e)
    then show ?thesis by (simp add: emits_def pbind_def plift_def)
  next
    case (Inr cmd)
    then have "\<not> ends_command cmd" "\<not> starts_with ''-'' cmd"
      using pipe_command_quoted [OF Inr] m unfolding quotes_plainly_def by (auto simp: starts_with_def)
    then have "emits (acts_on i) (pipe_by_id m cmd i)" using i pipe_acts_on by blast
    moreover have "pbind (plift (Inr cmd)) (\<lambda>cmd. pipe_by_id m cmd i) = pipe_by_id m cmd i"
      by (simp add: pbind_def plift_def fun_eq_iff)
    ultimately show ?thesis using Inr by metis
  qed
  then show "emits (acts_on i) (log_by_id m prepared out i)"
    unfolding log_by_id_def by (rule emits_pbind [OF emits_pure(3)])
qed

lemma keys_session_command: "plain_text keys \<Longrightarrow> session_command (keys_by_id m keys e)"
  by unfold_locales (simp add: plain_text_def keys_acts_on)


text \<open>A tmux with the sessions \<open>$1\<close>, \<open>agentum-a\<close>, and \<open>$2\<close>, \<open>agentum-ab\<close>.\<close>

definition sample_tmux :: "argv list \<Rightarrow> argv \<Rightarrow> io_error + proc_output" where
  "sample_tmux tr c = Inr \<lparr>po_status = Some 0,
     po_stdout = (if c = list_sessions_argv then ''$2_agentum-ab'' @ nl @ ''$1_agentum-a'' @ nl else []),
     po_stderr = []\<rparr>"

definition sample_machine :: machine where
  "sample_machine = \<lparr>m_run = sample_tmux, m_quote = (\<lambda>s. Some (squoted s)), m_join = (\<lambda>ws. Some (concat ws))\<rparr>"

lemma ends_command_squoted: "\<not> ends_command (a @ squoted s)"
  using ends_command_last [of "a @ squoted s"] by (auto simp: squoted_def)


text \<open>Without \<open>plain_text\<close> the text is read as an option, and another session gets the keys.\<close>

lemma keys_can_leave_the_session:
  "\<not> confined sample_machine ''agentum-a'' (send_keys sample_machine ''agentum-a'' ''-t$2'' True)"
proof
  assume "confined sample_machine ''agentum-a'' (send_keys sample_machine ''agentum-a'' ''-t$2'' True)"
  then obtain news where news: "fst (send_keys sample_machine ''agentum-a'' ''-t$2'' True []) = news"
    "news = [] \<or> news = [list_sessions_argv] \<or> (\<exists>i rest. news = list_sessions_argv # rest \<and>
       list_all (acts_on i) rest)"
    unfolding confined_def by (metis append_Nil)
  moreover have "fst (send_keys sample_machine ''agentum-a'' ''-t$2'' True []) =
      [list_sessions_argv, [''tmux'', ''send-keys'', ''-t'', ''$1'', ''-t$2'', ''Enter'']]"
    by code_simp
  ultimately obtain i where "acts_on i [''tmux'', ''send-keys'', ''-t'', ''$1'', ''-t$2'', ''Enter'']" by auto
  moreover have "addressed [''tmux'', ''send-keys'', ''-t'', ''$1'', ''-t$2'', ''Enter''] = [''$1'', ''$2'']"
    by code_simp
  ultimately show False by (auto simp: acts_on_def)
qed

section \<open>Bytes\<close>

lemma concat_chunks: "0 < n \<Longrightarrow> concat (chunks n xs) = xs"
  by (induction n xs rule: chunks.induct) (subst chunks.simps, simp)

lemma chunk_bounds: "c \<in> set (chunks n xs) \<Longrightarrow> c \<noteq> [] \<and> length c \<le> n"
  by (induction n xs rule: chunks.induct) (subst (asm) (2) chunks.simps, auto split: if_splits)

text \<open>What \<open>send-keys -H\<close> types: two hexadecimal digits are a byte.\<close>

fun unhex :: "string \<Rightarrow> char option" where
  "unhex [a, b] = (case (hex_val a, hex_val b) of (Some h, Some l) \<Rightarrow> Some (char_of (h * 16 + l)) | _ \<Rightarrow> None)"
| "unhex _ = None"

definition typed_by :: "argv \<Rightarrow> string" where
  "typed_by c = (if take 3 c = [''tmux'', ''send-keys'', ''-H''] then map (the \<circ> unhex) (drop 5 c) else [])"

lemma unhex_hex_byte [simp]: "unhex (hex_byte c) = Some c"
  by (rule hex_byte_digits [of c]) simp

lemma typed_by_chunk [simp]: "typed_by (send_chunk_argv i c) = c"
  by (simp add: typed_by_def send_chunk_argv_def o_def)

lemma length_list_sessions [simp]: "length list_sessions_argv = 4"
  by (simp add: list_sessions_argv_def)

lemma typed_by_list [simp]: "typed_by list_sessions_argv = []"
  by (simp add: typed_by_def list_sessions_argv_def)

lemma fst_run_checked: "fst (run_checked m c tr) = tr @ [c]"
  by (simp add: run_checked_def run_output_def pbind_def exec_def plift_def split: sum.split)

text \<open>\<open>Inl\<close>: the chunks up to and with the one that failed were tried.\<close>

lemma send_chunks_outcome:
  "\<exists>n. fst (send_chunks m i cs tr) = tr @ map (send_chunk_argv i) (take n cs) \<and>
       (snd (send_chunks m i cs tr) = Inr () \<longrightarrow> take n cs = cs)"
proof (induction cs arbitrary: tr)
  case Nil
  then show ?case by (simp add: pret_def)
next
  case (Cons c cs)
  obtain r where r: "run_checked m (send_chunk_argv i c) tr = (tr @ [send_chunk_argv i c], r)"
    using fst_run_checked by (metis prod.collapse)
  show ?case
  proof (cases r)
    case (Inl e)
    then show ?thesis using r by (intro exI [of _ 1]) (simp add: pthen_def pbind_def)
  next
    case (Inr u)
    obtain n where "fst (send_chunks m i cs (tr @ [send_chunk_argv i c])) =
        (tr @ [send_chunk_argv i c]) @ map (send_chunk_argv i) (take n cs)"
      "snd (send_chunks m i cs (tr @ [send_chunk_argv i c])) = Inr () \<longrightarrow> take n cs = cs"
      using Cons.IH by blast
    then show ?thesis using r Inr by (intro exI [of _ "Suc n"]) (simp add: pthen_def pbind_def)
  qed
qed

lemma on_session_cases:
  obtains (refused) e where "on_session m target body tr = (tr, Inl e)"
  | (failed) e where "on_session m target body tr = (tr @ [list_sessions_argv], Inl e)"
  | (found) i where "on_session m target body tr = body i (tr @ [list_sessions_argv])"
proof (cases rule: resolve_cases [of m target tr])
  case (refused e)
  then show ?thesis using that(1) by (simp add: on_session_def require_session_id_def pbind_def)
next
  case (failed e)
  then show ?thesis using that(2) by (simp add: on_session_def require_session_id_def pbind_def)
next
  case absent
  then show ?thesis using that(2) by (simp add: on_session_def require_session_id_def pbind_def pfail_def)
next
  case (found i)
  then show ?thesis using that(3) by (simp add: on_session_def require_session_id_def pbind_def pret_def)
qed

lemma typed_chunks: "concat (map typed_by (map (send_chunk_argv i) cs)) = concat cs"
  by (simp add: o_def)

lemma send_chunk_length: "length (send_chunk_argv i c) = 5 + length c"
  by (simp add: send_chunk_argv_def)

text \<open>
  Typing bytes is lossless and bounded: whatever tmux answers, the hexadecimal arguments sent spell a
  prefix of the bytes, all of them when the call succeeds, and no command carries more than 512 of them.
\<close>

theorem typed_bytes_are_lossless:
  assumes "send_bytes m target bs tr = (tr @ news, r)"
  shows "(\<exists>rest. concat (map typed_by news) @ rest = bs) \<and>
    (r = Inr () \<longrightarrow> concat (map typed_by news) = bs) \<and>
    list_all (\<lambda>c. length c \<le> 512 + 5) news"
proof (cases "bs = []")
  case True
  then show ?thesis using assms by (auto simp: send_bytes_def pret_def)
next
  case False
  then have run: "on_session m target (bytes_by_id m bs) tr = (tr @ news, r)" using assms by (simp add: send_bytes_def)
  have all: "concat (chunks 512 bs) = bs" by (rule concat_chunks) simp
  have bound: "\<forall>c \<in> set (chunks 512 bs). length c \<le> 512" using chunk_bounds by blast
  consider "news = []" "r \<noteq> Inr ()" | "news = [list_sessions_argv]" "r \<noteq> Inr ()"
    | i where "bytes_by_id m bs i (tr @ [list_sessions_argv]) = (tr @ news, r)"
    by (cases rule: on_session_cases [of m target "bytes_by_id m bs" tr]) (use run that in auto)
  then show ?thesis
  proof cases
    case 3
    obtain n where "tr @ news = (tr @ [list_sessions_argv]) @ map (send_chunk_argv i) (take n (chunks 512 bs))"
      "r = Inr () \<longrightarrow> take n (chunks 512 bs) = chunks 512 bs"
      using send_chunks_outcome [of m i "chunks 512 bs" "tr @ [list_sessions_argv]"] 3
      by (auto simp: bytes_by_id_def SEND_KEYS_HEX_CHUNK_BYTES_def)
    then have news: "news = list_sessions_argv # map (send_chunk_argv i) (take n (chunks 512 bs))"
      and ok: "r = Inr () \<longrightarrow> take n (chunks 512 bs) = chunks 512 bs" by simp_all
    have typed: "concat (map typed_by news) = concat (take n (chunks 512 bs))"
      using news by (simp only: list.map concat.simps typed_by_list typed_chunks append_Nil)
    moreover have "concat (take n (chunks 512 bs)) @ concat (drop n (chunks 512 bs)) = bs"
      using all by (metis append_take_drop_id concat_append)
    moreover have "list_all (\<lambda>c. length c \<le> 512 + 5) news"
      using bound news by (auto simp: list_all_iff send_chunk_length dest: in_set_takeD)
    ultimately show ?thesis using ok all by metis
  qed simp_all
qed

lemma typed_bytes_are_lossless_witness:
  "\<exists>news. send_bytes sample_machine ''agentum-a'' ''hi'' [] = ([] @ news, Inr ()) \<and>
     concat (map typed_by news) = ''hi''"
proof -
  have run: "send_bytes sample_machine ''agentum-a'' ''hi'' [] =
      ([] @ [list_sessions_argv, [''tmux'', ''send-keys'', ''-H'', ''-t'', ''$1'', ''68'', ''69'']], Inr ())"
    by code_simp
  show ?thesis using run typed_bytes_are_lossless [OF run] by blast
qed

section \<open>Snapshots\<close>

lemma split_on_row: "CHR 0x0A \<notin> set row \<Longrightarrow> split_on (CHR 0x0A) (row @ CHR 0x0A # rest) = row # split_on (CHR 0x0A) rest"
  by (induction row) auto

lemma split_on_last: "CHR 0x0A \<notin> set row \<Longrightarrow> split_on (CHR 0x0A) row = [row]"
  by (induction row) auto

lemma butlast_rows:
  "rows \<noteq> [] \<Longrightarrow> list_all (\<lambda>row. CHR 0x0A \<notin> set row) rows \<Longrightarrow>
   split_on (CHR 0x0A) (butlast (concat (map (\<lambda>row. row @ nl) rows))) = rows"
proof (induction "[CHR 0x0A]" rows rule: join_with.induct)
  case (3 row next_row rows)
  then show ?case by (simp add: nl_def butlast_append split_on_row)
qed (simp_all add: nl_def split_on_last)

lemma butlast_rows_empty:
  "list_all (\<lambda>row. CHR 0x0A \<notin> set row) rows \<Longrightarrow> rows \<noteq> [] \<Longrightarrow>
   butlast (concat (map (\<lambda>row. row @ nl) rows)) = [] \<longleftrightarrow> rows = [[]]"
  by (cases "([CHR 0x0A], rows)" rule: join_with.cases) (simp_all add: nl_def butlast_append)

text \<open>
  A captured pane is painted row by row: the rows that \<open>capture-pane\<close> terminated come out separated, in
  order and none left out, blank ones included, and then the cursor is put where the pane had it.
\<close>

theorem snapshot_paints_the_rows:
  assumes "rows \<noteq> []" "list_all (\<lambda>row. CHR 0x0A \<notin> set row) rows"
  shows "assemble_anchored_snapshot (concat (map (\<lambda>row. row @ nl) rows)) cursor =
    (if rows = [[]] then [] else join_with crlf rows @ cursor_codes cursor)"
proof -
  let ?grid = "concat (map (\<lambda>row. row @ nl) rows)"
  have "?grid \<noteq> []" "last ?grid = CHR 0x0A"
    using assms(1) by (cases rows rule: rev_cases; simp add: nl_def)+
  then have "drop_last_newline ?grid = butlast ?grid" by (simp add: drop_last_newline_def)
  then show ?thesis using butlast_rows [OF assms] butlast_rows_empty [OF assms(2,1)]
    by (simp add: assemble_anchored_snapshot_def)
qed

lemma decimal_one_two: "string_of_nat 1 = ''1''" "string_of_nat (Suc 0) = ''1''" "string_of_nat 2 = ''2''"
  by code_simp+

lemma snapshot_paints_the_rows_witness:
  "assemble_anchored_snapshot (''a'' @ nl @ nl) (Some \<lparr>cs_x = 1, cs_y = 0, cs_visible = True\<rparr>) =
   ''a'' @ crlf @ esc @ ''1;2H''"
  using snapshot_paints_the_rows [of "[''a'', []]" "Some \<lparr>cs_x = 1, cs_y = 0, cs_visible = True\<rparr>"]
  by (simp add: cursor_codes_def decimal_one_two)

section \<open>Stopping\<close>

lemma fst_is_alive: "fst (is_alive m pid tr) = tr @ [[''kill'', ''-0'', string_of_nat (unat pid)]]"
  by (simp add: is_alive_def pbind_def exec_def pret_def)

lemma snd_is_alive: "\<exists>b. snd (is_alive m pid tr) = Inr b"
  by (simp add: is_alive_def pbind_def exec_def pret_def)

text \<open>One probe every 200 ms at most, however late the rounds are.\<close>

lemma wait_exit_bounded:
  "\<exists>n. fst (wait_exit m pid late timeout k elapsed tr) = tr @ replicate n [''kill'', ''-0'', string_of_nat (unat pid)] \<and>
       n \<le> (timeout - elapsed + 199) div 200 \<and> snd (wait_exit m pid late timeout k elapsed tr) = Inr ()"
proof (induction m pid late timeout k elapsed arbitrary: tr rule: wait_exit.induct)
  case (1 m pid late timeout k elapsed)
  let ?probe = "[''kill'', ''-0'', string_of_nat (unat pid)]"
  obtain b where alive: "is_alive m pid tr = (tr @ [?probe], Inr b)"
    using fst_is_alive snd_is_alive by (metis prod.collapse)
  show ?case
  proof (cases "timeout \<le> elapsed")
    case True
    then show ?thesis by (subst wait_exit.simps) (simp add: wait_exit.simps pret_def)
  next
    case False
    show ?thesis
    proof (cases b)
      case True
      obtain n where n: "fst (wait_exit m pid late timeout (Suc k) (elapsed + 200 + late k) (tr @ [?probe])) =
          (tr @ [?probe]) @ replicate n ?probe"
        "n \<le> (timeout - (elapsed + 200 + late k) + 199) div 200"
        "snd (wait_exit m pid late timeout (Suc k) (elapsed + 200 + late k) (tr @ [?probe])) = Inr ()"
        using 1 False True by blast
      have "n * 200 \<le> timeout - (elapsed + 200 + late k) + 199"
        using n(2) by (simp add: less_eq_div_iff_mult_less_eq)
      then have "Suc n * 200 \<le> timeout - elapsed + 199" using False by (cases n) simp_all
      then have "Suc n \<le> (timeout - elapsed + 199) div 200" by (simp add: less_eq_div_iff_mult_less_eq)
      then show ?thesis using n alive True False
        by (intro exI [of _ "Suc n"]) (simp add: wait_exit.simps [of m pid late timeout k elapsed] pbind_def)
    next
      case dead: False
      have "1 \<le> (timeout - elapsed + 199) div 200" using False by simp
      then show ?thesis using alive dead False
        by (intro exI [of _ 1]) (simp add: wait_exit.simps [of m pid late timeout k elapsed] pbind_def pret_def)
    qed
  qed
qed

text \<open>\<open>costs k p\<close>: \<open>p\<close> starts at most \<open>k\<close> processes. \<open>sure p\<close>: it has no error.\<close>

definition costs :: "nat \<Rightarrow> 'a proc \<Rightarrow> bool" where
  "costs k p \<longleftrightarrow> (\<forall>tr. \<exists>news. fst (p tr) = tr @ news \<and> length news \<le> k)"

definition sure :: "'a proc \<Rightarrow> bool" where
  "sure p \<longleftrightarrow> (\<forall>tr. \<exists>x. snd (p tr) = Inr x)"

lemma costs_pure: "costs 0 (pret x)" "costs 0 (pfail e)" "costs 0 (plift r)"
  by (simp_all add: costs_def pret_def pfail_def plift_def)

lemma costs_exec: "costs 1 (exec m c)"
  by (simp add: costs_def exec_def)

lemma costs_mono: "costs k p \<Longrightarrow> k \<le> l \<Longrightarrow> costs l p"
  unfolding costs_def by (meson le_trans)

lemma costs_pbind:
  assumes "costs k p" "\<And>x. costs l (f x)"
  shows "costs (k + l) (pbind p f)"
  unfolding costs_def
proof
  fix tr
  obtain news where news: "fst (p tr) = tr @ news" "length news \<le> k" using assms(1) unfolding costs_def by blast
  show "\<exists>news. fst (pbind p f tr) = tr @ news \<and> length news \<le> k + l"
  proof (cases "snd (p tr)")
    case (Inl e)
    then have "fst (pbind p f tr) = tr @ news" using news by (cases "p tr") (simp add: pbind_def)
    then show ?thesis using news by auto
  next
    case (Inr x)
    then have "fst (pbind p f tr) = fst (f x (tr @ news))" using news by (cases "p tr") (simp add: pbind_def)
    moreover obtain more where "fst (f x (tr @ news)) = (tr @ news) @ more" "length more \<le> l"
      using assms(2) unfolding costs_def by blast
    ultimately show ?thesis using news by (intro exI [of _ "news @ more"]) simp
  qed
qed

lemma costs_pthen: "costs k p \<Longrightarrow> costs l q \<Longrightarrow> costs (k + l) (pthen p q)"
  unfolding pthen_def by (rule costs_pbind)

lemma costs_ptry: "costs k p \<Longrightarrow> costs k (ptry p)"
  by (simp add: costs_def ptry_def case_prod_beta)

lemma costs_pure_after:
  "costs k p \<Longrightarrow> (\<And>x. costs 0 (f x)) \<Longrightarrow> costs k (pbind p f)"
  "costs k p \<Longrightarrow> costs 0 q \<Longrightarrow> costs k (pthen p q)"
  using costs_pbind [of k p 0 f] costs_pthen [of k p 0 q] by simp_all

lemma costs_run: "costs 1 (run_output m c)" "costs 1 (run_checked m c)"
  unfolding run_output_def run_checked_def
  by (intro costs_pure_after costs_exec costs_pure)+

lemma costs_checked_output: "costs 1 (checked_output m c)"
  unfolding checked_output_def by (intro costs_pure_after costs_run costs_pure)

lemma sure_intros:
  "sure (pret x)" "sure (ptry p)" "sure p \<Longrightarrow> (\<And>x. sure (f x)) \<Longrightarrow> sure (pbind p f)"
  "sure p \<Longrightarrow> sure q \<Longrightarrow> sure (pthen p q)" "sure (is_alive m pid)" "sure (wait_exit m pid late timeout k elapsed)"
proof -
  show pbind: "sure (pbind p f)" if p: "sure p" "\<And>x. sure (f x)" for p :: "'x proc" and f :: "'x \<Rightarrow> 'y proc"
    unfolding sure_def pbind_def
  proof
    fix tr
    obtain x where "snd (p tr) = Inr x" using p(1) unfolding sure_def by blast
    then obtain tr' where "p tr = (tr', Inr x)" by (cases "p tr") simp
    then show "\<exists>y. snd (case p tr of (tr', Inl e) \<Rightarrow> (tr', Inl e) | (tr', Inr x) \<Rightarrow> f x tr') = Inr y"
      using p(2) unfolding sure_def by simp
  qed
  show "sure p \<Longrightarrow> sure q \<Longrightarrow> sure (pthen p q)" for p :: "'x proc" and q :: "'y proc"
    unfolding pthen_def by (rule pbind)
  show "sure (wait_exit m pid late timeout k elapsed)" unfolding sure_def using wait_exit_bounded by blast
qed (simp_all add: sure_def pret_def ptry_def case_prod_beta snd_is_alive)

lemma costs_wait_exit: "costs ((timeout + 199) div 200) (wait_exit m pid late timeout 0 0)"
  unfolding costs_def
proof
  fix tr
  show "\<exists>news. fst (wait_exit m pid late timeout 0 0 tr) = tr @ news \<and> length news \<le> (timeout + 199) div 200"
    using wait_exit_bounded [of m pid late timeout 0 0 tr] by fastforce
qed

lemma costs_end_process: "costs ((timeout + 199) div 200 + 3) (end_process m late timeout r)"
proof (cases r)
  case (Inl e)
  then show ?thesis by (simp add: end_process_def costs_mono [OF costs_pure(1)])
next
  case (Inr pid)
  have alive: "costs 1 (is_alive m pid)"
    using costs_pbind [OF costs_exec costs_pure(1)] unfolding is_alive_def by simp
  have "costs 1 (if b then pthen (ptry (signal m pid ''KILL'')) (pret ()) else pret ())" for b
    unfolding signal_def
    by (cases b) (simp_all only: if_True if_False costs_pure_after costs_ptry costs_run costs_pure
      costs_mono [OF costs_pure(1) zero_le])
  note costs_pthen [OF costs_ptry [OF costs_run(2)] costs_pthen [OF costs_wait_exit costs_pbind [OF alive this]]]
  then have "costs (1 + ((timeout + 199) div 200 + (1 + 1))) (end_process m late timeout r)"
    using Inr unfolding end_process_def signal_def by (simp only: sum.case)
  then show ?thesis by (rule costs_mono) simp
qed

lemma sure_end_process: "sure (end_process m late timeout r)"
  unfolding end_process_def by (cases r) (auto intro!: sure_intros)

lemma costs_resolve: "costs 1 (resolve_session_id m target)"
proof -
  have "costs (0 + (1 + 0)) (resolve_session_id m target)"
    unfolding resolve_session_id_def by (intro costs_pbind costs_pure costs_run)
  then show ?thesis by simp
qed

lemma costs_pane_pid: "costs 1 (pane_pid_by_id m i)"
proof -
  have "costs 0 (case parse_u32_result t of Inr n \<Rightarrow> pret n | Inl e \<Rightarrow> pfail (TmuxError_Parse e))" for t
    by (cases "parse_u32_result t") (simp_all add: costs_pure)
  then show ?thesis
    unfolding pane_pid_by_id_def message_by_id_def by (intro costs_pure_after costs_checked_output costs_pure)
qed

lemma pbind_ptry: "pbind (ptry p) f tr = f (snd (p tr)) (fst (p tr))"
  by (simp add: pbind_def ptry_def case_prod_beta)

lemma stop_by_id_last:
  "last (fst (stop_by_id m late timeout i tr)) = [''tmux'', ''kill-session'', ''-t'', i]"
proof -
  have "\<exists>tr'. fst (pthen p (kill_session_id m i) tr) = tr' @ [[''tmux'', ''kill-session'', ''-t'', i]]"
    if p: "sure p" for p :: "unit proc" and tr
  proof -
    obtain x where "snd (p tr) = Inr x" using p unfolding sure_def by blast
    then show ?thesis
      by (cases "p tr") (simp add: pthen_def pbind_def kill_session_id_def fst_run_checked)
  qed
  then show ?thesis
    unfolding stop_by_id_def
    by (metis (no_types, lifting) sure_end_process pbind_ptry last_snoc)
qed

text \<open>
  C29. Stopping a session ends: whatever the processes answer and however late they are, at most one probe
  for each 200 ms of the timeout and six more commands are started, and the last one of a session that
  the listing has kills exactly that session.
\<close>

theorem graceful_stop_ends:
  "costs ((timeout + 199) div 200 + 6) (graceful_stop m late target timeout) \<and>
   (\<forall>i. snd (resolve_session_id m target tr) = Inr (Some i) \<longrightarrow>
      last (fst (graceful_stop m late target timeout tr)) = [''tmux'', ''kill-session'', ''-t'', i])"
proof
  have "costs 1 (kill_session_id m i)" for i unfolding kill_session_id_def by (rule costs_run)
  then have "costs (1 + ((timeout + 199) div 200 + 3 + 1)) (stop_by_id m late timeout i)" for i
    unfolding stop_by_id_def by (intro costs_pbind costs_pthen costs_ptry costs_pane_pid costs_end_process)
  then have "costs ((timeout + 199) div 200 + 5) (case r of None \<Rightarrow> pret () | Some i \<Rightarrow> stop_by_id m late timeout i)"
    for r using costs_mono [OF costs_pure(1)] by (cases r) (simp_all add: add.commute)
  note costs_pbind [OF costs_resolve this]
  then show "costs ((timeout + 199) div 200 + 6) (graceful_stop m late target timeout)"
    unfolding graceful_stop_def on_session_if_any_def by (rule costs_mono) simp
  show "\<forall>i. snd (resolve_session_id m target tr) = Inr (Some i) \<longrightarrow>
      last (fst (graceful_stop m late target timeout tr)) = [''tmux'', ''kill-session'', ''-t'', i]"
    by (auto simp: graceful_stop_def on_session_if_any_def pbind_def case_prod_beta stop_by_id_last)
qed

lemma graceful_stop_ends_witness:
  "last (fst (graceful_stop sample_machine (\<lambda>_. 7) ''agentum-a'' 400 [])) = [''tmux'', ''kill-session'', ''-t'', ''$1'']"
proof -
  have "snd (resolve_session_id sample_machine ''agentum-a'' []) = Inr (Some ''$1'')" by code_simp
  then show ?thesis
    using graceful_stop_ends [of 400 sample_machine "\<lambda>_. 7" "''agentum-a''" "[]"] by blast
qed

section \<open>Secrets of a launch\<close>

lemma export_lines_total:
  "list_all (\<lambda>(name, v). m_quote m v \<noteq> None) env \<Longrightarrow> \<exists>s. export_lines m env = Inr s"
  by (induction m env rule: export_lines.induct) (auto simp: and_then_def)

lemma render_staged_launch_cases:
  assumes "list_all (\<lambda>(name, v). m_quote m v \<noteq> None) env"
  shows "render_staged_launch m cmd env =
    (if cmd = [] then Inl (TmuxError_Parse ''launch command was empty'')
     else if \<not> list_all valid_environment_name (map fst env) then Inl TmuxError_InvalidEnvironmentName
     else and_then (join_command m cmd) (\<lambda>command.
       Inr (staged_header @ projr (export_lines m env) @ ''exec '' @ command @ nl)))"
proof -
  have "(\<exists>(name, v) \<in> set env. \<not> valid_environment_name name) \<longleftrightarrow>
      \<not> list_all valid_environment_name (map fst env)"
    by (force simp: list_all_iff)
  moreover obtain s where "export_lines m env = Inr s" using export_lines_total [OF assms] by blast
  ultimately show ?thesis by (cases "join_command m cmd") (simp_all add: render_staged_launch_def and_then_def)
qed

text \<open>
  The values of a launch environment reach no command line and no error: two environments with the same
  names start the same processes and give the same result, whatever is in them, when the private launcher
  is put at the same path.
\<close>

theorem launch_hides_the_environment:
  assumes "map fst env = map fst env'"
    "list_all (\<lambda>(name, v). m_quote m v \<noteq> None) env" "list_all (\<lambda>(name, v). m_quote m v \<noteq> None) env'"
  shows "tmux_new_session m (\<lambda>script. staged) target workdir cmd env =
    tmux_new_session m (\<lambda>script. staged) target workdir cmd env'"
proof -
  have "env = [] \<longleftrightarrow> env' = []" using assms(1) by (metis map_is_Nil_conv)
  then have "staged_command m (\<lambda>script. staged) cmd env = staged_command m (\<lambda>script. staged) cmd env'"
    using assms by (auto simp: staged_command_def render_staged_launch_cases and_then_def split: sum.split)
  then show ?thesis by (simp add: tmux_new_session_def)
qed

lemma launch_hides_the_environment_witness:
  "tmux_new_session sample_machine (\<lambda>script. Inr ''/run/l/launch.sh'') ''agentum-a'' ''/w'' [''claude''] [(''TOKEN'', ''secret'')] [] =
   tmux_new_session sample_machine (\<lambda>script. Inr ''/run/l/launch.sh'') ''agentum-a'' ''/w'' [''claude''] [(''TOKEN'', ''other'')] []"
  using launch_hides_the_environment [of "[(''TOKEN'', ''secret'')]" "[(''TOKEN'', ''other'')]" sample_machine
      "Inr ''/run/l/launch.sh''" "''agentum-a''" "''/w''" "[''claude'']"]
  by (simp add: sample_machine_def)

end
