(* ===== verification/Pane_Log.thy ===== *)
theory Pane_Log
  imports Tmux_Local
begin

text \<open>
  The private pane logs of \<open>crates/agentum-tmux/src/lib.rs\<close>: how the directory and the file are prepared
  before tmux pipes a pane into them. The file system is an opponent: it answers every call as it likes,
  depending on all calls made before, so other processes may rename, replace or link the path in between.
  A handle stands for an open file; \<open>Fstat\<close> and \<open>Fchmod\<close> act on what was opened, \<open>Lstat\<close> on what the
  path names now.
\<close>

section \<open>File system calls\<close>

datatype fs_error = AlreadyExists | NotFound | FsError string

datatype file_kind = Regular | Directory | Symlink | OtherKind

record file_meta =
  md_kind :: file_kind
  md_dev :: "64 word"
  md_ino :: "64 word"
  md_uid :: "32 word"
  md_mode :: "32 word"
  md_nlink :: "64 word"

datatype fs_call =
    MakeDirs string
  | Lstat string
  | OpenDir string
  | CreateNew string
  | OpenAppend string bool
  | Fstat nat
  | Fchmod nat "32 word"
  | Unlink string

text \<open>Calls that return nothing, calls that return metadata, and calls that return a handle.\<close>

record file_world =
  fw_unit :: "fs_call list \<Rightarrow> fs_call \<Rightarrow> fs_error + unit"
  fw_meta :: "fs_call list \<Rightarrow> fs_call \<Rightarrow> fs_error + file_meta"
  fw_open :: "fs_call list \<Rightarrow> fs_call \<Rightarrow> fs_error + nat"

type_synonym 'a fs = "fs_call list \<Rightarrow> fs_call list \<times> (fs_error + 'a)"

definition fret :: "'a \<Rightarrow> 'a fs" where
  "fret x h = (h, Inr x)"

definition fraise :: "string \<Rightarrow> 'a fs" where
  "fraise e h = (h, Inl (FsError e))"

definition fbind :: "'a fs \<Rightarrow> ('a \<Rightarrow> 'b fs) \<Rightarrow> 'b fs" where
  "fbind p f h = (case p h of (h', Inl e) \<Rightarrow> (h', Inl e) | (h', Inr x) \<Rightarrow> f x h')"

definition fthen :: "unit fs \<Rightarrow> 'b fs \<Rightarrow> 'b fs" where
  "fthen p q = fbind p (\<lambda>_. q)"

definition fcall :: "(fs_call list \<Rightarrow> fs_call \<Rightarrow> fs_error + 'a) \<Rightarrow> fs_call \<Rightarrow> 'a fs" where
  "fcall answer c h = (h @ [c], answer h c)"

definition fcatch :: "'a fs \<Rightarrow> (fs_error + 'a) fs" where
  "fcatch p h = (case p h of (h', r) \<Rightarrow> (h', Inr r))"

definition fguard :: "bool \<Rightarrow> string \<Rightarrow> unit fs" where
  "fguard ok e = (if ok then fret () else fraise e)"

definition fresult :: "fs_error + 'a \<Rightarrow> 'a fs" where
  "fresult r h = (h, r)"

abbreviation make_dirs where "make_dirs w p \<equiv> fcall (fw_unit w) (MakeDirs p)"
abbreviation unlink where "unlink w p \<equiv> fcall (fw_unit w) (Unlink p)"
abbreviation fchmod where "fchmod w n mode \<equiv> fcall (fw_unit w) (Fchmod n mode)"
abbreviation lstat where "lstat w p \<equiv> fcall (fw_meta w) (Lstat p)"
abbreviation fstat where "fstat w n \<equiv> fcall (fw_meta w) (Fstat n)"

section \<open>The directory\<close>

record private_dir_identity =
  pd_dev :: "64 word"
  pd_ino :: "64 word"
  pd_uid :: "32 word"

text \<open>\<open>mode & 0o7777\<close>.\<close>

definition permissions :: "file_meta \<Rightarrow> 32 word" where
  "permissions md = and (md_mode md) 0xFFF"

definition same_inode :: "file_meta \<Rightarrow> file_meta \<Rightarrow> bool" where
  "same_inode a b \<longleftrightarrow> md_dev a = md_dev b \<and> md_ino a = md_ino b"

text \<open>
  The loop that creates the owner probe, with the numbers \<open>seq\<close>, \<open>seq + 1\<close>, ... of the process-wide
  sequence: a name that exists is skipped. \<open>None\<close> when the fuel is used up.
\<close>

definition probe_name :: "string \<Rightarrow> nat \<Rightarrow> nat \<Rightarrow> string" where
  "probe_name path pid seq =
     path_join path (''.agentum-owner-probe.'' @ string_of_nat pid @ ''.'' @ string_of_nat seq)"

fun owner_probe :: "file_world \<Rightarrow> string \<Rightarrow> nat \<Rightarrow> file_meta \<Rightarrow> nat \<Rightarrow> nat \<Rightarrow> 32 word option fs" where
  "owner_probe w path pid opened 0 seq = fret None"
| "owner_probe w path pid opened (Suc fuel) seq =
     fbind (fcatch (fcall (fw_open w) (CreateNew (probe_name path pid seq)))) (\<lambda>r.
       case r of
         Inr probe \<Rightarrow>
           fbind (fstat w probe) (\<lambda>md.
           fthen (unlink w (probe_name path pid seq))
           (fthen (fguard (md_uid opened = md_uid md) ''pane log parent is owned by another user'')
           (fret (Some (md_uid md)))))
       | Inl AlreadyExists \<Rightarrow> owner_probe w path pid opened fuel (Suc seq)
       | Inl e \<Rightarrow> fresult (Inl e))"

definition secured_dir :: "32 word \<Rightarrow> file_meta \<Rightarrow> file_meta \<Rightarrow> bool" where
  "secured_dir uid secured current \<longleftrightarrow>
     md_kind secured = Directory \<and> md_uid secured = uid \<and> permissions secured = 0x1C0 \<and>
     md_kind current = Directory \<and> same_inode current secured \<and> md_uid current = uid \<and>
     permissions current = 0x1C0"

definition verify_secured :: "file_world \<Rightarrow> string \<Rightarrow> nat \<Rightarrow> 32 word \<Rightarrow> private_dir_identity fs" where
  "verify_secured w path dir uid =
     fthen (fchmod w dir 0x1C0)
     (fbind (fstat w dir) (\<lambda>secured.
      fbind (lstat w path) (\<lambda>current.
      fthen (fguard (secured_dir uid secured current) ''pane log parent failed owner/mode verification'')
      (fret \<lparr>pd_dev = md_dev secured, pd_ino = md_ino secured, pd_uid = uid\<rparr>))))"

definition ensure_private_pane_log_dir ::
    "file_world \<Rightarrow> nat \<Rightarrow> nat \<Rightarrow> nat \<Rightarrow> string \<Rightarrow> private_dir_identity option fs" where
  "ensure_private_pane_log_dir w fuel pid seq path =
     fthen (make_dirs w path)
     (fbind (lstat w path) (\<lambda>initial.
      fthen (fguard (md_kind initial = Directory) ''pane log parent is not a real directory'')
      (fbind (fcall (fw_open w) (OpenDir path)) (\<lambda>dir.
       fbind (fstat w dir) (\<lambda>opened.
       fthen (fguard (md_kind opened = Directory \<and> same_inode opened initial) ''pane log parent changed while opening'')
       (fbind (owner_probe w path pid opened fuel seq) (\<lambda>uid.
        case uid of
          None \<Rightarrow> fret None
        | Some u \<Rightarrow> fbind (verify_secured w path dir u) (\<lambda>i. fret (Some i)))))))))"

section \<open>The file\<close>

definition private_pane_log_metadata :: "file_meta \<Rightarrow> 32 word \<Rightarrow> unit fs" where
  "private_pane_log_metadata md uid =
     fguard (md_kind md = Regular \<and> md_uid md = uid \<and> md_nlink md = 1)
       ''pane log must be a current-user-owned, singly-linked regular file''"

definition verify_pane_log_parent :: "file_world \<Rightarrow> string \<Rightarrow> private_dir_identity \<Rightarrow> unit fs" where
  "verify_pane_log_parent w path expected =
     fbind (lstat w path) (\<lambda>md.
       fguard (md_kind md = Directory \<and> md_dev md = pd_dev expected \<and> md_ino md = pd_ino expected \<and>
               md_uid md = pd_uid expected \<and> permissions md = 0x1C0) ''pane log parent was replaced'')"

definition initial_identity :: "file_world \<Rightarrow> string \<Rightarrow> 32 word \<Rightarrow> file_meta option fs" where
  "initial_identity w out uid =
     fbind (fcatch (lstat w out)) (\<lambda>r.
       case r of
         Inr md \<Rightarrow> fthen (private_pane_log_metadata md uid) (fret (Some md))
       | Inl NotFound \<Rightarrow> fret None
       | Inl e \<Rightarrow> fresult (Inl e))"

definition check_opened :: "file_world \<Rightarrow> string \<Rightarrow> string \<Rightarrow> private_dir_identity \<Rightarrow> file_meta option \<Rightarrow> nat \<Rightarrow> unit fs" where
  "check_opened w parent out pd initial file =
     fbind (fstat w file) (\<lambda>opened.
     fthen (private_pane_log_metadata opened (pd_uid pd))
     (fthen (fguard (case initial of None \<Rightarrow> True | Some md \<Rightarrow> same_inode md opened) ''pane log was replaced while opening'')
     (fbind (lstat w out) (\<lambda>current.
      fthen (private_pane_log_metadata current (pd_uid pd))
      (fthen (fguard (same_inode current opened) ''pane log path changed while opening'')
      (verify_pane_log_parent w parent pd))))))"

definition secure_log :: "file_world \<Rightarrow> string \<Rightarrow> string \<Rightarrow> private_dir_identity \<Rightarrow> nat \<Rightarrow> pane_log_identity fs" where
  "secure_log w parent out pd file =
     fthen (fchmod w file 0x180)
     (fbind (fstat w file) (\<lambda>secured.
      fbind (lstat w out) (\<lambda>secured_path.
      fthen (private_pane_log_metadata secured (pd_uid pd))
      (fthen (private_pane_log_metadata secured_path (pd_uid pd))
      (fthen (fguard (permissions secured = 0x180 \<and> permissions secured_path = 0x180 \<and> same_inode secured_path secured)
                ''pane log failed mode/identity verification'')
      (fthen (verify_pane_log_parent w parent pd)
      (fret \<lparr>pl_dev = md_dev secured, pl_ino = md_ino secured, pl_uid = md_uid secured\<rparr>)))))))"

definition prepare_file :: "file_world \<Rightarrow> string \<Rightarrow> string \<Rightarrow> private_dir_identity \<Rightarrow> pane_log_identity fs" where
  "prepare_file w parent out pd =
     fbind (initial_identity w out (pd_uid pd)) (\<lambda>initial.
     fbind (fcall (fw_open w) (OpenAppend out (initial = None))) (\<lambda>file.
     fthen (check_opened w parent out pd initial file) (secure_log w parent out pd file)))"

text \<open>\<open>parent\<close> is the non-empty \<open>Path::parent\<close> of the path, when it has one.\<close>

definition prepare_private_pane_log ::
    "file_world \<Rightarrow> nat \<Rightarrow> nat \<Rightarrow> nat \<Rightarrow> string option \<Rightarrow> string \<Rightarrow> pane_log_identity option fs" where
  "prepare_private_pane_log w fuel pid seq parent out =
     (case parent of
        None \<Rightarrow> fraise ''pane log path must have an explicit parent directory''
      | Some dir \<Rightarrow>
          fbind (ensure_private_pane_log_dir w fuel pid seq dir) (\<lambda>pd.
            case pd of
              None \<Rightarrow> fret None
            | Some pd \<Rightarrow> fbind (prepare_file w dir out pd) (\<lambda>i. fret (Some i))))"

section \<open>What a prepared log rests on\<close>

text \<open>
  \<open>triple w P p Q\<close>: from a history with \<open>P\<close>, every history that \<open>p\<close> produces keeps \<open>careful w\<close>, whatever it
  returns, and a result \<open>x\<close> comes with \<open>Q x\<close>. \<open>careful\<close>: a mode is only ever set through a handle
  whose metadata, read before through that handle, are those of a directory that the path named, or
  of a private file of the expected owner.
\<close>

definition fs_answered :: "file_world \<Rightarrow> fs_call list \<Rightarrow> fs_call \<Rightarrow> file_meta \<Rightarrow> bool" where
  "fs_answered w h c md \<longleftrightarrow> (\<exists>h1 h2. h = h1 @ c # h2 \<and> fw_meta w h1 c = Inr md)"

definition private_file :: "32 word \<Rightarrow> file_meta \<Rightarrow> bool" where
  "private_file uid md \<longleftrightarrow> md_kind md = Regular \<and> md_uid md = uid \<and> md_nlink md = 1"

definition may_chmod :: "file_world \<Rightarrow> string \<Rightarrow> string \<Rightarrow> fs_call list \<Rightarrow> nat \<Rightarrow> 32 word \<Rightarrow> bool" where
  "may_chmod w parent out h n mode \<longleftrightarrow>
     (mode = 0x1C0 \<and> (\<exists>md named. fs_answered w h (Fstat n) md \<and> fs_answered w h (Lstat parent) named \<and>
        md_kind named = Directory \<and> md_kind md = Directory \<and> same_inode md named)) \<or>
     (mode = 0x180 \<and> (\<exists>md named uid. fs_answered w h (Fstat n) md \<and> fs_answered w h (Lstat out) named \<and>
        private_file uid md \<and> private_file uid named \<and> same_inode named md))"

definition careful :: "file_world \<Rightarrow> string \<Rightarrow> string \<Rightarrow> fs_call list \<Rightarrow> bool" where
  "careful w parent out h \<longleftrightarrow> (\<forall>h1 n mode h2. h = h1 @ Fchmod n mode # h2 \<longrightarrow> may_chmod w parent out h1 n mode)"

definition triple :: "(fs_call list \<Rightarrow> bool) \<Rightarrow> (fs_call list \<Rightarrow> bool) \<Rightarrow> 'a fs \<Rightarrow> ('a \<Rightarrow> fs_call list \<Rightarrow> bool) \<Rightarrow> bool" where
  "triple I P p Q \<longleftrightarrow> (\<forall>h. I h \<longrightarrow> P h \<longrightarrow>
     I (fst (p h)) \<and> (\<forall>x. snd (p h) = Inr x \<longrightarrow> Q x (fst (p h))))"

lemma triple_fbind:
  assumes "triple I P p Q" "\<And>x. triple I (Q x) (f x) R"
  shows "triple I P (fbind p f) R"
  unfolding triple_def
proof (intro allI impI)
  fix h
  assume h: "I h" "P h"
  show "I (fst (fbind p f h)) \<and> (\<forall>x. snd (fbind p f h) = Inr x \<longrightarrow> R x (fst (fbind p f h)))"
  proof (cases "p h")
    case (Pair h' r)
    then have "I h'" "\<forall>x. r = Inr x \<longrightarrow> Q x h'" using assms(1) h unfolding triple_def by force+
    then show ?thesis using Pair assms(2) unfolding triple_def fbind_def by (cases r) auto
  qed
qed

lemma triple_fthen: "triple I P p (\<lambda>_. Q) \<Longrightarrow> triple I Q q R \<Longrightarrow> triple I P (fthen p q) R"
  unfolding fthen_def by (rule triple_fbind)

lemma triple_pre: "triple I P' p Q \<Longrightarrow> (\<And>h. I h \<Longrightarrow> P h \<Longrightarrow> P' h) \<Longrightarrow> triple I P p Q"
  unfolding triple_def by blast

lemma triple_fret: "(\<And>h. P h \<Longrightarrow> Q x h) \<Longrightarrow> triple I P (fret x) Q"
  by (simp add: triple_def fret_def)

lemma triple_fraise: "triple I P (fraise e) Q"
  by (simp add: triple_def fraise_def)

lemma triple_fguard: "(\<And>h. P h \<Longrightarrow> ok \<Longrightarrow> Q h) \<Longrightarrow> triple I P (fguard ok e) (\<lambda>_. Q)"
  by (simp add: fguard_def triple_fret triple_fraise)

text \<open>The rules follow the code: a call adds what it fs_answered, a guard adds its condition.\<close>

definition lasting :: "(fs_call list \<Rightarrow> bool) \<Rightarrow> bool" where
  "lasting P \<longleftrightarrow> (\<forall>h c. P h \<longrightarrow> P (h @ [c]))"

definition created :: "file_world \<Rightarrow> fs_call list \<Rightarrow> string \<Rightarrow> nat \<Rightarrow> bool" where
  "created w h p n \<longleftrightarrow> (\<exists>h1 h2. h = h1 @ CreateNew p # h2 \<and> fw_open w h1 (CreateNew p) = Inr n)"

definition owner :: "file_world \<Rightarrow> 32 word \<Rightarrow> fs_call list \<Rightarrow> bool" where
  "owner w uid h \<longleftrightarrow> (\<exists>p probe md. created w h p probe \<and> fs_answered w h (Fstat probe) md \<and> md_uid md = uid)"

lemma answered_snoc: "fs_answered w h c md \<Longrightarrow> fs_answered w (h @ [d]) c md"
  unfolding fs_answered_def by (metis append_Cons append_assoc)

lemma answered_now: "fw_meta w h c = Inr md \<Longrightarrow> fs_answered w (h @ [c]) c md"
  unfolding fs_answered_def by auto

lemma created_snoc: "created w h p n \<Longrightarrow> created w (h @ [d]) p n"
  unfolding created_def by (metis append_Cons append_assoc)

lemma owner_snoc: "owner w uid h \<Longrightarrow> owner w uid (h @ [d])"
  unfolding owner_def using answered_snoc created_snoc by blast

lemma lasting_created [simp]: "lasting (\<lambda>h. created w h p n)"
  using created_snoc by (simp add: lasting_def)

lemma lasting_answered [simp]: "lasting (\<lambda>h. fs_answered w h c md)"
  using answered_snoc by (simp add: lasting_def)

lemma lasting_owner [simp]: "lasting (owner w uid)" "lasting (\<lambda>h. owner w uid h)"
  using owner_snoc by (simp_all add: lasting_def)

lemma lasting_conj [simp]: "lasting P \<Longrightarrow> lasting Q \<Longrightarrow> lasting (\<lambda>h. P h \<and> Q h)"
  by (simp add: lasting_def)

lemma lasting_true [simp]: "lasting (\<lambda>h. True)"
  by (simp add: lasting_def)

lemma careful_snoc:
  "careful w parent out h \<Longrightarrow> (\<And>n mode. c = Fchmod n mode \<Longrightarrow> may_chmod w parent out h n mode) \<Longrightarrow>
   careful w parent out (h @ [c])"
  unfolding careful_def
  by (metis append_eq_append_conv2 append_self_conv butlast.simps(2) butlast_append last_snoc list.distinct(1))

fun quiet :: "fs_call \<Rightarrow> bool" where
  "quiet (Fchmod n mode) = False"
| "quiet _ = True"

lemma careful_quiet: "careful w parent out h \<Longrightarrow> quiet c \<Longrightarrow> careful w parent out (h @ [c])"
  by (rule careful_snoc) auto

lemma triple_meta:
  assumes "lasting P" "quiet c" "\<And>md. triple (careful w parent out) (\<lambda>h. P h \<and> fs_answered w h c md) (f md) R"
  shows "triple (careful w parent out) P (fbind (fcall (fw_meta w) c) f) R"
proof (rule triple_fbind)
  show "triple (careful w parent out) P (fcall (fw_meta w) c) (\<lambda>md h. P h \<and> fs_answered w h c md)"
    using assms(1,2) answered_now careful_quiet by (fastforce simp: triple_def fcall_def lasting_def)
qed (rule assms(3))

lemma triple_quiet:
  assumes "lasting P" "quiet c"
  shows "triple (careful w parent out) P (fcall answer c) (\<lambda>_. P)"
  using assms careful_quiet by (auto simp: triple_def fcall_def lasting_def)

lemma triple_unit:
  assumes "lasting P" "quiet c" "triple (careful w parent out) P q R"
  shows "triple (careful w parent out) P (fthen (fcall (fw_unit w) c) q) R"
  by (rule triple_fthen [OF triple_quiet [OF assms(1,2)] assms(3)])

lemma triple_open:
  assumes "lasting P" "quiet c" "\<And>n. triple (careful w parent out) P (f n) R"
  shows "triple (careful w parent out) P (fbind (fcall (fw_open w) c) f) R"
  by (rule triple_fbind [OF triple_quiet [OF assms(1,2)] assms(3)])

lemma triple_chmod:
  assumes "lasting P" "\<And>h. P h \<Longrightarrow> may_chmod w parent out h n mode" "triple (careful w parent out) P q R"
  shows "triple (careful w parent out) P (fthen (fchmod w n mode) q) R"
proof (rule triple_fthen)
  show "triple (careful w parent out) P (fchmod w n mode) (\<lambda>_. P)"
    using assms(1,2) careful_snoc by (fastforce simp: triple_def fcall_def lasting_def)
qed (rule assms(3))

lemma triple_check:
  assumes "ok \<Longrightarrow> triple I P q R"
  shows "triple I P (fthen (fguard ok e) q) R"
proof (cases ok)
  case True
  then show ?thesis using assms by (auto simp: triple_def fguard_def fthen_def fbind_def fret_def)
qed (simp add: triple_def fguard_def fthen_def fbind_def fraise_def)

lemma triple_private:
  "(private_file uid md \<Longrightarrow> triple I P q R) \<Longrightarrow> triple I P (fthen (private_pane_log_metadata md uid) q) R"
  unfolding private_pane_log_metadata_def private_file_def by (rule triple_check)

lemma triple_catch_meta:
  assumes "lasting P" "quiet c"
    "\<And>md. triple (careful w parent out) (\<lambda>h. P h \<and> fs_answered w h c md) (f (Inr md)) R"
    "\<And>e. triple (careful w parent out) P (f (Inl e)) R"
  shows "triple (careful w parent out) P (fbind (fcatch (fcall (fw_meta w) c)) f) R"
proof (rule triple_fbind)
  show "triple (careful w parent out) P (fcatch (fcall (fw_meta w) c))
      (\<lambda>r h. P h \<and> (\<forall>md. r = Inr md \<longrightarrow> fs_answered w h c md))"
    using assms(1,2) answered_now careful_quiet by (fastforce simp: triple_def fcatch_def fcall_def lasting_def)
  show "triple (careful w parent out) (\<lambda>h. P h \<and> (\<forall>md. r = Inr md \<longrightarrow> fs_answered w h c md)) (f r) R" for r
    using assms(3,4) by (cases r) (auto intro: triple_pre)
qed

lemma triple_catch_new:
  assumes "lasting P"
    "\<And>n. triple (careful w parent out) (\<lambda>h. P h \<and> created w h p n) (f (Inr n)) R"
    "\<And>e. triple (careful w parent out) P (f (Inl e)) R"
  shows "triple (careful w parent out) P (fbind (fcatch (fcall (fw_open w) (CreateNew p))) f) R"
proof (rule triple_fbind)
  have "quiet (CreateNew p)" by simp
  then show "triple (careful w parent out) P (fcatch (fcall (fw_open w) (CreateNew p)))
      (\<lambda>r h. P h \<and> (\<forall>n. r = Inr n \<longrightarrow> created w h p n))"
    using assms(1) careful_quiet by (fastforce simp: triple_def fcatch_def fcall_def lasting_def created_def)
  show "triple (careful w parent out) (\<lambda>h. P h \<and> (\<forall>n. r = Inr n \<longrightarrow> created w h p n)) (f r) R" for r
    using assms(2,3) by (cases r) (auto intro: triple_pre)
qed

lemma triple_fresult_error: "triple I P (fresult (Inl e)) Q"
  by (simp add: triple_def fresult_def)

lemma owner_probe_triple:
  "lasting P \<Longrightarrow> triple (careful w parent out) P (owner_probe w path pid opened fuel seq)
     (\<lambda>r h. P h \<and> (\<forall>u. r = Some u \<longrightarrow> owner w u h))"
proof (induction fuel arbitrary: seq)
  case 0
  then show ?case by (simp add: triple_fret)
next
  case (Suc fuel)
  show ?case
  proof (simp only: owner_probe.simps, rule triple_catch_new [OF Suc.prems], simp_all only: sum.case)
    fix n
    have l: "lasting (\<lambda>h. P h \<and> created w h (probe_name path pid seq) n)" using Suc.prems by simp
    show "triple (careful w parent out) (\<lambda>h. P h \<and> created w h (probe_name path pid seq) n)
      (fbind (fstat w n) (\<lambda>md. fthen (unlink w (probe_name path pid seq))
         (fthen (fguard (md_uid opened = md_uid md) ''pane log parent is owned by another user'') (fret (Some (md_uid md))))))
      (\<lambda>r h. P h \<and> (\<forall>u. r = Some u \<longrightarrow> owner w u h))"
      using l Suc.prems by (intro triple_meta triple_unit triple_check triple_fret) (auto simp: owner_def)
  next
    fix e
    show "triple (careful w parent out) P
      (case e of AlreadyExists \<Rightarrow> owner_probe w path pid opened fuel (Suc seq)
        | NotFound \<Rightarrow> fresult (Inl NotFound) | FsError x \<Rightarrow> fresult (Inl (FsError x)))
      (\<lambda>r h. P h \<and> (\<forall>u. r = Some u \<longrightarrow> owner w u h))"
      using Suc by (cases e) (simp_all add: triple_fresult_error)
  qed
qed

definition private_dir :: "file_world \<Rightarrow> string \<Rightarrow> private_dir_identity \<Rightarrow> fs_call list \<Rightarrow> bool" where
  "private_dir w parent pd h \<longleftrightarrow> owner w (pd_uid pd) h \<and>
     (\<exists>md. fs_answered w h (Lstat parent) md \<and> md_kind md = Directory \<and> md_dev md = pd_dev pd \<and> md_ino md = pd_ino pd \<and>
        md_uid md = pd_uid pd \<and> permissions md = 0x1C0)"

lemma ensure_dir_triple:
  "triple (careful w parent out) (\<lambda>_. True) (ensure_private_pane_log_dir w fuel pid seq parent)
     (\<lambda>r h. \<forall>pd. r = Some pd \<longrightarrow> private_dir w parent pd h)"
  unfolding ensure_private_pane_log_dir_def
proof (intro triple_unit triple_meta triple_check triple_open; (simp; fail)?)
  fix initial dir opened
  assume ok: "md_kind initial = Directory" "md_kind opened = Directory \<and> same_inode opened initial"
  let ?P = "\<lambda>h. (True \<and> fs_answered w h (Lstat parent) initial) \<and> fs_answered w h (Fstat dir) opened"
  have verify: "triple (careful w parent out) (\<lambda>h. ?P h \<and> owner w u h) (verify_secured w parent dir u)
      (\<lambda>pd. private_dir w parent pd)" for u
    unfolding verify_secured_def
    by (intro triple_chmod triple_meta triple_check triple_fret)
      (use ok in \<open>auto simp: may_chmod_def private_dir_def secured_dir_def same_inode_def\<close>)
  show "triple (careful w parent out) ?P
     (fbind (owner_probe w parent pid opened fuel seq)
       (\<lambda>uid. case uid of None \<Rightarrow> fret None | Some u \<Rightarrow> fbind (verify_secured w parent dir u) (\<lambda>i. fret (Some i))))
     (\<lambda>r h. \<forall>pd. r = Some pd \<longrightarrow> private_dir w parent pd h)"
  proof (rule triple_fbind [OF owner_probe_triple])
    fix uid
    show "triple (careful w parent out) (\<lambda>h. ?P h \<and> (\<forall>u. uid = Some u \<longrightarrow> owner w u h))
       (case uid of None \<Rightarrow> fret None | Some u \<Rightarrow> fbind (verify_secured w parent dir u) (\<lambda>i. fret (Some i)))
       (\<lambda>r h. \<forall>pd. r = Some pd \<longrightarrow> private_dir w parent pd h)"
    proof (cases uid)
      case None
      then show ?thesis by (simp add: triple_fret)
    next
      case (Some u)
      then show ?thesis
        using triple_fbind [OF verify [of u], where f = "\<lambda>i. fret (Some i)"
            and R = "\<lambda>r h. \<forall>pd. r = Some pd \<longrightarrow> private_dir w parent pd h"]
        by (simp add: triple_fret)
    qed
  qed simp
qed

text \<open>What an identity that is handed to the sink has been checked for, in this order.\<close>

definition vouched :: "file_world \<Rightarrow> string \<Rightarrow> string \<Rightarrow> pane_log_identity \<Rightarrow> fs_call list \<Rightarrow> bool" where
  "vouched w parent out i h \<longleftrightarrow> owner w (pl_uid i) h \<and>
     (\<exists>n md named dir. fs_answered w h (Fstat n) md \<and> fs_answered w h (Lstat out) named \<and> fs_answered w h (Lstat parent) dir \<and>
        private_file (pl_uid i) md \<and> private_file (pl_uid i) named \<and> permissions md = 0x180 \<and>
        permissions named = 0x180 \<and> same_inode named md \<and> md_dev md = pl_dev i \<and> md_ino md = pl_ino i \<and>
        md_kind dir = Directory \<and> md_uid dir = pl_uid i \<and> permissions dir = 0x1C0)"

lemma lasting_private_dir [simp]: "lasting (private_dir w parent pd)" "lasting (\<lambda>h. private_dir w parent pd h)"
  unfolding private_dir_def lasting_def using owner_snoc answered_snoc by blast+

lemma initial_identity_triple:
  assumes "lasting P"
  shows "triple (careful w parent out) P (initial_identity w out uid) (\<lambda>_. P)"
  unfolding initial_identity_def
proof (rule triple_catch_meta [OF assms]; (simp; fail)?)
  fix md
  show "triple (careful w parent out) (\<lambda>h. P h \<and> fs_answered w h (Lstat out) md)
     (case Inr md of Inr md \<Rightarrow> fthen (private_pane_log_metadata md uid) (fret (Some md)) | Inl NotFound \<Rightarrow> fret None
      | Inl e \<Rightarrow> fresult (Inl e)) (\<lambda>_. P)"
    by (auto intro!: triple_private triple_fret)
next
  fix e
  show "triple (careful w parent out) P
     (case Inl e of Inr md \<Rightarrow> fthen (private_pane_log_metadata md uid) (fret (Some md)) | Inl NotFound \<Rightarrow> fret None
      | Inl e \<Rightarrow> fresult (Inl e)) (\<lambda>_. P)"
    by (cases e) (simp_all add: triple_fret triple_fresult_error)
qed

lemma verify_parent_triple:
  assumes "lasting P"
  shows "triple (careful w parent out) P (verify_pane_log_parent w parent pd)
    (\<lambda>_ h. P h \<and> (\<exists>dir. fs_answered w h (Lstat parent) dir \<and> md_kind dir = Directory \<and> md_uid dir = pd_uid pd \<and>
       permissions dir = 0x1C0))"
  unfolding verify_pane_log_parent_def
  by (intro triple_meta assms triple_fguard) auto

definition opened_private :: "file_world \<Rightarrow> string \<Rightarrow> 32 word \<Rightarrow> nat \<Rightarrow> fs_call list \<Rightarrow> bool" where
  "opened_private w out uid n h \<longleftrightarrow>
     (\<exists>md named. fs_answered w h (Fstat n) md \<and> fs_answered w h (Lstat out) named \<and> private_file uid md \<and>
        private_file uid named \<and> same_inode named md)"

lemma lasting_opened_private [simp]: "lasting (opened_private w out uid n)" "lasting (\<lambda>h. opened_private w out uid n h)"
  unfolding opened_private_def lasting_def using answered_snoc by blast+

lemma check_opened_triple:
  assumes "lasting P"
  shows "triple (careful w parent out) P (check_opened w parent out pd initial file)
    (\<lambda>_ h. P h \<and> opened_private w out (pd_uid pd) file h)"
  unfolding check_opened_def
proof (intro triple_meta triple_private triple_check assms; (simp add: assms; fail)?)
  fix opened current
  assume "private_file (pd_uid pd) opened" "private_file (pd_uid pd) current" "same_inode current opened"
  then show "triple (careful w parent out)
      (\<lambda>h. (P h \<and> fs_answered w h (Fstat file) opened) \<and> fs_answered w h (Lstat out) current)
      (verify_pane_log_parent w parent pd) (\<lambda>_ h. P h \<and> opened_private w out (pd_uid pd) file h)"
    using verify_parent_triple [of "\<lambda>h. (P h \<and> fs_answered w h (Fstat file) opened) \<and> fs_answered w h (Lstat out) current"] assms
    unfolding triple_def opened_private_def by (simp, blast)
qed

lemma secure_log_triple:
  assumes "lasting P" "\<And>h. P h \<Longrightarrow> owner w (pd_uid pd) h" "\<And>h. P h \<Longrightarrow> opened_private w out (pd_uid pd) file h"
  shows "triple (careful w parent out) P (secure_log w parent out pd file) (\<lambda>i. vouched w parent out i)"
  unfolding secure_log_def
proof (intro triple_chmod triple_meta triple_private triple_check; (simp add: assms(1); fail)?)
  show "may_chmod w parent out h file 0x180" if "P h" for h
    using assms(3) [OF that] unfolding opened_private_def may_chmod_def by blast
  fix secured named
  let ?P = "\<lambda>h. (P h \<and> fs_answered w h (Fstat file) secured) \<and> fs_answered w h (Lstat out) named"
  assume ok: "private_file (pd_uid pd) secured" "private_file (pd_uid pd) named"
    "permissions secured = 0x180 \<and> permissions named = 0x180 \<and> same_inode named secured"
  show "triple (careful w parent out) ?P
     (fthen (verify_pane_log_parent w parent pd)
       (fret \<lparr>pl_dev = md_dev secured, pl_ino = md_ino secured, pl_uid = md_uid secured\<rparr>))
     (\<lambda>i. vouched w parent out i)"
  proof (rule triple_fthen [OF verify_parent_triple triple_fret])
    fix h
    assume "?P h \<and> (\<exists>dir. fs_answered w h (Lstat parent) dir \<and> md_kind dir = Directory \<and> md_uid dir = pd_uid pd \<and>
       permissions dir = 0x1C0)"
    then show "vouched w parent out \<lparr>pl_dev = md_dev secured, pl_ino = md_ino secured, pl_uid = md_uid secured\<rparr> h"
      using ok assms(2) unfolding vouched_def private_file_def by auto
  qed (simp add: assms(1))
qed

lemma prepare_file_triple:
  "triple (careful w parent out) (private_dir w parent pd) (prepare_file w parent out pd) (\<lambda>i. vouched w parent out i)"
  unfolding prepare_file_def
proof (rule triple_fbind [OF initial_identity_triple], simp)
  fix initial
  show "triple (careful w parent out) (private_dir w parent pd)
     (fbind (fcall (fw_open w) (OpenAppend out (initial = None)))
       (\<lambda>file. fthen (check_opened w parent out pd initial file) (secure_log w parent out pd file)))
     (\<lambda>i. vouched w parent out i)"
  proof (rule triple_open)
    fix n
    show "triple (careful w parent out) (private_dir w parent pd)
       (fthen (check_opened w parent out pd initial n) (secure_log w parent out pd n)) (\<lambda>i. vouched w parent out i)"
      by (rule triple_fthen [OF check_opened_triple secure_log_triple]) (simp_all, simp add: private_dir_def)
  qed simp_all
qed

text \<open>
  C10. Against a file system that changes arbitrarily between the calls, preparing a pane log sets a mode only
  through a handle that was verified to be the named directory or a private file of the owner, and an identity it
  returns was read from an open, singly-linked 0600 file of the user itself, that the path still named in a
  0700 directory of the same user.
\<close>

theorem pane_logs_are_private:
  assumes "prepare_private_pane_log w fuel pid seq (Some parent) out [] = (h, r)"
  shows "careful w parent out h \<and> (\<forall>i. r = Inr (Some i) \<longrightarrow> vouched w parent out i h)"
proof -
  let ?rest = "\<lambda>pd. case pd of None \<Rightarrow> fret None | Some pd \<Rightarrow> fbind (prepare_file w parent out pd) (\<lambda>i. fret (Some i))"
  let ?post = "\<lambda>r h. \<forall>i. r = Some i \<longrightarrow> vouched w parent out i h"
  have "triple (careful w parent out) (\<lambda>h. \<forall>pd. q = Some pd \<longrightarrow> private_dir w parent pd h) (?rest q) ?post" for q
  proof (cases q)
    case None
    then show ?thesis by (simp add: triple_fret)
  next
    case (Some pd)
    then show ?thesis
      using triple_fbind [OF prepare_file_triple [of w parent out pd], where f = "\<lambda>i. fret (Some i)" and R = ?post]
      by (simp add: triple_fret)
  qed
  then have "triple (careful w parent out) (\<lambda>_. True) (prepare_private_pane_log w fuel pid seq (Some parent) out) ?post"
    unfolding prepare_private_pane_log_def option.case by (rule triple_fbind [OF ensure_dir_triple])
  moreover have "careful w parent out []" by (simp add: careful_def)
  ultimately show ?thesis using assms unfolding triple_def by (metis fst_conv snd_conv)
qed

text \<open>A file system with the directory and the file as they should be.\<close>

definition sample_meta :: "fs_call \<Rightarrow> file_meta" where
  "sample_meta c = (let dir = (case c of Lstat p \<Rightarrow> p = ''/l'' | Fstat n \<Rightarrow> n = 1 | _ \<Rightarrow> False) in
     \<lparr>md_kind = (if dir then Directory else Regular), md_dev = 7, md_ino = (if dir then 10 else 11), md_uid = 501,
      md_mode = (if dir then 0x1C0 else 0x180), md_nlink = (if dir then 2 else 1)\<rparr>)"

definition sample_fs :: file_world where
  "sample_fs = \<lparr>fw_unit = (\<lambda>h c. Inr ()), fw_meta = (\<lambda>h c. Inr (sample_meta c)),
     fw_open = (\<lambda>h c. Inr (case c of OpenDir p \<Rightarrow> 1 | CreateNew p \<Rightarrow> 2 | _ \<Rightarrow> 3))\<rparr>"

definition sample_prepared :: "fs_call list \<times> (fs_error + pane_log_identity option)" where
  "sample_prepared = prepare_private_pane_log sample_fs 1 4711 0 (Some ''/l'') ''/l/a.log'' []"

lemma sample_prepared_identity:
  "snd sample_prepared = Inr (Some \<lparr>pl_dev = 7, pl_ino = 11, pl_uid = 501\<rparr>)"
  by (simp add: sample_prepared_def prepare_private_pane_log_def ensure_private_pane_log_dir_def sample_fs_def
      sample_meta_def fthen_def fbind_def fcall_def fcatch_def fguard_def fret_def numeral_eq_Suc verify_secured_def
      secured_dir_def same_inode_def permissions_def prepare_file_def initial_identity_def
      private_pane_log_metadata_def check_opened_def secure_log_def verify_pane_log_parent_def)

lemma pane_logs_are_private_witness:
  "vouched sample_fs ''/l'' ''/l/a.log'' \<lparr>pl_dev = 7, pl_ino = 11, pl_uid = 501\<rparr> (fst sample_prepared)"
proof -
  have "prepare_private_pane_log sample_fs 1 4711 0 (Some ''/l'') ''/l/a.log'' [] =
      (fst sample_prepared, Inr (Some \<lparr>pl_dev = 7, pl_ino = 11, pl_uid = 501\<rparr>))"
    using sample_prepared_identity unfolding sample_prepared_def by (metis prod.collapse)
  from pane_logs_are_private [OF this] show ?thesis by blast
qed

end
