(* ===== verification/Ssh_Transport.thy ===== *)
theory Ssh_Transport
  imports Tmux_Local
begin

text \<open>
  \<open>crates/agentum-tmux/src/ssh.rs\<close>: the pooled SSH masters and their sockets, the command line that every
  remote operation uses, what counts as a closed master and as a failure that is safe to replay, and the
  tmux operations that run on the host of a session. SHA-256, the bytes of a uuid, the private
  directories, the staging of a password and OpenSSH itself are parameters.
\<close>

section \<open>Control sockets\<close>

datatype ssh_mux = SshMux_Off | SshMux_Interactive | SshMux_Streaming | SshMux_Observer

record ssh_env =
  se_xdg :: "string option"
  se_home :: "string option"
  se_private :: "string \<Rightarrow> bool"
  se_socket :: "string \<Rightarrow> bool"
  se_display :: bool
  se_sha256 :: "string \<Rightarrow> string"
  se_uuid_bytes :: "uuid \<Rightarrow> string"

definition is_absolute :: "string \<Rightarrow> bool" where
  "is_absolute p = starts_with ''/'' p"

definition home_socket_dir :: "string option \<Rightarrow> string option" where
  "home_socket_dir home =
     (case home of
        None \<Rightarrow> None
      | Some h \<Rightarrow> if is_absolute h then Some (path_join (path_join h ''.agentum'') ''ssh'') else None)"

definition control_socket_dir :: "ssh_env \<Rightarrow> string option" where
  "control_socket_dir e =
     (case se_xdg e of
        Some xdg \<Rightarrow> if is_absolute xdg then Some (path_join xdg ''agentum-ssh'') else home_socket_dir (se_home e)
      | None \<Rightarrow> home_socket_dir (se_home e))"

definition legacy_control_socket_dirs_from :: "string option \<Rightarrow> string option \<Rightarrow> string list" where
  "legacy_control_socket_dirs_from xdg home =
     (let dirs = (case xdg of
                    Some x \<Rightarrow> if is_absolute x then [path_join x ''agentum-ssh''] else []
                  | None \<Rightarrow> [])
      in case home_socket_dir home of
           Some fallback \<Rightarrow> if fallback \<in> set dirs then dirs else dirs @ [fallback]
         | None \<Rightarrow> dirs)"

text \<open>Little-endian bytes, and a field with its length before it.\<close>

fun le_bytes :: "nat \<Rightarrow> nat \<Rightarrow> string" where
  "le_bytes 0 n = []"
| "le_bytes (Suc k) n = char_of (n mod 256) # le_bytes k (n div 256)"

definition hash_field :: "string \<Rightarrow> string" where
  "hash_field bytes = le_bytes 8 (length bytes) @ bytes"

definition auth_fields :: "ssh_auth \<Rightarrow> string list" where
  "auth_fields auth =
     (case auth of
        SshAuth_Agent \<Rightarrow> [''agent'']
      | SshAuth_Key path \<Rightarrow> [''key'', path]
      | SshAuth_Password _ \<Rightarrow> [''password''])"

definition host_fields :: "ssh_env \<Rightarrow> host \<Rightarrow> string list" where
  "host_fields e h =
     [''agentum-control-v2'', se_uuid_bytes e (h_id h), le_bytes 16 (nat (h_updated_at h mod 2 ^ 128))] @
     (case h_kind h of
        HostKind_Local \<Rightarrow> [''local'']
      | HostKind_Ssh user hostname port auth \<Rightarrow>
          [''ssh'', user, hostname, le_bytes 2 (unat port)] @ auth_fields auth)"

definition host_control_input :: "ssh_env \<Rightarrow> host \<Rightarrow> string" where
  "host_control_input e h = concat (map hash_field (host_fields e h))"

definition host_control_namespace :: "ssh_env \<Rightarrow> host \<Rightarrow> string" where
  "host_control_namespace e h = concat (map hex_byte (take 8 (se_sha256 e (host_control_input e h))))"

definition control_path_template_in :: "ssh_env \<Rightarrow> host \<Rightarrow> string \<Rightarrow> string \<Rightarrow> string option" where
  "control_path_template_in e h prefix dir =
     (if \<not> se_private e dir then None
      else let template = path_join dir (prefix @ ''-'' @ host_control_namespace e h)
           in if 100 < length template then None else Some template)"

definition control_path_template_for :: "ssh_env \<Rightarrow> host \<Rightarrow> string \<Rightarrow> string option" where
  "control_path_template_for e h prefix =
     Option.bind (control_socket_dir e) (control_path_template_in e h prefix)"

fun control_path_for :: "ssh_env \<Rightarrow> host \<Rightarrow> ssh_mux \<Rightarrow> string option" where
  "control_path_for e h SshMux_Off = None"
| "control_path_for e h SshMux_Interactive = control_path_template_for e h ''cm''"
| "control_path_for e h SshMux_Streaming = control_path_template_for e h ''cms''"
| "control_path_for e h SshMux_Observer = control_path_template_for e h ''cmo''"

definition legacy_control_path_template_in :: "ssh_env \<Rightarrow> string \<Rightarrow> string \<Rightarrow> string option" where
  "legacy_control_path_template_in e prefix dir =
     (if \<not> se_private e dir then None
      else let template = path_join dir (prefix @ ''-%C'')
           in if length template - 2 + 40 \<le> 100 then Some template else None)"

definition legacy_control_paths_for :: "ssh_env \<Rightarrow> ssh_mux \<Rightarrow> string list" where
  "legacy_control_paths_for e mux =
     (case mux of
        SshMux_Off \<Rightarrow> []
      | SshMux_Interactive \<Rightarrow>
          List.map_filter (legacy_control_path_template_in e ''cm'') (legacy_control_socket_dirs_from (se_xdg e) (se_home e))
      | SshMux_Streaming \<Rightarrow>
          List.map_filter (legacy_control_path_template_in e ''cms'') (legacy_control_socket_dirs_from (se_xdg e) (se_home e))
      | SshMux_Observer \<Rightarrow> [])"

section \<open>The command line\<close>

record ssh_cmd =
  sc_program :: string
  sc_args :: "string list"
  sc_env :: "(string \<times> string) list"

record askpass =
  ap_helper :: string
  ap_secret :: string

definition ssh_existing_control_command :: ssh_cmd where
  "ssh_existing_control_command = \<lparr>sc_program = ''ssh'', sc_args = [''-F'', ''/dev/null''], sc_env = []\<rparr>"

definition opt :: "string \<Rightarrow> string list" where
  "opt s = [''-o'', s]"

definition password_value :: "ssh_auth \<Rightarrow> string option" where
  "password_value auth =
     (case auth of SshAuth_Password p \<Rightarrow> if trim p \<noteq> [] then Some p else None | _ \<Rightarrow> None)"

definition base_command :: "ssh_env \<Rightarrow> string option \<Rightarrow> ssh_cmd" where
  "base_command e control_path =
     (if (case control_path of Some p \<Rightarrow> se_socket e p | None \<Rightarrow> False) then ssh_existing_control_command
      else \<lparr>sc_program = ''ssh'', sc_args = [], sc_env = []\<rparr>)"

definition connection_args :: "bool \<Rightarrow> ssh_mux \<Rightarrow> 16 word \<Rightarrow> string list" where
  "connection_args password mux port =
     [''-T''] @ opt (if password then ''BatchMode=no'' else ''BatchMode=yes'') @ opt ''ConnectTimeout=8'' @
     opt ''ConnectionAttempts=1'' @ opt ''ServerAliveInterval=5'' @ opt ''ServerAliveCountMax=3'' @
     opt ''StrictHostKeyChecking=accept-new'' @ opt ''ClearAllForwardings=yes'' @
     opt ''GSSAPIAuthentication=no'' @ opt ''TCPKeepAlive=yes'' @
     opt (if mux = SshMux_Streaming \<or> mux = SshMux_Off then ''Compression=yes'' else ''Compression=no'') @
     [''-p'', string_of_nat (unat port)]"

definition pooling_args :: "string option \<Rightarrow> string list" where
  "pooling_args control_path =
     (case control_path of
        Some p \<Rightarrow> opt ''ControlMaster=auto'' @ opt (''ControlPath='' @ p) @ opt ''ControlPersist=600s''
      | None \<Rightarrow> opt ''ControlMaster=no'' @ opt ''ControlPath=none'')"

definition auth_args :: "ssh_auth \<Rightarrow> string list" where
  "auth_args auth =
     (case auth of
        SshAuth_Key path \<Rightarrow>
          if trim path \<noteq> [] then [''-i'', path] @ opt ''IdentitiesOnly=yes'' @ opt ''PreferredAuthentications=publickey''
          else []
      | SshAuth_Password p \<Rightarrow>
          if trim p \<noteq> [] then opt ''PreferredAuthentications=password,keyboard-interactive'' @
            opt ''PubkeyAuthentication=no'' @ opt ''PasswordAuthentication=yes'' @ opt ''KbdInteractiveAuthentication=yes''
          else []
      | SshAuth_Agent \<Rightarrow> [])"

definition askpass_env :: "ssh_env \<Rightarrow> askpass option \<Rightarrow> (string \<times> string) list" where
  "askpass_env e ask =
     (case ask of
        None \<Rightarrow> []
      | Some a \<Rightarrow> [(''SSH_ASKPASS'', ap_helper a), (''SSH_ASKPASS_REQUIRE'', ''force''),
                   (''AGENTUM_SSH_ASKPASS_SECRET_FILE'', ap_secret a)] @
                  (if se_display e then [] else [(''DISPLAY'', '':0'')]))"

definition build_ssh :: "ssh_env \<Rightarrow> host \<Rightarrow> string \<Rightarrow> ssh_mux \<Rightarrow> askpass option \<Rightarrow> ssh_cmd" where
  "build_ssh e h script mux ask =
     (case h_kind h of
        HostKind_Local \<Rightarrow> \<lparr>sc_program = ''false'', sc_args = [], sc_env = []\<rparr>
      | HostKind_Ssh user hostname port auth \<Rightarrow>
          let control_path = control_path_for e h mux;
              cmd = base_command e control_path
          in cmd\<lparr>sc_args := sc_args cmd @ connection_args (password_value auth \<noteq> None) mux port @
                   pooling_args control_path @ auth_args auth @ [user @ ''@'' @ hostname, script],
                 sc_env := askpass_env e ask\<rparr>)"

text \<open>\<open>prepare\<close> is \<open>prepare_password_askpass\<close>: it stages the password in a private file, or fails.\<close>

definition try_ssh_command_opts ::
    "ssh_env \<Rightarrow> (string \<Rightarrow> io_error + askpass) \<Rightarrow> host \<Rightarrow> string \<Rightarrow> ssh_mux \<Rightarrow> io_error + ssh_cmd \<times> askpass option" where
  "try_ssh_command_opts e prepare h script mux =
     (case h_kind h of
        HostKind_Local \<Rightarrow> Inr (build_ssh e h script mux None, None)
      | HostKind_Ssh user hostname port auth \<Rightarrow>
          case password_value auth of
            None \<Rightarrow> Inr (build_ssh e h script mux None, None)
          | Some p \<Rightarrow> and_then (prepare p) (\<lambda>a. Inr (build_ssh e h script mux (Some a), Some a)))"

text \<open>The control commands on the interactive master: \<open>-O forward\<close>, \<open>-O cancel\<close> and \<open>-O exit\<close>.\<close>

definition control_command :: "ssh_env \<Rightarrow> host \<Rightarrow> string option \<Rightarrow> string list \<Rightarrow> ssh_cmd option" where
  "control_command e h path operation =
     (case h_kind h of
        HostKind_Local \<Rightarrow> None
      | HostKind_Ssh user hostname port auth \<Rightarrow>
          map_option (\<lambda>p. ssh_existing_control_command\<lparr>sc_args :=
            sc_args ssh_existing_control_command @ [''-T''] @ opt (''ControlPath='' @ p) @
            [''-p'', string_of_nat (unat port), ''-O''] @ operation @ [user @ ''@'' @ hostname]\<rparr>) path)"

definition loopback_spec :: "16 word \<Rightarrow> 16 word \<Rightarrow> string" where
  "loopback_spec listen connect =
     ''127.0.0.1:'' @ string_of_nat (unat listen) @ '':127.0.0.1:'' @ string_of_nat (unat connect)"

definition ssh_control_forward_cmd :: "ssh_env \<Rightarrow> host \<Rightarrow> 16 word \<Rightarrow> 16 word \<Rightarrow> ssh_cmd option" where
  "ssh_control_forward_cmd e h host_port mac_port =
     control_command e h (control_path_for e h SshMux_Interactive) [''forward'', ''-R'', loopback_spec host_port mac_port]"

definition ssh_control_cancel_cmd :: "ssh_env \<Rightarrow> host \<Rightarrow> 16 word \<Rightarrow> 16 word \<Rightarrow> ssh_cmd option" where
  "ssh_control_cancel_cmd e h host_port mac_port =
     control_command e h (control_path_for e h SshMux_Interactive) [''cancel'', ''-R'', loopback_spec host_port mac_port]"

definition ssh_control_local_forward_cmd :: "ssh_env \<Rightarrow> host \<Rightarrow> 16 word \<Rightarrow> 16 word \<Rightarrow> ssh_cmd option" where
  "ssh_control_local_forward_cmd e h mac_port host_port =
     control_command e h (control_path_for e h SshMux_Interactive) [''forward'', ''-L'', loopback_spec mac_port host_port]"

definition ssh_control_local_cancel_cmd :: "ssh_env \<Rightarrow> host \<Rightarrow> 16 word \<Rightarrow> 16 word \<Rightarrow> ssh_cmd option" where
  "ssh_control_local_cancel_cmd e h mac_port host_port =
     control_command e h (control_path_for e h SshMux_Interactive) [''cancel'', ''-L'', loopback_spec mac_port host_port]"

definition ssh_control_exit_cmd :: "ssh_env \<Rightarrow> host \<Rightarrow> ssh_mux \<Rightarrow> ssh_cmd option" where
  "ssh_control_exit_cmd e h mux = control_command e h (control_path_for e h mux) [''exit'']"

definition ssh_legacy_control_exit_cmds :: "ssh_env \<Rightarrow> host \<Rightarrow> ssh_mux \<Rightarrow> ssh_cmd list" where
  "ssh_legacy_control_exit_cmds e h mux =
     List.map_filter (\<lambda>p. control_command e h (Some p) [''exit'']) (legacy_control_paths_for e mux)"

section \<open>Closing masters\<close>

text \<open>\<open>str::rsplit_once\<close> with a string.\<close>

fun rsplit_str :: "string \<Rightarrow> string \<Rightarrow> (string \<times> string) option" where
  "rsplit_str pat [] = (if pat = [] then Some ([], []) else None)"
| "rsplit_str pat (c # cs) =
     (case rsplit_str pat cs of
        Some (a, b) \<Rightarrow> Some (c # a, b)
      | None \<Rightarrow> map_option (\<lambda>rest. ([], rest)) (strip_prefix pat (c # cs)))"

definition is_absent_control_socket_line :: "string \<Rightarrow> bool" where
  "is_absent_control_socket_line line =
     (case strip_prefix ''Control socket connect('' line of
        None \<Rightarrow> False
      | Some rest \<Rightarrow>
          case rsplit_str ''): '' rest of
            None \<Rightarrow> False
          | Some (path, reason) \<Rightarrow> path \<noteq> [] \<and> (reason = ''No such file or directory'' \<or> reason = ''Connection refused''))"

definition exit_diagnostic :: "string \<Rightarrow> string \<Rightarrow> string" where
  "exit_diagnostic stdout stderr_text =
     (if trim stderr_text \<noteq> [] then trim stderr_text
      else if stdout \<noteq> [] then trim (utf8_lossy stdout)
      else ''no diagnostic output'')"

definition classify_control_exit_output :: "proc_output \<Rightarrow> io_error + unit" where
  "classify_control_exit_output out =
     (if po_success out then Inr ()
      else let stderr_text = utf8_lossy (po_stderr out); lines = diagnostic_lines stderr_text
           in if po_status out = Some 255 \<and> po_stdout out = [] \<and> length lines = 1 \<and>
                 is_absent_control_socket_line (hd lines) then Inr ()
              else Inl (IoOther (''ssh control master exit failed with status '' @
                     (case po_status out of Some n \<Rightarrow> string_of_int n | None \<Rightarrow> ''unknown'') @ '': '' @
                     exit_diagnostic (po_stdout out) stderr_text)))"

text \<open>
  The trace holds the program and the arguments of every process. The exits of one call run concurrently;
  here they are started in the order of the code, which does not look at one before all are done.
\<close>

definition argv_of :: "ssh_cmd \<Rightarrow> argv" where
  "argv_of cmd = sc_program cmd # sc_args cmd"

definition close_control_master_command :: "machine \<Rightarrow> ssh_cmd option \<Rightarrow> (io_error + unit) proc" where
  "close_control_master_command m cmd =
     (case cmd of
        None \<Rightarrow> pret (Inr ())
      | Some c \<Rightarrow> pbind (exec m (argv_of c)) (\<lambda>r. pret (and_then r classify_control_exit_output)))"

text \<open>\<open>Result::and\<close>.\<close>

definition result_and :: "io_error + unit \<Rightarrow> io_error + unit \<Rightarrow> io_error + unit" where
  "result_and a b = (case a of Inl e \<Rightarrow> Inl e | Inr _ \<Rightarrow> b)"

fun close_all :: "machine \<Rightarrow> ssh_cmd option list \<Rightarrow> (io_error + unit) proc" where
  "close_all m [] = pret (Inr ())"
| "close_all m (c # cs) =
     pbind (close_control_master_command m c) (\<lambda>r. pbind (close_all m cs) (\<lambda>rs. pret (result_and r rs)))"

definition ssh_retire_legacy_control_masters :: "ssh_env \<Rightarrow> machine \<Rightarrow> host \<Rightarrow> (io_error + unit) proc" where
  "ssh_retire_legacy_control_masters e m h =
     close_all m (map Some (take 4
       (ssh_legacy_control_exit_cmds e h SshMux_Interactive @ ssh_legacy_control_exit_cmds e h SshMux_Streaming)))"

definition ssh_close_control_masters :: "ssh_env \<Rightarrow> machine \<Rightarrow> host \<Rightarrow> (io_error + unit) proc" where
  "ssh_close_control_masters e m h =
     pbind (close_all m [ssh_control_exit_cmd e h SshMux_Interactive, ssh_control_exit_cmd e h SshMux_Streaming,
              ssh_control_exit_cmd e h SshMux_Observer]) (\<lambda>current.
     pbind (ssh_retire_legacy_control_masters e m h) (\<lambda>legacy. pret (result_and current legacy)))"

section \<open>Running a script, at most once\<close>

definition pre_session_failure :: "string \<Rightarrow> bool" where
  "pre_session_failure line \<longleftrightarrow>
     line \<in> set [''mux_client_request_session: master alive request failed'',
       ''mux_client_request_stdio_fwd: master alive request failed'',
       ''mux_client_request_alive: write packet: Broken pipe'',
       ''mux_client_request_alive: write packet: Connection reset by peer'',
       ''muxclient: master hello exchange failed''] \<or>
     is_absent_control_socket_line line"

fun scan_mux_lines :: "bool \<Rightarrow> string list \<Rightarrow> bool" where
  "scan_mux_lines found [] = found"
| "scan_mux_lines found (line # lines) =
     (if pre_session_failure line then scan_mux_lines True lines
      else if line = ''Failed to connect to new control master'' then scan_mux_lines found lines
      else False)"

definition is_mux_transport_error :: "string \<Rightarrow> bool" where
  "is_mux_transport_error stderr = (diagnostic_lines stderr \<noteq> [] \<and> scan_mux_lines False (diagnostic_lines stderr))"

definition is_replay_safe_mux_failure :: "proc_output \<Rightarrow> bool" where
  "is_replay_safe_mux_failure out \<longleftrightarrow>
     po_status out = Some 255 \<and> po_stdout out = [] \<and> valid_utf8 (po_stderr out) \<and> is_mux_transport_error (po_stderr out)"

text \<open>What an operation over SSH uses; staging and removing the password may depend on the past.\<close>

record transport =
  tp_env :: ssh_env
  tp_machine :: machine
  tp_prepare :: "argv list \<Rightarrow> string \<Rightarrow> io_error + askpass"
  tp_cleanup :: "argv list \<Rightarrow> askpass \<Rightarrow> io_error + unit"

definition after_cleanup :: "io_error + proc_output \<Rightarrow> io_error + unit \<Rightarrow> io_error + proc_output" where
  "after_cleanup result cleanup =
     (case result of Inl e \<Rightarrow> Inl e | Inr out \<Rightarrow> (case cleanup of Inl e \<Rightarrow> Inl e | Inr _ \<Rightarrow> Inr out))"

definition run_ssh_once :: "transport \<Rightarrow> host \<Rightarrow> string \<Rightarrow> ssh_mux \<Rightarrow> (io_error + proc_output) proc" where
  "run_ssh_once t h script mux tr =
     (case try_ssh_command_opts (tp_env t) (tp_prepare t tr) h script mux of
        Inl e \<Rightarrow> (tr, Inr (Inl e))
      | Inr (cmd, ask) \<Rightarrow>
          let r = m_run (tp_machine t) tr (argv_of cmd); tr' = tr @ [argv_of cmd]
          in (tr', Inr (after_cleanup r (case ask of None \<Rightarrow> Inr () | Some a \<Rightarrow> tp_cleanup t tr' a))))"

definition ssh_output_on :: "transport \<Rightarrow> host \<Rightarrow> string \<Rightarrow> ssh_mux \<Rightarrow> (io_error + proc_output) proc" where
  "ssh_output_on t h script mux =
     pbind (run_ssh_once t h script mux) (\<lambda>r.
       case r of
         Inl e \<Rightarrow> pret (Inl e)
       | Inr first \<Rightarrow>
           if mux \<noteq> SshMux_Off \<and> is_replay_safe_mux_failure first then run_ssh_once t h script SshMux_Off
           else pret (Inr first))"

definition ssh_output :: "transport \<Rightarrow> host \<Rightarrow> string \<Rightarrow> (io_error + proc_output) proc" where
  "ssh_output t h script = ssh_output_on t h script SshMux_Interactive"

definition ssh_success :: "proc_output \<Rightarrow> tmux_error + proc_output" where
  "ssh_success out =
     (if po_success out then Inr out
      else Inl (TmuxError_NonZero (case po_status out of Some n \<Rightarrow> n | None \<Rightarrow> -1) (trim (utf8_lossy (po_stderr out)))))"

definition ssh_io :: "(io_error + proc_output) proc \<Rightarrow> proc_output proc" where
  "ssh_io p = pbind p (\<lambda>r. case r of Inl e \<Rightarrow> pfail (TmuxError_Io e) | Inr out \<Rightarrow> pret out)"

definition ssh_stdout :: "transport \<Rightarrow> host \<Rightarrow> string \<Rightarrow> string proc" where
  "ssh_stdout t h script =
     pbind (ssh_io (ssh_output t h script)) (\<lambda>out. plift (and_then (ssh_success out) (\<lambda>out. from_utf8 (po_stdout out))))"

definition ssh_checked :: "transport \<Rightarrow> host \<Rightarrow> string \<Rightarrow> unit proc" where
  "ssh_checked t h script =
     pbind (ssh_io (ssh_output t h script)) (\<lambda>out. plift (and_then (ssh_success out) (\<lambda>_. Inr ())))"

section \<open>The scripts\<close>

definition quoted :: "machine \<Rightarrow> string \<Rightarrow> tmux_error + string" where
  "quoted m s = (case m_quote m s of None \<Rightarrow> Inl TmuxError_Quote | Some q \<Rightarrow> Inr q)"

abbreviation script :: "string list \<Rightarrow> string" where
  "script ls \<equiv> join_with nl ls"

definition lookup_lines :: "bool \<Rightarrow> string \<Rightarrow> string list" where
  "lookup_lines target_is_id target =
     [''target='' @ target,
      ''tmux_rows=$(tmux list-sessions -F '' @ squoted SESSION_LIST_FORMAT @ '' 2>&1)'',
      ''tmux_status=$?'',
      ''tmux_error='',
      ''session_id='',
      ''session_missing=0'',
      ''if [ \"$tmux_status\" -eq 0 ]; then'',
      ''dollar=$(printf '' @ squoted ([CHR 92] @ ''044'') @ '')'',
      ''session_id=$(printf '' @ squoted (''%s'' @ [CHR 92] @ ''n'') @
        '' \"$tmux_rows\" | while IFS=_ read -r candidate_id candidate_name; do'',
      ''candidate_prefix=${candidate_id%\"${candidate_id#?}\"}'',
      ''candidate_digits=${candidate_id#?}'',
      ''if [ \"$candidate_prefix\" != \"$dollar\" ] || [ -z \"$candidate_digits\" ]; then continue; fi'',
      ''nondigits=$(printf '' @ squoted ''%s'' @ '' \"$candidate_digits\" | tr -d 0123456789)'',
      ''if [ -n \"$nondigits\" ]; then continue; fi'',
      ''if [ \"'' @ (if target_is_id then ''$candidate_id'' else ''$candidate_name'') @ ''\" = \"$target\" ]; then'',
      ''printf '' @ squoted ''%s'' @ '' \"$candidate_id\"'',
      ''break'',
      ''fi'',
      ''done)'',
      ''if [ -z \"$session_id\" ]; then'',
      ''tmux_status=1'',
      ''tmux_error=\"can't find session: $target\"'',
      ''session_missing=1'',
      ''fi'',
      ''else'',
      ''tmux_error=$tmux_rows'',
      ''case \"$tmux_error\" in'',
      ''\"no server running on \"* | \"failed to connect to server: No such file or directory\" | '' @
        ''\"failed to connect to server: Connection refused\" | '' @
        ''\"error connecting to \"*\" (No such file or directory)\" | '' @
        ''\"error connecting to \"*\" (Connection refused)\") session_missing=1 ;;'',
      ''esac'',
      ''fi'']"

definition exact_session_lookup_body :: "machine \<Rightarrow> string \<Rightarrow> tmux_error + string" where
  "exact_session_lookup_body m target =
     and_then (session_target_is_id target) (\<lambda>target_is_id.
     and_then (quoted m target) (\<lambda>q. Inr (script (lookup_lines target_is_id q))))"

definition in_sh :: "machine \<Rightarrow> string \<Rightarrow> tmux_error + string" where
  "in_sh m inner = and_then (quoted m inner) (\<lambda>q. Inr (''sh -c '' @ q))"

definition exact_session_action_script :: "machine \<Rightarrow> string \<Rightarrow> string \<Rightarrow> nat option \<Rightarrow> tmux_error + string" where
  "exact_session_action_script m target action missing_exit =
     and_then (exact_session_lookup_body m target) (\<lambda>lookup.
       in_sh m (script
         ([lookup] @
          (case missing_exit of
             None \<Rightarrow> []
           | Some st \<Rightarrow> [''if [ \"$session_missing\" -eq 1 ]; then exit '' @ string_of_nat st @ ''; fi'']) @
          [''if [ \"$tmux_status\" -ne 0 ]; then'',
           ''printf '' @ squoted (''%s'' @ [CHR 92] @ ''n'') @ '' \"$tmux_error\" >&2'',
           ''exit \"$tmux_status\"'',
           ''fi'',
           action])))"

definition HAS_SESSION_PROTOCOL_TAG :: string where
  "HAS_SESSION_PROTOCOL_TAG = ''AGENTUM_TMUX_HAS_SESSION_V1''"

definition has_session_probe_script :: "machine \<Rightarrow> string \<Rightarrow> tmux_error + string" where
  "has_session_probe_script m target =
     and_then (exact_session_lookup_body m target) (\<lambda>lookup.
       in_sh m (script
         [lookup,
          ''tmux_error_hex=$(printf '' @ squoted ''%s'' @ '' \"$tmux_error\" | od -An -v -tx1 | tr -d '' @
            squoted ('' '' @ [CHR 92] @ ''r'' @ [CHR 92] @ ''n'') @ '')'',
          ''printf '' @ squoted (HAS_SESSION_PROTOCOL_TAG @ [CHR 92] @ ''t%s'' @ [CHR 92] @ ''t%s'' @ [CHR 92] @ ''n'') @
            '' \"$tmux_status\" \"$tmux_error_hex\"'']))"

section \<open>The protocol record\<close>

fun hex_pairs :: "string \<Rightarrow> string option" where
  "hex_pairs [] = Some []"
| "hex_pairs [a] = None"
| "hex_pairs (a # b # cs) =
     (case (hex_val a, hex_val b) of
        (Some high, Some low) \<Rightarrow> map_option (\<lambda>rest. char_of (high * 16 + low) # rest) (hex_pairs cs)
      | _ \<Rightarrow> None)"

definition decode_hex :: "string \<Rightarrow> string option" where
  "decode_hex s =
     (if odd (length s) \<or> \<not> list_all (\<lambda>c. hex_val c \<noteq> None) s then None else hex_pairs s)"

text \<open>\<open>i32::from_str\<close>.\<close>

definition parse_i32 :: "string \<Rightarrow> int option" where
  "parse_i32 s =
     (case s of
        [] \<Rightarrow> None
      | c # cs \<Rightarrow>
          let ds = (if c = CHR ''-'' \<or> c = CHR ''+'' then cs else s);
              n = (if c = CHR ''-'' then - int (digits_value ds) else int (digits_value ds))
          in if ds \<noteq> [] \<and> list_all is_ascii_digit ds \<and> - (2 ^ 31) \<le> n \<and> n < 2 ^ 31 then Some n else None)"

definition tab :: string where "tab = [CHR 0x09]"

definition record_payload :: "string \<Rightarrow> string option" where
  "record_payload line =
     Option.bind (strip_prefix HAS_SESSION_PROTOCOL_TAG (strip_cr line)) (strip_prefix tab)"

fun first_some :: "('a \<Rightarrow> 'b option) \<Rightarrow> 'a list \<Rightarrow> 'b option" where
  "first_some f [] = None"
| "first_some f (x # xs) = (case f x of Some y \<Rightarrow> Some y | None \<Rightarrow> first_some f xs)"

definition parse_has_session_probe :: "string \<Rightarrow> (int \<times> string) option" where
  "parse_has_session_probe stdout =
     (if \<not> valid_utf8 stdout then None
      else Option.bind (first_some record_payload (rev (str_lines stdout))) (\<lambda>payload.
           Option.bind (parse_i32 (case split_once (CHR 0x09) payload of Some (a, b) \<Rightarrow> a | None \<Rightarrow> payload)) (\<lambda>st.
             if st < 0 \<or> 255 < st then None
             else Option.bind (split_once (CHR 0x09) payload) (\<lambda>(a, b).
                  Option.bind (decode_hex b) (\<lambda>err. Some (st, utf8_lossy err))))))"

definition classify_has_session_probe :: "int \<Rightarrow> string \<Rightarrow> tmux_error + bool" where
  "classify_has_session_probe st stderr =
     (if st = 0 then Inr True
      else if st = 1 \<and> is_tmux_session_missing_error stderr then Inr False
      else Inl (TmuxError_NonZero st (trim stderr)))"

definition classify_remote_has_session_output :: "proc_output \<Rightarrow> tmux_error + bool" where
  "classify_remote_has_session_output out =
     and_then (ssh_success out) (\<lambda>out.
       case parse_has_session_probe (po_stdout out) of
         None \<Rightarrow> Inl (TmuxError_NonZero (-1) ''remote tmux has-session returned no valid Agentum protocol record'')
       | Some (st, stderr) \<Rightarrow> classify_has_session_probe st stderr)"

section \<open>Operations on the host of a session\<close>

definition is_local :: "host \<Rightarrow> bool" where
  "is_local h = (case h_kind h of HostKind_Local \<Rightarrow> True | HostKind_Ssh _ _ _ _ \<Rightarrow> False)"

definition has_session_on :: "transport \<Rightarrow> host \<Rightarrow> string \<Rightarrow> bool proc" where
  "has_session_on t h target =
     (if is_local h then has_session (tp_machine t) target
      else pbind (plift (has_session_probe_script (tp_machine t) target)) (\<lambda>s.
           pbind (ssh_io (ssh_output t h s)) (\<lambda>out. plift (classify_remote_has_session_output out))))"

text \<open>An SSH operation: the lookup, then the action on \<open>$session_id\<close>.\<close>

definition action_on :: "transport \<Rightarrow> host \<Rightarrow> string \<Rightarrow> string \<Rightarrow> (string \<Rightarrow> 'a proc) \<Rightarrow> 'a proc" where
  "action_on t h target action run =
     pbind (plift (exact_session_action_script (tp_machine t) target action None)) run"

definition capture_action :: "string \<Rightarrow> string" where
  "capture_action start = ''tmux capture-pane -p -S '' @ start @ '' -t \"$session_id\"''"

definition capture_pane_on :: "transport \<Rightarrow> host \<Rightarrow> string \<Rightarrow> nat \<Rightarrow> string proc" where
  "capture_pane_on t h target lines =
     (if is_local h then capture_pane (tp_machine t) target lines
      else action_on t h target (capture_action (CHR ''-'' # string_of_nat lines)) (ssh_stdout t h))"

definition capture_pane_visible_on :: "transport \<Rightarrow> host \<Rightarrow> string \<Rightarrow> string proc" where
  "capture_pane_visible_on t h target =
     (if is_local h then capture_pane_visible (tp_machine t) target
      else action_on t h target (capture_action ''0'') (ssh_stdout t h))"

definition send_keys_on :: "transport \<Rightarrow> host \<Rightarrow> string \<Rightarrow> string \<Rightarrow> bool \<Rightarrow> unit proc" where
  "send_keys_on t h target keys append_enter =
     (if is_local h then send_keys (tp_machine t) target keys append_enter
      else pbind (plift (quoted (tp_machine t) keys)) (\<lambda>q.
           action_on t h target
             (''tmux send-keys -t \"$session_id\" '' @ q @ (if append_enter then '' Enter'' else [])) (ssh_checked t h)))"

definition current_command_action :: string where
  "current_command_action = ''tmux display-message -p -t \"$session_id\" '' @ squoted ''#{pane_current_command}''"

definition pane_current_command_on :: "transport \<Rightarrow> host \<Rightarrow> string \<Rightarrow> string proc" where
  "pane_current_command_on t h target =
     (if is_local h then pane_current_command (tp_machine t) target
      else pbind (action_on t h target current_command_action (ssh_stdout t h)) (\<lambda>s. pret (trim s)))"

definition SAMPLE_BOUNDARY :: string where
  "SAMPLE_BOUNDARY = '':::agentum-pane-sample-7f3a9c:::''"

definition SAMPLE_GONE_EXIT :: nat where "SAMPLE_GONE_EXIT = 43"

definition sample_sep :: string where
  "sample_sep = nl @ SAMPLE_BOUNDARY @ nl"

definition split_once_str :: "string \<Rightarrow> string \<Rightarrow> (string \<times> string) option" where
  "split_once_str sep s =
     (case find_str sep s of None \<Rightarrow> None | Some k \<Rightarrow> Some (take k s, drop (k + length sep) s))"

definition parse_pane_sample :: "string \<Rightarrow> pane_sample option" where
  "parse_pane_sample stdout =
     (case split_once_str sample_sep stdout of
        None \<Rightarrow> None
      | Some (cmdline, rest) \<Rightarrow>
          case split_once_str sample_sep rest of
            None \<Rightarrow> None
          | Some (pane, viewport) \<Rightarrow>
              Some \<lparr>ps_pane = pane, ps_viewport = viewport, ps_current_command = trim cmdline\<rparr>)"

definition sample_action :: "nat \<Rightarrow> string" where
  "sample_action lines = script
     [current_command_action @ '' 2>/dev/null'',
      ''echo '' @ SAMPLE_BOUNDARY,
      capture_action (CHR ''-'' # string_of_nat lines) @ '' 2>/dev/null'',
      ''echo '' @ SAMPLE_BOUNDARY,
      capture_action ''0'' @ '' 2>/dev/null'']"

definition read_sample :: "proc_output \<Rightarrow> tmux_error + pane_sample option" where
  "read_sample out =
     (if po_status out = Some (int SAMPLE_GONE_EXIT) then Inr None
      else and_then (ssh_success out) (\<lambda>out.
           and_then (from_utf8 (po_stdout out)) (\<lambda>s.
             case parse_pane_sample s of
               Some p \<Rightarrow> Inr (Some p)
             | None \<Rightarrow> Inl (TmuxError_NonZero 0 ''pane sample output did not contain the expected sections''))))"

definition sample_local :: "machine \<Rightarrow> string \<Rightarrow> nat \<Rightarrow> pane_sample option proc" where
  "sample_local m target lines =
     pbind (has_session m target) (\<lambda>present.
       if \<not> present then pret None
       else pbind (capture_pane m target lines) (\<lambda>pane.
            pbind (capture_pane_visible m target) (\<lambda>viewport.
            pbind (pane_current_command m target) (\<lambda>cmdline.
              pret (Some \<lparr>ps_pane = pane, ps_viewport = viewport, ps_current_command = cmdline\<rparr>)))))"

definition sample_pane :: "transport \<Rightarrow> host \<Rightarrow> string \<Rightarrow> nat \<Rightarrow> pane_sample option proc" where
  "sample_pane t h target lines =
     (if is_local h then sample_local (tp_machine t) target lines
      else pbind (plift (exact_session_action_script (tp_machine t) target (sample_action lines) (Some SAMPLE_GONE_EXIT))) (\<lambda>s.
           pbind (ssh_io (ssh_output_on t h s SshMux_Streaming)) (\<lambda>out. plift (read_sample out))))"

section \<open>What the lookup does in a POSIX shell\<close>

text \<open>
  \<open>read -r candidate_id candidate_name\<close> with \<open>IFS=_\<close>: the first \<open>_\<close> ends the first word; the rest is the
  second word, and when it holds no other \<open>_\<close> than one at its end, that one is a terminator and dropped.
\<close>

definition read_last_field :: "string \<Rightarrow> string" where
  "read_last_field rest =
     (if rest \<noteq> [] \<and> last rest = CHR ''_'' \<and> CHR ''_'' \<notin> set (butlast rest) then butlast rest else rest)"

definition read_row :: "string \<Rightarrow> string \<times> string" where
  "read_row row =
     (case split_once (CHR ''_'') row of None \<Rightarrow> (row, []) | Some (i, rest) \<Rightarrow> (i, read_last_field rest))"

fun lookup_loop :: "bool \<Rightarrow> string \<Rightarrow> string list \<Rightarrow> string option" where
  "lookup_loop target_is_id target [] = None"
| "lookup_loop target_is_id target (row # rows) =
     (case read_row row of (candidate_id, candidate_name) \<Rightarrow>
        if numbered candidate_id \<and> (if target_is_id then candidate_id else candidate_name) = target
        then Some candidate_id else lookup_loop target_is_id target rows)"

definition missing_pattern :: "string \<Rightarrow> bool" where
  "missing_pattern err \<longleftrightarrow>
     starts_with ''no server running on '' err \<or>
     err = ''failed to connect to server: No such file or directory'' \<or>
     err = ''failed to connect to server: Connection refused'' \<or>
     (case strip_prefix ''error connecting to '' err of
        None \<Rightarrow> False
      | Some rest \<Rightarrow> ends_with '' (No such file or directory)'' rest \<or> ends_with '' (Connection refused)'' rest)"

text \<open>The variables after the lookup: \<open>tmux_status\<close>, \<open>tmux_error\<close>, \<open>session_id\<close> and \<open>session_missing\<close>.\<close>

record lookup_vars =
  lv_status :: nat
  lv_error :: string
  lv_session :: string
  lv_missing :: bool

definition lookup_outcome :: "bool \<Rightarrow> string \<Rightarrow> nat \<Rightarrow> string \<Rightarrow> lookup_vars" where
  "lookup_outcome target_is_id target st rows =
     (if st = 0 then
        (case lookup_loop target_is_id target (split_on (CHR 0x0A) rows) of
           Some i \<Rightarrow> \<lparr>lv_status = 0, lv_error = [], lv_session = i, lv_missing = False\<rparr>
         | None \<Rightarrow> \<lparr>lv_status = 1, lv_error = ''can't find session: '' @ target, lv_session = [], lv_missing = True\<rparr>)
      else \<lparr>lv_status = st, lv_error = rows, lv_session = [], lv_missing = missing_pattern rows\<rparr>)"

text \<open>The line that the probe prints.\<close>

definition probe_record :: "nat \<Rightarrow> string \<Rightarrow> string" where
  "probe_record st err =
     HAS_SESSION_PROTOCOL_TAG @ tab @ string_of_nat st @ tab @ concat (map hex_byte err) @ nl"

section \<open>Which sockets are shared\<close>

lemma length_le_bytes [simp]: "length (le_bytes k n) = k"
  by (induction k arbitrary: n) simp_all

lemma le_bytes_inject:
  "m < 256 ^ k \<Longrightarrow> n < 256 ^ k \<Longrightarrow> le_bytes k m = le_bytes k n \<Longrightarrow> m = n"
proof (induction k arbitrary: m n)
  case (Suc k)
  have "char_of (m mod 256) = (char_of (n mod 256) :: char)" using Suc.prems(3) by (simp only: le_bytes.simps list.inject)
  then have "m mod 256 = n mod 256" by (simp only: char_of_quasi_inj mod_mod_trivial)
  moreover have "m div 256 = n div 256"
    using Suc.prems by (intro Suc.IH) (simp_all add: less_mult_imp_div_less mult.commute)
  ultimately show ?case by (metis div_mult_mod_eq)
qed simp

lemma hash_field_inject:
  assumes "length x < 2 ^ 64" "length y < 2 ^ 64" "hash_field x @ xs = hash_field y @ ys"
  shows "x = y \<and> xs = ys"
proof -
  have "le_bytes 8 (length x) @ (x @ xs) = le_bytes 8 (length y) @ (y @ ys)"
    using assms(3) by (simp add: hash_field_def)
  then have "le_bytes 8 (length x) = le_bytes 8 (length y)" and rest: "x @ xs = y @ ys"
    by (simp_all add: append_eq_append_conv)
  then have "length x = length y" using assms(1,2) by (intro le_bytes_inject [of _ 8]) simp_all
  then show ?thesis using rest by simp
qed

lemma hash_field_nonempty [simp]: "hash_field x \<noteq> []"
  by (simp add: hash_field_def flip: length_greater_0_conv)

lemma hash_fields_inject:
  "list_all (\<lambda>x. length x < 2 ^ 64) xs \<Longrightarrow> list_all (\<lambda>x. length x < 2 ^ 64) ys \<Longrightarrow>
   concat (map hash_field xs) = concat (map hash_field ys) \<Longrightarrow> xs = ys"
proof (induction xs arbitrary: ys)
  case (Cons x xs)
  from Cons.prems(3) have "ys \<noteq> []" by (cases ys) simp_all
  then obtain y ys' where ys: "ys = y # ys'" by (cases ys) blast+
  have "x = y \<and> concat (map hash_field xs) = concat (map hash_field ys')"
    by (rule hash_field_inject) (use Cons.prems ys in simp_all)
  then show ?case using ys Cons by simp
next
  case Nil
  then show ?case by (cases ys) simp_all
qed

text \<open>What of a host decides about its masters: not its name, and not the bytes of its password.\<close>

definition connection_identity :: "ssh_env \<Rightarrow> host \<Rightarrow> string \<times> time \<times> host_kind" where
  "connection_identity e h =
     (se_uuid_bytes e (h_id h), h_updated_at h,
      case h_kind h of
        HostKind_Ssh user hostname port (SshAuth_Password _) \<Rightarrow> HostKind_Ssh user hostname port (SshAuth_Password [])
      | k \<Rightarrow> k)"

definition short_fields :: "ssh_env \<Rightarrow> host \<Rightarrow> bool" where
  "short_fields e h \<longleftrightarrow> list_all (\<lambda>x. length x < 2 ^ 64) (host_fields e h) \<and>
     - (2 ^ 127) \<le> h_updated_at h \<and> h_updated_at h < 2 ^ 127"

lemma unat_port_bytes: "le_bytes 2 (unat p) = le_bytes 2 (unat q) \<Longrightarrow> p = q" for p q :: "16 word"
proof -
  have bound: "unat w < 256 ^ 2" for w :: "16 word"
  proof -
    have "unat w < 2 ^ LENGTH(16)" by (rule unsigned_less)
    then show ?thesis by simp
  qed
  assume "le_bytes 2 (unat p) = le_bytes 2 (unat q)"
  then have "unat p = unat q" using le_bytes_inject bound by blast
  then show "p = q" by (simp add: word_unat_eq_iff)
qed

lemma stamp_inject:
  assumes "- (2 ^ 127) \<le> (a :: int)" "a < 2 ^ 127" "- (2 ^ 127) \<le> b" "b < 2 ^ 127"
    "le_bytes 16 (nat (a mod 2 ^ 128)) = le_bytes 16 (nat (b mod 2 ^ 128))"
  shows "a = b"
proof -
  have "nat (a mod 2 ^ 128) = nat (b mod 2 ^ 128)"
    using assms(5) by (intro le_bytes_inject [of _ 16]) (simp_all add: nat_less_iff)
  then have "a mod 2 ^ 128 = b mod 2 ^ 128" by (simp add: nat_eq_iff2 eq_nat_nat_iff)
  then obtain k where k: "a - b = 2 ^ 128 * k" by (auto simp: mod_eq_dvd_iff elim: dvdE)
  consider "1 \<le> k" | "k = 0" | "k \<le> -1" by linarith
  then show ?thesis using assms(1-4) k by cases (simp; linarith)+
qed

lemma host_fields_inject:
  assumes "short_fields e h" "short_fields e h'" "host_fields e h = host_fields e h'"
  shows "connection_identity e h = connection_identity e h'"
proof -
  have "h_updated_at h = h_updated_at h'"
    using assms stamp_inject unfolding short_fields_def host_fields_def by simp
  then show ?thesis
    using assms(3) unfolding host_fields_def connection_identity_def
    by (auto simp: auth_fields_def dest!: unat_port_bytes split: host_kind.splits ssh_auth.splits)
qed

lemma hex_byte_inject: "hex_byte a = hex_byte b \<Longrightarrow> a = b"
  by (metis option.inject unhex_hex_byte)

lemma length_hex_byte [simp]: "length (hex_byte c) = 2" "hex_byte c \<noteq> []"
  by (simp_all add: hex_byte_def Let_def)

lemma length_concat_hex [simp]: "length (concat (map hex_byte xs)) = 2 * length xs"
  by (induction xs) simp_all

lemma concat_hex_inject: "concat (map hex_byte xs) = concat (map hex_byte ys) \<Longrightarrow> xs = ys"
proof (induction xs arbitrary: ys)
  case Nil
  then show ?case by (cases ys) simp_all
next
  case (Cons x xs)
  from Cons.prems have "ys \<noteq> []" by (cases ys) simp_all
  then obtain y ys' where ys: "ys = y # ys'" by (cases ys) blast+
  have "hex_byte x @ concat (map hex_byte xs) = hex_byte y @ concat (map hex_byte ys')"
    using Cons.prems ys by simp
  moreover have "length (hex_byte x) = length (hex_byte y)" by simp
  ultimately have "hex_byte x = hex_byte y \<and> concat (map hex_byte xs) = concat (map hex_byte ys')" by simp
  then show ?case using Cons.IH hex_byte_inject ys by blast
qed

fun mux_prefix :: "ssh_mux \<Rightarrow> string" where
  "mux_prefix SshMux_Streaming = ''cms''"
| "mux_prefix SshMux_Observer = ''cmo''"
| "mux_prefix _ = ''cm''"

lemma control_path_forD:
  assumes "control_path_for e h mux = Some p"
  obtains dir where "control_socket_dir e = Some dir" "mux \<noteq> SshMux_Off" "length p \<le> 100"
    "p = path_join dir (mux_prefix mux @ ''-'' @ host_control_namespace e h)"
  using assms
  by (cases mux)
    (auto simp: control_path_template_for_def control_path_template_in_def Let_def split: if_splits bind_splits)

lemma path_join_inject:
  "\<not> starts_with ''/'' a \<Longrightarrow> \<not> starts_with ''/'' b \<Longrightarrow> path_join dir a = path_join dir b \<longleftrightarrow> a = b"
  by (simp add: path_join_def)

lemma leaf_inject:
  assumes "mux_prefix mux @ ''-'' @ x = mux_prefix mux' @ ''-'' @ y" "mux \<noteq> SshMux_Off" "mux' \<noteq> SshMux_Off"
  shows "mux = mux' \<and> x = y"
  using assms by (cases mux; cases mux') simp_all

text \<open>
  Two uses of a control socket share it only for the same purpose and the same revision of the same
  host record: the record id, the time of its last change, the user, the host name, the port and the way to
  authenticate agree. The only way out is a collision of the 64 bits of the hash between the two.
\<close>

theorem control_sockets_separate_revisions:
  assumes "control_path_for e h mux = Some p" "control_path_for e h' mux' = Some p"
    "short_fields e h" "short_fields e h'"
    "take 8 (se_sha256 e (host_control_input e h)) = take 8 (se_sha256 e (host_control_input e h')) \<Longrightarrow>
      host_control_input e h = host_control_input e h'"
  shows "mux = mux' \<and> connection_identity e h = connection_identity e h'"
proof -
  obtain dir where dir: "control_socket_dir e = Some dir" "mux \<noteq> SshMux_Off"
    "p = path_join dir (mux_prefix mux @ ''-'' @ host_control_namespace e h)"
    using assms(1) control_path_forD by metis
  have dir': "mux' \<noteq> SshMux_Off" "p = path_join dir (mux_prefix mux' @ ''-'' @ host_control_namespace e h')"
    using assms(2) dir(1) control_path_forD by (metis option.inject)+
  have "\<not> starts_with ''/'' (mux_prefix m @ ''-'' @ x)" for m x by (cases m) (simp_all add: starts_with_def)
  then have "mux_prefix mux @ ''-'' @ host_control_namespace e h = mux_prefix mux' @ ''-'' @ host_control_namespace e h'"
    using dir(3) dir'(2) path_join_inject by metis
  then have "mux = mux'" "host_control_namespace e h = host_control_namespace e h'"
    using leaf_inject dir(2) dir'(1) by blast+
  moreover from this have "host_control_input e h = host_control_input e h'"
    using assms(5) concat_hex_inject unfolding host_control_namespace_def by blast
  then have "host_fields e h = host_fields e h'"
    using assms(3,4) hash_fields_inject unfolding host_control_input_def short_fields_def by blast
  ultimately show ?thesis using host_fields_inject assms(3,4) by blast
qed

lemma same_identity_same_input:
  "connection_identity e h = connection_identity e h' \<Longrightarrow> host_control_input e h = host_control_input e h'"
  unfolding connection_identity_def host_control_input_def host_fields_def auth_fields_def
  by (auto split: host_kind.splits ssh_auth.splits)

definition sample_env :: ssh_env where
  "sample_env = \<lparr>se_xdg = None, se_home = Some ''/home/me'', se_private = (\<lambda>d. True), se_socket = (\<lambda>p. False),
     se_display = False, se_sha256 = rev, se_uuid_bytes = (\<lambda>u. u)\<rparr>"

definition sample_ssh_host :: "string \<Rightarrow> host" where
  "sample_ssh_host password = \<lparr>h_id = ''h1'', h_name = ''box'',
     h_kind = HostKind_Ssh ''me'' ''box'' 22 (SshAuth_Password password),
     h_created_at = 0, h_updated_at = 5, h_last_seen_at = None\<rparr>"

lemma sample_short: "short_fields sample_env (sample_ssh_host p)"
  by (simp add: short_fields_def host_fields_def auth_fields_def sample_ssh_host_def sample_env_def)

lemma sample_same_input: "host_control_input sample_env (sample_ssh_host p) = host_control_input sample_env (sample_ssh_host q)"
  by (rule same_identity_same_input) (simp add: connection_identity_def sample_ssh_host_def)

lemma sample_path: "\<exists>p. control_path_for sample_env (sample_ssh_host pw) SshMux_Streaming = Some p"
proof -
  have "length (host_control_namespace sample_env (sample_ssh_host pw)) \<le> 16"
    by (simp add: host_control_namespace_def)
  moreover have "control_socket_dir sample_env = Some ''/home/me/.agentum/ssh''" by code_simp
  moreover have "se_private sample_env d" for d by (simp add: sample_env_def)
  ultimately show ?thesis
    by (simp add: control_path_template_for_def control_path_template_in_def Let_def path_join_def
        starts_with_def ends_with_def)
qed

lemma control_sockets_separate_revisions_witness:
  "connection_identity sample_env (sample_ssh_host ''a'') = connection_identity sample_env (sample_ssh_host ''b'')"
proof -
  obtain p where p: "control_path_for sample_env (sample_ssh_host ''a'') SshMux_Streaming = Some p"
    using sample_path by blast
  have "host_control_namespace sample_env (sample_ssh_host ''b'') = host_control_namespace sample_env (sample_ssh_host ''a'')"
    unfolding host_control_namespace_def by (simp only: sample_same_input [of "''b''" "''a''"])
  then have "control_path_template_in sample_env (sample_ssh_host ''b'') = control_path_template_in sample_env (sample_ssh_host ''a'')"
    by (simp add: control_path_template_in_def fun_eq_iff)
  then have "control_path_for sample_env (sample_ssh_host ''b'') SshMux_Streaming = Some p"
    using p by (simp add: control_path_template_for_def)
  from control_sockets_separate_revisions [OF p this sample_short sample_short sample_same_input] show ?thesis by blast
qed

section \<open>Passwords\<close>

definition with_password :: "host \<Rightarrow> string \<Rightarrow> host" where
  "with_password h p =
     (case h_kind h of
        HostKind_Ssh user hostname port auth \<Rightarrow> h\<lparr>h_kind := HostKind_Ssh user hostname port (SshAuth_Password p)\<rparr>
      | HostKind_Local \<Rightarrow> h)"

lemma kind_with_password:
  "h_kind (with_password h p) = (case h_kind h of HostKind_Local \<Rightarrow> HostKind_Local
     | HostKind_Ssh user hostname port auth \<Rightarrow> HostKind_Ssh user hostname port (SshAuth_Password p))"
  by (simp add: with_password_def split: host_kind.split)

lemma with_password_path: "control_path_for e (with_password h p) mux = control_path_for e (with_password h q) mux"
proof -
  have "host_control_input e (with_password h p) = host_control_input e (with_password h q)"
    by (rule same_identity_same_input) (simp add: connection_identity_def with_password_def split: host_kind.split)
  then have "control_path_template_in e (with_password h p) = control_path_template_in e (with_password h q)"
    by (simp add: control_path_template_in_def host_control_namespace_def fun_eq_iff)
  then show ?thesis by (cases mux) (simp_all add: control_path_template_for_def)
qed

definition option_set :: "ssh_cmd \<Rightarrow> string \<Rightarrow> bool" where
  "option_set cmd s \<longleftrightarrow> (''-o'', s) \<in> set (zip (sc_args cmd) (tl (sc_args cmd)))"

definition asks_the_helper :: "ssh_cmd \<Rightarrow> bool" where
  "asks_the_helper cmd \<longleftrightarrow>
     map_of (sc_env cmd) ''SSH_ASKPASS'' \<noteq> None \<and> map_of (sc_env cmd) ''SSH_ASKPASS_REQUIRE'' = Some ''force''"

lemma destination_no_option: "user @ ''@'' @ hostname \<noteq> ''-o''"
proof
  assume "user @ ''@'' @ hostname = ''-o''"
  then have "CHR ''@'' \<in> set ''-o''" by (metis in_set_conv_decomp append_Cons append_Nil)
  then show False by simp
qed

lemma batch_without_password:
  "password_value auth = None \<Longrightarrow> h_kind h = HostKind_Ssh user hostname port auth \<Longrightarrow>
   \<not> option_set (build_ssh e h s mux ask) ''BatchMode=no''"
  using destination_no_option [of user hostname]
  unfolding option_set_def build_ssh_def
  by (auto simp: Let_def base_command_def ssh_existing_control_command_def connection_args_def pooling_args_def
      auth_args_def opt_def password_value_def split: option.splits ssh_auth.splits if_splits)

text \<open>
  C9. A password is neither in the arguments nor in the environment of the ssh process: two passwords that
  are staged in the same private file give the same command, for every host, script and kind of master. And a
  command that lets ssh ask for a password hands it the helper, so that it never asks on a terminal.
\<close>

theorem passwords_stay_out_of_the_command:
  assumes "trim p \<noteq> []" "trim q \<noteq> []" "prepare p = prepare' q"
  shows "try_ssh_command_opts e prepare (with_password h p) s mux =
      try_ssh_command_opts e prepare' (with_password h q) s mux \<and>
    (\<forall>cmd ask. try_ssh_command_opts e prepare h s mux = Inr (cmd, ask) \<longrightarrow>
      option_set cmd ''BatchMode=no'' \<longrightarrow> asks_the_helper cmd)"
proof
  have same: "build_ssh e (with_password h p) s mux ask = build_ssh e (with_password h q) s mux ask" for ask
    using assms(1,2) with_password_path [of e h p mux q]
    by (simp add: build_ssh_def with_password_def password_value_def auth_args_def Let_def split: host_kind.split)
  show "try_ssh_command_opts e prepare (with_password h p) s mux = try_ssh_command_opts e prepare' (with_password h q) s mux"
    using assms same by (simp add: try_ssh_command_opts_def kind_with_password password_value_def split: host_kind.split)
  show "\<forall>cmd ask. try_ssh_command_opts e prepare h s mux = Inr (cmd, ask) \<longrightarrow>
      option_set cmd ''BatchMode=no'' \<longrightarrow> asks_the_helper cmd"
  proof (intro allI impI)
    fix cmd ask
    assume run: "try_ssh_command_opts e prepare h s mux = Inr (cmd, ask)" and batch: "option_set cmd ''BatchMode=no''"
    show "asks_the_helper cmd"
    proof (cases "h_kind h")
      case HostKind_Local
      then show ?thesis using run batch by (auto simp: try_ssh_command_opts_def build_ssh_def option_set_def)
    next
      case (HostKind_Ssh user hostname port auth)
      show ?thesis
      proof (cases "password_value auth")
        case None
        then show ?thesis using run batch HostKind_Ssh batch_without_password by (auto simp: try_ssh_command_opts_def)
      next
        case (Some pw)
        then obtain a where "cmd = build_ssh e h s mux (Some a)"
          using run HostKind_Ssh by (auto simp: try_ssh_command_opts_def and_then_def split: sum.splits)
        then show ?thesis using HostKind_Ssh by (simp add: asks_the_helper_def build_ssh_def Let_def askpass_env_def)
      qed
    qed
  qed
qed

definition sample_prepare :: "string \<Rightarrow> io_error + askpass" where
  "sample_prepare p = Inr \<lparr>ap_helper = ''/home/me/.agentum/ssh/askpass.sh'', ap_secret = ''/home/me/.agentum/ssh/.s''\<rparr>"

lemma passwords_stay_out_of_the_command_witness:
  "try_ssh_command_opts sample_env sample_prepare (with_password (sample_ssh_host ''x'') ''one'') ''true'' SshMux_Off =
   try_ssh_command_opts sample_env sample_prepare (with_password (sample_ssh_host ''x'') ''two'') ''true'' SshMux_Off"
proof -
  have "trim ''one'' \<noteq> []" "trim ''two'' \<noteq> []" by code_simp+
  moreover have "sample_prepare ''one'' = sample_prepare ''two''" by (simp add: sample_prepare_def)
  ultimately show ?thesis using passwords_stay_out_of_the_command by blast
qed

section \<open>A script runs at most once\<close>

lemma run_ssh_once_cases:
  obtains (nothing) e where "run_ssh_once t h s mux tr = (tr, Inr (Inl e))"
  | (started) cmd ask r where "run_ssh_once t h s mux tr = (tr @ [argv_of cmd], Inr r)"
      "try_ssh_command_opts (tp_env t) (tp_prepare t tr) h s mux = Inr (cmd, ask)"
      "\<And>out. r = Inr out \<Longrightarrow> m_run (tp_machine t) tr (argv_of cmd) = Inr out"
proof (cases "try_ssh_command_opts (tp_env t) (tp_prepare t tr) h s mux")
  case (Inl e)
  then have "run_ssh_once t h s mux tr = (tr, Inr (Inl e))" by (simp add: run_ssh_once_def)
  then show ?thesis by (rule nothing)
next
  case (Inr ca)
  obtain cmd ask where ca: "ca = (cmd, ask)" by force
  define r where "r = after_cleanup (m_run (tp_machine t) tr (argv_of cmd))
    (case ask of None \<Rightarrow> Inr () | Some a \<Rightarrow> tp_cleanup t (tr @ [argv_of cmd]) a)"
  show ?thesis
  proof (rule started [of cmd r ask])
    show "run_ssh_once t h s mux tr = (tr @ [argv_of cmd], Inr r)"
      using Inr ca by (simp add: run_ssh_once_def Let_def r_def)
    show "m_run (tp_machine t) tr (argv_of cmd) = Inr out" if "r = Inr out" for out
      using that by (auto simp: r_def after_cleanup_def split: sum.splits)
  qed (use Inr ca in simp)
qed

text \<open>
  \<open>executes tr c\<close>: the command \<open>c\<close>, started after \<open>tr\<close>, got as far as running its script on the host. What OpenSSH
  documents by its diagnostics: a client that only reports failures from before its session request
  has run nothing.
\<close>

definition pre_session_means_not_run :: "machine \<Rightarrow> (argv list \<Rightarrow> argv \<Rightarrow> bool) \<Rightarrow> bool" where
  "pre_session_means_not_run m executes \<longleftrightarrow>
     (\<forall>tr c out. m_run m tr c = Inr out \<longrightarrow> is_replay_safe_mux_failure out \<longrightarrow> \<not> executes tr c)"

fun runs :: "(argv list \<Rightarrow> argv \<Rightarrow> bool) \<Rightarrow> argv list \<Rightarrow> argv list \<Rightarrow> nat" where
  "runs executes tr [] = 0"
| "runs executes tr (c # cs) = (if executes tr c then 1 else 0) + runs executes (tr @ [c]) cs"

lemma build_off_is_fresh:
  assumes "try_ssh_command_opts e prepare h s SshMux_Off = Inr (cmd, ask)" "\<not> is_local h"
  shows "option_set cmd ''ControlPath=none''"
proof -
  obtain user hostname port auth where kind: "h_kind h = HostKind_Ssh user hostname port auth"
    using assms(2) by (auto simp: is_local_def split: host_kind.splits)
  have "option_set (build_ssh e h s SshMux_Off a) ''ControlPath=none''" for a
    by (simp add: kind option_set_def build_ssh_def Let_def base_command_def connection_args_def pooling_args_def opt_def)
  then show ?thesis using assms(1) kind
    by (auto simp: try_ssh_command_opts_def and_then_def split: option.splits sum.splits)
qed


text \<open>A master whose hello fails, and a connection of its own that works.\<close>

definition sample_transport :: transport where
  "sample_transport = \<lparr>tp_env = sample_env,
     tp_machine = \<lparr>m_run = (\<lambda>tr c. Inr (if tr = []
        then \<lparr>po_status = Some 255, po_stdout = [], po_stderr = ''muxclient: master hello exchange failed''\<rparr>
        else \<lparr>po_status = Some 0, po_stdout = ''ok'', po_stderr = []\<rparr>)),
       m_quote = (\<lambda>s. Some (squoted s)), m_join = (\<lambda>ws. Some (concat ws))\<rparr>,
     tp_prepare = (\<lambda>tr. sample_prepare), tp_cleanup = (\<lambda>tr a. Inr ())\<rparr>"


section \<open>The lookup on the host and on this machine\<close>

definition plain_row :: "string \<Rightarrow> bool" where
  "plain_row row \<longleftrightarrow>
     (case split_once (CHR ''_'') row of None \<Rightarrow> False | Some (i, name) \<Rightarrow> name = [] \<or> last name \<noteq> CHR ''_'')"

text \<open>
  C8. The shell loop on the host and the code on this machine resolve a target to the same session, for
  every listing whose session names do not end with an underscore.
\<close>

theorem remote_lookup_agrees_with_local:
  assumes "list_all plain_row rows" "find_session target_is_id target rows = Inr r"
  shows "lookup_loop target_is_id target rows = r"
  using assms
proof (induction rows)
  case (Cons row rows)
  then obtain i name where row: "split_once (CHR ''_'') row = Some (i, name)" "name = [] \<or> last name \<noteq> CHR ''_''"
    by (auto simp: plain_row_def split: option.splits)
  then have "read_row row = (i, name)" by (auto simp: read_row_def read_last_field_def)
  then show ?case using Cons row(1) by (auto split: if_splits)
qed simp

lemma remote_lookup_agrees_with_local_witness:
  "lookup_loop False ''agentum-a'' [''$2_agentum-a_b'', ''$1_agentum-a''] = Some ''$1''"
proof (rule remote_lookup_agrees_with_local)
  show "list_all plain_row [''$2_agentum-a_b'', ''$1_agentum-a'']" by code_simp
  show "find_session False ''agentum-a'' [''$2_agentum-a_b'', ''$1_agentum-a''] = Inr (Some ''$1'')" by code_simp
qed

text \<open>
  A name with an underscore at its end, which \<open>validate_name\<close> allows, is read without it: the session is
  not found by its name, and the name without the underscore finds it.
\<close>

lemma trailing_underscore_is_lost:
  "lookup_loop False ''agentum-a_'' [''$1_agentum-a_''] = None"
  "lookup_loop False ''agentum-a'' [''$1_agentum-a_''] = Some ''$1''"
  "find_session False ''agentum-a_'' [''$1_agentum-a_''] = Inr (Some ''$1'')"
  "find_session False ''agentum-a'' [''$1_agentum-a_''] = Inr None"
  "validate_name ''a_'' = Inr ()"
  by code_simp+

section \<open>The probe record\<close>

lemma hex_pairs_concat: "hex_pairs (concat (map hex_byte xs)) = Some xs"
proof (induction xs)
  case (Cons x xs)
  obtain a b where "hex_byte x = [a, b]" "hex_val a = Some (of_char x div 16)" "hex_val b = Some (of_char x mod 16)"
    by (rule hex_byte_digits)
  then show ?case using Cons by simp
qed simp

lemma hex_digits_all: "list_all (\<lambda>c. hex_val c \<noteq> None) (concat (map hex_byte xs))"
proof (induction xs)
  case (Cons x xs)
  obtain a b where "hex_byte x = [a, b]" "hex_val a = Some (of_char x div 16)" "hex_val b = Some (of_char x mod 16)"
    by (rule hex_byte_digits)
  then show ?case using Cons by simp
qed simp

lemma decode_hex_concat: "decode_hex (concat (map hex_byte xs)) = Some xs"
  using hex_digits_all by (simp add: decode_hex_def hex_pairs_concat)

lemma split_once_absent: "d \<notin> set a \<Longrightarrow> split_once d (a @ d # b) = Some (a, b)"
  by (induction a) auto

lemma string_of_nat_no_tab: "CHR 0x09 \<notin> set (string_of_nat n)" "CHR 0x0A \<notin> set (string_of_nat n)"
  using string_of_nat_digits [of n] by (auto simp: list_all_iff is_ascii_digit_def)

lemma parse_i32_nat:
  assumes "n < 2 ^ 31"
  shows "parse_i32 (string_of_nat n) = Some (int n)"
proof -
  obtain c cs where c: "string_of_nat n = c # cs" by (metis neq_Nil_conv string_of_nat_nonempty)
  then have "is_ascii_digit c" using string_of_nat_digits [of n] by simp
  then have "c \<noteq> CHR ''-''" "c \<noteq> CHR ''+''" by (auto simp: is_ascii_digit_def)
  then have "parse_i32 (c # cs) = Some (int (digits_value (c # cs)))"
    using assms string_of_nat_digits [of n] digits_value_string_of_nat [of n] c by (simp add: parse_i32_def Let_def)
  then show ?thesis using c digits_value_string_of_nat [of n] by simp
qed

lemma first_some_append: "first_some f (xs @ ys) = (case first_some f xs of Some y \<Rightarrow> Some y | None \<Rightarrow> first_some f ys)"
  by (induction xs) (auto split: option.splits)

lemma first_some_None: "list_all (\<lambda>x. f x = None) xs \<Longrightarrow> first_some f xs = None"
  by (induction xs) simp_all

definition record_line :: "nat \<Rightarrow> string \<Rightarrow> string" where
  "record_line st err = HAS_SESSION_PROTOCOL_TAG @ tab @ string_of_nat st @ tab @ concat (map hex_byte err)"

lemma hex_not_line_end:
  assumes "c \<in> set (concat (map hex_byte err))"
  shows "c \<noteq> CHR 0x0A \<and> c \<noteq> CHR 0x0D"
proof -
  have "hex_val c \<noteq> None" using assms hex_digits_all [of err] unfolding list_all_iff by blast
  then show ?thesis by (auto simp: hex_val_def)
qed

lemma record_line_plain: "CHR 0x0A \<notin> set (record_line st err)" "strip_cr (record_line st err) = record_line st err"
proof -
  define hex where "hex = concat (map hex_byte err)"
  have hex: "CHR 0x0A \<notin> set hex" "CHR 0x0D \<notin> set hex"
    unfolding hex_def using hex_not_line_end by blast+
  have line: "record_line st err = (HAS_SESSION_PROTOCOL_TAG @ tab @ string_of_nat st) @ CHR 0x09 # hex"
    by (simp add: record_line_def hex_def tab_def)
  show "CHR 0x0A \<notin> set (record_line st err)"
    using hex(1) string_of_nat_no_tab(2) [of st]
    by (simp add: line HAS_SESSION_PROTOCOL_TAG_def tab_def)
  have "hex \<noteq> [] \<Longrightarrow> last hex \<noteq> CHR 0x0D" using hex(2) last_in_set by metis
  then have "last (record_line st err) \<noteq> CHR 0x0D" by (simp add: line last_append)
  then show "strip_cr (record_line st err) = record_line st err" by (simp add: strip_cr_def)
qed

lemma probe_lines:
  assumes "terminated before"
  shows "str_lines (before @ probe_record st err @ after) = str_lines before @ record_line st err # str_lines after"
proof -
  have r: "probe_record st err = record_line st err @ [CHR 0x0A]"
    by (simp add: probe_record_def record_line_def nl_def)
  have "str_lines (record_line st err @ [CHR 0x0A]) = [record_line st err]"
    using record_line_plain split_on_append [of "CHR 0x0A" "record_line st err" "[]"] split_on_absent
    by (simp add: str_lines_def Let_def)
  moreover have "terminated (record_line st err @ [CHR 0x0A])" by (simp add: terminated_def)
  ultimately show ?thesis
    using str_lines_append [OF assms] str_lines_append [of "record_line st err @ [CHR 0x0A]" after] r by simp
qed

lemma probe_record_parsed:
  assumes "terminated before" "list_all (\<lambda>line. record_payload line = None) (str_lines after)"
    "valid_utf8 (before @ probe_record st err @ after)" "st \<le> 255"
  shows "parse_has_session_probe (before @ probe_record st err @ after) = Some (int st, utf8_lossy err)"
proof -
  have payload: "record_payload (record_line st err) = Some (string_of_nat st @ CHR 0x09 # concat (map hex_byte err))"
    unfolding record_payload_def record_line_plain(2) by (simp add: record_line_def tab_def)
  have "first_some record_payload (rev (str_lines (before @ probe_record st err @ after))) =
      Some (string_of_nat st @ CHR 0x09 # concat (map hex_byte err))"
    using assms(2) payload by (simp add: probe_lines [OF assms(1)] first_some_append first_some_None list_all_iff)
  then show ?thesis
    using assms(3,4) string_of_nat_no_tab(1) [of st]
    by (simp add: parse_has_session_probe_def split_once_absent parse_i32_nat decode_hex_concat)
qed

text \<open>
  The answer of the remote probe survives whatever a login shell prints around it: the status and the
  error text of tmux are read back from its record, byte by byte.
\<close>

theorem probe_record_is_read_back:
  assumes "terminated before" "list_all (\<lambda>line. record_payload line = None) (str_lines after)"
    "valid_utf8 (before @ probe_record st err @ after)" "st \<le> 255"
  shows "parse_has_session_probe (before @ probe_record st err @ after) = Some (int st, utf8_lossy err)"
  using assms by (rule probe_record_parsed)

lemma probe_record_is_read_back_witness:
  "parse_has_session_probe (''motd'' @ nl @ probe_record 1 ''gone'' @ ''bye'') = Some (1, ''gone'')"
proof -
  have "utf8_lossy ''gone'' = ''gone''" by code_simp
  moreover have "terminated (''motd'' @ nl)" by (simp add: terminated_def nl_def)
  moreover have "list_all (\<lambda>line. record_payload line = None) (str_lines ''bye'')" by code_simp
  moreover have "valid_utf8 ((''motd'' @ nl) @ probe_record 1 ''gone'' @ ''bye'')" by code_simp
  ultimately show ?thesis
    using probe_record_is_read_back [of "''motd'' @ nl" "''bye''" 1 "''gone''"] by simp
qed

section \<open>Existence, decided on the host\<close>

lemma utf8_lossy_ascii: "list_all (\<lambda>c. (of_char c :: nat) < 128) s \<Longrightarrow> utf8_lossy s = s"
  by (induction s) simp_all

lemma token_ascii: "list_all token_char s \<Longrightarrow> list_all (\<lambda>c. (of_char c :: nat) < 128) s"
  using token_char_range(1) by (auto simp: list_all_iff)

lemma cant_find_plain:
  assumes "list_all token_char target" "target \<noteq> []"
  shows "diagnostic_lines (''can't find session: '' @ target) = [''can't find session: '' @ target]"
proof -
  let ?line = "''can't find session: '' @ target"
  obtain t c where target: "target = t @ [c]" using assms(2) by (metis append_butlast_last_id)
  then have c: "token_char c" using assms(1) by simp
  have "strip_one_of ws_encodings ?line = None" by (simp add: ws_encodings_def)
  moreover have "strip_one_of (map rev ws_encodings) (c # rev (''can't find session: '' @ t)) = None"
    using token_char_range(1) [OF c]
    by (intro strip_one_of_None) (auto simp: ws_encodings_def)
  ultimately have trim: "trim ?line = ?line"
    by (simp add: trim_def trim_start_def trim_end_def strip_all_of.simps target)
  have "CHR 0x0A \<notin> set ?line" "last ?line \<noteq> CHR 0x0D"
    using assms(1) c token_char_range(1) by (auto simp: list_all_iff target) fastforce+
  then have "str_lines ?line = [?line]"
    using split_on_absent [of "CHR 0x0A" ?line] by (simp add: str_lines_def strip_cr_def)
  then show ?thesis using trim by (simp add: diagnostic_lines_def)
qed

lemma cant_find_is_missing:
  assumes "list_all token_char target" "target \<noteq> []"
  shows "is_tmux_session_missing_error (''can't find session: '' @ target)"
  using assms cant_find_plain [OF assms] trim_token [OF assms(1)]
  by (simp add: is_tmux_session_missing_error_def canonical_missing_def)

text \<open>
  On an SSH host, whether a session exists is decided by tmux on that host and by nothing else: with
  tmux answering, the outcome is whether the lookup finds the target, whatever login shells print; without,
  it is absent only for tmux's own report of a missing server, and an error otherwise.
\<close>

theorem remote_existence_is_tmux_existence:
  assumes "list_all token_char target" "target \<noteq> []"
    "v = lookup_outcome target_is_id target st rows" "st \<le> 255"
    "terminated before" "list_all (\<lambda>line. record_payload line = None) (str_lines after)"
    "valid_utf8 (before @ probe_record (lv_status v) (lv_error v) @ after)"
  shows "classify_remote_has_session_output \<lparr>po_status = Some 0,
      po_stdout = before @ probe_record (lv_status v) (lv_error v) @ after, po_stderr = noise\<rparr> =
    (if st = 0 then Inr (lookup_loop target_is_id target (split_on (CHR 0x0A) rows) \<noteq> None)
     else if st = 1 \<and> is_tmux_session_missing_error (utf8_lossy rows) then Inr False
     else Inl (TmuxError_NonZero (int st) (trim (utf8_lossy rows))))"
proof -
  have "lv_status v \<le> 255" using assms(3,4) by (auto simp: lookup_outcome_def split: option.split)
  then have "parse_has_session_probe (before @ probe_record (lv_status v) (lv_error v) @ after) =
      Some (int (lv_status v), utf8_lossy (lv_error v))"
    using probe_record_parsed assms(5-7) by blast
  moreover have "list_all (\<lambda>c. (of_char c :: nat) < 128) (''can't find session: '' @ target)"
    using token_ascii [OF assms(1)] by simp
  note utf8_lossy_ascii [OF this]
  ultimately show ?thesis
    using cant_find_is_missing [OF assms(1,2)] assms(3)
    by (auto simp: classify_remote_has_session_output_def ssh_success_def po_success_def and_then_def
        classify_has_session_probe_def lookup_outcome_def utf8_lossy_ascii split: option.splits)
qed

lemma remote_existence_is_tmux_existence_witness:
  "classify_remote_has_session_output \<lparr>po_status = Some 0,
     po_stdout = nl @ probe_record 1 ''can't find session: agentum-b'' @ [], po_stderr = ''Permanently added''\<rparr> = Inr False"
proof -
  define v where "v = lookup_outcome False ''agentum-b'' 0 ''$1_agentum-a''"
  have v: "v = \<lparr>lv_status = 1, lv_error = ''can't find session: agentum-b'', lv_session = [], lv_missing = True\<rparr>"
    unfolding v_def by code_simp
  have "list_all token_char ''agentum-b''" "terminated nl" "valid_utf8 (nl @ probe_record 1 ''can't find session: agentum-b'' @ [])"
    "list_all (\<lambda>line. record_payload line = None) (str_lines [])"
    "lookup_loop False ''agentum-b'' (split_on (CHR 0x0A) ''$1_agentum-a'') = None"
    by code_simp+
  then show ?thesis
    using remote_existence_is_tmux_existence [OF _ _ v_def, of nl "[]" "''Permanently added''"] v by simp
qed

section \<open>Closing every master\<close>

lemma close_command_run:
  "close_control_master_command m (Some c) tr =
     (tr @ [argv_of c], Inr (and_then (m_run m tr (argv_of c)) classify_control_exit_output))"
  by (simp add: close_control_master_command_def pbind_def exec_def pret_def)

definition closed_at :: "machine \<Rightarrow> argv list \<Rightarrow> ssh_cmd list \<Rightarrow> nat \<Rightarrow> bool" where
  "closed_at m tr cs k \<longleftrightarrow>
     (\<exists>out. m_run m (tr @ map argv_of (take k cs)) (argv_of (cs ! k)) = Inr out \<and> classify_control_exit_output out = Inr ())"

definition all_closed :: "machine \<Rightarrow> argv list \<Rightarrow> ssh_cmd list \<Rightarrow> bool" where
  "all_closed m tr cs \<longleftrightarrow> (\<forall>k < length cs. closed_at m tr cs k)"

lemma all_closed_Cons:
  "all_closed m tr (c # cs) \<longleftrightarrow>
     and_then (m_run m tr (argv_of c)) classify_control_exit_output = Inr () \<and> all_closed m (tr @ [argv_of c]) cs"
  unfolding all_closed_def closed_at_def
  by (simp add: All_less_Suc2) (auto simp: and_then_def split: sum.split)

lemma all_closed_append:
  "all_closed m tr (xs @ ys) \<longleftrightarrow> all_closed m tr xs \<and> all_closed m (tr @ map argv_of xs) ys"
  by (induction xs arbitrary: tr) (simp_all add: all_closed_Cons, simp add: all_closed_def)

fun present :: "'a option list \<Rightarrow> 'a list" where
  "present [] = []"
| "present (None # xs) = present xs"
| "present (Some x # xs) = x # present xs"

lemma close_all_run:
  "\<exists>r. close_all m cs tr = (tr @ map argv_of (present cs), Inr r) \<and>
       (r = Inr () \<longleftrightarrow> all_closed m tr (present cs))"
proof (induction cs arbitrary: tr)
  case Nil
  then show ?case by (simp add: pret_def all_closed_def)
next
  case (Cons c cs)
  show ?case
  proof (cases c)
    case None
    then show ?thesis
      using Cons.IH [of tr]
      by (auto simp: close_control_master_command_def pbind_def pret_def result_and_def)
  next
    case (Some d)
    obtain r where r: "close_all m cs (tr @ [argv_of d]) =
        ((tr @ [argv_of d]) @ map argv_of (present cs), Inr r)"
      "r = Inr () \<longleftrightarrow> all_closed m (tr @ [argv_of d]) (present cs)"
      using Cons.IH by blast
    then show ?thesis
      using Some
      by (auto simp: pbind_def close_command_run pret_def result_and_def all_closed_Cons split: sum.splits)
  qed
qed

definition current_exits :: "ssh_env \<Rightarrow> host \<Rightarrow> ssh_cmd list" where
  "current_exits e h = present (map (ssh_control_exit_cmd e h) [SshMux_Interactive, SshMux_Streaming, SshMux_Observer])"

definition legacy_exits :: "ssh_env \<Rightarrow> host \<Rightarrow> ssh_cmd list" where
  "legacy_exits e h = take 4 (ssh_legacy_control_exit_cmds e h SshMux_Interactive @ ssh_legacy_control_exit_cmds e h SshMux_Streaming)"

text \<open>
  Closing the masters of a host asks every one of them, the current three and the older ones, whatever the
  others answer, and succeeds exactly when each has exited or its socket is gone.
\<close>

theorem closing_reaches_every_master:
  "\<exists>r. ssh_close_control_masters e m h tr =
      (tr @ map argv_of (current_exits e h @ legacy_exits e h), Inr r) \<and>
    (r = Inr () \<longleftrightarrow> all_closed m tr (current_exits e h @ legacy_exits e h))"
proof -
  let ?cmds = "[ssh_control_exit_cmd e h SshMux_Interactive, ssh_control_exit_cmd e h SshMux_Streaming,
    ssh_control_exit_cmd e h SshMux_Observer]"
  have cmds: "present ?cmds = current_exits e h"
    by (simp add: current_exits_def)
  obtain r where r: "close_all m ?cmds tr = (tr @ map argv_of (current_exits e h), Inr r)"
    "r = Inr () \<longleftrightarrow> all_closed m tr (current_exits e h)"
    using close_all_run [of m ?cmds tr] unfolding cmds by blast
  have "present (map Some xs) = xs" for xs :: "ssh_cmd list"
    by (induction xs) simp_all
  moreover have retire: "ssh_retire_legacy_control_masters e m h = close_all m (map Some (legacy_exits e h))"
    by (simp add: ssh_retire_legacy_control_masters_def legacy_exits_def)
  ultimately obtain q where q: "ssh_retire_legacy_control_masters e m h (tr @ map argv_of (current_exits e h)) =
      ((tr @ map argv_of (current_exits e h)) @ map argv_of (legacy_exits e h), Inr q)"
    "q = Inr () \<longleftrightarrow> all_closed m (tr @ map argv_of (current_exits e h)) (legacy_exits e h)"
    using close_all_run [of m "map Some (legacy_exits e h)" "tr @ map argv_of (current_exits e h)"] retire by metis
  show ?thesis
    using r q
    by (cases r) (auto simp: ssh_close_control_masters_def pbind_def pret_def result_and_def all_closed_append)
qed

section \<open>Pane samples\<close>

lemma find_str_first:
  assumes "find_str sep (x @ butlast sep) = None" "sep \<noteq> []"
  shows "find_str sep (x @ sep @ y) = Some (length x)"
  using assms(1)
proof (induction x)
  case Nil
  obtain c cs where c: "sep @ y = c # cs" using assms(2) by (cases sep) auto
  have "starts_with sep (sep @ y)" by (auto simp: starts_with_iff)
  then show ?case by (simp add: c)
next
  case (Cons c x)
  have "\<not> starts_with sep (c # x @ sep @ y)"
  proof
    assume "starts_with sep (c # x @ sep @ y)"
    then obtain t where t: "(c # x @ butlast sep) @ (last sep # y) = sep @ t"
      using assms(2) by (auto simp: starts_with_iff) (metis append_Cons append_assoc append_butlast_last_id append_Nil)
    have "length sep \<le> length (c # x @ butlast sep)" using assms(2) by simp
    then have "\<exists>u. c # x @ butlast sep = sep @ u"
      using t by (metis append_eq_append_conv_if append_take_drop_id)
    then show False using Cons.prems by (auto simp: starts_with_iff split: if_splits)
  qed
  then show ?case using Cons by (auto split: if_splits)
qed

definition no_boundary :: "string \<Rightarrow> bool" where
  "no_boundary x \<longleftrightarrow> find_str sample_sep (x @ butlast sample_sep) = None"

lemma split_once_str_first: "no_boundary x \<Longrightarrow> split_once_str sample_sep (x @ sample_sep @ y) = Some (x, y)"
proof -
  assume "no_boundary x"
  then have "find_str sample_sep (x @ sample_sep @ y) = Some (length x)"
    unfolding no_boundary_def by (rule find_str_first) (simp add: sample_sep_def nl_def)
  then show ?thesis by (simp add: split_once_str_def)
qed

text \<open>
  A pane sample taken in one round trip comes apart into the three answers it was made of, unless one of
  the first two shows the boundary line itself.
\<close>

theorem pane_samples_come_apart:
  assumes "no_boundary cmdline" "no_boundary pane"
  shows "parse_pane_sample (cmdline @ sample_sep @ pane @ sample_sep @ viewport) =
    Some \<lparr>ps_pane = pane, ps_viewport = viewport, ps_current_command = trim cmdline\<rparr>"
  using assms by (simp add: parse_pane_sample_def split_once_str_first)

lemma pane_samples_come_apart_witness:
  "parse_pane_sample (''claude'' @ sample_sep @ ''line'' @ sample_sep @ ''view'') =
   Some \<lparr>ps_pane = ''line'', ps_viewport = ''view'', ps_current_command = trim ''claude''\<rparr>"
proof (rule pane_samples_come_apart)
  show "no_boundary ''claude''" by code_simp
  show "no_boundary ''line''" by code_simp
qed

end
