(* ===== verification/Host_Tunnels.thy ===== *)
theory Host_Tunnels
  imports Ssh_Transport
begin

text \<open>
  \<open>crates/agentum-server/src/host_runtime.rs\<close>, the connections: errors and their diagnostics, the health of
  the pooled masters and their repair, and the reverse tunnel through which an agent on an SSH host
  reaches the MCP server. The memory of the armed tunnels is a set with at most one entry per forward,
  here a list; what an operation does while it holds the lock of a host is one step on it.
\<close>

section \<open>Errors\<close>

datatype runtime_error =
    RuntimeError_Unsupported
  | RuntimeError_NonZero "int option" string
  | RuntimeError_NotUtf8
  | RuntimeError_Quote
  | RuntimeError_Timeout
  | RuntimeError_RemotePrerequisite string string
  | RuntimeError_SshStage string string string
  | RuntimeError_TmuxSetup string "int option" string
  | RuntimeError_EarlyExit string "int option" string
  | RuntimeError_Tunnel string string
  | RuntimeError_Bootstrap string
  | RuntimeError_Io io_error
  | RuntimeError_Tmux tmux_error

definition target_missing_needles :: "string list" where
  "target_missing_needles =
     [''can't find window:'', ''can't find session:'', ''can't find pane:'', ''no server running on '']"

definition stderr_says_target_missing :: "string \<Rightarrow> bool" where
  "stderr_says_target_missing stderr =
     list_ex (str_contains (to_ascii_lowercase stderr)) target_missing_needles"

definition is_tmux_target_missing :: "runtime_error \<Rightarrow> bool" where
  "is_tmux_target_missing e =
     (case e of
        RuntimeError_NonZero status stderr \<Rightarrow> stderr_says_target_missing stderr
      | RuntimeError_Tmux (TmuxError_NonZero status stderr) \<Rightarrow> stderr_says_target_missing stderr
      | _ \<Rightarrow> False)"

definition STARTUP_DIAGNOSTIC_BYTES :: nat where
  "STARTUP_DIAGNOSTIC_BYTES = 8 * 1024"

text \<open>\<open>str::is_char_boundary\<close>, going back from \<open>n\<close>; the three bytes at the end are an ellipsis.\<close>

fun floor_boundary :: "string \<Rightarrow> nat \<Rightarrow> nat" where
  "floor_boundary s 0 = 0"
| "floor_boundary s (Suc n) = (if is_continuation (s ! Suc n) then floor_boundary s n else Suc n)"

definition bounded_text :: "string \<Rightarrow> nat \<Rightarrow> string" where
  "bounded_text value max_bytes =
     (if length value \<le> max_bytes then value
      else take (floor_boundary value max_bytes) value @ [CHR 0xE2, CHR 0x80, CHR 0xA6])"

definition ssh_hint :: "string \<Rightarrow> string" where
  "ssh_hint lower =
     (let has = str_contains lower in
      if has ''permission denied'' \<or> has ''authentication failed'' \<or> has ''no supported authentication''
      then ''authentication was rejected; verify the saved SSH user and credential''
      else if has ''could not resolve hostname'' \<or> has ''name or service not known'' \<or> has ''nodename nor servname''
      then ''the hostname could not be resolved; verify the saved hostname''
      else if has ''connection refused''
      then ''the SSH service refused the connection; verify the host and port''
      else if has ''timed out'' \<or> has ''operation timed out''
      then ''the SSH connection timed out; verify network reachability and the SSH port''
      else if has ''no route to host'' \<or> has ''network is unreachable''
      then ''the SSH host is unreachable from this machine''
      else if has ''host key verification failed''
      then ''host-key verification failed; remove or update the stale known_hosts entry''
      else ''the SSH transport or remote command failed'')"

definition ssh_actionable_message :: "string \<Rightarrow> string" where
  "ssh_actionable_message stderr =
     (let clean = bounded_text (trim stderr) STARTUP_DIAGNOSTIC_BYTES;
          hint = ssh_hint (to_ascii_lowercase clean)
      in if clean = [] then hint else hint @ '' ('' @ clean @ '')'')"

definition ssh_stage_error :: "host \<Rightarrow> string \<Rightarrow> int option \<Rightarrow> string \<Rightarrow> runtime_error" where
  "ssh_stage_error h stage status stderr =
     (if status = Some 255 then RuntimeError_SshStage stage (h_name h) (ssh_actionable_message stderr)
      else RuntimeError_TmuxSetup stage status
        (if trim stderr = [] then ''remote command returned no diagnostic''
         else bounded_text (trim stderr) STARTUP_DIAGNOSTIC_BYTES))"

section \<open>Processes with a deadline\<close>

text \<open>
  \<open>te_expired\<close> tells whether the timer runs out before a process has ended, \<open>te_timed_out\<close> whether an I/O
  error has the kind \<open>TimedOut\<close>, \<open>te_schedule\<close> is the thread that removes a staged password later (or the
  error of starting it), \<open>te_io_text\<close> the text of an I/O error.
\<close>

record tunnel_env =
  te_transport :: transport
  te_expired :: "argv list \<Rightarrow> argv \<Rightarrow> bool"
  te_timed_out :: "io_error \<Rightarrow> bool"
  te_schedule :: "argv list \<Rightarrow> askpass \<Rightarrow> io_error option"
  te_io_text :: "io_error \<Rightarrow> string"

abbreviation te_ssh :: "tunnel_env \<Rightarrow> ssh_env" where
  "te_ssh te \<equiv> tp_env (te_transport te)"

abbreviation te_machine :: "tunnel_env \<Rightarrow> machine" where
  "te_machine te \<equiv> tp_machine (te_transport te)"

definition ssh_stage_io :: "tunnel_env \<Rightarrow> host \<Rightarrow> string \<Rightarrow> io_error \<Rightarrow> runtime_error" where
  "ssh_stage_io te h stage e =
     RuntimeError_SshStage stage (h_name h)
       (if te_timed_out te e
        then ''the SSH operation timed out; verify network reachability and authentication''
        else ''the SSH client could not complete the operation ('' @ te_io_text te e @ '')'')"

definition map_ssh_io :: "tunnel_env \<Rightarrow> io_error \<Rightarrow> runtime_error" where
  "map_ssh_io te e = (if te_timed_out te e then RuntimeError_Timeout else RuntimeError_Io e)"

text \<open>The text of the two errors of \<open>bounded_command_output\<close>.\<close>

definition command_error_text :: "tunnel_env \<Rightarrow> runtime_error \<Rightarrow> string" where
  "command_error_text te e =
     (case e of RuntimeError_Timeout \<Rightarrow> ''ssh command timed out'' | RuntimeError_Io i \<Rightarrow> te_io_text te i | _ \<Rightarrow> [])"

record tunnel_key =
  tk_host :: uuid
  tk_generation :: string
  tk_listen :: "16 word"
  tk_destination :: "16 word"

text \<open>\<open>TunnelControlState\<close>, and the processes started so far.\<close>

record tunnel_state =
  ts_log :: "argv list"
  ts_tunnels :: "tunnel_key list"
  ts_retired :: "(uuid \<times> int) list"

type_synonym 'a tun = "tunnel_state \<Rightarrow> tunnel_state \<times> (runtime_error + 'a)"

definition tret :: "'a \<Rightarrow> 'a tun" where
  "tret x s = (s, Inr x)"

definition tfail :: "runtime_error \<Rightarrow> 'a tun" where
  "tfail e s = (s, Inl e)"

definition tbind :: "'a tun \<Rightarrow> ('a \<Rightarrow> 'b tun) \<Rightarrow> 'b tun" where
  "tbind m f s = (case m s of (s', Inl e) \<Rightarrow> (s', Inl e) | (s', Inr x) \<Rightarrow> f x s')"

definition ttry :: "'a tun \<Rightarrow> (runtime_error + 'a) tun" where
  "ttry m s = (case m s of (s', r) \<Rightarrow> (s', Inr r))"

definition tlift :: "runtime_error + 'a \<Rightarrow> 'a tun" where
  "tlift r s = (s, r)"

definition tmap_err :: "(runtime_error \<Rightarrow> runtime_error) \<Rightarrow> 'a tun \<Rightarrow> 'a tun" where
  "tmap_err f m s = (case m s of (s', Inl e) \<Rightarrow> (s', Inl (f e)) | (s', Inr x) \<Rightarrow> (s', Inr x))"

definition command_reply :: "tunnel_env \<Rightarrow> argv list \<Rightarrow> argv \<Rightarrow> runtime_error + proc_output" where
  "command_reply te log c =
     (if te_expired te log c then Inl RuntimeError_Timeout
      else case m_run (te_machine te) log c of Inl e \<Rightarrow> Inl (RuntimeError_Io e) | Inr out \<Rightarrow> Inr out)"

definition bounded_command_output :: "tunnel_env \<Rightarrow> ssh_cmd \<Rightarrow> proc_output tun" where
  "bounded_command_output te cmd s =
     (s\<lparr>ts_log := ts_log s @ [argv_of cmd]\<rparr>, command_reply te (ts_log s) (argv_of cmd))"

text \<open>The closing commands of \<open>agentum_tmux::ssh\<close>, whose error is mapped by the caller.\<close>

definition closing :: "(io_error \<Rightarrow> runtime_error) \<Rightarrow> (io_error + unit) proc \<Rightarrow> unit tun" where
  "closing f p s =
     (case p (ts_log s) of (log, r) \<Rightarrow>
        (s\<lparr>ts_log := log\<rparr>,
         case r of Inl e \<Rightarrow> Inl (RuntimeError_Tmux e) | Inr (Inl e) \<Rightarrow> Inl (f e) | Inr (Inr _) \<Rightarrow> Inr ()))"

text \<open>\<open>ssh_command_opts\<close>: where the password cannot be staged, a local command that fails with 255.\<close>

definition password_auth_preflight_failure_command :: "tunnel_env \<Rightarrow> io_error \<Rightarrow> ssh_cmd" where
  "password_auth_preflight_failure_command te e =
     \<lparr>sc_program = ''/bin/sh'',
      sc_args = [''-c'', ''printf '' @ squoted (''%s'' @ [CHR 92] @ ''n'') @ '' \"$1\" >&2; exit 255'', ''agentum-ssh-preflight'',
        ''agentum: cannot prepare noninteractive SSH password helper: '' @ te_io_text te e],
      sc_env = []\<rparr>"

definition ssh_command_opts :: "tunnel_env \<Rightarrow> argv list \<Rightarrow> host \<Rightarrow> string \<Rightarrow> ssh_mux \<Rightarrow> ssh_cmd" where
  "ssh_command_opts te log h scr mux =
     (case try_ssh_command_opts (te_ssh te) (tp_prepare (te_transport te) log) h scr mux of
        Inl e \<Rightarrow> password_auth_preflight_failure_command te e
      | Inr (cmd, None) \<Rightarrow> cmd
      | Inr (cmd, Some a) \<Rightarrow>
          (case te_schedule te log a of
             None \<Rightarrow> cmd
           | Some e \<Rightarrow> password_auth_preflight_failure_command te e))"

section \<open>Pooled masters\<close>

definition ssh_control_check_cmd :: "ssh_env \<Rightarrow> host \<Rightarrow> ssh_mux \<Rightarrow> ssh_cmd option" where
  "ssh_control_check_cmd e h mux =
     (case ssh_control_exit_cmd e h mux of
        None \<Rightarrow> None
      | Some exit_cmd \<Rightarrow>
          (case find (starts_with ''ControlPath='') (sc_args exit_cmd) of
             None \<Rightarrow> None
           | Some control_path \<Rightarrow>
               (case h_kind h of
                  HostKind_Local \<Rightarrow> None
                | HostKind_Ssh user hostname port auth \<Rightarrow>
                    Some (ssh_existing_control_command\<lparr>sc_args :=
                      sc_args ssh_existing_control_command @ [''-T'', ''-o'', control_path,
                        ''-p'', string_of_nat (unat port), ''-O'', ''check'', user @ ''@'' @ hostname]\<rparr>))))"

definition parse_control_master_generation :: "string \<Rightarrow> string \<Rightarrow> string option" where
  "parse_control_master_generation stdout stderr =
     (case rsplit_str ''pid='' (utf8_lossy stdout @ nl @ utf8_lossy stderr) of
        None \<Rightarrow> None
      | Some (_, tail) \<Rightarrow>
          let pid = takeWhile is_ascii_digit tail in if pid = [] then None else Some (''pid:'' @ pid))"

definition generation_of :: "host \<Rightarrow> proc_output \<Rightarrow> runtime_error + string" where
  "generation_of h out =
     (if \<not> po_success out
      then Inl (ssh_stage_error h ''ControlMaster generation check'' (po_status out) (utf8_lossy (po_stderr out)))
      else case parse_control_master_generation (po_stdout out) (po_stderr out) of
             None \<Rightarrow> Inl (RuntimeError_SshStage ''ControlMaster generation check'' (h_name h)
               ''OpenSSH confirmed the master but did not report its process generation'')
           | Some g \<Rightarrow> Inr g)"

definition verified_control_master_generation :: "tunnel_env \<Rightarrow> host \<Rightarrow> string tun" where
  "verified_control_master_generation te h =
     (case ssh_control_check_cmd (te_ssh te) h SshMux_Interactive of
        None \<Rightarrow> tfail (RuntimeError_SshStage ''ControlMaster generation check'' (h_name h)
                  ''no private ControlPath is available for this SSH host'')
      | Some check \<Rightarrow> tbind (bounded_command_output te check) (\<lambda>out. tlift (generation_of h out)))"

datatype probe_disposition = Probe_Healthy | Probe_Evict | Probe_Busy | Probe_Failed

definition classify_pooled_probe :: "proc_output \<Rightarrow> probe_disposition" where
  "classify_pooled_probe out =
     (if po_status out = Some 0 then Probe_Healthy
      else if po_status out = Some 255 \<and> po_stdout out = [] \<and> valid_utf8 (po_stderr out) \<and>
              is_mux_transport_error (po_stderr out) then Probe_Evict
      else let stderr = to_ascii_lowercase (utf8_lossy (po_stderr out))
           in if str_contains stderr ''session open refused by peer'' \<or>
                 str_contains stderr ''open failed: administratively prohibited''
              then Probe_Busy else Probe_Failed)"

fun pooled_master_stage :: "ssh_mux \<Rightarrow> string" where
  "pooled_master_stage SshMux_Interactive = ''interactive ControlMaster health probe''"
| "pooled_master_stage SshMux_Streaming = ''streaming ControlMaster health probe''"
| "pooled_master_stage SshMux_Observer = ''observer ControlMaster health probe''"
| "pooled_master_stage SshMux_Off = ''unpooled SSH health probe''"

definition pooled_master_was_running :: "tunnel_env \<Rightarrow> host \<Rightarrow> ssh_mux \<Rightarrow> bool tun" where
  "pooled_master_was_running te h mux =
     (case ssh_control_check_cmd (te_ssh te) h mux of
        None \<Rightarrow> tret False
      | Some check \<Rightarrow>
          tbind (ttry (bounded_command_output te check)) (\<lambda>r.
            tret (case r of Inr out \<Rightarrow> po_success out | Inl _ \<Rightarrow> True)))"

definition evict_ssh_master_locked :: "tunnel_env \<Rightarrow> host \<Rightarrow> ssh_mux \<Rightarrow> unit tun" where
  "evict_ssh_master_locked te h mux =
     (case ssh_control_exit_cmd (te_ssh te) h mux of
        None \<Rightarrow> tret ()
      | Some c \<Rightarrow> tbind (ttry (bounded_command_output te c)) (\<lambda>_. tret ()))"

definition evict_ssh_master :: "tunnel_env \<Rightarrow> host \<Rightarrow> ssh_mux \<Rightarrow> unit tun" where
  "evict_ssh_master te h mux =
     (if is_local h \<or> mux = SshMux_Off then tret () else evict_ssh_master_locked te h mux)"

definition probe_master :: "tunnel_env \<Rightarrow> host \<Rightarrow> ssh_mux \<Rightarrow> proc_output tun" where
  "probe_master te h mux s = bounded_command_output te (ssh_command_opts te (ts_log s) h ''true'' mux) s"

definition probe_error :: "host \<Rightarrow> ssh_mux \<Rightarrow> proc_output \<Rightarrow> runtime_error" where
  "probe_error h mux out = ssh_stage_error h (pooled_master_stage mux) (po_status out) (utf8_lossy (po_stderr out))"

definition open_pooled_master_locked :: "tunnel_env \<Rightarrow> host \<Rightarrow> ssh_mux \<Rightarrow> unit tun" where
  "open_pooled_master_locked te h mux =
     tbind (probe_master te h mux) (\<lambda>out. if po_success out then tret () else tfail (probe_error h mux out))"

definition evict_and_open :: "tunnel_env \<Rightarrow> host \<Rightarrow> ssh_mux \<Rightarrow> unit tun" where
  "evict_and_open te h mux = tbind (evict_ssh_master_locked te h mux) (\<lambda>_. open_pooled_master_locked te h mux)"

definition probe_or_repair_pooled_master_locked :: "tunnel_env \<Rightarrow> host \<Rightarrow> ssh_mux \<Rightarrow> unit tun" where
  "probe_or_repair_pooled_master_locked te h mux =
     tbind (pooled_master_was_running te h mux) (\<lambda>was_running.
     tbind (ttry (probe_master te h mux)) (\<lambda>probe.
       case probe of
         Inr out \<Rightarrow>
           (case classify_pooled_probe out of
              Probe_Healthy \<Rightarrow> tret ()
            | Probe_Evict \<Rightarrow> evict_and_open te h mux
            | Probe_Busy \<Rightarrow> if was_running then tret () else tfail (probe_error h mux out)
            | Probe_Failed \<Rightarrow> tfail (probe_error h mux out))
       | Inl e \<Rightarrow> if e = RuntimeError_Timeout \<and> was_running then evict_and_open te h mux else tfail e))"

definition repair_ssh_master_role :: "tunnel_env \<Rightarrow> host \<Rightarrow> ssh_mux \<Rightarrow> unit tun" where
  "repair_ssh_master_role te h mux =
     (if is_local h \<or> mux = SshMux_Off then tret () else probe_or_repair_pooled_master_locked te h mux)"

section \<open>Reverse tunnels\<close>

definition same_forward :: "tunnel_key \<Rightarrow> tunnel_key \<Rightarrow> bool" where
  "same_forward a b \<longleftrightarrow>
     tk_host a = tk_host b \<and> tk_listen a = tk_listen b \<and> tk_destination a = tk_destination b"

definition remember_armed_reverse_tunnel :: "tunnel_key \<Rightarrow> tunnel_state \<Rightarrow> tunnel_state" where
  "remember_armed_reverse_tunnel key s =
     s\<lparr>ts_tunnels := key # filter (\<lambda>existing. \<not> same_forward existing key) (ts_tunnels s)\<rparr>"

definition tunnel_arm_bound :: "bool \<Rightarrow> string \<Rightarrow> bool" where
  "tunnel_arm_bound status_success stderr =
     (status_success \<or>
      (let s = to_ascii_lowercase stderr in
       str_contains s ''forwarding already in place'' \<or> str_contains s ''forward already exists'' \<or>
       str_contains s ''forward is already established''))"

definition tunnel_key_for :: "host \<Rightarrow> string \<Rightarrow> 16 word \<Rightarrow> 16 word \<Rightarrow> tunnel_key" where
  "tunnel_key_for h generation host_port mac_port =
     \<lparr>tk_host = h_id h, tk_generation = generation, tk_listen = host_port, tk_destination = mac_port\<rparr>"

text \<open>
  The body that arming and re-arming share: the cache decision, the control command, its answer. The texts
  differ, so the name of the operation and the beginning of the message are arguments.
\<close>

definition arm_reverse_tunnel :: "tunnel_env \<Rightarrow> string \<Rightarrow> string \<Rightarrow> host \<Rightarrow> tunnel_key \<Rightarrow> unit tun" where
  "arm_reverse_tunnel te operation what h key s =
     (if key \<in> set (ts_tunnels s) then tret () s
      else case ssh_control_forward_cmd (te_ssh te) h (tk_listen key) (tk_destination key) of
             None \<Rightarrow> tfail (RuntimeError_Tunnel operation ''no private ControlPath is available for this SSH host'') s
           | Some cmd \<Rightarrow>
               tbind (tmap_err (\<lambda>e. RuntimeError_Tunnel operation (command_error_text te e)) (bounded_command_output te cmd))
                 (\<lambda>out s'.
                    let stderr = utf8_lossy (po_stderr out)
                    in if tunnel_arm_bound (po_success out) stderr
                       then tret () (remember_armed_reverse_tunnel key s')
                       else tfail (RuntimeError_Tunnel operation
                         (what @ string_of_nat (unat (tk_listen key)) @ '': '' @
                          bounded_text (trim stderr) STARTUP_DIAGNOSTIC_BYTES)) s') s)"

definition desired_forwards :: "uuid \<Rightarrow> tunnel_state \<Rightarrow> (16 word \<times> 16 word) list" where
  "desired_forwards hid s =
     remdups_adj (sort (map (\<lambda>k. (tk_listen k, tk_destination k)) (filter (\<lambda>k. tk_host k = hid) (ts_tunnels s))))"

fun rearm_loop :: "tunnel_env \<Rightarrow> host \<Rightarrow> string \<Rightarrow> (16 word \<times> 16 word) list \<Rightarrow> unit tun" where
  "rearm_loop te h generation [] = tret ()"
| "rearm_loop te h generation ((host_port, mac_port) # rest) =
     tbind (arm_reverse_tunnel te ''reverse-forward rearm'' ''could not restore host loopback port '' h
              (tunnel_key_for h generation host_port mac_port))
       (\<lambda>_. rearm_loop te h generation rest)"

definition reconcile_desired_reverse_tunnels_locked :: "tunnel_env \<Rightarrow> host \<Rightarrow> unit tun" where
  "reconcile_desired_reverse_tunnels_locked te h =
     tbind (verified_control_master_generation te h) (\<lambda>generation s.
       rearm_loop te h generation (desired_forwards (h_id h) s) s)"

definition retire_legacy_ssh_masters_once :: "tunnel_env \<Rightarrow> host \<Rightarrow> unit tun" where
  "retire_legacy_ssh_masters_once te h s =
     (if map_of (ts_retired s) (h_id h) = Some (h_updated_at h) then tret () s
      else tbind (closing (ssh_stage_io te h ''legacy SSH connection retirement'')
                   (ssh_retire_legacy_control_masters (te_ssh te) (te_machine te) h))
             (\<lambda>_ s'. tret () (s'\<lparr>ts_retired := AList.update (h_id h) (h_updated_at h) (ts_retired s')\<rparr>)) s)"

text \<open>The three probes run concurrently, each on its own socket; here they are started in the order of the code.\<close>

definition warm_locked :: "tunnel_env \<Rightarrow> host \<Rightarrow> unit tun" where
  "warm_locked te h =
     tbind (ttry (probe_or_repair_pooled_master_locked te h SshMux_Interactive)) (\<lambda>interactive.
     tbind (ttry (probe_or_repair_pooled_master_locked te h SshMux_Streaming)) (\<lambda>_.
     tbind (ttry (probe_or_repair_pooled_master_locked te h SshMux_Observer)) (\<lambda>_.
     tbind (tlift interactive) (\<lambda>_. reconcile_desired_reverse_tunnels_locked te h))))"

definition warm_ssh_master :: "tunnel_env \<Rightarrow> host \<Rightarrow> unit tun" where
  "warm_ssh_master te h =
     (if is_local h then tret ()
      else tbind (retire_legacy_ssh_masters_once te h) (\<lambda>_. warm_locked te h))"

definition drop_host :: "uuid \<Rightarrow> tunnel_state \<Rightarrow> tunnel_state" where
  "drop_host hid s =
     s\<lparr>ts_tunnels := filter (\<lambda>k. tk_host k \<noteq> hid) (ts_tunnels s), ts_retired := AList.delete hid (ts_retired s)\<rparr>"

definition forget_ssh_control_masters :: "tunnel_env \<Rightarrow> host \<Rightarrow> unit tun" where
  "forget_ssh_control_masters te h =
     (if is_local h then tfail RuntimeError_Unsupported
      else tbind (closing (ssh_stage_io te h ''SSH connection retirement'')
                    (ssh_close_control_masters (te_ssh te) (te_machine te) h))
             (\<lambda>_ s. tret () (drop_host (h_id h) s)))"

definition reset_ssh_master_for_mcp_rearm :: "tunnel_env \<Rightarrow> host \<Rightarrow> unit tun" where
  "reset_ssh_master_for_mcp_rearm te h = forget_ssh_control_masters te h"

definition discard_ssh_control_state :: "uuid \<Rightarrow> unit tun" where
  "discard_ssh_control_state hid s = tret () (drop_host hid s)"

definition invalidate_ssh_control_masters :: "tunnel_env \<Rightarrow> host \<Rightarrow> unit tun" where
  "invalidate_ssh_control_masters te h =
     (if is_local h then tret ()
      else closing (ssh_stage_io te h ''SSH connection invalidation'')
             (ssh_close_control_masters (te_ssh te) (te_machine te) h))"

definition REMOTE_MCP_PORT_BASE :: "16 word" where
  "REMOTE_MCP_PORT_BASE = 49152"

definition reverse_tunnel_host_port :: "(uuid \<Rightarrow> 128 word) \<Rightarrow> uuid \<Rightarrow> 16 word" where
  "reverse_tunnel_host_port as_u128 hid = REMOTE_MCP_PORT_BASE + ucast (as_u128 hid mod 16384)"

definition arm_locked :: "tunnel_env \<Rightarrow> (uuid \<Rightarrow> 128 word) \<Rightarrow> host \<Rightarrow> 16 word \<Rightarrow> (16 word) tun" where
  "arm_locked te as_u128 h mac_port =
     tbind (verified_control_master_generation te h) (\<lambda>generation.
       let host_port = reverse_tunnel_host_port as_u128 (h_id h)
       in tbind (arm_reverse_tunnel te ''reverse-forward arm'' ''could not bind host loopback port '' h
                   (tunnel_key_for h generation host_port mac_port))
            (\<lambda>_. tret host_port))"

definition ensure_reverse_tunnel :: "tunnel_env \<Rightarrow> (uuid \<Rightarrow> 128 word) \<Rightarrow> host \<Rightarrow> 16 word \<Rightarrow> (16 word) tun" where
  "ensure_reverse_tunnel te as_u128 h mac_port =
     (if is_local h then tfail RuntimeError_Unsupported
      else tbind (warm_ssh_master te h) (\<lambda>_. arm_locked te as_u128 h mac_port))"

text \<open>The forward tunnel to a browser on the host: the first port of a small range that binds.\<close>

definition REMOTE_CDP_PORT_BASE :: nat where "REMOTE_CDP_PORT_BASE = 9200"

definition REMOTE_CDP_PORT_TRIES :: nat where "REMOTE_CDP_PORT_TRIES = 24"

definition forward_tunnel_ports :: "(16 word) list" where
  "forward_tunnel_ports = map of_nat [REMOTE_CDP_PORT_BASE ..< REMOTE_CDP_PORT_BASE + REMOTE_CDP_PORT_TRIES]"

fun forward_loop :: "tunnel_env \<Rightarrow> host \<Rightarrow> 16 word \<Rightarrow> string \<Rightarrow> (16 word) list \<Rightarrow> (16 word) tun" where
  "forward_loop te h host_port last_err [] =
     tfail (RuntimeError_Tunnel ''forward arm''
       (''no free CDP forward-tunnel port on Mac in '' @ string_of_nat REMOTE_CDP_PORT_BASE @ ''..; last: '' @
        bounded_text last_err STARTUP_DIAGNOSTIC_BYTES))"
| "forward_loop te h host_port last_err (mac_port # rest) =
     tbind (case ssh_control_local_cancel_cmd (te_ssh te) h mac_port host_port of
              None \<Rightarrow> tret ()
            | Some cancel \<Rightarrow> tbind (ttry (bounded_command_output te cancel)) (\<lambda>_. tret ()))
       (\<lambda>_. case ssh_control_local_forward_cmd (te_ssh te) h mac_port host_port of
              None \<Rightarrow> tfail (RuntimeError_Tunnel ''forward arm'' ''no private ControlPath is available for this SSH host'')
            | Some cmd \<Rightarrow>
                tbind (tmap_err (\<lambda>e. RuntimeError_Tunnel ''forward arm'' (command_error_text te e)) (bounded_command_output te cmd))
                  (\<lambda>out. if tunnel_arm_bound (po_success out) (utf8_lossy (po_stderr out)) then tret mac_port
                         else forward_loop te h host_port (trim (utf8_lossy (po_stderr out))) rest))"

definition ensure_forward_tunnel :: "tunnel_env \<Rightarrow> host \<Rightarrow> 16 word \<Rightarrow> (16 word) tun" where
  "ensure_forward_tunnel te h host_port =
     (if is_local h then tfail RuntimeError_Unsupported
      else tbind (warm_ssh_master te h) (\<lambda>_. forward_loop te h host_port [] forward_tunnel_ports))"

section \<open>Steps on the shared state\<close>

lemmas tun_defs = tret_def tfail_def tbind_def ttry_def tlift_def tmap_err_def

definition log_only :: "'a tun \<Rightarrow> bool" where
  "log_only m \<longleftrightarrow> (\<forall>s. \<exists>l. fst (m s) = s\<lparr>ts_log := ts_log s @ l\<rparr>)"

named_theorems only_logs

lemma log_onlyE:
  assumes "log_only m"
  obtains l where "fst (m s) = s\<lparr>ts_log := ts_log s @ l\<rparr>"
  using assms unfolding log_only_def by blast

lemma append_nothing: "\<exists>l. s = s\<lparr>ts_log := ts_log s @ l\<rparr>"
  by (intro exI [of _ "[]"]) simp

lemma log_only_pure [only_logs]: "log_only (tret x)" "log_only (tfail e)" "log_only (tlift r)"
  by (simp_all add: log_only_def tun_defs append_nothing)

lemma log_only_bind [only_logs]:
  assumes "log_only m" "\<And>x. log_only (f x)"
  shows "log_only (tbind m f)"
  unfolding log_only_def
proof
  fix s :: tunnel_state
  obtain l where l: "fst (m s) = s\<lparr>ts_log := ts_log s @ l\<rparr>" using assms(1) by (rule log_onlyE)
  show "\<exists>l. fst (tbind m f s) = s\<lparr>ts_log := ts_log s @ l\<rparr>"
  proof (cases "snd (m s)")
    case (Inl e)
    then show ?thesis using l by (cases "m s") (auto simp: tbind_def)
  next
    case (Inr x)
    obtain l' where "fst (f x (fst (m s))) = (fst (m s))\<lparr>ts_log := ts_log (fst (m s)) @ l'\<rparr>"
      using assms(2) by (rule log_onlyE)
    then show ?thesis using l Inr by (cases "m s") (auto simp: tbind_def)
  qed
qed

lemma log_only_try [only_logs]: "log_only m \<Longrightarrow> log_only (ttry m)"
  unfolding log_only_def ttry_def by (simp add: split_beta)

lemma log_only_map_err [only_logs]: "log_only m \<Longrightarrow> log_only (tmap_err f m)"
  unfolding log_only_def tmap_err_def by (auto simp: split_beta split: sum.split)

lemma log_only_command [only_logs]: "log_only (bounded_command_output te cmd)"
  unfolding log_only_def bounded_command_output_def by auto

lemma log_only_closing:
  assumes "\<And>tr. \<exists>l. fst (p tr) = tr @ l"
  shows "log_only (closing f p)"
  unfolding log_only_def
proof
  fix s :: tunnel_state
  obtain l where "fst (p (ts_log s)) = ts_log s @ l" using assms by blast
  then show "\<exists>l. fst (closing f p s) = s\<lparr>ts_log := ts_log s @ l\<rparr>"
    by (auto simp: closing_def split_beta)
qed

lemma log_only_close [only_logs]: "log_only (closing f (ssh_close_control_masters e m h))"
proof (rule log_only_closing)
  fix tr
  show "\<exists>l. fst (ssh_close_control_masters e m h tr) = tr @ l"
    using closing_reaches_every_master [of e m h tr] by auto
qed

lemma log_only_retire [only_logs]: "log_only (closing f (ssh_retire_legacy_control_masters e m h))"
proof (rule log_only_closing)
  fix tr
  show "\<exists>l. fst (ssh_retire_legacy_control_masters e m h tr) = tr @ l"
    using close_all_run [of m _ tr] by (metis fst_conv ssh_retire_legacy_control_masters_def)
qed

lemma log_only_option [only_logs]:
  "log_only n \<Longrightarrow> (\<And>c. log_only (f c)) \<Longrightarrow> log_only (case x of None \<Rightarrow> n | Some c \<Rightarrow> f c)"
  by (cases x) simp_all

lemma log_only_if [only_logs]: "log_only m \<Longrightarrow> log_only n \<Longrightarrow> log_only (if b then m else n)"
  by simp

lemma log_only_generation [only_logs]: "log_only (verified_control_master_generation te h)"
  unfolding verified_control_master_generation_def by (intro only_logs)

lemma log_only_probe [only_logs]: "log_only (probe_master te h mux)"
  unfolding log_only_def probe_master_def bounded_command_output_def by auto

lemma log_only_evict [only_logs]: "log_only (evict_ssh_master_locked te h mux)"
  unfolding evict_ssh_master_locked_def by (intro only_logs)

lemma log_only_evict_role [only_logs]: "log_only (evict_ssh_master te h mux)"
  unfolding evict_ssh_master_def by (intro only_logs)

lemma log_only_evict_and_open [only_logs]: "log_only (evict_and_open te h mux)"
  unfolding evict_and_open_def open_pooled_master_locked_def by (intro only_logs)

lemma log_only_repair [only_logs]: "log_only (probe_or_repair_pooled_master_locked te h mux)"
  unfolding probe_or_repair_pooled_master_locked_def pooled_master_was_running_def
  by (intro only_logs) (auto intro!: only_logs split: sum.split probe_disposition.split)

lemma log_only_repair_role [only_logs]: "log_only (repair_ssh_master_role te h mux)"
  unfolding repair_ssh_master_role_def by (intro only_logs)

lemma log_only_invalidate [only_logs]: "log_only (invalidate_ssh_control_masters te h)"
  unfolding invalidate_ssh_control_masters_def by (intro only_logs)

lemma log_only_forward_loop: "log_only (forward_loop te h host_port last_err ports)"
proof (induction ports arbitrary: last_err)
  case (Cons p ports)
  then show ?case by (simp only: forward_loop.simps) (intro only_logs; simp)
qed (simp add: only_logs)

section \<open>What the memory of armed tunnels means\<close>

definition is_forward :: "tunnel_env \<Rightarrow> host \<Rightarrow> argv \<Rightarrow> bool" where
  "is_forward te h c \<longleftrightarrow> (\<exists>a b cmd. ssh_control_forward_cmd (te_ssh te) h a b = Some cmd \<and> c = argv_of cmd)"

text \<open>The last check of the interactive master named generation \<open>g\<close>, and only forwards were asked of it since.\<close>

definition checked_master :: "tunnel_env \<Rightarrow> host \<Rightarrow> string \<Rightarrow> argv list \<Rightarrow> bool" where
  "checked_master te h g log \<longleftrightarrow>
     (\<exists>pre check mid out. log = pre @ argv_of check # mid \<and>
        ssh_control_check_cmd (te_ssh te) h SshMux_Interactive = Some check \<and>
        command_reply te pre (argv_of check) = Inr out \<and> generation_of h out = Inr g \<and> list_all (is_forward te h) mid)"

text \<open>A forward of \<open>k\<close> was accepted by a master just checked to be the generation in \<open>k\<close>.\<close>

definition armed_on :: "tunnel_env \<Rightarrow> argv list \<Rightarrow> tunnel_key \<Rightarrow> bool" where
  "armed_on te log k \<longleftrightarrow>
     (\<exists>h before cmd later out. log = before @ argv_of cmd # later \<and> h_id h = tk_host k \<and>
        checked_master te h (tk_generation k) before \<and>
        ssh_control_forward_cmd (te_ssh te) h (tk_listen k) (tk_destination k) = Some cmd \<and>
        command_reply te before (argv_of cmd) = Inr out \<and> tunnel_arm_bound (po_success out) (utf8_lossy (po_stderr out)))"

lemma checked_master_forward:
  assumes "checked_master te h g log" "ssh_control_forward_cmd (te_ssh te) h a b = Some cmd"
  shows "checked_master te h g (log @ [argv_of cmd])"
proof -
  obtain pre check mid out where c: "log = pre @ argv_of check # mid"
    "ssh_control_check_cmd (te_ssh te) h SshMux_Interactive = Some check"
    "command_reply te pre (argv_of check) = Inr out" "generation_of h out = Inr g" "list_all (is_forward te h) mid"
    using assms(1) by (auto simp: checked_master_def)
  moreover have "list_all (is_forward te h) (mid @ [argv_of cmd])"
    using c(5) assms(2) by (auto simp: is_forward_def)
  ultimately show ?thesis unfolding checked_master_def by (metis append_Cons append_assoc)
qed

lemma armed_on_append: "armed_on te log k \<Longrightarrow> armed_on te (log @ l) k"
  unfolding armed_on_def by force

definition cache_sound :: "tunnel_env \<Rightarrow> tunnel_state \<Rightarrow> bool" where
  "cache_sound te s \<longleftrightarrow> list_all (armed_on te (ts_log s)) (ts_tunnels s)"

definition one_per_forward :: "tunnel_state \<Rightarrow> bool" where
  "one_per_forward s \<longleftrightarrow> distinct (map (\<lambda>k. (tk_host k, tk_listen k, tk_destination k)) (ts_tunnels s))"

definition desires :: "uuid \<Rightarrow> (16 word \<times> 16 word) set \<Rightarrow> tunnel_state \<Rightarrow> bool" where
  "desires hid D s \<longleftrightarrow> D \<subseteq> set (desired_forwards hid s)"

lemma set_desired_forwards:
  "set (desired_forwards hid s) = {(tk_listen k, tk_destination k) |k. k \<in> set (ts_tunnels s) \<and> tk_host k = hid}"
  by (auto simp: desired_forwards_def)

definition maintains :: "(tunnel_state \<Rightarrow> bool) \<Rightarrow> 'a tun \<Rightarrow> bool" where
  "maintains P m \<longleftrightarrow> (\<forall>s. P s \<longrightarrow> P (fst (m s)))"

text \<open>
  A property of the shared state that a longer log does not break and that an accepted forward keeps: every
  operation that removes nothing keeps it.
\<close>

locale tunnel_property =
  fixes te :: tunnel_env and P :: "tunnel_state \<Rightarrow> bool"
  assumes longer_log: "P s \<Longrightarrow> P (s\<lparr>ts_log := ts_log s @ l\<rparr>)"
    and retired: "P s \<Longrightarrow> P (s\<lparr>ts_retired := r\<rparr>)"
    and armed: "P s \<Longrightarrow> armed_on te (ts_log s) k \<Longrightarrow> P (remember_armed_reverse_tunnel k s)"
begin

lemma keeps_log_only: "log_only m \<Longrightarrow> maintains P m"
  unfolding maintains_def log_only_def by (metis longer_log)

lemma tun_keeps_bind: "maintains P m \<Longrightarrow> (\<And>x. maintains P (f x)) \<Longrightarrow> maintains P (tbind m f)"
  unfolding maintains_def tbind_def by (auto simp: split_beta split: sum.split)

lemma tun_keeps_try: "maintains P m \<Longrightarrow> maintains P (ttry m)"
  unfolding maintains_def ttry_def by (simp add: split_beta)

lemma tun_keeps_if: "maintains P m \<Longrightarrow> maintains P n \<Longrightarrow> maintains P (if b then m else n)"
  by simp

lemma keeps_retire: "maintains P (retire_legacy_ssh_masters_once te h)"
  unfolding maintains_def
proof (intro allI impI)
  fix s
  let ?close = "closing (ssh_stage_io te h ''legacy SSH connection retirement'')
    (ssh_retire_legacy_control_masters (te_ssh te) (te_machine te) h)"
  assume "P s"
  then have "P (fst (?close s))"
    using keeps_log_only [OF log_only_retire] by (simp add: maintains_def)
  then show "P (fst (retire_legacy_ssh_masters_once te h s))"
    using \<open>P s\<close> retired by (auto simp: retire_legacy_ssh_masters_once_def tbind_def tret_def split_beta split: sum.split)
qed

lemma arm_checked:
  assumes "checked_master te h (tk_generation k) (ts_log s)" "tk_host k = h_id h" "P s"
    and "arm_reverse_tunnel te operation what h k s = (s', r)"
  shows "P s' \<and> checked_master te h (tk_generation k) (ts_log s')"
proof (cases "k \<in> set (ts_tunnels s)")
  case True
  then show ?thesis using assms by (simp add: arm_reverse_tunnel_def tret_def)
next
  case new: False
  show ?thesis
  proof (cases "ssh_control_forward_cmd (te_ssh te) h (tk_listen k) (tk_destination k)")
    case None
    then show ?thesis using assms new by (simp add: arm_reverse_tunnel_def tfail_def)
  next
    case (Some cmd)
    let ?log = "ts_log s @ [argv_of cmd]" and ?s = "s\<lparr>ts_log := ts_log s @ [argv_of cmd]\<rparr>"
    have checked: "checked_master te h (tk_generation k) ?log"
      using assms(1) Some by (rule checked_master_forward)
    have log: "P ?s" using assms(3) by (rule longer_log)
    show ?thesis
    proof (cases "command_reply te (ts_log s) (argv_of cmd)")
      case (Inl e)
      then show ?thesis
        using assms(4) new Some checked log
        by (auto simp: arm_reverse_tunnel_def tun_defs bounded_command_output_def)
    next
      case (Inr out)
      show ?thesis
      proof (cases "tunnel_arm_bound (po_success out) (utf8_lossy (po_stderr out))")
        case True
        then have "armed_on te ?log k"
          using assms(1,2) Some Inr by (auto simp: armed_on_def intro!: exI [of _ h])
        then have "P (remember_armed_reverse_tunnel k ?s)" using log by (simp add: armed)
        then show ?thesis
          using assms(4) new Some checked Inr True
          by (auto simp: arm_reverse_tunnel_def tun_defs bounded_command_output_def remember_armed_reverse_tunnel_def)
      next
        case False
        then show ?thesis
          using assms(4) new Some checked log Inr
          by (auto simp: arm_reverse_tunnel_def tun_defs bounded_command_output_def)
      qed
    qed
  qed
qed

end

lemma generation_checked:
  assumes "verified_control_master_generation te h s = (s', Inr g)"
  shows "checked_master te h g (ts_log s') \<and> (\<exists>c. s' = s\<lparr>ts_log := ts_log s @ [c]\<rparr>)"
proof (cases "ssh_control_check_cmd (te_ssh te) h SshMux_Interactive")
  case None
  then show ?thesis using assms by (simp add: verified_control_master_generation_def tun_defs)
next
  case (Some check)
  then obtain out where "command_reply te (ts_log s) (argv_of check) = Inr out" "generation_of h out = Inr g"
    "s' = s\<lparr>ts_log := ts_log s @ [argv_of check]\<rparr>"
    using assms by (auto simp: verified_control_master_generation_def tun_defs bounded_command_output_def split: sum.splits)
  then show ?thesis using Some by (force simp: checked_master_def)
qed

section \<open>Any sequence of operations\<close>

datatype tunnel_op =
    Op_Retire host
  | Op_WarmLocked host
  | Op_Arm host "16 word"
  | Op_Warm host
  | Op_Reverse host "16 word"
  | Op_Forward host "16 word"
  | Op_Evict host ssh_mux
  | Op_Repair host ssh_mux
  | Op_Invalidate host
  | Op_Forget host
  | Op_Discard uuid

text \<open>
  The first three are what \<open>warm_ssh_master\<close> and \<open>ensure_reverse_tunnel\<close> do under one hold of the lock, so a
  list of operations may also interleave two of them.
\<close>

fun perform :: "tunnel_env \<Rightarrow> (uuid \<Rightarrow> 128 word) \<Rightarrow> tunnel_op \<Rightarrow> tunnel_state \<Rightarrow> tunnel_state" where
  "perform te as_u128 (Op_Retire h) s = fst (retire_legacy_ssh_masters_once te h s)"
| "perform te as_u128 (Op_WarmLocked h) s = fst (warm_locked te h s)"
| "perform te as_u128 (Op_Arm h p) s = fst (arm_locked te as_u128 h p s)"
| "perform te as_u128 (Op_Warm h) s = fst (warm_ssh_master te h s)"
| "perform te as_u128 (Op_Reverse h p) s = fst (ensure_reverse_tunnel te as_u128 h p s)"
| "perform te as_u128 (Op_Forward h p) s = fst (ensure_forward_tunnel te h p s)"
| "perform te as_u128 (Op_Evict h mux) s = fst (evict_ssh_master te h mux s)"
| "perform te as_u128 (Op_Repair h mux) s = fst (repair_ssh_master_role te h mux s)"
| "perform te as_u128 (Op_Invalidate h) s = fst (invalidate_ssh_control_masters te h s)"
| "perform te as_u128 (Op_Forget h) s = fst (forget_ssh_control_masters te h s)"
| "perform te as_u128 (Op_Discard hid) s = fst (discard_ssh_control_state hid s)"

definition perform_all :: "tunnel_env \<Rightarrow> (uuid \<Rightarrow> 128 word) \<Rightarrow> tunnel_op list \<Rightarrow> tunnel_state" where
  "perform_all te as_u128 ops = fold (perform te as_u128) ops \<lparr>ts_log = [], ts_tunnels = [], ts_retired = []\<rparr>"

fun discards :: "uuid \<Rightarrow> tunnel_op \<Rightarrow> bool" where
  "discards hid (Op_Forget h) = (h_id h = hid \<and> \<not> is_local h)"
| "discards hid (Op_Discard i) = (i = hid)"
| "discards hid op = False"

lemma maintainsD: "maintains P m \<Longrightarrow> P s \<Longrightarrow> P (fst (m s))"
  by (simp add: maintains_def)

section \<open>Every operation keeps such a property\<close>

context tunnel_property
begin

lemma keeps_rearm_loop:
  "checked_master te h g (ts_log s) \<Longrightarrow> P s \<Longrightarrow> P (fst (rearm_loop te h g desired s))"
proof (induction desired arbitrary: s)
  case Nil
  then show ?case by (simp add: tret_def)
next
  case (Cons d desired)
  obtain a b where d: "d = (a, b)" by (cases d)
  let ?arm = "arm_reverse_tunnel te ''reverse-forward rearm'' ''could not restore host loopback port '' h
    (tunnel_key_for h g a b)"
  obtain s' r where arm: "?arm s = (s', r)" by fastforce
  have "P s' \<and> checked_master te h g (ts_log s')"
    using arm_checked [OF _ _ _ arm] Cons.prems by (simp add: tunnel_key_for_def)
  then show ?case using Cons.IH arm d by (auto simp: tbind_def split: sum.split)
qed

lemma keeps_reconcile: "maintains P (reconcile_desired_reverse_tunnels_locked te h)"
  unfolding maintains_def
proof (intro allI impI)
  fix s
  assume "P s"
  obtain s' r where g: "verified_control_master_generation te h s = (s', r)" by fastforce
  have "P s'" using \<open>P s\<close> keeps_log_only [OF log_only_generation] g by (metis maintains_def fst_conv)
  then show "P (fst (reconcile_desired_reverse_tunnels_locked te h s))"
    using g generation_checked [of te h s s'] keeps_rearm_loop
    by (cases r) (auto simp: reconcile_desired_reverse_tunnels_locked_def tbind_def)
qed

lemma keeps_warm_locked: "maintains P (warm_locked te h)"
  unfolding warm_locked_def
  by (intro tun_keeps_bind tun_keeps_try keeps_reconcile keeps_log_only [OF log_only_repair] keeps_log_only [OF log_only_pure(3)])

lemma keeps_warm: "maintains P (warm_ssh_master te h)"
  unfolding warm_ssh_master_def
  by (intro tun_keeps_if tun_keeps_bind keeps_retire keeps_warm_locked keeps_log_only [OF log_only_pure(1)])

lemma keeps_arm_locked: "maintains P (arm_locked te as_u128 h mac_port)"
  unfolding maintains_def
proof (intro allI impI)
  fix s
  assume "P s"
  obtain s' r where g: "verified_control_master_generation te h s = (s', r)" by fastforce
  have s': "P s'" using \<open>P s\<close> keeps_log_only [OF log_only_generation] g by (metis maintains_def fst_conv)
  show "P (fst (arm_locked te as_u128 h mac_port s))"
  proof (cases r)
    case (Inl e)
    then show ?thesis using g s' by (simp add: arm_locked_def tbind_def)
  next
    case (Inr generation)
    let ?key = "tunnel_key_for h generation (reverse_tunnel_host_port as_u128 (h_id h)) mac_port"
    obtain s'' q where arm: "arm_reverse_tunnel te ''reverse-forward arm'' ''could not bind host loopback port '' h ?key s' = (s'', q)"
      by fastforce
    have "P s''"
      using arm_checked [OF _ _ s' arm] generation_checked [of te h s s' generation] g Inr
      by (simp add: tunnel_key_for_def)
    then show ?thesis using g Inr arm by (auto simp: arm_locked_def tbind_def tret_def Let_def split: sum.split)
  qed
qed

lemma keeps_ensure: "maintains P (ensure_reverse_tunnel te as_u128 h mac_port)"
  unfolding ensure_reverse_tunnel_def
  by (intro tun_keeps_if tun_keeps_bind keeps_warm keeps_arm_locked keeps_log_only [OF log_only_pure(2)])

lemma keeps_forward: "maintains P (ensure_forward_tunnel te h host_port)"
  unfolding ensure_forward_tunnel_def
  by (intro tun_keeps_if tun_keeps_bind keeps_warm keeps_log_only [OF log_only_forward_loop] keeps_log_only [OF log_only_pure(2)])

lemma tun_keeps_forget:
  assumes "\<And>s. P s \<Longrightarrow> P (drop_host (h_id h) s)"
  shows "maintains P (forget_ssh_control_masters te h)"
  unfolding forget_ssh_control_masters_def
  using assms
  by (intro tun_keeps_if tun_keeps_bind keeps_log_only [OF log_only_close] keeps_log_only [OF log_only_pure(2)])
    (simp add: maintains_def tret_def)

lemma performs:
  assumes "P s" "\<And>i s. P s \<Longrightarrow> discards i op \<Longrightarrow> P (drop_host i s)"
  shows "P (perform te as_u128 op s)"
proof (cases op)
  case (Op_Forget h)
  show ?thesis
  proof (cases "is_local h")
    case True
    then show ?thesis using Op_Forget assms(1) by (simp add: forget_ssh_control_masters_def tfail_def)
  next
    case False
    then have "maintains P (forget_ssh_control_masters te h)"
      using Op_Forget assms(2) by (intro tun_keeps_forget) simp
    then show ?thesis using Op_Forget assms(1) by (simp add: maintainsD)
  qed
next
  case (Op_Discard i)
  then show ?thesis using assms by (simp add: discard_ssh_control_state_def tret_def)
qed (simp_all add: assms(1) maintainsD keeps_retire keeps_warm_locked keeps_arm_locked keeps_warm keeps_ensure
      keeps_forward keeps_log_only only_logs)

end

interpretation sound: tunnel_property te "cache_sound te" for te
  by unfold_locales
    (auto simp: cache_sound_def remember_armed_reverse_tunnel_def list_all_iff armed_on_append)

interpretation single: tunnel_property te one_per_forward for te
  by unfold_locales
    (auto simp: one_per_forward_def remember_armed_reverse_tunnel_def same_forward_def distinct_map
      intro: inj_on_subset)

lemma desired_remember:
  "set (desired_forwards hid s) \<subseteq> set (desired_forwards hid (remember_armed_reverse_tunnel k s))"
proof
  fix d
  assume "d \<in> set (desired_forwards hid s)"
  then obtain x where x: "x \<in> set (ts_tunnels s)" "tk_host x = hid" "d = (tk_listen x, tk_destination x)"
    by (auto simp: set_desired_forwards)
  show "d \<in> set (desired_forwards hid (remember_armed_reverse_tunnel k s))"
  proof (cases "same_forward x k")
    case True
    then show ?thesis using x by (auto simp: set_desired_forwards remember_armed_reverse_tunnel_def same_forward_def)
  next
    case False
    then show ?thesis using x by (auto simp: set_desired_forwards remember_armed_reverse_tunnel_def)
  qed
qed

interpretation desired: tunnel_property te "desires hid D" for te hid D
proof
  fix s l r k
  show "desires hid D s \<Longrightarrow> desires hid D (s\<lparr>ts_log := ts_log s @ l\<rparr>)"
    "desires hid D s \<Longrightarrow> desires hid D (s\<lparr>ts_retired := r\<rparr>)"
    by (simp_all add: desires_def desired_forwards_def)
  show "desires hid D s \<Longrightarrow> armed_on te (ts_log s) k \<Longrightarrow> desires hid D (remember_armed_reverse_tunnel k s)"
    using desired_remember [of hid s k] by (auto simp: desires_def)
qed

lemma forget_result:
  assumes "\<not> is_local h"
  shows "\<exists>l. forget_ssh_control_masters te h s =
    (if all_closed (te_machine te) (ts_log s) (current_exits (te_ssh te) h @ legacy_exits (te_ssh te) h)
     then (drop_host (h_id h) (s\<lparr>ts_log := ts_log s @ l\<rparr>), Inr ())
     else (s\<lparr>ts_log := ts_log s @ l\<rparr>, snd (forget_ssh_control_masters te h s)))
    \<and> (snd (forget_ssh_control_masters te h s) = Inr () \<longleftrightarrow>
       all_closed (te_machine te) (ts_log s) (current_exits (te_ssh te) h @ legacy_exits (te_ssh te) h))"
proof -
  let ?exits = "current_exits (te_ssh te) h @ legacy_exits (te_ssh te) h"
  obtain r where r: "ssh_close_control_masters (te_ssh te) (te_machine te) h (ts_log s) =
      (ts_log s @ map argv_of ?exits, Inr r)" "r = Inr () \<longleftrightarrow> all_closed (te_machine te) (ts_log s) ?exits"
    using closing_reaches_every_master by blast
  then show ?thesis
    using assms
    by (intro exI [of _ "map argv_of ?exits"], cases r)
      (auto simp: forget_ssh_control_masters_def closing_def tbind_def tret_def)
qed

lemma drop_host_keeps:
  "cache_sound te s \<Longrightarrow> cache_sound te (drop_host hid s)" "one_per_forward s \<Longrightarrow> one_per_forward (drop_host hid s)"
  "hid \<noteq> i \<Longrightarrow> desires hid D s \<Longrightarrow> desires hid D (drop_host i s)"
  by (auto simp: cache_sound_def one_per_forward_def drop_host_def list_all_iff distinct_map desires_def
      set_desired_forwards intro: inj_on_subset)

lemma memory_kept:
  assumes "cache_sound te s" "one_per_forward s"
  shows "cache_sound te (perform te as_u128 op s)" "one_per_forward (perform te as_u128 op s)"
  using sound.performs [OF assms(1)] single.performs [OF assms(2)] by (simp_all add: drop_host_keeps)

lemma memory_of_run:
  "cache_sound te s \<Longrightarrow> one_per_forward s \<Longrightarrow>
     cache_sound te (fold (perform te as_u128) ops s) \<and> one_per_forward (fold (perform te as_u128) ops s)"
  by (induction ops arbitrary: s) (simp_all add: memory_kept)

text \<open>
  C11. Whatever ssh and the hosts answer, and in whatever order operations on any hosts follow each other:
  every remembered reverse tunnel was accepted by the interactive master of its host, which had just
  reported the very process generation that is remembered, and no forward is remembered for two
  generations. A cache hit therefore never stands for a master that has been replaced since.
\<close>

theorem armed_tunnels_are_backed:
  "list_all (armed_on te (ts_log (perform_all te as_u128 ops))) (ts_tunnels (perform_all te as_u128 ops)) \<and>
   distinct (map (\<lambda>k. (tk_host k, tk_listen k, tk_destination k)) (ts_tunnels (perform_all te as_u128 ops)))"
  using memory_of_run [of te "\<lparr>ts_log = [], ts_tunnels = [], ts_retired = []\<rparr>" as_u128 ops]
  by (simp add: cache_sound_def one_per_forward_def perform_all_def)

lemma desired_kept:
  assumes "\<not> discards hid op"
  shows "set (desired_forwards hid s) \<subseteq> set (desired_forwards hid (perform te as_u128 op s))"
proof -
  have "desires hid (set (desired_forwards hid s)) (perform te as_u128 op s)"
  proof (rule desired.performs)
    show "desires hid (set (desired_forwards hid s)) s" by (simp add: desires_def)
    fix i s'
    assume "desires hid (set (desired_forwards hid s)) s'" "discards i op"
    then show "desires hid (set (desired_forwards hid s)) (drop_host i s')"
      using assms by (cases "i = hid") (simp_all add: drop_host_keeps)
  qed
  then show ?thesis by (simp add: desires_def)
qed

lemma failed_forget_keeps:
  assumes "snd (forget_ssh_control_masters te h s) \<noteq> Inr ()"
  shows "ts_tunnels (fst (forget_ssh_control_masters te h s)) = ts_tunnels s"
proof (cases "is_local h")
  case True
  then show ?thesis by (simp add: forget_ssh_control_masters_def tfail_def)
next
  case False
  then obtain l where "forget_ssh_control_masters te h s =
      (s\<lparr>ts_log := ts_log s @ l\<rparr>, snd (forget_ssh_control_masters te h s))"
    using forget_result [of h te s] assms by auto
  then show ?thesis by (metis fst_conv tunnel_state.select_convs(2) tunnel_state.surjective tunnel_state.update_convs(1))
qed

text \<open>
  C12. The forwards an agent on a host depends on are never lost by failing: no operation but a successful
  teardown of that host (or the discarding after its row is gone) removes one from the list that the next
  warm-up restores, whatever master has died meanwhile, and a teardown that fails removes none.
\<close>

theorem desired_forwards_survive:
  assumes "list_all (\<lambda>op. \<not> discards hid op) ops"
  shows "set (desired_forwards hid s) \<subseteq> set (desired_forwards hid (fold (perform te as_u128) ops s)) \<and>
    (snd (forget_ssh_control_masters te h s) = Inr () \<or>
     desired_forwards hid (fst (forget_ssh_control_masters te h s)) = desired_forwards hid s)"
proof
  show "set (desired_forwards hid s) \<subseteq> set (desired_forwards hid (fold (perform te as_u128) ops s))"
    using assms
  proof (induction ops arbitrary: s)
    case (Cons op ops)
    then have "\<not> discards hid op" "list_all (\<lambda>op. \<not> discards hid op) ops" by simp_all
    then show ?case using desired_kept [of hid op s te as_u128] Cons.IH by (simp, meson order_trans)
  qed simp
  show "snd (forget_ssh_control_masters te h s) = Inr () \<or>
     desired_forwards hid (fst (forget_ssh_control_masters te h s)) = desired_forwards hid s"
    using failed_forget_keeps [of te h s]
    by (cases "snd (forget_ssh_control_masters te h s) = Inr ()") (simp_all add: desired_forwards_def)
qed

lemma arm_success:
  assumes "arm_reverse_tunnel te operation what h k s = (s', Inr ())"
  shows "k \<in> set (ts_tunnels s')"
proof (cases "k \<in> set (ts_tunnels s)")
  case True
  then show ?thesis using assms by (simp add: arm_reverse_tunnel_def tret_def)
next
  case False
  then show ?thesis
    using assms
    by (auto simp: arm_reverse_tunnel_def tun_defs bounded_command_output_def remember_armed_reverse_tunnel_def Let_def
        split: option.splits sum.splits if_splits)
qed

lemma arm_locked_success:
  assumes "cache_sound te s" "arm_locked te as_u128 h mac_port s = (s', Inr p)"
  shows "p = reverse_tunnel_host_port as_u128 (h_id h) \<and>
    (\<exists>g. checked_master te h g (ts_log s') \<and> tunnel_key_for h g p mac_port \<in> set (ts_tunnels s'))"
proof -
  let ?p = "reverse_tunnel_host_port as_u128 (h_id h)"
  obtain s1 g where g: "verified_control_master_generation te h s = (s1, Inr g)"
    using assms(2) by (auto simp: arm_locked_def tbind_def split: prod.splits sum.splits)
  let ?key = "tunnel_key_for h g ?p mac_port"
  have arm: "arm_reverse_tunnel te ''reverse-forward arm'' ''could not bind host loopback port '' h ?key s1 = (s', Inr ())"
    and p: "p = ?p"
    using assms(2) g by (auto simp: arm_locked_def tbind_def tret_def Let_def split: prod.splits sum.splits)
  have "cache_sound te s1"
    using maintainsD [OF sound.keeps_log_only [OF log_only_generation [of te h]] assms(1)] g by simp
  then have "checked_master te h g (ts_log s')"
    using sound.arm_checked [OF _ _ _ arm] generation_checked [OF g] by (simp add: tunnel_key_for_def)
  then show ?thesis using arm_success [OF arm] p by blast
qed

lemma port_range: "49152 \<le> unat (reverse_tunnel_host_port as_u128 hid)"
proof -
  let ?o = "as_u128 hid mod 16384"
  have "unat ?o < 16384" by (simp add: unat_mod)
  then have "unat (ucast ?o :: 16 word) < 16384"
    by (simp add: unsigned_ucast_eq take_bit_eq_mod)
  then have "unat (49152 :: 16 word) + unat (ucast ?o :: 16 word) < 2 ^ LENGTH(16)" by simp
  then have "unat (49152 + ucast ?o :: 16 word) = unat (49152 :: 16 word) + unat (ucast ?o :: 16 word)"
    by (rule unat_add_lem [THEN iffD1])
  then show ?thesis by (simp add: reverse_tunnel_host_port_def REMOTE_MCP_PORT_BASE_def)
qed

text \<open>
  A port that is handed to an agent is unprivileged, depends on the host alone (so it survives restarts
  of the daemon), and the master that was last seen to answer for the host has accepted the forward from it
  to the port the daemon listens on now.
\<close>

theorem returned_port_is_live:
  assumes "cache_sound te s" "ensure_reverse_tunnel te as_u128 h mac_port s = (s', Inr p)"
  shows "49152 \<le> unat p \<and> p = reverse_tunnel_host_port as_u128 (h_id h) \<and>
    (\<exists>g. checked_master te h g (ts_log s') \<and> armed_on te (ts_log s') (tunnel_key_for h g p mac_port))"
proof -
  obtain s1 where warm: "warm_ssh_master te h s = (s1, Inr ())" "arm_locked te as_u128 h mac_port s1 = (s', Inr p)"
    using assms(2) by (auto simp: ensure_reverse_tunnel_def tbind_def tfail_def split: if_splits prod.splits sum.splits)
  have s1: "cache_sound te s1" using maintainsD [OF sound.keeps_warm assms(1)] warm(1) by (metis fst_conv)
  have "cache_sound te s'" using maintainsD [OF sound.keeps_arm_locked s1] warm(2) by (metis fst_conv)
  then show ?thesis
    using arm_locked_success [OF s1 warm(2)] port_range [of as_u128 "h_id h"]
    by (auto simp: cache_sound_def list_all_iff)
qed

text \<open>Hosts that answer every command with success and name process 7 as the master.\<close>

definition willing_env :: tunnel_env where
  "willing_env =
     \<lparr>te_transport = sample_transport\<lparr>tp_machine := \<lparr>m_run = (\<lambda>tr c. Inr
        \<lparr>po_status = Some 0, po_stdout = [], po_stderr = ''Master running (pid=7)''\<rparr>),
        m_quote = (\<lambda>s. Some s), m_join = (\<lambda>ws. Some (concat ws))\<rparr>\<rparr>,
      te_expired = (\<lambda>log c. False), te_timed_out = (\<lambda>e. False), te_schedule = (\<lambda>log a. None), te_io_text = (\<lambda>e. [])\<rparr>"

lemma willing_reply: "command_reply willing_env log c =
    Inr \<lparr>po_status = Some 0, po_stdout = [], po_stderr = ''Master running (pid=7)''\<rparr>"
  by (simp add: command_reply_def willing_env_def)

lemma willing_ssh: "te_ssh willing_env = sample_env"
  by (simp add: willing_env_def sample_transport_def)

lemma willing_command:
  "bounded_command_output willing_env cmd s = (s\<lparr>ts_log := ts_log s @ [argv_of cmd]\<rparr>,
     Inr \<lparr>po_status = Some 0, po_stdout = [], po_stderr = ''Master running (pid=7)''\<rparr>)"
  by (simp add: bounded_command_output_def willing_reply)

lemma willing_path: "\<exists>p. control_path_for sample_env (sample_ssh_host pw) SshMux_Interactive = Some p"
proof -
  have "length (host_control_namespace sample_env (sample_ssh_host pw)) \<le> 16"
    by (simp add: host_control_namespace_def)
  moreover have "control_socket_dir sample_env = Some ''/home/me/.agentum/ssh''" by code_simp
  moreover have "se_private sample_env d" for d by (simp add: sample_env_def)
  ultimately show ?thesis
    by (simp add: control_path_template_for_def control_path_template_in_def Let_def path_join_def
        starts_with_def ends_with_def)
qed

lemma willing_commands:
  "\<exists>c. ssh_control_check_cmd sample_env (sample_ssh_host pw) SshMux_Interactive = Some c"
  "\<exists>c. ssh_control_forward_cmd sample_env (sample_ssh_host pw) a b = Some c"
proof -
  obtain p where "control_path_for sample_env (sample_ssh_host pw) SshMux_Interactive = Some p"
    using willing_path by blast
  then show "\<exists>c. ssh_control_check_cmd sample_env (sample_ssh_host pw) SshMux_Interactive = Some c"
    "\<exists>c. ssh_control_forward_cmd sample_env (sample_ssh_host pw) a b = Some c"
    by (simp_all add: ssh_control_check_cmd_def ssh_control_exit_cmd_def ssh_control_forward_cmd_def control_command_def
        sample_ssh_host_def ssh_existing_control_command_def opt_def starts_with_def)
qed

lemma willing_generation:
  "\<exists>s'. verified_control_master_generation willing_env (sample_ssh_host pw) s = (s', Inr ''pid:7'')"
proof -
  have "generation_of (sample_ssh_host pw) \<lparr>po_status = Some 0, po_stdout = [], po_stderr = ''Master running (pid=7)''\<rparr> =
      Inr ''pid:7''"
    by (simp add: generation_of_def po_success_def parse_control_master_generation_def nl_def is_ascii_digit_def)
  then show ?thesis
    using willing_commands(1) [of pw]
    by (auto simp: verified_control_master_generation_def willing_ssh tbind_def willing_command tlift_def)
qed

lemma willing_arm: "\<exists>s'. arm_reverse_tunnel willing_env op what (sample_ssh_host pw) k s = (s', Inr ())"
  using willing_commands(2) [of pw "tk_listen k" "tk_destination k"]
  by (auto simp: arm_reverse_tunnel_def tun_defs willing_ssh willing_command tunnel_arm_bound_def po_success_def Let_def)

lemma willing_rearm: "\<exists>s'. rearm_loop willing_env (sample_ssh_host pw) g ds s = (s', Inr ())"
proof (induction ds arbitrary: s)
  case (Cons d ds)
  obtain a b where "d = (a, b)" by (cases d)
  then show ?case
    using willing_arm [of "''reverse-forward rearm''" "''could not restore host loopback port ''" pw
        "tunnel_key_for (sample_ssh_host pw) g a b" s] Cons.IH
    by (auto simp: tbind_def)
qed (simp add: tret_def)

lemma willing_repair: "\<exists>s'. probe_or_repair_pooled_master_locked willing_env h mux s = (s', Inr ())"
  by (simp add: probe_or_repair_pooled_master_locked_def tbind_def ttry_def pooled_master_was_running_def
      probe_master_def willing_command classify_pooled_probe_def tret_def split: option.split)

lemma willing_retire: "\<exists>s'. retire_legacy_ssh_masters_once willing_env h s = (s', Inr ())"
proof -
  have "all_closed (te_machine willing_env) tr cs" for tr cs
    by (simp add: all_closed_def closed_at_def willing_env_def classify_control_exit_output_def po_success_def)
  then show ?thesis
    using close_all_run [of "te_machine willing_env" _ "ts_log s"]
    by (auto simp: retire_legacy_ssh_masters_once_def closing_def tbind_def tret_def ssh_retire_legacy_control_masters_def
        split: prod.split sum.split)
qed

lemma willing_tunnel:
  "\<exists>s' p. ensure_reverse_tunnel willing_env (\<lambda>u. 5) (sample_ssh_host pw) 8822 s = (s', Inr p)"
proof -
  let ?te = willing_env and ?h = "sample_ssh_host pw"
  have remote: "\<not> is_local ?h" by (simp add: is_local_def sample_ssh_host_def)
  obtain s1 where s1: "retire_legacy_ssh_masters_once ?te ?h s = (s1, Inr ())" using willing_retire by blast
  obtain s2 where s2: "probe_or_repair_pooled_master_locked ?te ?h SshMux_Interactive s1 = (s2, Inr ())"
    using willing_repair by blast
  obtain s3 where s3: "probe_or_repair_pooled_master_locked ?te ?h SshMux_Streaming s2 = (s3, Inr ())"
    using willing_repair by blast
  obtain s4 where s4: "probe_or_repair_pooled_master_locked ?te ?h SshMux_Observer s3 = (s4, Inr ())"
    using willing_repair by blast
  obtain s5 where s5: "verified_control_master_generation ?te ?h s4 = (s5, Inr ''pid:7'')"
    using willing_generation by blast
  obtain s6 where s6: "rearm_loop ?te ?h ''pid:7'' (desired_forwards (h_id ?h) s5) s5 = (s6, Inr ())"
    using willing_rearm by blast
  obtain s7 where s7: "verified_control_master_generation ?te ?h s6 = (s7, Inr ''pid:7'')"
    using willing_generation by blast
  let ?key = "tunnel_key_for ?h ''pid:7'' (reverse_tunnel_host_port (\<lambda>u. 5) (h_id ?h)) 8822"
  obtain s8 where s8: "arm_reverse_tunnel ?te ''reverse-forward arm'' ''could not bind host loopback port '' ?h ?key s7 = (s8, Inr ())"
    using willing_arm by blast
  have "warm_ssh_master ?te ?h s = (s6, Inr ())"
    using remote s1 s2 s3 s4 s5 s6
    by (simp add: warm_ssh_master_def warm_locked_def reconcile_desired_reverse_tunnels_locked_def tbind_def ttry_def tlift_def)
  then show ?thesis
    using remote s7 s8 by (simp add: ensure_reverse_tunnel_def arm_locked_def tbind_def tret_def Let_def)
qed

lemma returned_port_is_live_witness: "49152 \<le> unat (reverse_tunnel_host_port (\<lambda>u. 5) ''h1'')"
proof -
  let ?s = "\<lparr>ts_log = [], ts_tunnels = [], ts_retired = []\<rparr>"
  obtain s' p where run: "ensure_reverse_tunnel willing_env (\<lambda>u. 5) (sample_ssh_host []) 8822 ?s = (s', Inr p)"
    using willing_tunnel by blast
  have "cache_sound willing_env ?s" by (simp add: cache_sound_def)
  from returned_port_is_live [OF this run] show ?thesis by (auto simp: sample_ssh_host_def)
qed

lemma desired_forwards_survive_witness:
  "(1, 2) \<in> set (desired_forwards ''h1'' (fold (perform willing_env (\<lambda>u. 5)) [Op_Discard ''h2'', Op_Forget ((sample_ssh_host [])\<lparr>h_id := ''h3''\<rparr>)]
     \<lparr>ts_log = [], ts_tunnels = [\<lparr>tk_host = ''h1'', tk_generation = ''pid:7'', tk_listen = 1, tk_destination = 2\<rparr>],
      ts_retired = []\<rparr>))"
  using desired_forwards_survive [of "''h1''" "[Op_Discard ''h2'', Op_Forget ((sample_ssh_host [])\<lparr>h_id := ''h3''\<rparr>)]"
      "\<lparr>ts_log = [], ts_tunnels = [\<lparr>tk_host = ''h1'', tk_generation = ''pid:7'', tk_listen = 1, tk_destination = 2\<rparr>],
      ts_retired = []\<rparr>" willing_env "\<lambda>u. 5"]
  by (simp add: set_desired_forwards)

section \<open>Repair\<close>

definition check_commands :: "tunnel_env \<Rightarrow> host \<Rightarrow> ssh_mux \<Rightarrow> argv list" where
  "check_commands te h mux = (case ssh_control_check_cmd (te_ssh te) h mux of None \<Rightarrow> [] | Some c \<Rightarrow> [argv_of c])"

definition exit_commands :: "tunnel_env \<Rightarrow> host \<Rightarrow> ssh_mux \<Rightarrow> argv list" where
  "exit_commands te h mux = (case ssh_control_exit_cmd (te_ssh te) h mux of None \<Rightarrow> [] | Some c \<Rightarrow> [argv_of c])"

definition probe_command :: "tunnel_env \<Rightarrow> argv list \<Rightarrow> host \<Rightarrow> ssh_mux \<Rightarrow> argv" where
  "probe_command te log h mux = argv_of (ssh_command_opts te log h ''true'' mux)"

text \<open>What counts as evidence that a pooled master is unusable: a running one did not carry the probe in time, or it failed before a session.\<close>

definition seen_dead :: "tunnel_env \<Rightarrow> argv list \<Rightarrow> host \<Rightarrow> ssh_mux \<Rightarrow> bool" where
  "seen_dead te log h mux \<longleftrightarrow>
     (let before = log @ check_commands te h mux in
      case command_reply te before (probe_command te before h mux) of
        Inl e \<Rightarrow> e = RuntimeError_Timeout \<and> list_ex (\<lambda>c. case command_reply te log c of Inr out \<Rightarrow> po_success out | Inl _ \<Rightarrow> True) (check_commands te h mux)
      | Inr out \<Rightarrow> po_status out = Some 255 \<and> po_stdout out = [] \<and> valid_utf8 (po_stderr out) \<and>
          is_mux_transport_error (po_stderr out))"

lemma was_running_run:
  "pooled_master_was_running te h mux s =
     (s\<lparr>ts_log := ts_log s @ check_commands te h mux\<rparr>,
      Inr (list_ex (\<lambda>c. case command_reply te (ts_log s) c of Inr out \<Rightarrow> po_success out | Inl _ \<Rightarrow> True) (check_commands te h mux)))"
  by (auto simp: pooled_master_was_running_def check_commands_def tun_defs bounded_command_output_def
      split: option.split sum.split)

lemma probe_run:
  "probe_master te h mux s =
     (s\<lparr>ts_log := ts_log s @ [probe_command te (ts_log s) h mux]\<rparr>, command_reply te (ts_log s) (probe_command te (ts_log s) h mux))"
  by (simp add: probe_master_def bounded_command_output_def probe_command_def)

lemma evict_run:
  "evict_ssh_master_locked te h mux s = (s\<lparr>ts_log := ts_log s @ exit_commands te h mux\<rparr>, Inr ())"
  by (simp add: evict_ssh_master_locked_def exit_commands_def tun_defs bounded_command_output_def split: option.split)

lemma evict_and_open_run:
  "fst (evict_and_open te h mux s) =
     s\<lparr>ts_log := ts_log s @ exit_commands te h mux @ [probe_command te (ts_log s @ exit_commands te h mux) h mux]\<rparr>"
  by (auto simp: evict_and_open_def open_pooled_master_locked_def tbind_def evict_run probe_run tret_def tfail_def
      split: sum.split)

text \<open>
  Repairing one role of a host starts at most four processes, all for that role: a check, a probe and, only
  when the probe showed the master to be unusable, an exit followed by one more probe. A busy or healthy
  master is never closed, and a host that does not answer is never tried twice.
\<close>

theorem masters_are_replaced_only_when_dead:
  "ts_log (fst (probe_or_repair_pooled_master_locked te h mux s)) =
     (let before = ts_log s @ check_commands te h mux;
          probed = before @ [probe_command te before h mux];
          closed = probed @ exit_commands te h mux
      in if seen_dead te (ts_log s) h mux then closed @ [probe_command te closed h mux] else probed)"
proof -
  let ?before = "ts_log s @ check_commands te h mux"
  let ?r = "command_reply te ?before (probe_command te ?before h mux)"
  show ?thesis
  proof (cases ?r)
    case (Inl e)
    then show ?thesis
      by (simp add: probe_or_repair_pooled_master_locked_def tbind_def ttry_def was_running_run probe_run
          seen_dead_def Let_def evict_and_open_run tfail_def)
  next
    case (Inr out)
    then show ?thesis
      by (simp add: probe_or_repair_pooled_master_locked_def tbind_def ttry_def was_running_run probe_run
          seen_dead_def Let_def evict_and_open_run tfail_def tret_def classify_pooled_probe_def)
  qed
qed

end
