(* ===== verification/Host_Launch.thy ===== *)
theory Host_Launch
  imports Host_Tunnels Executor
begin

text \<open>
  \<open>crates/agentum-server/src/host_runtime.rs\<close>, the launch of a session on an SSH host: what is asked of the
  host before, the transaction with its private environment, the records it answers with and what is kept
  of its diagnostics. Base64 and the fresh name of an attempt are parameters; what happens between a
  process that is fed through its standard input and its end is a value of \<open>feed_outcome\<close>.
\<close>

section \<open>Quoting and records\<close>

datatype feed_outcome =
    Feed_SpawnError io_error
  | Feed_WaitError io_error
  | Feed_TimedOut "string list"
  | Feed_Exited "int option" "io_error option" "io_error + string" "io_error + string"

record runtime =
  rt_env :: tunnel_env
  rt_base64 :: "string \<Rightarrow> string option"
  rt_attempt :: "argv list \<Rightarrow> string"
  rt_feed :: "argv list \<Rightarrow> argv \<Rightarrow> string \<Rightarrow> feed_outcome"

abbreviation rt_machine :: "runtime \<Rightarrow> machine" where
  "rt_machine rt \<equiv> te_machine (rt_env rt)"

abbreviation sq :: string where "sq \<equiv> [CHR 39]"

abbreviation bsl :: string where "bsl \<equiv> [CHR 92]"

definition q :: "runtime \<Rightarrow> string \<Rightarrow> runtime_error + string" where
  "q rt s = (case m_quote (rt_machine rt) s of None \<Rightarrow> Inl RuntimeError_Quote | Some x \<Rightarrow> Inr x)"

definition sh_c :: "runtime \<Rightarrow> string \<Rightarrow> runtime_error + string" where
  "sh_c rt inner = and_then (q rt inner) (\<lambda>quoted. Inr (''sh -c '' @ quoted))"

definition decode_protocol_field :: "runtime \<Rightarrow> string \<Rightarrow> string option" where
  "decode_protocol_field rt value =
     Option.bind (rt_base64 rt (trim value)) (\<lambda>bytes. if valid_utf8 bytes then Some bytes else None)"

definition ssh_answer :: "runtime \<Rightarrow> (io_error \<Rightarrow> runtime_error) \<Rightarrow> host \<Rightarrow> string \<Rightarrow> ssh_mux \<Rightarrow> proc_output tun" where
  "ssh_answer rt f h scr mux s =
     (case ssh_output_on (te_transport (rt_env rt)) h scr mux (ts_log s) of (log, r) \<Rightarrow>
        (s\<lparr>ts_log := log\<rparr>,
         case r of Inl e \<Rightarrow> Inl (RuntimeError_Tmux e) | Inr (Inl e) \<Rightarrow> Inl (f e) | Inr (Inr out) \<Rightarrow> Inr out))"

definition non_zero :: "proc_output \<Rightarrow> runtime_error" where
  "non_zero out = RuntimeError_NonZero (po_status out) (trim (utf8_lossy (po_stderr out)))"

definition utf8_text :: "string \<Rightarrow> runtime_error + string" where
  "utf8_text s = (if valid_utf8 s then Inr s else Inl RuntimeError_NotUtf8)"

definition runtime_ssh_stdout :: "runtime \<Rightarrow> host \<Rightarrow> string \<Rightarrow> string tun" where
  "runtime_ssh_stdout rt h scr =
     tbind (ssh_answer rt (map_ssh_io (rt_env rt)) h scr SshMux_Interactive) (\<lambda>out.
       tlift (if po_success out then utf8_text (po_stdout out) else Inl (non_zero out)))"

definition runtime_ssh_checked :: "runtime \<Rightarrow> host \<Rightarrow> string \<Rightarrow> unit tun" where
  "runtime_ssh_checked rt h scr =
     tbind (ssh_answer rt (map_ssh_io (rt_env rt)) h scr SshMux_Interactive) (\<lambda>out.
       tlift (if po_success out then Inr () else Inl (non_zero out)))"

section \<open>Preflight\<close>

definition remote_home_script :: "runtime \<Rightarrow> runtime_error + string" where
  "remote_home_script rt = sh_c rt (
     ''printf '' @ sq @ ''AGENTUM_HOME'' @ bsl @ ''t'' @ sq @ ''; printf %s \"$HOME\" | base64 | tr -d '' @
     sq @ bsl @ ''r'' @ bsl @ ''n'' @ sq @ ''; printf '' @ sq @ bsl @ ''n'' @ sq)"

definition parse_remote_home :: "runtime \<Rightarrow> string \<Rightarrow> string option" where
  "parse_remote_home rt stdout =
     Option.bind (first_some (strip_prefix (''AGENTUM_HOME'' @ tab)) (rev (str_lines stdout))) (\<lambda>encoded.
     Option.bind (decode_protocol_field rt encoded) (\<lambda>home.
       if starts_with ''/'' home then Some home else None))"

definition resolve_remote_workdir :: "string \<Rightarrow> string \<Rightarrow> string" where
  "resolve_remote_workdir home requested =
     (if requested = ''~'' then home
      else case strip_prefix ''~/'' requested of
             Some rest \<Rightarrow> path_join home rest
           | None \<Rightarrow> if is_absolute requested then requested else path_join home requested)"

definition preflight_validation_script :: "runtime \<Rightarrow> string \<Rightarrow> string \<Rightarrow> uuid \<Rightarrow> runtime_error + string" where
  "preflight_validation_script rt workdir tool session_id =
     (let binary_name = (if tool = ''terminal'' then [] else binary_for tool);
          error_text = ''selected executable `'' @ binary_name @ ''` is not installed or executable on the remote PATH'';
          terminal = (if tool = ''terminal'' then ''1'' else ''0'')
      in and_then (q rt workdir) (\<lambda>wd. and_then (q rt binary_name) (\<lambda>binary. and_then (q rt error_text) (\<lambda>binary_error.
           sh_c rt (
     ''encode() { printf %s \"$1\" | base64 | tr -d '' @ sq @ bsl @ ''r'' @ bsl @ ''n'' @ sq @ ''; };'' @
     nl @ ''fail() { printf '' @ sq @ ''AGENTUM_PREFLIGHT_ERROR'' @ bsl @ ''t%s'' @ bsl @ ''t%s'' @ bsl @
     ''n'' @ sq @ '' \"$1\" \"$(encode \"$2\")\"; exit 64; };'' @ nl @
     ''resolve_bin() { c=$1; case \"$c\" in /*|*/*) p=$c;; *) p=$(command -v \"$c\"'' @
     '' 2>/dev/null) || return 1;; esac; [ -f \"$p\" ] && [ -x \"$p\" ] || return 1; case'' @
     '' \"$p\" in /*) ;; *) d=$(dirname \"$p\") || return 1; b=$(basename \"$p\") || return 1;'' @
     '' d=$(CDPATH= cd -P \"$d\" 2>/dev/null && pwd) || return 1; p=$d/$b;; esac; printf %s'' @
     '' \"$p\"; };'' @ nl @ ''wd='' @ wd @ '';'' @ nl @
     ''[ -d \"$wd\" ] || fail workdir \"$wd does not exist or is not a directory\";'' @ nl @
     ''[ -x \"$wd\" ] || fail workdir \"$wd is not accessible by the SSH user\";'' @ nl @
     ''wd=$(CDPATH= cd -P \"$wd\" 2>/dev/null && pwd) || fail workdir \"$wd could not be'' @
     '' resolved\";'' @ nl @
     ''tmux_bin=$(resolve_bin tmux) || fail tmux \"tmux is not installed or executable\";'' @ nl @
     ''commands=$(\"$tmux_bin\" list-commands 2>/dev/null) || fail tmux \"tmux could not'' @
     '' report its supported commands\";'' @ nl @
     ''for c in new-session list-sessions respawn-pane pipe-pane set-option capture-pane'' @
     '' display-message kill-session; do case \"$commands\" in *\"$c \"*) ;; *) fail tmux'' @
     '' \"tmux is incompatible: required command $c is unavailable\";; esac; done;'' @ nl @
     ''remote_shell=$(resolve_bin \"${SHELL:-/bin/sh}\" 2>/dev/null) ||'' @
     '' remote_shell=$(resolve_bin /bin/sh 2>/dev/null) || fail shell \"neither the remote'' @
     '' login shell nor /bin/sh is executable\";'' @ nl @ ''if [ '' @ terminal @
     '' -eq 1 ]; then selected=$remote_shell; else selected=$(resolve_bin '' @ binary @
     '') || fail binary '' @ binary_error @ ''; fi;'' @ nl @ ''encoded=$(printf %s \"$wd\" | tr '' @ sq @
     ''/'' @ sq @ '' '' @ sq @ ''-'' @ sq @ ''); transcript=0; [ -f \"$HOME/.claude/projects/$encoded/'' @
     session_id @ ''.jsonl\" ] && transcript=1;'' @ nl @ ''printf '' @ sq @ ''AGENTUM_PREFLIGHT_OK'' @ bsl @
     ''t%s'' @ bsl @ ''t%s'' @ bsl @ ''t%s'' @ bsl @ ''t%s'' @ bsl @ ''t%s'' @ bsl @ ''n'' @ sq @
     '' \"$(encode \"$wd\")\" \"$(encode \"$selected\")\" \"$(encode \"$remote_shell\")\"'' @
     '' \"$(encode \"${PATH-}\")\" \"$transcript\"'')))))"

fun preflight_stage :: "string option \<Rightarrow> string" where
  "preflight_stage None = ''launch''"
| "preflight_stage (Some stage) =
     (if stage \<in> {''home'', ''workdir'', ''tmux'', ''shell'', ''binary''} then stage else ''launch'')"

definition preflight_refusal :: "runtime \<Rightarrow> string \<Rightarrow> runtime_error" where
  "preflight_refusal rt rest =
     (case split_once (CHR 0x09) rest of
        None \<Rightarrow> RuntimeError_RemotePrerequisite (preflight_stage (Some rest)) ''remote prerequisite check failed''
      | Some (stage, message) \<Rightarrow>
          RuntimeError_RemotePrerequisite (preflight_stage (Some stage))
            (case decode_protocol_field rt message of Some m \<Rightarrow> m | None \<Rightarrow> ''remote prerequisite check failed''))"

definition preflight_field :: "runtime \<Rightarrow> host \<Rightarrow> string \<Rightarrow> string list \<Rightarrow> nat \<Rightarrow> runtime_error + string" where
  "preflight_field rt h what parts n =
     ok_or (RuntimeError_SshStage ''launch preflight'' (h_name h) (''remote '' @ what @ '' response was invalid''))
       (if n < length parts then decode_protocol_field rt (parts ! n) else None)"

definition preflight_result :: "runtime \<Rightarrow> host \<Rightarrow> string \<Rightarrow> proc_output \<Rightarrow> runtime_error + launch_preflight" where
  "preflight_result rt h home out =
     (let lines = rev (str_lines (utf8_lossy (po_stdout out))) in
      case first_some (strip_prefix (''AGENTUM_PREFLIGHT_ERROR'' @ tab)) lines of
        Some rest \<Rightarrow> Inl (preflight_refusal rt rest)
      | None \<Rightarrow>
          if \<not> po_success out
          then Inl (ssh_stage_error h ''launch preflight'' (po_status out) (utf8_lossy (po_stderr out)))
          else case first_some (strip_prefix (''AGENTUM_PREFLIGHT_OK'' @ tab)) lines of
            None \<Rightarrow> Inl (RuntimeError_SshStage ''launch preflight'' (h_name h) ''remote preflight returned an invalid response'')
          | Some rest \<Rightarrow>
              let parts = split_on (CHR 0x09) rest in
              and_then (preflight_field rt h ''workdir'' parts 0) (\<lambda>workdir.
              and_then (preflight_field rt h ''executable'' parts 1) (\<lambda>executable.
              and_then (preflight_field rt h ''shell'' parts 2) (\<lambda>shell.
              and_then (preflight_field rt h ''PATH'' parts 3) (\<lambda>fresh_path.
                Inr \<lparr>pf_home = home, pf_workdir = workdir, pf_executable = executable, pf_shell = shell,
                     pf_fresh_path = fresh_path,
                     pf_claude_transcript_exists = (4 < length parts \<and> parts ! 4 = ''1'')\<rparr>)))))"

definition remote_home_for_launch :: "runtime \<Rightarrow> host \<Rightarrow> string tun" where
  "remote_home_for_launch rt h =
     tbind (tlift (remote_home_script rt)) (\<lambda>scr.
     tbind (ssh_answer rt (ssh_stage_io (rt_env rt) h ''home resolution'') h scr SshMux_Interactive) (\<lambda>out.
       tlift (if \<not> po_success out
              then Inl (ssh_stage_error h ''home resolution'' (po_status out) (utf8_lossy (po_stderr out)))
              else and_then (utf8_text (po_stdout out)) (\<lambda>stdout.
                ok_or (RuntimeError_RemotePrerequisite ''home'' ''remote $HOME did not return a valid absolute path'')
                  (parse_remote_home rt stdout)))))"

definition preflight_remote_launch :: "runtime \<Rightarrow> host \<Rightarrow> string \<Rightarrow> string \<Rightarrow> uuid \<Rightarrow> launch_preflight tun" where
  "preflight_remote_launch rt h requested_workdir tool session_id =
     (if is_local h then tfail RuntimeError_Unsupported
      else tbind (remote_home_for_launch rt h) (\<lambda>home.
           tbind (tlift (preflight_validation_script rt (resolve_remote_workdir home requested_workdir) tool session_id)) (\<lambda>scr.
           tbind (ssh_answer rt (ssh_stage_io (rt_env rt) h ''launch preflight'') h scr SshMux_Interactive) (\<lambda>out.
             tlift (preflight_result rt h home out)))))"

section \<open>Fragments of the scripts\<close>

definition REMOTE_RUNTIME_DIR :: string where
  "REMOTE_RUNTIME_DIR = ''$HOME/.agentum/runtime''"

definition REMOTE_PANE_DIR :: string where
  "REMOTE_PANE_DIR = ''$HOME/.agentum/panes''"

definition remote_private_dir_setup :: "string \<Rightarrow> string" where
  "remote_private_dir_setup dir =
     ''{ b=\"$HOME/.agentum\"; d=\"'' @ dir @
     ''\"; [ ! -L \"$b\" ] && mkdir -p \"$b\" && [ -d \"$b\" ] && [ ! -L \"$b\" ] && chmod 700'' @
     '' \"$b\" && [ ! -L \"$d\" ] && { mkdir \"$d\" 2>/dev/null || [ -d \"$d\" ]; } && [ -d'' @
     '' \"$d\" ] && [ ! -L \"$d\" ] && chmod 700 \"$d\"; }''"

definition remote_regular_single_link_guard :: "string \<Rightarrow> string" where
  "remote_regular_single_link_guard path =
     ''[ -f '' @ path @ '' ] && [ ! -L '' @ path @ '' ] && links=$(stat -c %h '' @ path @
     '' 2>/dev/null || stat -f %l '' @ path @ '' 2>/dev/null) && [ \"$links\" = 1 ]''"

definition safe_leaf_char :: "char \<Rightarrow> bool" where
  "safe_leaf_char c \<longleftrightarrow> is_ascii_alphanumeric c \<or> c \<in> {CHR ''.'', CHR ''_'', CHR ''-''}"

definition safe_remote_leaf :: "string \<Rightarrow> runtime_error + string" where
  "safe_remote_leaf out_path =
     (case path_file_name out_path of
        None \<Rightarrow> Inl RuntimeError_Quote
      | Some name \<Rightarrow> if name = [] \<or> \<not> list_all safe_leaf_char name then Inl RuntimeError_Quote else Inr name)"

definition remote_exact_tmux_session_resolution :: "runtime \<Rightarrow> string \<Rightarrow> runtime_error + string" where
  "remote_exact_tmux_session_resolution rt target =
     and_then
       (if numbered target then Inr ''session_id''
        else if starts_with ''$'' target
        then Inl (RuntimeError_RemotePrerequisite ''tmux target'' (''malformed tmux session id `'' @ target @ ''`''))
        else Inr ''session_name'')
       (\<lambda>compare. and_then (q rt target) (\<lambda>wanted. and_then (q rt SESSION_LIST_FORMAT) (\<lambda>fmt. Inr (
     ''wanted='' @ wanted @ ''; sessions=$(tmux list-sessions -F '' @ fmt @
     ''); list_rc=$?; sid=; if [ \"$list_rc\" -eq 0 ]; then sid=$(printf '' @ sq @ ''%s'' @ bsl @ ''n'' @
     sq @ '' \"$sessions\" | while IFS=_ read -r session_id session_name; do if [ \"$'' @ compare @
     ''\" = \"$wanted\" ]; then printf '' @ sq @ ''%s'' @ bsl @ ''n'' @ sq @
     '' \"$session_id\"; break; fi; done); fi''))))"

definition remote_exact_tmux_script :: "runtime \<Rightarrow> string \<Rightarrow> string \<Rightarrow> runtime_error + string" where
  "remote_exact_tmux_script rt target operation =
     and_then (remote_exact_tmux_session_resolution rt target) (\<lambda>resolve. sh_c rt (
     resolve @ ''; if [ \"$list_rc\" -ne 0 ] && [ \"$list_rc\" -ne 1 ]; then exit \"$list_rc\"; fi; if ['' @
     '' -z \"$sid\" ]; then printf \"can'' @ sq @ ''t find session: %s'' @ bsl @
     ''n\" \"$wanted\" >&2; exit 1; fi; '' @ operation))"

definition remote_exact_tmux_probe_script :: "runtime \<Rightarrow> string \<Rightarrow> runtime_error + string" where
  "remote_exact_tmux_probe_script rt target =
     and_then (remote_exact_tmux_session_resolution rt target) (\<lambda>resolve. sh_c rt (
     resolve @ ''; if [ \"$list_rc\" -ne 0 ] && [ \"$list_rc\" -ne 1 ]; then exit \"$list_rc\"; fi; if ['' @
     '' -n \"$sid\" ]; then printf '' @ sq @ ''AGENTUM_TMUX_EXACT'' @ bsl @ ''t%s'' @ bsl @ ''n'' @ sq @
     '' \"$sid\"; else printf '' @ sq @ ''AGENTUM_TMUX_MISSING'' @ bsl @ ''n'' @ sq @ ''; fi''))"

definition remote_pane_log_expr :: "string \<Rightarrow> runtime_error + string" where
  "remote_pane_log_expr out_path =
     and_then (safe_remote_leaf out_path) (\<lambda>name. Inr (''\"'' @ REMOTE_PANE_DIR @ ''/'' @ name @ ''\"''))"

definition remote_private_pane_log_setup :: "string \<Rightarrow> string" where
  "remote_private_pane_log_setup log =
     (let dir_setup = remote_private_dir_setup REMOTE_PANE_DIR; guard = remote_regular_single_link_guard log in
     ''{ '' @ dir_setup @ '' && if [ -L '' @ log @ '' ]; then false; elif [ -e '' @ log @ '' ]; then '' @
     guard @ ''; else (set -C; umask 077; : > '' @ log @ ''); fi && '' @ guard @ '' && chmod 600 '' @ log @
     '' && '' @ guard @ ''; }'')"

section \<open>The environment of a launch\<close>

definition valid_env_key :: "string \<Rightarrow> bool" where
  "valid_env_key key =
     (case key of
        [] \<Rightarrow> False
      | c # cs \<Rightarrow> (is_ascii_upper c \<or> is_ascii_lower c \<or> c = CHR ''_'') \<and>
                 list_all (\<lambda>b. is_ascii_alphanumeric b \<or> b = CHR ''_'') cs)"

fun serialize_launch_env :: "runtime \<Rightarrow> (string \<times> string) list \<Rightarrow> runtime_error + string" where
  "serialize_launch_env rt [] = Inr []"
| "serialize_launch_env rt ((key, value) # env) =
     (if \<not> valid_env_key key \<or> CHR 0x00 \<in> set value
      then Inl (RuntimeError_RemotePrerequisite ''environment'' (''invalid launch environment entry `'' @ key @ ''`''))
      else and_then (q rt value) (\<lambda>quoted.
           and_then (serialize_launch_env rt env) (\<lambda>rest. Inr (''export '' @ key @ ''='' @ quoted @ nl @ rest))))"

section \<open>Diagnostics without secrets\<close>

text \<open>\<open>str::replace\<close>, and the filter of control characters on the bytes of a string.\<close>

lemma strip_prefix_shorter: "pat \<noteq> [] \<Longrightarrow> strip_prefix pat s = Some rest \<Longrightarrow> length rest < length s"
  by (auto simp: strip_prefix_Some)

function replace_all :: "string \<Rightarrow> string \<Rightarrow> string \<Rightarrow> string" where
  "replace_all pat new [] = []"
| "replace_all pat new (c # cs) =
     (case (if pat = [] then None else strip_prefix pat (c # cs)) of
        Some rest \<Rightarrow> new @ replace_all pat new rest
      | None \<Rightarrow> c # replace_all pat new cs)"
  by pat_completeness auto
termination
  by (relation "measure (\<lambda>(pat, new, s). length s)") (auto dest: strip_prefix_shorter split: if_splits)

definition control_byte :: "char \<Rightarrow> bool" where
  "control_byte c \<longleftrightarrow> (of_char c < (32 :: nat) \<or> c = CHR 0x7F) \<and> c \<noteq> CHR 0x0A \<and> c \<noteq> CHR 0x09"

definition c1_control :: "char \<Rightarrow> string \<Rightarrow> bool" where
  "c1_control c cs \<longleftrightarrow>
     c = CHR 0xC2 \<and> (case cs of d # _ \<Rightarrow> 0x80 \<le> (of_char d :: nat) \<and> of_char d \<le> (0x9F :: nat) | [] \<Rightarrow> False)"

fun strip_controls :: "string \<Rightarrow> string" where
  "strip_controls [] = []"
| "strip_controls (c # cs) =
     (if control_byte c then strip_controls cs
      else if c1_control c cs then strip_controls (tl cs)
      else c # strip_controls cs)"

definition REDACTED :: string where "REDACTED = ''[REDACTED]''"

text \<open>Longest first; values of one length come in some order, here in that of the environment.\<close>

definition secret_values :: "(string \<times> string) list \<Rightarrow> string list \<Rightarrow> string list" where
  "secret_values env explicit_secrets =
     remdups_adj (sort_key (\<lambda>v. - int (length v)) (filter (\<lambda>v. v \<noteq> []) (map snd env @ explicit_secrets)))"

definition redact_values :: "string list \<Rightarrow> string \<Rightarrow> string" where
  "redact_values values text = fold (\<lambda>v t. replace_all v REDACTED t) values text"

definition redact_startup_output :: "string \<Rightarrow> (string \<times> string) list \<Rightarrow> string list \<Rightarrow> string" where
  "redact_startup_output captured env explicit_secrets =
     bounded_text (trim (strip_controls (redact_values (secret_values env explicit_secrets) captured)))
       STARTUP_DIAGNOSTIC_BYTES"

section \<open>The transaction\<close>

definition launch_pipe :: "runtime \<Rightarrow> string \<Rightarrow> runtime_error + string" where
  "launch_pipe rt log =
     and_then (q rt (escape_percent (''umask 077; '' @ remote_regular_single_link_guard log @
                '' || exit 73; cat >> '' @ log)))
       (\<lambda>quoted. Inr (''exec sh -c '' @ quoted))"

definition launch_wrapper :: "runtime \<Rightarrow> string \<Rightarrow> string \<Rightarrow> runtime_error + string" where
  "launch_wrapper rt env_file command_line =
     and_then (q rt (
     ''f='' @ env_file @ ''; . \"$f\"; rc=$?; rm -f \"$f\"; [ \"$rc\" -eq 0 ] || exit \"$rc\"; exec '' @
     command_line))
       (\<lambda>quoted. Inr (''exec sh -c '' @ quoted))"

definition launch_inner ::
    "string \<Rightarrow> string \<Rightarrow> string \<Rightarrow> string \<Rightarrow> string \<Rightarrow> string \<Rightarrow> string \<Rightarrow> string \<Rightarrow> string" where
  "launch_inner target workdir dormant pipe wrapper resolve env_file log =
     (let runtime_setup = remote_private_dir_setup REMOTE_RUNTIME_DIR;
          pane_setup = remote_private_pane_log_setup log;
          env_guard = remote_regular_single_link_guard env_file;
          cols = string_of_nat DEFAULT_PANE_COLS; rows = string_of_nat DEFAULT_PANE_ROWS in
     ''umask 077; created=0; committed=0; created_sid=; sid=; cleanup() { rc=$?; trap - EXIT'' @
     '' HUP INT TERM; rm -f '' @ env_file @
     ''; if [ \"$created\" -eq 1 ] && [ \"$committed\" -ne 1 ] && [ -n \"$created_sid\" ];'' @
     '' then tmux kill-session -t \"$created_sid\" >/dev/null 2>&1 || true; fi; exit \"$rc\";'' @
     '' }; trap cleanup EXIT HUP INT TERM; if ! '' @ runtime_setup @ ''; then printf '' @ sq @
     ''AGENTUM_SETUP_ERROR'' @ bsl @ ''tprivate-directories'' @ bsl @ ''n'' @ sq @
     ''; exit 70; fi; if [ -e '' @ env_file @ '' ] || [ -L '' @ env_file @
     '' ] || ! (set -C; umask 077; : > '' @ env_file @ '') || ! { '' @ env_guard @ ''; } || ! cat > '' @
     env_file @ '' || ! chmod 600 '' @ env_file @ '' || ! { '' @ env_guard @ ''; }; then printf '' @ sq @
     ''AGENTUM_SETUP_ERROR'' @ bsl @ ''tenvironment-staging'' @ bsl @ ''n'' @ sq @ ''; exit 70; fi; if ! '' @
     pane_setup @ ''; then printf '' @ sq @ ''AGENTUM_SETUP_ERROR'' @ bsl @ ''tpane-log'' @ bsl @ ''n'' @
     sq @ ''; exit 70; fi; if ! created_sid=$(tmux new-session -d -P -F '' @ sq @ ''#{session_id}'' @ sq @
     '' -s '' @ target @ '' -x '' @ cols @ '' -y '' @ rows @ '' -c '' @ workdir @ '' '' @ dormant @
     ''); then printf '' @ sq @ ''AGENTUM_SETUP_ERROR'' @ bsl @ ''tnew-session'' @ bsl @ ''n'' @ sq @
     ''; exit 70; fi; created=1; '' @ resolve @
     ''; if [ \"$list_rc\" -ne 0 ] || [ -z \"$sid\" ] || [ \"$sid\" != \"$created_sid\" ];'' @
     '' then printf '' @ sq @ ''AGENTUM_SETUP_ERROR'' @ bsl @ ''texact-session-resolution'' @ bsl @ ''n'' @
     sq @ ''; exit 70; fi; if ! tmux set-option -p -t \"$sid\" remain-on-exit on; then printf '' @ sq @
     ''AGENTUM_SETUP_ERROR'' @ bsl @ ''tremain-on-exit'' @ bsl @ ''n'' @ sq @
     ''; exit 70; fi; if ! tmux pipe-pane -t \"$sid\" '' @ pipe @ ''; then printf '' @ sq @
     ''AGENTUM_SETUP_ERROR'' @ bsl @ ''tpipe-pane'' @ bsl @ ''n'' @ sq @
     ''; exit 70; fi; if ! tmux respawn-pane -k -t \"$sid\" -c '' @ workdir @ '' '' @ wrapper @
     ''; then printf '' @ sq @ ''AGENTUM_SETUP_ERROR'' @ bsl @ ''trespawn-pane'' @ bsl @ ''n'' @ sq @
     ''; exit 70; fi; sleep 1; state=$(tmux display-message -p -t \"$sid\" '' @ sq @ ''#{pane_dead}'' @ tab @
     ''#{pane_dead_status}'' @ sq @ '' 2>/dev/null) || { printf '' @ sq @ ''AGENTUM_SETUP_ERROR'' @ bsl @
     ''tstartup-inspection'' @ bsl @ ''n'' @ sq @ ''; exit 70; }; dead=${state%%'' @ tab @
     ''*}; status=${state#*'' @ tab @
     ''}; if [ \"$dead\" = 1 ]; then diagnostic=$(tmux capture-pane -p -S -200 -t \"$sid\"'' @
     '' 2>/dev/null | tail -c 16384 | base64 | tr -d '' @ sq @ bsl @ ''r'' @ bsl @ ''n'' @ sq @
     ''); printf '' @ sq @ ''AGENTUM_EARLY_EXIT'' @ bsl @ ''t%s'' @ bsl @ ''t%s'' @ bsl @ ''n'' @ sq @
     '' \"$status\" \"$diagnostic\"; exit 71; fi; if ! tmux set-option -p -t \"$sid\"'' @
     '' remain-on-exit off; then printf '' @ sq @ ''AGENTUM_SETUP_ERROR'' @ bsl @
     ''tdisable-remain-on-exit'' @ bsl @ ''n'' @ sq @ ''; exit 70; fi; rm -f '' @ env_file @
     ''; committed=1; printf '' @ sq @ ''AGENTUM_LAUNCH_OK'' @ bsl @ ''n'' @ sq)"

definition absolute_or :: "string \<Rightarrow> string \<Rightarrow> string \<Rightarrow> runtime_error + unit" where
  "absolute_or stage what path =
     (if is_absolute path then Inr ()
      else Inl (RuntimeError_RemotePrerequisite stage
        (''remote '' @ what @ '' `'' @ path @ ''` was not resolved to an absolute path'')))"

definition remote_launch_script :: "runtime \<Rightarrow> string \<Rightarrow> string \<Rightarrow> string \<Rightarrow> string list \<Rightarrow> string \<Rightarrow> runtime_error + string" where
  "remote_launch_script rt attempt target workdir argv out_path =
     (case argv of
        [] \<Rightarrow> Inl (RuntimeError_RemotePrerequisite ''binary'' ''launch argv is empty'')
      | program # _ \<Rightarrow>
          and_then (absolute_or ''binary'' ''executable'' program) (\<lambda>_.
          and_then (absolute_or ''workdir'' ''workdir'' workdir) (\<lambda>_.
          and_then (safe_remote_leaf out_path) (\<lambda>leaf.
          and_then (remote_pane_log_expr out_path) (\<lambda>log.
          and_then (remote_exact_tmux_session_resolution rt target) (\<lambda>resolve.
          let env_file = ''\"'' @ REMOTE_RUNTIME_DIR @ ''/'' @ leaf @ ''-'' @ attempt @ ''.env\"'' in
          and_then (ok_or RuntimeError_Quote (m_join (rt_machine rt) argv)) (\<lambda>command_line.
          and_then (launch_wrapper rt env_file command_line) (\<lambda>wrapper.
          and_then (launch_pipe rt log) (\<lambda>pipe.
          and_then (q rt target) (\<lambda>target_q.
          and_then (q rt workdir) (\<lambda>workdir_q.
          and_then (q rt (''exec sh -c '' @ squoted ''while :; do sleep 3600; done'')) (\<lambda>dormant.
          and_then (q rt pipe) (\<lambda>pipe_q.
          and_then (q rt wrapper) (\<lambda>wrapper_q.
            sh_c rt (launch_inner target_q workdir_q dormant pipe_q wrapper_q resolve env_file log)))))))))))))))"

datatype launch_protocol =
    Launch_Ok
  | Launch_Setup string
  | Launch_EarlyExit "int option" string
  | Launch_Invalid

definition setup_stages :: "(string \<times> string) list" where
  "setup_stages =
     [(''private-directories'', ''private directories''), (''environment-staging'', ''environment staging''),
      (''pane-log'', ''pane log creation''), (''new-session'', ''new-session''),
      (''exact-session-resolution'', ''exact session resolution''), (''remain-on-exit'', ''remain-on-exit''),
      (''pipe-pane'', ''pipe-pane''), (''respawn-pane'', ''respawn-pane''),
      (''startup-inspection'', ''startup inspection''), (''disable-remain-on-exit'', ''remain-on-exit cleanup'')]"

definition launch_line :: "runtime \<Rightarrow> string \<Rightarrow> launch_protocol option" where
  "launch_line rt line =
     (if line = ''AGENTUM_LAUNCH_OK'' then Some Launch_Ok
      else case strip_prefix (''AGENTUM_SETUP_ERROR'' @ tab) line of
        Some stage \<Rightarrow> Some (Launch_Setup (case map_of setup_stages stage of Some s \<Rightarrow> s | None \<Rightarrow> ''launch transaction''))
      | None \<Rightarrow>
          case strip_prefix (''AGENTUM_EARLY_EXIT'' @ tab) line of
            None \<Rightarrow> None
          | Some rest \<Rightarrow>
              Some (case split_once (CHR 0x09) rest of
                      None \<Rightarrow> Launch_EarlyExit (parse_i32 rest) []
                    | Some (status, diagnostic) \<Rightarrow> Launch_EarlyExit (parse_i32 status)
                        (case decode_protocol_field rt diagnostic of Some d \<Rightarrow> d | None \<Rightarrow> [])))"

definition parse_launch_protocol :: "runtime \<Rightarrow> string \<Rightarrow> launch_protocol" where
  "parse_launch_protocol rt stdout =
     (case first_some (launch_line rt) (rev (str_lines (utf8_lossy stdout))) of Some p \<Rightarrow> p | None \<Rightarrow> Launch_Invalid)"

definition feed_result :: "runtime \<Rightarrow> host \<Rightarrow> string \<Rightarrow> feed_outcome \<Rightarrow> runtime_error + proc_output" where
  "feed_result rt h stage r =
     (let io = ssh_stage_io (rt_env rt) h stage in
      case r of
        Feed_SpawnError e \<Rightarrow> Inl (io e)
      | Feed_WaitError e \<Rightarrow> Inl (io e)
      | Feed_TimedOut cleanup \<Rightarrow> Inl (RuntimeError_SshStage stage (h_name h)
          (if cleanup = [] then ''the SSH '' @ stage @ '' timed out''
           else ''the SSH '' @ stage @ '' timed out (cleanup: '' @ join_with ''; '' cleanup @ '')''))
      | Feed_Exited status write_error stdout stderr \<Rightarrow>
          and_then (map_sum io id stdout) (\<lambda>out. and_then (map_sum io id stderr) (\<lambda>err.
            case write_error of
              Some e \<Rightarrow> if status = Some 0 then Inl (io e) else Inr \<lparr>po_status = status, po_stdout = out, po_stderr = err\<rparr>
            | None \<Rightarrow> Inr \<lparr>po_status = status, po_stdout = out, po_stderr = err\<rparr>)))"

definition ssh_output_with_stdin :: "runtime \<Rightarrow> host \<Rightarrow> string \<Rightarrow> string \<Rightarrow> string \<Rightarrow> proc_output tun" where
  "ssh_output_with_stdin rt h scr input stage s =
     (let c = argv_of (ssh_command_opts (rt_env rt) (ts_log s) h scr SshMux_Off)
      in (s\<lparr>ts_log := ts_log s @ [c]\<rparr>, feed_result rt h stage (rt_feed rt (ts_log s) c input)))"

definition launch_error ::
    "runtime \<Rightarrow> host \<Rightarrow> string list \<Rightarrow> (string \<times> string) list \<Rightarrow> string list \<Rightarrow> proc_output \<Rightarrow> runtime_error + unit" where
  "launch_error rt h argv env secrets out =
     (let stderr = redact_startup_output (utf8_lossy (po_stderr out)) env secrets;
          transport = ssh_stage_error h ''launch transaction'' (po_status out) stderr
      in case parse_launch_protocol rt (po_stdout out) of
           Launch_Ok \<Rightarrow> if po_success out then Inr () else Inl transport
         | Launch_Setup stage \<Rightarrow> Inl (RuntimeError_TmuxSetup stage (po_status out)
             (if stderr = [] then ''tmux rejected the operation; verify the remote tmux version and permissions'' else stderr))
         | Launch_EarlyExit status diagnostic \<Rightarrow>
             let shown = redact_startup_output diagnostic env secrets
             in Inl (RuntimeError_EarlyExit (case path_file_name (hd argv) of Some n \<Rightarrow> n | None \<Rightarrow> hd argv) status
                  (if shown = [] then '' (the pane produced no diagnostic output)'' else nl @ shown))
         | Launch_Invalid \<Rightarrow> Inl transport)"

definition launch_remote_session ::
    "runtime \<Rightarrow> host \<Rightarrow> string \<Rightarrow> string \<Rightarrow> string list \<Rightarrow> (string \<times> string) list \<Rightarrow> string list \<Rightarrow> string \<Rightarrow> unit tun" where
  "launch_remote_session rt h target workdir argv env secrets out_path s =
     (if is_local h then tfail RuntimeError_Unsupported s
      else tbind (tlift (serialize_launch_env rt env)) (\<lambda>payload.
           tbind (tlift (remote_launch_script rt (rt_attempt rt (ts_log s)) target workdir argv out_path)) (\<lambda>scr.
           tbind (ssh_output_with_stdin rt h scr payload ''launch transaction'') (\<lambda>out.
             tlift (launch_error rt h argv env secrets out)))) s)"

section \<open>Redaction\<close>

lemma containsI: "s = a @ v @ b \<Longrightarrow> str_contains s v"
  by (auto simp: str_contains_iff)

lemma contains_infix: "str_contains x v \<Longrightarrow> s = a @ x @ b \<Longrightarrow> str_contains s v"
  by (auto simp: str_contains_iff) (metis append_assoc)

lemma contains_append: "str_contains y v \<Longrightarrow> str_contains (x @ y) v" "str_contains x v \<Longrightarrow> str_contains (x @ y) v"
  using contains_infix [of y v "x @ y" x "[]"] contains_infix [of x v "x @ y" "[]" y] by simp_all

lemma contains_split:
  assumes "c \<notin> set v"
  shows "str_contains (x @ c # y) v \<longleftrightarrow> str_contains x v \<or> str_contains y v"
proof
  assume "str_contains (x @ c # y) v"
  then obtain a b where eq: "x @ c # y = (a @ v) @ b" by (auto simp: str_contains_iff)
  from append_eq_append_conv2 [THEN iffD1, OF eq] obtain us where
    us: "x = (a @ v) @ us \<and> us @ c # y = b \<or> x @ us = a @ v \<and> c # y = us @ b" by blast
  then show "str_contains x v \<or> str_contains y v"
  proof
    assume "x = (a @ v) @ us \<and> us @ c # y = b"
    then have "x = a @ v @ us" by simp
    then show ?thesis using containsI by blast
  next
    assume cut: "x @ us = a @ v \<and> c # y = us @ b"
    show ?thesis
    proof (cases us)
      case Nil
      then have "x = a @ v @ []" using cut by simp
      then show ?thesis using containsI by blast
    next
      case (Cons d us')
      then have "d = c" "y = us' @ b" using cut by auto
      have tail: "x @ c # us' = a @ v" using cut Cons \<open>d = c\<close> by simp
      from append_eq_append_conv2 [THEN iffD1, OF tail] obtain ws where
        "x = a @ ws \<and> ws @ c # us' = v \<or> x @ ws = a \<and> c # us' = ws @ v" by blast
      then show ?thesis
      proof
        assume "x = a @ ws \<and> ws @ c # us' = v"
        then have "c \<in> set v" by auto
        then show ?thesis using assms by simp
      next
        assume w: "x @ ws = a \<and> c # us' = ws @ v"
        then have "ws \<noteq> []" using assms by (cases ws) auto
        then obtain e ws' where "ws = e # ws'" by (cases ws) auto
        then have "us' = ws' @ v" using w by simp
        then have "y = ws' @ v @ b" using \<open>y = us' @ b\<close> by simp
        then show ?thesis using containsI by blast
      qed
    qed
  qed
next
  assume "str_contains x v \<or> str_contains y v"
  then show "str_contains (x @ c # y) v"
  proof
    assume "str_contains x v"
    then obtain a b where "x = a @ v @ b" by (auto simp: str_contains_iff)
    then have "x @ c # y = a @ v @ (b @ c # y)" by simp
    then show ?thesis unfolding str_contains_iff by blast
  next
    assume "str_contains y v"
    then obtain a b where "y = a @ v @ b" by (auto simp: str_contains_iff)
    then have "x @ c # y = (x @ c # a) @ v @ b" by simp
    then show ?thesis unfolding str_contains_iff by blast
  qed
qed

text \<open>What \<open>replace\<close> leaves: the pieces between the occurrences, which hold none of them.\<close>

fun joined :: "string \<Rightarrow> string list \<Rightarrow> string" where
  "joined sep [] = []"
| "joined sep [x] = x"
| "joined sep (x # y # xs) = x @ sep @ joined sep (y # xs)"

lemma joined_Cons_char: "xs \<noteq> [] \<Longrightarrow> joined sep ((c # hd xs) # tl xs) = c # joined sep xs"
  by (cases xs; cases "tl xs") auto

lemma joined_Cons: "xs \<noteq> [] \<Longrightarrow> joined sep (x # xs) = x @ sep @ joined sep xs"
  by (cases xs) auto

lemma replace_all_pieces:
  assumes "pat \<noteq> []"
  shows "\<exists>xs. xs \<noteq> [] \<and> s = joined pat xs \<and> replace_all pat new s = joined new xs \<and>
    (\<forall>x \<in> set xs. \<not> str_contains x pat)"
  using assms
proof (induction pat new s rule: replace_all.induct)
  case (1 pat new)
  then show ?case by (intro exI [of _ "[[]]"]) (auto simp: str_contains_iff)
next
  case (2 pat new c cs)
  note pat = \<open>pat \<noteq> []\<close>
  show ?case
  proof (cases "strip_prefix pat (c # cs)")
    case (Some rest)
    then obtain xs where xs: "xs \<noteq> []" "rest = joined pat xs" "replace_all pat new rest = joined new xs"
      "\<forall>x \<in> set xs. \<not> str_contains x pat"
      using 2(2) [of rest] pat by auto
    have "c # cs = joined pat ([] # xs)"
      using Some xs by (simp add: strip_prefix_Some joined_Cons)
    moreover have "replace_all pat new (c # cs) = joined new ([] # xs)"
      using Some xs pat by (simp add: joined_Cons)
    ultimately show ?thesis
      using xs pat by (intro exI [of _ "[] # xs"]) (auto simp: str_contains_iff)
  next
    case None
    then obtain xs where xs: "xs \<noteq> []" "cs = joined pat xs" "replace_all pat new cs = joined new xs"
      "\<forall>x \<in> set xs. \<not> str_contains x pat"
      using 2(1) pat by auto
    let ?ys = "(c # hd xs) # tl xs"
    have "c # cs = joined pat ?ys" "replace_all pat new (c # cs) = joined new ?ys"
      using xs None pat by (simp_all add: joined_Cons_char)
    moreover have "\<not> str_contains (c # hd xs) pat"
    proof
      assume "str_contains (c # hd xs) pat"
      then obtain a b where ab: "c # hd xs = a @ pat @ b" by (auto simp: str_contains_iff)
      show False
      proof (cases a)
        case Nil
        obtain t where "joined pat xs = hd xs @ t"
          using xs(1) by (cases xs; cases "tl xs") auto
        then have "c # cs = (c # hd xs) @ t" using xs(2) by simp
        then have "\<exists>r. c # cs = pat @ r" using ab Nil by auto
        then show False using None by (metis strip_prefix_append option.distinct(1))
      next
        case (Cons d a')
        then have "str_contains (hd xs) pat" using ab by (auto simp: str_contains_iff)
        then show False using xs by (meson list.set_sel(1))
      qed
    qed
    ultimately show ?thesis
      using xs by (intro exI [of _ ?ys]) (auto dest: list.set_sel(2))
  qed
qed

text \<open>A secret that cannot be confused with the text that replaces it.\<close>

definition plain_secret :: "string \<Rightarrow> bool" where
  "plain_secret v \<longleftrightarrow> v \<noteq> [] \<and> list_all (\<lambda>c. 33 \<le> (of_char c :: nat) \<and> of_char c < (127 :: nat)) v \<and>
     CHR ''['' \<notin> set v \<and> CHR '']'' \<notin> set v \<and> \<not> str_contains ''REDACTED'' v"

lemma joined_redacted:
  assumes "plain_secret v"
  shows "str_contains (joined REDACTED xs) v \<Longrightarrow> \<exists>x \<in> set xs. str_contains x v"
proof (induction xs)
  case Nil
  then show ?case using assms by (simp add: plain_secret_def str_contains_iff)
next
  case (Cons x xs)
  show ?case
  proof (cases "xs = []")
    case True
    then show ?thesis using Cons.prems by simp
  next
    case False
    define r where "r = ''REDACTED''"
    have "joined REDACTED (x # xs) = x @ CHR ''['' # (r @ CHR '']'' # joined REDACTED xs)"
      using joined_Cons [OF False, of REDACTED x] by (simp add: REDACTED_def r_def)
    moreover have "CHR ''['' \<notin> set v" "CHR '']'' \<notin> set v" "\<not> str_contains r v"
      using assms by (simp_all add: plain_secret_def r_def)
    ultimately have "str_contains x v \<or> str_contains (joined REDACTED xs) v"
      using Cons.prems contains_split by metis
    then show ?thesis using Cons.IH by auto
  qed
qed

lemma piece_in_joined: "x \<in> set xs \<Longrightarrow> \<exists>a b. joined sep xs = a @ x @ b"
proof (induction xs)
  case (Cons y xs)
  show ?case
  proof (cases "xs = []")
    case True
    then show ?thesis using Cons.prems by (intro exI [of _ "[]"]) simp
  next
    case rest: False
    show ?thesis
    proof (cases "x = y")
      case True
      then have "joined sep (y # xs) = [] @ x @ (sep @ joined sep xs)" using joined_Cons [OF rest] by simp
      then show ?thesis by blast
    next
      case False
      then obtain a b where "joined sep xs = a @ x @ b" using Cons by auto
      then have "joined sep (y # xs) = (y @ sep @ a) @ x @ b" using joined_Cons [OF rest] by simp
      then show ?thesis by blast
    qed
  qed
qed simp

lemma replace_removes:
  "plain_secret v \<Longrightarrow> \<not> str_contains (replace_all v REDACTED s) v"
  using replace_all_pieces [of v s REDACTED] joined_redacted [of v]
  unfolding plain_secret_def by metis

lemma replace_keeps_out:
  assumes "plain_secret v" "pat \<noteq> []" "\<not> str_contains s v"
  shows "\<not> str_contains (replace_all pat REDACTED s) v"
proof
  assume "str_contains (replace_all pat REDACTED s) v"
  moreover obtain xs where xs: "s = joined pat xs" "replace_all pat REDACTED s = joined REDACTED xs"
    using replace_all_pieces [OF assms(2)] by metis
  ultimately obtain x where x: "x \<in> set xs" "str_contains x v"
    using joined_redacted [OF assms(1)] by auto
  then show False
    using piece_in_joined [of x xs pat] xs(1) assms(3) contains_infix by metis
qed

lemma redact_values_removes:
  assumes "plain_secret v" "list_all (\<lambda>w. w \<noteq> []) values" "v \<in> set values \<or> \<not> str_contains s v"
  shows "\<not> str_contains (redact_values values s) v"
  using assms(2,3)
proof (induction "values" arbitrary: s)
  case Nil
  then show ?case by (simp add: redact_values_def)
next
  case (Cons w ws)
  have "\<not> str_contains (replace_all w REDACTED s) v \<or> v \<in> set ws"
    using Cons.prems assms(1) replace_removes replace_keeps_out by (cases "v = w") auto
  then show ?case using Cons.IH [of "replace_all w REDACTED s"] Cons.prems by (auto simp: redact_values_def)
qed

lemma strip_one_of_suffix: "strip_one_of ws s = Some r \<Longrightarrow> \<exists>a. s = a @ r"
  by (induction ws s rule: strip_one_of.induct) (auto simp: strip_prefix_Some split: option.splits)

lemma strip_all_of_suffix: "\<exists>a. s = a @ strip_all_of ws s"
proof (induction ws s rule: strip_all_of.induct)
  case (1 ws s)
  show ?case
  proof (cases "strip_one_of ws s")
    case None
    then have "strip_all_of ws s = s" by (subst strip_all_of.simps) simp
    then show ?thesis by (intro exI [of _ "[]"]) simp
  next
    case (Some r)
    then obtain a where a: "s = a @ r" using strip_one_of_suffix by blast
    show ?thesis
    proof (cases "length r < length s")
      case True
      then obtain b where "r = b @ strip_all_of ws r" using 1 Some by blast
      then have "s = (a @ b) @ strip_all_of ws r" using a by simp
      moreover have "strip_all_of ws s = strip_all_of ws r" using Some True by (subst strip_all_of.simps) simp
      ultimately show ?thesis by metis
    next
      case False
      then have "strip_all_of ws s = s" using Some by (subst strip_all_of.simps) simp
      then show ?thesis by (intro exI [of _ "[]"]) simp
    qed
  qed
qed

lemma trim_infix: "\<exists>a b. s = a @ trim s @ b"
proof -
  obtain a where a: "s = a @ trim_start s"
    unfolding trim_start_def using strip_all_of_suffix [of s ws_encodings] by blast
  obtain b where "rev (trim_start s) = b @ strip_all_of (map rev ws_encodings) (rev (trim_start s))"
    using strip_all_of_suffix [of "rev (trim_start s)" "map rev ws_encodings"] by blast
  then have "trim_start s = trim s @ rev b"
    unfolding trim_def trim_end_def by (metis rev_append rev_rev_ident)
  then show ?thesis using a by metis
qed

fun no_controls :: "string \<Rightarrow> bool" where
  "no_controls [] = True"
| "no_controls (c # cs) = (\<not> control_byte c \<and> \<not> c1_control c cs \<and> no_controls cs)"

lemma length_strip_controls: "length (strip_controls s) \<le> length s"
proof (induction s rule: strip_controls.induct)
  case (2 c cs)
  have "length (tl cs) \<le> length cs" by simp
  then show ?case using 2 by (cases "control_byte c"; cases "c1_control c cs") auto
qed simp

lemma strip_controls_id: "no_controls s \<Longrightarrow> strip_controls s = s"
  by (induction s) auto

lemma strip_controls_idD: "strip_controls s = s \<Longrightarrow> no_controls s"
proof (induction s)
  case (Cons c cs)
  have "length (strip_controls cs) < length (c # cs)" "length (strip_controls (tl cs)) < length (c # cs)"
    using length_strip_controls [of cs] length_strip_controls [of "tl cs"] by (simp_all add: less_Suc_eq_le)
  then have "strip_controls cs \<noteq> c # cs \<and> strip_controls (tl cs) \<noteq> c # cs" by auto
  then show ?case using Cons by (cases "control_byte c"; cases "c1_control c cs") auto
qed simp

lemma no_controls_suffix: "no_controls (a @ b) \<Longrightarrow> no_controls b"
  by (induction a) auto

lemma no_controls_redacted: "no_controls (REDACTED @ s) = no_controls s"
  by (simp add: REDACTED_def control_byte_def c1_control_def)

lemma replace_head:
  assumes "replace_all pat REDACTED cs = d # ds"
  shows "d = CHR ''['' \<or> (\<exists>t. cs = d # t)"
proof -
  have r: "REDACTED @ x = d # ds \<Longrightarrow> d = CHR ''[''" for x by (simp add: REDACTED_def)
  have "replace_all pat REDACTED (c # t) = d # ds \<Longrightarrow> d = CHR ''['' \<or> d = c" for c t
    using r by (cases "if pat = [] then None else strip_prefix pat (c # t)") auto
  then show ?thesis using assms by (cases cs) auto
qed

lemma no_controls_replace: "no_controls s \<Longrightarrow> no_controls (replace_all pat REDACTED s)"
proof (induction pat REDACTED s rule: replace_all.induct)
  case (2 pat c cs)
  show ?case
  proof (cases "if pat = [] then None else strip_prefix pat (c # cs)")
    case (Some rest)
    then have "c # cs = pat @ rest" by (auto simp: strip_prefix_Some split: if_splits)
    then have "no_controls rest" using 2(3) no_controls_suffix by metis
    then show ?thesis using 2(2) [OF Some] Some by (simp add: no_controls_redacted)
  next
    case None
    then have rest: "no_controls (replace_all pat REDACTED cs)" using 2(1) 2(3) by simp
    have "\<not> c1_control c (replace_all pat REDACTED cs)"
    proof
      assume c1: "c1_control c (replace_all pat REDACTED cs)"
      then obtain d ds where d: "replace_all pat REDACTED cs = d # ds" "0x80 \<le> (of_char d :: nat)"
        by (auto simp: c1_control_def split: list.splits)
      then obtain t where "cs = d # t" using replace_head [OF d(1)] by auto
      then show False using c1 d 2(3) by (simp add: c1_control_def)
    qed
    then show ?thesis using None rest 2(3) by simp
  qed
qed simp

lemma no_controls_redact: "no_controls s \<Longrightarrow> no_controls (redact_values vs s)"
  unfolding redact_values_def by (induction vs arbitrary: s) (simp_all add: no_controls_replace)

lemma bounded_text_keeps_out:
  assumes "plain_secret v" "\<not> str_contains s v"
  shows "\<not> str_contains (bounded_text s n) v"
proof
  assume has: "str_contains (bounded_text s n) v"
  show False
  proof (cases "length s \<le> n")
    case True
    then show False using has assms by (simp add: bounded_text_def)
  next
    case False
    let ?t = "take (floor_boundary s n) s"
    have ascii: "\<And>c. c \<in> set v \<Longrightarrow> (of_char c :: nat) < 127" and "v \<noteq> []"
      using assms(1) by (auto simp: plain_secret_def list_all_iff)
    then have no: "CHR 0xE2 \<notin> set v" "CHR 0x80 \<notin> set v" "CHR 0xA6 \<notin> set v" by force+
    have "\<not> str_contains [CHR 0x80, CHR 0xA6] v"
      using contains_split [OF no(2), of "[]"] contains_split [OF no(3), of "[]" "[]"] \<open>v \<noteq> []\<close>
      by (simp add: str_contains_iff)
    then have "str_contains ?t v"
      using has False contains_split [OF no(1), of ?t "[CHR 0x80, CHR 0xA6]"] by (simp add: bounded_text_def)
    then have "str_contains s v"
      using contains_infix [of ?t v s "[]" "drop (floor_boundary s n) s"] by simp
    then show False using assms(2) by simp
  qed
qed

lemma set_secret_values: "set (secret_values env secrets) = {v \<in> snd ` set env \<union> set secrets. v \<noteq> []}"
  by (auto simp: secret_values_def)



text \<open>
  The control characters are filtered after the replacement, so one that is printed inside a secret hides it
  from the replacement and is gone from the result.
\<close>

lemma control_character_uncovers_a_secret:
  "redact_startup_output (''tok'' @ [CHR 0x07] @ ''12'') [(''KEY'', ''tok12'')] [] = ''tok12''"
  by (simp add: redact_startup_output_def redact_values_def secret_values_def bounded_text_def STARTUP_DIAGNOSTIC_BYTES_def
      trim_def trim_start_def trim_end_def strip_all_of.simps ws_encodings_def control_byte_def c1_control_def)

section \<open>What a launch does\<close>

lemma launch_run:
  assumes "\<not> is_local h" "serialize_launch_env rt env = Inr payload"
    and "remote_launch_script rt (rt_attempt rt (ts_log s)) target workdir argv out_path = Inr scr"
  shows "launch_remote_session rt h target workdir argv env secrets out_path s =
    (let c = argv_of (ssh_command_opts (rt_env rt) (ts_log s) h scr SshMux_Off)
     in (s\<lparr>ts_log := ts_log s @ [c]\<rparr>,
         and_then (feed_result rt h ''launch transaction'' (rt_feed rt (ts_log s) c payload))
           (launch_error rt h argv env secrets)))"
  using assms
  by (simp add: launch_remote_session_def tbind_def tlift_def ssh_output_with_stdin_def Let_def and_then_def split: sum.split)

text \<open>
  C15. The values of the environment and the tokens of a launch reach neither the script nor any argument of
  the one process that is started: two launches that differ in nothing else start the same command. They
  travel in the standard input of that process only, which does not use a shared connection.
\<close>

theorem remote_launch_hides_the_environment:
  assumes "serialize_launch_env rt env = Inr payload" "serialize_launch_env rt env' = Inr payload'"
  shows "ts_log (fst (launch_remote_session rt h target workdir argv env secrets out_path s)) =
      ts_log (fst (launch_remote_session rt h target workdir argv env' secrets' out_path s)) \<and>
    length (ts_log (fst (launch_remote_session rt h target workdir argv env secrets out_path s))) \<le> Suc (length (ts_log s))"
proof (cases "is_local h")
  case True
  then show ?thesis by (simp add: launch_remote_session_def tfail_def)
next
  case remote: False
  show ?thesis
  proof (cases "remote_launch_script rt (rt_attempt rt (ts_log s)) target workdir argv out_path")
    case (Inl e)
    then show ?thesis using remote assms by (simp add: launch_remote_session_def tbind_def tlift_def)
  next
    case (Inr scr)
    then show ?thesis
      using launch_run [OF remote assms(1) Inr] launch_run [OF remote assms(2) Inr] by (simp add: Let_def)
  qed
qed

text \<open>
  C14. A remote launch is reported as started only if the one process that was fed the whole environment ended
  with status 0 and the last record it printed is the commit of the transaction; any other end is an error.
\<close>

theorem launched_only_when_committed:
  assumes "launch_remote_session rt h target workdir argv env secrets out_path s = (s', Inr ())"
  shows "\<exists>payload c stdout stderr. serialize_launch_env rt env = Inr payload \<and> ts_log s' = ts_log s @ [c] \<and>
    rt_feed rt (ts_log s) c payload = Feed_Exited (Some 0) None (Inr stdout) (Inr stderr) \<and>
    first_some (launch_line rt) (rev (str_lines (utf8_lossy stdout))) = Some Launch_Ok"
proof -
  have remote: "\<not> is_local h" using assms by (auto simp: launch_remote_session_def tfail_def)
  obtain payload where payload: "serialize_launch_env rt env = Inr payload"
    using assms remote by (cases "serialize_launch_env rt env") (auto simp: launch_remote_session_def tbind_def tlift_def)
  obtain scr where scr: "remote_launch_script rt (rt_attempt rt (ts_log s)) target workdir argv out_path = Inr scr"
    using assms remote payload
    by (cases "remote_launch_script rt (rt_attempt rt (ts_log s)) target workdir argv out_path")
      (auto simp: launch_remote_session_def tbind_def tlift_def)
  define c where "c = argv_of (ssh_command_opts (rt_env rt) (ts_log s) h scr SshMux_Off)"
  have run: "s' = s\<lparr>ts_log := ts_log s @ [c]\<rparr>"
    "and_then (feed_result rt h ''launch transaction'' (rt_feed rt (ts_log s) c payload))
       (launch_error rt h argv env secrets) = Inr ()"
    using assms launch_run [OF remote payload scr] by (simp_all add: Let_def c_def)
  then obtain out where out: "feed_result rt h ''launch transaction'' (rt_feed rt (ts_log s) c payload) = Inr out"
    "launch_error rt h argv env secrets out = Inr ()"
    by (auto simp: and_then_eq_Inr)
  have parsed: "parse_launch_protocol rt (po_stdout out) = Launch_Ok" and ok: "po_status out = Some 0"
    using out(2) by (auto simp: launch_error_def Let_def po_success_def split: launch_protocol.splits if_splits)
  have "first_some (launch_line rt) (rev (str_lines (utf8_lossy (po_stdout out)))) = Some Launch_Ok"
    using parsed by (auto simp: parse_launch_protocol_def split: option.splits)
  moreover obtain stderr where "rt_feed rt (ts_log s) c payload = Feed_Exited (Some 0) None (Inr (po_stdout out)) (Inr stderr)"
    using out(1) ok
    by (auto simp: feed_result_def Let_def and_then_eq_Inr map_sum_def split: feed_outcome.splits option.splits if_splits sum.splits)
  ultimately show ?thesis using payload run(1) by auto
qed

definition sample_runtime :: runtime where
  "sample_runtime = \<lparr>rt_env = willing_env, rt_base64 = Some, rt_attempt = (\<lambda>log. ''a1''),
     rt_feed = (\<lambda>log c input. Feed_Exited (Some 0) None (Inr (''motd'' @ nl @ ''AGENTUM_LAUNCH_OK'' @ nl)) (Inr []))\<rparr>"

lemma sample_quote [simp]: "q sample_runtime s = Inr s" "sh_c sample_runtime s = Inr (''sh -c '' @ s)"
  by (simp_all add: q_def sh_c_def sample_runtime_def willing_env_def)

lemma sample_script:
  "\<exists>scr. remote_launch_script sample_runtime a ''agentum-x'' ''/w'' [''/bin/agent''] ''/logs/x.log'' = Inr scr"
proof -
  have "safe_remote_leaf ''/logs/x.log'' = Inr ''x.log''" by code_simp
  moreover have "m_join (rt_machine sample_runtime) [''/bin/agent''] = Some ''/bin/agent''"
    by (simp add: sample_runtime_def willing_env_def)
  moreover obtain r where "remote_exact_tmux_session_resolution sample_runtime ''agentum-x'' = Inr r"
    by (simp add: remote_exact_tmux_session_resolution_def numbered_def starts_with_def)
  ultimately show ?thesis
    by (simp add: remote_launch_script_def absolute_or_def is_absolute_def starts_with_def remote_pane_log_expr_def
        launch_wrapper_def launch_pipe_def)
qed

lemma sample_launch:
  "\<exists>s'. launch_remote_session sample_runtime (sample_ssh_host []) ''agentum-x'' ''/w'' [''/bin/agent''] [(''K'', ''v'')] []
    ''/logs/x.log'' s = (s', Inr ())"
proof -
  have remote: "\<not> is_local (sample_ssh_host [])" by (simp add: is_local_def sample_ssh_host_def)
  obtain payload where payload: "serialize_launch_env sample_runtime [(''K'', ''v'')] = Inr payload"
    by (simp add: valid_env_key_def is_ascii_upper_def)
  obtain scr where scr: "remote_launch_script sample_runtime (rt_attempt sample_runtime (ts_log s)) ''agentum-x'' ''/w''
      [''/bin/agent''] ''/logs/x.log'' = Inr scr"
    using sample_script by blast
  have "first_some (launch_line sample_runtime) (rev (str_lines (''motd'' @ nl @ ''AGENTUM_LAUNCH_OK'' @ nl))) = Some Launch_Ok"
    by (simp add: nl_def str_lines_def launch_line_def strip_cr_def)
  moreover have "utf8_lossy (''motd'' @ nl @ ''AGENTUM_LAUNCH_OK'' @ nl) = ''motd'' @ nl @ ''AGENTUM_LAUNCH_OK'' @ nl"
    by code_simp
  ultimately have "parse_launch_protocol sample_runtime (''motd'' @ nl @ ''AGENTUM_LAUNCH_OK'' @ nl) = Launch_Ok"
    by (simp only: parse_launch_protocol_def option.simps)
  then show ?thesis
    using launch_run [OF remote payload scr, of "[]"]
    by (simp add: Let_def sample_runtime_def feed_result_def launch_error_def po_success_def)
qed

lemma launched_only_when_committed_witness:
  "\<exists>c stdout stderr. rt_feed sample_runtime [] c (''export K=v'' @ nl) = Feed_Exited (Some 0) None (Inr stdout) (Inr stderr)"
proof -
  let ?s = "\<lparr>ts_log = [], ts_tunnels = [], ts_retired = []\<rparr>"
  obtain s' where "launch_remote_session sample_runtime (sample_ssh_host []) ''agentum-x'' ''/w'' [''/bin/agent'']
      [(''K'', ''v'')] [] ''/logs/x.log'' ?s = (s', Inr ())" using sample_launch by blast
  from launched_only_when_committed [OF this] show ?thesis
    by (simp add: valid_env_key_def is_ascii_upper_def) blast
qed

lemma remote_launch_hides_the_environment_witness:
  "ts_log (fst (launch_remote_session sample_runtime (sample_ssh_host []) ''agentum-x'' ''/w'' [''/bin/agent''] [(''K'', ''one'')] []
       ''/logs/x.log'' \<lparr>ts_log = [], ts_tunnels = [], ts_retired = []\<rparr>)) =
   ts_log (fst (launch_remote_session sample_runtime (sample_ssh_host []) ''agentum-x'' ''/w'' [''/bin/agent''] [(''K'', ''two'')] [''t'']
       ''/logs/x.log'' \<lparr>ts_log = [], ts_tunnels = [], ts_retired = []\<rparr>))"
  by (rule remote_launch_hides_the_environment [THEN conjunct1]) (simp_all add: valid_env_key_def is_ascii_upper_def)

end
