(* ===== verification/Host_Panes.thy ===== *)
theory Host_Panes
  imports Host_Launch
begin

text \<open>
  \<open>crates/agentum-server/src/host_runtime.rs\<close>, the panes of a host: the operations that work on a local tmux
  or, through one script per call, on that of an SSH host; the snapshot with the offset into the pane log,
  the persistent input and output channels, the listing of all tmux sessions, and private files on a host.
\<close>

section \<open>Operations\<close>

definition on_local :: "'a proc \<Rightarrow> 'a tun" where
  "on_local p s = (case p (ts_log s) of (log, r) \<Rightarrow> (s\<lparr>ts_log := log\<rparr>, map_sum RuntimeError_Tmux id r))"

definition checked_on :: "runtime \<Rightarrow> host \<Rightarrow> string \<Rightarrow> string \<Rightarrow> unit tun" where
  "checked_on rt h target operation =
     tbind (tlift (remote_exact_tmux_script rt target operation)) (runtime_ssh_checked rt h)"

definition stdout_on :: "runtime \<Rightarrow> host \<Rightarrow> string \<Rightarrow> string \<Rightarrow> string tun" where
  "stdout_on rt h target operation =
     tbind (tlift (remote_exact_tmux_script rt target operation)) (runtime_ssh_stdout rt h)"

definition existence_line :: "string \<Rightarrow> bool option" where
  "existence_line line =
     (if line = ''AGENTUM_TMUX_MISSING'' then Some False
      else case strip_prefix (''AGENTUM_TMUX_EXACT'' @ tab) line of
             Some sid \<Rightarrow> if numbered sid then Some True else None
           | None \<Rightarrow> None)"

definition existence_of :: "host \<Rightarrow> proc_output \<Rightarrow> runtime_error + bool" where
  "existence_of h out =
     (if \<not> po_success out then Inl (non_zero out)
      else and_then (utf8_text (po_stdout out)) (\<lambda>stdout.
        ok_or (RuntimeError_SshStage ''exact tmux lookup'' (h_name h) ''remote tmux lookup returned an invalid response'')
          (first_some existence_line (rev (str_lines stdout)))))"

definition host_has_session :: "runtime \<Rightarrow> host \<Rightarrow> string \<Rightarrow> bool tun" where
  "host_has_session rt h target =
     (if is_local h then on_local (has_session (rt_machine rt) target)
      else tbind (tlift (remote_exact_tmux_probe_script rt target)) (\<lambda>scr.
           tbind (ssh_answer rt (map_ssh_io (rt_env rt)) h scr SshMux_Interactive) (\<lambda>out. tlift (existence_of h out))))"

definition new_session_line :: "string \<Rightarrow> string \<Rightarrow> string \<Rightarrow> string" where
  "new_session_line target workdir cmd =
     join_with '' '' [''tmux'', ''new-session'', ''-d'', ''-s'', target, ''-x'', string_of_nat DEFAULT_PANE_COLS,
       ''-y'', string_of_nat DEFAULT_PANE_ROWS, ''-c'', workdir, cmd]"

definition new_session_remote :: "runtime \<Rightarrow> host \<Rightarrow> string \<Rightarrow> string \<Rightarrow> string list \<Rightarrow> (string \<times> string) list \<Rightarrow> unit tun" where
  "new_session_remote rt h target workdir cmd env =
     (if env \<noteq> []
      then tfail (RuntimeError_RemotePrerequisite ''environment''
        ''remote launches with environment entries must use the private launch transaction'')
      else tbind (tlift (and_then (ok_or RuntimeError_Quote (m_join (rt_machine rt) cmd)) (\<lambda>cmd_str.
                     and_then (q rt target) (\<lambda>t. and_then (q rt workdir) (\<lambda>w. and_then (q rt cmd_str) (\<lambda>c.
                       Inr (new_session_line t w c)))))))
             (runtime_ssh_checked rt h))"

definition host_kill_session :: "runtime \<Rightarrow> host \<Rightarrow> string \<Rightarrow> unit tun" where
  "host_kill_session rt h target =
     (if is_local h then on_local (kill_session (rt_machine rt) target)
      else tbind (host_has_session rt h target) (\<lambda>here.
           if \<not> here then tret () else checked_on rt h target ''tmux kill-session -t \"$sid\"''))"

definition host_send_keys :: "runtime \<Rightarrow> host \<Rightarrow> string \<Rightarrow> string \<Rightarrow> bool \<Rightarrow> unit tun" where
  "host_send_keys rt h target keys append_enter =
     (if is_local h then on_local (send_keys (rt_machine rt) target keys append_enter)
      else tbind (tlift (q rt keys)) (\<lambda>quoted.
           checked_on rt h target (''tmux send-keys -t \"$sid\" '' @ quoted @ (if append_enter then '' Enter'' else []))))"

text \<open>The wait for the end of a session; round \<open>k\<close> takes its 150 ms and \<open>late k\<close> more.\<close>

function await_gone :: "runtime \<Rightarrow> host \<Rightarrow> string \<Rightarrow> (nat \<Rightarrow> nat) \<Rightarrow> nat \<Rightarrow> nat \<Rightarrow> nat \<Rightarrow> bool tun" where
  "await_gone rt h target late limit k elapsed =
     (if limit \<le> elapsed then tret False
      else tbind (host_has_session rt h target) (\<lambda>here.
        if \<not> here then tret True else await_gone rt h target late limit (Suc k) (elapsed + 150 + late k)))"
  by pat_completeness auto
termination
  by (relation "measure (\<lambda>(rt, h, target, late, limit, k, elapsed). limit - elapsed)") auto

declare await_gone.simps [simp del]

definition host_graceful_stop :: "runtime \<Rightarrow> host \<Rightarrow> string \<Rightarrow> (nat \<Rightarrow> nat) \<Rightarrow> nat \<Rightarrow> unit tun" where
  "host_graceful_stop rt h target late limit =
     (if is_local h then on_local (graceful_stop (rt_machine rt) late target limit)
      else tbind (ttry (host_send_keys rt h target ''C-c'' False)) (\<lambda>_.
           tbind (await_gone rt h target late limit 0 0) (\<lambda>gone.
             if gone then tret () else host_kill_session rt h target)))"

definition anchored_capture :: "runtime \<Rightarrow> runtime_error + string" where
  "anchored_capture rt =
     and_then (q rt CURSOR_SAMPLE_FORMAT) (\<lambda>fmt. Inr (
     ''tmux display-message -p -t \"$sid\" '' @ fmt @
     '' 2>/dev/null || echo X; tmux capture-pane -p -e -t \"$sid\"''))"

definition host_capture_pane_ansi :: "runtime \<Rightarrow> host \<Rightarrow> string \<Rightarrow> string tun" where
  "host_capture_pane_ansi rt h target =
     (if is_local h then on_local (capture_pane_ansi (rt_machine rt) target)
      else tbind (tlift (anchored_capture rt)) (\<lambda>operation.
           tbind (stdout_on rt h target operation) (\<lambda>out.
             case split_first_line out of (cursor_line, grid) \<Rightarrow>
               tret (assemble_anchored_snapshot grid (parse_cursor_sample cursor_line)))))"

definition host_capture_pane_visible :: "runtime \<Rightarrow> host \<Rightarrow> string \<Rightarrow> string tun" where
  "host_capture_pane_visible rt h target =
     (if is_local h then on_local (capture_pane_visible (rt_machine rt) target)
      else stdout_on rt h target ''tmux capture-pane -p -S 0 -t \"$sid\"'')"

definition host_pane_title :: "runtime \<Rightarrow> host \<Rightarrow> string \<Rightarrow> string tun" where
  "host_pane_title rt h target =
     (if is_local h then on_local (pane_title (rt_machine rt) target)
      else tbind (stdout_on rt h target (''tmux display-message -p -t \"$sid\" '' @ squoted ''#{pane_title}''))
             (\<lambda>out. tret (trim_line_ends out)))"

fun send_chunks_on :: "runtime \<Rightarrow> host \<Rightarrow> string \<Rightarrow> string list \<Rightarrow> unit tun" where
  "send_chunks_on rt h target [] = tret ()"
| "send_chunks_on rt h target (chunk # rest) =
     tbind (checked_on rt h target (''tmux send-keys -H -t \"$sid\"'' @ concat (map (\<lambda>b. '' '' @ hex_byte b) chunk)))
       (\<lambda>_. send_chunks_on rt h target rest)"

definition host_send_bytes :: "runtime \<Rightarrow> host \<Rightarrow> string \<Rightarrow> string \<Rightarrow> unit tun" where
  "host_send_bytes rt h target bytes =
     (if is_local h then on_local (send_bytes (rt_machine rt) target bytes)
      else send_chunks_on rt h target (chunks SEND_KEYS_HEX_CHUNK_BYTES bytes))"

definition host_resize_window :: "runtime \<Rightarrow> host \<Rightarrow> string \<Rightarrow> 16 word \<Rightarrow> 16 word \<Rightarrow> unit tun" where
  "host_resize_window rt h target cols0 rows0 =
     (if is_local h then on_local (resize_window (rt_machine rt) target cols0 rows0)
      else let cols = string_of_nat (unat (max cols0 20)); rows = string_of_nat (unat (max rows0 5))
           in checked_on rt h target (
     ''tmux set-option -q -t \"$sid\" window-size manual && tmux resize-window -t \"$sid\" -x '' @ cols @
     '' -y '' @ rows))"

definition host_resize_window_relative :: "runtime \<Rightarrow> host \<Rightarrow> string \<Rightarrow> 16 word \<Rightarrow> unit tun" where
  "host_resize_window_relative rt h target rows_delta =
     (if is_local h then on_local (resize_window_relative (rt_machine rt) target rows_delta)
      else if rows_delta = 0 then tret ()
      else let flag = (if 0 < sint rows_delta then ''-U'' else ''-D'');
               row_count = string_of_nat (nat \<bar>sint rows_delta\<bar>)
           in checked_on rt h target (
     ''tmux set-option -q -t \"$sid\" window-size manual && tmux resize-window -t \"$sid\" '' @ flag @
     '' '' @ row_count))"

definition remote_pipe_pane_arm_operation :: "string \<Rightarrow> string" where
  "remote_pipe_pane_arm_operation quoted_pipe_command =
     ''if [ \"$(tmux display-message -p -t \"$sid\" '' @ sq @ ''#{pane_pipe}'' @ sq @
     '' 2>/dev/null)\" != 1 ]; then tmux pipe-pane -t \"$sid\" '' @ quoted_pipe_command @ ''; fi''"

definition pipe_to_log :: "runtime \<Rightarrow> string \<Rightarrow> runtime_error + string" where
  "pipe_to_log rt log = and_then (launch_pipe rt log) (q rt)"

definition remote_pipe_script :: "runtime \<Rightarrow> string \<Rightarrow> string \<Rightarrow> runtime_error + string" where
  "remote_pipe_script rt target out_path =
     and_then (remote_pane_log_expr out_path) (\<lambda>log.
     and_then (pipe_to_log rt log) (\<lambda>pipe.
       remote_exact_tmux_script rt target
         (''umask 077; '' @ remote_private_pane_log_setup log @ '' || exit 73; '' @ remote_pipe_pane_arm_operation pipe)))"

definition host_pipe_pane :: "runtime \<Rightarrow> tmux_error + pane_log_identity \<Rightarrow> host \<Rightarrow> string \<Rightarrow> string \<Rightarrow> unit tun" where
  "host_pipe_pane rt prepared h target out_path =
     (if is_local h then on_local (pipe_pane (rt_machine rt) prepared target out_path)
      else tbind (tlift (remote_pipe_script rt target out_path)) (runtime_ssh_checked rt h))"

definition host_unpipe_pane :: "runtime \<Rightarrow> host \<Rightarrow> string \<Rightarrow> unit tun" where
  "host_unpipe_pane rt h target =
     (if is_local h then on_local (unpipe_pane (rt_machine rt) target)
      else checked_on rt h target ''tmux pipe-pane -t \"$sid\"'')"

section \<open>Snapshot and stream\<close>

definition snapshot_operation :: "string \<Rightarrow> string \<Rightarrow> string \<Rightarrow> string" where
  "snapshot_operation log pipe fmt =
     (let setup = remote_private_pane_log_setup log; guard = remote_regular_single_link_guard log;
          arm = remote_pipe_pane_arm_operation pipe in
     ''umask 077; '' @ setup @ '' || exit 73; ('' @ arm @
     '') 2>/dev/null || true; c=$(tmux display-message -p -t \"$sid\" '' @ fmt @
     '' 2>/dev/null || echo X); f=$(mktemp \"'' @ REMOTE_PANE_DIR @
     ''/.snapshot.XXXXXX\" 2>/dev/null) || { printf \"0'' @ bsl @ ''nX'' @ bsl @
     ''n\"; exit 0; }; tmux capture-pane -p -e -t \"$sid\" > \"$f\" 2>/dev/null || true; o=$({ '' @ guard @
     '' && wc -c < '' @ log @ ''; } 2>/dev/null || echo 0); printf \"%s'' @ bsl @ ''n%s'' @ bsl @
     ''n\" \"$o\" \"$c\"; cat \"$f\" 2>/dev/null; rm -f \"$f\"'')"

definition snapshot_with_offset_script :: "runtime \<Rightarrow> string \<Rightarrow> string \<Rightarrow> runtime_error + string" where
  "snapshot_with_offset_script rt target out_path =
     and_then (remote_pane_log_expr out_path) (\<lambda>log.
     and_then (pipe_to_log rt log) (\<lambda>pipe.
     and_then (q rt CURSOR_SAMPLE_FORMAT) (\<lambda>fmt.
       remote_exact_tmux_script rt target (snapshot_operation log pipe fmt))))"

definition parse_u64 :: "string \<Rightarrow> nat option" where
  "parse_u64 s =
     (let ds = (if s \<noteq> [] \<and> hd s = CHR ''+'' then tl s else s)
      in if ds \<noteq> [] \<and> list_all is_ascii_digit ds \<and> digits_value ds < 2 ^ 64 then Some (digits_value ds) else None)"

definition read_snapshot :: "string \<Rightarrow> nat \<times> string" where
  "read_snapshot out =
     (case split_first_line out of (size_line, rest) \<Rightarrow>
      case split_first_line rest of (cursor_line, grid) \<Rightarrow>
        (case parse_u64 (trim size_line) of Some n \<Rightarrow> n | None \<Rightarrow> 0,
         assemble_anchored_snapshot grid (parse_cursor_sample cursor_line)))"

definition capture_pane_with_log_offset :: "runtime \<Rightarrow> host \<Rightarrow> string \<Rightarrow> string \<Rightarrow> (nat \<times> string) tun" where
  "capture_pane_with_log_offset rt h target out_path =
     (if is_local h then tfail RuntimeError_Unsupported
      else tbind (tlift (snapshot_with_offset_script rt target out_path)) (\<lambda>scr.
           tbind (runtime_ssh_stdout rt h scr) (\<lambda>out. tret (read_snapshot out))))"

record stream_state =
  rs_log_size :: nat
  rs_title :: string

definition remote_pane_stream_state_script :: "runtime \<Rightarrow> string \<Rightarrow> string \<Rightarrow> runtime_error + string" where
  "remote_pane_stream_state_script rt target out_path =
     and_then (remote_pane_log_expr out_path) (\<lambda>log. remote_exact_tmux_script rt target (
     ''o=$(wc -c < '' @ log @ '' 2>/dev/null || echo 0); t=$(tmux display-message -p -t \"$sid\" '' @ sq @
     ''#{pane_title}'' @ sq @ '' 2>/dev/null || true); printf '' @ sq @ ''%s'' @ bsl @ ''n%s'' @ sq @
     '' \"$o\" \"$t\"''))"

definition read_stream_state :: "host \<Rightarrow> proc_output \<Rightarrow> runtime_error + stream_state" where
  "read_stream_state h out =
     (if \<not> po_success out then Inl (non_zero out)
      else and_then (utf8_text (po_stdout out)) (\<lambda>stdout.
        case split_first_line stdout of (size_line, title) \<Rightarrow>
          case parse_u64 (trim size_line) of
            None \<Rightarrow> Inl (RuntimeError_SshStage ''pane stream state'' (h_name h) ''remote pane log size was not an unsigned integer'')
          | Some n \<Rightarrow> Inr \<lparr>rs_log_size = n, rs_title = trim_line_ends title\<rparr>))"

definition remote_pane_stream_state :: "runtime \<Rightarrow> host \<Rightarrow> string \<Rightarrow> string \<Rightarrow> stream_state tun" where
  "remote_pane_stream_state rt h target out_path =
     (if is_local h then tfail RuntimeError_Unsupported
      else tbind (tlift (remote_pane_stream_state_script rt target out_path)) (\<lambda>scr.
           tbind (ssh_answer rt (map_ssh_io (rt_env rt)) h scr SshMux_Observer) (\<lambda>out. tlift (read_stream_state h out))))"

definition remote_tail_script :: "runtime \<Rightarrow> string \<Rightarrow> nat option \<Rightarrow> runtime_error + string" where
  "remote_tail_script rt out_path from_offset =
     and_then (remote_pane_log_expr out_path) (\<lambda>log.
       let setup = remote_private_pane_log_setup log;
           mode = (case from_offset of
                     Some n \<Rightarrow> ''-c +'' @ string_of_nat (if n = 2 ^ 64 - 1 then n else n + 1)
                   | None \<Rightarrow> ''-n 0'')
       in sh_c rt (
     ''umask 077; '' @ setup @ '' || exit 73; exec tail '' @ mode @ '' -f '' @ log))"

definition spawn_remote_pane_tail :: "runtime \<Rightarrow> host \<Rightarrow> string \<Rightarrow> nat option \<Rightarrow> ssh_mux \<Rightarrow> unit tun" where
  "spawn_remote_pane_tail rt h out_path from_offset mux s =
     (case remote_tail_script rt out_path from_offset of
        Inl e \<Rightarrow> (s, Inl e)
      | Inr scr \<Rightarrow>
          (s\<lparr>ts_log := ts_log s @ [argv_of (ssh_command_opts (rt_env rt) (ts_log s) h scr mux)]\<rparr>, Inr ()))"

definition remote_input_script :: "runtime \<Rightarrow> string \<Rightarrow> runtime_error + string" where
  "remote_input_script rt target =
     remote_exact_tmux_script rt target (
     ''exec sh -c '' @ sq @
     ''sid=$1; while IFS= read -r l; do tmux send-keys -H -t \"$sid\" $l 2>/dev/null; if ['' @
     '' \"${#l}\" -gt 128 ]; then sleep 0.01; fi; done'' @ sq @ '' sh \"$sid\"'')"

definition spawn_remote_input_writer :: "runtime \<Rightarrow> host \<Rightarrow> string \<Rightarrow> unit tun" where
  "spawn_remote_input_writer rt h target s =
     (if is_local h then (s, Inl RuntimeError_Unsupported)
      else case remote_input_script rt target of
        Inl e \<Rightarrow> (s, Inl e)
      | Inr scr \<Rightarrow>
          (s\<lparr>ts_log := ts_log s @ [argv_of (ssh_command_opts (rt_env rt) (ts_log s) h scr SshMux_Interactive)]\<rparr>, Inr ()))"

definition REMOTE_INPUT_FRAME_BYTES :: nat where "REMOTE_INPUT_FRAME_BYTES = 64"

definition input_line :: "string \<Rightarrow> string" where
  "input_line chunk = join_with '' '' (map hex_byte chunk) @ nl"

definition encode_remote_input_lines :: "string \<Rightarrow> string" where
  "encode_remote_input_lines bytes = concat (map input_line (chunks REMOTE_INPUT_FRAME_BYTES bytes))"

section \<open>Listing the sessions of a host\<close>

record discovered_pane =
  dp_command :: string
  dp_cwd :: string

record discovered_session =
  ds_name :: string
  ds_attached :: bool
  ds_created_at :: "int option"
  ds_panes :: "discovered_pane list"

definition TMUX_DISCOVER_FORMAT :: string where
  "TMUX_DISCOVER_FORMAT =
     ''#{session_name}'' @ tab @ ''#{session_attached}'' @ tab @ ''#{session_created}'' @ tab @
     ''#{pane_current_command}'' @ tab @ ''#{pane_current_path}''"

text \<open>\<open>splitn(5)\<close> at tabs, \<open>i64::from_str\<close>, and the line without carriage returns at its end.\<close>

definition parse_i64 :: "string \<Rightarrow> int option" where
  "parse_i64 s =
     (case s of
        [] \<Rightarrow> None
      | c # cs \<Rightarrow>
          let ds = (if c = CHR ''-'' \<or> c = CHR ''+'' then cs else s);
              n = (if c = CHR ''-'' then - int (digits_value ds) else int (digits_value ds))
          in if ds \<noteq> [] \<and> list_all is_ascii_digit ds \<and> - (2 ^ 63) \<le> n \<and> n < 2 ^ 63 then Some n else None)"

definition trim_end_cr :: "string \<Rightarrow> string" where
  "trim_end_cr s = rev (dropWhile (\<lambda>c. c = CHR 0x0D) (rev s))"

definition discovered_row :: "string \<Rightarrow> (string \<times> string \<times> string \<times> discovered_pane) option" where
  "discovered_row line =
     (case splitn 5 (CHR 0x09) (trim_end_cr line) of
        [name, attached, created, cmd, cwd] \<Rightarrow> Some (name, attached, created, \<lparr>dp_command = cmd, dp_cwd = cwd\<rparr>)
      | _ \<Rightarrow> None)"

definition first_seen :: "string \<Rightarrow> string \<Rightarrow> string \<Rightarrow> discovered_pane \<Rightarrow> discovered_session" where
  "first_seen name attached created pane =
     \<lparr>ds_name = name,
      ds_attached = (case parse_u32 (trim attached) of Some n \<Rightarrow> 0 < n | None \<Rightarrow> False),
      ds_created_at = parse_i64 (trim created), ds_panes = [pane]\<rparr>"

fun add_pane :: "string \<Rightarrow> string \<Rightarrow> string \<Rightarrow> discovered_pane \<Rightarrow> discovered_session list \<Rightarrow> discovered_session list" where
  "add_pane name attached created pane [] = [first_seen name attached created pane]"
| "add_pane name attached created pane (d # ds) =
     (if ds_name d = name then d\<lparr>ds_panes := ds_panes d @ [pane]\<rparr> # ds
      else d # add_pane name attached created pane ds)"

definition collect_line :: "(string \<Rightarrow> bool) \<Rightarrow> string \<Rightarrow> discovered_session list \<Rightarrow> discovered_session list" where
  "collect_line wanted line ds =
     (case discovered_row line of
        None \<Rightarrow> ds
      | Some (name, attached, created, pane) \<Rightarrow> if wanted name then add_pane name attached created pane ds else ds)"

definition is_managed_name :: "string \<Rightarrow> bool" where
  "is_managed_name name = starts_with ''agentum-'' name"

definition parse_tmux_panes_filtered :: "string \<Rightarrow> bool \<Rightarrow> discovered_session list" where
  "parse_tmux_panes_filtered stdout managed =
     fold (collect_line (\<lambda>name. is_managed_name name = managed)) (str_lines stdout) []"

definition parse_tmux_panes_all :: "string \<Rightarrow> discovered_session list" where
  "parse_tmux_panes_all stdout = fold (collect_line (\<lambda>name. True)) (str_lines stdout) []"

definition parse_tmux_panes :: "string \<Rightarrow> discovered_session list" where
  "parse_tmux_panes stdout = parse_tmux_panes_filtered stdout False"

definition parse_tmux_panes_managed :: "string \<Rightarrow> discovered_session list" where
  "parse_tmux_panes_managed stdout = parse_tmux_panes_filtered stdout True"

definition tmux_discover_raw :: "runtime \<Rightarrow> host \<Rightarrow> string tun" where
  "tmux_discover_raw rt h =
     (if is_local h then on_local (list_panes_all (rt_machine rt) TMUX_DISCOVER_FORMAT)
      else tbind (tlift (q rt TMUX_DISCOVER_FORMAT)) (\<lambda>fmt.
           tbind (ssh_answer rt (map_ssh_io (rt_env rt)) h (''tmux list-panes -a -F '' @ fmt) SshMux_Interactive) (\<lambda>out.
             tlift (if po_success out then utf8_text (po_stdout out)
                    else if po_status out = Some 1 \<or> po_status out = Some 127 then Inr []
                    else Inl (non_zero out)))))"

definition list_tmux_sessions :: "runtime \<Rightarrow> host \<Rightarrow> discovered_session list tun" where
  "list_tmux_sessions rt h = tbind (tmux_discover_raw rt h) (\<lambda>raw. tret (parse_tmux_panes raw))"

definition list_managed_tmux_sessions :: "runtime \<Rightarrow> host \<Rightarrow> discovered_session list tun" where
  "list_managed_tmux_sessions rt h = tbind (tmux_discover_raw rt h) (\<lambda>raw. tret (parse_tmux_panes_managed raw))"

definition list_all_tmux_sessions :: "runtime \<Rightarrow> host \<Rightarrow> discovered_session list tun" where
  "list_all_tmux_sessions rt h = tbind (tmux_discover_raw rt h) (\<lambda>raw. tret (parse_tmux_panes_all raw))"

definition kill_tmux_session :: "runtime \<Rightarrow> host \<Rightarrow> string \<Rightarrow> unit tun" where
  "kill_tmux_session rt h name =
     (if is_local h then on_local (kill_session (rt_machine rt) name)
      else checked_on rt h name ''tmux kill-session -t \"$sid\"'')"

definition zombie_tmux_targets :: "discovered_session list \<Rightarrow> string set \<Rightarrow> string set \<Rightarrow> string list" where
  "zombie_tmux_targets on_host live_targets protected_targets =
     map ds_name (filter (\<lambda>s. is_managed_name (ds_name s) \<and> \<not> ds_attached s \<and>
       ds_name s \<notin> live_targets \<and> ds_name s \<notin> protected_targets) on_host)"

section \<open>Private files on an SSH host\<close>

definition parent_text :: "string \<Rightarrow> string" where
  "parent_text p = (case path_parent p of Some d \<Rightarrow> d | None \<Rightarrow> ''/'')"

definition remote_atomic_write_script :: "runtime \<Rightarrow> string \<Rightarrow> runtime_error + string" where
  "remote_atomic_write_script rt abs_path =
     and_then (q rt abs_path) (\<lambda>path.
     and_then (q rt (parent_text abs_path)) (\<lambda>dir.
       let existing_guard = remote_regular_single_link_guard path in sh_c rt (
     ''umask 077; set -f; dir='' @ dir @ ''; dst='' @ path @
     ''; committed=0; tmp=; ensure_dir_tree() { path=$1; case \"$path\" in /*) ;; *) return'' @
     '' 1;; esac; current=/; rest=${path#/}; while [ -n \"$rest\" ]; do case \"$rest\" in */*)'' @
     '' part=${rest%%/*}; rest=${rest#*/};; *) part=$rest; rest=;; esac; case \"$part\" in '' @ sq @ sq @
     ''|.) continue;; ..) return 1;; esac; current=${current%/}/$part; if [ -L \"$current\" ];'' @
     '' then return 1; elif [ -e \"$current\" ]; then [ -d \"$current\" ] || return 1; else'' @
     '' (umask 077; mkdir \"$current\") || { [ -d \"$current\" ] && [ ! -L \"$current\" ]; }'' @
     '' || return 1; fi; [ -d \"$current\" ] && [ ! -L \"$current\" ] || return 1; done; };'' @
     '' cleanup() { rc=$?; trap - EXIT HUP INT TERM; [ -n \"$tmp\" ] && [ \"$committed\" -ne 1'' @
     '' ] && rm -f \"$tmp\"; exit \"$rc\"; }; trap cleanup EXIT HUP INT TERM; ensure_dir_tree'' @
     '' \"$dir\" || { printf '' @ sq @ ''%s'' @ bsl @ ''n'' @ sq @ '' '' @ sq @
     ''destination parent is not a real directory tree'' @ sq @
     '' >&2; exit 72; }; if [ -L \"$dst\" ] || { [ -e \"$dst\" ] && ! { '' @ existing_guard @
     ''; }; }; then printf '' @ sq @ ''%s'' @ bsl @ ''n'' @ sq @ '' '' @ sq @
     ''destination is not a single-link regular file'' @ sq @
     '' >&2; exit 72; fi; tmp=$(mktemp \"$dir/.agentum-write.XXXXXX\") || exit 72; cat >'' @
     '' \"$tmp\" || exit 72; chmod 600 \"$tmp\" || exit 72; if [ -L \"$dst\" ] || { [ -e'' @
     '' \"$dst\" ] && ! { '' @ existing_guard @ ''; }; }; then printf '' @ sq @ ''%s'' @ bsl @ ''n'' @ sq @
     '' '' @ sq @ ''destination became unsafe before replacement'' @ sq @
     '' >&2; exit 72; fi; mv -f \"$tmp\" \"$dst\" || exit 72; '' @ existing_guard @
     '' || exit 72; committed=1'')))"

definition remote_file_read_script :: "runtime \<Rightarrow> string \<Rightarrow> runtime_error + string" where
  "remote_file_read_script rt abs_path =
     and_then (q rt abs_path) (\<lambda>path.
     and_then (q rt (parent_text abs_path)) (\<lambda>dir.
       let guard = remote_regular_single_link_guard path in sh_c rt (
     ''set -f; dir='' @ dir @ ''; dst='' @ path @
     ''; validate_dir_tree() { path=$1; case \"$path\" in /*) ;; *) return 1;; esac;'' @
     '' current=/; rest=${path#/}; while [ -n \"$rest\" ]; do case \"$rest\" in */*)'' @
     '' part=${rest%%/*}; rest=${rest#*/};; *) part=$rest; rest=;; esac; case \"$part\" in '' @ sq @ sq @
     ''|.) continue;; ..) return 1;; esac; current=${current%/}/$part; if [ -L \"$current\" ];'' @
     '' then return 2; elif [ ! -e \"$current\" ]; then return 3; elif [ ! -d \"$current\" ];'' @
     '' then return 2; fi; done; }; validate_dir_tree \"$dir\"; dir_rc=$?; if [ \"$dir_rc\"'' @
     '' -eq 3 ]; then printf '' @ sq @ ''AGENTUM_FILE_MISSING'' @ bsl @ ''n'' @ sq @
     ''; elif [ \"$dir_rc\" -ne 0 ]; then printf '' @ sq @ ''%s'' @ bsl @ ''n'' @ sq @ '' '' @ sq @
     ''source parent is not a real directory tree'' @ sq @
     '' >&2; exit 73; elif [ -L \"$dst\" ]; then printf '' @ sq @ ''%s'' @ bsl @ ''n'' @ sq @ '' '' @ sq @
     ''source is a symlink'' @ sq @ '' >&2; exit 73; elif [ ! -e \"$dst\" ]; then printf '' @ sq @
     ''AGENTUM_FILE_MISSING'' @ bsl @ ''n'' @ sq @ ''; elif ! { '' @ guard @ ''; }; then printf '' @ sq @
     ''%s'' @ bsl @ ''n'' @ sq @ '' '' @ sq @ ''source is not a single-link regular file'' @ sq @
     '' >&2; exit 73; elif [ ! -r \"$dst\" ]; then printf '' @ sq @ ''%s'' @ bsl @ ''n'' @ sq @ '' '' @ sq @
     ''file is not readable by the SSH user'' @ sq @ '' >&2; exit 73; else size=$('' @ guard @
     '' && wc -c < \"$dst\") || exit 73; printf '' @ sq @ ''AGENTUM_FILE_PRESENT'' @ bsl @ ''t%s'' @ bsl @
     ''n'' @ sq @ '' \"$size\"; '' @ guard @ '' && cat \"$dst\" || exit 73; fi'')))"

datatype remote_file_probe = FileProbe_Missing | FileProbe_Present string

definition FILE_MISSING :: string where "FILE_MISSING = ''AGENTUM_FILE_MISSING'' @ nl"
definition FILE_PRESENT :: string where "FILE_PRESENT = ''AGENTUM_FILE_PRESENT'' @ tab"

text \<open>The sizes are 64-bit; \<open>checked_add\<close> refuses an overflow.\<close>

definition present_content :: "string \<Rightarrow> nat \<Rightarrow> (remote_file_probe option) option" where
  "present_content stdout p =
     (let size_start = p + length FILE_PRESENT in
      case split_once (CHR 0x0A) (drop size_start stdout) of
        None \<Rightarrow> Some None
      | Some (size_text, content) \<Rightarrow>
          if \<not> valid_utf8 size_text then Some None
          else case parse_u64 (trim size_text) of
            None \<Rightarrow> Some None
          | Some n \<Rightarrow>
              let content_start = size_start + length size_text + 1 in
              if 2 ^ 64 \<le> content_start + n then Some None
              else if content_start + n \<le> length stdout then Some (Some (FileProbe_Present (take n content)))
              else None)"

definition parse_remote_file_probe :: "string \<Rightarrow> remote_file_probe option" where
  "parse_remote_file_probe stdout =
     (let missing = map_option (\<lambda>_. FileProbe_Missing) (find_str FILE_MISSING stdout) in
      case find_str FILE_PRESENT stdout of
        None \<Rightarrow> missing
      | Some p \<Rightarrow> (case present_content stdout p of Some r \<Rightarrow> r | None \<Rightarrow> missing))"

definition file_error :: "host \<Rightarrow> string \<Rightarrow> proc_output \<Rightarrow> runtime_error" where
  "file_error h stage out =
     (if po_status out = Some 255 then ssh_stage_error h stage (po_status out) (utf8_lossy (po_stderr out))
      else RuntimeError_NonZero (po_status out) (bounded_text (trim (utf8_lossy (po_stderr out))) STARTUP_DIAGNOSTIC_BYTES))"

definition not_absolute :: "string \<Rightarrow> string \<Rightarrow> runtime_error" where
  "not_absolute what path = RuntimeError_RemotePrerequisite ''file path'' (what @ '' `'' @ path @ ''` is not absolute'')"

text \<open>The parts of the two functions that concern an SSH host; on this machine they work on the file system.\<close>

definition write_host_file_over_ssh :: "runtime \<Rightarrow> host \<Rightarrow> string \<Rightarrow> string \<Rightarrow> string \<Rightarrow> unit tun" where
  "write_host_file_over_ssh rt h abs_path content stage =
     (if \<not> is_absolute abs_path then tfail (not_absolute ''destination'' abs_path)
      else tbind (tlift (remote_atomic_write_script rt abs_path)) (\<lambda>scr.
           tbind (ssh_output_with_stdin rt h scr content stage) (\<lambda>out.
             tlift (if po_success out then Inr () else Inl (file_error h stage out)))))"

definition read_file_over_ssh :: "runtime \<Rightarrow> host \<Rightarrow> string \<Rightarrow> string option tun" where
  "read_file_over_ssh rt h abs_path =
     (if \<not> is_absolute abs_path then tfail (not_absolute ''source'' abs_path)
      else tbind (tlift (remote_file_read_script rt abs_path)) (\<lambda>scr.
           tbind (ssh_answer rt (ssh_stage_io (rt_env rt) h ''private file read'') h scr SshMux_Interactive) (\<lambda>out.
             tlift (if \<not> po_success out then Inl (file_error h ''private file read'' out)
                    else case parse_remote_file_probe (po_stdout out) of
                      Some FileProbe_Missing \<Rightarrow> Inr None
                    | Some (FileProbe_Present content) \<Rightarrow> Inr (Some (utf8_lossy content))
                    | None \<Rightarrow> Inl (RuntimeError_SshStage ''private file read'' (h_name h)
                        ''remote file probe returned an invalid response'')))))"

definition claude_transcript_read_script :: "runtime \<Rightarrow> string \<Rightarrow> runtime_error + string" where
  "claude_transcript_read_script rt relative0 =
     and_then (q rt relative0) (\<lambda>relative. Inr (
     ''path=\"$HOME\"/'' @ relative @ ''; if [ ! -e \"$path\" ]; then exit 44; fi; cat \"$path\"''))"

definition read_claude_transcript_over_ssh :: "runtime \<Rightarrow> host \<Rightarrow> string \<Rightarrow> uuid \<Rightarrow> (string \<times> string option) tun" where
  "read_claude_transcript_over_ssh rt h workdir session_id =
     (if \<not> is_absolute workdir then tfail RuntimeError_Unsupported
      else let encoded = map (\<lambda>c. if c = CHR ''/'' then CHR ''-'' else c) workdir;
               relative = ''.claude/projects/'' @ encoded @ ''/'' @ session_id @ ''.jsonl''
           in tbind (tlift (claude_transcript_read_script rt relative)) (\<lambda>scr.
              tbind (ssh_answer rt (map_ssh_io (rt_env rt)) h scr SshMux_Interactive) (\<lambda>out.
                tlift (if po_success out
                       then and_then (utf8_text (po_stdout out)) (\<lambda>t. Inr (''$HOME/'' @ relative, Some t))
                       else if po_status out = Some 44 then Inr (''$HOME/'' @ relative, None)
                       else Inl (non_zero out)))))"

section \<open>Where the operations go\<close>

definition script_for :: "runtime \<Rightarrow> string \<Rightarrow> string \<Rightarrow> bool" where
  "script_for rt target scr \<longleftrightarrow>
     remote_exact_tmux_probe_script rt target = Inr scr \<or> (\<exists>operation. remote_exact_tmux_script rt target operation = Inr scr)"

definition runs_script :: "runtime \<Rightarrow> host \<Rightarrow> (string \<Rightarrow> bool) \<Rightarrow> argv \<Rightarrow> bool" where
  "runs_script rt h P c \<longleftrightarrow>
     (\<exists>scr mux prepare cmd ask. P scr \<and> try_ssh_command_opts (te_ssh (rt_env rt)) prepare h scr mux = Inr (cmd, ask) \<and> c = argv_of cmd)"

definition starts_only :: "(argv \<Rightarrow> bool) \<Rightarrow> 'a tun \<Rightarrow> bool" where
  "starts_only P m \<longleftrightarrow> (\<forall>s. \<exists>news. fst (m s) = s\<lparr>ts_log := ts_log s @ news\<rparr> \<and> list_all P news)"

lemma starts_onlyE:
  assumes "starts_only P m"
  obtains news where "fst (m s) = s\<lparr>ts_log := ts_log s @ news\<rparr>" "list_all P news"
  using assms unfolding starts_only_def by blast

lemma starts_nothing: "\<exists>news. s = s\<lparr>ts_log := ts_log s @ news\<rparr> \<and> list_all P news"
  by (intro exI [of _ "[]"]) simp

lemma starts_only_pure: "starts_only P (tret x)" "starts_only P (tfail e)" "starts_only P (tlift r)"
  by (simp_all add: starts_only_def tun_defs starts_nothing)

lemma starts_only_bind:
  assumes "starts_only P m" "\<And>x. starts_only P (f x)"
  shows "starts_only P (tbind m f)"
  unfolding starts_only_def
proof
  fix s :: tunnel_state
  obtain l where l: "fst (m s) = s\<lparr>ts_log := ts_log s @ l\<rparr>" "list_all P l" using assms(1) by (rule starts_onlyE)
  show "\<exists>l. fst (tbind m f s) = s\<lparr>ts_log := ts_log s @ l\<rparr> \<and> list_all P l"
  proof (cases "snd (m s)")
    case (Inl e)
    then show ?thesis using l by (cases "m s") (auto simp: tbind_def)
  next
    case (Inr x)
    obtain l' where "fst (f x (fst (m s))) = (fst (m s))\<lparr>ts_log := ts_log (fst (m s)) @ l'\<rparr>" "list_all P l'"
      using assms(2) by (rule starts_onlyE)
    then show ?thesis
      using l Inr by (intro exI [of _ "l @ l'"]) (cases "m s", auto simp: tbind_def)
  qed
qed

lemma starts_only_lifted:
  assumes "\<And>x. r = Inr x \<Longrightarrow> starts_only P (f x)"
  shows "starts_only P (tbind (tlift r) f)"
proof (cases r)
  case (Inl e)
  then have "tbind (tlift r) f = tfail e" by (simp add: fun_eq_iff tun_defs)
  then show ?thesis by (simp add: starts_only_pure)
next
  case (Inr x)
  then have "tbind (tlift r) f = f x" by (simp add: fun_eq_iff tun_defs)
  then show ?thesis using assms Inr by simp
qed

lemma starts_only_try: "starts_only P m \<Longrightarrow> starts_only P (ttry m)"
  unfolding starts_only_def ttry_def by (simp add: split_beta)

lemma starts_only_if: "(b \<Longrightarrow> starts_only P m) \<Longrightarrow> (\<not> b \<Longrightarrow> starts_only P n) \<Longrightarrow> starts_only P (if b then m else n)"
  by simp

lemma once_starts:
  assumes "P scr"
  shows "\<exists>news r. run_ssh_once (te_transport (rt_env rt)) h scr mux tr = (tr @ news, Inr r) \<and>
    list_all (runs_script rt h P) news"
proof (cases rule: run_ssh_once_cases [of "te_transport (rt_env rt)" h scr mux tr])
  case (nothing e)
  then show ?thesis by (intro exI [of _ "[]"]) simp
next
  case (started cmd ask r)
  then have "runs_script rt h P (argv_of cmd)" using assms unfolding runs_script_def by blast
  then show ?thesis using started by (intro exI [of _ "[argv_of cmd]"]) simp
qed

lemma answer_starts:
  assumes "P scr"
  shows "starts_only (runs_script rt h P) (ssh_answer rt f h scr mux)"
  unfolding starts_only_def
proof
  fix s :: tunnel_state
  let ?t = "te_transport (rt_env rt)"
  obtain n1 r1 where first: "run_ssh_once ?t h scr mux (ts_log s) = (ts_log s @ n1, Inr r1)"
    "list_all (runs_script rt h P) n1"
    using once_starts [of P scr, OF assms] by blast
  obtain n2 r2 where second: "run_ssh_once ?t h scr SshMux_Off (ts_log s @ n1) = ((ts_log s @ n1) @ n2, Inr r2)"
    "list_all (runs_script rt h P) n2"
    using once_starts [of P scr, OF assms] by blast
  have "fst (ssh_output_on ?t h scr mux (ts_log s)) \<in> {ts_log s @ n1, ts_log s @ n1 @ n2}"
    using first second by (auto simp: ssh_output_on_def pbind_def pret_def split: sum.split)
  then show "\<exists>news. fst (ssh_answer rt f h scr mux s) = s\<lparr>ts_log := ts_log s @ news\<rparr> \<and> list_all (runs_script rt h P) news"
    using first(2) second(2)
    by (auto simp: ssh_answer_def split_beta intro: exI [of _ n1] exI [of _ "n1 @ n2"])
qed

abbreviation on_target :: "runtime \<Rightarrow> host \<Rightarrow> string \<Rightarrow> argv \<Rightarrow> bool" where
  "on_target rt h target \<equiv> runs_script rt h (script_for rt target)"

lemma answer_on_target:
  assumes "script_for rt target scr"
  shows "starts_only (on_target rt h target) (ssh_answer rt f h scr mux)"
    "starts_only (on_target rt h target) (runtime_ssh_checked rt h scr)"
    "starts_only (on_target rt h target) (runtime_ssh_stdout rt h scr)"
  unfolding runtime_ssh_checked_def runtime_ssh_stdout_def
  using assms by (auto intro!: starts_only_bind answer_starts [of "script_for rt target"] starts_only_pure)

lemma checked_on_target:
  "starts_only (on_target rt h target) (checked_on rt h target operation)"
  "starts_only (on_target rt h target) (stdout_on rt h target operation)"
  unfolding checked_on_def stdout_on_def
  by (auto intro!: starts_only_lifted answer_on_target simp: script_for_def)

text \<open>
  The contract of an operation on an SSH host: whatever it starts is ssh to the host with a script of a known
  form, and it leaves the memory of the tunnels alone. A pane operation only runs scripts that resolve
  exactly its target first.
\<close>

locale scripted_operation =
  fixes rt :: runtime and h :: host and P :: "string \<Rightarrow> bool" and m :: "'a tun"
  assumes stays: "starts_only (runs_script rt h P) m"
begin

lemma starts_scripts: "\<exists>news. ts_log (fst (m s)) = ts_log s @ news \<and> list_all (runs_script rt h P) news"
  using starts_onlyE [OF stays, of s] by (metis tunnel_state.select_convs(1) tunnel_state.surjective tunnel_state.update_convs(1))

lemma memory_untouched: "ts_tunnels (fst (m s)) = ts_tunnels s" "ts_retired (fst (m s)) = ts_retired s"
  using starts_onlyE [OF stays, of s]
  by (metis tunnel_state.select_convs(2) tunnel_state.surjective tunnel_state.update_convs(1))
    (metis starts_onlyE [OF stays, of s] tunnel_state.select_convs(3) tunnel_state.surjective tunnel_state.update_convs(1))

end

locale remote_operation = scripted_operation rt h "script_for rt target" m
  for rt :: runtime and h :: host and target :: string and m :: "'a tun"

lemma has_session_on_target:
  "\<not> is_local h \<Longrightarrow> starts_only (on_target rt h target) (host_has_session rt h target)"
  unfolding host_has_session_def
  by (auto intro!: starts_only_lifted starts_only_bind answer_on_target starts_only_pure simp: script_for_def)

lemma kill_on_target:
  "\<not> is_local h \<Longrightarrow> starts_only (on_target rt h target) (host_kill_session rt h target)"
  unfolding host_kill_session_def
  by (simp, intro starts_only_bind has_session_on_target starts_only_if starts_only_pure checked_on_target)

lemma keys_on_target:
  "\<not> is_local h \<Longrightarrow> starts_only (on_target rt h target) (host_send_keys rt h target keys append_enter)"
  unfolding host_send_keys_def by (auto intro!: starts_only_lifted checked_on_target)

lemma await_on_target:
  "\<not> is_local h \<Longrightarrow> starts_only (on_target rt h target) (await_gone rt h target late limit k elapsed)"
proof (induction rt h target late limit k elapsed rule: await_gone.induct)
  case (1 rt h target late limit k elapsed)
  show ?case
  proof (cases "limit \<le> elapsed")
    case True
    then show ?thesis by (subst await_gone.simps) (simp add: starts_only_pure)
  next
    case False
    then have "starts_only (on_target rt h target)
        (if \<not> here then tret True else await_gone rt h target late limit (Suc k) (elapsed + 150 + late k))" for here
      using 1 by (cases here) (simp_all add: starts_only_pure)
    then show ?thesis
      using False 1(2) by (subst await_gone.simps) (simp only: if_False, intro starts_only_bind has_session_on_target)
  qed
qed

lemma stop_on_target:
  "\<not> is_local h \<Longrightarrow> starts_only (on_target rt h target) (host_graceful_stop rt h target late limit)"
  unfolding host_graceful_stop_def
  by (simp, intro starts_only_bind starts_only_try keys_on_target await_on_target starts_only_if starts_only_pure kill_on_target)

lemma chunks_on_target: "starts_only (on_target rt h target) (send_chunks_on rt h target cs)"
  by (induction cs) (auto intro!: starts_only_bind checked_on_target starts_only_pure)

lemma snapshot_on_target:
  "starts_only (on_target rt h target) (capture_pane_with_log_offset rt h target out_path)"
  "starts_only (on_target rt h target) (remote_pane_stream_state rt h target out_path)"
  unfolding capture_pane_with_log_offset_def remote_pane_stream_state_def
  by (auto intro!: starts_only_lifted starts_only_bind starts_only_pure answer_on_target
      simp: script_for_def snapshot_with_offset_script_def remote_pane_stream_state_script_def and_then_eq_Inr)

lemma pipe_on_target:
  "\<not> is_local h \<Longrightarrow> starts_only (on_target rt h target) (host_pipe_pane rt prepared h target out_path)"
  unfolding host_pipe_pane_def
  by (auto intro!: starts_only_lifted answer_on_target simp: script_for_def remote_pipe_script_def and_then_eq_Inr)

datatype pane_op =
    Pane_Has | Pane_Kill | Pane_Keys string bool | Pane_Stop "nat \<Rightarrow> nat" nat | Pane_CaptureAnsi | Pane_CaptureVisible
  | Pane_Title | Pane_Bytes string | Pane_Resize "16 word" "16 word" | Pane_Relative "16 word"
  | Pane_Pipe string | Pane_Unpipe | Pane_Snapshot string | Pane_State string | Pane_KillListed

text \<open>Every operation on a pane, its answer left out.\<close>

definition ignore :: "'a tun \<Rightarrow> unit tun" where
  "ignore m = tbind m (\<lambda>_. tret ())"

fun pane_run :: "runtime \<Rightarrow> host \<Rightarrow> string \<Rightarrow> pane_op \<Rightarrow> unit tun" where
  "pane_run rt h target Pane_Has = ignore (host_has_session rt h target)"
| "pane_run rt h target Pane_Kill = host_kill_session rt h target"
| "pane_run rt h target (Pane_Keys keys enter) = host_send_keys rt h target keys enter"
| "pane_run rt h target (Pane_Stop late limit) = host_graceful_stop rt h target late limit"
| "pane_run rt h target Pane_CaptureAnsi = ignore (host_capture_pane_ansi rt h target)"
| "pane_run rt h target Pane_CaptureVisible = ignore (host_capture_pane_visible rt h target)"
| "pane_run rt h target Pane_Title = ignore (host_pane_title rt h target)"
| "pane_run rt h target (Pane_Bytes b) = host_send_bytes rt h target b"
| "pane_run rt h target (Pane_Resize c r) = host_resize_window rt h target c r"
| "pane_run rt h target (Pane_Relative d) = host_resize_window_relative rt h target d"
| "pane_run rt h target (Pane_Pipe p) = host_pipe_pane rt (Inl TmuxError_Quote) h target p"
| "pane_run rt h target Pane_Unpipe = host_unpipe_pane rt h target"
| "pane_run rt h target (Pane_Snapshot p) = ignore (capture_pane_with_log_offset rt h target p)"
| "pane_run rt h target (Pane_State p) = ignore (remote_pane_stream_state rt h target p)"
| "pane_run rt h target Pane_KillListed = kill_tmux_session rt h target"

lemma ignore_starts: "starts_only P m \<Longrightarrow> starts_only P (ignore m)"
  unfolding ignore_def by (intro starts_only_bind starts_only_pure)

lemma pane_run_on_target:
  assumes "\<not> is_local h"
  shows "starts_only (on_target rt h target) (pane_run rt h target op)"
  using assms
  by (cases op)
    (simp_all add: ignore_starts has_session_on_target kill_on_target keys_on_target stop_on_target snapshot_on_target
      pipe_on_target chunks_on_target checked_on_target starts_only_pure Let_def host_capture_pane_ansi_def
      host_capture_pane_visible_def host_pane_title_def host_send_bytes_def host_resize_window_def
      host_resize_window_relative_def host_unpipe_pane_def kill_tmux_session_def
      starts_only_lifted starts_only_bind split_beta)

interpretation pane: remote_operation rt "h\<lparr>h_kind := HostKind_Ssh user hostname port auth\<rparr>" target
    "pane_run rt (h\<lparr>h_kind := HostKind_Ssh user hostname port auth\<rparr>) target op" for rt h user hostname port auth target op
  by unfold_locales (rule pane_run_on_target, simp add: is_local_def)



section \<open>Files come back whole\<close>

lemma strip_blank: "strip_one_of (ws_encodings) (CHR '' '' # s) = Some s"
  by (simp add: ws_encodings_def)

lemma trim_start_blank: "trim_start (CHR '' '' # s) = trim_start s"
  unfolding trim_start_def by (subst strip_all_of.simps) (simp add: strip_blank)

lemma trim_start_blanks: "trim_start (replicate k (CHR '' '') @ s) = trim_start s"
  by (induction k) (simp_all add: trim_start_blank)

lemma strip_one_of_head: "list_all (\<lambda>w. w \<noteq> [] \<and> hd w \<noteq> c) ws \<Longrightarrow> strip_one_of ws (c # s) = None"
proof (induction ws)
  case (Cons w ws)
  then show ?case by (cases w) auto
qed simp

lemma digit_no_space:
  assumes "is_ascii_digit c"
  shows "strip_one_of ws_encodings (c # s) = None" "strip_one_of (map rev ws_encodings) (c # s) = None"
proof -
  have "list_all (\<lambda>w. w \<noteq> [] \<and> \<not> is_ascii_digit (hd w)) ws_encodings"
    "list_all (\<lambda>w. w \<noteq> [] \<and> \<not> is_ascii_digit (hd w)) (map rev ws_encodings)"
    by code_simp+
  then have "list_all (\<lambda>w. w \<noteq> [] \<and> hd w \<noteq> c) ws_encodings" "list_all (\<lambda>w. w \<noteq> [] \<and> hd w \<noteq> c) (map rev ws_encodings)"
    using assms by (auto simp: list_all_iff)
  then show "strip_one_of ws_encodings (c # s) = None" "strip_one_of (map rev ws_encodings) (c # s) = None"
    by (simp_all add: strip_one_of_head)
qed

lemma digits_no_space:
  assumes "list_all is_ascii_digit ds"
  shows "strip_one_of ws_encodings ds = None" "strip_one_of (map rev ws_encodings) ds = None"
proof -
  have "strip_one_of ws_encodings [] = None" "strip_one_of (map rev ws_encodings) [] = None"
    by (simp_all add: ws_encodings_def)
  then show "strip_one_of ws_encodings ds = None" "strip_one_of (map rev ws_encodings) ds = None"
    using assms digit_no_space by (cases ds; simp)+
qed

lemma trim_digits: "list_all is_ascii_digit ds \<Longrightarrow> trim ds = ds"
proof -
  assume ds: "list_all is_ascii_digit ds"
  have start: "strip_all_of ws_encodings ds = ds"
    by (subst strip_all_of.simps) (simp add: digits_no_space(1) [OF ds])
  have "list_all is_ascii_digit (rev ds)" using ds by simp
  then have "strip_all_of (map rev ws_encodings) (rev ds) = rev ds"
    by (subst strip_all_of.simps) (simp add: digits_no_space(2))
  then show "trim ds = ds" using start by (simp add: trim_def trim_start_def trim_end_def)
qed

lemma trim_padded: "list_all is_ascii_digit ds \<Longrightarrow> trim (replicate k (CHR '' '') @ ds) = ds"
  using trim_digits [of ds] by (simp add: trim_def trim_start_blanks)

lemma parse_u64_nat: "n < 2 ^ 64 \<Longrightarrow> parse_u64 (string_of_nat n) = Some n"
proof -
  assume n: "n < 2 ^ 64"
  have "hd (string_of_nat n) \<noteq> CHR ''+''"
    using string_of_nat_digits [of n] string_of_nat_nonempty [of n]
    by (cases "string_of_nat n") (auto simp: is_ascii_digit_def)
  then show ?thesis using n string_of_nat_digits [of n] by (simp add: parse_u64_def Let_def)
qed

definition file_record :: "nat \<Rightarrow> string \<Rightarrow> string" where
  "file_record pad content = FILE_PRESENT @ replicate pad (CHR '' '') @ string_of_nat (length content) @ nl @ content"

lemma ascii_valid: "list_all (\<lambda>c. (of_char c :: nat) < 128) s \<Longrightarrow> valid_utf8 s"
  by (induction s) (simp_all add: utf8_extra_def utf8_char_ok_def byte_def)

lemma size_field_ascii: "list_all (\<lambda>c. (of_char c :: nat) < 128) (replicate pad (CHR '' '') @ string_of_nat n)"
  using string_of_nat_digits [of n] by (auto simp: list_all_iff is_ascii_digit_def)

lemma size_field_line: "CHR 0x0A \<notin> set (replicate pad (CHR '' '') @ string_of_nat n)"
  using string_of_nat_digits [of n] by (auto simp: list_all_iff is_ascii_digit_def)

lemma present_contentI:
  assumes "split_once (CHR 0x0A) (drop (p + length FILE_PRESENT) s) = Some (f, c)" "valid_utf8 f"
    "parse_u64 (trim f) = Some n" "p + length FILE_PRESENT + length f + 1 + n < 2 ^ 64"
    "p + length FILE_PRESENT + length f + 1 + n \<le> length s"
  shows "present_content s p = Some (Some (FileProbe_Present (take n c)))"
  using assms by (simp add: present_content_def Let_def)



text \<open>A transfer that was cut short is never taken for the file.\<close>

lemma present_is_complete:
  assumes "parse_remote_file_probe stdout = Some (FileProbe_Present content)"
  shows "\<exists>before field rest. stdout = before @ FILE_PRESENT @ field @ [CHR 0x0A] @ content @ rest \<and>
    parse_u64 (trim field) = Some (length content)"
proof -
  obtain p where p: "find_str FILE_PRESENT stdout = Some p" "present_content stdout p = Some (Some (FileProbe_Present content))"
    using assms by (auto simp: parse_remote_file_probe_def Let_def split: option.splits)
  obtain before tail where cut: "stdout = before @ FILE_PRESENT @ tail" "length before = p"
    using find_str_Some [OF p(1)] by blast
  obtain field rest n where f: "split_once (CHR 0x0A) tail = Some (field, rest)" "parse_u64 (trim field) = Some n"
    "p + length FILE_PRESENT + length field + 1 + n \<le> length stdout" "content = take n rest"
    using p(2) cut by (auto simp: present_content_def Let_def split: option.splits if_splits)
  have tail: "tail = field @ CHR 0x0A # rest"
    using f(1) by (induction "CHR 0x0A" tail arbitrary: field rest rule: split_once.induct) (auto split: if_splits option.splits)
  then have "n \<le> length rest" using f(3) cut by simp
  then have "length content = n" using f(4) by simp
  then show ?thesis
    using cut(1) tail f(2,4) by (intro exI [of _ before] exI [of _ field] exI [of _ "drop n rest"]) simp
qed

section \<open>Typed input\<close>

text \<open>What the loop on the host hands to \<open>tmux send-keys -H\<close> for a line: the bytes of its words.\<close>

definition typed_by_line :: "string \<Rightarrow> string option" where
  "typed_by_line line = hex_pairs (filter (\<lambda>c. c \<noteq> CHR '' '') line)"

lemma hex_byte_not:
  "d \<in> set (hex_byte c) \<Longrightarrow> d \<noteq> CHR '' '' \<and> d \<noteq> CHR 0x0A \<and> d \<noteq> CHR 0x0D"
proof -
  have "hex_digit n \<noteq> CHR '' '' \<and> hex_digit n \<noteq> CHR 0x0A \<and> hex_digit n \<noteq> CHR 0x0D" if "n < 16" for n
  proof -
    have "n \<in> set [0..<16]" using that by simp
    moreover have "list_all (\<lambda>n. hex_digit n \<noteq> CHR '' '' \<and> hex_digit n \<noteq> CHR 0x0A \<and> hex_digit n \<noteq> CHR 0x0D) [0..<16]"
      by code_simp
    ultimately show ?thesis by (simp add: list_all_iff)
  qed
  moreover assume "d \<in> set (hex_byte c)"
  moreover have "(of_char c :: nat) div 16 < 16" using nat_of_char_less_256 [of c] by linarith
  ultimately show ?thesis unfolding hex_byte_def Let_def
    by (metis empty_iff insert_iff list.set mod_less_divisor zero_less_numeral)
qed

lemma words_filtered: "filter (\<lambda>c. c \<noteq> CHR '' '') (join_with '' '' (map hex_byte chunk)) = concat (map hex_byte chunk)"
proof (induction chunk)
  case (Cons b chunk)
  have "filter (\<lambda>c. c \<noteq> CHR '' '') (hex_byte b) = hex_byte b"
    using hex_byte_not by (intro filter_True) blast
  then show ?case using Cons by (cases chunk) simp_all
qed simp

lemma words_set: "d \<in> set (join_with '' '' (map hex_byte chunk)) \<Longrightarrow> d \<noteq> CHR 0x0A \<and> d \<noteq> CHR 0x0D"
proof (induction chunk)
  case (Cons b chunk)
  then show ?case using hex_byte_not by (cases chunk) auto
qed simp

lemma words_length: "chunk \<noteq> [] \<Longrightarrow> length (join_with '' '' (map hex_byte chunk)) = 3 * length chunk - 1"
proof (induction chunk)
  case (Cons b chunk)
  then show ?case by (cases chunk) (simp_all)
qed simp

lemma lines_of_frames:
  "str_lines (concat (map input_line cs)) = map (\<lambda>c. join_with '' '' (map hex_byte c)) cs"
proof (induction cs)
  case Nil
  then show ?case by (simp add: str_lines_def)
next
  case (Cons c cs)
  let ?w = "join_with '' '' (map hex_byte c)"
  have "terminated (input_line c)" by (simp add: terminated_def input_line_def nl_def)
  then have "str_lines (input_line c @ concat (map input_line cs)) = str_lines (input_line c) @ str_lines (concat (map input_line cs))"
    by (rule str_lines_append)
  moreover have "str_lines (input_line c) = [?w]"
  proof -
    have "split_on (CHR 0x0A) (?w @ [CHR 0x0A]) = [?w, []]"
      using split_on_append [of "CHR 0x0A" ?w "[]"] split_on_absent [of "CHR 0x0A" ?w] words_set by fastforce
    moreover have "strip_cr ?w = ?w"
      using words_set [of "last ?w" c] by (cases "?w = []") (auto simp: strip_cr_def)
    ultimately show ?thesis by (simp add: str_lines_def input_line_def nl_def)
  qed
  ultimately show ?case using Cons by simp
qed

lemma collected_frames:
  "map typed_by_line (map (\<lambda>c. join_with '' '' (map hex_byte c)) cs) = map Some cs"
  by (simp add: typed_by_line_def words_filtered hex_pairs_concat)


section \<open>The listing\<close>

lemma names_add_pane:
  "map ds_name (add_pane n a c p ds) = map ds_name ds @ (if n \<in> ds_name ` set ds then [] else [n])"
  by (induction ds) (auto simp: first_seen_def)

lemma filter_add_pane:
  "filter (\<lambda>d. P (ds_name d)) (add_pane n a c p ds) =
     (if P n then add_pane n a c p (filter (\<lambda>d. P (ds_name d)) ds) else filter (\<lambda>d. P (ds_name d)) ds)"
  by (induction ds) (auto simp: first_seen_def)

lemma filter_collect:
  "filter (\<lambda>d. P (ds_name d)) (collect_line (\<lambda>n. True) line ds) = collect_line P line (filter (\<lambda>d. P (ds_name d)) ds)"
  by (auto simp: collect_line_def filter_add_pane split: option.split)

lemma filter_collect_lines:
  "filter (\<lambda>d. P (ds_name d)) (fold (collect_line (\<lambda>n. True)) ls ds) = fold (collect_line P) ls (filter (\<lambda>d. P (ds_name d)) ds)"
  by (induction ls arbitrary: ds) (simp_all add: filter_collect)

lemma distinct_collect:
  "distinct (map ds_name ds) \<Longrightarrow> distinct (map ds_name (fold (collect_line P) ls ds))"
proof (induction ls arbitrary: ds)
  case (Cons l ls)
  have "distinct (map ds_name (collect_line P l ds))"
    using Cons.prems by (auto simp: collect_line_def names_add_pane split: option.split)
  then show ?case using Cons.IH by simp
qed simp


section \<open>The two resolvers\<close>

text \<open>What the resolution of this file does in a POSIX shell: no check of the id, otherwise the loop of \<open>ssh.rs\<close>.\<close>

fun resolution_loop :: "bool \<Rightarrow> string \<Rightarrow> string list \<Rightarrow> string option" where
  "resolution_loop by_id wanted [] = None"
| "resolution_loop by_id wanted (row # rows) =
     (case read_row row of (session_id, session_name) \<Rightarrow>
        if (if by_id then session_id else session_name) = wanted then Some session_id
        else resolution_loop by_id wanted rows)"

text \<open>
  The server and the tmux crate each bring a shell loop that resolves a session on a host; on every
  listing tmux can print (an id before the first underscore of each row) they find the same session.
\<close>

theorem resolvers_agree:
  assumes "list_all (\<lambda>row. numbered (fst (read_row row))) rows"
  shows "resolution_loop by_id target rows = lookup_loop by_id target rows"
  using assms by (induction rows) (auto split: prod.splits)

lemma resolvers_agree_witness:
  "resolution_loop False ''agentum-a'' [''$2_agentum-a_b'', ''$1_agentum-a''] =
     lookup_loop False ''agentum-a'' [''$2_agentum-a_b'', ''$1_agentum-a'']"
  by (rule resolvers_agree) code_simp

text \<open>The comment says that the last field of \<open>read\<close> preserves every underscore of a name; the last one is dropped.\<close>

lemma resolution_drops_an_underscore:
  "resolution_loop False ''agentum-a_'' [''$1_agentum-a_''] = None"
  "resolution_loop False ''agentum-a'' [''$1_agentum-a_''] = Some ''$1''"
  by code_simp+

end
