(* ===== verification/Host_Readiness.thy ===== *)
theory Host_Readiness
  imports Host_Panes
begin

text \<open>
  The readiness of a host and what is installed on it: \<open>readiness\<close>, \<open>bootstrap\<close>, \<open>install_agents\<close> and
  \<open>provision_skills\<close> of \<open>crates/agentum-server/src/host_runtime.rs\<close> with \<open>host_install_hints.rs\<close>, and the
  git and file commands on a host at the end of that file. The disk of this machine and its \<open>PATH\<close> are
  parameters that may answer differently after every process.
\<close>

section \<open>The text of an error\<close>

definition status_text :: "int option \<Rightarrow> string" where
  "status_text status = (case status of None \<Rightarrow> ''None'' | Some n \<Rightarrow> ''Some('' @ string_of_int n @ '')'')"

fun tmux_error_text :: "tunnel_env \<Rightarrow> tmux_error \<Rightarrow> string" where
  "tmux_error_text te (TmuxError_NonZero status stderr) =
     ''tmux exited with status '' @ string_of_int status @ '' (stderr: '' @ stderr @ '')''"
| "tmux_error_text te TmuxError_NotUtf8 = ''tmux output was not valid utf-8''"
| "tmux_error_text te (TmuxError_Parse m) = ''could not parse tmux output: '' @ m"
| "tmux_error_text te (TmuxError_Io e) = te_io_text te e"
| "tmux_error_text te TmuxError_Quote = ''could not shell-quote command components''"
| "tmux_error_text te TmuxError_InvalidEnvironmentName = ''invalid launch environment variable name''"

fun runtime_error_text :: "tunnel_env \<Rightarrow> runtime_error \<Rightarrow> string" where
  "runtime_error_text te RuntimeError_Unsupported = ''unsupported operation on host kind''"
| "runtime_error_text te (RuntimeError_NonZero status stderr) =
     ''ssh/tmux exited with status '' @ status_text status @ '' (stderr: '' @ stderr @ '')''"
| "runtime_error_text te RuntimeError_NotUtf8 = ''output was not valid utf-8''"
| "runtime_error_text te RuntimeError_Quote = ''could not shell-quote remote command''"
| "runtime_error_text te RuntimeError_Timeout = ''ssh command timed out''"
| "runtime_error_text te (RuntimeError_RemotePrerequisite stage m) =
     ''remote '' @ stage @ '' prerequisite failed: '' @ m"
| "runtime_error_text te (RuntimeError_SshStage stage h m) =
     ''SSH '' @ stage @ '' failed for host `'' @ h @ ''`: '' @ m"
| "runtime_error_text te (RuntimeError_TmuxSetup stage status stderr) =
     ''remote tmux setup failed during '' @ stage @ '' (status '' @ status_text status @ ''): '' @ stderr"
| "runtime_error_text te (RuntimeError_EarlyExit program status diagnostic) =
     ''remote `'' @ program @ ''` exited during startup with status '' @ status_text status @ diagnostic"
| "runtime_error_text te (RuntimeError_Tunnel operation m) = ''SSH tunnel '' @ operation @ '' failed: '' @ m"
| "runtime_error_text te (RuntimeError_Bootstrap m) = m"
| "runtime_error_text te (RuntimeError_Io e) = te_io_text te e"
| "runtime_error_text te (RuntimeError_Tmux e) = tmux_error_text te e"

text \<open>What a handler keeps of an error: whether the host lacks something, and the text.\<close>

definition handler_error :: "tunnel_env \<Rightarrow> runtime_error \<Rightarrow> host_runtime_error" where
  "handler_error te e =
     (case e of
        RuntimeError_RemotePrerequisite stage m \<Rightarrow> RemotePrerequisite (runtime_error_text te e)
      | _ \<Rightarrow> OtherRuntimeError (runtime_error_text te e))"

section \<open>The report\<close>

record system_info =
  si_uname :: "string option"
  si_pkg_manager :: string
  si_sudo_nopasswd :: "bool option"

record dep_check =
  dc_id :: string
  dc_label :: string
  dc_installed :: bool
  dc_install_hint :: "string option"
  dc_bootstrapable :: bool

record agent_dep_check =
  ac_id :: string
  ac_binary :: string
  ac_installed :: bool
  ac_path :: "string option"
  ac_install_hint :: "string option"
  ac_bootstrapable :: bool

record skill_check =
  sk_id :: string
  sk_label :: string
  sk_installed :: bool

record host_readiness =
  rd_ok :: bool
  rd_message :: string
  rd_system :: system_info
  rd_required :: "dep_check list"
  rd_agents :: "agent_dep_check list"
  rd_skills :: "skill_check list"

record host_probe =
  hp_ok :: bool
  hp_message :: string
  hp_uname :: "string option"
  hp_tmux :: bool
  hp_git :: bool

record probe_output =
  pb_uname :: "string option"
  pb_pkg_manager :: string
  pb_sudo_nopasswd :: "bool option"
  pb_bins :: "string \<rightharpoonup> string"

definition REQUIRED_DEPS :: "string list" where
  "REQUIRED_DEPS = [''tmux'', ''git'']"

definition probe_binaries :: "string list" where
  "probe_binaries = fold (\<lambda>b bins. if b \<in> set bins then bins else bins @ [b]) (REQUIRED_DEPS @ map binary_for probed_tools) []"

definition found :: "probe_output \<Rightarrow> string \<Rightarrow> string option" where
  "found pb b = (case pb_bins pb b of Some p \<Rightarrow> if p = [] then None else Some p | None \<Rightarrow> None)"

definition missing_message :: "string list \<Rightarrow> string" where
  "missing_message missing =
     (if missing = [] then ''host ready''
      else string_of_nat (length missing) @ '' required '' @
        (if length missing = 1 then ''dependency'' else ''dependencies'') @ '' missing: '' @ join_with '', '' missing)"

definition assemble_readiness :: "probe_output \<Rightarrow> host_readiness" where
  "assemble_readiness pb =
     (let required = map (\<lambda>d. \<lparr>dc_id = d, dc_label = d, dc_installed = found pb d \<noteq> None,
            dc_install_hint = None, dc_bootstrapable = False\<rparr>) REQUIRED_DEPS;
          missing = map dc_id (filter (\<lambda>d. \<not> dc_installed d) required)
      in \<lparr>rd_ok = (missing = []), rd_message = missing_message missing,
          rd_system = \<lparr>si_uname = pb_uname pb, si_pkg_manager = pb_pkg_manager pb, si_sudo_nopasswd = pb_sudo_nopasswd pb\<rparr>,
          rd_required = required,
          rd_agents = map (\<lambda>t. \<lparr>ac_id = t, ac_binary = binary_for t, ac_installed = found pb (binary_for t) \<noteq> None,
            ac_path = found pb (binary_for t), ac_install_hint = None, ac_bootstrapable = False\<rparr>) probed_tools,
          rd_skills = []\<rparr>)"

definition empty_probe :: probe_output where
  "empty_probe = \<lparr>pb_uname = None, pb_pkg_manager = ''unknown'', pb_sudo_nopasswd = None, pb_bins = Map.empty\<rparr>"

definition unreachable_readiness :: "string \<Rightarrow> host_readiness" where
  "unreachable_readiness message = (assemble_readiness empty_probe)\<lparr>rd_message := message\<rparr>"

section \<open>Hints\<close>

definition BOOTSTRAPABLE :: "string list" where
  "BOOTSTRAPABLE = [''tmux'', ''git'']"

definition agent_install_command :: "string \<Rightarrow> string option" where
  "agent_install_command tool =
     map_of
       [(''claude'', ''npm install -g @anthropic-ai/claude-code''),
        (''codex'', ''npm install -g @openai/codex''),
        (''gemini'', ''npm install -g @google/gemini-cli''),
        (''cursor'', ''curl https://cursor.com/install -fsS | bash''),
        (''agent'', ''curl https://cursor.com/install -fsS | bash''),
        (''opencode'', ''curl -fsSL https://opencode.ai/install | bash''),
        (''hermes'', ''curl -fsSL https://raw.githubusercontent.com/NousResearch/hermes-agent/main/scripts/install.sh | bash''),
        (''aider'', ''python -m pip install aider-install && aider-install'')] tool"

definition agent_install_hint :: "string \<Rightarrow> string" where
  "agent_install_hint tool =
     (case agent_install_command tool of
        Some c \<Rightarrow> c | None \<Rightarrow> ''install the agent CLI and ensure its binary is on PATH'')"

definition bootstrap_command :: "string \<Rightarrow> string list \<Rightarrow> string option" where
  "bootstrap_command pkg_manager packages =
     (if packages = [] then None
      else let pkgs = join_with '' '' packages in
        if pkg_manager = ''apt'' then Some (''sudo apt-get install -y '' @ pkgs)
        else if pkg_manager = ''dnf'' then Some (''sudo dnf install -y '' @ pkgs)
        else if pkg_manager = ''pacman'' then Some (''sudo pacman -S --needed '' @ pkgs)
        else if pkg_manager = ''brew'' then Some (''brew install '' @ pkgs)
        else None)"

definition dep_hint :: "string \<Rightarrow> dep_check \<Rightarrow> dep_check" where
  "dep_hint pkg d =
     d\<lparr>dc_bootstrapable := dc_id d \<in> set BOOTSTRAPABLE,
       dc_install_hint :=
         (if dc_installed d then None
          else Some (case bootstrap_command pkg [dc_id d] of
                       Some c \<Rightarrow> c | None \<Rightarrow> ''install '' @ dc_id d @ '' with your package manager''))\<rparr>"

definition agent_hint :: "agent_dep_check \<Rightarrow> agent_dep_check" where
  "agent_hint a =
     a\<lparr>ac_bootstrapable := False,
       ac_install_hint := (if ac_installed a then None else Some (agent_install_hint (ac_id a)))\<rparr>"

definition fill_hints :: "host_readiness \<Rightarrow> host_readiness" where
  "fill_hints r =
     r\<lparr>rd_required := map (dep_hint (si_pkg_manager (rd_system r))) (rd_required r),
       rd_agents := map agent_hint (rd_agents r)\<rparr>"

section \<open>Asking a host\<close>

text \<open>
  The disk of this machine: \<open>HOME\<close>, a lookup in \<open>PATH\<close>, the entries of a directory (with whether one is
  a regular file, or the error of reading it), a file test and a read; the encoder of base64; whether an I/O error is \<open>NotFound\<close>.
\<close>

record disk =
  dk_home :: "string option"
  dk_which :: "argv list \<Rightarrow> string \<Rightarrow> string option"
  dk_entries :: "argv list \<Rightarrow> string \<Rightarrow> io_error + (io_error + string \<times> bool) list"
  dk_is_file :: "argv list \<Rightarrow> string \<Rightarrow> bool"
  dk_read :: "argv list \<Rightarrow> string \<Rightarrow> io_error + string"
  dk_exists :: "argv list \<Rightarrow> string \<Rightarrow> bool"
  dk_create_dir_all :: "argv list \<Rightarrow> string \<Rightarrow> io_error + unit"
  dk_not_found :: "io_error \<Rightarrow> bool"
  dk_encode64 :: "string \<Rightarrow> string"

definition local_process :: "runtime \<Rightarrow> argv \<Rightarrow> (io_error + proc_output) tun" where
  "local_process rt c s = (s\<lparr>ts_log := ts_log s @ [c]\<rparr>, Inr (m_run (rt_machine rt) (ts_log s) c))"

definition looking :: "(argv list \<Rightarrow> 'a) \<Rightarrow> 'a tun" where
  "looking f s = (s, Inr (f (ts_log s)))"

definition probe_script_head :: string where
  "probe_script_head =
     ''printf '' @ sq @ ''uname'' @ bsl @ ''t%s'' @ bsl @ ''n'' @ sq @ '' \"$(uname -sr 2>/dev/null)\"; '' @
     ''pm=unknown; for c in apt-get dnf pacman brew; do if command -v \"$c\" >/dev/null 2>&1;'' @
     '' then case \"$c\" in apt-get) pm=apt;; *) pm=\"$c\";; esac; break; fi; done; '' @
     ''printf '' @ sq @ ''pkg'' @ bsl @ ''t%s'' @ bsl @ ''n'' @ sq @ '' \"$pm\"; '' @
     ''if sudo -n true >/dev/null 2>&1; then printf '' @ sq @ ''sudo'' @ bsl @ ''tyes'' @ bsl @ ''n'' @ sq @
     ''; else printf '' @ sq @ ''sudo'' @ bsl @ ''tno'' @ bsl @ ''n'' @ sq @ ''; fi; ''"

fun probe_script_bins :: "runtime \<Rightarrow> string list \<Rightarrow> runtime_error + string" where
  "probe_script_bins rt [] = Inr []"
| "probe_script_bins rt (b # bs) =
     and_then (q rt b) (\<lambda>qb. and_then (probe_script_bins rt bs) (\<lambda>rest. Inr (
       ''printf '' @ sq @ ''bin'' @ bsl @ ''t%s'' @ bsl @ ''t%s'' @ bsl @ ''n'' @ sq @ '' '' @ qb @
       '' \"$(command -v '' @ qb @ '' 2>/dev/null)\"; '' @ rest)))"

definition build_probe_script :: "runtime \<Rightarrow> string list \<Rightarrow> runtime_error + string" where
  "build_probe_script rt bins = and_then (probe_script_bins rt bins) (\<lambda>rest. Inr (probe_script_head @ rest))"

text \<open>\<open>splitn(2)\<close> at a tab, the missing part empty.\<close>

definition halves :: "string \<Rightarrow> string \<times> string" where
  "halves line = (case split_once (CHR 0x09) line of None \<Rightarrow> (line, []) | Some p \<Rightarrow> p)"

definition probe_line :: "probe_output \<Rightarrow> string \<Rightarrow> probe_output" where
  "probe_line pb line0 =
     (case halves (trim_end_cr line0) of (key, rest) \<Rightarrow>
        if key = ''uname'' then (if trim rest = [] then pb else pb\<lparr>pb_uname := Some (trim rest)\<rparr>)
        else if key = ''sudo'' then pb\<lparr>pb_sudo_nopasswd := Some (trim rest = ''yes'')\<rparr>
        else if key = ''pkg'' then pb\<lparr>pb_pkg_manager := (if trim rest = [] then ''unknown'' else trim rest)\<rparr>
        else if key = ''bin'' then
          (case halves rest of (name, path) \<Rightarrow>
             if trim name = [] then pb else pb\<lparr>pb_bins := (pb_bins pb)(trim name \<mapsto> trim path)\<rparr>)
        else pb)"

definition parse_probe_output :: "string \<Rightarrow> probe_output" where
  "parse_probe_output stdout = fold (\<lambda>line pb. probe_line pb line) (str_lines stdout) empty_probe"

definition probe_ssh :: "runtime \<Rightarrow> host \<Rightarrow> probe_output tun" where
  "probe_ssh rt h =
     tbind (tlift (build_probe_script rt probe_binaries)) (\<lambda>inner.
     tbind (tlift (sh_c rt inner)) (\<lambda>scr.
     tbind (runtime_ssh_stdout rt h scr) (\<lambda>stdout. tret (parse_probe_output stdout))))"

definition detect_local_pkg_manager :: "disk \<Rightarrow> argv list \<Rightarrow> string" where
  "detect_local_pkg_manager dk log =
     (case find (\<lambda>(b, name). dk_which dk log b \<noteq> None)
             [(''apt-get'', ''apt''), (''dnf'', ''dnf''), (''pacman'', ''pacman''), (''brew'', ''brew'')] of
        Some (b, name) \<Rightarrow> name | None \<Rightarrow> ''unknown'')"

definition uname_of :: "io_error + proc_output \<Rightarrow> string option" where
  "uname_of r =
     (case r of
        Inl _ \<Rightarrow> None
      | Inr out \<Rightarrow> if valid_utf8 (po_stdout out) \<and> trim (po_stdout out) \<noteq> [] then Some (trim (po_stdout out)) else None)"

definition probe_local :: "runtime \<Rightarrow> disk \<Rightarrow> probe_output tun" where
  "probe_local rt dk =
     tbind (local_process rt [''uname'', ''-sr'']) (\<lambda>uname.
     tbind (looking (\<lambda>log. map (\<lambda>b. (b, case dk_which dk log b of Some p \<Rightarrow> p | None \<Rightarrow> [])) probe_binaries)) (\<lambda>bins.
     tbind (local_process rt [''sudo'', ''-n'', ''true'']) (\<lambda>sudo.
     tbind (looking (detect_local_pkg_manager dk)) (\<lambda>pkg.
       tret \<lparr>pb_uname = uname_of uname, pb_pkg_manager = pkg,
             pb_sudo_nopasswd = Some (case sudo of Inl _ \<Rightarrow> False | Inr out \<Rightarrow> po_success out),
             pb_bins = map_of bins\<rparr>))))"

section \<open>Skills\<close>

definition local_skills_root :: "disk \<Rightarrow> string option" where
  "local_skills_root dk = map_option (\<lambda>home. path_join home ''.claude/skills'') (dk_home dk)"

definition flat_entries :: "(io_error + string \<times> bool) list \<Rightarrow> (string \<times> bool) list" where
  "flat_entries entries = map projr (filter (\<lambda>x. \<not> isl x) entries)"

definition local_provisionable_skill_ids :: "disk \<Rightarrow> argv list \<Rightarrow> string list" where
  "local_provisionable_skill_ids dk log =
     (case local_skills_root dk of
        None \<Rightarrow> []
      | Some root \<Rightarrow>
          (case dk_entries dk log root of
             Inl _ \<Rightarrow> []
           | Inr entries \<Rightarrow>
               sort (filter valid_utf8
                 (filter (\<lambda>n. dk_is_file dk log (path_join (path_join root n) ''SKILL.md'')) (map fst (flat_entries entries))))))"

definition skill_checks :: "string list \<Rightarrow> string set \<Rightarrow> skill_check list" where
  "skill_checks ids there = map (\<lambda>i. \<lparr>sk_id = i, sk_label = i, sk_installed = i \<in> there\<rparr>) ids"

definition listed_skills :: "string \<Rightarrow> string set" where
  "listed_skills stdout = set (filter (\<lambda>l. l \<noteq> []) (map trim (str_lines stdout)))"

definition skills_script :: string where
  "skills_script = ''ls -1 \"$HOME/.claude/skills\" 2>/dev/null || true''"

definition detect_host_skills :: "runtime \<Rightarrow> host \<Rightarrow> string list \<Rightarrow> skill_check list tun" where
  "detect_host_skills rt h ids =
     (if ids = [] then tret []
      else if is_local h then tret (skill_checks ids (set ids))
      else case sh_c rt skills_script of
        Inl _ \<Rightarrow> tret []
      | Inr scr \<Rightarrow>
          tbind (ttry (runtime_ssh_stdout rt h scr)) (\<lambda>r.
            tret (skill_checks ids (case r of Inl _ \<Rightarrow> {} | Inr stdout \<Rightarrow> listed_skills stdout))))"

definition with_skills :: "skill_check list \<Rightarrow> host_readiness \<Rightarrow> host_readiness" where
  "with_skills skills r = r\<lparr>rd_skills := skills\<rparr>"

definition readiness :: "runtime \<Rightarrow> disk \<Rightarrow> host \<Rightarrow> host_readiness tun" where
  "readiness rt dk h =
     tbind (looking (local_provisionable_skill_ids dk)) (\<lambda>known.
     if is_local h
     then tbind (probe_local rt dk) (\<lambda>pb.
          tbind (detect_host_skills rt h known) (\<lambda>skills.
            tret (fill_hints (with_skills skills (assemble_readiness pb)))))
     else tbind (ttry (probe_ssh rt h)) (\<lambda>r.
          case r of
            Inl e \<Rightarrow> tret (fill_hints (unreachable_readiness (runtime_error_text (rt_env rt) e)))
          | Inr pb \<Rightarrow>
              tbind (detect_host_skills rt h known) (\<lambda>skills.
                tret (fill_hints (with_skills skills (assemble_readiness pb))))))"

definition dep_installed :: "string \<Rightarrow> host_readiness \<Rightarrow> bool" where
  "dep_installed i r = list_ex (\<lambda>d. dc_id d = i \<and> dc_installed d) (rd_required r)"

definition probe :: "runtime \<Rightarrow> disk \<Rightarrow> host \<Rightarrow> host_probe tun" where
  "probe rt dk h =
     tbind (readiness rt dk h) (\<lambda>r.
       tret \<lparr>hp_ok = rd_ok r, hp_message = rd_message r, hp_uname = si_uname (rd_system r),
             hp_tmux = dep_installed ''tmux'' r, hp_git = dep_installed ''git'' r\<rparr>)"

section \<open>Installing\<close>

definition run_checked_local :: "runtime \<Rightarrow> string \<Rightarrow> unit tun" where
  "run_checked_local rt cmd s =
     (let c = [''sh'', ''-c'', cmd]
      in (s\<lparr>ts_log := ts_log s @ [c]\<rparr>,
          case command_reply (rt_env rt) (ts_log s) c of
            Inl e \<Rightarrow> Inl e
          | Inr out \<Rightarrow> if po_success out then Inr () else Inl (non_zero out)))"

definition run_on_host :: "runtime \<Rightarrow> host \<Rightarrow> string \<Rightarrow> unit tun" where
  "run_on_host rt h cmd =
     (if is_local h then run_checked_local rt cmd
      else tbind (tlift (sh_c rt cmd)) (\<lambda>scr. runtime_ssh_checked rt h scr))"

definition bootstrap :: "runtime \<Rightarrow> disk \<Rightarrow> host \<Rightarrow> string list \<Rightarrow> host_readiness tun" where
  "bootstrap rt dk h items =
     tbind (readiness rt dk h) (\<lambda>pre.
       case bootstrap_command (si_pkg_manager (rd_system pre)) items of
         None \<Rightarrow> tfail (RuntimeError_Bootstrap (''no known package manager on this host (detected `'' @
           si_pkg_manager (rd_system pre) @ ''`); install '' @ join_with '' '' items @ '' manually''))
       | Some cmd \<Rightarrow> tbind (run_on_host rt h cmd) (\<lambda>_. readiness rt dk h))"

definition install_agents :: "runtime \<Rightarrow> disk \<Rightarrow> host \<Rightarrow> string list \<Rightarrow> host_readiness tun" where
  "install_agents rt dk h tools =
     (let cmds = List.map_filter agent_install_command tools in
      if cmds = []
      then tfail (RuntimeError_Bootstrap (''no installable agent CLIs in ['' @ join_with '', '' tools @ '']''))
      else tbind (run_on_host rt h (join_with '' && '' cmds)) (\<lambda>_. readiness rt dk h))"

definition suspicious_skill :: "string \<Rightarrow> bool" where
  "suspicious_skill i \<longleftrightarrow> i = [] \<or> CHR ''/'' \<in> set i \<or> str_contains i ''..''"

fun check_skills :: "disk \<Rightarrow> argv list \<Rightarrow> string \<Rightarrow> string list \<Rightarrow> runtime_error + unit" where
  "check_skills dk log root [] = Inr ()"
| "check_skills dk log root (i # ids) =
     (if suspicious_skill i then Inl (RuntimeError_Bootstrap (''invalid skill id `'' @ i @ ''`''))
      else if \<not> dk_is_file dk log (path_join (path_join root i) ''SKILL.md'')
      then Inl (RuntimeError_Bootstrap (''unknown local skill `'' @ i @ ''` (no ~/.claude/skills/'' @ i @ ''/SKILL.md)''))
      else check_skills dk log root ids)"

definition remote_home :: "runtime \<Rightarrow> host \<Rightarrow> string tun" where
  "remote_home rt h =
     tbind (tlift (remote_home_script rt)) (\<lambda>scr.
     tbind (runtime_ssh_stdout rt h scr) (\<lambda>stdout.
       tlift (ok_or (RuntimeError_Bootstrap ''could not resolve remote $HOME'') (parse_remote_home rt stdout))))"

definition mkdir_script :: "runtime \<Rightarrow> string \<Rightarrow> runtime_error + string" where
  "mkdir_script rt dir = and_then (q rt dir) (\<lambda>quoted. sh_c rt (''mkdir -p '' @ quoted))"

definition put_script :: "runtime \<Rightarrow> disk \<Rightarrow> string \<Rightarrow> string \<Rightarrow> runtime_error + string" where
  "put_script rt dk remote_file bytes =
     and_then (q rt (dk_encode64 dk bytes)) (\<lambda>b64.
     and_then (q rt remote_file) (\<lambda>quoted. sh_c rt (''printf %s '' @ b64 @ '' | base64 -d > '' @ quoted)))"

definition skipped_file :: "string \<times> bool \<Rightarrow> bool" where
  "skipped_file entry \<longleftrightarrow>
     \<not> snd entry \<or> \<not> valid_utf8 (fst entry) \<or> CHR ''/'' \<in> set (fst entry) \<or> str_contains (fst entry) ''..''"

fun copy_entries :: "runtime \<Rightarrow> disk \<Rightarrow> host \<Rightarrow> string \<Rightarrow> string \<Rightarrow> (io_error + string \<times> bool) list \<Rightarrow> unit tun" where
  "copy_entries rt dk h src remote_dir [] = tret ()"
| "copy_entries rt dk h src remote_dir (Inl e # entries) = tfail (RuntimeError_Io e)"
| "copy_entries rt dk h src remote_dir (Inr entry # entries) =
     (if skipped_file entry then copy_entries rt dk h src remote_dir entries
      else tbind (looking (\<lambda>log. dk_read dk log (path_join src (fst entry)))) (\<lambda>r.
           case r of
             Inl e \<Rightarrow> tfail (RuntimeError_Io e)
           | Inr bytes \<Rightarrow>
               tbind (tlift (put_script rt dk (remote_dir @ ''/'' @ fst entry) bytes)) (\<lambda>scr.
               tbind (runtime_ssh_checked rt h scr) (\<lambda>_. copy_entries rt dk h src remote_dir entries))))"

definition copy_skill_dir_ssh :: "runtime \<Rightarrow> disk \<Rightarrow> host \<Rightarrow> string \<Rightarrow> string \<Rightarrow> string \<Rightarrow> unit tun" where
  "copy_skill_dir_ssh rt dk h src home i =
     (let remote_dir = home @ ''/.claude/skills/'' @ i in
      tbind (tlift (mkdir_script rt remote_dir)) (\<lambda>scr.
      tbind (runtime_ssh_checked rt h scr) (\<lambda>_.
      tbind (looking (\<lambda>log. dk_entries dk log src)) (\<lambda>r.
        case r of Inl e \<Rightarrow> tfail (RuntimeError_Io e)
        | Inr entries \<Rightarrow> copy_entries rt dk h src remote_dir entries))))"

fun copy_skills :: "runtime \<Rightarrow> disk \<Rightarrow> host \<Rightarrow> string \<Rightarrow> string \<Rightarrow> string list \<Rightarrow> unit tun" where
  "copy_skills rt dk h root home [] = tret ()"
| "copy_skills rt dk h root home (i # ids) =
     tbind (copy_skill_dir_ssh rt dk h (path_join root i) home i) (\<lambda>_. copy_skills rt dk h root home ids)"

definition provision_skills :: "runtime \<Rightarrow> disk \<Rightarrow> host \<Rightarrow> string list \<Rightarrow> host_readiness tun" where
  "provision_skills rt dk h ids =
     (case local_skills_root dk of
        None \<Rightarrow> tfail (RuntimeError_Bootstrap ''no local ~/.claude/skills directory'')
      | Some root \<Rightarrow>
          tbind (looking (\<lambda>log. check_skills dk log root ids)) (\<lambda>checked.
          tbind (tlift checked) (\<lambda>_.
          tbind (if is_local h then tret ()
                 else tbind (remote_home rt h) (\<lambda>home. copy_skills rt dk h root home ids)) (\<lambda>_.
            readiness rt dk h))))"

section \<open>Git and files on a host\<close>

record host_output =
  ho_success :: bool
  ho_code :: "int option"
  ho_stdout :: string
  ho_stderr :: string

definition host_output_of :: "proc_output \<Rightarrow> host_output" where
  "host_output_of out =
     \<lparr>ho_success = po_success out, ho_code = po_status out, ho_stdout = po_stdout out,
      ho_stderr = trim (utf8_lossy (po_stderr out))\<rparr>"

definition stdout_string :: "host_output \<Rightarrow> string" where
  "stdout_string o1 = utf8_lossy (ho_stdout o1)"

definition io_result :: "io_error + 'a \<Rightarrow> runtime_error + 'a" where
  "io_result r = (case r of Inl e \<Rightarrow> Inl (RuntimeError_Io e) | Inr x \<Rightarrow> Inr x)"

fun quoted_args :: "runtime \<Rightarrow> string list \<Rightarrow> runtime_error + string" where
  "quoted_args rt [] = Inr []"
| "quoted_args rt (a # as) =
     and_then (q rt a) (\<lambda>qa. and_then (quoted_args rt as) (\<lambda>rest. Inr ('' '' @ qa @ rest)))"

definition git_script :: "runtime \<Rightarrow> string \<Rightarrow> string list \<Rightarrow> runtime_error + string" where
  "git_script rt cwd args =
     and_then (q rt cwd) (\<lambda>dir. and_then (quoted_args rt args) (\<lambda>rest.
       sh_c rt (''cd '' @ dir @ '' && git'' @ rest)))"

definition git_in_dir :: "runtime \<Rightarrow> host \<Rightarrow> string \<Rightarrow> string list \<Rightarrow> host_output tun" where
  "git_in_dir rt h cwd args =
     (if is_local h
      then tbind (local_process rt ([''git'', ''-C'', cwd] @ args)) (\<lambda>r. tlift (map_sum id host_output_of (io_result r)))
      else tbind (tlift (git_script rt cwd args)) (\<lambda>scr.
           tbind (ssh_answer rt (map_ssh_io (rt_env rt)) h scr SshMux_Interactive) (\<lambda>out. tret (host_output_of out))))"

definition host_is_git_repo :: "runtime \<Rightarrow> host \<Rightarrow> string \<Rightarrow> bool tun" where
  "host_is_git_repo rt h cwd =
     tbind (ttry (git_in_dir rt h cwd [''rev-parse'', ''--is-inside-work-tree''])) (\<lambda>r.
       tret (case r of Inl _ \<Rightarrow> False | Inr out \<Rightarrow> ho_success out))"

definition mkdir_p :: "runtime \<Rightarrow> disk \<Rightarrow> host \<Rightarrow> string \<Rightarrow> unit tun" where
  "mkdir_p rt dk h path =
     (if is_local h then tbind (looking (\<lambda>log. dk_create_dir_all dk log path)) (\<lambda>r. tlift (io_result r))
      else tbind (tlift (mkdir_script rt path)) (\<lambda>scr. runtime_ssh_checked rt h scr))"

definition read_file_bytes :: "runtime \<Rightarrow> disk \<Rightarrow> host \<Rightarrow> string \<Rightarrow> string option tun" where
  "read_file_bytes rt dk h abs_path =
     (if is_local h
      then tbind (looking (\<lambda>log. dk_read dk log abs_path)) (\<lambda>r.
             tlift (case r of Inr b \<Rightarrow> Inr (Some b)
                    | Inl e \<Rightarrow> if dk_not_found dk e then Inr None else Inl (RuntimeError_Io e)))
      else tbind (tlift (and_then (q rt abs_path) (\<lambda>p. sh_c rt (''cat '' @ p)))) (\<lambda>scr.
           tbind (ssh_answer rt (map_ssh_io (rt_env rt)) h scr SshMux_Interactive) (\<lambda>out.
             tret (if po_success out then Some (po_stdout out) else None))))"

definition host_path_exists :: "runtime \<Rightarrow> disk \<Rightarrow> host \<Rightarrow> string \<Rightarrow> bool tun" where
  "host_path_exists rt dk h abs_path =
     (if is_local h then looking (\<lambda>log. dk_exists dk log abs_path)
      else tbind (tlift (and_then (q rt abs_path) (\<lambda>p. sh_c rt (''test -e '' @ p)))) (\<lambda>scr.
           tbind (ssh_answer rt (map_ssh_io (rt_env rt)) h scr SshMux_Interactive) (\<lambda>out. tret (po_success out))))"

definition which_first_script :: "string list \<Rightarrow> string" where
  "which_first_script candidates =
     ''for b in '' @ join_with '' '' candidates @
     ''; do if command -v \"$b\" >/dev/null 2>&1; then printf %s \"$b\"; exit 0; fi; done''"

definition non_blank :: "string \<Rightarrow> string option" where
  "non_blank s = (if trim s = [] then None else Some (trim s))"

definition which_first :: "runtime \<Rightarrow> host \<Rightarrow> string list \<Rightarrow> string option tun" where
  "which_first rt h candidates =
     (let inner = which_first_script candidates in
      if is_local h
      then tbind (local_process rt [''sh'', ''-c'', inner]) (\<lambda>r.
             tlift (case r of Inl e \<Rightarrow> Inl (map_ssh_io (rt_env rt) e)
                    | Inr out \<Rightarrow> Inr (non_blank (utf8_lossy (po_stdout out)))))
      else tbind (tlift (sh_c rt inner)) (\<lambda>scr.
           tbind (runtime_ssh_stdout rt h scr) (\<lambda>out. tret (non_blank out))))"

definition install_host_chromium :: "runtime \<Rightarrow> host \<Rightarrow> string tun" where
  "install_host_chromium rt h =
     (let cmd = ''npx --yes playwright install chromium'';
          finish = (\<lambda>out. if po_success out then Inr (utf8_lossy (po_stdout out)) else Inl (non_zero out))
      in if is_local h
         then tbind (local_process rt [''sh'', ''-lc'', cmd]) (\<lambda>r.
                tlift (case r of Inl e \<Rightarrow> Inl (map_ssh_io (rt_env rt) e) | Inr out \<Rightarrow> finish out))
         else tbind (tlift (q rt cmd)) (\<lambda>quoted.
              tbind (ssh_answer rt (map_ssh_io (rt_env rt)) h (''sh -lc '' @ quoted) SshMux_Interactive) (\<lambda>out.
                tlift (finish out))))"

definition rsplit_once :: "char \<Rightarrow> string \<Rightarrow> (string \<times> string) option" where
  "rsplit_once d s =
     (case split_once d (rev s) of None \<Rightarrow> None | Some (b, a) \<Rightarrow> Some (rev a, rev b))"

definition marker_inner_script :: "runtime \<Rightarrow> disk \<Rightarrow> string \<Rightarrow> string \<Rightarrow> runtime_error + string" where
  "marker_inner_script rt dk rel_path content =
     and_then (q rt (dk_encode64 dk content)) (\<lambda>b64. Inr (
       ''umask 077; '' @
       (case rsplit_once (CHR ''/'') rel_path of
          Some (parent, _) \<Rightarrow> ''mkdir -p \"$HOME/'' @ parent @ ''\"; '' | None \<Rightarrow> []) @
       ''printf %s '' @ b64 @ '' | base64 -d > \"$HOME/'' @ rel_path @ ''\"''))"

text \<open>The part of \<open>write_home_relative_file\<close> for an SSH host; on this machine it writes a private file.\<close>

definition write_home_relative_over_ssh :: "runtime \<Rightarrow> disk \<Rightarrow> host \<Rightarrow> string \<Rightarrow> string \<Rightarrow> unit tun" where
  "write_home_relative_over_ssh rt dk h rel_path content =
     tbind (tlift (marker_inner_script rt dk rel_path content)) (\<lambda>inner.
     tbind (tlift (q rt (dk_encode64 dk inner))) (\<lambda>quoted.
       runtime_ssh_checked rt h (''printf %s '' @ quoted @ '' | base64 -d | sh'')))"

section \<open>What the report says\<close>

lemma missing_none: "map dc_id (filter (\<lambda>d. \<not> dc_installed d) ds) = [] \<longleftrightarrow> list_all dc_installed ds"
  by (induction ds) auto

definition report_ok :: "host_readiness \<Rightarrow> bool" where
  "report_ok r \<longleftrightarrow>
     map dc_id (rd_required r) = REQUIRED_DEPS \<and> map ac_id (rd_agents r) = probed_tools \<and>
     list_all (\<lambda>d. dc_bootstrapable d \<and> (dc_install_hint d = None) = dc_installed d) (rd_required r) \<and>
     list_all (\<lambda>a. \<not> ac_bootstrapable a \<and> (ac_install_hint a = None) = ac_installed a \<and>
       (ac_path a = None) = (\<not> ac_installed a) \<and> ac_path a \<noteq> Some []) (rd_agents r)"

lemma found_nonempty: "found pb b \<noteq> Some []"
  by (simp add: found_def split: option.split)

lemma report_ok_assembled: "report_ok (fill_hints (with_skills skills (assemble_readiness pb)))"
  using found_nonempty
  by (auto simp: report_ok_def fill_hints_def with_skills_def assemble_readiness_def Let_def list_all_iff comp_def
      dep_hint_def agent_hint_def REQUIRED_DEPS_def BOOTSTRAPABLE_def)

lemma report_ok_unreachable: "report_ok (fill_hints (unreachable_readiness m))"
  using found_nonempty
  by (auto simp: report_ok_def fill_hints_def unreachable_readiness_def assemble_readiness_def Let_def list_all_iff comp_def
      dep_hint_def agent_hint_def REQUIRED_DEPS_def BOOTSTRAPABLE_def)

lemma installed_hinted: "list_all dc_installed (map (dep_hint pkg) ds) = list_all dc_installed ds"
  by (simp add: list_all_iff dep_hint_def)

lemma ok_assembled:
  "rd_ok (fill_hints (with_skills skills (assemble_readiness pb))) =
     list_all dc_installed (rd_required (fill_hints (with_skills skills (assemble_readiness pb))))"
  unfolding fill_hints_def with_skills_def assemble_readiness_def Let_def missing_none
  by (simp add: list_all_iff dep_hint_def)

lemma ok_unreachable:
  "rd_ok (fill_hints (unreachable_readiness m)) = list_all dc_installed (rd_required (fill_hints (unreachable_readiness m)))"
  unfolding fill_hints_def unreachable_readiness_def assemble_readiness_def Let_def missing_none
  by (simp add: list_all_iff dep_hint_def)

text \<open>Every report comes from a probe or from the error that kept the host from being asked.\<close>

definition reports :: "host_readiness tun \<Rightarrow> bool" where
  "reports m \<longleftrightarrow> (\<forall>s. \<exists>r. snd (m s) = Inr r \<and>
     ((\<exists>skills pb. r = fill_hints (with_skills skills (assemble_readiness pb))) \<or>
      (\<exists>e. r = fill_hints (unreachable_readiness e))))"

lemma always_lists: "\<exists>skills. snd (detect_host_skills rt h ids s) = Inr skills"
  by (auto simp: detect_host_skills_def tun_defs split: sum.split prod.split)

lemma always_probes: "\<exists>pb. snd (probe_local rt dk s) = Inr pb"
  by (simp add: probe_local_def local_process_def looking_def tun_defs)

lemma readiness_reports: "reports (readiness rt dk h)"
  unfolding reports_def
proof
  fix s :: tunnel_state
  let ?known = "local_provisionable_skill_ids dk (ts_log s)"
  show "\<exists>r. snd (readiness rt dk h s) = Inr r \<and>
     ((\<exists>skills pb. r = fill_hints (with_skills skills (assemble_readiness pb))) \<or>
      (\<exists>e. r = fill_hints (unreachable_readiness e)))"
  proof (cases "is_local h")
    case True
    obtain pb s1 where pb: "probe_local rt dk s = (s1, Inr pb)" using always_probes by (metis prod.collapse)
    obtain skills s2 where "detect_host_skills rt h ?known s1 = (s2, Inr skills)" using always_lists by (metis prod.collapse)
    then show ?thesis using True pb by (auto simp: readiness_def looking_def tbind_def tret_def)
  next
    case False
    obtain s1 r where r: "probe_ssh rt h s = (s1, r)" by (cases "probe_ssh rt h s")
    show ?thesis
    proof (cases r)
      case (Inl e)
      then show ?thesis using False r by (auto simp: readiness_def looking_def tbind_def ttry_def tret_def)
    next
      case (Inr pb)
      obtain skills s2 where "detect_host_skills rt h ?known s1 = (s2, Inr skills)" using always_lists by (metis prod.collapse)
      then show ?thesis using False r Inr by (auto simp: readiness_def looking_def tbind_def ttry_def tret_def)
    qed
  qed
qed

text \<open>
  Asking a host for its readiness always gives a report, also when the host cannot be reached. The host
  counts as ready exactly if each of tmux and git was found; whatever is missing comes with a hint and
  nothing else does, an agent is reported with a path exactly if it was found, and only tmux and git may be
  offered for installation.
\<close>

theorem readiness_is_consistent:
  "\<exists>r. snd (readiness rt dk h s) = Inr r \<and> report_ok r \<and> rd_ok r = list_all dc_installed (rd_required r) \<and>
     (dc_installed (rd_required r ! 0) \<and> dc_installed (rd_required r ! 1) \<longleftrightarrow> rd_ok r)"
proof -
  obtain r where r: "snd (readiness rt dk h s) = Inr r"
    "(\<exists>skills pb. r = fill_hints (with_skills skills (assemble_readiness pb))) \<or> (\<exists>e. r = fill_hints (unreachable_readiness e))"
    using readiness_reports unfolding reports_def by blast
  then have ok: "report_ok r" "rd_ok r = list_all dc_installed (rd_required r)"
    using report_ok_assembled report_ok_unreachable ok_assembled ok_unreachable by auto
  then have "map dc_id (rd_required r) = [''tmux'', ''git'']" by (simp add: report_ok_def REQUIRED_DEPS_def)
  then obtain a b where "rd_required r = [a, b]" by (auto simp: map_eq_Cons_conv)
  then show ?thesis using r(1) ok by simp
qed

section \<open>What the probe prints is what is read\<close>

definition clean_field :: "string \<Rightarrow> bool" where
  "clean_field f \<longleftrightarrow> trim f = f \<and> f \<noteq> [] \<and> CHR 0x09 \<notin> set f \<and> CHR 0x0A \<notin> set f \<and> CHR 0x0D \<notin> set f"

definition probe_record_line :: "string \<Rightarrow> string \<Rightarrow> string" where
  "probe_record_line key rest = key @ tab @ rest"

definition probe_text :: "string \<Rightarrow> string \<Rightarrow> bool \<Rightarrow> (string \<times> string) list \<Rightarrow> string list" where
  "probe_text uname pkg sudo bins =
     [probe_record_line ''uname'' uname, probe_record_line ''pkg'' pkg,
      probe_record_line ''sudo'' (if sudo then ''yes'' else ''no'')] @
     map (\<lambda>(b, p). probe_record_line ''bin'' (b @ tab @ p)) bins"

lemma plain_lines:
  assumes "list_all (\<lambda>l. CHR 0x0A \<notin> set l \<and> CHR 0x0D \<notin> set l) ls"
  shows "str_lines (concat (map (\<lambda>l. l @ nl) ls)) = ls"
  using assms
proof (induction ls)
  case Nil
  then show ?case by (simp add: str_lines_def)
next
  case (Cons l ls)
  have "split_on (CHR 0x0A) (l @ [CHR 0x0A]) = [l, []]"
    using split_on_append [of "CHR 0x0A" l "[]"] split_on_absent [of "CHR 0x0A" l] Cons.prems by simp
  moreover have "strip_cr l = l" using Cons.prems last_in_set [of l] by (metis list.pred_inject(2) strip_cr_def)
  ultimately have "str_lines (l @ nl) = [l]" by (simp add: str_lines_def nl_def)
  moreover have "terminated (l @ nl)" by (simp add: terminated_def nl_def)
  ultimately show ?case using Cons str_lines_append [of "l @ nl" "concat (map (\<lambda>l. l @ nl) ls)"] by simp
qed

lemma no_cr_end: "CHR 0x0D \<notin> set s \<Longrightarrow> trim_end_cr s = s"
proof -
  assume "CHR 0x0D \<notin> set s"
  then have "dropWhile (\<lambda>c. c = CHR 0x0D) (rev s) = rev s" by (cases "rev s") auto
  then show ?thesis by (simp add: trim_end_cr_def)
qed

lemma trim_nil: "trim [] = []"
  by code_simp

lemma halves_tab: "CHR 0x09 \<notin> set a \<Longrightarrow> halves (a @ tab @ b) = (a, b)"
  by (simp add: halves_def tab_def split_once_absent)

lemma read_bin:
  assumes "clean_field b" "trim p = p" "CHR 0x0D \<notin> set p"
  shows "probe_line pb (probe_record_line ''bin'' (b @ tab @ p)) = pb\<lparr>pb_bins := (pb_bins pb)(b \<mapsto> p)\<rparr>"
proof -
  have "CHR 0x0D \<notin> set (probe_record_line ''bin'' (b @ tab @ p))"
    using assms by (auto simp: probe_record_line_def clean_field_def tab_def)
  then show ?thesis
    using assms halves_tab [of "''bin''" "b @ tab @ p"] halves_tab [of b p]
    by (simp add: probe_line_def no_cr_end probe_record_line_def clean_field_def)
qed

lemma no_cr_line: "CHR 0x0D \<notin> set rest \<Longrightarrow> CHR 0x0D \<notin> set key \<Longrightarrow> trim_end_cr (probe_record_line key rest) = probe_record_line key rest"
  by (rule no_cr_end) (auto simp: probe_record_line_def tab_def)

lemma read_uname:
  "clean_field u \<Longrightarrow> probe_line pb (probe_record_line ''uname'' u) = pb\<lparr>pb_uname := Some u\<rparr>"
  using halves_tab [of "''uname''" u] no_cr_line [of u "''uname''"]
  by (simp add: probe_line_def probe_record_line_def clean_field_def)

lemma read_pkg:
  "clean_field p \<Longrightarrow> probe_line pb (probe_record_line ''pkg'' p) = pb\<lparr>pb_pkg_manager := p\<rparr>"
  using halves_tab [of "''pkg''" p] no_cr_line [of p "''pkg''"]
  by (simp add: probe_line_def probe_record_line_def clean_field_def)

lemma trim_answers: "trim ''yes'' = ''yes''" "trim ''no'' = ''no''"
  by code_simp+

lemma read_sudo:
  "probe_line pb (probe_record_line ''sudo'' (if b then ''yes'' else ''no'')) = pb\<lparr>pb_sudo_nopasswd := Some b\<rparr>"
  using halves_tab [of "''sudo''" "if b then ''yes'' else ''no''"] no_cr_line [of "if b then ''yes'' else ''no''" "''sudo''"]
  by (cases b) (simp_all add: probe_line_def probe_record_line_def trim_answers)

lemma read_bins:
  assumes "list_all (\<lambda>(b, p). clean_field b \<and> trim p = p \<and> CHR 0x0D \<notin> set p) bins"
  shows "fold (\<lambda>line pb. probe_line pb line) (map (\<lambda>(b, p). probe_record_line ''bin'' (b @ tab @ p)) bins) pb =
     pb\<lparr>pb_bins := pb_bins pb ++ map_of (rev bins)\<rparr>"
  using assms
proof (induction bins arbitrary: pb)
  case (Cons x bins)
  obtain b p where x: "x = (b, p)" by (cases x)
  have "probe_line pb (probe_record_line ''bin'' (b @ tab @ p)) = pb\<lparr>pb_bins := (pb_bins pb)(b \<mapsto> p)\<rparr>"
    using Cons.prems x by (intro read_bin) auto
  then show ?case using Cons x by (simp add: map_add_def fun_eq_iff split: option.split)
qed simp

text \<open>
  What the probe script prints about a host is what is read back: the kernel, the package manager, whether
  sudo works and, for every program, the path it was found at (paths may contain blanks), whatever order
  the programs are asked in.
\<close>

theorem probe_is_read_back:
  assumes "clean_field uname" "clean_field pkg"
    and "list_all (\<lambda>(b, p). clean_field b \<and> (p = [] \<or> clean_field p)) bins" "distinct (map fst bins)"
  shows "parse_probe_output (concat (map (\<lambda>l. l @ nl) (probe_text uname pkg sudo bins))) =
    \<lparr>pb_uname = Some uname, pb_pkg_manager = pkg, pb_sudo_nopasswd = Some sudo, pb_bins = map_of bins\<rparr>"
proof -
  have lines: "str_lines (concat (map (\<lambda>l. l @ nl) (probe_text uname pkg sudo bins))) = probe_text uname pkg sudo bins"
    by (rule plain_lines) (use assms in \<open>auto simp: probe_text_def probe_record_line_def clean_field_def tab_def list_all_iff\<close>)
  have "map_of (rev bins) = map_of bins"
    using assms(4) by (simp add: map_of_inject_set rev_map [symmetric])
  moreover have "list_all (\<lambda>(b, p). clean_field b \<and> trim p = p \<and> CHR 0x0D \<notin> set p) bins"
    using assms(3) by (rule list.pred_mono_strong) (auto simp: clean_field_def trim_nil)
  ultimately show ?thesis
    using assms(1,2) read_bins [of bins] unfolding parse_probe_output_def lines
    by (simp add: probe_text_def read_uname read_pkg read_sudo empty_probe_def)
qed

lemma probe_is_read_back_witness:
  "parse_probe_output (concat (map (\<lambda>l. l @ nl)
       (probe_text ''Linux 6.12'' ''apt'' True [(''tmux'', ''/usr/local bin/tmux''), (''git'', [])]))) =
     \<lparr>pb_uname = Some ''Linux 6.12'', pb_pkg_manager = ''apt'', pb_sudo_nopasswd = Some True,
      pb_bins = map_of [(''tmux'', ''/usr/local bin/tmux''), (''git'', [])]\<rparr>"
  by (rule probe_is_read_back) code_simp+

section \<open>What is run on a host\<close>

definition question_script :: "runtime \<Rightarrow> string \<Rightarrow> bool" where
  "question_script rt scr \<longleftrightarrow>
     (\<exists>inner. build_probe_script rt probe_binaries = Inr inner \<and> sh_c rt inner = Inr scr) \<or>
     sh_c rt skills_script = Inr scr"

definition bootstrap_script :: "runtime \<Rightarrow> string list \<Rightarrow> string \<Rightarrow> bool" where
  "bootstrap_script rt items scr \<longleftrightarrow> (\<exists>pm cmd. bootstrap_command pm items = Some cmd \<and> sh_c rt cmd = Inr scr)"

definition agents_script :: "runtime \<Rightarrow> string list \<Rightarrow> string \<Rightarrow> bool" where
  "agents_script rt tools scr \<longleftrightarrow> sh_c rt (join_with '' && '' (List.map_filter agent_install_command tools)) = Inr scr"

definition skill_dir :: "string \<Rightarrow> string \<Rightarrow> string" where
  "skill_dir home i = home @ ''/.claude/skills/'' @ i"

definition skills_put_script :: "runtime \<Rightarrow> disk \<Rightarrow> string list \<Rightarrow> string \<Rightarrow> bool" where
  "skills_put_script rt dk ids scr \<longleftrightarrow>
     remote_home_script rt = Inr scr \<or>
     (\<exists>home i. i \<in> set ids \<and> (mkdir_script rt (skill_dir home i) = Inr scr \<or>
        (\<exists>name bytes. CHR ''/'' \<notin> set name \<and> \<not> str_contains name ''..'' \<and>
           put_script rt dk (skill_dir home i @ ''/'' @ name) bytes = Inr scr)))"

lemma looking_starts: "starts_only P (looking f)"
  by (simp add: starts_only_def looking_def starts_nothing)

lemma stdout_starts: "P scr \<Longrightarrow> starts_only (runs_script rt h P) (runtime_ssh_stdout rt h scr)"
  unfolding runtime_ssh_stdout_def by (intro starts_only_bind answer_starts starts_only_pure)

lemma checked_starts: "P scr \<Longrightarrow> starts_only (runs_script rt h P) (runtime_ssh_checked rt h scr)"
  unfolding runtime_ssh_checked_def by (intro starts_only_bind answer_starts starts_only_pure)

lemmas starts_rules =
  starts_only_bind starts_only_lifted starts_only_try starts_only_pure looking_starts stdout_starts checked_starts answer_starts

lemma starts_only_mono:
  assumes "starts_only P m" "\<And>c. P c \<Longrightarrow> P' c"
  shows "starts_only P' m"
  using assms unfolding starts_only_def list_all_iff by meson

lemma runs_script_mono: "runs_script rt h P c \<Longrightarrow> (\<And>scr. P scr \<Longrightarrow> P' scr) \<Longrightarrow> runs_script rt h P' c"
  unfolding runs_script_def by blast

lemma readiness_starts:
  assumes "\<not> is_local h"
  shows "starts_only (runs_script rt h (question_script rt)) (readiness rt dk h)"
  unfolding readiness_def probe_ssh_def detect_host_skills_def
  using assms
  by (auto intro!: starts_rules simp: question_script_def split: sum.split)

lemma questions_start:
  assumes "\<not> is_local h" "\<And>scr. question_script rt scr \<Longrightarrow> P scr"
  shows "starts_only (runs_script rt h P) (readiness rt dk h)"
  by (rule starts_only_mono [OF readiness_starts [OF assms(1)]]) (erule runs_script_mono, erule assms(2))

lemma bootstrap_starts:
  assumes "\<not> is_local h"
  shows "starts_only (runs_script rt h (\<lambda>scr. question_script rt scr \<or> bootstrap_script rt items scr)) (bootstrap rt dk h items)"
  unfolding bootstrap_def run_on_host_def
  using assms
  by (auto intro!: starts_rules questions_start simp: bootstrap_script_def split: option.split)

lemma install_starts:
  assumes "\<not> is_local h"
  shows "starts_only (runs_script rt h (\<lambda>scr. question_script rt scr \<or> agents_script rt tools scr)) (install_agents rt dk h tools)"
  unfolding install_agents_def run_on_host_def Let_def
  using assms
  by (auto intro!: starts_rules questions_start simp: agents_script_def)

lemma copy_entries_starts:
  assumes "i \<in> set ids"
  shows "starts_only (runs_script rt h (skills_put_script rt dk ids)) (copy_entries rt dk h src (skill_dir home i) entries)"
proof (induction entries)
  case (Cons e entries)
  show ?case
  proof (cases e)
    case (Inr entry)
    then show ?thesis
      using Cons assms
      by (auto intro!: starts_rules simp: skills_put_script_def skipped_file_def split: sum.split) blast
  qed (simp add: starts_only_pure)
qed (simp add: starts_only_pure)

lemma copy_skill_starts:
  assumes "i \<in> set ids"
  shows "starts_only (runs_script rt h (skills_put_script rt dk ids)) (copy_skill_dir_ssh rt dk h src home i)"
  unfolding copy_skill_dir_ssh_def Let_def
  using assms copy_entries_starts [OF assms]
  by (auto intro!: starts_rules simp: skills_put_script_def skill_dir_def split: sum.split)

lemma copy_skills_starts:
  assumes "set ids' \<subseteq> set ids"
  shows "starts_only (runs_script rt h (skills_put_script rt dk ids)) (copy_skills rt dk h root home ids')"
  using assms by (induction ids') (auto intro!: starts_only_bind copy_skill_starts starts_only_pure)

lemma provision_starts:
  assumes "\<not> is_local h"
  shows "starts_only (runs_script rt h (\<lambda>scr. question_script rt scr \<or> skills_put_script rt dk ids scr)) (provision_skills rt dk h ids)"
proof -
  let ?P = "\<lambda>scr. question_script rt scr \<or> skills_put_script rt dk ids scr"
  have copy: "starts_only (runs_script rt h ?P) (copy_skills rt dk h root home ids)" for root home
    by (rule starts_only_mono [OF copy_skills_starts]) (auto elim: runs_script_mono)
  have home: "starts_only (runs_script rt h ?P) (remote_home rt h)"
    unfolding remote_home_def by (auto intro!: starts_rules simp: skills_put_script_def)
  show ?thesis
    unfolding provision_skills_def
    using assms copy home by (auto intro!: starts_rules questions_start split: option.split)
qed

text \<open>
  Reading a file of an SSH host takes every failure for its absence, also that of ssh itself (status 255),
  although on this machine only \<open>NotFound\<close> is.
\<close>

lemma lost_connection_reads_as_missing:
  assumes "\<not> is_local h" "q rt path = Inr p" "sh_c rt (''cat '' @ p) = Inr scr"
    and "ssh_answer rt (map_ssh_io (rt_env rt)) h scr SshMux_Interactive s = (s', Inr out)" "po_status out = Some 255"
  shows "read_file_bytes rt dk h path s = (s', Inr None)"
  using assms by (simp add: read_file_bytes_def tun_defs po_success_def)

end
