(* ===== verification/Host_Browser.thy ===== *)
theory Host_Browser
  imports Host_Readiness
begin

text \<open>
  \<open>crates/agentum-server/src/host_browser.rs\<close> with \<open>routes/host_browser.rs\<close>: headless browsers that live in
  tmux sessions on their hosts, the registry of the bridges to them, and the frames and input messages of a
  bridge. The state joins the database, the memory of the tunnels, the registry and the running SSH
  streams; what happens under the lease of a host is one step, and a request that looked its bridge up
  before it got the lease goes on with that, possibly outdated, entry. The sockets themselves are not
  modelled.
\<close>

section \<open>State\<close>

datatype host_destination = Destination_Local | Destination_Ssh string string "16 word"

fun destination_of :: "host_kind \<Rightarrow> host_destination" where
  "destination_of HostKind_Local = Destination_Local"
| "destination_of (HostKind_Ssh user hostname port auth) = Destination_Ssh user hostname port"

record bridge_entry =
  be_generation :: uuid
  be_host_id :: uuid
  be_destination :: host_destination
  be_store :: bool
  be_tmux_target :: string
  be_cdp_host_port :: "16 word"
  be_mac_port :: "16 word"

record hosts_state =
  hs_db :: db
  hs_tun :: tunnel_state
  hs_bridges :: "(string \<times> bridge_entry) list"
  hs_streams :: "(uuid \<times> nat) list"
  hs_ticks :: nat

datatype stream_cleanup = Cleanup_Done | Cleanup_Failed string | Cleanup_Late

text \<open>
  The environment: the runtime and the disk, the store's codec, clock and fresh ids by tick, how a cancelled
  stream ends, whether a TCP port of this machine answers, what the browser's \<open>/json\<close> lists (or the text
  of the error), whether a WebSocket connection to it and a command over it fail, how many polls fit into
  the wait for a port, the text of a store error, the working directory of the daemon and \<open>canonicalize\<close>
  (each or the text of the error).
\<close>

record hosts_env =
  he_rt :: runtime
  he_disk :: disk
  he_cx :: codec
  he_now :: "nat \<Rightarrow> time"
  he_uuid :: "nat \<Rightarrow> uuid"
  he_as_u128 :: "uuid \<Rightarrow> 128 word"
  he_cleanup :: "nat \<Rightarrow> stream_cleanup"
  he_reachable :: "nat \<Rightarrow> 16 word \<Rightarrow> bool"
  he_targets :: "nat \<Rightarrow> 16 word \<Rightarrow> string + json list"
  he_connect :: "nat \<Rightarrow> string \<Rightarrow> string option"
  he_send :: "nat \<Rightarrow> string \<Rightarrow> json \<Rightarrow> string option"
  he_polls :: "nat \<Rightarrow> nat"
  he_store_text :: "store_error \<Rightarrow> string"
  he_cwd :: "string + string"
  he_canonicalize :: "argv list \<Rightarrow> string \<Rightarrow> string + string"

abbreviation he_te :: "hosts_env \<Rightarrow> tunnel_env" where
  "he_te en \<equiv> rt_env (he_rt en)"

text \<open>Steps on that state; \<open>'e\<close> is the error of the layer: \<open>HostRuntimeError\<close> or \<open>ApiError\<close>.\<close>

type_synonym ('e, 'a) hosts = "hosts_state \<Rightarrow> hosts_state \<times> ('e + 'a)"

definition hs_ret :: "'a \<Rightarrow> ('e, 'a) hosts" where
  "hs_ret x s = (s, Inr x)"

definition hs_fail :: "'e \<Rightarrow> ('e, 'a) hosts" where
  "hs_fail e s = (s, Inl e)"

definition hs_lift :: "'e + 'a \<Rightarrow> ('e, 'a) hosts" where
  "hs_lift r s = (s, r)"

definition hs_bind :: "('e, 'a) hosts \<Rightarrow> ('a \<Rightarrow> ('e, 'b) hosts) \<Rightarrow> ('e, 'b) hosts" where
  "hs_bind m f s = (case m s of (s', Inl e) \<Rightarrow> (s', Inl e) | (s', Inr x) \<Rightarrow> f x s')"

definition hs_then :: "('e, 'a) hosts \<Rightarrow> ('e, 'b) hosts \<Rightarrow> ('e, 'b) hosts" where
  "hs_then m n = hs_bind m (\<lambda>_. n)"

definition hs_try :: "('e, 'a) hosts \<Rightarrow> ('d, 'e + 'a) hosts" where
  "hs_try m s = (case m s of (s', r) \<Rightarrow> (s', Inr r))"

definition hs_map_err :: "('e \<Rightarrow> 'd) \<Rightarrow> ('e, 'a) hosts \<Rightarrow> ('d, 'a) hosts" where
  "hs_map_err f m s = (case m s of (s', Inl e) \<Rightarrow> (s', Inl (f e)) | (s', Inr x) \<Rightarrow> (s', Inr x))"

definition hs_get :: "(hosts_state \<Rightarrow> 'a) \<Rightarrow> ('e, 'a) hosts" where
  "hs_get f s = (s, Inr (f s))"

definition on_host :: "'a tun \<Rightarrow> (runtime_error, 'a) hosts" where
  "on_host m s = (case m (hs_tun s) of (t, r) \<Rightarrow> (s\<lparr>hs_tun := t\<rparr>, r))"

text \<open>An observation of the outside; every one has a tick of its own.\<close>

definition ask :: "(nat \<Rightarrow> 'a) \<Rightarrow> ('e, 'a) hosts" where
  "ask f s = (s\<lparr>hs_ticks := Suc (hs_ticks s)\<rparr>, Inr (f (hs_ticks s)))"

lemmas hosts_defs = hs_ret_def hs_fail_def hs_lift_def hs_bind_def hs_then_def hs_try_def hs_map_err_def hs_get_def on_host_def ask_def

section \<open>Names and command lines\<close>

definition BROWSER_CANDIDATES :: "string list" where
  "BROWSER_CANDIDATES = [''chromium'', ''chromium-browser'', ''google-chrome-stable'', ''google-chrome'', ''chrome'']"

definition MISSING_BROWSER_MSG :: string where
  "MISSING_BROWSER_MSG =
     ''No Chromium found on the host PATH (tried chromium, chromium-browser, google-chrome). '' @
     ''Install it '' @ [CHR 0xE2, CHR 0x80, CHR 0x94] @ '' e.g. `npx playwright install chromium` '' @
     [CHR 0xE2, CHR 0x80, CHR 0x94] @ '' and retry.''"

text \<open>One dash per character that is not ASCII alphanumeric.\<close>

definition slug_of :: "string \<Rightarrow> string" where
  "slug_of base =
     map (\<lambda>c. if is_ascii_alphanumeric c then c else CHR ''-'') (filter (\<lambda>c. \<not> is_continuation c) base)"

definition workdir_slug :: "string \<Rightarrow> string" where
  "workdir_slug workdir =
     (let slug = slug_of (case path_file_name workdir of Some n \<Rightarrow> n | None \<Rightarrow> ''default'')
      in if slug = [] then ''default'' else slug)"

definition host_browser_target :: "string \<Rightarrow> string" where
  "host_browser_target slug = target_for (''hostbrowser-'' @ slug)"

definition host_browser_user_data_dir :: "string \<Rightarrow> string" where
  "host_browser_user_data_dir slug = ''/tmp/agentum-hostbrowser-'' @ slug"

definition devtools_active_port_path :: "string \<Rightarrow> string" where
  "devtools_active_port_path user_data_dir = user_data_dir @ ''/DevToolsActivePort''"

definition parse_devtools_active_port :: "string \<Rightarrow> (16 word) option" where
  "parse_devtools_active_port contents =
     (case str_lines contents of
        [] \<Rightarrow> None
      | l # _ \<Rightarrow> map_option of_nat (case parse_u64 (trim l) of Some n \<Rightarrow> if n < 2 ^ 16 then Some n else None | None \<Rightarrow> None))"

definition chromium_argv :: "string \<Rightarrow> string \<Rightarrow> string list" where
  "chromium_argv bin user_data_dir =
     [bin, ''--headless=new'', ''--remote-debugging-address=127.0.0.1'', ''--remote-debugging-port=0'',
      ''--user-data-dir='' @ user_data_dir, ''--no-first-run'', ''--no-default-browser-check'', ''--disable-gpu'',
      ''about:blank'']"

definition browser_command :: "runtime \<Rightarrow> string \<Rightarrow> string \<Rightarrow> string \<Rightarrow> runtime_error + string list" where
  "browser_command rt bin user_data_dir port_file =
     and_then (ok_or RuntimeError_Quote (m_join (rt_machine rt) (chromium_argv bin user_data_dir))) (\<lambda>joined.
     and_then (q rt port_file) (\<lambda>pf. Inr [''sh'', ''-c'', ''rm -f '' @ pf @ ''; exec '' @ joined]))"

section \<open>Launching\<close>

definition host_new_session :: "runtime \<Rightarrow> host \<Rightarrow> string \<Rightarrow> string \<Rightarrow> string list \<Rightarrow> unit tun" where
  "host_new_session rt h target workdir cmd =
     (if is_local h then on_local (tmux_new_session (rt_machine rt) (\<lambda>_. Inr []) target workdir cmd [])
      else new_session_remote rt h target workdir cmd [])"

fun await_cdp_port :: "runtime \<Rightarrow> disk \<Rightarrow> host \<Rightarrow> string \<Rightarrow> nat \<Rightarrow> (16 word) tun" where
  "await_cdp_port rt dk h port_file polls =
     tbind (read_file_bytes rt dk h port_file) (\<lambda>bytes.
       case Option.bind bytes (\<lambda>b. parse_devtools_active_port (utf8_lossy b)) of
         Some p \<Rightarrow> tret p
       | None \<Rightarrow>
           (case polls of
              0 \<Rightarrow> tfail (RuntimeError_Bootstrap (''headless Chromium did not write '' @ port_file @ '' within 20s''))
            | Suc n \<Rightarrow> await_cdp_port rt dk h port_file n))"

declare await_cdp_port.simps [simp del]

record host_browser =
  hb_workdir_slug :: string
  hb_tmux_target :: string
  hb_user_data_dir :: string
  hb_cdp_port :: "16 word"
  hb_attached :: bool

text \<open>The marker file is written as an afterthought; on this machine that touches nothing the state has.\<close>

definition leave_marker :: "runtime \<Rightarrow> disk \<Rightarrow> host \<Rightarrow> string \<Rightarrow> 16 word \<Rightarrow> unit tun" where
  "leave_marker rt dk h slug port =
     (if is_local h then tret ()
      else tbind (ttry (write_home_relative_over_ssh rt dk h (''.agentum/hostbrowser/'' @ slug @ ''.port'')
             (string_of_nat (unat port) @ nl))) (\<lambda>_. tret ()))"

definition launch_host_browser :: "runtime \<Rightarrow> disk \<Rightarrow> nat \<Rightarrow> host \<Rightarrow> string \<Rightarrow> host_browser tun" where
  "launch_host_browser rt dk polls h workdir =
     (let slug = workdir_slug workdir;
          target = host_browser_target slug;
          user_data_dir = host_browser_user_data_dir slug;
          port_file = devtools_active_port_path user_data_dir
      in tbind (host_has_session rt h target) (\<lambda>attached.
         tbind (if attached then tret ()
                else tbind (which_first rt h BROWSER_CANDIDATES) (\<lambda>found_bin.
                     tbind (tlift (ok_or (RuntimeError_Bootstrap MISSING_BROWSER_MSG) found_bin)) (\<lambda>bin.
                     tbind (tlift (browser_command rt bin user_data_dir port_file)) (\<lambda>cmd.
                       host_new_session rt h target workdir cmd)))) (\<lambda>_.
         tbind (await_cdp_port rt dk h port_file polls) (\<lambda>cdp_port.
         tbind (leave_marker rt dk h slug cdp_port) (\<lambda>_.
           tret \<lparr>hb_workdir_slug = slug, hb_tmux_target = target, hb_user_data_dir = user_data_dir,
                 hb_cdp_port = cdp_port, hb_attached = attached\<rparr>)))))"

definition teardown_host_browser :: "runtime \<Rightarrow> host \<Rightarrow> string \<Rightarrow> unit tun" where
  "teardown_host_browser rt h workdir = host_kill_session rt h (host_browser_target (workdir_slug workdir))"

section \<open>The registry\<close>

definition put_bridge :: "string \<Rightarrow> bridge_entry \<Rightarrow> (string \<times> bridge_entry) list \<Rightarrow> (string \<times> bridge_entry) list" where
  "put_bridge i e bs = filter (\<lambda>(k, _). k \<noteq> i) bs @ [(i, e)]"

definition is_same_entry :: "string \<Rightarrow> bridge_entry \<Rightarrow> hosts_state \<Rightarrow> bool" where
  "is_same_entry i e s =
     (case map_of (hs_bridges s) i of Some current \<Rightarrow> be_generation current = be_generation e | None \<Rightarrow> False)"

definition forget_if_same :: "string \<Rightarrow> bridge_entry \<Rightarrow> ('e, bool) hosts" where
  "forget_if_same i e s =
     (if is_same_entry i e s then (s\<lparr>hs_bridges := filter (\<lambda>(k, _). k \<noteq> i) (hs_bridges s)\<rparr>, Inr True)
      else (s, Inr False))"

record started_browser =
  sb_id :: string
  sb_attached :: bool
  sb_mac_port :: "16 word"
  sb_cdp_host_port :: "16 word"

record browser_status =
  bs_id :: string
  bs_mac_port :: "16 word"
  bs_cdp_host_port :: "16 word"
  bs_tmux_running :: bool
  bs_cdp_reachable :: bool

definition start_host_browser :: "hosts_env \<Rightarrow> host \<Rightarrow> bool \<Rightarrow> string \<Rightarrow> (runtime_error, started_browser) hosts" where
  "start_host_browser en h store workdir =
     hs_bind (ask (he_polls en)) (\<lambda>polls.
     hs_bind (on_host (launch_host_browser (he_rt en) (he_disk en) polls h workdir)) (\<lambda>browser.
     hs_bind (on_host (ensure_forward_tunnel (he_te en) h (hb_cdp_port browser))) (\<lambda>mac_port.
     hs_bind (ask (\<lambda>t. he_reachable en t mac_port)) (\<lambda>ok.
     if \<not> ok
     then hs_fail (RuntimeError_Bootstrap (''CDP port not reachable through the tunnel at 127.0.0.1:'' @ string_of_nat (unat mac_port)))
     else hs_bind (ask (he_uuid en)) (\<lambda>generation s.
       (s\<lparr>hs_bridges := put_bridge (hb_workdir_slug browser)
            \<lparr>be_generation = generation, be_host_id = h_id h, be_destination = destination_of (h_kind h), be_store = store,
             be_tmux_target = hb_tmux_target browser, be_cdp_host_port = hb_cdp_port browser, be_mac_port = mac_port\<rparr>
            (hs_bridges s)\<rparr>,
        Inr \<lparr>sb_id = hb_workdir_slug browser, sb_attached = hb_attached browser, sb_mac_port = mac_port,
             sb_cdp_host_port = hb_cdp_port browser\<rparr>))))))"

definition unix_local_host :: "uuid \<Rightarrow> host" where
  "unix_local_host i =
     \<lparr>h_id = i, h_name = ''local'', h_kind = HostKind_Local, h_created_at = 0, h_updated_at = 0, h_last_seen_at = None\<rparr>"

definition resolve_current_host :: "hosts_env \<Rightarrow> bridge_entry \<Rightarrow> (runtime_error, host option) hosts" where
  "resolve_current_host en e =
     (if \<not> be_store e
      then if be_destination e = Destination_Local then hs_ret (Some (unix_local_host (be_host_id e)))
           else hs_fail (RuntimeError_Bootstrap ''remote host-browser follow-up requires a store-backed host resolver'')
      else hs_bind (hs_get (\<lambda>s. get_host (he_cx en) (hs_db s) (be_host_id e))) (\<lambda>r.
           case r of
             Inl err \<Rightarrow> hs_fail (RuntimeError_Bootstrap (''could not reload host '' @ be_host_id e @
               '' for host-browser operation: '' @ he_store_text en err))
           | Inr None \<Rightarrow> hs_ret None
           | Inr (Some h) \<Rightarrow> hs_ret (if destination_of (h_kind h) \<noteq> be_destination e then None else Some h)))"

definition foreign_bridge :: "string \<Rightarrow> runtime_error" where
  "foreign_bridge i = RuntimeError_Bootstrap (''host browser `'' @ i @ ''` belongs to a deleted or changed SSH destination'')"

text \<open>What a request does with the entry it looked up, once it has the lease of the host.\<close>

definition stop_leased :: "hosts_env \<Rightarrow> string \<Rightarrow> bridge_entry \<Rightarrow> (runtime_error, unit) hosts" where
  "stop_leased en i e =
     hs_bind (resolve_current_host en e) (\<lambda>found.
       case found of
         None \<Rightarrow> hs_then (forget_if_same i e) (hs_fail (foreign_bridge i))
       | Some h \<Rightarrow>
           hs_bind (forget_if_same i e) (\<lambda>same.
             if \<not> same then hs_ret () else on_host (host_kill_session (he_rt en) h (be_tmux_target e))))"

definition status_leased :: "hosts_env \<Rightarrow> string \<Rightarrow> bridge_entry \<Rightarrow> (runtime_error, browser_status option) hosts" where
  "status_leased en i e =
     hs_bind (hs_try (resolve_current_host en e)) (\<lambda>r.
       case r of
         Inl err \<Rightarrow> hs_ret None
       | Inr None \<Rightarrow> hs_then (forget_if_same i e) (hs_ret None)
       | Inr (Some h) \<Rightarrow>
           hs_bind (hs_get (is_same_entry i e)) (\<lambda>same.
             if \<not> same then hs_ret None
             else hs_bind (hs_try (on_host (host_has_session (he_rt en) h (be_tmux_target e)))) (\<lambda>running.
                  hs_bind (ask (\<lambda>t. he_reachable en t (be_mac_port e))) (\<lambda>reachable.
                    hs_ret (Some \<lparr>bs_id = i, bs_mac_port = be_mac_port e, bs_cdp_host_port = be_cdp_host_port e,
                      bs_tmux_running = (case running of Inr b \<Rightarrow> b | Inl _ \<Rightarrow> False),
                      bs_cdp_reachable = reachable\<rparr>)))))"

definition resolve_bridge_for_connection :: "hosts_env \<Rightarrow> string \<Rightarrow> bridge_entry \<Rightarrow> (runtime_error, unit) hosts" where
  "resolve_bridge_for_connection en i e =
     hs_bind (resolve_current_host en e) (\<lambda>found.
       case found of
         None \<Rightarrow> hs_then (forget_if_same i e) (hs_fail (foreign_bridge i))
       | Some h \<Rightarrow>
           hs_bind (hs_get (is_same_entry i e)) (\<lambda>same.
             if same then hs_ret ()
             else hs_fail (RuntimeError_Bootstrap (''host browser `'' @ i @ ''` was replaced while waiting for its host lease''))))"

definition page_ws_url_for_mac :: "string \<Rightarrow> 16 word \<Rightarrow> string option" where
  "page_ws_url_for_mac reported mac_port =
     Option.bind (split_once_str ''://'' reported) (\<lambda>(scheme, after_scheme).
     Option.bind (split_once (CHR ''/'') after_scheme) (\<lambda>(authority, path).
       Some (''ws://127.0.0.1:'' @ string_of_nat (unat mac_port) @ ''/'' @ path)))"

definition page_target :: "json list \<Rightarrow> string option" where
  "page_target targets =
     Option.bind (find (\<lambda>t. jget_str t ''type'' = Some ''page'') targets) (\<lambda>t. jget_str t ''webSocketDebuggerUrl'')"

definition discover_page_ws :: "hosts_env \<Rightarrow> 16 word \<Rightarrow> (runtime_error, string) hosts" where
  "discover_page_ws en mac_port =
     hs_bind (ask (\<lambda>t. he_targets en t mac_port)) (\<lambda>r.
       hs_lift (case r of
          Inl m \<Rightarrow> Inl (RuntimeError_Bootstrap m)
        | Inr targets \<Rightarrow>
            (case page_target targets of
               None \<Rightarrow> Inl (RuntimeError_Bootstrap ''no CDP page target found'')
             | Some reported \<Rightarrow>
                 ok_or (RuntimeError_Bootstrap (''unparseable CDP ws url: '' @ reported)) (page_ws_url_for_mac reported mac_port))))"

definition connect_page_cdp :: "hosts_env \<Rightarrow> 16 word \<Rightarrow> (runtime_error, string) hosts" where
  "connect_page_cdp en mac_port =
     hs_bind (discover_page_ws en mac_port) (\<lambda>url.
     hs_bind (ask (\<lambda>t. he_connect en t url)) (\<lambda>failed.
       hs_lift (case failed of Some m \<Rightarrow> Inl (RuntimeError_Bootstrap m) | None \<Rightarrow> Inr url)))"

definition cdp_command :: "nat \<Rightarrow> string \<Rightarrow> json \<Rightarrow> json" where
  "cdp_command n meth params = JObj [(''id'', JInt (int n)), (''method'', JStr meth), (''params'', params)]"

definition navigate_leased :: "hosts_env \<Rightarrow> string \<Rightarrow> string \<Rightarrow> bridge_entry \<Rightarrow> (runtime_error, unit) hosts" where
  "navigate_leased en i url e =
     hs_then (resolve_bridge_for_connection en i e)
     (hs_bind (connect_page_cdp en (be_mac_port e)) (\<lambda>ws.
      hs_bind (hs_get (is_same_entry i e)) (\<lambda>same.
        if \<not> same
        then hs_fail (RuntimeError_Bootstrap (''host browser `'' @ i @ ''` was replaced while navigation was connecting''))
        else hs_bind (ask (\<lambda>t. he_send en t ws (cdp_command 1 ''Page.navigate'' (JObj [(''url'', JStr url)])))) (\<lambda>failed.
             hs_lift (case failed of Some m \<Rightarrow> Inl (RuntimeError_Bootstrap (''CDP navigate send: '' @ m)) | None \<Rightarrow> Inr ())))))"

text \<open>\<open>run_screencast\<close> up to the bridge of the two sockets: the address it is bridged to, if it is.\<close>

definition screencast_leased :: "hosts_env \<Rightarrow> string \<Rightarrow> bridge_entry \<Rightarrow> (runtime_error, string option) hosts" where
  "screencast_leased en i e =
     hs_bind (hs_try (resolve_bridge_for_connection en i e)) (\<lambda>r.
       case r of
         Inl _ \<Rightarrow> hs_ret None
       | Inr _ \<Rightarrow>
           hs_bind (hs_try (connect_page_cdp en (be_mac_port e))) (\<lambda>c.
             case c of
               Inl _ \<Rightarrow> hs_ret None
             | Inr ws \<Rightarrow> hs_bind (hs_get (is_same_entry i e)) (\<lambda>same. hs_ret (if same then Some ws else None))))"

section \<open>Leaving a host\<close>

fun retire_entries :: "hosts_env \<Rightarrow> host \<Rightarrow> (string \<times> bridge_entry) list \<Rightarrow> (runtime_error, unit) hosts" where
  "retire_entries en h [] = hs_ret ()"
| "retire_entries en h ((i, e) # rest) =
     hs_then (if be_destination e = destination_of (h_kind h)
            then on_host (host_kill_session (he_rt en) h (be_tmux_target e)) else hs_ret ())
     (hs_then (forget_if_same i e) (retire_entries en h rest))"

definition retire_host_bridges_for_mutation :: "hosts_env \<Rightarrow> host \<Rightarrow> (runtime_error, unit) hosts" where
  "retire_host_bridges_for_mutation en h =
     hs_bind (hs_get (\<lambda>s. filter (\<lambda>(i, e). be_host_id e = h_id h) (hs_bridges s))) (retire_entries en h)"

definition register_remote_stream :: "uuid \<Rightarrow> nat \<Rightarrow> hosts_state \<Rightarrow> hosts_state" where
  "register_remote_stream host_id n s = s\<lparr>hs_streams := hs_streams s @ [(host_id, n)]\<rparr>"

definition cleanup_error :: "uuid \<Rightarrow> stream_cleanup \<Rightarrow> api_error option" where
  "cleanup_error host_id c =
     (case c of
        Cleanup_Done \<Rightarrow> None
      | Cleanup_Late \<Rightarrow> Some (ApiError_Conflict (''timed out cleaning up active SSH streams for host '' @ host_id @
          ''; host mutation cancelled''))
      | Cleanup_Failed m \<Rightarrow> Some (ApiError_Conflict (''could not clean up an active SSH stream for host '' @ host_id @
          '': '' @ m @ ''; host mutation cancelled'')))"

text \<open>
  Every stream of the host is told to end before the first is waited for; one that did not end in time is
  still running afterwards.
\<close>

definition cancel_remote_streams_for_host :: "hosts_env \<Rightarrow> uuid \<Rightarrow> (api_error, unit) hosts" where
  "cancel_remote_streams_for_host en host_id s =
     (let controls = map snd (filter (\<lambda>(k, n). k = host_id) (hs_streams s))
      in (s\<lparr>hs_streams := filter (\<lambda>(k, n). k \<noteq> host_id \<or> he_cleanup en n = Cleanup_Late) (hs_streams s)\<rparr>,
          case first_some (\<lambda>n. cleanup_error host_id (he_cleanup en n)) controls of
            Some e \<Rightarrow> Inl e | None \<Rightarrow> Inr ()))"

section \<open>Routes\<close>

definition he_uuid_arg :: "hosts_env \<Rightarrow> string \<Rightarrow> string \<Rightarrow> (api_error, uuid) hosts" where
  "he_uuid_arg en what text = hs_lift (ok_or (ApiError_BadRequest (''invalid '' @ what @ '': '' @ text)) (cx_parse_uuid (he_cx en) text))"

definition host_or_404 :: "hosts_env \<Rightarrow> uuid \<Rightarrow> string \<Rightarrow> (api_error, host) hosts" where
  "host_or_404 en i what =
     hs_bind (hs_get (\<lambda>s. lift_api (get_host (he_cx en) (hs_db s) i))) (\<lambda>r.
       hs_lift (and_then r (ok_or (ApiError_NotFound what))))"

definition internal_runtime :: "hosts_env \<Rightarrow> runtime_error \<Rightarrow> api_error" where
  "internal_runtime en e = ApiError_Internal (Internal_Text (runtime_error_text (he_te en) e))"

definition start_browser_route :: "hosts_env \<Rightarrow> string \<Rightarrow> string \<Rightarrow> (api_error, started_browser) hosts" where
  "start_browser_route en host_id workdir =
     hs_bind (he_uuid_arg en ''host_id'' host_id) (\<lambda>i.
     hs_bind (host_or_404 en i host_id) (\<lambda>h.
       hs_map_err (internal_runtime en) (start_host_browser en h True workdir)))"

definition install_browser_route :: "hosts_env \<Rightarrow> string \<Rightarrow> (api_error, string) hosts" where
  "install_browser_route en host_id =
     hs_bind (he_uuid_arg en ''host_id'' host_id) (\<lambda>i.
     hs_bind (host_or_404 en i host_id) (\<lambda>h.
       hs_map_err (internal_runtime en) (on_host (install_host_chromium (he_rt en) h))))"

definition status_route :: "hosts_env \<Rightarrow> string \<Rightarrow> bridge_entry option \<Rightarrow> (api_error, browser_status) hosts" where
  "status_route en i looked_up =
     hs_bind (case looked_up of None \<Rightarrow> hs_ret None
            | Some e \<Rightarrow> hs_map_err (internal_runtime en) (status_leased en i e)) (\<lambda>r.
       hs_lift (ok_or (ApiError_NotFound i) r))"

definition navigate_route :: "hosts_env \<Rightarrow> string \<Rightarrow> string \<Rightarrow> bridge_entry option \<Rightarrow> (api_error, unit) hosts" where
  "navigate_route en i url looked_up =
     hs_map_err (internal_runtime en)
       (case looked_up of
          None \<Rightarrow> hs_fail (RuntimeError_Bootstrap (''unknown host browser id: '' @ i))
        | Some e \<Rightarrow> navigate_leased en i url e)"

definition stop_route :: "hosts_env \<Rightarrow> string \<Rightarrow> bridge_entry option \<Rightarrow> (api_error, unit) hosts" where
  "stop_route en i looked_up =
     hs_map_err (internal_runtime en) (case looked_up of None \<Rightarrow> hs_ret () | Some e \<Rightarrow> stop_leased en i e)"

section \<open>Frames and input\<close>

text \<open>Little-endian bytes of a 32-bit word.\<close>

definition le32 :: "32 word \<Rightarrow> string" where
  "le32 w = map (\<lambda>k. char_of (unat (take_bit 8 (drop_bit (8 * k) w)))) [0, 1, 2, 3]"

definition SCREENCAST_HEADER_BYTES :: nat where "SCREENCAST_HEADER_BYTES = 16"

text \<open>The metadata is the text \<open>serde_json\<close> prints; its length is cut to 32 bits by \<open>as u32\<close>.\<close>

definition encode_screencast_frame :: "32 word \<Rightarrow> string \<Rightarrow> string \<Rightarrow> string" where
  "encode_screencast_frame seq jpeg meta_json =
     [CHR 0x62, CHR 0x01, CHR 0x01, CHR 0x01] @ le32 seq @ le32 (of_nat (length meta_json)) @ le32 0 @ meta_json @ jpeg"

text \<open>The numbers of \<open>Page.screencastFrame.metadata\<close> that are carried, by their names on the wire.\<close>

definition METADATA_KEYS :: "string list" where
  "METADATA_KEYS =
     [''offsetTop'', ''pageScaleFactor'', ''deviceWidth'', ''deviceHeight'', ''imageWidth'', ''imageHeight'',
      ''scrollOffsetX'', ''scrollOffsetY'', ''timestamp'']"

fun json_number :: "json \<Rightarrow> json option" where
  "json_number (JInt n) = Some (JInt n)"
| "json_number (JFloat f) = Some (JFloat f)"
| "json_number _ = None"

definition metadata_from_cdp :: "json \<Rightarrow> json" where
  "metadata_from_cdp meta =
     JObj (List.map_filter (\<lambda>k. map_option (Pair k) (Option.bind (jget meta k) json_number)) METADATA_KEYS)"

definition num_field :: "json \<Rightarrow> string \<Rightarrow> json" where
  "num_field v k = (case Option.bind (jget v k) json_number of Some n \<Rightarrow> n | None \<Rightarrow> JFloat ''0.0'')"

definition mouse_type :: "string option \<Rightarrow> string option" where
  "mouse_type action =
     (if action = Some ''move'' then Some ''mouseMoved''
      else if action = Some ''down'' then Some ''mousePressed''
      else if action = Some ''up'' then Some ''mouseReleased''
      else None)"

definition mouse_calls :: "json \<Rightarrow> (string \<times> json) list" where
  "mouse_calls v =
     (case mouse_type (jget_str v ''action'') of
        None \<Rightarrow> []
      | Some t \<Rightarrow>
          [(''Input.dispatchMouseEvent'',
            JObj ([(''type'', JStr t), (''x'', num_field v ''x''), (''y'', num_field v ''y'')] @
              (if t = ''mouseMoved'' then []
               else [(''button'', JStr (case jget_str v ''button'' of Some b \<Rightarrow> b | None \<Rightarrow> ''left'')),
                     (''clickCount'', JInt 1)])))])"

definition printable_char :: "string \<Rightarrow> bool" where
  "printable_char key \<longleftrightarrow>
     length (filter (\<lambda>c. \<not> is_continuation c) key) = 1 \<and>
     \<not> (of_char (hd key) < (32 :: nat) \<or> hd key = CHR 0x7F \<or> c1_control (hd key) (tl key))"

definition key_calls :: "string \<Rightarrow> (string \<times> json) list" where
  "key_calls key =
     (if printable_char key then [(''Input.insertText'', JObj [(''text'', JStr key)])]
      else [(''Input.dispatchKeyEvent'', JObj [(''type'', JStr ''keyDown''), (''key'', JStr key)]),
            (''Input.dispatchKeyEvent'', JObj [(''type'', JStr ''keyUp''), (''key'', JStr key)])])"

definition input_to_cdp_calls :: "json option \<Rightarrow> (string \<times> json) list" where
  "input_to_cdp_calls parsed =
     (case parsed of
        None \<Rightarrow> []
      | Some v \<Rightarrow>
          (let kind = jget_str v ''type'' in
           if kind = Some ''mouse'' then mouse_calls v
           else if kind = Some ''wheel'' then
             [(''Input.dispatchMouseEvent'',
               JObj [(''type'', JStr ''mouseWheel''), (''x'', num_field v ''x''), (''y'', num_field v ''y''),
                     (''deltaX'', num_field v ''dx''), (''deltaY'', num_field v ''dy'')])]
           else if kind = Some ''navigate'' then
             (case jget_str v ''url'' of Some url \<Rightarrow> [(''Page.navigate'', JObj [(''url'', JStr url)])] | None \<Rightarrow> [])
           else if kind = Some ''key'' then (case jget_str v ''key'' of Some key \<Rightarrow> key_calls key | None \<Rightarrow> [])
           else []))"

section \<open>Frames are decoded as they were sent\<close>

definition word_le :: "string \<Rightarrow> nat" where
  "word_le bs = foldr (\<lambda>b n. of_char b + 256 * n) bs 0"

text \<open>The decoder of the desktop: the fields at their offsets, refused with a wrong kind or length.\<close>

definition decode_screencast_frame :: "string \<Rightarrow> (nat \<times> string \<times> string) option" where
  "decode_screencast_frame f =
     (if length f < SCREENCAST_HEADER_BYTES \<or> take 4 f \<noteq> [CHR 0x62, CHR 0x01, CHR 0x01, CHR 0x01] then None
      else let n = word_le (take 4 (drop 8 f)) in
        if length f < SCREENCAST_HEADER_BYTES + n then None
        else Some (word_le (take 4 (drop 4 f)), take n (drop SCREENCAST_HEADER_BYTES f), drop (SCREENCAST_HEADER_BYTES + n) f))"

lemma length_le32 [simp]: "length (le32 w) = 4"
  by (simp add: le32_def)

lemma byte_of_word: "unat (take_bit 8 (drop_bit k w) :: 32 word) = unat w div 2 ^ k mod 256"
proof -
  have "unat w < 2 ^ 32" using unsigned_less [of w] by simp
  then have full: "take_bit 32 (unat w) = unat w" by (simp add: take_bit_nat_eq_self)
  have "unat (take_bit 8 (drop_bit k w) :: 32 word) = take_bit 8 (drop_bit k (unat w))"
    using full by (simp only: unsigned_take_bit_eq unsigned_drop_bit_eq take_bit_take_bit) simp
  then show ?thesis by (simp add: take_bit_eq_mod drop_bit_eq_div)
qed

lemma base_256:
  fixes n :: nat
  shows "n mod 256 + 256 * (n div 256 mod 256 + 256 * (n div 65536 mod 256 + 256 * (n div 16777216))) = n"
proof -
  have "n div 65536 = n div 256 div 256" "n div 16777216 = n div 256 div 256 div 256"
    by (simp_all add: div_mult2_eq [symmetric])
  moreover have "m mod 256 + 256 * (m div 256) = m" for m :: nat by simp
  ultimately show ?thesis by simp
qed

lemma word_of_le32: "word_le (le32 w) = unat w"
proof -
  have "unat w < 2 ^ 32" using unsigned_less [of w] by simp
  then have "unat w div 16777216 mod 256 = unat w div 16777216" by simp
  then show ?thesis using base_256 [of "unat w"] by (simp add: word_le_def le32_def byte_of_word)
qed

text \<open>
  A frame is decoded to the sequence number, the metadata and the image it was made of, whatever bytes the
  image has, as long as the metadata is shorter than 4 GiB; sequence numbers may wrap.
\<close>

theorem frames_are_decoded:
  assumes "length meta_json < 2 ^ 32"
  shows "decode_screencast_frame (encode_screencast_frame seq jpeg meta_json) = Some (unat seq, meta_json, jpeg)"
proof -
  have "unat (of_nat (length meta_json) :: 32 word) = length meta_json"
    using assms by (simp add: unat_of_nat)
  then show ?thesis
    by (simp add: decode_screencast_frame_def encode_screencast_frame_def SCREENCAST_HEADER_BYTES_def word_of_le32 Let_def
        numeral_eq_Suc)
qed

lemma frames_are_decoded_witness:
  "decode_screencast_frame (encode_screencast_frame 258 [CHR 0xFF, CHR 0xD8] ''{}'') = Some (258, ''{}'', [CHR 0xFF, CHR 0xD8])"
  using frames_are_decoded [of "''{}''" 258 "[CHR 0xFF, CHR 0xD8]"] by simp

section \<open>Bridges and hosts\<close>

datatype bridge_request = Bridge_Stop | Bridge_Status | Bridge_Navigate string | Bridge_Screencast

fun serve :: "hosts_env \<Rightarrow> bridge_request \<Rightarrow> string \<Rightarrow> bridge_entry \<Rightarrow> hosts_state \<Rightarrow> hosts_state" where
  "serve en Bridge_Stop i e s = fst (stop_leased en i e s)"
| "serve en Bridge_Status i e s = fst (status_leased en i e s)"
| "serve en (Bridge_Navigate url) i e s = fst (navigate_leased en i url e s)"
| "serve en Bridge_Screencast i e s = fst (screencast_leased en i e s)"

lemma resolve_looks: "fst (resolve_current_host en e s) = s"
  by (simp add: resolve_current_host_def hosts_defs split: sum.split option.split)

lemma resolve_finds:
  assumes "snd (resolve_current_host en e s) = Inr (Some h)" "be_destination e = Destination_Ssh user hostname port"
  shows "\<exists>auth. get_host (he_cx en) (hs_db s) (be_host_id e) = Inr (Some h) \<and> h_kind h = HostKind_Ssh user hostname port auth"
proof -
  have "get_host (he_cx en) (hs_db s) (be_host_id e) = Inr (Some h)" "destination_of (h_kind h) = be_destination e"
    using assms by (auto simp: resolve_current_host_def hosts_defs split: if_splits sum.splits option.splits)
  then show ?thesis using assms(2) by (cases "h_kind h") auto
qed

lemma forget_tun: "hs_tun (fst (forget_if_same i e s)) = hs_tun s" "hs_db (fst (forget_if_same i e s)) = hs_db s"
  by (simp_all add: forget_if_same_def)

lemma bridge_forgotten: "snd (forget_if_same i e s) = Inr (is_same_entry i e s)"
  by (simp add: forget_if_same_def)

text \<open>A step that starts nothing.\<close>

definition silent :: "('e, 'a) hosts \<Rightarrow> bool" where
  "silent m \<longleftrightarrow> (\<forall>s. hs_tun (fst (m s)) = hs_tun s)"

lemma silent_pure: "silent (hs_ret x)" "silent (hs_fail e)" "silent (hs_lift r)" "silent (hs_get f)" "silent (ask g)"
  by (simp_all add: silent_def hosts_defs)

lemma silent_bind: "silent m \<Longrightarrow> (\<And>x. silent (f x)) \<Longrightarrow> silent (hs_bind m f)"
  unfolding silent_def hs_bind_def by (auto split: prod.split sum.split) (metis fst_conv)+

lemma silent_then: "silent m \<Longrightarrow> silent n \<Longrightarrow> silent (hs_then m n)"
  unfolding hs_then_def by (rule silent_bind)

lemma silent_try: "silent m \<Longrightarrow> silent (hs_try m)"
  unfolding silent_def hs_try_def by (auto split: prod.split) (metis fst_conv)

lemma silent_forget: "silent (forget_if_same i e)"
  by (simp add: silent_def forget_tun)

lemma silent_resolve: "silent (resolve_current_host en e)"
  by (simp add: silent_def resolve_looks)

lemmas silent_rules = silent_bind silent_then silent_try silent_forget silent_resolve silent_pure

lemma silent_connections: "silent (navigate_leased en i url e)" "silent (screencast_leased en i e)"
  unfolding navigate_leased_def screencast_leased_def resolve_bridge_for_connection_def connect_page_cdp_def discover_page_ws_def
  by (auto intro!: silent_rules split: option.split sum.split)

lemma on_host_tun: "hs_tun (fst (on_host m s)) = fst (m (hs_tun s))"
  by (simp add: on_host_def split: prod.split)

definition on_endpoint :: "hosts_env \<Rightarrow> string \<Rightarrow> bridge_entry \<Rightarrow> hosts_state \<Rightarrow> argv list \<Rightarrow> bool" where
  "on_endpoint en i e s news \<longleftrightarrow>
     news = [] \<or> is_same_entry i e s \<and>
       (\<exists>h user hostname port auth. get_host (he_cx en) (hs_db s) (be_host_id e) = Inr (Some h) \<and>
          be_destination e = Destination_Ssh user hostname port \<and> h_kind h = HostKind_Ssh user hostname port auth \<and>
          list_all (on_target (he_rt en) h (be_tmux_target e)) news)"

lemma stop_steps:
  "hs_tun (fst (stop_leased en i e s)) =
     (case snd (resolve_current_host en e s) of
        Inr (Some h) \<Rightarrow>
          (if is_same_entry i e s then fst (host_kill_session (he_rt en) h (be_tmux_target e) (hs_tun s)) else hs_tun s)
      | _ \<Rightarrow> hs_tun s)"
proof -
  have r: "resolve_current_host en e s = (s, snd (resolve_current_host en e s))"
    using resolve_looks [of en e s] by (metis prod.collapse)
  show ?thesis
    by (subst stop_leased_def, simp add: hs_bind_def, subst r)
      (auto simp: hosts_defs forget_if_same_def split: sum.split option.split prod.split)
qed

lemma status_steps:
  "hs_tun (fst (status_leased en i e s)) =
     (case snd (resolve_current_host en e s) of
        Inr (Some h) \<Rightarrow>
          (if is_same_entry i e s then fst (host_has_session (he_rt en) h (be_tmux_target e) (hs_tun s)) else hs_tun s)
      | _ \<Rightarrow> hs_tun s)"
proof -
  have r: "resolve_current_host en e s = (s, snd (resolve_current_host en e s))"
    using resolve_looks [of en e s] by (metis prod.collapse)
  show ?thesis
    by (subst status_leased_def, simp add: hs_bind_def hs_try_def, subst r)
      (auto simp: hosts_defs forget_if_same_def split: sum.split option.split prod.split)
qed

lemma target_news:
  assumes "h_kind h = HostKind_Ssh user hostname port auth" "starts_only (on_target rt h target) m"
  shows "\<exists>news. ts_log (fst (m t)) = ts_log t @ news \<and> list_all (on_target rt h target) news"
  using assms(2) by (rule starts_onlyE [of _ _ t]) auto

text \<open>
  C28. A bridge is only ever used against the endpoint its browser was started on. Whatever request is served
  with whatever registry entry, also one that was replaced or whose host was edited or deleted while the
  request waited: if it starts anything, the entry is still the registered one, the saved host still has
  the user, name and port of the entry, and every process is ssh to that host acting on the session of the
  entry. Opening a page or navigating starts nothing.
\<close>

theorem bridges_stay_on_their_endpoint:
  assumes "be_destination e = Destination_Ssh user hostname port"
  shows "\<exists>news. ts_log (hs_tun (serve en req i e s)) = ts_log (hs_tun s) @ news \<and> on_endpoint en i e s news"
proof (cases "req = Bridge_Stop \<or> req = Bridge_Status")
  case False
  then have "hs_tun (serve en req i e s) = hs_tun s"
    using silent_connections by (cases req) (auto simp: silent_def)
  then show ?thesis by (intro exI [of _ "[]"]) (simp add: on_endpoint_def)
next
  case stop: True
  show ?thesis
  proof (cases "\<exists>h. snd (resolve_current_host en e s) = Inr (Some h) \<and> is_same_entry i e s")
    case False
    then have "hs_tun (serve en req i e s) = hs_tun s"
      using stop by (auto simp: stop_steps status_steps forget_tun split: sum.split option.split)
    then show ?thesis by (intro exI [of _ "[]"]) (simp add: on_endpoint_def)
  next
    case True
    then obtain h where h: "snd (resolve_current_host en e s) = Inr (Some h)" "is_same_entry i e s" by blast
    obtain auth where kind: "get_host (he_cx en) (hs_db s) (be_host_id e) = Inr (Some h)"
      "h_kind h = HostKind_Ssh user hostname port auth"
      using resolve_finds [OF h(1) assms] by blast
    then have remote: "\<not> is_local h" by (simp add: is_local_def)
    have "\<exists>news. ts_log (hs_tun (serve en req i e s)) = ts_log (hs_tun s) @ news \<and>
        list_all (on_target (he_rt en) h (be_tmux_target e)) news"
      using stop h target_news [OF kind(2) kill_on_target [OF remote], of "he_rt en" "be_tmux_target e" "hs_tun s"]
        target_news [OF kind(2) has_session_on_target [OF remote], of "he_rt en" "be_tmux_target e" "hs_tun s"]
      by (auto simp: stop_steps status_steps on_host_tun forget_tun)
    then show ?thesis using h(2) kind assms unfolding on_endpoint_def by blast
  qed
qed

text \<open>A host that answers, in a database that knows it, and one bridge to it.\<close>

definition sample_disk :: disk where
  "sample_disk = \<lparr>dk_home = Some ''/home/me'', dk_which = (\<lambda>_ _. None), dk_entries = (\<lambda>_ _. Inr []), dk_is_file = (\<lambda>_ _. True),
     dk_read = (\<lambda>_ _. Inr ''9333''), dk_exists = (\<lambda>_ _. True), dk_create_dir_all = (\<lambda>_ _. Inr ()), dk_not_found = (\<lambda>_. True),
     dk_encode64 = id\<rparr>"

definition sample_hosts_env :: hosts_env where
  "sample_hosts_env = \<lparr>he_rt = sample_runtime, he_disk = sample_disk, he_cx = sample_codec, he_now = int,
     he_uuid = (\<lambda>t. ''g'' @ string_of_nat t), he_as_u128 = (\<lambda>_. 7), he_cleanup = (\<lambda>_. Cleanup_Done), he_reachable = (\<lambda>_ _. True),
     he_targets = (\<lambda>_ _. Inr []), he_connect = (\<lambda>_ _. None), he_send = (\<lambda>_ _ _. None), he_polls = (\<lambda>_. 80),
     he_store_text = (\<lambda>_. []), he_cwd = Inr ''/srv'', he_canonicalize = (\<lambda>_ p. Inr p)\<rparr>"

definition sample_bridge :: bridge_entry where
  "sample_bridge = \<lparr>be_generation = ''g1'', be_host_id = ''h1'', be_destination = Destination_Ssh ''me'' ''box.lan'' 2222,
     be_store = True, be_tmux_target = host_browser_target ''app'', be_cdp_host_port = 9333, be_mac_port = 9200\<rparr>"

definition sample_daemon :: hosts_state where
  "sample_daemon = \<lparr>hs_db = sample_host_db, hs_tun = \<lparr>ts_log = [], ts_tunnels = [], ts_retired = []\<rparr>,
     hs_bridges = [(''app'', sample_bridge)], hs_streams = [(''h1'', 3)], hs_ticks = 0\<rparr>"

lemma bridges_stay_on_their_endpoint_witness:
  "\<exists>news. ts_log (hs_tun (serve sample_hosts_env Bridge_Stop ''app'' sample_bridge sample_daemon)) = news \<and>
     on_endpoint sample_hosts_env ''app'' sample_bridge sample_daemon news"
  using bridges_stay_on_their_endpoint [of sample_bridge "''me''" "''box.lan''" 2222 sample_hosts_env Bridge_Stop "''app''" sample_daemon]
  by (simp add: sample_bridge_def sample_daemon_def)

lemma forget_registered:
  assumes "map_of (hs_bridges s) i = Some e"
  shows "forget_if_same i e s = (s\<lparr>hs_bridges := filter (\<lambda>(k, _). k \<noteq> i) (hs_bridges s)\<rparr>, Inr True)"
  using assms by (simp add: forget_if_same_def is_same_entry_def)

lemma map_of_remaining: "k \<noteq> i \<Longrightarrow> map_of (filter (\<lambda>(k, _). k \<noteq> i) bs) k = map_of bs k"
  by (induction bs) auto

definition retired_sessions :: "runtime \<Rightarrow> host \<Rightarrow> (string \<times> bridge_entry) list \<Rightarrow> argv \<Rightarrow> bool" where
  "retired_sessions rt h es c \<longleftrightarrow>
     (\<exists>(i, e) \<in> set es. be_destination e = destination_of (h_kind h) \<and> on_target rt h (be_tmux_target e) c)"

lemma retire_entries_steps:
  assumes "\<not> is_local h" "retire_entries en h es s = (s', Inr ())"
    "distinct (map fst es)" "list_all (\<lambda>(i, e). map_of (hs_bridges s) i = Some e) es"
  shows "hs_bridges s' = filter (\<lambda>(k, _). k \<notin> fst ` set es) (hs_bridges s) \<and> hs_db s' = hs_db s \<and>
    (\<exists>news. ts_log (hs_tun s') = ts_log (hs_tun s) @ news \<and> list_all (retired_sessions (he_rt en) h es) news)"
  using assms(2-4)
proof (induction es arbitrary: s)
  case Nil
  then show ?case by (simp add: hs_ret_def)
next
  case (Cons x es)
  obtain i e where x: "x = (i, e)" by (cases x)
  let ?kill = "if be_destination e = destination_of (h_kind h)
    then on_host (host_kill_session (he_rt en) h (be_tmux_target e)) else hs_ret ()"
  obtain s1 where s1: "?kill s = (s1, Inr ())"
    "hs_then (forget_if_same i e) (retire_entries en h es) s1 = (s', Inr ())"
    using Cons.prems(1) x by (auto simp: hs_then_def hs_bind_def split: prod.splits sum.splits)
  obtain n1 where n1: "ts_log (hs_tun s1) = ts_log (hs_tun s) @ n1" "list_all (retired_sessions (he_rt en) h (x # es)) n1"
    "hs_bridges s1 = hs_bridges s" "hs_db s1 = hs_db s"
  proof (cases "be_destination e = destination_of (h_kind h)")
    case True
    then have run: "on_host (host_kill_session (he_rt en) h (be_tmux_target e)) s = (s1, Inr ())" using s1(1) by simp
    obtain n where n: "fst (host_kill_session (he_rt en) h (be_tmux_target e) (hs_tun s)) =
        (hs_tun s)\<lparr>ts_log := ts_log (hs_tun s) @ n\<rparr>" "list_all (on_target (he_rt en) h (be_tmux_target e)) n"
      using kill_on_target [OF assms(1), of "he_rt en" "be_tmux_target e"] by (rule starts_onlyE)
    show ?thesis
    proof (rule that [of n])
      show "list_all (retired_sessions (he_rt en) h (x # es)) n"
        using n(2) True x by (auto simp: retired_sessions_def list_all_iff)
    qed (use run n(1) in \<open>auto simp: on_host_def split: prod.splits\<close>)
  next
    case False
    then show ?thesis using s1(1) by (intro that [of "[]"]) (auto simp: hs_ret_def)
  qed
  let ?s2 = "s1\<lparr>hs_bridges := filter (\<lambda>(k, _). k \<noteq> i) (hs_bridges s1)\<rparr>"
  have "map_of (hs_bridges s1) i = Some e" using Cons.prems(3) x n1(3) by simp
  then have rest: "retire_entries en h es ?s2 = (s', Inr ())"
    using s1(2) by (simp add: hs_then_def hs_bind_def forget_registered)
  have "map_of (hs_bridges ?s2) k = Some f" if there: "(k, f) \<in> set es" for k f
  proof -
    have "k \<noteq> i" using there Cons.prems(2) x by force
    moreover have "map_of (hs_bridges s) k = Some f" using there Cons.prems(3) by (auto simp: list_all_iff)
    ultimately show ?thesis by (simp add: map_of_remaining n1(3))
  qed
  then have "list_all (\<lambda>(i, e). map_of (hs_bridges ?s2) i = Some e) es" unfolding list_all_iff by blast
  then have ih: "hs_bridges s' = filter (\<lambda>(k, _). k \<notin> fst ` set es) (hs_bridges ?s2)" "hs_db s' = hs_db ?s2"
    "\<exists>news. ts_log (hs_tun s') = ts_log (hs_tun ?s2) @ news \<and> list_all (retired_sessions (he_rt en) h es) news"
    using Cons.IH [OF rest] Cons.prems(2) by auto
  then obtain n2 where n2: "ts_log (hs_tun s') = ts_log (hs_tun s1) @ n2" "list_all (retired_sessions (he_rt en) h es) n2" by auto
  have "list_all (retired_sessions (he_rt en) h (x # es)) n2"
    using n2(2) by (auto simp: retired_sessions_def list_all_iff)
  then have "\<exists>news. ts_log (hs_tun s') = ts_log (hs_tun s) @ news \<and> list_all (retired_sessions (he_rt en) h (x # es)) news"
    using n1(1,2) n2(1) by (intro exI [of _ "n1 @ n2"]) simp
  moreover have "hs_bridges s' = filter (\<lambda>(k, _). k \<notin> fst ` set (x # es)) (hs_bridges s)"
    unfolding ih(1) using n1(3) x by (simp add: split_def conj_commute)
  moreover have "hs_db s' = hs_db s" using ih(2) n1(4) by simp
  ultimately show ?case by blast
qed

lemma retired_entries:
  assumes "h_kind h = HostKind_Ssh user hostname port auth" "distinct (map fst (hs_bridges s))"
    and "retire_host_bridges_for_mutation en h s = (s', Inr ())"
  shows "hs_bridges s' = filter (\<lambda>(i, e). be_host_id e \<noteq> h_id h) (hs_bridges s) \<and> hs_db s' = hs_db s \<and>
    (\<exists>news. ts_log (hs_tun s') = ts_log (hs_tun s) @ news \<and>
      list_all (retired_sessions (he_rt en) h (filter (\<lambda>(i, e). be_host_id e = h_id h) (hs_bridges s))) news)"
proof -
  let ?es = "filter (\<lambda>(i, e). be_host_id e = h_id h) (hs_bridges s)"
  have "\<not> is_local h" using assms(1) by (simp add: is_local_def)
  moreover have "retire_entries en h ?es s = (s', Inr ())"
    using assms(3) by (simp add: retire_host_bridges_for_mutation_def hs_bind_def hs_get_def)
  moreover have "distinct (map fst ?es)" using assms(2) by (simp add: distinct_map_filter)
  moreover have "list_all (\<lambda>(i, e). map_of (hs_bridges s) i = Some e) ?es"
    using assms(2) by (auto simp: list_all_iff)
  ultimately have steps: "hs_bridges s' = filter (\<lambda>(k, _). k \<notin> fst ` set ?es) (hs_bridges s) \<and> hs_db s' = hs_db s \<and>
    (\<exists>news. ts_log (hs_tun s') = ts_log (hs_tun s) @ news \<and> list_all (retired_sessions (he_rt en) h ?es) news)"
    by (rule retire_entries_steps)
  have "filter (\<lambda>(k, _). k \<notin> fst ` set ?es) (hs_bridges s) = filter (\<lambda>(i, e). be_host_id e \<noteq> h_id h) (hs_bridges s)"
    using eq_key_imp_eq_value [OF assms(2)] by (intro filter_cong) (auto simp: image_iff)
  then show ?thesis using steps by simp
qed

lemma retired_bridges:
  assumes "h_kind h = HostKind_Ssh user hostname port auth" "distinct (map fst (hs_bridges s))"
    and "retire_host_bridges_for_mutation en h s = (s', Inr ())"
  shows "hs_bridges s' = filter (\<lambda>(i, e). be_host_id e \<noteq> h_id h) (hs_bridges s)"
  using retired_entries [OF assms] by blast

text \<open>
  Before a host is edited or deleted its bridges are gone: a retirement that succeeds leaves the registry
  without any entry of the host and every other entry as it was, and what it ends are sessions of entries
  whose destination is the one the host has now; entries left over from an earlier destination are only
  forgotten.
\<close>

theorem no_bridge_survives_retirement:
  assumes "h_kind h = HostKind_Ssh user hostname port auth" "distinct (map fst (hs_bridges s))"
    and "retire_host_bridges_for_mutation en h s = (s', Inr ())"
  shows "hs_bridges s' = filter (\<lambda>(i, e). be_host_id e \<noteq> h_id h) (hs_bridges s) \<and> hs_db s' = hs_db s \<and>
    (\<exists>news. ts_log (hs_tun s') = ts_log (hs_tun s) @ news \<and>
      list_all (retired_sessions (he_rt en) h (filter (\<lambda>(i, e). be_host_id e = h_id h) (hs_bridges s))) news)"
  using retired_entries [OF assms] .

lemma no_bridge_survives_retirement_witness:
  "hs_bridges (fst (retire_host_bridges_for_mutation sample_hosts_env ((sample_ssh_host [])\<lparr>h_id := ''h1''\<rparr>)
     (sample_daemon\<lparr>hs_bridges := [(''app'', sample_bridge), (''web'', sample_bridge\<lparr>be_host_id := ''h2''\<rparr>)]\<rparr>))) =
     [(''web'', sample_bridge\<lparr>be_host_id := ''h2''\<rparr>)]"
proof -
  let ?h = "(sample_ssh_host [])\<lparr>h_id := ''h1''\<rparr>"
  let ?s = "sample_daemon\<lparr>hs_bridges := [(''app'', sample_bridge), (''web'', sample_bridge\<lparr>be_host_id := ''h2''\<rparr>)]\<rparr>"
  have "snd (retire_host_bridges_for_mutation sample_hosts_env ?h ?s) = Inr ()"
    by (simp add: retire_host_bridges_for_mutation_def hosts_defs sample_daemon_def sample_bridge_def sample_ssh_host_def
        forget_if_same_def is_same_entry_def)
  then have "retire_host_bridges_for_mutation sample_hosts_env ?h ?s =
      (fst (retire_host_bridges_for_mutation sample_hosts_env ?h ?s), Inr ())" by (metis prod.collapse)
  moreover have "h_kind ?h = HostKind_Ssh ''me'' ''box'' 22 (SshAuth_Password [])" by (simp add: sample_ssh_host_def)
  moreover have "distinct (map fst (hs_bridges ?s))" by simp
  ultimately have "hs_bridges (fst (retire_host_bridges_for_mutation sample_hosts_env ?h ?s)) =
      filter (\<lambda>(i, e). be_host_id e \<noteq> h_id ?h) (hs_bridges ?s)"
    using no_bridge_survives_retirement [of ?h "''me''" "''box''" 22 "SshAuth_Password []" ?s sample_hosts_env] by blast
  then show ?thesis by (simp add: sample_bridge_def)
qed

text \<open>Two worktrees whose directories have one name share the browser, its session and the registry entry.\<close>

lemma same_named_worktrees_share_a_browser:
  "workdir_slug ''/home/me/shop/app'' = workdir_slug ''/home/me/blog/app''"
  by code_simp

text \<open>On this machine the browser is started first; the tunnel then fails and the browser stays, unregistered.\<close>

lemma local_browser_is_abandoned:
  assumes "is_local h" "launch_host_browser (he_rt en) (he_disk en) (he_polls en (hs_ticks s)) h workdir (hs_tun s) = (t, Inr b)"
  shows "\<exists>s'. start_host_browser en h store workdir s = (s', Inl RuntimeError_Unsupported) \<and> hs_tun s' = t \<and>
    hs_bridges s' = hs_bridges s"
  using assms by (simp add: start_host_browser_def hosts_defs ensure_forward_tunnel_def tfail_def)

end
