(* ===== verification/Host_Routes.thy ===== *)
theory Host_Routes
  imports Host_Browser
begin

text \<open>
  \<open>crates/agentum-server/src/routes/hosts.rs\<close>: the machines the daemon controls. Creating, editing and
  deleting a host compose the store, the SSH masters and tunnels, the browser bridges and the streams of
  the host; testing and setting up a host; listing its tmux sessions and killing an unmanaged one. A
  handler holds the lease of its host, so it is one step on the state of \<open>Host_Browser\<close>; the attachment
  of a discovered session is not modelled.
\<close>

section \<open>Responses\<close>

datatype response_auth = ResponseAuth_Agent | ResponseAuth_Key string | ResponseAuth_Password

datatype response_kind = ResponseKind_Local | ResponseKind_Ssh string string "16 word" response_auth

record host_response =
  rs_id :: uuid
  rs_name :: string
  rs_kind :: response_kind
  rs_created_at :: time
  rs_updated_at :: time
  rs_last_seen_at :: "time option"

fun response_auth_of :: "ssh_auth \<Rightarrow> response_auth" where
  "response_auth_of SshAuth_Agent = ResponseAuth_Agent"
| "response_auth_of (SshAuth_Key path) = ResponseAuth_Key path"
| "response_auth_of (SshAuth_Password password) = ResponseAuth_Password"

fun response_kind_of :: "host_kind \<Rightarrow> response_kind" where
  "response_kind_of HostKind_Local = ResponseKind_Local"
| "response_kind_of (HostKind_Ssh user hostname port auth) = ResponseKind_Ssh user hostname port (response_auth_of auth)"

definition HostResponse_from :: "host \<Rightarrow> host_response" where
  "HostResponse_from h =
     \<lparr>rs_id = h_id h, rs_name = h_name h, rs_kind = response_kind_of (h_kind h), rs_created_at = h_created_at h,
      rs_updated_at = h_updated_at h, rs_last_seen_at = h_last_seen_at h\<rparr>"

section \<open>Validation\<close>

text \<open>\<open>char::is_control\<close> and \<open>char::is_whitespace\<close> somewhere in the UTF-8 bytes of a string.\<close>

fun has_control :: "string \<Rightarrow> bool" where
  "has_control [] = False"
| "has_control (c # cs) = (of_char c < (32 :: nat) \<or> c = CHR 0x7F \<or> c1_control c cs \<or> has_control cs)"

fun has_whitespace :: "string \<Rightarrow> bool" where
  "has_whitespace [] = False"
| "has_whitespace (c # cs) = (strip_one_of ws_encodings (c # cs) \<noteq> None \<or> has_whitespace cs)"

definition validate_ssh_destination_part :: "string \<Rightarrow> string \<Rightarrow> api_error + unit" where
  "validate_ssh_destination_part label value =
     (if starts_with ''-'' value then Inl (ApiError_BadRequest (''ssh '' @ label @ '' cannot begin with '' @ sq @ ''-'' @ sq))
      else if has_control value then Inl (ApiError_BadRequest (''ssh '' @ label @ '' cannot contain control characters''))
      else if has_whitespace value then Inl (ApiError_BadRequest (''ssh '' @ label @ '' cannot contain whitespace''))
      else Inr ())"

definition resolve_key_path :: "hosts_env \<Rightarrow> argv list \<Rightarrow> string \<Rightarrow> api_error + string" where
  "resolve_key_path en log raw =
     and_then (expand_with_home raw (dk_home (he_disk en))) (\<lambda>expanded.
     and_then (if is_absolute expanded then Inr expanded
               else case he_cwd en of
                 Inl e \<Rightarrow> Inl (ApiError_Internal (Internal_Text (''cannot resolve ssh key path: '' @ e)))
               | Inr cwd \<Rightarrow> Inr (path_join cwd expanded)) (\<lambda>absolute.
     case he_canonicalize en log absolute of
       Inl e \<Rightarrow> Inl (ApiError_BadRequest (''ssh key does not exist or is inaccessible: '' @ absolute @ '' ('' @ e @ '')''))
     | Inr canonical \<Rightarrow>
         if \<not> dk_is_file (he_disk en) log canonical then Inl (ApiError_BadRequest (''ssh key is not a file: '' @ canonical))
         else Inr canonical))"

fun validate_auth :: "(string \<Rightarrow> api_error + string) \<Rightarrow> ssh_auth \<Rightarrow> api_error + ssh_auth" where
  "validate_auth key SshAuth_Agent = Inr SshAuth_Agent"
| "validate_auth key (SshAuth_Key path) =
     (if trim path = [] then Inr SshAuth_Agent else map_sum id SshAuth_Key (key path))"
| "validate_auth key (SshAuth_Password password) =
     (if trim password = [] \<or> password = REDACTED_SSH_PASSWORD then Inl (ApiError_BadRequest ''ssh password is required'')
      else Inr (SshAuth_Password password))"

fun validate_kind :: "(string \<Rightarrow> api_error + string) \<Rightarrow> host_kind \<Rightarrow> api_error + host_kind" where
  "validate_kind key HostKind_Local = Inl (ApiError_BadRequest ''additional local hosts are not supported'')"
| "validate_kind key (HostKind_Ssh user0 hostname0 port auth0) =
     (let user = trim user0; hostname = trim hostname0 in
      if user = [] then Inl (ApiError_BadRequest ''ssh user is required'')
      else if hostname = [] then Inl (ApiError_BadRequest ''ssh hostname is required'')
      else and_then (validate_ssh_destination_part ''user'' user) (\<lambda>_.
           and_then (validate_ssh_destination_part ''hostname'' hostname) (\<lambda>_.
           if port = 0 then Inl (ApiError_BadRequest ''ssh port must be between 1 and 65535'')
           else and_then (validate_auth key auth0) (\<lambda>auth. Inr (HostKind_Ssh user hostname port auth)))))"

definition validate_host :: "(string \<Rightarrow> api_error + string) \<Rightarrow> new_host \<Rightarrow> api_error + new_host" where
  "validate_host key new =
     (if trim (nh_name new) = [] then Inl (ApiError_BadRequest ''host name is required'')
      else and_then (validate_kind key (nh_kind new)) (\<lambda>kind. Inr \<lparr>nh_name = trim (nh_name new), nh_kind = kind\<rparr>))"

text \<open>The password of a payload, and the payload with another one.\<close>

fun payload_password :: "host_kind \<Rightarrow> string option" where
  "payload_password (HostKind_Ssh user hostname port (SshAuth_Password password)) = Some password"
| "payload_password _ = None"

fun replace_password :: "string \<Rightarrow> host_kind \<Rightarrow> host_kind" where
  "replace_password new (HostKind_Ssh user hostname port (SshAuth_Password password)) =
     HostKind_Ssh user hostname port (SshAuth_Password new)"
| "replace_password new k = k"

definition prepare_host_update :: "(string \<Rightarrow> api_error + string) \<Rightarrow> host \<Rightarrow> new_host \<Rightarrow> api_error + new_host \<times> bool" where
  "prepare_host_update key old new =
     (if \<not> (case payload_password (nh_kind new) of Some p \<Rightarrow> p = [] \<or> p = REDACTED_SSH_PASSWORD | None \<Rightarrow> False)
      then map_sum id (\<lambda>v. (v, False)) (validate_host key new)
      else case payload_password (h_kind old) of
        None \<Rightarrow> Inl (ApiError_BadRequest ''ssh password is required when switching to password authentication'')
      | Some stored \<Rightarrow>
          and_then (validate_host key (new\<lparr>nh_kind := replace_password stored (nh_kind new)\<rparr>)) (\<lambda>v.
            Inr (v\<lparr>nh_kind := replace_password REDACTED_SSH_PASSWORD (nh_kind v)\<rparr>, True)))"

fun ssh_destination_changed :: "host_kind \<Rightarrow> host_kind \<Rightarrow> bool" where
  "ssh_destination_changed (HostKind_Ssh u h p a) (HostKind_Ssh u' h' p' a') = (u \<noteq> u' \<or> h \<noteq> h' \<or> p \<noteq> p')"
| "ssh_destination_changed _ _ = False"

section \<open>Handlers\<close>

definition host_api :: "hosts_env \<Rightarrow> host \<Rightarrow> runtime_error \<Rightarrow> api_error" where
  "host_api en h e = from_host_runtime h (handler_error (he_te en) e)"

definition on_api :: "hosts_env \<Rightarrow> host \<Rightarrow> 'a tun \<Rightarrow> (api_error, 'a) hosts" where
  "on_api en h m = hs_map_err (host_api en h) (on_host m)"

text \<open>A write of the store at the time and with the fresh id of its tick.\<close>

definition store_step :: "hosts_env \<Rightarrow> (time \<Rightarrow> uuid \<Rightarrow> db \<Rightarrow> db \<times> (store_error + 'a)) \<Rightarrow> (api_error, 'a) hosts" where
  "store_step en f s =
     (case f (he_now en (hs_ticks s)) (he_uuid en (hs_ticks s)) (hs_db s) of
        (d, r) \<Rightarrow> (s\<lparr>hs_db := d, hs_ticks := Suc (hs_ticks s)\<rparr>, lift_api r))"

definition uuid_arg :: "hosts_env \<Rightarrow> string \<Rightarrow> (api_error, uuid) hosts" where
  "uuid_arg en text = he_uuid_arg en ''uuid'' text"

definition key_resolver :: "hosts_env \<Rightarrow> hosts_state \<Rightarrow> string \<Rightarrow> api_error + string" where
  "key_resolver en s = resolve_key_path en (ts_log (hs_tun s))"

definition list_route :: "hosts_env \<Rightarrow> (api_error, host_response list) hosts" where
  "list_route en = hs_bind (hs_get (\<lambda>s. list_hosts (he_cx en) (hs_db s))) (\<lambda>r. hs_lift (lift_api (map_sum id (map HostResponse_from) r)))"

definition get_route :: "hosts_env \<Rightarrow> string \<Rightarrow> (api_error, host_response) hosts" where
  "get_route en text = hs_bind (uuid_arg en text) (\<lambda>i. hs_bind (host_or_404 en i i) (\<lambda>h. hs_ret (HostResponse_from h)))"

definition create_route :: "hosts_env \<Rightarrow> new_host \<Rightarrow> (api_error, host_response) hosts" where
  "create_route en new =
     hs_bind (hs_get (\<lambda>s. validate_host (key_resolver en s) new)) (\<lambda>v.
     hs_bind (hs_lift v) (\<lambda>valid.
     hs_bind (store_step en (\<lambda>now i d. create_host (he_cx en) now i d valid)) (\<lambda>h. hs_ret (HostResponse_from h))))"

definition bound_sessions :: "hosts_env \<Rightarrow> uuid \<Rightarrow> hosts_state \<Rightarrow> api_error + nat" where
  "bound_sessions en i s =
     and_then (lift_api (list_sessions (he_cx en) (hs_db s) None)) (\<lambda>ss.
       Inr (length (filter (\<lambda>x. s_host_id x = Some i) ss)))"

definition refuse_bound :: "hosts_env \<Rightarrow> uuid \<Rightarrow> (nat \<Rightarrow> string) \<Rightarrow> (api_error, unit) hosts" where
  "refuse_bound en i message =
     hs_bind (hs_get (bound_sessions en i)) (\<lambda>r. hs_bind (hs_lift r) (\<lambda>n.
       if n > 0 then hs_fail (ApiError_Conflict (message n)) else hs_ret ()))"

definition invalidate_control_masters :: "hosts_env \<Rightarrow> host \<Rightarrow> (api_error, unit) hosts" where
  "invalidate_control_masters en h =
     (if is_local h then hs_ret () else on_api en h (invalidate_ssh_control_masters (he_te en) h))"

definition leave_host :: "hosts_env \<Rightarrow> host \<Rightarrow> uuid \<Rightarrow> (api_error, unit) hosts" where
  "leave_host en old i =
     hs_then (cancel_remote_streams_for_host en i)
     (hs_then (hs_map_err (host_api en old) (retire_host_bridges_for_mutation en old))
        (invalidate_control_masters en old))"

definition rewarm :: "hosts_env \<Rightarrow> host \<Rightarrow> (api_error, unit) hosts" where
  "rewarm en h = hs_bind (hs_try (on_host (warm_ssh_master (he_te en) h))) (\<lambda>_. hs_ret ())"

definition discard_control_state :: "uuid \<Rightarrow> (api_error, unit) hosts" where
  "discard_control_state i = hs_bind (hs_try (on_host (discard_ssh_control_state i))) (\<lambda>_. hs_ret ())"

definition commit_update :: "hosts_env \<Rightarrow> host \<Rightarrow> uuid \<Rightarrow> bool \<Rightarrow> new_host \<times> bool \<Rightarrow> (api_error, host_response) hosts" where
  "commit_update en old i changed prepared =
     (case prepared of (new, retain_password) \<Rightarrow>
        hs_bind (hs_try (store_step en (\<lambda>now _ d.
            if retain_password then update_host_retaining_password (he_cx en) now d i new
            else update_host (he_cx en) now d i new))) (\<lambda>r.
          case r of
            Inl e \<Rightarrow> hs_then (rewarm en old) (hs_fail e)
          | Inr h \<Rightarrow> hs_then (if changed then discard_control_state i else rewarm en h) (hs_ret (HostResponse_from h))))"

definition destination_message :: "nat \<Rightarrow> string" where
  "destination_message n =
     ''cannot change this SSH destination while '' @ string_of_nat n @
     '' session(s) are bound; delete them first, then retry the host edit''"

definition deletion_message :: "nat \<Rightarrow> string" where
  "deletion_message n =
     ''host has '' @ string_of_nat n @ '' bound session(s); delete or move them before deleting the host''"

definition update_loaded :: "hosts_env \<Rightarrow> uuid \<Rightarrow> new_host \<Rightarrow> host \<Rightarrow> (api_error, host_response) hosts" where
  "update_loaded en i new old =
     (if is_local old then hs_fail (ApiError_NotFound ''the local host is not editable'')
      else hs_bind (hs_get (\<lambda>s. prepare_host_update (key_resolver en s) old new)) (\<lambda>r. hs_bind (hs_lift r) (\<lambda>prepared.
        let changed = ssh_destination_changed (h_kind old) (nh_kind (fst prepared)) in
        hs_then (if changed then refuse_bound en i destination_message else hs_ret ())
        (hs_then (leave_host en old i) (commit_update en old i changed prepared)))))"

definition update_route :: "hosts_env \<Rightarrow> string \<Rightarrow> new_host \<Rightarrow> (api_error, host_response) hosts" where
  "update_route en text new =
     hs_bind (uuid_arg en text) (\<lambda>i. hs_bind (host_or_404 en i i) (update_loaded en i new))"

definition commit_delete :: "hosts_env \<Rightarrow> host \<Rightarrow> uuid \<Rightarrow> (api_error, unit) hosts" where
  "commit_delete en old i =
     hs_bind (hs_try (store_step en (\<lambda>_ _ d. delete_host d i))) (\<lambda>r.
       case r of
         Inr True \<Rightarrow> discard_control_state i
       | Inr False \<Rightarrow> hs_then (rewarm en old) (hs_fail (ApiError_NotFound i))
       | Inl e \<Rightarrow> hs_then (rewarm en old) (hs_fail e))"

definition remove_loaded :: "hosts_env \<Rightarrow> uuid \<Rightarrow> host \<Rightarrow> (api_error, unit) hosts" where
  "remove_loaded en i old =
     (if is_local old then hs_fail (ApiError_NotFound ''the local host is not deletable'')
      else hs_then (refuse_bound en i deletion_message)
           (hs_then (leave_host en old i) (commit_delete en old i)))"

definition remove_route :: "hosts_env \<Rightarrow> string \<Rightarrow> (api_error, unit) hosts" where
  "remove_route en text = hs_bind (uuid_arg en text) (\<lambda>i. hs_bind (host_or_404 en i i) (remove_loaded en i))"

section \<open>Readiness and set-up\<close>

definition seen :: "hosts_env \<Rightarrow> uuid \<Rightarrow> (api_error, unit) hosts" where
  "seen en i = store_step en (\<lambda>now _ d. (update_host_seen (he_cx en) now d i, Inr ()))"

definition seen_if :: "hosts_env \<Rightarrow> uuid \<Rightarrow> bool \<Rightarrow> (api_error, unit) hosts" where
  "seen_if en i ok = (if ok then seen en i else hs_ret ())"

definition with_host :: "hosts_env \<Rightarrow> string \<Rightarrow> (uuid \<Rightarrow> host \<Rightarrow> (api_error, 'a) hosts) \<Rightarrow> (api_error, 'a) hosts" where
  "with_host en text f = hs_bind (uuid_arg en text) (\<lambda>i. hs_bind (host_or_404 en i i) (f i))"

definition test_route :: "hosts_env \<Rightarrow> string \<Rightarrow> (api_error, host_probe) hosts" where
  "test_route en text =
     with_host en text (\<lambda>i h.
       hs_bind (on_api en h (probe (he_rt en) (he_disk en) h)) (\<lambda>r. hs_then (seen_if en i (hp_ok r)) (hs_ret r)))"

definition report_and_see :: "hosts_env \<Rightarrow> uuid \<Rightarrow> host \<Rightarrow> host_readiness tun \<Rightarrow> (api_error, host_readiness) hosts" where
  "report_and_see en i h m = hs_bind (on_api en h m) (\<lambda>r. hs_then (seen_if en i (rd_ok r)) (hs_ret r))"

definition readiness_route :: "hosts_env \<Rightarrow> string \<Rightarrow> (api_error, host_readiness) hosts" where
  "readiness_route en text = with_host en text (\<lambda>i h. report_and_see en i h (readiness (he_rt en) (he_disk en) h))"

definition confirmed :: "bool \<Rightarrow> string \<Rightarrow> string list \<Rightarrow> string \<Rightarrow> (string \<Rightarrow> string option) \<Rightarrow> (api_error, 'a) hosts \<Rightarrow> (api_error, 'a) hosts" where
  "confirmed confirm unconfirmed items none_given refuse m =
     (if \<not> confirm then hs_fail (ApiError_BadRequest unconfirmed)
      else if items = [] then hs_fail (ApiError_BadRequest none_given)
      else case first_some refuse items of Some message \<Rightarrow> hs_fail (ApiError_BadRequest message) | None \<Rightarrow> m)"

definition bootstrap_route :: "hosts_env \<Rightarrow> string \<Rightarrow> string list \<Rightarrow> bool \<Rightarrow> (api_error, host_readiness) hosts" where
  "bootstrap_route en text items confirm =
     hs_bind (uuid_arg en text) (\<lambda>i.
       confirmed confirm ''bootstrap requires explicit confirm: true'' items ''no items to bootstrap''
         (\<lambda>item. if item \<in> set BOOTSTRAPABLE then None
                 else Some (''`'' @ item @ ''` is not bootstrapable (only: '' @ join_with '', '' BOOTSTRAPABLE @ '')''))
         (hs_bind (host_or_404 en i i) (\<lambda>h. report_and_see en i h (bootstrap (he_rt en) (he_disk en) h items))))"

definition install_agent_route :: "hosts_env \<Rightarrow> string \<Rightarrow> string list \<Rightarrow> bool \<Rightarrow> (api_error, host_readiness) hosts" where
  "install_agent_route en text tools confirm =
     hs_bind (uuid_arg en text) (\<lambda>i.
       confirmed confirm ''install-agent requires explicit confirm: true'' tools ''no tools to install''
         (\<lambda>tool. if agent_install_command tool = None then Some (''`'' @ tool @ ''` has no verified installer'') else None)
         (hs_bind (host_or_404 en i i) (\<lambda>h. report_and_see en i h (install_agents (he_rt en) (he_disk en) h tools))))"

definition provision_skills_route :: "hosts_env \<Rightarrow> string \<Rightarrow> string list \<Rightarrow> bool \<Rightarrow> (api_error, host_readiness) hosts" where
  "provision_skills_route en text skills confirm =
     hs_bind (uuid_arg en text) (\<lambda>i.
       confirmed confirm ''provision-skills requires explicit confirm: true'' skills ''no skills to provision'' (\<lambda>_. None)
         (hs_bind (host_or_404 en i i) (\<lambda>h. report_and_see en i h (provision_skills (he_rt en) (he_disk en) h skills))))"

section \<open>The sessions tmux has on a host\<close>

definition query_root :: "string option \<Rightarrow> string option" where
  "query_root path =
     Option.bind path (\<lambda>p. let r = trim_end_char (CHR ''/'') p in if r = [] then None else Some r)"

definition related_to :: "string option \<Rightarrow> discovered_session \<Rightarrow> bool" where
  "related_to root d =
     (case root of
        None \<Rightarrow> False
      | Some r \<Rightarrow> list_ex (\<lambda>p. dp_cwd p = r \<or> starts_with (r @ ''/'') (dp_cwd p)) (ds_panes d))"

definition tmux_sessions_route :: "hosts_env \<Rightarrow> string \<Rightarrow> string option \<Rightarrow> bool \<Rightarrow> (api_error, (discovered_session \<times> bool) list) hosts" where
  "tmux_sessions_route en text path every =
     with_host en text (\<lambda>i h.
       hs_bind (on_api en h (if every then list_all_tmux_sessions (he_rt en) h else list_tmux_sessions (he_rt en) h)) (\<lambda>found_sessions.
       hs_then (seen en i)
         (hs_ret (map (\<lambda>d. (d, related_to (query_root path) d)) found_sessions))))"

text \<open>One dash per character outside the alphabet of session names, at most 56 characters.\<close>

definition external_session_name :: "string \<Rightarrow> string" where
  "external_session_name tmux_name =
     (let s = take 56 (map (\<lambda>c. if is_ascii_alphanumeric c \<or> c = CHR ''-'' \<or> c = CHR ''_'' then c else CHR ''-'')
                (filter (\<lambda>c. \<not> is_continuation c) tmux_name))
      in if s = [] then ''tmux'' else s)"

definition is_agentum_managed_target :: "string \<Rightarrow> bool" where
  "is_agentum_managed_target name = starts_with ''agentum-'' name"

definition has_exact_tmux_target :: "discovered_session list \<Rightarrow> string \<Rightarrow> bool" where
  "has_exact_tmux_target discovered name = list_ex (\<lambda>d. ds_name d = name) discovered"

definition bound_to :: "uuid \<Rightarrow> string \<Rightarrow> session \<Rightarrow> bool" where
  "bound_to host_id name x = (s_host_id x = Some host_id \<and> s_tmux_target x = Some name)"

text \<open>The session is looked up again under its own lock; whatever went on meanwhile is in the state then.\<close>

definition refuse_bound_target :: "hosts_env \<Rightarrow> uuid \<Rightarrow> string \<Rightarrow> (api_error, unit) hosts" where
  "refuse_bound_target en host_id name =
     hs_bind (hs_get (\<lambda>s. lift_api (list_sessions (he_cx en) (hs_db s) None))) (\<lambda>r. hs_bind (hs_lift r) (\<lambda>ss.
       case find (bound_to host_id name) ss of
         None \<Rightarrow> hs_ret ()
       | Some bound \<Rightarrow>
           hs_bind (hs_get (\<lambda>s. lift_api (get_session_by_id (he_cx en) (hs_db s) (s_id bound)))) (\<lambda>r'. hs_bind (hs_lift r') (\<lambda>again.
             case again of
               None \<Rightarrow> hs_ret ()
             | Some x \<Rightarrow>
                 if bound_to host_id name x
                 then hs_fail (ApiError_Conflict (''tmux session `'' @ name @ ''` is bound to Agentum session `'' @ s_name bound @
                   ''`; use /api/sessions/'' @ s_id bound @ ''/kill''))
                 else hs_ret ()))))"

definition kill_tmux_session_route :: "hosts_env \<Rightarrow> string \<Rightarrow> string \<Rightarrow> (api_error, unit) hosts" where
  "kill_tmux_session_route en text name =
     with_host en text (\<lambda>i h.
       if is_agentum_managed_target name
       then hs_fail (ApiError_Conflict (''tmux session `'' @ name @ ''` is Agentum-managed; use the Agentum session lifecycle''))
       else hs_then (refuse_bound_target en i name)
         (hs_bind (on_api en h (list_all_tmux_sessions (he_rt en) h)) (\<lambda>discovered.
            if \<not> has_exact_tmux_target discovered name
            then hs_fail (ApiError_NotFound (''tmux session not found on host: '' @ name))
            else on_api en h (kill_tmux_session (he_rt en) h name))))"

text \<open>The requests to the routes of hosts, and what each does to the state of the daemon.\<close>

datatype host_op =
    Host_List
  | Host_Get string
  | Host_Create new_host
  | Host_Update string new_host
  | Host_Remove string
  | Host_Test string
  | Host_Ready string
  | Host_Bootstrap string "string list" bool
  | Host_InstallAgent string "string list" bool
  | Host_ProvisionSkills string "string list" bool
  | Host_TmuxSessions string "string option" bool
  | Host_KillTmux string string

fun host_perform :: "hosts_env \<Rightarrow> host_op \<Rightarrow> hosts_state \<Rightarrow> hosts_state" where
  "host_perform en Host_List s = fst (list_route en s)"
| "host_perform en (Host_Get text) s = fst (get_route en text s)"
| "host_perform en (Host_Create new) s = fst (create_route en new s)"
| "host_perform en (Host_Update text new) s = fst (update_route en text new s)"
| "host_perform en (Host_Remove text) s = fst (remove_route en text s)"
| "host_perform en (Host_Test text) s = fst (test_route en text s)"
| "host_perform en (Host_Ready text) s = fst (readiness_route en text s)"
| "host_perform en (Host_Bootstrap text items confirm) s = fst (bootstrap_route en text items confirm s)"
| "host_perform en (Host_InstallAgent text tools confirm) s = fst (install_agent_route en text tools confirm s)"
| "host_perform en (Host_ProvisionSkills text skills confirm) s = fst (provision_skills_route en text skills confirm s)"
| "host_perform en (Host_TmuxSessions text path every) s = fst (tmux_sessions_route en text path every s)"
| "host_perform en (Host_KillTmux text name) s = fst (kill_tmux_session_route en text name s)"

section \<open>What the handlers do to the database\<close>

text \<open>Everything on the way to a write of the store leaves the database alone.\<close>

definition part_kept :: "(hosts_state \<Rightarrow> 'p) \<Rightarrow> ('e, 'a) hosts \<Rightarrow> bool" where
  "part_kept g m \<longleftrightarrow> (\<forall>s. g (fst (m s)) = g s)"

abbreviation db_kept :: "('e, 'a) hosts \<Rightarrow> bool" where
  "db_kept \<equiv> part_kept hs_db"

abbreviation registries_kept :: "('e, 'a) hosts \<Rightarrow> bool" where
  "registries_kept \<equiv> part_kept (\<lambda>s. (hs_bridges s, hs_streams s))"

lemma part_kept_pure: "part_kept g (hs_ret x)" "part_kept g (hs_fail e)" "part_kept g (hs_lift r)" "part_kept g (hs_get f)"
  by (simp_all add: part_kept_def hosts_defs)

lemma part_kept_bind: "part_kept g m \<Longrightarrow> (\<And>x. part_kept g (f x)) \<Longrightarrow> part_kept g (hs_bind m f)"
  unfolding part_kept_def hs_bind_def by (auto split: prod.split sum.split) (metis fst_conv)+

lemma part_kept_then: "part_kept g m \<Longrightarrow> part_kept g n \<Longrightarrow> part_kept g (hs_then m n)"
  unfolding hs_then_def by (rule part_kept_bind)

lemma part_kept_try: "part_kept g m \<Longrightarrow> part_kept g (hs_try m)"
  unfolding part_kept_def hs_try_def by (auto split: prod.split) (metis fst_conv)

lemma part_kept_map: "part_kept g m \<Longrightarrow> part_kept g (hs_map_err f m)"
  unfolding part_kept_def hs_map_err_def by (auto split: prod.split sum.split) (metis fst_conv)+

lemma part_kept_host: "(\<And>s t. g (s\<lparr>hs_tun := t\<rparr>) = g s) \<Longrightarrow> part_kept g (on_host m)"
  by (simp add: part_kept_def on_host_def split: prod.split)

lemma db_kept_ask: "db_kept (ask a)"
  by (simp add: part_kept_def hosts_defs)

lemmas db_kept_pure = part_kept_pure [where g = hs_db] db_kept_ask
lemmas db_kept_bind = part_kept_bind [where g = hs_db]
lemmas db_kept_then = part_kept_then [where g = hs_db]
lemmas db_kept_try = part_kept_try [where g = hs_db]
lemmas db_kept_map = part_kept_map [where g = hs_db]

lemma db_kept_host: "db_kept (on_host m)"
  by (rule part_kept_host) simp

lemma db_kept_api: "db_kept (on_api en h m)"
  unfolding on_api_def by (intro db_kept_map db_kept_host)

lemma db_kept_forget: "db_kept (forget_if_same i e)"
  by (simp add: part_kept_def forget_tun)

lemma db_kept_retire_entries: "db_kept (retire_entries en h es)"
  by (induction en h es rule: retire_entries.induct) (auto intro!: db_kept_then db_kept_host db_kept_pure db_kept_forget)

lemma db_kept_leave: "db_kept (leave_host en old i)"
proof -
  have "db_kept (cancel_remote_streams_for_host en i)" by (simp add: part_kept_def cancel_remote_streams_for_host_def Let_def)
  moreover have "db_kept (retire_host_bridges_for_mutation en old)"
    unfolding retire_host_bridges_for_mutation_def by (intro db_kept_bind db_kept_pure db_kept_retire_entries)
  ultimately show ?thesis
    unfolding leave_host_def invalidate_control_masters_def
    by (auto intro!: db_kept_then db_kept_map db_kept_api db_kept_pure)
qed

lemma db_kept_after: "db_kept (rewarm en h)" "db_kept (discard_control_state i)"
  unfolding rewarm_def discard_control_state_def by (intro db_kept_bind db_kept_try db_kept_host db_kept_pure)+

lemma db_kept_refuse: "db_kept (refuse_bound en i message)"
  unfolding refuse_bound_def by (auto intro!: db_kept_bind db_kept_pure)

lemmas db_kept_rules =
  db_kept_bind db_kept_then db_kept_try db_kept_map db_kept_host db_kept_api db_kept_leave db_kept_after db_kept_refuse
  db_kept_forget db_kept_pure

lemma db_keptD: "db_kept m \<Longrightarrow> hs_db (fst (m s)) = hs_db s"
  by (simp add: part_kept_def)

lemma db_kept_run: "db_kept m \<Longrightarrow> m s = (s', r) \<Longrightarrow> hs_db s' = hs_db s"
  by (metis db_keptD fst_conv)

text \<open>A property of the database that a step keeps.\<close>

definition db_property :: "(db \<Rightarrow> bool) \<Rightarrow> ('e, 'a) hosts \<Rightarrow> bool" where
  "db_property P m \<longleftrightarrow> (\<forall>s. P (hs_db s) \<longrightarrow> P (hs_db (fst (m s))))"

lemma db_property_kept: "db_kept m \<Longrightarrow> db_property P m"
  by (simp add: db_property_def part_kept_def)

lemma db_property_bind: "db_property P m \<Longrightarrow> (\<And>x. db_property P (f x)) \<Longrightarrow> db_property P (hs_bind m f)"
  unfolding db_property_def hs_bind_def by (auto split: prod.split sum.split)

lemma db_property_then: "db_property P m \<Longrightarrow> db_property P n \<Longrightarrow> db_property P (hs_then m n)"
  unfolding hs_then_def by (rule db_property_bind)

lemma db_property_look: "(\<And>s. P (hs_db s) \<Longrightarrow> P (hs_db (fst (f (g s) s)))) \<Longrightarrow> db_property P (hs_bind (hs_get g) f)"
  by (simp add: db_property_def hs_bind_def hs_get_def)

lemma hs_bind_look: "hs_bind (hs_get g) f s = f (g s) s"
  by (simp add: hs_bind_def hs_get_def)

lemma hs_bind_lift: "hs_bind (hs_lift r) f s = (case r of Inl e \<Rightarrow> (s, Inl e) | Inr x \<Rightarrow> f x s)"
  by (simp add: hs_bind_def hs_lift_def split: sum.split)

lemma store_step_db: "hs_db (fst (store_step en f s)) = fst (f (he_now en (hs_ticks s)) (he_uuid en (hs_ticks s)) (hs_db s))"
  by (simp add: store_step_def split: prod.split)

lemma host_or_404_run:
  "host_or_404 en i what s =
     (case get_host (he_cx en) (hs_db s) i of
        Inr (Some h) \<Rightarrow> (s, Inr h) | Inr None \<Rightarrow> (s, Inl (ApiError_NotFound what)) | Inl e \<Rightarrow> (s, Inl (ApiError_from e)))"
  by (simp add: host_or_404_def hosts_defs and_then_def ok_or_def split: sum.split option.split)

lemma uuid_arg_run:
  "uuid_arg en text s =
     (case cx_parse_uuid (he_cx en) text of
        Some i \<Rightarrow> (s, Inr i) | None \<Rightarrow> (s, Inl (ApiError_BadRequest (''invalid uuid: '' @ text))))"
  by (simp add: uuid_arg_def he_uuid_arg_def hs_lift_def ok_or_def split: option.split)

lemma bind_kept:
  "P (hs_db (fst (m s))) \<Longrightarrow> (\<And>x. db_kept (f x)) \<Longrightarrow> P (hs_db (fst (hs_bind m f s)))"
  by (cases "m s") (simp add: hs_bind_def part_kept_def split: sum.split)

lemma try_db: "hs_db (fst (hs_try m s)) = hs_db (fst (m s))"
  by (simp add: hs_try_def split: prod.split)

definition no_bound :: "codec \<Rightarrow> db \<Rightarrow> uuid \<Rightarrow> bool" where
  "no_bound cx d i \<longleftrightarrow> (\<exists>ss. list_sessions cx d None = Inr ss \<and> list_all (\<lambda>x. s_host_id x \<noteq> Some i) ss)"

lemma refuse_bound_run:
  assumes "refuse_bound en i message s = (s', Inr u)"
  shows "s' = s \<and> no_bound (he_cx en) (hs_db s) i"
  using assms
  by (auto simp: refuse_bound_def hs_bind_look hs_bind_lift bound_sessions_def and_then_def hs_ret_def hs_fail_def lift_api_def no_bound_def
      filter_empty_conv list_all_iff split: sum.splits if_splits)

definition stored_update :: "codec \<Rightarrow> time \<Rightarrow> db \<Rightarrow> uuid \<Rightarrow> new_host \<times> bool \<Rightarrow> db \<times> (store_error + host)" where
  "stored_update cx now d i prepared =
     (if snd prepared then update_host_retaining_password cx now d i (fst prepared) else update_host cx now d i (fst prepared))"

lemma commit_update_run:
  "commit_update en old i changed prepared s =
     hs_bind (hs_try (store_step en (\<lambda>now _ d. stored_update (he_cx en) now d i prepared))) (\<lambda>r.
          case r of
            Inl e \<Rightarrow> hs_then (rewarm en old) (hs_fail e)
          | Inr h \<Rightarrow> hs_then (if changed then discard_control_state i else rewarm en h) (hs_ret (HostResponse_from h))) s"
  by (simp add: commit_update_def stored_update_def split_beta)

lemma db_kept_lookup: "db_kept (uuid_arg en text)" "db_kept (host_or_404 en i what)" "db_kept (refuse_bound_target en i name)"
proof -
  show "db_kept (uuid_arg en text)" "db_kept (host_or_404 en i what)"
    by (auto simp: part_kept_def uuid_arg_run host_or_404_run split: option.split sum.split)
  show "db_kept (refuse_bound_target en i name)"
    unfolding refuse_bound_target_def by (auto intro!: db_kept_bind db_kept_pure split: option.split)
qed

lemmas db_property_quiet =
  db_property_kept [OF db_kept_lookup(1)] db_property_kept [OF db_kept_lookup(2)] db_property_kept [OF db_kept_lookup(3)]
  db_property_kept [OF db_kept_refuse] db_property_kept [OF db_kept_leave] db_property_kept [OF db_kept_api]
  db_property_kept [OF db_kept_pure(1)] db_property_kept [OF db_kept_pure(2)]

text \<open>
  The contract of a property that every handler keeps: it survives what the store does with a validated host,
  with an edit of a host that was found (to another destination only when no session is bound), with a
  deletion and with a sighting.
\<close>

locale host_db_property =
  fixes en :: hosts_env and P :: "db \<Rightarrow> bool"
  assumes created: "P d \<Longrightarrow> validate_host key new = Inr v \<Longrightarrow> P (fst (create_host (he_cx en) now i d v))"
    and updated: "P d \<Longrightarrow> cx_parse_uuid (he_cx en) text = Some i \<Longrightarrow> get_host (he_cx en) d i = Inr (Some old) \<Longrightarrow> \<not> is_local old \<Longrightarrow>
      prepare_host_update key old new = Inr prepared \<Longrightarrow>
      (ssh_destination_changed (h_kind old) (nh_kind (fst prepared)) \<Longrightarrow> no_bound (he_cx en) d i) \<Longrightarrow>
      P (fst (stored_update (he_cx en) now d i prepared))"
    and deleted: "P d \<Longrightarrow> P (fst (delete_host d i))"
    and sighted: "P d \<Longrightarrow> P (update_host_seen (he_cx en) now d i)"
begin

lemma keeps_seen: "db_property P (seen en i)" "db_property P (seen_if en i ok)"
  unfolding seen_if_def db_property_def by (auto simp: seen_def store_step_db sighted hs_ret_def)

lemma keeps_create: "db_property P (create_route en new)"
  unfolding create_route_def
proof (rule db_property_look)
  fix s :: hosts_state
  assume P: "P (hs_db s)"
  show "P (hs_db (fst (hs_bind (hs_lift (validate_host (key_resolver en s) new))
    (\<lambda>valid. hs_bind (store_step en (\<lambda>now i d. create_host (he_cx en) now i d valid)) (\<lambda>h. hs_ret (HostResponse_from h))) s)))"
  proof (cases "validate_host (key_resolver en s) new")
    case (Inr v)
    have "P (hs_db (fst (store_step en (\<lambda>now i d. create_host (he_cx en) now i d v) s)))"
      unfolding store_step_db using created [OF P Inr] .
    then have "P (hs_db (fst (hs_bind (store_step en (\<lambda>now i d. create_host (he_cx en) now i d v))
        (\<lambda>h. hs_ret (HostResponse_from h)) s)))"
      by (rule bind_kept) (rule db_kept_pure)
    then show ?thesis using Inr by (simp add: hs_bind_lift)
  qed (simp add: hs_bind_lift P)
qed

lemma keeps_commit_update:
  assumes "P (hs_db s)" "cx_parse_uuid (he_cx en) text = Some i" "get_host (he_cx en) (hs_db s) i = Inr (Some old)" "\<not> is_local old"
    and "prepare_host_update key old new = Inr prepared"
    and "ssh_destination_changed (h_kind old) (nh_kind (fst prepared)) \<Longrightarrow> no_bound (he_cx en) (hs_db s) i"
  shows "P (hs_db (fst (commit_update en old i changed prepared s)))"
proof -
  let ?m = "store_step en (\<lambda>now _ d. stored_update (he_cx en) now d i prepared)"
  have "P (hs_db (fst (hs_try ?m s)))"
    unfolding try_db store_step_db using updated [OF assms(1-6)] .
  moreover have "db_kept (case r of Inl e \<Rightarrow> hs_then (rewarm en old) (hs_fail e)
      | Inr h \<Rightarrow> hs_then (if changed then discard_control_state i else rewarm en h) (hs_ret (HostResponse_from h)))" for r
    by (auto intro!: db_kept_rules split: sum.split)
  ultimately show ?thesis
    unfolding commit_update_run by (rule bind_kept)
qed

lemma keeps_update_loaded:
  assumes "cx_parse_uuid (he_cx en) text = Some i" "get_host (he_cx en) (hs_db s) i = Inr (Some old)" "P (hs_db s)"
  shows "P (hs_db (fst (update_loaded en i new old s)))"
proof (cases "is_local old")
  case False
  show ?thesis
  proof (cases "prepare_host_update (key_resolver en s) old new")
    case (Inr prepared)
    let ?changed = "ssh_destination_changed (h_kind old) (nh_kind (fst prepared))"
    let ?guard = "if ?changed then refuse_bound en i destination_message else hs_ret ()"
    have run: "update_loaded en i new old s = hs_then ?guard (hs_then (leave_host en old i) (commit_update en old i ?changed prepared)) s"
      using False Inr by (simp add: update_loaded_def hs_bind_look hs_bind_lift Let_def)
    obtain s1 r1 where g: "?guard s = (s1, r1)" by (cases "?guard s")
    have s1: "hs_db s1 = hs_db s" using g by (rule db_kept_run [rotated]) (simp add: db_kept_rules)
    obtain s2 r2 where l: "leave_host en old i s1 = (s2, r2)" by (cases "leave_host en old i s1")
    have s2: "hs_db s2 = hs_db s" using db_kept_run [OF db_kept_leave l] s1 by simp
    show ?thesis
    proof (cases r1)
      case Inl1: (Inl e)
      then show ?thesis using run g s1 assms(3) by (simp add: hs_then_def hs_bind_def)
    next
      case Inr1: (Inr u)
      show ?thesis
      proof (cases r2)
        case (Inl e)
        then show ?thesis using run g l Inr1 s2 assms(3) by (simp add: hs_then_def hs_bind_def)
      next
        case (Inr u')
        have "?changed \<Longrightarrow> no_bound (he_cx en) (hs_db s) i" using refuse_bound_run g Inr1 by auto
        then have "P (hs_db (fst (commit_update en old i ?changed prepared s2)))"
          using assms s2 False \<open>prepare_host_update (key_resolver en s) old new = Inr prepared\<close>
          by (intro keeps_commit_update) auto
        then show ?thesis using run g l Inr1 Inr by (simp add: hs_then_def hs_bind_def)
      qed
    qed
  qed (use False assms(3) in \<open>simp add: update_loaded_def hs_bind_look hs_bind_lift\<close>)
qed (simp add: update_loaded_def hs_fail_def assms(3))

lemma keeps_update: "db_property P (update_route en text new)"
  unfolding db_property_def update_route_def
  by (auto simp: hs_bind_def uuid_arg_run host_or_404_run keeps_update_loaded split: option.split sum.split)

lemma keeps_remove: "db_property P (remove_route en text)"
proof -
  have "db_property P (hs_try (store_step en (\<lambda>_ _ d. delete_host d i)))" for i
    unfolding db_property_def try_db store_step_db by (auto intro: deleted)
  moreover have "db_kept (case r of Inr True \<Rightarrow> discard_control_state i
       | Inr False \<Rightarrow> hs_then (rewarm en old) (hs_fail (ApiError_NotFound i)) | Inl e \<Rightarrow> hs_then (rewarm en old) (hs_fail e))" for r old i
    by (auto intro!: db_kept_rules split: sum.split bool.split)
  ultimately have "db_property P (commit_delete en old i)" for old i
    unfolding commit_delete_def by (intro db_property_bind) (assumption | rule db_property_kept)+
  then show ?thesis
    unfolding remove_route_def remove_loaded_def
    by (auto intro!: db_property_bind db_property_then db_property_quiet intro: db_property_kept)
qed

lemma keeps_report: "db_property P (report_and_see en i h m)"
  unfolding report_and_see_def by (intro db_property_bind db_property_then keeps_seen db_property_quiet)

lemma keeps_guarded: "db_property P m \<Longrightarrow> db_property P (confirmed confirm unconfirmed items none_given refuse m)"
  unfolding confirmed_def by (auto intro: db_property_quiet split: option.split)

lemma keeps_with_host: "(\<And>i h. db_property P (f i h)) \<Longrightarrow> db_property P (with_host en text f)"
  unfolding with_host_def by (intro db_property_bind db_property_quiet)

lemma keeps_setup:
  "db_property P (test_route en text)" "db_property P (readiness_route en text)"
  "db_property P (bootstrap_route en text items confirm)" "db_property P (install_agent_route en text items confirm)"
  "db_property P (provision_skills_route en text items confirm)" "db_property P (tmux_sessions_route en text path every)"
  "db_property P (kill_tmux_session_route en text name)"
  unfolding test_route_def readiness_route_def bootstrap_route_def install_agent_route_def provision_skills_route_def
    tmux_sessions_route_def kill_tmux_session_route_def
  by (auto intro!: db_property_bind db_property_then keeps_with_host keeps_guarded keeps_report keeps_seen db_property_quiet)

lemma keeps_perform: "P (hs_db s) \<Longrightarrow> P (hs_db (host_perform en op s))"
proof (cases op)
  case Host_List
  assume "P (hs_db s)"
  then show ?thesis using Host_List db_keptD [of "list_route en" s]
    by (simp add: list_route_def db_kept_bind db_kept_pure)
next
  case (Host_Get t)
  assume "P (hs_db s)"
  moreover have "db_kept (get_route en t)"
    unfolding get_route_def by (intro db_kept_bind db_kept_lookup db_kept_pure)
  ultimately show ?thesis using Host_Get db_keptD [of "get_route en t" s] by simp
qed (use keeps_create keeps_update keeps_remove keeps_setup in \<open>simp_all add: db_property_def\<close>)

lemma keeps_all: "P (hs_db s) \<Longrightarrow> P (hs_db (fold (host_perform en) ops s))"
  by (induction ops arbitrary: s) (auto intro: keeps_perform)

end

end
