(* ===== verification/Host_Safety.thy ===== *)
theory Host_Safety
  imports Host_Routes
begin

text \<open>
  What any sequence of requests to the routes of hosts keeps. The contract \<open>host_db_property\<close> of
  \<open>Host_Routes\<close> is interpreted twice, for the hosts as they are saved and for the destinations of the
  sessions that exist.
\<close>

section \<open>Saved hosts\<close>

text \<open>A value that ssh takes as one argument and never as an option, and a host that is saved.\<close>

definition safe_part :: "string \<Rightarrow> bool" where
  "safe_part v = (v \<noteq> [] \<and> \<not> starts_with ''-'' v \<and> \<not> has_control v \<and> \<not> has_whitespace v)"

fun safe_auth :: "ssh_auth \<Rightarrow> bool" where
  "safe_auth (SshAuth_Password password) = (trim password \<noteq> [] \<and> password \<noteq> REDACTED_SSH_PASSWORD)"
| "safe_auth _ = True"

definition safe_row :: "host_row \<Rightarrow> bool" where
  "safe_row r =
     (case host_row_kind r of
        Inr (HostKind_Ssh user hostname port auth) \<Rightarrow> safe_part user \<and> safe_part hostname \<and> port \<noteq> 0 \<and> safe_auth auth
      | Inr HostKind_Local \<Rightarrow> hr_auth_kind r = None
      | Inl _ \<Rightarrow> False)"

definition safe_destination :: "host_kind \<Rightarrow> bool" where
  "safe_destination k =
     (case k of HostKind_Ssh user hostname port auth \<Rightarrow> safe_part user \<and> safe_part hostname \<and> port \<noteq> 0 | HostKind_Local \<Rightarrow> False)"

definition kind_auth :: "host_kind \<Rightarrow> ssh_auth" where
  "kind_auth k = (case k of HostKind_Ssh user hostname port auth \<Rightarrow> auth | HostKind_Local \<Rightarrow> SshAuth_Agent)"

lemma validate_part: "validate_ssh_destination_part label v = Inr u \<Longrightarrow> v \<noteq> [] \<Longrightarrow> safe_part v"
  by (auto simp: validate_ssh_destination_part_def safe_part_def split: if_splits)

lemma validate_auth_safe: "validate_auth key a = Inr b \<Longrightarrow> safe_auth b"
  by (cases a) (auto simp: map_sum_def split: if_splits sum.splits)

lemma validate_kind_safe:
  assumes "validate_kind key k = Inr v"
  shows "safe_destination v \<and> safe_auth (kind_auth v)"
proof (cases k)
  case (HostKind_Ssh user hostname port auth)
  then show ?thesis
    using assms by (auto simp: Let_def and_then_eq_Inr safe_destination_def kind_auth_def validate_part validate_auth_safe split: if_splits)
qed (use assms in simp)

lemma validate_host_safe: "validate_host key new = Inr v \<Longrightarrow> safe_destination (nh_kind v) \<and> safe_auth (kind_auth (nh_kind v))"
  by (auto simp: validate_host_def and_then_eq_Inr validate_kind_safe split: if_splits)

lemma replace_password_safe:
  "safe_destination (replace_password p k) = safe_destination k" "destination_of (replace_password p k) = destination_of k"
  "is_password_auth (replace_password p k) = is_password_auth k"
  by (induction p k rule: replace_password.induct) (simp_all add: safe_destination_def is_password_auth_def)

lemma prepared_safe:
  assumes "prepare_host_update key old new = Inr (v, retain)"
  shows "safe_destination (nh_kind v)" "\<not> retain \<Longrightarrow> safe_auth (kind_auth (nh_kind v))"
  using assms
  by (auto simp: prepare_host_update_def map_sum_def and_then_eq_Inr replace_password_safe validate_host_safe
      split: if_splits sum.splits option.splits)

text \<open>A row after an edit: the destination of the edit, and its authentication unless the password is retained.\<close>

lemma host_update_kind:
  assumes "safe_destination (nh_kind new)" "retain \<Longrightarrow> is_password_auth (nh_kind new)"
  shows "\<exists>k. host_row_kind (host_update cx now new retain r) = Inr k \<and> destination_of k = destination_of (nh_kind new) \<and>
    kind_auth k = (if retain then SshAuth_Password (unwrap_or_default (hr_secret r)) else kind_auth (nh_kind new))"
  using assms
  by (cases "nh_kind new")
    (auto simp: safe_destination_def is_password_auth_def host_update_def host_row_kind_def kind_auth_def Let_def split: ssh_auth.splits)

lemma safe_row_Ssh:
  assumes "host_row_kind r = Inr k" "safe_destination k" "safe_auth (kind_auth k)"
  shows "safe_row r"
  using assms by (auto simp: safe_row_def safe_destination_def kind_auth_def split: host_kind.splits)

lemma safe_destination_same: "destination_of k = destination_of k' \<Longrightarrow> safe_destination k = safe_destination k'"
  by (cases k; cases k') (auto simp: safe_destination_def)

lemma safe_secret:
  assumes "safe_row r" "hr_auth_kind r = Some ''password''"
  shows "safe_auth (SshAuth_Password (unwrap_or_default (hr_secret r)))"
  using assms by (auto simp: safe_row_def host_row_kind_def split: if_splits)

lemma host_update_safe:
  assumes "safe_destination (nh_kind new)" "\<not> retain \<Longrightarrow> safe_auth (kind_auth (nh_kind new))"
    and "retain \<Longrightarrow> is_password_auth (nh_kind new) \<and> hr_auth_kind r = Some ''password''" "safe_row r"
  shows "safe_row (host_update cx now new retain r)"
proof -
  obtain k where k: "host_row_kind (host_update cx now new retain r) = Inr k" "destination_of k = destination_of (nh_kind new)"
    "kind_auth k = (if retain then SshAuth_Password (unwrap_or_default (hr_secret r)) else kind_auth (nh_kind new))"
    using host_update_kind [OF assms(1), of retain cx now r] assms(3) by blast
  have "safe_destination k" using safe_destination_same [OF k(2)] assms(1) by simp
  moreover have "safe_auth (kind_auth k)"
  proof (cases retain)
    case True
    then show ?thesis using safe_secret [OF assms(4)] assms(3) k(3) by simp
  qed (use assms(2) k(3) in simp)
  ultimately show ?thesis by (rule safe_row_Ssh [OF k(1)])
qed

lemma host_row_of_kind: "host_row_kind (host_row_of cx now i new) = Inr (nh_kind new)"
  by (rule host_row_kind_parts) (simp_all add: host_row_of_def Let_def)

text \<open>An edit that is stored changes rows of its host only, by \<open>host_update\<close>.\<close>

definition edited :: "bool \<Rightarrow> uuid \<Rightarrow> host_row \<Rightarrow> bool" where
  "edited retain i r = (hr_id r = i \<and> (\<not> retain \<or> hr_auth_kind r = Some ''password''))"

lemma stored_update_rows:
  "fst (stored_update cx now d i (new, retain)) = d \<or>
   fst (stored_update cx now d i (new, retain)) =
     d\<lparr>db_hosts := sql_update (edited retain i) (host_update cx now new retain) (db_hosts d)\<rparr> \<and>
   (retain \<longrightarrow> is_password_auth (nh_kind new))"
  by (auto simp: stored_update_def update_host_retaining_password_def update_host_def update_host_inner_def Let_def edited_def [abs_def])

lemma stored_update_safe:
  assumes "list_all safe_row (db_hosts d)" "prepare_host_update key old new = Inr (v, retain)"
  shows "list_all safe_row (db_hosts (fst (stored_update cx now d i (v, retain))))"
  using stored_update_rows [of cx now d i v retain]
proof
  assume up: "fst (stored_update cx now d i (v, retain)) =
      d\<lparr>db_hosts := sql_update (edited retain i) (host_update cx now v retain) (db_hosts d)\<rparr> \<and> (retain \<longrightarrow> is_password_auth (nh_kind v))"
  have "safe_row (host_update cx now v retain r)" if "safe_row r" "edited retain i r" for r
    using that up by (intro host_update_safe prepared_safe [OF assms(2)]) (auto simp: edited_def)
  then show ?thesis using assms(1) up by (auto simp: list_all_iff set_sql_update)
qed (use assms(1) in simp)

lemma seen_row_kind: "host_row_kind (r\<lparr>hr_last_seen_at := t\<rparr>) = host_row_kind r"
  by (simp add: host_row_kind_def)

lemma seen_row_safe: "safe_row (r\<lparr>hr_last_seen_at := t\<rparr>) = safe_row r"
  by (auto simp: safe_row_def seen_row_kind split: sum.splits host_kind.splits)

interpretation saved: host_db_property en "\<lambda>d. list_all safe_row (db_hosts d)" for en
proof
  fix d :: db and key new v now i
  assume "list_all safe_row (db_hosts d)" "validate_host key new = Inr v"
  then show "list_all safe_row (db_hosts (fst (create_host (he_cx en) now i d v)))"
    by (auto simp: create_host_def Let_def host_row_of_kind intro!: safe_row_Ssh dest: validate_host_safe)
next
  fix d :: db and t i old key new prepared now
  assume "list_all safe_row (db_hosts d)" "prepare_host_update key old new = Inr prepared"
  then show "list_all safe_row (db_hosts (fst (stored_update (he_cx en) now d i prepared)))"
    using stored_update_safe by (cases prepared) simp
next
  fix d :: db and i
  assume "list_all safe_row (db_hosts d)"
  then show "list_all safe_row (db_hosts (fst (delete_host d i)))"
    by (auto simp: delete_host_def Let_def list_all_iff set_sql_delete)
next
  fix d :: db and now i
  assume "list_all safe_row (db_hosts d)"
  then show "list_all safe_row (db_hosts (update_host_seen (he_cx en) now d i))"
    by (auto simp: update_host_seen_def list_all_iff set_sql_update seen_row_safe)
qed

lemma initial_safe: "list_all safe_row (db_hosts initial_db)"
  by (simp add: initial_db_def safe_row_def host_row_kind_def)

text \<open>
  C21. Whatever requests arrive, every saved host can be handed to ssh: from the database the migrations
  create, after any sequence of requests to the routes of hosts, each remote host has a user and a hostname
  that are one argument and no option, a port, and, when it authenticates by password, a password that is
  neither blank nor the redaction mark.
\<close>

theorem saved_hosts_are_safe:
  assumes "hs_db s = initial_db"
  shows "list_all safe_row (db_hosts (hs_db (fold (host_perform en) ops s)))"
  by (rule saved.keeps_all) (simp add: assms initial_safe)

theorem saved_hosts_are_safe_witness:
  "list_all safe_row (db_hosts (hs_db (fold (host_perform sample_hosts_env)
     [Host_Create (sample_ssh ''pw''), Host_Update ''g0'' (sample_ssh REDACTED_SSH_PASSWORD)] (sample_daemon\<lparr>hs_db := initial_db\<rparr>))))"
  by (rule saved_hosts_are_safe) simp

section \<open>Bound sessions\<close>

text \<open>The destination the rows of the database give a host id, and the sessions' hosts as they were.\<close>

definition host_dest :: "db \<Rightarrow> uuid \<Rightarrow> (store_error + host_destination) option" where
  "host_dest d i = map_option (\<lambda>r. map_sum id destination_of (host_row_kind r)) (sql_find (\<lambda>r. hr_id r = i) (db_hosts d))"

definition hosts_bound :: "session_row list \<Rightarrow> uuid list" where
  "hosts_bound ss = List.map_filter sr_host_id ss"

definition same_bindings :: "db \<Rightarrow> db \<Rightarrow> bool" where
  "same_bindings d0 d \<longleftrightarrow> unique_on hr_id (db_hosts d) \<and> db_sessions d = db_sessions d0 \<and>
     list_all (\<lambda>i. host_dest d i \<noteq> None \<and> host_dest d i = host_dest d0 i) (hosts_bound (db_sessions d0))"

text \<open>An identifier is read back as it was printed, and no session is bound to a host nobody lists.\<close>

definition uuid_normal :: "codec \<Rightarrow> bool" where
  "uuid_normal cx \<longleftrightarrow> (\<forall>t i. cx_parse_uuid cx t = Some i \<longrightarrow> cx_parse_uuid cx i = Some i)"

lemma session_host_read:
  assumes "Session_try_from cx (r, j) = Inr x" "sr_host_id r = Some i" "cx_parse_uuid cx i = Some i"
  shows "s_host_id x = Some i"
  using assms by (auto simp: Session_try_from_def Let_def and_then_eq_Inr transpose_opt_def parse_uuid_def split: sum.splits)

lemma no_bound_rows:
  assumes "no_bound cx d i" "cx_parse_uuid cx i = Some i" "r \<in> set (db_sessions d)"
  shows "sr_host_id r \<noteq> Some i"
proof
  assume r: "sr_host_id r = Some i"
  obtain ss where ss: "list_sessions cx d None = Inr ss" "list_all (\<lambda>x. s_host_id x \<noteq> Some i) ss"
    using assms(1) by (auto simp: no_bound_def)
  then have "map (\<lambda>r. Session_try_from cx (join_host d r)) (order_by (then_by (desc sr_pinned) (desc sr_created_at)) (db_sessions d)) =
      map Inr ss"
    by (simp add: list_sessions_def collect_results_Inr)
  then have "Session_try_from cx (join_host d r) \<in> Inr ` set ss"
    using assms(3) by (metis (no_types, lifting) image_eqI list.set_map set_order_by)
  then obtain x where x: "x \<in> set ss" "Session_try_from cx (join_host d r) = Inr x" by auto
  then have "s_host_id x = Some i"
    using session_host_read r assms(2) by (simp add: join_host_def Let_def)
  then show False using x(1) ss(2) by (auto simp: list_all_iff)
qed

lemma host_dest_update:
  assumes "\<And>r. hr_id (f r) = hr_id r" "\<And>r. p r \<Longrightarrow> hr_id r = i"
    and "\<And>r. r \<in> set (db_hosts d) \<Longrightarrow> p r \<Longrightarrow> j = i \<Longrightarrow>
      map_sum id destination_of (host_row_kind (f r)) = map_sum id destination_of (host_row_kind r)"
  shows "host_dest (d\<lparr>db_hosts := sql_update p f (db_hosts d)\<rparr>) j = host_dest d j"
proof -
  have find: "sql_find (\<lambda>r. hr_id r = j) (sql_update p f (db_hosts d)) =
      map_option (\<lambda>r. if p r then f r else r) (sql_find (\<lambda>r. hr_id r = j) (db_hosts d))"
    by (rule find_update_other) (rule assms(1))
  show ?thesis
  proof (cases "sql_find (\<lambda>r. hr_id r = j) (db_hosts d)")
    case (Some r)
    then have "r \<in> set (db_hosts d)" "hr_id r = j" using sql_find_Some by fastforce+
    then show ?thesis using Some assms(2,3) [of r] by (auto simp: host_dest_def find)
  qed (simp add: host_dest_def find)
qed

lemma bound_host: "i \<in> set (hosts_bound ss) \<longleftrightarrow> (\<exists>r \<in> set ss. sr_host_id r = Some i)"
  by (force simp: hosts_bound_def List.map_filter_def)

lemma same_bindings_step:
  assumes "same_bindings d0 d" "unique_on hr_id (db_hosts d')" "db_sessions d' = db_sessions d"
    and "\<And>j. j \<in> set (hosts_bound (db_sessions d)) \<Longrightarrow> host_dest d j \<noteq> None \<Longrightarrow> host_dest d' j = host_dest d j"
  shows "same_bindings d0 d'"
proof -
  have ss: "db_sessions d = db_sessions d0" and
    old: "\<And>j. j \<in> set (hosts_bound (db_sessions d0)) \<Longrightarrow> host_dest d j \<noteq> None \<and> host_dest d j = host_dest d0 j"
    using assms(1) unfolding same_bindings_def list_all_iff by blast+
  have "host_dest d' j \<noteq> None \<and> host_dest d' j = host_dest d0 j" if "j \<in> set (hosts_bound (db_sessions d0))" for j
    using assms(4) [of j] old [of j] that unfolding ss by metis
  then show ?thesis using assms(2,3) ss unfolding same_bindings_def list_all_iff by metis
qed

lemma same_bindings_update:
  assumes "same_bindings d0 d" "\<And>r. hr_id (f r) = hr_id r" "\<And>r. p r \<Longrightarrow> hr_id r = i"
    and "\<And>r. r \<in> set (db_hosts d) \<Longrightarrow> p r \<Longrightarrow> i \<in> set (hosts_bound (db_sessions d)) \<Longrightarrow>
      map_sum id destination_of (host_row_kind (f r)) = map_sum id destination_of (host_row_kind r)"
  shows "same_bindings d0 (d\<lparr>db_hosts := sql_update p f (db_hosts d)\<rparr>)"
proof -
  have "host_dest (d\<lparr>db_hosts := sql_update p f (db_hosts d)\<rparr>) j = host_dest d j"
    if "j \<in> set (hosts_bound (db_sessions d))" for j
    using assms(4) that by (intro host_dest_update [where i = i] assms(2,3)) auto
  moreover have "unique_on hr_id (sql_update p f (db_hosts d))"
    using assms(1,2) by (intro unique_on_update) (auto simp: same_bindings_def)
  ultimately show ?thesis by (intro same_bindings_step [OF assms(1)]) simp_all
qed

lemma is_local_kind: "is_local h \<longleftrightarrow> h_kind h = HostKind_Local"
  by (simp add: is_local_def split: host_kind.split)

lemma unchanged_destination:
  "\<not> ssh_destination_changed k k' \<Longrightarrow> k \<noteq> HostKind_Local \<Longrightarrow> k' \<noteq> HostKind_Local \<Longrightarrow> destination_of k = destination_of k'"
  by (cases k; cases k') auto

lemma get_host_kind: "get_host cx d i = Inr (Some h) \<Longrightarrow> \<exists>r. sql_find (\<lambda>r. hr_id r = i) (db_hosts d) = Some r \<and> host_row_kind r = Inr (h_kind h)"
  by (auto simp: get_host_def transpose_opt_def Host_try_from_def and_then_eq_Inr split: option.splits sum.splits)

lemma stored_update_bindings:
  assumes "same_bindings d0 d" "cx_parse_uuid cx i = Some i" "get_host cx d i = Inr (Some old)" "\<not> is_local old"
    and prepared: "prepare_host_update key old new = Inr (v, retain)"
    and free: "ssh_destination_changed (h_kind old) (nh_kind v) \<Longrightarrow> no_bound cx d i"
  shows "same_bindings d0 (fst (stored_update cx now d i (v, retain)))"
  using stored_update_rows [of cx now d i v retain]
proof
  assume up: "fst (stored_update cx now d i (v, retain)) =
      d\<lparr>db_hosts := sql_update (edited retain i) (host_update cx now v retain) (db_hosts d)\<rparr> \<and> (retain \<longrightarrow> is_password_auth (nh_kind v))"
  have safe: "safe_destination (nh_kind v)" by (rule prepared_safe [OF prepared])
  have "map_sum id destination_of (host_row_kind (host_update cx now v retain r)) = map_sum id destination_of (host_row_kind r)"
    if r: "r \<in> set (db_hosts d)" "edited retain i r" and bound: "i \<in> set (hosts_bound (db_sessions d))" for r
  proof -
    have "\<not> no_bound cx d i" using bound no_bound_rows assms(2) by (auto simp: bound_host)
    then have "destination_of (h_kind old) = destination_of (nh_kind v)"
      using free assms(4) safe by (intro unchanged_destination) (auto simp: is_local_kind safe_destination_def)
    moreover obtain q where q: "sql_find (\<lambda>r. hr_id r = i) (db_hosts d) = Some q" "host_row_kind q = Inr (h_kind old)"
      using get_host_kind [OF assms(3)] by blast
    moreover have "q = r"
      using unique_on_find [of hr_id "db_hosts d" r i] assms(1) r q(1) by (simp add: same_bindings_def edited_def)
    ultimately show ?thesis using host_update_kind [OF safe, of retain cx now r] up by auto
  qed
  then have "same_bindings d0 (d\<lparr>db_hosts := sql_update (edited retain i) (host_update cx now v retain) (db_hosts d)\<rparr>)"
    using assms(1) by (intro same_bindings_update [where i = i]) (auto simp: edited_def host_update_def Let_def)
  then show ?thesis using up by simp
qed (use assms(1) in simp)

lemma created_bindings:
  assumes "same_bindings d0 d"
  shows "same_bindings d0 (fst (create_host cx now i d v))"
proof -
  let ?d = "d\<lparr>db_hosts := db_hosts d @ [host_row_of cx now i v]\<rparr>"
  have "host_dest ?d j = host_dest d j" if "host_dest d j \<noteq> None" for j
    using that by (auto simp: host_dest_def find_snoc)
  then have "same_bindings d0 ?d" if "unique_on hr_id (db_hosts ?d)"
    using that by (intro same_bindings_step [OF assms]) auto
  then show ?thesis using assms by (auto simp: create_host_def Let_def)
qed

lemma deleted_bindings:
  assumes "same_bindings d0 d"
  shows "same_bindings d0 (fst (delete_host d i))"
proof -
  let ?d = "d\<lparr>db_hosts := sql_delete (\<lambda>r. hr_id r = i) (db_hosts d)\<rparr>"
  have "same_bindings d0 ?d" if none: "sql_count (\<lambda>s. sr_host_id s = Some i) (db_sessions d) = 0"
  proof -
    have "host_dest ?d j = host_dest d j" if "j \<in> set (hosts_bound (db_sessions d))" for j
    proof -
      have "j \<noteq> i" using that none by (auto simp: bound_host sql_count_0)
      then have "(\<lambda>r :: host_row. hr_id r = j \<and> hr_id r \<noteq> i) = (\<lambda>r. hr_id r = j)" by auto
      then show ?thesis by (simp add: host_dest_def find_delete)
    qed
    moreover have "unique_on hr_id (db_hosts ?d)" using assms by (auto simp: same_bindings_def intro!: unique_on_delete)
    ultimately show ?thesis by (intro same_bindings_step [OF assms]) simp_all
  qed
  then show ?thesis using assms by (auto simp: delete_host_def Let_def)
qed

interpretation bound: host_db_property en "\<lambda>d. uuid_normal (he_cx en) \<and> same_bindings d0 d" for en d0
proof
  fix d :: db and t i old key new prepared now
  assume P: "uuid_normal (he_cx en) \<and> same_bindings d0 d" and found: "cx_parse_uuid (he_cx en) t = Some i"
    "get_host (he_cx en) d i = Inr (Some old)" "\<not> is_local old" "prepare_host_update key old new = Inr prepared"
    "ssh_destination_changed (h_kind old) (nh_kind (fst prepared)) \<Longrightarrow> no_bound (he_cx en) d i"
  have "cx_parse_uuid (he_cx en) i = Some i" using P found(1) by (auto simp: uuid_normal_def)
  then show "uuid_normal (he_cx en) \<and> same_bindings d0 (fst (stored_update (he_cx en) now d i prepared))"
    using P found stored_update_bindings [of d0 d "he_cx en" i old key new "fst prepared" "snd prepared" now] by simp
next
  fix d :: db and now i
  assume "uuid_normal (he_cx en) \<and> same_bindings d0 d"
  then show "uuid_normal (he_cx en) \<and> same_bindings d0 (update_host_seen (he_cx en) now d i)"
    unfolding update_host_seen_def by (intro conjI same_bindings_update [where i = i]) (auto simp: seen_row_kind)
qed (auto intro: created_bindings deleted_bindings)

text \<open>
  C20. A session stays on the machine it was bound to: whatever requests to the routes of hosts arrive, in any
  order, the user, hostname and port of every host a session is bound to remain what they were, and the host
  remains; edits and deletions that would change them are refused. The identifiers must be unique and read
  back as they are printed, and no session may start out bound to a host that is not there.
\<close>

theorem bound_destination_is_fixed:
  assumes "uuid_normal (he_cx en)" "unique_on hr_id (db_hosts (hs_db s))"
    and "list_all (\<lambda>i. host_dest (hs_db s) i \<noteq> None) (hosts_bound (db_sessions (hs_db s)))"
  shows "list_all (\<lambda>i. host_dest (hs_db (fold (host_perform en) ops s)) i \<noteq> None \<and>
      host_dest (hs_db (fold (host_perform en) ops s)) i = host_dest (hs_db s) i) (hosts_bound (db_sessions (hs_db s)))"
proof -
  have "uuid_normal (he_cx en) \<and> same_bindings (hs_db s) (hs_db s)"
    using assms by (auto simp: same_bindings_def list_all_iff)
  then have "uuid_normal (he_cx en) \<and> same_bindings (hs_db s) (hs_db (fold (host_perform en) ops s))"
    by (rule bound.keeps_all)
  then show ?thesis by (simp add: same_bindings_def)
qed

definition sample_bound_db :: db where
  "sample_bound_db = sample_host_db\<lparr>db_sessions := [session_row_of sample_codec 5 ''u1'' Status_Idle (Some ''t'') (Some ''h1'')
     (sample_new_session ''a'')]\<rparr>"

lemma sample_host_rows: "db_hosts sample_host_db = db_hosts initial_db @ [host_row_of sample_codec 1 ''h1'' (sample_ssh ''pw'')]"
  by (simp add: sample_host_db_def create_host_def initial_db_def unique_on_def host_row_of_def LOCAL_HOST_ID_def sample_ssh_def Let_def)

lemma sample_host_dest: "host_dest sample_host_db ''h1'' = Some (Inr (Destination_Ssh ''me'' ''box.lan'' 2222))"
proof -
  have "sql_find (\<lambda>r. hr_id r = ''h1'') (db_hosts sample_host_db) = Some (host_row_of sample_codec 1 ''h1'' (sample_ssh ''pw''))"
    by (simp add: sample_host_rows initial_db_def sql_find_def LOCAL_HOST_ID_def) (simp add: host_row_of_def Let_def)
  then show ?thesis by (simp add: host_dest_def host_row_of_kind) (simp add: sample_ssh_def)
qed

lemma sample_env_fields: "he_cx sample_hosts_env = sample_codec" "he_rt sample_hosts_env = sample_runtime"
  by (simp_all add: sample_hosts_env_def)

theorem bound_destination_is_fixed_witness:
  "host_dest (hs_db (fold (host_perform sample_hosts_env)
       [Host_Update ''h1'' \<lparr>nh_name = ''moved'', nh_kind = HostKind_Ssh ''me'' ''other.lan'' 22 SshAuth_Agent\<rparr>, Host_Remove ''h1'']
       (sample_daemon\<lparr>hs_db := sample_bound_db\<rparr>))) ''h1'' =
     Some (Inr (Destination_Ssh ''me'' ''box.lan'' 2222))"
proof -
  let ?s = "sample_daemon\<lparr>hs_db := sample_bound_db\<rparr>"
  have same: "host_dest (hs_db ?s) i = host_dest sample_host_db i" for i by (simp add: host_dest_def sample_bound_db_def)
  have bound: "hosts_bound (db_sessions (hs_db ?s)) = [''h1'']"
    by (simp add: hosts_bound_def sample_bound_db_def session_row_of_def List.map_filter_def)
  have "unique_on hr_id (db_hosts (hs_db ?s))"
    by (simp add: sample_bound_db_def sample_host_rows) (simp add: initial_db_def unique_on_def host_row_of_def LOCAL_HOST_ID_def Let_def)
  moreover have "uuid_normal (he_cx sample_hosts_env)"
    by (simp add: sample_env_fields uuid_normal_def sample_codec_def)
  moreover have "list_all (\<lambda>i. host_dest (hs_db ?s) i \<noteq> None) (hosts_bound (db_sessions (hs_db ?s)))"
    unfolding bound same by (simp add: sample_host_dest)
  ultimately show ?thesis
    using bound_destination_is_fixed [of sample_hosts_env ?s "[Host_Update ''h1'' \<lparr>nh_name = ''moved'',
        nh_kind = HostKind_Ssh ''me'' ''other.lan'' 22 SshAuth_Agent\<rparr>, Host_Remove ''h1'']"] unfolding bound same
    by (simp add: sample_host_dest)
qed

section \<open>Edits that fail\<close>

text \<open>A handler that ends in an error leaves the database as it found it.\<close>

definition atomic_for :: "hosts_state \<Rightarrow> ('e, 'a) hosts \<Rightarrow> bool" where
  "atomic_for s m \<longleftrightarrow> is_ok (snd (m s)) \<or> hs_db (fst (m s)) = hs_db s"

lemma atomic_kept: "db_kept m \<Longrightarrow> atomic_for s m"
  by (simp add: atomic_for_def part_kept_def)

lemma atomic_bind:
  assumes "db_kept m" "\<And>s' x. m s = (s', Inr x) \<Longrightarrow> hs_db s' = hs_db s \<Longrightarrow> atomic_for s' (f x)"
  shows "atomic_for s (hs_bind m f)"
proof (cases "m s")
  case (Pair s' r)
  then have "hs_db s' = hs_db s" using db_kept_run [OF assms(1)] by blast
  then show ?thesis using assms(2) Pair by (auto simp: atomic_for_def hs_bind_def split: sum.split)
qed

lemma atomic_then:
  "db_kept m \<Longrightarrow> (\<And>s' x. m s = (s', Inr x) \<Longrightarrow> hs_db s' = hs_db s \<Longrightarrow> atomic_for s' n) \<Longrightarrow> atomic_for s (hs_then m n)"
  unfolding hs_then_def by (rule atomic_bind)

lemma rewarm_run: "\<exists>s'. rewarm en h s = (s', Inr ()) \<and> hs_db s' = hs_db s"
  using db_keptD [OF db_kept_after(1), of en h s] 
  by (cases "on_host (warm_ssh_master (he_te en) h) s") (simp add: rewarm_def hs_bind_def hs_try_def hs_ret_def)

lemma discard_run: "\<exists>s'. discard_control_state i s = (s', Inr ()) \<and> hs_db s' = hs_db s"
  using db_keptD [OF db_kept_after(2), of i s] 
  by (cases "on_host (discard_ssh_control_state i) s") (simp add: discard_control_state_def hs_bind_def hs_try_def hs_ret_def)

text \<open>A row that was read is read again after an edit.\<close>

lemma updated_row_reads:
  assumes "codec_ok cx" "Host_try_from cx r = Inr h" "safe_destination (nh_kind new)" "retain \<Longrightarrow> is_password_auth (nh_kind new)"
  shows "is_ok (Host_try_from cx (host_update cx now new retain r))"
proof -
  obtain k where "host_row_kind (host_update cx now new retain r) = Inr k" using host_update_kind [OF assms(3,4)] by blast
  moreover have "hr_id (host_update cx now new retain r) = hr_id r" "hr_created_at (host_update cx now new retain r) = hr_created_at r"
    "hr_last_seen_at (host_update cx now new retain r) = hr_last_seen_at r"
    "hr_updated_at (host_update cx now new retain r) = cx_fmt_ts cx now"
    by (simp_all add: host_update_def Let_def)
  ultimately show ?thesis using assms(1,2) by (auto simp: Host_try_from_def and_then_eq_Inr is_ok_and_then)
qed

lemma stored_update_atomic:
  assumes "codec_ok cx" "get_host cx d i = Inr (Some old)" "prepare_host_update key old new = Inr (v, retain)"
  shows "is_ok (snd (stored_update cx now d i (v, retain))) \<or> fst (stored_update cx now d i (v, retain)) = d"
proof -
  let ?d = "d\<lparr>db_hosts := sql_update (edited retain i) (host_update cx now v retain) (db_hosts d)\<rparr>"
  obtain r where r: "sql_find (\<lambda>r. hr_id r = i) (db_hosts d) = Some r" "Host_try_from cx r = Inr old"
    using assms(2) by (auto simp: get_host_def transpose_opt_def split: option.splits sum.splits)
  have found: "sql_find (\<lambda>r. hr_id r = i) (db_hosts ?d) = Some (if edited retain i r then host_update cx now v retain r else r)"
    by (simp add: r(1) find_update_other [of "edited retain i" hr_id] host_update_def Let_def)
  have "is_ok (get_host_or_not_found cx ?d i)" if "retain \<longrightarrow> is_password_auth (nh_kind v)"
    using updated_row_reads [OF assms(1) r(2), of v retain now] prepared_safe(1) [OF assms(3)] that r(2) found
    by (cases "edited retain i r"; cases "Host_try_from cx (host_update cx now v retain r)")
      (auto simp: get_host_or_not_found_def get_host_def transpose_opt_def)
  then show ?thesis
    by (auto simp: stored_update_def update_host_retaining_password_def update_host_def update_host_inner_def Let_def edited_def [abs_def])
qed

lemma commit_update_atomic:
  assumes "codec_ok (he_cx en)" "get_host (he_cx en) (hs_db s) i = Inr (Some old)" "prepare_host_update key old new = Inr prepared"
  shows "atomic_for s (commit_update en old i changed prepared)"
proof -
  let ?m = "store_step en (\<lambda>now _ d. stored_update (he_cx en) now d i prepared)"
  obtain s1 r where m: "?m s = (s1, r)" by (cases "?m s")
  have "is_ok r \<or> hs_db s1 = hs_db s"
    using m stored_update_atomic [OF assms(1,2), of key new "fst prepared" "snd prepared" "he_now en (hs_ticks s)"] assms(3)
    by (cases "stored_update (he_cx en) (he_now en (hs_ticks s)) (hs_db s) i prepared"; cases "snd (stored_update (he_cx en) (he_now en (hs_ticks s)) (hs_db s) i prepared)")
      (auto simp: store_step_def lift_api_def)
  moreover obtain s2 where "rewarm en old s1 = (s2, Inr ())" "hs_db s2 = hs_db s1" using rewarm_run by blast
  moreover obtain s3 where "discard_control_state i s1 = (s3, Inr ())" using discard_run by blast
  moreover have "\<forall>h. \<exists>s'. rewarm en h s1 = (s', Inr ())" using rewarm_run by blast
  then obtain f where "\<And>h. rewarm en h s1 = (f h, Inr ())" by metis
  ultimately show ?thesis
    by (cases r) (auto simp: atomic_for_def commit_update_run hs_bind_def hs_try_def hs_then_def m hs_ret_def hs_fail_def)
qed

lemma update_loaded_atomic:
  assumes "codec_ok (he_cx en)" "get_host (he_cx en) (hs_db s) i = Inr (Some old)"
  shows "atomic_for s (update_loaded en i new old)"
proof (cases "is_local old")
  case False
  show ?thesis
  proof (cases "prepare_host_update (key_resolver en s) old new")
    case (Inl e)
    then show ?thesis using False by (simp add: update_loaded_def atomic_for_def hs_bind_look hs_bind_lift)
  next
    case (Inr prepared)
    let ?changed = "ssh_destination_changed (h_kind old) (nh_kind (fst prepared))"
    have "atomic_for s (hs_then (if ?changed then refuse_bound en i destination_message else hs_ret ())
        (hs_then (leave_host en old i) (commit_update en old i ?changed prepared)))"
      using assms Inr by (intro atomic_then commit_update_atomic) (auto intro!: db_kept_rules)
    then show ?thesis using False Inr by (simp add: update_loaded_def atomic_for_def hs_bind_look hs_bind_lift Let_def)
  qed
qed (simp add: update_loaded_def atomic_for_def hs_fail_def)

lemma commit_delete_atomic: "atomic_for s (commit_delete en old i)"
proof -
  let ?m = "store_step en (\<lambda>_ _ d. delete_host d i)"
  obtain s1 r where m: "?m s = (s1, r)" by (cases "?m s")
  have none: "\<not> 0 < sql_count (\<lambda>r. hr_id r = i) rows \<Longrightarrow> sql_delete (\<lambda>r. hr_id r = i) rows = rows" for rows :: "host_row list"
    by (auto simp: sql_count_pos sql_delete_def intro: filter_True)
  have "r = Inr True \<or> hs_db s1 = hs_db s"
    using m none [of "db_hosts (hs_db s)"]
    by (cases "0 < sql_count (\<lambda>r. hr_id r = i) (db_hosts (hs_db s))")
      (auto simp: store_step_def lift_api_def delete_host_def Let_def split: if_splits)
  moreover obtain s2 where "rewarm en old s1 = (s2, Inr ())" "hs_db s2 = hs_db s1" using rewarm_run by blast
  moreover obtain s3 where "discard_control_state i s1 = (s3, Inr ())" using discard_run by blast
  ultimately show ?thesis
    by (cases r) (auto simp: atomic_for_def commit_delete_def hs_bind_def hs_try_def hs_then_def m hs_ret_def hs_fail_def split: bool.splits)
qed

text \<open>
  C22. Editing or deleting a host is all or nothing: a request that is answered with an error, whatever step it
  failed at (the validation, the sessions bound to the host, the streams, the browsers, the ssh masters or the
  store), leaves the database as it was.
\<close>

theorem failed_edits_change_nothing:
  assumes "codec_ok (he_cx en)"
  shows "(is_ok (snd (update_route en t new s)) \<or> hs_db (fst (update_route en t new s)) = hs_db s) \<and>
    (is_ok (snd (remove_route en t s)) \<or> hs_db (fst (remove_route en t s)) = hs_db s)"
proof -
  have found: "get_host (he_cx en) (hs_db s'') i = Inr (Some h)" "hs_db s'' = hs_db s'"
    if "host_or_404 en i i s' = (s'', Inr h)" for s' s'' i h
    using that by (auto simp: host_or_404_run split: sum.splits option.splits)
  have "atomic_for s (update_route en t new)"
    unfolding update_route_def
  proof (intro atomic_bind db_kept_lookup)
    fix s' i s'' old
    assume "host_or_404 en i i s' = (s'', Inr old)"
    then show "atomic_for s'' (update_loaded en i new old)" using found assms by (intro update_loaded_atomic) metis+
  qed
  moreover have "atomic_for s' (remove_loaded en i old)" for s' i old
  proof -
    have "atomic_for s' (hs_then (refuse_bound en i deletion_message) (hs_then (leave_host en old i) (commit_delete en old i)))"
      by (intro atomic_then commit_delete_atomic db_kept_refuse db_kept_leave)
    then show ?thesis by (simp add: remove_loaded_def atomic_kept db_kept_pure)
  qed
  then have "atomic_for s (remove_route en t)"
    unfolding remove_route_def by (intro atomic_bind db_kept_lookup)
  ultimately show ?thesis by (simp add: atomic_for_def)
qed

theorem failed_edits_change_nothing_witness:
  "is_ok (snd (remove_route sample_hosts_env ''h2'' sample_daemon)) \<or>
     hs_db (fst (remove_route sample_hosts_env ''h2'' sample_daemon)) = hs_db sample_daemon"
  using failed_edits_change_nothing [of sample_hosts_env "''h2''" "sample_ssh ''pw''" sample_daemon] by (simp add: sample_env_fields)

section \<open>Hosts that are left\<close>

lemma registries_kept_host: "registries_kept (on_host m)"
  by (rule part_kept_host) simp

lemma registries_kept_store: "registries_kept (store_step en f)"
  by (simp add: part_kept_def store_step_def split: prod.split)

lemma registries_kept_after: "registries_kept (rewarm en h)" "registries_kept (discard_control_state i)"
  unfolding rewarm_def discard_control_state_def
  by (intro part_kept_bind part_kept_try registries_kept_host part_kept_pure)+

lemma registries_kept_commit: "registries_kept (commit_update en old i changed prepared)" "registries_kept (commit_delete en old i)"
  unfolding commit_update_def commit_delete_def split_beta
  by (auto intro!: part_kept_bind part_kept_then part_kept_try registries_kept_store registries_kept_after part_kept_pure
      split: sum.split bool.split)

lemma streams_kept_forget: "part_kept hs_streams (forget_if_same i e)"
  by (simp add: part_kept_def forget_if_same_def)

lemma streams_kept_retire: "part_kept hs_streams (retire_host_bridges_for_mutation en h)"
proof -
  have "part_kept hs_streams (on_host m)" for m :: "'b tun" by (rule part_kept_host) simp
  then have "part_kept hs_streams (retire_entries en h es)" for es
    by (induction en h es rule: retire_entries.induct) (auto intro!: part_kept_then part_kept_pure streams_kept_forget)
  then show ?thesis unfolding retire_host_bridges_for_mutation_def by (intro part_kept_bind part_kept_pure)
qed

lemma no_cleanup_error:
  assumes "first_some (\<lambda>n. cleanup_error i (he_cleanup en n)) ns = None" "n \<in> set ns"
  shows "he_cleanup en n = Cleanup_Done"
  using assms by (induction ns) (auto simp: cleanup_error_def split: option.splits stream_cleanup.splits)

text \<open>Neither registry names the host any more; the entries of other hosts are untouched.\<close>

definition host_left :: "uuid \<Rightarrow> hosts_state \<Rightarrow> hosts_state \<Rightarrow> bool" where
  "host_left i s s' \<longleftrightarrow>
     hs_streams s' = filter (\<lambda>(k, n). k \<noteq> i) (hs_streams s) \<and>
     hs_bridges s' = filter (\<lambda>(k, e). be_host_id e \<noteq> i) (hs_bridges s)"

lemma hs_then_Inr: "hs_then m n s = (s', Inr y) \<longleftrightarrow> (\<exists>s1 x. m s = (s1, Inr x) \<and> n s1 = (s', Inr y))"
  by (auto simp: hs_then_def hs_bind_def split: prod.splits sum.splits)

lemma hs_bind_Inr: "hs_bind m f s = (s', Inr y) \<longleftrightarrow> (\<exists>s1 x. m s = (s1, Inr x) \<and> f x s1 = (s', Inr y))"
  by (auto simp: hs_bind_def split: prod.splits sum.splits)

lemma hs_map_err_Inr: "hs_map_err g m s = (s', Inr y) \<longleftrightarrow> m s = (s', Inr y)"
  by (auto simp: hs_map_err_def split: prod.splits sum.splits)

lemma cancelled_streams:
  assumes "cancel_remote_streams_for_host en i s = (s', Inr u)"
  shows "hs_streams s' = filter (\<lambda>(k, n). k \<noteq> i) (hs_streams s) \<and> hs_bridges s' = hs_bridges s"
proof -
  have "first_some (\<lambda>n. cleanup_error i (he_cleanup en n)) (map snd (filter (\<lambda>(k, n). k = i) (hs_streams s))) = None"
    using assms by (auto simp: cancel_remote_streams_for_host_def Let_def split: option.splits)
  then have "he_cleanup en n = Cleanup_Done" if "(i, n) \<in> set (hs_streams s)" for n
  proof -
    have "n \<in> set (map snd (filter (\<lambda>(k, n). k = i) (hs_streams s)))" using that by force
    then show ?thesis using \<open>first_some _ _ = None\<close> by (intro no_cleanup_error)
  qed
  then have "filter (\<lambda>(k, n). k \<noteq> i \<or> he_cleanup en n = Cleanup_Late) (hs_streams s) = filter (\<lambda>(k, n). k \<noteq> i) (hs_streams s)"
    by (intro filter_cong) auto
  then show ?thesis using assms by (auto simp: cancel_remote_streams_for_host_def Let_def)
qed

lemma leave_host_left:
  assumes "leave_host en old i s = (s', Inr u)" "\<not> is_local old" "h_id old = i" "distinct (map fst (hs_bridges s))"
  shows "host_left i s s'"
proof -
  obtain s1 s2 v w where run: "cancel_remote_streams_for_host en i s = (s1, Inr v)"
    "retire_host_bridges_for_mutation en old s1 = (s2, Inr w)" "invalidate_control_masters en old s2 = (s', Inr u)"
    using assms(1) by (auto simp: leave_host_def hs_then_Inr hs_map_err_Inr)
  have s1: "hs_streams s1 = filter (\<lambda>(k, n). k \<noteq> i) (hs_streams s)" "hs_bridges s1 = hs_bridges s"
    using cancelled_streams [OF run(1)] by simp_all
  obtain user hostname port auth where "h_kind old = HostKind_Ssh user hostname port auth"
    using assms(2) by (cases "h_kind old") (auto simp: is_local_kind)
  moreover have "retire_host_bridges_for_mutation en old s1 = (s2, Inr ())" using run(2) by simp
  ultimately have "hs_bridges s2 = filter (\<lambda>(k, e). be_host_id e \<noteq> i) (hs_bridges s1)"
    using retired_bridges assms(3,4) s1(2) by metis
  moreover have "hs_streams s2 = hs_streams s1"
    using streams_kept_retire [of en old] run(2) unfolding part_kept_def by (metis fst_conv)
  moreover have "hs_bridges s' = hs_bridges s2 \<and> hs_streams s' = hs_streams s2"
  proof -
    have "registries_kept (invalidate_control_masters en old)"
      unfolding invalidate_control_masters_def on_api_def by (auto intro!: part_kept_map registries_kept_host part_kept_pure)
    then show ?thesis using run(3) unfolding part_kept_def by (metis Pair_inject fst_conv)
  qed
  ultimately show ?thesis using s1 by (simp add: host_left_def)
qed

lemma then_left:
  assumes "registries_kept n" "hs_then m n s = (s', Inr y)" "\<And>s1 x. m s = (s1, Inr x) \<Longrightarrow> host_left i s s1"
  shows "host_left i s s'"
proof -
  obtain s1 x where m: "m s = (s1, Inr x)" "n s1 = (s', Inr y)" using assms(2) by (auto simp: hs_then_Inr)
  have "hs_bridges s' = hs_bridges s1" "hs_streams s' = hs_streams s1"
    using assms(1) m(2) unfolding part_kept_def by (metis Pair_inject fst_conv)+
  then show ?thesis using assms(3) [OF m(1)] by (simp add: host_left_def)
qed

lemma guard_same: "(if b then refuse_bound en i f else hs_ret ()) s = (s', Inr u) \<Longrightarrow> s' = s"
  using refuse_bound_run by (fastforce simp: hs_ret_def split: if_splits)

lemma confirmed_then:
  assumes "hs_then (if b then refuse_bound en i f else hs_ret ()) n s = (s', Inr y)"
  shows "n s = (s', Inr y)"
  using assms guard_same [of b en i f s] by (auto simp: hs_then_Inr simp del: if_split)

lemma get_host_id:
  "get_host cx d i = Inr (Some h) \<Longrightarrow> cx_parse_uuid cx i = Some i \<Longrightarrow> h_id h = i"
  using sql_find_Some [of "\<lambda>r. hr_id r = i" "db_hosts d"]
  by (fastforce simp: get_host_def transpose_opt_def Host_try_from_def and_then_eq_Inr parse_uuid_def split: option.splits sum.splits)

lemma edit_leaves:
  assumes "\<not> is_local old \<Longrightarrow> h_id old = i" "distinct (map fst (hs_bridges s))"
  shows "update_loaded en i new old s = (s', Inr r) \<Longrightarrow> host_left i s s'"
    "remove_loaded en i old s = (s', Inr u) \<Longrightarrow> host_left i s s'"
proof -
  assume "update_loaded en i new old s = (s', Inr r)"
  then obtain prepared where local: "\<not> is_local old" and run:
    "hs_then (if ssh_destination_changed (h_kind old) (nh_kind (fst prepared)) then refuse_bound en i destination_message else hs_ret ())
       (hs_then (leave_host en old i) (commit_update en old i (ssh_destination_changed (h_kind old) (nh_kind (fst prepared))) prepared)) s = (s', Inr r)"
    by (auto simp: update_loaded_def hs_bind_look hs_bind_lift Let_def hs_fail_def split: if_splits sum.splits)
  from run have "hs_then (leave_host en old i) (commit_update en old i (ssh_destination_changed (h_kind old) (nh_kind (fst prepared))) prepared) s = (s', Inr r)"
    by (rule confirmed_then)
  then show "host_left i s s'"
    by (rule then_left [OF registries_kept_commit(1)]) (erule leave_host_left, use local assms in auto)
next
  assume run: "remove_loaded en i old s = (s', Inr u)"
  then have local: "\<not> is_local old" by (auto simp: remove_loaded_def hs_fail_def)
  then have "hs_then (if True then refuse_bound en i deletion_message else hs_ret ())
      (hs_then (leave_host en old i) (commit_delete en old i)) s = (s', Inr u)"
    using run by (simp add: remove_loaded_def)
  then have "hs_then (leave_host en old i) (commit_delete en old i) s = (s', Inr u)" by (rule confirmed_then)
  then show "host_left i s s'"
    by (rule then_left [OF registries_kept_commit(2)]) (erule leave_host_left, use local assms in auto)
qed

text \<open>
  C23. A host that was edited or deleted keeps nothing of what it was: when the request succeeds, no stream and
  no browser bridge of the host is left in the registries, and those of every other host are all still there.
\<close>

theorem edited_host_is_left:
  assumes "uuid_normal (he_cx en)" "distinct (map fst (hs_bridges s))" "cx_parse_uuid (he_cx en) t = Some i"
    and "update_route en t new s = (s', Inr r) \<or> remove_route en t s = (s', Inr ())"
  shows "host_left i s s'"
proof -
  have i: "cx_parse_uuid (he_cx en) i = Some i" using assms(1,3) by (auto simp: uuid_normal_def)
  obtain old where old: "get_host (he_cx en) (hs_db s) i = Inr (Some old)"
    "update_loaded en i new old s = (s', Inr r) \<or> remove_loaded en i old s = (s', Inr ())"
    using assms(3,4)
    by (auto simp: update_route_def remove_route_def hs_bind_def uuid_arg_run host_or_404_run split: sum.splits option.splits prod.splits)
  then show ?thesis using edit_leaves [OF _ assms(2)] get_host_id [OF old(1) i] by blast
qed

text \<open>A daemon with a stream and a browser on the host that is deleted, and a stream of another host.\<close>

definition sample_busy_hosts :: hosts_state where
  "sample_busy_hosts = sample_daemon\<lparr>hs_bridges := [(''app'', sample_bridge\<lparr>be_destination := Destination_Local\<rparr>)],
     hs_streams := [(''h1'', 3), (''h2'', 4)]\<rparr>"

definition sample_saved_host :: host where
  "sample_saved_host = \<lparr>h_id = ''h1'', h_name = ''box'', h_kind = nh_kind (sample_ssh ''pw''), h_created_at = 1,
     h_updated_at = 1, h_last_seen_at = None\<rparr>"

lemma sample_saved: "get_host sample_codec sample_host_db ''h1'' = Inr (Some sample_saved_host)"
proof -
  have "sql_find (\<lambda>r. hr_id r = ''h1'') (db_hosts sample_host_db) = Some (host_row_of sample_codec 1 ''h1'' (sample_ssh ''pw''))"
    by (simp add: sample_host_rows initial_db_def sql_find_def LOCAL_HOST_ID_def) (simp add: host_row_of_def Let_def)
  then show ?thesis
    by (simp add: get_host_def transpose_opt_def Host_try_from_new sample_saved_host_def) (simp add: sample_ssh_def)
qed

lemma willing_invalidate:
  assumes "\<not> is_local h"
  shows "snd (invalidate_ssh_control_masters willing_env h s) = Inr ()"
proof -
  have "all_closed (te_machine willing_env) tr cs" for tr cs
    by (simp add: all_closed_def closed_at_def willing_env_def classify_control_exit_output_def po_success_def)
  then obtain log where "ssh_close_control_masters (te_ssh willing_env) (te_machine willing_env) h (ts_log s) = (log, Inr (Inr ()))"
    using closing_reaches_every_master by metis
  then show ?thesis using assms by (simp add: invalidate_ssh_control_masters_def closing_def)
qed

lemma sample_leaves:
  "\<exists>s'. leave_host sample_hosts_env sample_saved_host ''h1'' sample_busy_hosts = (s', Inr ()) \<and> hs_db s' = sample_host_db"
proof -
  have remote: "\<not> is_local sample_saved_host" by (simp add: is_local_kind sample_saved_host_def sample_ssh_def)
  obtain s1 where s1: "cancel_remote_streams_for_host sample_hosts_env ''h1'' sample_busy_hosts = (s1, Inr ())"
    "hs_bridges s1 = [(''app'', sample_bridge\<lparr>be_destination := Destination_Local\<rparr>)]"
    by (simp add: cancel_remote_streams_for_host_def Let_def sample_hosts_env_def sample_busy_hosts_def cleanup_error_def)
  then have "snd (retire_host_bridges_for_mutation sample_hosts_env sample_saved_host s1) = Inr ()"
    by (simp add: retire_host_bridges_for_mutation_def hosts_defs sample_bridge_def sample_saved_host_def sample_ssh_def
        forget_if_same_def is_same_entry_def)
  then obtain s2 where "retire_host_bridges_for_mutation sample_hosts_env sample_saved_host s1 = (s2, Inr ())"
    by (metis prod.collapse)
  moreover obtain s3 where "invalidate_control_masters sample_hosts_env sample_saved_host s2 = (s3, Inr ())"
  proof -
    have te: "he_te sample_hosts_env = willing_env" by (simp add: sample_hosts_env_def sample_runtime_def)
    have "snd (invalidate_control_masters sample_hosts_env sample_saved_host s2) = Inr ()"
      using willing_invalidate [OF remote, of "hs_tun s2"] remote
      by (cases "invalidate_ssh_control_masters willing_env sample_saved_host (hs_tun s2)")
        (simp add: te invalidate_control_masters_def on_api_def hs_map_err_def on_host_def)
    then show ?thesis using that by (metis prod.collapse)
  qed
  ultimately have run: "leave_host sample_hosts_env sample_saved_host ''h1'' sample_busy_hosts = (s3, Inr ())"
    using s1(1) by (simp add: leave_host_def hs_then_def hs_bind_def hs_map_err_def)
  moreover have "hs_db s3 = sample_host_db"
    using db_kept_run [OF db_kept_leave run] by (simp add: sample_busy_hosts_def sample_daemon_def)
  ultimately show ?thesis by blast
qed

lemma sample_deleted: "\<exists>s'. remove_route sample_hosts_env ''h1'' sample_busy_hosts = (s', Inr ())"
proof -
  obtain s1 where s1: "leave_host sample_hosts_env sample_saved_host ''h1'' sample_busy_hosts = (s1, Inr ())" "hs_db s1 = sample_host_db"
    using sample_leaves by blast
  have "sql_count (\<lambda>r. hr_id r = ''h1'') (db_hosts sample_host_db) = 1"
    by (simp add: sample_host_rows initial_db_def sql_count_def LOCAL_HOST_ID_def) (simp add: host_row_of_def Let_def)
  then have deleted: "snd (delete_host sample_host_db ''h1'') = Inr True"
    by (simp add: delete_host_def Let_def LOCAL_HOST_ID_def)
      (simp add: sql_count_def sample_host_db_def create_host_def initial_db_def Let_def)
  have "refuse_bound sample_hosts_env ''h1'' deletion_message sample_busy_hosts = (sample_busy_hosts, Inr ())"
    by (simp add: refuse_bound_def hs_bind_look hs_bind_lift bound_sessions_def sample_env_fields sample_busy_hosts_def sample_daemon_def
        list_sessions_def sample_host_db_def create_host_def initial_db_def Let_def order_by_def lift_api_def hs_ret_def)
  moreover obtain s2 where "commit_delete sample_hosts_env sample_saved_host ''h1'' s1 = (s2, Inr ())"
  proof -
    obtain d where "delete_host sample_host_db ''h1'' = (d, Inr True)" using deleted by (metis prod.collapse)
    then have "commit_delete sample_hosts_env sample_saved_host ''h1'' s1 =
        discard_control_state ''h1'' (s1\<lparr>hs_db := d, hs_ticks := Suc (hs_ticks s1)\<rparr>)"
      using s1(2) by (simp add: commit_delete_def hs_bind_def hs_try_def store_step_def lift_api_def)
    then show ?thesis using discard_run that by metis
  qed
  ultimately have "remove_loaded sample_hosts_env ''h1'' sample_saved_host sample_busy_hosts = (s2, Inr ())"
    using s1(1) by (simp add: remove_loaded_def hs_then_def hs_bind_def is_local_kind) (simp add: sample_saved_host_def sample_ssh_def)
  moreover have "host_or_404 sample_hosts_env ''h1'' ''h1'' sample_busy_hosts = (sample_busy_hosts, Inr sample_saved_host)"
    using sample_saved by (simp add: host_or_404_run sample_env_fields sample_busy_hosts_def sample_daemon_def)
  ultimately show ?thesis
    by (simp add: remove_route_def hs_bind_def uuid_arg_run sample_env_fields) (simp add: sample_codec_def hs_bind_def)
qed

theorem edited_host_is_left_witness:
  "\<exists>s'. remove_route sample_hosts_env ''h1'' sample_busy_hosts = (s', Inr ()) \<and> hs_streams s' = [(''h2'', 4)] \<and> hs_bridges s' = []"
proof -
  obtain s' where s': "remove_route sample_hosts_env ''h1'' sample_busy_hosts = (s', Inr ())" using sample_deleted by blast
  have "uuid_normal (he_cx sample_hosts_env)" "cx_parse_uuid (he_cx sample_hosts_env) ''h1'' = Some ''h1''"
    by (simp_all add: sample_env_fields uuid_normal_def sample_codec_def)
  moreover have "distinct (map fst (hs_bridges sample_busy_hosts))" by (simp add: sample_busy_hosts_def)
  ultimately have "host_left ''h1'' sample_busy_hosts s'"
    using edited_host_is_left [of sample_hosts_env sample_busy_hosts "''h1''" "''h1''"] s' by blast
  then show ?thesis using s' by (simp add: host_left_def sample_busy_hosts_def sample_bridge_def)
qed

section \<open>What runs on the hosts\<close>

text \<open>
  The scripts a set-up request may send to the host: nothing without a confirmation, the fixed questions, and
  the command the request's own tables make of items that are all in them.
\<close>

fun setup_script :: "hosts_env \<Rightarrow> host_op \<Rightarrow> string \<Rightarrow> bool" where
  "setup_script en (Host_Ready text) scr = question_script (he_rt en) scr"
| "setup_script en (Host_Bootstrap text items confirm) scr =
     (confirm \<and> list_all (\<lambda>i. i \<in> set BOOTSTRAPABLE) items \<and>
       (question_script (he_rt en) scr \<or> bootstrap_script (he_rt en) items scr))"
| "setup_script en (Host_InstallAgent text tools confirm) scr =
     (confirm \<and> list_all (\<lambda>tool. agent_install_command tool \<noteq> None) tools \<and>
       (question_script (he_rt en) scr \<or> agents_script (he_rt en) tools scr))"
| "setup_script en (Host_ProvisionSkills text skills confirm) scr =
     (confirm \<and> (question_script (he_rt en) scr \<or> skills_put_script (he_rt en) (he_disk en) skills scr))"
| "setup_script en _ scr = False"

fun setup_host :: "host_op \<Rightarrow> string option" where
  "setup_host (Host_Ready text) = Some text"
| "setup_host (Host_Bootstrap text items confirm) = Some text"
| "setup_host (Host_InstallAgent text tools confirm) = Some text"
| "setup_host (Host_ProvisionSkills text skills confirm) = Some text"
| "setup_host _ = None"

text \<open>The processes a handler adds to the log.\<close>

definition adds_only :: "(argv \<Rightarrow> bool) \<Rightarrow> hosts_state \<Rightarrow> hosts_state \<Rightarrow> bool" where
  "adds_only P s s' \<longleftrightarrow> (\<exists>news. ts_log (hs_tun s') = ts_log (hs_tun s) @ news \<and> list_all P news)"

lemma adds_nothing: "hs_tun s' = hs_tun s \<Longrightarrow> adds_only P s s'"
  by (simp add: adds_only_def)

lemma report_adds:
  assumes "starts_only P m"
  shows "adds_only P s (fst (report_and_see en i h m s))"
proof -
  obtain news where news: "fst (m (hs_tun s)) = (hs_tun s)\<lparr>ts_log := ts_log (hs_tun s) @ news\<rparr>" "list_all P news"
    using assms by (rule starts_onlyE)
  obtain t r where m: "m (hs_tun s) = (t, r)" by (cases "m (hs_tun s)")
  have store: "hs_tun (fst (seen_if en i ok s')) = hs_tun s'" for ok s'
    by (simp add: seen_if_def seen_def store_step_def hs_ret_def split: prod.split)
  have "hs_tun (fst (report_and_see en i h m s)) = t"
  proof (cases r)
    case (Inr rd)
    have tun: "hs_tun (fst (seen_if en i (rd_ok rd) (s\<lparr>hs_tun := t\<rparr>))) = t" by (simp add: store)
    then show ?thesis
      using m Inr
      by (cases "seen_if en i (rd_ok rd) (s\<lparr>hs_tun := t\<rparr>)")
        (auto simp: report_and_see_def on_api_def hs_bind_def hs_then_def hs_map_err_def on_host_def hs_ret_def split: sum.split)
  qed (use m in \<open>simp add: report_and_see_def on_api_def hs_bind_def hs_map_err_def on_host_def\<close>)
  then show ?thesis using news m by (simp add: adds_only_def)
qed

lemma confirmed_adds:
  assumes "confirm \<Longrightarrow> list_all (\<lambda>i. refuse i = None) items \<Longrightarrow> adds_only P s (fst (m s))"
  shows "adds_only P s (fst (confirmed confirm a items b refuse m s))"
proof -
  have "list_all (\<lambda>i. refuse i = None) items" if "first_some refuse items = None"
    using that by (induction items) (auto split: option.splits)
  then show ?thesis
    using assms by (auto simp: confirmed_def hs_fail_def adds_nothing split: option.split)
qed

lemma found_adds:
  assumes "get_host (he_cx en) (hs_db s) i = Inr (Some h)" "adds_only P s (fst (f h s))"
  shows "adds_only P s (fst (hs_bind (host_or_404 en i i) f s))"
  using assms by (simp add: hs_bind_def host_or_404_run)



section \<open>Killing a session by its name\<close>

lemma bound_to_row:
  assumes "Session_try_from cx (join_host d r) = Inr x" "canonical_uuid cx (sr_id r)"
  shows "s_id x = sr_id r" "s_tmux_target x = sr_tmux_target r"
  using assms by (auto simp: Session_try_from_def Let_def and_then_eq_Inr join_host_def parse_uuid_def canonical_uuid_def)

lemma refused_when_bound:
  assumes r: "r \<in> set (db_sessions (hs_db s))" "sr_host_id r = Some i" "sr_tmux_target r = Some name"
    and ids: "cx_parse_uuid (he_cx en) i = Some i" "unique_on sr_id (db_sessions (hs_db s))"
      "list_all (\<lambda>r. canonical_uuid (he_cx en) (sr_id r)) (db_sessions (hs_db s))"
  shows "\<exists>e. refuse_bound_target en i name s = (s, Inl e)"
proof (cases "list_sessions (he_cx en) (hs_db s) None")
  case (Inl e)
  then show ?thesis by (simp add: refuse_bound_target_def hs_bind_look hs_bind_lift lift_api_def)
next
  case (Inr ss)
  then have rows: "map (\<lambda>r. Session_try_from (he_cx en) (join_host (hs_db s) r))
      (order_by (then_by (desc sr_pinned) (desc sr_created_at)) (db_sessions (hs_db s))) = map Inr ss"
    by (simp add: list_sessions_def collect_results_Inr)
  have listed: "Session_try_from (he_cx en) (join_host (hs_db s) q) \<in> Inr ` set ss" if "q \<in> set (db_sessions (hs_db s))" for q
    using rows that by (metis (no_types, lifting) image_eqI list.set_map set_order_by)
  have stored: "\<exists>q \<in> set (db_sessions (hs_db s)). Session_try_from (he_cx en) (join_host (hs_db s) q) = Inr x" if "x \<in> set ss" for x
  proof -
    have "Inr x \<in> set (map Inr ss :: (store_error + session) list)" using that by simp
    then show ?thesis unfolding rows [symmetric] by auto
  qed
  obtain x where x: "x \<in> set ss" "Session_try_from (he_cx en) (join_host (hs_db s) r) = Inr x" using listed r(1) by blast
  have canon: "canonical_uuid (he_cx en) (sr_id q)" if "q \<in> set (db_sessions (hs_db s))" for q
    using ids(3) that by (auto simp: list_all_iff)
  have "bound_to i name x"
    using session_host_read [of "he_cx en" r _ x i] bound_to_row(2) [OF x(2) canon [OF r(1)]] x(2) r(2,3) ids(1)
    by (simp add: bound_to_def join_host_def Let_def)
  then obtain b where b: "find (bound_to i name) ss = Some b" "b \<in> set ss" "bound_to i name b"
    using x(1) by (cases "find (bound_to i name) ss") (auto simp: find_None_iff find_Some_iff)
  obtain q where q: "q \<in> set (db_sessions (hs_db s))" "Session_try_from (he_cx en) (join_host (hs_db s) q) = Inr b"
    using stored b(2) by blast
  have "get_session_by_id (he_cx en) (hs_db s) (s_id b) = Inr (Some b)"
    using unique_on_find [OF ids(2) q(1)] q(2) bound_to_row(1) [OF q(2) canon [OF q(1)]]
    by (simp add: get_session_by_id_def get_session_where_def transpose_opt_def)
  then show ?thesis
    using Inr b by (simp add: refuse_bound_target_def hs_bind_look hs_bind_lift lift_api_def hs_fail_def)
qed

text \<open>
  C25. Killing a tmux session by its name never reaches a session of the program: when the name carries the
  prefix of managed sessions, or some session in the store is bound to that name on that host, the request is
  refused before anything is started and nothing changes.
\<close>

theorem raw_kill_spares_sessions:
  assumes "cx_parse_uuid (he_cx en) t = Some i" "cx_parse_uuid (he_cx en) i = Some i"
    and "unique_on sr_id (db_sessions (hs_db s))"
    and "list_all (\<lambda>r. canonical_uuid (he_cx en) (sr_id r)) (db_sessions (hs_db s))"
    and "starts_with ''agentum-'' name \<or>
      list_ex (\<lambda>r. sr_host_id r = Some i \<and> sr_tmux_target r = Some name) (db_sessions (hs_db s))"
  shows "\<exists>e. kill_tmux_session_route en t name s = (s, Inl e)"
proof -
  have "\<exists>e. refuse_bound_target en i name s = (s, Inl e)" if "\<not> starts_with ''agentum-'' name"
    using assms that by (auto simp: list_ex_iff intro: refused_when_bound)
  then show ?thesis
    using assms(1)
    by (auto simp: kill_tmux_session_route_def with_host_def hs_bind_def [of "uuid_arg en t"] uuid_arg_run
        hs_bind_def [of "host_or_404 en i i"] host_or_404_run is_agentum_managed_target_def hs_fail_def hs_then_def
        hs_bind_def [of "refuse_bound_target en i name"] split: sum.split option.split)
qed

theorem raw_kill_spares_sessions_witness:
  "\<exists>e. kill_tmux_session_route sample_hosts_env ''h1'' ''t'' (sample_daemon\<lparr>hs_db := sample_bound_db\<rparr>) =
     (sample_daemon\<lparr>hs_db := sample_bound_db\<rparr>, Inl e)"
proof (rule raw_kill_spares_sessions [where i = "''h1''"])
  let ?rows = "db_sessions (hs_db (sample_daemon\<lparr>hs_db := sample_bound_db\<rparr>))"
  show "unique_on sr_id ?rows" "list_all (\<lambda>r. canonical_uuid (he_cx sample_hosts_env) (sr_id r)) ?rows"
    "starts_with ''agentum-'' ''t'' \<or> list_ex (\<lambda>r. sr_host_id r = Some ''h1'' \<and> sr_tmux_target r = Some ''t'') ?rows"
    by (simp_all add: sample_env_fields sample_bound_db_def session_row_of_def unique_on_def)
qed (simp_all add: sample_env_fields sample_codec_def)

end
