(* ===== verification/Git_Routes.thy ===== *)
theory Git_Routes
  imports Host_Safety
begin

text \<open>
  \<open>crates/agentum-server/src/routes/git.rs\<close>: the git surface of a session's worktree. Every handler finds the
  session, its host and its directory, holds the lease of the host and runs git there; the answers of git are
  parsed here. A handler is one step on the state of \<open>Host_Browser\<close>; two reads the source runs side by side
  are started one after the other.
\<close>

section \<open>What git prints\<close>

text \<open>The records of a listing that separates them by NUL.\<close>

definition nul_records :: "string \<Rightarrow> string list" where
  "nul_records bs = filter (\<lambda>r. r \<noteq> []) (split_on (CHR 0x00) bs)"

record status_entry =
  se_path :: string
  se_status :: string
  se_area :: string
  se_old_path :: "string option"

definition map_porcelain_status :: "char \<Rightarrow> string" where
  "map_porcelain_status code =
     (if code = CHR ''A'' then ''added'' else if code = CHR ''D'' then ''deleted''
      else if code = CHR ''R'' then ''renamed'' else if code = CHR ''C'' then ''copied''
      else if code = CHR ''?'' then ''untracked'' else ''modified'')"

definition is_rename :: "char \<Rightarrow> char \<Rightarrow> bool" where
  "is_rename x y \<longleftrightarrow> x = CHR ''R'' \<or> x = CHR ''C'' \<or> y = CHR ''R'' \<or> y = CHR ''C''"

definition marked :: "char \<Rightarrow> bool" where
  "marked c \<longleftrightarrow> c \<noteq> CHR '' '' \<and> c \<noteq> CHR ''?''"

definition entries_of :: "char \<Rightarrow> char \<Rightarrow> string \<Rightarrow> string option \<Rightarrow> status_entry list" where
  "entries_of x y path old_path =
     (if x = CHR ''?'' \<and> y = CHR ''?''
      then [\<lparr>se_path = path, se_status = ''untracked'', se_area = ''untracked'', se_old_path = None\<rparr>]
      else (if marked x then [\<lparr>se_path = path, se_status = map_porcelain_status x, se_area = ''staged'', se_old_path = old_path\<rparr>] else []) @
           (if marked y then [\<lparr>se_path = path, se_status = map_porcelain_status y, se_area = ''unstaged'', se_old_path = old_path\<rparr>] else []))"

fun status_loop :: "string list \<Rightarrow> status_entry list" where
  "status_loop [] = []"
| "status_loop (r # rest) =
     (if length r < 3 then status_loop rest
      else let x = r ! 0; y = r ! 1; path = utf8_lossy (drop 3 r) in
        if is_rename x y
        then entries_of x y path (case rest of [] \<Rightarrow> None | src # _ \<Rightarrow> Some (utf8_lossy src)) @ status_loop (tl rest)
        else entries_of x y path None @ status_loop rest)"

definition parse_status_entries :: "string \<Rightarrow> status_entry list" where
  "parse_status_entries bs = status_loop (nul_records bs)"

record git_status =
  gs_staged :: "string list"
  gs_unstaged :: "string list"
  gs_untracked :: "string list"

definition porcelain_record :: "char \<Rightarrow> char \<Rightarrow> string \<Rightarrow> git_status \<Rightarrow> git_status" where
  "porcelain_record x y path out =
     (if x = CHR ''?'' \<and> y = CHR ''?'' then out\<lparr>gs_untracked := gs_untracked out @ [path]\<rparr>
      else let out1 = (if marked x then out\<lparr>gs_staged := gs_staged out @ [path]\<rparr> else out)
        in if marked y then out1\<lparr>gs_unstaged := gs_unstaged out1 @ [path]\<rparr> else out1)"

fun porcelain_loop :: "string list \<Rightarrow> git_status \<Rightarrow> git_status" where
  "porcelain_loop [] out = out"
| "porcelain_loop (r # rest) out =
     (if length r < 3 then porcelain_loop rest out
      else let x = r ! 0; y = r ! 1
        in porcelain_loop (if is_rename x y then tl rest else rest) (porcelain_record x y (utf8_lossy (drop 3 r)) out))"

definition parse_porcelain_z :: "string \<Rightarrow> git_status" where
  "parse_porcelain_z bs = porcelain_loop (nul_records bs) \<lparr>gs_staged = [], gs_unstaged = [], gs_untracked = []\<rparr>"

record branch_change =
  bc_path :: string
  bc_status :: string
  bc_old_path :: "string option"
  bc_added :: "32 word option"
  bc_removed :: "32 word option"

definition map_change_status :: "char \<Rightarrow> string" where
  "map_change_status letter =
     (if letter = CHR ''A'' then ''added'' else if letter = CHR ''D'' then ''deleted''
      else if letter = CHR ''R'' then ''renamed'' else if letter = CHR ''C'' then ''copied'' else ''modified'')"

definition change_of :: "char \<Rightarrow> string \<Rightarrow> string option \<Rightarrow> branch_change" where
  "change_of letter path old =
     \<lparr>bc_path = utf8_lossy path, bc_status = map_change_status letter, bc_old_path = map_option utf8_lossy old,
      bc_added = None, bc_removed = None\<rparr>"

fun name_status_loop :: "string list \<Rightarrow> branch_change list" where
  "name_status_loop [] = []"
| "name_status_loop [code] = []"
| "name_status_loop [code, path] =
     (if hd code = CHR ''R'' \<or> hd code = CHR ''C'' then [] else [change_of (hd code) path None])"
| "name_status_loop (code # a # b # rest) =
     (if hd code = CHR ''R'' \<or> hd code = CHR ''C'' then change_of (hd code) b (Some a) # name_status_loop rest
      else change_of (hd code) a None # name_status_loop (b # rest))"

definition parse_name_status_z :: "string \<Rightarrow> branch_change list" where
  "parse_name_status_z bs = name_status_loop (nul_records bs)"

text \<open>\<open>splitn(3)\<close> at tabs, and the counts of one path.\<close>

definition numstat_cols :: "string \<Rightarrow> string \<times> string option \<times> string option" where
  "numstat_cols r =
     (case split_once (CHR 0x09) r of
        None \<Rightarrow> (r, None, None)
      | Some (a, rest) \<Rightarrow>
          (case split_once (CHR 0x09) rest of None \<Rightarrow> (a, Some rest, None) | Some (b, path) \<Rightarrow> (a, Some b, Some path)))"

fun set_counts :: "string \<Rightarrow> 32 word option \<Rightarrow> 32 word option \<Rightarrow> branch_change list \<Rightarrow> branch_change list" where
  "set_counts path added removed [] = []"
| "set_counts path added removed (e # es) =
     (if bc_path e = path then e\<lparr>bc_added := added, bc_removed := removed\<rparr> # es
      else e # set_counts path added removed es)"

definition merge_numstat_record :: "string \<Rightarrow> branch_change list \<Rightarrow> branch_change list" where
  "merge_numstat_record r entries =
     (case numstat_cols r of
        (a, b, Some path) \<Rightarrow> set_counts path (parse_u32 a) (Option.bind b parse_u32) entries
      | _ \<Rightarrow> entries)"

definition merge_numstat :: "string \<Rightarrow> branch_change list \<Rightarrow> branch_change list" where
  "merge_numstat numstat entries = fold merge_numstat_record (nul_records numstat) entries"

record log_entry =
  le_sha :: string
  le_subject :: string
  le_author :: string
  le_timestamp :: string

definition column_at :: "nat \<Rightarrow> string list \<Rightarrow> string" where
  "column_at n parts = (if n < length parts then parts ! n else [])"

definition parse_log_lines :: "string \<Rightarrow> log_entry list" where
  "parse_log_lines raw =
     map (\<lambda>l. let parts = split_on (CHR 0x1F) l
            in \<lparr>le_sha = column_at 0 parts, le_subject = column_at 1 parts, le_author = column_at 2 parts, le_timestamp = column_at 3 parts\<rparr>)
       (filter (\<lambda>l. l \<noteq> []) (str_lines raw))"

record history_item =
  hi_id :: string
  hi_parent_ids :: "string list"
  hi_subject :: string
  hi_message :: string
  hi_display_id :: string
  hi_author :: string
  hi_author_email :: string
  hi_timestamp :: "int option"

definition trim_newlines :: "string \<Rightarrow> string" where
  "trim_newlines s =
     (let p = (\<lambda>c. c = CHR 0x0A \<or> c = CHR 0x0D) in rev (dropWhile p (rev (dropWhile p s))))"

definition history_record :: "string \<Rightarrow> history_item option" where
  "history_record r =
     (let r1 = trim_newlines r; fs = split_on (CHR 0x1F) r1 in
      if r1 = [] \<or> length fs < 7 then None
      else Some \<lparr>hi_id = fs ! 0, hi_parent_ids = split_whitespace (fs ! 1), hi_subject = fs ! 2, hi_message = fs ! 3,
                 hi_display_id = take_chars 8 (fs ! 0), hi_author = fs ! 4, hi_author_email = fs ! 5,
                 hi_timestamp = parse_i64 (trim (fs ! 6))\<rparr>)"

definition parse_history_records :: "string \<Rightarrow> history_item list" where
  "parse_history_records raw = List.map_filter history_record (split_on (CHR 0x1E) raw)"

section \<open>Addresses of files on the web\<close>

definition strip_suffix_or :: "string \<Rightarrow> string \<Rightarrow> string" where
  "strip_suffix_or suffix s = (if ends_with suffix s then take (length s - length suffix) s else s)"

definition after_at :: "string \<Rightarrow> string" where
  "after_at rest = (case split_once (CHR ''@'') rest of None \<Rightarrow> rest | Some (_, after) \<Rightarrow> after)"

definition web_pair :: "char \<Rightarrow> string \<Rightarrow> (string \<times> string) option" where
  "web_pair sep rest = map_option (\<lambda>(web_host, path). (''https://'' @ web_host @ ''/'' @ path, web_host)) (split_once sep rest)"

definition git_url_to_web_base :: "string \<Rightarrow> (string \<times> string) option" where
  "git_url_to_web_base url0 =
     (let url = strip_suffix_or ''.git'' (trim url0) in
      case Option.bind (strip_prefix ''git@'' url) (web_pair (CHR '':'')) of
        Some r \<Rightarrow> Some r
      | None \<Rightarrow>
          first_some (\<lambda>prefix. Option.bind (strip_prefix prefix url) (\<lambda>rest. web_pair (CHR ''/'') (after_at rest)))
            [''ssh://'', ''https://'', ''http://''])"

definition build_file_url :: "(string \<Rightarrow> string) \<Rightarrow> string \<Rightarrow> string \<Rightarrow> string \<Rightarrow> string \<Rightarrow> int \<Rightarrow> string" where
  "build_file_url lower web_base web_host reference path line =
     (let h = lower web_host in
      if str_contains h ''gitlab'' then web_base @ ''/-/blob/'' @ reference @ ''/'' @ path @ ''#L'' @ string_of_int line
      else if str_contains h ''bitbucket'' then web_base @ ''/src/'' @ reference @ ''/'' @ path @ ''#lines-'' @ string_of_int line
      else web_base @ ''/blob/'' @ reference @ ''/'' @ path @ ''#L'' @ string_of_int line)"

section \<open>Running git\<close>

text \<open>The environment, Unicode lower case, and the text of a failed \<open>Uuid::parse_str\<close>.\<close>

record git_env =
  ge_hosts :: hosts_env
  ge_lower :: "string \<Rightarrow> string"
  ge_uuid_text :: "string \<Rightarrow> string"

abbreviation ge_rt :: "git_env \<Rightarrow> runtime" where
  "ge_rt ge \<equiv> he_rt (ge_hosts ge)"

abbreviation ge_te :: "git_env \<Rightarrow> tunnel_env" where
  "ge_te ge \<equiv> he_te (ge_hosts ge)"

definition internal_text :: "string \<Rightarrow> api_error" where
  "internal_text m = ApiError_Internal (Internal_Text m)"

definition labelled :: "git_env \<Rightarrow> string \<Rightarrow> runtime_error \<Rightarrow> api_error" where
  "labelled ge label e = internal_text (label @ '': '' @ runtime_error_text (ge_te ge) e)"

definition git_output :: "git_env \<Rightarrow> host \<Rightarrow> string \<Rightarrow> string \<Rightarrow> string list \<Rightarrow> (api_error, host_output) hosts" where
  "git_output ge h cwd label args = hs_map_err (labelled ge label) (on_host (git_in_dir (ge_rt ge) h cwd args))"

definition git_failed :: "string list \<Rightarrow> host_output \<Rightarrow> api_error" where
  "git_failed args out = internal_text (''git '' @ join_with '' '' args @ '' failed: '' @ trim (ho_stderr out))"

definition run_git :: "git_env \<Rightarrow> host \<Rightarrow> string \<Rightarrow> string list \<Rightarrow> (api_error, string) hosts" where
  "run_git ge h cwd args =
     hs_bind (git_output ge h cwd (''git '' @ join_with '' '' args) args) (\<lambda>out.
       if \<not> ho_success out then hs_fail (git_failed args out) else hs_ret (stdout_string out))"

definition run_git_bytes :: "git_env \<Rightarrow> host \<Rightarrow> string \<Rightarrow> string list \<Rightarrow> (api_error, string) hosts" where
  "run_git_bytes ge h cwd args =
     hs_bind (git_output ge h cwd (''git '' @ join_with '' '' args) args) (\<lambda>out.
       if \<not> ho_success out
       then (if str_contains (ho_stderr out) ''not a git repository''
             then hs_fail (ApiError_BadRequest (''not a git repository: '' @ cwd)) else hs_fail (git_failed args out))
       else hs_ret (ho_stdout out))"

text \<open>\<open>.ok().map(trim)\<close> of a run.\<close>

definition git_word :: "git_env \<Rightarrow> host \<Rightarrow> string \<Rightarrow> string list \<Rightarrow> (api_error, string option) hosts" where
  "git_word ge h cwd args =
     hs_bind (hs_try (run_git ge h cwd args)) (\<lambda>r.
       hs_ret (case r of Inl _ \<Rightarrow> None | Inr out \<Rightarrow> Some (trim out)))"

definition non_empty :: "string option \<Rightarrow> string option" where
  "non_empty v = (case v of Some w \<Rightarrow> if w = [] then None else Some w | None \<Rightarrow> None)"

section \<open>Finding the repository of a session\<close>

definition git_uuid :: "git_env \<Rightarrow> string \<Rightarrow> (api_error, uuid) hosts" where
  "git_uuid ge t = hs_lift (ok_or (ApiError_BadRequest (ge_uuid_text ge t)) (cx_parse_uuid (he_cx (ge_hosts ge)) t))"

definition session_or_404 :: "git_env \<Rightarrow> uuid \<Rightarrow> (api_error, session) hosts" where
  "session_or_404 ge i =
     hs_bind (hs_get (\<lambda>s. lift_api (get_session_by_id (he_cx (ge_hosts ge)) (hs_db s) i))) (\<lambda>r.
       hs_lift (and_then r (ok_or (ApiError_NotFound i))))"

definition cwd_for :: "git_env \<Rightarrow> uuid \<Rightarrow> (api_error, string) hosts" where
  "cwd_for ge i = hs_bind (session_or_404 ge i) (\<lambda>x. hs_ret (effective_cwd x))"

definition host_and_cwd_for :: "git_env \<Rightarrow> uuid \<Rightarrow> (api_error, host \<times> string) hosts" where
  "host_and_cwd_for ge i =
     hs_bind (session_or_404 ge i) (\<lambda>x.
       let host_id = (case s_host_id x of Some k \<Rightarrow> k | None \<Rightarrow> LOCAL_HOST_ID) in
       hs_bind (hs_get (\<lambda>s. lift_api (get_host (he_cx (ge_hosts ge)) (hs_db s) host_id))) (\<lambda>r.
       hs_bind (hs_lift (and_then r (ok_or (ApiError_BadRequest (''session host is missing: '' @ host_id))))) (\<lambda>h.
         hs_ret (h, effective_cwd x))))"

definition ensure_safe_relative :: "string \<Rightarrow> api_error + unit" where
  "ensure_safe_relative p =
     (if p = [] then Inl (ApiError_BadRequest ''path is empty'')
      else if starts_with ''/'' p then Inl (ApiError_BadRequest ''path must be relative'')
      else if ''..'' \<in> set (split_on (CHR ''/'') p) then Inl (ApiError_BadRequest ''path must not contain ..'')
      else Inr ())"

fun ensure_all_safe :: "string list \<Rightarrow> api_error + unit" where
  "ensure_all_safe [] = Inr ()"
| "ensure_all_safe (p # ps) = and_then (ensure_safe_relative p) (\<lambda>_. ensure_all_safe ps)"

section \<open>Requests\<close>

datatype git_request =
    Git_StatusEntries
  | Git_CommitCompare string
  | Git_BranchCompare string
  | Git_Conflict
  | Git_Rebase string
  | Git_AbortMerge
  | Git_AbortRebase
  | Git_Discard "string list"
  | Git_Upstream
  | Git_Branches
  | Git_Log "32 word option"
  | Git_Fetch
  | Git_Pull
  | Git_Push
  | Git_Status
  | Git_Diff string bool
  | Git_File string "string option"
  | Git_Stage "string list" bool
  | Git_Commit string "string list"
  | Git_CommitStaged string
  | Git_CheckIgnore "string list"
  | Git_FastForward
  | Git_RemoteFileUrl string int
  | Git_Blob string string
  | Git_History "32 word option"

text \<open>\<open>clamp\<close> of a limit.\<close>

definition clamped :: "32 word \<Rightarrow> 32 word \<Rightarrow> 32 word option \<Rightarrow> 32 word" where
  "clamped dflt upper limit = min upper (max 1 (case limit of Some n \<Rightarrow> n | None \<Rightarrow> dflt))"

definition STATUS_ARGS :: "string list" where
  "STATUS_ARGS = [''status'', ''--porcelain=v1'', ''-z'']"

definition status_entries :: "git_env \<Rightarrow> host \<Rightarrow> string \<Rightarrow> (api_error, status_entry list) hosts" where
  "status_entries ge h cwd = hs_bind (run_git_bytes ge h cwd STATUS_ARGS) (\<lambda>raw. hs_ret (parse_status_entries raw))"

definition git_status_route :: "git_env \<Rightarrow> host \<Rightarrow> string \<Rightarrow> (api_error, git_status) hosts" where
  "git_status_route ge h cwd = hs_bind (run_git_bytes ge h cwd STATUS_ARGS) (\<lambda>raw. hs_ret (parse_porcelain_z raw))"

definition HEAD_NAME_ARGS :: "string list" where
  "HEAD_NAME_ARGS = [''rev-parse'', ''--abbrev-ref'', ''HEAD'']"

definition HEAD_OID_ARGS :: "string list" where
  "HEAD_OID_ARGS = [''rev-parse'', ''HEAD'']"

definition EMPTY_TREE :: string where
  "EMPTY_TREE = ''4b825dc642cb6eb9a060e54bf8d69288fbee4904''"

definition changed_paths :: "git_env \<Rightarrow> host \<Rightarrow> string \<Rightarrow> string \<Rightarrow> (api_error, branch_change list) hosts" where
  "changed_paths ge h cwd rng =
     hs_bind (run_git ge h cwd [''diff'', ''--name-status'', ''-M'', ''-z'', rng]) (\<lambda>name_status.
     hs_bind (hs_try (run_git ge h cwd [''diff'', ''--numstat'', ''-z'', rng])) (\<lambda>numstat.
       hs_ret (case numstat of
           Inl _ \<Rightarrow> parse_name_status_z name_status
         | Inr text \<Rightarrow> merge_numstat text (parse_name_status_z name_status))))"

record commit_compare_summary =
  cs_commit_oid :: string
  cs_parent_oid :: "string option"
  cs_compare_ref :: string
  cs_base_ref :: string
  cs_changed_files :: "32 word"
  cs_status :: string

definition commit_compare :: "git_env \<Rightarrow> host \<Rightarrow> string \<Rightarrow> string \<Rightarrow> (api_error, commit_compare_summary \<times> branch_change list) hosts" where
  "commit_compare ge h cwd commit0 =
     (let commit = trim commit0 in
      hs_bind (git_word ge h cwd [''rev-parse'', ''--verify'', commit @ ''^{commit}'']) (\<lambda>oid.
      case oid of
        None \<Rightarrow> hs_ret (\<lparr>cs_commit_oid = commit, cs_parent_oid = None, cs_compare_ref = commit, cs_base_ref = [],
                         cs_changed_files = 0, cs_status = ''invalid-commit''\<rparr>, [])
      | Some commit_oid \<Rightarrow>
          hs_bind (git_word ge h cwd [''rev-parse'', ''--verify'', commit_oid @ ''^'']) (\<lambda>parent.
          let base = (case parent of Some p \<Rightarrow> p | None \<Rightarrow> EMPTY_TREE) in
          hs_bind (changed_paths ge h cwd (base @ ''..'' @ commit_oid)) (\<lambda>entries.
            hs_ret (\<lparr>cs_commit_oid = commit_oid, cs_parent_oid = parent, cs_compare_ref = commit_oid, cs_base_ref = base,
                     cs_changed_files = of_nat (length entries), cs_status = ''ready''\<rparr>, entries)))))"

record branch_compare_summary =
  bcs_base_ref :: string
  bcs_base_oid :: "string option"
  bcs_compare_ref :: string
  bcs_head_oid :: "string option"
  bcs_merge_base :: "string option"
  bcs_changed_files :: "32 word"
  bcs_commits_ahead :: "32 word option"
  bcs_status :: string

definition branch_compare :: "git_env \<Rightarrow> host \<Rightarrow> string \<Rightarrow> string \<Rightarrow> (api_error, branch_compare_summary \<times> branch_change list) hosts" where
  "branch_compare ge h cwd base0 =
     (let base = trim base0 in
      hs_bind (git_word ge h cwd HEAD_NAME_ARGS) (\<lambda>name.
      hs_bind (git_word ge h cwd HEAD_OID_ARGS) (\<lambda>head_oid.
      hs_bind (git_word ge h cwd [''rev-parse'', base]) (\<lambda>base_oid.
      let blank = \<lparr>bcs_base_ref = base, bcs_base_oid = base_oid,
                   bcs_compare_ref = (case name of Some n \<Rightarrow> n | None \<Rightarrow> ''HEAD''), bcs_head_oid = head_oid,
                   bcs_merge_base = None, bcs_changed_files = 0, bcs_commits_ahead = None, bcs_status = []\<rparr> in
      if base_oid = None then hs_ret (blank\<lparr>bcs_status := ''invalid-base''\<rparr>, [])
      else if head_oid = None then hs_ret (blank\<lparr>bcs_status := ''unborn-head''\<rparr>, [])
      else hs_bind (git_word ge h cwd [''merge-base'', base, ''HEAD'']) (\<lambda>merge_base.
        case merge_base of
          None \<Rightarrow> hs_ret (blank\<lparr>bcs_status := ''no-merge-base''\<rparr>, [])
        | Some mb \<Rightarrow>
            hs_bind (changed_paths ge h cwd (mb @ ''..HEAD'')) (\<lambda>entries.
            hs_bind (git_word ge h cwd [''rev-list'', ''--count'', mb @ ''..HEAD'']) (\<lambda>ahead.
              hs_ret (blank\<lparr>bcs_merge_base := Some mb, bcs_changed_files := of_nat (length entries),
                       bcs_commits_ahead := Option.bind ahead parse_u32, bcs_status := ''ready''\<rparr>, entries))))))))"

datatype conflict_op = ConflictOp_Merge | ConflictOp_Rebase | ConflictOp_CherryPick | ConflictOp_None

definition git_ref_exists :: "git_env \<Rightarrow> host \<Rightarrow> string \<Rightarrow> string \<Rightarrow> (api_error, bool) hosts" where
  "git_ref_exists ge h cwd ref =
     hs_bind (hs_try (run_git ge h cwd [''rev-parse'', ''-q'', ''--verify'', ref])) (\<lambda>r. hs_ret (is_ok r))"

definition quietly_exists :: "git_env \<Rightarrow> host \<Rightarrow> string \<Rightarrow> (api_error, bool) hosts" where
  "quietly_exists ge h path =
     hs_bind (hs_try (on_host (host_path_exists (ge_rt ge) (he_disk (ge_hosts ge)) h path))) (\<lambda>r.
       hs_ret (case r of Inr b \<Rightarrow> b | Inl _ \<Rightarrow> False))"

definition git_state_dir_exists :: "git_env \<Rightarrow> host \<Rightarrow> string \<Rightarrow> string \<Rightarrow> (api_error, bool) hosts" where
  "git_state_dir_exists ge h cwd sub =
     hs_bind (git_word ge h cwd [''rev-parse'', ''--git-path'', sub]) (\<lambda>r.
       case r of
         None \<Rightarrow> hs_ret False
       | Some p \<Rightarrow> quietly_exists ge h (if starts_with ''/'' p then p else cwd @ ''/'' @ p))"

definition git_conflict :: "git_env \<Rightarrow> host \<Rightarrow> string \<Rightarrow> (api_error, conflict_op) hosts" where
  "git_conflict ge h cwd =
     hs_bind (git_state_dir_exists ge h cwd ''rebase-merge'') (\<lambda>a.
     hs_bind (if a then hs_ret True else git_state_dir_exists ge h cwd ''rebase-apply'') (\<lambda>rebase_dir.
     if rebase_dir then hs_ret ConflictOp_Rebase
     else hs_bind (git_ref_exists ge h cwd ''MERGE_HEAD'') (\<lambda>merging.
       if merging then hs_ret ConflictOp_Merge
       else hs_bind (git_ref_exists ge h cwd ''CHERRY_PICK_HEAD'') (\<lambda>picking.
         hs_ret (if picking then ConflictOp_CherryPick else ConflictOp_None)))))"

definition git_run_only :: "git_env \<Rightarrow> host \<Rightarrow> string \<Rightarrow> string list \<Rightarrow> (api_error, unit) hosts" where
  "git_run_only ge h cwd args = hs_bind (run_git ge h cwd args) (\<lambda>_. hs_ret ())"

definition git_rebase :: "git_env \<Rightarrow> host \<Rightarrow> string \<Rightarrow> string \<Rightarrow> (api_error, unit) hosts" where
  "git_rebase ge h cwd base_ref =
     (if trim base_ref = [] then hs_fail (ApiError_BadRequest ''base_ref is empty'')
      else git_run_only ge h cwd [''rebase'', trim base_ref])"

definition git_abort_merge :: "git_env \<Rightarrow> host \<Rightarrow> string \<Rightarrow> (api_error, unit) hosts" where
  "git_abort_merge ge h cwd = git_run_only ge h cwd [''merge'', ''--abort'']"

definition git_abort_rebase :: "git_env \<Rightarrow> host \<Rightarrow> string \<Rightarrow> (api_error, unit) hosts" where
  "git_abort_rebase ge h cwd = git_run_only ge h cwd [''rebase'', ''--abort'']"

definition git_discard :: "git_env \<Rightarrow> host \<Rightarrow> string \<Rightarrow> string list \<Rightarrow> (api_error, unit) hosts" where
  "git_discard ge h cwd paths =
     hs_bind (hs_lift (ensure_all_safe paths)) (\<lambda>_.
       if paths = [] then hs_ret ()
       else git_run_only ge h cwd ([''restore'', ''--source=HEAD'', ''--staged'', ''--worktree'', ''--''] @ paths))"

record upstream_status =
  us_upstream :: "string option"
  us_ahead :: "32 word"
  us_behind :: "32 word"

definition COUNT_ARGS :: "string list" where
  "COUNT_ARGS = [''rev-list'', ''--left-right'', ''--count'', ''@'' @ ''{u}...HEAD'']"

definition number_at :: "nat \<Rightarrow> string list \<Rightarrow> 32 word" where
  "number_at n words = (case (if n < length words then parse_u32 (words ! n) else None) of Some k \<Rightarrow> k | None \<Rightarrow> 0)"

definition git_upstream :: "git_env \<Rightarrow> host \<Rightarrow> string \<Rightarrow> (api_error, upstream_status) hosts" where
  "git_upstream ge h cwd =
     hs_bind (git_word ge h cwd [''rev-parse'', ''--abbrev-ref'', ''--symbolic-full-name'', ''@'' @ ''{u}'']) (\<lambda>up.
     hs_bind (hs_try (run_git ge h cwd COUNT_ARGS)) (\<lambda>counts.
       hs_ret (case (non_empty up, counts) of
           (Some u, Inr out) \<Rightarrow> \<lparr>us_upstream = Some u, us_ahead = number_at 1 (split_whitespace out),
                                us_behind = number_at 0 (split_whitespace out)\<rparr>
         | (u, _) \<Rightarrow> \<lparr>us_upstream = u, us_ahead = 0, us_behind = 0\<rparr>)))"

definition git_branches :: "git_env \<Rightarrow> host \<Rightarrow> string \<Rightarrow> (api_error, string option \<times> string list) hosts" where
  "git_branches ge h cwd =
     hs_bind (git_word ge h cwd HEAD_NAME_ARGS) (\<lambda>current.
     hs_bind (run_git ge h cwd [''for-each-ref'', ''--format=%(refname:short)'', ''refs/heads'']) (\<lambda>raw.
       hs_ret (case non_empty current of Some c \<Rightarrow> if c = ''HEAD'' then None else Some c | None \<Rightarrow> None,
               filter (\<lambda>l. l \<noteq> []) (map trim (str_lines raw)))))"

definition git_log :: "git_env \<Rightarrow> host \<Rightarrow> string \<Rightarrow> 32 word option \<Rightarrow> (api_error, log_entry list) hosts" where
  "git_log ge h cwd limit =
     hs_bind (run_git ge h cwd [''log'', ''-'' @ string_of_nat (unat (clamped 50 500 limit)), ''--format=%H%x1f%s%x1f%an%x1f%aI'']) (\<lambda>raw.
       hs_ret (parse_log_lines raw))"

definition git_fetch :: "git_env \<Rightarrow> host \<Rightarrow> string \<Rightarrow> (api_error, unit) hosts" where
  "git_fetch ge h cwd = git_run_only ge h cwd [''fetch'', ''--all'', ''--prune'']"

definition git_pull :: "git_env \<Rightarrow> host \<Rightarrow> string \<Rightarrow> (api_error, unit) hosts" where
  "git_pull ge h cwd = git_run_only ge h cwd [''pull'', ''--ff-only'']"

definition git_push :: "git_env \<Rightarrow> host \<Rightarrow> string \<Rightarrow> (api_error, unit) hosts" where
  "git_push ge h cwd = git_run_only ge h cwd [''push'', ''--set-upstream'', ''origin'', ''HEAD'']"

section \<open>One file, the index and commits\<close>

definition MAX_FILE_BYTES :: nat where
  "MAX_FILE_BYTES = 512 * 1024"

definition worktree_file :: "string \<Rightarrow> string \<Rightarrow> string" where
  "worktree_file cwd path = trim_end_char (CHR ''/'') cwd @ ''/'' @ path"

definition git_diff :: "git_env \<Rightarrow> host \<Rightarrow> string \<Rightarrow> string \<Rightarrow> bool \<Rightarrow> (api_error, string) hosts" where
  "git_diff ge h cwd path staged =
     hs_bind (hs_lift (ensure_safe_relative path)) (\<lambda>_.
     hs_bind (git_output ge h cwd ''git diff''
         ([''diff'', ''--no-color''] @ (if staged then [''--cached''] else []) @ [''--'', path])) (\<lambda>out.
     let body = stdout_string out in
     hs_bind (if body = [] \<and> \<not> staged then quietly_exists ge h (worktree_file cwd path) else hs_ret False) (\<lambda>untracked.
       if \<not> untracked then hs_ret body
       else hs_bind (git_output ge h cwd ''git diff --no-index'' [''diff'', ''--no-color'', ''--no-index'', ''--'', ''/dev/null'', path])
              (\<lambda>synth. hs_ret (stdout_string synth)))))"

text \<open>The content of \<open>git show\<close>, empty when git answers that there is none.\<close>

definition git_shown :: "git_env \<Rightarrow> host \<Rightarrow> string \<Rightarrow> string \<Rightarrow> (api_error, string) hosts" where
  "git_shown ge h cwd spec =
     hs_bind (git_output ge h cwd ''git show'' [''show'', spec]) (\<lambda>out. hs_ret (if ho_success out then ho_stdout out else []))"

record file_content =
  fc_content :: string
  fc_truncated :: bool

definition cut_off :: "string \<Rightarrow> string" where
  "cut_off bs = (if MAX_FILE_BYTES < length bs then take MAX_FILE_BYTES bs else bs)"

definition file_content_of :: "string \<Rightarrow> file_content" where
  "file_content_of bs = \<lparr>fc_content = utf8_lossy (cut_off bs), fc_truncated = (MAX_FILE_BYTES < length bs)\<rparr>"

definition git_file_bytes :: "git_env \<Rightarrow> host \<Rightarrow> string \<Rightarrow> string \<Rightarrow> string \<Rightarrow> (api_error, string) hosts" where
  "git_file_bytes ge h cwd path revision =
     (if revision = ''head'' then git_shown ge h cwd (''HEAD:'' @ path)
      else if revision = ''index'' then git_shown ge h cwd ('':'' @ path)
      else if revision = ''worktree''
      then hs_bind (hs_map_err (labelled ge ''read file'')
               (on_host (read_file_bytes (ge_rt ge) (he_disk (ge_hosts ge)) h (worktree_file cwd path)))) (\<lambda>r.
             hs_ret (unwrap_or_default r))
      else hs_fail (ApiError_BadRequest (''unknown rev '' @ [CHR 0x27] @ revision @ [CHR 0x27] @ '' (expected head|index|worktree)'')))"

definition git_file :: "git_env \<Rightarrow> host \<Rightarrow> string \<Rightarrow> string \<Rightarrow> string option \<Rightarrow> (api_error, file_content) hosts" where
  "git_file ge h cwd path revision =
     hs_bind (hs_lift (ensure_safe_relative path)) (\<lambda>_.
     hs_bind (git_file_bytes ge h cwd path (case revision of Some r \<Rightarrow> r | None \<Rightarrow> ''worktree'')) (\<lambda>bs.
       hs_ret (file_content_of bs)))"

definition git_checked :: "git_env \<Rightarrow> host \<Rightarrow> string \<Rightarrow> string \<Rightarrow> string \<Rightarrow> string list \<Rightarrow> (api_error, unit) hosts" where
  "git_checked ge h cwd label name args =
     hs_bind (git_output ge h cwd label args) (\<lambda>out.
       if \<not> ho_success out then hs_fail (ApiError_BadRequest (name @ '' failed: '' @ ho_stderr out)) else hs_ret ())"

definition git_stage :: "git_env \<Rightarrow> host \<Rightarrow> string \<Rightarrow> string list \<Rightarrow> bool \<Rightarrow> (api_error, git_status) hosts" where
  "git_stage ge h cwd paths unstage =
     (if paths = [] then hs_fail (ApiError_BadRequest ''paths is empty'')
      else hs_bind (hs_lift (ensure_all_safe paths)) (\<lambda>_.
           hs_bind (git_checked ge h cwd ''git stage'' (if unstage then ''git restore --staged'' else ''git add'')
               ((if unstage then [''restore'', ''--staged'', ''--''] else [''add'', ''--'']) @ paths)) (\<lambda>_.
             git_status_route ge h cwd)))"

definition BOT_IDENTITY :: "string list" where
  "BOT_IDENTITY = [''-c'', ''user.name=agentum-bot'', ''-c'', ''user.email=agentum@localhost'']"

definition head_sha :: "git_env \<Rightarrow> host \<Rightarrow> string \<Rightarrow> (api_error, string) hosts" where
  "head_sha ge h cwd = hs_bind (run_git ge h cwd HEAD_OID_ARGS) (\<lambda>out. hs_ret (trim out))"

definition git_commit :: "git_env \<Rightarrow> host \<Rightarrow> string \<Rightarrow> string \<Rightarrow> string list \<Rightarrow> (api_error, string) hosts" where
  "git_commit ge h cwd message paths =
     (if trim message = [] then hs_fail (ApiError_BadRequest ''commit message is empty'')
      else if paths = [] then hs_fail (ApiError_BadRequest ''paths is empty'')
      else hs_bind (hs_lift (ensure_all_safe paths)) (\<lambda>_.
           hs_bind (git_checked ge h cwd ''git add'' ''git add'' ([''add'', ''--''] @ paths)) (\<lambda>_.
           hs_bind (git_checked ge h cwd ''git commit'' ''git commit''
               (BOT_IDENTITY @ [''commit'', ''-m'', message, ''--''] @ paths)) (\<lambda>_.
             head_sha ge h cwd))))"

definition git_commit_staged :: "git_env \<Rightarrow> host \<Rightarrow> string \<Rightarrow> string \<Rightarrow> (api_error, string) hosts" where
  "git_commit_staged ge h cwd message =
     (if trim message = [] then hs_fail (ApiError_BadRequest ''commit message is empty'')
      else hs_bind (run_git ge h cwd (BOT_IDENTITY @ [''commit'', ''-m'', message])) (\<lambda>_. head_sha ge h cwd))"

definition git_check_ignore :: "git_env \<Rightarrow> host \<Rightarrow> string \<Rightarrow> string list \<Rightarrow> (api_error, string list) hosts" where
  "git_check_ignore ge h cwd paths =
     (if paths = [] then hs_ret []
      else hs_bind (git_output ge h cwd ''git check-ignore'' ([''check-ignore'', ''--''] @ paths)) (\<lambda>out.
        if (case ho_code out of Some code \<Rightarrow> 1 < code | None \<Rightarrow> False)
        then hs_fail (internal_text (''git check-ignore failed: '' @ trim (ho_stderr out)))
        else hs_ret (str_lines (stdout_string out))))"

definition git_fast_forward :: "git_env \<Rightarrow> host \<Rightarrow> string \<Rightarrow> (api_error, unit) hosts" where
  "git_fast_forward ge h cwd = git_run_only ge h cwd [''merge'', ''--ff-only'', ''@'' @ ''{upstream}'']"

definition named_branch :: "string option \<Rightarrow> string option" where
  "named_branch v = (case non_empty v of Some name \<Rightarrow> if name = ''HEAD'' then None else Some name | None \<Rightarrow> None)"

definition git_remote_file_url :: "git_env \<Rightarrow> host \<Rightarrow> string \<Rightarrow> string \<Rightarrow> int \<Rightarrow> (api_error, string option) hosts" where
  "git_remote_file_url ge h cwd path line =
     hs_bind (git_word ge h cwd [''remote'', ''get-url'', ''origin'']) (\<lambda>remote.
     case Option.bind remote git_url_to_web_base of
       None \<Rightarrow> hs_ret None
     | Some (web_base, web_host) \<Rightarrow>
         hs_bind (git_word ge h cwd HEAD_NAME_ARGS) (\<lambda>branch.
         hs_bind (case named_branch branch of
             Some name \<Rightarrow> hs_ret name
           | None \<Rightarrow> hs_bind (git_word ge h cwd HEAD_OID_ARGS) (\<lambda>oid. hs_ret (case oid of Some o1 \<Rightarrow> o1 | None \<Rightarrow> ''HEAD'')))
           (\<lambda>reference. hs_ret (Some (build_file_url (ge_lower ge) web_base web_host reference path line)))))"

record blob_content =
  bl_content :: string
  bl_is_binary :: bool
  bl_truncated :: bool

definition git_blob :: "git_env \<Rightarrow> host \<Rightarrow> string \<Rightarrow> string \<Rightarrow> string \<Rightarrow> (api_error, blob_content) hosts" where
  "git_blob ge h cwd path commit =
     hs_bind (hs_lift (ensure_safe_relative path)) (\<lambda>_.
       if starts_with ''-'' commit then hs_fail (ApiError_BadRequest ''invalid commit ref'')
       else hs_bind (git_shown ge h cwd (commit @ '':'' @ path)) (\<lambda>bs.
         hs_ret \<lparr>bl_content = dk_encode64 (he_disk (ge_hosts ge)) (cut_off bs), bl_is_binary = (CHR 0x00 \<in> set bs),
                 bl_truncated = (MAX_FILE_BYTES < length bs)\<rparr>))"

record git_history =
  gh_items :: "history_item list"
  gh_incoming :: bool
  gh_outgoing :: bool
  gh_more :: bool
  gh_limit :: "32 word"
  gh_current :: "(string \<times> string) option"

definition HISTORY_FORMAT :: string where
  "HISTORY_FORMAT = ''--pretty=format:%H'' @ [CHR 0x1F] @ ''%P'' @ [CHR 0x1F] @ ''%s'' @ [CHR 0x1F] @ ''%B'' @ [CHR 0x1F] @
     ''%an'' @ [CHR 0x1F] @ ''%ae'' @ [CHR 0x1F] @ ''%at'' @ [CHR 0x1E]"

definition history_page :: "32 word \<Rightarrow> string \<Rightarrow> history_item list \<times> bool" where
  "history_page limit raw =
     (let items = parse_history_records raw
      in (take (unat limit) items, limit < of_nat (length items)))"

definition git_history_page :: "git_env \<Rightarrow> host \<Rightarrow> string \<Rightarrow> 32 word option \<Rightarrow> (api_error, git_history) hosts" where
  "git_history_page ge h cwd limit0 =
     (let limit = clamped 50 1000 limit0 in
      hs_bind (hs_try (run_git ge h cwd [''log'', ''--max-count='' @ string_of_nat (unat (limit + 1)), HISTORY_FORMAT])) (\<lambda>raw.
      hs_bind (hs_try (run_git ge h cwd COUNT_ARGS)) (\<lambda>counts.
      hs_bind (git_word ge h cwd HEAD_OID_ARGS) (\<lambda>head_oid.
      hs_bind (git_word ge h cwd HEAD_NAME_ARGS) (\<lambda>name.
        let (items, more) = history_page limit (case raw of Inr t \<Rightarrow> t | Inl _ \<Rightarrow> []);
            (behind, ahead) = (case counts of Inr out \<Rightarrow> (number_at 0 (split_whitespace out), number_at 1 (split_whitespace out)) | Inl _ \<Rightarrow> (0, 0))
        in hs_ret \<lparr>gh_items = items, gh_incoming = (0 < behind), gh_outgoing = (0 < ahead), gh_more = more, gh_limit = limit,
                   gh_current = (case (non_empty head_oid, non_empty name) of (Some i, Some n) \<Rightarrow> Some (i, n) | _ \<Rightarrow> None)\<rparr>)))))"

section \<open>Answering a request\<close>

datatype git_answer =
    Answer_Done
  | Answer_Entries "status_entry list"
  | Answer_Commit commit_compare_summary "branch_change list"
  | Answer_Branch branch_compare_summary "branch_change list"
  | Answer_Conflict conflict_op
  | Answer_Upstream upstream_status
  | Answer_Branches "string option" "string list"
  | Answer_Log "log_entry list"
  | Answer_Status git_status
  | Answer_Text string
  | Answer_File file_content
  | Answer_Sha string
  | Answer_Paths "string list"
  | Answer_Url "string option"
  | Answer_Blob blob_content
  | Answer_History git_history

definition hs_map :: "('a \<Rightarrow> 'b) \<Rightarrow> ('e, 'a) hosts \<Rightarrow> ('e, 'b) hosts" where
  "hs_map f m = hs_bind m (\<lambda>x. hs_ret (f x))"

fun git_action :: "git_env \<Rightarrow> host \<Rightarrow> string \<Rightarrow> git_request \<Rightarrow> (api_error, git_answer) hosts" where
  "git_action ge h cwd Git_StatusEntries = hs_map Answer_Entries (status_entries ge h cwd)"
| "git_action ge h cwd (Git_CommitCompare commit) = hs_map (\<lambda>(s, es). Answer_Commit s es) (commit_compare ge h cwd commit)"
| "git_action ge h cwd (Git_BranchCompare base) = hs_map (\<lambda>(s, es). Answer_Branch s es) (branch_compare ge h cwd base)"
| "git_action ge h cwd Git_Conflict = hs_map Answer_Conflict (git_conflict ge h cwd)"
| "git_action ge h cwd (Git_Rebase base) = hs_map (\<lambda>_. Answer_Done) (git_rebase ge h cwd base)"
| "git_action ge h cwd Git_AbortMerge = hs_map (\<lambda>_. Answer_Done) (git_abort_merge ge h cwd)"
| "git_action ge h cwd Git_AbortRebase = hs_map (\<lambda>_. Answer_Done) (git_abort_rebase ge h cwd)"
| "git_action ge h cwd (Git_Discard paths) = hs_map (\<lambda>_. Answer_Done) (git_discard ge h cwd paths)"
| "git_action ge h cwd Git_Upstream = hs_map Answer_Upstream (git_upstream ge h cwd)"
| "git_action ge h cwd Git_Branches = hs_map (\<lambda>(c, bs). Answer_Branches c bs) (git_branches ge h cwd)"
| "git_action ge h cwd (Git_Log limit) = hs_map Answer_Log (git_log ge h cwd limit)"
| "git_action ge h cwd Git_Fetch = hs_map (\<lambda>_. Answer_Done) (git_fetch ge h cwd)"
| "git_action ge h cwd Git_Pull = hs_map (\<lambda>_. Answer_Done) (git_pull ge h cwd)"
| "git_action ge h cwd Git_Push = hs_map (\<lambda>_. Answer_Done) (git_push ge h cwd)"
| "git_action ge h cwd Git_Status = hs_map Answer_Status (git_status_route ge h cwd)"
| "git_action ge h cwd (Git_Diff path staged) = hs_map Answer_Text (git_diff ge h cwd path staged)"
| "git_action ge h cwd (Git_File path revision) = hs_map Answer_File (git_file ge h cwd path revision)"
| "git_action ge h cwd (Git_Stage paths unstage) = hs_map Answer_Status (git_stage ge h cwd paths unstage)"
| "git_action ge h cwd (Git_Commit message paths) = hs_map Answer_Sha (git_commit ge h cwd message paths)"
| "git_action ge h cwd (Git_CommitStaged message) = hs_map Answer_Sha (git_commit_staged ge h cwd message)"
| "git_action ge h cwd (Git_CheckIgnore paths) = hs_map Answer_Paths (git_check_ignore ge h cwd paths)"
| "git_action ge h cwd Git_FastForward = hs_map (\<lambda>_. Answer_Done) (git_fast_forward ge h cwd)"
| "git_action ge h cwd (Git_RemoteFileUrl path line) = hs_map Answer_Url (git_remote_file_url ge h cwd path line)"
| "git_action ge h cwd (Git_Blob path commit) = hs_map Answer_Blob (git_blob ge h cwd path commit)"
| "git_action ge h cwd (Git_History limit) = hs_map Answer_History (git_history_page ge h cwd limit)"

definition git_perform :: "git_env \<Rightarrow> string \<Rightarrow> git_request \<Rightarrow> (api_error, git_answer) hosts" where
  "git_perform ge id_text request =
     hs_bind (git_uuid ge id_text) (\<lambda>i. hs_bind (host_and_cwd_for ge i) (\<lambda>(h, cwd). git_action ge h cwd request))"

end
