(* ===== verification/Git_Safety.thy ===== *)
theory Git_Safety
  imports Git_Routes
begin

text \<open>
  What the git routes promise: where their processes run and what they may be told to do, whatever git answers;
  that the two views of a status agree; and that the history git prints is the history that is read.
\<close>

section \<open>Programs that only start processes\<close>

text \<open>A program that leaves the state alone but for the processes it starts, all of a kind.\<close>

definition only_starts :: "(argv \<Rightarrow> bool) \<Rightarrow> ('e, 'a) hosts \<Rightarrow> bool" where
  "only_starts P m \<longleftrightarrow>
     (\<forall>s. \<exists>news. fst (m s) = s\<lparr>hs_tun := (hs_tun s)\<lparr>ts_log := ts_log (hs_tun s) @ news\<rparr>\<rparr> \<and> list_all P news)"

named_theorems quiet_intros

lemma only_startsE:
  assumes "only_starts P m"
  obtains news where "fst (m s) = s\<lparr>hs_tun := (hs_tun s)\<lparr>ts_log := ts_log (hs_tun s) @ news\<rparr>\<rparr>" "list_all P news"
  using assms unfolding only_starts_def by blast

lemma no_news: "\<exists>news. s = s\<lparr>hs_tun := (hs_tun s)\<lparr>ts_log := ts_log (hs_tun s) @ news\<rparr>\<rparr> \<and> list_all P news"
  by (intro exI [of _ "[]"]) simp

lemma quiet_pure [quiet_intros]:
  "only_starts P (hs_ret x)" "only_starts P (hs_fail e)" "only_starts P (hs_lift r)" "only_starts P (hs_get f)"
  by (simp_all add: only_starts_def hs_ret_def hs_fail_def hs_lift_def hs_get_def no_news)

lemma quiet_bind [quiet_intros]:
  assumes "only_starts P m" "\<And>x. only_starts P (f x)"
  shows "only_starts P (hs_bind m f)"
  unfolding only_starts_def
proof
  fix s :: hosts_state
  obtain l where l: "fst (m s) = s\<lparr>hs_tun := (hs_tun s)\<lparr>ts_log := ts_log (hs_tun s) @ l\<rparr>\<rparr>" "list_all P l"
    using assms(1) by (rule only_startsE)
  show "\<exists>l. fst (hs_bind m f s) = s\<lparr>hs_tun := (hs_tun s)\<lparr>ts_log := ts_log (hs_tun s) @ l\<rparr>\<rparr> \<and> list_all P l"
  proof (cases "snd (m s)")
    case (Inl e)
    then show ?thesis using l by (cases "m s") (auto simp: hs_bind_def)
  next
    case (Inr x)
    obtain l' where "fst (f x (fst (m s))) =
        (fst (m s))\<lparr>hs_tun := (hs_tun (fst (m s)))\<lparr>ts_log := ts_log (hs_tun (fst (m s))) @ l'\<rparr>\<rparr>" "list_all P l'"
      using assms(2) by (rule only_startsE)
    then show ?thesis using l Inr by (intro exI [of _ "l @ l'"]) (cases "m s", auto simp: hs_bind_def)
  qed
qed

lemma quiet_lifted:
  assumes "\<And>x. r = Inr x \<Longrightarrow> only_starts P (f x)"
  shows "only_starts P (hs_bind (hs_lift r) f)"
proof (cases r)
  case (Inl e)
  then have "hs_bind (hs_lift r) f = hs_fail e" by (simp add: fun_eq_iff hs_bind_def hs_lift_def hs_fail_def)
  then show ?thesis by (simp add: quiet_pure)
next
  case (Inr x)
  then have "hs_bind (hs_lift r) f = f x" by (simp add: fun_eq_iff hs_bind_def hs_lift_def)
  then show ?thesis using assms Inr by simp
qed

lemma quiet_try [quiet_intros]: "only_starts P m \<Longrightarrow> only_starts P (hs_try m)"
  unfolding only_starts_def hs_try_def by (simp add: split_beta)

lemma quiet_map_err [quiet_intros]: "only_starts P m \<Longrightarrow> only_starts P (hs_map_err f m)"
  unfolding only_starts_def
proof
  fix s assume all: "\<forall>s. \<exists>news. fst (m s) = s\<lparr>hs_tun := (hs_tun s)\<lparr>ts_log := ts_log (hs_tun s) @ news\<rparr>\<rparr> \<and> list_all P news"
  have "fst (hs_map_err f m s) = fst (m s)" by (auto simp: hs_map_err_def split: prod.split sum.split)
  then show "\<exists>news. fst (hs_map_err f m s) = s\<lparr>hs_tun := (hs_tun s)\<lparr>ts_log := ts_log (hs_tun s) @ news\<rparr>\<rparr> \<and> list_all P news"
    using all by simp
qed

lemma quiet_on_host [quiet_intros]:
  assumes "starts_only P m"
  shows "only_starts P (on_host m)"
  unfolding only_starts_def
proof
  fix s :: hosts_state
  obtain l where "fst (m (hs_tun s)) = (hs_tun s)\<lparr>ts_log := ts_log (hs_tun s) @ l\<rparr>" "list_all P l"
    using assms by (rule starts_onlyE)
  then show "\<exists>l. fst (on_host m s) = s\<lparr>hs_tun := (hs_tun s)\<lparr>ts_log := ts_log (hs_tun s) @ l\<rparr>\<rparr> \<and> list_all P l"
    by (auto simp: on_host_def split_beta)
qed

lemma quiet_cases [quiet_intros]:
  "(b \<Longrightarrow> only_starts P m) \<Longrightarrow> (\<not> b \<Longrightarrow> only_starts P n) \<Longrightarrow> only_starts P (if b then m else n)"
  "only_starts P k \<Longrightarrow> (\<And>x. v = Some x \<Longrightarrow> only_starts P (g x)) \<Longrightarrow> only_starts P (case v of None \<Rightarrow> k | Some x \<Rightarrow> g x)"
  "(\<And>a b. w = (a, b) \<Longrightarrow> only_starts P (j a b)) \<Longrightarrow> only_starts P (case w of (a, b) \<Rightarrow> j a b)"
  by (auto split: option.split prod.split)

lemma quiet_map [quiet_intros]: "only_starts P m \<Longrightarrow> only_starts P (hs_map f m)"
  unfolding hs_map_def by (intro quiet_intros)

section \<open>Where git runs\<close>

definition safe_path :: "string \<Rightarrow> bool" where
  "safe_path p \<longleftrightarrow> p \<noteq> [] \<and> \<not> starts_with ''/'' p \<and> ''..'' \<notin> set (split_on (CHR ''/'') p)"

text \<open>The paths of a command: the words after its \<open>--\<close>.\<close>

definition paths_after :: "string list \<Rightarrow> string list" where
  "paths_after args = tl (dropWhile (\<lambda>a. a \<noteq> ''--'') args)"

definition READ_COMMANDS :: "string list" where
  "READ_COMMANDS = [''status'', ''rev-parse'', ''diff'', ''for-each-ref'', ''log'', ''rev-list'', ''merge-base'', ''show'']"

text \<open>A question: a command that reads, whose paths lie in the worktree.\<close>

definition git_read :: "string list \<Rightarrow> bool" where
  "git_read args \<longleftrightarrow>
     args = [''remote'', ''get-url'', ''origin''] \<or> hd args = ''check-ignore'' \<or>
     hd args \<in> set READ_COMMANDS \<and> list_all (\<lambda>p. safe_path p \<or> p = ''/dev/null'') (paths_after args)"

text \<open>The commands of a request that write.\<close>

fun git_write :: "git_request \<Rightarrow> string list \<Rightarrow> bool" where
  "git_write (Git_Rebase base) args \<longleftrightarrow> trim base \<noteq> [] \<and> args = [''rebase'', trim base]"
| "git_write Git_AbortMerge args \<longleftrightarrow> args = [''merge'', ''--abort'']"
| "git_write Git_AbortRebase args \<longleftrightarrow> args = [''rebase'', ''--abort'']"
| "git_write (Git_Discard paths) args \<longleftrightarrow>
     paths \<noteq> [] \<and> list_all safe_path paths \<and> args = [''restore'', ''--source=HEAD'', ''--staged'', ''--worktree'', ''--''] @ paths"
| "git_write Git_Fetch args \<longleftrightarrow> args = [''fetch'', ''--all'', ''--prune'']"
| "git_write Git_Pull args \<longleftrightarrow> args = [''pull'', ''--ff-only'']"
| "git_write Git_Push args \<longleftrightarrow> args = [''push'', ''--set-upstream'', ''origin'', ''HEAD'']"
| "git_write (Git_Stage paths unstage) args \<longleftrightarrow>
     paths \<noteq> [] \<and> list_all safe_path paths \<and>
     args = (if unstage then [''restore'', ''--staged'', ''--''] else [''add'', ''--'']) @ paths"
| "git_write (Git_Commit message paths) args \<longleftrightarrow>
     trim message \<noteq> [] \<and> paths \<noteq> [] \<and> list_all safe_path paths \<and>
     (args = [''add'', ''--''] @ paths \<or> args = BOT_IDENTITY @ [''commit'', ''-m'', message, ''--''] @ paths)"
| "git_write (Git_CommitStaged message) args \<longleftrightarrow> trim message \<noteq> [] \<and> args = BOT_IDENTITY @ [''commit'', ''-m'', message]"
| "git_write Git_FastForward args \<longleftrightarrow> args = [''merge'', ''--ff-only'', ''@'' @ ''{upstream}'']"
| "git_write _ args \<longleftrightarrow> False"

text \<open>On an SSH host a file is looked at by a script of its own.\<close>

definition file_script :: "runtime \<Rightarrow> string \<Rightarrow> string \<Rightarrow> bool" where
  "file_script rt cwd scr \<longleftrightarrow>
     (\<exists>p w. q rt p = Inr w \<and> sh_c rt (''test -e '' @ w) = Inr scr) \<or>
     (\<exists>p w. safe_path p \<and> q rt (worktree_file cwd p) = Inr w \<and> sh_c rt (''cat '' @ w) = Inr scr)"

definition git_process :: "runtime \<Rightarrow> host \<Rightarrow> string \<Rightarrow> (string list \<Rightarrow> bool) \<Rightarrow> argv \<Rightarrow> bool" where
  "git_process rt h cwd P c \<longleftrightarrow>
     (if is_local h then \<exists>args. P args \<and> c = [''git'', ''-C'', cwd] @ args
      else runs_script rt h (\<lambda>scr. (\<exists>args. P args \<and> git_script rt cwd args = Inr scr) \<or> file_script rt cwd scr) c)"

lemma local_process_starts: "P c \<Longrightarrow> starts_only P (local_process rt c)"
  by (auto simp: starts_only_def local_process_def intro!: exI [of _ "[c]"])

lemma git_in_dir_starts: "P args \<Longrightarrow> starts_only (git_process rt h cwd P) (git_in_dir rt h cwd args)"
  unfolding git_in_dir_def
  by (auto intro!: starts_rules local_process_starts simp: git_process_def [abs_def])

lemma exists_starts: "starts_only (git_process rt h cwd P) (host_path_exists rt dk h path)"
  unfolding host_path_exists_def
  by (auto intro!: starts_rules simp: git_process_def [abs_def] file_script_def and_then_eq_Inr)

lemma read_starts:
  assumes "safe_path path"
  shows "starts_only (git_process rt h cwd P) (read_file_bytes rt dk h (worktree_file cwd path))"
  unfolding read_file_bytes_def using assms
  by (auto intro!: starts_rules simp: git_process_def [abs_def] file_script_def and_then_eq_Inr)

lemma quiet_output [quiet_intros]:
  "P args \<Longrightarrow> only_starts (git_process (ge_rt ge) h cwd P) (git_output ge h cwd label args)"
  unfolding git_output_def by (intro quiet_intros git_in_dir_starts)

lemma quiet_run [quiet_intros]:
  assumes "P args"
  shows "only_starts (git_process (ge_rt ge) h cwd P) (run_git ge h cwd args)"
    "only_starts (git_process (ge_rt ge) h cwd P) (run_git_bytes ge h cwd args)"
    "only_starts (git_process (ge_rt ge) h cwd P) (git_word ge h cwd args)"
    "only_starts (git_process (ge_rt ge) h cwd P) (git_run_only ge h cwd args)"
    "only_starts (git_process (ge_rt ge) h cwd P) (git_checked ge h cwd label name args)"
  unfolding run_git_def run_git_bytes_def git_word_def git_run_only_def git_checked_def
  by (intro quiet_intros assms)+

section \<open>What each request runs\<close>

lemma safe_ok: "ensure_safe_relative p = Inr u \<Longrightarrow> safe_path p"
  by (auto simp: ensure_safe_relative_def safe_path_def split: if_splits)

lemma all_safe_ok: "ensure_all_safe ps = Inr u \<Longrightarrow> list_all safe_path ps"
  by (induction ps) (auto simp: and_then_eq_Inr safe_ok)

text \<open>Questions without paths, and the words of a range, which is never \<open>--\<close>.\<close>

definition plain_read :: "string list \<Rightarrow> bool" where
  "plain_read args \<longleftrightarrow> args \<noteq> [] \<and> hd args \<in> set READ_COMMANDS \<and> ''--'' \<notin> set (butlast args)"

lemma paths_after_none: "''--'' \<notin> set (butlast args) \<Longrightarrow> paths_after args = []"
  by (induction args) (auto simp: paths_after_def split: if_splits)

lemma plain_read_ok: "plain_read args \<Longrightarrow> git_read args"
  by (simp add: plain_read_def git_read_def paths_after_none)

definition git_allowed :: "git_request \<Rightarrow> string list \<Rightarrow> bool" where
  "git_allowed req args \<longleftrightarrow> git_read args \<or> git_write req args"

abbreviation allowed_process :: "git_env \<Rightarrow> host \<Rightarrow> string \<Rightarrow> git_request \<Rightarrow> argv \<Rightarrow> bool" where
  "allowed_process ge h cwd req \<equiv> git_process (ge_rt ge) h cwd (git_allowed req)"

lemma allowed_read [quiet_intros]: "plain_read args \<Longrightarrow> git_allowed req args"
  by (simp add: git_allowed_def plain_read_ok)

lemma plain_reads [quiet_intros]:
  "plain_read STATUS_ARGS" "plain_read HEAD_NAME_ARGS" "plain_read HEAD_OID_ARGS" "plain_read COUNT_ARGS"
  "plain_read [''diff'', ''--name-status'', ''-M'', ''-z'', range1]" "plain_read [''diff'', ''--numstat'', ''-z'', range1]"
  "plain_read [''rev-parse'', ''--verify'', w]" "plain_read [''rev-parse'', w]" "plain_read [''rev-list'', ''--count'', w]"
  "plain_read [''rev-parse'', ''-q'', ''--verify'', w]" "plain_read [''rev-parse'', ''--git-path'', w]"
  "plain_read [''rev-parse'', ''--abbrev-ref'', ''--symbolic-full-name'', w]"
  "plain_read [''for-each-ref'', ''--format=%(refname:short)'', ''refs/heads'']" "plain_read [''show'', w]"
  by (simp_all add: plain_read_def READ_COMMANDS_def STATUS_ARGS_def HEAD_NAME_ARGS_def HEAD_OID_ARGS_def COUNT_ARGS_def)

lemma allowed_more [quiet_intros]:
  "git_allowed req [''remote'', ''get-url'', ''origin'']" "git_allowed req ([''check-ignore'', ''--''] @ paths)"
  "git_allowed req [''log'', ''-'' @ string_of_nat n, ''--format=%H%x1f%s%x1f%an%x1f%aI'']"
  "git_allowed req [''log'', ''--max-count='' @ digits, HISTORY_FORMAT]"
  "git_allowed req [''merge-base'', base, ''HEAD'']"
proof -
  have "string_of_nat n \<noteq> ''-''" by (rule string_of_nat_not_minus)
  then show "git_allowed req [''log'', ''-'' @ string_of_nat n, ''--format=%H%x1f%s%x1f%an%x1f%aI'']"
    by (intro allowed_read) (simp add: plain_read_def READ_COMMANDS_def)
qed (simp_all add: git_allowed_def git_read_def READ_COMMANDS_def paths_after_def safe_path_def starts_with_def)

lemma allowed_diff:
  assumes "safe_path path"
  shows "git_allowed req ([''diff'', ''--no-color''] @ (if staged then [''--cached''] else []) @ [''--'', path])"
    "git_allowed req [''diff'', ''--no-color'', ''--no-index'', ''--'', ''/dev/null'', path]"
  using assms by (simp_all add: git_allowed_def git_read_def READ_COMMANDS_def paths_after_def)

lemma quiet_views [quiet_intros]:
  "only_starts (allowed_process ge h cwd req) (status_entries ge h cwd)"
  "only_starts (allowed_process ge h cwd req) (git_status_route ge h cwd)"
  "only_starts (allowed_process ge h cwd req) (changed_paths ge h cwd rng)"
  "only_starts (allowed_process ge h cwd req) (head_sha ge h cwd)"
  "only_starts (allowed_process ge h cwd req) (git_shown ge h cwd w)"
  "only_starts (allowed_process ge h cwd req) (quietly_exists ge h path)"
  unfolding status_entries_def git_status_route_def changed_paths_def head_sha_def git_shown_def quietly_exists_def
  by (intro quiet_intros exists_starts)+

lemma quiet_compare [quiet_intros]:
  "only_starts (allowed_process ge h cwd req) (commit_compare ge h cwd w)"
  "only_starts (allowed_process ge h cwd req) (branch_compare ge h cwd w)"
  unfolding commit_compare_def branch_compare_def Let_def
  by (intro quiet_intros)+

lemma quiet_conflict [quiet_intros]: "only_starts (allowed_process ge h cwd req) (git_conflict ge h cwd)"
  unfolding git_conflict_def git_state_dir_exists_def git_ref_exists_def by (intro quiet_intros)

lemma quiet_lists [quiet_intros]:
  "only_starts (allowed_process ge h cwd req) (git_upstream ge h cwd)"
  "only_starts (allowed_process ge h cwd req) (git_branches ge h cwd)"
  "only_starts (allowed_process ge h cwd req) (git_log ge h cwd limit)"
  "only_starts (allowed_process ge h cwd req) (git_check_ignore ge h cwd paths)"
  "only_starts (allowed_process ge h cwd req) (git_remote_file_url ge h cwd path line)"
  "only_starts (allowed_process ge h cwd req) (git_history_page ge h cwd limit)"
  unfolding git_upstream_def git_branches_def git_log_def git_check_ignore_def git_remote_file_url_def git_history_page_def Let_def
  by (intro quiet_intros)+

lemma quiet_files [quiet_intros]:
  "only_starts (allowed_process ge h cwd req) (git_diff ge h cwd path staged)"
  "only_starts (allowed_process ge h cwd req) (git_file ge h cwd path revision)"
  "only_starts (allowed_process ge h cwd req) (git_blob ge h cwd path commit)"
  unfolding git_diff_def git_file_def git_blob_def git_file_bytes_def Let_def
  by (intro quiet_lifted quiet_intros allowed_diff read_starts; (erule safe_ok))+

text \<open>The requests that write.\<close>

lemma write_ok: "git_write req args \<Longrightarrow> git_allowed req args"
  by (simp add: git_allowed_def)

lemma quiet_writes [quiet_intros]:
  "only_starts (allowed_process ge h cwd (Git_Rebase base)) (git_rebase ge h cwd base)"
  "only_starts (allowed_process ge h cwd Git_AbortMerge) (git_abort_merge ge h cwd)"
  "only_starts (allowed_process ge h cwd Git_AbortRebase) (git_abort_rebase ge h cwd)"
  "only_starts (allowed_process ge h cwd (Git_Discard paths)) (git_discard ge h cwd paths)"
  "only_starts (allowed_process ge h cwd Git_Fetch) (git_fetch ge h cwd)"
  "only_starts (allowed_process ge h cwd Git_Pull) (git_pull ge h cwd)"
  "only_starts (allowed_process ge h cwd Git_Push) (git_push ge h cwd)"
  "only_starts (allowed_process ge h cwd (Git_Stage paths unstage)) (git_stage ge h cwd paths unstage)"
  "only_starts (allowed_process ge h cwd (Git_Commit message paths)) (git_commit ge h cwd message paths)"
  "only_starts (allowed_process ge h cwd (Git_CommitStaged message)) (git_commit_staged ge h cwd message)"
  "only_starts (allowed_process ge h cwd Git_FastForward) (git_fast_forward ge h cwd)"
  unfolding git_rebase_def git_abort_merge_def git_abort_rebase_def git_discard_def git_fetch_def git_pull_def git_push_def
    git_stage_def git_commit_def git_commit_staged_def git_fast_forward_def
  by (intro quiet_lifted quiet_intros write_ok; simp add: all_safe_ok)+

lemma action_quiet: "only_starts (allowed_process ge h cwd req) (git_action ge h cwd req)"
  by (cases req) (simp_all, (intro quiet_intros)+)

text \<open>A process that a request may start, in terms of the store the request finds.\<close>

definition host_of_session :: "session \<Rightarrow> uuid" where
  "host_of_session x = (case s_host_id x of Some k \<Rightarrow> k | None \<Rightarrow> LOCAL_HOST_ID)"

definition request_process :: "git_env \<Rightarrow> db \<Rightarrow> string \<Rightarrow> git_request \<Rightarrow> argv \<Rightarrow> bool" where
  "request_process ge d t req c \<longleftrightarrow>
     (\<exists>i x h. cx_parse_uuid (he_cx (ge_hosts ge)) t = Some i \<and>
        get_session_by_id (he_cx (ge_hosts ge)) d i = Inr (Some x) \<and>
        get_host (he_cx (ge_hosts ge)) d (host_of_session x) = Inr (Some h) \<and>
        allowed_process ge h (effective_cwd x) req c)"

lemma ok_or_Inr: "ok_or e v = Inr x \<longleftrightarrow> v = Some x"
  by (auto simp: ok_or_def split: option.splits)

lemma found_run:
  "host_and_cwd_for ge i s = (s, r) \<Longrightarrow> r = Inr (h, cwd) \<Longrightarrow>
   \<exists>x. get_session_by_id (he_cx (ge_hosts ge)) (hs_db s) i = Inr (Some x) \<and>
       get_host (he_cx (ge_hosts ge)) (hs_db s) (host_of_session x) = Inr (Some h) \<and> cwd = effective_cwd x"
  by (auto simp: host_and_cwd_for_def session_or_404_def host_of_session_def hs_bind_def hs_get_def hs_lift_def hs_ret_def Let_def
      lift_api_Inr ok_or_Inr and_then_eq_Inr split: sum.splits prod.splits)

lemma found_keeps: "fst (host_and_cwd_for ge i s) = s"
  by (auto simp: host_and_cwd_for_def session_or_404_def hs_bind_def hs_get_def hs_lift_def hs_ret_def Let_def
      split: sum.split prod.split)


section \<open>Two views of one status\<close>

lemma loops_agree:
  "porcelain_loop rs out =
     \<lparr>gs_staged = gs_staged out @ map se_path (filter (\<lambda>e. se_area e = ''staged'') (status_loop rs)),
      gs_unstaged = gs_unstaged out @ map se_path (filter (\<lambda>e. se_area e = ''unstaged'') (status_loop rs)),
      gs_untracked = gs_untracked out @ map se_path (filter (\<lambda>e. se_area e = ''untracked'') (status_loop rs))\<rparr>"
proof (induction rs arbitrary: out rule: status_loop.induct)
  case (2 r rest)
  have step: "map se_path (filter (\<lambda>e. se_area e = area) (entries_of x y path old)) =
      (if area = ''untracked'' then (if x = CHR ''?'' \<and> y = CHR ''?'' then [path] else [])
       else if area = ''staged'' then (if marked x then [path] else [])
       else if area = ''unstaged'' then (if marked y then [path] else []) else [])" for x y path old area
    by (auto simp: entries_of_def marked_def)
  show ?case
    using 2 by (simp add: step Let_def porcelain_record_def) (auto simp: marked_def)
qed simp

text \<open>
  The two parsers of a status agree on every output, well formed or not: the paths that \<open>/status\<close> lists as
  staged, unstaged and untracked are those that \<open>/status-entries\<close> gives for the same area, in the same order.
\<close>

theorem two_status_views_agree:
  "parse_porcelain_z bs =
     \<lparr>gs_staged = map se_path (filter (\<lambda>e. se_area e = ''staged'') (parse_status_entries bs)),
      gs_unstaged = map se_path (filter (\<lambda>e. se_area e = ''unstaged'') (parse_status_entries bs)),
      gs_untracked = map se_path (filter (\<lambda>e. se_area e = ''untracked'') (parse_status_entries bs))\<rparr>"
  by (simp add: parse_porcelain_z_def parse_status_entries_def loops_agree)

section \<open>Counts of renamed files\<close>

lemma counts_of_nothing: "list_all (\<lambda>e. bc_path e \<noteq> []) es \<Longrightarrow> set_counts [] a b es = es"
  by (induction es) auto

text \<open>
  \<open>git diff --numstat -z\<close> prints a rename as its counts with an empty path, and then the two paths as records of
  their own. Merging such an entry changes nothing: a renamed file never gets its counts.
\<close>

lemma renamed_counts_are_lost:
  assumes "list_all (\<lambda>w. CHR 0x00 \<notin> set w \<and> CHR 0x09 \<notin> set w \<and> w \<noteq> []) [added, removed, old, new]"
    and "list_all (\<lambda>e. bc_path e \<noteq> []) entries"
  shows "merge_numstat (added @ tab @ removed @ tab @ [CHR 0x00] @ old @ [CHR 0x00] @ new @ [CHR 0x00]) entries = entries"
proof -
  let ?counts = "added @ tab @ removed @ tab"
  have absent: "CHR 0x00 \<notin> set ?counts" "CHR 0x00 \<notin> set old" "CHR 0x00 \<notin> set new" using assms(1) by (auto simp: tab_def)
  have "nul_records (?counts @ CHR 0x00 # old @ CHR 0x00 # new @ CHR 0x00 # []) = [?counts, old, new]"
    unfolding nul_records_def split_on_append split_on_absent [OF absent(1)] split_on_absent [OF absent(2)] split_on_absent [OF absent(3)]
    using assms(1) by (simp add: tab_def)
  moreover have none: "split_once (CHR 0x09) w = None" if "CHR 0x09 \<notin> set w" for w
    using that by (induction w) auto
  have "merge_numstat_record ?counts entries = entries"
    using assms split_once_absent [of "CHR 0x09"] by (simp add: merge_numstat_record_def numstat_cols_def tab_def counts_of_nothing)
  ultimately show ?thesis
    using assms(1) by (simp add: merge_numstat_def merge_numstat_record_def numstat_cols_def none)
qed

section \<open>The history that git prints\<close>

definition oid :: "string \<Rightarrow> bool" where
  "oid w \<longleftrightarrow> w \<noteq> [] \<and> list_all is_ascii_alphanumeric w"

definition unseparated :: "string \<Rightarrow> bool" where
  "unseparated w \<longleftrightarrow> CHR 0x1E \<notin> set w \<and> CHR 0x1F \<notin> set w"

text \<open>A commit as git knows it: its text may hold anything but the two separators, line breaks included.\<close>

definition commit_known :: "history_item \<Rightarrow> bool" where
  "commit_known it \<longleftrightarrow>
     oid (hi_id it) \<and> list_all oid (hi_parent_ids it) \<and> list_all unseparated [hi_subject it, hi_message it, hi_author it, hi_author_email it] \<and>
     hi_display_id it = take_chars 8 (hi_id it) \<and> (case hi_timestamp it of Some t \<Rightarrow> 0 \<le> t \<and> t < 2 ^ 63 | None \<Rightarrow> False)"

definition history_fields :: "history_item \<Rightarrow> string list" where
  "history_fields it =
     [hi_id it, join_with '' '' (hi_parent_ids it), hi_subject it, hi_message it, hi_author it, hi_author_email it,
      case hi_timestamp it of Some t \<Rightarrow> string_of_int t | None \<Rightarrow> []]"

definition history_text :: "history_item \<Rightarrow> string" where
  "history_text it = join_with [CHR 0x1F] (history_fields it)"

text \<open>What git prints in the format of the route: a separator after every commit, a line break between two.\<close>

definition history_output :: "history_item list \<Rightarrow> string" where
  "history_output items = join_with nl (map (\<lambda>it. history_text it @ [CHR 0x1E]) items)"

lemma split_on_join: "ws \<noteq> [] \<Longrightarrow> list_all (\<lambda>w. d \<notin> set w) ws \<Longrightarrow> split_on d (join_with [d] ws) = ws"
  by (induction "[d]" ws rule: join_with.induct) (simp_all add: split_on_absent split_on_append)

lemma join_absent: "list_all (\<lambda>w. c \<notin> set w) ws \<Longrightarrow> c \<notin> set sep \<Longrightarrow> c \<notin> set (join_with sep ws)"
  by (induction sep ws rule: join_with.induct) auto

lemma alphanumeric_no_space:
  assumes "is_ascii_alphanumeric c"
  shows "strip_one_of ws_encodings (c # s) = None"
proof -
  have "list_all (\<lambda>w. w \<noteq> [] \<and> \<not> is_ascii_alphanumeric (hd w)) ws_encodings" by code_simp
  then have "list_all (\<lambda>w. w \<noteq> [] \<and> hd w \<noteq> c) ws_encodings" using assms by (auto simp: list_all_iff)
  then show ?thesis by (rule strip_one_of_head)
qed

lemma until_space_word:
  "list_all is_ascii_alphanumeric w \<Longrightarrow> until_space (w @ CHR '' '' # s) = w" "list_all is_ascii_alphanumeric w \<Longrightarrow> until_space w = w"
  by (induction w) (simp_all add: alphanumeric_no_space strip_blank)

lemma trim_start_word: "oid w \<Longrightarrow> trim_start (w @ s) = w @ s"
  unfolding trim_start_def by (cases w) (auto simp: oid_def strip_all_of.simps [of _ "_ # _"] alphanumeric_no_space)

lemma split_words: "list_all oid ws \<Longrightarrow> split_whitespace (join_with '' '' ws) = ws"
proof (induction "'' ''" ws rule: join_with.induct)
  case 1
  then show ?case by (subst split_whitespace.simps) (simp add: trim_start_def strip_all_of.simps [of _ "[]"] ws_encodings_def)
next
  case (2 r)
  have "trim_start r = r" using trim_start_word [of r "[]"] 2 by simp
  moreover have "split_whitespace [] = []"
    by (subst split_whitespace.simps) (simp add: trim_start_def strip_all_of.simps [of _ "[]"] ws_encodings_def)
  ultimately show ?case using 2 by (subst split_whitespace.simps) (simp add: oid_def until_space_word)
next
  case (3 r w ws)
  let ?rest = "join_with '' '' (w # ws)"
  have blank: "split_whitespace (CHR '' '' # x) = split_whitespace x" for x
    by (subst (1 2) split_whitespace.simps) (simp add: trim_start_blank)
  have "trim_start (r @ '' '' @ ?rest) = r @ '' '' @ ?rest" using 3(2) by (intro trim_start_word) simp
  then show ?case
    using 3 by (subst split_whitespace.simps) (simp add: oid_def until_space_word blank)
qed

lemma oid_unseparated: "oid w \<Longrightarrow> unseparated w"
  by (auto simp: oid_def unseparated_def list_all_iff is_ascii_alphanumeric_def is_ascii_digit_def is_ascii_upper_def is_ascii_lower_def)

lemma joined_unseparated: "list_all unseparated ws \<Longrightarrow> unseparated (join_with '' '' ws)"
  by (simp add: unseparated_def list_all_iff join_absent)

lemma digits_unseparated: "unseparated (string_of_nat n)"
  using string_of_nat_digits [of n] by (auto simp: unseparated_def list_all_iff is_ascii_digit_def)

lemma parse_i64_nat:
  assumes "n < 2 ^ 63"
  shows "parse_i64 (string_of_nat n) = Some (int n)"
proof -
  obtain c cs where ds: "string_of_nat n = c # cs" using string_of_nat_nonempty [of n] by (cases "string_of_nat n") auto
  have "list_all is_ascii_digit (c # cs)" using string_of_nat_digits [of n] by (simp only: ds)
  moreover have "digits_value (c # cs) = n" using digits_value_string_of_nat [of n] by (simp only: ds)
  moreover have "int n < 2 ^ 63" using assms by simp
  ultimately show ?thesis by (auto simp: parse_i64_def Let_def ds is_ascii_digit_def)
qed

lemma fields_unseparated:
  assumes "commit_known it"
  shows "list_all unseparated (history_fields it)"
proof -
  have "list_all unseparated (hi_parent_ids it)"
    using assms by (auto simp: commit_known_def list_all_iff oid_unseparated)
  then show ?thesis
    using assms by (auto simp: commit_known_def history_fields_def oid_unseparated joined_unseparated string_of_int_def digits_unseparated
        split: option.splits)
qed

lemma text_ends:
  assumes "commit_known it"
  shows "\<exists>c s. is_ascii_alphanumeric c \<and> history_text it = c # s" "\<exists>s d. is_ascii_digit d \<and> history_text it = s @ [d]"
proof -
  obtain t where t: "hi_timestamp it = Some t" "0 \<le> t" using assms by (auto simp: commit_known_def split: option.splits)
  then have time: "string_of_int t = string_of_nat (nat t)" by (simp add: string_of_int_def)
  obtain ds d where ds: "string_of_nat (nat t) = ds @ [d]" using string_of_nat_nonempty by (metis append_butlast_last_id)
  then have "is_ascii_digit d" using string_of_nat_digits [of "nat t"] by simp
  then show "\<exists>s d. is_ascii_digit d \<and> history_text it = s @ [d]"
    by (auto simp: history_text_def history_fields_def t time ds)
  show "\<exists>c s. is_ascii_alphanumeric c \<and> history_text it = c # s"
    using assms by (cases "hi_id it") (auto simp: commit_known_def oid_def history_text_def history_fields_def)
qed

lemma trim_newlines_text:
  assumes "commit_known it" "set pre \<subseteq> {CHR 0x0A}"
  shows "trim_newlines (pre @ history_text it) = history_text it"
proof -
  let ?p = "\<lambda>c. c = CHR 0x0A \<or> c = CHR 0x0D"
  obtain c s where c: "is_ascii_alphanumeric c" "history_text it = c # s" using text_ends(1) [OF assms(1)] by blast
  obtain s' d where d: "is_ascii_digit d" "history_text it = s' @ [d]" using text_ends(2) [OF assms(1)] by blast
  have "\<not> ?p c" using c(1) by (auto simp: is_ascii_alphanumeric_def is_ascii_digit_def is_ascii_upper_def is_ascii_lower_def)
  then have "dropWhile ?p (pre @ history_text it) = history_text it"
    using assms(2) c(2) by (induction pre) auto
  moreover have "\<not> ?p d" using d(1) by (auto simp: is_ascii_digit_def)
  then have "dropWhile ?p (rev (history_text it)) = rev (history_text it)" by (simp add: d(2))
  ultimately show ?thesis by (simp add: trim_newlines_def)
qed

lemma record_read:
  assumes "commit_known it" "set pre \<subseteq> {CHR 0x0A}"
  shows "history_record (pre @ history_text it) = Some it"
proof -
  have "split_on (CHR 0x1F) (history_text it) = history_fields it"
    unfolding history_text_def using fields_unseparated [OF assms(1)]
    by (intro split_on_join) (auto simp: history_fields_def unseparated_def list_all_iff)
  moreover have "history_text it \<noteq> []" using text_ends(1) [OF assms(1)] by auto
  moreover obtain t where t: "hi_timestamp it = Some t" "0 \<le> t" "t < 2 ^ 63"
    using assms(1) by (auto simp: commit_known_def split: option.splits)
  then have "parse_i64 (trim (string_of_int t)) = Some t"
    using parse_i64_nat [of "nat t"] by (simp add: string_of_int_def trim_digits string_of_nat_digits nat_less_iff)
  ultimately show ?thesis
    using assms(1) t
    by (simp add: history_record_def trim_newlines_text [OF assms] Let_def history_fields_def split_words commit_known_def)
qed

lemma output_read:
  assumes "list_all commit_known items" "set pre \<subseteq> {CHR 0x0A}"
  shows "parse_history_records (pre @ history_output items) = items"
  using assms
proof (induction items arbitrary: pre)
  case Nil
  have "CHR 0x1E \<notin> set pre" using Nil by auto
  moreover have "dropWhile (\<lambda>c. c = CHR 0x0A \<or> c = CHR 0x0D) pre = []" using Nil(2) by (auto simp: dropWhile_eq_Nil_conv)
  then have "trim_newlines pre = []" unfolding trim_newlines_def Let_def by (simp only: list.simps rev.simps dropWhile.simps)
  ultimately show ?case
    by (simp add: history_output_def parse_history_records_def split_on_absent List.map_filter_def history_record_def)
next
  case (Cons it items)
  have it: "CHR 0x1E \<notin> set (pre @ history_text it)"
  proof -
    have "list_all (\<lambda>w. CHR 0x1E \<notin> set w) (history_fields it)"
      using fields_unseparated Cons(2) by (auto simp: unseparated_def list_all_iff)
    then have "CHR 0x1E \<notin> set (history_text it)"
      unfolding history_text_def by (intro join_absent) simp_all
    then show ?thesis using Cons(3) by auto
  qed
  obtain sep where sep: "history_output (it # items) = history_text it @ CHR 0x1E # sep @ history_output items" "set sep \<subseteq> {CHR 0x0A}"
    by (cases items) (auto simp: history_output_def nl_def)
  have "split_on (CHR 0x1E) (pre @ history_output (it # items)) =
      (pre @ history_text it) # split_on (CHR 0x1E) (sep @ history_output items)"
    using split_on_append [of "CHR 0x1E" "pre @ history_text it"] split_on_absent [OF it] by (simp add: sep(1))
  then show ?case
    using Cons.IH [OF _ sep(2)] record_read [OF _ Cons(3)] Cons(2)
    by (simp add: parse_history_records_def List.map_filter_simps)
qed



end
